(* ===== verification/Prelude.thy ===== *)
theory Prelude
  imports Main "HOL-Library.Word" "HOL-Library.AList"
begin

text \<open>
  The vocabulary every component shares: Python exceptions as values, the
  error-propagating sequencing of statements, octet strings, the big-endian integer
  formats of the \<^verbatim>\<open>struct\<close> module, bit tests on Python integers, and the interface of a
  self-delimiting codec with the loop that decodes until the buffer is empty.
\<close>

unbundle bit_operations_syntax

named_theorems codec_simps "facts that evaluate encoders and decoders"

section \<open>Exceptions and sequencing\<close>

text \<open>
  The exceptions of \<^verbatim>\<open>bacpypes3/errors.py\<close> and of Python that the modelled code raises.
  The message texts are not kept; a \<^verbatim>\<open>CommuncationError\<close> carries its error code, the other
  \<^verbatim>\<open>ExecutionError\<close>s their class and code, and a \<^verbatim>\<open>WritePropertyMultipleError\<close> also the
  object, the property and the array index that could not be written.
  \<open>NoReturn\<close> is no exception: it is the result of a loop that does not end.
\<close>

datatype py_error =
    DecodingError | InvalidTag | ValueError | TypeError | StructError | RuntimeError
  | AssertionError | IndexError | KeyError | AttributeError | NameError
  | ConfigurationError | ZeroDivisionError | InvalidStateError | CommunicationError string
  | MissingRequiredParameter | UnrecognizedService | ExecutionError string string
  | WriteMultipleFailed string string "int \<times> int" "int option" "int option" | NoReturn

type_synonym 'a result = "py_error + 'a"
type_synonym byte = "8 word"
type_synonym 'a reader = "byte list \<Rightarrow> (py_error + ('a \<times> byte list))"

text \<open>\<open>bindR m f\<close> runs \<open>f\<close> on the value of \<open>m\<close>, an exception of \<open>m\<close> ends the block.\<close>

definition bindR :: "'e + 'a \<Rightarrow> ('a \<Rightarrow> 'e + 'b) \<Rightarrow> 'e + 'b" where
  "bindR m f = (case m of Inl e \<Rightarrow> Inl e | Inr x \<Rightarrow> f x)"

lemma bindR_simps [simp]:
  "bindR (Inl e) f = Inl e"
  "bindR (Inr x) f = f x"
  by (simp_all add: bindR_def)

lemma bindR_cong [fundef_cong]:
  "m = m' \<Longrightarrow> (\<And>x. m' = Inr x \<Longrightarrow> f x = f' x) \<Longrightarrow> bindR m f = bindR m' f'"
  by (cases m') (auto simp: bindR_def)

lemma bindR_assoc: "bindR (bindR m f) g = bindR m (\<lambda>x. bindR (f x) g)"
  by (cases m) simp_all

lemma bindR_eq_Inr_iff: "bindR m f = Inr y \<longleftrightarrow> (\<exists>x. m = Inr x \<and> f x = Inr y)"
  by (cases m) auto

lemma bindR_eq_Inl_iff: "bindR m f = Inl e \<longleftrightarrow> m = Inl e \<or> (\<exists>x. m = Inr x \<and> f x = Inl e)"
  by (cases m) auto

lemma bindR_InrE:
  assumes "bindR m f = Inr y"
  obtains x where "m = Inr x" "f x = Inr y"
  using assms by (auto simp: bindR_eq_Inr_iff)

lemma if_Inl_eq_Inr_iff [simp]:
  "(if b then Inl e else m) = Inr y \<longleftrightarrow> \<not> b \<and> m = Inr y"
  "(if b then m else Inl e) = Inr y \<longleftrightarrow> b \<and> m = Inr y"
  by auto

text \<open>An attribute that is unset or \<^verbatim>\<open>None\<close> where the code needs its value.\<close>

definition need :: "py_error \<Rightarrow> 'a option \<Rightarrow> 'a result" where
  "need e x = (case x of None \<Rightarrow> Inl e | Some v \<Rightarrow> Inr v)"

lemma need_simps [simp]: "need e None = Inl e" "need e (Some v) = Inr v"
  by (simp_all add: need_def)

lemma need_eq_Inr_iff [simp]: "need e x = Inr v \<longleftrightarrow> x = Some v"
  by (cases x) auto

section \<open>Bits of Python integers\<close>

lemma int_and_low:
  fixes x :: int
  shows "x AND 1 = x mod 2" "x AND 3 = x mod 4" "x AND 7 = x mod 8" "x AND 15 = x mod 16"
    "x AND 65535 = x mod 65536" "x AND 4194303 = x mod 4194304"
    "x AND 4294967295 = x mod 4294967296"
  using take_bit_eq_mask [of 1 x] take_bit_eq_mask [of 2 x] take_bit_eq_mask [of 3 x]
    take_bit_eq_mask [of 4 x] take_bit_eq_mask [of 16 x] take_bit_eq_mask [of 22 x]
    take_bit_eq_mask [of 32 x]
  by (simp_all add: take_bit_eq_mod mask_eq_exp_minus_1)

lemma int_and_flag:
  fixes x :: int
  shows "x AND 2 = 0 \<longleftrightarrow> even (x div 2)" "x AND 4 = 0 \<longleftrightarrow> even (x div 4)"
    "x AND 8 = 0 \<longleftrightarrow> even (x div 8)" "x AND 32 = 0 \<longleftrightarrow> even (x div 32)"
    "x AND 128 = 0 \<longleftrightarrow> even (x div 128)"
  using and_exp_eq_0_iff_not_bit [of x 1] and_exp_eq_0_iff_not_bit [of x 2]
    and_exp_eq_0_iff_not_bit [of x 3] and_exp_eq_0_iff_not_bit [of x 5]
    and_exp_eq_0_iff_not_bit [of x 7]
  by (simp_all add: bit_iff_odd)

lemma int_shift:
  fixes x :: int
  shows "push_bit n x = x * 2 ^ n" "drop_bit n x = x div 2 ^ n"
  by (simp_all add: push_bit_eq_mult drop_bit_eq_div)

lemmas int_bits = int_and_low int_and_flag int_shift

section \<open>Octets and big-endian integers\<close>

lemma uint_byte [simp]: "uint (word_of_int n :: byte) = n mod 256"
  by (simp add: uint_word_of_int)

lemma uint_byte_nat [simp]: "uint (word_of_nat n :: byte) = int n mod 256"
  by (simp add: unsigned_of_nat take_bit_eq_mod zmod_int)

lemma byte_bounds: "0 \<le> uint (b :: byte)" "uint (b :: byte) < 256"
  using uint_bounded [of b] by simp_all

lemma word_of_uint [simp]: "(word_of_int (uint (b :: byte)) :: byte) = b"
  by simp

text \<open>\<open>be_bytes k n\<close> is the \<open>k\<close>-octet big-endian form of \<open>n\<close>; \<open>be_int\<close> reads one.\<close>

primrec be_bytes :: "nat \<Rightarrow> int \<Rightarrow> byte list" where
  "be_bytes 0 n = []"
| "be_bytes (Suc k) n = be_bytes k (n div 256) @ [word_of_int n]"

definition be_int :: "byte list \<Rightarrow> int" where
  "be_int bs = foldl (\<lambda>v b. v * 256 + uint b) 0 bs"

lemma be_int_simps [simp]: "be_int [] = 0" "be_int (bs @ [b]) = be_int bs * 256 + uint b"
  by (simp_all add: be_int_def)

lemma length_be_bytes [simp]: "length (be_bytes k n) = k"
  by (induction k arbitrary: n) auto

lemma be_bytes_eq_Nil_iff [simp]: "be_bytes k n = [] \<longleftrightarrow> k = 0"
  by (cases k) auto

lemma be_int_be_bytes: "be_int (be_bytes k n) = n mod 256 ^ k"
proof (induction k arbitrary: n)
  case (Suc k)
  have "(n div 256) mod 256 ^ k * 256 + n mod 256 = n mod (256 * 256 ^ k)"
    using zmod_zmult2_eq [of "256 ^ k" n 256] by simp
  with Suc show ?case by simp
qed simp

lemma be_int_bounds: "0 \<le> be_int bs \<and> be_int bs < 256 ^ length bs"
proof (induction bs rule: rev_induct)
  case (snoc b bs)
  have "be_int bs + 1 \<le> 256 ^ length bs" using snoc by simp
  then have "(be_int bs + 1) * 256 \<le> 256 ^ length bs * 256" by simp
  then show ?case using snoc byte_bounds [of b] by simp
qed simp

lemma be_int_nonneg [simp]: "0 \<le> be_int bs"
  using be_int_bounds by blast

lemma be_bytes_be_int: "be_bytes (length bs) (be_int bs) = bs"
proof (induction bs rule: rev_induct)
  case (snoc b bs)
  have "(be_int bs * 256 + uint b) div 256 = be_int bs"
    using byte_bounds [of b] by simp
  moreover have "(word_of_int (be_int bs * 256 + uint b) :: byte) = word_of_int (uint b)"
    unfolding word_of_int_eq_iff by (simp add: take_bit_eq_mod)
  ultimately show ?case using snoc by simp
qed simp

section \<open>Self-delimiting codecs\<close>

text \<open>
  The interface the protocol layers rely on: an encoder appends octets, a decoder reads
  them back whatever follows them, and consumes at least one octet. The decoding loop
  \<^verbatim>\<open>while pdu.pduData: items.append(decode(pdu))\<close> then inverts encoding the items one
  after the other.
\<close>

locale item_codec =
  fixes enc :: "'a \<Rightarrow> py_error + byte list"
    and dec :: "'a reader"
    and wf :: "'a \<Rightarrow> bool"
  assumes enc_total: "wf x \<Longrightarrow> \<exists>bs. enc x = Inr bs"
    and dec_enc: "wf x \<Longrightarrow> enc x = Inr bs \<Longrightarrow> dec (bs @ rest) = Inr (x, rest)"
    and enc_nonempty: "wf x \<Longrightarrow> enc x = Inr bs \<Longrightarrow> bs \<noteq> []"
begin

lemma enc_prefix_free:
  assumes "wf x" "wf y" "enc x = Inr bs" "enc y = Inr cs" "bs @ r = cs @ r'"
  shows "x = y \<and> r = r'"
  using dec_enc [OF assms(1,3), of r] dec_enc [OF assms(2,4), of r'] assms(5) by simp

lemma enc_inj: "wf x \<Longrightarrow> wf y \<Longrightarrow> enc x = enc y \<Longrightarrow> x = y"
  using enc_total enc_prefix_free by metis

end

locale stream_codec = item_codec +
  fixes enc_all :: "'a list \<Rightarrow> py_error + byte list"
    and dec_all :: "byte list \<Rightarrow> py_error + 'a list"
  assumes enc_all_Nil: "enc_all [] = Inr []"
    and enc_all_Cons: "enc_all (x # xs) = bindR (enc x) (\<lambda>bs. bindR (enc_all xs) (\<lambda>cs. Inr (bs @ cs)))"
    and dec_all_Nil: "dec_all [] = Inr []"
    and dec_all_step: "s \<noteq> [] \<Longrightarrow>
      dec_all s = bindR (dec s) (\<lambda>(x, s'). bindR (dec_all s') (\<lambda>xs. Inr (x # xs)))"
begin

lemma stream_roundtrip:
  "\<forall>x\<in>set xs. wf x \<Longrightarrow> \<exists>bs. enc_all xs = Inr bs \<and> dec_all bs = Inr xs"
proof (induction xs)
  case Nil
  then show ?case by (simp add: enc_all_Nil dec_all_Nil)
next
  case (Cons x xs)
  obtain bs where bs: "enc x = Inr bs" using Cons.prems enc_total by auto
  obtain cs where cs: "enc_all xs = Inr cs" "dec_all cs = Inr xs" using Cons by auto
  have "dec (bs @ cs) = Inr (x, cs)" and "bs \<noteq> []"
    using Cons.prems bs by (auto intro: dec_enc dest: enc_nonempty)
  then show ?case
    using bs cs dec_all_step [of "bs @ cs"] by (simp add: enc_all_Cons)
qed

lemma enc_all_inj:
  assumes "\<forall>x\<in>set xs. wf x" "\<forall>y\<in>set ys. wf y" "enc_all xs = enc_all ys"
  shows "xs = ys"
proof -
  obtain bs where "enc_all xs = Inr bs" "dec_all bs = Inr xs"
    using stream_roundtrip [OF assms(1)] by blast
  moreover obtain cs where "enc_all ys = Inr cs" "dec_all cs = Inr ys"
    using stream_roundtrip [OF assms(2)] by blast
  ultimately show ?thesis using assms(3) by simp
qed

end

text \<open>A loop that decodes as many items as a count says.\<close>

locale counted_codec = item_codec +
  fixes enc_all :: "'a list \<Rightarrow> py_error + byte list"
    and dec_n :: "nat \<Rightarrow> 'a list reader"
  assumes enc_all_Nil: "enc_all [] = Inr []"
    and enc_all_Cons: "enc_all (x # xs) = bindR (enc x) (\<lambda>bs. bindR (enc_all xs) (\<lambda>cs. Inr (bs @ cs)))"
    and dec_n_0: "dec_n 0 s = Inr ([], s)"
    and dec_n_Suc: "dec_n (Suc k) s =
      bindR (dec s) (\<lambda>(x, s'). bindR (dec_n k s') (\<lambda>(xs, s'). Inr (x # xs, s')))"
begin

lemma counted_roundtrip:
  "\<forall>x\<in>set xs. wf x \<Longrightarrow> \<exists>bs. enc_all xs = Inr bs \<and> dec_n (length xs) (bs @ s) = Inr (xs, s)"
proof (induction xs)
  case Nil
  then show ?case by (simp add: enc_all_Nil dec_n_0)
next
  case (Cons x xs)
  obtain bs where bs: "enc x = Inr bs" using Cons.prems enc_total by auto
  obtain cs where cs: "enc_all xs = Inr cs" "dec_n (length xs) (cs @ s) = Inr (xs, s)" using Cons by auto
  have "dec (bs @ cs @ s) = Inr (x, cs @ s)" using Cons.prems bs by (auto intro: dec_enc)
  then show ?case using bs cs by (simp add: enc_all_Cons dec_n_Suc)
qed

end

end
