(* ===== verification/Pdu.thy ===== *)
theory Pdu
  imports Prelude
begin

text \<open>
  \<^verbatim>\<open>bacpypes3/pdu.py\<close>: the octet buffer \<^verbatim>\<open>PDUData\<close> with its reading and writing
  operations, the control information \<^verbatim>\<open>PCI\<close> every protocol data unit carries, and the
  six kinds of \<^verbatim>\<open>Address\<close> with equality and pattern matching.

  A reader takes the octets that are left and returns the value with the octets that
  remain; what a failed read has consumed is not kept, because the code drops the buffer
  when an exception leaves it. A writer returns the extended buffer.
\<close>

section \<open>PDUData\<close>

fun pdu_get :: "int reader" where
  "pdu_get [] = Inl DecodingError"
| "pdu_get (b # s) = Inr (uint b, s)"

definition pdu_get_data :: "int \<Rightarrow> byte list reader" where
  "pdu_get_data dlen s =
     (if int (length s) < dlen then Inl DecodingError
      else Inr (take (nat dlen) s, drop (nat dlen) s))"

definition pdu_get_short :: "int reader" where
  "pdu_get_short s = bindR (pdu_get_data 2 s) (\<lambda>(d, s). Inr (be_int d, s))"

definition pdu_get_long :: "int reader" where
  "pdu_get_long s = bindR (pdu_get_data 4 s) (\<lambda>(d, s). Inr (be_int d, s))"

text \<open>\<^verbatim>\<open>bytes([n])\<close> raises \<^verbatim>\<open>ValueError\<close> outside 0 to 255.\<close>

definition pdu_put :: "int \<Rightarrow> byte list \<Rightarrow> byte list result" where
  "pdu_put n s = (if 0 \<le> n \<and> n < 256 then Inr (s @ [word_of_int n]) else Inl ValueError)"

definition pdu_put_data :: "byte list \<Rightarrow> byte list \<Rightarrow> byte list" where
  "pdu_put_data d s = s @ d"

definition pdu_put_short :: "int \<Rightarrow> byte list \<Rightarrow> byte list" where
  "pdu_put_short n s = s @ be_bytes 2 (n AND 0xFFFF)"

definition pdu_put_long :: "int \<Rightarrow> byte list \<Rightarrow> byte list" where
  "pdu_put_long n s = s @ be_bytes 4 (n AND 0xFFFFFFFF)"

lemma pdu_get_data_append [codec_simps]:
  "int (length d) = n \<Longrightarrow> pdu_get_data n (d @ s) = Inr (d, s)"
  by (auto simp: pdu_get_data_def)

lemma pdu_get_data_0 [simp]: "pdu_get_data 0 s = Inr ([], s)"
  by (simp add: pdu_get_data_def)

lemma pdu_get_short_append [codec_simps]:
  "0 \<le> n \<Longrightarrow> n < 65536 \<Longrightarrow> pdu_get_short (be_bytes 2 n @ s) = Inr (n, s)"
  using pdu_get_data_append [of "be_bytes 2 n" 2 s]
  by (simp add: pdu_get_short_def be_int_be_bytes)

lemma pdu_get_long_append [codec_simps]:
  "0 \<le> n \<Longrightarrow> n < 4294967296 \<Longrightarrow> pdu_get_long (be_bytes 4 n @ s) = Inr (n, s)"
  using pdu_get_data_append [of "be_bytes 4 n" 4 s]
  by (simp add: pdu_get_long_def be_int_be_bytes)

lemma pdu_get_append [codec_simps]:
  "0 \<le> n \<Longrightarrow> n < 256 \<Longrightarrow> pdu_get (word_of_int n # s) = Inr (n, s)"
  by simp

lemma pdu_put_ok [codec_simps]:
  "0 \<le> n \<Longrightarrow> n < 256 \<Longrightarrow> pdu_put n s = Inr (s @ [word_of_int n])"
  by (simp add: pdu_put_def)

lemma pdu_put_eq_Inr_iff:
  "pdu_put n s = Inr r \<longleftrightarrow> 0 \<le> n \<and> n < 256 \<and> r = s @ [word_of_int n]"
  by (auto simp: pdu_put_def)

lemma pdu_put_short_ok [codec_simps]:
  "0 \<le> n \<Longrightarrow> n < 65536 \<Longrightarrow> pdu_put_short n s = s @ be_bytes 2 n"
  by (simp add: pdu_put_short_def int_and_low)

lemma pdu_put_long_ok [codec_simps]:
  "0 \<le> n \<Longrightarrow> n < 4294967296 \<Longrightarrow> pdu_put_long n s = s @ be_bytes 4 n"
  by (simp add: pdu_put_long_def int_and_low)

lemma pdu_get_InrD:
  "pdu_get s = Inr (n, s') \<Longrightarrow> 0 \<le> n \<and> n < 256 \<and> s = word_of_int n # s'"
  using byte_bounds by (cases s) auto

lemma pdu_get_data_InrD:
  "pdu_get_data n s = Inr (d, s') \<Longrightarrow> s = d @ s' \<and> (0 \<le> n \<longrightarrow> int (length d) = n)"
  by (auto simp: pdu_get_data_def split: if_splits)

lemma pdu_get_short_InrD:
  assumes "pdu_get_short s = Inr (n, s')"
  shows "0 \<le> n \<and> n < 65536 \<and> s = be_bytes 2 n @ s'"
proof -
  from assms obtain d where d: "pdu_get_data 2 s = Inr (d, s')" "n = be_int d"
    by (auto simp: pdu_get_short_def bindR_eq_Inr_iff)
  then have "s = d @ s'" "length d = 2" by (auto dest: pdu_get_data_InrD)
  then show ?thesis using d be_int_bounds [of d] be_bytes_be_int [of d] by simp
qed

lemma pdu_get_long_InrD:
  assumes "pdu_get_long s = Inr (n, s')"
  shows "0 \<le> n \<and> n < 4294967296 \<and> s = be_bytes 4 n @ s'"
proof -
  from assms obtain d where d: "pdu_get_data 4 s = Inr (d, s')" "n = be_int d"
    by (auto simp: pdu_get_long_def bindR_eq_Inr_iff)
  then have "s = d @ s'" "length d = 4" by (auto dest: pdu_get_data_InrD)
  then show ?thesis using d be_int_bounds [of d] be_bytes_be_int [of d] by simp
qed

lemmas pdu_get_InrDs = pdu_get_InrD pdu_get_data_InrD pdu_get_short_InrD pdu_get_long_InrD

text \<open>Reads shorten the buffer.\<close>

lemma pdu_get_length: "pdu_get s = Inr (n, s') \<Longrightarrow> length s = Suc (length s')"
  by (cases s) auto

lemma pdu_get_data_length: "pdu_get_data n s = Inr (d, s') \<Longrightarrow> length s' \<le> length s"
  by (auto dest: pdu_get_data_InrD)

lemma pdu_get_short_length: "pdu_get_short s = Inr (n, s') \<Longrightarrow> length s = length s' + 2"
  by (auto dest: pdu_get_short_InrD)

lemma pdu_get_long_length: "pdu_get_long s = Inr (n, s') \<Longrightarrow> length s = length s' + 4"
  by (auto dest: pdu_get_long_InrD)

lemmas pdu_get_lengths =
  pdu_get_length pdu_get_data_length pdu_get_short_length pdu_get_long_length

section \<open>Address\<close>

datatype addr_type =
  NullAddr | LocalBroadcastAddr | LocalStationAddr | RemoteBroadcastAddr | RemoteStationAddr
| GlobalBroadcastAddr

text \<open>
  \<^verbatim>\<open>addrLen\<close> is the length of \<^verbatim>\<open>addrAddr\<close> in every constructor and is not stored;
  \<^verbatim>\<open>addrNetworkType\<close> is a label no modelled operation reads.
\<close>

datatype address = Address
  (addrType: addr_type) (addrNet: "int option") (addrAddr: "byte list option")
  (addrRoute: "address option")

definition local_station :: "byte list \<Rightarrow> address" where
  "local_station addr = Address LocalStationAddr None (Some addr) None"

definition local_broadcast :: address where
  "local_broadcast = Address LocalBroadcastAddr None None None"

definition remote_station :: "int \<Rightarrow> byte list \<Rightarrow> address result" where
  "remote_station net addr =
     (if net < 0 \<or> net \<ge> 65535 then Inl ValueError
      else Inr (Address RemoteStationAddr (Some net) (Some addr) None))"

definition remote_broadcast :: "int \<Rightarrow> address result" where
  "remote_broadcast net =
     (if net < 0 \<or> net \<ge> 65535 then Inl ValueError
      else Inr (Address RemoteBroadcastAddr (Some net) None None))"

definition global_broadcast :: address where
  "global_broadcast = Address GlobalBroadcastAddr None None None"

text \<open>\<^verbatim>\<open>Address.__eq__\<close>: routes are compared only when both sides have one.\<close>

fun address_eq :: "address \<Rightarrow> address \<Rightarrow> bool" where
  "address_eq (Address t n a r) (Address t' n' a' r') =
     (t = t' \<and> n = n' \<and> a = a' \<and>
      (case (r, r') of (Some x, Some y) \<Rightarrow> address_eq x y | _ \<Rightarrow> True))"

lemma address_eq_refl [simp]: "address_eq a a"
proof (induction a)
  case (Address t n a r)
  then show ?case by (cases r) auto
qed

lemma address_eq_unrouted:
  "addrRoute a = None \<Longrightarrow> addrRoute b = None \<Longrightarrow> address_eq a b \<longleftrightarrow> a = b"
  by (cases a; cases b) auto

text \<open>\<^verbatim>\<open>Address.match\<close>: this address as a source against the pattern \<open>other\<close>.\<close>

definition address_match :: "address \<Rightarrow> address \<Rightarrow> bool" where
  "address_match self other =
     (case addrType other of
        NullAddr \<Rightarrow> addrType self = NullAddr
      | LocalBroadcastAddr \<Rightarrow> addrType self = LocalStationAddr
      | LocalStationAddr \<Rightarrow> addrType self = LocalStationAddr \<and> addrAddr self = addrAddr other
      | RemoteBroadcastAddr \<Rightarrow> addrType self = RemoteStationAddr \<and> addrNet self = addrNet other
      | RemoteStationAddr \<Rightarrow> addrType self = RemoteStationAddr \<and>
          addrAddr self = addrAddr other \<and> addrNet self = addrNet other
      | GlobalBroadcastAddr \<Rightarrow> True)"

section \<open>PCI and PDU\<close>

record pci =
  pduSource :: "address option"
  pduDestination :: "address option"
  pduExpectingReply :: bool
  pduNetworkPriority :: int
  pduUserData :: "byte list option"

record pdu = pci +
  pduData :: "byte list"

text \<open>\<^verbatim>\<open>PCI.update(self, pci)\<close> copies the five fields and leaves the rest of \<open>self\<close>.\<close>

definition pci_update :: "'a pci_scheme \<Rightarrow> 'b pci_scheme \<Rightarrow> 'a pci_scheme" where
  "pci_update self p = self\<lparr>pduSource := pduSource p, pduDestination := pduDestination p,
     pduExpectingReply := pduExpectingReply p, pduNetworkPriority := pduNetworkPriority p,
     pduUserData := pduUserData p\<rparr>"

definition init_pci :: pci where
  "init_pci = \<lparr>pduSource = None, pduDestination = None, pduExpectingReply = False,
     pduNetworkPriority = 0, pduUserData = None\<rparr>"

definition init_pdu :: "byte list \<Rightarrow> pdu" where
  "init_pdu d = pci.extend init_pci \<lparr>pduData = d\<rparr>"

lemma pci_update_simps [simp]:
  "pduSource (pci_update a b) = pduSource b"
  "pduDestination (pci_update a b) = pduDestination b"
  "pduExpectingReply (pci_update a b) = pduExpectingReply b"
  "pduNetworkPriority (pci_update a b) = pduNetworkPriority b"
  "pduUserData (pci_update a b) = pduUserData b"
  "pci.more (pci_update a b) = pci.more a"
  by (simp_all add: pci_update_def)

end
