(* ===== verification/Tags.thy ===== *)
theory Tags
  imports Pdu
begin

text \<open>
  The tags of \<^verbatim>\<open>bacpypes3/primitivedata.py\<close>: \<^verbatim>\<open>Tag\<close> with its encoder and decoder, the
  conversions between application and context tags, and \<^verbatim>\<open>TagList\<close> with the group
  extraction \<^verbatim>\<open>pop_context\<close>.  The tag codec is an instance of the codec interface, so the
  decoding loop of a tag list inverts its encoding.
\<close>

section \<open>Tag\<close>

datatype tag_class = Application | Context | Opening | Closing

record tag =
  tag_class :: tag_class
  tag_number :: int
  tag_lvt :: int
  tag_data :: "byte list"

text \<open>\<^verbatim>\<open>TagNumber\<close>: the application tag numbers the atomic types use.\<close>

definition tn_null :: int where "tn_null = 0"
definition tn_boolean :: int where "tn_boolean = 1"
definition tn_unsigned :: int where "tn_unsigned = 2"
definition tn_integer :: int where "tn_integer = 3"
definition tn_octetString :: int where "tn_octetString = 6"
definition tn_bitString :: int where "tn_bitString = 8"
definition tn_enumerated :: int where "tn_enumerated = 9"
definition tn_date :: int where "tn_date = 10"
definition tn_time :: int where "tn_time = 11"
definition tn_objectIdentifier :: int where "tn_objectIdentifier = 12"

lemmas tag_numbers = tn_null_def tn_boolean_def tn_unsigned_def tn_integer_def
  tn_octetString_def tn_bitString_def tn_enumerated_def tn_date_def tn_time_def
  tn_objectIdentifier_def

definition application_tag :: "int \<Rightarrow> byte list \<Rightarrow> tag" where
  "application_tag tnum d =
     \<lparr>tag_class = Application, tag_number = tnum, tag_lvt = int (length d), tag_data = d\<rparr>"

definition context_tag :: "int \<Rightarrow> byte list \<Rightarrow> tag" where
  "context_tag c d =
     \<lparr>tag_class = Context, tag_number = c, tag_lvt = int (length d), tag_data = d\<rparr>"

definition opening_tag :: "int \<Rightarrow> tag" where
  "opening_tag c = \<lparr>tag_class = Opening, tag_number = c, tag_lvt = 0, tag_data = []\<rparr>"

definition closing_tag :: "int \<Rightarrow> tag" where
  "closing_tag c = \<lparr>tag_class = Closing, tag_number = c, tag_lvt = 0, tag_data = []\<rparr>"

text \<open>The first octet: class bit, tag number nibble, length/value/type bits.\<close>

definition tag_initial_octet :: "tag \<Rightarrow> int" where
  "tag_initial_octet t =
     (case tag_class t of Context \<Rightarrow> 0x08 | Opening \<Rightarrow> 0x0E | Closing \<Rightarrow> 0x0F | Application \<Rightarrow> 0x00)
     + (if tag_number t < 15 then push_bit 4 (tag_number t) else 0xF0)
     + (if tag_lvt t < 5 then tag_lvt t else 0x05)"

definition tag_put_lvt :: "int \<Rightarrow> byte list \<Rightarrow> byte list result" where
  "tag_put_lvt lvt s =
     (if lvt \<ge> 5 then
        (if lvt \<le> 253 then pdu_put lvt s
         else if lvt \<le> 65535 then bindR (pdu_put 254 s) (\<lambda>s. Inr (pdu_put_short lvt s))
         else bindR (pdu_put 255 s) (\<lambda>s. Inr (pdu_put_long lvt s)))
      else Inr s)"

definition tag_encode :: "tag \<Rightarrow> byte list result" where
  "tag_encode t =
     bindR (pdu_put (tag_initial_octet t) []) (\<lambda>s.
     bindR (if tag_number t \<ge> 15 then pdu_put (tag_number t) s else Inr s) (\<lambda>s.
     bindR (tag_put_lvt (tag_lvt t) s) (\<lambda>s.
     Inr (pdu_put_data (tag_data t) s))))"

text \<open>The class and length/value/type field, from the first octet and what follows it.\<close>

definition tag_get_lvt :: "int \<Rightarrow> (tag_class \<times> int) reader" where
  "tag_get_lvt octet s =
     (let cls = (if drop_bit 3 octet AND 0x01 = 0 then Application else Context);
          lvt = octet AND 0x07
      in if lvt = 5 then
           bindR (pdu_get s) (\<lambda>(lvt, s).
             if lvt = 254 then bindR (pdu_get_short s) (\<lambda>(lvt, s). Inr ((cls, lvt), s))
             else if lvt = 255 then bindR (pdu_get_long s) (\<lambda>(lvt, s). Inr ((cls, lvt), s))
             else Inr ((cls, lvt), s))
         else if lvt = 6 then Inr ((Opening, 0), s)
         else if lvt = 7 then Inr ((Closing, 0), s)
         else Inr ((cls, lvt), s))"

definition tag_decode_body :: "tag reader" where
  "tag_decode_body s =
     bindR (pdu_get s) (\<lambda>(octet, s).
     bindR (if drop_bit 4 octet = 0x0F then pdu_get s else Inr (drop_bit 4 octet, s)) (\<lambda>(num, s).
     bindR (tag_get_lvt octet s) (\<lambda>((cls, lvt), s).
     bindR (if cls = Application \<and> num = tn_boolean then Inr ([], s) else pdu_get_data lvt s)
       (\<lambda>(d, s).
     Inr (\<lparr>tag_class = cls, tag_number = num, tag_lvt = lvt, tag_data = d\<rparr>, s)))))"

text \<open>\<^verbatim>\<open>except DecodingError as err: raise InvalidTag\<close>\<close>

definition tag_decode :: "tag reader" where
  "tag_decode s = (case tag_decode_body s of Inl DecodingError \<Rightarrow> Inl InvalidTag | r \<Rightarrow> r)"

definition app_to_context :: "int \<Rightarrow> tag \<Rightarrow> tag result" where
  "app_to_context c t =
     (if tag_class t \<noteq> Application then Inl ValueError
      else if tag_number t = tn_boolean then
        bindR (pdu_put (tag_lvt t) []) (\<lambda>d. Inr (context_tag c d))
      else Inr (context_tag c (tag_data t)))"

definition context_to_app :: "int \<Rightarrow> tag \<Rightarrow> tag result" where
  "context_to_app tnum t =
     (if tag_class t \<noteq> Context then Inl ValueError
      else if tnum = tn_boolean then
        (case tag_data t of
           [b] \<Rightarrow> Inr \<lparr>tag_class = Application, tag_number = tn_boolean, tag_lvt = uint b, tag_data = []\<rparr>
         | _ \<Rightarrow> Inl StructError)
      else Inr (application_tag tnum (tag_data t)))"

subsection \<open>Which tags survive the wire\<close>

definition wf_tag :: "tag \<Rightarrow> bool" where
  "wf_tag t \<longleftrightarrow>
     0 \<le> tag_number t \<and> tag_number t \<le> 255 \<and> 0 \<le> tag_lvt t \<and> tag_lvt t < 4294967296 \<and>
     (tag_class t \<in> {Opening, Closing} \<longrightarrow> tag_lvt t = 0) \<and>
     (if tag_class t = Application \<and> tag_number t = tn_boolean then tag_data t = []
      else int (length (tag_data t)) = tag_lvt t)"

lemma wf_tag_constructors:
  "0 \<le> c \<Longrightarrow> c \<le> 255 \<Longrightarrow> int (length d) < 4294967296 \<Longrightarrow> wf_tag (context_tag c d)"
  "0 \<le> c \<Longrightarrow> c \<le> 255 \<Longrightarrow> int (length d) < 4294967296 \<Longrightarrow> c \<noteq> tn_boolean \<Longrightarrow> wf_tag (application_tag c d)"
  "0 \<le> c \<Longrightarrow> c \<le> 255 \<Longrightarrow> wf_tag (opening_tag c)"
  "0 \<le> c \<Longrightarrow> c \<le> 255 \<Longrightarrow> wf_tag (closing_tag c)"
  by (auto simp: wf_tag_def context_tag_def application_tag_def opening_tag_def closing_tag_def)

text \<open>The octets a well-formed tag is written as.\<close>

definition lvt_octets :: "int \<Rightarrow> byte list" where
  "lvt_octets lvt =
     (if lvt < 5 then [] else if lvt \<le> 253 then [word_of_int lvt]
      else if lvt \<le> 65535 then 254 # be_bytes 2 lvt else 255 # be_bytes 4 lvt)"

definition number_octets :: "int \<Rightarrow> byte list" where
  "number_octets n = (if n < 15 then [] else [word_of_int n])"

lemma tag_put_lvt_octets:
  "0 \<le> lvt \<Longrightarrow> lvt < 4294967296 \<Longrightarrow> tag_put_lvt lvt s = Inr (s @ lvt_octets lvt)"
  by (simp add: tag_put_lvt_def lvt_octets_def codec_simps)

lemma tag_initial_octet_bounds:
  "wf_tag t \<Longrightarrow> 0 \<le> tag_initial_octet t \<and> tag_initial_octet t < 256"
  by (cases "tag_class t") (auto simp: wf_tag_def tag_initial_octet_def int_shift)

lemma tag_encode_octets:
  assumes "wf_tag t"
  shows "tag_encode t = Inr (word_of_int (tag_initial_octet t)
           # number_octets (tag_number t) @ lvt_octets (tag_lvt t) @ tag_data t)"
proof -
  have "pdu_put (tag_initial_octet t) [] = Inr [word_of_int (tag_initial_octet t)]"
    using tag_initial_octet_bounds [OF assms] by (simp add: codec_simps)
  moreover have "(if tag_number t \<ge> 15 then pdu_put (tag_number t) s else Inr s)
      = Inr (s @ number_octets (tag_number t))" for s
    using assms by (simp add: number_octets_def codec_simps wf_tag_def)
  ultimately show ?thesis
    using assms by (simp add: tag_encode_def tag_put_lvt_octets wf_tag_def pdu_put_data_def)
qed

text \<open>The three bit fields of the first octet.\<close>

definition octet_nibble :: "tag \<Rightarrow> int" where
  "octet_nibble t = (if tag_number t < 15 then tag_number t else 15)"

definition octet_class_bit :: "tag \<Rightarrow> int" where
  "octet_class_bit t = (if tag_class t = Application then 0 else 1)"

definition octet_lvt_bits :: "tag \<Rightarrow> int" where
  "octet_lvt_bits t =
     (case tag_class t of Opening \<Rightarrow> 6 | Closing \<Rightarrow> 7 | _ \<Rightarrow> if tag_lvt t < 5 then tag_lvt t else 5)"

lemma octet_field_arith:
  fixes n c l :: int
  assumes "0 \<le> c" "c < 2" "0 \<le> l" "l < 8"
  shows "(n * 16 + c * 8 + l) div 16 = n" "(n * 16 + c * 8 + l) div 8 mod 2 = c"
    "(n * 16 + c * 8 + l) mod 8 = l"
proof -
  show "(n * 16 + c * 8 + l) div 16 = n"
    using assms by (intro int_div_pos_eq [where r = "c * 8 + l"]) auto
  show "(n * 16 + c * 8 + l) mod 8 = l"
    using assms by (intro int_mod_pos_eq [where q = "n * 2 + c"]) auto
  have "(n * 16 + c * 8 + l) div 8 = n * 2 + c"
    using assms by (intro int_div_pos_eq [where r = l]) auto
  moreover have "(n * 2 + c) mod 2 = c"
    using assms by (intro int_mod_pos_eq [where q = n]) auto
  ultimately show "(n * 16 + c * 8 + l) div 8 mod 2 = c" by simp
qed

lemma initial_octet_fields:
  assumes "wf_tag t"
  shows "tag_initial_octet t div 16 = octet_nibble t"
    "tag_initial_octet t div 8 mod 2 = octet_class_bit t"
    "tag_initial_octet t mod 8 = octet_lvt_bits t"
proof -
  have "tag_initial_octet t = octet_nibble t * 16 + octet_class_bit t * 8 + octet_lvt_bits t"
    using assms
    by (cases "tag_class t") (auto simp: wf_tag_def tag_initial_octet_def int_shift
        octet_nibble_def octet_class_bit_def octet_lvt_bits_def)
  moreover have "0 \<le> octet_class_bit t" "octet_class_bit t < 2"
    "0 \<le> octet_lvt_bits t" "octet_lvt_bits t < 8"
    using assms by (auto simp: octet_class_bit_def octet_lvt_bits_def wf_tag_def
        split: tag_class.splits)
  ultimately show "tag_initial_octet t div 16 = octet_nibble t"
    "tag_initial_octet t div 8 mod 2 = octet_class_bit t"
    "tag_initial_octet t mod 8 = octet_lvt_bits t"
    by (simp_all only: octet_field_arith)
qed

lemma tag_get_lvt_octets:
  assumes "wf_tag t"
  shows "tag_get_lvt (tag_initial_octet t) (lvt_octets (tag_lvt t) @ s)
    = Inr ((tag_class t, tag_lvt t), s)"
  using assms
  by (cases "tag_class t")
     (auto simp: tag_get_lvt_def int_bits initial_octet_fields octet_class_bit_def
       octet_lvt_bits_def lvt_octets_def wf_tag_def codec_simps Let_def)

lemma tag_decode_encode:
  assumes wf: "wf_tag t" and enc: "tag_encode t = Inr bs"
  shows "tag_decode (bs @ rest) = Inr (t, rest)"
proof -
  let ?v = "tag_initial_octet t"
  have bs: "bs @ rest = word_of_int ?v #
      (number_octets (tag_number t) @ lvt_octets (tag_lvt t) @ tag_data t @ rest)"
    using tag_encode_octets [OF wf] enc by simp
  have v: "pdu_get (bs @ rest) =
      Inr (?v, number_octets (tag_number t) @ lvt_octets (tag_lvt t) @ tag_data t @ rest)"
    using tag_initial_octet_bounds [OF wf] by (simp add: bs codec_simps)
  have n: "(if drop_bit 4 ?v = 15 then pdu_get (number_octets (tag_number t) @ s)
      else Inr (drop_bit 4 ?v, number_octets (tag_number t) @ s)) = Inr (tag_number t, s)" for s
    using wf by (auto simp: int_bits initial_octet_fields octet_nibble_def number_octets_def
        codec_simps wf_tag_def)
  have d: "(if tag_class t = Application \<and> tag_number t = tn_boolean then Inr ([], tag_data t @ rest)
      else pdu_get_data (tag_lvt t) (tag_data t @ rest)) = Inr (tag_data t, rest)"
    using wf by (auto simp: wf_tag_def codec_simps)
  show ?thesis
    by (simp add: tag_decode_def tag_decode_body_def v n tag_get_lvt_octets [OF wf] d)
qed

subsection \<open>What the decoder returns\<close>

lemma tag_decode_InrE:
  assumes "tag_decode s = Inr (t, s')"
  obtains octet s1 num s2 cls lvt s3 d where
    "pdu_get s = Inr (octet, s1)"
    "(if drop_bit 4 octet = 15 then pdu_get s1 else Inr (drop_bit 4 octet, s1)) = Inr (num, s2)"
    "tag_get_lvt octet s2 = Inr ((cls, lvt), s3)"
    "(if cls = Application \<and> num = tn_boolean then Inr ([], s3) else pdu_get_data lvt s3) = Inr (d, s')"
    "t = \<lparr>tag_class = cls, tag_number = num, tag_lvt = lvt, tag_data = d\<rparr>"
proof -
  have "tag_decode_body s = Inr (t, s')"
    using assms by (auto simp: tag_decode_def split: sum.splits py_error.splits)
  then show thesis
    by (auto simp: tag_decode_body_def bindR_eq_Inr_iff split_paired_Ex intro: that)
qed

lemma tag_get_lvt_InrD:
  assumes "tag_get_lvt octet s = Inr ((cls, lvt), s')"
  shows "0 \<le> lvt \<and> lvt < 4294967296 \<and> (cls \<in> {Opening, Closing} \<longrightarrow> lvt = 0) \<and> length s' \<le> length s"
proof -
  have low: "0 \<le> octet AND 7" "octet AND 7 < 8" by (simp_all add: int_and_low)
  show ?thesis
    using assms low
    by (auto simp: tag_get_lvt_def Let_def bindR_eq_Inr_iff split: if_splits
        dest!: pdu_get_InrDs)
qed

lemma tag_decode_wf:
  assumes "tag_decode s = Inr (t, s')"
  shows "wf_tag t" and "length s' < length s"
proof -
  from assms obtain octet s1 num s2 cls lvt s3 d where o: "pdu_get s = Inr (octet, s1)"
    and n: "(if drop_bit 4 octet = 15 then pdu_get s1 else Inr (drop_bit 4 octet, s1)) = Inr (num, s2)"
    and l: "tag_get_lvt octet s2 = Inr ((cls, lvt), s3)"
    and d: "(if cls = Application \<and> num = tn_boolean then Inr ([], s3) else pdu_get_data lvt s3) = Inr (d, s')"
    and t: "t = \<lparr>tag_class = cls, tag_number = num, tag_lvt = lvt, tag_data = d\<rparr>"
    by (rule tag_decode_InrE)
  have "0 \<le> num \<and> num \<le> 255 \<and> length s2 \<le> length s1"
    using n pdu_get_InrD [OF o] by (auto simp: int_shift split: if_splits dest!: pdu_get_InrD)
  moreover have "(cls = Application \<and> num = tn_boolean \<longrightarrow> d = []) \<and>
      (\<not> (cls = Application \<and> num = tn_boolean) \<longrightarrow> int (length d) = lvt) \<and> length s' \<le> length s3"
    using d tag_get_lvt_InrD [OF l] by (auto split: if_splits dest!: pdu_get_data_InrD)
  ultimately show "wf_tag t" "length s' < length s"
    using tag_get_lvt_InrD [OF l] pdu_get_length [OF o] by (auto simp: wf_tag_def t)
qed

section \<open>TagList\<close>

fun tag_list_encode :: "tag list \<Rightarrow> byte list result" where
  "tag_list_encode [] = Inr []"
| "tag_list_encode (t # ts) =
     bindR (tag_encode t) (\<lambda>bs. bindR (tag_list_encode ts) (\<lambda>cs. Inr (bs @ cs)))"

function tag_list_decode :: "byte list \<Rightarrow> tag list result" where
  "tag_list_decode s =
     (if s = [] then Inr []
      else bindR (tag_decode s) (\<lambda>(t, s'). bindR (tag_list_decode s') (\<lambda>ts. Inr (t # ts))))"
  by pat_completeness auto
termination
  by (relation "measure length") (auto dest: tag_decode_wf(2))

declare tag_list_decode.simps [simp del]

interpretation tags: stream_codec tag_encode tag_decode wf_tag tag_list_encode tag_list_decode
proof unfold_locales
  show "\<exists>bs. tag_encode t = Inr bs" if "wf_tag t" for t
    using tag_encode_octets [OF that] by blast
  show "tag_decode (bs @ rest) = Inr (t, rest)" if "wf_tag t" "tag_encode t = Inr bs" for t bs rest
    using that by (rule tag_decode_encode)
  show "bs \<noteq> []" if "wf_tag t" "tag_encode t = Inr bs" for t bs
    using tag_encode_octets [OF that(1)] that(2) by auto
  show "tag_list_decode s = bindR (tag_decode s)
      (\<lambda>(t, s'). bindR (tag_list_decode s') (\<lambda>ts. Inr (t # ts)))" if "s \<noteq> []" for s
    using that by (subst tag_list_decode.simps) simp
qed (simp_all add: tag_list_decode.simps)

text \<open>\<^verbatim>\<open>peek\<close>, \<^verbatim>\<open>push\<close> and \<^verbatim>\<open>pop\<close>; \<^verbatim>\<open>None\<close> on an empty list.\<close>

definition tag_list_peek :: "tag list \<Rightarrow> tag option" where
  "tag_list_peek ts = (case ts of [] \<Rightarrow> None | t # _ \<Rightarrow> Some t)"

definition tag_list_push :: "tag \<Rightarrow> tag list \<Rightarrow> tag list" where
  "tag_list_push t ts = [t] @ ts"

fun tag_list_pop :: "tag list \<Rightarrow> tag option \<times> tag list" where
  "tag_list_pop [] = (None, [])"
| "tag_list_pop (t # ts) = (Some t, ts)"

text \<open>
  The forward pass of \<^verbatim>\<open>pop_context\<close>: the level and index at which its loop stops,
  either at the closing tag that brings the level to 0 or at the end of the list.
\<close>

fun scan_group :: "int \<Rightarrow> nat \<Rightarrow> tag list \<Rightarrow> int \<times> nat" where
  "scan_group lvl i [] = (lvl, i)"
| "scan_group lvl i (t # ts) =
     (case tag_class t of
        Opening \<Rightarrow> scan_group (lvl + 1) (i + 1) ts
      | Closing \<Rightarrow> if lvl - 1 = 0 then (0, i) else scan_group (lvl - 1) (i + 1) ts
      | _ \<Rightarrow> scan_group lvl (i + 1) ts)"

text \<open>The group and what stays in the list.\<close>

definition pop_context :: "tag list \<Rightarrow> (tag list \<times> tag list) result" where
  "pop_context ts =
     (case ts of
        [] \<Rightarrow> Inr ([], ts)
      | t # ts' \<Rightarrow>
          (case tag_class t of
             Application \<Rightarrow> Inr ([t], ts')
           | Context \<Rightarrow> Inr ([t], ts')
           | Closing \<Rightarrow> Inr ([], ts)
           | Opening \<Rightarrow>
               (case scan_group 0 0 ts of (lvl, i) \<Rightarrow>
                  if lvl \<noteq> 0 then Inl InvalidTag else Inr (take (i + 1) ts, drop (i + 1) ts))))"

subsection \<open>Groups as a grammar\<close>

text \<open>Properly nested tags, the contract of \<open>pop_context\<close>.\<close>

inductive nested :: "tag list \<Rightarrow> bool" where
  nested_Nil: "nested []"
| nested_atom: "tag_class t \<in> {Application, Context} \<Longrightarrow> nested ts \<Longrightarrow> nested (t # ts)"
| nested_group: "tag_class p = Opening \<Longrightarrow> nested b \<Longrightarrow> tag_class c = Closing \<Longrightarrow> nested ts \<Longrightarrow>
    nested (p # b @ c # ts)"

lemma scan_nested:
  "nested b \<Longrightarrow> lvl \<ge> 1 \<Longrightarrow> scan_group lvl i (b @ ts) = scan_group lvl (i + length b) ts"
  by (induction arbitrary: lvl i ts rule: nested.induct) (auto simp: add.assoc)

text \<open>\<open>closes n bs\<close>: nested runs separated by \<open>n\<close> closing tags.\<close>

primrec closes :: "nat \<Rightarrow> tag list \<Rightarrow> bool" where
  "closes 0 bs = nested bs"
| "closes (Suc n) bs =
     (\<exists>b c bs'. bs = b @ c # bs' \<and> nested b \<and> tag_class c = Closing \<and> closes n bs')"

lemma closes_atom:
  assumes "tag_class t \<in> {Application, Context}" "closes n bs"
  shows "closes n (t # bs)"
proof (cases n)
  case 0
  with assms show ?thesis by (simp add: nested_atom)
next
  case (Suc m)
  with assms(2) obtain b c bs' where "bs = b @ c # bs'" "nested b" "tag_class c = Closing" "closes m bs'"
    by auto
  moreover have "nested (t # b)" using assms(1) \<open>nested b\<close> by (rule nested_atom)
  ultimately show ?thesis unfolding Suc closes.simps by (metis append_Cons)
qed

lemma closes_open:
  assumes "tag_class p = Opening" "closes (Suc n) bs"
  shows "closes n (p # bs)"
proof -
  from assms(2) obtain b c bs' where bs: "bs = b @ c # bs'" "nested b" "tag_class c = Closing" "closes n bs'"
    by auto
  show ?thesis
  proof (cases n)
    case 0
    with bs assms(1) show ?thesis by (simp add: nested_group)
  next
    case (Suc m)
    with bs(4) obtain b' c' bs'' where b': "bs' = b' @ c' # bs''" "nested b'" "tag_class c' = Closing" "closes m bs''"
      by auto
    have "nested (p # b @ c # b')" using assms(1) bs(2,3) b'(2) by (rule nested_group)
    moreover have "p # bs = (p # b @ c # b') @ c' # bs''" by (simp add: bs b')
    ultimately show ?thesis unfolding Suc closes.simps using b'(3,4) by blast
  qed
qed

lemma scan_group_closes:
  "scan_group (int (Suc n)) i ts = (0, j) \<Longrightarrow>
   \<exists>bs c rest. ts = bs @ c # rest \<and> j = i + length bs \<and> tag_class c = Closing \<and> closes n bs"
proof (induction ts arbitrary: n i)
  case Nil
  then show ?case by simp
next
  case (Cons t ts)
  show ?case
  proof (cases "tag_class t")
    case Opening
    with Cons.prems have "scan_group (int (Suc (Suc n))) (i + 1) ts = (0, j)"
      by (simp add: algebra_simps)
    from Cons.IH [OF this] obtain bs c rest where "ts = bs @ c # rest" "j = i + 1 + length bs"
      "tag_class c = Closing" "closes (Suc n) bs" by blast
    then show ?thesis using closes_open [OF Opening] by (intro exI [of _ "t # bs"]) auto
  next
    case Closing
    show ?thesis
    proof (cases n)
      case 0
      with Cons.prems Closing show ?thesis by (auto intro!: exI [of _ "[]"] nested_Nil)
    next
      case (Suc m)
      with Cons.prems Closing have "scan_group (int (Suc m)) (i + 1) ts = (0, j)" by simp
      from Cons.IH [OF this] obtain bs c rest where "ts = bs @ c # rest" "j = i + 1 + length bs"
        "tag_class c = Closing" "closes m bs" by blast
      moreover have "closes n (t # bs)"
        unfolding Suc closes.simps
        using Closing \<open>closes m bs\<close> nested_Nil by (metis append_Nil)
      ultimately show ?thesis by (intro exI [of _ "t # bs"]) auto
    qed
  next
    case Application
    with Cons.prems have "scan_group (int (Suc n)) (i + 1) ts = (0, j)" by simp
    from Cons.IH [OF this] obtain bs c rest where "ts = bs @ c # rest" "j = i + 1 + length bs"
      "tag_class c = Closing" "closes n bs" by blast
    then show ?thesis using closes_atom [of t n bs] Application by (intro exI [of _ "t # bs"]) auto
  next
    case Context
    with Cons.prems have "scan_group (int (Suc n)) (i + 1) ts = (0, j)" by simp
    from Cons.IH [OF this] obtain bs c rest where "ts = bs @ c # rest" "j = i + 1 + length bs"
      "tag_class c = Closing" "closes n bs" by blast
    then show ?thesis using closes_atom [of t n bs] Context by (intro exI [of _ "t # bs"]) auto
  qed
qed

lemma pop_context_group:
  assumes "tag_class p = Opening" "nested b" "tag_class c = Closing"
  shows "pop_context (p # b @ c # rest) = Inr (p # b @ [c], rest)"
proof -
  have "scan_group 0 0 (p # b @ c # rest) = (0, Suc (length b))"
    using assms scan_nested [OF assms(2), of 1 1 "c # rest"] by simp
  then show ?thesis using assms(1) by (simp add: pop_context_def)
qed

lemma pop_context_groupD:
  assumes "pop_context (p # ts) = Inr (r, rest)" "tag_class p = Opening"
  shows "\<exists>b c. r = p # b @ [c] \<and> nested b \<and> tag_class c = Closing \<and> ts = b @ c # rest"
proof -
  obtain lvl i where s: "scan_group 0 0 (p # ts) = (lvl, i)" by force
  with assms have "lvl = 0" and r: "r = take (i + 1) (p # ts)" "rest = drop (i + 1) (p # ts)"
    by (auto simp: pop_context_def)
  with s assms(2) have "scan_group (int (Suc 0)) 1 ts = (0, i)" by simp
  from scan_group_closes [OF this] obtain b c rest' where "ts = b @ c # rest'" "i = 1 + length b"
    "tag_class c = Closing" "nested b" by auto
  then show ?thesis using r by auto
qed

section \<open>Properties\<close>

text \<open>
  Tag round trip: a well-formed tag encodes to octets that decode to exactly
  that tag, whatever octets follow, and the decoder leaves exactly those that follow.
\<close>

theorem tag_roundtrip:
  assumes "wf_tag t"
  shows "\<exists>bs. tag_encode t = Inr bs \<and> tag_decode (bs @ rest) = Inr (t, rest)"
  using tags.enc_total [OF assms] tags.dec_enc [OF assms] by blast

theorem tag_roundtrip_witness:
  "tag_encode \<lparr>tag_class = Context, tag_number = 20, tag_lvt = 5, tag_data = [1, 2, 3, 4, 5]\<rparr>
     = Inr [0xFD, 20, 5, 1, 2, 3, 4, 5]
   \<and> tag_decode [0xFD, 20, 5, 1, 2, 3, 4, 5, 99]
     = Inr (\<lparr>tag_class = Context, tag_number = 20, tag_lvt = 5, tag_data = [1, 2, 3, 4, 5]\<rparr>, [99])"
proof -
  let ?t = "\<lparr>tag_class = Context, tag_number = 20, tag_lvt = 5, tag_data = [1, 2, 3, 4, 5]\<rparr>"
  have wf: "wf_tag ?t" by (simp add: wf_tag_def)
  have e: "tag_encode ?t = Inr [0xFD, 20, 5, 1, 2, 3, 4, 5]"
    using tag_encode_octets [OF wf]
    by (simp add: tag_initial_octet_def number_octets_def lvt_octets_def int_shift)
  from tag_roundtrip [OF wf, of "[99]"] e show ?thesis by simp
qed

text \<open>
  Every tag the decoder accepts is well formed (number one octet, length below
  \<open>2 ^ 32\<close>, data of the announced length), at least one octet has been consumed, and
  re-encoding it gives octets that decode to the same tag again.
\<close>

theorem tag_decode_sound:
  assumes "tag_decode s = Inr (t, s')"
  shows "wf_tag t \<and> length s' < length s \<and>
    (\<exists>bs. tag_encode t = Inr bs \<and> tag_decode (bs @ s') = Inr (t, s'))"
  using tag_decode_wf [OF assms] tags.enc_total [OF tag_decode_wf(1) [OF assms]]
    tags.dec_enc [OF tag_decode_wf(1) [OF assms]] by blast

theorem tag_decode_sound_witness:
  "wf_tag \<lparr>tag_class = Opening, tag_number = 3, tag_lvt = 0, tag_data = []\<rparr>
   \<and> length [0x2A::byte] < length [0x36, 0x2A::byte]"
proof -
  have "tag_decode [0x36, 0x2A] = Inr (\<lparr>tag_class = Opening, tag_number = 3, tag_lvt = 0, tag_data = []\<rparr>, [0x2A])"
    by (simp add: tag_decode_def tag_decode_body_def tag_get_lvt_def Let_def int_bits tn_boolean_def)
  from tag_decode_sound [OF this] show ?thesis by blast
qed

text \<open>
  Tag list round trip: decoding the encoding of a list of well-formed tags with
  the loop \<^verbatim>\<open>while pdu_data.pduData\<close> gives the list back, and two lists with the same
  encoding are equal.
\<close>

theorem tag_list_roundtrip:
  assumes "\<forall>t\<in>set ts. wf_tag t"
  shows "(\<exists>bs. tag_list_encode ts = Inr bs \<and> tag_list_decode bs = Inr ts) \<and>
    (\<forall>us. (\<forall>u\<in>set us. wf_tag u) \<longrightarrow> tag_list_encode us = tag_list_encode ts \<longrightarrow> us = ts)"
  using tags.stream_roundtrip [OF assms] tags.enc_all_inj assms by blast

theorem tag_list_roundtrip_witness:
  "\<exists>bs. tag_list_encode [opening_tag 1, context_tag 0 [7, 8], closing_tag 1] = Inr bs
     \<and> tag_list_decode bs = Inr [opening_tag 1, context_tag 0 [7, 8], closing_tag 1]"
  by (rule tag_list_roundtrip [THEN conjunct1]) (simp add: wf_tag_constructors)

text \<open>
  \<open>pop_context\<close> implements the nesting grammar: from a list that starts with an
  opening tag it returns a group \<open>r\<close> and the rest exactly if \<open>r\<close> is the opening tag, a
  properly nested body and a closing tag, followed by the rest; otherwise it raises
  \<^verbatim>\<open>InvalidTag\<close>.
\<close>

theorem pop_context_grammar:
  assumes "tag_class p = Opening"
  shows "(\<forall>r rest. pop_context (p # ts) = Inr (r, rest) \<longleftrightarrow>
      (\<exists>b c. r = p # b @ [c] \<and> nested b \<and> tag_class c = Closing \<and> ts = b @ c # rest))
    \<and> ((\<nexists>b c rest. nested b \<and> tag_class c = Closing \<and> ts = b @ c # rest) \<longleftrightarrow>
      pop_context (p # ts) = Inl InvalidTag)"
proof (intro conjI allI)
  show "pop_context (p # ts) = Inr (r, rest) \<longleftrightarrow>
      (\<exists>b c. r = p # b @ [c] \<and> nested b \<and> tag_class c = Closing \<and> ts = b @ c # rest)" for r rest
    using pop_context_group [OF assms] pop_context_groupD [OF _ assms] by blast
  show "(\<nexists>b c rest. nested b \<and> tag_class c = Closing \<and> ts = b @ c # rest) \<longleftrightarrow>
      pop_context (p # ts) = Inl InvalidTag"
  proof (cases "pop_context (p # ts)")
    case (Inl e)
    then have "e = InvalidTag"
      using assms by (auto simp: pop_context_def split: prod.splits if_splits)
    then show ?thesis using Inl pop_context_group [OF assms] by fastforce
  next
    case (Inr x)
    then show ?thesis using pop_context_groupD [OF _ assms] by (cases x) fastforce
  qed
qed

theorem pop_context_grammar_witness:
  "pop_context [opening_tag 1, context_tag 0 [7], opening_tag 2, closing_tag 2, closing_tag 1, context_tag 3 []]
     = Inr ([opening_tag 1, context_tag 0 [7], opening_tag 2, closing_tag 2, closing_tag 1], [context_tag 3 []])"
proof -
  let ?b = "[context_tag 0 [7], opening_tag 2, closing_tag 2]"
  have g: "nested (opening_tag 2 # [] @ closing_tag 2 # [])"
    by (rule nested_group) (simp_all add: nested_Nil opening_tag_def closing_tag_def)
  have "nested ?b"
    by (rule nested_atom) (use g in \<open>simp_all add: context_tag_def\<close>)
  then have ex: "\<exists>b c. opening_tag 1 # ?b @ [closing_tag 1] = opening_tag 1 # b @ [c] \<and> nested b \<and>
      tag_class c = Closing \<and> ?b @ closing_tag 1 # [context_tag 3 []] = b @ c # [context_tag 3 []]"
    by (intro exI [of _ ?b] exI [of _ "closing_tag 1"]) (simp add: closing_tag_def)
  have "tag_class (opening_tag 1) = Opening" by (simp add: opening_tag_def)
  from pop_context_grammar [OF this, THEN conjunct1, rule_format, THEN iffD2, OF ex]
  show ?thesis by simp
qed

text \<open>
  Changing an application tag to a context tag and back keeps it, booleans
  included, whose value moves from the length field to a data octet and back.
\<close>

theorem app_context_roundtrip:
  assumes "wf_tag t" "tag_class t = Application" "tag_number t = tn_boolean \<longrightarrow> tag_lvt t < 256"
  shows "bindR (app_to_context c t) (context_to_app (tag_number t)) = Inr t"
  using assms
  by (auto simp: app_to_context_def context_to_app_def wf_tag_def context_tag_def
      application_tag_def codec_simps)

theorem app_context_roundtrip_witness:
  "bindR (app_to_context 4 \<lparr>tag_class = Application, tag_number = 1, tag_lvt = 1, tag_data = []\<rparr>)
     (context_to_app 1) = Inr \<lparr>tag_class = Application, tag_number = 1, tag_lvt = 1, tag_data = []\<rparr>"
  using app_context_roundtrip [of "\<lparr>tag_class = Application, tag_number = 1, tag_lvt = 1, tag_data = []\<rparr>" 4]
  by (simp add: wf_tag_def tn_boolean_def)

end
