(* ===== verification/Primitives.thy ===== *)
theory Primitives
  imports Tags
begin

text \<open>
  The atomic types of \<^verbatim>\<open>bacpypes3/primitivedata.py\<close>: the \<^verbatim>\<open>encode\<close>, \<^verbatim>\<open>decode\<close> and
  \<^verbatim>\<open>cast\<close> methods of Null, Boolean, Unsigned, Integer, OctetString, BitString, Enumerated,
  Date, Time and ObjectIdentifier.  The class attribute \<^verbatim>\<open>_context\<close> is the first argument.
  All of them implement one interface, an element codec over tag lists, and the interface
  gives the round trip down to octets through the tag codec.
\<close>

section \<open>The interface of an element\<close>

locale element_codec =
  fixes enc :: "int option \<Rightarrow> 'a \<Rightarrow> tag list result"
    and dec :: "int option \<Rightarrow> tag list \<Rightarrow> ('a \<times> tag list) result"
    and ok :: "'a \<Rightarrow> bool"
  assumes element_roundtrip:
      "ok x \<Longrightarrow> \<exists>ts. enc ctx x = Inr ts \<and> (\<forall>rest. dec ctx (ts @ rest) = Inr (x, rest))"
    and element_wf: "ok x \<Longrightarrow> \<forall>c\<in>set_option ctx. 0 \<le> c \<and> c \<le> 255 \<Longrightarrow> enc ctx x = Inr ts \<Longrightarrow>
      \<forall>t\<in>set ts. wf_tag t"
    and element_context: "ok x \<Longrightarrow> enc ctx x = Inr ts \<Longrightarrow> ctx' \<noteq> ctx \<Longrightarrow>
      dec ctx' (ts @ rest) = Inl InvalidTag"
begin

lemma wire_roundtrip:
  assumes "ok x" "\<forall>c\<in>set_option ctx. 0 \<le> c \<and> c \<le> 255"
  shows "\<exists>bs. bindR (enc ctx x) tag_list_encode = Inr bs \<and>
    bindR (tag_list_decode bs) (dec ctx) = Inr (x, [])"
proof -
  obtain ts where ts: "enc ctx x = Inr ts" "\<forall>rest. dec ctx (ts @ rest) = Inr (x, rest)"
    using element_roundtrip [OF assms(1)] by blast
  have "\<forall>t\<in>set ts. wf_tag t" using assms ts(1) by (rule element_wf)
  then obtain bs where "tag_list_encode ts = Inr bs" "tag_list_decode bs = Inr ts"
    using tags.stream_roundtrip by blast
  then show ?thesis using ts(1) ts(2) [rule_format, of "[]"] by simp
qed

end

text \<open>The tag check every decoder starts with and the tag every encoder ends with.\<close>

definition pop_tag :: "int option \<Rightarrow> int \<Rightarrow> tag list \<Rightarrow> (tag \<times> tag list) result" where
  "pop_tag ctx tnum ts =
     (case tag_list_pop ts of
        (None, _) \<Rightarrow> Inl InvalidTag
      | (Some t, ts') \<Rightarrow>
          (case tag_class t of
             Application \<Rightarrow>
               if ctx \<noteq> None then Inl InvalidTag
               else if tag_number t \<noteq> tnum then Inl InvalidTag
               else Inr (t, ts')
           | Context \<Rightarrow>
               (case ctx of
                  None \<Rightarrow> Inl InvalidTag
                | Some c \<Rightarrow> if tag_number t \<noteq> c then Inl InvalidTag else Inr (t, ts'))
           | _ \<Rightarrow> Inl InvalidTag))"

definition atomic_tag :: "int option \<Rightarrow> int \<Rightarrow> byte list \<Rightarrow> tag" where
  "atomic_tag ctx tnum d =
     (case ctx of None \<Rightarrow> application_tag tnum d | Some c \<Rightarrow> context_tag c d)"

lemma pop_tag_atomic:
  "pop_tag ctx tnum (atomic_tag ctx tnum d # ts) = Inr (atomic_tag ctx tnum d, ts)"
  by (cases ctx) (simp_all add: pop_tag_def atomic_tag_def application_tag_def context_tag_def)

lemma pop_tag_other_context:
  "ctx' \<noteq> ctx \<Longrightarrow> pop_tag ctx' tnum (atomic_tag ctx tnum d # ts) = Inl InvalidTag"
  by (cases ctx; cases ctx') (simp_all add: pop_tag_def atomic_tag_def application_tag_def context_tag_def)

lemma tag_data_atomic [simp]: "tag_data (atomic_tag ctx tnum d) = d"
  by (cases ctx) (simp_all add: atomic_tag_def application_tag_def context_tag_def)

text \<open>The elements whose value is the data of one tag.\<close>

locale atomic_codec =
  fixes tnum :: int
    and to_data :: "'a \<Rightarrow> byte list result"
    and of_data :: "byte list \<Rightarrow> 'a result"
    and ok :: "'a \<Rightarrow> bool"
    and enc :: "int option \<Rightarrow> 'a \<Rightarrow> tag list result"
    and dec :: "int option \<Rightarrow> tag list \<Rightarrow> ('a \<times> tag list) result"
  assumes tnum_range: "0 \<le> tnum \<and> tnum \<le> 255 \<and> tnum \<noteq> tn_boolean"
    and enc_eq: "enc ctx x = bindR (to_data x) (\<lambda>d. Inr [atomic_tag ctx tnum d])"
    and dec_eq: "dec ctx ts =
      bindR (pop_tag ctx tnum ts) (\<lambda>(t, ts). bindR (of_data (tag_data t)) (\<lambda>x. Inr (x, ts)))"
    and data_roundtrip: "ok x \<Longrightarrow>
      \<exists>d. to_data x = Inr d \<and> of_data d = Inr x \<and> length d < 4294967296"

sublocale atomic_codec \<subseteq> element_codec enc dec ok
proof
  fix x :: 'a and ctx :: "int option"
  assume "ok x"
  then obtain d where d: "to_data x = Inr d" "of_data d = Inr x" "length d < 4294967296"
    using data_roundtrip by blast
  then show "\<exists>ts. enc ctx x = Inr ts \<and> (\<forall>rest. dec ctx (ts @ rest) = Inr (x, rest))"
    by (simp add: enc_eq dec_eq pop_tag_atomic)
  show "\<forall>t\<in>set ts. wf_tag t"
    if "\<forall>c\<in>set_option ctx. 0 \<le> c \<and> c \<le> 255" "enc ctx x = Inr ts" for ts
    using that d tnum_range
    by (cases ctx) (auto simp: enc_eq atomic_tag_def intro!: wf_tag_constructors)
  show "dec ctx' (ts @ rest) = Inl InvalidTag" if "enc ctx x = Inr ts" "ctx' \<noteq> ctx" for ts ctx' rest
    using that d by (auto simp: enc_eq dec_eq pop_tag_other_context)
qed

section \<open>Null and Boolean\<close>

definition null_of_data :: "byte list \<Rightarrow> unit result" where
  "null_of_data d = (if length d \<noteq> 0 then Inl InvalidTag else Inr ())"

definition null_encode :: "int option \<Rightarrow> unit \<Rightarrow> tag list result" where
  "null_encode ctx x = Inr [atomic_tag ctx tn_null []]"

definition null_decode :: "int option \<Rightarrow> tag list \<Rightarrow> (unit \<times> tag list) result" where
  "null_decode ctx ts =
     bindR (pop_tag ctx tn_null ts) (\<lambda>(t, ts). bindR (null_of_data (tag_data t)) (\<lambda>x. Inr (x, ts)))"

interpretation null: atomic_codec tn_null "\<lambda>_. Inr []" null_of_data "\<lambda>_. True" null_encode null_decode
  by unfold_locales (simp_all add: tag_numbers null_encode_def null_decode_def null_of_data_def)

definition boolean_encode :: "int option \<Rightarrow> bool \<Rightarrow> tag list result" where
  "boolean_encode ctx x =
     (case ctx of
        None \<Rightarrow> Inr [\<lparr>tag_class = Application, tag_number = tn_boolean,
                      tag_lvt = of_bool x, tag_data = []\<rparr>]
      | Some c \<Rightarrow> Inr [context_tag c [of_bool x]])"

definition boolean_decode :: "int option \<Rightarrow> tag list \<Rightarrow> (bool \<times> tag list) result" where
  "boolean_decode ctx ts =
     bindR (pop_tag ctx tn_boolean ts) (\<lambda>(t, ts).
       if tag_class t = Application then Inr (tag_lvt t \<noteq> 0, ts)
       else (case tag_data t of [b] \<Rightarrow> Inr (b \<noteq> 0, ts) | _ \<Rightarrow> Inl InvalidTag))"

interpretation boolean: element_codec boolean_encode boolean_decode "\<lambda>_. True"
proof
  fix x :: bool and ctx :: "int option"
  show "\<exists>ts. boolean_encode ctx x = Inr ts \<and> (\<forall>rest. boolean_decode ctx (ts @ rest) = Inr (x, rest))"
    by (cases ctx)
       (auto simp: boolean_encode_def boolean_decode_def pop_tag_def context_tag_def)
  show "\<forall>t\<in>set ts. wf_tag t"
    if "\<forall>c\<in>set_option ctx. 0 \<le> c \<and> c \<le> 255" "boolean_encode ctx x = Inr ts" for ts
    using that by (cases ctx) (auto simp: boolean_encode_def context_tag_def wf_tag_def tn_boolean_def)
  show "boolean_decode ctx' (ts @ rest) = Inl InvalidTag"
    if "boolean_encode ctx x = Inr ts" "ctx' \<noteq> ctx" for ts ctx' rest
    using that by (cases ctx; cases ctx')
      (auto simp: boolean_encode_def boolean_decode_def pop_tag_def context_tag_def)
qed

section \<open>Unsigned and Enumerated\<close>

text \<open>\<^verbatim>\<open>while (len(data) > 1) and (data[0] == 0): del data[0]\<close>\<close>

fun strip_zeros :: "byte list \<Rightarrow> byte list" where
  "strip_zeros (b # c # bs) = (if b = 0 then strip_zeros (c # bs) else b # c # bs)"
| "strip_zeros bs = bs"

definition unsigned_to_data :: "int \<Rightarrow> byte list result" where
  "unsigned_to_data n =
     (if 0 \<le> n \<and> n < 2 ^ 32 then Inr (strip_zeros (be_bytes 4 n)) else Inl StructError)"

text \<open>\<^verbatim>\<open>cast\<close> on an integer, with the class limits.\<close>

definition unsigned_cast :: "int option \<Rightarrow> int option \<Rightarrow> int \<Rightarrow> int result" where
  "unsigned_cast lo hi n =
     (if n < 0 then Inl ValueError
      else if (case lo of Some l \<Rightarrow> n < l | None \<Rightarrow> False) then Inl ValueError
      else if (case hi of Some h \<Rightarrow> n > h | None \<Rightarrow> False) then Inl ValueError
      else Inr n)"

text \<open>\<^verbatim>\<open>for c in tag.tag_data: value = (value << 8) + c\<close>\<close>

definition accumulate :: "byte list \<Rightarrow> int" where
  "accumulate d = foldl (\<lambda>v c. push_bit 8 v + uint c) 0 d"

definition unsigned_of_data :: "int option \<Rightarrow> int option \<Rightarrow> byte list \<Rightarrow> int result" where
  "unsigned_of_data lo hi d =
     (if length d < 1 then Inl InvalidTag else unsigned_cast lo hi (accumulate d))"

definition unsigned_encode :: "int option \<Rightarrow> int \<Rightarrow> tag list result" where
  "unsigned_encode ctx n = bindR (unsigned_to_data n) (\<lambda>d. Inr [atomic_tag ctx tn_unsigned d])"

definition unsigned_decode ::
    "int option \<Rightarrow> int option \<Rightarrow> int option \<Rightarrow> tag list \<Rightarrow> (int \<times> tag list) result" where
  "unsigned_decode lo hi ctx ts =
     bindR (pop_tag ctx tn_unsigned ts) (\<lambda>(t, ts).
     bindR (unsigned_of_data lo hi (tag_data t)) (\<lambda>n. Inr (n, ts)))"

lemma accumulate_be_int [simp]: "accumulate d = be_int d"
  by (simp add: accumulate_def be_int_def int_shift)

lemma be_int_Cons: "be_int (b # bs) = uint b * 256 ^ length bs + be_int bs"
proof (induction bs rule: rev_induct)
  case (snoc c bs)
  have "be_int (b # bs @ [c]) = be_int ((b # bs) @ [c])" by simp
  then show ?case using snoc by (simp only: be_int_simps) (simp add: algebra_simps)
qed (simp add: be_int_def)

lemma be_int_strip_zeros [simp]: "be_int (strip_zeros bs) = be_int bs"
  by (induction bs rule: strip_zeros.induct) (auto simp: be_int_Cons)

lemma strip_zeros_length: "length (strip_zeros bs) \<le> length bs"
  by (induction bs rule: strip_zeros.induct) auto

lemma strip_zeros_nonempty: "bs \<noteq> [] \<Longrightarrow> strip_zeros bs \<noteq> []"
  by (induction bs rule: strip_zeros.induct) auto

lemma strip_zeros_head: "1 < length (strip_zeros bs) \<Longrightarrow> hd (strip_zeros bs) \<noteq> 0"
  by (induction bs rule: strip_zeros.induct) (auto split: if_splits)

lemma strip_zeros_minimal:
  assumes "d \<noteq> []" "be_int d = be_int bs"
  shows "length (strip_zeros bs) \<le> length d"
proof (rule ccontr)
  assume "\<not> ?thesis"
  then have len: "length d < length (strip_zeros bs)" by simp
  then have "1 < length (strip_zeros bs)" using assms(1) by (cases d) auto
  then obtain b cs where s: "strip_zeros bs = b # cs" "b \<noteq> 0"
    using strip_zeros_head [of bs] by (cases "strip_zeros bs") auto
  have "1 \<le> uint b" using s(2) byte_bounds(1) [of b] uint_0_iff [of b] by linarith
  then have "256 ^ length cs \<le> uint b * (256 ^ length cs :: int)" by simp
  then have "256 ^ length cs \<le> be_int (strip_zeros bs)" by (simp add: s be_int_Cons add_increasing2)
  moreover have "(256::int) ^ length d \<le> 256 ^ length cs" using len s by (simp add: power_increasing)
  moreover have "be_int d < 256 ^ length d" using be_int_bounds by blast
  ultimately show False using assms(2) by simp
qed

definition unsigned_ok :: "int option \<Rightarrow> int option \<Rightarrow> int \<Rightarrow> bool" where
  "unsigned_ok lo hi n \<longleftrightarrow> 0 \<le> n \<and> n < 2 ^ 32 \<and> unsigned_cast lo hi n = Inr n"

lemma unsigned_data_roundtrip:
  assumes "unsigned_ok lo hi n"
  shows "\<exists>d. unsigned_to_data n = Inr d \<and> unsigned_of_data lo hi d = Inr n \<and> length d < 4294967296"
proof -
  have "be_int (be_bytes 4 n) = n" using assms by (simp add: be_int_be_bytes unsigned_ok_def)
  then show ?thesis
    using assms strip_zeros_nonempty [of "be_bytes 4 n"] strip_zeros_length [of "be_bytes 4 n"]
    by (auto simp: unsigned_to_data_def unsigned_of_data_def unsigned_ok_def Suc_le_eq)
qed

interpretation unsigned: atomic_codec tn_unsigned unsigned_to_data "unsigned_of_data lo hi"
    "unsigned_ok lo hi" unsigned_encode "unsigned_decode lo hi" for lo hi
  by unfold_locales
     (simp_all add: tag_numbers unsigned_encode_def unsigned_decode_def unsigned_data_roundtrip)

definition enumerated_cast :: "int option \<Rightarrow> int option \<Rightarrow> int \<Rightarrow> int result" where
  "enumerated_cast lo hi n =
     (if (case lo of Some l \<Rightarrow> n < l | None \<Rightarrow> False) then Inl ValueError
      else if (case hi of Some h \<Rightarrow> n > h | None \<Rightarrow> False) then Inl ValueError
      else Inr n)"

definition enumerated_of_data :: "int option \<Rightarrow> int option \<Rightarrow> byte list \<Rightarrow> int result" where
  "enumerated_of_data lo hi d =
     (if length d < 1 then Inl InvalidTag else enumerated_cast lo hi (accumulate d))"

definition enumerated_encode :: "int option \<Rightarrow> int \<Rightarrow> tag list result" where
  "enumerated_encode ctx n = bindR (unsigned_to_data n) (\<lambda>d. Inr [atomic_tag ctx tn_enumerated d])"

definition enumerated_decode ::
    "int option \<Rightarrow> int option \<Rightarrow> int option \<Rightarrow> tag list \<Rightarrow> (int \<times> tag list) result" where
  "enumerated_decode lo hi ctx ts =
     bindR (pop_tag ctx tn_enumerated ts) (\<lambda>(t, ts).
     bindR (enumerated_of_data lo hi (tag_data t)) (\<lambda>n. Inr (n, ts)))"

definition enumerated_ok :: "int option \<Rightarrow> int option \<Rightarrow> int \<Rightarrow> bool" where
  "enumerated_ok lo hi n \<longleftrightarrow> 0 \<le> n \<and> n < 2 ^ 32 \<and> enumerated_cast lo hi n = Inr n"

lemma enumerated_data_roundtrip:
  assumes "enumerated_ok lo hi n"
  shows "\<exists>d. unsigned_to_data n = Inr d \<and> enumerated_of_data lo hi d = Inr n \<and> length d < 4294967296"
proof -
  have "unsigned_ok None None n"
    using assms by (simp add: enumerated_ok_def unsigned_ok_def unsigned_cast_def)
  from unsigned_data_roundtrip [OF this] show ?thesis
    using assms by (auto simp: enumerated_ok_def enumerated_of_data_def unsigned_of_data_def
        unsigned_cast_def split: if_splits)
qed

interpretation enumerated: atomic_codec tn_enumerated unsigned_to_data "enumerated_of_data lo hi"
    "enumerated_ok lo hi" enumerated_encode "enumerated_decode lo hi" for lo hi
  by unfold_locales
     (simp_all add: tag_numbers enumerated_encode_def enumerated_decode_def enumerated_data_roundtrip)

section \<open>Integer\<close>

text \<open>The two octet-dropping loops of \<^verbatim>\<open>Integer.encode\<close>.\<close>

fun strip_negative :: "byte list \<Rightarrow> byte list" where
  "strip_negative (b # c # bs) =
     (if uint b \<noteq> 255 then b # c # bs
      else if uint c < 128 then b # c # bs
      else strip_negative (c # bs))"
| "strip_negative bs = bs"

fun strip_positive :: "byte list \<Rightarrow> byte list" where
  "strip_positive (b # c # bs) =
     (if uint b \<noteq> 0 then b # c # bs
      else if uint c \<ge> 128 then b # c # bs
      else strip_positive (c # bs))"
| "strip_positive bs = bs"

definition integer_to_data :: "int \<Rightarrow> byte list" where
  "integer_to_data n =
     (let d = be_bytes 4 (n AND 0xFFFFFFFF)
      in if n < 0 then strip_negative d else strip_positive d)"

definition integer_cast :: "int option \<Rightarrow> int option \<Rightarrow> int \<Rightarrow> int result" where
  "integer_cast lo hi n =
     (if (case lo of Some l \<Rightarrow> n < l | None \<Rightarrow> False) then Inl ValueError
      else if (case hi of Some h \<Rightarrow> n > h | None \<Rightarrow> False) then Inl ValueError
      else Inr n)"

text \<open>The sign extension and accumulation of \<^verbatim>\<open>Integer.decode\<close>.\<close>

fun integer_value :: "byte list \<Rightarrow> int" where
  "integer_value [] = 0"
| "integer_value (b # bs) =
     foldl (\<lambda>v c. push_bit 8 v OR uint c)
       (if uint b AND 0x80 \<noteq> 0 then push_bit 8 (-1) OR uint b else uint b) bs"

definition integer_of_data :: "int option \<Rightarrow> int option \<Rightarrow> byte list \<Rightarrow> int result" where
  "integer_of_data lo hi d =
     (if length d < 1 then Inl InvalidTag else integer_cast lo hi (integer_value d))"

definition integer_encode :: "int option \<Rightarrow> int \<Rightarrow> tag list result" where
  "integer_encode ctx n = Inr [atomic_tag ctx tn_integer (integer_to_data n)]"

definition integer_decode ::
    "int option \<Rightarrow> int option \<Rightarrow> int option \<Rightarrow> tag list \<Rightarrow> (int \<times> tag list) result" where
  "integer_decode lo hi ctx ts =
     bindR (pop_tag ctx tn_integer ts) (\<lambda>(t, ts).
     bindR (integer_of_data lo hi (tag_data t)) (\<lambda>n. Inr (n, ts)))"

text \<open>Two's complement of an octet string, the meaning of the encoding.\<close>

definition be_sint :: "byte list \<Rightarrow> int" where
  "be_sint bs = (if bs \<noteq> [] \<and> uint (hd bs) \<ge> 128 then be_int bs - 256 ^ length bs else be_int bs)"

lemma shift_or_octet: "push_bit 8 v OR uint (c :: byte) = v * 256 + uint c"
proof -
  have "\<not> bit (push_bit 8 v) n \<or> \<not> bit (uint c) n" for n
    by (auto simp: bit_push_bit_iff bit_uint_iff)
  then have "push_bit 8 v + uint c = push_bit 8 v OR uint c" by (rule disjunctive_add)
  then show ?thesis by (simp add: int_shift)
qed

lemma sign_extend_octet: "NOT (mask 8) OR uint (c :: byte) = uint c - 256"
  using shift_or_octet [of "-1" c] by simp

lemma octet_sign: "uint (b :: byte) AND 128 = 0 \<longleftrightarrow> uint b < 128"
  using byte_bounds [of b] by (auto simp: int_and_flag) presburger

lemma integer_value_be_sint: "integer_value bs = be_sint bs"
proof (cases bs)
  case (Cons b cs)
  have "foldl (\<lambda>v c. push_bit 8 v OR uint c) v cs = v * 256 ^ length cs + be_int cs" for v cs
    by (induction cs rule: rev_induct) (simp_all add: shift_or_octet algebra_simps)
  then show ?thesis
    by (auto simp: Cons be_sint_def octet_sign be_int_Cons sign_extend_octet left_diff_distrib)
qed (simp add: be_sint_def)

lemma be_sint_strip_positive: "be_sint (strip_positive bs) = be_sint bs"
  by (induction bs rule: strip_positive.induct) (auto simp: be_sint_def be_int_Cons)

lemma be_sint_strip_negative: "be_sint (strip_negative bs) = be_sint bs"
  by (induction bs rule: strip_negative.induct) (auto simp: be_sint_def be_int_Cons)

lemma be_sint_be_int:
  "bs \<noteq> [] \<Longrightarrow> be_sint bs = (if be_int bs \<ge> 128 * 256 ^ (length bs - 1) then be_int bs - 256 ^ length bs else be_int bs)"
proof (cases bs)
  case (Cons b cs)
  have "uint b \<ge> 128 \<longleftrightarrow> uint b * 256 ^ length cs + be_int cs \<ge> 128 * 256 ^ length cs"
  proof
    assume "128 \<le> uint b"
    then have "128 * 256 ^ length cs \<le> uint b * (256 ^ length cs :: int)" by simp
    then show "uint b * 256 ^ length cs + be_int cs \<ge> 128 * 256 ^ length cs" by (simp add: add_increasing2)
  next
    assume a: "uint b * 256 ^ length cs + be_int cs \<ge> 128 * 256 ^ length cs"
    show "128 \<le> uint b"
    proof (rule ccontr)
      assume "\<not> ?thesis"
      then have "uint b + 1 \<le> 128" by simp
      then have "(uint b + 1) * 256 ^ length cs \<le> 128 * (256 ^ length cs :: int)"
        by (intro mult_right_mono) auto
      moreover have "(uint b + 1) * 256 ^ length cs = uint b * 256 ^ length cs + (256 ^ length cs :: int)"
        by (simp add: distrib_right)
      ultimately show False using a be_int_bounds [of cs] by linarith
    qed
  qed
  then show ?thesis by (simp add: Cons be_sint_def be_int_Cons)
qed simp

definition integer_ok :: "int option \<Rightarrow> int option \<Rightarrow> int \<Rightarrow> bool" where
  "integer_ok lo hi n \<longleftrightarrow> - (2 ^ 31) \<le> n \<and> n < 2 ^ 31 \<and> integer_cast lo hi n = Inr n"

lemma be_sint_integer_to_data: "be_sint (integer_to_data n) = be_sint (be_bytes 4 (n mod 2 ^ 32))"
  by (simp add: integer_to_data_def Let_def be_sint_strip_positive be_sint_strip_negative int_and_low)

lemma integer_to_data_value:
  assumes "- (2 ^ 31) \<le> n" "n < 2 ^ 31"
  shows "integer_value (integer_to_data n) = n"
proof -
  have "be_bytes 4 (n mod 2 ^ 32) \<noteq> []" by simp
  from be_sint_be_int [OF this]
  have "be_sint (be_bytes 4 (n mod 2 ^ 32)) =
      (if n mod 2 ^ 32 \<ge> 2 ^ 31 then n mod 2 ^ 32 - 2 ^ 32 else n mod 2 ^ 32)"
    by (simp add: be_int_be_bytes)
  also have "\<dots> = n"
  proof (cases "0 \<le> n")
    case True
    then show ?thesis using assms by simp
  next
    case False
    then have "n mod 2 ^ 32 = n + 2 ^ 32"
      using assms by (intro int_mod_pos_eq [where q = "-1"]) auto
    then show ?thesis using assms False by simp
  qed
  finally show ?thesis by (simp add: integer_value_be_sint be_sint_integer_to_data)
qed

lemma strip_positive_length:
  "bs \<noteq> [] \<Longrightarrow> 1 \<le> length (strip_positive bs) \<and> length (strip_positive bs) \<le> length bs"
  by (induction bs rule: strip_positive.induct) auto

lemma strip_negative_length:
  "bs \<noteq> [] \<Longrightarrow> 1 \<le> length (strip_negative bs) \<and> length (strip_negative bs) \<le> length bs"
  by (induction bs rule: strip_negative.induct) auto

lemma integer_to_data_length: "1 \<le> length (integer_to_data n) \<and> length (integer_to_data n) \<le> 4"
  using strip_positive_length [of "be_bytes 4 (n AND 0xFFFFFFFF)"]
    strip_negative_length [of "be_bytes 4 (n AND 0xFFFFFFFF)"]
  by (simp add: integer_to_data_def Let_def)

lemma integer_data_roundtrip:
  assumes "integer_ok lo hi n"
  shows "\<exists>d. Inr (integer_to_data n) = (Inr d :: byte list result) \<and>
    integer_of_data lo hi d = Inr n \<and> length d < 4294967296"
  using assms integer_to_data_length [of n]
  by (auto simp: integer_ok_def integer_of_data_def integer_to_data_value)

interpretation integer: atomic_codec tn_integer "\<lambda>n. Inr (integer_to_data n)" "integer_of_data lo hi"
    "integer_ok lo hi" integer_encode "integer_decode lo hi" for lo hi
  by unfold_locales
     (simp_all add: tag_numbers integer_encode_def integer_decode_def integer_data_roundtrip [simplified])

section \<open>OctetString, Date and Time\<close>

definition octet_string_of_data :: "nat option \<Rightarrow> nat option \<Rightarrow> byte list \<Rightarrow> byte list result" where
  "octet_string_of_data min_length max_length d =
     (if (case min_length of Some l \<Rightarrow> length d < l | None \<Rightarrow> False) then Inl ValueError
      else if (case max_length of Some h \<Rightarrow> length d > h | None \<Rightarrow> False) then Inl ValueError
      else Inr d)"

definition octet_string_encode :: "int option \<Rightarrow> byte list \<Rightarrow> tag list result" where
  "octet_string_encode ctx x = Inr [atomic_tag ctx tn_octetString x]"

definition octet_string_decode ::
    "nat option \<Rightarrow> nat option \<Rightarrow> int option \<Rightarrow> tag list \<Rightarrow> (byte list \<times> tag list) result" where
  "octet_string_decode mn mx ctx ts =
     bindR (pop_tag ctx tn_octetString ts) (\<lambda>(t, ts).
     bindR (octet_string_of_data mn mx (tag_data t)) (\<lambda>x. Inr (x, ts)))"

definition octet_string_ok :: "nat option \<Rightarrow> nat option \<Rightarrow> byte list \<Rightarrow> bool" where
  "octet_string_ok mn mx x \<longleftrightarrow> octet_string_of_data mn mx x = Inr x \<and> length x < 2 ^ 32"

interpretation octet_string: atomic_codec tn_octetString Inr "octet_string_of_data mn mx"
    "octet_string_ok mn mx" octet_string_encode "octet_string_decode mn mx" for mn mx
  by unfold_locales
     (simp_all add: tag_numbers octet_string_encode_def octet_string_decode_def octet_string_ok_def)

text \<open>\<^verbatim>\<open>bytearray(self)\<close> of a tuple of integers.\<close>

fun octets :: "int list \<Rightarrow> byte list result" where
  "octets [] = Inr []"
| "octets (n # ns) = bindR (pdu_put n []) (\<lambda>b. bindR (octets ns) (\<lambda>bs. Inr (b @ bs)))"

lemma octets_ok: "\<forall>n\<in>set ns. 0 \<le> n \<and> n < 256 \<Longrightarrow> octets ns = Inr (map word_of_int ns)"
  by (induction ns) (auto simp: codec_simps)

type_synonym quad = "int \<times> int \<times> int \<times> int"

definition quad_ok :: "quad \<Rightarrow> bool" where
  "quad_ok q \<longleftrightarrow> (case q of (a, b, c, d) \<Rightarrow> \<forall>n\<in>{a, b, c, d}. 0 \<le> n \<and> n < 256)"

definition quad_to_data :: "quad \<Rightarrow> byte list result" where
  "quad_to_data q = (case q of (a, b, c, d) \<Rightarrow> octets [a, b, c, d])"

text \<open>\<^verbatim>\<open>Date.cast\<close> of a 4-tuple allows a full year.\<close>

definition date_cast :: "quad \<Rightarrow> quad" where
  "date_cast q = (case q of (y, m, d, w) \<Rightarrow> if y > 1900 then (y - 1900, m, d, w) else (y, m, d, w))"

definition date_of_data :: "byte list \<Rightarrow> quad result" where
  "date_of_data bs =
     (case bs of [a, b, c, d] \<Rightarrow> Inr (date_cast (uint a, uint b, uint c, uint d)) | _ \<Rightarrow> Inl InvalidTag)"

definition time_of_data :: "byte list \<Rightarrow> quad result" where
  "time_of_data bs =
     (case bs of [a, b, c, d] \<Rightarrow> Inr (uint a, uint b, uint c, uint d) | _ \<Rightarrow> Inl InvalidTag)"

definition date_encode :: "int option \<Rightarrow> quad \<Rightarrow> tag list result" where
  "date_encode ctx x = bindR (quad_to_data x) (\<lambda>d. Inr [atomic_tag ctx tn_date d])"

definition date_decode :: "int option \<Rightarrow> tag list \<Rightarrow> (quad \<times> tag list) result" where
  "date_decode ctx ts =
     bindR (pop_tag ctx tn_date ts) (\<lambda>(t, ts). bindR (date_of_data (tag_data t)) (\<lambda>x. Inr (x, ts)))"

definition time_encode :: "int option \<Rightarrow> quad \<Rightarrow> tag list result" where
  "time_encode ctx x = bindR (quad_to_data x) (\<lambda>d. Inr [atomic_tag ctx tn_time d])"

definition time_decode :: "int option \<Rightarrow> tag list \<Rightarrow> (quad \<times> tag list) result" where
  "time_decode ctx ts =
     bindR (pop_tag ctx tn_time ts) (\<lambda>(t, ts). bindR (time_of_data (tag_data t)) (\<lambda>x. Inr (x, ts)))"

lemma quad_data_roundtrip:
  assumes "quad_ok x"
  shows "\<exists>d. quad_to_data x = Inr d \<and> date_of_data d = Inr x \<and> time_of_data d = Inr x \<and> length d < 4294967296"
proof -
  obtain a b c d where x: "x = (a, b, c, d)" by (cases x) auto
  then have "octets [a, b, c, d] = Inr (map word_of_int [a, b, c, d])"
    using assms by (intro octets_ok) (auto simp: quad_ok_def)
  then show ?thesis
    using assms by (simp add: x quad_to_data_def date_of_data_def time_of_data_def date_cast_def quad_ok_def)
qed

interpretation date: atomic_codec tn_date quad_to_data date_of_data quad_ok date_encode date_decode
  by unfold_locales
     (use quad_data_roundtrip in \<open>fastforce simp: tag_numbers date_encode_def date_decode_def\<close>)+

interpretation time: atomic_codec tn_time quad_to_data time_of_data quad_ok time_encode time_decode
  by unfold_locales
     (use quad_data_roundtrip in \<open>fastforce simp: tag_numbers time_encode_def time_decode_def\<close>)+

section \<open>ObjectIdentifier\<close>

definition object_type_high_limit :: int where "object_type_high_limit = 1023"

text \<open>\<^verbatim>\<open>cast\<close> of a pair and of an integer; the type goes through \<^verbatim>\<open>ObjectType\<close>.\<close>

definition object_identifier_cast_pair :: "int \<times> int \<Rightarrow> (int \<times> int) result" where
  "object_identifier_cast_pair arg =
     (case arg of (obj_type, obj_instance) \<Rightarrow>
        bindR (enumerated_cast (Some 0) (Some object_type_high_limit) obj_type) (\<lambda>obj_type.
        if obj_instance < 0 \<or> obj_instance > 4194303 then Inl ValueError
        else Inr (obj_type, obj_instance)))"

definition object_identifier_cast_int :: "int \<Rightarrow> (int \<times> int) result" where
  "object_identifier_cast_int arg =
     (if arg < 0 then Inl ValueError
      else bindR (enumerated_cast (Some 0) (Some object_type_high_limit) (drop_bit 22 arg))
        (\<lambda>obj_type. Inr (obj_type, arg AND 0x3FFFFF)))"

definition object_identifier_int :: "int \<times> int \<Rightarrow> int" where
  "object_identifier_int x = push_bit 22 (fst x) + snd x"

definition object_identifier_to_data :: "int \<times> int \<Rightarrow> byte list result" where
  "object_identifier_to_data x =
     (let n = object_identifier_int x
      in if 0 \<le> n \<and> n < 2 ^ 32 then Inr (be_bytes 4 n) else Inl StructError)"

definition object_identifier_of_data :: "byte list \<Rightarrow> (int \<times> int) result" where
  "object_identifier_of_data d =
     (if length d \<noteq> 4 then Inl InvalidTag else object_identifier_cast_int (be_int d))"

definition object_identifier_encode :: "int option \<Rightarrow> int \<times> int \<Rightarrow> tag list result" where
  "object_identifier_encode ctx x =
     bindR (object_identifier_to_data x) (\<lambda>d. Inr [atomic_tag ctx tn_objectIdentifier d])"

definition object_identifier_decode :: "int option \<Rightarrow> tag list \<Rightarrow> ((int \<times> int) \<times> tag list) result" where
  "object_identifier_decode ctx ts =
     bindR (pop_tag ctx tn_objectIdentifier ts) (\<lambda>(t, ts).
     bindR (object_identifier_of_data (tag_data t)) (\<lambda>x. Inr (x, ts)))"

definition object_identifier_ok :: "int \<times> int \<Rightarrow> bool" where
  "object_identifier_ok x \<longleftrightarrow> object_identifier_cast_pair x = Inr x"

lemma object_identifier_okD:
  "object_identifier_ok (t, i) \<Longrightarrow> 0 \<le> t \<and> t \<le> 1023 \<and> 0 \<le> i \<and> i \<le> 4194303"
  by (auto simp: object_identifier_ok_def object_identifier_cast_pair_def enumerated_cast_def
      object_type_high_limit_def bindR_eq_Inr_iff split: if_splits)

lemma object_identifier_data_roundtrip:
  assumes "object_identifier_ok x"
  shows "\<exists>d. object_identifier_to_data x = Inr d \<and> object_identifier_of_data d = Inr x \<and> length d < 4294967296"
proof -
  obtain t i where x: "x = (t, i)" by force
  note b = object_identifier_okD [OF assms [unfolded x]]
  have n: "object_identifier_int (t, i) = t * 4194304 + i"
    by (simp add: object_identifier_int_def int_shift)
  have "(t * 4194304 + i) div 4194304 = t" "(t * 4194304 + i) mod 4194304 = i"
    using b by simp_all
  moreover have "0 \<le> t * 4194304 + i \<and> t * 4194304 + i < 2 ^ 32" using b by auto
  ultimately show ?thesis
    using b by (simp add: object_identifier_to_data_def object_identifier_of_data_def Let_def n
        object_identifier_cast_int_def enumerated_cast_def object_type_high_limit_def
        be_int_be_bytes int_bits x)
qed

interpretation object_identifier: atomic_codec tn_objectIdentifier object_identifier_to_data
    object_identifier_of_data object_identifier_ok object_identifier_encode object_identifier_decode
  by unfold_locales
     (use object_identifier_data_roundtrip in
       \<open>simp_all add: tag_numbers object_identifier_encode_def object_identifier_decode_def\<close>)

section \<open>BitString\<close>

text \<open>Bits are the integers 0 and 1, as in the code's lists.\<close>

definition bitstring_unused :: "int list \<Rightarrow> nat" where
  "bitstring_unused bits = (let used = length bits mod 8 in if used \<noteq> 0 then 8 - used else 0)"

text \<open>\<^verbatim>\<open>x |= bits[i + j] << (7 - j)\<close> for \<open>j\<close> from 0 to 7.\<close>

definition octet_of_bits :: "int list \<Rightarrow> int" where
  "octet_of_bits bits = fold (\<lambda>j x. x OR push_bit (7 - j) (bits ! j)) [0..<8] 0"

fun pack_octets :: "int list \<Rightarrow> byte list result" where
  "pack_octets bits =
     (if bits = [] then Inr []
      else bindR (pdu_put (octet_of_bits (take 8 bits)) []) (\<lambda>b.
           bindR (pack_octets (drop 8 bits)) (\<lambda>bs. Inr (b @ bs))))"

declare pack_octets.simps [simp del]

definition bitstring_to_data :: "int list \<Rightarrow> byte list result" where
  "bitstring_to_data bits =
     (let unused = bitstring_unused bits
      in bindR (pdu_put (int unused) []) (\<lambda>h.
         bindR (pack_octets (bits @ replicate unused 0)) (\<lambda>bs. Inr (h @ bs))))"

definition bits_of_octet :: "byte \<Rightarrow> int list" where
  "bits_of_octet x = map (\<lambda>i. if uint x AND push_bit (7 - i) 1 \<noteq> 0 then 1 else 0) [0..<8]"

text \<open>The named-bit padding of \<^verbatim>\<open>cast\<close> on a list of 0s and 1s.\<close>

definition bitstring_cast :: "nat \<Rightarrow> int list \<Rightarrow> int list" where
  "bitstring_cast bitstring_length bits =
     (if length bits < bitstring_length
      then bits @ replicate (bitstring_length - length bits) 0 else bits)"

definition bitstring_of_data :: "nat \<Rightarrow> byte list \<Rightarrow> int list result" where
  "bitstring_of_data bitstring_length d =
     (case d of
        [] \<Rightarrow> Inl IndexError
      | u # rest \<Rightarrow>
          (let unused = unat u; bits = concat (map bits_of_octet rest);
               value = (if unused \<noteq> 0 then take (length bits - unused) bits else bits)
           in Inr (bitstring_cast bitstring_length value)))"

definition bitstring_encode :: "int option \<Rightarrow> int list \<Rightarrow> tag list result" where
  "bitstring_encode ctx x = bindR (bitstring_to_data x) (\<lambda>d. Inr [atomic_tag ctx tn_bitString d])"

definition bitstring_decode :: "nat \<Rightarrow> int option \<Rightarrow> tag list \<Rightarrow> (int list \<times> tag list) result" where
  "bitstring_decode n ctx ts =
     bindR (pop_tag ctx tn_bitString ts) (\<lambda>(t, ts).
     bindR (bitstring_of_data n (tag_data t)) (\<lambda>x. Inr (x, ts)))"

definition bitstring_ok :: "nat \<Rightarrow> int list \<Rightarrow> bool" where
  "bitstring_ok n bits \<longleftrightarrow> set bits \<subseteq> {0, 1} \<and> n \<le> length bits \<and> length bits < 2 ^ 32"

lemma eight_bits:
  assumes "length bits = 8"
  obtains a b c d e f g h where "bits = [a, b, c, d, e, f, g, h]"
  using assms by (auto simp: length_Suc_conv numeral_eq_Suc)

lemma upt_8: "[0..<8] = [0, 1, 2, 3, 4, 5, 6, 7 :: nat]"
  by (simp add: upt_rec)

definition octet_word :: "bool list \<Rightarrow> int" where
  "octet_word bs = foldl (OR) 0 (map (\<lambda>j. push_bit (7 - j) (of_bool (bs ! j))) [0..<8])"

lemma octet_of_bits_word:
  assumes "length bs = 8"
  shows "octet_of_bits (map of_bool bs) = octet_word bs"
  using assms by (simp add: octet_of_bits_def octet_word_def upt_8)

lemma bit_foldl_or:
  "bit (foldl (OR) x (map f js)) k \<longleftrightarrow> bit (x :: int) k \<or> (\<exists>j\<in>set js. bit (f j) k)"
  by (induction js arbitrary: x) (auto simp: bit_or_iff)

lemma foldl_or_bounds:
  "\<forall>j\<in>set js. 0 \<le> f j \<and> f j < 2 ^ n \<Longrightarrow> 0 \<le> x \<and> x < (2 ^ n :: int) \<Longrightarrow>
   0 \<le> foldl (OR) x (map f js) \<and> foldl (OR) x (map f js) < 2 ^ n"
proof (induction js arbitrary: x)
  case (Cons a js)
  then have "0 \<le> x OR f a \<and> x OR f a < 2 ^ n" using OR_upper [of x n "f a"] by simp
  with Cons show ?case by simp
qed simp

lemma bit_octet_word:
  assumes "k < 8"
  shows "bit (octet_word bs) k \<longleftrightarrow> bs ! (7 - k)"
proof -
  have "bit (push_bit (7 - j) (of_bool (bs ! j)) :: int) k \<longleftrightarrow> j = 7 - k \<and> bs ! j" if "j < 8" for j
    using that assms by (auto simp: bit_push_bit_iff bit_1_iff)
  then show ?thesis using assms by (auto simp: octet_word_def bit_foldl_or)
qed

lemma octet_word_bounds: "0 \<le> octet_word bs \<and> octet_word bs < 256"
proof -
  have "0 \<le> push_bit k (of_bool b :: int) \<and> push_bit k (of_bool b :: int) < 2 ^ 8" if "k < 8" for k b
    using that power_strict_increasing [of k 8 "2::int"] by (auto simp: int_shift)
  then have "0 \<le> octet_word bs \<and> octet_word bs < 2 ^ 8"
    unfolding octet_word_def by (intro foldl_or_bounds) auto
  then show ?thesis by simp
qed

lemma bits_of_octet_word:
  assumes "length bs = 8"
  shows "bits_of_octet (word_of_int (octet_word bs)) = map of_bool bs"
proof (rule nth_equalityI)
  show "length (bits_of_octet (word_of_int (octet_word bs))) = length (map of_bool bs)"
    using assms by (simp add: bits_of_octet_def)
  fix i assume "i < length (bits_of_octet (word_of_int (octet_word bs)))"
  then have i: "i < 8" by (simp add: bits_of_octet_def)
  have "octet_word bs mod 256 = octet_word bs" using octet_word_bounds by simp
  then have "uint (word_of_int (octet_word bs) :: byte) AND push_bit (7 - i) 1 \<noteq> 0 \<longleftrightarrow> bs ! i"
    using i bit_octet_word [of "7 - i" bs]
    by (simp add: push_bit_of_1 and_exp_eq_0_iff_not_bit)
  then show "bits_of_octet (word_of_int (octet_word bs)) ! i = map of_bool bs ! i"
    using i assms by (simp add: bits_of_octet_def)
qed

lemma pack_octets_bits:
  "8 dvd length bs \<Longrightarrow> \<exists>d. pack_octets (map of_bool bs) = Inr d \<and>
    concat (map bits_of_octet d) = map of_bool bs \<and> 8 * length d = length bs"
proof (induction "length bs" arbitrary: bs rule: less_induct)
  case less
  show ?case
  proof (cases "bs = []")
    case True
    then show ?thesis by (simp add: pack_octets.simps)
  next
    case False
    with less.prems have l: "8 \<le> length bs" by (simp add: dvd_imp_le)
    then have t: "length (take 8 bs) = 8" by simp
    have "8 dvd length (drop 8 bs)" using less.prems l by simp
    then obtain d where d: "pack_octets (map of_bool (drop 8 bs)) = Inr d"
      "concat (map bits_of_octet d) = map of_bool (drop 8 bs)" "8 * length d = length (drop 8 bs)"
      using less.hyps [of "drop 8 bs"] l by fastforce
    have "octet_of_bits (take 8 (map of_bool bs)) = octet_word (take 8 bs)"
      using octet_of_bits_word [OF t] by (simp add: take_map)
    then have "pack_octets (map of_bool bs) = Inr (word_of_int (octet_word (take 8 bs)) # d)"
      using False d(1) octet_word_bounds [of "take 8 bs"]
      by (subst pack_octets.simps) (simp add: codec_simps drop_map)
    moreover have "map of_bool (take 8 bs) @ map of_bool (drop 8 bs) = map of_bool bs"
      by (simp flip: map_append)
    ultimately show ?thesis using d l bits_of_octet_word [OF t] by simp
  qed
qed

lemma bits_of_bool:
  assumes "set bits \<subseteq> {0, 1 :: int}"
  shows "map of_bool (map (\<lambda>b. b = 1) bits) = bits"
  using assms by (induction bits) auto

lemma bitstring_data_roundtrip:
  assumes "bitstring_ok n bits"
  shows "\<exists>d. bitstring_to_data bits = Inr d \<and> bitstring_of_data n d = Inr bits \<and> length d < 4294967296"
proof -
  let ?u = "bitstring_unused bits"
  let ?bs = "map (\<lambda>b. b = 1) (bits @ replicate ?u 0)"
  have bs: "map of_bool ?bs = bits @ replicate ?u (0::int)"
    using assms by (intro bits_of_bool) (auto simp: bitstring_ok_def)
  have u: "?u < 8" by (simp add: bitstring_unused_def Let_def)
  have "8 dvd length bits + ?u"
    by (simp add: bitstring_unused_def Let_def) presburger
  then obtain d where d: "pack_octets (map of_bool ?bs) = Inr d"
    "concat (map bits_of_octet d) = map of_bool ?bs" "8 * length d = length ?bs"
    using pack_octets_bits [of ?bs] by auto
  have "unat (word_of_int (int ?u) :: byte) = ?u"
    using u by (simp add: unsigned_of_nat take_bit_eq_mod)
  then show ?thesis
    using assms d u unfolding bs
    by (auto simp: bitstring_to_data_def bitstring_of_data_def Let_def codec_simps bitstring_cast_def
        bitstring_ok_def)
qed

interpretation bitstring: atomic_codec tn_bitString bitstring_to_data "bitstring_of_data n"
    "bitstring_ok n" bitstring_encode "bitstring_decode n" for n
  by unfold_locales
     (simp_all add: tag_numbers bitstring_encode_def bitstring_decode_def bitstring_data_roundtrip)

section \<open>Properties\<close>

text \<open>
  Unsigned on the wire: a value within the class limits and 32 bits encodes,
  as an application or a context tag, to octets from which the decoder recovers it, and
  its data has no more octets than any other octet string of the same value.
\<close>

theorem unsigned_wire:
  assumes "unsigned_ok lo hi n" "\<forall>c\<in>set_option ctx. 0 \<le> c \<and> c \<le> 255"
  shows "(\<exists>bs. bindR (unsigned_encode ctx n) tag_list_encode = Inr bs \<and>
      bindR (tag_list_decode bs) (unsigned_decode lo hi ctx) = Inr (n, [])) \<and>
    (\<exists>d. unsigned_to_data n = Inr d \<and> d \<noteq> [] \<and>
      (\<forall>e. e \<noteq> [] \<longrightarrow> accumulate e = n \<longrightarrow> length d \<le> length e))"
proof
  show "\<exists>bs. bindR (unsigned_encode ctx n) tag_list_encode = Inr bs \<and>
      bindR (tag_list_decode bs) (unsigned_decode lo hi ctx) = Inr (n, [])"
    using assms by (rule unsigned.wire_roundtrip)
  have "be_int (be_bytes 4 n) = n" using assms by (simp add: be_int_be_bytes unsigned_ok_def)
  then show "\<exists>d. unsigned_to_data n = Inr d \<and> d \<noteq> [] \<and>
      (\<forall>e. e \<noteq> [] \<longrightarrow> accumulate e = n \<longrightarrow> length d \<le> length e)"
    using assms strip_zeros_nonempty [of "be_bytes 4 n"] strip_zeros_minimal [of _ "be_bytes 4 n"]
    by (auto simp: unsigned_to_data_def unsigned_ok_def)
qed

theorem unsigned_wire_witness:
  "\<exists>bs. bindR (unsigned_encode (Some 2) 300) tag_list_encode = Inr bs \<and>
     bindR (tag_list_decode bs) (unsigned_decode None (Some 65535) (Some 2)) = Inr (300, [])"
  by (rule unsigned_wire [THEN conjunct1]) (simp_all add: unsigned_ok_def unsigned_cast_def)

text \<open>
  Integer on the wire: encoding never fails, and decoding gives the residue of
  the value in the signed 32-bit range, so exactly the values of that range survive and any
  other value comes back as a different one.
\<close>

theorem integer_wire:
  assumes "\<forall>c\<in>set_option ctx. 0 \<le> c \<and> c \<le> 255"
  shows "(\<exists>bs. bindR (integer_encode ctx n) tag_list_encode = Inr bs \<and>
      bindR (tag_list_decode bs) (integer_decode None None ctx) = Inr ((n + 2 ^ 31) mod 2 ^ 32 - 2 ^ 31, [])) \<and>
    ((n + 2 ^ 31) mod 2 ^ 32 - 2 ^ 31 = n \<longleftrightarrow> - (2 ^ 31) \<le> n \<and> n < 2 ^ 31)"
proof
  let ?m = "(n + 2 ^ 31) mod 2 ^ 32 - 2 ^ 31"
  let ?t = "atomic_tag ctx tn_integer (integer_to_data n)"
  have m: "- (2 ^ 31) \<le> ?m" "?m < 2 ^ 31" by simp_all
  have "?m mod 2 ^ 32 = n mod 2 ^ 32" by (simp add: mod_diff_left_eq)
  then have v: "integer_value (integer_to_data n) = ?m"
    using integer_to_data_value [OF m]
    by (simp only: integer_value_be_sint be_sint_integer_to_data)
  have "wf_tag ?t"
    using assms integer_to_data_length [of n]
    by (cases ctx) (auto simp: atomic_tag_def tag_numbers intro!: wf_tag_constructors)
  then obtain bs where "tag_list_encode [?t] = Inr bs" "tag_list_decode bs = Inr [?t]"
    using tags.stream_roundtrip [of "[?t]"] by auto
  then show "\<exists>bs. bindR (integer_encode ctx n) tag_list_encode = Inr bs \<and>
      bindR (tag_list_decode bs) (integer_decode None None ctx) = Inr (?m, [])"
    using integer_to_data_length [of n]
    by (auto simp: integer_encode_def integer_decode_def pop_tag_atomic integer_of_data_def
        integer_cast_def v)
  show "?m = n \<longleftrightarrow> - (2 ^ 31) \<le> n \<and> n < 2 ^ 31"
    using m by (auto simp: algebra_simps)
qed

theorem integer_wire_witness:
  "\<exists>bs. bindR (integer_encode None (2 ^ 32 - 5)) tag_list_encode = Inr bs \<and>
     bindR (tag_list_decode bs) (integer_decode None None None) = Inr (-5, [])"
  using integer_wire [of None "2 ^ 32 - 5"] by simp

text \<open>
  BitString on the wire: a list of 0s and 1s that covers the named bits of its
  class is recovered, whatever its length modulo 8.
\<close>

theorem bitstring_wire:
  assumes "bitstring_ok n bits" "\<forall>c\<in>set_option ctx. 0 \<le> c \<and> c \<le> 255"
  shows "\<exists>bs. bindR (bitstring_encode ctx bits) tag_list_encode = Inr bs \<and>
    bindR (tag_list_decode bs) (bitstring_decode n ctx) = Inr (bits, [])"
  using assms by (rule bitstring.wire_roundtrip)

theorem bitstring_wire_witness:
  "\<exists>bs. bindR (bitstring_encode None [1, 0, 1, 1, 0, 0, 0, 1, 1, 1]) tag_list_encode = Inr bs \<and>
     bindR (tag_list_decode bs) (bitstring_decode 4 None) = Inr ([1, 0, 1, 1, 0, 0, 0, 1, 1, 1], [])"
  by (rule bitstring_wire) (simp_all add: bitstring_ok_def)

text \<open>
  ObjectIdentifier on the wire: exactly the pairs \<^verbatim>\<open>cast\<close> accepts, a type up
  to 1023 and an instance up to 4194303, are packed into 32 bits and recovered.
\<close>

theorem object_identifier_wire:
  assumes "object_identifier_cast_pair x = Inr x" "\<forall>c\<in>set_option ctx. 0 \<le> c \<and> c \<le> 255"
  shows "\<exists>bs. bindR (object_identifier_encode ctx x) tag_list_encode = Inr bs \<and>
    bindR (tag_list_decode bs) (object_identifier_decode ctx) = Inr (x, [])"
  using assms by (intro object_identifier.wire_roundtrip) (simp_all add: object_identifier_ok_def)

theorem object_identifier_wire_witness:
  "\<exists>bs. bindR (object_identifier_encode (Some 0) (8, 4194303)) tag_list_encode = Inr bs \<and>
     bindR (tag_list_decode bs) (object_identifier_decode (Some 0)) = Inr ((8, 4194303), [])"
  by (rule object_identifier_wire)
     (simp_all add: object_identifier_cast_pair_def enumerated_cast_def object_type_high_limit_def)

text \<open>
  The remaining atomic types on the wire: Null, Boolean, Enumerated within its
  limits, OctetString within its length limits, and Date and Time of four octets.
\<close>

theorem atomic_wire:
  assumes "\<forall>c\<in>set_option ctx. 0 \<le> c \<and> c \<le> 255"
    and "enumerated_ok lo hi e" "octet_string_ok mn mx os" "quad_ok q"
  shows "(\<exists>bs. bindR (null_encode ctx ()) tag_list_encode = Inr bs \<and>
      bindR (tag_list_decode bs) (null_decode ctx) = Inr ((), [])) \<and>
    (\<exists>bs. bindR (boolean_encode ctx b) tag_list_encode = Inr bs \<and>
      bindR (tag_list_decode bs) (boolean_decode ctx) = Inr (b, [])) \<and>
    (\<exists>bs. bindR (enumerated_encode ctx e) tag_list_encode = Inr bs \<and>
      bindR (tag_list_decode bs) (enumerated_decode lo hi ctx) = Inr (e, [])) \<and>
    (\<exists>bs. bindR (octet_string_encode ctx os) tag_list_encode = Inr bs \<and>
      bindR (tag_list_decode bs) (octet_string_decode mn mx ctx) = Inr (os, [])) \<and>
    (\<exists>bs. bindR (date_encode ctx q) tag_list_encode = Inr bs \<and>
      bindR (tag_list_decode bs) (date_decode ctx) = Inr (q, [])) \<and>
    (\<exists>bs. bindR (time_encode ctx q) tag_list_encode = Inr bs \<and>
      bindR (tag_list_decode bs) (time_decode ctx) = Inr (q, []))"
  using assms
  by (intro conjI null.wire_roundtrip boolean.wire_roundtrip enumerated.wire_roundtrip
      octet_string.wire_roundtrip date.wire_roundtrip time.wire_roundtrip) simp_all

theorem atomic_wire_witness:
  "\<exists>bs. bindR (date_encode (Some 3) (124, 2, 29, 4)) tag_list_encode = Inr bs \<and>
     bindR (tag_list_decode bs) (date_decode (Some 3)) = Inr ((124, 2, 29, 4), [])"
  using atomic_wire [of "Some 3" None "Some 9" 7 None None "[1, 2]" "(124, 2, 29, 4)" True]
  by (simp add: enumerated_ok_def enumerated_cast_def octet_string_ok_def octet_string_of_data_def quad_ok_def)

end
