(* ===== verification/Apdu.thy ===== *)
theory Apdu
  imports Pdu
begin

text \<open>
  \<^verbatim>\<open>bacpypes3/apdu.py\<close>: the encodings of the number of segments and of the APDU length
  a device accepts, the application layer header \<^verbatim>\<open>APCI\<close> of the eight PDU types, and the
  PDU classes with their constructors. The services carried inside the PDUs are not here.
\<close>

section \<open>Maximum segments and APDU length accepted\<close>

text \<open>Indexing a Python list: negative indices count from the end.\<close>

definition py_index :: "'a list \<Rightarrow> int \<Rightarrow> 'a result" where
  "py_index xs i =
     (if 0 \<le> i \<and> i < int (length xs) then Inr (xs ! nat i)
      else if - int (length xs) \<le> i \<and> i < 0 then Inr (xs ! nat (int (length xs) + i))
      else Inl IndexError)"

definition max_segments_accepted_encoding :: "int option list" where
  "max_segments_accepted_encoding =
     [None, Some 2, Some 4, Some 8, Some 16, Some 32, Some 64, None]"

definition encode_max_segments_accepted :: "int option \<Rightarrow> int result" where
  "encode_max_segments_accepted arg =
     (case arg of
        None \<Rightarrow> Inr 0
      | Some n \<Rightarrow>
          if n = 0 then Inr 0
          else if n > 64 then Inr 7
          else
            (case find (\<lambda>i. case max_segments_accepted_encoding ! i of Some v \<Rightarrow> v \<le> n | None \<Rightarrow> False)
                (rev [1..<7]) of
               Some i \<Rightarrow> Inr (int i)
             | None \<Rightarrow> Inl ValueError))"

definition decode_max_segments_accepted :: "int \<Rightarrow> int option result" where
  "decode_max_segments_accepted arg = py_index max_segments_accepted_encoding arg"

definition max_apdu_length_encoding :: "int option list" where
  "max_apdu_length_encoding =
     [Some 50, Some 128, Some 206, Some 480, Some 1024, Some 1476] @ replicate 10 None"

definition encode_max_apdu_length_accepted :: "int \<Rightarrow> int result" where
  "encode_max_apdu_length_accepted arg =
     (case find (\<lambda>i. case max_apdu_length_encoding ! i of Some v \<Rightarrow> arg \<ge> v | None \<Rightarrow> False)
         (rev [0..<6]) of
        Some i \<Rightarrow> Inr (int i)
      | None \<Rightarrow> Inl ValueError)"

definition decode_max_apdu_length_accepted :: "int \<Rightarrow> int result" where
  "decode_max_apdu_length_accepted arg =
     bindR (py_index max_apdu_length_encoding arg) (need ValueError)"

lemma rev_upt_1_7: "rev [1..<7] = [6, 5, 4, 3, 2, 1]"
  by (simp add: upt_rec)

lemma rev_upt_0_6: "rev [0..<6] = [5, 4, 3, 2, 1, 0]"
  by (simp add: upt_rec)

lemma encoded_max_apdu_decodes:
  "encode_max_apdu_length_accepted n = Inr i \<Longrightarrow> \<exists>v. decode_max_apdu_length_accepted i = Inr v"
  by (auto simp: encode_max_apdu_length_accepted_def decode_max_apdu_length_accepted_def
      rev_upt_0_6 max_apdu_length_encoding_def py_index_def split: if_splits)

lemma encoded_max_segments_decodes:
  "encode_max_segments_accepted n = Inr i \<Longrightarrow> \<exists>v. decode_max_segments_accepted i = Inr v"
  by (cases n) (auto simp: encode_max_segments_accepted_def decode_max_segments_accepted_def
      rev_upt_1_7 [simplified] max_segments_accepted_encoding_def py_index_def split: if_splits)

text \<open>
  \<^verbatim>\<open>encode_max_apdu_length_accepted\<close> gives the code of the largest standard APDU
  length that does not exceed the argument, and raises exactly below 50.
\<close>
theorem max_apdu_length_largest:
  "(n < 50 \<longrightarrow> encode_max_apdu_length_accepted n = Inl ValueError) \<and>
   (50 \<le> n \<longrightarrow> (\<exists>i v. encode_max_apdu_length_accepted n = Inr i \<and>
      decode_max_apdu_length_accepted i = Inr v \<and> v \<le> n \<and>
      (\<forall>w. Some w \<in> set max_apdu_length_encoding \<and> w \<le> n \<longrightarrow> w \<le> v)))"
proof -
  consider "n < 50" | "50 \<le> n \<and> n < 128" | "128 \<le> n \<and> n < 206" | "206 \<le> n \<and> n < 480"
    | "480 \<le> n \<and> n < 1024" | "1024 \<le> n \<and> n < 1476" | "1476 \<le> n"
    by linarith
  then show ?thesis
    by cases (auto simp: encode_max_apdu_length_accepted_def decode_max_apdu_length_accepted_def
        rev_upt_0_6 max_apdu_length_encoding_def py_index_def)
qed

lemma max_apdu_length_largest_witness:
  "encode_max_apdu_length_accepted 49 = Inl ValueError \<and>
   (\<exists>i v. encode_max_apdu_length_accepted 1000 = Inr i \<and>
      decode_max_apdu_length_accepted i = Inr v \<and> v \<le> 1000)"
  using max_apdu_length_largest [of 49] max_apdu_length_largest [of 1000] by auto

text \<open>
  \<^verbatim>\<open>encode_max_segments_accepted\<close> gives the largest encodable number of segments
  that does not exceed an argument between 2 and 64, the code for more than 64 above, the code
  for unspecified for 0 or an absent value, and raises for 1.
\<close>
theorem max_segments_largest:
  "encode_max_segments_accepted None = Inr 0 \<and> encode_max_segments_accepted (Some 0) = Inr 0 \<and>
   encode_max_segments_accepted (Some 1) = Inl ValueError \<and>
   (64 < n \<longrightarrow> encode_max_segments_accepted (Some n) = Inr 7) \<and>
   (2 \<le> n \<and> n \<le> 64 \<longrightarrow> (\<exists>i v. encode_max_segments_accepted (Some n) = Inr i \<and>
      decode_max_segments_accepted i = Inr (Some v) \<and> v \<le> n \<and>
      (\<forall>w. Some w \<in> set max_segments_accepted_encoding \<and> w \<le> n \<longrightarrow> w \<le> v)))"
proof -
  have e: "encode_max_segments_accepted None = Inr 0" "encode_max_segments_accepted (Some 0) = Inr 0"
    "encode_max_segments_accepted (Some 1) = Inl ValueError"
    unfolding encode_max_segments_accepted_def rev_upt_1_7
    by (simp_all add: max_segments_accepted_encoding_def)
  consider "n < 2" | "2 \<le> n \<and> n < 4" | "4 \<le> n \<and> n < 8" | "8 \<le> n \<and> n < 16" | "16 \<le> n \<and> n < 32"
    | "32 \<le> n \<and> n < 64" | "n = 64" | "64 < n"
    by linarith
  then show ?thesis
    by cases (auto simp: e encode_max_segments_accepted_def decode_max_segments_accepted_def
        rev_upt_1_7 [simplified] max_segments_accepted_encoding_def py_index_def)
qed

lemma max_segments_largest_witness:
  "encode_max_segments_accepted (Some 65) = Inr 7 \<and>
   (\<exists>i v. encode_max_segments_accepted (Some 20) = Inr i \<and>
      decode_max_segments_accepted i = Inr (Some v) \<and> v \<le> 20)"
  using max_segments_largest [of 65] max_segments_largest [of 20] by auto

section \<open>APCI and APDU\<close>

text \<open>
  An object of one of the PDU classes. \<open>None\<close> is an attribute that is not set or is
  \<^verbatim>\<open>None\<close>; a flag the constructors initialise with \<^verbatim>\<open>None\<close> (\<^verbatim>\<open>apduNak\<close>, \<^verbatim>\<open>apduSrv\<close>), which
  is only ever tested, is \<open>Some False\<close>. Reading an attribute no constructor sets raises
  \<^verbatim>\<open>AttributeError\<close>; \<^verbatim>\<open>put(None)\<close> raises \<^verbatim>\<open>TypeError\<close>.
\<close>

record apdu = pci +
  apduType :: int
  apduSeg :: "bool option"
  apduMor :: "bool option"
  apduSA :: "bool option"
  apduSrv :: "bool option"
  apduNak :: "bool option"
  apduSeq :: "int option"
  apduWin :: "int option"
  apduMaxSegs :: "int option"
  apduMaxResp :: "int option"
  apduService :: "int option"
  apduInvokeID :: "int option"
  apduAbortRejectReason :: "int option"
  apduData :: "byte list"

definition init_apdu :: "int \<Rightarrow> apdu" where
  "init_apdu t = pci.extend init_pci
     \<lparr>apduType = t, apduSeg = None, apduMor = None, apduSA = None, apduSrv = None, apduNak = None,
      apduSeq = None, apduWin = None, apduMaxSegs = None, apduMaxResp = None, apduService = None,
      apduInvokeID = None, apduAbortRejectReason = None, apduData = []\<rparr>"

definition confirmed_request_pdu :: "int option \<Rightarrow> int option \<Rightarrow> apdu" where
  "confirmed_request_pdu service_choice invoke_id = (init_apdu 0)
     \<lparr>pduExpectingReply := True, apduService := service_choice, apduInvokeID := invoke_id\<rparr>"

definition unconfirmed_request_pdu :: "int option \<Rightarrow> apdu" where
  "unconfirmed_request_pdu service_choice = (init_apdu 1)\<lparr>apduService := service_choice\<rparr>"

text \<open>\<^verbatim>\<open>set_context\<close> turns a new PDU into the answer to the request \<open>context\<close>.\<close>

definition set_context :: "apdu \<Rightarrow> apdu \<Rightarrow> apdu" where
  "set_context self context = self
     \<lparr>pduUserData := pduUserData context, pduDestination := pduSource context,
      pduExpectingReply := False, pduNetworkPriority := pduNetworkPriority context,
      apduInvokeID := apduInvokeID context\<rparr>"

definition with_context :: "apdu option \<Rightarrow> bool \<Rightarrow> apdu \<Rightarrow> apdu" where
  "with_context context service self =
     (case context of None \<Rightarrow> self
      | Some c \<Rightarrow> set_context (if service then self\<lparr>apduService := apduService c\<rparr> else self) c)"

definition simple_ack_pdu :: "int option \<Rightarrow> int option \<Rightarrow> apdu option \<Rightarrow> apdu" where
  "simple_ack_pdu service_choice invoke_id context = with_context context True
     ((init_apdu 2)\<lparr>apduService := service_choice, apduInvokeID := invoke_id\<rparr>)"

definition complex_ack_pdu :: "int option \<Rightarrow> int option \<Rightarrow> apdu option \<Rightarrow> apdu" where
  "complex_ack_pdu service_choice invoke_id context = with_context context True
     ((init_apdu 3)\<lparr>apduService := service_choice, apduInvokeID := invoke_id\<rparr>)"

definition segment_ack_pdu ::
  "bool \<Rightarrow> bool \<Rightarrow> int option \<Rightarrow> int option \<Rightarrow> int option \<Rightarrow> apdu" where
  "segment_ack_pdu nak srv invoke_id sequenceNumber windowSize = (init_apdu 4)
     \<lparr>apduNak := Some nak, apduSrv := Some srv, apduInvokeID := invoke_id,
      apduSeq := sequenceNumber, apduWin := windowSize\<rparr>"

definition error_pdu :: "int option \<Rightarrow> int option \<Rightarrow> apdu option \<Rightarrow> apdu" where
  "error_pdu service_choice invoke_id context = with_context context True
     ((init_apdu 5)\<lparr>apduService := service_choice, apduInvokeID := invoke_id\<rparr>)"

definition reject_pdu :: "int option \<Rightarrow> int option \<Rightarrow> apdu option \<Rightarrow> apdu" where
  "reject_pdu invoke_id reason context = with_context context False
     ((init_apdu 6)\<lparr>apduInvokeID := invoke_id, apduAbortRejectReason := reason\<rparr>)"

definition abort_pdu :: "bool \<Rightarrow> int option \<Rightarrow> int option \<Rightarrow> apdu option \<Rightarrow> apdu" where
  "abort_pdu srv invoke_id reason context = with_context context False
     ((init_apdu 7)\<lparr>apduSrv := Some srv, apduInvokeID := invoke_id, apduAbortRejectReason := reason\<rparr>)"

text \<open>The attributes after construction without arguments, as \<^verbatim>\<open>APDU.decode\<close> does.\<close>

definition new_of_type :: "int \<Rightarrow> apdu result" where
  "new_of_type t =
     (if t = 0 then Inr (confirmed_request_pdu None None)
      else if t = 1 then Inr (unconfirmed_request_pdu None)
      else if t = 2 then Inr (simple_ack_pdu None None None)
      else if t = 3 then Inr (complex_ack_pdu None None None)
      else if t = 4 then Inr (segment_ack_pdu False False None None None)
      else if t = 5 then Inr (error_pdu None None None)
      else if t = 6 then Inr (reject_pdu None None None)
      else if t = 7 then Inr (abort_pdu False None None None)
      else Inl RuntimeError)"

definition flag :: "int \<Rightarrow> bool option \<Rightarrow> int result" where
  "flag v f = bindR (need AttributeError f) (\<lambda>b. Inr (if b then v else 0))"

definition put_field :: "py_error \<Rightarrow> int option \<Rightarrow> byte list \<Rightarrow> byte list result" where
  "put_field e f s = bindR (need e f) (\<lambda>v. pdu_put v s)"

definition put_segment_fields :: "apdu \<Rightarrow> byte list \<Rightarrow> byte list result" where
  "put_segment_fields a s =
     (if apduSeg a = Some True
      then bindR (put_field AttributeError (apduSeq a) s) (put_field AttributeError (apduWin a))
      else Inr s)"

definition apci_encode :: "apdu \<Rightarrow> byte list result" where
  "apci_encode a =
     (let t = push_bit 4 (apduType a) in
      if apduType a = 0 then
        bindR (flag 0x08 (apduSeg a)) (\<lambda>f8. bindR (flag 0x04 (apduMor a)) (\<lambda>f4.
        bindR (flag 0x02 (apduSA a)) (\<lambda>f2.
        bindR (pdu_put (t + f8 + f4 + f2) []) (\<lambda>s.
        bindR (need AttributeError (apduMaxSegs a)) (\<lambda>segs.
        bindR (need AttributeError (apduMaxResp a)) (\<lambda>resp.
        bindR (pdu_put (push_bit 4 segs + resp) s) (\<lambda>s.
        bindR (put_field TypeError (apduInvokeID a) s) (\<lambda>s.
        bindR (put_segment_fields a s) (put_field TypeError (apduService a))))))))))
      else if apduType a = 1 then
        bindR (pdu_put t []) (put_field TypeError (apduService a))
      else if apduType a = 2 then
        bindR (pdu_put t []) (\<lambda>s.
        bindR (put_field TypeError (apduInvokeID a) s) (put_field TypeError (apduService a)))
      else if apduType a = 3 then
        bindR (flag 0x08 (apduSeg a)) (\<lambda>f8. bindR (flag 0x04 (apduMor a)) (\<lambda>f4.
        bindR (pdu_put (t + f8 + f4) []) (\<lambda>s.
        bindR (put_field TypeError (apduInvokeID a) s) (\<lambda>s.
        bindR (put_segment_fields a s) (put_field TypeError (apduService a))))))
      else if apduType a = 4 then
        bindR (flag 0x02 (apduNak a)) (\<lambda>f2. bindR (flag 0x01 (apduSrv a)) (\<lambda>f1.
        bindR (pdu_put (t + f2 + f1) []) (\<lambda>s.
        bindR (put_field TypeError (apduInvokeID a) s) (\<lambda>s.
        bindR (put_field TypeError (apduSeq a) s) (put_field TypeError (apduWin a))))))
      else if apduType a = 5 then
        bindR (pdu_put t []) (\<lambda>s.
        bindR (put_field TypeError (apduInvokeID a) s) (put_field TypeError (apduService a)))
      else if apduType a = 6 then
        bindR (pdu_put t []) (\<lambda>s.
        bindR (put_field TypeError (apduInvokeID a) s) (put_field TypeError (apduAbortRejectReason a)))
      else if apduType a = 7 then
        bindR (flag 0x01 (apduSrv a)) (\<lambda>f1.
        bindR (pdu_put (t + f1) []) (\<lambda>s.
        bindR (put_field TypeError (apduInvokeID a) s) (put_field TypeError (apduAbortRejectReason a))))
      else Inl ValueError)"

text \<open>
  \<^verbatim>\<open>APCI.decode\<close> fills a new header; \<^verbatim>\<open>APCI.update\<close> then copies what was set into the
  object \<open>a\<close> of the class. Here the fields are set on \<open>a\<close> directly.
\<close>

definition get_segment_fields :: "apdu \<Rightarrow> apdu reader" where
  "get_segment_fields a s =
     (if apduSeg a = Some True
      then bindR (pdu_get s) (\<lambda>(seq, s). bindR (pdu_get s) (\<lambda>(win, s).
           Inr (a\<lparr>apduSeq := Some seq, apduWin := Some win\<rparr>, s)))
      else Inr (a, s))"

definition apci_decode :: "apdu \<Rightarrow> int \<Rightarrow> apdu reader" where
  "apci_decode a buff s =
     (let t = drop_bit 4 buff AND 0x0F in
      if t = 0 then
        bindR (pdu_get s) (\<lambda>(buff2, s). bindR (pdu_get s) (\<lambda>(inv, s).
        bindR (get_segment_fields (a\<lparr>apduSeg := Some (buff AND 0x08 \<noteq> 0),
            apduMor := Some (buff AND 0x04 \<noteq> 0), apduSA := Some (buff AND 0x02 \<noteq> 0),
            apduMaxSegs := Some (drop_bit 4 buff2 AND 0x07), apduMaxResp := Some (buff2 AND 0x0F),
            apduInvokeID := Some inv\<rparr>) s) (\<lambda>(a, s).
        bindR (pdu_get s) (\<lambda>(srv, s). Inr (a\<lparr>apduService := Some srv\<rparr>, s)))))
      else if t = 1 then
        bindR (pdu_get s) (\<lambda>(srv, s). Inr (a\<lparr>apduService := Some srv\<rparr>, s))
      else if t = 2 then
        bindR (pdu_get s) (\<lambda>(inv, s). bindR (pdu_get s) (\<lambda>(srv, s).
        Inr (a\<lparr>apduInvokeID := Some inv, apduService := Some srv\<rparr>, s)))
      else if t = 3 then
        bindR (pdu_get s) (\<lambda>(inv, s).
        bindR (get_segment_fields (a\<lparr>apduSeg := Some (buff AND 0x08 \<noteq> 0),
            apduMor := Some (buff AND 0x04 \<noteq> 0), apduInvokeID := Some inv\<rparr>) s) (\<lambda>(a, s).
        bindR (pdu_get s) (\<lambda>(srv, s). Inr (a\<lparr>apduService := Some srv\<rparr>, s))))
      else if t = 4 then
        bindR (pdu_get s) (\<lambda>(inv, s). bindR (pdu_get s) (\<lambda>(seq, s). bindR (pdu_get s) (\<lambda>(win, s).
        Inr (a\<lparr>apduNak := Some (buff AND 0x02 \<noteq> 0), apduSrv := Some (buff AND 0x01 \<noteq> 0),
               apduInvokeID := Some inv, apduSeq := Some seq, apduWin := Some win\<rparr>, s))))
      else if t = 5 then
        bindR (pdu_get s) (\<lambda>(inv, s). bindR (pdu_get s) (\<lambda>(srv, s).
        Inr (a\<lparr>apduInvokeID := Some inv, apduService := Some srv\<rparr>, s)))
      else if t = 6 then
        bindR (pdu_get s) (\<lambda>(inv, s). bindR (pdu_get s) (\<lambda>(reason, s).
        Inr (a\<lparr>apduInvokeID := Some inv, apduAbortRejectReason := Some reason\<rparr>, s)))
      else if t = 7 then
        bindR (pdu_get s) (\<lambda>(inv, s). bindR (pdu_get s) (\<lambda>(reason, s).
        Inr (a\<lparr>apduSrv := Some (buff AND 0x01 \<noteq> 0), apduInvokeID := Some inv,
               apduAbortRejectReason := Some reason\<rparr>, s)))
      else Inl DecodingError)"

definition apdu_encode :: "apdu \<Rightarrow> pdu result" where
  "apdu_encode a =
     bindR (apci_encode a) (\<lambda>s. Inr (pci_update (init_pdu (pdu_put_data (apduData a) s)) a))"

definition apdu_decode :: "pdu \<Rightarrow> apdu result" where
  "apdu_decode p =
     bindR (pdu_get (pduData p)) (\<lambda>(buff, s).
     let t = drop_bit 4 buff AND 0x0F in
     if t \<ge> 8 then Inl DecodingError
     else bindR (new_of_type t) (\<lambda>a.
       bindR (apci_decode (pci_update a p) buff s) (\<lambda>(a, s). Inr (a\<lparr>apduData := s\<rparr>))))"

subsection \<open>Round trip\<close>

abbreviation octet_field :: "int option \<Rightarrow> bool \<Rightarrow> bool" where
  "octet_field f present \<equiv> (case f of None \<Rightarrow> \<not> present | Some v \<Rightarrow> present \<and> 0 \<le> v \<and> v < 256)"

text \<open>The attributes each PDU type uses are set and fit their octets, the others are not set.\<close>

definition wf_apdu :: "apdu \<Rightarrow> bool" where
  "wf_apdu a \<longleftrightarrow>
     0 \<le> apduType a \<and> apduType a < 8 \<and>
     (apduSeg a \<noteq> None \<longleftrightarrow> apduType a \<in> {0, 3}) \<and> (apduMor a \<noteq> None \<longleftrightarrow> apduType a \<in> {0, 3}) \<and>
     (apduSA a \<noteq> None \<longleftrightarrow> apduType a = 0) \<and> (apduNak a \<noteq> None \<longleftrightarrow> apduType a = 4) \<and>
     (apduSrv a \<noteq> None \<longleftrightarrow> apduType a \<in> {4, 7}) \<and>
     octet_field (apduSeq a) (apduType a = 4 \<or> apduSeg a = Some True) \<and>
     octet_field (apduWin a) (apduType a = 4 \<or> apduSeg a = Some True) \<and>
     (case apduMaxSegs a of None \<Rightarrow> apduType a \<noteq> 0 | Some v \<Rightarrow> apduType a = 0 \<and> 0 \<le> v \<and> v < 8) \<and>
     (case apduMaxResp a of None \<Rightarrow> apduType a \<noteq> 0 | Some v \<Rightarrow> apduType a = 0 \<and> 0 \<le> v \<and> v < 16) \<and>
     octet_field (apduService a) (apduType a \<in> {0, 1, 2, 3, 5}) \<and>
     octet_field (apduInvokeID a) (apduType a \<noteq> 1) \<and>
     octet_field (apduAbortRejectReason a) (apduType a \<in> {6, 7})"

lemma two_nibbles:
  fixes h l :: int
  assumes "0 \<le> l" "l < 16"
  shows "drop_bit 4 (push_bit 4 h + l) = h" "(push_bit 4 h + l) AND 15 = l"
  using assms by (simp_all add: int_bits)

lemma two_nibbles_octet:
  fixes h l :: int
  assumes "0 \<le> h" "h < 8" "0 \<le> l" "l < 16"
  shows "pdu_put (push_bit 4 h + l) s = Inr (s @ [word_of_int (push_bit 4 h + l)])"
    "uint (word_of_int (push_bit 4 h) + word_of_int l :: byte) = push_bit 4 h + l"
proof -
  show "pdu_put (push_bit 4 h + l) s = Inr (s @ [word_of_int (push_bit 4 h + l)])"
    using assms by (simp add: pdu_put_def push_bit_eq_mult)
  have "uint (word_of_int (push_bit 4 h + l) :: byte) = push_bit 4 h + l"
    unfolding uint_byte using assms by (simp add: push_bit_eq_mult)
  then show "uint (word_of_int (push_bit 4 h) + word_of_int l :: byte) = push_bit 4 h + l" by simp
qed

lemma and_7_small: "0 \<le> (n :: int) \<Longrightarrow> n < 8 \<Longrightarrow> n AND 7 = n"
  by (simp add: int_bits)

lemmas apdu_codec_defs = apci_encode_def apci_decode_def apdu_encode_def apdu_decode_def
  new_of_type_def put_field_def flag_def get_segment_fields_def put_segment_fields_def
  confirmed_request_pdu_def unconfirmed_request_pdu_def simple_ack_pdu_def complex_ack_pdu_def
  segment_ack_pdu_def error_pdu_def reject_pdu_def abort_pdu_def with_context_def
  init_apdu_def init_pdu_def pdu_put_data_def pci.defs init_pci_def pci_update_def

lemma apdu_type_cases:
  assumes "wf_apdu a"
  obtains "apduType a = 0" | "apduType a = 1" | "apduType a = 2" | "apduType a = 3"
    | "apduType a = 4" | "apduType a = 5" | "apduType a = 6" | "apduType a = 7"
proof -
  have "0 \<le> apduType a" "apduType a < 8" using assms by (auto simp: wf_apdu_def)
  then have "apduType a \<in> {0, 1, 2, 3, 4, 5, 6, 7}" by auto
  then show ?thesis using that by auto
qed

lemma confirmed_request_roundtrip:
  assumes w: "wf_apdu a" and t: "apduType a = 0"
  shows "\<exists>p. apdu_encode a = Inr p \<and> apdu_decode p = Inr a"
proof -
  obtain seg mor sa segs resp srv inv where f: "apduSeg a = Some seg" "apduMor a = Some mor"
    "apduSA a = Some sa" "apduMaxSegs a = Some segs" "apduMaxResp a = Some resp"
    "apduService a = Some srv" "apduInvokeID a = Some inv"
    "apduNak a = None" "apduSrv a = None" "apduAbortRejectReason a = None"
    and b: "0 \<le> segs" "segs < 8" "0 \<le> resp" "resp < 16" "0 \<le> srv" "srv < 256" "0 \<le> inv" "inv < 256"
    using w t by (auto simp: wf_apdu_def split: option.splits)
  note nib = two_nibbles [OF b(3,4), of segs] two_nibbles_octet [OF b(1-4)] and_7_small [OF b(1,2)]
  show ?thesis
  proof (cases seg)
    case True
    then obtain sq wi where s: "apduSeq a = Some sq" "apduWin a = Some wi"
      "0 \<le> sq" "sq < 256" "0 \<le> wi" "wi < 256"
      using w f by (auto simp: wf_apdu_def split: option.splits)
    show ?thesis
      using f b s t True
      by (cases a; cases mor; cases sa) (simp_all add: apdu_codec_defs codec_simps nib)
  next
    case False
    then have s: "apduSeq a = None" "apduWin a = None"
      using w f t by (auto simp: wf_apdu_def split: option.splits)
    show ?thesis
      using f b s t False
      by (cases a; cases mor; cases sa) (simp_all add: apdu_codec_defs codec_simps nib)
  qed
qed

lemma complex_ack_roundtrip:
  assumes w: "wf_apdu a" and t: "apduType a = 3"
  shows "\<exists>p. apdu_encode a = Inr p \<and> apdu_decode p = Inr a"
proof -
  obtain seg mor srv inv where f: "apduSeg a = Some seg" "apduMor a = Some mor"
    "apduService a = Some srv" "apduInvokeID a = Some inv" "apduMaxSegs a = None" "apduMaxResp a = None"
    "apduNak a = None" "apduSrv a = None" "apduSA a = None" "apduAbortRejectReason a = None"
    and b: "0 \<le> srv" "srv < 256" "0 \<le> inv" "inv < 256"
    using w t by (auto simp: wf_apdu_def split: option.splits)
  show ?thesis
  proof (cases seg)
    case True
    then obtain sq wi where s: "apduSeq a = Some sq" "apduWin a = Some wi"
      "0 \<le> sq" "sq < 256" "0 \<le> wi" "wi < 256"
      using w f by (auto simp: wf_apdu_def split: option.splits)
    show ?thesis
      using f b s t True by (cases a; cases mor) (simp_all add: apdu_codec_defs codec_simps)
  next
    case False
    then have s: "apduSeq a = None" "apduWin a = None"
      using w f t by (auto simp: wf_apdu_def split: option.splits)
    show ?thesis
      using f b s t False by (cases a; cases mor) (simp_all add: apdu_codec_defs codec_simps)
  qed
qed

lemma segment_ack_roundtrip:
  assumes w: "wf_apdu a" and t: "apduType a = 4"
  shows "\<exists>p. apdu_encode a = Inr p \<and> apdu_decode p = Inr a"
proof -
  obtain nak srv inv sq wi where f: "apduNak a = Some nak" "apduSrv a = Some srv"
    "apduInvokeID a = Some inv" "apduSeq a = Some sq" "apduWin a = Some wi"
    "0 \<le> sq" "sq < 256" "0 \<le> wi" "wi < 256" "0 \<le> inv" "inv < 256"
    "apduSeg a = None" "apduMor a = None" "apduSA a = None" "apduMaxSegs a = None"
    "apduMaxResp a = None" "apduService a = None" "apduAbortRejectReason a = None"
    using w t by (auto simp: wf_apdu_def split: option.splits)
  then show ?thesis
    using t by (cases a; cases nak; cases srv) (simp_all add: apdu_codec_defs codec_simps)
qed

lemma abort_roundtrip:
  assumes w: "wf_apdu a" and t: "apduType a = 7"
  shows "\<exists>p. apdu_encode a = Inr p \<and> apdu_decode p = Inr a"
proof -
  obtain srv inv r where f: "apduSrv a = Some srv" "apduNak a = None" "apduService a = None"
    "apduInvokeID a = Some inv" "apduAbortRejectReason a = Some r" "apduSeq a = None" "apduWin a = None"
    "0 \<le> r" "r < 256" "0 \<le> inv" "inv < 256"
    "apduSeg a = None" "apduMor a = None" "apduSA a = None" "apduMaxSegs a = None" "apduMaxResp a = None"
    using w t by (auto simp: wf_apdu_def split: option.splits)
  then show ?thesis
    using t by (cases a; cases srv) (simp_all add: apdu_codec_defs codec_simps)
qed

lemma unsegmented_roundtrip:
  assumes w: "wf_apdu a" and t: "apduType a \<in> {1, 2, 5, 6}"
  shows "\<exists>p. apdu_encode a = Inr p \<and> apdu_decode p = Inr a"
proof -
  from t have nt: "apduType a \<noteq> 0" "apduType a \<noteq> 3" "apduType a \<noteq> 4" "apduType a \<noteq> 7" by auto
  with w have f: "apduSeg a = None" "apduMor a = None" "apduSA a = None" "apduNak a = None"
    "apduSrv a = None"
    by (simp_all add: wf_apdu_def)
  with w nt have f': "apduSeq a = None" "apduWin a = None" "apduMaxSegs a = None" "apduMaxResp a = None"
    by (cases "apduSeq a"; cases "apduWin a"; cases "apduMaxSegs a"; cases "apduMaxResp a";
        simp add: wf_apdu_def)+
  note f = f f'
  have g: "octet_field (apduService a) (apduType a \<in> {0, 1, 2, 3, 5})"
    "octet_field (apduInvokeID a) (apduType a \<noteq> 1)"
    "octet_field (apduAbortRejectReason a) (apduType a \<in> {6, 7})"
    using w by (auto simp: wf_apdu_def)
  from t consider "apduType a = 1" | "apduType a \<in> {2, 5}" | "apduType a = 6" by auto
  then show ?thesis
  proof cases
    case 1
    then obtain srv where v: "apduService a = Some srv" "0 \<le> srv" "srv < 256"
      "apduInvokeID a = None" "apduAbortRejectReason a = None"
      using g by (auto split: option.splits)
    show ?thesis using 1 v f by (cases a) (simp add: apdu_codec_defs codec_simps)
  next
    case 2
    then obtain srv inv where v: "apduService a = Some srv" "0 \<le> srv" "srv < 256"
      "apduInvokeID a = Some inv" "0 \<le> inv" "inv < 256" "apduAbortRejectReason a = None"
      using g by (auto split: option.splits)
    from 2 have "apduType a = 2 \<or> apduType a = 5" by simp
    then show ?thesis using v f by (cases a) (elim disjE; simp add: apdu_codec_defs codec_simps)
  next
    case 3
    then obtain r inv where v: "apduAbortRejectReason a = Some r" "0 \<le> r" "r < 256"
      "apduInvokeID a = Some inv" "0 \<le> inv" "inv < 256" "apduService a = None"
      using g by (auto split: option.splits)
    show ?thesis using 3 v f by (cases a) (simp add: apdu_codec_defs codec_simps)
  qed
qed

text \<open>
  An APDU of each of the eight types whose fields fit their octets is encoded
  without an error, and decoding the octets gives back the same object: header fields,
  segmentation fields, flags and service octets.
\<close>
theorem apdu_roundtrip:
  assumes "wf_apdu a"
  shows "\<exists>p. apdu_encode a = Inr p \<and> apdu_decode p = Inr a"
  using assms
  by (rule apdu_type_cases)
    (use assms confirmed_request_roundtrip complex_ack_roundtrip segment_ack_roundtrip
      abort_roundtrip unsegmented_roundtrip in auto)

definition example_apdu :: apdu where
  "example_apdu = (complex_ack_pdu (Some 12) (Some 7) None)
     \<lparr>apduSeg := Some True, apduMor := Some True, apduSeq := Some 3, apduWin := Some 16,
      apduData := [1, 2, 3]\<rparr>"

lemma apdu_roundtrip_witness:
  "\<exists>p. apdu_encode example_apdu = Inr p \<and> apdu_decode p = Inr example_apdu"
  by (rule apdu_roundtrip)
    (simp add: wf_apdu_def example_apdu_def complex_ack_pdu_def with_context_def init_apdu_def pci.defs)

end
