(* ===== verification/Action.thy ===== *)
theory Action
  imports Prelude
begin

text \<open>
  A method of a Python object as an action: it reads and changes a state, and ends with a value
  or raises, keeping the changes made before the exception. The combinators sequence
  statements; \<open>wp\<close> is their weakest precondition calculus.
\<close>

section \<open>Actions\<close>

type_synonym ('s, 'a) action = "'s \<Rightarrow> (py_error + 'a) \<times> 's"

definition retS :: "'a \<Rightarrow> ('s, 'a) action" where "retS x s = (Inr x, s)"
definition raiseS :: "py_error \<Rightarrow> ('s, 'a) action" where "raiseS e s = (Inl e, s)"
definition liftS :: "'a result \<Rightarrow> ('s, 'a) action" where "liftS r s = (r, s)"
definition modS :: "('s \<Rightarrow> 's) \<Rightarrow> ('s, unit) action" where "modS f s = (Inr (), f s)"
definition withS :: "('s \<Rightarrow> ('s, 'a) action) \<Rightarrow> ('s, 'a) action" where "withS f s = f s s"
definition bindS :: "('s, 'a) action \<Rightarrow> ('a \<Rightarrow> ('s, 'b) action) \<Rightarrow> ('s, 'b) action" where
  "bindS m f s = (case m s of (Inl e, s') \<Rightarrow> (Inl e, s') | (Inr x, s') \<Rightarrow> f x s')"

text \<open>A block of statements.\<close>

primrec seqS :: "('s, unit) action list \<Rightarrow> ('s, unit) action" where
  "seqS [] = retS ()"
| "seqS (m # ms) = bindS m (\<lambda>_. seqS ms)"

named_theorems act_simps "facts that run actions"

lemma act_basic [act_simps]:
  "retS x s = (Inr x, s)" "raiseS e s = (Inl e, s)" "liftS r s = (r, s)" "modS u s = (Inr (), u s)"
  "withS f s = f s s" "seqS [] s = (Inr (), s)" "seqS (m # ms) s = bindS m (\<lambda>_. seqS ms) s"
  by (simp_all add: retS_def raiseS_def liftS_def modS_def withS_def)

lemma bindS_Inr [act_simps]: "m s = (Inr x, s') \<Longrightarrow> bindS m f s = f x s'"
  by (simp add: bindS_def)

lemma bindS_Inl [act_simps]: "m s = (Inl e, s') \<Longrightarrow> bindS m f s = (Inl e, s')"
  by (simp add: bindS_def)

lemma bindS_if [act_simps]: "bindS (if b then m else m') f s = (if b then bindS m f s else bindS m' f s)"
  by simp

section \<open>Weakest preconditions\<close>

text \<open>
  \<open>wp m Q E s\<close>: run in \<open>s\<close>, the action ends with \<open>Q\<close> of its value and state, or raises
  leaving a state with \<open>E\<close>.
\<close>

definition wp :: "('s, 'a) action \<Rightarrow> ('a \<Rightarrow> 's \<Rightarrow> bool) \<Rightarrow> ('s \<Rightarrow> bool) \<Rightarrow> 's \<Rightarrow> bool" where
  "wp m Q E s = (case m s of (Inl _, s') \<Rightarrow> E s' | (Inr x, s') \<Rightarrow> Q x s')"

named_theorems wp_simps "weakest preconditions of actions"

lemma wp_basic [wp_simps]:
  "wp (retS x) Q E s = Q x s" "wp (raiseS e) Q E s = E s" "wp (withS f) Q E s = wp (f s) Q E s"
  by (simp_all add: wp_def act_simps)

lemma wp_unit [wp_simps]: "wp (modS u) Q E s = Q () (u s)" "wp (seqS []) Q E s = Q () s"
  by (simp_all add: wp_def act_simps)

lemma wp_ret [wp_simps]: "wp (retS x) Q E = Q x"
  by (rule ext) (simp add: wp_basic)

lemma wp_bindS [wp_simps]: "wp (bindS m f) Q E s = wp m (\<lambda>x. wp (f x) Q E) E s"
  by (auto simp: wp_def bindS_def split: prod.splits sum.splits)

lemma wp_seqS [wp_simps]: "wp (seqS (m # ms)) Q E s = wp m (\<lambda>_. wp (seqS ms) Q E) E s"
  by (simp add: wp_bindS)

lemma wp_if [wp_simps]:
  "wp (if b then m else m') Q E s = ((b \<longrightarrow> wp m Q E s) \<and> (\<not> b \<longrightarrow> wp m' Q E s))"
  by simp

lemma wp_option [wp_simps]:
  "wp (case z of None \<Rightarrow> m | Some v \<Rightarrow> m' v) Q E s =
    ((z = None \<longrightarrow> wp m Q E s) \<and> (\<forall>v. z = Some v \<longrightarrow> wp (m' v) Q E s))"
  by (cases z) auto

lemma wp_liftS [wp_simps]:
  "wp (liftS r) Q E s = ((\<forall>e. r = Inl e \<longrightarrow> E s) \<and> (\<forall>x. r = Inr x \<longrightarrow> Q x s))"
  by (cases r) (auto simp: wp_def act_simps)

lemma wp_mono:
  "wp m Q E s \<Longrightarrow> (\<And>x s. Q x s \<Longrightarrow> Q' x s) \<Longrightarrow> wp m Q' E s"
  by (auto simp: wp_def split: prod.splits sum.splits)

section \<open>Invariants of actions\<close>

definition keeps :: "('s \<Rightarrow> bool) \<Rightarrow> ('s, 'a) action \<Rightarrow> bool" where
  "keeps I m \<longleftrightarrow> (\<forall>s. I s \<longrightarrow> I (snd (m s)))"

lemma keepsD: "keeps I m \<Longrightarrow> I s \<Longrightarrow> I (snd (m s))"
  by (simp add: keeps_def)

lemma keeps_basic: "keeps I (retS x)" "keeps I (raiseS e)" "keeps I (liftS r)" "keeps I (seqS [])"
  by (simp_all add: keeps_def act_simps)

lemma keeps_mod: "(\<And>s. I s \<Longrightarrow> I (f s)) \<Longrightarrow> keeps I (modS f)"
  by (simp add: keeps_def modS_def)

lemma keeps_with: "(\<And>s. I s \<Longrightarrow> keeps I (f s)) \<Longrightarrow> keeps I (withS f)"
  by (simp add: keeps_def withS_def)

lemma snd_bindS:
  assumes "I (snd (m s))" "\<And>x t. m s = (Inr x, t) \<Longrightarrow> I t \<Longrightarrow> I (snd (f x t))"
  shows "I (snd (bindS m f s))"
proof -
  obtain r t where "m s = (r, t)" by fastforce
  then show ?thesis using assms by (cases r) (simp_all add: bindS_def)
qed

lemma keeps_bind: "keeps I m \<Longrightarrow> (\<And>x. keeps I (f x)) \<Longrightarrow> keeps I (bindS m f)"
  unfolding keeps_def by (blast intro: snd_bindS [of I])

lemma keeps_Cons: "keeps I m \<Longrightarrow> keeps I (seqS ms) \<Longrightarrow> keeps I (seqS (m # ms))"
  by (simp add: keeps_bind)

lemma keeps_map: "(\<And>x. x \<in> set xs \<Longrightarrow> keeps I (f x)) \<Longrightarrow> keeps I (seqS (map f xs))"
  by (induction xs) (auto intro: keeps_basic keeps_bind)

lemma keeps_if: "(b \<Longrightarrow> keeps I m) \<Longrightarrow> (\<not> b \<Longrightarrow> keeps I m') \<Longrightarrow> keeps I (if b then m else m')"
  by simp

lemma keeps_option:
  "(z = None \<Longrightarrow> keeps I m) \<Longrightarrow> (\<And>v. z = Some v \<Longrightarrow> keeps I (f v)) \<Longrightarrow>
    keeps I (case z of None \<Rightarrow> m | Some v \<Rightarrow> f v)"
  by (cases z) simp_all

lemma keeps_pair: "(\<And>x y. z = (x, y) \<Longrightarrow> keeps I (f x y)) \<Longrightarrow> keeps I (case z of (x, y) \<Rightarrow> f x y)"
  by (cases z) simp

lemma keeps_lift: "(\<And>x. r = Inr x \<Longrightarrow> keeps I (f x)) \<Longrightarrow> keeps I (bindS (liftS r) f)"
  by (cases r) (simp_all add: keeps_def act_simps bindS_def)

lemmas keeps_rules =
  keeps_lift keeps_basic keeps_mod keeps_with keeps_bind keeps_Cons keeps_map keeps_if keeps_option keeps_pair

end
