(* ===== verification/Ssm.thy ===== *)
theory Ssm
  imports Apdu Action
begin

text \<open>
  \<^verbatim>\<open>bacpypes3/appservice.py\<close>, class \<^verbatim>\<open>SSM\<close>: what the client and the server segmentation
  state machines share. A machine is a record; a method is an action on it that may raise,
  keeping the changes made before the exception. The calls that leave the machine are
  recorded in \<open>ssmOut\<close> in the order they are made. A method runs to its end before the
  next one starts.
\<close>

section \<open>State\<close>

datatype ssm_state =
  IDLE | SEGMENTED_REQUEST | AWAIT_CONFIRMATION | AWAIT_RESPONSE | SEGMENTED_RESPONSE
| SEGMENTED_CONFIRMATION | COMPLETED | ABORTED

datatype segmentation = SegmentedBoth | SegmentedTransmit | SegmentedReceive | NoSegmentation

record device_info =
  device_instance :: int
  device_address :: address
  max_apdu_length_accepted :: "int option"
  segmentation_supported :: segmentation
  max_npdu_length :: "int option"
  max_segments_accepted :: "int option"

text \<open>
  The calls out of a machine: \<^verbatim>\<open>ssmSAP.request\<close> towards the network, \<^verbatim>\<open>ssmSAP.sap_response\<close>
  or \<^verbatim>\<open>ssmSAP.sap_request\<close> towards the application, the error response built when the
  first request cannot be sent, the update of the device information cache, and the removal
  from the list of transactions.
\<close>

datatype effect =
    Down apdu
  | Up apdu
  | UpError apdu string
  | UpdateDeviceInfo device_info
  | Untrack

record ssm =
  pdu_address :: "address option"
  invokeID :: "int option"
  timer :: "int option"
  ssm_state :: ssm_state
  segmentAPDU :: "apdu option"
  segmentSize :: "int option"
  segmentCount :: "int option"
  retryCount :: "int option"
  segmentRetryCount :: "int option"
  sentAllSegments :: bool
  lastSequenceNumber :: "int option"
  initialSequenceNumber :: "int option"
  actualWindowSize :: "int option"
  numberOfApduRetries :: int
  apduTimeout :: int
  segmentationSupported :: segmentation
  segmentTimeout :: int
  maxSegmentsAccepted :: "int option"
  maxApduLengthAccepted :: int
  ssm_device_info :: "device_info option"
  segmented_response_accepted :: bool
  ssmOut :: "effect list"

text \<open>
  What the machine reads from the service access point: the settings, the lookup of device
  information, whether delivering a PDU to the network raises, and whether a complete APDU
  can be decoded as a service.
\<close>

record sap_config =
  proposedWindowSize :: int
  applicationTimeout :: int
  get_device_info :: "address option \<Rightarrow> device_info option"
  sap_down :: "apdu \<Rightarrow> py_error option"
  service_decodes :: "apdu \<Rightarrow> bool"
  sap_numberOfApduRetries :: int
  sap_apduTimeout :: int
  sap_segmentationSupported :: segmentation
  sap_segmentTimeout :: int
  sap_maxSegmentsAccepted :: "int option"
  sap_maxApduLengthAccepted :: int

type_synonym 'a act = "(ssm, 'a) action"

section \<open>SSM\<close>

text \<open>\<^verbatim>\<open>SSM.__init__\<close>; \<open>sentAllSegments\<close> is only tested, \<^verbatim>\<open>None\<close> is \<open>False\<close>.\<close>

definition new_ssm :: "sap_config \<Rightarrow> address option \<Rightarrow> ssm" where
  "new_ssm cfg addr =
     \<lparr>pdu_address = addr, invokeID = None, timer = None, ssm_state = IDLE, segmentAPDU = None,
      segmentSize = None, segmentCount = None, retryCount = None, segmentRetryCount = None,
      sentAllSegments = False, lastSequenceNumber = None, initialSequenceNumber = None,
      actualWindowSize = None, numberOfApduRetries = sap_numberOfApduRetries cfg,
      apduTimeout = sap_apduTimeout cfg, segmentationSupported = sap_segmentationSupported cfg,
      segmentTimeout = sap_segmentTimeout cfg, maxSegmentsAccepted = sap_maxSegmentsAccepted cfg,
      maxApduLengthAccepted = sap_maxApduLengthAccepted cfg, ssm_device_info = None,
      segmented_response_accepted = False, ssmOut = []\<rparr>"

definition emit :: "effect \<Rightarrow> unit act" where
  "emit e = modS (\<lambda>s. s\<lparr>ssmOut := ssmOut s @ [e]\<rparr>)"

definition start_timer :: "int \<Rightarrow> unit act" where
  "start_timer msecs = modS (\<lambda>s. s\<lparr>timer := Some msecs\<rparr>)"

text \<open>
  \<open>timer\<close> is the pending call. When it has run, \<^verbatim>\<open>timer_expired\<close> puts the handler of the timeout
  into a task, which \<^verbatim>\<open>stop_timer\<close> also cancels. Here a handler runs at once and to its end: a task
  that does not wait is not stopped by being cancelled.
\<close>

definition stop_timer :: "unit act" where
  "stop_timer = modS (\<lambda>s. s\<lparr>timer := None\<rparr>)"

definition restart_timer :: "int \<Rightarrow> unit act" where
  "restart_timer msecs = start_timer msecs"

definition final :: "ssm_state \<Rightarrow> bool" where
  "final st \<longleftrightarrow> st = COMPLETED \<or> st = ABORTED"

text \<open>\<^verbatim>\<open>ClientSSM.set_state\<close> and \<^verbatim>\<open>ServerSSM.set_state\<close> with the method of \<^verbatim>\<open>SSM\<close> they call.\<close>

definition set_state :: "ssm_state \<Rightarrow> int \<Rightarrow> unit act" where
  "set_state newState msecs = withS (\<lambda>s.
     if final (ssm_state s) then raiseS RuntimeError
     else seqS
       [stop_timer,
        modS (\<lambda>s. s\<lparr>ssm_state := newState\<rparr>),
        if msecs \<noteq> 0 then start_timer msecs else retS (),
        if final newState then emit Untrack else retS ()])"

definition set_segmentation_context :: "apdu \<Rightarrow> unit act" where
  "set_segmentation_context a = modS (\<lambda>s. s\<lparr>segmentAPDU := Some a\<rparr>)"

text \<open>\<^verbatim>\<open>data[offset : offset + size]\<close> for a non-negative offset.\<close>

definition py_slice :: "byte list \<Rightarrow> int \<Rightarrow> int \<Rightarrow> byte list" where
  "py_slice d offset sz = take (nat sz) (drop (nat offset) d)"

definition segment_header :: "ssm \<Rightarrow> apdu \<Rightarrow> apdu result" where
  "segment_header s a =
     (if apduType a = 0 then
        (if invokeID s = None then Inl AssertionError
         else
           bindR (encode_max_segments_accepted (maxSegmentsAccepted s)) (\<lambda>segs.
           bindR (encode_max_apdu_length_accepted (maxApduLengthAccepted s)) (\<lambda>resp.
           Inr ((confirmed_request_pdu (apduService a) (apduInvokeID a))
             \<lparr>apduMaxSegs := Some segs, apduMaxResp := Some resp, apduInvokeID := invokeID s,
              apduSA := Some (segmentationSupported s \<in> {SegmentedReceive, SegmentedBoth})\<rparr>))))
      else if apduType a = 3 then Inr (complex_ack_pdu (apduService a) (apduInvokeID a) None)
      else Inl RuntimeError)"

definition get_segment :: "sap_config \<Rightarrow> int \<Rightarrow> ssm \<Rightarrow> apdu result" where
  "get_segment cfg indx s =
     (case segmentAPDU s of None \<Rightarrow> Inl RuntimeError | Some a \<Rightarrow>
      bindR (need AssertionError (segmentCount s)) (\<lambda>cnt.
      if indx \<ge> cnt then Inl RuntimeError
      else
        bindR (segment_header s a) (\<lambda>seg.
        let seg = seg\<lparr>pduUserData := pduUserData a, pduDestination := pdu_address s\<rparr> in
        bindR
          (if cnt \<noteq> 1 then
             bindR (if indx = 0 then Inr (proposedWindowSize cfg)
                    else need AssertionError (actualWindowSize s)) (\<lambda>win.
             Inr (seg\<lparr>apduSeg := Some True, apduMor := Some (indx < cnt - 1),
                      apduSeq := Some (indx mod 256), apduWin := Some win\<rparr>))
           else Inr (seg\<lparr>apduSeg := Some False, apduMor := Some False\<rparr>)) (\<lambda>seg.
        bindR (need AssertionError (segmentSize s)) (\<lambda>sz.
        if sz = 0 then Inl AssertionError
        else Inr (seg\<lparr>apduData := apduData seg @ py_slice (apduData a) (indx * sz) sz\<rparr>))))))"

definition append_segment :: "apdu \<Rightarrow> unit act" where
  "append_segment a = withS (\<lambda>s.
     case segmentAPDU s of
       None \<Rightarrow> raiseS RuntimeError
     | Some ctx \<Rightarrow> modS (\<lambda>s. s\<lparr>segmentAPDU := Some (ctx\<lparr>apduData := apduData ctx @ apduData a\<rparr>)\<rparr>))"

text \<open>\<^verbatim>\<open>assert self.actualWindowSize\<close> also fails for a window of 0.\<close>

definition window_size :: "ssm \<Rightarrow> int result" where
  "window_size s =
     (case actualWindowSize s of None \<Rightarrow> Inl AssertionError
      | Some w \<Rightarrow> if w = 0 then Inl AssertionError else Inr w)"

definition in_window :: "int option \<Rightarrow> int option \<Rightarrow> ssm \<Rightarrow> bool result" where
  "in_window seqA seqB s =
     bindR (window_size s) (\<lambda>w. bindR (need TypeError seqA) (\<lambda>a. bindR (need TypeError seqB) (\<lambda>b.
     Inr ((a - b + 256) mod 256 < w))))"

text \<open>\<^verbatim>\<open>self.ssmSAP.request\<close>.\<close>

definition sap_request :: "sap_config \<Rightarrow> apdu \<Rightarrow> unit act" where
  "sap_request cfg a = (case sap_down cfg a of Some e \<Rightarrow> raiseS e | None \<Rightarrow> emit (Down a))"

text \<open>The loop \<^verbatim>\<open>for ix in range(self.actualWindowSize)\<close> with \<open>k\<close> rounds left.\<close>

primrec fill_window_loop :: "sap_config \<Rightarrow> int \<Rightarrow> nat \<Rightarrow> unit act" where
  "fill_window_loop cfg indx 0 = retS ()"
| "fill_window_loop cfg indx (Suc k) =
     bindS (withS (\<lambda>s. liftS (get_segment cfg indx s))) (\<lambda>a.
     bindS (sap_request cfg a) (\<lambda>_.
     if apduMor a \<noteq> Some True then modS (\<lambda>s. s\<lparr>sentAllSegments := True\<rparr>)
     else fill_window_loop cfg (indx + 1) k))"

definition fill_window :: "sap_config \<Rightarrow> int \<Rightarrow> unit act" where
  "fill_window cfg seqNum = withS (\<lambda>s.
     bindS (liftS (window_size s)) (\<lambda>w. fill_window_loop cfg seqNum (nat w)))"

text \<open>The number of segments, and the abort both machines build.\<close>

definition segment_count :: "byte list \<Rightarrow> int \<Rightarrow> int result" where
  "segment_count d sz =
     (if d = [] then Inr 1
      else if sz = 0 then Inl ZeroDivisionError
      else Inr (int (length d) div sz + (if int (length d) mod sz \<noteq> 0 then 1 else 0)))"

definition ssm_abort :: "bool \<Rightarrow> int \<Rightarrow> apdu act" where
  "ssm_abort srv reason =
     bindS (set_state ABORTED 0) (\<lambda>_. withS (\<lambda>s. retS (abort_pdu srv (invokeID s) (Some reason) None)))"

section \<open>Segments of a payload\<close>

lemma concat_slices:
  "concat (map (\<lambda>i. take k (drop (i * k) d)) [0..<m]) = take (m * k) d"
proof (induction m)
  case (Suc m)
  then show ?case using take_add [of "m * k" k d] by (simp add: add.commute)
qed simp

lemma segment_count_covers:
  assumes "segment_count d sz = Inr cnt" "0 < sz"
  shows "1 \<le> cnt \<and> int (length d) \<le> cnt * sz"
proof (cases "d = []")
  case False
  define l where "l = int (length d)"
  have l: "0 < l" using False by (simp add: l_def)
  have c: "cnt = l div sz + (if l mod sz \<noteq> 0 then 1 else 0)"
    using assms False by (simp add: segment_count_def l_def)
  have m: "l = sz * (l div sz) + l mod sz" by simp
  have "l \<noteq> 0" using l by simp
  have "0 \<le> l mod sz" "l mod sz < sz" using assms(2) by simp_all
  moreover have "0 \<le> l div sz" using l assms(2) by (simp add: pos_imp_zdiv_nonneg_iff)
  moreover have "l div sz \<noteq> 0 \<or> l mod sz \<noteq> 0"
  proof (rule ccontr)
    assume "\<not> ?thesis"
    then show False using m \<open>l \<noteq> 0\<close> by simp
  qed
  ultimately have "1 \<le> cnt"
    using c by auto
  moreover have "l \<le> cnt * sz"
  proof -
    have e: "(l div sz) * sz + l mod sz = l" by (rule div_mult_mod_eq)
    show ?thesis
    proof (cases "l mod sz = 0")
      case False
      then have "cnt * sz = (l div sz) * sz + sz" using c by (simp add: distrib_right)
      then show ?thesis using e \<open>l mod sz < sz\<close> by linarith
    qed (use c e in simp)
  qed
  ultimately show ?thesis by (simp add: l_def)
qed (use assms in \<open>simp add: segment_count_def\<close>)

text \<open>
  The context of a machine that has established what it sends: the APDU \<open>a\<close> of \<open>cnt\<close>
  segments, with the window negotiated when there is more than one.
\<close>

definition sending :: "ssm \<Rightarrow> apdu \<Rightarrow> int \<Rightarrow> int \<Rightarrow> bool" where
  "sending s a sz cnt \<longleftrightarrow>
     segmentAPDU s = Some a \<and> segmentSize s = Some sz \<and> 0 < sz \<and>
     segment_count (apduData a) sz = Inr cnt \<and> segmentCount s = Some cnt \<and>
     (\<exists>h. segment_header s a = Inr h) \<and> (cnt \<noteq> 1 \<longrightarrow> actualWindowSize s \<noteq> None)"

lemma segment_header_data: "segment_header s a = Inr h \<Longrightarrow> apduData h = []"
  by (auto simp: segment_header_def confirmed_request_pdu_def complex_ack_pdu_def with_context_def
      init_apdu_def pci.defs bindR_eq_Inr_iff split: if_splits)

lemma get_segment_total:
  assumes "sending s a sz cnt" "0 \<le> i" "i < cnt"
  shows "\<exists>g. get_segment cfg i s = Inr g \<and> apduData g = py_slice (apduData a) (i * sz) sz \<and>
    apduMor g = Some (i < cnt - 1) \<and> apduSeg g = Some (cnt \<noteq> 1) \<and>
    (cnt \<noteq> 1 \<longrightarrow> apduSeq g = Some (i mod 256)) \<and> pduDestination g = pdu_address s"
  using assms segment_header_data
  by (cases "cnt = 1"; cases "i = 0") (auto simp: sending_def get_segment_def Let_def)

definition segments :: "sap_config \<Rightarrow> ssm \<Rightarrow> apdu list" where
  "segments cfg s =
     (case segmentCount s of None \<Rightarrow> []
      | Some cnt \<Rightarrow> map (\<lambda>i. projr (get_segment cfg (int i) s)) [0..<nat cnt])"

lemma segments_nth:
  assumes "sending s a sz cnt" "0 \<le> i" "i < cnt"
  shows "get_segment cfg i s = Inr (segments cfg s ! nat i)"
proof -
  obtain g where "get_segment cfg i s = Inr g" using get_segment_total [OF assms, of cfg] by auto
  then show ?thesis using assms by (simp add: segments_def sending_def)
qed

lemma length_segments: "sending s a sz cnt \<Longrightarrow> length (segments cfg s) = nat cnt"
  by (simp add: segments_def sending_def)

lemma segments_nth_fields:
  assumes "sending s a sz cnt" "i < nat cnt"
  shows "get_segment cfg (int i) s = Inr (segments cfg s ! i) \<and>
    apduData (segments cfg s ! i) = take (nat sz) (drop (i * nat sz) (apduData a)) \<and>
    apduMor (segments cfg s ! i) = Some (int i < cnt - 1) \<and>
    (cnt \<noteq> 1 \<longrightarrow> apduSeq (segments cfg s ! i) = Some (int i mod 256))"
proof -
  have "0 < sz" using assms(1) by (simp add: sending_def)
  then show ?thesis
    using get_segment_total [OF assms(1), of "int i" cfg] segments_nth [OF assms(1), of "int i" cfg]
      assms(2)
    by (auto simp: py_slice_def nat_mult_distrib)
qed

lemma segments_concat:
  assumes "sending s a sz cnt"
  shows "1 \<le> cnt" "concat (map apduData (segments cfg s)) = apduData a"
proof -
  have sz: "0 < sz" and c: "segment_count (apduData a) sz = Inr cnt" using assms by (auto simp: sending_def)
  note cov = segment_count_covers [OF c sz]
  show "1 \<le> cnt" using cov ..
  have "map apduData (segments cfg s) = map (\<lambda>i. take (nat sz) (drop (i * nat sz) (apduData a))) [0..<nat cnt]"
    using segments_nth_fields [OF assms] length_segments [OF assms, of cfg]
    by (intro nth_equalityI) auto
  then have "concat (map apduData (segments cfg s)) = take (nat cnt * nat sz) (apduData a)"
    by (simp add: concat_slices)
  moreover have "int (length (apduData a)) \<le> int (nat cnt * nat sz)" using cov sz by simp
  ultimately show "concat (map apduData (segments cfg s)) = apduData a" by simp
qed

text \<open>
  Property C13. The segments of a request or response partition it: the machine has as many as
  the payload needs, no segment is longer than the segment size, their data put together is
  the payload, all but the last announce more, segment \<open>i\<close> carries the sequence number
  \<open>i mod 256\<close>, and asking for one more raises.
\<close>
theorem segments_partition:
  assumes "sending s a sz cnt"
  shows "length (segments cfg s) = nat cnt \<and> 1 \<le> cnt \<and>
    concat (map apduData (segments cfg s)) = apduData a \<and>
    (\<forall>i < nat cnt. let g = segments cfg s ! i in
       get_segment cfg (int i) s = Inr g \<and> int (length (apduData g)) \<le> sz \<and>
       apduMor g = Some (int i < cnt - 1) \<and> (cnt \<noteq> 1 \<longrightarrow> apduSeq g = Some (int i mod 256))) \<and>
    get_segment cfg cnt s = Inl RuntimeError"
proof -
  have "get_segment cfg cnt s = Inl RuntimeError" "0 < sz"
    using assms by (auto simp: sending_def get_segment_def)
  then show ?thesis
    using segments_concat(1) [OF assms] segments_concat(2) [OF assms, of cfg] segments_nth_fields [OF assms, of _ cfg]
      length_segments [OF assms, of cfg]
    by (auto simp: Let_def)
qed

text \<open>A machine in the middle of sending a response of seven octets in segments of three.\<close>

definition example_cfg :: sap_config where
  "example_cfg = \<lparr>proposedWindowSize = 2, applicationTimeout = 3000, get_device_info = (\<lambda>_. None),
     sap_down = (\<lambda>_. None), service_decodes = (\<lambda>_. True), sap_numberOfApduRetries = 3,
     sap_apduTimeout = 3000, sap_segmentationSupported = SegmentedBoth, sap_segmentTimeout = 1500,
     sap_maxSegmentsAccepted = Some 16, sap_maxApduLengthAccepted = 1024\<rparr>"

definition example_response :: apdu where
  "example_response = (complex_ack_pdu (Some 12) (Some 7) None)\<lparr>apduData := [1, 2, 3, 4, 5, 6, 7]\<rparr>"

definition example_sender :: ssm where
  "example_sender = (new_ssm example_cfg (Some (local_station [9])))
     \<lparr>invokeID := Some 7, ssm_state := SEGMENTED_RESPONSE, segmentAPDU := Some example_response,
      segmentSize := Some 3, segmentCount := Some 3, segmentRetryCount := Some 0,
      initialSequenceNumber := Some 0, actualWindowSize := Some 2\<rparr>"

definition example_request :: apdu where
  "example_request = (confirmed_request_pdu (Some 15) (Some 7))\<lparr>apduData := [1, 2, 3, 4, 5, 6, 7]\<rparr>"

definition example_client :: ssm where
  "example_client = (new_ssm example_cfg (Some (local_station [9])))
     \<lparr>invokeID := Some 7, ssm_state := SEGMENTED_REQUEST, segmentAPDU := Some example_request,
      segmentSize := Some 3, segmentCount := Some 3, retryCount := Some 0, segmentRetryCount := Some 0,
      initialSequenceNumber := Some 0, actualWindowSize := Some 2\<rparr>"

lemma example_client_sending: "sending example_client example_request 3 3"
  by (simp add: sending_def example_client_def example_request_def new_ssm_def segment_count_def
      segment_header_def confirmed_request_pdu_def init_apdu_def pci.defs example_cfg_def
      encode_max_apdu_length_accepted_def encode_max_segments_accepted_def rev_upt_0_6
      rev_upt_1_7 [simplified] max_apdu_length_encoding_def max_segments_accepted_encoding_def)

lemma example_sending: "sending example_sender example_response 3 3"
  by (simp add: sending_def example_sender_def example_response_def new_ssm_def segment_count_def
      segment_header_def complex_ack_pdu_def with_context_def init_apdu_def pci.defs)

lemma segments_partition_witness:
  "concat (map apduData (segments example_cfg example_sender)) = [1, 2, 3, 4, 5, 6, 7] \<and>
   get_segment example_cfg 3 example_sender = Inl RuntimeError"
  using segments_partition [OF example_sending, of example_cfg]
  by (simp add: example_response_def)

section \<open>The window\<close>

text \<open>
  A sequence number is in the window exactly when it lies fewer than the window
  size ahead of the first number of the window, counting modulo 256; without a negotiated
  window, or with one of size 0 (which a peer can send), the test itself fails.
\<close>
theorem in_window_iff:
  "(actualWindowSize s = Some w \<and> w \<noteq> 0 \<longrightarrow>
     in_window (Some a) (Some b) s = Inr ((a - b) mod 256 < w)) \<and>
   (actualWindowSize s = None \<or> actualWindowSize s = Some 0 \<longrightarrow>
     in_window (Some a) (Some b) s = Inl AssertionError)"
proof -
  have "(a - b + 256) mod 256 = (a - b) mod 256" by (rule mod_add_self2)
  then show ?thesis by (auto simp: in_window_def window_size_def)
qed

lemma in_window_iff_witness:
  "in_window (Some 1) (Some 255) example_sender = Inr False \<and>
   in_window (Some 0) (Some 255) example_sender = Inr True \<and>
   in_window (Some 0) (Some 0) (new_ssm example_cfg None) = Inl AssertionError"
  using in_window_iff [of example_sender 2 1 255] in_window_iff [of example_sender 2 0 255]
    in_window_iff [of "new_ssm example_cfg None" 2 0 0]
  by (simp add: example_sender_def new_ssm_def)

lemma get_segment_cong:
  assumes "segmentAPDU s' = segmentAPDU s" "segmentCount s' = segmentCount s"
    "invokeID s' = invokeID s" "maxSegmentsAccepted s' = maxSegmentsAccepted s"
    "maxApduLengthAccepted s' = maxApduLengthAccepted s"
    "segmentationSupported s' = segmentationSupported s" "pdu_address s' = pdu_address s"
    "actualWindowSize s' = actualWindowSize s" "segmentSize s' = segmentSize s"
  shows "get_segment cfg i s' = get_segment cfg i s"
  unfolding get_segment_def segment_header_def assms ..

lemma get_segment_frame [simp]:
  "get_segment cfg i (s\<lparr>ssmOut := out\<rparr>) = get_segment cfg i s"
  "get_segment cfg i (s\<lparr>sentAllSegments := b\<rparr>) = get_segment cfg i s"
  by (rule get_segment_cong; simp)+

text \<open>What the loop sends when the network takes every segment.\<close>

lemma fill_window_loop_sends:
  assumes "sending s a sz cnt" "\<And>g. sap_down cfg g = None" "0 \<le> i" "i < cnt" "0 < k"
  shows "fill_window_loop cfg i k (s\<lparr>ssmOut := out\<rparr>) =
    (Inr (), s\<lparr>ssmOut := out @ map Down (take k (drop (nat i) (segments cfg s))),
       sentAllSegments := (sentAllSegments s \<or> cnt \<le> i + int k)\<rparr>)"
  using assms(3-)
proof (induction k arbitrary: i out)
  case (Suc k)
  have g: "get_segment cfg i s = Inr (segments cfg s ! nat i)" using segments_nth [OF assms(1)] Suc by simp
  have m: "apduMor (segments cfg s ! nat i) = Some (i < cnt - 1)"
    using get_segment_total [OF assms(1), of i cfg] Suc g by auto
  have len: "length (segments cfg s) = nat cnt" using length_segments [OF assms(1)] .
  have d: "drop (nat i) (segments cfg s) = segments cfg s ! nat i # drop (nat (i + 1)) (segments cfg s)"
    using Suc.prems len by (metis Cons_nth_drop_Suc nat_add_distrib nat_less_eq_zless nat_one_as_int
        plus_1_eq_Suc add.commute zero_le_one Suc_eq_plus1)
  show ?case
  proof (cases "i < cnt - 1")
    case False
    then have "drop (nat (i + 1)) (segments cfg s) = []" using len by simp
    then show ?thesis using False g m d Suc.prems assms(2)
      by (simp add: act_simps bindS_def sap_request_def emit_def)
  next
    case True
    show ?thesis
    proof (cases k)
      case 0
      then show ?thesis using True g m d Suc.prems assms(2)
        by (simp add: act_simps bindS_def sap_request_def emit_def)
    next
      case (Suc k')
      have "fill_window_loop cfg (i + 1) k (s\<lparr>ssmOut := out @ [Down (segments cfg s ! nat i)]\<rparr>) =
        (Inr (), s\<lparr>ssmOut := (out @ [Down (segments cfg s ! nat i)]) @
           map Down (take k (drop (nat (i + 1)) (segments cfg s))),
         sentAllSegments := (sentAllSegments s \<or> cnt \<le> i + 1 + int k)\<rparr>)"
        using Suc.IH [of "i + 1" "out @ [Down (segments cfg s ! nat i)]"] True Suc.prems Suc by simp
      then show ?thesis using True g m d Suc.prems assms(2)
        by (simp add: act_simps bindS_def sap_request_def emit_def algebra_simps)
    qed
  qed
qed simp

text \<open>
  Filling the window from segment \<open>i\<close> sends the next segments in order, as many as the window
  holds and no more than are left, marks the payload as completely sent exactly when the last
  one is among them, and changes nothing else.
\<close>

lemma fill_window_sends:
  assumes "sending s a sz cnt" "\<And>g. sap_down cfg g = None" "0 \<le> i" "i < cnt"
    "actualWindowSize s = Some w" "0 < w"
  shows "fill_window cfg i s =
    (Inr (), s\<lparr>ssmOut := ssmOut s @ map Down (take (nat w) (drop (nat i) (segments cfg s))),
       sentAllSegments := (sentAllSegments s \<or> cnt \<le> i + w)\<rparr>)"
  using fill_window_loop_sends [OF assms(1,2,3,4), of "nat w" "ssmOut s"] assms(5,6)
  by (simp add: fill_window_def act_simps bindS_def window_size_def)

lemma segment_header_frame [simp]:
  "segment_header (s\<lparr>actualWindowSize := w\<rparr>) a = segment_header s a"
  "segment_header (s\<lparr>initialSequenceNumber := f\<rparr>) a = segment_header s a"
  "segment_header (s\<lparr>segmentRetryCount := r\<rparr>) a = segment_header s a"
  by (simp_all add: segment_header_def)

lemma sending_frame:
  "sending (s\<lparr>actualWindowSize := Some w, initialSequenceNumber := f, segmentRetryCount := r\<rparr>) a sz cnt
     \<longleftrightarrow> sending (s\<lparr>actualWindowSize := Some w\<rparr>) a sz cnt"
  by (simp add: sending_def)

lemma sending_window: "sending s a sz cnt \<Longrightarrow> sending (s\<lparr>actualWindowSize := Some w\<rparr>) a sz cnt"
  by (simp add: sending_def)

lemma segments_frame:
  "segments cfg (s\<lparr>actualWindowSize := w, initialSequenceNumber := f, segmentRetryCount := r\<rparr>) =
   segments cfg (s\<lparr>actualWindowSize := w\<rparr>)"
proof -
  have "get_segment cfg i (s\<lparr>actualWindowSize := w, initialSequenceNumber := f, segmentRetryCount := r\<rparr>) =
    get_segment cfg i (s\<lparr>actualWindowSize := w\<rparr>)" for i
    by (rule get_segment_cong) simp_all
  then show ?thesis unfolding segments_def by (cases "segmentCount s") simp_all
qed

text \<open>What both machines do when an acknowledgement moves the window on to segment \<open>i\<close>.\<close>

lemma next_window:
  assumes "sending s a sz cnt" "\<And>g. sap_down cfg g = None" "0 \<le> i" "i < cnt" "0 < w"
  shows "fill_window cfg i (s\<lparr>actualWindowSize := Some w, initialSequenceNumber := f, segmentRetryCount := r\<rparr>) =
    (Inr (), s\<lparr>actualWindowSize := Some w, initialSequenceNumber := f, segmentRetryCount := r,
       ssmOut := ssmOut s @ map Down (take (nat w) (drop (nat i) (segments cfg (s\<lparr>actualWindowSize := Some w\<rparr>)))),
       sentAllSegments := (sentAllSegments s \<or> cnt \<le> i + w)\<rparr>)"
  using fill_window_sends [where s = "s\<lparr>actualWindowSize := Some w, initialSequenceNumber := f, segmentRetryCount := r\<rparr>"
      and w = w, OF _ assms(2-4)] sending_window [OF assms(1), of w] assms(5)
  by (simp add: sending_frame segments_frame)

section \<open>Weakest preconditions of the shared methods\<close>

lemma wp_emit [wp_simps]: "wp (emit e) Q E s = Q () (s\<lparr>ssmOut := ssmOut s @ [e]\<rparr>)"
  by (simp add: emit_def wp_simps)

lemma wp_sap_request [wp_simps]:
  "wp (sap_request cfg a) Q E s =
    ((sap_down cfg a \<noteq> None \<longrightarrow> E s) \<and>
     (sap_down cfg a = None \<longrightarrow> Q () (s\<lparr>ssmOut := ssmOut s @ [Down a]\<rparr>)))"
  by (cases "sap_down cfg a") (auto simp: sap_request_def wp_simps)

lemma wp_timers [wp_simps]:
  "wp (start_timer ms) Q E s = Q () (s\<lparr>timer := Some ms\<rparr>)"
  "wp (restart_timer ms) Q E s = Q () (s\<lparr>timer := Some ms\<rparr>)"
  "wp stop_timer Q E s = Q () (s\<lparr>timer := None\<rparr>)"
  by (simp_all add: start_timer_def restart_timer_def stop_timer_def wp_simps)

lemma ssm_state_timer_swap: "s\<lparr>ssm_state := st, timer := t\<rparr> = s\<lparr>timer := t, ssm_state := st\<rparr>"
  by simp

lemma wp_set_state [wp_simps]:
  "wp (set_state st ms) Q E s =
    ((final (ssm_state s) \<longrightarrow> E s) \<and>
     (\<not> final (ssm_state s) \<longrightarrow>
        Q () (s\<lparr>timer := (if ms \<noteq> 0 then Some ms else None), ssm_state := st,
               ssmOut := (if final st then ssmOut s @ [Untrack] else ssmOut s)\<rparr>)))"
  by (auto simp: set_state_def wp_simps ssm_state_timer_swap)

lemma wp_set_segmentation_context [wp_simps]:
  "wp (set_segmentation_context a) Q E s = Q () (s\<lparr>segmentAPDU := Some a\<rparr>)"
  by (simp add: set_segmentation_context_def wp_simps)

lemma wp_append_segment [wp_simps]:
  "wp (append_segment a) Q E s =
    ((segmentAPDU s = None \<longrightarrow> E s) \<and>
     (\<forall>ctx. segmentAPDU s = Some ctx \<longrightarrow>
        Q () (s\<lparr>segmentAPDU := Some (ctx\<lparr>apduData := apduData ctx @ apduData a\<rparr>)\<rparr>)))"
  by (auto simp: append_segment_def wp_simps)

lemma wp_ssm_abort [wp_simps]:
  "wp (ssm_abort srv reason) Q E s =
    ((final (ssm_state s) \<longrightarrow> E s) \<and>
     (\<not> final (ssm_state s) \<longrightarrow>
        Q (abort_pdu srv (invokeID s) (Some reason) None)
          (s\<lparr>timer := None, ssm_state := ABORTED, ssmOut := ssmOut s @ [Untrack]\<rparr>)))"
  by (auto simp: ssm_abort_def wp_simps final_def)

text \<open>Whatever the window, filling it only sends segments and may mark the payload as sent.\<close>

lemma wp_fill_window_loop:
  assumes "\<And>gs b. Q () (s\<lparr>ssmOut := out @ map Down gs, sentAllSegments := b\<rparr>)"
    "\<And>gs. E (s\<lparr>ssmOut := out @ map Down gs\<rparr>)"
  shows "wp (fill_window_loop cfg i k) Q E (s\<lparr>ssmOut := out\<rparr>)"
  using assms
proof (induction k arbitrary: i out)
  case 0
  then show ?case using "0.prems"(1) [of "sentAllSegments s" "[]"] by (simp add: wp_simps)
next
  case (Suc k)
  have *: "wp (fill_window_loop cfg (i + 1) k) Q E (s\<lparr>ssmOut := out @ [Down g]\<rparr>)" for g
    using Suc.prems(1) [of _ "g # _"] Suc.prems(2) [of "g # _"]
    by (intro Suc.IH) simp_all
  then show ?case
    using Suc.prems(1) [of _ "[_]"] Suc.prems(2) [of "[]"]
    by (auto simp: wp_simps)
qed

lemma wp_fill_window:
  assumes "\<And>gs b. Q () (s\<lparr>ssmOut := ssmOut s @ map Down gs, sentAllSegments := b\<rparr>)"
    "\<And>gs. E (s\<lparr>ssmOut := ssmOut s @ map Down gs\<rparr>)"
  shows "wp (fill_window cfg i) Q E s"
  using wp_fill_window_loop [where Q = Q and E = E and s = s and out = "ssmOut s", OF assms] assms(2) [of "[]"]
  by (auto simp: fill_window_def wp_simps)

lemma wp_snd: "wp m (\<lambda>_. P) P s \<Longrightarrow> P (snd (m s))"
  by (auto simp: wp_def split: prod.splits sum.splits)

section \<open>The life of a machine\<close>

text \<open>
  A machine leaves the list of transactions exactly once, when it completes or aborts, and then
  has no timer.
\<close>

definition ssm_ok :: "ssm \<Rightarrow> bool" where
  "ssm_ok s \<longleftrightarrow>
     count_list (ssmOut s) Untrack = (if final (ssm_state s) then 1 else 0) \<and>
     (final (ssm_state s) \<longrightarrow> timer s = None)"

definition ssm_live :: "ssm \<Rightarrow> bool" where
  "ssm_live s \<longleftrightarrow> count_list (ssmOut s) Untrack = 0 \<and> \<not> final (ssm_state s)"

lemma ssm_ok_live: "\<not> final (ssm_state s) \<Longrightarrow> ssm_ok s \<longleftrightarrow> ssm_live s"
  by (simp add: ssm_ok_def ssm_live_def)

lemma count_map_Down [simp]: "count_list (map Down gs) Untrack = 0"
  by (induction gs) auto

lemma final_simps [simp]:
  "final COMPLETED" "final ABORTED" "\<not> final IDLE" "\<not> final SEGMENTED_REQUEST"
  "\<not> final AWAIT_CONFIRMATION" "\<not> final AWAIT_RESPONSE" "\<not> final SEGMENTED_RESPONSE"
  "\<not> final SEGMENTED_CONFIRMATION"
  by (simp_all add: final_def)

end
