(* ===== verification/Reassembly.thy ===== *)
theory Reassembly
  imports Ssm "HOL-Library.Sublist"
begin

text \<open>
  What \<^verbatim>\<open>ClientSSM.segmented_confirmation\<close> and \<^verbatim>\<open>ServerSSM.segmented_request\<close> have in
  common: the contract of a machine that puts segments together, and its consequence for a
  network that loses, repeats and reorders them. Both machines are interpretations.
\<close>

text \<open>The PDUs handed to the application.\<close>

primrec up_effects :: "effect list \<Rightarrow> apdu list" where
  "up_effects [] = []"
| "up_effects (e # es) = (case e of Up a \<Rightarrow> a # up_effects es | _ \<Rightarrow> up_effects es)"

lemma up_effects_append [simp]: "up_effects (es @ fs) = up_effects es @ up_effects fs"
  by (induction es) (auto split: effect.splits)

abbreviation ups :: "ssm \<Rightarrow> apdu list" where "ups s \<equiv> up_effects (ssmOut s)"

text \<open>
  Segment \<open>i\<close> of \<open>n\<close>, as a PDU of type \<open>t\<close>; segment \<open>i\<close> of a payload cut into the chunks
  \<open>cs\<close> also carries the chunk \<open>cs ! i\<close>.
\<close>

definition is_segment :: "int \<Rightarrow> nat \<Rightarrow> nat \<Rightarrow> apdu \<Rightarrow> bool" where
  "is_segment t n i g \<longleftrightarrow>
     i < n \<and> apduType g = t \<and> apduSeg g = Some True \<and>
     apduMor g = Some (Suc i < n) \<and> apduSeq g = Some (int i mod 256)"

definition is_segment_of :: "int \<Rightarrow> byte list list \<Rightarrow> nat \<Rightarrow> apdu \<Rightarrow> bool" where
  "is_segment_of t cs i g \<longleftrightarrow> is_segment t (length cs) i g \<and> apduData g = cs ! i"

text \<open>A machine in state \<open>st\<close> that has put the chunks 0 to \<open>k\<close> together and expects more.\<close>

definition collecting :: "ssm_state \<Rightarrow> byte list list \<Rightarrow> nat \<Rightarrow> ssm \<Rightarrow> bool" where
  "collecting st cs k s \<longleftrightarrow>
     ssm_state s = st \<and> Suc k < length cs \<and>
     (\<exists>ctx. segmentAPDU s = Some ctx \<and> apduData ctx = concat (take (Suc k) cs)) \<and>
     lastSequenceNumber s = Some (int k mod 256) \<and>
     initialSequenceNumber s \<noteq> None \<and> actualWindowSize s \<noteq> None"

lemma collectingE:
  assumes "collecting st cs k s"
  obtains ctx first win where "ssm_state s = st" "Suc k < length cs"
    "lastSequenceNumber s = Some (int k mod 256)" "segmentAPDU s = Some ctx"
    "apduData ctx = concat (take (Suc k) cs)" "initialSequenceNumber s = Some first"
    "actualWindowSize s = Some win"
  using assms by (auto simp: collecting_def)

lemma is_segment_ofD:
  assumes "is_segment_of t cs i g"
  shows "i < length cs" "apduType g = t" "apduSeg g = Some True" "apduMor g = Some (Suc i < length cs)"
    "apduSeq g = Some (int i mod 256)" "apduData g = cs ! i"
  using assms by (simp_all add: is_segment_of_def is_segment_def)

lemma is_segmentD:
  assumes "is_segment t n i g"
  shows "i < n" "apduType g = t" "apduSeg g = Some True" "apduMor g = Some (Suc i < n)"
    "apduSeq g = Some (int i mod 256)"
  using assms by (simp_all add: is_segment_def)

lemma is_segment_of_other:
  "is_segment_of t cs i g \<Longrightarrow> length cs' = length cs \<Longrightarrow> cs' ! i = cs ! i \<Longrightarrow> is_segment_of t cs' i g"
  by (simp add: is_segment_of_def)

lemma collecting_frame:
  "collecting st cs k (s\<lparr>timer := t\<rparr>) = collecting st cs k s"
  "collecting st cs k (s\<lparr>ssmOut := out\<rparr>) = collecting st cs k s"
  by (simp_all add: collecting_def)

lemma concat_take_last:
  "Suc (Suc k) = length cs \<Longrightarrow> concat (take (Suc k) cs) @ cs ! Suc k = concat cs"
  using take_Suc_conv_app_nth [of "Suc k" cs] by (metis concat_append concat.simps append_Nil2
      lessI take_all order_refl)

lemma concat_take_first: "cs \<noteq> [] \<Longrightarrow> concat (take (Suc 0) cs) = cs ! 0"
  by (cases cs) auto

lemma seq_expected:
  assumes "i < 256" "Suc k < 256"
  shows "int i mod 256 = (int k mod 256 + 1) mod 256 \<longleftrightarrow> i = Suc k"
  using assms by auto

lemma get_segment_type:
  "get_segment cfg i s = Inr g \<Longrightarrow> segmentAPDU s = Some a \<Longrightarrow> apduType g = apduType a"
  by (auto simp: get_segment_def segment_header_def Let_def bindR_eq_Inr_iff
      confirmed_request_pdu_def complex_ack_pdu_def with_context_def init_apdu_def pci.defs
      split: if_splits)

lemma segments_are_segments:
  assumes "sending s a sz cnt" "cnt \<noteq> 1" "i < nat cnt"
  shows "is_segment_of (apduType a) (map apduData (segments cfg s)) i (segments cfg s ! i)"
proof -
  have g: "get_segment cfg (int i) s = Inr (segments cfg s ! i)"
    using segments_nth [OF assms(1), of "int i" cfg] assms(3) by simp
  have "apduType (segments cfg s ! i) = apduType a"
    using get_segment_type [OF g] assms(1) by (simp add: sending_def)
  then show ?thesis
    using get_segment_total [OF assms(1), of "int i" cfg] g assms length_segments [OF assms(1), of cfg]
    by (auto simp: is_segment_of_def is_segment_def)
qed

lemma segment_window:
  "sending s a sz cnt \<Longrightarrow> 1 < cnt \<Longrightarrow> get_segment cfg i s = Inr g \<Longrightarrow> \<exists>w. apduWin g = Some w"
  by (auto simp: sending_def get_segment_def Let_def bindR_eq_Inr_iff split: if_splits)

lemma segment_fields:
  assumes "sending s a sz cnt" "apduType a = 0" "1 < cnt" "get_segment cfg i s = Inr g"
  shows "\<exists>w r v m v'. apduWin g = Some w \<and> apduMaxResp g = Some r \<and>
    decode_max_apdu_length_accepted r = Inr v \<and> apduMaxSegs g = Some m \<and>
    decode_max_segments_accepted m = Inr v'"
proof -
  obtain h where h: "segment_header s a = Inr h" "segmentAPDU s = Some a" "segmentCount s = Some cnt"
    using assms(1) by (auto simp: sending_def)
  then obtain r m where r: "apduMaxResp h = Some r" "encode_max_apdu_length_accepted (maxApduLengthAccepted s) = Inr r"
    "apduMaxSegs h = Some m" "encode_max_segments_accepted (maxSegmentsAccepted s) = Inr m"
    using assms(2) by (auto simp: segment_header_def bindR_eq_Inr_iff split: if_splits)
  moreover have "apduMaxResp g = apduMaxResp h" "apduMaxSegs g = apduMaxSegs h"
    using h assms(3,4) by (auto simp: get_segment_def Let_def bindR_eq_Inr_iff split: if_splits)
  ultimately show ?thesis
    using segment_window [OF assms(1,3,4)] encoded_max_apdu_decodes [OF r(2)] encoded_max_segments_decodes [OF r(4)] by auto
qed

locale reassembler =
  fixes recv :: "apdu \<Rightarrow> ssm \<Rightarrow> ssm"
    and ptype :: int
    and busy :: ssm_state
    and ready :: ssm_state
  assumes recv_other: "collecting busy cs k s \<Longrightarrow> length cs \<le> 256 \<Longrightarrow> is_segment ptype (length cs) i g \<Longrightarrow>
      i \<noteq> Suc k \<Longrightarrow> collecting busy cs k (recv g s) \<and> ups (recv g s) = ups s"
    and recv_next: "collecting busy cs k s \<Longrightarrow> length cs \<le> 256 \<Longrightarrow> is_segment_of ptype cs (Suc k) g \<Longrightarrow>
      Suc (Suc k) < length cs \<Longrightarrow> collecting busy cs (Suc k) (recv g s) \<and> ups (recv g s) = ups s"
    and recv_last: "collecting busy cs k s \<Longrightarrow> length cs \<le> 256 \<Longrightarrow> is_segment_of ptype cs (Suc k) g \<Longrightarrow>
      Suc (Suc k) = length cs \<Longrightarrow> ssm_state (recv g s) = ready \<and>
        (\<exists>a. ups (recv g s) = ups s @ [a] \<and> apduData a = concat cs)"
    and recv_ready: "ssm_state s = ready \<Longrightarrow> is_segment ptype n i g \<Longrightarrow>
      ssm_state (recv g s) = ready \<and> ups (recv g s) = ups s"
begin

definition feed :: "apdu list \<Rightarrow> ssm \<Rightarrow> ssm" where
  "feed gs s = foldl (\<lambda>s g. recv g s) s gs"

lemma feed_ready:
  assumes "ssm_state s = ready" "\<forall>i < n. is_segment ptype n i (seg i)" "set ids \<subseteq> {..<n}"
  shows "ssm_state (feed (map seg ids) s) = ready \<and> ups (feed (map seg ids) s) = ups s"
  using assms
proof (induction ids arbitrary: s)
  case (Cons i ids)
  then have "is_segment ptype n i (seg i)" by simp
  with Cons.prems have "ssm_state (recv (seg i) s) = ready" "ups (recv (seg i) s) = ups s"
    using recv_ready by blast+
  then show ?case using Cons by (simp add: feed_def)
qed (simp add: feed_def)

text \<open>The first chunk is what the machine took as the first segment, whatever segment 0 holds.\<close>

lemma feed_collects:
  assumes "collecting busy cs k s" "length cs \<le> 256"
    "\<forall>i < length cs. is_segment ptype (length cs) i (seg i)"
    "\<forall>i < length cs. 0 < i \<longrightarrow> apduData (seg i) = cs ! i" "set ids \<subseteq> {..<length cs}"
  shows "((\<exists>k. collecting busy cs k (feed (map seg ids) s)) \<and> ups (feed (map seg ids) s) = ups s \<or>
      ssm_state (feed (map seg ids) s) = ready \<and>
        (\<exists>a. ups (feed (map seg ids) s) = ups s @ [a] \<and> apduData a = concat cs)) \<and>
    (subseq [Suc k..<length cs] ids \<longrightarrow> ssm_state (feed (map seg ids) s) = ready \<and>
        (\<exists>a. ups (feed (map seg ids) s) = ups s @ [a] \<and> apduData a = concat cs))"
  using assms(1,5)
proof (induction ids arbitrary: k s)
  case Nil
  then show ?case by (auto simp: feed_def collecting_def)
next
  case (Cons i ids)
  have g: "is_segment ptype (length cs) i (seg i)" and ids_ok: "set ids \<subseteq> {..<length cs}"
    using Cons.prems assms(3) by auto
  have k: "Suc k < length cs" using Cons.prems by (simp add: collecting_def)
  have g': "i = Suc k \<Longrightarrow> is_segment_of ptype cs (Suc k) (seg i)" using g k assms(4) by (simp add: is_segment_of_def)
  have f: "feed (map seg (i # ids)) s = feed (map seg ids) (recv (seg i) s)" by (simp add: feed_def)
  have up: "[Suc k..<length cs] = Suc k # [Suc (Suc k)..<length cs]" using k by (simp add: upt_rec)
  consider "i \<noteq> Suc k" | "i = Suc k" "Suc (Suc k) < length cs" | "i = Suc k" "Suc (Suc k) = length cs"
    using k by linarith
  then show ?case
  proof cases
    case 1
    then have "subseq [Suc k..<length cs] (i # ids) \<longrightarrow> subseq [Suc k..<length cs] ids"
      by (simp add: up)
    then show ?thesis
      using Cons.IH [of k "recv (seg i) s"] recv_other [OF Cons.prems(1) assms(2) g 1] ids_ok f by auto
  next
    case 2
    then have "subseq [Suc k..<length cs] (i # ids) \<longrightarrow> subseq [Suc (Suc k)..<length cs] ids"
      by (simp add: up)
    then show ?thesis
      using Cons.IH [of "Suc k" "recv (seg i) s"] recv_next [OF Cons.prems(1) assms(2) g' [OF 2(1)] 2(2)] 2 ids_ok f
      by auto
  next
    case 3
    have "ssm_state (recv (seg i) s) = ready \<and>
        (\<exists>a. ups (recv (seg i) s) = ups s @ [a] \<and> apduData a = concat cs)"
      using recv_last [OF Cons.prems(1) assms(2) g' [OF 3(1)] 3(2)] .
    then show ?thesis using feed_ready [OF _ assms(3) ids_ok, of "recv (seg i) s"] f by auto
  qed
qed

end

text \<open>A network that delivers every PDU and an application that can decode every service.\<close>

definition reliable :: "sap_config \<Rightarrow> sap_config" where
  "reliable cfg = cfg\<lparr>sap_down := (\<lambda>_. None), service_decodes := (\<lambda>_. True)\<rparr>"

lemma reliable_simps [simp]:
  "sap_down (reliable cfg) a = None" "service_decodes (reliable cfg) a"
  "applicationTimeout (reliable cfg) = applicationTimeout cfg"
  "proposedWindowSize (reliable cfg) = proposedWindowSize cfg"
  "get_device_info (reliable cfg) = get_device_info cfg"
  by (simp_all add: reliable_def)

end
