(* ===== verification/ClientSsm.thy ===== *)
theory ClientSsm
  imports Reassembly
begin

text \<open>
  \<^verbatim>\<open>bacpypes3/appservice.py\<close>, class \<^verbatim>\<open>ClientSSM\<close>: the machine that sends a confirmed
  request, in segments when it is long, and collects the answer, with its timeouts.
\<close>

section \<open>Handlers\<close>

definition client_request :: "sap_config \<Rightarrow> apdu \<Rightarrow> unit act" where
  "client_request cfg a = withS (\<lambda>s.
     sap_request cfg (a\<lparr>pduSource := None, pduDestination := pdu_address s\<rparr>))"

definition client_response :: "apdu \<Rightarrow> unit act" where
  "client_response a = withS (\<lambda>s.
     emit (Up (a\<lparr>pduSource := pdu_address s, pduDestination := None\<rparr>)))"

definition client_abort :: "int \<Rightarrow> apdu act" where
  "client_abort reason = ssm_abort False reason"

text \<open>Abort and tell the application, or both sides.\<close>

definition client_abort_up :: "int \<Rightarrow> unit act" where
  "client_abort_up reason = bindS (client_abort reason) client_response"

definition client_abort_both :: "sap_config \<Rightarrow> int \<Rightarrow> unit act" where
  "client_abort_both cfg reason =
     bindS (client_abort reason) (\<lambda>a. seqS [client_request cfg a, client_response a])"

definition client_segment_size :: "int \<Rightarrow> device_info option \<Rightarrow> int" where
  "client_segment_size own info =
     (case info of None \<Rightarrow> own
      | Some d \<Rightarrow>
          (case max_apdu_length_accepted d of None \<Rightarrow> own
           | Some apdu_len \<Rightarrow>
               (case max_npdu_length d of None \<Rightarrow> apdu_len
                | Some npdu_len \<Rightarrow> min npdu_len apdu_len)))"

text \<open>The reason a segmented request is refused before it is sent, if there is one.\<close>

definition client_refusal :: "ssm \<Rightarrow> int \<Rightarrow> int option" where
  "client_refusal s cnt =
     (if cnt > 1 then
        if segmentationSupported s \<notin> {SegmentedTransmit, SegmentedBoth} then Some 4
        else
          (case ssm_device_info s of None \<Rightarrow> None
           | Some d \<Rightarrow>
               if segmentation_supported d \<notin> {SegmentedReceive, SegmentedBoth} then Some 4
               else
                 (case max_segments_accepted d of None \<Rightarrow> None
                  | Some m \<Rightarrow> if m \<noteq> 0 \<and> cnt > m then Some 11 else None))
      else None)"

text \<open>\<^verbatim>\<open>try: await self.request(self.get_segment(0)) except CommuncationError\<close>.\<close>

definition deliver_first :: "sap_config \<Rightarrow> apdu \<Rightarrow> unit act" where
  "deliver_first cfg a s =
     (case bindS (withS (\<lambda>s. liftS (get_segment cfg 0 s))) (client_request cfg) s of
        (Inl (CommunicationError code), s') \<Rightarrow>
          seqS
            [set_state COMPLETED 0,
             emit (UpError ((error_pdu (apduService a) (apduInvokeID a) None)
               \<lparr>pduSource := pduDestination a\<rparr>) code)] s'
      | r \<Rightarrow> r)"

definition client_start :: "sap_config \<Rightarrow> apdu \<Rightarrow> unit act" where
  "client_start cfg a =
     seqS
       [withS (\<lambda>s.
          if segmentCount s = Some 1 then seqS
            [modS (\<lambda>s. s\<lparr>sentAllSegments := True, retryCount := Some 0\<rparr>),
             set_state AWAIT_CONFIRMATION (apduTimeout s)]
          else seqS
            [modS (\<lambda>s. s\<lparr>sentAllSegments := False, retryCount := Some 0, segmentRetryCount := Some 0,
               initialSequenceNumber := Some 0, actualWindowSize := None\<rparr>),
             set_state SEGMENTED_REQUEST (segmentTimeout s)]),
        deliver_first cfg a]"

definition client_indication :: "sap_config \<Rightarrow> apdu \<Rightarrow> unit act" where
  "client_indication cfg a =
     (if apduType a \<noteq> 0 then raiseS RuntimeError
      else seqS
        [set_segmentation_context a,
         modS (\<lambda>s. s\<lparr>ssm_device_info := get_device_info cfg (pdu_address s)\<rparr>),
         modS (\<lambda>s. s\<lparr>segmentSize :=
           Some (client_segment_size (maxApduLengthAccepted s) (ssm_device_info s))\<rparr>),
         modS (\<lambda>s. s\<lparr>invokeID := apduInvokeID a\<rparr>),
         withS (\<lambda>s. bindS (liftS (segment_count (apduData a) (the (segmentSize s)))) (\<lambda>cnt. seqS
           [modS (\<lambda>s. s\<lparr>segmentCount := Some cnt\<rparr>),
            case client_refusal s cnt of
              Some reason \<Rightarrow> client_abort_up reason
            | None \<Rightarrow> client_start cfg a]))])"

definition client_segmented_request :: "sap_config \<Rightarrow> apdu \<Rightarrow> unit act" where
  "client_segmented_request cfg a =
     (if apduType a = 4 then seqS
        [modS (\<lambda>s. s\<lparr>actualWindowSize := apduWin a\<rparr>),
         withS (\<lambda>s. bindS (liftS (in_window (apduSeq a) (initialSequenceNumber s) s)) (\<lambda>inside.
           if \<not> inside then restart_timer (segmentTimeout s)
           else if sentAllSegments s then set_state AWAIT_CONFIRMATION (apduTimeout s)
           else bindS (liftS (need TypeError (apduSeq a))) (\<lambda>seq. seqS
             [modS (\<lambda>s. s\<lparr>initialSequenceNumber := Some ((seq + 1) mod 256), segmentRetryCount := Some 0\<rparr>),
              fill_window cfg ((seq + 1) mod 256),
              restart_timer (segmentTimeout s)])))]
      else if apduType a = 2 then withS (\<lambda>s.
        if \<not> sentAllSegments s then client_abort_both cfg 2
        else seqS [set_state COMPLETED 0, client_response a])
      else if apduType a = 3 then withS (\<lambda>s.
        if \<not> sentAllSegments s then client_abort_both cfg 2
        else if apduSeg a \<noteq> Some True then seqS [set_state COMPLETED 0, client_response a]
        else seqS
          [set_segmentation_context a,
           bindS (liftS (need TypeError (apduWin a))) (\<lambda>win. modS (\<lambda>s.
             s\<lparr>actualWindowSize := Some (min win (proposedWindowSize cfg)),
               lastSequenceNumber := Some 0, initialSequenceNumber := Some 0\<rparr>)),
           set_state SEGMENTED_CONFIRMATION (segmentTimeout s)])
      else if apduType a \<in> {5, 6, 7} then seqS [set_state COMPLETED 0, client_response a]
      else raiseS RuntimeError)"

definition client_segmented_request_timeout :: "sap_config \<Rightarrow> unit act" where
  "client_segmented_request_timeout cfg = withS (\<lambda>s.
     bindS (liftS (need TypeError (segmentRetryCount s))) (\<lambda>retries.
     if retries < numberOfApduRetries s then seqS
       [modS (\<lambda>s. s\<lparr>segmentRetryCount := Some (retries + 1)\<rparr>),
        start_timer (segmentTimeout s),
        bindS (liftS (need TypeError (initialSequenceNumber s))) (\<lambda>first.
        if first = 0 then bindS (withS (\<lambda>s. liftS (get_segment cfg 0 s))) (client_request cfg)
        else fill_window cfg first)]
     else client_abort_up 65))"

definition client_await_confirmation :: "sap_config \<Rightarrow> apdu \<Rightarrow> unit act" where
  "client_await_confirmation cfg a = withS (\<lambda>s.
     if apduType a = 7 then seqS [set_state ABORTED 0, client_response a]
     else if apduType a \<in> {2, 5, 6} then seqS [set_state COMPLETED 0, client_response a]
     else if apduType a = 3 then
       if apduSeg a \<noteq> Some True then seqS [set_state COMPLETED 0, client_response a]
       else if segmentationSupported s \<notin> {SegmentedReceive, SegmentedBoth} then client_abort_up 4
       else if apduSeq a = Some 0 then seqS
         [set_segmentation_context a,
          modS (\<lambda>s. s\<lparr>actualWindowSize := apduWin a, lastSequenceNumber := Some 0,
            initialSequenceNumber := Some 0\<rparr>),
          set_state SEGMENTED_CONFIRMATION (segmentTimeout s),
          client_request cfg (segment_ack_pdu False False (invokeID s) (Some 0) (apduWin a))]
       else client_abort_both cfg 2
     else if apduType a = 4 then restart_timer (segmentTimeout s)
     else raiseS RuntimeError)"

text \<open>
  The retry goes through \<open>client_indication\<close>, which resets the retry count; the saved count
  is put back only when that does not raise.
\<close>

definition client_await_confirmation_timeout :: "sap_config \<Rightarrow> unit act" where
  "client_await_confirmation_timeout cfg = withS (\<lambda>s.
     bindS (liftS (need TypeError (retryCount s))) (\<lambda>retries.
     if retries < numberOfApduRetries s then seqS
       [modS (\<lambda>s. s\<lparr>retryCount := Some (retries + 1)\<rparr>),
        bindS (liftS (need AttributeError (segmentAPDU s))) (client_indication cfg),
        modS (\<lambda>s. s\<lparr>retryCount := Some (retries + 1)\<rparr>)]
     else client_abort_up 65))"

definition client_segmented_confirmation :: "sap_config \<Rightarrow> apdu \<Rightarrow> unit act" where
  "client_segmented_confirmation cfg a = withS (\<lambda>s.
     if apduType a \<noteq> 3 then client_abort_both cfg 2
     else if apduSeg a \<noteq> Some True then client_abort_both cfg 2
     else bindS (liftS (need TypeError (lastSequenceNumber s))) (\<lambda>last.
       if apduSeq a \<noteq> Some ((last + 1) mod 256) then seqS
         [restart_timer (segmentTimeout s),
          client_request cfg (segment_ack_pdu True False (invokeID s) (Some last) (actualWindowSize s))]
       else seqS
         [append_segment a,
          modS (\<lambda>s. s\<lparr>lastSequenceNumber := Some ((last + 1) mod 256)\<rparr>),
          if apduMor a \<noteq> Some True then seqS
            [client_request cfg (segment_ack_pdu False False (invokeID s)
               (Some ((last + 1) mod 256)) (actualWindowSize s)),
             set_state COMPLETED 0,
             withS (\<lambda>s. bindS (liftS (need AttributeError (segmentAPDU s))) client_response)]
          else
            bindS (liftS (need TypeError (initialSequenceNumber s))) (\<lambda>first.
            bindS (liftS (need TypeError (actualWindowSize s))) (\<lambda>win.
            if apduSeq a = Some ((first + win) mod 256) then seqS
              [modS (\<lambda>s. s\<lparr>initialSequenceNumber := lastSequenceNumber s\<rparr>),
               restart_timer (segmentTimeout s),
               client_request cfg (segment_ack_pdu False False (invokeID s)
                 (Some ((last + 1) mod 256)) (actualWindowSize s))]
            else restart_timer (segmentTimeout s)))]))"

definition client_segmented_confirmation_timeout :: "unit act" where
  "client_segmented_confirmation_timeout = client_abort_up 65"

definition client_confirmation :: "sap_config \<Rightarrow> apdu \<Rightarrow> unit act" where
  "client_confirmation cfg a = withS (\<lambda>s.
     if ssm_state s = SEGMENTED_REQUEST then client_segmented_request cfg a
     else if ssm_state s = AWAIT_CONFIRMATION then client_await_confirmation cfg a
     else if ssm_state s = SEGMENTED_CONFIRMATION then client_segmented_confirmation cfg a
     else raiseS RuntimeError)"

text \<open>The scheduled call has run: there is no pending timer until a handler starts one.\<close>

definition client_timer_expired :: "sap_config \<Rightarrow> unit act" where
  "client_timer_expired cfg = seqS
     [modS (\<lambda>s. s\<lparr>timer := None\<rparr>),
      withS (\<lambda>s.
        if ssm_state s = SEGMENTED_REQUEST then client_segmented_request_timeout cfg
        else if ssm_state s = AWAIT_CONFIRMATION then client_await_confirmation_timeout cfg
        else if ssm_state s = SEGMENTED_CONFIRMATION then client_segmented_confirmation_timeout
        else if ssm_state s = COMPLETED then retS ()
        else if ssm_state s = ABORTED then retS ()
        else raiseS RuntimeError)]"

section \<open>Life cycle\<close>

lemmas client_calls = client_request_def client_response_def client_abort_def client_abort_up_def
  client_abort_both_def

named_theorems client_ok "handlers keep the life cycle"

lemma wp_catch:
  "wp (deliver_first cfg a) Q E s \<longleftrightarrow>
    (case bindS (withS (\<lambda>s. liftS (get_segment cfg 0 s))) (client_request cfg) s of
       (Inl (CommunicationError code), s') \<Rightarrow> wp (seqS
          [set_state COMPLETED 0,
           emit (UpError ((error_pdu (apduService a) (apduInvokeID a) None)
             \<lparr>pduSource := pduDestination a\<rparr>) code)]) Q E s'
     | (Inl _, s') \<Rightarrow> E s' | (Inr _, s') \<Rightarrow> Q () s')"
  by (auto simp: wp_def deliver_first_def split: prod.splits sum.splits py_error.splits)

lemma deliver_first_ok [client_ok]:
  "ssm_live s \<Longrightarrow> wp (deliver_first cfg a) (\<lambda>_. ssm_ok) ssm_ok s"
  unfolding wp_catch
  by (auto simp: bindS_def withS_def liftS_def client_request_def sap_request_def raiseS_def emit_def
      modS_def wp_simps ssm_live_def ssm_ok_def split: prod.splits sum.splits option.splits py_error.splits)

lemma client_start_ok [client_ok]:
  "ssm_live s \<Longrightarrow> wp (client_start cfg a) (\<lambda>_. ssm_ok) ssm_ok s"
  by (auto simp: client_start_def wp_simps intro!: deliver_first_ok)
    (auto simp: ssm_live_def)

lemma client_indication_ok [client_ok]:
  "ssm_live s \<Longrightarrow> wp (client_indication cfg a) (\<lambda>_. ssm_ok) ssm_ok s"
  by (auto simp: client_indication_def wp_simps client_calls intro!: client_start_ok)
    (auto simp: ssm_live_def ssm_ok_def)

lemma client_segmented_request_ok [client_ok]:
  "ssm_live s \<Longrightarrow> wp (client_segmented_request cfg a) (\<lambda>_. ssm_ok) ssm_ok s"
  by (auto simp: client_segmented_request_def wp_simps client_calls intro!: wp_fill_window)
    (auto simp: ssm_live_def ssm_ok_def)

lemma client_segmented_request_timeout_ok [client_ok]:
  "ssm_live s \<Longrightarrow> wp (client_segmented_request_timeout cfg) (\<lambda>_. ssm_ok) ssm_ok s"
  by (auto simp: client_segmented_request_timeout_def wp_simps client_calls intro!: wp_fill_window)
    (auto simp: ssm_live_def ssm_ok_def)

lemma client_await_confirmation_ok [client_ok]:
  "ssm_live s \<Longrightarrow> wp (client_await_confirmation cfg a) (\<lambda>_. ssm_ok) ssm_ok s"
  by (auto simp: client_await_confirmation_def wp_simps client_calls)
    (auto simp: ssm_live_def ssm_ok_def)

lemma client_await_confirmation_timeout_ok [client_ok]:
  "ssm_live s \<Longrightarrow> wp (client_await_confirmation_timeout cfg) (\<lambda>_. ssm_ok) ssm_ok s"
  by (auto simp: client_await_confirmation_timeout_def wp_simps client_calls
      intro!: wp_mono [OF client_indication_ok])
    (auto simp: ssm_live_def ssm_ok_def)

lemma client_segmented_confirmation_ok [client_ok]:
  "ssm_live s \<Longrightarrow> wp (client_segmented_confirmation cfg a) (\<lambda>_. ssm_ok) ssm_ok s"
  by (auto simp: client_segmented_confirmation_def wp_simps client_calls)
    (auto simp: ssm_live_def ssm_ok_def)

lemma client_segmented_confirmation_timeout_ok [client_ok]:
  "ssm_live s \<Longrightarrow> wp client_segmented_confirmation_timeout (\<lambda>_. ssm_ok) ssm_ok s"
  by (auto simp: client_segmented_confirmation_timeout_def wp_simps client_calls)
    (auto simp: ssm_live_def ssm_ok_def)

lemma client_handlers_ok:
  assumes live: "ssm_live s"
  shows "ssm_ok (snd (client_confirmation cfg a s))" "ssm_ok (snd (client_timer_expired cfg s))"
    "ssm_ok (snd (client_indication cfg a s))"
proof -
  have ok: "ssm_ok s" using live by (simp add: ssm_live_def ssm_ok_def)
  have live': "ssm_live (s\<lparr>timer := None\<rparr>)" using live by (simp add: ssm_live_def)
  have "wp (client_confirmation cfg a) (\<lambda>_. ssm_ok) ssm_ok s"
    using live ok by (auto simp: client_confirmation_def wp_simps intro!: client_ok)
  moreover have "wp (client_timer_expired cfg) (\<lambda>_. ssm_ok) ssm_ok s"
    using live' by (auto simp: client_timer_expired_def wp_simps intro!: client_ok)
      (auto simp: ssm_live_def ssm_ok_def)
  ultimately show "ssm_ok (snd (client_confirmation cfg a s))" "ssm_ok (snd (client_timer_expired cfg s))"
    "ssm_ok (snd (client_indication cfg a s))"
    using client_indication_ok [OF live] by (auto dest: wp_snd)
qed

text \<open>
  Property C18. Whatever PDUs and timeouts a client machine sees, errors included, it leaves the
  list of transactions exactly once, exactly when it enters COMPLETED or ABORTED, and has no
  timer running then; from then on a PDU raises without an effect and a late timeout does nothing.
\<close>
theorem client_lifecycle:
  assumes "ssm_ok s"
  shows "ssm_ok (snd (client_confirmation cfg a s)) \<and> ssm_ok (snd (client_timer_expired cfg s)) \<and>
    (\<not> final (ssm_state s) \<longrightarrow> ssm_ok (snd (client_indication cfg a s))) \<and>
    (final (ssm_state s) \<longrightarrow> client_confirmation cfg a s = (Inl RuntimeError, s) \<and>
       client_timer_expired cfg s = (Inr (), s))"
proof (cases "final (ssm_state s)")
  case True
  then have "client_confirmation cfg a s = (Inl RuntimeError, s)"
    by (auto simp: client_confirmation_def act_simps final_def)
  moreover have "timer s = None" using True assms by (simp add: ssm_ok_def)
  then have "client_timer_expired cfg s = (Inr (), s)"
    using True by (auto simp: client_timer_expired_def act_simps bindS_def final_def)
  ultimately show ?thesis using assms True by simp
next
  case False
  then have "ssm_live s" using assms by (simp add: ssm_ok_live)
  then show ?thesis using False client_handlers_ok [of s] by simp
qed

lemma client_lifecycle_witness:
  "ssm_ok (new_ssm example_cfg None) \<and>
   ssm_ok (snd (client_indication example_cfg (confirmed_request_pdu (Some 12) (Some 1))
     (new_ssm example_cfg None)))"
proof -
  have "ssm_ok (new_ssm example_cfg None)" by (simp add: ssm_ok_def new_ssm_def)
  then show ?thesis
    using client_lifecycle [of "new_ssm example_cfg None" example_cfg
        "confirmed_request_pdu (Some 12) (Some 1)"] by (simp add: new_ssm_def)
qed

section \<open>Reassembly of a segmented answer\<close>

definition client_recv :: "sap_config \<Rightarrow> apdu \<Rightarrow> ssm \<Rightarrow> ssm" where
  "client_recv cfg g s = snd (client_confirmation (reliable cfg) g s)"

lemma client_recv_wp:
  "wp (client_confirmation (reliable cfg) g) (\<lambda>_. P) P s \<Longrightarrow> P (client_recv cfg g s)"
  by (simp add: client_recv_def wp_snd)

interpretation client: reassembler "client_recv cfg" 3 SEGMENTED_CONFIRMATION COMPLETED for cfg
proof unfold_locales
  fix cs i g k s
  assume c: "collecting SEGMENTED_CONFIRMATION cs k s" and l: "length cs \<le> 256"
    and s: "is_segment 3 (length cs) i g" and i: "i \<noteq> Suc k"
  note g = is_segmentD [OF s]
  from c obtain ctx first win where f: "ssm_state s = SEGMENTED_CONFIRMATION" "Suc k < length cs"
    "lastSequenceNumber s = Some (int k mod 256)" "segmentAPDU s = Some ctx"
    "apduData ctx = concat (take (Suc k) cs)" "initialSequenceNumber s = Some first"
    "actualWindowSize s = Some win"
    by (rule collectingE)
  have ne: "int i mod 256 \<noteq> (int k mod 256 + 1) mod 256"
    using seq_expected [of i k] f g l i by simp
  show "collecting SEGMENTED_CONFIRMATION cs k (client_recv cfg g s) \<and> ups (client_recv cfg g s) = ups s"
    by (rule client_recv_wp) (use c ne in \<open>simp add: client_confirmation_def client_segmented_confirmation_def client_calls wp_simps f g collecting_frame\<close>)
next
  fix cs g k s
  assume c: "collecting SEGMENTED_CONFIRMATION cs k s" and s: "is_segment_of 3 cs (Suc k) g"
    and k: "Suc (Suc k) < length cs"
  note g = is_segment_ofD [OF s]
  from c obtain ctx first win where f: "ssm_state s = SEGMENTED_CONFIRMATION" "Suc k < length cs"
    "lastSequenceNumber s = Some (int k mod 256)" "segmentAPDU s = Some ctx"
    "apduData ctx = concat (take (Suc k) cs)" "initialSequenceNumber s = Some first"
    "actualWindowSize s = Some win"
    by (rule collectingE)
  show "collecting SEGMENTED_CONFIRMATION cs (Suc k) (client_recv cfg g s) \<and> ups (client_recv cfg g s) = ups s"
    by (rule client_recv_wp) (use k in \<open>simp add: client_confirmation_def client_segmented_confirmation_def client_calls wp_simps f g mod_simps collecting_def take_Suc_conv_app_nth add.commute\<close>)
next
  fix cs g k s
  assume c: "collecting SEGMENTED_CONFIRMATION cs k s" and s: "is_segment_of 3 cs (Suc k) g"
    and k: "Suc (Suc k) = length cs"
  note g = is_segment_ofD [OF s]
  from c obtain ctx first win where f: "ssm_state s = SEGMENTED_CONFIRMATION" "Suc k < length cs"
    "lastSequenceNumber s = Some (int k mod 256)" "segmentAPDU s = Some ctx"
    "apduData ctx = concat (take (Suc k) cs)" "initialSequenceNumber s = Some first"
    "actualWindowSize s = Some win"
    by (rule collectingE)
  show "ssm_state (client_recv cfg g s) = COMPLETED \<and>
      (\<exists>a. ups (client_recv cfg g s) = ups s @ [a] \<and> apduData a = concat cs)"
    by (rule client_recv_wp) (use k in \<open>simp add: client_confirmation_def client_segmented_confirmation_def client_calls wp_simps f g mod_simps concat_take_last add.commute\<close>)
next
  fix s :: ssm and g and n i
  assume r: "ssm_state s = COMPLETED" "is_segment 3 n i g"
  show "ssm_state (client_recv cfg g s) = COMPLETED \<and> ups (client_recv cfg g s) = ups s"
    by (rule client_recv_wp) (use r in \<open>simp add: client_confirmation_def wp_simps  is_segment_def\<close>)
qed

definition client_run :: "sap_config \<Rightarrow> apdu list \<Rightarrow> ssm \<Rightarrow> ssm" where
  "client_run cfg gs s = foldl (\<lambda>s g. client_recv cfg g s) s gs"

lemma client_first_segment:
  assumes g: "is_segment 3 (length cs) 0 g" "1 < length cs" "cs ! 0 = apduData g" and w: "apduWin g = Some w"
    and s: "ssm_state s = AWAIT_CONFIRMATION" "segmentationSupported s \<in> {SegmentedReceive, SegmentedBoth}"
  shows "collecting SEGMENTED_CONFIRMATION cs 0 (client_recv cfg g s) \<and> ups (client_recv cfg g s) = ups s"
proof (rule client_recv_wp)
  have ne: "cs \<noteq> []" using g(2) by auto
  have sup: "segmentationSupported s = SegmentedReceive \<or> segmentationSupported s = SegmentedBoth"
    using s(2) by simp
  show "wp (client_confirmation (reliable cfg) g)
     (\<lambda>_ s'. collecting SEGMENTED_CONFIRMATION cs 0 s' \<and> ups s' = ups s)
     (\<lambda>s'. collecting SEGMENTED_CONFIRMATION cs 0 s' \<and> ups s' = ups s) s"
    using sup by (simp add: client_confirmation_def client_await_confirmation_def client_calls
        wp_simps collecting_def s(1) is_segmentD [OF g(1)] g(3) g(2) [simplified] w
        concat_take_first [OF ne])
qed

lemma client_wrong_first_segment:
  assumes g: "is_segment 3 n i g" "0 < i" "n \<le> 256"
    and s: "ssm_state s = AWAIT_CONFIRMATION" "segmentationSupported s \<in> {SegmentedReceive, SegmentedBoth}"
  shows "ssm_state (client_recv cfg g s) = ABORTED \<and>
    (\<exists>b. ups (client_recv cfg g s) = ups s @ [b] \<and> apduType b = 7 \<and> apduAbortRejectReason b = Some 2)"
proof (rule client_recv_wp)
  have sup: "segmentationSupported s = SegmentedReceive \<or> segmentationSupported s = SegmentedBoth"
    using s(2) by simp
  have "int i mod 256 \<noteq> 0" using g is_segmentD(1) [OF g(1)] by simp
  then show "wp (client_confirmation (reliable cfg) g)
     (\<lambda>_ s'. ssm_state s' = ABORTED \<and>
        (\<exists>b. ups s' = ups s @ [b] \<and> apduType b = 7 \<and> apduAbortRejectReason b = Some 2))
     (\<lambda>s'. ssm_state s' = ABORTED \<and>
        (\<exists>b. ups s' = ups s @ [b] \<and> apduType b = 7 \<and> apduAbortRejectReason b = Some 2)) s"
    using sup by (elim disjE) (simp_all add: client_confirmation_def client_await_confirmation_def
        client_calls wp_simps s(1) is_segmentD [OF g(1)] abort_pdu_def with_context_def init_apdu_def pci.defs)
qed

lemma client_run_aborted:
  assumes "ssm_state s = ABORTED" shows "client_run cfg gs s = s"
  using assms
proof (induction gs)
  case (Cons g gs)
  have "client_recv cfg g s = s"
    using Cons.prems by (simp add: client_recv_def client_confirmation_def act_simps)
  then show ?case using Cons by (simp add: client_run_def)
qed (simp add: client_run_def)

text \<open>
  Property C2. A client that supports segmented reception waits for an answer and gets the segments
  of a complex ack of 2 to 256 segments with losses, repetitions and in any order, the first one
  included, while no timer expires and its acknowledgements can be sent. If segment 0 is the first
  to arrive, it passes nothing to the application until it has them all, and then completes and
  passes exactly one answer that carries exactly the payload the server cut up; as soon as segments
  1, 2, ... have arrived in this order after segment 0, whatever came in between, it is complete.
  If another segment is the first to arrive, the client aborts and passes exactly one abort with
  reason 2 (invalid APDU in this state), whatever arrives afterwards.
\<close>
theorem client_reassembly:
  assumes c: "sending c a sz cnt" "apduType a = 3" "1 < cnt" "cnt \<le> 256"
    and s: "ssm_state s = AWAIT_CONFIRMATION" "segmentationSupported s \<in> {SegmentedReceive, SegmentedBoth}"
    and ids: "set (i # ids) \<subseteq> {..<nat cnt}"
  shows "let s' = client_run cfg (map ((!) (segments scfg c)) (i # ids)) s;
      passed = (ssm_state s' = COMPLETED \<and> (\<exists>b. ups s' = ups s @ [b] \<and> apduData b = apduData a)) in
    if i = 0 then
      (ssm_state s' = SEGMENTED_CONFIRMATION \<and> ups s' = ups s \<or> passed) \<and>
      (subseq [1..<nat cnt] ids \<longrightarrow> passed)
    else ssm_state s' = ABORTED \<and>
      (\<exists>b. ups s' = ups s @ [b] \<and> apduType b = 7 \<and> apduAbortRejectReason b = Some 2)"
proof -
  define gs where "gs = segments scfg c"
  define cs where "cs = map apduData gs"
  have len: "length cs = nat cnt" "length gs = nat cnt" and con: "concat cs = apduData a"
    using length_segments [OF c(1)] segments_concat(2) [OF c(1)] by (simp_all add: cs_def gs_def)
  have seg: "\<forall>j < length cs. is_segment 3 (length cs) j (gs ! j)"
    "\<forall>j < length cs. 0 < j \<longrightarrow> apduData (gs ! j) = cs ! j"
    using segments_are_segments [OF c(1), of _ scfg] c(2,3) len by (simp_all add: cs_def gs_def is_segment_of_def)
  have bounds: "length cs \<le> 256" "set ids \<subseteq> {..<length cs}" "i < length cs" using len ids c(4) by auto
  have run: "client_run cfg (map ((!) gs) (i # ids)) s = client_run cfg (map ((!) gs) ids) (client_recv cfg (gs ! i) s)"
    by (simp add: client_run_def)
  show ?thesis
  proof (cases "i = 0")
    case True
    obtain w where w: "apduWin (gs ! 0) = Some w"
      using segment_window [OF c(1,3) segments_nth [OF c(1), of 0 scfg]] c(3) by (auto simp: gs_def)
    have "is_segment 3 (length cs) 0 (gs ! 0)" "1 < length cs" "cs ! 0 = apduData (gs ! 0)"
      using seg len c(3) by (auto simp: cs_def)
    note start = client_first_segment [OF this w s, of cfg]
    note client.feed_collects [OF conjunct1 [OF start] bounds(1) seg bounds(2), where cfg = cfg]
    then show ?thesis
      using start len con run True
      by (auto simp: gs_def [symmetric] Let_def collecting_def client_run_def client.feed_def)
  next
    case False
    have "is_segment 3 (length cs) i (gs ! i)" "0 < i" using seg(1) bounds(3) False by auto
    note wrong = client_wrong_first_segment [OF this bounds(1) s, of cfg]
    then show ?thesis
      using run False by (simp add: gs_def [symmetric] Let_def client_run_aborted del: list.map)
  qed
qed

lemma client_reassembly_witness:
  "let gs = segments example_cfg example_sender;
       s' = client_run example_cfg (map ((!) gs) [0, 2, 1, 0, 2])
         (example_client\<lparr>ssm_state := AWAIT_CONFIRMATION\<rparr>) in
    ssm_state s' = COMPLETED \<and> (\<exists>b. ups s' = [b] \<and> apduData b = [1, 2, 3, 4, 5, 6, 7])"
proof -
  have t: "apduType example_response = 3" "apduData example_response = [1, 2, 3, 4, 5, 6, 7]"
    by (simp_all add: example_response_def complex_ack_pdu_def with_context_def init_apdu_def pci.defs)
  have n: "ssm_state (example_client\<lparr>ssm_state := AWAIT_CONFIRMATION\<rparr>) = AWAIT_CONFIRMATION"
    "ssmOut (example_client\<lparr>ssm_state := AWAIT_CONFIRMATION\<rparr>) = []"
    "segmentationSupported (example_client\<lparr>ssm_state := AWAIT_CONFIRMATION\<rparr>)
      \<in> {SegmentedReceive, SegmentedBoth}"
    by (simp_all add: example_client_def new_ssm_def example_cfg_def)
  have "set [0, 2, 1, 0, 2] \<subseteq> {..<nat 3}" "subseq [1..<nat 3] [2, 1, 0, 2]"
    by (auto simp: upt_rec)
  then show ?thesis
    using client_reassembly [OF example_sending t(1) _ _ n(1,3), of 0 "[2, 1, 0, 2]" example_cfg example_cfg]
    by (simp add: Let_def t n)
qed

section \<open>Acknowledgements\<close>

text \<open>
  A client sending a segmented request reacts to a segment acknowledgement like the
  server: outside the window it only restarts its timer; inside the window, once every segment
  has been sent, it waits for the answer, whether the acknowledgement is negative or not;
  otherwise it continues with the segment whose index is the acknowledged number plus one
  modulo 256.
\<close>
theorem client_segment_ack:
  assumes s: "ssm_state s = SEGMENTED_REQUEST" "initialSequenceNumber s = Some f"
    and g: "apduType g = 4" "apduWin g = Some w" "0 < w" "apduSeq g = Some q"
  shows "(\<not> (q - f) mod 256 < w \<longrightarrow>
      client_confirmation cfg g s =
        (Inr (), s\<lparr>actualWindowSize := Some w, timer := Some (segmentTimeout s)\<rparr>)) \<and>
    ((q - f) mod 256 < w \<and> sentAllSegments s \<longrightarrow>
      client_confirmation cfg g s = (Inr (), s\<lparr>actualWindowSize := Some w, timer := (if apduTimeout s \<noteq> 0 then Some (apduTimeout s) else None), ssm_state := AWAIT_CONFIRMATION\<rparr>)) \<and>
    ((q - f) mod 256 < w \<and> \<not> sentAllSegments s \<and> sending s a sz cnt \<and> (q + 1) mod 256 < cnt \<and>
       (\<forall>g. sap_down cfg g = None) \<longrightarrow>
      (let i = (q + 1) mod 256; gs = segments cfg (s\<lparr>actualWindowSize := Some w\<rparr>) in
       client_confirmation cfg g s =
        (Inr (), s\<lparr>actualWindowSize := Some w, initialSequenceNumber := Some i,
           segmentRetryCount := Some 0, ssmOut := ssmOut s @ map Down (take (nat w) (drop (nat i) gs)),
           sentAllSegments := (cnt \<le> i + w), timer := Some (segmentTimeout s)\<rparr>)))"
proof -
  have inw: "in_window (Some q) (Some f) (s\<lparr>actualWindowSize := Some w\<rparr>) = Inr ((q - f) mod 256 < w)"
    using g(3) mod_add_self2 [of "q - f" 256] by (simp add: in_window_def window_size_def)
  note run = client_confirmation_def act_simps bindS_def client_segmented_request_def s g inw restart_timer_def start_timer_def
    set_state_def stop_timer_def emit_def
  have 1: "\<not> (q - f) mod 256 < w \<Longrightarrow> client_confirmation cfg g s =
      (Inr (), s\<lparr>actualWindowSize := Some w, timer := Some (segmentTimeout s)\<rparr>)"
    by (simp add: run)
  have 2: "(q - f) mod 256 < w \<Longrightarrow> sentAllSegments s \<Longrightarrow> client_confirmation cfg g s = (Inr (), s\<lparr>actualWindowSize := Some w, timer := (if apduTimeout s \<noteq> 0 then Some (apduTimeout s) else None), ssm_state := AWAIT_CONFIRMATION\<rparr>)"
    by (simp add: run)
  have 3: "client_confirmation cfg g s =
        (Inr (), s\<lparr>actualWindowSize := Some w, initialSequenceNumber := Some ((q + 1) mod 256),
           segmentRetryCount := Some 0, ssmOut := ssmOut s @ map Down (take (nat w)
             (drop (nat ((q + 1) mod 256)) (segments cfg (s\<lparr>actualWindowSize := Some w\<rparr>)))),
           sentAllSegments := (cnt \<le> (q + 1) mod 256 + w), timer := Some (segmentTimeout s)\<rparr>)"
    if "(q - f) mod 256 < w" "\<not> sentAllSegments s" "sending s a sz cnt" "(q + 1) mod 256 < cnt"
      "\<forall>g. sap_down cfg g = None"
    using next_window [OF that(3) _ _ that(4) g(3), where cfg = cfg and f = "Some ((q + 1) mod 256)" and r = "Some 0"] that
    by (simp add: run)
  show ?thesis using 1 2 3 by (simp add: Let_def)
qed

definition client_example_ack :: "int \<Rightarrow> apdu" where
  "client_example_ack q = segment_ack_pdu True True (Some 7) (Some q) (Some 2)"

lemma client_segment_ack_witness:
  "client_confirmation example_cfg (client_example_ack 0) example_client =
     (Inr (), example_client\<lparr>initialSequenceNumber := Some 1, segmentRetryCount := Some 0,
        ssmOut := map Down (take 2 (drop 1 (segments example_cfg example_client))),
        sentAllSegments := True, timer := Some 1500\<rparr>)"
proof -
  have s: "ssm_state example_client = SEGMENTED_REQUEST" "initialSequenceNumber example_client = Some 0"
    "\<not> sentAllSegments example_client" "ssmOut example_client = []" "segmentTimeout example_client = 1500"
    "example_client\<lparr>actualWindowSize := Some 2\<rparr> = example_client"
    by (simp_all add: example_client_def new_ssm_def example_cfg_def)
  have g: "apduType (client_example_ack 0) = 4" "apduWin (client_example_ack 0) = Some 2" "apduSeq (client_example_ack 0) = Some 0"
    by (simp_all add: client_example_ack_def segment_ack_pdu_def init_apdu_def pci.defs)
  have "\<forall>g. sap_down example_cfg g = None" by (simp add: example_cfg_def)
  then show ?thesis
    using client_segment_ack [OF s(1,2) g(1,2) _ g(3), of example_cfg example_request 3 3] example_client_sending s
    by (simp add: Let_def)
qed

section \<open>Retries\<close>









end
