(* ===== verification/ServerSsm.thy ===== *)
theory ServerSsm
  imports Reassembly
begin

text \<open>
  \<^verbatim>\<open>bacpypes3/appservice.py\<close>, class \<^verbatim>\<open>ServerSSM\<close>: the machine that receives a confirmed
  request, puts its segments together, hands it to the application and sends the answer,
  in segments when it is long.
\<close>

section \<open>Handlers\<close>

text \<open>
  \<^verbatim>\<open>ServerSSM.request\<close>: a complete request is decoded as a service before it is passed up;
  when that fails an abort goes up in its place.
\<close>

definition server_request :: "sap_config \<Rightarrow> apdu \<Rightarrow> unit act" where
  "server_request cfg a = withS (\<lambda>s.
     if apduType a \<noteq> 7 \<and> \<not> service_decodes cfg a then
       emit (Up ((abort_pdu False None (Some 0) None)
         \<lparr>pduSource := pdu_address s, pduDestination := None\<rparr>))
     else emit (Up (a\<lparr>pduSource := pdu_address s, pduDestination := None\<rparr>)))"

definition server_response :: "sap_config \<Rightarrow> apdu \<Rightarrow> unit act" where
  "server_response cfg a = withS (\<lambda>s.
     sap_request cfg (a\<lparr>pduSource := None, pduDestination := pdu_address s\<rparr>))"

definition server_abort :: "int \<Rightarrow> apdu act" where
  "server_abort reason = ssm_abort True reason"

definition server_abort_down :: "sap_config \<Rightarrow> int \<Rightarrow> unit act" where
  "server_abort_down cfg reason = bindS (server_abort reason) (server_response cfg)"

definition server_abort_both :: "sap_config \<Rightarrow> int \<Rightarrow> unit act" where
  "server_abort_both cfg reason =
     bindS (server_abort reason) (\<lambda>a. seqS [server_request cfg a, server_response cfg a])"

definition server_segment_size :: "int \<Rightarrow> device_info option \<Rightarrow> int" where
  "server_segment_size own info =
     (case info of None \<Rightarrow> own
      | Some d \<Rightarrow> (case max_npdu_length d of None \<Rightarrow> own | Some npdu_len \<Rightarrow> min npdu_len own))"

text \<open>The reason a segmented response is refused before it is sent, if there is one.\<close>

definition server_refusal :: "ssm \<Rightarrow> int \<Rightarrow> int option" where
  "server_refusal s cnt =
     (if cnt > 1 then
        if segmentationSupported s \<notin> {SegmentedTransmit, SegmentedBoth} then Some 4
        else if \<not> segmented_response_accepted s then Some 4
        else
          (case maxSegmentsAccepted s of None \<Rightarrow> None
           | Some m \<Rightarrow> if cnt > m then Some 11 else None)
      else None)"

definition server_confirmation :: "sap_config \<Rightarrow> apdu \<Rightarrow> unit act" where
  "server_confirmation cfg a =
     (if apduType a = 7 then seqS [set_state ABORTED 0, server_response cfg a]
      else if apduType a \<in> {2, 5, 6} then seqS [set_state COMPLETED 0, server_response cfg a]
      else if apduType a = 3 then seqS
        [set_segmentation_context a,
         modS (\<lambda>s. s\<lparr>segmentSize :=
           Some (server_segment_size (maxApduLengthAccepted s) (ssm_device_info s))\<rparr>),
         withS (\<lambda>s. bindS (liftS (segment_count (apduData a) (the (segmentSize s)))) (\<lambda>cnt. seqS
           [modS (\<lambda>s. s\<lparr>segmentCount := Some cnt\<rparr>),
            case server_refusal s cnt of
              Some reason \<Rightarrow> server_abort_down cfg reason
            | None \<Rightarrow> seqS
                [modS (\<lambda>s. s\<lparr>segmentRetryCount := Some 0, initialSequenceNumber := Some 0,
                   actualWindowSize := None\<rparr>),
                 if cnt = 1 then seqS
                   [server_response cfg (a\<lparr>apduSeg := Some False, apduMor := Some False\<rparr>),
                    set_state COMPLETED 0]
                 else seqS
                   [bindS (withS (\<lambda>s. liftS (get_segment cfg 0 s))) (server_response cfg),
                    set_state SEGMENTED_RESPONSE (segmentTimeout s)]]]))]
      else raiseS RuntimeError)"

text \<open>What an accepted segmented response tells about the client.\<close>

definition learn_segmentation :: "apdu \<Rightarrow> unit act" where
  "learn_segmentation a = withS (\<lambda>s.
     case ssm_device_info s of
       None \<Rightarrow> retS ()
     | Some d \<Rightarrow>
         if apduSA a = Some True \<and> segmentation_supported d = NoSegmentation then
           let d = d\<lparr>segmentation_supported := SegmentedReceive\<rparr> in
           seqS [modS (\<lambda>s. s\<lparr>ssm_device_info := Some d\<rparr>), emit (UpdateDeviceInfo d)]
         else if apduSA a = Some True \<and> segmentation_supported d = SegmentedTransmit then
           let d = d\<lparr>segmentation_supported := SegmentedBoth\<rparr> in
           seqS [modS (\<lambda>s. s\<lparr>ssm_device_info := Some d\<rparr>), emit (UpdateDeviceInfo d)]
         else retS ())"

text \<open>The device information wins unless it promises less than the request.\<close>

definition client_max_apdu :: "int \<Rightarrow> device_info option \<Rightarrow> int" where
  "client_max_apdu decoded info =
     (case info of None \<Rightarrow> decoded
      | Some d \<Rightarrow>
          (case max_apdu_length_accepted d of None \<Rightarrow> decoded
           | Some v \<Rightarrow> if v < decoded then decoded else v))"

definition server_idle :: "sap_config \<Rightarrow> apdu \<Rightarrow> unit act" where
  "server_idle cfg a =
     (if apduType a \<noteq> 0 then raiseS RuntimeError
      else seqS
        [modS (\<lambda>s. s\<lparr>invokeID := apduInvokeID a\<rparr>),
         modS (\<lambda>s. s\<lparr>ssm_device_info := get_device_info cfg (pdu_address s)\<rparr>),
         modS (\<lambda>s. s\<lparr>segmented_response_accepted := (apduSA a = Some True)\<rparr>),
         learn_segmentation a,
         bindS (liftS (bindR (need TypeError (apduMaxResp a)) decode_max_apdu_length_accepted))
           (\<lambda>v. modS (\<lambda>s. s\<lparr>maxApduLengthAccepted := client_max_apdu v (ssm_device_info s)\<rparr>)),
         bindS (liftS (bindR (need TypeError (apduMaxSegs a)) decode_max_segments_accepted))
           (\<lambda>v. modS (\<lambda>s. s\<lparr>maxSegmentsAccepted := v\<rparr>)),
         withS (\<lambda>s.
           if apduSeg a \<noteq> Some True then seqS
             [set_state AWAIT_RESPONSE (applicationTimeout cfg), server_request cfg a]
           else if segmentationSupported s \<notin> {SegmentedReceive, SegmentedBoth} then
             server_abort_down cfg 4
           else seqS
             [set_segmentation_context a,
              bindS (liftS (need TypeError (apduWin a))) (\<lambda>win.
                modS (\<lambda>s. s\<lparr>actualWindowSize := Some (min win (proposedWindowSize cfg))\<rparr>)),
              modS (\<lambda>s. s\<lparr>lastSequenceNumber := Some 0, initialSequenceNumber := Some 0\<rparr>),
              set_state SEGMENTED_REQUEST (segmentTimeout s),
              withS (\<lambda>s. server_response cfg
                (segment_ack_pdu False True (invokeID s) (initialSequenceNumber s) (actualWindowSize s)))])])"

definition server_segmented_request :: "sap_config \<Rightarrow> apdu \<Rightarrow> unit act" where
  "server_segmented_request cfg a = withS (\<lambda>s.
     if apduType a = 7 then seqS [set_state COMPLETED 0, server_response cfg a]
     else if apduType a \<noteq> 0 then server_abort_both cfg 2
     else if apduSeg a \<noteq> Some True then server_abort_both cfg 2
     else bindS (liftS (need TypeError (lastSequenceNumber s))) (\<lambda>last.
       if apduSeq a \<noteq> Some ((last + 1) mod 256) then seqS
         [restart_timer (segmentTimeout s),
          server_response cfg (segment_ack_pdu True True (invokeID s) (initialSequenceNumber s)
            (actualWindowSize s))]
       else seqS
         [append_segment a,
          modS (\<lambda>s. s\<lparr>lastSequenceNumber := Some ((last + 1) mod 256)\<rparr>),
          if apduMor a \<noteq> Some True then seqS
            [server_response cfg (segment_ack_pdu False True (invokeID s)
               (Some ((last + 1) mod 256)) (actualWindowSize s)),
             set_state AWAIT_RESPONSE (applicationTimeout cfg),
             withS (\<lambda>s. bindS (liftS (need AttributeError (segmentAPDU s))) (server_request cfg))]
          else
            bindS (liftS (need TypeError (initialSequenceNumber s))) (\<lambda>first.
            bindS (liftS (need TypeError (actualWindowSize s))) (\<lambda>win.
            if apduSeq a = Some ((first + win) mod 256) then seqS
              [modS (\<lambda>s. s\<lparr>initialSequenceNumber := lastSequenceNumber s\<rparr>),
               restart_timer (segmentTimeout s),
               server_response cfg (segment_ack_pdu False True (invokeID s)
                 (Some ((last + 1) mod 256)) (actualWindowSize s))]
            else restart_timer (segmentTimeout s)))]))"

definition server_segmented_request_timeout :: "unit act" where
  "server_segmented_request_timeout = set_state ABORTED 0"

definition server_await_response :: "sap_config \<Rightarrow> apdu \<Rightarrow> unit act" where
  "server_await_response cfg a =
     (if apduType a = 0 then retS ()
      else if apduType a = 7 then seqS [set_state ABORTED 0, server_request cfg a]
      else raiseS RuntimeError)"

definition server_await_response_timeout :: "sap_config \<Rightarrow> unit act" where
  "server_await_response_timeout cfg = bindS (server_abort 64) (server_request cfg)"

definition server_segmented_response :: "sap_config \<Rightarrow> apdu \<Rightarrow> unit act" where
  "server_segmented_response cfg a =
     (if apduType a = 4 then seqS
        [modS (\<lambda>s. s\<lparr>actualWindowSize := apduWin a\<rparr>),
         withS (\<lambda>s. bindS (liftS (in_window (apduSeq a) (initialSequenceNumber s) s)) (\<lambda>inside.
           if \<not> inside then restart_timer (segmentTimeout s)
           else if sentAllSegments s then set_state COMPLETED 0
           else bindS (liftS (need TypeError (apduSeq a))) (\<lambda>seq. seqS
             [modS (\<lambda>s. s\<lparr>initialSequenceNumber := Some ((seq + 1) mod 256),
                actualWindowSize := apduWin a, segmentRetryCount := Some 0\<rparr>),
              fill_window cfg ((seq + 1) mod 256),
              restart_timer (segmentTimeout s)])))]
      else if apduType a = 7 then seqS [set_state COMPLETED 0, server_response cfg a]
      else raiseS RuntimeError)"

definition server_segmented_response_timeout :: "sap_config \<Rightarrow> unit act" where
  "server_segmented_response_timeout cfg = withS (\<lambda>s.
     bindS (liftS (need TypeError (segmentRetryCount s))) (\<lambda>retries.
     if retries < numberOfApduRetries s then seqS
       [modS (\<lambda>s. s\<lparr>segmentRetryCount := Some (retries + 1)\<rparr>),
        start_timer (segmentTimeout s),
        bindS (liftS (need TypeError (initialSequenceNumber s))) (\<lambda>first.
        if first = 0 then bindS (withS (\<lambda>s. liftS (get_segment cfg 0 s))) (server_response cfg)
        else fill_window cfg first)]
     else set_state ABORTED 0))"

text \<open>A PDU that arrives in another state is ignored.\<close>

definition server_indication :: "sap_config \<Rightarrow> apdu \<Rightarrow> unit act" where
  "server_indication cfg a = withS (\<lambda>s.
     if ssm_state s = IDLE then server_idle cfg a
     else if ssm_state s = SEGMENTED_REQUEST then server_segmented_request cfg a
     else if ssm_state s = AWAIT_RESPONSE then server_await_response cfg a
     else if ssm_state s = SEGMENTED_RESPONSE then server_segmented_response cfg a
     else retS ())"

definition server_timer_expired :: "sap_config \<Rightarrow> unit act" where
  "server_timer_expired cfg = seqS
     [modS (\<lambda>s. s\<lparr>timer := None\<rparr>),
      withS (\<lambda>s.
        if ssm_state s = SEGMENTED_REQUEST then server_segmented_request_timeout
        else if ssm_state s = AWAIT_RESPONSE then server_await_response_timeout cfg
        else if ssm_state s = SEGMENTED_RESPONSE then server_segmented_response_timeout cfg
        else if ssm_state s = COMPLETED then retS ()
        else if ssm_state s = ABORTED then retS ()
        else raiseS RuntimeError)]"

section \<open>Life cycle\<close>

lemmas server_calls = server_request_def server_response_def server_abort_def server_abort_down_def
  server_abort_both_def

named_theorems server_ok "handlers keep the life cycle"

lemma wp_learn_segmentation:
  assumes "\<And>d es. count_list es Untrack = 0 \<Longrightarrow>
     Q () (s\<lparr>ssm_device_info := d, ssmOut := ssmOut s @ es\<rparr>)"
  shows "wp (learn_segmentation a) Q E s"
proof -
  have "Q () s" using assms [of "[]" "ssm_device_info s"] by simp
  moreover have "Q () (s\<lparr>ssm_device_info := d, ssmOut := ssmOut s @ [UpdateDeviceInfo e]\<rparr>)" for d e
    by (rule assms) simp
  ultimately show ?thesis
    by (cases "ssm_device_info s") (auto simp: learn_segmentation_def wp_simps Let_def)
qed

lemma server_idle_ok [server_ok]:
  "ssm_live s \<Longrightarrow> wp (server_idle cfg a) (\<lambda>_. ssm_ok) ssm_ok s"
  by (auto simp: server_idle_def wp_simps server_calls intro!: wp_learn_segmentation)
    (auto simp: ssm_live_def ssm_ok_def)

lemma server_segmented_request_ok [server_ok]:
  "ssm_live s \<Longrightarrow> wp (server_segmented_request cfg a) (\<lambda>_. ssm_ok) ssm_ok s"
  by (auto simp: server_segmented_request_def wp_simps server_calls)
    (auto simp: ssm_live_def ssm_ok_def)

lemma server_await_response_ok [server_ok]:
  "ssm_live s \<Longrightarrow> wp (server_await_response cfg a) (\<lambda>_. ssm_ok) ssm_ok s"
  by (auto simp: server_await_response_def wp_simps server_calls)
    (auto simp: ssm_live_def ssm_ok_def)

lemma server_segmented_response_ok [server_ok]:
  "ssm_live s \<Longrightarrow> wp (server_segmented_response cfg a) (\<lambda>_. ssm_ok) ssm_ok s"
  by (auto simp: server_segmented_response_def wp_simps server_calls intro!: wp_fill_window)
    (auto simp: ssm_live_def ssm_ok_def)

lemma server_timeouts_ok [server_ok]:
  "ssm_live s \<Longrightarrow> wp server_segmented_request_timeout (\<lambda>_. ssm_ok) ssm_ok s"
  "ssm_live s \<Longrightarrow> wp (server_await_response_timeout cfg) (\<lambda>_. ssm_ok) ssm_ok s"
  by (auto simp: server_segmented_request_timeout_def server_await_response_timeout_def wp_simps
      server_calls) (auto simp: ssm_live_def ssm_ok_def)

lemma server_segmented_response_timeout_ok [server_ok]:
  "ssm_live s \<Longrightarrow> wp (server_segmented_response_timeout cfg) (\<lambda>_. ssm_ok) ssm_ok s"
  by (auto simp: server_segmented_response_timeout_def wp_simps server_calls intro!: wp_fill_window)
    (auto simp: ssm_live_def ssm_ok_def)

lemma server_confirmation_ok [server_ok]:
  "ssm_live s \<Longrightarrow> wp (server_confirmation cfg a) (\<lambda>_. ssm_ok) ssm_ok s"
  by (auto simp: server_confirmation_def wp_simps server_calls)
    (auto simp: ssm_live_def ssm_ok_def)

lemma server_handlers_ok:
  assumes live: "ssm_live s"
  shows "ssm_ok (snd (server_indication cfg a s))" "ssm_ok (snd (server_timer_expired cfg s))"
    "ssm_ok (snd (server_confirmation cfg a s))"
proof -
  have ok: "ssm_ok s" using live by (simp add: ssm_live_def ssm_ok_def)
  have live': "ssm_live (s\<lparr>timer := None\<rparr>)" using live by (simp add: ssm_live_def)
  have "wp (server_indication cfg a) (\<lambda>_. ssm_ok) ssm_ok s"
    using live ok by (auto simp: server_indication_def wp_simps intro!: server_ok)
  moreover have "wp (server_timer_expired cfg) (\<lambda>_. ssm_ok) ssm_ok s"
    using live' by (auto simp: server_timer_expired_def wp_simps intro!: server_ok)
      (auto simp: ssm_live_def ssm_ok_def)
  ultimately show "ssm_ok (snd (server_indication cfg a s))" "ssm_ok (snd (server_timer_expired cfg s))"
    "ssm_ok (snd (server_confirmation cfg a s))"
    using server_confirmation_ok [OF live] by (auto dest: wp_snd)
qed

text \<open>
  Property C17. Whatever PDUs, answers of the application and timeouts a server machine sees,
  errors included, it leaves the list of transactions exactly once, exactly when it enters
  COMPLETED or ABORTED, and has no timer running then; from then on PDUs and timeouts do nothing.
\<close>
theorem server_lifecycle:
  assumes "ssm_ok s"
  shows "ssm_ok (snd (server_indication cfg a s)) \<and> ssm_ok (snd (server_timer_expired cfg s)) \<and>
    (\<not> final (ssm_state s) \<longrightarrow> ssm_ok (snd (server_confirmation cfg a s))) \<and>
    (final (ssm_state s) \<longrightarrow> server_indication cfg a s = (Inr (), s) \<and>
       server_timer_expired cfg s = (Inr (), s))"
proof (cases "final (ssm_state s)")
  case True
  then have "server_indication cfg a s = (Inr (), s)"
    by (auto simp: server_indication_def act_simps final_def)
  moreover have "timer s = None" using True assms by (simp add: ssm_ok_def)
  then have "server_timer_expired cfg s = (Inr (), s)"
    using True by (auto simp: server_timer_expired_def act_simps bindS_def final_def)
  ultimately show ?thesis using assms True by simp
next
  case False
  then have "ssm_live s" using assms by (simp add: ssm_ok_live)
  then show ?thesis using False server_handlers_ok [of s] by simp
qed

lemma server_lifecycle_witness:
  "ssm_ok (new_ssm example_cfg None) \<and>
   ssm_ok (snd (server_indication example_cfg (confirmed_request_pdu (Some 12) (Some 1))
     (new_ssm example_cfg None)))"
proof -
  have "ssm_ok (new_ssm example_cfg None)" by (simp add: ssm_ok_def new_ssm_def)
  then show ?thesis
    using server_lifecycle [of "new_ssm example_cfg None" example_cfg
        "confirmed_request_pdu (Some 12) (Some 1)"] by simp
qed

section \<open>Reassembly of a segmented request\<close>

definition server_recv :: "sap_config \<Rightarrow> apdu \<Rightarrow> ssm \<Rightarrow> ssm" where
  "server_recv cfg g s = snd (server_indication (reliable cfg) g s)"

lemma server_recv_wp:
  "wp (server_indication (reliable cfg) g) (\<lambda>_. P) P s \<Longrightarrow> P (server_recv cfg g s)"
  by (simp add: server_recv_def wp_snd)

interpretation server: reassembler "server_recv cfg" 0 SEGMENTED_REQUEST AWAIT_RESPONSE for cfg
proof unfold_locales
  fix cs i g k s
  assume c: "collecting SEGMENTED_REQUEST cs k s" and l: "length cs \<le> 256"
    and s: "is_segment 0 (length cs) i g" and i: "i \<noteq> Suc k"
  note g = is_segmentD [OF s]
  from c obtain ctx first win where f: "ssm_state s = SEGMENTED_REQUEST" "Suc k < length cs"
    "lastSequenceNumber s = Some (int k mod 256)" "segmentAPDU s = Some ctx"
    "apduData ctx = concat (take (Suc k) cs)" "initialSequenceNumber s = Some first"
    "actualWindowSize s = Some win"
    by (rule collectingE)
  have ne: "int i mod 256 \<noteq> (int k mod 256 + 1) mod 256"
    using seq_expected [of i k] f g l i by simp
  show "collecting SEGMENTED_REQUEST cs k (server_recv cfg g s) \<and> ups (server_recv cfg g s) = ups s"
    by (rule server_recv_wp) (use c ne in \<open>simp add: server_indication_def server_segmented_request_def server_calls wp_simps f g collecting_frame\<close>)
next
  fix cs g k s
  assume c: "collecting SEGMENTED_REQUEST cs k s" and s: "is_segment_of 0 cs (Suc k) g"
    and k: "Suc (Suc k) < length cs"
  note g = is_segment_ofD [OF s]
  from c obtain ctx first win where f: "ssm_state s = SEGMENTED_REQUEST" "Suc k < length cs"
    "lastSequenceNumber s = Some (int k mod 256)" "segmentAPDU s = Some ctx"
    "apduData ctx = concat (take (Suc k) cs)" "initialSequenceNumber s = Some first"
    "actualWindowSize s = Some win"
    by (rule collectingE)
  show "collecting SEGMENTED_REQUEST cs (Suc k) (server_recv cfg g s) \<and> ups (server_recv cfg g s) = ups s"
    by (rule server_recv_wp) (use k in \<open>simp add: server_indication_def server_segmented_request_def server_calls wp_simps f g mod_simps collecting_def take_Suc_conv_app_nth add.commute\<close>)
next
  fix cs g k s
  assume c: "collecting SEGMENTED_REQUEST cs k s" and s: "is_segment_of 0 cs (Suc k) g"
    and k: "Suc (Suc k) = length cs"
  note g = is_segment_ofD [OF s]
  from c obtain ctx first win where f: "ssm_state s = SEGMENTED_REQUEST" "Suc k < length cs"
    "lastSequenceNumber s = Some (int k mod 256)" "segmentAPDU s = Some ctx"
    "apduData ctx = concat (take (Suc k) cs)" "initialSequenceNumber s = Some first"
    "actualWindowSize s = Some win"
    by (rule collectingE)
  show "ssm_state (server_recv cfg g s) = AWAIT_RESPONSE \<and>
      (\<exists>a. ups (server_recv cfg g s) = ups s @ [a] \<and> apduData a = concat cs)"
    by (rule server_recv_wp) (use k in \<open>simp add: server_indication_def server_segmented_request_def server_calls wp_simps f g mod_simps concat_take_last add.commute\<close>)
next
  fix s :: ssm and g and n i
  assume r: "ssm_state s = AWAIT_RESPONSE" "is_segment 0 n i g"
  show "ssm_state (server_recv cfg g s) = AWAIT_RESPONSE \<and> ups (server_recv cfg g s) = ups s"
    by (rule server_recv_wp) (use r in \<open>simp add: server_indication_def wp_simps server_await_response_def is_segment_def\<close>)
qed

definition server_run :: "sap_config \<Rightarrow> apdu list \<Rightarrow> ssm \<Rightarrow> ssm" where
  "server_run cfg gs s = foldl (\<lambda>s g. server_recv cfg g s) s gs"

text \<open>An idle machine takes any segment for the first one: its number is not looked at.\<close>

lemma server_first_segment:
  assumes g: "is_segment 0 (length cs) i g" "1 < length cs" "cs ! 0 = apduData g" and w: "apduWin g = Some w"
    and r: "apduMaxResp g = Some r" "decode_max_apdu_length_accepted r = Inr v"
    and m: "apduMaxSegs g = Some m" "decode_max_segments_accepted m = Inr v'"
    and s: "ssm_state s = IDLE" "segmentationSupported s \<in> {SegmentedReceive, SegmentedBoth}"
  shows "collecting SEGMENTED_REQUEST cs 0 (server_recv cfg g s) \<and> ups (server_recv cfg g s) = ups s"
proof (rule server_recv_wp)
  note gd = is_segmentD [OF g(1)] g(3)
  have ne: "cs \<noteq> []" using g(2) by auto
  have sup: "segmentationSupported s = SegmentedReceive \<or> segmentationSupported s = SegmentedBoth"
    using s(2) by simp
  note run = server_indication_def server_idle_def server_calls wp_simps collecting_def
    learn_segmentation_def Let_def
  show "wp (server_indication (reliable cfg) g)
     (\<lambda>_ s'. collecting SEGMENTED_REQUEST cs 0 s' \<and> ups s' = ups s)
     (\<lambda>s'. collecting SEGMENTED_REQUEST cs 0 s' \<and> ups s' = ups s) s"
  proof (cases "get_device_info cfg (pdu_address s)")
    case None
    then show ?thesis
      using sup by (simp add: run s(1) gd g(2) [simplified] w r m concat_take_first [OF ne])
  next
    case (Some d)
    then show ?thesis
      using sup by (simp add: run s(1) gd g(2) [simplified] w r m concat_take_first [OF ne])
  qed
qed

text \<open>
  Property C1. An idle server that supports segmented reception gets the segments of a request of
  2 to 256 segments with losses, repetitions and in any order, the first one included. As long as
  its timer does not expire, its acknowledgements can be sent and the service can be decoded, it
  passes nothing to the application until it has as many segments as there are, and then passes
  exactly one request. If segment 0 was the first to arrive, this carries exactly the payload the
  client cut up. The machine does not look at the number of the first segment: if segment \<open>i\<close>
  was the first to arrive, its chunk stands in the place of the payload's first one. As soon as
  segments 1, 2, ... have arrived in this order after the first arrival, whatever came in between,
  the request is passed.
\<close>
theorem server_reassembly:
  assumes c: "sending c a sz cnt" "apduType a = 0" "1 < cnt" "cnt \<le> 256"
    and s: "ssm_state s = IDLE" "segmentationSupported s \<in> {SegmentedReceive, SegmentedBoth}"
    and ids: "set (i # ids) \<subseteq> {..<nat cnt}"
  shows "let gs = segments ccfg c; cs = map apduData gs; s' = server_run cfg (map ((!) gs) (i # ids)) s;
      data = (if i = 0 then apduData a else concat (cs[0 := cs ! i]));
      passed = (ssm_state s' = AWAIT_RESPONSE \<and> (\<exists>b. ups s' = ups s @ [b] \<and> apduData b = data)) in
    (ssm_state s' = SEGMENTED_REQUEST \<and> ups s' = ups s \<or> passed) \<and>
    (subseq [1..<nat cnt] ids \<longrightarrow> passed)"
proof -
  define gs where "gs = segments ccfg c"
  define cs where "cs = map apduData gs"
  define ds where "ds = cs[0 := cs ! i]"
  have len: "length cs = nat cnt" "length ds = nat cnt" "length gs = nat cnt"
    using length_segments [OF c(1)] by (simp_all add: cs_def ds_def gs_def)
  have i: "i < nat cnt" using ids by simp
  have con: "concat ds = (if i = 0 then apduData a else concat (cs[0 := cs ! i]))"
    using segments_concat(2) [OF c(1), of ccfg] by (simp add: ds_def cs_def gs_def)
  have seg: "\<forall>j < length ds. is_segment 0 (length ds) j (gs ! j)"
    "\<forall>j < length ds. 0 < j \<longrightarrow> apduData (gs ! j) = ds ! j"
    using segments_are_segments [OF c(1), of _ ccfg] c(2,3) len
    by (simp_all add: cs_def gs_def ds_def is_segment_of_def)
  have "get_segment ccfg (int i) c = Inr (gs ! i)"
    using segments_nth [OF c(1), of "int i" ccfg] i by (simp add: gs_def)
  from segment_fields [OF c(1-3) this] obtain w r v m v' where f: "apduWin (gs ! i) = Some w"
    "apduMaxResp (gs ! i) = Some r" "decode_max_apdu_length_accepted r = Inr v"
    "apduMaxSegs (gs ! i) = Some m" "decode_max_segments_accepted m = Inr v'"
    by blast
  have "is_segment 0 (length ds) i (gs ! i)" "1 < length ds" "ds ! 0 = apduData (gs ! i)"
    using seg len i c(3) by (auto simp: ds_def cs_def)
  note start = server_first_segment [OF this f s, of cfg]
  have "server_run cfg (map ((!) gs) (i # ids)) s =
      server.feed cfg (map ((!) gs) ids) (server_recv cfg (gs ! i) s)"
    by (simp add: server_run_def server.feed_def)
  moreover have "length ds \<le> 256" "set ids \<subseteq> {..<length ds}" using len ids c(4) by auto
  note server.feed_collects [OF conjunct1 [OF start] this(1) seg this(2), where cfg = cfg]
  ultimately show ?thesis
    using start len con
    by (auto simp: gs_def [symmetric] cs_def [symmetric] Let_def collecting_def simp del: list.map)
qed

lemma server_reassembly_witness:
  "let gs = segments example_cfg example_client;
       s' = server_run example_cfg (map ((!) gs) [0, 2, 1, 1, 2]) (new_ssm example_cfg None) in
    ssm_state s' = AWAIT_RESPONSE \<and> (\<exists>b. ups s' = [b] \<and> apduData b = [1, 2, 3, 4, 5, 6, 7])"
proof -
  have t: "apduType example_request = 0" "apduData example_request = [1, 2, 3, 4, 5, 6, 7]"
    by (simp_all add: example_request_def confirmed_request_pdu_def init_apdu_def pci.defs)
  have n: "ssm_state (new_ssm example_cfg None) = IDLE" "ssmOut (new_ssm example_cfg None) = []"
    "segmentationSupported (new_ssm example_cfg None) \<in> {SegmentedReceive, SegmentedBoth}"
    by (simp_all add: new_ssm_def example_cfg_def)
  have "set [0, 2, 1, 1, 2] \<subseteq> {..<nat 3}" "subseq [1..<nat 3] [2, 1, 1, 2]"
    by (auto simp: upt_rec)
  then show ?thesis
    using server_reassembly [OF example_client_sending t(1) _ _ n(1,3), of 0 "[2, 1, 1, 2]" example_cfg example_cfg]
    by (simp add: Let_def t n)
qed

section \<open>Acknowledgements\<close>

text \<open>
  A server sending a segmented response reacts to a segment acknowledgement in one of
  three ways. Outside the window it only restarts its timer. Inside the window, once every
  segment has been sent, it completes: whatever segment is acknowledged and even when the
  acknowledgement is negative, nothing is sent again. Otherwise it continues with the segment
  whose index is the acknowledged number plus one modulo 256, as many segments as the window
  holds; after the acknowledgement of number 255 this is segment 0, so that a response of more
  than 256 segments starts again from its beginning.
\<close>
theorem server_segment_ack:
  assumes s: "ssm_state s = SEGMENTED_RESPONSE" "initialSequenceNumber s = Some f"
    and g: "apduType g = 4" "apduWin g = Some w" "0 < w" "apduSeq g = Some q"
  shows "(\<not> (q - f) mod 256 < w \<longrightarrow>
      server_indication cfg g s =
        (Inr (), s\<lparr>actualWindowSize := Some w, timer := Some (segmentTimeout s)\<rparr>)) \<and>
    ((q - f) mod 256 < w \<and> sentAllSegments s \<longrightarrow>
      server_indication cfg g s = (Inr (), s\<lparr>actualWindowSize := Some w, timer := None, ssm_state := COMPLETED, ssmOut := ssmOut s @ [Untrack]\<rparr>)) \<and>
    ((q - f) mod 256 < w \<and> \<not> sentAllSegments s \<and> sending s a sz cnt \<and> (q + 1) mod 256 < cnt \<and>
       (\<forall>g. sap_down cfg g = None) \<longrightarrow>
      (let i = (q + 1) mod 256; gs = segments cfg (s\<lparr>actualWindowSize := Some w\<rparr>) in
       server_indication cfg g s =
        (Inr (), s\<lparr>actualWindowSize := Some w, initialSequenceNumber := Some i,
           segmentRetryCount := Some 0, ssmOut := ssmOut s @ map Down (take (nat w) (drop (nat i) gs)),
           sentAllSegments := (cnt \<le> i + w), timer := Some (segmentTimeout s)\<rparr>)))"
proof -
  have inw: "in_window (Some q) (Some f) (s\<lparr>actualWindowSize := Some w\<rparr>) = Inr ((q - f) mod 256 < w)"
    using g(3) mod_add_self2 [of "q - f" 256] by (simp add: in_window_def window_size_def)
  have swap: "t\<lparr>initialSequenceNumber := i, actualWindowSize := v\<rparr> =
      t\<lparr>actualWindowSize := v, initialSequenceNumber := i\<rparr>" for t :: ssm and i v
    by simp
  note run = server_indication_def act_simps bindS_def server_segmented_response_def s g inw swap restart_timer_def start_timer_def
    set_state_def stop_timer_def emit_def
  have 1: "\<not> (q - f) mod 256 < w \<Longrightarrow> server_indication cfg g s =
      (Inr (), s\<lparr>actualWindowSize := Some w, timer := Some (segmentTimeout s)\<rparr>)"
    by (simp add: run)
  have 2: "(q - f) mod 256 < w \<Longrightarrow> sentAllSegments s \<Longrightarrow> server_indication cfg g s = (Inr (), s\<lparr>actualWindowSize := Some w, timer := None, ssm_state := COMPLETED, ssmOut := ssmOut s @ [Untrack]\<rparr>)"
    by (simp add: run)
  have 3: "server_indication cfg g s =
        (Inr (), s\<lparr>actualWindowSize := Some w, initialSequenceNumber := Some ((q + 1) mod 256),
           segmentRetryCount := Some 0, ssmOut := ssmOut s @ map Down (take (nat w)
             (drop (nat ((q + 1) mod 256)) (segments cfg (s\<lparr>actualWindowSize := Some w\<rparr>)))),
           sentAllSegments := (cnt \<le> (q + 1) mod 256 + w), timer := Some (segmentTimeout s)\<rparr>)"
    if "(q - f) mod 256 < w" "\<not> sentAllSegments s" "sending s a sz cnt" "(q + 1) mod 256 < cnt"
      "\<forall>g. sap_down cfg g = None"
    using next_window [OF that(3) _ _ that(4) g(3), where cfg = cfg and f = "Some ((q + 1) mod 256)" and r = "Some 0"] that
    by (simp add: run)
  show ?thesis using 1 2 3 by (simp add: Let_def)
qed

definition server_example_ack :: "int \<Rightarrow> apdu" where
  "server_example_ack q = segment_ack_pdu True False (Some 7) (Some q) (Some 2)"

lemma server_segment_ack_witness:
  "server_indication example_cfg (server_example_ack 0) example_sender =
     (Inr (), example_sender\<lparr>initialSequenceNumber := Some 1, segmentRetryCount := Some 0,
        ssmOut := map Down (take 2 (drop 1 (segments example_cfg example_sender))),
        sentAllSegments := True, timer := Some 1500\<rparr>)"
proof -
  have s: "ssm_state example_sender = SEGMENTED_RESPONSE" "initialSequenceNumber example_sender = Some 0"
    "\<not> sentAllSegments example_sender" "ssmOut example_sender = []" "segmentTimeout example_sender = 1500"
    "example_sender\<lparr>actualWindowSize := Some 2\<rparr> = example_sender"
    by (simp_all add: example_sender_def new_ssm_def example_cfg_def)
  have g: "apduType (server_example_ack 0) = 4" "apduWin (server_example_ack 0) = Some 2" "apduSeq (server_example_ack 0) = Some 0"
    by (simp_all add: server_example_ack_def segment_ack_pdu_def init_apdu_def pci.defs)
  have "\<forall>g. sap_down example_cfg g = None" by (simp add: example_cfg_def)
  then show ?thesis
    using server_segment_ack [OF s(1,2) g(1,2) _ g(3), of example_cfg example_response 3 3] example_sending s
    by (simp add: Let_def)
qed

end
