(* ===== verification/Asap.thy ===== *)
theory Asap
  imports ClientSsm ServerSsm
begin

text \<open>
  \<^verbatim>\<open>bacpypes3/appservice.py\<close>, class \<^verbatim>\<open>ApplicationServiceAccessPoint\<close>: the lists of running
  transactions, the dispatch of incoming PDUs to them, the requests and answers of the
  application, and device communication control.
\<close>

section \<open>State\<close>

datatype dcc = Enable | Disable | DisableInitiation

text \<open>What leaves the service access point, towards the network or the application.\<close>

datatype asap_effect =
    ToNetwork apdu
  | ToApplication apdu
  | ToApplicationError apdu string
  | ToDeviceCache device_info

record asap =
  clientTransactions :: "ssm list"
  serverTransactions :: "ssm list"
  dccEnableDisable :: dcc
  asapOut :: "asap_effect list"

type_synonym asap_act = "asap \<Rightarrow> py_error option \<times> asap"

text \<open>\<^verbatim>\<open>request\<close>: the APDU is encoded and handed to the network layer, the parameter \<open>lower\<close>.\<close>

definition asap_request_error :: "(pdu \<Rightarrow> py_error option) \<Rightarrow> apdu \<Rightarrow> py_error option" where
  "asap_request_error lower a = (case apdu_encode a of Inl e \<Rightarrow> Some e | Inr p \<Rightarrow> lower p)"

definition asap_config :: "(pdu \<Rightarrow> py_error option) \<Rightarrow> sap_config \<Rightarrow> sap_config" where
  "asap_config lower cfg = cfg\<lparr>sap_down := asap_request_error lower\<rparr>"

definition opt_address_eq :: "address option \<Rightarrow> address option \<Rightarrow> bool" where
  "opt_address_eq x y =
     (case (x, y) of (Some a, Some b) \<Rightarrow> address_eq a b | (None, None) \<Rightarrow> True | _ \<Rightarrow> False)"

text \<open>Every PDU that reaches the transactions has a source address.\<close>

definition tr_matches :: "int option \<Rightarrow> address option \<Rightarrow> ssm \<Rightarrow> bool" where
  "tr_matches iid addr tr \<longleftrightarrow> iid = invokeID tr \<and> opt_address_eq addr (pdu_address tr)"

definition find_tr :: "int option \<Rightarrow> address option \<Rightarrow> ssm list \<Rightarrow> nat option" where
  "find_tr iid addr trs = find (\<lambda>i. tr_matches iid addr (trs ! i)) [0..<length trs]"

text \<open>\<^verbatim>\<open>sap_response\<close>: the answer of a client transaction on its way to the application.\<close>

definition sap_response :: "sap_config \<Rightarrow> apdu \<Rightarrow> asap_effect list" where
  "sap_response cfg a =
     (if apduType a \<in> {0, 1, 3, 5} \<and> \<not> service_decodes cfg a then
        if apduType a \<in> {0, 1} then []
        else [ToApplicationError ((error_pdu (apduService a) None None)\<lparr>pduSource := pduSource a\<rparr>)
                ''invalid-tag'']
      else [ToApplication a])"

definition client_effect :: "sap_config \<Rightarrow> effect \<Rightarrow> asap_effect list" where
  "client_effect cfg e = (case e of
     Down a \<Rightarrow> [ToNetwork a]
   | Up a \<Rightarrow> sap_response cfg a
   | UpError a code \<Rightarrow> [ToApplicationError a code]
   | UpdateDeviceInfo d \<Rightarrow> [ToDeviceCache d]
   | Untrack \<Rightarrow> [])"

definition server_effect :: "effect \<Rightarrow> asap_effect list" where
  "server_effect e = (case e of
     Down a \<Rightarrow> [ToNetwork a]
   | Up a \<Rightarrow> [ToApplication a]
   | UpError a code \<Rightarrow> [ToApplicationError a code]
   | UpdateDeviceInfo d \<Rightarrow> [ToDeviceCache d]
   | Untrack \<Rightarrow> [])"

text \<open>
  Run a method of the transaction at position \<open>i\<close>: what it sends is passed on, and it is
  removed from the list when it has removed itself.
\<close>

definition put_tr :: "nat \<Rightarrow> ssm \<Rightarrow> ssm list \<Rightarrow> ssm list" where
  "put_tr i tr trs =
     (if Untrack \<in> set (ssmOut tr) then take i trs @ drop (Suc i) trs
      else trs[i := tr\<lparr>ssmOut := []\<rparr>])"

definition err :: "'a result \<Rightarrow> py_error option" where
  "err r = (case r of Inl e \<Rightarrow> Some e | Inr _ \<Rightarrow> None)"

definition run_client :: "sap_config \<Rightarrow> nat \<Rightarrow> unit act \<Rightarrow> asap_act" where
  "run_client cfg i m st =
     (let (r, tr) = m (clientTransactions st ! i) in
      (err r, st\<lparr>clientTransactions := put_tr i tr (clientTransactions st),
                asapOut := asapOut st @ concat (map (client_effect cfg) (ssmOut tr))\<rparr>))"

definition run_server :: "nat \<Rightarrow> unit act \<Rightarrow> asap_act" where
  "run_server i m st =
     (let (r, tr) = m (serverTransactions st ! i) in
      (err r, st\<lparr>serverTransactions := put_tr i tr (serverTransactions st),
                asapOut := asapOut st @ concat (map server_effect (ssmOut tr))\<rparr>))"

section \<open>Operations\<close>

text \<open>A confirmed request joins its transaction or starts one.\<close>

definition asap_confirmed_request :: "sap_config \<Rightarrow> apdu \<Rightarrow> asap_act" where
  "asap_confirmed_request cfg a st =
     (case find_tr (apduInvokeID a) (pduSource a) (serverTransactions st) of
        Some i \<Rightarrow> run_server i (server_indication cfg a) st
      | None \<Rightarrow>
          run_server (length (serverTransactions st)) (server_indication cfg a)
            (st\<lparr>serverTransactions := serverTransactions st @ [new_ssm cfg (pduSource a)]\<rparr>))"

definition asap_to_client :: "sap_config \<Rightarrow> apdu \<Rightarrow> asap_act" where
  "asap_to_client cfg a st =
     (case find_tr (apduInvokeID a) (pduSource a) (clientTransactions st) of
        None \<Rightarrow> (None, st)
      | Some i \<Rightarrow> run_client cfg i (client_confirmation cfg a) st)"

definition asap_to_server :: "sap_config \<Rightarrow> apdu \<Rightarrow> asap_act" where
  "asap_to_server cfg a st =
     (case find_tr (apduInvokeID a) (pduSource a) (serverTransactions st) of
        None \<Rightarrow> (None, st)
      | Some i \<Rightarrow> run_server i (server_indication cfg a) st)"

text \<open>
  While communication is disabled the code reads \<^verbatim>\<open>pdu.apduType\<close> of the undecoded PDU, an
  attribute it does not have.
\<close>

definition asap_confirmation :: "sap_config \<Rightarrow> pdu \<Rightarrow> asap_act" where
  "asap_confirmation cfg p st =
     (case apdu_decode p of
        Inl e \<Rightarrow> (Some e, st)
      | Inr a \<Rightarrow>
          if dccEnableDisable st = Disable then (Some AttributeError, st)
          else if apduType a = 0 then asap_confirmed_request cfg a st
          else if apduType a = 1 then
            (if service_decodes cfg a
             then (None, st\<lparr>asapOut := asapOut st @ [ToApplication a]\<rparr>) else (None, st))
          else if apduType a \<in> {2, 3, 5, 6} then asap_to_client cfg a st
          else if apduType a \<in> {4, 7} then
            (if apduSrv a = Some True then asap_to_client cfg a st else asap_to_server cfg a st)
          else (Some RuntimeError, st))"

text \<open>The application starts a request; the APDU has been encoded into its generic form.\<close>

definition asap_sap_indication :: "sap_config \<Rightarrow> apdu \<Rightarrow> asap_act" where
  "asap_sap_indication cfg a st =
     (if dccEnableDisable st = Disable then (None, st)
      else if dccEnableDisable st = DisableInitiation \<and> \<not> (apduType a = 1 \<and> apduService a = Some 0)
      then (None, st)
      else if apduType a = 1 then
        (case sap_down cfg a of
           None \<Rightarrow> (None, st\<lparr>asapOut := asapOut st @ [ToNetwork a]\<rparr>)
         | Some (CommunicationError _) \<Rightarrow> (None, st)
         | Some e \<Rightarrow> (Some e, st))
      else if apduType a = 0 then
        (if pduDestination a = None then (Some AttributeError, st)
         else run_client cfg (length (clientTransactions st)) (client_indication cfg a)
           (st\<lparr>clientTransactions := clientTransactions st @ [new_ssm cfg (pduDestination a)]\<rparr>))
      else (Some RuntimeError, st))"

text \<open>The application answers a request.\<close>

definition asap_sap_confirmation :: "sap_config \<Rightarrow> apdu \<Rightarrow> asap_act" where
  "asap_sap_confirmation cfg a st =
     (if apduType a \<in> {2, 3, 5, 6, 7} then
        (case find_tr (apduInvokeID a) (pduDestination a) (serverTransactions st) of
           None \<Rightarrow> (None, st)
         | Some i \<Rightarrow> run_server i (server_confirmation cfg a) st)
      else (Some RuntimeError, st))"

text \<open>A timer of one of the transactions runs out.\<close>

definition asap_client_timeout :: "sap_config \<Rightarrow> nat \<Rightarrow> asap_act" where
  "asap_client_timeout cfg i = run_client cfg i (client_timer_expired cfg)"

definition asap_server_timeout :: "sap_config \<Rightarrow> nat \<Rightarrow> asap_act" where
  "asap_server_timeout cfg i = run_server i (server_timer_expired cfg)"

section \<open>Invariant\<close>

text \<open>
  Two transactions have the same key when the lookup cannot tell them apart. Every listed
  transaction is alive with an empty log, and the keys of the server transactions differ.
\<close>

definition same_key :: "ssm \<Rightarrow> ssm \<Rightarrow> bool" where
  "same_key x y \<longleftrightarrow> invokeID x = invokeID y \<and>
     (opt_address_eq (pdu_address x) (pdu_address y) \<or> opt_address_eq (pdu_address y) (pdu_address x))"

definition tr_ok :: "ssm \<Rightarrow> bool" where
  "tr_ok tr \<longleftrightarrow> \<not> final (ssm_state tr) \<and> ssmOut tr = []"

definition distinct_keys :: "ssm list \<Rightarrow> bool" where
  "distinct_keys trs \<longleftrightarrow>
     (\<forall>i < length trs. \<forall>j < length trs. i \<noteq> j \<longrightarrow> \<not> same_key (trs ! i) (trs ! j))"

definition asap_inv :: "asap \<Rightarrow> bool" where
  "asap_inv st \<longleftrightarrow>
     (\<forall>tr \<in> set (clientTransactions st). tr_ok tr) \<and>
     (\<forall>tr \<in> set (serverTransactions st). tr_ok tr) \<and> distinct_keys (serverTransactions st)"

lemma opt_address_eq_sym: "opt_address_eq x y = opt_address_eq y x"
proof -
  have "address_eq a b = address_eq b a" for a b
    by (induction a b rule: address_eq.induct) (auto split: option.splits)
  then show ?thesis by (auto simp: opt_address_eq_def split: option.splits)
qed

lemma opt_address_eq_refl [simp]: "opt_address_eq x x"
  by (auto simp: opt_address_eq_def split: option.splits)

lemma tr_ok_live: "tr_ok tr \<Longrightarrow> ssm_live tr"
  by (simp add: tr_ok_def ssm_live_def)

lemma tr_ok_new: "tr_ok (new_ssm cfg addr)"
  by (simp add: tr_ok_def new_ssm_def)

lemma put_tr_ok:
  assumes "\<forall>x \<in> set trs. tr_ok x" "ssm_ok tr"
  shows "\<forall>x \<in> set (put_tr i tr trs). tr_ok x"
proof -
  have "Untrack \<notin> set (ssmOut tr) \<Longrightarrow> tr_ok (tr\<lparr>ssmOut := []\<rparr>)"
    using assms(2) by (auto simp: ssm_ok_def tr_ok_def count_list_0_iff split: if_splits)
  then show ?thesis
    using assms(1) by (auto simp: put_tr_def dest: in_set_takeD in_set_dropD set_update_subset_insert [THEN subsetD])
qed

lemma find_tr_Some:
  assumes "find_tr iid addr trs = Some i"
  shows "i < length trs" "tr_matches iid addr (trs ! i)"
  using assms by (auto simp: find_tr_def find_Some_iff)

lemma find_tr_None:
  "find_tr iid addr trs = None \<Longrightarrow> tr \<in> set trs \<Longrightarrow> \<not> tr_matches iid addr tr"
  by (auto simp: find_tr_def find_None_iff in_set_conv_nth)

subsection \<open>Keys are kept\<close>

definition has_key :: "int option \<Rightarrow> address option \<Rightarrow> ssm \<Rightarrow> bool" where
  "has_key iid addr s \<longleftrightarrow> invokeID s = iid \<and> pdu_address s = addr"

lemma server_handlers_key:
  assumes "has_key iid addr s"
  shows "wp (server_segmented_request cfg a) (\<lambda>_. has_key iid addr) (has_key iid addr) s"
    "wp (server_await_response cfg a) (\<lambda>_. has_key iid addr) (has_key iid addr) s"
    "wp (server_segmented_response cfg a) (\<lambda>_. has_key iid addr) (has_key iid addr) s"
    "wp (server_segmented_response_timeout cfg) (\<lambda>_. has_key iid addr) (has_key iid addr) s"
    "wp (server_await_response_timeout cfg) (\<lambda>_. has_key iid addr) (has_key iid addr) s"
    "wp server_segmented_request_timeout (\<lambda>_. has_key iid addr) (has_key iid addr) s"
  using assms
  by (auto simp: server_segmented_request_def server_await_response_def server_segmented_response_def
      server_segmented_response_timeout_def server_await_response_timeout_def
      server_segmented_request_timeout_def server_calls wp_simps intro!: wp_fill_window)
    (auto simp: has_key_def)

lemma server_confirmation_key:
  "has_key iid addr s \<Longrightarrow> wp (server_confirmation cfg a) (\<lambda>_. has_key iid addr) (has_key iid addr) s"
  by (auto simp: server_confirmation_def server_calls wp_simps) (auto simp: has_key_def)

lemma server_indication_key:
  assumes "invokeID s = apduInvokeID a \<or> ssm_state s = IDLE \<and> apduType a = 0"
  shows "has_key (apduInvokeID a) (pdu_address s) (snd (server_indication cfg a s))"
proof (rule wp_snd)
  show "wp (server_indication cfg a) (\<lambda>_. has_key (apduInvokeID a) (pdu_address s))
      (has_key (apduInvokeID a) (pdu_address s)) s"
  proof (cases "ssm_state s = IDLE \<and> apduType a = 0")
    case True
    then show ?thesis
      by (auto simp: server_indication_def server_idle_def server_calls wp_simps
          intro!: wp_learn_segmentation) (auto simp: has_key_def)
  next
    case False
    then have k: "has_key (apduInvokeID a) (pdu_address s) s" using assms by (auto simp: has_key_def)
    then show ?thesis
      using False server_handlers_key [OF k]
      by (auto simp: server_indication_def wp_simps server_idle_def)
  qed
qed

lemma server_timer_expired_key: "has_key (invokeID s) (pdu_address s) (snd (server_timer_expired cfg s))"
proof (rule wp_snd)
  have t0: "has_key (invokeID s) (pdu_address s) (s\<lparr>timer := None\<rparr>)" by (simp add: has_key_def)
  note k = server_handlers_key [OF t0]
  show "wp (server_timer_expired cfg) (\<lambda>_. has_key (invokeID s) (pdu_address s))
      (has_key (invokeID s) (pdu_address s)) s"
    using k t0 by (simp add: server_timer_expired_def wp_simps)
qed

subsection \<open>Lists of transactions\<close>

lemma distinct_keys_drop:
  assumes "distinct_keys trs"
  shows "distinct_keys (take i trs @ drop (Suc i) trs)"
proof (cases "i < length trs")
  case True
  have nth: "(take i trs @ drop (Suc i) trs) ! j = trs ! (if j < i then j else Suc j)"
    if "j < length trs - 1" for j
    using that True by (auto simp: nth_append)
  show ?thesis
    unfolding distinct_keys_def
  proof (intro allI impI)
    fix j k
    assume "j < length (take i trs @ drop (Suc i) trs)" "k < length (take i trs @ drop (Suc i) trs)" "j \<noteq> k"
    then have jk: "j < length trs - 1" "k < length trs - 1" "j \<noteq> k" using True by auto
    then have "(if j < i then j else Suc j) \<noteq> (if k < i then k else Suc k)" by auto
    then show "\<not> same_key ((take i trs @ drop (Suc i) trs) ! j) ((take i trs @ drop (Suc i) trs) ! k)"
      using assms jk by (auto simp: distinct_keys_def nth split: if_splits)
  qed
qed (use assms in simp)

lemma distinct_keys_update:
  assumes "distinct_keys trs" "i < length trs" "has_key (invokeID (trs ! i)) (pdu_address (trs ! i)) tr"
  shows "distinct_keys (trs[i := tr])"
  using assms by (auto simp: distinct_keys_def nth_list_update same_key_def has_key_def)

lemma put_tr_distinct:
  assumes "distinct_keys trs" "i < length trs" "has_key (invokeID (trs ! i)) (pdu_address (trs ! i)) tr"
  shows "distinct_keys (put_tr i tr trs)"
  using assms distinct_keys_drop [of trs i] distinct_keys_update [OF assms(1,2), of "tr\<lparr>ssmOut := []\<rparr>"]
  by (auto simp: put_tr_def has_key_def)

lemma distinct_keys_append:
  assumes "distinct_keys trs" "\<forall>x \<in> set trs. \<not> same_key x tr"
  shows "distinct_keys (trs @ [tr])"
  using assms by (auto simp: distinct_keys_def nth_append same_key_def opt_address_eq_sym less_Suc_eq
      dest: nth_mem)

lemma put_tr_new_distinct:
  assumes "distinct_keys trs" "\<forall>x \<in> set trs. \<not> same_key x tr"
  shows "distinct_keys (put_tr (length trs) tr (trs @ [tr0]))"
  using assms distinct_keys_append [of trs "tr\<lparr>ssmOut := []\<rparr>"]
  by (auto simp: put_tr_def same_key_def)

subsection \<open>Every operation keeps the invariant\<close>

lemma run_client_inv:
  assumes "asap_inv st" "i < length (clientTransactions st)" "ssm_ok (snd (m (clientTransactions st ! i)))"
  shows "asap_inv (snd (run_client cfg i m st))"
  using assms put_tr_ok [of "clientTransactions st" "snd (m (clientTransactions st ! i))" i]
  by (auto simp: run_client_def asap_inv_def Let_def split: prod.splits)

lemma run_server_inv:
  assumes "asap_inv st" "i < length (serverTransactions st)" "ssm_ok (snd (m (serverTransactions st ! i)))"
    "has_key (invokeID (serverTransactions st ! i)) (pdu_address (serverTransactions st ! i))
      (snd (m (serverTransactions st ! i)))"
  shows "asap_inv (snd (run_server i m st))"
  using assms put_tr_ok [of "serverTransactions st" "snd (m (serverTransactions st ! i))" i]
    put_tr_distinct [of "serverTransactions st" i]
  by (auto simp: run_server_def asap_inv_def Let_def split: prod.splits)

lemma asap_inv_tr:
  assumes "asap_inv st"
  shows "i < length (clientTransactions st) \<Longrightarrow> ssm_live (clientTransactions st ! i)"
    "i < length (serverTransactions st) \<Longrightarrow> ssm_live (serverTransactions st ! i)"
  using assms by (auto simp: asap_inv_def intro!: tr_ok_live)

lemma asap_to_client_inv: "asap_inv st \<Longrightarrow> asap_inv (snd (asap_to_client cfg a st))"
  by (auto simp: asap_to_client_def split: option.splits
      intro!: run_client_inv client_handlers_ok asap_inv_tr dest: find_tr_Some)

lemma server_join_inv:
  assumes "asap_inv st" "find_tr (apduInvokeID a) (pduSource a) (serverTransactions st) = Some i"
  shows "asap_inv (snd (run_server i (server_indication cfg a) st))"
proof -
  note f = find_tr_Some [OF assms(2)]
  have "has_key (apduInvokeID a) (pdu_address (serverTransactions st ! i))
      (snd (server_indication cfg a (serverTransactions st ! i)))"
    using f by (intro server_indication_key) (simp add: tr_matches_def)
  then show ?thesis
    using f run_server_inv [OF assms(1) f(1), of "server_indication cfg a"]
      server_handlers_ok(1) [OF asap_inv_tr(2) [OF assms(1) f(1)], of cfg a]
    by (simp add: tr_matches_def)
qed

lemma asap_to_server_inv: "asap_inv st \<Longrightarrow> asap_inv (snd (asap_to_server cfg a st))"
  by (auto simp: asap_to_server_def split: option.splits intro!: server_join_inv)

lemma asap_confirmed_request_inv:
  assumes "asap_inv st" "apduType a = 0"
  shows "asap_inv (snd (asap_confirmed_request cfg a st))"
proof (cases "find_tr (apduInvokeID a) (pduSource a) (serverTransactions st)")
  case (Some i)
  then show ?thesis using assms(1) by (simp add: asap_confirmed_request_def server_join_inv)
next
  case None
  define trs where "trs = serverTransactions st"
  define tr where "tr = snd (server_indication cfg a (new_ssm cfg (pduSource a)))"
  have k: "has_key (apduInvokeID a) (pduSource a) tr"
    using server_indication_key [of "new_ssm cfg (pduSource a)" a cfg] assms(2)
    by (simp add: tr_def new_ssm_def)
  have d: "\<forall>x \<in> set trs. \<not> same_key x tr"
    using find_tr_None [OF None] k opt_address_eq_sym
    by (auto simp: tr_matches_def same_key_def has_key_def trs_def)
  have ok: "ssm_ok tr"
    unfolding tr_def by (intro server_handlers_ok tr_ok_live tr_ok_new)
  have "\<forall>x \<in> set (put_tr (length trs) tr (trs @ [new_ssm cfg (pduSource a)])). tr_ok x"
    using assms(1) ok tr_ok_new by (intro put_tr_ok) (auto simp: asap_inv_def trs_def)
  then show ?thesis
    using None assms(1) put_tr_new_distinct [OF _ d, of "new_ssm cfg (pduSource a)"]
    by (auto simp: asap_confirmed_request_def run_server_def Let_def asap_inv_def trs_def tr_def
        split: prod.splits)
qed

lemma asap_new_client_inv:
  assumes "asap_inv st"
  shows "asap_inv (snd (run_client cfg (length (clientTransactions st)) (client_indication cfg a)
    (st\<lparr>clientTransactions := clientTransactions st @ [new_ssm cfg addr]\<rparr>)))"
  using assms tr_ok_new
  by (intro run_client_inv) (auto simp: asap_inv_def intro!: client_handlers_ok tr_ok_live)

text \<open>
  Property C16. Whatever PDUs arrive, whatever the application requests or answers and whichever
  timers run out, and also when a handler raises: every listed transaction is neither completed
  nor aborted, and no two server transactions have the same invoke ID and client address, so a
  repeated request never starts a second transaction.
\<close>
theorem asap_invariant:
  assumes "asap_inv st"
  shows "asap_inv (snd (asap_confirmation cfg p st)) \<and> asap_inv (snd (asap_sap_indication cfg a st)) \<and>
    asap_inv (snd (asap_sap_confirmation cfg a st)) \<and>
    (i < length (clientTransactions st) \<longrightarrow> asap_inv (snd (asap_client_timeout cfg i st))) \<and>
    (i < length (serverTransactions st) \<longrightarrow> asap_inv (snd (asap_server_timeout cfg i st)))"
proof -
  have out: "asap_inv (st\<lparr>asapOut := x\<rparr>)" for x using assms by (simp add: asap_inv_def)
  have "asap_inv (snd (asap_confirmation cfg p st))"
    using assms out by (auto simp: asap_confirmation_def asap_confirmed_request_inv asap_to_client_inv
        asap_to_server_inv split: sum.splits)
  moreover have "asap_inv (snd (asap_sap_indication cfg a st))"
    using assms out by (auto simp: asap_sap_indication_def asap_new_client_inv
        split: option.splits py_error.splits)
  moreover have "asap_inv (snd (asap_sap_confirmation cfg a st))"
  proof (cases "find_tr (apduInvokeID a) (pduDestination a) (serverTransactions st)")
    case (Some j)
    note f = find_tr_Some [OF Some]
    have "asap_inv (snd (run_server j (server_confirmation cfg a) st))"
      using f assms server_handlers_ok(3) [OF asap_inv_tr(2) [OF assms f(1)], of cfg a]
        wp_snd [OF server_confirmation_key [of "invokeID (serverTransactions st ! j)"
          "pdu_address (serverTransactions st ! j)" "serverTransactions st ! j" cfg a]]
      by (intro run_server_inv) (auto simp: has_key_def)
    then show ?thesis using Some assms by (simp add: asap_sap_confirmation_def)
  qed (use assms in \<open>simp add: asap_sap_confirmation_def\<close>)
  moreover have "i < length (clientTransactions st) \<Longrightarrow> asap_inv (snd (asap_client_timeout cfg i st))"
    unfolding asap_client_timeout_def
    by (intro run_client_inv assms) (auto intro!: client_handlers_ok asap_inv_tr(1) [OF assms])
  moreover have "i < length (serverTransactions st) \<Longrightarrow> asap_inv (snd (asap_server_timeout cfg i st))"
    unfolding asap_server_timeout_def
    by (intro run_server_inv assms server_timer_expired_key)
      (auto intro!: server_handlers_ok asap_inv_tr(2) [OF assms])
  ultimately show ?thesis by blast
qed

definition init_asap :: asap where
  "init_asap = \<lparr>clientTransactions = [], serverTransactions = [], dccEnableDisable = Enable, asapOut = []\<rparr>"

lemma asap_invariant_witness:
  "asap_inv init_asap \<and> asap_inv (snd (asap_confirmation example_cfg (init_pdu [0, 4, 1, 12]) init_asap))"
proof -
  have "asap_inv init_asap" by (simp add: asap_inv_def init_asap_def distinct_keys_def)
  then show ?thesis using asap_invariant [of init_asap example_cfg "init_pdu [0, 4, 1, 12]"] by simp
qed

text \<open>
  A request that has been passed to the application and is repeated by its client
  before the answer is ignored: nothing is sent, nothing reaches the application, no state
  changes.
\<close>
theorem duplicate_request_ignored:
  assumes "apdu_decode p = Inr a" "apduType a = 0" "dccEnableDisable st \<noteq> Disable"
    "find_tr (apduInvokeID a) (pduSource a) (serverTransactions st) = Some i"
    "ssm_state (serverTransactions st ! i) = AWAIT_RESPONSE" "tr_ok (serverTransactions st ! i)"
  shows "asap_confirmation cfg p st = (None, st)"
proof -
  have "server_indication cfg a (serverTransactions st ! i) = (Inr (), serverTransactions st ! i)"
    using assms(2,5) by (simp add: server_indication_def server_await_response_def act_simps)
  moreover have "(serverTransactions st ! i)\<lparr>ssmOut := []\<rparr> = serverTransactions st ! i"
    using assms(6) by (simp add: tr_ok_def)
  then have "(serverTransactions st)[i := (serverTransactions st ! i)\<lparr>ssmOut := []\<rparr>] = serverTransactions st"
    by (metis list_update_id)
  ultimately show ?thesis
    using assms find_tr_Some [OF assms(4)]
    by (simp add: asap_confirmation_def asap_confirmed_request_def run_server_def put_tr_def err_def tr_ok_def)
qed

definition example_tr :: ssm where
  "example_tr = (new_ssm example_cfg None)\<lparr>invokeID := Some 1, ssm_state := AWAIT_RESPONSE, timer := Some 3000\<rparr>"

definition example_request_apdu :: "int \<Rightarrow> apdu" where
  "example_request_apdu r = (confirmed_request_pdu (Some 12) (Some 1))
     \<lparr>pduExpectingReply := False, apduSeg := Some False, apduMor := Some False, apduSA := Some False,
      apduMaxSegs := Some 0, apduMaxResp := Some r\<rparr>"

lemma example_request_decodes:
  "apdu_decode (init_pdu [0, 4, 1, 12]) = Inr (example_request_apdu 4)"
  "apdu_decode (init_pdu [0, 15, 1, 12]) = Inr (example_request_apdu 15)"
  by (simp_all add: apdu_decode_def init_pdu_def pci.defs init_pci_def new_of_type_def apci_decode_def
      confirmed_request_pdu_def init_apdu_def pci_update_def get_segment_fields_def example_request_apdu_def)

lemma duplicate_request_ignored_witness:
  "asap_confirmation example_cfg (init_pdu [0, 4, 1, 12]) (init_asap\<lparr>serverTransactions := [example_tr]\<rparr>) =
    (None, init_asap\<lparr>serverTransactions := [example_tr]\<rparr>)"
  using duplicate_request_ignored [OF example_request_decodes(1),
      of "init_asap\<lparr>serverTransactions := [example_tr]\<rparr>" 0 example_cfg]
  by (simp add: example_request_apdu_def confirmed_request_pdu_def init_apdu_def pci.defs init_pci_def
      init_asap_def find_tr_def tr_matches_def opt_address_eq_def example_tr_def new_ssm_def tr_ok_def)

text \<open>
  A confirmed request whose header announces one of the undefined maximum APDU
  lengths (codes 6 to 15) makes the handler raise after the transaction has been listed: it
  stays in the list in state IDLE, without a timer, and nothing is answered.
\<close>
theorem undefined_max_apdu_leaks:
  assumes "apdu_decode p = Inr a" "apduType a = 0" "dccEnableDisable st \<noteq> Disable"
    "find_tr (apduInvokeID a) (pduSource a) (serverTransactions st) = None"
    "apduMaxResp a = Some r" "6 \<le> r" "r \<le> 15" "get_device_info cfg (pduSource a) = None"
  shows "\<exists>tr. asap_confirmation cfg p st =
      (Some ValueError, st\<lparr>serverTransactions := serverTransactions st @ [tr]\<rparr>) \<and>
    ssm_state tr = IDLE \<and> timer tr = None \<and> invokeID tr = apduInvokeID a \<and> pdu_address tr = pduSource a"
proof -
  have "r < 6 + 10" "\<not> nat r < 6" "nat r - 6 < 10" using assms(6,7) by linarith+
  then have bad: "decode_max_apdu_length_accepted r = Inl ValueError"
    using assms(6) by (simp add: decode_max_apdu_length_accepted_def py_index_def
        max_apdu_length_encoding_def nth_append)
  define tr where "tr = (new_ssm cfg (pduSource a))
    \<lparr>invokeID := apduInvokeID a, segmented_response_accepted := (apduSA a = Some True)\<rparr>"
  have "server_indication cfg a (new_ssm cfg (pduSource a)) = (Inl ValueError, tr)"
    using assms(2,5,8) bad
    by (simp add: server_indication_def server_idle_def act_simps bindS_def new_ssm_def tr_def
        learn_segmentation_def)
  then show ?thesis
    using assms by (intro exI [of _ tr]) (simp add: asap_confirmation_def asap_confirmed_request_def
        run_server_def put_tr_def err_def tr_def new_ssm_def)
qed

lemma undefined_max_apdu_leaks_witness:
  "\<exists>tr. asap_confirmation example_cfg (init_pdu [0, 15, 1, 12]) init_asap =
      (Some ValueError, init_asap\<lparr>serverTransactions := [tr]\<rparr>) \<and> ssm_state tr = IDLE"
  using undefined_max_apdu_leaks [OF example_request_decodes(2), of init_asap 15 example_cfg]
  by (auto simp: example_request_apdu_def confirmed_request_pdu_def init_apdu_def pci.defs
      init_asap_def find_tr_def example_cfg_def)

end
