(* ===== verification/RouterCache.thy ===== *)
theory RouterCache
  imports Pdu
begin

text \<open>
  \<^verbatim>\<open>bacpypes3/netservice.py\<close>, class \<^verbatim>\<open>RouterInfoCache\<close>: which router leads to which
  network. The cache keeps two dictionaries, from (source network, destination network) to the
  router with its status, and from (source network, router) to the set of networks behind it;
  the invariant is that they agree. Router addresses are local stations, so that equality of
  dictionary keys is equality. The order in which Python iterates over a set is the parameter
  \<open>order\<close>.
\<close>

section \<open>State and accessors\<close>

datatype router_status = ROUTER_AVAILABLE | ROUTER_BUSY | ROUTER_DISCONNECTED

record router_cache =
  path_info :: "((int option \<times> int) \<times> (address \<times> router_status)) list"
  router_dnets :: "((int option \<times> address) \<times> int set) list"

definition get_path_info :: "int option \<Rightarrow> int \<Rightarrow> router_cache \<Rightarrow> (address \<times> router_status) option" where
  "get_path_info snet dnet c = map_of (path_info c) (snet, dnet)"

definition set_path_info ::
  "int option \<Rightarrow> int \<Rightarrow> address \<Rightarrow> router_status \<Rightarrow> router_cache \<Rightarrow> bool \<times> router_cache" where
  "set_path_info snet dnet address status c =
     (if get_path_info snet dnet c = Some (address, status) then (False, c)
      else (True, c\<lparr>path_info := AList.update (snet, dnet) (address, status) (path_info c)\<rparr>))"

definition delete_path_info :: "int option \<Rightarrow> int \<Rightarrow> router_cache \<Rightarrow> bool \<times> router_cache" where
  "delete_path_info snet dnet c =
     (if get_path_info snet dnet c = None then (False, c)
      else (True, c\<lparr>path_info := AList.delete (snet, dnet) (path_info c)\<rparr>))"

definition get_router_dnets :: "int option \<Rightarrow> address \<Rightarrow> router_cache \<Rightarrow> int set option" where
  "get_router_dnets snet address c = map_of (router_dnets c) (snet, address)"

definition set_router_dnets :: "int option \<Rightarrow> address \<Rightarrow> int set \<Rightarrow> router_cache \<Rightarrow> bool \<times> router_cache" where
  "set_router_dnets snet address dnets c =
     (if get_router_dnets snet address c = Some dnets then (False, c)
      else (True, c\<lparr>router_dnets := AList.update (snet, address) dnets (router_dnets c)\<rparr>))"

definition delete_router_dnets :: "int option \<Rightarrow> address option \<Rightarrow> router_cache \<Rightarrow> bool \<times> router_cache" where
  "delete_router_dnets snet address c =
     (case address of None \<Rightarrow> (False, c)
      | Some a \<Rightarrow>
          if get_router_dnets snet a c = None then (False, c)
          else (True, c\<lparr>router_dnets := AList.delete (snet, a) (router_dnets c)\<rparr>))"

lemma cache_simps [simp]:
  "get_path_info s d (snd (set_path_info s' d' a st c)) =
     (if (s, d) = (s', d') then Some (a, st) else get_path_info s d c)"
  "get_path_info s d (snd (delete_path_info s' d' c)) =
     (if (s, d) = (s', d') then None else get_path_info s d c)"
  "get_path_info s d (snd (set_router_dnets s' a ds c)) = get_path_info s d c"
  "get_path_info s d (snd (delete_router_dnets s' ao c)) = get_path_info s d c"
  "get_router_dnets s a (snd (set_router_dnets s' a' ds c)) =
     (if (s, a) = (s', a') then Some ds else get_router_dnets s a c)"
  "get_router_dnets s a (snd (delete_router_dnets s' ao c)) =
     (if s = s' \<and> ao = Some a then None else get_router_dnets s a c)"
  "get_router_dnets s a (snd (set_path_info s' d' a' st c)) = get_router_dnets s a c"
  "get_router_dnets s a (snd (delete_path_info s' d' c)) = get_router_dnets s a c"
  by (auto simp: get_path_info_def set_path_info_def delete_path_info_def get_router_dnets_def
      set_router_dnets_def delete_router_dnets_def update_conv' delete_conv' split: option.splits)

section \<open>Updates\<close>

text \<open>The old router to \<open>dnet\<close> loses it.\<close>

definition forget_old_path :: "int option \<Rightarrow> int \<Rightarrow> router_cache \<Rightarrow> router_cache result" where
  "forget_old_path snet dnet c =
     (case get_path_info snet dnet c of
        None \<Rightarrow> Inr c
      | Some (old_router, _) \<Rightarrow>
          (case get_router_dnets snet old_router c of
             None \<Rightarrow> Inl RuntimeError
           | Some old_dnets \<Rightarrow>
               if dnet \<notin> old_dnets then Inl RuntimeError
               else
                 let rest = old_dnets - {dnet};
                     c = snd (set_router_dnets snet old_router rest c) in
                 Inr (if rest = {} then snd (delete_router_dnets snet (Some old_router) c) else c)))"

primrec each :: "('a \<Rightarrow> 'c \<Rightarrow> 'c result) \<Rightarrow> 'a list \<Rightarrow> 'c \<Rightarrow> 'c result" where
  "each f [] c = Inr c"
| "each f (x # xs) c = bindR (f x c) (each f xs)"

definition update_path_info ::
  "(int set \<Rightarrow> int list) \<Rightarrow> int option \<Rightarrow> address \<Rightarrow> int set \<Rightarrow> router_cache \<Rightarrow> router_cache result" where
  "update_path_info order snet address dnets c =
     (let known = get_router_dnets snet address c;
          new_dnets = (case known of None \<Rightarrow> dnets | Some ds \<Rightarrow> dnets - ds);
          router_dnets = (case known of None \<Rightarrow> {} | Some ds \<Rightarrow> ds) in
      if known \<noteq> None \<and> new_dnets = {} then Inr c
      else
        bindR (each (forget_old_path snet) (order new_dnets) c) (\<lambda>c.
        each (\<lambda>dnet c. Inr (snd (set_path_info snet dnet address ROUTER_AVAILABLE c))) (order new_dnets)
          (snd (set_router_dnets snet address (router_dnets \<union> new_dnets) c))))"

text \<open>
  \<^verbatim>\<open>remove_path_info\<close>. With both a router and networks the code names an undefined variable;
  without a router the last deletion is called with \<^verbatim>\<open>address\<close>, which is \<^verbatim>\<open>None\<close> there.
\<close>

definition remove_path :: "int option \<Rightarrow> int \<Rightarrow> router_cache \<Rightarrow> router_cache result" where
  "remove_path snet dnet c =
     (case get_path_info snet dnet c of
        None \<Rightarrow> Inr c
      | Some (router, _) \<Rightarrow>
          (case get_router_dnets snet router c of
             None \<Rightarrow> Inl RuntimeError
           | Some ds \<Rightarrow>
               if dnet \<notin> ds then Inl RuntimeError
               else
                 let rest = ds - {dnet};
                     c = snd (set_router_dnets snet router rest c);
                     c = snd (delete_path_info snet dnet c) in
                 Inr (if rest = {} then snd (delete_router_dnets snet None c) else c)))"

definition remove_path_info ::
  "(int set \<Rightarrow> int list) \<Rightarrow> int option \<Rightarrow> address option \<Rightarrow> int set option \<Rightarrow> router_cache
     \<Rightarrow> router_cache result" where
  "remove_path_info order snet address dnets c =
     (case address of
        Some a \<Rightarrow>
          (case get_router_dnets snet a c of
             None \<Rightarrow> Inr c
           | Some ds \<Rightarrow>
               (case dnets of
                  Some _ \<Rightarrow> Inl NameError
                | None \<Rightarrow>
                    bindR (each (\<lambda>dnet c. Inr (snd (delete_path_info snet dnet c))) (order ds) c) (\<lambda>c.
                    Inr (snd (delete_router_dnets snet (Some a) c)))))
      | None \<Rightarrow>
          (case dnets of
             None \<Rightarrow> Inl RuntimeError
           | Some ds \<Rightarrow> each (remove_path snet) (order ds) c))"

definition update_router_status ::
  "(int set \<Rightarrow> int list) \<Rightarrow> int option \<Rightarrow> address \<Rightarrow> router_status \<Rightarrow> router_cache \<Rightarrow> router_cache result" where
  "update_router_status order snet address status c =
     (case get_router_dnets snet address c of
        None \<Rightarrow> Inr c
      | Some ds \<Rightarrow> each (\<lambda>dnet c. Inr (snd (set_path_info snet dnet address status c))) (order ds) c)"

text \<open>\<^verbatim>\<open>update_source_network\<close>: one entry of \<^verbatim>\<open>list(self.router_dnets.items())\<close>.\<close>

definition move_path :: "int option \<Rightarrow> int option \<Rightarrow> int \<Rightarrow> router_cache \<Rightarrow> router_cache result" where
  "move_path old_snet new_snet dnet c =
     (case get_path_info old_snet dnet c of
        None \<Rightarrow> Inl KeyError
      | Some (a, status) \<Rightarrow>
          let c = c\<lparr>path_info := AList.delete (old_snet, dnet) (path_info c)\<rparr> in
          Inr (c\<lparr>path_info := AList.update (new_snet, dnet) (a, status) (path_info c)\<rparr>))"

definition move_router ::
  "(int set \<Rightarrow> int list) \<Rightarrow> int option \<Rightarrow> int option \<Rightarrow> (int option \<times> address) \<times> int set
     \<Rightarrow> router_cache \<Rightarrow> router_cache result" where
  "move_router order old_snet new_snet item c =
     (let ((snet, router), ds) = item in
      if snet = old_snet then
        if map_of (router_dnets c) (old_snet, router) = None then Inl KeyError
        else
          let c = c\<lparr>router_dnets := AList.delete (old_snet, router) (router_dnets c)\<rparr>;
              c = c\<lparr>router_dnets := AList.update (new_snet, router) ds (router_dnets c)\<rparr> in
          each (move_path old_snet new_snet) (order ds) c
      else Inr c)"

definition update_source_network ::
  "(int set \<Rightarrow> int list) \<Rightarrow> int option \<Rightarrow> int option \<Rightarrow> router_cache \<Rightarrow> router_cache result" where
  "update_source_network order old_snet new_snet c =
     each (move_router order old_snet new_snet) (router_dnets c) c"

section \<open>Invariant\<close>

definition cache_inv :: "router_cache \<Rightarrow> bool" where
  "cache_inv c \<longleftrightarrow>
     (\<forall>s d a. (\<exists>st. get_path_info s d c = Some (a, st)) \<longleftrightarrow>
        (\<exists>ds. get_router_dnets s a c = Some ds \<and> d \<in> ds)) \<and>
     (\<forall>s a ds. get_router_dnets s a c = Some ds \<longrightarrow> finite ds)"

definition is_order :: "(int set \<Rightarrow> int list) \<Rightarrow> bool" where
  "is_order order \<longleftrightarrow> (\<forall>ds. finite ds \<longrightarrow> set (order ds) = ds \<and> distinct (order ds))"

definition route :: "int option \<Rightarrow> int \<Rightarrow> router_cache \<Rightarrow> address option" where
  "route snet dnet c = map_option fst (get_path_info snet dnet c)"

lemma cache_invD:
  assumes "cache_inv c"
  shows "get_path_info s d c = Some (a, st) \<Longrightarrow> \<exists>ds. get_router_dnets s a c = Some ds \<and> d \<in> ds"
    "get_router_dnets s a c = Some ds \<Longrightarrow> d \<in> ds \<Longrightarrow> \<exists>st. get_path_info s d c = Some (a, st)"
    "get_router_dnets s a c = Some ds \<Longrightarrow> finite ds"
  using assms unfolding cache_inv_def by blast+

lemma each_Inr:
  "each (\<lambda>x c. Inr (f x c)) xs c = Inr (fold f xs c)"
  by (induction xs arbitrary: c) auto

lemma set_paths:
  "get_path_info s d (fold (\<lambda>d c. snd (set_path_info snet d a st c)) xs c) =
     (if s = snet \<and> d \<in> set xs then Some (a, st) else get_path_info s d c) \<and>
   get_router_dnets s r (fold (\<lambda>d c. snd (set_path_info snet d a st c)) xs c) = get_router_dnets s r c"
  by (induction xs arbitrary: c) auto

lemma delete_paths:
  "get_path_info s d (fold (\<lambda>d c. snd (delete_path_info snet d c)) xs c) =
     (if s = snet \<and> d \<in> set xs then None else get_path_info s d c) \<and>
   get_router_dnets s r (fold (\<lambda>d c. snd (delete_path_info snet d c)) xs c) = get_router_dnets s r c"
  by (induction xs arbitrary: c) auto

text \<open>What the first loop of \<^verbatim>\<open>update_path_info\<close> has done when the networks \<open>P\<close> are processed.\<close>

definition forgotten :: "int option \<Rightarrow> int set \<Rightarrow> router_cache \<Rightarrow> router_cache \<Rightarrow> bool" where
  "forgotten snet P c c' \<longleftrightarrow>
     (\<forall>s d. get_path_info s d c' = get_path_info s d c) \<and>
     (\<forall>s a. get_router_dnets s a c' =
        (case get_router_dnets s a c of None \<Rightarrow> None
         | Some ds \<Rightarrow> if s \<noteq> snet then Some ds
             else if ds \<inter> P \<noteq> {} \<and> ds - P = {} then None else Some (ds - P)))"

lemma forget_step:
  assumes inv: "cache_inv c" and f: "forgotten snet P c c'" and d: "d \<notin> P"
  shows "\<exists>c''. forget_old_path snet d c' = Inr c'' \<and> forgotten snet (insert d P) c c''"
proof (cases "get_path_info snet d c")
  case None
  then have "forget_old_path snet d c' = Inr c'" using f by (simp add: forget_old_path_def forgotten_def)
  moreover have "get_router_dnets snet a c = Some ds \<Longrightarrow> d \<notin> ds" for a ds
    using None cache_invD(2) [OF inv] by fastforce
  then have "forgotten snet (insert d P) c c'"
    using f by (auto simp: forgotten_def split: option.splits)
  ultimately show ?thesis by blast
next
  case (Some p)
  obtain old st where p: "p = (old, st)" by fastforce
  obtain ds where ds: "get_router_dnets snet old c = Some ds" "d \<in> ds"
    using cache_invD(1) [OF inv] Some p by blast
  have g: "get_path_info snet d c' = Some (old, st)" "get_router_dnets snet old c' = Some (ds - P)"
    using f Some p ds d by (auto simp: forgotten_def)
  have other: "get_router_dnets snet a c = Some ds' \<Longrightarrow> d \<in> ds' \<Longrightarrow> a = old" for a ds'
    using cache_invD(2) [OF inv] Some p by fastforce
  have e: "ds - P - {d} = ds - insert d P" by auto
  define c'' where "c'' = (if ds - insert d P = {}
    then snd (delete_router_dnets snet (Some old) (snd (set_router_dnets snet old (ds - insert d P) c')))
    else snd (set_router_dnets snet old (ds - insert d P) c'))"
  have "forget_old_path snet d c' = Inr c''"
    using g ds d by (simp add: forget_old_path_def Let_def c''_def e)
  moreover have "forgotten snet (insert d P) c c''"
    unfolding forgotten_def
  proof (intro conjI allI)
    fix s x
    show "get_path_info s x c'' = get_path_info s x c" using f by (simp add: c''_def forgotten_def)
  next
    fix s a
    have fa: "get_router_dnets s a c' = (case get_router_dnets s a c of None \<Rightarrow> None
         | Some ds \<Rightarrow> if s \<noteq> snet then Some ds
             else if ds \<inter> P \<noteq> {} \<and> ds - P = {} then None else Some (ds - P))"
      using f by (simp add: forgotten_def)
    show "get_router_dnets s a c'' = (case get_router_dnets s a c of None \<Rightarrow> None
         | Some ds \<Rightarrow> if s \<noteq> snet then Some ds
             else if ds \<inter> insert d P \<noteq> {} \<and> ds - insert d P = {} then None else Some (ds - insert d P))"
    proof (cases "s = snet \<and> a = old")
      case True
      then show ?thesis using ds by (auto simp: c''_def)
    next
      case False
      then have "get_router_dnets s a c'' = get_router_dnets s a c'" by (auto simp: c''_def)
      moreover have "s = snet \<Longrightarrow> get_router_dnets s a c = Some ds' \<Longrightarrow> d \<notin> ds'" for ds'
        using other False by blast
      ultimately show ?thesis using fa by (auto split: option.splits)
    qed
  qed
  ultimately show ?thesis by blast
qed

lemma forget_all:
  assumes "cache_inv c" "forgotten snet P c c'" "distinct xs" "set xs \<inter> P = {}"
  shows "\<exists>c''. each (forget_old_path snet) xs c' = Inr c'' \<and> forgotten snet (P \<union> set xs) c c''"
  using assms(2-)
proof (induction xs arbitrary: c' P)
  case (Cons x xs)
  obtain c1 where c1: "forget_old_path snet x c' = Inr c1" "forgotten snet (insert x P) c c1"
    using forget_step [OF assms(1) Cons.prems(1), of x] Cons.prems by auto
  then obtain c2 where "each (forget_old_path snet) xs c1 = Inr c2" "forgotten snet (insert x P \<union> set xs) c c2"
    using Cons.IH [OF c1(2)] Cons.prems by auto
  then show ?case using c1 by simp
qed simp

lemma update_path_info_ok:
  assumes inv: "cache_inv c" and o: "is_order order" and fin: "finite dnets"
  shows "\<exists>c'. update_path_info order snet a dnets c = Inr c' \<and> cache_inv c' \<and>
    (\<forall>s d. get_path_info s d c' =
      (if s = snet \<and> d \<in> dnets \<and> route s d c \<noteq> Some a then Some (a, ROUTER_AVAILABLE)
       else get_path_info s d c))"
proof -
  define known where "known = (case get_router_dnets snet a c of None \<Rightarrow> {} | Some ds \<Rightarrow> ds)"
  define new where "new = dnets - known"
  have known: "d \<in> known \<longleftrightarrow> route snet d c = Some a" for d
    using cache_invD(1,2) [OF inv] by (fastforce simp: known_def route_def split: option.splits)
  have new: "d \<in> new \<longleftrightarrow> d \<in> dnets \<and> route snet d c \<noteq> Some a" for d
    using known by (auto simp: new_def)
  have fk: "finite known" using cache_invD(3) [OF inv] by (auto simp: known_def split: option.splits)
  have on: "set (order new) = new" "distinct (order new)"
    using o fin by (auto simp: is_order_def new_def)
  show ?thesis
  proof (cases "get_router_dnets snet a c \<noteq> None \<and> new = {}")
    case True
    then have "update_path_info order snet a dnets c = Inr c"
      by (auto simp: update_path_info_def new_def known_def Let_def split: option.splits)
    moreover have "\<not> (d \<in> dnets \<and> route snet d c \<noteq> Some a)" for d using True new by blast
    ultimately show ?thesis using inv by auto
  next
    case False
    have "forgotten snet {} c c" by (auto simp: forgotten_def split: option.splits)
    then obtain c1 where c1: "each (forget_old_path snet) (order new) c = Inr c1" "forgotten snet new c c1"
      using forget_all [OF inv, of snet "{}" c "order new"] on by auto
    define c2 where "c2 = snd (set_router_dnets snet a (known \<union> new) c1)"
    define c3 where "c3 = fold (\<lambda>d c. snd (set_path_info snet d a ROUTER_AVAILABLE c)) (order new) c2"
    have "update_path_info order snet a dnets c =
        bindR (each (forget_old_path snet) (order new) c) (\<lambda>c.
          each (\<lambda>d c. Inr (snd (set_path_info snet d a ROUTER_AVAILABLE c))) (order new)
            (snd (set_router_dnets snet a (known \<union> new) c)))"
      using False by (auto simp: update_path_info_def new_def known_def Let_def split: option.splits)
    then have u: "update_path_info order snet a dnets c = Inr c3"
      by (simp add: c1 each_Inr c2_def c3_def)
    have path: "get_path_info s d c3 = (if s = snet \<and> d \<in> new then Some (a, ROUTER_AVAILABLE)
        else get_path_info s d c)" for s d
      using set_paths [of s d snet a ROUTER_AVAILABLE "order new" c2] c1(2) on
      by (simp add: c3_def c2_def forgotten_def)
    have rd: "get_router_dnets s r c3 = (if (s, r) = (snet, a) then Some (known \<union> new)
        else (case get_router_dnets s r c of None \<Rightarrow> None
         | Some ds \<Rightarrow> if s \<noteq> snet then Some ds
             else if ds \<inter> new \<noteq> {} \<and> ds - new = {} then None else Some (ds - new)))" for s r
      using set_paths [of s 0 snet a ROUTER_AVAILABLE "order new" c2 r] c1(2)
      by (auto simp: c3_def c2_def forgotten_def)
    have "cache_inv c3"
      unfolding cache_inv_def
    proof (intro conjI allI impI)
      fix s d r
      show "(\<exists>st. get_path_info s d c3 = Some (r, st)) =
          (\<exists>ds. get_router_dnets s r c3 = Some ds \<and> d \<in> ds)"
      proof (cases "s = snet")
        case False
        then show ?thesis using path rd inv by (auto simp: cache_inv_def split: option.splits)
      next
        case s: True
        show ?thesis
        proof (cases "r = a")
          case True
          have "(\<exists>st. get_path_info s d c3 = Some (a, st)) \<longleftrightarrow> d \<in> new \<or> d \<in> known"
            using path s known by (auto simp: route_def)
          then show ?thesis using rd s True by auto
        next
          case False
          have "(\<exists>ds. get_router_dnets s r c3 = Some ds \<and> d \<in> ds) \<longleftrightarrow>
              d \<notin> new \<and> (\<exists>ds. get_router_dnets s r c = Some ds \<and> d \<in> ds)"
            using rd s False by (auto split: option.splits)
          also have "\<dots> \<longleftrightarrow> d \<notin> new \<and> (\<exists>st. get_path_info s d c = Some (r, st))"
            using inv by (simp add: cache_inv_def)
          also have "\<dots> \<longleftrightarrow> (\<exists>st. get_path_info s d c3 = Some (r, st))"
            using path s False by auto
          finally show ?thesis by simp
        qed
      qed
    next
      fix s r ds
      assume "get_router_dnets s r c3 = Some ds"
      then show "finite ds" using rd fk fin cache_invD(3) [OF inv]
        by (auto simp: new_def split: if_splits option.splits)
    qed
    then show ?thesis using u path new by auto
  qed
qed

text \<open>
  Property C29. Learning that networks are behind a router never fails on a consistent cache and
  keeps it consistent; afterwards exactly these networks are reached through this router, a
  network that moved is available, and every other route, with its status, is what it was.
\<close>
theorem update_path_info_correct:
  assumes "cache_inv c" "is_order order" "finite dnets"
  shows "\<exists>c'. update_path_info order snet a dnets c = Inr c' \<and> cache_inv c' \<and>
    (\<forall>s d. route s d c' = (if s = snet \<and> d \<in> dnets then Some a else route s d c)) \<and>
    (\<forall>s d. \<not> (s = snet \<and> d \<in> dnets) \<longrightarrow> get_path_info s d c' = get_path_info s d c) \<and>
    (\<forall>d \<in> dnets. route snet d c \<noteq> Some a \<longrightarrow> get_path_info snet d c' = Some (a, ROUTER_AVAILABLE))"
proof -
  obtain c' where c': "update_path_info order snet a dnets c = Inr c'" "cache_inv c'"
    "\<And>s d. get_path_info s d c' =
      (if s = snet \<and> d \<in> dnets \<and> route s d c \<noteq> Some a then Some (a, ROUTER_AVAILABLE)
       else get_path_info s d c)"
    using update_path_info_ok [OF assms] by blast
  have "route s d c' = (if s = snet \<and> d \<in> dnets then Some a else route s d c)" for s d
    using c'(3) by (auto simp: route_def)
  then show ?thesis using c' by auto
qed

definition empty_cache :: router_cache where
  "empty_cache = \<lparr>path_info = [], router_dnets = []\<rparr>"

lemma sorted_is_order: "is_order sorted_list_of_set"
  by (simp add: is_order_def)

lemma empty_cache_inv: "cache_inv empty_cache"
  by (simp add: cache_inv_def empty_cache_def get_path_info_def get_router_dnets_def)

lemma update_path_info_correct_witness:
  "\<exists>c'. update_path_info sorted_list_of_set (Some 1) (local_station [9]) {7, 8} empty_cache = Inr c' \<and>
    route (Some 1) 7 c' = Some (local_station [9]) \<and> route (Some 1) 6 c' = None"
proof -
  have "route (Some 1) 6 empty_cache = None"
    by (simp add: route_def get_path_info_def empty_cache_def)
  then show ?thesis
    using update_path_info_correct [OF empty_cache_inv sorted_is_order, of "{7, 8}" "Some 1" "local_station [9]"]
    by auto
qed

section \<open>The routing table as an interface\<close>

text \<open>
  What the network layer needs of the cache: the table is the map of the last announcements.
\<close>

text \<open>The announcements \<open>(snet, router, networks)\<close> in the order they arrive.\<close>

primrec announced :: "(int option \<times> address \<times> int set) list \<Rightarrow> int option \<Rightarrow> int \<Rightarrow> address option" where
  "announced [] s d = None"
| "announced (x # xs) s d =
     (case announced xs s d of Some a \<Rightarrow> Some a
      | None \<Rightarrow> (case x of (s', a, ds) \<Rightarrow> if s = s' \<and> d \<in> ds then Some a else None))"

locale routing_table =
  fixes valid :: "'c \<Rightarrow> bool"
    and look :: "int option \<Rightarrow> int \<Rightarrow> 'c \<Rightarrow> address option"
    and learn :: "int option \<Rightarrow> address \<Rightarrow> int set \<Rightarrow> 'c \<Rightarrow> 'c result"
  assumes learn_ok: "valid c \<Longrightarrow> finite ds \<Longrightarrow> \<exists>c'. learn s a ds c = Inr c' \<and> valid c' \<and>
      (\<forall>s' d. look s' d c' = (if s' = s \<and> d \<in> ds then Some a else look s' d c))"
begin

lemma learn_all:
  assumes "valid c" "\<forall>(s, a, ds) \<in> set xs. finite ds"
  shows "\<exists>c'. each (\<lambda>(s, a, ds). learn s a ds) xs c = Inr c' \<and> valid c' \<and>
    (\<forall>s d. look s d c' = (case announced xs s d of Some a \<Rightarrow> Some a | None \<Rightarrow> look s d c))"
  using assms
proof (induction xs arbitrary: c)
  case (Cons x xs)
  obtain s a ds where x: "x = (s, a, ds)" by (cases x)
  obtain c1 where c1: "learn s a ds c = Inr c1" "valid c1"
    "\<And>s' d. look s' d c1 = (if s' = s \<and> d \<in> ds then Some a else look s' d c)"
    using learn_ok [OF Cons.prems(1), of ds s a] Cons.prems(2) x by auto
  have fin: "\<forall>(s, a, ds) \<in> set xs. finite ds" using Cons.prems(2) by simp
  obtain c2 where c2: "each (\<lambda>(s, a, ds). learn s a ds) xs c1 = Inr c2" "valid c2"
    "\<And>s d. look s d c2 = (case announced xs s d of Some a \<Rightarrow> Some a | None \<Rightarrow> look s d c1)"
    using Cons.IH [OF c1(2) fin] by blast
  have "look s' d c2 = (case announced (x # xs) s' d of Some b \<Rightarrow> Some b | None \<Rightarrow> look s' d c)" for s' d
    using c2(3) [of s' d] c1(3) [of s' d] by (simp add: x split: option.split)
  then show ?case using c1(1) c2 by (intro exI [of _ c2]) (simp add: x)
qed simp

end

interpretation cache: routing_table cache_inv route "update_path_info sorted_list_of_set"
proof unfold_locales
  fix c and ds :: "int set" and s a
  assume "cache_inv c" "finite ds"
  from update_path_info_ok [OF this(1) sorted_is_order this(2), of s a]
  obtain c' where c': "update_path_info sorted_list_of_set s a ds c = Inr c'" "cache_inv c'"
    "\<And>s' d. get_path_info s' d c' =
      (if s' = s \<and> d \<in> ds \<and> route s' d c \<noteq> Some a then Some (a, ROUTER_AVAILABLE)
       else get_path_info s' d c)"
    by blast
  then have "route s' d c' = (if s' = s \<and> d \<in> ds then Some a else route s' d c)" for s' d
    by (auto simp: route_def)
  then show "\<exists>c'. update_path_info sorted_list_of_set s a ds c = Inr c' \<and> cache_inv c' \<and>
      (\<forall>s' d. route s' d c' = (if s' = s \<and> d \<in> ds then Some a else route s' d c))"
    using c' by blast
qed

text \<open>
  The cache refines the abstract routing table: after any sequence of
  announcements (source network, router, networks) an empty cache is consistent, no update has
  failed, and the router to a network is the one that announced it last.
\<close>
theorem routing_table_refines:
  assumes "\<forall>(s, a, ds) \<in> set xs. finite ds"
  shows "\<exists>c. each (\<lambda>(s, a, ds). update_path_info sorted_list_of_set s a ds) xs empty_cache = Inr c \<and>
    cache_inv c \<and> (\<forall>s d. route s d c = announced xs s d)"
proof -
  have "route s d empty_cache = None" for s d
    by (simp add: route_def get_path_info_def empty_cache_def)
  moreover obtain c where c: "each (\<lambda>(s, a, ds). update_path_info sorted_list_of_set s a ds) xs empty_cache = Inr c"
    "cache_inv c" "\<And>s d. route s d c = (case announced xs s d of Some a \<Rightarrow> Some a | None \<Rightarrow> route s d empty_cache)"
    using cache.learn_all [OF empty_cache_inv assms] by blast
  ultimately have "route s d c = announced xs s d" for s d
    by (cases "announced xs s d") simp_all
  then show ?thesis using c by blast
qed

lemma routing_table_refines_witness:
  "\<exists>c. each (\<lambda>(s, a, ds). update_path_info sorted_list_of_set s a ds)
      [(Some 1, local_station [9], {7, 8}), (Some 1, local_station [5], {8})] empty_cache = Inr c \<and>
    route (Some 1) 7 c = Some (local_station [9]) \<and> route (Some 1) 8 c = Some (local_station [5])"
  using routing_table_refines
    [of "[(Some 1, local_station [9], {7, 8}), (Some 1, local_station [5], {8})]"] by auto

section \<open>Removal\<close>

lemma remove_path_ok:
  assumes inv: "cache_inv c"
  shows "\<exists>c'. remove_path s d c = Inr c' \<and> cache_inv c' \<and>
    (\<forall>s' d'. get_path_info s' d' c' = (if s' = s \<and> d' = d then None else get_path_info s' d' c))"
proof (cases "get_path_info s d c")
  case None
  then show ?thesis using inv by (simp add: remove_path_def)
next
  case (Some p)
  obtain r st where p: "p = (r, st)" by fastforce
  obtain ds where ds: "get_router_dnets s r c = Some ds" "d \<in> ds"
    using cache_invD(1) [OF inv] Some p by blast
  define c' where "c' = snd (delete_path_info s d (snd (set_router_dnets s r (ds - {d}) c)))"
  have e: "remove_path s d c = Inr c'"
    using Some p ds by (simp add: remove_path_def Let_def c'_def delete_router_dnets_def)
  have other: "get_router_dnets s a c = Some ds' \<Longrightarrow> d \<in> ds' \<Longrightarrow> a = r" for a ds'
    using cache_invD(2) [OF inv] Some p by fastforce
  have path: "get_path_info s' d' c' = (if s' = s \<and> d' = d then None else get_path_info s' d' c)" for s' d'
    by (simp add: c'_def)
  have rd: "get_router_dnets s' a c' = (if s' = s \<and> a = r then Some (ds - {d}) else get_router_dnets s' a c)" for s' a
    by (simp add: c'_def)
  have "cache_inv c'"
    unfolding cache_inv_def
  proof (intro conjI allI impI)
    fix s' d' a
    have i: "(\<exists>st. get_path_info s' d' c = Some (a, st)) \<longleftrightarrow>
        (\<exists>ds. get_router_dnets s' a c = Some ds \<and> d' \<in> ds)"
      using inv by (simp add: cache_inv_def)
    show "(\<exists>st. get_path_info s' d' c' = Some (a, st)) \<longleftrightarrow>
        (\<exists>ds. get_router_dnets s' a c' = Some ds \<and> d' \<in> ds)"
    proof (cases "s' = s \<and> a = r")
      case True
      then show ?thesis using i ds(1) by (simp add: path rd)
    next
      case False
      then have "get_router_dnets s' a c' = get_router_dnets s' a c" by (auto simp: rd)
      moreover have "s' = s \<and> d' = d \<Longrightarrow> get_router_dnets s' a c = Some ds' \<Longrightarrow> d' \<notin> ds'" for ds'
        using other [of a ds'] False by blast
      ultimately show ?thesis using i unfolding path by (cases "s' = s \<and> d' = d") auto
    qed
  next
    fix s' a ds'
    assume "get_router_dnets s' a c' = Some ds'"
    then show "finite ds'" using cache_invD(3) [OF inv] ds by (auto simp: rd split: if_splits)
  qed
  then show ?thesis using e path by blast
qed

lemma remove_paths_ok:
  "cache_inv c \<Longrightarrow> \<exists>c'. each (remove_path s) xs c = Inr c' \<and> cache_inv c' \<and>
    (\<forall>s' d. get_path_info s' d c' = (if s' = s \<and> d \<in> set xs then None else get_path_info s' d c))"
proof (induction xs arbitrary: c)
  case (Cons x xs)
  obtain c1 where c1: "remove_path s x c = Inr c1" "cache_inv c1"
    "\<And>s' d. get_path_info s' d c1 = (if s' = s \<and> d = x then None else get_path_info s' d c)"
    using remove_path_ok [OF Cons.prems, of s x] by blast
  obtain c2 where c2: "each (remove_path s) xs c1 = Inr c2" "cache_inv c2"
    "\<And>s' d. get_path_info s' d c2 = (if s' = s \<and> d \<in> set xs then None else get_path_info s' d c1)"
    using Cons.IH [OF c1(2)] by blast
  then show ?case using c1 by (intro exI [of _ c2]) auto
qed simp

text \<open>
  On a consistent cache, removing networks, or a router with everything behind it,
  never fails, leaves the cache consistent and removes exactly these routes; but removing some
  networks of a known router always ends in a \<^verbatim>\<open>NameError\<close>.
\<close>
theorem remove_path_info_correct:
  assumes inv: "cache_inv c" and o: "is_order order" and fin: "finite ds"
  shows "(\<exists>c'. remove_path_info order s None (Some ds) c = Inr c' \<and> cache_inv c' \<and>
      (\<forall>s' d. get_path_info s' d c' = (if s' = s \<and> d \<in> ds then None else get_path_info s' d c))) \<and>
    (\<exists>c'. remove_path_info order s (Some a) None c = Inr c' \<and> cache_inv c' \<and>
      (\<forall>s' d. get_path_info s' d c' =
        (if s' = s \<and> route s d c = Some a then None else get_path_info s' d c))) \<and>
    (get_router_dnets s a c \<noteq> None \<longrightarrow> remove_path_info order s (Some a) (Some ds) c = Inl NameError)"
proof -
  have o': "finite ds \<Longrightarrow> set (order ds) = ds" for ds using o by (simp add: is_order_def)
  have 1: "\<exists>c'. remove_path_info order s None (Some ds) c = Inr c' \<and> cache_inv c' \<and>
      (\<forall>s' d. get_path_info s' d c' = (if s' = s \<and> d \<in> ds then None else get_path_info s' d c))"
    using remove_paths_ok [OF inv, of s "order ds"] o' [OF fin] by (simp add: remove_path_info_def)
  have 2: "\<exists>c'. remove_path_info order s (Some a) None c = Inr c' \<and> cache_inv c' \<and>
      (\<forall>s' d. get_path_info s' d c' =
        (if s' = s \<and> route s d c = Some a then None else get_path_info s' d c))"
  proof (cases "get_router_dnets s a c")
    case None
    then have "route s d c \<noteq> Some a" for d
      using cache_invD(1) [OF inv, of s d a] by (auto simp: route_def)
    then show ?thesis using None inv by (simp add: remove_path_info_def)
  next
    case (Some rs)
    define c' where "c' = snd (delete_router_dnets s (Some a)
      (fold (\<lambda>d c. snd (delete_path_info s d c)) (order rs) c))"
    have rs: "d \<in> rs \<longleftrightarrow> route s d c = Some a" for d
      using cache_invD(1) [OF inv, of s d a] cache_invD(2) [OF inv Some, of d] Some
      by (auto simp: route_def)
    have frs: "finite rs" using cache_invD(3) [OF inv Some] .
    have path: "get_path_info s' d c' = (if s' = s \<and> route s d c = Some a then None else get_path_info s' d c)" for s' d
      using delete_paths [of s' d s "order rs" c] o' [OF frs] rs by (simp add: c'_def)
    have rd: "get_router_dnets s' r c' = (if s' = s \<and> r = a then None else get_router_dnets s' r c)" for s' r
      using delete_paths [of s' 0 s "order rs" c r] by (auto simp: c'_def)
    have "cache_inv c'"
      unfolding cache_inv_def
    proof (intro conjI allI impI)
      fix s' d r
      have "(\<exists>st. get_path_info s' d c = Some (r, st)) \<longleftrightarrow>
        (\<exists>ds. get_router_dnets s' r c = Some ds \<and> d \<in> ds)"
        using inv by (simp add: cache_inv_def)
      then show "(\<exists>st. get_path_info s' d c' = Some (r, st)) \<longleftrightarrow>
        (\<exists>ds. get_router_dnets s' r c' = Some ds \<and> d \<in> ds)"
        by (cases "s' = s"; cases "r = a") (auto simp: path rd route_def)
    next
      fix s' r ds'
      assume "get_router_dnets s' r c' = Some ds'"
      then show "finite ds'" using cache_invD(3) [OF inv] by (auto simp: rd split: if_splits)
    qed
    then show ?thesis using Some path by (simp add: remove_path_info_def each_Inr c'_def)
  qed
  show ?thesis using 1 2 by (auto simp: remove_path_info_def)
qed

lemma remove_path_info_correct_witness:
  "\<exists>c'. remove_path_info sorted_list_of_set (Some 1) None (Some {7}) empty_cache = Inr c' \<and> cache_inv c'"
  using remove_path_info_correct [OF empty_cache_inv sorted_is_order, of "{7}" "Some 1"] by blast

section \<open>Status and renumbering\<close>

definition wf_keys :: "router_cache \<Rightarrow> bool" where
  "wf_keys c \<longleftrightarrow> distinct (map fst (router_dnets c))"

lemma each_invariant:
  assumes "each f xs c = Inr c'" "I c" "\<And>x c c'. f x c = Inr c' \<Longrightarrow> I c \<Longrightarrow> I c'"
  shows "I c'"
  using assms(1,2)
proof (induction xs arbitrary: c)
  case (Cons x xs)
  then show ?case using assms(3) by (auto simp: bindR_eq_Inr_iff)
qed simp

lemma wf_keys_basic:
  "wf_keys (snd (set_path_info s d a st c)) = wf_keys c"
  "wf_keys (snd (delete_path_info s d c)) = wf_keys c"
  "wf_keys c \<Longrightarrow> wf_keys (snd (set_router_dnets s a ds c))"
  "wf_keys c \<Longrightarrow> wf_keys (snd (delete_router_dnets s ao c))"
  by (auto simp: wf_keys_def set_path_info_def delete_path_info_def set_router_dnets_def
      delete_router_dnets_def distinct_update distinct_delete split: option.splits)

lemma forget_old_path_keys: "forget_old_path s d c = Inr c' \<Longrightarrow> wf_keys c \<Longrightarrow> wf_keys c'"
  by (auto simp: forget_old_path_def Let_def wf_keys_basic split: option.splits if_splits)

lemma update_path_info_keys:
  assumes "update_path_info order s a ds c = Inr c'" "wf_keys c"
  shows "wf_keys c'"
proof (cases "get_router_dnets s a c \<noteq> None \<and> ds - the (get_router_dnets s a c) = {}")
  case True
  then show ?thesis using assms by (auto simp: update_path_info_def Let_def split: option.splits)
next
  case False
  then obtain new known c1 where c1: "each (forget_old_path s) (order new) c = Inr c1"
    "each (\<lambda>d c. Inr (snd (set_path_info s d a ROUTER_AVAILABLE c))) (order new)
       (snd (set_router_dnets s a known c1)) = Inr c'"
    using assms(1) by (auto simp: update_path_info_def Let_def bindR_eq_Inr_iff split: option.splits if_splits)
  have "wf_keys c1" using each_invariant [of _ _ _ _ wf_keys, OF c1(1) assms(2)] forget_old_path_keys by blast
  then have "wf_keys (snd (set_router_dnets s a known c1))" by (rule wf_keys_basic)
  from each_invariant [OF c1(2), of wf_keys, OF this] show ?thesis by (auto simp: wf_keys_basic)
qed

lemma update_source_network_keys:
  assumes "update_source_network order old new c = Inr c'" "wf_keys c"
  shows "wf_keys c'"
proof -
  have p: "move_path old new d c = Inr c' \<Longrightarrow> wf_keys c \<Longrightarrow> wf_keys c'" for d c c'
    by (auto simp: move_path_def wf_keys_def split: option.splits)
  have r: "move_router order old new x c = Inr c'" "wf_keys c" "wf_keys c'" if
    "move_router order old new x c = Inr c'" "wf_keys c" for x c c'
  proof -
    obtain s a ds where x: "x = ((s, a), ds)" by (metis prod.collapse)
    show "wf_keys c'"
    proof (cases "s = old")
      case True
      then have "each (move_path old new) (order ds)
          (c\<lparr>router_dnets := AList.update (new, a) ds (AList.delete (old, a) (router_dnets c))\<rparr>) = Inr c'"
        using that(1) by (simp add: x move_router_def Let_def split: if_splits)
      then show ?thesis
        using each_invariant [of "move_path old new" "order ds" _ c' wf_keys] p that(2)
        by (auto simp: wf_keys_def distinct_update distinct_delete)
    qed (use that in \<open>simp add: x move_router_def\<close>)
  qed (use that in simp_all)
  show ?thesis
    using each_invariant [of _ _ c c' wf_keys, OF _ assms(2)] assms(1) r(3)
    unfolding update_source_network_def by blast
qed

lemma move_paths:
  assumes "old \<noteq> new" "distinct xs" "\<forall>d \<in> set xs. get_path_info old d c \<noteq> None"
  shows "\<exists>c'. each (move_path old new) xs c = Inr c' \<and> router_dnets c' = router_dnets c \<and>
    (\<forall>s d. get_path_info s d c' =
      (if d \<in> set xs \<and> s = old then None else if d \<in> set xs \<and> s = new then get_path_info old d c
       else get_path_info s d c))"
  using assms(2,3)
proof (induction xs arbitrary: c)
  case (Cons x xs)
  obtain a st where x: "get_path_info old x c = Some (a, st)" using Cons.prems by auto
  define c1 where "c1 = c\<lparr>path_info := AList.update (new, x) (a, st) (AList.delete (old, x) (path_info c))\<rparr>"
  have m: "move_path old new x c = Inr c1" using x by (simp add: move_path_def Let_def c1_def)
  have p: "get_path_info s d c1 = (if d = x \<and> s = new then Some (a, st) else if d = x \<and> s = old then None
      else get_path_info s d c)" for s d
    using assms(1) by (auto simp: get_path_info_def c1_def update_conv' delete_conv')
  have "\<forall>d \<in> set xs. get_path_info old d c1 \<noteq> None" using Cons.prems p assms(1) by auto
  then obtain c2 where c2: "each (move_path old new) xs c1 = Inr c2" "router_dnets c2 = router_dnets c1"
    "\<And>s d. get_path_info s d c2 =
      (if d \<in> set xs \<and> s = old then None else if d \<in> set xs \<and> s = new then get_path_info old d c1
       else get_path_info s d c1)"
    using Cons.IH [of c1] Cons.prems by auto
  have "get_path_info s d c2 =
      (if d \<in> set (x # xs) \<and> s = old then None
       else if d \<in> set (x # xs) \<and> s = new then get_path_info old d c else get_path_info s d c)" for s d
    using Cons.prems(1) assms(1) x by (cases "d = x") (auto simp: c2(3) p)
  then show ?case using m c2 by (intro exI [of _ c2]) (simp add: c1_def)
qed simp

text \<open>The cache while the entries \<open>is\<close> of the old network have been moved.\<close>

definition moved :: "int option \<Rightarrow> int option \<Rightarrow> address set \<Rightarrow> router_cache \<Rightarrow> router_cache \<Rightarrow> bool" where
  "moved old new R c c' \<longleftrightarrow>
     (\<forall>s a. get_router_dnets s a c' =
        (if s = old \<and> a \<in> R then None else if s = new \<and> a \<in> R then get_router_dnets old a c
         else get_router_dnets s a c)) \<and>
     (\<forall>s d. get_path_info s d c' =
        (if s = old \<and> route old d c \<in> Some ` R then None
         else if s = new \<and> route old d c \<in> Some ` R then get_path_info old d c
         else get_path_info s d c))"

lemma move_router_step:
  assumes inv: "cache_inv c" and o: "is_order order" and ne: "old \<noteq> new"
    and m: "moved old new R c c'" and a: "a \<notin> R" "get_router_dnets old a c = Some ds"
  shows "\<exists>c''. move_router order old new ((old, a), ds) c' = Inr c'' \<and> moved old new (insert a R) c c''"
proof -
  define c1 where "c1 = c'\<lparr>router_dnets := AList.update (new, a) ds (AList.delete (old, a) (router_dnets c'))\<rparr>"
  have fin: "finite ds" using cache_invD(3) [OF inv a(2)] .
  then have on: "set (order ds) = ds" "distinct (order ds)" using o by (auto simp: is_order_def)
  have ds: "d \<in> ds \<longleftrightarrow> route old d c = Some a" for d
    using cache_invD(1) [OF inv, of old d a] cache_invD(2) [OF inv a(2), of d] a(2)
    by (auto simp: route_def)
  have p1: "get_path_info s d c1 = get_path_info s d c'" for s d
    by (simp add: c1_def get_path_info_def)
  have r1: "get_router_dnets s b c1 = (if b = a \<and> s = new then Some ds else if b = a \<and> s = old then None
      else get_router_dnets s b c')" for s b
    using ne by (auto simp: get_router_dnets_def c1_def update_conv' delete_conv')
  have "get_path_info old d c1 \<noteq> None" if "d \<in> ds" for d
    using that ds [of d] m a(1) by (auto simp: p1 moved_def route_def)
  then obtain c2 where c2: "each (move_path old new) (order ds) c1 = Inr c2" "router_dnets c2 = router_dnets c1"
    "\<And>s d. get_path_info s d c2 =
      (if d \<in> ds \<and> s = old then None else if d \<in> ds \<and> s = new then get_path_info old d c1
       else get_path_info s d c1)"
    using move_paths [OF ne on(2), of c1] on(1) by auto
  have "get_router_dnets old a c' = Some ds" using m a ne by (simp add: moved_def)
  then have e: "move_router order old new ((old, a), ds) c' = Inr c2"
    using c2(1) by (simp add: move_router_def Let_def c1_def get_router_dnets_def)
  have r2: "get_router_dnets s b c2 = get_router_dnets s b c1" for s b
    using c2(2) by (simp add: get_router_dnets_def)
  have "moved old new (insert a R) c c2"
    unfolding moved_def
  proof (intro conjI allI)
    fix s b
    show "get_router_dnets s b c2 =
        (if s = old \<and> b \<in> insert a R then None
         else if s = new \<and> b \<in> insert a R then get_router_dnets old b c else get_router_dnets s b c)"
      using m a ne by (cases "b = a") (auto simp: r2 r1 moved_def)
  next
    fix s d
    have pm: "get_path_info s d c' = (if s = old \<and> route old d c \<in> Some ` R then None
         else if s = new \<and> route old d c \<in> Some ` R then get_path_info old d c
         else get_path_info s d c)" for s
      using m by (simp add: moved_def)
    show "get_path_info s d c2 =
        (if s = old \<and> route old d c \<in> Some ` insert a R then None
         else if s = new \<and> route old d c \<in> Some ` insert a R then get_path_info old d c
         else get_path_info s d c)"
    proof (cases "d \<in> ds")
      case True
      then have "route old d c = Some a" "route old d c \<notin> Some ` R" using ds a(1) by auto
      then show ?thesis using True ne by (simp add: c2(3) p1 pm)
    next
      case False
      then have "route old d c \<noteq> Some a" using ds by simp
      then have "route old d c \<in> Some ` insert a R \<longleftrightarrow> route old d c \<in> Some ` R" by auto
      then show ?thesis using False by (simp add: c2(3) p1 pm)
    qed
  qed
  then show ?thesis using e by blast
qed

lemma move_routers:
  assumes inv: "cache_inv c" and o: "is_order order" and ne: "old \<noteq> new"
    and m: "moved old new R c c'"
    and xs: "distinct (map fst xs)" "\<forall>((s, a), ds) \<in> set xs. get_router_dnets s a c = Some ds"
      "\<forall>a \<in> R. (old, a) \<notin> fst ` set xs"
  shows "\<exists>c''. each (move_router order old new) xs c' = Inr c'' \<and>
    moved old new (R \<union> {a. (old, a) \<in> fst ` set xs}) c c''"
  using m xs
proof (induction xs arbitrary: R c')
  case (Cons x xs)
  obtain s a ds where x: "x = ((s, a), ds)" by (metis prod.collapse)
  show ?case
  proof (cases "s = old")
    case False
    then have "move_router order old new x c' = Inr c'" by (simp add: x move_router_def)
    moreover have "{a. (old, a) \<in> fst ` set (x # xs)} = {a. (old, a) \<in> fst ` set xs}"
      using False x by auto
    ultimately show ?thesis using Cons.IH [OF Cons.prems(1)] Cons.prems(2-4) by auto
  next
    case True
    have "a \<notin> R" "get_router_dnets old a c = Some ds" using Cons.prems x True by auto
    then obtain c1 where c1: "move_router order old new x c' = Inr c1" "moved old new (insert a R) c c1"
      using move_router_step [OF inv o ne Cons.prems(1)] x True by blast
    have "\<forall>b \<in> insert a R. (old, b) \<notin> fst ` set xs" using Cons.prems x True by auto
    then obtain c2 where "each (move_router order old new) xs c1 = Inr c2"
      "moved old new (insert a R \<union> {a. (old, a) \<in> fst ` set xs}) c c2"
      using Cons.IH [OF c1(2)] Cons.prems by auto
    moreover have "insert a R \<union> {a. (old, a) \<in> fst ` set xs} = R \<union> {a. (old, a) \<in> fst ` set (x # xs)}"
      using x True by auto
    ultimately show ?thesis using c1 by auto
  qed
qed simp

lemma renumber_ok:
  assumes inv: "cache_inv c" "wf_keys c" and o: "is_order order" and ne: "old \<noteq> new"
    and fresh: "\<forall>a. get_router_dnets new a c = None"
  shows "\<exists>c'. update_source_network order old new c = Inr c' \<and> cache_inv c' \<and>
      (\<forall>s d. get_path_info s d c' =
        (if s = old then None else if s = new then get_path_info old d c else get_path_info s d c))"
proof -
  have new: "get_path_info new d c = None" for d
    using cache_invD(1) [OF inv(1), of new d] fresh by (cases "get_path_info new d c") auto
  define R where "R = {a. (old, a) \<in> fst ` set (router_dnets c)}"
  have R: "a \<in> R \<longleftrightarrow> get_router_dnets old a c \<noteq> None" for a
    by (auto simp: R_def get_router_dnets_def map_of_eq_None_iff)
  have m0: "moved old new {} c c" by (simp add: moved_def)
  have items: "\<forall>((s, a), ds) \<in> set (router_dnets c). get_router_dnets s a c = Some ds"
    using inv(2) by (auto simp: wf_keys_def get_router_dnets_def map_of_eq_Some_iff)
  obtain c' where c': "update_source_network order old new c = Inr c'" "moved old new R c c'"
    using move_routers [OF inv(1) o ne m0 _ items] inv(2)
    by (auto simp: update_source_network_def wf_keys_def R_def)
  have rR: "route old d c \<in> Some ` R \<longleftrightarrow> get_path_info old d c \<noteq> None" for d
    using cache_invD(1) [OF inv(1), of old d] R by (force simp: route_def)
  have path: "get_path_info s d c' = (if s = old then None else if s = new then get_path_info old d c
      else get_path_info s d c)" for s d
    using c'(2) rR [of d] new [of d] ne by (cases "get_path_info old d c") (auto simp: moved_def)
  have rd: "get_router_dnets s a c' = (if s = old then None else if s = new then get_router_dnets old a c
      else get_router_dnets s a c)" for s a
    using c'(2) R [of a] fresh ne by (auto simp: moved_def)
  have "cache_inv c'"
    using inv(1) unfolding cache_inv_def by (simp add: path rd)
  then show ?thesis using c'(1) path by blast
qed

lemma mark_ok:
  assumes inv: "cache_inv c" and o: "is_order order"
  shows "\<exists>c'. update_router_status order s a st c = Inr c' \<and>
      (\<forall>s' d. get_path_info s' d c' =
        (if s' = s \<and> route s d c = Some a then Some (a, st) else get_path_info s' d c))"
proof (cases "get_router_dnets s a c")
  case None
  then have "route s d c \<noteq> Some a" for d
    using cache_invD(1) [OF inv, of s d a] by (auto simp: route_def)
  then show ?thesis using None by (simp add: update_router_status_def)
next
  case (Some ds)
  have "d \<in> ds \<longleftrightarrow> route s d c = Some a" for d
    using cache_invD(1) [OF inv, of s d a] cache_invD(2) [OF inv Some, of d] Some
    by (auto simp: route_def)
  moreover have "set (order ds) = ds" using o cache_invD(3) [OF inv Some] by (simp add: is_order_def)
  ultimately show ?thesis
    using Some set_paths [of _ _ s a st "order ds" c] by (simp add: update_router_status_def each_Inr)
qed

text \<open>
  When the number of a network becomes known, every route of the old number,
  with its status, moves to the new one, the other routes stay, and the cache stays consistent,
  provided nothing was known under the new number. Marking a router changes the status of
  exactly the networks behind it.
\<close>
theorem renumber_and_mark_correct:
  assumes inv: "cache_inv c" "wf_keys c" and o: "is_order order" and ne: "old \<noteq> new"
    and fresh: "\<forall>a. get_router_dnets new a c = None"
  shows "(\<exists>c'. update_source_network order old new c = Inr c' \<and> cache_inv c' \<and>
      (\<forall>s d. get_path_info s d c' =
        (if s = old then None else if s = new then get_path_info old d c else get_path_info s d c))) \<and>
    (\<exists>c'. update_router_status order s a st c = Inr c' \<and>
      (\<forall>s' d. get_path_info s' d c' =
        (if s' = s \<and> route s d c = Some a then Some (a, st) else get_path_info s' d c)))"
  using renumber_ok [OF assms] mark_ok [OF inv(1) o] by blast

lemma renumber_and_mark_correct_witness:
  "\<exists>c'. update_source_network sorted_list_of_set None (Some 5) empty_cache = Inr c' \<and> cache_inv c'"
proof -
  have "wf_keys empty_cache" by (simp add: wf_keys_def empty_cache_def)
  moreover have "\<forall>a. get_router_dnets (Some 5) a empty_cache = None"
    by (simp add: get_router_dnets_def empty_cache_def)
  ultimately show ?thesis
    using renumber_and_mark_correct [OF empty_cache_inv _ sorted_is_order, of None "Some 5"] by blast
qed

end
