(* ===== verification/Npdu.thy ===== *)
theory Npdu
  imports Pdu
begin

text \<open>
  \<^verbatim>\<open>bacpypes3/npdu.py\<close>: the network layer header \<^verbatim>\<open>NPCI\<close> and the network layer
  messages with their encoders and decoders, and the two places that put them together,
  \<^verbatim>\<open>NetworkAdapter\<close> (\<^verbatim>\<open>netservice.py\<close>) and \<^verbatim>\<open>NetworkCodec\<close>.
\<close>

section \<open>NPCI\<close>

text \<open>
  \<^verbatim>\<open>npduHopCount\<close> and \<^verbatim>\<open>npduVendorID\<close> have no class default: \<open>None\<close> is an attribute that
  is not set.
\<close>

record npci = pci +
  npduVersion :: int
  npduControl :: "int option"
  npduDADR :: "address option"
  npduSADR :: "address option"
  npduHopCount :: "int option"
  npduNetMessage :: "int option"
  npduVendorID :: "int option"

definition init_npci :: npci where
  "init_npci = pci.extend init_pci
     \<lparr>npduVersion = 1, npduControl = None, npduDADR = None, npduSADR = None,
      npduHopCount = None, npduNetMessage = None, npduVendorID = None\<rparr>"

definition npci_control :: "'a npci_scheme \<Rightarrow> int" where
  "npci_control n =
     (if npduNetMessage n \<noteq> None then 0x80 else 0x00)
     OR (if npduDADR n \<noteq> None then 0x20 else 0x00)
     OR (if npduSADR n \<noteq> None then 0x08 else 0x00)
     OR (if pduExpectingReply n then 0x04 else 0)
     OR (pduNetworkPriority n AND 0x03)"

text \<open>The address fields; an address type without a branch writes nothing.\<close>

definition put_station :: "address \<Rightarrow> byte list \<Rightarrow> byte list result" where
  "put_station a s =
     bindR (need TypeError (addrNet a)) (\<lambda>net.
     bindR (need TypeError (addrAddr a)) (\<lambda>adr.
     bindR (pdu_put (int (length adr)) (pdu_put_short net s)) (\<lambda>s.
     Inr (pdu_put_data adr s))))"

definition put_dadr :: "address \<Rightarrow> byte list \<Rightarrow> byte list result" where
  "put_dadr a s =
     (case addrType a of
        RemoteStationAddr \<Rightarrow> put_station a s
      | RemoteBroadcastAddr \<Rightarrow>
          bindR (need TypeError (addrNet a)) (\<lambda>net. pdu_put 0 (pdu_put_short net s))
      | GlobalBroadcastAddr \<Rightarrow> pdu_put 0 (pdu_put_short 0xFFFF s)
      | _ \<Rightarrow> Inr s)"

definition npci_encode :: "'a npci_scheme \<Rightarrow> byte list result" where
  "npci_encode n =
     bindR (pdu_put (npduVersion n) []) (\<lambda>s.
     bindR (pdu_put (npci_control n) s) (\<lambda>s.
     bindR (case npduDADR n of None \<Rightarrow> Inr s | Some a \<Rightarrow> put_dadr a s) (\<lambda>s.
     bindR (case npduSADR n of None \<Rightarrow> Inr s | Some a \<Rightarrow> put_station a s) (\<lambda>s.
     bindR (if npduDADR n \<noteq> None then bindR (need AttributeError (npduHopCount n)) (\<lambda>h. pdu_put h s)
            else Inr s) (\<lambda>s.
     (case npduNetMessage n of
        None \<Rightarrow> Inr s
      | Some m \<Rightarrow>
          bindR (pdu_put m s) (\<lambda>s.
          if m \<ge> 0x80 \<and> m \<le> 0xFF
          then bindR (need AttributeError (npduVendorID n)) (\<lambda>v. Inr (pdu_put_short v s))
          else Inr s)))))))"

definition get_dadr :: "address reader" where
  "get_dadr s =
     bindR (pdu_get_short s) (\<lambda>(dnet, s).
     bindR (pdu_get s) (\<lambda>(dlen, s).
     bindR (pdu_get_data dlen s) (\<lambda>(dadr, s).
     bindR (if dnet = 0xFFFF then Inr global_broadcast
            else if dlen = 0 then remote_broadcast dnet
            else remote_station dnet dadr) (\<lambda>a.
     Inr (a, s)))))"

definition get_sadr :: "address reader" where
  "get_sadr s =
     bindR (pdu_get_short s) (\<lambda>(snet, s).
     bindR (pdu_get s) (\<lambda>(slen, s).
     bindR (pdu_get_data slen s) (\<lambda>(sadr, s).
     if snet = 0xFFFF then Inl DecodingError
     else if slen = 0 then Inl DecodingError
     else bindR (remote_station snet sadr) (\<lambda>a. Inr (a, s)))))"

text \<open>A field that is present only when its flag is set.\<close>

definition when_get :: "bool \<Rightarrow> 'a reader \<Rightarrow> 'a option reader" where
  "when_get b g s = (if b then bindR (g s) (\<lambda>(x, s). Inr (Some x, s)) else Inr (None, s))"

definition npci_decode :: "'a pci_scheme \<Rightarrow> byte list \<Rightarrow> (npci \<times> byte list) result" where
  "npci_decode p s =
     (if length s < 2 then Inl DecodingError
      else
        bindR (pdu_get s) (\<lambda>(version, s).
        if version \<noteq> 0x01 then Inl DecodingError
        else
          bindR (pdu_get s) (\<lambda>(control, s).
          bindR (when_get (control AND 0x20 \<noteq> 0) get_dadr s) (\<lambda>(dadr, s).
          bindR (when_get (control AND 0x08 \<noteq> 0) get_sadr s) (\<lambda>(sadr, s).
          bindR (when_get (control AND 0x20 \<noteq> 0) pdu_get s) (\<lambda>(hops, s).
          bindR (when_get (control AND 0x80 \<noteq> 0) pdu_get s) (\<lambda>(msg, s).
          bindR (when_get (case msg of Some m \<Rightarrow> m \<ge> 0x80 \<and> m \<le> 0xFF | None \<Rightarrow> False) pdu_get_short s)
            (\<lambda>(vendor, s).
          Inr ((pci_update init_npci p)
                 \<lparr>npduVersion := version, npduControl := Some control,
                  pduExpectingReply := control AND 0x04 \<noteq> 0,
                  pduNetworkPriority := control AND 0x03,
                  npduDADR := dadr, npduSADR := sadr, npduHopCount := hops,
                  npduNetMessage := msg, npduVendorID := vendor\<rparr>, s)))))))))"

subsection \<open>Round trip of the header\<close>

definition wf_station :: "address \<Rightarrow> bool" where
  "wf_station a \<longleftrightarrow> (\<exists>net adr. a = Address RemoteStationAddr (Some net) (Some adr) None \<and>
     0 \<le> net \<and> net < 65535 \<and> adr \<noteq> [] \<and> length adr < 256)"

definition wf_dadr :: "address \<Rightarrow> bool" where
  "wf_dadr a \<longleftrightarrow> wf_station a \<or> a = global_broadcast \<or>
     (\<exists>net. a = Address RemoteBroadcastAddr (Some net) None None \<and> 0 \<le> net \<and> net < 65535)"

definition wf_npci :: "'a npci_scheme \<Rightarrow> bool" where
  "wf_npci n \<longleftrightarrow>
     npduVersion n = 1 \<and> 0 \<le> pduNetworkPriority n \<and> pduNetworkPriority n < 4 \<and>
     pred_option wf_dadr (npduDADR n) \<and> pred_option wf_station (npduSADR n) \<and>
     pred_option (\<lambda>h. 0 \<le> h \<and> h < 256) (npduHopCount n) \<and>
     (npduHopCount n \<noteq> None \<longleftrightarrow> npduDADR n \<noteq> None) \<and>
     pred_option (\<lambda>m. 0 \<le> m \<and> m < 256) (npduNetMessage n) \<and>
     pred_option (\<lambda>v. 0 \<le> v \<and> v < 65536) (npduVendorID n) \<and>
     (npduVendorID n \<noteq> None \<longleftrightarrow> (\<exists>m. npduNetMessage n = Some m \<and> m \<ge> 128))"

definition station_octets :: "address \<Rightarrow> byte list" where
  "station_octets a = be_bytes 2 (the (addrNet a)) @
     word_of_int (int (length (the (addrAddr a)))) # the (addrAddr a)"

definition dadr_octets :: "address \<Rightarrow> byte list" where
  "dadr_octets a =
     (case addrType a of RemoteStationAddr \<Rightarrow> station_octets a
      | RemoteBroadcastAddr \<Rightarrow> be_bytes 2 (the (addrNet a)) @ [0]
      | _ \<Rightarrow> be_bytes 2 0xFFFF @ [0])"

lemma put_station_octets: "wf_station a \<Longrightarrow> put_station a s = Inr (s @ station_octets a)"
  by (auto simp: wf_station_def put_station_def station_octets_def codec_simps pdu_put_data_def)

lemma put_dadr_octets: "wf_dadr a \<Longrightarrow> put_dadr a s = Inr (s @ dadr_octets a)"
  by (auto simp: wf_dadr_def put_dadr_def dadr_octets_def put_station_octets global_broadcast_def
      codec_simps) (auto simp: wf_station_def put_station_octets)

lemma get_sadr_octets: "wf_station a \<Longrightarrow> get_sadr (station_octets a @ s) = Inr (a, s)"
  by (auto simp: wf_station_def get_sadr_def station_octets_def codec_simps remote_station_def)

lemma get_dadr_station: "wf_station a \<Longrightarrow> get_dadr (station_octets a @ s) = Inr (a, s)"
  by (auto simp: wf_station_def get_dadr_def station_octets_def codec_simps remote_station_def)

lemma get_dadr_octets:
  assumes "wf_dadr a"
  shows "get_dadr (dadr_octets a @ s) = Inr (a, s)"
  using assms unfolding wf_dadr_def
proof (elim disjE exE conjE)
  assume w: "wf_station a"
  then have "dadr_octets a = station_octets a" by (auto simp: wf_station_def dadr_octets_def)
  then show ?thesis using get_dadr_station [OF w] by simp
qed (auto simp: dadr_octets_def get_dadr_def codec_simps remote_broadcast_def global_broadcast_def)

lemma npci_control_bounds:
  assumes "0 \<le> pduNetworkPriority n" "pduNetworkPriority n < 4"
  shows "pduNetworkPriority n \<in> {0, 1, 2, 3}"
  using assms by auto

lemma npci_control_fields:
  assumes "0 \<le> pduNetworkPriority n" "pduNetworkPriority n < 4"
  shows "0 \<le> npci_control n \<and> npci_control n < 256"
    "npci_control n AND 0x20 \<noteq> 0 \<longleftrightarrow> npduDADR n \<noteq> None"
    "npci_control n AND 0x08 \<noteq> 0 \<longleftrightarrow> npduSADR n \<noteq> None"
    "npci_control n AND 0x80 \<noteq> 0 \<longleftrightarrow> npduNetMessage n \<noteq> None"
    "npci_control n AND 0x04 \<noteq> 0 \<longleftrightarrow> pduExpectingReply n"
    "npci_control n AND 0x03 = pduNetworkPriority n"
  using npci_control_bounds [OF assms] by (auto simp: npci_control_def)

lemma when_get_None [simp]: "when_get False g s = Inr (None, s)"
  by (simp add: when_get_def)

lemma when_get_Some: "g s = Inr (x, s') \<Longrightarrow> when_get True g s = Inr (Some x, s')"
  by (simp add: when_get_def)

definition option_octets :: "('a \<Rightarrow> byte list) \<Rightarrow> 'a option \<Rightarrow> byte list" where
  "option_octets f x = (case x of None \<Rightarrow> [] | Some v \<Rightarrow> f v)"

lemma when_get_octets:
  assumes "pred_option P x" "\<And>v s. P v \<Longrightarrow> g (f v @ s) = Inr (v, s)"
  shows "when_get (x \<noteq> None) g (option_octets f x @ s) = Inr (x, s)"
  using assms by (cases x) (auto simp: option_octets_def when_get_def)

definition npci_octets :: "'a npci_scheme \<Rightarrow> byte list" where
  "npci_octets n = [1, word_of_int (npci_control n)] @ option_octets dadr_octets (npduDADR n) @
     option_octets station_octets (npduSADR n) @ option_octets (\<lambda>h. [word_of_int h]) (npduHopCount n) @
     option_octets (\<lambda>m. [word_of_int m]) (npduNetMessage n) @ option_octets (be_bytes 2) (npduVendorID n)"

lemma npci_encode_octets:
  assumes "wf_npci n"
  shows "npci_encode n = Inr (npci_octets n)"
proof -
  note c = npci_control_fields(1) [of n]
  show ?thesis
    using assms c
    by (cases "npduDADR n"; cases "npduSADR n"; cases "npduNetMessage n"; cases "npduHopCount n";
        cases "npduVendorID n")
       (auto simp: npci_encode_def npci_octets_def wf_npci_def codec_simps option_octets_def
         put_dadr_octets put_station_octets)
qed

text \<open>Decoding recovers every field; the control octet is the one that was written.\<close>

lemma npci_decode_encode:
  assumes "wf_npci n" "npci_encode n = Inr bs"
  shows "npci_decode p (bs @ s) = Inr ((pci_update init_npci p)
    \<lparr>npduVersion := 1, npduControl := Some (npci_control n),
     pduExpectingReply := pduExpectingReply n, pduNetworkPriority := pduNetworkPriority n,
     npduDADR := npduDADR n, npduSADR := npduSADR n, npduHopCount := npduHopCount n,
     npduNetMessage := npduNetMessage n, npduVendorID := npduVendorID n\<rparr>, s)"
proof -
  have bs: "bs = npci_octets n" using assms by (simp add: npci_encode_octets)
  have pr: "0 \<le> pduNetworkPriority n" "pduNetworkPriority n < 4" using assms(1) by (auto simp: wf_npci_def)
  note c = npci_control_fields [OF pr]
  have dadr: "when_get (npduDADR n \<noteq> None) get_dadr (option_octets dadr_octets (npduDADR n) @ s) = Inr (npduDADR n, s)" for s
    using assms(1) by (intro when_get_octets [of wf_dadr]) (auto simp: wf_npci_def get_dadr_octets)
  have sadr: "when_get (npduSADR n \<noteq> None) get_sadr (option_octets station_octets (npduSADR n) @ s) = Inr (npduSADR n, s)" for s
    using assms(1) by (intro when_get_octets [of wf_station]) (auto simp: wf_npci_def get_sadr_octets)
  have hops: "when_get (npduHopCount n \<noteq> None) pdu_get (option_octets (\<lambda>h. [word_of_int h]) (npduHopCount n) @ s) = Inr (npduHopCount n, s)" for s
    using assms(1) by (intro when_get_octets [of "\<lambda>h. 0 \<le> h \<and> h < 256"]) (auto simp: wf_npci_def)
  have msg: "when_get (npduNetMessage n \<noteq> None) pdu_get (option_octets (\<lambda>m. [word_of_int m]) (npduNetMessage n) @ s) = Inr (npduNetMessage n, s)" for s
    using assms(1) by (intro when_get_octets [of "\<lambda>h. 0 \<le> h \<and> h < 256"]) (auto simp: wf_npci_def)
  have vendor: "when_get (npduVendorID n \<noteq> None) pdu_get_short (option_octets (be_bytes 2) (npduVendorID n) @ s) = Inr (npduVendorID n, s)" for s
    using assms(1) by (intro when_get_octets [of "\<lambda>v. 0 \<le> v \<and> v < 65536"]) (auto simp: wf_npci_def codec_simps)
  have hd: "(npduHopCount n \<noteq> None) = (npduDADR n \<noteq> None)"
    and vd: "(case npduNetMessage n of Some m \<Rightarrow> m \<ge> 0x80 \<and> m \<le> 0xFF | None \<Rightarrow> False) = (npduVendorID n \<noteq> None)"
    using assms(1) by (auto simp: wf_npci_def split: option.splits)
  show ?thesis
    using c(1)
    by (simp only: npci_decode_def bs npci_octets_def c(2-6) vd dadr sadr hops [unfolded hd] msg vendor
        append_assoc append_Cons append_Nil pdu_get.simps list.size bindR_simps prod.case uint_byte
        mod_pos_pos_trivial) simp
qed

section \<open>Network layer messages\<close>

record routing_table_entry =
  rtDNET :: int
  rtPortID :: int
  rtPortInfo :: "byte list"

datatype net_message =
    WhoIsRouterToNetwork (wirtnNetwork: "int option")
  | IAmRouterToNetwork (iartnNetworkList: "int list")
  | ICouldBeRouterToNetwork (icbrtnNetwork: int) (icbrtnPerformanceIndex: int)
  | RejectMessageToNetwork (rmtnRejectionReason: int) (rmtnDNET: int)
  | RouterBusyToNetwork (rbtnNetworkList: "int list")
  | RouterAvailableToNetwork (ratnNetworkList: "int list")
  | InitializeRoutingTable (irtTable: "routing_table_entry list")
  | InitializeRoutingTableAck (irtaTable: "routing_table_entry list")
  | EstablishConnectionToNetwork (ectnDNET: int) (ectnTerminationTime: int)
  | DisconnectConnectionToNetwork (dctnDNET: int)
  | WhatIsNetworkNumber
  | NetworkNumberIs (nniNet: int) (nniFlag: int)

text \<open>\<^verbatim>\<open>pduType\<close> of the message class, the key of \<^verbatim>\<open>npdu_types\<close>.\<close>

primrec message_type :: "net_message \<Rightarrow> int" where
  "message_type (WhoIsRouterToNetwork n) = 0x00"
| "message_type (IAmRouterToNetwork ns) = 0x01"
| "message_type (ICouldBeRouterToNetwork n p) = 0x02"
| "message_type (RejectMessageToNetwork r n) = 0x03"
| "message_type (RouterBusyToNetwork ns) = 0x04"
| "message_type (RouterAvailableToNetwork ns) = 0x05"
| "message_type (InitializeRoutingTable t) = 0x06"
| "message_type (InitializeRoutingTableAck t) = 0x07"
| "message_type (EstablishConnectionToNetwork n t) = 0x08"
| "message_type (DisconnectConnectionToNetwork n) = 0x09"
| "message_type WhatIsNetworkNumber = 0x12"
| "message_type (NetworkNumberIs n f) = 0x13"

subsection \<open>Loops over network numbers and routing table entries\<close>

definition put_shorts :: "int list \<Rightarrow> byte list \<Rightarrow> byte list" where
  "put_shorts ns s = foldl (\<lambda>s n. pdu_put_short n s) s ns"

function get_shorts :: "byte list \<Rightarrow> int list result" where
  "get_shorts s =
     (if s = [] then Inr []
      else bindR (pdu_get_short s) (\<lambda>(n, s). bindR (get_shorts s) (\<lambda>ns. Inr (n # ns))))"
  by auto
termination
  by (relation "measure length") (auto dest: pdu_get_short_length)

declare get_shorts.simps [simp del]

lemma put_shorts_append: "put_shorts ns s = s @ put_shorts ns []"
proof (induction ns arbitrary: s)
  case (Cons n ns)
  show ?case
    using Cons [of "pdu_put_short n s"] Cons [of "pdu_put_short n []"]
    by (simp add: put_shorts_def pdu_put_short_def)
qed (simp add: put_shorts_def)

interpretation shorts: stream_codec "\<lambda>n. Inr (pdu_put_short n [])" pdu_get_short
  "\<lambda>n. 0 \<le> n \<and> n < 65536" "\<lambda>ns. Inr (put_shorts ns [])" get_shorts
proof unfold_locales
  show "Inr (put_shorts (n # ns) []) = bindR (Inr (pdu_put_short n []))
      (\<lambda>bs. bindR (Inr (put_shorts ns [])) (\<lambda>cs. Inr (bs @ cs)))" for n ns
    using put_shorts_append [of ns "pdu_put_short n []"] by (simp add: put_shorts_def)
qed (auto simp: codec_simps put_shorts_def get_shorts.simps)

lemma get_put_shorts: "\<forall>n\<in>set ns. 0 \<le> n \<and> n < 65536 \<Longrightarrow> get_shorts (put_shorts ns []) = Inr ns"
  using shorts.stream_roundtrip [of ns] by simp

definition put_rte :: "routing_table_entry \<Rightarrow> byte list \<Rightarrow> byte list result" where
  "put_rte rte s =
     bindR (pdu_put (rtPortID rte) (pdu_put_short (rtDNET rte) s)) (\<lambda>s.
     bindR (pdu_put (int (length (rtPortInfo rte))) s) (\<lambda>s.
     Inr (pdu_put_data (rtPortInfo rte) s)))"

primrec put_rtes :: "routing_table_entry list \<Rightarrow> byte list \<Rightarrow> byte list result" where
  "put_rtes [] s = Inr s"
| "put_rtes (rte # rtes) s = bindR (put_rte rte s) (put_rtes rtes)"

definition get_rte :: "routing_table_entry reader" where
  "get_rte s =
     bindR (pdu_get_short s) (\<lambda>(dnet, s).
     bindR (pdu_get s) (\<lambda>(port_id, s).
     bindR (pdu_get s) (\<lambda>(port_info_len, s).
     bindR (pdu_get_data port_info_len s) (\<lambda>(port_info, s).
     Inr (\<lparr>rtDNET = dnet, rtPortID = port_id, rtPortInfo = port_info\<rparr>, s)))))"

primrec get_rtes :: "nat \<Rightarrow> routing_table_entry list reader" where
  "get_rtes 0 s = Inr ([], s)"
| "get_rtes (Suc k) s =
     bindR (get_rte s) (\<lambda>(rte, s). bindR (get_rtes k s) (\<lambda>(rtes, s). Inr (rte # rtes, s)))"

definition wf_rte :: "routing_table_entry \<Rightarrow> bool" where
  "wf_rte rte \<longleftrightarrow> 0 \<le> rtDNET rte \<and> rtDNET rte < 65536 \<and> 0 \<le> rtPortID rte \<and> rtPortID rte < 256 \<and>
     length (rtPortInfo rte) < 256"

lemma put_rte_append: "put_rte rte s = bindR (put_rte rte []) (\<lambda>bs. Inr (s @ bs))"
  by (auto simp: put_rte_def pdu_put_def pdu_put_short_def pdu_put_data_def)

lemma put_rtes_append: "put_rtes rtes s = bindR (put_rtes rtes []) (\<lambda>bs. Inr (s @ bs))"
proof (induction rtes arbitrary: s)
  case (Cons r rtes)
  show ?case
  proof (cases "put_rte r []")
    case (Inr bs)
    then show ?thesis
      using Cons [of "s @ bs"] Cons [of bs] put_rte_append [of r s]
      by (auto simp: bindR_assoc)
  qed (use put_rte_append [of r s] in simp)
qed simp

interpretation rtes: counted_codec "\<lambda>rte. put_rte rte []" get_rte wf_rte
  "\<lambda>rtes. put_rtes rtes []" get_rtes
proof unfold_locales
  show "put_rtes (r # rs) [] = bindR (put_rte r []) (\<lambda>bs. bindR (put_rtes rs []) (\<lambda>cs. Inr (bs @ cs)))" for r rs
  proof (cases "put_rte r []")
    case (Inr bs)
    then show ?thesis using put_rtes_append [of rs bs] by simp
  qed simp
  show "get_rte (bs @ s) = Inr (r, s)" if "wf_rte r" "put_rte r [] = Inr bs" for r bs s
    using that by (cases r) (auto simp: wf_rte_def put_rte_def get_rte_def codec_simps pdu_put_data_def)
qed (auto simp: wf_rte_def put_rte_def codec_simps pdu_put_data_def pdu_put_def)
subsection \<open>Encoding and decoding each message\<close>

text \<open>
  The encoders extend the octets of the header, the decoders read \<^verbatim>\<open>pdu.pduData\<close> after
  the header; octets a decoder leaves are dropped by its caller.
\<close>

definition who_is_router_encode :: "int option \<Rightarrow> byte list \<Rightarrow> byte list result" where
  "who_is_router_encode net s = (case net of None \<Rightarrow> Inr s | Some n \<Rightarrow> Inr (pdu_put_short n s))"

definition who_is_router_decode :: "byte list \<Rightarrow> net_message result" where
  "who_is_router_decode s =
     (if s \<noteq> [] then bindR (pdu_get_short s) (\<lambda>(n, s). Inr (WhoIsRouterToNetwork (Some n)))
      else Inr (WhoIsRouterToNetwork None))"

definition i_am_router_encode :: "int list \<Rightarrow> byte list \<Rightarrow> byte list result" where
  "i_am_router_encode nets s = Inr (put_shorts nets s)"

definition i_am_router_decode :: "byte list \<Rightarrow> net_message result" where
  "i_am_router_decode s = bindR (get_shorts s) (\<lambda>nets. Inr (IAmRouterToNetwork nets))"

definition i_could_be_router_encode :: "int \<Rightarrow> int \<Rightarrow> byte list \<Rightarrow> byte list result" where
  "i_could_be_router_encode net idx s = pdu_put idx (pdu_put_short net s)"

definition i_could_be_router_decode :: "byte list \<Rightarrow> net_message result" where
  "i_could_be_router_decode s =
     bindR (pdu_get_short s) (\<lambda>(net, s). bindR (pdu_get s) (\<lambda>(idx, s).
     Inr (ICouldBeRouterToNetwork net idx)))"

definition reject_message_encode :: "int \<Rightarrow> int \<Rightarrow> byte list \<Rightarrow> byte list result" where
  "reject_message_encode reason dnet s = bindR (pdu_put reason s) (\<lambda>s. Inr (pdu_put_short dnet s))"

definition reject_message_decode :: "byte list \<Rightarrow> net_message result" where
  "reject_message_decode s =
     bindR (pdu_get s) (\<lambda>(reason, s). bindR (pdu_get_short s) (\<lambda>(dnet, s).
     Inr (RejectMessageToNetwork reason dnet)))"

definition router_busy_encode :: "int list \<Rightarrow> byte list \<Rightarrow> byte list result" where
  "router_busy_encode nets s = Inr (put_shorts nets s)"

definition router_busy_decode :: "byte list \<Rightarrow> net_message result" where
  "router_busy_decode s = bindR (get_shorts s) (\<lambda>nets. Inr (RouterBusyToNetwork nets))"

definition router_available_encode :: "int list \<Rightarrow> byte list \<Rightarrow> byte list result" where
  "router_available_encode nets s = Inr (put_shorts nets s)"

definition router_available_decode :: "byte list \<Rightarrow> net_message result" where
  "router_available_decode s = bindR (get_shorts s) (\<lambda>nets. Inr (RouterAvailableToNetwork nets))"

definition initialize_routing_table_encode ::
  "routing_table_entry list \<Rightarrow> byte list \<Rightarrow> byte list result" where
  "initialize_routing_table_encode table s =
     bindR (pdu_put (int (length table)) s) (put_rtes table)"

definition initialize_routing_table_decode :: "byte list \<Rightarrow> net_message result" where
  "initialize_routing_table_decode s =
     bindR (pdu_get s) (\<lambda>(rtLength, s). bindR (get_rtes (nat rtLength) s) (\<lambda>(table, s).
     Inr (InitializeRoutingTable table)))"

definition initialize_routing_table_ack_encode ::
  "routing_table_entry list \<Rightarrow> byte list \<Rightarrow> byte list result" where
  "initialize_routing_table_ack_encode table s =
     bindR (pdu_put (int (length table)) s) (put_rtes table)"

definition initialize_routing_table_ack_decode :: "byte list \<Rightarrow> net_message result" where
  "initialize_routing_table_ack_decode s =
     bindR (pdu_get s) (\<lambda>(rtLength, s). bindR (get_rtes (nat rtLength) s) (\<lambda>(table, s).
     Inr (InitializeRoutingTableAck table)))"

definition establish_connection_encode :: "int \<Rightarrow> int \<Rightarrow> byte list \<Rightarrow> byte list result" where
  "establish_connection_encode dnet time s = pdu_put time (pdu_put_short dnet s)"

definition establish_connection_decode :: "byte list \<Rightarrow> net_message result" where
  "establish_connection_decode s =
     bindR (pdu_get_short s) (\<lambda>(dnet, s). bindR (pdu_get s) (\<lambda>(time, s).
     Inr (EstablishConnectionToNetwork dnet time)))"

definition disconnect_connection_encode :: "int \<Rightarrow> byte list \<Rightarrow> byte list result" where
  "disconnect_connection_encode dnet s = Inr (pdu_put_short dnet s)"

definition disconnect_connection_decode :: "byte list \<Rightarrow> net_message result" where
  "disconnect_connection_decode s =
     bindR (pdu_get_short s) (\<lambda>(dnet, s). Inr (DisconnectConnectionToNetwork dnet))"

definition what_is_network_number_encode :: "byte list \<Rightarrow> byte list result" where
  "what_is_network_number_encode s = Inr s"

definition what_is_network_number_decode :: "byte list \<Rightarrow> net_message result" where
  "what_is_network_number_decode s = Inr WhatIsNetworkNumber"

definition network_number_is_encode :: "int \<Rightarrow> int \<Rightarrow> byte list \<Rightarrow> byte list result" where
  "network_number_is_encode net flag s = pdu_put flag (pdu_put_short net s)"

definition network_number_is_decode :: "byte list \<Rightarrow> net_message result" where
  "network_number_is_decode s =
     bindR (pdu_get_short s) (\<lambda>(net, s). bindR (pdu_get s) (\<lambda>(flag, s).
     Inr (NetworkNumberIs net flag)))"

lemmas message_codec_defs =
  who_is_router_encode_def who_is_router_decode_def i_am_router_encode_def i_am_router_decode_def
  i_could_be_router_encode_def i_could_be_router_decode_def reject_message_encode_def
  reject_message_decode_def router_busy_encode_def router_busy_decode_def
  router_available_encode_def router_available_decode_def initialize_routing_table_encode_def
  initialize_routing_table_decode_def initialize_routing_table_ack_encode_def
  initialize_routing_table_ack_decode_def establish_connection_encode_def
  establish_connection_decode_def disconnect_connection_encode_def
  disconnect_connection_decode_def what_is_network_number_encode_def
  what_is_network_number_decode_def network_number_is_encode_def network_number_is_decode_def

text \<open>The method the class of a message selects, and the class \<^verbatim>\<open>npdu_types\<close> selects.\<close>

definition message_encode :: "net_message \<Rightarrow> byte list \<Rightarrow> byte list result" where
  "message_encode m s = (case m of
     WhoIsRouterToNetwork net \<Rightarrow> who_is_router_encode net s
   | IAmRouterToNetwork nets \<Rightarrow> i_am_router_encode nets s
   | ICouldBeRouterToNetwork net idx \<Rightarrow> i_could_be_router_encode net idx s
   | RejectMessageToNetwork reason dnet \<Rightarrow> reject_message_encode reason dnet s
   | RouterBusyToNetwork nets \<Rightarrow> router_busy_encode nets s
   | RouterAvailableToNetwork nets \<Rightarrow> router_available_encode nets s
   | InitializeRoutingTable table \<Rightarrow> initialize_routing_table_encode table s
   | InitializeRoutingTableAck table \<Rightarrow> initialize_routing_table_ack_encode table s
   | EstablishConnectionToNetwork dnet time \<Rightarrow> establish_connection_encode dnet time s
   | DisconnectConnectionToNetwork dnet \<Rightarrow> disconnect_connection_encode dnet s
   | WhatIsNetworkNumber \<Rightarrow> what_is_network_number_encode s
   | NetworkNumberIs net flag \<Rightarrow> network_number_is_encode net flag s)"

definition message_decode :: "int \<Rightarrow> byte list \<Rightarrow> net_message result" where
  "message_decode t s =
     (if t = 0x00 then who_is_router_decode s
      else if t = 0x01 then i_am_router_decode s
      else if t = 0x02 then i_could_be_router_decode s
      else if t = 0x03 then reject_message_decode s
      else if t = 0x04 then router_busy_decode s
      else if t = 0x05 then router_available_decode s
      else if t = 0x06 then initialize_routing_table_decode s
      else if t = 0x07 then initialize_routing_table_ack_decode s
      else if t = 0x08 then establish_connection_decode s
      else if t = 0x09 then disconnect_connection_decode s
      else if t = 0x12 then what_is_network_number_decode s
      else if t = 0x13 then network_number_is_decode s
      else Inl RuntimeError)"

abbreviation short_ok :: "int \<Rightarrow> bool" where "short_ok n \<equiv> 0 \<le> n \<and> n < 65536"
abbreviation octet_ok :: "int \<Rightarrow> bool" where "octet_ok n \<equiv> 0 \<le> n \<and> n < 256"

primrec wf_message :: "net_message \<Rightarrow> bool" where
  "wf_message (WhoIsRouterToNetwork n) = pred_option (\<lambda>n. 0 \<le> n \<and> n < 65536) n"
| "wf_message (IAmRouterToNetwork ns) = (\<forall>n\<in>set ns. short_ok n)"
| "wf_message (ICouldBeRouterToNetwork n p) = (short_ok n \<and> octet_ok p)"
| "wf_message (RejectMessageToNetwork r n) = (short_ok n \<and> octet_ok r)"
| "wf_message (RouterBusyToNetwork ns) = (\<forall>n\<in>set ns. short_ok n)"
| "wf_message (RouterAvailableToNetwork ns) = (\<forall>n\<in>set ns. short_ok n)"
| "wf_message (InitializeRoutingTable t) = (length t < 256 \<and> (\<forall>r\<in>set t. wf_rte r))"
| "wf_message (InitializeRoutingTableAck t) = (length t < 256 \<and> (\<forall>r\<in>set t. wf_rte r))"
| "wf_message (EstablishConnectionToNetwork n t) = (short_ok n \<and> octet_ok t)"
| "wf_message (DisconnectConnectionToNetwork n) = short_ok n"
| "wf_message WhatIsNetworkNumber = True"
| "wf_message (NetworkNumberIs n f) = (short_ok n \<and> octet_ok f)"

lemma table_codec:
  assumes "length t < 256" "\<forall>r\<in>set t. wf_rte r"
  shows "\<exists>bs. bindR (pdu_put (int (length t)) s) (put_rtes t) = Inr (s @ word_of_nat (length t) # bs) \<and>
    get_rtes (length t) bs = Inr (t, [])"
proof -
  obtain bs where bs: "put_rtes t [] = Inr bs" "get_rtes (length t) (bs @ []) = Inr (t, [])"
    using rtes.counted_roundtrip [OF assms(2), of "[]"] by auto
  moreover have "put_rtes t (s @ [word_of_nat (length t)]) = Inr (s @ word_of_nat (length t) # bs)"
    using put_rtes_append [of t "s @ [word_of_nat (length t)]"] bs by simp
  ultimately show ?thesis using assms(1) by (auto simp: codec_simps)
qed

lemma message_encode_append:
  assumes "wf_message m"
  shows "\<exists>bs. message_encode m s = Inr (s @ bs) \<and> message_decode (message_type m) bs = Inr m"
proof (cases m)
  case (WhoIsRouterToNetwork n)
  then show ?thesis using assms pdu_get_short_append [of "the n" "[]"]
    by (cases n) (auto simp: message_encode_def message_decode_def message_codec_defs codec_simps)
next
  case (IAmRouterToNetwork ns)
  then show ?thesis using assms put_shorts_append [of ns s] get_put_shorts [of ns]
    by (auto simp: message_encode_def message_decode_def message_codec_defs)
next
  case (RouterBusyToNetwork ns)
  then show ?thesis using assms put_shorts_append [of ns s] get_put_shorts [of ns]
    by (auto simp: message_encode_def message_decode_def message_codec_defs)
next
  case (RouterAvailableToNetwork ns)
  then show ?thesis using assms put_shorts_append [of ns s] get_put_shorts [of ns]
    by (auto simp: message_encode_def message_decode_def message_codec_defs)
next
  case (InitializeRoutingTable t)
  then obtain bs where "bindR (pdu_put (int (length t)) s) (put_rtes t) = Inr (s @ word_of_nat (length t) # bs)"
    "get_rtes (length t) bs = Inr (t, [])" using assms table_codec [of t s] by auto
  then show ?thesis using InitializeRoutingTable assms
    by (auto simp: message_encode_def message_decode_def message_codec_defs)
next
  case (InitializeRoutingTableAck t)
  then obtain bs where "bindR (pdu_put (int (length t)) s) (put_rtes t) = Inr (s @ word_of_nat (length t) # bs)"
    "get_rtes (length t) bs = Inr (t, [])" using assms table_codec [of t s] by auto
  then show ?thesis using InitializeRoutingTableAck assms
    by (auto simp: message_encode_def message_decode_def message_codec_defs)
next
  case (DisconnectConnectionToNetwork n)
  then show ?thesis using assms pdu_get_short_append [of n "[]"]
    by (auto simp: message_encode_def message_decode_def message_codec_defs codec_simps)
next
  case (RejectMessageToNetwork r n)
  then show ?thesis using assms pdu_get_short_append [of n "[]"]
    by (auto simp: message_encode_def message_decode_def message_codec_defs codec_simps)
qed (use assms in \<open>auto simp: message_encode_def message_decode_def message_codec_defs codec_simps\<close>)
section \<open>NPDU\<close>

text \<open>
  A plain \<^verbatim>\<open>NPDU\<close> has \<open>npduMessage = None\<close> and its octets in \<open>npduData\<close> (the attribute
  \<^verbatim>\<open>pduData\<close>); an instance of a message class has the fields of the message and no octets.
\<close>

record npdu = npci +
  npduData :: "byte list"
  npduMessage :: "net_message option"

definition init_npdu :: "byte list \<Rightarrow> npdu" where
  "init_npdu d = npci.extend init_npci \<lparr>npduData = d, npduMessage = None\<rparr>"

text \<open>The constructors of the message classes set the message type.\<close>

definition message_npdu :: "net_message \<Rightarrow> npdu" where
  "message_npdu m = (init_npdu [])\<lparr>npduNetMessage := Some (message_type m), npduMessage := Some m\<rparr>"

text \<open>\<^verbatim>\<open>NPCI.update\<close> copies every field, the two that may be missing only when they are set.\<close>

definition npci_update :: "'a npci_scheme \<Rightarrow> 'b npci_scheme \<Rightarrow> 'a npci_scheme" where
  "npci_update self n = (pci_update self n)
     \<lparr>npduVersion := npduVersion n, npduControl := npduControl n, npduDADR := npduDADR n,
      npduSADR := npduSADR n,
      npduHopCount := (case npduHopCount n of None \<Rightarrow> npduHopCount self | Some h \<Rightarrow> Some h),
      npduNetMessage := npduNetMessage n,
      npduVendorID := (case npduVendorID n of None \<Rightarrow> npduVendorID self | Some v \<Rightarrow> Some v)\<rparr>"

text \<open>The \<^verbatim>\<open>PDU\<close> around encoded octets: a new one with the \<^verbatim>\<open>PCI\<close> fields copied.\<close>

definition pdu_of :: "'a pci_scheme \<Rightarrow> byte list \<Rightarrow> pdu" where
  "pdu_of p d = pci_update (init_pdu d) p"

definition npdu_encode :: "npdu \<Rightarrow> pdu result" where
  "npdu_encode n =
     bindR (npci_encode n) (\<lambda>s.
     case npduMessage n of
       None \<Rightarrow> Inr (pdu_of n (pdu_put_data (npduData n) s))
     | Some m \<Rightarrow> bindR (message_encode m s) (\<lambda>s. Inr (pdu_of n s)))"

definition npdu_decode :: "pdu \<Rightarrow> npdu result" where
  "npdu_decode p =
     bindR (npci_decode p (pduData p)) (\<lambda>(n, s). Inr (npci_update (init_npdu s) n))"

text \<open>\<^verbatim>\<open>NetworkAdapter.confirmation\<close>: what is passed to the service access point.\<close>

definition adapter_confirmation :: "pdu \<Rightarrow> npdu result" where
  "adapter_confirmation p =
     bindR (npdu_decode p) (\<lambda>n.
     case npduNetMessage n of
       None \<Rightarrow> Inr n
     | Some t \<Rightarrow> bindR (message_decode t (npduData n)) (\<lambda>m. Inr (npci_update (message_npdu m) n)))"

text \<open>\<^verbatim>\<open>NetworkCodec.confirmation\<close>: what is sent upstream.\<close>

definition codec_confirmation :: "pdu \<Rightarrow> npdu result" where
  "codec_confirmation p =
     bindR (npdu_decode p) (\<lambda>n.
     case npduNetMessage n of
       None \<Rightarrow> Inr n
     | Some t \<Rightarrow>
         if t \<noteq> 0 then bindR (message_decode t (npduData n)) (\<lambda>m. Inr (message_npdu m))
         else Inr n)"

definition wf_npdu :: "npdu \<Rightarrow> bool" where
  "wf_npdu n \<longleftrightarrow> wf_npci n \<and>
     (case npduMessage n of
        None \<Rightarrow> npduNetMessage n = None
      | Some m \<Rightarrow> npduNetMessage n = Some (message_type m) \<and> wf_message m \<and> npduData n = [])"

lemma npdu_decode_octets:
  assumes "wf_npci n" "npci_encode n = Inr bs"
  shows "npdu_decode (pdu_of n (bs @ s)) = Inr ((npci_update (init_npdu s) n)
    \<lparr>npduControl := Some (npci_control n)\<rparr>)"
  using assms
  by (simp add: npdu_decode_def npci_decode_encode pdu_of_def init_pdu_def pci.defs npci_update_def
      init_npci_def init_npdu_def init_pci_def npci.defs pci_update_def wf_npci_def
      split: option.splits)

text \<open>
  Property C33. Every network layer PDU with a well-formed header, plain or one of the twelve
  message classes, is encoded without an error, and the network adapter that receives the
  octets rebuilds it exactly (with the control octet that was sent): destination and source
  address, hop count, priority, reply flag and every field of the message.
\<close>
theorem npdu_roundtrip:
  assumes "wf_npdu n"
  shows "\<exists>p. npdu_encode n = Inr p \<and>
    adapter_confirmation p = Inr (n\<lparr>npduControl := Some (npci_control n)\<rparr>)"
proof -
  have w: "wf_npci n" using assms by (simp add: wf_npdu_def)
  obtain bs where bs: "npci_encode n = Inr bs" using npci_encode_octets [OF w] by blast
  note dec = npdu_decode_octets [OF w bs]
  show ?thesis
  proof (cases "npduMessage n")
    case None
    then show ?thesis
      using assms bs dec [of "npduData n"]
      by (auto simp: wf_npdu_def npdu_encode_def adapter_confirmation_def pdu_put_data_def
          npci_update_def pci_update_def init_npdu_def init_npci_def init_pci_def npci.defs pci.defs
          split: option.splits)
  next
    case (Some m)
    with assms obtain cs where cs: "message_encode m bs = Inr (bs @ cs)"
      "message_decode (message_type m) cs = Inr m"
      using message_encode_append [of m bs] by (auto simp: wf_npdu_def)
    then show ?thesis
      using assms bs dec [of cs] Some
      by (auto simp: wf_npdu_def npdu_encode_def adapter_confirmation_def npci_update_def
          pci_update_def init_npdu_def init_npci_def init_pci_def npci.defs pci.defs message_npdu_def
          split: option.splits)
  qed
qed

definition example_npdu :: npdu where
  "example_npdu = (message_npdu (RejectMessageToNetwork 1 20))
     \<lparr>npduDADR := Some (Address RemoteStationAddr (Some 10) (Some [1, 2]) None),
      npduSADR := Some (Address RemoteStationAddr (Some 20) (Some [3]) None),
      npduHopCount := Some 254, pduNetworkPriority := 2\<rparr>"

lemma example_npdu_wf: "wf_npdu example_npdu"
  by (simp add: example_npdu_def wf_npdu_def wf_npci_def message_npdu_def init_npdu_def npci.defs
      init_npci_def init_pci_def pci.defs wf_station_def wf_dadr_def)

lemma npdu_roundtrip_witness:
  "\<exists>p. npdu_encode example_npdu = Inr p \<and>
    adapter_confirmation p = Inr (example_npdu\<lparr>npduControl := Some (npci_control example_npdu)\<rparr>)"
  by (rule npdu_roundtrip [OF example_npdu_wf])

text \<open>
  The stack used for analysing packets, \<^verbatim>\<open>NetworkCodec\<close>, loses information the
  adapter keeps: a Who-Is-Router-To-Network message, whose type is 0, is passed up as a plain
  NPDU with its octets undecoded, and of every other message only the fields of the message
  arrive, with a blank header (no source, addresses or priority).
\<close>
theorem codec_confirmation_loses:
  assumes "wf_npdu n" "npduMessage n = Some m" "npdu_encode n = Inr p"
  shows "(message_type m = 0 \<longrightarrow> (\<exists>x. codec_confirmation p = Inr x \<and> npduMessage x = None)) \<and>
    (message_type m \<noteq> 0 \<longrightarrow> codec_confirmation p = Inr (message_npdu m))"
proof -
  have w: "wf_npci n" using assms by (simp add: wf_npdu_def)
  obtain bs where bs: "npci_encode n = Inr bs" using npci_encode_octets [OF w] by blast
  obtain cs where cs: "message_encode m bs = Inr (bs @ cs)"
      "message_decode (message_type m) cs = Inr m"
    using assms message_encode_append [of m bs] by (auto simp: wf_npdu_def)
  show ?thesis
    using assms bs npdu_decode_octets [OF w bs, of cs] cs
    by (auto simp: wf_npdu_def npdu_encode_def codec_confirmation_def npci_update_def
        pci_update_def init_npdu_def init_npci_def init_pci_def npci.defs pci.defs message_npdu_def
        split: option.splits)
qed

lemma codec_confirmation_loses_witness:
  "\<exists>p. npdu_encode example_npdu = Inr p \<and>
    codec_confirmation p = Inr (message_npdu (RejectMessageToNetwork 1 20))"
proof -
  have m: "npduMessage example_npdu = Some (RejectMessageToNetwork 1 20)"
    by (simp add: example_npdu_def message_npdu_def)
  obtain bs where bs: "npci_encode example_npdu = Inr bs"
    using example_npdu_wf npci_encode_octets by (auto simp: wf_npdu_def)
  moreover obtain cs where "message_encode (RejectMessageToNetwork 1 20) bs = Inr cs"
    using message_encode_append [of "RejectMessageToNetwork 1 20" bs] by auto
  ultimately obtain p where p: "npdu_encode example_npdu = Inr p"
    using m by (auto simp: npdu_encode_def)
  then show ?thesis using codec_confirmation_loses [OF example_npdu_wf m p] by auto
qed
end
