(* ===== verification/NetElement.thy ===== *)
theory NetElement
  imports RouterCache Npdu Action
begin

text \<open>
  \<^verbatim>\<open>bacpypes3/netservice.py\<close>: the state of \<^verbatim>\<open>NetworkServiceAccessPoint\<close>, its adapters and its
  bindings, and \<^verbatim>\<open>NetworkServiceElement\<close>, which answers and sends the network layer messages.
  An adapter object is a number, its attributes are in \<open>adapter_of\<close>; \<open>adapters\<close> is the
  dictionary from network numbers to these objects, in the order of insertion. Handlers run to
  their end; what they schedule (\<^verbatim>\<open>create_task\<close>, callbacks of futures) is kept in \<open>tasks\<close> and
  run by steps of its own. What leaves the layer is recorded in \<open>net_out\<close>.
\<close>

section \<open>State\<close>

record adapter =
  adapterNet :: "int option"
  adapterAddr :: "address option"
  adapterNetConfigured :: int

text \<open>
  \<^verbatim>\<open>WhoIsRouterToNetworkFuture\<close> and \<^verbatim>\<open>InitializeRoutingTableFuture\<close>; \<open>fut_network\<close> is used by
  the first only. \<open>fut_done\<close>: \<^verbatim>\<open>set_result\<close> has been called.
\<close>

record router_future =
  fut_id :: nat
  fut_adapter :: "nat option"
  fut_router :: "address option"
  fut_network :: "int option"
  fut_results :: "(nat \<times> npdu) list"
  fut_done :: bool

datatype task =
    SendTask nat npdu
  | RenumberTask "int option" int
  | RouterDone nat
  | TableDone nat
  | NumberDone nat

datatype net_event = LinkRequest nat pdu | AppResponse pdu

record nsap =
  adapters :: "(int option \<times> nat) list"
  adapter_of :: "nat \<Rightarrow> adapter"
  next_adapter :: nat
  local_adapter :: "nat option"
  router_info_cache :: router_cache
  router_futures :: "router_future list"
  table_futures :: "router_future list"
  number_futures :: "(nat \<times> nat) list"
  number_results :: "nat \<Rightarrow> int option"
  next_future :: nat
  tasks :: "task list"
  net_out :: "net_event list"

text \<open>
  The surroundings: whether the link layer or the application raises, the setting
  \<^verbatim>\<open>route_aware\<close>, the bindings, and the order of Python sets.
\<close>

record net_env =
  link_raises :: "nat \<Rightarrow> pdu \<Rightarrow> py_error option"
  app_raises :: "pdu \<Rightarrow> py_error option"
  route_aware :: bool
  has_element :: bool
  has_server_peer :: bool
  set_order :: "int set \<Rightarrow> int list"

type_synonym 'a net_act = "(nsap, 'a) action"

definition UNKNOWN :: int where "UNKNOWN = 0"
definition LEARNED :: int where "LEARNED = 1"
definition CONFIGURED :: int where "CONFIGURED = 3"

definition net_emit :: "net_event \<Rightarrow> unit net_act" where
  "net_emit e = modS (\<lambda>s. s\<lparr>net_out := net_out s @ [e]\<rparr>)"

definition create_task :: "task \<Rightarrow> unit net_act" where
  "create_task t = modS (\<lambda>s. s\<lparr>tasks := tasks s @ [t]\<rparr>)"

definition adapter_list :: "nsap \<Rightarrow> nat list" where
  "adapter_list s = map snd (adapters s)"

definition other_adapters :: "nsap \<Rightarrow> nat \<Rightarrow> nat list" where
  "other_adapters s i = filter (\<lambda>j. j \<noteq> i) (adapter_list s)"

definition net_of :: "nsap \<Rightarrow> nat \<Rightarrow> int option" where
  "net_of s i = adapterNet (adapter_of s i)"

section \<open>Adapters\<close>

definition new_adapter :: "int option \<Rightarrow> address option \<Rightarrow> adapter" where
  "new_adapter net addr = \<lparr>adapterNet = net, adapterAddr = addr,
     adapterNetConfigured = (if net = None then UNKNOWN else CONFIGURED)\<rparr>"

definition new_nsap :: nsap where
  "new_nsap = \<lparr>adapters = [], adapter_of = (\<lambda>_. new_adapter None None), next_adapter = 0,
     local_adapter = None, router_info_cache = empty_cache, router_futures = [], table_futures = [],
     number_futures = [], number_results = (\<lambda>_. None), next_future = 0, tasks = [], net_out = []\<rparr>"

definition nsap_bind :: "int option \<Rightarrow> address option \<Rightarrow> unit net_act" where
  "nsap_bind net address = withS (\<lambda>s.
     if map_of (adapters s) net \<noteq> None then raiseS RuntimeError
     else
       let i = next_adapter s in seqS
         [modS (\<lambda>s. s\<lparr>next_adapter := i + 1, adapter_of := (adapter_of s)(i := new_adapter net address),
            adapters := AList.update net i (adapters s)\<rparr>),
          if address \<noteq> None \<and> local_adapter s = None then modS (\<lambda>s. s\<lparr>local_adapter := Some i\<rparr>) else retS (),
          withS (\<lambda>s. if local_adapter s = None then modS (\<lambda>s. s\<lparr>local_adapter := Some i\<rparr>) else retS ())])"

text \<open>\<^verbatim>\<open>NetworkAdapter.process_npdu\<close>, and the calls of the element that end there.\<close>

definition adapter_process_npdu :: "net_env \<Rightarrow> nat \<Rightarrow> npdu \<Rightarrow> unit net_act" where
  "adapter_process_npdu env i n =
     bindS (liftS (npdu_encode n)) (\<lambda>p.
     case link_raises env i p of Some e \<Rightarrow> raiseS e | None \<Rightarrow> net_emit (LinkRequest i p))"

definition sap_indication :: "net_env \<Rightarrow> nat \<Rightarrow> npdu \<Rightarrow> unit net_act" where
  "sap_indication env i n = adapter_process_npdu env i n"

definition sap_confirmation :: "net_env \<Rightarrow> nat \<Rightarrow> npdu \<Rightarrow> unit net_act" where
  "sap_confirmation env i n = adapter_process_npdu env i n"

definition lift_cache :: "(router_cache \<Rightarrow> router_cache result) \<Rightarrow> unit net_act" where
  "lift_cache f = withS (\<lambda>s. bindS (liftS (f (router_info_cache s)))
     (\<lambda>c. modS (\<lambda>s. s\<lparr>router_info_cache := c\<rparr>)))"

text \<open>Formatting \<^verbatim>\<open>None\<close> with \<^verbatim>\<open>%d\<close> is a \<^verbatim>\<open>TypeError\<close> in place of the intended error.\<close>

definition update_router_references :: "net_env \<Rightarrow> int option \<Rightarrow> address \<Rightarrow> int list \<Rightarrow> unit net_act" where
  "update_router_references env snet address dnets = withS (\<lambda>s.
     if map_of (adapters s) snet = None
     then raiseS (if snet = None then TypeError else RuntimeError)
     else lift_cache (update_path_info (set_order env) snet address (set dnets)))"

text \<open>\<^verbatim>\<open>RouterInfoCache\<close> has no method \<^verbatim>\<open>delete_router_info\<close>.\<close>

definition delete_router_references :: "int option \<Rightarrow> unit net_act" where
  "delete_router_references snet = withS (\<lambda>s.
     if map_of (adapters s) snet = None
     then raiseS (if snet = None then TypeError else RuntimeError)
     else raiseS AttributeError)"

text \<open>The first adapter with a known router to the network.\<close>

fun find_path :: "(int option \<times> nat) list \<Rightarrow> int \<Rightarrow> router_cache \<Rightarrow> (nat \<times> address) option" where
  "find_path [] dnet c = None"
| "find_path ((snet, i) # ads) dnet c =
     (case get_path_info snet dnet c of
        Some (router, _) \<Rightarrow> Some (i, router)
      | None \<Rightarrow> find_path ads dnet c)"

section \<open>Futures\<close>

text \<open>
  \<^verbatim>\<open>match\<close> of both future classes. When the message came through a router its source is the
  \<^verbatim>\<open>npduSADR\<close>, whose \<^verbatim>\<open>addrRoute\<close> is set; the message object keeps that change. \<open>by_network\<close>
  is the network a \<^verbatim>\<open>WhoIsRouterToNetworkFuture\<close> waits for, with the networks of the message.
\<close>

definition set_route :: "address \<Rightarrow> address option \<Rightarrow> address" where
  "set_route a r = Address (addrType a) (addrNet a) (addrAddr a) r"

definition routed_source :: "npdu \<Rightarrow> address option \<times> npdu" where
  "routed_source n =
     (case npduSADR n of
        Some a \<Rightarrow> let a = set_route a (pduSource n) in (Some a, n\<lparr>npduSADR := Some a\<rparr>)
      | None \<Rightarrow> (pduSource n, n))"

text \<open>
  The result of the future is the list the object keeps, so a message appended after
  \<^verbatim>\<open>set_result\<close> has been called is part of the result although the second call raises.
\<close>

definition set_result :: "(nat \<times> npdu) list \<Rightarrow> router_future \<Rightarrow> py_error option \<times> router_future" where
  "set_result rs f = (if fut_done f then Some InvalidStateError else None, f\<lparr>fut_results := rs, fut_done := True\<rparr>)"

definition match_source ::
  "nat \<Rightarrow> npdu \<Rightarrow> address option \<Rightarrow> router_future \<Rightarrow> py_error option \<times> router_future" where
  "match_source i n source f =
     (let rs = fut_results f @ [(i, n)] in
      case fut_router f of
        None \<Rightarrow> (None, f\<lparr>fut_results := rs\<rparr>)
      | Some router \<Rightarrow>
          (case source of
             None \<Rightarrow> (Some AttributeError, f)
           | Some a \<Rightarrow>
               if \<not> address_match a router then (None, f)
               else if addrType router \<in> {LocalStationAddr, RemoteStationAddr} then set_result rs f
               else (None, f\<lparr>fut_results := rs\<rparr>)))"

definition router_match :: "nat \<Rightarrow> int list \<Rightarrow> npdu \<Rightarrow> router_future \<Rightarrow> npdu \<times> py_error option \<times> router_future" where
  "router_match i nets n f =
     (if fut_adapter f \<noteq> None \<and> fut_adapter f \<noteq> Some i then (n, None, f)
      else
        let (source, n) = routed_source n in
        (n, case fut_network f of
              Some net \<Rightarrow> if net \<in> set nets then set_result (fut_results f @ [(i, n)]) f else (None, f)
            | None \<Rightarrow> match_source i n source f))"

definition table_match :: "nat \<Rightarrow> npdu \<Rightarrow> router_future \<Rightarrow> npdu \<times> py_error option \<times> router_future" where
  "table_match i n f =
     (if fut_adapter f \<noteq> None \<and> fut_adapter f \<noteq> Some i then (n, None, f)
      else let (source, n) = routed_source n in (n, match_source i n source f))"

text \<open>The loop over the pending futures; an exception ends it.\<close>

fun match_all ::
  "(npdu \<Rightarrow> router_future \<Rightarrow> npdu \<times> py_error option \<times> router_future) \<Rightarrow> npdu \<Rightarrow> router_future list
     \<Rightarrow> py_error option \<times> router_future list" where
  "match_all m n [] = (None, [])"
| "match_all m n (f # fs) =
     (case m n f of
        (_, Some e, f') \<Rightarrow> (Some e, f' # fs)
      | (n', None, f') \<Rightarrow> (let (e, fs') = match_all m n' fs in (e, f' # fs')))"

text \<open>The futures the loop has completed; their callbacks are scheduled in this order.\<close>

definition newly_done :: "router_future list \<Rightarrow> router_future list \<Rightarrow> nat list" where
  "newly_done fs fs' = map (fut_id \<circ> snd) (filter (\<lambda>(f, f'). fut_done f' \<and> \<not> fut_done f) (zip fs fs'))"

definition match_router_futures :: "nat \<Rightarrow> int list \<Rightarrow> npdu \<Rightarrow> unit net_act" where
  "match_router_futures i nets n = withS (\<lambda>s.
     let (e, fs) = match_all (router_match i nets) n (router_futures s) in seqS
       [modS (\<lambda>s. s\<lparr>router_futures := fs, tasks := tasks s @ map RouterDone (newly_done (router_futures s) fs)\<rparr>),
        case e of Some e \<Rightarrow> raiseS e | None \<Rightarrow> retS ()])"

definition match_table_futures :: "nat \<Rightarrow> npdu \<Rightarrow> unit net_act" where
  "match_table_futures i n = withS (\<lambda>s.
     let (e, fs) = match_all (table_match i) n (table_futures s) in seqS
       [modS (\<lambda>s. s\<lparr>table_futures := fs, tasks := tasks s @ map TableDone (newly_done (table_futures s) fs)\<rparr>),
        case e of Some e \<Rightarrow> raiseS e | None \<Rightarrow> retS ()])"

text \<open>
  The timeout of a future that is still pending, and the callback of a completed one, which
  removes it. The callback cancels the timeout, but a timeout that comes between the completion
  and the callback calls \<^verbatim>\<open>set_result\<close> again.
\<close>

definition expire :: "router_future \<Rightarrow> py_error option \<times> router_future" where
  "expire f = set_result (fut_results f) f"

definition expire_in :: "nat \<Rightarrow> router_future list \<Rightarrow> py_error option \<times> router_future list" where
  "expire_in k fs = match_all (\<lambda>n f. (n, if fut_id f = k then expire f else (None, f))) (init_npdu []) fs"

definition router_timeout :: "nat \<Rightarrow> unit net_act" where
  "router_timeout k = withS (\<lambda>s.
     let (e, fs) = expire_in k (router_futures s) in seqS
       [modS (\<lambda>s. s\<lparr>router_futures := fs, tasks := tasks s @ map RouterDone (newly_done (router_futures s) fs)\<rparr>),
        case e of Some e \<Rightarrow> raiseS e | None \<Rightarrow> retS ()])"

definition table_timeout :: "nat \<Rightarrow> unit net_act" where
  "table_timeout k = withS (\<lambda>s.
     let (e, fs) = expire_in k (table_futures s) in seqS
       [modS (\<lambda>s. s\<lparr>table_futures := fs, tasks := tasks s @ map TableDone (newly_done (table_futures s) fs)\<rparr>),
        case e of Some e \<Rightarrow> raiseS e | None \<Rightarrow> retS ()])"

definition router_done :: "nat \<Rightarrow> unit net_act" where
  "router_done k = modS (\<lambda>s. s\<lparr>router_futures := filter (\<lambda>f. fut_id f \<noteq> k) (router_futures s)\<rparr>)"

definition table_done :: "nat \<Rightarrow> unit net_act" where
  "table_done k = modS (\<lambda>s. s\<lparr>table_futures := filter (\<lambda>f. fut_id f \<noteq> k) (table_futures s)\<rparr>)"

section \<open>Requests of the element\<close>

text \<open>Where a request goes: shared by the two broadcasting requests.\<close>

definition address_request :: "address \<Rightarrow> npdu \<Rightarrow> npdu result" where
  "address_request dest n =
     (case addrRoute dest of
        Some r \<Rightarrow>
          Inr ((if addrType dest \<in> {RemoteStationAddr, RemoteBroadcastAddr, GlobalBroadcastAddr}
                then n\<lparr>npduDADR := Some dest\<rparr> else n)\<lparr>pduDestination := Some r\<rparr>)
      | None \<Rightarrow>
          (case addrType dest of
             LocalStationAddr \<Rightarrow> Inr (n\<lparr>pduDestination := Some dest\<rparr>)
           | LocalBroadcastAddr \<Rightarrow> Inr (n\<lparr>pduDestination := Some dest\<rparr>)
           | GlobalBroadcastAddr \<Rightarrow> Inr (n\<lparr>pduDestination := Some local_broadcast, npduDADR := Some dest\<rparr>)
           | RemoteStationAddr \<Rightarrow> Inl RuntimeError
           | RemoteBroadcastAddr \<Rightarrow> Inl RuntimeError
           | NullAddr \<Rightarrow> Inr n))"

definition new_future :: "nat \<Rightarrow> nat option \<Rightarrow> address option \<Rightarrow> int option \<Rightarrow> router_future" where
  "new_future k ad router net =
     \<lparr>fut_id = k, fut_adapter = ad, fut_router = router, fut_network = net, fut_results = [], fut_done = False\<rparr>"

text \<open>The future is registered before the destination is looked at; it gets no adapter.\<close>

definition who_is_router_to_network ::
  "nat option \<Rightarrow> address option \<Rightarrow> int option \<Rightarrow> nat net_act" where
  "who_is_router_to_network ad destination network = withS (\<lambda>s.
     let k = next_future s;
         targets = (case ad of Some i \<Rightarrow> [i] | None \<Rightarrow> adapter_list s);
         dest = (case destination of None \<Rightarrow> local_broadcast | Some d \<Rightarrow> d) in
     bindS (modS (\<lambda>s. s\<lparr>next_future := k + 1,
        router_futures := router_futures s @ [new_future k None (Some dest) network]\<rparr>)) (\<lambda>_.
     bindS (liftS (address_request dest ((message_npdu (WhoIsRouterToNetwork network))\<lparr>npduHopCount := Some 255\<rparr>))) (\<lambda>n.
     bindS (seqS (map (\<lambda>i. create_task (SendTask i n)) targets)) (\<lambda>_. retS k))))"

definition initialize_routing_table :: "nat option \<Rightarrow> address option \<Rightarrow> nat net_act" where
  "initialize_routing_table ad destination = withS (\<lambda>s.
     let k = next_future s;
         targets = (case ad of Some i \<Rightarrow> [i] | None \<Rightarrow> adapter_list s);
         dest = (case destination of None \<Rightarrow> local_broadcast | Some d \<Rightarrow> d);
         router = (if addrType dest \<in> {LocalBroadcastAddr, RemoteBroadcastAddr} then None else Some dest) in
     bindS (modS (\<lambda>s. s\<lparr>next_future := k + 1,
        table_futures := table_futures s @ [new_future k ad router None]\<rparr>)) (\<lambda>_.
     bindS (liftS (address_request dest ((message_npdu (InitializeRoutingTable []))\<lparr>npduHopCount := Some 255\<rparr>))) (\<lambda>n.
     bindS (seqS (map (\<lambda>i. create_task (SendTask i n)) targets)) (\<lambda>_. retS k))))"

text \<open>
  \<^verbatim>\<open>i_am_router_to_network\<close>: the destination, which may choose the adapter; the networks
  announced on an adapter; the loop over the adapters. Encoding a network that is not known
  raises.
\<close>

datatype network_arg = AnyNetwork | OneNetwork int | SomeNetworks "int list"

definition announce_to :: "nsap \<Rightarrow> nat option \<Rightarrow> address option \<Rightarrow> (nat option \<times> address) result" where
  "announce_to s ad destination =
     (case destination of
        None \<Rightarrow> Inr (ad, local_broadcast)
      | Some d \<Rightarrow>
          (case addrType d of
             LocalStationAddr \<Rightarrow> if ad = None then Inl ValueError else Inr (ad, d)
           | LocalBroadcastAddr \<Rightarrow> Inr (ad, d)
           | RemoteStationAddr \<Rightarrow>
               bindR (case ad of
                   Some i \<Rightarrow> if addrNet d \<noteq> net_of s i then Inl ValueError else Inr i
                 | None \<Rightarrow> need ValueError (map_of (adapters s) (addrNet d))) (\<lambda>i.
               bindR (need TypeError (addrAddr d)) (\<lambda>a. Inr (Some i, local_station a)))
           | RemoteBroadcastAddr \<Rightarrow>
               bindR (case ad of
                   Some i \<Rightarrow> if addrNet d \<noteq> net_of s i then Inl ValueError else Inr i
                 | None \<Rightarrow> need ValueError (map_of (adapters s) (addrNet d))) (\<lambda>i.
               Inr (Some i, local_broadcast))
           | _ \<Rightarrow> Inl TypeError))"

definition reachable_nets :: "nsap \<Rightarrow> nat \<Rightarrow> int option list" where
  "reachable_nets s i = map (net_of s) (other_adapters s i)"

definition known_nets :: "int option list \<Rightarrow> int list result" where
  "known_nets nets = (if None \<in> set nets then Inl TypeError else Inr (map the nets))"

definition announce :: "net_env \<Rightarrow> address \<Rightarrow> network_arg \<Rightarrow> nat \<Rightarrow> unit net_act" where
  "announce env dest network i = withS (\<lambda>s.
     let nets = reachable_nets s i;
         send = (\<lambda>nets. bindS (liftS (known_nets nets)) (\<lambda>ns.
           sap_indication env i ((message_npdu (IAmRouterToNetwork ns))\<lparr>pduDestination := Some dest\<rparr>))) in
     case network of
       AnyNetwork \<Rightarrow> send nets
     | OneNetwork net \<Rightarrow> if Some net \<notin> set nets then retS () else send [Some net]
     | SomeNetworks ns \<Rightarrow> send (filter (\<lambda>net. net \<in> Some ` set ns) nets))"

definition i_am_router_to_network ::
  "net_env \<Rightarrow> nat option \<Rightarrow> address option \<Rightarrow> network_arg \<Rightarrow> unit net_act" where
  "i_am_router_to_network env ad destination network = withS (\<lambda>s.
     if length (adapters s) = 1 then raiseS RuntimeError
     else bindS (liftS (announce_to s ad destination)) (\<lambda>(ad, dest).
       seqS (map (announce env dest network) (case ad of Some i \<Rightarrow> [i] | None \<Rightarrow> adapter_list s))))"

text \<open>
  \<^verbatim>\<open>what_is_network_number\<close>: the list of adapters is narrowed only when both an adapter and a
  destination are given. The result of a request to several adapters is -1.
\<close>

definition what_is_network_number :: "nat option \<Rightarrow> address option \<Rightarrow> nat net_act" where
  "what_is_network_number ad destination = withS (\<lambda>s.
     let all = adapter_list s; k = next_future s;
         dest = (if ad \<noteq> None \<and> destination \<noteq> None then destination else Some local_broadcast);
         targets = (case ad of Some i \<Rightarrow> if destination \<noteq> None then [i] else all | None \<Rightarrow> all);
         n = (message_npdu WhatIsNetworkNumber)\<lparr>pduDestination := dest\<rparr> in
     if all = [] then raiseS RuntimeError
     else if (case ad of Some i \<Rightarrow> i \<notin> set all | None \<Rightarrow> destination \<noteq> None \<and> length all > 1)
     then raiseS RuntimeError
     else bindS (modS (\<lambda>s. s\<lparr>next_future := k + 1\<rparr>)) (\<lambda>_.
       bindS (if length targets > 1
              then modS (\<lambda>s. s\<lparr>number_results := (number_results s)(k := Some (- 1))\<rparr>)
              else modS (\<lambda>s. s\<lparr>number_futures := AList.update (hd targets) k (number_futures s)\<rparr>)) (\<lambda>_.
       bindS (seqS (map (\<lambda>i. create_task (SendTask i n)) targets)) (\<lambda>_. retS k))))"

text \<open>\<^verbatim>\<open>_resolve_what_is_network_number\<close>, the callback of that future.\<close>

definition number_done :: "nat \<Rightarrow> unit net_act" where
  "number_done k = modS (\<lambda>s.
     case find (\<lambda>(i, k'). k' = k) (number_futures s) of
       Some (i, _) \<Rightarrow> s\<lparr>number_futures := AList.delete i (number_futures s)\<rparr>
     | None \<Rightarrow> s)"

definition announce_number :: "net_env \<Rightarrow> nat \<Rightarrow> unit net_act" where
  "announce_number env i = withS (\<lambda>s.
     case net_of s i of
       None \<Rightarrow> retS ()
     | Some net \<Rightarrow> sap_indication env i ((message_npdu (NetworkNumberIs net (adapterNetConfigured (adapter_of s i))))
         \<lparr>pduDestination := Some local_broadcast\<rparr>))"

definition network_number_is :: "net_env \<Rightarrow> nat option \<Rightarrow> unit net_act" where
  "network_number_is env ad = withS (\<lambda>s.
     seqS (map (announce_number env)
       (case ad of
          Some i \<Rightarrow> [i]
        | None \<Rightarrow> filter (\<lambda>i. net_of s i \<noteq> None \<and> adapterNetConfigured (adapter_of s i) = CONFIGURED) (adapter_list s))))"

section \<open>Messages to the element\<close>

definition reply :: "npdu \<Rightarrow> net_message \<Rightarrow> npdu" where
  "reply n m = (message_npdu m)\<lparr>pduUserData := pduUserData n, pduDestination := pduSource n\<rparr>"

text \<open>
  The source address of what is sent on: the original one, or the sender on the arrival
  network. \<open>make_remote\<close> is the constructor \<^verbatim>\<open>RemoteStation\<close> on attributes that may be \<^verbatim>\<open>None\<close>.
  Link layers set the source of every PDU they pass up; the model has an exception where a
  message without a source would be handled.
\<close>

definition make_remote :: "int option \<Rightarrow> byte list option \<Rightarrow> address result" where
  "make_remote net adr =
     bindR (need TypeError net) (\<lambda>net.
     bindR (remote_station net []) (\<lambda>_.
     bindR (need TypeError adr) (remote_station net)))"

definition sender :: "nsap \<Rightarrow> nat \<Rightarrow> npdu \<Rightarrow> address result" where
  "sender s i n =
     (case npduSADR n of
        Some a \<Rightarrow> Inr a
      | None \<Rightarrow>
          bindR (need AttributeError (pduSource n)) (\<lambda>src. make_remote (net_of s i) (addrAddr src)))"

definition who_is_router_handler :: "net_env \<Rightarrow> nat \<Rightarrow> npdu \<Rightarrow> int option \<Rightarrow> unit net_act" where
  "who_is_router_handler env i n network = withS (\<lambda>s.
     if length (adapters s) = 1 then retS ()
     else
       case network of
         None \<Rightarrow>
           if reachable_nets s i = [] then retS ()
           else bindS (liftS (known_nets (reachable_nets s i))) (\<lambda>nets.
             sap_confirmation env i (reply n (IAmRouterToNetwork nets)))
       | Some dnet \<Rightarrow>
           (case map_of (adapters s) (Some dnet) of
              Some j \<Rightarrow>
                if j = i then retS ()
                else sap_confirmation env i (reply n (IAmRouterToNetwork [dnet]))
            | None \<Rightarrow>
                (case find_path (adapters s) dnet (router_info_cache s) of
                   Some (j, _) \<Rightarrow>
                     if j = i then retS ()
                     else sap_confirmation env i (reply n (IAmRouterToNetwork [dnet]))
                 | None \<Rightarrow>
                     bindS (liftS (sender s i n)) (\<lambda>src.
                     seqS (map (\<lambda>j. sap_indication env j ((message_npdu (WhoIsRouterToNetwork (Some dnet)))
                         \<lparr>pduUserData := pduUserData n, pduDestination := Some local_broadcast, npduSADR := Some src\<rparr>))
                       (other_adapters s i))))))"

definition i_am_router_handler :: "net_env \<Rightarrow> nat \<Rightarrow> npdu \<Rightarrow> int list \<Rightarrow> unit net_act" where
  "i_am_router_handler env i n nets =
     bindS (liftS (need AttributeError (pduSource n))) (\<lambda>src. withS (\<lambda>s. seqS
       [update_router_references env (net_of s i) src nets,
        if length (adapters s) = 1 then retS ()
        else seqS (map (\<lambda>j. sap_indication env j ((message_npdu (IAmRouterToNetwork nets))
            \<lparr>pduUserData := pduUserData n, pduDestination := Some local_broadcast\<rparr>)) (other_adapters s i)),
        match_router_futures i nets n]))"

definition routing_table :: "nsap \<Rightarrow> routing_table_entry list result" where
  "routing_table s = bindR (known_nets (map (net_of s) (adapter_list s))) (\<lambda>nets.
     Inr (map (\<lambda>(k, net). \<lparr>rtDNET = net, rtPortID = int k + 1, rtPortInfo = []\<rparr>) (enumerate 0 nets)))"

definition initialize_table_handler :: "net_env \<Rightarrow> nat \<Rightarrow> npdu \<Rightarrow> unit net_act" where
  "initialize_table_handler env i n = withS (\<lambda>s.
     if length (adapters s) = 1 \<or> adapter_list s = [] then retS ()
     else bindS (liftS (routing_table s)) (\<lambda>table.
       sap_confirmation env i (reply n (InitializeRoutingTableAck table))))"

definition what_is_number_handler :: "net_env \<Rightarrow> nat \<Rightarrow> npdu \<Rightarrow> unit net_act" where
  "what_is_number_handler env i n = withS (\<lambda>s.
     if net_of s i = None then retS ()
     else bindS (liftS (need AttributeError (pduDestination n))) (\<lambda>dest.
       if addrType dest = LocalBroadcastAddr \<and> length (adapters s) = 1 then retS ()
       else network_number_is env (Some i)))"

text \<open>The adapter becomes the one of another network.\<close>

definition move_adapter :: "nat \<Rightarrow> int option \<Rightarrow> int \<Rightarrow> int \<Rightarrow> unit net_act" where
  "move_adapter i old new quality = withS (\<lambda>s. seqS
     [create_task (RenumberTask old new),
      if map_of (adapters s) old = None then raiseS KeyError
      else modS (\<lambda>s. s\<lparr>adapters := AList.delete old (adapters s)\<rparr>),
      modS (\<lambda>s. s\<lparr>adapter_of := (adapter_of s)(i := (adapter_of s i)
        \<lparr>adapterNet := Some new, adapterNetConfigured := quality\<rparr>)\<rparr>),
      modS (\<lambda>s. s\<lparr>adapters := AList.update (Some new) i (adapters s)\<rparr>)])"

definition resolve_number :: "nat \<Rightarrow> int \<Rightarrow> unit net_act" where
  "resolve_number i net = withS (\<lambda>s.
     case map_of (number_futures s) i of
       None \<Rightarrow> retS ()
     | Some k \<Rightarrow>
         if number_results s k \<noteq> None then raiseS InvalidStateError
         else seqS [modS (\<lambda>s. s\<lparr>number_results := (number_results s)(k := Some net)\<rparr>),
           create_task (NumberDone k)])"

definition number_is_handler :: "nat \<Rightarrow> int \<Rightarrow> int \<Rightarrow> unit net_act" where
  "number_is_handler i net flag = seqS
     [resolve_number i net,
      withS (\<lambda>s.
        case net_of s i of
          None \<Rightarrow> move_adapter i None net LEARNED
        | Some old \<Rightarrow>
            if old = net then retS ()
            else if adapterNetConfigured (adapter_of s i) = CONFIGURED then retS ()
            else move_adapter i (Some old) net flag)]"

text \<open>
  \<^verbatim>\<open>NetworkServiceElement.indication\<close> calls the method named like the class of the message; six
  of them do nothing.
\<close>

definition element_indication :: "net_env \<Rightarrow> nat \<Rightarrow> npdu \<Rightarrow> unit net_act" where
  "element_indication env i n =
     (case npduMessage n of
        None \<Rightarrow> retS ()
      | Some m \<Rightarrow>
          (case m of
             WhoIsRouterToNetwork net \<Rightarrow> who_is_router_handler env i n net
           | IAmRouterToNetwork nets \<Rightarrow> i_am_router_handler env i n nets
           | InitializeRoutingTable _ \<Rightarrow> initialize_table_handler env i n
           | InitializeRoutingTableAck _ \<Rightarrow> match_table_futures i n
           | WhatIsNetworkNumber \<Rightarrow> what_is_number_handler env i n
           | NetworkNumberIs net flag \<Rightarrow> number_is_handler i net flag
           | _ \<Rightarrow> retS ()))"

section \<open>Scheduled work\<close>

text \<open>One scheduled task runs; its exceptions end the task only.\<close>

definition run_task :: "net_env \<Rightarrow> task \<Rightarrow> unit net_act" where
  "run_task env t =
     (case t of
        SendTask i n \<Rightarrow> sap_indication env i n
      | RenumberTask old new \<Rightarrow> lift_cache (update_source_network (set_order env) old (Some new))
      | RouterDone k \<Rightarrow> router_done k
      | TableDone k \<Rightarrow> table_done k
      | NumberDone k \<Rightarrow> number_done k)"

definition step_task :: "net_env \<Rightarrow> nsap \<Rightarrow> nsap" where
  "step_task env s =
     (case tasks s of
        [] \<Rightarrow> s
      | t # ts \<Rightarrow> snd (run_task env t (s\<lparr>tasks := ts\<rparr>)))"

section \<open>Invariant\<close>

definition nsap_ok :: "nsap \<Rightarrow> bool" where
  "nsap_ok s \<longleftrightarrow> distinct (map fst (adapters s)) \<and> distinct (adapter_list s) \<and>
     (\<forall>(net, i) \<in> set (adapters s). net_of s i = net \<and> i < next_adapter s) \<and>
     (adapters s \<noteq> [] \<longrightarrow> (\<exists>l \<in> set (adapter_list s). local_adapter s = Some l)) \<and>
     (local_adapter s \<noteq> None \<longrightarrow> adapters s \<noteq> []) \<and>
     cache_inv (router_info_cache s) \<and> wf_keys (router_info_cache s)"

definition core :: "nsap \<Rightarrow> (int option \<times> nat) list \<times> (nat \<Rightarrow> adapter) \<times> nat \<times> nat option \<times> router_cache" where
  "core s = (adapters s, adapter_of s, next_adapter s, local_adapter s, router_info_cache s)"

lemma core_ok: "core s = core t \<Longrightarrow> nsap_ok s = nsap_ok t"
  by (simp add: core_def nsap_ok_def adapter_list_def net_of_def)

lemma core_simps [simp]:
  "core (s\<lparr>net_out := x1\<rparr>) = core s" "core (s\<lparr>tasks := x2\<rparr>) = core s"
  "core (s\<lparr>router_futures := x3\<rparr>) = core s" "core (s\<lparr>table_futures := x4\<rparr>) = core s"
  "core (s\<lparr>number_futures := x5\<rparr>) = core s" "core (s\<lparr>number_results := x6\<rparr>) = core s"
  "core (s\<lparr>next_future := x7\<rparr>) = core s"
  by (simp_all add: core_def)

definition quiet :: "'a net_act \<Rightarrow> bool" where
  "quiet m \<longleftrightarrow> (\<forall>s. core (snd (m s)) = core s)"

lemma quiet_keeps: "quiet m \<longleftrightarrow> (\<forall>c. keeps (\<lambda>t. core t = c) m)"
  unfolding quiet_def keeps_def by blast

lemma quiet_basic:
  "quiet (retS x)" "quiet (raiseS e)" "quiet (liftS r)" "quiet (net_emit ev)" "quiet (create_task t)"
  "quiet (seqS [])"
  by (simp_all add: quiet_def act_simps net_emit_def create_task_def)

lemma quiet_mod: "(\<And>s. core (f s) = core s) \<Longrightarrow> quiet (modS f)"
  unfolding quiet_keeps by (blast intro: keeps_mod)

lemma quiet_with: "(\<And>s. quiet (f s)) \<Longrightarrow> quiet (withS f)"
  unfolding quiet_keeps by (blast intro: keeps_with)

lemma quiet_bind: "quiet m \<Longrightarrow> (\<And>x. quiet (f x)) \<Longrightarrow> quiet (bindS m f)"
  unfolding quiet_keeps by (blast intro: keeps_bind)

lemma quiet_Cons: "quiet m \<Longrightarrow> quiet (seqS ms) \<Longrightarrow> quiet (seqS (m # ms))"
  unfolding quiet_keeps by (blast intro: keeps_Cons)

lemma quiet_seq_map: "(\<And>x. quiet (f x)) \<Longrightarrow> quiet (seqS (map f xs))"
  unfolding quiet_keeps by (blast intro: keeps_map)

lemma quiet_if: "quiet m \<Longrightarrow> quiet m' \<Longrightarrow> quiet (if b then m else m')"
  by simp

lemma quiet_option: "quiet m \<Longrightarrow> (\<And>v. quiet (f v)) \<Longrightarrow> quiet (case z of None \<Rightarrow> m | Some v \<Rightarrow> f v)"
  by (cases z) simp_all

lemma quiet_pair: "(\<And>x y. quiet (f x y)) \<Longrightarrow> quiet (case z of (x, y) \<Rightarrow> f x y)"
  by (cases z) simp

lemmas quiet_rules =
  quiet_basic quiet_mod quiet_with quiet_bind quiet_Cons quiet_if quiet_option quiet_pair

lemma quiet_process: "quiet (adapter_process_npdu env i n)"
  unfolding adapter_process_npdu_def by (intro quiet_rules)

lemma quiet_sap: "quiet (sap_indication env i n)" "quiet (sap_confirmation env i n)"
  by (simp_all add: sap_indication_def sap_confirmation_def quiet_process)

lemma quiet_requests:
  "quiet (who_is_router_to_network ad d net)" "quiet (initialize_routing_table ad d)"
  "quiet (what_is_network_number ad d)" "quiet (number_done k)"
  unfolding who_is_router_to_network_def initialize_routing_table_def what_is_network_number_def
    number_done_def Let_def
  by (intro quiet_rules quiet_seq_map; simp split: option.split)+

lemma quiet_match: "quiet (match_router_futures i nets n)" "quiet (match_table_futures i n)"
  unfolding match_router_futures_def match_table_futures_def Let_def
  by (intro quiet_rules; simp)+

lemma quiet_timers:
  "quiet (router_timeout k)" "quiet (table_timeout k)" "quiet (router_done k)" "quiet (table_done k)"
  unfolding router_timeout_def table_timeout_def router_done_def table_done_def Let_def
  by (intro quiet_rules; simp)+

lemma quiet_announce: "quiet (announce_number env i)" "quiet (network_number_is env ad)"
  unfolding network_number_is_def announce_number_def by (intro quiet_rules quiet_sap quiet_seq_map)+

lemma quiet_handlers:
  "quiet (who_is_router_handler env i n net)" "quiet (initialize_table_handler env i n)"
  "quiet (what_is_number_handler env i n)" "quiet (resolve_number i k)"
proof -
  show "quiet (who_is_router_handler env i n net)"
    unfolding who_is_router_handler_def by (intro quiet_rules quiet_sap quiet_seq_map)
  show "quiet (initialize_table_handler env i n)"
    unfolding initialize_table_handler_def by (intro quiet_rules quiet_sap)
  show "quiet (what_is_number_handler env i n)"
    unfolding what_is_number_handler_def by (intro quiet_rules quiet_announce)
  show "quiet (resolve_number i k)"
    unfolding resolve_number_def by (intro quiet_rules) simp
qed

lemma quiet_ok: "quiet m \<Longrightarrow> nsap_ok s \<Longrightarrow> nsap_ok (snd (m s))"
  using core_ok unfolding quiet_def by blast

lemma quiet_keeps_ok: "quiet m \<Longrightarrow> keeps nsap_ok m"
  by (simp add: keeps_def quiet_ok)

lemma lift_cache_update_ok:
  assumes "nsap_ok s" "is_order order" "finite nets"
  shows "\<exists>c. lift_cache (update_path_info order net a nets) s = (Inr (), s\<lparr>router_info_cache := c\<rparr>) \<and>
    nsap_ok (s\<lparr>router_info_cache := c\<rparr>) \<and>
    (\<forall>s' d. get_path_info s' d c =
      (if s' = net \<and> d \<in> nets \<and> route s' d (router_info_cache s) \<noteq> Some a then Some (a, ROUTER_AVAILABLE)
       else get_path_info s' d (router_info_cache s)))"
proof -
  have inv: "cache_inv (router_info_cache s)" "wf_keys (router_info_cache s)"
    using assms(1) by (auto simp: nsap_ok_def)
  obtain c where c: "update_path_info order net a nets (router_info_cache s) = Inr c" "cache_inv c"
    "\<forall>s' d. get_path_info s' d c =
      (if s' = net \<and> d \<in> nets \<and> route s' d (router_info_cache s) \<noteq> Some a then Some (a, ROUTER_AVAILABLE)
       else get_path_info s' d (router_info_cache s))"
    using update_path_info_ok [OF inv(1) assms(2,3), of net a] by blast
  have "wf_keys c" using update_path_info_keys [OF c(1) inv(2)] .
  then have "nsap_ok (s\<lparr>router_info_cache := c\<rparr>)"
    using assms(1) c(2) by (simp add: nsap_ok_def adapter_list_def net_of_def)
  moreover have "lift_cache (update_path_info order net a nets) s = (Inr (), s\<lparr>router_info_cache := c\<rparr>)"
    using c(1) by (simp add: lift_cache_def act_simps)
  ultimately show ?thesis using c(3) by blast
qed

lemma update_references_ok:
  assumes "nsap_ok s" "is_order (set_order env)"
  shows "nsap_ok (snd (update_router_references env net a nets s))"
proof -
  obtain c where "lift_cache (update_path_info (set_order env) net a (set nets)) s =
      (Inr (), s\<lparr>router_info_cache := c\<rparr>)" "nsap_ok (s\<lparr>router_info_cache := c\<rparr>)"
    using lift_cache_update_ok [OF assms, of "set nets" net a] by blast
  then show ?thesis
    using assms(1) by (simp add: update_router_references_def act_simps)
qed

lemma move_adapter_eq:
  assumes "map_of (adapters s) old \<noteq> None"
  shows "move_adapter i old new q s = (Inr (), s\<lparr>tasks := tasks s @ [RenumberTask old new],
    adapters := AList.update (Some new) i (AList.delete old (adapters s)),
    adapter_of := (adapter_of s)(i := (adapter_of s i)\<lparr>adapterNet := Some new, adapterNetConfigured := q\<rparr>)\<rparr>)"
  using assms by (auto simp: move_adapter_def act_simps create_task_def)

lemma ok_lookup:
  assumes "nsap_ok s"
  shows "map_of (adapters s) net = Some i \<longleftrightarrow> i \<in> set (adapter_list s) \<and> net_of s i = net"
proof -
  have d: "distinct (map fst (adapters s))" and n: "\<forall>(net, i) \<in> set (adapters s). net_of s i = net"
    using assms by (auto simp: nsap_ok_def)
  show ?thesis
  proof
    assume "map_of (adapters s) net = Some i"
    then have "(net, i) \<in> set (adapters s)" by (rule map_of_SomeD)
    then show "i \<in> set (adapter_list s) \<and> net_of s i = net" using n by (force simp: adapter_list_def)
  next
    assume a: "i \<in> set (adapter_list s) \<and> net_of s i = net"
    then obtain net' where m: "(net', i) \<in> set (adapters s)" by (auto simp: adapter_list_def)
    then have "net' = net" using n a by auto
    then show "map_of (adapters s) net = Some i" using m d by (simp add: map_of_eq_Some_iff)
  qed
qed

lemma update_new: "k \<notin> fst ` set al \<Longrightarrow> AList.update k v al = al @ [(k, v)]"
  by (induction al) auto

lemma ok_update_delete:
  assumes ok: "nsap_ok s" and i: "i \<in> set (adapter_list s)" "map_of (adapters s) (Some new) = None"
  defines "ads \<equiv> AList.update (Some new) i (AList.delete (net_of s i) (adapters s))"
  shows "ads = filter (\<lambda>(net, j). j \<noteq> i) (adapters s) @ [(Some new, i)]"
proof -
  have d: "distinct (map fst (adapters s))" and n: "\<forall>(net, i) \<in> set (adapters s). net_of s i = net"
    using ok by (auto simp: nsap_ok_def)
  have "AList.delete (net_of s i) (adapters s) = filter (\<lambda>(net, j). j \<noteq> i) (adapters s)"
    unfolding AList.delete_eq
  proof (rule filter_cong [OF refl])
    fix x assume x: "x \<in> set (adapters s)"
    obtain net j where xj: "x = (net, j)" by (cases x)
    have "net = net_of s i \<longleftrightarrow> j = i"
      using ok_lookup [OF ok, of net j] ok_lookup [OF ok, of "net_of s i" i] i(1) x xj d
      by (metis map_of_is_SomeI option.inject)
    then show "(case x of (k, v) \<Rightarrow> net_of s i \<noteq> k) = (case x of (net, j) \<Rightarrow> j \<noteq> i)" using xj by auto
  qed
  moreover have "Some new \<notin> fst ` set (filter (\<lambda>(net, j). j \<noteq> i) (adapters s))"
    using i(2) by (auto simp: map_of_eq_None_iff)
  ultimately show ?thesis unfolding ads_def by (simp add: update_new)
qed

text \<open>
  The state after a network number has been learned: the adapter is the last of the dictionary,
  under its new number.
\<close>

definition renumbered :: "nat \<Rightarrow> int \<Rightarrow> int \<Rightarrow> nsap \<Rightarrow> nsap" where
  "renumbered i new q s = s\<lparr>tasks := tasks s @ [RenumberTask (net_of s i) new],
     adapters := filter (\<lambda>(net, j). j \<noteq> i) (adapters s) @ [(Some new, i)],
     adapter_of := (adapter_of s)(i := (adapter_of s i)\<lparr>adapterNet := Some new, adapterNetConfigured := q\<rparr>)\<rparr>"

lemma renumbered_ok:
  assumes ok: "nsap_ok s" and i: "i \<in> set (adapter_list s)" "map_of (adapters s) (Some new) = None"
  shows "move_adapter i (net_of s i) new q s = (Inr (), renumbered i new q s)"
    "nsap_ok (renumbered i new q s)"
proof -
  have m: "map_of (adapters s) (net_of s i) = Some i" using ok_lookup [OF ok] i(1) by blast
  show "move_adapter i (net_of s i) new q s = (Inr (), renumbered i new q s)"
    using m by (simp add: move_adapter_eq renumbered_def ok_update_delete [OF ok i])
  have 1: "distinct (map fst (adapters (renumbered i new q s)))"
    using ok i(2) by (auto simp: nsap_ok_def renumbered_def map_of_eq_None_iff distinct_map_filter)
  have 2: "adapter_list (renumbered i new q s) = filter (\<lambda>j. j \<noteq> i) (adapter_list s) @ [i]"
    by (simp add: adapter_list_def renumbered_def filter_map comp_def case_prod_unfold)
  have 3: "\<forall>(net, j) \<in> set (adapters (renumbered i new q s)).
      net_of (renumbered i new q s) j = net \<and> j < next_adapter (renumbered i new q s)"
    using ok i(1) by (auto simp: nsap_ok_def renumbered_def net_of_def adapter_list_def)
  show "nsap_ok (renumbered i new q s)"
    unfolding nsap_ok_def
  proof (intro conjI)
    show "distinct (adapter_list (renumbered i new q s))" using ok 2 by (simp add: nsap_ok_def)
    have ne: "adapters s \<noteq> []" using i(1) by (auto simp: adapter_list_def)
    then obtain l where "l \<in> set (adapter_list s)" "local_adapter s = Some l"
      using ok by (auto simp: nsap_ok_def)
    then have "l \<in> set (adapter_list (renumbered i new q s)) \<and> local_adapter (renumbered i new q s) = Some l"
      unfolding 2 by (simp add: renumbered_def)
    then show "adapters (renumbered i new q s) \<noteq> [] \<longrightarrow>
        (\<exists>l\<in>set (adapter_list (renumbered i new q s)). local_adapter (renumbered i new q s) = Some l)" by blast
    show "local_adapter (renumbered i new q s) \<noteq> None \<longrightarrow> adapters (renumbered i new q s) \<noteq> []"
      by (simp add: renumbered_def)
  qed (use ok 1 3 in \<open>auto simp: nsap_ok_def renumbered_def\<close>)
qed

text \<open>
  Not a Network-Number-Is by which an adapter, whose own number is not configured, takes the number
  of another one.
\<close>

definition number_free :: "nsap \<Rightarrow> nat \<Rightarrow> npdu \<Rightarrow> bool" where
  "number_free s i n \<longleftrightarrow> (\<forall>net flag. npduMessage n = Some (NetworkNumberIs net flag) \<longrightarrow>
     map_of (adapters s) (Some net) = None \<or> net_of s i = Some net \<or>
     net_of s i \<noteq> None \<and> adapterNetConfigured (adapter_of s i) = CONFIGURED)"

lemma number_is_ok:
  assumes ok: "nsap_ok s" and i: "i \<in> set (adapter_list s)"
    and free: "map_of (adapters s) (Some net) = None \<or> net_of s i = Some net \<or>
      net_of s i \<noteq> None \<and> adapterNetConfigured (adapter_of s i) = CONFIGURED"
  shows "nsap_ok (snd (number_is_handler i net flag s))"
  unfolding number_is_handler_def seqS.simps
proof (rule snd_bindS)
  have r: "core (snd (resolve_number i net s)) = core s"
    using quiet_handlers(4) by (simp add: quiet_def)
  then show "nsap_ok (snd (resolve_number i net s))" using ok core_ok by blast
  fix x t
  assume "resolve_number i net s = (Inr x, t)" and t: "nsap_ok t"
  then have "core t = core s" using r by simp
  then have e: "adapters t = adapters s" "net_of t i = net_of s i" "adapter_list t = adapter_list s"
    "adapterNetConfigured (adapter_of t i) = adapterNetConfigured (adapter_of s i)"
    by (auto simp: core_def net_of_def adapter_list_def)
  have mv: "move_adapter i (net_of t i) net q t = (Inr (), renumbered i net q t)"
    "nsap_ok (renumbered i net q t)"
    if "net_of t i \<noteq> Some net" "net_of t i = None \<or> adapterNetConfigured (adapter_of t i) \<noteq> CONFIGURED" for q
    using renumbered_ok [OF t, of i net q] i free that e by auto
  have "nsap_ok (snd ((case net_of t i of None \<Rightarrow> move_adapter i None net LEARNED
      | Some old \<Rightarrow> if old = net then retS ()
          else if adapterNetConfigured (adapter_of t i) = CONFIGURED then retS ()
          else move_adapter i (Some old) net flag) t))"
  proof (cases "net_of t i")
    case None
    then show ?thesis using mv [of LEARNED] by simp
  next
    case (Some old)
    then show ?thesis using mv [of flag] t by (auto simp: act_simps)
  qed
  then show "nsap_ok (snd (bindS (withS (\<lambda>s. case net_of s i of None \<Rightarrow> move_adapter i None net LEARNED
      | Some old \<Rightarrow> if old = net then retS ()
          else if adapterNetConfigured (adapter_of s i) = CONFIGURED then retS ()
          else move_adapter i (Some old) net flag)) (\<lambda>_. retS ()) t))"
    by (intro snd_bindS [of nsap_ok]) (simp_all add: act_simps)
qed

lemma i_am_router_ok:
  assumes "is_order (set_order env)"
  shows "keeps nsap_ok (i_am_router_handler env i n nets)"
proof -
  have "keeps nsap_ok (update_router_references env net a nets)" for net a
    using update_references_ok assms by (simp add: keeps_def)
  then show ?thesis
    unfolding i_am_router_handler_def
    by (intro keeps_rules) (auto intro: quiet_keeps_ok quiet_sap quiet_match)
qed

lemma element_indication_ok:
  assumes "nsap_ok s" "is_order (set_order env)" "i \<in> set (adapter_list s)" "number_free s i n"
  shows "nsap_ok (snd (element_indication env i n s))"
proof (cases "npduMessage n")
  case None
  then show ?thesis using assms(1) by (simp add: element_indication_def act_simps)
next
  case (Some m)
  then show ?thesis
    using assms(1,4) number_is_ok [OF assms(1,3)] keepsD [OF i_am_router_ok [OF assms(2)]]
      quiet_ok [OF quiet_handlers(1)] quiet_ok [OF quiet_handlers(2)]
      quiet_ok [OF quiet_handlers(3)] quiet_ok [OF quiet_match(2)]
    by (cases m) (simp_all add: element_indication_def number_free_def act_simps)
qed

lemma new_nsap_ok: "nsap_ok new_nsap"
  using empty_cache_inv by (simp add: nsap_ok_def new_nsap_def adapter_list_def wf_keys_def empty_cache_def)

definition bound :: "int option \<Rightarrow> address option \<Rightarrow> nsap \<Rightarrow> nsap" where
  "bound net addr s = s\<lparr>next_adapter := next_adapter s + 1,
     adapter_of := (adapter_of s)(next_adapter s := new_adapter net addr),
     adapters := adapters s @ [(net, next_adapter s)],
     local_adapter := (if local_adapter s = None then Some (next_adapter s) else local_adapter s)\<rparr>"

lemma bind_eq:
  assumes "map_of (adapters s) net = None"
  shows "nsap_bind net addr s = (Inr (), bound net addr s)"
  using assms by (cases "local_adapter s"; cases addr)
    (simp_all add: nsap_bind_def act_simps Let_def bound_def update_new map_of_eq_None_iff)

lemma bind_ok:
  assumes ok: "nsap_ok s" and free: "map_of (adapters s) net = None"
  shows "nsap_ok (bound net addr s)"
  unfolding nsap_ok_def
proof (intro conjI)
  have lt: "\<forall>(net, i) \<in> set (adapters s). net_of s i = net \<and> i < next_adapter s"
    using ok by (auto simp: nsap_ok_def)
  then show "\<forall>(net', i) \<in> set (adapters (bound net addr s)).
      net_of (bound net addr s) i = net' \<and> i < next_adapter (bound net addr s)"
    by (auto simp: bound_def net_of_def new_adapter_def)
  show "distinct (adapter_list (bound net addr s))"
    using ok lt by (auto simp: nsap_ok_def bound_def adapter_list_def)
  show "distinct (map fst (adapters (bound net addr s)))"
    using ok free by (auto simp: nsap_ok_def bound_def map_of_eq_None_iff)
  show "adapters (bound net addr s) \<noteq> [] \<longrightarrow>
      (\<exists>l\<in>set (adapter_list (bound net addr s)). local_adapter (bound net addr s) = Some l)"
    using ok by (cases "local_adapter s") (auto simp: nsap_ok_def bound_def adapter_list_def)
qed (use ok in \<open>auto simp: nsap_ok_def bound_def\<close>)

lemma find_path_Some:
  "find_path ads d c = Some (j, r) \<Longrightarrow> j \<in> snd ` set ads \<and> (\<exists>net st. (net, j) \<in> set ads \<and> get_path_info net d c = Some (r, st))"
  by (induction ads d c rule: find_path.induct) (force split: option.splits prod.splits if_splits)+

lemma find_path_None: "find_path ads d c = None \<longleftrightarrow> (\<forall>(net, j) \<in> set ads. get_path_info net d c = None)"
  by (induction ads d c rule: find_path.induct) (auto split: option.splits)

text \<open>
  When an adapter learns the number of its network, the adapter is found under the
  new number, nothing else of the dictionary of adapters changes, and once the scheduled
  renumbering has run, every adapter reaches the same networks through the same routers, with
  the same status, as before.
\<close>
theorem learned_number_keeps_routes:
  fixes flag :: int
  assumes ok: "nsap_ok s" and o: "is_order (set_order env)" and i: "i \<in> set (adapter_list s)"
    and unknown: "net_of s i \<noteq> Some net" "adapterNetConfigured (adapter_of s i) \<noteq> CONFIGURED"
    and free: "map_of (adapters s) (Some net) = None"
      "\<forall>a. get_router_dnets (Some net) a (router_info_cache s) = None"
    and idle: "map_of (number_futures s) i = None" "tasks s = []"
  defines "s' \<equiv> step_task env (snd (number_is_handler i net flag s))"
  shows "nsap_ok s' \<and> map_of (adapters s') (Some net) = Some i \<and> net_of s' i = Some net \<and>
    (\<forall>j \<in> set (adapter_list s). j \<noteq> i \<longrightarrow> net_of s' j = net_of s j \<and> j \<in> set (adapter_list s')) \<and>
    (\<forall>j \<in> set (adapter_list s). \<forall>d. get_path_info (net_of s' j) d (router_info_cache s') =
       get_path_info (net_of s j) d (router_info_cache s))"
proof -
  define q where "q = (if net_of s i = None then LEARNED else flag)"
  define r where "r = renumbered i net q s"
  have h: "snd (number_is_handler i net flag s) = r"
    using renumbered_ok(1) [OF ok i free(1), of q] idle(1) unknown
    by (cases "net_of s i") (simp_all add: number_is_handler_def resolve_number_def act_simps q_def r_def)
  have rok: "nsap_ok r" using renumbered_ok(2) [OF ok i free(1)] by (simp add: r_def)
  have ne: "net_of s i \<noteq> Some net" by (rule unknown)
  have cinv: "cache_inv (router_info_cache s)" "wf_keys (router_info_cache s)" using ok by (auto simp: nsap_ok_def)
  obtain c where c: "update_source_network (set_order env) (net_of s i) (Some net) (router_info_cache s) = Inr c"
    "cache_inv c"
    "\<And>s' d. get_path_info s' d c = (if s' = net_of s i then None
       else if s' = Some net then get_path_info (net_of s i) d (router_info_cache s)
       else get_path_info s' d (router_info_cache s))"
    using renumber_ok [OF cinv o ne free(2)] by blast
  have s': "s' = r\<lparr>tasks := [], router_info_cache := c\<rparr>"
    using c(1) by (simp add: s'_def h step_task_def r_def renumbered_def idle(2) run_task_def lift_cache_def act_simps)
  have "wf_keys c" using update_source_network_keys [OF c(1) cinv(2)] .
  then have "nsap_ok s'" using rok c(2) by (simp add: s' nsap_ok_def adapter_list_def net_of_def)
  moreover have nets: "net_of s' j = (if j = i then Some net else net_of s j)" for j
    by (simp add: s' r_def renumbered_def net_of_def)
  moreover have al: "set (adapter_list s') = set (adapter_list s)"
    using i by (auto simp: s' r_def renumbered_def adapter_list_def)
  moreover have "net_of s j \<noteq> net_of s i \<and> net_of s j \<noteq> Some net"
    if "j \<in> set (adapter_list s)" "j \<noteq> i" for j
    using that i free(1) ok_lookup [OF ok, of "net_of s j" j] ok_lookup [OF ok, of "net_of s i" i] by auto
  ultimately show ?thesis
    using i ok_lookup [of s' "Some net" i] by (auto simp: c(3) s' [THEN arg_cong, of router_info_cache] ne [symmetric])
qed

definition example_node :: nsap where
  "example_node = bound None (Some (local_station [1])) new_nsap"

definition example_env :: net_env where
  "example_env = \<lparr>link_raises = (\<lambda>_ _. None), app_raises = (\<lambda>_. None), route_aware = False,
     has_element = True, has_server_peer = True, set_order = sorted_list_of_set\<rparr>"

lemma example_node_ok: "nsap_ok example_node"
  unfolding example_node_def by (rule bind_ok [OF new_nsap_ok]) (simp add: new_nsap_def)

lemma learned_number_keeps_routes_witness:
  "map_of (adapters (step_task example_env (snd (number_is_handler 0 7 0 example_node)))) (Some 7) = Some 0"
proof -
  have "is_order (set_order example_env)" by (simp add: example_env_def sorted_is_order)
  moreover have "0 \<in> set (adapter_list example_node)" "net_of example_node 0 \<noteq> Some 7"
    "adapterNetConfigured (adapter_of example_node 0) \<noteq> CONFIGURED"
    "map_of (adapters example_node) (Some 7) = None" "map_of (number_futures example_node) 0 = None"
    "tasks example_node = []" "\<forall>a. get_router_dnets (Some 7) a (router_info_cache example_node) = None"
    by (simp_all add: example_node_def bound_def new_nsap_def adapter_list_def net_of_def new_adapter_def
        UNKNOWN_def CONFIGURED_def empty_cache_def get_router_dnets_def)
  ultimately show ?thesis using learned_number_keeps_routes [OF example_node_ok] by blast
qed

text \<open>
  A Network-Number-Is that names the network of another adapter makes this adapter
  disappear from the dictionary of adapters: nothing is sent to its network any more.
\<close>
theorem number_collision_drops_adapter:
  assumes ok: "nsap_ok s" and i: "i \<in> set (adapter_list s)"
    and unknown: "net_of s i \<noteq> Some net" "adapterNetConfigured (adapter_of s i) \<noteq> CONFIGURED"
    and taken: "map_of (adapters s) (Some net) = Some j" and idle: "map_of (number_futures s) i = None"
  shows "let s' = snd (number_is_handler i net flag s) in
    j \<notin> set (adapter_list s') \<and> map_of (adapters s') (Some net) = Some i \<and>
    length (adapters s') = length (adapters s) - 1"
proof -
  define q where "q = (if net_of s i = None then LEARNED else flag)"
  have mi: "map_of (adapters s) (net_of s i) = Some i" using ok_lookup [OF ok] i by blast
  have j: "net_of s j = Some net" "j \<noteq> i" using taken ok_lookup [OF ok, of "Some net" j] unknown by auto
  have d: "distinct (map fst (adapters s))" and n: "\<forall>(net, i) \<in> set (adapters s). net_of s i = net"
    using ok by (auto simp: nsap_ok_def)
  have e: "adapters (snd (number_is_handler i net flag s)) =
      AList.update (Some net) i (AList.delete (net_of s i) (adapters s))"
    using move_adapter_eq [of s "net_of s i" i net q] mi idle unknown
    by (cases "net_of s i") (simp_all add: number_is_handler_def resolve_number_def act_simps q_def)
  let ?ads = "AList.update (Some net) i (AList.delete (net_of s i) (adapters s))"
  have k: "Some net \<in> fst ` set (AList.delete (net_of s i) (adapters s))"
    using taken unknown(1) by (force simp: AList.delete_eq dest: map_of_SomeD)
  have dd: "distinct (map fst ?ads)" using d by (simp add: distinct_update distinct_delete)
  have "j \<notin> snd ` set ?ads"
  proof
    assume "j \<in> snd ` set ?ads"
    then obtain net' where "(net', j) \<in> set ?ads" by force
    then have "map_of ?ads net' = Some j" using dd by (simp add: map_of_eq_Some_iff)
    then have "net' \<noteq> Some net" "map_of (adapters s) net' = Some j"
      using j(2) by (auto simp: update_conv' delete_conv' split: if_splits)
    then show False using ok_lookup [OF ok, of net' j] j(1) by auto
  qed
  moreover have "length ?ads = length (adapters s) - 1"
  proof -
    have "length (AList.update (Some net) i al) = length al" if "Some net \<in> fst ` set al" for al
      using that by (induction al) auto
    moreover have "fst ` set (AList.delete (net_of s i) (adapters s)) = fst ` set (adapters s) - {net_of s i}"
      by (auto simp: AList.delete_eq)
    moreover have "length (AList.delete (net_of s i) (adapters s)) = card (fst ` set (adapters s) - {net_of s i})"
      using distinct_card [of "map fst (AList.delete (net_of s i) (adapters s))"] distinct_delete [OF d] calculation(2)
      by simp
    moreover have "card (fst ` set (adapters s)) = length (adapters s)" using distinct_card [OF d] by simp
    moreover have "net_of s i \<in> fst ` set (adapters s)" using map_of_SomeD [OF mi] by force
    ultimately show ?thesis using k by (simp add: card_Diff_singleton)
  qed
  ultimately show ?thesis by (simp add: e adapter_list_def update_conv')
qed

definition example_router :: nsap where
  "example_router = bound (Some 20) (Some (local_station [5])) (bound (Some 10) (Some (local_station [4])) new_nsap)"

lemma example_router_ok: "nsap_ok example_router"
  unfolding example_router_def
  by (intro bind_ok new_nsap_ok) (simp_all add: bound_def new_nsap_def)

definition example_learner :: nsap where
  "example_learner = bound None (Some (local_station [1])) (bound (Some 10) (Some (local_station [4])) new_nsap)"

lemma number_collision_drops_adapter_witness:
  "0 \<notin> set (adapter_list (snd (number_is_handler 1 10 0 example_learner)))"
proof -
  have "nsap_ok example_learner"
    unfolding example_learner_def by (intro bind_ok new_nsap_ok) (simp_all add: bound_def new_nsap_def)
  moreover have "1 \<in> set (adapter_list example_learner)" "net_of example_learner 1 \<noteq> Some 10"
    "adapterNetConfigured (adapter_of example_learner 1) \<noteq> CONFIGURED"
    "map_of (adapters example_learner) (Some 10) = Some 0" "map_of (number_futures example_learner) 1 = None"
    by (simp_all add: example_learner_def bound_def new_nsap_def adapter_list_def net_of_def new_adapter_def
        UNKNOWN_def CONFIGURED_def)
  ultimately show ?thesis using number_collision_drops_adapter [of example_learner 1 10 0 0] by (simp add: Let_def)
qed

end
