(* ===== verification/NetRouting.thy ===== *)
theory NetRouting
  imports NetElement
begin

text \<open>
  \<^verbatim>\<open>bacpypes3/netservice.py\<close>, \<^verbatim>\<open>NetworkServiceAccessPoint\<close>: sending for the application
  (\<^verbatim>\<open>indication\<close>) and what happens to a received NPDU (\<^verbatim>\<open>process_npdu\<close>): delivery to the
  application or to the element, and routing to the other adapters. Both wait for a future when
  no router is known; what is left to do is then a \<open>waiting\<close> value and the rest of the method
  is a definition of its own.
\<close>

datatype waiting = WaitIndication nat npdu | WaitForward nat nat npdu

section \<open>Sending\<close>

definition as_routed :: "nsap \<Rightarrow> npdu \<Rightarrow> npdu result" where
  "as_routed s n =
     bindR (need AttributeError (local_adapter s)) (\<lambda>l.
     bindR (need AttributeError (adapterAddr (adapter_of s l))) (\<lambda>a.
     bindR (make_remote (net_of s l) (addrAddr a)) (\<lambda>src. Inr (n\<lparr>npduSADR := Some src\<rparr>))))"

definition to_local_adapter :: "net_env \<Rightarrow> npdu \<Rightarrow> unit net_act" where
  "to_local_adapter env n = withS (\<lambda>s.
     case local_adapter s of Some l \<Rightarrow> adapter_process_npdu env l n | None \<Rightarrow> retS ())"

definition send_route_aware :: "net_env \<Rightarrow> address \<Rightarrow> address \<Rightarrow> npdu \<Rightarrow> unit net_act" where
  "send_route_aware env dest r n =
     (if addrType r \<noteq> LocalStationAddr then raiseS AssertionError
      else
        let n = (if addrType dest \<in> {RemoteStationAddr, RemoteBroadcastAddr, GlobalBroadcastAddr}
                 then n\<lparr>npduDADR := Some dest\<rparr> else n) in
        to_local_adapter env (n\<lparr>pduDestination := Some r\<rparr>))"

definition send_global :: "net_env \<Rightarrow> address \<Rightarrow> npdu \<Rightarrow> unit net_act" where
  "send_global env dest n = withS (\<lambda>s.
     let n = n\<lparr>pduDestination := Some local_broadcast, npduDADR := Some dest\<rparr> in
     bindS (liftS (need AttributeError (local_adapter s))) (\<lambda>l. seqS
       [adapter_process_npdu env l n,
        if length (adapters s) > 1 then
          bindS (liftS (as_routed s n)) (\<lambda>n.
          seqS (map (\<lambda>j. adapter_process_npdu env j n) (other_adapters s l)))
        else retS ()]))"

definition send_direct :: "net_env \<Rightarrow> nat \<Rightarrow> address \<Rightarrow> npdu \<Rightarrow> unit net_act" where
  "send_direct env j dest n = withS (\<lambda>s.
     bindS (liftS (if Some j \<noteq> local_adapter s then as_routed s n else Inr n)) (\<lambda>n.
     bindS (if addrType dest = RemoteStationAddr
            then bindS (liftS (need TypeError (addrAddr dest))) (\<lambda>a. retS (local_station a))
            else retS local_broadcast) (\<lambda>d.
     adapter_process_npdu env j (n\<lparr>pduDestination := Some d\<rparr>))))"

definition send_remote :: "net_env \<Rightarrow> address \<Rightarrow> npdu \<Rightarrow> waiting option net_act" where
  "send_remote env dest n = withS (\<lambda>s.
     case map_of (adapters s) (addrNet dest) of
       Some j \<Rightarrow> bindS (send_direct env j dest n) (\<lambda>_. retS None)
     | None \<Rightarrow>
         let n = n\<lparr>pduDestination := None, npduDADR := Some dest\<rparr> in
         bindS (liftS (need TypeError (addrNet dest))) (\<lambda>dnet.
         case find_path (adapters s) dnet (router_info_cache s) of
           Some (j, router) \<Rightarrow>
             bindS (adapter_process_npdu env j (n\<lparr>pduDestination := Some router\<rparr>)) (\<lambda>_. retS None)
         | None \<Rightarrow> bindS (who_is_router_to_network None None (Some dnet)) (\<lambda>k. retS (Some (WaitIndication k n)))))"

definition nsap_indication :: "net_env \<Rightarrow> pdu \<Rightarrow> waiting option net_act" where
  "nsap_indication env p = withS (\<lambda>s.
     if adapters s = [] then raiseS ConfigurationError
     else if \<not> has_element env then raiseS ConfigurationError
     else
       let n = (pci_update (init_npdu (pduData p)) p)\<lparr>npduHopCount := Some 255\<rparr>;
           done = (\<lambda>m. bindS m (\<lambda>_. retS None)) in
       bindS (liftS (need AssertionError (pduDestination p))) (\<lambda>dest.
       if route_aware env \<and> addrRoute dest \<noteq> None then
         done (send_route_aware env dest (the (addrRoute dest)) n)
       else
         case addrType dest of
           LocalStationAddr \<Rightarrow> done (to_local_adapter env n)
         | LocalBroadcastAddr \<Rightarrow> done (to_local_adapter env n)
         | GlobalBroadcastAddr \<Rightarrow> done (send_global env dest n)
         | NullAddr \<Rightarrow> raiseS RuntimeError
         | _ \<Rightarrow> send_remote env dest n))"

text \<open>The future is completed: the answers, or none after the timeout.\<close>

definition resume_indication :: "net_env \<Rightarrow> npdu \<Rightarrow> (nat \<times> npdu) list \<Rightarrow> unit net_act" where
  "resume_indication env n results =
     (case results of
        [(j, m)] \<Rightarrow> adapter_process_npdu env j (n\<lparr>pduDestination := pduSource m\<rparr>)
      | _ \<Rightarrow> raiseS (CommunicationError ''unknownRoute''))"

section \<open>Receiving\<close>

text \<open>
  Source routing: a source on a directly connected network is refused, any other is remembered.
  The outcome is whether to go on.
\<close>

definition learn_source :: "net_env \<Rightarrow> nat \<Rightarrow> npdu \<Rightarrow> bool net_act" where
  "learn_source env i n = withS (\<lambda>s.
     case npduSADR n of
       None \<Rightarrow> retS True
     | Some a \<Rightarrow>
         if addrType a = NullAddr then retS True
         else if map_of (adapters s) (addrNet a) \<noteq> None then retS False
         else
           bindS (liftS (need TypeError (addrNet a))) (\<lambda>snet.
           bindS (liftS (need AttributeError (pduSource n))) (\<lambda>src.
           bindS (lift_cache (update_path_info (set_order env) (net_of s i) src {snet})) (\<lambda>_. retS True))))"

text \<open>Destination routing: whether to process here and whether to forward; \<open>None\<close> drops the NPDU.\<close>

definition classify :: "nsap \<Rightarrow> nat \<Rightarrow> npdu \<Rightarrow> (bool \<times> bool) option result" where
  "classify s i n =
     (case npduDADR n of
        None \<Rightarrow> Inr (Some (Some i = local_adapter s \<or> npduNetMessage n \<noteq> None, False))
      | Some d \<Rightarrow>
          (case addrType d of
             NullAddr \<Rightarrow> Inr (Some (Some i = local_adapter s \<or> npduNetMessage n \<noteq> None, False))
           | RemoteBroadcastAddr \<Rightarrow>
               bindR (need AssertionError (local_adapter s)) (\<lambda>l.
               if addrNet d = net_of s i then Inr None
               else Inr (Some (addrNet d = net_of s l, True)))
           | RemoteStationAddr \<Rightarrow>
               bindR (need AssertionError (local_adapter s)) (\<lambda>l.
               if addrNet d = net_of s i then Inr None
               else if addrNet d = net_of s l then
                 bindR (need AttributeError (adapterAddr (adapter_of s l))) (\<lambda>a.
                 let here = (addrAddr d = addrAddr a) in Inr (Some (here, \<not> here)))
               else Inr (Some (False, True)))
           | GlobalBroadcastAddr \<Rightarrow> Inr (Some (True, True))
           | _ \<Rightarrow> Inr None))"

text \<open>
  The PDU for the application. With \<^verbatim>\<open>route_aware\<close> the route is set in the address object the
  NPDU keeps as its \<^verbatim>\<open>npduSADR\<close>, so the NPDU changes too.
\<close>

definition upward :: "net_env \<Rightarrow> nsap \<Rightarrow> nat \<Rightarrow> npdu \<Rightarrow> (pdu \<times> npdu) result" where
  "upward env s i n =
     bindR (need AssertionError (local_adapter s)) (\<lambda>l.
     let p = pci_update (init_pdu (npduData n)) n;
         routed = (\<lambda>a. if route_aware env then set_route a (pduSource n) else a) in
     if length (adapters s) > 1 \<and> i \<noteq> l then
       bindR (case npduSADR n of
           None \<Rightarrow> bindR (sender s i n) (\<lambda>a. Inr (routed a, n))
         | Some a \<Rightarrow> Inr (routed a, n\<lparr>npduSADR := Some (routed a)\<rparr>)) (\<lambda>(src, n).
       Inr (p\<lparr>pduSource := Some src, pduDestination :=
              (case npduDADR n of
                 None \<Rightarrow> adapterAddr (adapter_of s l)
               | Some d \<Rightarrow>
                   if addrType d = GlobalBroadcastAddr then Some global_broadcast
                   else if addrType d = RemoteBroadcastAddr then Some local_broadcast
                   else adapterAddr (adapter_of s l))\<rparr>, n))
     else
       let (src, n) = (case npduSADR n of
             Some a \<Rightarrow> (Some (routed a), n\<lparr>npduSADR := Some (routed a)\<rparr>)
           | None \<Rightarrow> (pduSource n, n)) in
       Inr (p\<lparr>pduSource := src, pduDestination :=
              (case npduDADR n of
                 Some d \<Rightarrow> if addrType d = GlobalBroadcastAddr then Some global_broadcast else pduDestination n
               | None \<Rightarrow> pduDestination n)\<rparr>, n))"

definition app_response :: "net_env \<Rightarrow> pdu \<Rightarrow> unit net_act" where
  "app_response env p =
     (case app_raises env p of Some e \<Rightarrow> raiseS e | None \<Rightarrow> net_emit (AppResponse p))"

definition npdu_types :: "int list" where
  "npdu_types = [0x00, 0x01, 0x02, 0x03, 0x04, 0x05, 0x06, 0x07, 0x08, 0x09, 0x12, 0x13]"

text \<open>A network layer message of an unknown type ends the processing.\<close>

definition process_locally :: "net_env \<Rightarrow> nat \<Rightarrow> npdu \<Rightarrow> npdu option net_act" where
  "process_locally env i n = withS (\<lambda>s.
     case npduNetMessage n of
       None \<Rightarrow>
         if has_server_peer env then
           bindS (liftS (upward env s i n)) (\<lambda>(p, n). bindS (app_response env p) (\<lambda>_. retS (Some n)))
         else retS (Some n)
     | Some m \<Rightarrow>
         if m \<notin> set npdu_types then retS None
         else bindS (element_indication env i n) (\<lambda>_. retS (Some n)))"

definition forward_copy :: "nsap \<Rightarrow> nat \<Rightarrow> npdu \<Rightarrow> npdu result" where
  "forward_copy s i n =
     bindR (need AttributeError (npduHopCount n)) (\<lambda>hops.
     bindR (sender s i n) (\<lambda>src.
     Inr (n\<lparr>pduSource := None, pduDestination := None, npduHopCount := Some (hops - 1),
       npduSADR := Some src\<rparr>)))"

definition forward_to_net :: "net_env \<Rightarrow> nat \<Rightarrow> address \<Rightarrow> npdu \<Rightarrow> waiting option net_act" where
  "forward_to_net env i d n = withS (\<lambda>s.
     bindS (liftS (need AssertionError (addrNet d))) (\<lambda>dnet.
     case map_of (adapters s) (Some dnet) of
       Some j \<Rightarrow>
         if j = i then retS None
         else
           bindS (if addrType d = RemoteBroadcastAddr then retS local_broadcast
                  else bindS (liftS (need TypeError (addrAddr d))) (\<lambda>a. retS (local_station a))) (\<lambda>dest.
           bindS (adapter_process_npdu env j (n\<lparr>pduDestination := Some dest, npduDADR := None\<rparr>))
             (\<lambda>_. retS None))
     | None \<Rightarrow>
         (case find_path (adapters s) dnet (router_info_cache s) of
            Some (j, router) \<Rightarrow>
              if j = i then retS None
              else bindS (adapter_process_npdu env j (n\<lparr>pduDestination := Some router\<rparr>)) (\<lambda>_. retS None)
          | None \<Rightarrow>
              bindS (who_is_router_to_network None None (Some dnet)) (\<lambda>k. retS (Some (WaitForward k i n))))))"

definition forward :: "net_env \<Rightarrow> nat \<Rightarrow> npdu \<Rightarrow> waiting option net_act" where
  "forward env i n = withS (\<lambda>s.
     if length (adapters s) = 1 then retS None
     else if npduHopCount n = Some 0 then retS None
     else
       bindS (liftS (forward_copy s i n)) (\<lambda>new.
       bindS (liftS (need AssertionError (npduDADR n))) (\<lambda>d.
       case addrType d of
         GlobalBroadcastAddr \<Rightarrow>
           bindS (seqS (map (\<lambda>j. adapter_process_npdu env j (new\<lparr>pduDestination := Some local_broadcast\<rparr>))
             (other_adapters s i))) (\<lambda>_. retS None)
       | RemoteBroadcastAddr \<Rightarrow> forward_to_net env i d new
       | RemoteStationAddr \<Rightarrow> forward_to_net env i d new
       | _ \<Rightarrow> retS None)))"

definition process_npdu :: "net_env \<Rightarrow> nat \<Rightarrow> npdu \<Rightarrow> waiting option net_act" where
  "process_npdu env i n = withS (\<lambda>s.
     if adapters s = [] then raiseS ConfigurationError
     else if \<not> has_element env then raiseS ConfigurationError
     else
       bindS (learn_source env i n) (\<lambda>go. withS (\<lambda>s.
       if \<not> go then retS None
       else bindS (liftS (classify s i n)) (\<lambda>c.
         case c of
           None \<Rightarrow> retS None
         | Some (here, onward) \<Rightarrow>
             bindS (if here then process_locally env i n else retS (Some n)) (\<lambda>r.
             case r of
               Some n \<Rightarrow> if onward then forward env i n else retS None
             | None \<Rightarrow> retS None)))))"

text \<open>
  After the wait the answer is a pair of adapter and message; the code takes the attribute
  \<^verbatim>\<open>pduSource\<close> of that pair.
\<close>

definition resume_forward :: "net_env \<Rightarrow> nat \<Rightarrow> npdu \<Rightarrow> (nat \<times> npdu) list \<Rightarrow> unit net_act" where
  "resume_forward env i n results =
     (case results of
        [r] \<Rightarrow> raiseS AttributeError
      | _ \<Rightarrow> raiseS (CommunicationError ''unknownRoute''))"

text \<open>\<^verbatim>\<open>NetworkAdapter.confirmation\<close>: from the link layer.\<close>

definition adapter_receive :: "net_env \<Rightarrow> nat \<Rightarrow> pdu \<Rightarrow> waiting option net_act" where
  "adapter_receive env i p = bindS (liftS (adapter_confirmation p)) (process_npdu env i)"

section \<open>Invariant\<close>

lemma quiet_sends:
  "quiet (to_local_adapter env n)" "quiet (send_route_aware env d r n)" "quiet (send_global env d n)"
  "quiet (send_direct env j d n)" "quiet (send_remote env d n)"
  unfolding to_local_adapter_def send_route_aware_def send_global_def send_direct_def send_remote_def Let_def
  by (intro quiet_rules quiet_process quiet_requests quiet_seq_map)+

lemma quiet_indication: "quiet (nsap_indication env p)"
  unfolding nsap_indication_def Let_def
  by (intro quiet_rules quiet_sends; simp split: addr_type.split; intro conjI impI quiet_rules quiet_sends)

lemma quiet_forward: "quiet (forward env i n)"
proof -
  have "quiet (forward_to_net env i d m)" for d m
    unfolding forward_to_net_def by (intro quiet_rules quiet_process quiet_requests)
  then show ?thesis
    unfolding forward_def
    by (intro quiet_rules; simp split: addr_type.split; intro conjI impI quiet_rules quiet_seq_map quiet_process)
qed

lemma quiet_upward: "quiet (app_response env p)" "quiet (resume_indication env n rs)"
proof -
  show "quiet (app_response env p)" unfolding app_response_def by (intro quiet_rules)
  show "quiet (resume_indication env n rs)"
    by (auto simp: resume_indication_def quiet_process quiet_basic split: list.split)
qed

lemma learn_source_eq:
  assumes ok: "nsap_ok s" and o: "is_order (set_order env)"
  shows "nsap_ok (snd (learn_source env i n s))" "adapters (snd (learn_source env i n s)) = adapters s"
    "adapter_of (snd (learn_source env i n s)) = adapter_of s"
proof -
  have c: "\<exists>c. lift_cache (update_path_info (set_order env) net a {d}) s = (Inr (), s\<lparr>router_info_cache := c\<rparr>) \<and>
      nsap_ok (s\<lparr>router_info_cache := c\<rparr>)" for net a d
    using lift_cache_update_ok [OF ok o, of "{d}" net a] by blast
  have "nsap_ok (snd (learn_source env i n s)) \<and> adapters (snd (learn_source env i n s)) = adapters s \<and>
      adapter_of (snd (learn_source env i n s)) = adapter_of s"
  proof (cases "npduSADR n")
    case (Some a)
    show ?thesis
    proof (cases "addrType a = NullAddr \<or> map_of (adapters s) (addrNet a) \<noteq> None \<or> addrNet a = None \<or> pduSource n = None")
      case True
      then show ?thesis using ok Some
        by (cases "addrNet a"; cases "pduSource n") (auto simp: learn_source_def act_simps bindS_def)
    next
      case False
      then obtain net src where ns: "addrNet a = Some net" "pduSource n = Some src" by auto
      obtain c where "lift_cache (update_path_info (set_order env) (net_of s i) src {net}) s = (Inr (), s\<lparr>router_info_cache := c\<rparr>)"
        "nsap_ok (s\<lparr>router_info_cache := c\<rparr>)" using c by blast
      then show ?thesis using Some False ns by (simp add: learn_source_def act_simps)
    qed
  qed (use ok in \<open>simp add: learn_source_def act_simps\<close>)
  then show "nsap_ok (snd (learn_source env i n s))" "adapters (snd (learn_source env i n s)) = adapters s"
    "adapter_of (snd (learn_source env i n s)) = adapter_of s" by blast+
qed

lemma process_npdu_ok:
  assumes ok: "nsap_ok s" and o: "is_order (set_order env)" and i: "i \<in> set (adapter_list s)"
    and free: "number_free s i n"
  shows "nsap_ok (snd (process_npdu env i n s))"
proof -
  note l = learn_source_eq [OF ok o, of i n]
  have local: "nsap_ok (snd (process_locally env i n t))"
    if t: "nsap_ok t" "adapters t = adapters s" "adapter_of t = adapter_of s" for t
  proof -
    have f: "i \<in> set (adapter_list t)" "number_free t i n"
      using i free t by (simp_all add: adapter_list_def number_free_def net_of_def)
    show ?thesis
    proof (cases "npduNetMessage n")
      case None
      have "keeps nsap_ok (if has_server_peer env then
           bindS (liftS (upward env t i n)) (\<lambda>(p, n). bindS (app_response env p) (\<lambda>_. retS (Some n)))
         else retS (Some n))"
        by (intro quiet_keeps_ok quiet_rules quiet_upward)
      then show ?thesis using None keepsD t(1) by (fastforce simp: process_locally_def withS_def)
    next
      case (Some m)
      have "nsap_ok (snd (bindS (element_indication env i n) (\<lambda>_. retS (Some n)) t))"
        by (rule snd_bindS) (use element_indication_ok [OF t(1) o f] in \<open>simp_all add: act_simps\<close>)
      then show ?thesis using Some t(1) by (simp add: process_locally_def act_simps)
    qed
  qed
  have after: "keeps nsap_ok (case r of Some n \<Rightarrow> if onward then forward env i n else retS None | None \<Rightarrow> retS None)"
    for r onward
    by (intro quiet_keeps_ok quiet_rules quiet_forward)
  have "nsap_ok (snd (bindS (learn_source env i n) (\<lambda>go. withS (\<lambda>s.
       if \<not> go then retS None
       else bindS (liftS (classify s i n)) (\<lambda>c.
         case c of
           None \<Rightarrow> retS None
         | Some (here, onward) \<Rightarrow>
             bindS (if here then process_locally env i n else retS (Some n)) (\<lambda>r.
             case r of
               Some n \<Rightarrow> if onward then forward env i n else retS None
             | None \<Rightarrow> retS None)))) s))"
  proof (rule snd_bindS)
    fix go t
    assume "learn_source env i n s = (Inr go, t)"
    then have t: "nsap_ok t" "adapters t = adapters s" "adapter_of t = adapter_of s" using l by simp_all
    have c: "nsap_ok (snd ((case c of None \<Rightarrow> retS None
         | Some (here, onward) \<Rightarrow>
             bindS (if here then process_locally env i n else retS (Some n)) (\<lambda>r.
             case r of
               Some n \<Rightarrow> if onward then forward env i n else retS None
             | None \<Rightarrow> retS None)) t))" for c
    proof (cases c)
      case (Some ho)
      obtain here onward where ho: "ho = (here, onward)" by (cases ho)
      have "nsap_ok (snd (bindS (if here then process_locally env i n else retS (Some n)) (\<lambda>r.
             case r of
               Some n \<Rightarrow> if onward then forward env i n else retS None
             | None \<Rightarrow> retS None) t))"
        by (rule snd_bindS) (use local [OF t] t(1) keepsD [OF after] in \<open>simp_all add: act_simps\<close>)
      then show ?thesis using Some ho by simp
    qed (use t(1) in \<open>simp add: act_simps\<close>)
    have "nsap_ok (snd (bindS (liftS (classify t i n)) (\<lambda>c.
         case c of
           None \<Rightarrow> retS None
         | Some (here, onward) \<Rightarrow>
             bindS (if here then process_locally env i n else retS (Some n)) (\<lambda>r.
             case r of
               Some n \<Rightarrow> if onward then forward env i n else retS None
             | None \<Rightarrow> retS None)) t))"
      by (rule snd_bindS) (use t(1) c in \<open>auto simp: act_simps\<close>)
    then show "nsap_ok (snd (withS (\<lambda>s.
       if \<not> go then retS None
       else bindS (liftS (classify s i n)) (\<lambda>c.
         case c of
           None \<Rightarrow> retS None
         | Some (here, onward) \<Rightarrow>
             bindS (if here then process_locally env i n else retS (Some n)) (\<lambda>r.
             case r of
               Some n \<Rightarrow> if onward then forward env i n else retS None
             | None \<Rightarrow> retS None))) t))"
      using t(1) by (simp add: act_simps)
  qed (use l in simp)
  then show ?thesis using ok by (simp add: process_npdu_def act_simps)
qed

text \<open>
  Property C28. The network layer keeps its invariant: the dictionary of adapters is a bijection
  between the numbers the adapters carry and the bound adapters, the local adapter is one of
  them, and the router cache is consistent. Sending, binding and every received NPDU preserve
  it, except a Network-Number-Is that names the network of an adapter other than the one it
  arrived on, whose own number is not configured (which takes that other adapter out of the
  dictionary).
\<close>
theorem nsap_invariant:
  assumes ok: "nsap_ok s" and o: "is_order (set_order env)" and i: "i \<in> set (adapter_list s)"
    and free: "number_free s i n"
  shows "nsap_ok (snd (process_npdu env i n s)) \<and> nsap_ok (snd (nsap_indication env p s)) \<and>
    nsap_ok (snd (resume_indication env n rs s)) \<and> nsap_ok (snd (nsap_bind net addr s)) \<and>
    (adapters s \<noteq> [] \<longrightarrow> (\<exists>l. local_adapter s = Some l \<and> map_of (adapters s) (net_of s l) = Some l))"
proof -
  have "nsap_ok (snd (nsap_bind net addr s))"
    using bind_ok [OF ok, of net addr] bind_eq [of s net addr] ok
    by (cases "map_of (adapters s) net") (simp_all, simp add: nsap_bind_def act_simps)
  moreover have "\<exists>l. local_adapter s = Some l \<and> map_of (adapters s) (net_of s l) = Some l" if "adapters s \<noteq> []"
    using ok that ok_lookup [OF ok] by (auto simp: nsap_ok_def)
  ultimately show ?thesis
    using process_npdu_ok [OF assms] quiet_ok [OF quiet_indication ok] quiet_ok [OF quiet_upward(2) ok] by blast
qed

lemma nsap_invariant_witness:
  "nsap_ok (snd (process_npdu example_env 1 example_npdu example_router))"
proof -
  have "is_order (set_order example_env)" by (simp add: example_env_def sorted_is_order)
  moreover have "1 \<in> set (adapter_list example_router)"
    by (simp add: example_router_def bound_def new_nsap_def adapter_list_def)
  moreover have "number_free example_router 1 example_npdu"
    by (simp add: number_free_def example_npdu_def message_npdu_def)
  ultimately show ?thesis using nsap_invariant [OF example_router_ok] by blast
qed

section \<open>Safety of routing\<close>

text \<open>The events an action adds.\<close>

definition new_events :: "nsap \<Rightarrow> nsap \<Rightarrow> net_event list" where
  "new_events s t = drop (length (net_out s)) (net_out t)"

text \<open>
  A received NPDU whose source address lies on a network the router is directly
  connected to is dropped without any effect: nothing is learned, delivered or forwarded. An
  NPDU addressed to a station or broadcast of the network it came from is neither delivered nor
  forwarded.
\<close>
theorem spoofed_source_dropped:
  assumes "adapters s \<noteq> []" "has_element env"
  shows "(\<forall>a. npduSADR n = Some a \<and> addrType a = RemoteStationAddr \<and> map_of (adapters s) (addrNet a) \<noteq> None \<longrightarrow>
      process_npdu env i n s = (Inr None, s)) \<and>
    (\<forall>d. npduSADR n = None \<and> npduDADR n = Some d \<and> addrType d \<in> {RemoteStationAddr, RemoteBroadcastAddr} \<and>
      addrNet d = net_of s i \<and> local_adapter s \<noteq> None \<longrightarrow> process_npdu env i n s = (Inr None, s))"
  using assms by (auto simp: process_npdu_def act_simps learn_source_def classify_def)

lemma spoofed_source_dropped_witness:
  "process_npdu example_env 1 (example_npdu\<lparr>npduSADR := Some (Address RemoteStationAddr (Some 10) (Some [3]) None)\<rparr>)
    example_router = (Inr None, example_router)"
proof -
  have "adapters example_router \<noteq> []" "has_element example_env" "map_of (adapters example_router) (Some 10) \<noteq> None"
    by (simp_all add: example_router_def bound_def new_nsap_def example_env_def)
  then show ?thesis using spoofed_source_dropped [of example_router example_env] by simp
qed

text \<open>What the router sends on for an NPDU it received on adapter \<open>i\<close>.\<close>

definition relayed :: "net_env \<Rightarrow> nsap \<Rightarrow> nat \<Rightarrow> npdu \<Rightarrow> net_event \<Rightarrow> bool" where
  "relayed env s i n e \<longleftrightarrow> (\<exists>j p m h. e = LinkRequest j p \<and> j \<noteq> i \<and> j \<in> set (adapter_list s) \<and>
     npdu_encode m = Inr p \<and> npduHopCount n = Some h \<and> h \<noteq> 0 \<and> npduHopCount m = Some (h - 1) \<and>
     npduData m = npduData n \<and> npduMessage m = npduMessage n \<and>
     pduExpectingReply m = pduExpectingReply n \<and> pduNetworkPriority m = pduNetworkPriority n \<and>
     npduNetMessage m = npduNetMessage n \<and> npduVersion m = npduVersion n \<and>
     npduVendorID m = npduVendorID n \<and> pduSource m = None \<and>
     (\<exists>a r. sender s i n = Inr a \<and> npduSADR m = Some (set_route a r)) \<and>
     (npduDADR m = None \<or> npduDADR m = npduDADR n))"

definition only_relays :: "net_env \<Rightarrow> nat \<Rightarrow> npdu \<Rightarrow> nsap \<Rightarrow> nsap \<Rightarrow> bool" where
  "only_relays env i n s t \<longleftrightarrow> adapters t = adapters s \<and> adapter_of t = adapter_of s \<and>
     local_adapter t = local_adapter s \<and>
     (\<exists>es. net_out t = net_out s @ es \<and> (\<forall>e \<in> set es. (\<exists>p. e = AppResponse p) \<or> relayed env s i n e))"

lemma only_relays_self: "only_relays env i n s s"
  by (simp add: only_relays_def)

lemma only_relays_frame:
  assumes "only_relays env i n s t"
  shows "only_relays env i n s (t\<lparr>router_info_cache := c\<rparr>)"
    "only_relays env i n s (t\<lparr>tasks := ts\<rparr>)"
    "only_relays env i n s (t\<lparr>next_future := k, router_futures := fs\<rparr>)"
  using assms by (simp_all add: only_relays_def)

lemma relays_emit:
  assumes "(\<exists>p. e = AppResponse p) \<or> relayed env s i n e"
  shows "keeps (only_relays env i n s) (net_emit e)"
  unfolding net_emit_def
proof (rule keeps_mod)
  fix t assume t: "only_relays env i n s t"
  then obtain es where "net_out t = net_out s @ es" "\<forall>e \<in> set es. (\<exists>p. e = AppResponse p) \<or> relayed env s i n e"
    by (auto simp: only_relays_def)
  then have "net_out t @ [e] = net_out s @ (es @ [e]) \<and>
      (\<forall>e \<in> set (es @ [e]). (\<exists>p. e = AppResponse p) \<or> relayed env s i n e)"
    using assms by auto
  then show "only_relays env i n s (t\<lparr>net_out := net_out t @ [e]\<rparr>)"
    using t unfolding only_relays_def by (auto simp: Un_iff)
qed

lemma relays_process:
  assumes "\<And>p. npdu_encode m = Inr p \<Longrightarrow> relayed env s i n (LinkRequest j p)"
  shows "keeps (only_relays env i n s) (adapter_process_npdu env j m)"
  unfolding adapter_process_npdu_def using assms by (intro keeps_rules relays_emit) auto

lemma relays_who_is: "keeps (only_relays env i n s) (who_is_router_to_network ad d net)"
  unfolding who_is_router_to_network_def create_task_def Let_def
  by (intro keeps_rules) (auto intro: only_relays_frame)

lemma sender_cong: "adapter_of t = adapter_of s \<Longrightarrow> sender t i n = sender s i n"
  by (simp add: sender_def net_of_def split: option.split)

definition same_npdu :: "npdu \<Rightarrow> npdu \<Rightarrow> bool" where
  "same_npdu n n' \<longleftrightarrow> n' = n \<or> (\<exists>a r. npduSADR n = Some a \<and> n' = n\<lparr>npduSADR := Some (set_route a r)\<rparr>)"

lemma set_route_id [simp]: "set_route a (addrRoute a) = a"
  by (cases a) (simp add: set_route_def)

lemma same_sender:
  assumes "same_npdu n n'" "sender s i n' = Inr a'"
  shows "\<exists>a r. sender s i n = Inr a \<and> a' = set_route a r"
proof (cases "n' = n")
  case True
  then show ?thesis using assms(2) set_route_id by metis
next
  case False
  then show ?thesis using assms by (auto simp: same_npdu_def sender_def)
qed

lemma find_path_adapter: "find_path (adapters s) d c = Some (j, r) \<Longrightarrow> j \<in> set (adapter_list s)"
  using find_path_Some by (fastforce simp: adapter_list_def)

lemma relays_forward:
  assumes n': "same_npdu n n'"
  shows "keeps (only_relays env i n s) (forward env i n')"
proof -
  have copy: "relayed env s i n (LinkRequest j p)"
    if c: "only_relays env i n s t" "npduHopCount n' \<noteq> Some 0" "forward_copy t i n' = Inr m" "j \<noteq> i" "j \<in> set (adapter_list t)"
      "npdu_encode (m\<lparr>pduDestination := d, npduDADR := da\<rparr>) = Inr p" "da = None \<or> da = npduDADR m"
    for t m j d da p
  proof -
    have t: "adapters t = adapters s" "adapter_of t = adapter_of s" using c(1) by (auto simp: only_relays_def)
    then have al: "j \<in> set (adapter_list s)" using c(5) by (simp add: adapter_list_def)
    obtain h a' where h: "npduHopCount n' = Some h" "sender s i n' = Inr a'"
      "m = n'\<lparr>pduSource := None, pduDestination := None, npduHopCount := Some (h - 1), npduSADR := Some a'\<rparr>"
      using c(3) by (auto simp: forward_copy_def bindR_eq_Inr_iff sender_cong [OF t(2)])
    obtain a r where "sender s i n = Inr a" "a' = set_route a r" using same_sender [OF n' h(2)] by blast
    then show ?thesis
      unfolding relayed_def using c h al n'
      by (intro exI [of _ j] exI [of _ p] exI [of _ "m\<lparr>pduDestination := d, npduDADR := da\<rparr>"] exI [of _ h])
        (auto simp: same_npdu_def)
  qed
  have net: "keeps (only_relays env i n s) (forward_to_net env i d m)"
    if H: "\<And>t j d da p. only_relays env i n s t \<Longrightarrow> j \<noteq> i \<Longrightarrow> j \<in> set (adapter_list t) \<Longrightarrow>
      npdu_encode (m\<lparr>pduDestination := d, npduDADR := da\<rparr>) = Inr p \<Longrightarrow> da = None \<or> da = npduDADR m \<Longrightarrow>
      relayed env s i n (LinkRequest j p)" for d m
  proof -
    have 1: "keeps (only_relays env i n s) (adapter_process_npdu env j (m\<lparr>pduDestination := Some dest, npduDADR := None\<rparr>))"
      if "only_relays env i n s t" "map_of (adapters t) net = Some j" "j \<noteq> i" for t net j dest
      using that H [OF that(1,3)]
      by (intro relays_process) (force simp: adapter_list_def dest: map_of_SomeD)
    have 2: "keeps (only_relays env i n s) (adapter_process_npdu env j (m\<lparr>pduDestination := Some r\<rparr>))"
      if "only_relays env i n s t" "find_path (adapters t) net c = Some (j, r)" "j \<noteq> i" for t net c j r
      using that H [OF that(1,3), where d = "Some r" and da = "npduDADR m"]
        find_path_adapter [OF that(2)]
      by (intro relays_process) simp
    show ?thesis
      unfolding forward_to_net_def using 1 2 by (intro keeps_rules relays_who_is) auto
  qed
  show ?thesis
    unfolding forward_def
  proof (intro keeps_with keeps_if keeps_basic keeps_lift)
    fix t m d
    assume t: "only_relays env i n s t" and h: "npduHopCount n' \<noteq> Some 0" and m: "forward_copy t i n' = Inr m"
    have m': "relayed env s i n (LinkRequest j p)"
      if "only_relays env i n s u" "j \<noteq> i" "j \<in> set (adapter_list u)"
        "npdu_encode (m\<lparr>pduDestination := d, npduDADR := da\<rparr>) = Inr p" "da = None \<or> da = npduDADR m" for u j d da p
    proof -
      have "forward_copy u i n' = Inr m"
        using m t that(1) by (simp add: forward_copy_def only_relays_def sender_cong [of u s] sender_cong [of t s])
      then show ?thesis using copy that h by blast
    qed
    have "keeps (only_relays env i n s) (bindS (seqS (map (\<lambda>j. adapter_process_npdu env j (m\<lparr>pduDestination := Some local_broadcast\<rparr>))
             (other_adapters t i))) (\<lambda>_. retS None))"
      using m' [OF t, where d = "Some local_broadcast" and da = "npduDADR m"]
      by (intro keeps_rules relays_process) (auto simp: other_adapters_def)
    then show "keeps (only_relays env i n s) (case addrType d of
         GlobalBroadcastAddr \<Rightarrow>
           bindS (seqS (map (\<lambda>j. adapter_process_npdu env j (m\<lparr>pduDestination := Some local_broadcast\<rparr>))
             (other_adapters t i))) (\<lambda>_. retS None)
       | RemoteBroadcastAddr \<Rightarrow> forward_to_net env i d m
       | RemoteStationAddr \<Rightarrow> forward_to_net env i d m
       | _ \<Rightarrow> retS None)"
      using net [OF m'] by (cases "addrType d") (simp_all add: keeps_basic)
  qed
qed

text \<open>
  An NPDU that the router's own element has no part in: one for an application, or a network
  layer message for a station or for all stations of a network other than the router's own.
\<close>

definition in_transit :: "nsap \<Rightarrow> npdu \<Rightarrow> bool" where
  "in_transit s n \<longleftrightarrow> npduNetMessage n = None \<or>
     (\<exists>d. npduDADR n = Some d \<and> addrType d \<in> {RemoteStationAddr, RemoteBroadcastAddr} \<and>
       (\<forall>l. local_adapter s = Some l \<longrightarrow> addrNet d \<noteq> net_of s l))"

lemma in_transit_app: "npduNetMessage n = None \<Longrightarrow> in_transit s n"
  by (simp add: in_transit_def)

lemma in_transit_here:
  assumes "in_transit s n" "adapter_of t = adapter_of s" "local_adapter t = local_adapter s"
    "classify t i n = Inr (Some (True, onward))"
  shows "npduNetMessage n = None"
  using assms by (auto simp: in_transit_def classify_def bindR_eq_Inr_iff need_eq_Inr_iff net_of_def split: if_splits)

lemma process_only_relays:
  assumes "in_transit s n"
  shows "only_relays env i n s (snd (process_npdu env i n s))"
proof -
  have app: "keeps (only_relays env i n s) (app_response env p)" for p
    unfolding app_response_def by (intro keeps_rules relays_emit) auto
  have learn: "keeps (only_relays env i n s) (learn_source env i n)"
    unfolding learn_source_def lift_cache_def
    by (intro keeps_rules) (auto intro: only_relays_frame)
  have up: "same_npdu n n'" if "upward env t i n = Inr (p, n')" for t p n'
    using that by (auto simp: upward_def same_npdu_def Let_def bindR_eq_Inr_iff
        split: option.splits if_splits)
  have here: "keeps (only_relays env i n s) (bindS (if here then process_locally env i n else retS (Some n)) (\<lambda>r.
             case r of
               Some n \<Rightarrow> if onward then forward env i n else retS None
             | None \<Rightarrow> retS None))" if net: "here \<Longrightarrow> npduNetMessage n = None" for here onward
  proof -
    have "only_relays env i n s (snd (bindS (if here then process_locally env i n else retS (Some n)) (\<lambda>r.
             case r of
               Some n \<Rightarrow> if onward then forward env i n else retS None
             | None \<Rightarrow> retS None) t))" if t: "only_relays env i n s t" for t
    proof (rule snd_bindS)
    have "keeps (only_relays env i n s) (process_locally env i n)" if here
      unfolding process_locally_def using net [OF that] by (intro keeps_rules app) simp_all
    then show "only_relays env i n s (snd ((if here then process_locally env i n else retS (Some n)) t))"
      using t by (simp add: keeps_def act_simps)
    fix r u
    assume r: "(if here then process_locally env i n else retS (Some n)) t = (Inr r, u)" "only_relays env i n s u"
    have "same_npdu n n'" if n': "r = Some n'" for n'
    proof (cases here)
      case True
      show ?thesis
      proof (cases "has_server_peer env")
        case True
        with \<open>here\<close> r(1) n' net obtain p where "upward env t i n = Inr (p, n')"
          by (auto simp: process_locally_def act_simps bindS_def split: prod.splits sum.splits)
        then show ?thesis by (rule up)
      next
        case False
        with \<open>here\<close> r(1) n' net show ?thesis by (simp add: process_locally_def act_simps same_npdu_def)
      qed
    qed (use r(1) n' in \<open>simp add: act_simps same_npdu_def\<close>)
    then show "only_relays env i n s (snd ((case r of
               Some n \<Rightarrow> if onward then forward env i n else retS None
             | None \<Rightarrow> retS None) u))"
      using r(2) keepsD [OF relays_forward] by (cases r) (auto simp: act_simps)
    qed
    then show ?thesis by (simp add: keeps_def)
  qed
  have "keeps (only_relays env i n s) (process_npdu env i n)"
    unfolding process_npdu_def
    by (intro here keeps_rules learn) (auto simp: only_relays_def dest: in_transit_here [OF assms])
  then show ?thesis by (rule keepsD) (rule only_relays_self)
qed

lemma process_relays:
  assumes "in_transit s n" "e \<in> set (new_events s (snd (process_npdu env i n s)))"
  shows "(\<exists>p. e = AppResponse p) \<or> relayed env s i n e"
  using process_only_relays [OF assms(1), of env i] assms(2)
  by (auto simp: only_relays_def new_events_def)

text \<open>
  Property C27. A router receives an NPDU for applications, or a network layer message for a
  station or all stations of a network other than its own (messages that its own element handles,
  which it answers or announces anew, are not covered). Whatever it sends on goes to another
  adapter than the one it arrived on and carries the same data, priority, reply flag, message and
  origin, with a hop count that is one less; an NPDU whose hop count is 0 is not sent on at all.
  Nothing else is sent.
\<close>
theorem routing_is_safe:
  assumes "in_transit s n" "e \<in> set (new_events s (snd (process_npdu env i n s)))"
  shows "(\<exists>p. e = AppResponse p) \<or> relayed env s i n e"
  using assms by (rule process_relays)

definition example_broadcast :: npdu where
  "example_broadcast = (init_npdu [1, 2])\<lparr>npduDADR := Some global_broadcast, npduHopCount := Some 5,
     pduSource := Some (local_station [9])\<rparr>"

lemma example_broadcast_events:
  "map (\<lambda>e. case e of LinkRequest j p \<Rightarrow> Some (j, pduData p) | AppResponse p \<Rightarrow> None)
     (net_out (snd (process_npdu example_env 1 example_broadcast example_router))) =
   [None, Some (0, [1, 0x28, 0xFF, 0xFF, 0, 0, 20, 1, 9, 4, 1, 2])]"
  by code_simp

lemma example_broadcast_relayed:
  "\<exists>e \<in> set (new_events example_router (snd (process_npdu example_env 1 example_broadcast example_router))).
     relayed example_env example_router 1 example_broadcast e"
proof -
  have n: "in_transit example_router example_broadcast"
    by (simp add: in_transit_def example_broadcast_def init_npdu_def npci.defs init_npci_def pci.defs init_pci_def)
  have "net_out example_router = []" by (simp add: example_router_def bound_def new_nsap_def)
  moreover obtain e0 e1 where "net_out (snd (process_npdu example_env 1 example_broadcast example_router)) = [e0, e1]"
    "(case e1 of LinkRequest j p \<Rightarrow> Some (j, pduData p) | AppResponse p \<Rightarrow> None) \<noteq> None"
    using example_broadcast_events unfolding map_eq_Cons_conv by (metis list.map_disc_iff option.discI)
  moreover obtain j p where "e1 = LinkRequest j p" using calculation(3) by (cases e1) auto
  ultimately have "LinkRequest j p \<in> set (new_events example_router (snd (process_npdu example_env 1 example_broadcast example_router)))"
    by (simp add: new_events_def)
  then show ?thesis using process_relays [OF n] by blast
qed

lemma routing_is_safe_witness:
  "\<exists>e \<in> set (new_events example_router (snd (process_npdu example_env 1 example_broadcast example_router))).
     relayed example_env example_router 1 example_broadcast e"
proof -
  have n: "in_transit example_router example_broadcast"
    by (simp add: in_transit_def example_broadcast_def init_npdu_def npci.defs init_npci_def pci.defs init_pci_def)
  obtain e where e: "e \<in> set (new_events example_router (snd (process_npdu example_env 1 example_broadcast example_router)))"
    "\<not> (\<exists>p. e = AppResponse p)"
    using example_broadcast_relayed by (auto simp: relayed_def)
  then show ?thesis using routing_is_safe [OF n e(1)] by blast
qed

section \<open>Hops\<close>

text \<open>What a link layer hands to the adapters it connects: the octets, the sender and the destination.\<close>

definition deliver :: "address \<Rightarrow> address option \<Rightarrow> pdu \<Rightarrow> pdu" where
  "deliver src dst p = (init_pdu (pduData p))\<lparr>pduSource := Some src, pduDestination := dst\<rparr>"

lemma npci_decode_pci:
  assumes "pduSource p = pduSource q" "pduDestination p = pduDestination q" "pduUserData p = pduUserData q"
  shows "npci_decode p s = npci_decode q s"
proof -
  have eq: "(pci_update init_npci p)\<lparr>npduVersion := v, npduControl := c, pduExpectingReply := e, pduNetworkPriority := r,
      npduDADR := d, npduSADR := a, npduHopCount := h, npduNetMessage := m, npduVendorID := x\<rparr> =
    (pci_update init_npci q)\<lparr>npduVersion := v, npduControl := c, pduExpectingReply := e, pduNetworkPriority := r,
      npduDADR := d, npduSADR := a, npduHopCount := h, npduNetMessage := m, npduVendorID := x\<rparr>"
    for v c e r d a h m x
    using assms by (simp add: pci_update_def)
  show ?thesis unfolding npci_decode_def eq by (rule refl)
qed

lemma npci_octets_only:
  "npci_encode (n\<lparr>pduSource := a, pduDestination := b, pduUserData := u\<rparr>) = npci_encode n"
proof -
  have "npci_control (n\<lparr>pduSource := a, pduDestination := b, pduUserData := u\<rparr>) = npci_control n"
    by (simp add: npci_control_def)
  then show ?thesis
    by (cases "npduDADR n"; cases "npduSADR n"; cases "npduNetMessage n") (simp_all add: npci_encode_def cong: if_cong)
qed

text \<open>An application NPDU survives the link.\<close>

lemma receive_delivered:
  assumes w: "wf_npci n" "npduNetMessage n = None" "npduMessage n = None" and p: "npdu_encode n = Inr p"
  shows "adapter_confirmation (deliver src dst p) = Inr (n\<lparr>npduControl := Some (npci_control n),
    pduSource := Some src, pduDestination := dst, pduUserData := None\<rparr>)"
proof -
  define n' where "n' = n\<lparr>pduSource := Some src, pduDestination := dst, pduUserData := None\<rparr>"
  obtain bs where bs: "npci_encode n = Inr bs" using p by (auto simp: npdu_encode_def bindR_eq_Inr_iff)
  then have data: "pduData p = bs @ npduData n"
    using p w(3) by (auto simp: npdu_encode_def pdu_of_def pdu_put_data_def init_pdu_def init_pci_def pci.defs pci_update_def)
  have bs': "npci_encode n' = Inr bs" using bs by (simp add: n'_def npci_octets_only)
  have w': "wf_npci n'" using w(1) by (simp add: n'_def wf_npci_def)
  have "npdu_decode (deliver src dst p) = npdu_decode (pdu_of n' (bs @ npduData n'))"
  proof -
    have "npci_decode (deliver src dst p) s = npci_decode (pdu_of n' (bs @ npduData n')) s" for s
      by (rule npci_decode_pci) (simp_all add: deliver_def init_pdu_def init_pci_def pci.defs pdu_of_def n'_def)
    then show ?thesis
      by (simp add: npdu_decode_def deliver_def data pdu_of_def init_pdu_def pci.defs pci_update_def n'_def)
  qed
  also have "\<dots> = Inr ((npci_update (init_npdu (npduData n')) n')\<lparr>npduControl := Some (npci_control n')\<rparr>)"
    by (rule npdu_decode_octets [OF w' bs'])
  finally show ?thesis
    using w by (simp add: adapter_confirmation_def npci_update_def pci_update_def init_npdu_def init_npci_def
        init_pci_def npci.defs pci.defs n'_def npci_control_def split: option.splits)
qed

text \<open>
  Encoding ignores the route of the source address, and the hop count of an NPDU without a
  destination network.
\<close>

definition canonical :: "npdu \<Rightarrow> npdu" where
  "canonical m = m\<lparr>npduSADR := map_option (\<lambda>a. set_route a None) (npduSADR m),
     npduHopCount := (if npduDADR m = None then None else npduHopCount m)\<rparr>"

lemma encode_canonical: "npdu_encode (canonical m) = npdu_encode m"
proof -
  have "npci_control (canonical m) = npci_control m" by (simp add: npci_control_def canonical_def)
  then have "npci_encode (canonical m) = npci_encode m"
    by (cases "npduSADR m"; cases "npduDADR m"; cases "npduNetMessage m")
      (simp_all add: npci_encode_def canonical_def put_station_def set_route_def cong: if_cong)
  moreover have "pdu_of (canonical m) d = pdu_of m d" "npduData (canonical m) = npduData m"
    "npduMessage (canonical m) = npduMessage m" for d
    by (simp_all add: canonical_def pdu_of_def pci_update_def)
  ultimately show ?thesis by (cases "npduMessage m") (simp_all add: npdu_encode_def)
qed

definition station_source :: "npdu \<Rightarrow> bool" where
  "station_source n \<longleftrightarrow> (\<exists>a. pduSource n = Some (local_station a) \<and> a \<noteq> [] \<and> length a < 256)"

lemma wf_set_route: "wf_station a \<Longrightarrow> set_route a None = a"
  by (auto simp: wf_station_def set_route_def)

lemma sender_wf:
  assumes "station_source n" "pred_option wf_station (npduSADR n)" "sender s i n = Inr a"
  shows "wf_station a"
  using assms
  by (auto simp: sender_def station_source_def make_remote_def remote_station_def local_station_def
      wf_station_def bindR_eq_Inr_iff split: option.splits if_splits)

lemma relayed_arrives:
  assumes w: "wf_npci n" "npduNetMessage n = None" "npduMessage n = None" "station_source n"
    and r: "relayed env s i n (LinkRequest j p)"
  obtains n' h where "adapter_confirmation (deliver src dst p) = Inr n'" "wf_npci n'" "npduMessage n' = None"
    "npduNetMessage n' = None" "npduHopCount n = Some h" "0 < h" "npduData n' = npduData n"
    "pduSource n' = Some src" "npduDADR n' = None \<or> npduHopCount n' = Some (h - 1)"
proof -
  obtain m h a q where m: "npdu_encode m = Inr p" "npduHopCount n = Some h" "h \<noteq> 0" "npduHopCount m = Some (h - 1)"
     "npduData m = npduData n" "npduMessage m = npduMessage n" "pduNetworkPriority m = pduNetworkPriority n"
     "npduNetMessage m = npduNetMessage n" "sender s i n = Inr a" "npduSADR m = Some (set_route a q)"
     "npduDADR m = None \<or> npduDADR m = npduDADR n" "npduVersion m = npduVersion n" "npduVendorID m = npduVendorID n"
    using r unfolding relayed_def by blast
  have a: "wf_station a" using sender_wf [OF w(4) _ m(9)] w(1) by (simp add: wf_npci_def)
  have hb: "0 \<le> h" "h < 256" using w(1) m(2) by (auto simp: wf_npci_def)
  have "wf_npci (canonical m)"
    using w(1) m a hb wf_set_route [OF a]
    by (auto simp: wf_npci_def canonical_def set_route_def)
  moreover have "npduNetMessage (canonical m) = None" "npduMessage (canonical m) = None"
    using w m by (simp_all add: canonical_def)
  moreover have "npdu_encode (canonical m) = Inr p" using m(1) by (simp add: encode_canonical)
  ultimately have R: "adapter_confirmation (deliver src dst p) = Inr ((canonical m)\<lparr>npduControl := Some (npci_control (canonical m)),
    pduSource := Some src, pduDestination := dst, pduUserData := None\<rparr>)" "wf_npci (canonical m)"
    using receive_delivered by blast+
  have "npduDADR n \<noteq> None" using w(1) m(2) by (auto simp: wf_npci_def)
  show ?thesis
    by (rule that [OF R(1), of h]) (use R(2) m w hb in \<open>auto simp: canonical_def wf_npci_def\<close>)
qed

text \<open>
  The journey of an NPDU: \<open>k\<close> times some router, in whatever state, processes it and what it
  sends on is received by an adapter of the next router.
\<close>

inductive travels :: "nat \<Rightarrow> npdu \<Rightarrow> npdu \<Rightarrow> bool" where
  start: "travels 0 n n"
| hop: "travels k n n' \<Longrightarrow> LinkRequest j p \<in> set (new_events s (snd (process_npdu env i n' s))) \<Longrightarrow>
    a \<noteq> [] \<Longrightarrow> length a < 256 \<Longrightarrow> adapter_confirmation (deliver (local_station a) dst p) = Inr n'' \<Longrightarrow>
    travels (Suc k) n n''"

inductive_cases travels_SucE: "travels (Suc k) n n'"

definition hops_left :: "npdu \<Rightarrow> int" where
  "hops_left n = (case npduHopCount n of None \<Rightarrow> 0 | Some h \<Rightarrow> h)"

definition app_npdu :: "npdu \<Rightarrow> bool" where
  "app_npdu n \<longleftrightarrow> wf_npci n \<and> npduNetMessage n = None \<and> npduMessage n = None \<and> station_source n"

text \<open>
  Property C34. Routers cannot pass an application NPDU around for ever: whatever the routers
  know and however they are connected, one that is well formed and comes from a station is sent on
  at most as often as its hop count says, which is at most 255, and it arrives with the data it had.
\<close>
theorem hop_bound:
  assumes "travels k n n'" "app_npdu n"
  shows "int k \<le> hops_left n \<and> hops_left n \<le> 255 \<and> npduData n' = npduData n"
proof -
  have "app_npdu n' \<and> npduData n' = npduData n \<and> int k + hops_left n' \<le> hops_left n"
    using assms
  proof (induction rule: travels.induct)
    case (hop k n n' j p s env i a dst n'')
    have n': "app_npdu n'" "npduData n' = npduData n" "int k + hops_left n' \<le> hops_left n"
      using hop by blast+
    then have w: "wf_npci n'" "npduNetMessage n' = None" "npduMessage n' = None" "station_source n'"
      by (auto simp: app_npdu_def)
    obtain m h where m: "adapter_confirmation (deliver (local_station a) dst p) = Inr m" "wf_npci m" "npduMessage m = None"
      "npduNetMessage m = None" "npduHopCount n' = Some h" "0 < h" "npduData m = npduData n'"
      "pduSource m = Some (local_station a)" "npduDADR m = None \<or> npduHopCount m = Some (h - 1)"
      using relayed_arrives [OF w _, of env s i j p "local_station a" dst] process_relays [OF in_transit_app [OF w(2)] hop.hyps(2)] by blast
    have "n'' = m" using m(1) hop.hyps(5) by simp
    moreover have "npduHopCount m = None \<or> npduHopCount m = Some (h - 1)"
      using m(2,9) by (auto simp: wf_npci_def)
    ultimately show ?case
      using m n' hop.hyps(3,4) by (auto simp: app_npdu_def station_source_def hops_left_def)
  qed simp
  moreover have "0 \<le> hops_left n' \<and> hops_left n \<le> 255" using calculation assms(2)
    by (auto simp: app_npdu_def wf_npci_def hops_left_def split: option.split)
  ultimately show ?thesis by linarith
qed

section \<open>What routing achieves\<close>

definition calm :: "net_env \<Rightarrow> bool" where
  "calm env \<longleftrightarrow> (\<forall>j p. link_raises env j p = None) \<and> (\<forall>p. app_raises env p = None) \<and>
     has_element env \<and> has_server_peer env \<and> is_order (set_order env)"

lemma example_env_calm: "calm example_env"
  by (simp add: calm_def example_env_def sorted_is_order)

lemma send_one:
  assumes "calm env" "npdu_encode m = Inr p"
  shows "adapter_process_npdu env j m s = (Inr (), s\<lparr>net_out := net_out s @ [LinkRequest j p]\<rparr>)"
  using assms by (simp add: adapter_process_npdu_def act_simps calm_def net_emit_def)

lemma send_all:
  assumes "calm env" "npdu_encode m = Inr p"
  shows "seqS (map (\<lambda>j. adapter_process_npdu env j m) js) s =
    (Inr (), s\<lparr>net_out := net_out s @ map (\<lambda>j. LinkRequest j p) js\<rparr>)"
  by (induction js arbitrary: s) (simp_all add: act_simps send_one [OF assms])

lemma encode_total:
  assumes "wf_npci (canonical m)" "npduMessage m = None"
  shows "\<exists>p. npdu_encode m = Inr p \<and> pduDestination p = pduDestination m \<and> pduSource p = pduSource m"
proof -
  have "npduMessage (canonical m) = None" using assms(2) by (simp add: canonical_def)
  then have "npdu_encode (canonical m) =
      Inr (pdu_of (canonical m) (pdu_put_data (npduData (canonical m)) (npci_octets (canonical m))))"
    using npci_encode_octets [OF assms(1)] by (simp add: npdu_encode_def)
  then show ?thesis unfolding encode_canonical by (simp add: pdu_of_def canonical_def)
qed

definition foreign :: "nsap \<Rightarrow> npdu \<Rightarrow> bool" where
  "foreign s n \<longleftrightarrow> (\<forall>a. npduSADR n = Some a \<longrightarrow> map_of (adapters s) (addrNet a) = None)"

lemma learn_source_ok:
  assumes ok: "nsap_ok s" and e: "calm env" and n: "app_npdu n" "foreign s n"
  obtains c where "learn_source env i n s = (Inr True, s\<lparr>router_info_cache := c\<rparr>)"
    "nsap_ok (s\<lparr>router_info_cache := c\<rparr>)"
    "\<And>a net. npduSADR n = Some a \<Longrightarrow> addrNet a = Some net \<Longrightarrow> \<exists>st. get_path_info (net_of s i) net c = Some (the (pduSource n), st)"
proof (cases "npduSADR n")
  case None
  have "s = s\<lparr>router_info_cache := router_info_cache s\<rparr>" by simp
  then show ?thesis using None ok by (intro that [of "router_info_cache s"]) (simp_all add: learn_source_def act_simps)
next
  case (Some a)
  then have "wf_station a" using n(1) by (simp add: app_npdu_def wf_npci_def)
  then obtain net adr where a: "a = Address RemoteStationAddr (Some net) (Some adr) None" by (auto simp: wf_station_def)
  obtain src where src: "pduSource n = Some src" using n(1) by (auto simp: app_npdu_def station_source_def)
  have o: "is_order (set_order env)" using e by (simp add: calm_def)
  obtain c where c: "lift_cache (update_path_info (set_order env) (net_of s i) src {net}) s = (Inr (), s\<lparr>router_info_cache := c\<rparr>)"
    "nsap_ok (s\<lparr>router_info_cache := c\<rparr>)"
    "\<And>s' d. get_path_info s' d c = (if s' = net_of s i \<and> d \<in> {net} \<and> route s' d (router_info_cache s) \<noteq> Some src
       then Some (src, ROUTER_AVAILABLE) else get_path_info s' d (router_info_cache s))"
    using lift_cache_update_ok [OF ok o, of "{net}" "net_of s i" src] by blast
  have p: "\<exists>st. get_path_info (net_of s i) net c = Some (src, st)"
    using c(3) [of "net_of s i" net] by (cases "get_path_info (net_of s i) net (router_info_cache s)") (auto simp: route_def)
  have "map_of (adapters s) (Some net) = None" using n(2) Some a by (simp add: foreign_def)
  then have "learn_source env i n s = (Inr True, s\<lparr>router_info_cache := c\<rparr>)"
    using Some a src c(1) by (simp add: learn_source_def act_simps)
  then show ?thesis using c(2) p src a Some by (intro that) auto
qed

lemma process_npdu_cases:
  assumes ok: "nsap_ok s" and e: "calm env" and n: "app_npdu n" "foreign s n" and i: "i \<in> set (adapter_list s)"
    and l: "learn_source env i n s = (Inr True, t)" and c: "classify t i n = Inr (Some (here, onward))"
  shows "process_npdu env i n s =
    (bindS (if here then process_locally env i n else retS (Some n)) (\<lambda>r.
       case r of Some n \<Rightarrow> if onward then forward env i n else retS None | None \<Rightarrow> retS None)) t"
proof -
  have "adapters s \<noteq> []" using i by (auto simp: adapter_list_def)
  then show ?thesis using e l c by (simp add: process_npdu_def act_simps calm_def)
qed

lemma sender_ok:
  assumes "app_npdu n" "npduSADR n = None \<longrightarrow> (\<exists>net. net_of s i = Some net \<and> 0 \<le> net \<and> net < 65535)"
  shows "\<exists>a. sender s i n = Inr a \<and> wf_station a \<and> (npduSADR n = None \<longrightarrow>
    a = Address RemoteStationAddr (net_of s i) (addrAddr (the (pduSource n))) None)"
proof -
  obtain a where a: "sender s i n = Inr a"
      "npduSADR n = None \<longrightarrow> a = Address RemoteStationAddr (net_of s i) (addrAddr (the (pduSource n))) None"
    using assms by (cases "npduSADR n")
      (auto simp: sender_def make_remote_def remote_station_def app_npdu_def station_source_def local_station_def)
  then have "wf_station a"
    using sender_wf [OF _ _ a(1)] assms(1) by (simp add: app_npdu_def wf_npci_def)
  then show ?thesis using a by (intro exI [of _ a]) simp
qed

lemma upward_ok:
  assumes l: "local_adapter s = Some l" and r: "\<not> route_aware env" and a: "sender s i n = Inr a"
  shows "\<exists>q. upward env s i n = Inr (q, n) \<and> pduData q = npduData n \<and>
    pduExpectingReply q = pduExpectingReply n \<and> pduNetworkPriority q = pduNetworkPriority n \<and>
    pduSource q = (if npduSADR n \<noteq> None \<or> length (adapters s) > 1 \<and> i \<noteq> l then Some a else pduSource n) \<and>
    (map_option addrType (npduDADR n) = Some GlobalBroadcastAddr \<longrightarrow> pduDestination q = Some global_broadcast)"
proof (cases "npduSADR n")
  case None
  then show ?thesis using l r a
    by (auto simp: upward_def Let_def pci_update_def init_pdu_def init_pci_def pci.defs split: option.split)
next
  case (Some b)
  then have "n\<lparr>npduSADR := Some b\<rparr> = n" by (intro npdu.equality) simp_all
  moreover have "b = a" using a Some by (simp add: sender_def)
  ultimately show ?thesis using Some l r
    by (auto simp: upward_def Let_def pci_update_def init_pdu_def init_pci_def pci.defs split: option.split)
qed

lemma copy_encodes:
  fixes dst :: "address option"
  assumes n: "app_npdu n" and h: "npduHopCount n = Some h" "h \<noteq> 0" and a: "wf_station a"
    and d: "dd = None \<or> dd = npduDADR n"
  defines "m \<equiv> n\<lparr>pduSource := None, pduDestination := dst, npduHopCount := Some (h - 1), npduSADR := Some a, npduDADR := dd\<rparr>"
  shows "\<exists>p. npdu_encode m = Inr p \<and> pduDestination p = dst"
proof -
  have "wf_npci (canonical m)"
    using n h a d by (auto simp: m_def app_npdu_def wf_npci_def canonical_def wf_set_route)
  moreover have "npduMessage m = None" using n by (simp add: m_def app_npdu_def)
  ultimately show ?thesis using encode_total [of m] by (auto simp: m_def)
qed

text \<open>
  A global broadcast that arrives at a router, with hops left and not from one of
  the router's own networks, is delivered to the application exactly once and sent exactly once
  on every other adapter, as a local broadcast there.
\<close>
theorem broadcast_reaches_all:
  assumes ok: "nsap_ok s" and e: "calm env" "\<not> route_aware env" and i: "i \<in> set (adapter_list s)"
    and n: "app_npdu n" "foreign s n" "npduDADR n = Some global_broadcast"
    and h: "npduHopCount n \<noteq> Some 0" and many: "length (adapters s) > 1"
    and net: "net_of s i = Some net" "0 \<le> net" "net < 65535"
  shows "\<exists>s' p q. process_npdu env i n s = (Inr None, s') \<and>
    new_events s s' = AppResponse q # map (\<lambda>j. LinkRequest j p) (other_adapters s i) \<and>
    pduDestination q = Some global_broadcast \<and> pduData q = npduData n \<and> pduDestination p = Some local_broadcast"
proof -
  obtain c where c: "learn_source env i n s = (Inr True, s\<lparr>router_info_cache := c\<rparr>)"
    "nsap_ok (s\<lparr>router_info_cache := c\<rparr>)"
    using learn_source_ok [OF ok e(1) n(1,2)] by metis
  define t where "t = s\<lparr>router_info_cache := c\<rparr>"
  have same: "net_of t j = net_of s j" "other_adapters t j = other_adapters s j" for j
    by (simp_all add: t_def net_of_def other_adapters_def adapter_list_def)
  obtain a where a: "sender t i n = Inr a" "wf_station a"
    using sender_ok [OF n(1), of t i] net same(1) by auto
  have cl: "classify t i n = Inr (Some (True, True))"
    using n(3) by (simp add: classify_def global_broadcast_def)
  obtain l where l: "local_adapter t = Some l"
    using ok i by (auto simp: nsap_ok_def t_def adapter_list_def)
  obtain q where q: "upward env t i n = Inr (q, n)" "pduDestination q = Some global_broadcast" "pduData q = npduData n"
    using upward_ok [OF l e(2) a(1)] n(3) by (auto simp: global_broadcast_def)
  define u where "u = t\<lparr>net_out := net_out t @ [AppResponse q]\<rparr>"
  have nm: "npduNetMessage n = None" using n(1) by (simp add: app_npdu_def)
  have pl: "process_locally env i n t = (Inr (Some n), u)"
    using q(1) nm e(1) by (simp add: process_locally_def act_simps calm_def app_response_def net_emit_def u_def)
  obtain h' where h': "npduHopCount n = Some h'" "h' \<noteq> 0"
    using n h by (cases "npduHopCount n") (auto simp: app_npdu_def wf_npci_def)
  have su: "sender u i n = Inr a" using a(1) sender_cong [of u t i n] by (simp add: u_def)
  have fc: "forward_copy u i n = Inr (n\<lparr>pduSource := None, pduDestination := None, npduHopCount := Some (h' - 1), npduSADR := Some a\<rparr>)"
    using su h' by (simp add: forward_copy_def)
  obtain p where p: "npdu_encode (n\<lparr>pduSource := None, pduDestination := Some local_broadcast, npduHopCount := Some (h' - 1),
      npduSADR := Some a, npduDADR := npduDADR n\<rparr>) = Inr p" "pduDestination p = Some local_broadcast"
    using copy_encodes [OF n(1) h' a(2), of "npduDADR n" "Some local_broadcast"] by blast
  have eq: "n\<lparr>pduSource := None, pduDestination := Some local_broadcast, npduHopCount := Some (h' - 1),
      npduSADR := Some a, npduDADR := npduDADR n\<rparr> =
      n\<lparr>pduSource := None, npduHopCount := Some (h' - 1), npduSADR := Some a, pduDestination := Some local_broadcast\<rparr>"
    by (rule npdu.equality) simp_all
  note all = send_all [OF e(1) p(1) [unfolded eq]]
  have len: "length (adapters u) \<noteq> 1" using many by (simp add: u_def t_def)
  have "forward env i n u = (Inr None, u\<lparr>net_out := net_out u @ map (\<lambda>j. LinkRequest j p) (other_adapters u i)\<rparr>)"
    using len h' fc n(3) all by (simp add: forward_def act_simps global_broadcast_def)
  then have "process_npdu env i n s = (Inr None, u\<lparr>net_out := net_out u @ map (\<lambda>j. LinkRequest j p) (other_adapters u i)\<rparr>)"
    using process_npdu_cases [OF ok e(1) n(1,2) i c(1) cl [unfolded t_def]] pl
    by (simp add: act_simps t_def [symmetric])
  then show ?thesis
    using q p(2) same(2) by (intro exI conjI) (auto simp: new_events_def u_def t_def other_adapters_def adapter_list_def)
qed

lemma example_broadcast_app: "app_npdu example_broadcast"
  by (simp add: app_npdu_def example_broadcast_def init_npdu_def npci.defs init_npci_def pci.defs
      init_pci_def wf_npci_def wf_dadr_def station_source_def exI [of _ "[9]"])

lemma example_router_facts:
  "adapters example_router = [(Some 10, 0), (Some 20, 1)]" "net_of example_router 0 = Some 10"
  "net_of example_router 1 = Some 20" "adapter_list example_router = [0, 1]"
  "local_adapter example_router = Some 0" "net_out example_router = []"
  "adapterAddr (adapter_of example_router 0) = Some (local_station [4])"
  by (simp_all add: example_router_def bound_def new_nsap_def net_of_def new_adapter_def adapter_list_def)

lemma broadcast_reaches_all_witness:
  "\<exists>s' p q. process_npdu example_env 1 example_broadcast example_router = (Inr None, s') \<and>
    new_events example_router s' = [AppResponse q, LinkRequest 0 p]"
proof -
  have "1 \<in> set (adapter_list example_router)" "length (adapters example_router) > 1"
    "other_adapters example_router 1 = [0]"
    by (simp_all add: example_router_facts other_adapters_def)
  moreover have "foreign example_router example_broadcast" "npduDADR example_broadcast = Some global_broadcast"
    "npduHopCount example_broadcast \<noteq> Some 0" "\<not> route_aware example_env"
    by (simp_all add: foreign_def example_broadcast_def init_npdu_def npci.defs init_npci_def pci.defs init_pci_def
        example_env_def)
  ultimately obtain s' p q where "process_npdu example_env 1 example_broadcast example_router = (Inr None, s')"
    "new_events example_router s' = AppResponse q # map (\<lambda>j. LinkRequest j p) (other_adapters example_router 1)"
    using broadcast_reaches_all [OF example_router_ok example_env_calm _ _ example_broadcast_app, of 1 20]
      example_router_facts(3) by auto
  then show ?thesis using \<open>other_adapters example_router 1 = [0]\<close> by auto
qed

lemma hop_bound_witness:
  "\<exists>n'. travels 1 example_broadcast n' \<and> npduData n' = [1, 2]"
proof -
  have w: "wf_npci example_broadcast" "npduNetMessage example_broadcast = None" "npduMessage example_broadcast = None"
    "station_source example_broadcast"
    using example_broadcast_app by (auto simp: app_npdu_def)
  obtain e where e: "e \<in> set (new_events example_router (snd (process_npdu example_env 1 example_broadcast example_router)))"
    "relayed example_env example_router 1 example_broadcast e"
    using example_broadcast_relayed by blast
  then obtain j p where p: "e = LinkRequest j p" by (auto simp: relayed_def)
  obtain n' where n': "adapter_confirmation (deliver (local_station [4]) None p) = Inr n'"
    using relayed_arrives [OF w e(2) [unfolded p]] by metis
  have "travels 1 example_broadcast n'"
    using travels.hop [OF travels.start e(1) [unfolded p] _ _ n'] by simp
  moreover have "npduData example_broadcast = [1, 2]"
    by (simp add: example_broadcast_def init_npdu_def npci.defs init_npci_def pci.defs init_pci_def)
  ultimately show ?thesis using hop_bound [OF _ example_broadcast_app] by (intro exI [of _ n']) auto
qed

section \<open>From one network to another\<close>

lemma copy_arrives:
  fixes dst :: "address option"
  assumes n: "wf_npci n" "npduNetMessage n = None" "npduMessage n = None" "npduHopCount n = Some h" "h \<noteq> 0"
    and a: "wf_station a" and d: "dd = None \<or> dd = npduDADR n" and l: "l \<noteq> []" "length l < 256"
    and p: "npdu_encode (n\<lparr>pduSource := None, pduDestination := dst, npduHopCount := Some (h - 1),
      npduSADR := Some a, npduDADR := dd\<rparr>) = Inr p"
  shows "\<exists>n'. adapter_confirmation (deliver (local_station l) dst' p) = Inr n' \<and> app_npdu n' \<and>
    npduSADR n' = Some a \<and> npduDADR n' = dd \<and> npduData n' = npduData n \<and>
    pduExpectingReply n' = pduExpectingReply n \<and> pduNetworkPriority n' = pduNetworkPriority n \<and>
    pduSource n' = Some (local_station l) \<and> pduDestination n' = dst'"
proof -
  define m where "m = n\<lparr>pduSource := None, pduDestination := dst, npduHopCount := Some (h - 1),
      npduSADR := Some a, npduDADR := dd\<rparr>"
  have w: "wf_npci (canonical m)"
    using n a d by (auto simp: m_def wf_npci_def canonical_def wf_set_route)
  have "npduNetMessage (canonical m) = None" "npduMessage (canonical m) = None"
    using n by (simp_all add: m_def canonical_def)
  then have r: "adapter_confirmation (deliver (local_station l) dst' p) =
      Inr ((canonical m)\<lparr>npduControl := Some (npci_control (canonical m)),
        pduSource := Some (local_station l), pduDestination := dst', pduUserData := None\<rparr>)"
    using receive_delivered [OF w] p encode_canonical [of m] by (simp add: m_def)
  show ?thesis
    by (rule exI, rule conjI, rule r)
      (use w n l in \<open>auto simp: app_npdu_def station_source_def m_def canonical_def wf_set_route [OF a] wf_npci_def\<close>)
qed

lemma router_forwards:
  assumes ok: "nsap_ok s" and e: "calm env" and n: "app_npdu n" "foreign s n"
    "npduDADR n = Some (Address RemoteStationAddr (Some net) (Some adr) None)" "npduHopCount n \<noteq> Some 0"
    and i: "i \<in> set (adapter_list s)" and j: "map_of (adapters s) (Some net) = Some j" "j \<noteq> i"
    and src: "npduSADR n = None \<longrightarrow> (\<exists>na. net_of s i = Some na \<and> 0 \<le> na \<and> na < 65535)"
    and other: "\<forall>l. local_adapter s = Some l \<and> net_of s l = Some net \<longrightarrow>
      (\<exists>x. adapterAddr (adapter_of s l) = Some x \<and> addrAddr x \<noteq> Some adr)"
  shows "\<exists>s' p a h. process_npdu env i n s = (Inr None, s') \<and> new_events s s' = [LinkRequest j p] \<and>
    pduDestination p = Some (local_station adr) \<and> sender s i n = Inr a \<and> wf_station a \<and>
    npduHopCount n = Some h \<and> h \<noteq> 0 \<and>
    npdu_encode (n\<lparr>pduSource := None, pduDestination := Some (local_station adr), npduHopCount := Some (h - 1),
      npduSADR := Some a, npduDADR := None\<rparr>) = Inr p"
proof -
  obtain c where c: "learn_source env i n s = (Inr True, s\<lparr>router_info_cache := c\<rparr>)"
    using learn_source_ok [OF ok e n(1,2)] by metis
  define t where "t = s\<lparr>router_info_cache := c\<rparr>"
  have same: "net_of t k = net_of s k" "adapters t = adapters s" "adapter_of t = adapter_of s"
    "local_adapter t = local_adapter s" "net_out t = net_out s" for k
    by (simp_all add: t_def net_of_def)
  obtain a where a: "sender s i n = Inr a" "wf_station a" using sender_ok [OF n(1) src] by blast
  obtain l where l: "local_adapter s = Some l" using ok i by (auto simp: nsap_ok_def adapter_list_def)
  have "net_of s i \<noteq> Some net" using j ok_lookup [OF ok, of "net_of s i" i] i by auto
  then have cl: "classify t i n = Inr (Some (False, True))"
    using n(3) l other by (auto simp: classify_def same Let_def)
  obtain h where h: "npduHopCount n = Some h" "h \<noteq> 0"
    using n by (cases "npduHopCount n") (auto simp: app_npdu_def wf_npci_def)
  obtain p where p: "npdu_encode (n\<lparr>pduSource := None, pduDestination := Some (local_station adr), npduHopCount := Some (h - 1),
      npduSADR := Some a, npduDADR := None\<rparr>) = Inr p" "pduDestination p = Some (local_station adr)"
    using copy_encodes [OF n(1) h a(2), of None "Some (local_station adr)"] by blast
  have eq: "n\<lparr>pduSource := None, pduDestination := Some (local_station adr), npduHopCount := Some (h - 1),
      npduSADR := Some a, npduDADR := None\<rparr> =
      n\<lparr>pduSource := None, npduHopCount := Some (h - 1), npduSADR := Some a,
        pduDestination := Some (local_station adr), npduDADR := None\<rparr>"
    by (rule npdu.equality) simp_all
  have two: "length (adapters t) \<noteq> 1"
  proof
    assume "length (adapters t) = 1"
    then obtain x where x: "adapters s = [x]" by (auto simp: same length_Suc_conv)
    then show False using i j by (auto simp: adapter_list_def split: if_splits)
  qed
  have fc: "forward_copy t i n = Inr (n\<lparr>pduSource := None, pduDestination := None, npduHopCount := Some (h - 1), npduSADR := Some a\<rparr>)"
    using a h sender_cong [of t s i n] by (simp add: forward_copy_def same)
  have f: "forward env i n t = (Inr None, t\<lparr>net_out := net_out t @ [LinkRequest j p]\<rparr>)"
    using two h fc n(3) j send_one [OF e p(1) [unfolded eq]]
    by (simp add: forward_def forward_to_net_def act_simps same)
  have "process_npdu env i n s = (Inr None, t\<lparr>net_out := net_out t @ [LinkRequest j p]\<rparr>)"
    using process_npdu_cases [OF ok e n(1,2) i c cl [unfolded t_def]] f
    by (simp add: act_simps t_def [symmetric])
  then show ?thesis using p a h by (intro exI conjI) (auto simp: new_events_def same)
qed

lemma node_receives:
  assumes ok: "nsap_ok s" and e: "calm env" "\<not> route_aware env" and ads: "adapters s = [(kb, k)]"
    and n: "app_npdu n" "npduSADR n = Some (Address RemoteStationAddr (Some na) adr None)" "npduDADR n = None"
    and new: "kb \<noteq> Some na"
  shows "\<exists>s' q. process_npdu env k n s = (Inr None, s') \<and> new_events s s' = [AppResponse q] \<and>
    pduData q = npduData n \<and> pduExpectingReply q = pduExpectingReply n \<and>
    pduNetworkPriority q = pduNetworkPriority n \<and> pduSource q = npduSADR n \<and>
    find_path (adapters s') na (router_info_cache s') = Some (k, the (pduSource n))"
proof -
  have f: "foreign s n" using n new by (simp add: foreign_def ads)
  obtain c where c: "learn_source env k n s = (Inr True, s\<lparr>router_info_cache := c\<rparr>)"
    and path: "\<exists>st. get_path_info (net_of s k) na c = Some (the (pduSource n), st)"
    using learn_source_ok [OF ok e(1) n(1) f] n(2) by (metis address.sel(2))
  define t where "t = s\<lparr>router_info_cache := c\<rparr>"
  have k: "k \<in> set (adapter_list s)" "net_of s k = kb" "local_adapter s = Some k"
    using ok ads by (auto simp: nsap_ok_def adapter_list_def)
  have cl: "classify t k n = Inr (Some (True, False))"
    using n(1,3) k(3) by (simp add: classify_def t_def)
  have s: "sender t k n = Inr (Address RemoteStationAddr (Some na) adr None)" using n(2) by (simp add: sender_def)
  obtain q where q: "upward env t k n = Inr (q, n)" "pduData q = npduData n" "pduExpectingReply q = pduExpectingReply n"
    "pduNetworkPriority q = pduNetworkPriority n" "pduSource q = npduSADR n"
    using upward_ok [OF _ e(2) s, of k] k(3) n(2) by (auto simp: t_def)
  have nm: "npduNetMessage n = None" using n(1) by (simp add: app_npdu_def)
  have "process_locally env k n t = (Inr (Some n), t\<lparr>net_out := net_out t @ [AppResponse q]\<rparr>)"
    using q(1) nm e(1) by (simp add: process_locally_def act_simps calm_def app_response_def net_emit_def)
  then have "process_npdu env k n s = (Inr None, t\<lparr>net_out := net_out t @ [AppResponse q]\<rparr>)"
    using process_npdu_cases [OF ok e(1) n(1) f k(1) c cl [unfolded t_def]]
    by (simp add: act_simps t_def [symmetric])
  then show ?thesis using q path ads k(2)
    by (intro exI conjI) (auto simp: new_events_def t_def)
qed

lemma node_sends:
  assumes e: "calm env" "\<not> route_aware env" and ads: "adapters s \<noteq> []" "map_of (adapters s) (Some nb) = None"
    and path: "find_path (adapters s) nb (router_info_cache s) = Some (j, r)"
    and p: "pduDestination p = Some (Address RemoteStationAddr (Some nb) (Some b) None)"
      "0 \<le> pduNetworkPriority p" "pduNetworkPriority p < 4" "0 \<le> nb" "nb < 65535" "b \<noteq> []" "length b < 256"
    and l: "l \<noteq> []" "length l < 256"
  shows "\<exists>s' p'. nsap_indication env p s = (Inr None, s') \<and> new_events s s' = [LinkRequest j p'] \<and>
    pduDestination p' = Some r \<and>
    (\<exists>n. adapter_confirmation (deliver (local_station l) (Some r) p') = Inr n \<and> app_npdu n \<and>
      npduSADR n = None \<and> npduDADR n = pduDestination p \<and> npduHopCount n = Some 255 \<and> npduData n = pduData p \<and>
      pduExpectingReply n = pduExpectingReply p \<and> pduNetworkPriority n = pduNetworkPriority p \<and>
      pduSource n = Some (local_station l))"
proof -
  define n where "n = (pci_update (init_npdu (pduData p)) p)\<lparr>npduHopCount := Some 255,
    npduDADR := pduDestination p, pduDestination := Some r\<rparr>"
  note defs = n_def pci_update_def init_npdu_def init_npci_def init_pci_def npci.defs pci.defs
  have w: "wf_npci n" "npduNetMessage n = None" "npduMessage n = None"
    using p by (simp_all add: defs wf_npci_def wf_dadr_def wf_station_def)
  have "canonical n = n" by (rule npdu.equality) (simp_all add: canonical_def defs p(1))
  then obtain p' where p': "npdu_encode n = Inr p'" "pduDestination p' = Some r"
    using encode_total [of n] w by (auto simp: defs)
  have eq: "(pci_update (init_npdu (pduData p)) p)\<lparr>npduHopCount := Some 255,
      npduDADR := Some (Address RemoteStationAddr (Some nb) (Some b) None), pduDestination := Some r\<rparr> = n"
    by (rule npdu.equality) (simp_all add: n_def p(1))
  have "nsap_indication env p s = (Inr None, s\<lparr>net_out := net_out s @ [LinkRequest j p']\<rparr>)"
    using e ads path p(1) send_one [OF e(1) p'(1)] eq
    by (simp add: nsap_indication_def send_remote_def act_simps calm_def Let_def)
  moreover have "adapter_confirmation (deliver (local_station l) (Some r) p') = Inr (n\<lparr>npduControl := Some (npci_control n),
      pduSource := Some (local_station l), pduDestination := Some r, pduUserData := None\<rparr>)"
    by (rule receive_delivered [OF w p'(1)])
  moreover have "app_npdu (n\<lparr>npduControl := Some (npci_control n),
      pduSource := Some (local_station l), pduDestination := Some r, pduUserData := None\<rparr>)"
    using w l by (auto simp: app_npdu_def wf_npci_def station_source_def)
  ultimately show ?thesis using p'(2)
    by (intro exI conjI) (auto simp: new_events_def defs)
qed

text \<open>
  Property C15. A confirmed or unconfirmed APDU crosses a router. A node that knows a router to
  the destination network sends one frame to this router; the router sends one frame, to the
  destination station on its network; there the application gets exactly the data, with
  priority and reply flag, from the source \<^verbatim>\<open>network:address\<close> of the sender. The destination
  node has learned the way back: its answer goes to the router without a search.
\<close>
theorem request_crosses_router:
  assumes A: "calm envA" "\<not> route_aware envA" "adapters sA \<noteq> []" "map_of (adapters sA) (Some nb) = None"
      "find_path (adapters sA) nb (router_info_cache sA) = Some (ja, ra)"
    and p: "pduDestination p = Some (Address RemoteStationAddr (Some nb) (Some b) None)"
      "0 \<le> pduNetworkPriority p" "pduNetworkPriority p < 4" "0 \<le> nb" "nb < 65535" "b \<noteq> []" "length b < 256"
    and a: "a \<noteq> []" "length a < 256" "rb \<noteq> []" "length rb < 256"
    and R: "nsap_ok sR" "calm envR" "map_of (adapters sR) (Some na) = Some i" "map_of (adapters sR) (Some nb) = Some j"
      "na \<noteq> nb" "0 \<le> na" "na < 65535"
      "\<forall>l. local_adapter sR = Some l \<and> net_of sR l = Some nb \<longrightarrow>
        (\<exists>x. adapterAddr (adapter_of sR l) = Some x \<and> addrAddr x \<noteq> Some b)"
    and B: "nsap_ok sB" "calm envB" "\<not> route_aware envB" "adapters sB = [(kb, k)]" "kb \<noteq> Some na"
  shows "\<exists>sA' p1 sR' p2 sB' q.
    nsap_indication envA p sA = (Inr None, sA') \<and> new_events sA sA' = [LinkRequest ja p1] \<and> pduDestination p1 = Some ra \<and>
    adapter_receive envR i (deliver (local_station a) (Some ra) p1) sR = (Inr None, sR') \<and>
    new_events sR sR' = [LinkRequest j p2] \<and> pduDestination p2 = Some (local_station b) \<and>
    adapter_receive envB k (deliver (local_station rb) (Some (local_station b)) p2) sB = (Inr None, sB') \<and>
    new_events sB sB' = [AppResponse q] \<and> pduData q = pduData p \<and>
    pduExpectingReply q = pduExpectingReply p \<and> pduNetworkPriority q = pduNetworkPriority p \<and>
    pduSource q = Some (Address RemoteStationAddr (Some na) (Some a) None) \<and>
    find_path (adapters sB') na (router_info_cache sB') = Some (k, local_station rb)"
proof -
  obtain sA' p1 n1 where A1: "nsap_indication envA p sA = (Inr None, sA')" "new_events sA sA' = [LinkRequest ja p1]"
      "pduDestination p1 = Some ra"
    and n1: "adapter_confirmation (deliver (local_station a) (Some ra) p1) = Inr n1" "app_npdu n1"
      "npduSADR n1 = None" "npduDADR n1 = pduDestination p" "npduHopCount n1 = Some 255" "npduData n1 = pduData p"
      "pduExpectingReply n1 = pduExpectingReply p" "pduNetworkPriority n1 = pduNetworkPriority p"
      "pduSource n1 = Some (local_station a)"
    using node_sends [OF A p a(1,2)] by blast
  have i: "i \<in> set (adapter_list sR)" "net_of sR i = Some na" "j \<noteq> i"
    using ok_lookup [OF R(1), of "Some na" i] ok_lookup [OF R(1), of "Some nb" j] R(3,4,5) by auto
  have f1: "foreign sR n1" using n1(3) by (simp add: foreign_def)
  have d1: "npduDADR n1 = Some (Address RemoteStationAddr (Some nb) (Some b) None)" using n1(4) p(1) by simp
  obtain sR' p2 src h where R1: "process_npdu envR i n1 sR = (Inr None, sR')" "new_events sR sR' = [LinkRequest j p2]"
      "pduDestination p2 = Some (local_station b)" "sender sR i n1 = Inr src" "wf_station src"
      "npduHopCount n1 = Some h" "h \<noteq> 0"
      "npdu_encode (n1\<lparr>pduSource := None, pduDestination := Some (local_station b), npduHopCount := Some (h - 1),
        npduSADR := Some src, npduDADR := None\<rparr>) = Inr p2"
    using router_forwards [OF R(1,2) n1(2) f1 d1 _ i(1) R(4) i(3) _ R(8)] n1(5) i(2) R(6,7) by auto
  have src: "src = Address RemoteStationAddr (Some na) (Some a) None"
    using R1(4) n1(3,9) i(2) R(6,7)
    by (simp add: sender_def make_remote_def remote_station_def local_station_def)
  have w1: "wf_npci n1" "npduNetMessage n1 = None" "npduMessage n1 = None" using n1(2) by (auto simp: app_npdu_def)
  obtain n2 where n2: "adapter_confirmation (deliver (local_station rb) (Some (local_station b)) p2) = Inr n2" "app_npdu n2"
    "npduSADR n2 = Some src" "npduDADR n2 = None" "npduData n2 = npduData n1" "pduExpectingReply n2 = pduExpectingReply n1"
    "pduNetworkPriority n2 = pduNetworkPriority n1" "pduSource n2 = Some (local_station rb)"
    using copy_arrives [OF w1 R1(6,7,5) _ a(3,4) R1(8), of "Some (local_station b)"] by blast
  obtain sB' q where B1: "process_npdu envB k n2 sB = (Inr None, sB')" "new_events sB sB' = [AppResponse q]"
    "pduData q = npduData n2" "pduExpectingReply q = pduExpectingReply n2" "pduNetworkPriority q = pduNetworkPriority n2"
    "pduSource q = npduSADR n2" "find_path (adapters sB') na (router_info_cache sB') = Some (k, the (pduSource n2))"
    using node_receives [OF B(1-4) n2(2) n2(3) [unfolded src] n2(4) B(5)] by blast
  show ?thesis
    by (rule exI [of _ sA'], rule exI [of _ p1], rule exI [of _ sR'], rule exI [of _ p2], rule exI [of _ sB'], rule exI [of _ q])
      (use A1 n1 R1 n2 B1 in \<open>simp add: adapter_receive_def act_simps src\<close>)
qed

definition example_client :: nsap where
  "example_client = example_node\<lparr>router_info_cache :=
     \<lparr>path_info = [((None, 20), (local_station [4], ROUTER_AVAILABLE))],
      router_dnets = [((None, local_station [4]), {20})]\<rparr>\<rparr>"

lemma request_crosses_router_witness:
  "\<exists>sA' p1. nsap_indication example_env ((init_pdu [1, 2])\<lparr>pduDestination :=
      Some (Address RemoteStationAddr (Some 20) (Some [7]) None)\<rparr>) example_client = (Inr None, sA') \<and>
    new_events example_client sA' = [LinkRequest 0 p1] \<and> pduDestination p1 = Some (local_station [4])"
proof -
  let ?p = "(init_pdu [1, 2])\<lparr>pduDestination := Some (Address RemoteStationAddr (Some 20) (Some [7]) None)\<rparr>"
  have "\<not> route_aware example_env" by (simp add: example_env_def)
  moreover have "adapters example_client \<noteq> []" "map_of (adapters example_client) (Some 20) = None"
    "find_path (adapters example_client) 20 (router_info_cache example_client) = Some (0, local_station [4])"
    by (simp_all add: example_client_def example_node_def bound_def new_nsap_def get_path_info_def)
  moreover have "pduNetworkPriority ?p = 0" by (simp add: init_pdu_def init_pci_def pci.defs)
  moreover have "adapters example_node = [(None, 0)]"
    by (simp add: example_node_def bound_def new_nsap_def)
  ultimately show ?thesis
    using request_crosses_router [OF example_env_calm, of example_client 20 0 "local_station [4]" ?p "[7]" "[9]" "[5]"
      example_router example_env 10 0 1 example_node example_env None 0]
      example_env_calm example_router_ok example_node_ok
    by (simp add: example_router_facts) blast
qed

text \<open>
  The NPDU that makes a router look for a path is never sent on. With no known
  router to the destination network nothing is sent but the question, on every adapter; and
  when exactly one answer arrives, the routing code fails on it, where the sending code uses it.
\<close>
theorem first_packet_lost:
  assumes ok: "nsap_ok s" and e: "calm env" and n: "app_npdu n" "npduSADR n = None"
    "npduDADR n = Some (Address RemoteStationAddr (Some net) (Some adr) None)" "npduHopCount n \<noteq> Some 0"
    and i: "i \<in> set (adapter_list s)" "net_of s i = Some na" "0 \<le> na" "na < 65535" and two: "length (adapters s) > 1"
    and unknown: "map_of (adapters s) (Some net) = None" "find_path (adapters s) net (router_info_cache s) = None"
  shows "\<exists>s' m q. process_npdu env i n s = (Inr (Some (WaitForward (next_future s) i m)), s') \<and>
    net_out s' = net_out s \<and> npduMessage q = Some (WhoIsRouterToNetwork (Some net)) \<and>
    tasks s' = tasks s @ map (\<lambda>j. SendTask j q) (adapter_list s) \<and>
    (\<forall>rs t. resume_forward env i m rs t = (Inl (if length rs = 1 then AttributeError else CommunicationError ''unknownRoute''), t)) \<and>
    (\<forall>j x t. \<exists>p. resume_indication env m [(j, x)] t = (Inr (), t\<lparr>net_out := net_out t @ [LinkRequest j p]\<rparr>))"
proof -
  have l: "learn_source env i n s = (Inr True, s)" using n(2) by (simp add: learn_source_def act_simps)
  obtain la where la: "local_adapter s = Some la" "la \<in> set (adapter_list s)"
    using ok i(1) by (auto simp: nsap_ok_def adapter_list_def)
  have ne: "net_of s j \<noteq> Some net" if "j \<in> set (adapter_list s)" for j
    using unknown(1) ok_lookup [OF ok, of "net_of s j" j] that by auto
  have cl: "classify s i n = Inr (Some (False, True))"
    using n(3) la(1) ne [OF la(2)] ne [OF i(1)] by (auto simp: classify_def)
  obtain h where h: "npduHopCount n = Some h" "h \<noteq> 0"
    using n by (cases "npduHopCount n") (auto simp: app_npdu_def wf_npci_def)
  have src: "npduSADR n = None \<longrightarrow> (\<exists>net. net_of s i = Some net \<and> 0 \<le> net \<and> net < 65535)" using i by simp
  obtain a where a: "sender s i n = Inr a" "wf_station a" using sender_ok [OF n(1) src] by blast
  define m where "m = n\<lparr>pduSource := None, pduDestination := None, npduHopCount := Some (h - 1), npduSADR := Some a\<rparr>"
  have fc: "forward_copy s i n = Inr m" using a h by (simp add: forward_copy_def m_def)
  define q where "q = (message_npdu (WhoIsRouterToNetwork (Some net)))\<lparr>npduHopCount := Some 255, pduDestination := Some local_broadcast\<rparr>"
  define s' where "s' = s\<lparr>next_future := next_future s + 1,
    router_futures := router_futures s @ [new_future (next_future s) None (Some local_broadcast) (Some net)],
    tasks := tasks s @ map (\<lambda>j. SendTask j q) (adapter_list s)\<rparr>"
  have ct: "seqS (map (\<lambda>j. create_task (SendTask j q)) js) t = (Inr (), t\<lparr>tasks := tasks t @ map (\<lambda>j. SendTask j q) js\<rparr>)" for js t
    by (induction js arbitrary: t) (simp_all add: act_simps create_task_def)
  have ar: "address_request local_broadcast ((message_npdu (WhoIsRouterToNetwork (Some net)))\<lparr>npduHopCount := Some 255\<rparr>) = Inr q"
    by (simp add: address_request_def local_broadcast_def q_def)
  have w: "who_is_router_to_network None None (Some net) s = (Inr (next_future s), s')"
    using ct ar by (simp add: who_is_router_to_network_def act_simps Let_def s'_def)
  have "forward env i n s = (Inr (Some (WaitForward (next_future s) i m)), s')"
    using two h fc n(3) unknown w by (simp add: forward_def forward_to_net_def act_simps)
  moreover have "foreign s n" using n(2) by (simp add: foreign_def)
  ultimately have 1: "process_npdu env i n s = (Inr (Some (WaitForward (next_future s) i m)), s')"
    using process_npdu_cases [OF ok e n(1) _ i(1) l cl] by (simp add: act_simps)
  have 2: "\<exists>p. resume_indication env m [(j, x)] t = (Inr (), t\<lparr>net_out := net_out t @ [LinkRequest j p]\<rparr>)" for j x t
  proof -
    obtain p where "npdu_encode (n\<lparr>pduSource := None, pduDestination := pduSource x, npduHopCount := Some (h - 1),
        npduSADR := Some a, npduDADR := npduDADR n\<rparr>) = Inr p"
      using copy_encodes [OF n(1) h a(2), of "npduDADR n" "pduSource x"] by blast
    moreover have "n\<lparr>pduSource := None, pduDestination := pduSource x, npduHopCount := Some (h - 1),
        npduSADR := Some a, npduDADR := npduDADR n\<rparr> = m\<lparr>pduDestination := pduSource x\<rparr>"
      by (rule npdu.equality) (simp_all add: m_def)
    ultimately show ?thesis using send_one [OF e] by (auto simp: resume_indication_def)
  qed
  have 3: "resume_forward env i m rs t = (Inl (if length rs = 1 then AttributeError else CommunicationError ''unknownRoute''), t)" for rs t
    by (auto simp: resume_forward_def act_simps split: list.split)
  have 4: "net_out s' = net_out s" "npduMessage q = Some (WhoIsRouterToNetwork (Some net))"
    "tasks s' = tasks s @ map (\<lambda>j. SendTask j q) (adapter_list s)"
    by (simp_all add: s'_def q_def message_npdu_def)
  show ?thesis using 1 2 3 4 by blast
qed

definition example_to_unknown :: npdu where
  "example_to_unknown = example_broadcast\<lparr>npduDADR := Some (Address RemoteStationAddr (Some 30) (Some [7]) None)\<rparr>"

lemma first_packet_lost_witness:
  "\<exists>s' m. process_npdu example_env 1 example_to_unknown example_router = (Inr (Some (WaitForward 0 1 m)), s') \<and>
    net_out s' = net_out example_router"
proof -
  have app: "app_npdu example_to_unknown"
    by (simp add: app_npdu_def example_to_unknown_def example_broadcast_def init_npdu_def npci.defs init_npci_def pci.defs
      init_pci_def wf_npci_def wf_dadr_def wf_station_def station_source_def exI [of _ "[9]"])
  have f: "npduSADR example_to_unknown = None"
    "npduDADR example_to_unknown = Some (Address RemoteStationAddr (Some 30) (Some [7]) None)"
    "npduHopCount example_to_unknown \<noteq> Some 0"
    by (simp_all add: example_to_unknown_def example_broadcast_def init_npdu_def npci.defs init_npci_def pci.defs init_pci_def)
  have r: "1 \<in> set (adapter_list example_router)" "length (adapters example_router) > 1" "next_future example_router = 0"
    "map_of (adapters example_router) (Some 30) = None"
    "find_path (adapters example_router) 30 (router_info_cache example_router) = None"
    by (simp_all add: example_router_facts) (simp_all add: example_router_def bound_def new_nsap_def
        get_path_info_def empty_cache_def)
  show ?thesis
    using first_packet_lost [OF example_router_ok example_env_calm app f r(1) example_router_facts(3) _ _ r(2,4,5)]
    by (auto simp: r(3))
qed

end
