(* ===== verification/NetAnswers.thy ===== *)
theory NetAnswers
  imports NetRouting
begin

text \<open>
  The conversation of \<^verbatim>\<open>NetworkServiceElement\<close> (\<^verbatim>\<open>bacpypes3/netservice.py\<close>) about routers: what
  an I-Am-Router-To-Network changes, who answers a Who-Is-Router-To-Network afterwards, and what
  becomes of the pending requests.
\<close>

section \<open>An I-Am-Router-To-Network\<close>

lemma message_encodes:
  assumes "npduMessage n = Some (IAmRouterToNetwork nets)" "wf_npci n"
  shows "\<exists>p. npdu_encode n = Inr p \<and> pduDestination p = pduDestination n"
  using npci_encode_octets [OF assms(2)] assms(1)
  by (simp add: npdu_encode_def message_encode_def i_am_router_encode_def pdu_of_def)

lemma wf_reply:
  assumes "message_type m < 128" "0 \<le> message_type m"
  shows "wf_npci ((message_npdu m)\<lparr>pduUserData := u, pduDestination := d\<rparr>)"
  using assms
  by (simp add: wf_npci_def message_npdu_def init_npdu_def init_npci_def init_pci_def npci.defs pci.defs)

lemma i_am_encodes:
  "\<exists>p. npdu_encode ((message_npdu (IAmRouterToNetwork nets))\<lparr>pduUserData := u, pduDestination := d\<rparr>) = Inr p \<and>
    pduDestination p = d"
  using message_encodes [of "(message_npdu (IAmRouterToNetwork nets))\<lparr>pduUserData := u, pduDestination := d\<rparr>" nets]
    wf_reply [where m = "IAmRouterToNetwork nets" and u = u and d = d]
  by (simp add: message_npdu_def)

lemma i_am_router_eq:
  assumes ok: "nsap_ok s" and e: "calm env" and i: "i \<in> set (adapter_list s)" and src: "pduSource n = Some src"
  obtains c es where "i_am_router_handler env i n nets s =
      match_router_futures i nets n (s\<lparr>router_info_cache := c, net_out := net_out s @ es\<rparr>)"
    "nsap_ok (s\<lparr>router_info_cache := c, net_out := net_out s @ es\<rparr>)"
    "\<And>s' d. get_path_info s' d c =
      (if s' = net_of s i \<and> d \<in> set nets \<and> route s' d (router_info_cache s) \<noteq> Some src then Some (src, ROUTER_AVAILABLE)
       else get_path_info s' d (router_info_cache s))"
    "\<exists>p. es = (if length (adapters s) = 1 then [] else map (\<lambda>j. LinkRequest j p) (other_adapters s i))"
proof -
  have o: "is_order (set_order env)" using e by (simp add: calm_def)
  obtain c where c: "lift_cache (update_path_info (set_order env) (net_of s i) src (set nets)) s = (Inr (), s\<lparr>router_info_cache := c\<rparr>)"
    "nsap_ok (s\<lparr>router_info_cache := c\<rparr>)"
    "\<forall>s' d. get_path_info s' d c =
      (if s' = net_of s i \<and> d \<in> set nets \<and> route s' d (router_info_cache s) \<noteq> Some src then Some (src, ROUTER_AVAILABLE)
       else get_path_info s' d (router_info_cache s))"
    using lift_cache_update_ok [OF ok o, of "set nets" "net_of s i" src] by blast
  have m: "map_of (adapters s) (net_of s i) = Some i" using ok_lookup [OF ok] i by blast
  then have u: "update_router_references env (net_of s i) src nets s = (Inr (), s\<lparr>router_info_cache := c\<rparr>)"
    using c(1) by (simp add: update_router_references_def act_simps)
  obtain p where p: "npdu_encode ((message_npdu (IAmRouterToNetwork nets))
      \<lparr>pduUserData := pduUserData n, pduDestination := Some local_broadcast\<rparr>) = Inr p"
    using i_am_encodes by blast
  define es where "es = (if length (adapters s) = 1 then [] else map (\<lambda>j. LinkRequest j p) (other_adapters s i))"
  have "(if length (adapters s) = 1 then retS ()
        else seqS (map (\<lambda>j. sap_indication env j ((message_npdu (IAmRouterToNetwork nets))
            \<lparr>pduUserData := pduUserData n, pduDestination := Some local_broadcast\<rparr>)) (other_adapters s i)))
      (s\<lparr>router_info_cache := c\<rparr>) = (Inr (), s\<lparr>router_info_cache := c, net_out := net_out s @ es\<rparr>)"
    using send_all [OF e p, of "other_adapters s i" "s\<lparr>router_info_cache := c\<rparr>"]
    by (simp add: sap_indication_def es_def act_simps)
  then have h: "i_am_router_handler env i n nets s =
      bindS (match_router_futures i nets n) (\<lambda>_. retS ()) (s\<lparr>router_info_cache := c, net_out := net_out s @ es\<rparr>)"
    using src u by (cases "length (adapters s) = 1") (simp_all add: i_am_router_handler_def act_simps es_def)
  have unit: "bindS m (\<lambda>_. retS ()) t = m t" for m :: "unit net_act" and t
    by (auto simp: bindS_def retS_def split: prod.split sum.split)
  have "nsap_ok (s\<lparr>router_info_cache := c, net_out := net_out s @ es\<rparr>)"
    using c(2) core_ok [of "s\<lparr>router_info_cache := c, net_out := net_out s @ es\<rparr>" "s\<lparr>router_info_cache := c\<rparr>"]
    by (simp add: core_def)
  then show ?thesis using h unit c(3) es_def by (intro that [where c = c and es = es]) auto
qed

lemma match_router_core: "core (snd (match_router_futures i nets n s)) = core s"
  using quiet_match(1) by (simp add: quiet_def)

lemma find_path_only:
  assumes "distinct (map snd ads)" "(net, i) \<in> set ads" "get_path_info net d c = Some (r, st)"
    "\<forall>(net', j) \<in> set ads. j \<noteq> i \<longrightarrow> get_path_info net' d c = None"
  shows "find_path ads d c = Some (i, r)"
  using assms
proof (induction ads)
  case (Cons x ads)
  obtain net' j where x: "x = (net', j)" by (cases x)
  show ?case
  proof (cases "j = i")
    case True
    then have "net' = net" using Cons.prems(1,2) x by (auto simp: image_iff)
    then show ?thesis using True Cons.prems(3) x by simp
  next
    case False
    then have "get_path_info net' d c = None" using Cons.prems(4) x by auto
    then show ?thesis using Cons.IH Cons.prems x False by auto
  qed
qed simp

text \<open>
  Split horizon: after a router has announced a network on one adapter, a node
  that asks for this network on the same adapter gets no answer, and a node that asks on any
  other adapter gets exactly one answer, sent to it, that names this network.
\<close>
theorem split_horizon:
  fixes n :: npdu
  assumes ok: "nsap_ok s" and e: "calm env" and i: "i \<in> set (adapter_list s)" and k: "k \<in> set (adapter_list s)"
    and many: "length (adapters s) \<noteq> 1"
    and n: "npduMessage n = Some (IAmRouterToNetwork nets)" "pduSource n = Some src" and d: "d \<in> set nets"
    and remote: "map_of (adapters s) (Some d) = None"
      "\<forall>(net', j) \<in> set (adapters s). j \<noteq> i \<longrightarrow> get_path_info net' d (router_info_cache s) = None"
    and m: "npduMessage m = Some (WhoIsRouterToNetwork (Some d))"
  defines "s1 \<equiv> snd (element_indication env i n s)"
  shows "(k = i \<longrightarrow> element_indication env k m s1 = (Inr (), s1)) \<and>
    (k \<noteq> i \<longrightarrow> (\<exists>s2 p. element_indication env k m s1 = (Inr (), s2) \<and> new_events s1 s2 = [LinkRequest k p] \<and>
      npdu_encode (reply m (IAmRouterToNetwork [d])) = Inr p \<and> pduDestination p = pduSource m))"
proof -
  obtain c es where c: "i_am_router_handler env i n nets s =
      match_router_futures i nets n (s\<lparr>router_info_cache := c, net_out := net_out s @ es\<rparr>)"
    "\<And>s' d. get_path_info s' d c =
      (if s' = net_of s i \<and> d \<in> set nets \<and> route s' d (router_info_cache s) \<noteq> Some src then Some (src, ROUTER_AVAILABLE)
       else get_path_info s' d (router_info_cache s))"
    using i_am_router_eq [OF ok e i n(2), of nets] by metis
  have "core s1 = core (s\<lparr>router_info_cache := c, net_out := net_out s @ es\<rparr>)"
    using match_router_core n(1) by (simp add: s1_def element_indication_def c(1))
  then have s1: "adapters s1 = adapters s" "router_info_cache s1 = c" by (simp_all add: core_def)
  have own: "net_of s j = net_of s i \<longleftrightarrow> j = i" if "j \<in> set (adapter_list s)" for j
  proof
    assume "net_of s j = net_of s i"
    then have "map_of (adapters s) (net_of s i) = Some j" "map_of (adapters s) (net_of s i) = Some i"
      using ok_lookup [OF ok] that i by metis+
    then show "j = i" by simp
  qed simp
  have nets: "\<forall>(net', j) \<in> set (adapters s). net_of s j = net'" using ok by (auto simp: nsap_ok_def)
  have pi: "\<exists>st. get_path_info (net_of s i) d c = Some (src, st)"
    using c(2) [of "net_of s i" d] d
    by (cases "get_path_info (net_of s i) d (router_info_cache s)") (auto simp: route_def)
  have po: "\<forall>(net', j) \<in> set (adapters s). j \<noteq> i \<longrightarrow> get_path_info net' d c = None"
  proof clarify
    fix net' j assume j: "(net', j) \<in> set (adapters s)" "j \<noteq> i"
    have "j \<in> set (adapter_list s)" using j(1) by (force simp: adapter_list_def)
    moreover have "net_of s j = net'" using nets j(1) by auto
    ultimately have "net' \<noteq> net_of s i" using own [of j] j(2) by simp
    then have "get_path_info net' d c = get_path_info net' d (router_info_cache s)" using c(2) [of net' d] by simp
    then show "get_path_info net' d c = None" using j remote(2) by auto
  qed
  have "(net_of s i, i) \<in> set (adapters s)" using ok_lookup [OF ok, of "net_of s i" i] i by (auto dest: map_of_SomeD)
  moreover have "distinct (map snd (adapters s))" using ok by (simp add: nsap_ok_def adapter_list_def)
  ultimately have fp: "find_path (adapters s) d c = Some (i, src)" using pi po find_path_only by blast
  obtain p where p: "npdu_encode (reply m (IAmRouterToNetwork [d])) = Inr p" "pduDestination p = pduSource m"
    using i_am_encodes [where nets = "[d]" and u = "pduUserData m" and d = "pduSource m"] by (auto simp: reply_def)
  show ?thesis
    using m many remote(1) fp s1 send_one [OF e p(1)] p
    by (auto simp: element_indication_def who_is_router_handler_def act_simps sap_confirmation_def new_events_def)
qed

definition example_i_am :: npdu where
  "example_i_am = (message_npdu (IAmRouterToNetwork [30]))\<lparr>pduSource := Some (local_station [9])\<rparr>"

definition example_who_is :: npdu where
  "example_who_is = (message_npdu (WhoIsRouterToNetwork (Some 30)))\<lparr>pduSource := Some (local_station [8])\<rparr>"

lemma split_horizon_witness:
  "\<exists>s2 p. element_indication example_env 0 example_who_is (snd (element_indication example_env 1 example_i_am example_router)) =
     (Inr (), s2) \<and> pduDestination p = Some (local_station [8]) \<and>
     new_events (snd (element_indication example_env 1 example_i_am example_router)) s2 = [LinkRequest 0 p]"
proof -
  have m: "npduMessage example_i_am = Some (IAmRouterToNetwork [30])" "pduSource example_i_am = Some (local_station [9])"
    "npduMessage example_who_is = Some (WhoIsRouterToNetwork (Some 30))" "pduSource example_who_is = Some (local_station [8])"
    by (simp_all add: example_i_am_def example_who_is_def message_npdu_def)
  have r: "map_of (adapters example_router) (Some 30) = None"
    "\<forall>(net', j) \<in> set (adapters example_router). j \<noteq> 1 \<longrightarrow> get_path_info net' 30 (router_info_cache example_router) = None"
    by (simp_all add: example_router_facts) (simp add: example_router_def bound_def new_nsap_def get_path_info_def empty_cache_def)
  show ?thesis
    using split_horizon [OF example_router_ok example_env_calm _ _ _ m(1,2) _ r m(3), of 0] m(4)
    by (simp add: example_router_facts) blast
qed

section \<open>Pending requests\<close>

lemma one_future:
  assumes "router_futures s = [f]" "fut_network f = Some net" "fut_adapter f = None" "net \<in> set nets"
  shows "match_router_futures i nets n s =
    (if fut_done f then Inl InvalidStateError else Inr (),
     s\<lparr>router_futures := [f\<lparr>fut_results := fut_results f @ [(i, snd (routed_source n))], fut_done := True\<rparr>],
       tasks := tasks s @ (if fut_done f then [] else [RouterDone (fut_id f)])\<rparr>)"
  using assms
  by (auto simp: match_router_futures_def router_match_def set_result_def newly_done_def act_simps Let_def split_def)

text \<open>
  A request for the router of a network is answered by the first
  I-Am-Router-To-Network: it completes the future and the waiting NPDU is sent to this router.
  When a second router answers before the callbacks of the event loop have run, its message
  raises, and the result now has two entries, which the waiting sender takes for no route.
\<close>
theorem two_answers_fail:
  fixes n1 n2 :: npdu
  assumes ok: "nsap_ok s" and e: "calm env" and i: "i \<in> set (adapter_list s)" "k \<in> set (adapter_list s)"
    and n: "npduMessage n1 = Some (IAmRouterToNetwork nets1)" "pduSource n1 = Some src1" "net \<in> set nets1"
      "npduMessage n2 = Some (IAmRouterToNetwork nets2)" "pduSource n2 = Some src2" "net \<in> set nets2"
    and f: "router_futures s = [new_future j None router (Some net)]"
    and w: "wf_npci m" "npduMessage m = None"
  defines "s1 \<equiv> snd (element_indication env i n1 s)" and "s2 \<equiv> snd (element_indication env k n2 (snd (element_indication env i n1 s)))"
  shows "(\<exists>r1. map fut_results (router_futures s1) = [r1] \<and>
      (\<exists>p. resume_indication env m r1 s1 = (Inr (), s1\<lparr>net_out := net_out s1 @ [LinkRequest i p]\<rparr>) \<and>
        pduDestination p = Some src1)) \<and>
    fst (element_indication env k n2 s1) = Inl InvalidStateError \<and>
    (\<exists>r2. map fut_results (router_futures s2) = [r2] \<and>
      resume_indication env m r2 s2 = (Inl (CommunicationError ''unknownRoute''), s2))"
proof -
  obtain c1 es1 where h1: "i_am_router_handler env i n1 nets1 s =
      match_router_futures i nets1 n1 (s\<lparr>router_info_cache := c1, net_out := net_out s @ es1\<rparr>)"
    "nsap_ok (s\<lparr>router_info_cache := c1, net_out := net_out s @ es1\<rparr>)"
    using i_am_router_eq [OF ok e i(1) n(2), of nets1] by metis
  define t where "t = s\<lparr>router_info_cache := c1, net_out := net_out s @ es1\<rparr>"
  have ft: "router_futures t = [new_future j None router (Some net)]" using f by (simp add: t_def)
  have s1: "s1 = t\<lparr>router_futures := [(new_future j None router (Some net))\<lparr>fut_results := [(i, snd (routed_source n1))], fut_done := True\<rparr>],
       tasks := tasks t @ [RouterDone j]\<rparr>"
    using one_future [OF ft _ _ n(3), of i n1] n(1)
    by (simp add: s1_def element_indication_def h1(1) new_future_def flip: t_def)
  have "nsap_ok s1" using h1(2) core_ok [of s1 t] by (simp add: s1 t_def [symmetric] core_def)
  moreover have "k \<in> set (adapter_list s1)" using i(2) by (simp add: s1 t_def adapter_list_def)
  ultimately obtain c2 es2 where h2: "i_am_router_handler env k n2 nets2 s1 =
      match_router_futures k nets2 n2 (s1\<lparr>router_info_cache := c2, net_out := net_out s1 @ es2\<rparr>)"
    using i_am_router_eq [OF _ e _ n(5), of s1 k nets2] by metis
  define u where "u = s1\<lparr>router_info_cache := c2, net_out := net_out s1 @ es2\<rparr>"
  have fu: "router_futures u = [(new_future j None router (Some net))\<lparr>fut_results := [(i, snd (routed_source n1))], fut_done := True\<rparr>]"
    by (simp add: u_def s1)
  have e2: "element_indication env k n2 s1 = (Inl InvalidStateError, u\<lparr>router_futures :=
      [(new_future j None router (Some net))\<lparr>fut_results := [(i, snd (routed_source n1)), (k, snd (routed_source n2))], fut_done := True\<rparr>]\<rparr>)"
    using one_future [OF fu _ _ n(6), of k n2] n(4)
    by (simp add: element_indication_def h2 new_future_def flip: u_def)
  have src: "pduSource (snd (routed_source n1)) = Some src1"
    using n(2) by (simp add: routed_source_def Let_def split: option.split)
  have "wf_npci (canonical (m\<lparr>pduDestination := Some src1\<rparr>))"
    using w(1) by (auto simp: wf_npci_def canonical_def wf_set_route option.pred_map comp_def)
      (auto simp: pred_option_def wf_set_route split: option.splits)
  then obtain p where p: "npdu_encode (m\<lparr>pduDestination := Some src1\<rparr>) = Inr p" "pduDestination p = Some src1"
    using encode_total [of "m\<lparr>pduDestination := Some src1\<rparr>"] w(2) by auto
  have r1: "resume_indication env m [(i, snd (routed_source n1))] s1 = (Inr (), s1\<lparr>net_out := net_out s1 @ [LinkRequest i p]\<rparr>)"
    using send_one [OF e p(1)] src by (simp add: resume_indication_def)
  have f1: "map fut_results (router_futures s1) = [[(i, snd (routed_source n1))]]" by (simp add: s1)
  have "s2 = snd (element_indication env k n2 s1)" by (simp add: s2_def s1_def)
  then have f2: "map fut_results (router_futures s2) = [[(i, snd (routed_source n1)), (k, snd (routed_source n2))]]"
    by (simp add: e2)
  show ?thesis
    using r1 f1 f2 p(2) e2 by (simp add: resume_indication_def act_simps) blast
qed

definition example_waiting :: nsap where
  "example_waiting = example_node\<lparr>router_futures := [new_future 0 None (Some local_broadcast) (Some 30)], next_future := 1\<rparr>"

lemma two_answers_fail_witness:
  "fst (element_indication example_env 0 example_i_am (snd (element_indication example_env 0 example_i_am example_waiting))) =
     Inl InvalidStateError"
proof -
  have "nsap_ok example_waiting"
    using example_node_ok core_ok [of example_waiting example_node] by (simp add: example_waiting_def core_def)
  moreover have "0 \<in> set (adapter_list example_waiting)"
    by (simp add: example_waiting_def example_node_def bound_def new_nsap_def adapter_list_def)
  moreover have "npduMessage example_i_am = Some (IAmRouterToNetwork [30])" "pduSource example_i_am = Some (local_station [9])"
    by (simp_all add: example_i_am_def message_npdu_def)
  moreover have "router_futures example_waiting = [new_future 0 None (Some local_broadcast) (Some 30)]"
    by (simp add: example_waiting_def)
  moreover have "wf_npci (init_npdu [])" "npduMessage (init_npdu []) = None"
    by (simp_all add: wf_npci_def init_npdu_def init_npci_def init_pci_def npci.defs pci.defs)
  ultimately show ?thesis
    using two_answers_fail [of example_waiting example_env 0 0 example_i_am "[30]" "local_station [9]" 30 example_i_am "[30]"
        "local_station [9]" 0 "Some local_broadcast" "init_npdu []"] example_env_calm by simp
qed

end
