(* ===== verification/Bvll.thy ===== *)
theory Bvll
  imports Pdu
begin

text \<open>
  \<^verbatim>\<open>bacpypes3/ipv4/bvll.py\<close>: the BACnet/IPv4 virtual link layer messages with their encoders and
  decoders. An IPv4 address is an \<open>address\<close> of six octets, four of the address and two of the
  port; an entry of a broadcast distribution table also has the length of its network prefix.
\<close>

section \<open>Addresses and tables\<close>

datatype ipv4 = IPv4 (ip_octets: "byte list") (ip_prefix: nat)

definition ip_address :: "ipv4 \<Rightarrow> address" where
  "ip_address a = local_station (ip_octets a)"

definition netmask :: "nat \<Rightarrow> int" where
  "netmask prefix = 2 ^ 32 - 2 ^ (32 - prefix)"

text \<open>\<^verbatim>\<open>addrBroadcastTuple\<close> made an address again: the host bits set, the same port.\<close>

definition broadcast_address :: "ipv4 \<Rightarrow> address" where
  "broadcast_address a = local_station
     (be_bytes 4 (be_int (take 4 (ip_octets a)) OR (2 ^ (32 - ip_prefix a) - 1)) @ drop 4 (ip_octets a))"

record fdt_entry =
  fdAddress :: address
  fdTTL :: int
  fdRemain :: int

lemma and_pred_less: "0 < n \<Longrightarrow> n AND (n - 1) < (n :: int)"
  using AND_upper2 [of "n - 1" n] by (simp add: order.strict_trans1)

lemma and_pred_nonneg: "0 < n \<Longrightarrow> 0 \<le> n AND (n - 1 :: int)"
  by simp

text \<open>\<^verbatim>\<open>_count_set_bits\<close> clears the lowest bit until none is left.\<close>

function count_set_bits :: "int \<Rightarrow> nat" where
  "count_set_bits n = (if n \<le> 0 then 0 else Suc (count_set_bits (n AND (n - 1))))"
  by auto
termination
  by (relation "measure nat") (use and_pred_less in force)+

declare count_set_bits.simps [simp del]

section \<open>Messages\<close>

datatype bvll =
    Result (bvlciResultCode: int)
  | WriteBroadcastDistributionTable (bvlciBDT: "ipv4 list")
  | ReadBroadcastDistributionTable
  | ReadBroadcastDistributionTableAck (bvlciBDT: "ipv4 list")
  | ForwardedNPDU (bvlciAddress: address) (bvllData: "byte list")
  | RegisterForeignDevice (bvlciTimeToLive: int)
  | ReadForeignDeviceTable
  | ReadForeignDeviceTableAck (bvlciFDT: "fdt_entry list")
  | DeleteForeignDeviceTableEntry (bvlciAddress: address)
  | DistributeBroadcastToNetwork (bvllData: "byte list")
  | OriginalUnicastNPDU (bvllData: "byte list")
  | OriginalBroadcastNPDU (bvllData: "byte list")

primrec bvlciFunction :: "bvll \<Rightarrow> int" where
  "bvlciFunction (Result c) = 0x00"
| "bvlciFunction (WriteBroadcastDistributionTable t) = 0x01"
| "bvlciFunction ReadBroadcastDistributionTable = 0x02"
| "bvlciFunction (ReadBroadcastDistributionTableAck t) = 0x03"
| "bvlciFunction (ForwardedNPDU a d) = 0x04"
| "bvlciFunction (RegisterForeignDevice t) = 0x05"
| "bvlciFunction ReadForeignDeviceTable = 0x06"
| "bvlciFunction (ReadForeignDeviceTableAck t) = 0x07"
| "bvlciFunction (DeleteForeignDeviceTableEntry a) = 0x08"
| "bvlciFunction (DistributeBroadcastToNetwork d) = 0x09"
| "bvlciFunction (OriginalUnicastNPDU d) = 0x0A"
| "bvlciFunction (OriginalBroadcastNPDU d) = 0x0B"

primrec bvlciLength :: "bvll \<Rightarrow> int" where
  "bvlciLength (Result c) = 6"
| "bvlciLength (WriteBroadcastDistributionTable t) = 4 + 10 * int (length t)"
| "bvlciLength ReadBroadcastDistributionTable = 4"
| "bvlciLength (ReadBroadcastDistributionTableAck t) = 4 + 10 * int (length t)"
| "bvlciLength (ForwardedNPDU a d) = 10 + int (length d)"
| "bvlciLength (RegisterForeignDevice t) = 6"
| "bvlciLength ReadForeignDeviceTable = 4"
| "bvlciLength (ReadForeignDeviceTableAck t) = 4 + 10 * int (length t)"
| "bvlciLength (DeleteForeignDeviceTableEntry a) = 10"
| "bvlciLength (DistributeBroadcastToNetwork d) = 4 + int (length d)"
| "bvlciLength (OriginalUnicastNPDU d) = 4 + int (length d)"
| "bvlciLength (OriginalBroadcastNPDU d) = 4 + int (length d)"

definition lpci_encode :: "int \<Rightarrow> int \<Rightarrow> byte list result" where
  "lpci_encode func len =
     bindR (pdu_put 0x81 []) (\<lambda>s.
     bindR (pdu_put func s) (\<lambda>s.
     Inr (pdu_put_short len s)))"

definition lpci_decode :: "(int \<times> int) reader" where
  "lpci_decode s =
     bindR (pdu_get s) (\<lambda>(t, s).
     if t \<noteq> 0x81 then Inl DecodingError
     else
       bindR (pdu_get s) (\<lambda>(func, s).
       bindR (pdu_get_short s) (\<lambda>(len, s).
       if len \<noteq> int (length s) + 4 then Inl DecodingError
       else Inr ((func, len), s))))"

section \<open>Bodies\<close>

definition put_address :: "address \<Rightarrow> byte list \<Rightarrow> byte list result" where
  "put_address a s = bindR (need TypeError (addrAddr a)) (\<lambda>d. Inr (pdu_put_data d s))"

text \<open>An address made of octets; fewer than six cannot be read.\<close>

definition get_address :: "address reader" where
  "get_address s = bindR (pdu_get_data 6 s) (\<lambda>(d, s). Inr (local_station d, s))"

definition put_bdte :: "ipv4 \<Rightarrow> byte list \<Rightarrow> byte list result" where
  "put_bdte a s = Inr (pdu_put_data (be_bytes 4 (netmask (ip_prefix a))) (pdu_put_data (ip_octets a) s))"

definition get_bdte :: "ipv4 reader" where
  "get_bdte s =
     bindR (pdu_get_data 4 s) (\<lambda>(ip, s).
     bindR (pdu_get_short s) (\<lambda>(port, s).
     bindR (pdu_get_long s) (\<lambda>(mask, s).
     Inr (IPv4 (ip @ be_bytes 2 port) (count_set_bits mask), s))))"

definition put_fdte :: "fdt_entry \<Rightarrow> byte list \<Rightarrow> byte list result" where
  "put_fdte e s =
     bindR (put_address (fdAddress e) s) (\<lambda>s.
     Inr (pdu_put_short (fdRemain e) (pdu_put_short (fdTTL e) s)))"

definition get_fdte :: "fdt_entry reader" where
  "get_fdte s =
     bindR (get_address s) (\<lambda>(a, s).
     bindR (pdu_get_short s) (\<lambda>(ttl, s).
     bindR (pdu_get_short s) (\<lambda>(remain, s).
     Inr (\<lparr>fdAddress = a, fdTTL = ttl, fdRemain = remain\<rparr>, s))))"

text \<open>\<^verbatim>\<open>for entry in table: ...\<close> and \<^verbatim>\<open>while pdu.pduData: ...\<close>.\<close>

primrec put_all :: "('a \<Rightarrow> byte list \<Rightarrow> byte list result) \<Rightarrow> 'a list \<Rightarrow> byte list \<Rightarrow> byte list result" where
  "put_all f [] s = Inr s"
| "put_all f (x # xs) s = bindR (f x s) (put_all f xs)"

text \<open>The readers consume at least one octet, so \<open>length s\<close> rounds are enough.\<close>

primrec get_rounds :: "nat \<Rightarrow> 'a reader \<Rightarrow> byte list \<Rightarrow> 'a list result" where
  "get_rounds 0 f s = Inr []"
| "get_rounds (Suc k) f s =
     (if s = [] then Inr []
      else bindR (f s) (\<lambda>(x, s). bindR (get_rounds k f s) (\<lambda>xs. Inr (x # xs))))"

definition get_all :: "'a reader \<Rightarrow> byte list \<Rightarrow> 'a list result" where
  "get_all f s = get_rounds (length s) f s"

primrec bvll_body :: "bvll \<Rightarrow> byte list \<Rightarrow> byte list result" where
  "bvll_body (Result c) s = Inr (pdu_put_short c s)"
| "bvll_body (WriteBroadcastDistributionTable t) s = put_all put_bdte t s"
| "bvll_body ReadBroadcastDistributionTable s = Inr s"
| "bvll_body (ReadBroadcastDistributionTableAck t) s = put_all put_bdte t s"
| "bvll_body (ForwardedNPDU a d) s = bindR (put_address a s) (\<lambda>s. Inr (pdu_put_data d s))"
| "bvll_body (RegisterForeignDevice t) s = Inr (pdu_put_short t s)"
| "bvll_body ReadForeignDeviceTable s = Inr s"
| "bvll_body (ReadForeignDeviceTableAck t) s = put_all put_fdte t s"
| "bvll_body (DeleteForeignDeviceTableEntry a) s = put_address a s"
| "bvll_body (DistributeBroadcastToNetwork d) s = Inr (pdu_put_data d s)"
| "bvll_body (OriginalUnicastNPDU d) s = Inr (pdu_put_data d s)"
| "bvll_body (OriginalBroadcastNPDU d) s = Inr (pdu_put_data d s)"

definition bvll_encode :: "bvll \<Rightarrow> byte list result" where
  "bvll_encode m = bindR (lpci_encode (bvlciFunction m) (bvlciLength m)) (bvll_body m)"

definition bvll_decode_body :: "int \<Rightarrow> byte list \<Rightarrow> bvll result" where
  "bvll_decode_body func s =
     (if func = 0x00 then bindR (pdu_get_short s) (\<lambda>(c, s). Inr (Result c))
      else if func = 0x01 then bindR (get_all get_bdte s) (\<lambda>t. Inr (WriteBroadcastDistributionTable t))
      else if func = 0x02 then Inr ReadBroadcastDistributionTable
      else if func = 0x03 then bindR (get_all get_bdte s) (\<lambda>t. Inr (ReadBroadcastDistributionTableAck t))
      else if func = 0x04 then bindR (get_address s) (\<lambda>(a, d). Inr (ForwardedNPDU a d))
      else if func = 0x05 then bindR (pdu_get_short s) (\<lambda>(t, s). Inr (RegisterForeignDevice t))
      else if func = 0x06 then Inr ReadForeignDeviceTable
      else if func = 0x07 then bindR (get_all get_fdte s) (\<lambda>t. Inr (ReadForeignDeviceTableAck t))
      else if func = 0x08 then bindR (get_address s) (\<lambda>(a, s). Inr (DeleteForeignDeviceTableEntry a))
      else if func = 0x09 then Inr (DistributeBroadcastToNetwork s)
      else if func = 0x0A then Inr (OriginalUnicastNPDU s)
      else if func = 0x0B then Inr (OriginalBroadcastNPDU s)
      else Inl DecodingError)"

definition bvll_decode :: "byte list \<Rightarrow> bvll result" where
  "bvll_decode s = bindR (lpci_decode s) (\<lambda>((func, len), s). bvll_decode_body func s)"

section \<open>Tables as streams of entries\<close>

definition appends :: "('a \<Rightarrow> byte list \<Rightarrow> byte list result) \<Rightarrow> bool" where
  "appends f \<longleftrightarrow> (\<forall>x s. f x s = bindR (f x []) (\<lambda>d. Inr (s @ d)))"

definition consumes :: "'a reader \<Rightarrow> bool" where
  "consumes f \<longleftrightarrow> (\<forall>s x s'. f s = Inr (x, s') \<longrightarrow> length s' < length s)"

lemma put_all_append:
  assumes "appends f"
  shows "put_all f xs s = bindR (put_all f xs []) (\<lambda>d. Inr (s @ d))"
proof (induction xs arbitrary: s)
  case (Cons x xs)
  have f: "f x s = bindR (f x []) (\<lambda>d. Inr (s @ d))" using assms unfolding appends_def by blast
  show ?case
  proof (cases "f x []")
    case (Inr d)
    then show ?thesis using f Cons [of "s @ d"] Cons [of d] by (simp add: bindR_assoc)
  qed (use f in simp)
qed simp

lemma put_all_Cons:
  assumes "appends f"
  shows "put_all f (x # xs) [] = bindR (f x []) (\<lambda>bs. bindR (put_all f xs []) (\<lambda>cs. Inr (bs @ cs)))"
  by (simp add: put_all_append [OF assms, symmetric])

lemma get_rounds_enough:
  assumes "consumes f" "length s \<le> k"
  shows "get_rounds k f s = get_all f s"
  using assms(2)
proof (induction k arbitrary: s rule: less_induct)
  case (less k)
  show ?case
  proof (cases s)
    case Nil
    then show ?thesis by (cases k) (simp_all add: get_all_def)
  next
    case (Cons b t)
    then obtain m where m: "k = Suc m" "length t \<le> m" using less.prems by (cases k) auto
    have eq: "get_rounds m f s' = get_rounds (length t) f s'" if "f s = Inr (x, s')" for x s'
    proof -
      have "length s' \<le> length t" using that assms(1) Cons unfolding consumes_def by force
      then show ?thesis using less.IH [of m s'] less.IH [of "length t" s'] m by simp
    qed
    show ?thesis
    proof (cases "f s")
      case (Inr p)
      then show ?thesis using m Cons eq [of "fst p" "snd p"] by (cases p) (simp add: get_all_def)
    qed (use m Cons in \<open>simp add: get_all_def\<close>)
  qed
qed

lemma get_all_Nil: "get_all f [] = Inr []"
  by (simp add: get_all_def)

lemma get_all_step:
  assumes "consumes f" "s \<noteq> []"
  shows "get_all f s = bindR (f s) (\<lambda>(x, s'). bindR (get_all f s') (\<lambda>xs. Inr (x # xs)))"
proof (cases s)
  case (Cons b t)
  have eq: "get_rounds (length t) f s' = get_all f s'" if "f s = Inr (x, s')" for x s'
    using that assms(1) Cons unfolding consumes_def by (intro get_rounds_enough assms(1)) force
  show ?thesis
  proof (cases "f s")
    case (Inr p)
    then show ?thesis using Cons eq [of "fst p" "snd p"]
      by (cases p) (simp add: get_all_def [of f "b # t"])
  qed (use Cons in \<open>simp add: get_all_def [of f "b # t"]\<close>)
qed (use assms in simp)

text \<open>The network mask of a prefix is counted back.\<close>

lemma netmask_prefixes: "list_all (\<lambda>p. count_set_bits (netmask p) = p) [0..<33]"
  by code_simp

lemma netmask_prefix: "p \<le> 32 \<Longrightarrow> count_set_bits (netmask p) = p"
  using netmask_prefixes by (simp add: list_all_iff)

lemma netmask_range: "p \<le> 32 \<Longrightarrow> 0 \<le> netmask p \<and> netmask p < 4294967296"
  using power_increasing [of "32 - p" 32 "2 :: int"] by (simp add: netmask_def)

section \<open>Round trip\<close>

definition ipv4_ok :: "ipv4 \<Rightarrow> bool" where
  "ipv4_ok a \<longleftrightarrow> length (ip_octets a) = 6 \<and> ip_prefix a \<le> 32"

definition station_ok :: "address \<Rightarrow> bool" where
  "station_ok a \<longleftrightarrow> addrType a = LocalStationAddr \<and> addrNet a = None \<and> addrRoute a = None \<and>
     (\<exists>d. addrAddr a = Some d \<and> length d = 6)"

definition short_ok :: "int \<Rightarrow> bool" where
  "short_ok n \<longleftrightarrow> 0 \<le> n \<and> n < 65536"

definition fdt_entry_ok :: "fdt_entry \<Rightarrow> bool" where
  "fdt_entry_ok e \<longleftrightarrow> station_ok (fdAddress e) \<and> short_ok (fdTTL e) \<and> short_ok (fdRemain e)"

lemma station_okE:
  assumes "station_ok a"
  obtains d where "a = local_station d" "length d = 6"
  using assms by (cases a) (auto simp: station_ok_def local_station_def)

lemma put_get_address:
  "station_ok a \<Longrightarrow> \<exists>d. length d = 6 \<and> (\<forall>s. put_address a s = Inr (s @ d)) \<and>
     (\<forall>t. get_address (d @ t) = Inr (a, t))"
  by (erule station_okE)
    (auto simp: put_address_def get_address_def pdu_put_data_def local_station_def codec_simps)

lemma get_short_octets: "length d = 2 \<Longrightarrow> pdu_get_short (d @ s) = Inr (be_int d, s)"
  by (simp add: pdu_get_short_def codec_simps)

lemma put_get_bdte:
  assumes "ipv4_ok a"
  shows "\<exists>d. put_bdte a s = Inr (s @ d) \<and> put_bdte a [] = Inr d \<and> d \<noteq> [] \<and> get_bdte (d @ t) = Inr (a, t)"
proof -
  obtain ip port where a: "a = IPv4 (ip @ port) (ip_prefix a)" "length ip = 4" "length port = 2"
    using assms that [of "take 4 (ip_octets a)" "drop 4 (ip_octets a)"]
    by (cases a) (simp add: ipv4_ok_def)
  let ?m = "be_bytes 4 (netmask (ip_prefix a))"
  have "get_bdte (ip @ port @ ?m @ t) = Inr (a, t)"
    using a assms netmask_range netmask_prefix be_bytes_be_int [of port]
    by (simp add: get_bdte_def codec_simps get_short_octets ipv4_ok_def)
  moreover have "put_bdte a s = Inr (s @ ip @ port @ ?m)" for s
    using arg_cong [OF a(1), of ip_octets] by (simp add: put_bdte_def pdu_put_data_def)
  ultimately show ?thesis using a by (intro exI [of _ "ip @ port @ ?m"]) auto
qed

lemma put_get_fdte:
  assumes "fdt_entry_ok e"
  shows "\<exists>d. put_fdte e s = Inr (s @ d) \<and> put_fdte e [] = Inr d \<and> d \<noteq> [] \<and> get_fdte (d @ t) = Inr (e, t)"
proof -
  obtain d where d: "length d = 6" "\<And>s. put_address (fdAddress e) s = Inr (s @ d)"
    "\<And>t. get_address (d @ t) = Inr (fdAddress e, t)"
    using assms put_get_address unfolding fdt_entry_ok_def by blast
  show ?thesis
    using assms d
    by (auto simp: put_fdte_def get_fdte_def fdt_entry_ok_def short_ok_def codec_simps)
qed

lemma appends_tables: "appends put_bdte" "appends put_fdte"
  by (auto simp: appends_def put_bdte_def put_fdte_def put_address_def pdu_put_data_def
      pdu_put_short_def need_def split: option.splits)

lemma get_address_length: "get_address s = Inr (a, s') \<Longrightarrow> length s' < length s"
  by (auto simp: get_address_def bindR_eq_Inr_iff dest!: pdu_get_data_InrD)

lemma consumes_tables: "consumes get_bdte" "consumes get_fdte"
  unfolding consumes_def get_bdte_def get_fdte_def
  by (auto simp: bindR_eq_Inr_iff dest!: pdu_get_InrDs get_address_length)

interpretation bdt: stream_codec "\<lambda>a. put_bdte a []" get_bdte ipv4_ok "\<lambda>t. put_all put_bdte t []" "get_all get_bdte"
proof
  fix x bs rest assume ok: "ipv4_ok x"
  show "\<exists>bs. put_bdte x [] = Inr bs" using put_get_bdte [OF ok] by blast
  assume bs: "put_bdte x [] = Inr bs"
  show "get_bdte (bs @ rest) = Inr (x, rest)" "bs \<noteq> []"
    using put_get_bdte [OF ok, of "[]" rest] bs by auto
next
  fix x xs
  show "put_all put_bdte (x # xs) [] =
      bindR (put_bdte x []) (\<lambda>bs. bindR (put_all put_bdte xs []) (\<lambda>cs. Inr (bs @ cs)))"
    using put_all_Cons [OF appends_tables(1)] .
qed (simp_all add: get_all_Nil get_all_step consumes_tables)

interpretation fdt: stream_codec "\<lambda>a. put_fdte a []" get_fdte fdt_entry_ok "\<lambda>t. put_all put_fdte t []" "get_all get_fdte"
proof
  fix x bs rest assume ok: "fdt_entry_ok x"
  show "\<exists>bs. put_fdte x [] = Inr bs" using put_get_fdte [OF ok] by blast
  assume bs: "put_fdte x [] = Inr bs"
  show "get_fdte (bs @ rest) = Inr (x, rest)" "bs \<noteq> []"
    using put_get_fdte [OF ok, of "[]" rest] bs by auto
next
  fix x xs
  show "put_all put_fdte (x # xs) [] =
      bindR (put_fdte x []) (\<lambda>bs. bindR (put_all put_fdte xs []) (\<lambda>cs. Inr (bs @ cs)))"
    using put_all_Cons [OF appends_tables(2)] .
qed (simp_all add: get_all_Nil get_all_step consumes_tables)

text \<open>The messages whose fields fit their encodings.\<close>

definition bvll_ok :: "bvll \<Rightarrow> bool" where
  "bvll_ok m \<longleftrightarrow> bvlciLength m < 65536 \<and>
     (case m of
        Result c \<Rightarrow> short_ok c
      | WriteBroadcastDistributionTable t \<Rightarrow> \<forall>a\<in>set t. ipv4_ok a
      | ReadBroadcastDistributionTableAck t \<Rightarrow> \<forall>a\<in>set t. ipv4_ok a
      | ForwardedNPDU a d \<Rightarrow> station_ok a
      | RegisterForeignDevice t \<Rightarrow> short_ok t
      | ReadForeignDeviceTableAck t \<Rightarrow> \<forall>e\<in>set t. fdt_entry_ok e
      | DeleteForeignDeviceTableEntry a \<Rightarrow> station_ok a
      | _ \<Rightarrow> True)"

lemma table_length:
  assumes "appends f" "\<forall>x\<in>set t. \<forall>d. f x [] = Inr d \<longrightarrow> length d = 10" "put_all f t [] = Inr d"
  shows "length d = 10 * length t"
  using assms(2,3)
proof (induction t arbitrary: d)
  case (Cons x t)
  then show ?case
    by (auto simp: put_all_Cons [OF assms(1)] bindR_eq_Inr_iff simp del: put_all.simps)
qed simp

lemma bdt_length: "\<forall>a\<in>set t. ipv4_ok a \<Longrightarrow> put_all put_bdte t [] = Inr d \<Longrightarrow> length d = 10 * length t"
  by (rule table_length [OF appends_tables(1)]) (auto simp: put_bdte_def pdu_put_data_def ipv4_ok_def)

lemma fdt_length:
  assumes "\<forall>e\<in>set t. fdt_entry_ok e" "put_all put_fdte t [] = Inr d"
  shows "length d = 10 * length t"
proof (rule table_length [OF appends_tables(2) _ assms(2)])
  have "length d = 10" if "fdt_entry_ok e" "put_fdte e [] = Inr d" for e d
    using that put_get_address [of "fdAddress e"]
    by (auto simp: put_fdte_def pdu_put_short_def fdt_entry_ok_def)
  then show "\<forall>e\<in>set t. \<forall>d. put_fdte e [] = Inr d \<longrightarrow> length d = 10" using assms(1) by blast
qed

text \<open>The body of a message has the length its header says and decodes to the message.\<close>

lemma bvll_body_append: "bvll_body m s = bindR (bvll_body m []) (\<lambda>d. Inr (s @ d))"
  using put_all_append [OF appends_tables(1), of _ s] put_all_append [OF appends_tables(2), of _ s]
  by (cases m)
    (auto simp: pdu_put_short_def pdu_put_data_def put_address_def need_def split: option.splits)

lemma bvll_body_roundtrip:
  assumes "bvll_ok m"
  shows "\<exists>d. bvll_body m [] = Inr d \<and> int (length d) = bvlciLength m - 4 \<and>
    bvll_decode_body (bvlciFunction m) d = Inr m"
proof (cases m)
  case (WriteBroadcastDistributionTable t)
  then show ?thesis
    using assms bdt.stream_roundtrip [of t] bdt_length by (auto simp: bvll_ok_def bvll_decode_body_def)
next
  case (ReadBroadcastDistributionTableAck t)
  then show ?thesis
    using assms bdt.stream_roundtrip [of t] bdt_length by (auto simp: bvll_ok_def bvll_decode_body_def)
next
  case (ReadForeignDeviceTableAck t)
  then show ?thesis
    using assms fdt.stream_roundtrip [of t] fdt_length by (auto simp: bvll_ok_def bvll_decode_body_def)
next
  case (ForwardedNPDU a d)
  then obtain x where "length x = 6" "\<And>s. put_address a s = Inr (s @ x)" "\<And>t. get_address (x @ t) = Inr (a, t)"
    using assms put_get_address [of a] by (auto simp: bvll_ok_def)
  then show ?thesis using ForwardedNPDU
    by (auto simp: bvll_decode_body_def pdu_put_data_def)
next
  case (DeleteForeignDeviceTableEntry a)
  then obtain x where "length x = 6" "\<And>s. put_address a s = Inr (s @ x)" "\<And>t. get_address (x @ t) = Inr (a, t)"
    using assms put_get_address [of a] by (auto simp: bvll_ok_def)
  moreover from this(3) [of "[]"] have "get_address x = Inr (a, [])" by simp
  ultimately show ?thesis using DeleteForeignDeviceTableEntry by (auto simp: bvll_decode_body_def)
qed (use assms pdu_get_short_append [of _ "[]"] in
  \<open>auto simp: bvll_ok_def short_ok_def bvll_decode_body_def pdu_put_data_def pdu_put_short_ok\<close>)

lemma bvlciFunction_range: "0 \<le> bvlciFunction m \<and> bvlciFunction m < 256"
  by (cases m) simp_all

lemma lpci_roundtrip:
  assumes "0 \<le> func" "func < 256" "len = int (length d) + 4" "len < 65536"
  shows "\<exists>h. lpci_encode func len = Inr h \<and> lpci_decode (h @ d) = Inr ((func, len), d)"
  using assms by (auto simp: lpci_encode_def lpci_decode_def codec_simps)

text \<open>
  A BVLL message whose fields fit their formats (addresses of six octets, network
  prefixes up to 32, shorts in range, at most 65535 octets in all) can be encoded, and decoding the
  octets gives the message back, tables with their network masks included.
\<close>

theorem bvll_roundtrip:
  assumes "bvll_ok m"
  shows "\<exists>bs. bvll_encode m = Inr bs \<and> bvll_decode bs = Inr m"
proof -
  obtain d where d: "bvll_body m [] = Inr d" "int (length d) = bvlciLength m - 4"
    "bvll_decode_body (bvlciFunction m) d = Inr m"
    using bvll_body_roundtrip [OF assms] by blast
  then obtain h where "lpci_encode (bvlciFunction m) (bvlciLength m) = Inr h"
    "lpci_decode (h @ d) = Inr ((bvlciFunction m, bvlciLength m), d)"
    using lpci_roundtrip [of "bvlciFunction m" "bvlciLength m" d] bvlciFunction_range [of m] assms
    by (auto simp: bvll_ok_def)
  then show ?thesis using d bvll_body_append [of m h] by (simp add: bvll_encode_def bvll_decode_def)
qed

theorem bvll_roundtrip_witness:
  "\<exists>bs. bvll_encode (ReadBroadcastDistributionTableAck [IPv4 [10, 0, 0, 1, 0xBA, 0xC0] 24]) = Inr bs \<and>
     bvll_decode bs = Inr (ReadBroadcastDistributionTableAck [IPv4 [10, 0, 0, 1, 0xBA, 0xC0] 24])"
  by (rule bvll_roundtrip) (simp add: bvll_ok_def ipv4_ok_def)

end
