(* ===== verification/Bip.thy ===== *)
theory Bip
  imports Bvll Action
begin

text \<open>
  The BACnet/IPv4 data link of \<^verbatim>\<open>bacpypes3/ipv4/service.py\<close> and the codec below it: the
  multiplexer over the UDP socket, the Annex H tunnelling router, the service access point every
  kind of Annex J node extends, and the ordinary node. A method is an action over the object;
  what it sends down, up, or to its service element is appended to \<open>out\<close>, in order. The
  objects below (\<^verbatim>\<open>clientPeer\<close>) are bound; those above need not be.
\<close>

section \<open>Messages with their control information\<close>

record lpdu =
  lpduSource :: "address option"
  lpduDestination :: "address option"
  lpduUserData :: "byte list option"
  lpduMessage :: bvll

definition upstream :: "byte list \<Rightarrow> address option \<Rightarrow> address option \<Rightarrow> byte list option \<Rightarrow> pdu" where
  "upstream d src dst user =
     (init_pdu d)\<lparr>pduSource := src, pduDestination := dst, pduUserData := user\<rparr>"

lemma upstream_simps [simp]:
  "pduData (upstream d src dst user) = d" "pduSource (upstream d src dst user) = src"
  "pduDestination (upstream d src dst user) = dst" "pduUserData (upstream d src dst user) = user"
  by (simp_all add: upstream_def init_pdu_def pci.defs)

text \<open>\<^verbatim>\<open>BVLLCodec\<close>: between messages and the octets of a datagram.\<close>

definition bvll_codec_indication :: "lpdu \<Rightarrow> pdu result" where
  "bvll_codec_indication l =
     bindR (bvll_encode (lpduMessage l)) (\<lambda>bs.
     Inr (upstream bs (lpduSource l) (lpduDestination l) (lpduUserData l)))"

definition bvll_codec_confirmation :: "pdu \<Rightarrow> lpdu result" where
  "bvll_codec_confirmation p =
     bindR (bvll_decode (pduData p)) (\<lambda>m.
     Inr \<lparr>lpduSource = pduSource p, lpduDestination = pduDestination p,
       lpduUserData = pduUserData p, lpduMessage = m\<rparr>)"

section \<open>The multiplexer\<close>

datatype annex = AnnexH | AnnexJ

text \<open>
  \<^verbatim>\<open>UDPMultiplexer.confirmation\<close>: the first octet says who gets the datagram, if anybody;
  \<open>bound\<close> tells which of the two servers has a peer.
\<close>

definition multiplexer_confirmation :: "(annex \<Rightarrow> bool) \<Rightarrow> pdu \<Rightarrow> (annex \<times> pdu) option" where
  "multiplexer_confirmation bound p =
     (case pduData p of
        [] \<Rightarrow> None
      | msg_type # _ \<Rightarrow>
          if msg_type = 0x01 then (if bound AnnexH then Some (AnnexH, p) else None)
          else if msg_type = 0x81 then (if bound AnnexJ then Some (AnnexJ, p) else None)
          else None)"

section \<open>The tunnelling router\<close>

text \<open>
  \<^verbatim>\<open>peers\<close> maps an address to a list of networks, an object: \<open>heap\<close> holds the lists by
  reference. Reference 0 is the default value of the parameter \<^verbatim>\<open>networks\<close>, made once when
  the method is defined.
\<close>

record btr =
  btrPeers :: "(address \<times> nat) list"
  heap :: "nat \<Rightarrow> int list"

definition default_networks :: nat where
  "default_networks = 0"

definition btr_networks :: "btr \<Rightarrow> address \<Rightarrow> int list option" where
  "btr_networks s a = map_option (heap s) (map_of (btrPeers s) a)"

definition btr_indication :: "btr \<Rightarrow> pdu \<Rightarrow> pdu list result" where
  "btr_indication s p =
     bindR (need AssertionError (pduDestination p)) (\<lambda>dst.
     if addrType dst = LocalStationAddr then
       Inr (if map_of (btrPeers s) dst = None then [] else [p])
     else if addrType dst = LocalBroadcastAddr then
       Inr (map (\<lambda>peerAddr. upstream (pduData p) None (Some peerAddr) None) (map fst (btrPeers s)))
     else Inl RuntimeError)"

definition btr_confirmation :: "btr \<Rightarrow> pdu \<Rightarrow> pdu option result" where
  "btr_confirmation s p =
     bindR (need AssertionError (pduDestination p)) (\<lambda>_.
     Inr (case pduSource p of
            None \<Rightarrow> None
          | Some src \<Rightarrow> if map_of (btrPeers s) src = None then None else Some p))"

definition btr_add_peer :: "address \<Rightarrow> nat option \<Rightarrow> btr \<Rightarrow> btr" where
  "btr_add_peer peerAddr networks s =
     (let r = (case networks of None \<Rightarrow> default_networks | Some r \<Rightarrow> r) in
      case map_of (btrPeers s) peerAddr of
        Some q \<Rightarrow> s\<lparr>heap := (heap s)(q := heap s q @ heap s r)\<rparr>
      | None \<Rightarrow> s\<lparr>btrPeers := btrPeers s @ [(peerAddr, r)]\<rparr>)"

definition btr_delete_peer :: "address \<Rightarrow> btr \<Rightarrow> btr result" where
  "btr_delete_peer peerAddr s =
     (if map_of (btrPeers s) peerAddr = None then Inl KeyError
      else Inr (s\<lparr>btrPeers := AList.delete peerAddr (btrPeers s)\<rparr>))"

definition btr_ok :: "btr \<Rightarrow> bool" where
  "btr_ok s \<longleftrightarrow> distinct (map fst (btrPeers s))"

lemma btr_add_peer_ok: "btr_ok s \<Longrightarrow> btr_ok (btr_add_peer a n s)"
  by (auto simp: btr_ok_def btr_add_peer_def Let_def map_of_eq_None_iff split: option.splits)

lemma btr_delete_peer_ok: "btr_ok s \<Longrightarrow> btr_delete_peer a s = Inr s' \<Longrightarrow> btr_ok s'"
  by (auto simp: btr_ok_def btr_delete_peer_def distinct_delete)

text \<open>A broadcast goes to each peer exactly once.\<close>

lemma btr_broadcast_once:
  assumes "btr_ok s" "pduDestination p = Some dst" "addrType dst = LocalBroadcastAddr"
  shows "\<exists>ps. btr_indication s p = Inr ps \<and> map pduDestination ps = map (Some \<circ> fst) (btrPeers s) \<and>
    distinct (map pduDestination ps) \<and> (\<forall>q\<in>set ps. pduData q = pduData p)"
proof -
  have "inj_on Some (set (map fst (btrPeers s)))" by simp
  then have "distinct (map (Some \<circ> fst) (btrPeers s))"
    using assms(1) by (simp add: btr_ok_def distinct_map comp_inj_on)
  then show ?thesis using assms by (auto simp: btr_indication_def comp_def)
qed

text \<open>
  Peers added without a list share the default: networks given later for one of them show at
  every other one.
\<close>

lemma btr_default_shared:
  assumes "map_of (btrPeers s) a = None" "map_of (btrPeers s) b = None" "a \<noteq> b" "r \<noteq> default_networks"
    and "s' = btr_add_peer a (Some r) (btr_add_peer b None (btr_add_peer a None s))"
  shows "btr_networks s' b = Some (heap s default_networks @ heap s r)"
  using assms by (simp add: btr_networks_def btr_add_peer_def Let_def map_add_def)

section \<open>Nodes\<close>

datatype bip_event =
    Request lpdu
  | Response pdu
  | SapResponse lpdu

record bip =
  serverPeer :: bool
  serviceElement :: bool
  out :: "bip_event list"

definition bip_emit :: "bip_event \<Rightarrow> ('a bip_scheme, unit) action" where
  "bip_emit e = modS (\<lambda>s. s\<lparr>out := out s @ [e]\<rparr>)"

text \<open>\<^verbatim>\<open>Client.request\<close>, \<^verbatim>\<open>Server.response\<close> and \<^verbatim>\<open>ServiceAccessPoint.sap_response\<close>.\<close>

definition bip_request :: "lpdu \<Rightarrow> ('a bip_scheme, unit) action" where
  "bip_request l = bip_emit (Request l)"

definition bip_response :: "pdu \<Rightarrow> ('a bip_scheme, unit) action" where
  "bip_response p = withS (\<lambda>s. if serverPeer s then bip_emit (Response p) else raiseS ConfigurationError)"

definition bip_sap_response :: "lpdu \<Rightarrow> ('a bip_scheme, unit) action" where
  "bip_sap_response l =
     withS (\<lambda>s. if serviceElement s then bip_emit (SapResponse l) else raiseS ConfigurationError)"

text \<open>\<^verbatim>\<open>BVLLServiceAccessPoint\<close> passes what its service element asks downstream.\<close>

definition bip_sap_indication :: "lpdu \<Rightarrow> ('a bip_scheme, unit) action" where
  "bip_sap_indication l = bip_request l"

definition bip_sap_confirmation :: "lpdu \<Rightarrow> ('a bip_scheme, unit) action" where
  "bip_sap_confirmation l = bip_request l"

definition down :: "bvll \<Rightarrow> address option \<Rightarrow> byte list option \<Rightarrow> ('a bip_scheme, unit) action" where
  "down m dst user =
     bip_request \<lparr>lpduSource = None, lpduDestination = dst, lpduUserData = user, lpduMessage = m\<rparr>"

text \<open>\<^verbatim>\<open>xpdu = Result(code=...)\<close> sent to the source of the message.\<close>

definition answer :: "lpdu \<Rightarrow> bvll \<Rightarrow> ('a bip_scheme, unit) action" where
  "answer l m = down m (lpduSource l) (lpduUserData l)"

section \<open>The ordinary node\<close>

definition normal_indication :: "pdu \<Rightarrow> ('a bip_scheme, unit) action" where
  "normal_indication p =
     bindS (liftS (need AssertionError (pduDestination p))) (\<lambda>dst.
     if addrType dst = LocalStationAddr then
       down (OriginalUnicastNPDU (pduData p)) (Some dst) (pduUserData p)
     else if addrType dst = LocalBroadcastAddr then
       down (OriginalBroadcastNPDU (pduData p)) (Some dst) (pduUserData p)
     else retS ())"

definition normal_confirmation :: "lpdu \<Rightarrow> ('a bip_scheme, unit) action" where
  "normal_confirmation l =
     (case lpduMessage l of
        Result _ \<Rightarrow> bip_sap_response l
      | ReadBroadcastDistributionTableAck _ \<Rightarrow> bip_sap_response l
      | ReadForeignDeviceTableAck _ \<Rightarrow> bip_sap_response l
      | OriginalUnicastNPDU d \<Rightarrow>
          bip_response (upstream d (lpduSource l) (lpduDestination l) (lpduUserData l))
      | OriginalBroadcastNPDU d \<Rightarrow>
          bip_response (upstream d (lpduSource l) (Some local_broadcast) (lpduUserData l))
      | ForwardedNPDU a d \<Rightarrow> bip_response (upstream d (Some a) (Some local_broadcast) (lpduUserData l))
      | WriteBroadcastDistributionTable _ \<Rightarrow> answer l (Result 0x0010)
      | ReadBroadcastDistributionTable \<Rightarrow> answer l (Result 0x0020)
      | RegisterForeignDevice _ \<Rightarrow> answer l (Result 0x0030)
      | ReadForeignDeviceTable \<Rightarrow> answer l (Result 0x0040)
      | DeleteForeignDeviceTableEntry _ \<Rightarrow> answer l (Result 0x0050)
      | DistributeBroadcastToNetwork _ \<Rightarrow> answer l (Result 0x0060))"

lemma bip_emit_run [act_simps]: "bip_emit e s = (Inr (), s\<lparr>out := out s @ [e]\<rparr>)"
  by (simp add: bip_emit_def act_simps)

lemma down_run [act_simps]:
  "down m dst user s = (Inr (), s\<lparr>out := out s @
     [Request \<lparr>lpduSource = None, lpduDestination = dst, lpduUserData = user, lpduMessage = m\<rparr>]\<rparr>)"
  by (simp add: down_def bip_request_def act_simps)

lemma seqS_down [act_simps]:
  "seqS (map (\<lambda>x. down m (f x) user) xs) s = (Inr (), s\<lparr>out := out s @
     map (\<lambda>x. Request \<lparr>lpduSource = None, lpduDestination = f x, lpduUserData = user, lpduMessage = m\<rparr>) xs\<rparr>)"
  by (induction xs arbitrary: s) (simp_all add: act_simps)

end
