(* ===== verification/Bbmd.thy ===== *)
theory Bbmd
  imports Bip
begin

text \<open>
  \<^verbatim>\<open>BIPBBMD\<close> of \<^verbatim>\<open>bacpypes3/ipv4/service.py\<close>: the BACnet broadcast management device with
  its broadcast distribution table of peers and its table of registered foreign devices, aged
  once a second by \<^verbatim>\<open>fdt_clock\<close>. The lemmas give the lease of a registration, the invariant
  of the tables, and what becomes of a broadcast in a network of such devices.
\<close>

section \<open>State and table operations\<close>

record bbmd = bip +
  bbmdAddress :: address
  bbmdBDT :: "ipv4 list"
  bbmdFDT :: "fdt_entry list"

definition init_bbmd :: "bool \<Rightarrow> bool \<Rightarrow> address \<Rightarrow> bbmd" where
  "init_bbmd server element addr =
     \<lparr>serverPeer = server, serviceElement = element, out = [], bbmdAddress = addr, bbmdBDT = [], bbmdFDT = []\<rparr>"

text \<open>\<^verbatim>\<open>for fdte in self.bbmdFDT: ... break ... else: ...\<close>\<close>

fun register_entry :: "address \<Rightarrow> int \<Rightarrow> fdt_entry list \<Rightarrow> fdt_entry list" where
  "register_entry addr ttl [] = [\<lparr>fdAddress = addr, fdTTL = ttl, fdRemain = ttl + 5\<rparr>]"
| "register_entry addr ttl (e # es) =
     (if addr = fdAddress e then e\<lparr>fdTTL := ttl, fdRemain := ttl + 5\<rparr> # es
      else e # register_entry addr ttl es)"

text \<open>The loops that look for an entry from the end and delete it.\<close>

fun delete_first :: "('a \<Rightarrow> bool) \<Rightarrow> 'a list \<Rightarrow> 'a list option" where
  "delete_first P [] = None"
| "delete_first P (x # xs) = (if P x then Some xs else map_option (Cons x) (delete_first P xs))"

definition delete_last :: "('a \<Rightarrow> bool) \<Rightarrow> 'a list \<Rightarrow> 'a list option" where
  "delete_last P xs = map_option rev (delete_first P (rev xs))"

definition register_foreign_device :: "address \<Rightarrow> int \<Rightarrow> (bbmd, int) action" where
  "register_foreign_device addr ttl =
     bindS (modS (\<lambda>s. s\<lparr>bbmdFDT := register_entry addr ttl (bbmdFDT s)\<rparr>)) (\<lambda>_. retS 0)"

definition delete_foreign_device_table_entry :: "address \<Rightarrow> (bbmd, int) action" where
  "delete_foreign_device_table_entry addr =
     withS (\<lambda>s. case delete_last (\<lambda>e. addr = fdAddress e) (bbmdFDT s) of
        Some fdt \<Rightarrow> bindS (modS (\<lambda>s. s\<lparr>bbmdFDT := fdt\<rparr>)) (\<lambda>_. retS 0)
      | None \<Rightarrow> retS 0x0050)"

text \<open>\<^verbatim>\<open>fdt_clock\<close>: one round of its loop, and the loop, from the last index down.\<close>

definition fdt_clock_round :: "nat \<Rightarrow> fdt_entry list \<Rightarrow> fdt_entry list" where
  "fdt_clock_round i fdt =
     (let e = (fdt ! i)\<lparr>fdRemain := fdRemain (fdt ! i) - 1\<rparr> in
      if fdRemain e \<le> 0 then take i fdt @ drop (Suc i) fdt else fdt[i := e])"

definition fdt_clock :: "bbmd \<Rightarrow> bbmd" where
  "fdt_clock s = s\<lparr>bbmdFDT := fold fdt_clock_round (rev [0..<length (bbmdFDT s)]) (bbmdFDT s)\<rparr>"

definition bbmd_add_peer :: "ipv4 \<Rightarrow> bbmd \<Rightarrow> bbmd" where
  "bbmd_add_peer addr s =
     (if \<exists>b\<in>set (bbmdBDT s). ip_address addr = ip_address b then s
      else s\<lparr>bbmdBDT := bbmdBDT s @ [addr]\<rparr>)"

definition bbmd_delete_peer :: "ipv4 \<Rightarrow> bbmd \<Rightarrow> bbmd" where
  "bbmd_delete_peer addr s =
     (case delete_last (\<lambda>b. ip_address addr = ip_address b) (bbmdBDT s) of
        Some bdt \<Rightarrow> s\<lparr>bbmdBDT := bdt\<rparr> | None \<Rightarrow> s)"

section \<open>Handlers\<close>

text \<open>
  Sending a forwarded message to each destination; the codec raises \<^verbatim>\<open>AttributeError\<close> for a
  message without an originating address.
\<close>

definition forward_each ::
    "address option \<Rightarrow> byte list \<Rightarrow> byte list option \<Rightarrow> address list \<Rightarrow> (bbmd, unit) action" where
  "forward_each src d user dsts =
     seqS (map (\<lambda>dst. bindS (liftS (need AttributeError src)) (\<lambda>a.
       down (ForwardedNPDU a d) (Some dst) user)) dsts)"

definition up :: "byte list \<Rightarrow> address option \<Rightarrow> address option \<Rightarrow> byte list option \<Rightarrow> (bbmd, unit) action" where
  "up d src dst user =
     withS (\<lambda>s. if serverPeer s then bip_response (upstream d src dst user) else retS ())"

definition other_peers :: "bbmd \<Rightarrow> address list" where
  "other_peers s = map broadcast_address (filter (\<lambda>b. ip_address b \<noteq> bbmdAddress s) (bbmdBDT s))"

definition bbmd_indication :: "pdu \<Rightarrow> (bbmd, unit) action" where
  "bbmd_indication p =
     bindS (liftS (need AssertionError (pduDestination p))) (\<lambda>dst.
     if addrType dst = LocalStationAddr then
       down (OriginalUnicastNPDU (pduData p)) (Some dst) (pduUserData p)
     else if addrType dst = LocalBroadcastAddr then
       withS (\<lambda>s. seqS
         [down (OriginalBroadcastNPDU (pduData p)) (Some dst) (pduUserData p),
          forward_each (Some (bbmdAddress s)) (pduData p) (pduUserData p) (other_peers s),
          forward_each (Some (bbmdAddress s)) (pduData p) (pduUserData p) (map fdAddress (bbmdFDT s))])
     else retS ())"

text \<open>\<^verbatim>\<open>DistributeBroadcastToNetwork\<close>: the local name \<open>pdu\<close> is bound only with a server peer.\<close>

definition bbmd_distribute :: "lpdu \<Rightarrow> byte list \<Rightarrow> (bbmd, unit) action" where
  "bbmd_distribute l d =
     withS (\<lambda>s. seqS
       [up d (lpduSource l) (Some local_broadcast) (lpduUserData l),
        forward_each (lpduSource l) d (lpduUserData l)
          (map (\<lambda>b. if ip_address b = bbmdAddress s then local_broadcast else broadcast_address b)
            (bbmdBDT s)),
        if \<not> serverPeer s \<and> bbmdFDT s \<noteq> [] then raiseS NameError
        else forward_each (lpduSource l) d (lpduUserData l)
          (filter (\<lambda>a. Some a \<noteq> lpduSource l) (map fdAddress (bbmdFDT s)))])"

definition bbmd_forwarded :: "lpdu \<Rightarrow> address \<Rightarrow> byte list \<Rightarrow> (bbmd, unit) action" where
  "bbmd_forwarded l a d =
     withS (\<lambda>s. seqS
       [up d (Some a) (Some local_broadcast) (lpduUserData l),
        bindS (liftS (need AssertionError (lpduDestination l))) (\<lambda>dst.
          if addrType dst = LocalStationAddr \<and> bbmdAddress s \<in> ip_address ` set (bbmdBDT s) then
            forward_each (Some a) d (lpduUserData l) [local_broadcast]
          else retS ()),
        forward_each (Some a) d (lpduUserData l) (map fdAddress (bbmdFDT s))])"

definition bbmd_broadcast :: "lpdu \<Rightarrow> byte list \<Rightarrow> (bbmd, unit) action" where
  "bbmd_broadcast l d =
     withS (\<lambda>s. seqS
       [up d (lpduSource l) (Some local_broadcast) (lpduUserData l),
        forward_each (lpduSource l) d (lpduUserData l) (other_peers s),
        forward_each (lpduSource l) d (lpduUserData l) (map fdAddress (bbmdFDT s))])"

definition bbmd_register :: "lpdu \<Rightarrow> int \<Rightarrow> (bbmd, unit) action" where
  "bbmd_register l ttl =
     bindS (liftS (need AssertionError (lpduSource l))) (\<lambda>src.
     bindS (if ttl = 0 then delete_foreign_device_table_entry src
            else register_foreign_device src ttl) (\<lambda>stat.
     answer l (Result stat)))"

definition bbmd_confirmation :: "lpdu \<Rightarrow> (bbmd, unit) action" where
  "bbmd_confirmation l =
     (case lpduMessage l of
        Result _ \<Rightarrow> bip_sap_response l
      | WriteBroadcastDistributionTable _ \<Rightarrow> answer l (Result 0x0010)
      | ReadBroadcastDistributionTable \<Rightarrow>
          withS (\<lambda>s. answer l (ReadBroadcastDistributionTableAck (bbmdBDT s)))
      | ReadBroadcastDistributionTableAck _ \<Rightarrow> bip_sap_response l
      | ForwardedNPDU a d \<Rightarrow> bbmd_forwarded l a d
      | RegisterForeignDevice ttl \<Rightarrow> bbmd_register l ttl
      | ReadForeignDeviceTable \<Rightarrow> withS (\<lambda>s. answer l (ReadForeignDeviceTableAck (bbmdFDT s)))
      | ReadForeignDeviceTableAck _ \<Rightarrow> bip_sap_response l
      | DeleteForeignDeviceTableEntry a \<Rightarrow>
          bindS (delete_foreign_device_table_entry a) (\<lambda>stat. answer l (Result stat))
      | DistributeBroadcastToNetwork d \<Rightarrow> bbmd_distribute l d
      | OriginalUnicastNPDU d \<Rightarrow> up d (lpduSource l) (lpduDestination l) (lpduUserData l)
      | OriginalBroadcastNPDU d \<Rightarrow> bbmd_broadcast l d)"

section \<open>Runs\<close>

datatype bbmd_op =
    Receive lpdu
  | Send pdu
  | Clock
  | AddPeer ipv4
  | DeletePeer ipv4

primrec bbmd_step :: "bbmd_op \<Rightarrow> bbmd \<Rightarrow> bbmd" where
  "bbmd_step (Receive l) s = snd (bbmd_confirmation l s)"
| "bbmd_step (Send p) s = snd (bbmd_indication p s)"
| "bbmd_step Clock s = fdt_clock s"
| "bbmd_step (AddPeer a) s = bbmd_add_peer a s"
| "bbmd_step (DeletePeer a) s = bbmd_delete_peer a s"

section \<open>Ageing of the table\<close>

text \<open>What a second does to the table, without indices.\<close>

definition aged :: "fdt_entry list \<Rightarrow> fdt_entry list" where
  "aged fdt = filter (\<lambda>e. 0 < fdRemain e) (map (\<lambda>e. e\<lparr>fdRemain := fdRemain e - 1\<rparr>) fdt)"

lemma aged_append: "aged (xs @ ys) = aged xs @ aged ys"
  by (simp add: aged_def)

lemma fdt_clock_round_split:
  assumes "n < length xs"
  shows "fdt_clock_round n xs = take n xs @ aged [xs ! n] @ drop (Suc n) xs"
  using assms upd_conv_take_nth_drop [of n xs] by (simp add: fdt_clock_round_def aged_def Let_def)

lemma fdt_clock_loop:
  "n \<le> length xs \<Longrightarrow> fold fdt_clock_round (rev [0..<n]) xs = aged (take n xs) @ drop n xs"
proof (induction n arbitrary: xs)
  case (Suc n)
  let ?ys = "fdt_clock_round n xs"
  have ys: "?ys = take n xs @ aged [xs ! n] @ drop (Suc n) xs"
    using Suc.prems by (intro fdt_clock_round_split) simp
  then have "take n ?ys = take n xs" "drop n ?ys = aged [xs ! n] @ drop (Suc n) xs" "n \<le> length ?ys"
    using Suc.prems by simp_all
  then show ?case using Suc.IH [of ?ys] Suc.prems by (simp add: take_Suc_conv_app_nth aged_append)
qed (simp add: aged_def)

text \<open>
  The clock's loop over the indices of the foreign device table, which deletes
  from the list it walks, does what a second means: every entry loses one, and exactly those
  that reach zero are gone.
\<close>

theorem fdt_clock_ages: "fdt_clock s = s\<lparr>bbmdFDT := aged (bbmdFDT s)\<rparr>"
  using fdt_clock_loop [of "length (bbmdFDT s)" "bbmdFDT s"] by (simp add: fdt_clock_def)

lemma fdt_clock_aged: "bbmdFDT (fdt_clock s) = aged (bbmdFDT s)" "bbmdBDT (fdt_clock s) = bbmdBDT s"
  using fdt_clock_loop [of "length (bbmdFDT s)" "bbmdFDT s"] by (simp_all add: fdt_clock_def)

section \<open>The loops over the tables\<close>

lemma delete_first_Some:
  "delete_first P xs = Some ys \<Longrightarrow> \<exists>as x bs. xs = as @ x # bs \<and> ys = as @ bs \<and> P x \<and> (\<forall>a\<in>set as. \<not> P a)"
proof (induction xs arbitrary: ys)
  case (Cons z zs)
  show ?case
  proof (cases "P z")
    case True
    then show ?thesis using Cons.prems by (intro exI [of _ "[]"]) simp
  next
    case False
    then obtain ws where ws: "delete_first P zs = Some ws" "ys = z # ws" using Cons.prems by auto
    then obtain as x bs where "zs = as @ x # bs" "ws = as @ bs" "P x" "\<forall>a\<in>set as. \<not> P a"
      using Cons.IH by blast
    then show ?thesis using False ws by (intro exI [of _ "z # as"]) auto
  qed
qed simp

lemma delete_first_None: "delete_first P xs = None \<longleftrightarrow> (\<forall>x\<in>set xs. \<not> P x)"
  by (induction xs) auto

lemma delete_last_Some:
  assumes "delete_last P xs = Some ys"
  obtains as x bs where "xs = as @ x # bs" "ys = as @ bs" "P x"
proof -
  obtain ws where "delete_first P (rev xs) = Some ws" "ys = rev ws"
    using assms by (auto simp: delete_last_def)
  then obtain as x bs where "rev xs = as @ x # bs" "ys = rev (as @ bs)" "P x"
    using delete_first_Some by blast
  then show thesis using that [of "rev bs" x "rev as"] by (simp add: rev_swap)
qed

lemma delete_last_None: "delete_last P xs = None \<longleftrightarrow> (\<forall>x\<in>set xs. \<not> P x)"
  by (simp add: delete_last_def delete_first_None)

text \<open>With distinct keys the deleted entry is the one with the key.\<close>

lemma delete_last_key:
  assumes "distinct (map f xs)" "delete_last (\<lambda>x. k = f x) xs = Some ys"
  shows "ys = filter (\<lambda>x. f x \<noteq> k) xs"
proof -
  obtain as x bs where "xs = as @ x # bs" "ys = as @ bs" "k = f x"
    using delete_last_Some [OF assms(2)] by blast
  moreover from this have "filter (\<lambda>x. f x \<noteq> k) as = as" "filter (\<lambda>x. f x \<noteq> k) bs = bs"
    using assms(1) by (auto simp: filter_id_conv rev_image_eqI)
  ultimately show ?thesis by simp
qed

lemma register_entry_keys:
  "fdAddress ` set (register_entry a t fdt) = insert a (fdAddress ` set fdt)"
  by (induction fdt) auto

lemma register_entry_distinct:
  "distinct (map fdAddress fdt) \<Longrightarrow> distinct (map fdAddress (register_entry a t fdt))"
proof (induction fdt)
  case (Cons e fdt)
  then show ?case using register_entry_keys [of a t fdt] by (auto simp: image_set [symmetric])
qed simp

lemma register_entry_mem:
  "e \<in> set (register_entry a t fdt) \<Longrightarrow> e \<in> set fdt \<or> (fdAddress e = a \<and> fdTTL e = t \<and> fdRemain e = t + 5)"
  by (induction fdt) (auto split: if_splits)

lemma aged_keys: "map fdAddress (aged fdt) = map fdAddress (filter (\<lambda>e. 1 < fdRemain e) fdt)"
  by (induction fdt) (simp_all add: aged_def)

lemma aged_distinct: "distinct (map fdAddress fdt) \<Longrightarrow> distinct (map fdAddress (aged fdt))"
  by (simp add: aged_keys distinct_map_filter)

section \<open>The invariant\<close>

definition bbmd_ok :: "bbmd \<Rightarrow> bool" where
  "bbmd_ok s \<longleftrightarrow> distinct (map fdAddress (bbmdFDT s)) \<and> distinct (map ip_address (bbmdBDT s)) \<and>
     (\<forall>e\<in>set (bbmdFDT s). 0 < fdTTL e \<and> 0 < fdRemain e \<and> fdRemain e \<le> fdTTL e + 5)"

definition op_ok :: "bbmd_op \<Rightarrow> bool" where
  "op_ok op \<longleftrightarrow> (\<forall>l ttl. op = Receive l \<longrightarrow> lpduMessage l = RegisterForeignDevice ttl \<longrightarrow> 0 \<le> ttl)"

text \<open>Sending leaves the tables.\<close>

definition same_tables :: "bbmd \<Rightarrow> bbmd \<Rightarrow> bool" where
  "same_tables s t \<longleftrightarrow> bbmdFDT t = bbmdFDT s \<and> bbmdBDT t = bbmdBDT s \<and> bbmdAddress t = bbmdAddress s"

lemma keeps_emit: "keeps (same_tables s) (bip_emit e)"
  unfolding bip_emit_def by (rule keeps_mod) (simp add: same_tables_def)

lemma keeps_down: "keeps (same_tables s) (down m dst user)"
  by (simp add: down_def bip_request_def keeps_emit)

lemma keeps_sap: "keeps (same_tables s) (bip_sap_response l)"
  unfolding bip_sap_response_def by (intro keeps_with keeps_if keeps_basic keeps_emit)

lemma keeps_up: "keeps (same_tables s) (up d a b user)"
  unfolding up_def bip_response_def by (intro keeps_with keeps_if keeps_basic keeps_emit)

lemma keeps_forward_each: "keeps (same_tables s) (forward_each src d user dsts)"
  unfolding forward_each_def by (intro keeps_map keeps_lift keeps_down)

lemmas keeps_sending = keeps_down keeps_sap keeps_up keeps_forward_each keeps_rules

lemma keeps_indication: "keeps (same_tables s) (bbmd_indication p)"
  unfolding bbmd_indication_def by (intro keeps_sending)

lemma keeps_broadcasts:
  "keeps (same_tables s) (bbmd_distribute l d)" "keeps (same_tables s) (bbmd_forwarded l a d)"
  "keeps (same_tables s) (bbmd_broadcast l d)"
  unfolding bbmd_distribute_def bbmd_forwarded_def bbmd_broadcast_def by (intro keeps_sending)+

text \<open>The messages that change the table of foreign devices.\<close>

definition changes_fdt :: "bvll \<Rightarrow> bool" where
  "changes_fdt m \<longleftrightarrow> (\<exists>t. m = RegisterForeignDevice t) \<or> (\<exists>a. m = DeleteForeignDeviceTableEntry a)"

lemma keeps_confirmation: "\<not> changes_fdt (lpduMessage l) \<Longrightarrow> keeps (same_tables s) (bbmd_confirmation l)"
  unfolding bbmd_confirmation_def answer_def changes_fdt_def
  by (cases "lpduMessage l") (simp_all add: keeps_down keeps_sap keeps_up keeps_broadcasts keeps_with)

lemma same_tables_refl: "same_tables s s"
  by (simp add: same_tables_def)

lemmas sending_keeps_tables =
  keepsD [OF keeps_indication same_tables_refl] keepsD [OF keeps_confirmation same_tables_refl]

lemma delete_entry_run:
  "delete_foreign_device_table_entry a s =
    (case delete_last (\<lambda>e. a = fdAddress e) (bbmdFDT s) of
       Some fdt \<Rightarrow> (Inr 0, s\<lparr>bbmdFDT := fdt\<rparr>) | None \<Rightarrow> (Inr 0x0050, s))"
  by (simp add: delete_foreign_device_table_entry_def act_simps split: option.split)

lemma register_run:
  "register_foreign_device a t s = (Inr 0, s\<lparr>bbmdFDT := register_entry a t (bbmdFDT s)\<rparr>)"
  by (simp add: register_foreign_device_def act_simps)

definition without :: "address \<Rightarrow> fdt_entry list \<Rightarrow> fdt_entry list" where
  "without a fdt = filter (\<lambda>e. fdAddress e \<noteq> a) fdt"

lemma delete_entry_tables:
  assumes "distinct (map fdAddress (bbmdFDT s))"
  shows "\<exists>stat. delete_foreign_device_table_entry a s = (Inr stat, s\<lparr>bbmdFDT := without a (bbmdFDT s)\<rparr>)"
proof (cases "delete_last (\<lambda>e. a = fdAddress e) (bbmdFDT s)")
  case None
  then have "without a (bbmdFDT s) = bbmdFDT s"
    unfolding without_def delete_last_None by (auto simp: filter_id_conv)
  then show ?thesis using None by (simp add: delete_entry_run)
next
  case (Some fdt)
  then show ?thesis using delete_last_key [OF assms] by (simp add: delete_entry_run without_def)
qed

lemma receive_register:
  assumes "lpduMessage l = RegisterForeignDevice ttl" "lpduSource l = Some a"
    "distinct (map fdAddress (bbmdFDT s))"
  shows "bbmdFDT (snd (bbmd_confirmation l s)) =
      (if ttl = 0 then without a (bbmdFDT s) else register_entry a ttl (bbmdFDT s))"
    "bbmdBDT (snd (bbmd_confirmation l s)) = bbmdBDT s"
  using delete_entry_tables [OF assms(3), of a] assms(1,2)
  by (auto simp: bbmd_confirmation_def bbmd_register_def answer_def act_simps register_run)

lemma receive_delete:
  assumes "lpduMessage l = DeleteForeignDeviceTableEntry a" "distinct (map fdAddress (bbmdFDT s))"
  shows "bbmdFDT (snd (bbmd_confirmation l s)) = without a (bbmdFDT s)"
    "bbmdBDT (snd (bbmd_confirmation l s)) = bbmdBDT s"
  using delete_entry_tables [OF assms(2), of a] assms(1)
  by (auto simp: bbmd_confirmation_def answer_def act_simps)

lemma receive_register_unsourced:
  "lpduMessage l = RegisterForeignDevice ttl \<Longrightarrow> lpduSource l = None \<Longrightarrow> snd (bbmd_confirmation l s) = s"
  by (simp add: bbmd_confirmation_def bbmd_register_def act_simps)

lemma bbmd_ok_fdt:
  "bbmd_ok s \<Longrightarrow> distinct (map fdAddress (bbmdFDT s))"
  by (simp add: bbmd_ok_def)

lemma bbmd_ok_cong: "bbmdFDT t = bbmdFDT s \<Longrightarrow> bbmdBDT t = bbmdBDT s \<Longrightarrow> bbmd_ok t = bbmd_ok s"
  by (simp add: bbmd_ok_def)

lemma without_keeps_ok: "bbmd_ok s \<Longrightarrow> bbmdFDT t = without a (bbmdFDT s) \<Longrightarrow> bbmdBDT t = bbmdBDT s \<Longrightarrow> bbmd_ok t"
  by (auto simp: bbmd_ok_def without_def distinct_map_filter)

lemma register_keeps_ok:
  assumes "bbmd_ok s" "0 < ttl" "bbmdFDT t = register_entry a ttl (bbmdFDT s)" "bbmdBDT t = bbmdBDT s"
  shows "bbmd_ok t"
proof -
  have "0 < fdTTL e \<and> 0 < fdRemain e \<and> fdRemain e \<le> fdTTL e + 5" if "e \<in> set (bbmdFDT t)" for e
    using that assms register_entry_mem [of e a ttl "bbmdFDT s"] by (auto simp: bbmd_ok_def)
  then show ?thesis using assms by (simp add: bbmd_ok_def register_entry_distinct)
qed

lemma receive_keeps_ok:
  assumes "bbmd_ok s" "op_ok (Receive l)"
  shows "bbmd_ok (snd (bbmd_confirmation l s))"
proof (cases "changes_fdt (lpduMessage l)")
  case False
  then show ?thesis
    using sending_keeps_tables(2) assms(1) bbmd_ok_cong unfolding same_tables_def by blast
next
  case True
  then consider a where "lpduMessage l = DeleteForeignDeviceTableEntry a"
    | t where "lpduMessage l = RegisterForeignDevice t"
    by (auto simp: changes_fdt_def)
  then show ?thesis
  proof cases
    case 1
    then show ?thesis using receive_delete [OF 1 bbmd_ok_fdt] assms(1) without_keeps_ok by blast
  next
    case 2
    show ?thesis
    proof (cases "lpduSource l")
      case None
      then show ?thesis using receive_register_unsourced 2 assms(1) by simp
    next
      case (Some a)
      note run = receive_register [OF 2 Some bbmd_ok_fdt [OF assms(1)]]
      have "0 \<le> t" using assms(2) 2 by (simp add: op_ok_def)
      show ?thesis
      proof (cases "t = 0")
        case True
        show ?thesis by (rule without_keeps_ok [OF assms(1)]) (use run True in simp_all)
      next
        case False
        show ?thesis
          by (rule register_keeps_ok [OF assms(1), of t]) (use run False \<open>0 \<le> t\<close> in simp_all)
      qed
    qed
  qed
qed

lemma aged_mem: "e \<in> set (aged fdt) \<Longrightarrow> \<exists>f\<in>set fdt. e = f\<lparr>fdRemain := fdRemain f - 1\<rparr> \<and> 1 < fdRemain f"
  by (auto simp: aged_def)

lemma clock_keeps_ok: "bbmd_ok s \<Longrightarrow> bbmd_ok (fdt_clock s)"
  using aged_mem [of _ "bbmdFDT s"] by (fastforce simp: bbmd_ok_def fdt_clock_aged aged_distinct)

lemma add_peer_keeps_ok: "bbmd_ok s \<Longrightarrow> bbmd_ok (bbmd_add_peer a s)"
  by (auto simp: bbmd_ok_def bbmd_add_peer_def image_iff)

lemma delete_peer_keeps_ok:
  assumes "bbmd_ok s"
  shows "bbmd_ok (bbmd_delete_peer a s)"
proof (cases "delete_last (\<lambda>b. ip_address a = ip_address b) (bbmdBDT s)")
  case (Some bdt)
  moreover have "bdt = filter (\<lambda>b. ip_address b \<noteq> ip_address a) (bbmdBDT s)"
    using delete_last_key [OF _ Some] assms by (simp add: bbmd_ok_def)
  ultimately show ?thesis
    using assms by (simp add: bbmd_ok_def bbmd_delete_peer_def distinct_map_filter)
qed (use assms in \<open>simp add: bbmd_delete_peer_def\<close>)

lemma send_keeps_ok: "bbmd_ok s \<Longrightarrow> bbmd_ok (snd (bbmd_indication p s))"
  using sending_keeps_tables(1) bbmd_ok_cong unfolding same_tables_def by blast

lemma step_keeps_ok: "bbmd_ok s \<Longrightarrow> op_ok op \<Longrightarrow> bbmd_ok (bbmd_step op s)"
  by (cases op)
    (simp_all add: receive_keeps_ok send_keeps_ok clock_keeps_ok add_peer_keeps_ok delete_peer_keeps_ok)

lemma run_keeps_ok: "bbmd_ok s \<Longrightarrow> list_all op_ok ops \<Longrightarrow> bbmd_ok (fold bbmd_step ops s)"
  by (induction ops arbitrary: s) (simp_all add: step_keeps_ok)

text \<open>
  Whatever a broadcast management device receives, sends and is told, no foreign
  device and no peer is listed twice, and every registration still listed has between one
  second and its time-to-live plus five left.
\<close>

theorem bbmd_invariant:
  assumes "list_all op_ok ops" "s = fold bbmd_step ops (init_bbmd server element addr)"
  shows "distinct (map fdAddress (bbmdFDT s)) \<and> distinct (map ip_address (bbmdBDT s)) \<and>
    (\<forall>e\<in>set (bbmdFDT s). 0 < fdTTL e \<and> 0 < fdRemain e \<and> fdRemain e \<le> fdTTL e + 5)"
  using run_keeps_ok [OF _ assms(1), of "init_bbmd server element addr"] assms(2)
  by (simp add: bbmd_ok_def init_bbmd_def)

theorem bbmd_invariant_witness:
  "distinct (map fdAddress (bbmdFDT (bbmd_step Clock (init_bbmd True True local_broadcast))))"
  using bbmd_invariant [of "[Clock]" _ True True local_broadcast, OF _ refl] by (simp add: op_ok_def)

section \<open>The lease of a registration\<close>

definition lease :: "address \<Rightarrow> bbmd \<Rightarrow> int option" where
  "lease a s = map_option fdRemain (find (\<lambda>e. fdAddress e = a) (bbmdFDT s))"

definition concerns :: "address \<Rightarrow> bbmd_op \<Rightarrow> bool" where
  "concerns a op \<longleftrightarrow> (\<exists>l. op = Receive l \<and>
     (lpduMessage l = DeleteForeignDeviceTableEntry a \<or>
      lpduSource l = Some a \<and> (\<exists>t. lpduMessage l = RegisterForeignDevice t)))"

lemma lease_listed: "lease a s \<noteq> None \<longleftrightarrow> a \<in> fdAddress ` set (bbmdFDT s)"
  by (auto simp: lease_def find_None_iff)

lemma find_without: "b \<noteq> a \<Longrightarrow> find (\<lambda>e. fdAddress e = a) (without b fdt) = find (\<lambda>e. fdAddress e = a) fdt"
  by (induction fdt) (auto simp: without_def)

lemma find_register:
  "find (\<lambda>e. fdAddress e = a) (register_entry b t fdt) =
    (if a = b then Some ((case find (\<lambda>e. fdAddress e = a) fdt of
        None \<Rightarrow> \<lparr>fdAddress = a, fdTTL = t, fdRemain = t + 5\<rparr> | Some e \<Rightarrow> e\<lparr>fdTTL := t, fdRemain := t + 5\<rparr>))
     else find (\<lambda>e. fdAddress e = a) fdt)"
  by (induction fdt) auto

lemma find_aged:
  assumes "distinct (map fdAddress fdt)"
  shows "find (\<lambda>e. fdAddress e = a) (aged fdt) =
    (case find (\<lambda>e. fdAddress e = a) fdt of
       None \<Rightarrow> None
     | Some e \<Rightarrow> if 1 < fdRemain e then Some (e\<lparr>fdRemain := fdRemain e - 1\<rparr>) else None)"
  using assms
proof (induction fdt)
  case (Cons e fdt)
  have "find (\<lambda>e. fdAddress e = a) fdt = None" if "fdAddress e = a"
    using Cons.prems that by (auto simp: find_None_iff image_iff)
  then show ?case using Cons by (auto simp: aged_def)
qed (simp add: aged_def)

lemma lease_clock:
  "bbmd_ok s \<Longrightarrow> lease a (fdt_clock s) =
    (case lease a s of None \<Rightarrow> None | Some r \<Rightarrow> if 1 < r then Some (r - 1) else None)"
  by (simp add: lease_def fdt_clock_aged find_aged bbmd_ok_fdt split: option.split)

lemma lease_receive_other:
  assumes "bbmd_ok s" "\<not> concerns a (Receive l)"
  shows "lease a (snd (bbmd_confirmation l s)) = lease a s"
proof (cases "changes_fdt (lpduMessage l)")
  case False
  then show ?thesis using sending_keeps_tables(2) by (simp add: lease_def same_tables_def)
next
  case True
  then consider b where "lpduMessage l = DeleteForeignDeviceTableEntry b"
    | t where "lpduMessage l = RegisterForeignDevice t"
    by (auto simp: changes_fdt_def)
  then show ?thesis
  proof cases
    case 1
    then show ?thesis
      using receive_delete(1) [OF 1 bbmd_ok_fdt [OF assms(1)]] assms(2)
      by (auto simp: lease_def find_without concerns_def)
  next
    case 2
    show ?thesis
    proof (cases "lpduSource l")
      case None
      then show ?thesis using receive_register_unsourced 2 by simp
    next
      case (Some b)
      then have "b \<noteq> a" using 2 assms(2) by (auto simp: concerns_def)
      then show ?thesis
        using receive_register(1) [OF 2 Some bbmd_ok_fdt [OF assms(1)]]
        by (simp add: lease_def find_without find_register)
    qed
  qed
qed

lemma lease_cong: "bbmdFDT t = bbmdFDT s \<Longrightarrow> lease a t = lease a s"
  by (simp add: lease_def)

lemma lease_step_other:
  assumes "bbmd_ok s" "\<not> concerns a op" "op \<noteq> Clock"
  shows "lease a (bbmd_step op s) = lease a s"
proof (cases op)
  case (Receive l)
  then show ?thesis using assms lease_receive_other by simp
next
  case (Send p)
  then show ?thesis using sending_keeps_tables(1) [of s p] by (simp add: same_tables_def lease_def)
qed (use assms in \<open>simp_all add: lease_def bbmd_add_peer_def bbmd_delete_peer_def split: option.split\<close>)

lemma lease_run:
  assumes "bbmd_ok s" "list_all (\<lambda>op. op_ok op \<and> \<not> concerns a op) ops"
  shows "(lease a s = Some r \<longrightarrow> 0 < r \<longrightarrow> (lease a (fold bbmd_step ops s) \<noteq> None \<longleftrightarrow> int (count_list ops Clock) < r)) \<and>
    (lease a s = None \<longrightarrow> lease a (fold bbmd_step ops s) = None)"
  using assms
proof (induction ops arbitrary: s r)
  case (Cons op ops)
  have ok: "bbmd_ok (bbmd_step op s)" using Cons.prems by (simp add: step_keeps_ok)
  note IH = Cons.IH [OF ok]
  show ?case
  proof (cases "op = Clock")
    case True
    then show ?thesis
      using IH [of "r - 1"] Cons.prems lease_clock [of s a] by (auto split: if_splits)
  next
    case False
    then show ?thesis using IH [of r] Cons.prems lease_step_other [of s a op] by simp
  qed
qed simp

text \<open>
  Property C31. A registration with a positive time-to-live is a lease of exactly that time
  plus five seconds: whatever else the device does meanwhile (other registrations and
  deletions, traffic, changes of its peers), the registered device is listed if and only if
  fewer seconds have passed.
\<close>

theorem fdt_lease:
  assumes "bbmd_ok s" "lpduMessage l = RegisterForeignDevice ttl" "lpduSource l = Some a" "0 < ttl"
    and "list_all (\<lambda>op. op_ok op \<and> \<not> concerns a op) ops"
  shows "a \<in> fdAddress ` set (bbmdFDT (fold bbmd_step (Receive l # ops) s)) \<longleftrightarrow>
    int (count_list ops Clock) < ttl + 5"
proof -
  let ?t = "bbmd_step (Receive l) s"
  have "bbmd_ok ?t" using assms by (intro step_keeps_ok) (simp_all add: op_ok_def)
  moreover have "lease a ?t = Some (ttl + 5)"
    using receive_register(1) [OF assms(2,3) bbmd_ok_fdt [OF assms(1)]] assms(4)
    by (simp add: lease_def find_register split: option.split)
  ultimately show ?thesis
    using lease_run [OF _ assms(5), of ?t "ttl + 5"] assms(4) lease_listed [of a] by simp
qed

theorem fdt_lease_witness:
  "local_station [10,0,0,2,0xBA,0xC0] \<in> fdAddress ` set (bbmdFDT (fold bbmd_step
     [Receive \<lparr>lpduSource = Some (local_station [10,0,0,2,0xBA,0xC0]), lpduDestination = None,
        lpduUserData = None, lpduMessage = RegisterForeignDevice 3\<rparr>, Clock, Clock]
     (init_bbmd True True (local_station [10,0,0,1,0xBA,0xC0]))))"
  by (subst fdt_lease [where ttl = 3]) (simp_all add: bbmd_ok_def init_bbmd_def op_ok_def concerns_def)

section \<open>Broadcasts in a network of management devices\<close>

definition forwarded :: "address \<Rightarrow> byte list \<Rightarrow> byte list option \<Rightarrow> address \<Rightarrow> lpdu" where
  "forwarded a d user dst = \<lparr>lpduSource = None, lpduDestination = Some dst, lpduUserData = user,
     lpduMessage = ForwardedNPDU a d\<rparr>"

lemma forward_each_run [act_simps]:
  "forward_each (Some a) d user dsts s =
     (Inr (), s\<lparr>out := out s @ map (Request \<circ> forwarded a d user) dsts\<rparr>)"
  by (induction dsts arbitrary: s)
    (simp_all add: forward_each_def act_simps forwarded_def)

lemma up_run [act_simps]:
  "up d a b user s =
    (Inr (), if serverPeer s then s\<lparr>out := out s @ [Response (upstream d a b user)]\<rparr> else s)"
  by (simp add: up_def bip_response_def act_simps)

lemma bbmd_broadcast_out:
  assumes "lpduMessage l = OriginalBroadcastNPDU d" "lpduSource l = Some a" "serverPeer s"
  shows "out (snd (bbmd_confirmation l s)) = out s @
    Response (upstream d (Some a) (Some local_broadcast) (lpduUserData l)) #
    map (Request \<circ> forwarded a d (lpduUserData l)) (other_peers s @ map fdAddress (bbmdFDT s))"
  using assms by (simp add: bbmd_confirmation_def bbmd_broadcast_def act_simps)

lemma bbmd_forwarded_out:
  assumes "lpduMessage l = ForwardedNPDU a d" "lpduDestination l = Some dst" "serverPeer s"
  shows "out (snd (bbmd_confirmation l s)) = out s @
    Response (upstream d (Some a) (Some local_broadcast) (lpduUserData l)) #
    map (Request \<circ> forwarded a d (lpduUserData l))
      ((if addrType dst = LocalStationAddr \<and> bbmdAddress s \<in> ip_address ` set (bbmdBDT s)
        then [local_broadcast] else []) @ map fdAddress (bbmdFDT s))"
  using assms
  by (cases "addrType dst = LocalStationAddr \<and> bbmdAddress s \<in> ip_address ` set (bbmdBDT s)")
    (auto simp: bbmd_confirmation_def bbmd_forwarded_def act_simps)

text \<open>What goes upstream, and the datagrams to an address, among the events of a handler.\<close>

fun passed_up :: "bip_event list \<Rightarrow> pdu list" where
  "passed_up [] = []"
| "passed_up (Response p # es) = p # passed_up es"
| "passed_up (_ # es) = passed_up es"

fun sent_to :: "address \<Rightarrow> bip_event list \<Rightarrow> lpdu list" where
  "sent_to a [] = []"
| "sent_to a (Request l # es) = (if lpduDestination l = Some a then l # sent_to a es else sent_to a es)"
| "sent_to a (_ # es) = sent_to a es"

lemma sent_to_forwarded:
  "sent_to b (map (Request \<circ> forwarded a d user) dsts) = map (forwarded a d user) (filter (\<lambda>x. x = b) dsts)"
  by (induction dsts) (simp_all add: forwarded_def)

lemma passed_up_forwarded: "passed_up (map (Request \<circ> forwarded a d user) dsts) = []"
  by (induction dsts) simp_all

lemma filter_eq_once: "distinct xs \<Longrightarrow> filter (\<lambda>x. x = a) xs = (if a \<in> set xs then [a] else [])"
  by (induction xs) auto

lemma unicast_prefix: "length (ip_octets b) = 6 \<Longrightarrow> ip_prefix b = 32 \<Longrightarrow> broadcast_address b = ip_address b"
  using be_bytes_be_int [of "take 4 (ip_octets b)"] by (simp add: broadcast_address_def ip_address_def)

lemma broadcast_not_station: "addrType local_broadcast \<noteq> LocalStationAddr"
  by (simp add: local_broadcast_def)

text \<open>
  Management devices that know each other: every table lists every device once, itself
  included, with the mask that makes the second hop a unicast; foreign devices have addresses of
  their own.
\<close>

definition mesh :: "bbmd list \<Rightarrow> bool" where
  "mesh net \<longleftrightarrow> distinct (map bbmdAddress net) \<and> (\<forall>s\<in>set net.
     serverPeer s \<and> out s = [] \<and>
     ip_address ` set (bbmdBDT s) = bbmdAddress ` set net \<and> distinct (map ip_address (bbmdBDT s)) \<and>
     (\<forall>b\<in>set (bbmdBDT s). length (ip_octets b) = 6 \<and> ip_prefix b = 32) \<and>
     distinct (map fdAddress (bbmdFDT s)) \<and>
     (\<forall>e\<in>set (bbmdFDT s). addrType (fdAddress e) = LocalStationAddr \<and> fdAddress e \<notin> bbmdAddress ` set net))"

lemma mesh_other_peers:
  assumes "mesh net" "s \<in> set net"
  shows "distinct (other_peers s @ map fdAddress (bbmdFDT s))"
    "set (other_peers s) = bbmdAddress ` set net - {bbmdAddress s}"
proof -
  have bdt: "ip_address ` set (bbmdBDT s) = bbmdAddress ` set net" "distinct (map ip_address (bbmdBDT s))"
    "\<forall>b\<in>set (bbmdBDT s). broadcast_address b = ip_address b" "distinct (map fdAddress (bbmdFDT s))"
    "fdAddress ` set (bbmdFDT s) \<inter> bbmdAddress ` set net = {}"
    using assms unicast_prefix unfolding mesh_def by auto
  have eq: "other_peers s = filter (\<lambda>a. a \<noteq> bbmdAddress s) (map ip_address (bbmdBDT s))"
    unfolding other_peers_def using bdt(3) by (simp add: filter_map comp_def)
  show peers: "set (other_peers s) = bbmdAddress ` set net - {bbmdAddress s}"
    unfolding eq using bdt(1) by auto
  have "distinct (other_peers s)" unfolding eq using bdt(2) by (rule distinct_filter)
  then show "distinct (other_peers s @ map fdAddress (bbmdFDT s))"
    using bdt(4,5) peers by auto
qed

lemma mesh_member:
  assumes "mesh net" "s \<in> set net"
  shows "serverPeer s" "out s = []" "bbmdAddress s \<in> ip_address ` set (bbmdBDT s)"
    "addrType (bbmdAddress s) = LocalStationAddr" "distinct (map fdAddress (bbmdFDT s))"
    "\<forall>e\<in>set (bbmdFDT s). addrType (fdAddress e) = LocalStationAddr \<and> fdAddress e \<notin> bbmdAddress ` set net"
proof -
  show a: "bbmdAddress s \<in> ip_address ` set (bbmdBDT s)" using assms by (auto simp: mesh_def)
  then show "addrType (bbmdAddress s) = LocalStationAddr" by (auto simp: ip_address_def local_station_def)
qed (use assms in \<open>auto simp: mesh_def\<close>)

lemma mesh_forwarded:
  assumes "mesh net" "t \<in> set net" "lpduMessage m = ForwardedNPDU a d" "lpduDestination m = Some (bbmdAddress t)"
    and "evs = out (snd (bbmd_confirmation m t))"
  shows "passed_up evs = [upstream d (Some a) (Some local_broadcast) (lpduUserData m)]"
    "sent_to local_broadcast evs = [forwarded a d (lpduUserData m) local_broadcast]"
    "e \<in> set (bbmdFDT t) \<Longrightarrow> sent_to (fdAddress e) evs = [forwarded a d (lpduUserData m) (fdAddress e)]"
    "u \<in> set net \<Longrightarrow> sent_to (bbmdAddress u) evs = []"
proof -
  note t = mesh_member [OF assms(1,2)]
  let ?dsts = "local_broadcast # map fdAddress (bbmdFDT t)"
  have evs: "evs = Response (upstream d (Some a) (Some local_broadcast) (lpduUserData m)) #
      map (Request \<circ> forwarded a d (lpduUserData m)) ?dsts"
    using bbmd_forwarded_out [OF assms(3,4) t(1)] t assms(5) by simp
  then have sent: "sent_to b evs = map (forwarded a d (lpduUserData m)) (filter (\<lambda>x. x = b) ?dsts)" for b
    by (simp only: sent_to.simps sent_to_forwarded)
  have fd: "local_broadcast \<notin> fdAddress ` set (bbmdFDT t)"
    using t(6) broadcast_not_station by (metis (no_types, lifting) imageE)
  then have once: "filter (\<lambda>x. x = b) ?dsts = (if b \<in> set ?dsts then [b] else [])" for b
    using t(5) by (intro filter_eq_once) simp
  show "passed_up evs = [upstream d (Some a) (Some local_broadcast) (lpduUserData m)]"
    unfolding evs by (simp only: passed_up.simps passed_up_forwarded)
  show "sent_to local_broadcast evs = [forwarded a d (lpduUserData m) local_broadcast]"
    unfolding sent once by simp
  show "sent_to (fdAddress e) evs = [forwarded a d (lpduUserData m) (fdAddress e)]" if "e \<in> set (bbmdFDT t)"
    unfolding sent once using that by simp
  show "sent_to (bbmdAddress u) evs = []" if "u \<in> set net"
  proof -
    have "bbmdAddress u \<noteq> local_broadcast"
      using mesh_member(4) [OF assms(1) that] broadcast_not_station by metis
    moreover have "bbmdAddress u \<notin> fdAddress ` set (bbmdFDT t)"
      using t(6) that by (metis (no_types, lifting) imageE imageI)
    ultimately have "bbmdAddress u \<notin> set ?dsts" by simp
    then show ?thesis unfolding sent once by simp
  qed
qed

text \<open>
  Property C30. In a network of broadcast management devices that know each other, a broadcast
  on the subnet of one device reaches every other subnet exactly once: the device sends one
  datagram to each other device, which passes the broadcast up once, broadcasts it once on its
  own subnet and sends it once to each of its foreign devices, always with the original
  sender's address, and sends nothing to any management device, so nothing circulates.
\<close>

theorem every_subnet_once:
  assumes "mesh net" "s \<in> set net" "t \<in> set net" "s \<noteq> t"
    and "lpduMessage l = OriginalBroadcastNPDU d" "lpduSource l = Some a"
  shows "\<exists>m. sent_to (bbmdAddress t) (out (snd (bbmd_confirmation l s))) = [m] \<and>
    (let evs = out (snd (bbmd_confirmation (m\<lparr>lpduSource := Some (bbmdAddress s)\<rparr>) t)) in
       passed_up evs = [upstream d (Some a) (Some local_broadcast) (lpduUserData l)] \<and>
       sent_to local_broadcast evs = [forwarded a d (lpduUserData l) local_broadcast] \<and>
       (\<forall>e\<in>set (bbmdFDT t). sent_to (fdAddress e) evs = [forwarded a d (lpduUserData l) (fdAddress e)]) \<and>
       (\<forall>u\<in>set net. sent_to (bbmdAddress u) evs = []))"
proof -
  let ?m = "forwarded a d (lpduUserData l) (bbmdAddress t)"
  have "bbmdAddress t \<noteq> bbmdAddress s"
    using assms(1-4) by (auto simp: mesh_def distinct_map inj_on_def)
  then have "filter (\<lambda>x. x = bbmdAddress t) (other_peers s @ map fdAddress (bbmdFDT s)) = [bbmdAddress t]"
    using mesh_other_peers [OF assms(1,2)] assms(3) by (subst filter_eq_once) auto
  then have "sent_to (bbmdAddress t) (out (snd (bbmd_confirmation l s))) = [?m]"
    using bbmd_broadcast_out [OF assms(5,6)] mesh_member [OF assms(1,2)]
    by (simp only: sent_to.simps sent_to_forwarded append_Nil list.map)
  moreover have "lpduMessage (?m\<lparr>lpduSource := Some (bbmdAddress s)\<rparr>) = ForwardedNPDU a d"
    "lpduDestination (?m\<lparr>lpduSource := Some (bbmdAddress s)\<rparr>) = Some (bbmdAddress t)"
    "lpduUserData (?m\<lparr>lpduSource := Some (bbmdAddress s)\<rparr>) = lpduUserData l"
    by (simp_all add: forwarded_def)
  note mesh_forwarded [OF assms(1,3) this(1,2) refl, unfolded this(3)]
  ultimately show ?thesis by (auto simp: Let_def)
qed

text \<open>Two devices, the second with a foreign device.\<close>

definition example_mesh :: "bbmd list" where
  "example_mesh =
     (let bdt = [IPv4 [10,0,1,1,0xBA,0xC0] 32, IPv4 [10,0,2,1,0xBA,0xC0] 32] in
      [(init_bbmd True True (local_station [10,0,1,1,0xBA,0xC0]))\<lparr>bbmdBDT := bdt\<rparr>,
       (init_bbmd True True (local_station [10,0,2,1,0xBA,0xC0]))\<lparr>bbmdBDT := bdt, bbmdFDT :=
          [\<lparr>fdAddress = local_station [10,0,3,9,0xBA,0xC0], fdTTL = 30, fdRemain = 35\<rparr>]\<rparr>])"

theorem every_subnet_once_witness:
  "mesh example_mesh \<and> (\<exists>m. sent_to (bbmdAddress (example_mesh ! 1)) (out (snd (bbmd_confirmation
     \<lparr>lpduSource = Some (local_station [10,0,1,7,0xBA,0xC0]), lpduDestination = Some local_broadcast,
      lpduUserData = None, lpduMessage = OriginalBroadcastNPDU [1, 2]\<rparr> (example_mesh ! 0)))) = [m])"
proof (rule conjI)
  show mesh: "mesh example_mesh"
    by (auto simp: mesh_def example_mesh_def Let_def init_bbmd_def ip_address_def local_station_def)
  have "example_mesh ! 0 \<noteq> example_mesh ! 1" "example_mesh ! 0 \<in> set example_mesh" "example_mesh ! 1 \<in> set example_mesh"
    by (simp_all add: example_mesh_def Let_def init_bbmd_def local_station_def)
  from every_subnet_once [OF mesh this(2,3,1), where l = "\<lparr>lpduSource = Some (local_station [10,0,1,7,0xBA,0xC0]),
      lpduDestination = Some local_broadcast, lpduUserData = None, lpduMessage = OriginalBroadcastNPDU [1, 2]\<rparr>"]
  show "\<exists>m. sent_to (bbmdAddress (example_mesh ! 1)) (out (snd (bbmd_confirmation
     \<lparr>lpduSource = Some (local_station [10,0,1,7,0xBA,0xC0]), lpduDestination = Some local_broadcast,
      lpduUserData = None, lpduMessage = OriginalBroadcastNPDU [1, 2]\<rparr> (example_mesh ! 0)))) = [m]"
    by auto
qed

end
