(* ===== verification/Foreign.thy ===== *)
theory Foreign
  imports Bip
begin

text \<open>
  \<^verbatim>\<open>BIPForeign\<close> of \<^verbatim>\<open>bacpypes3/ipv4/service.py\<close>: a foreign device that registers with a
  broadcast management device, renews the registration and notices when it has lapsed. The
  state has the callbacks scheduled with the event loop by handle, due time and function, the
  tasks created and not yet run, and the broadcasts that wait for a registration. A run is a
  sequence of labelled steps: the loop runs what is due before it lets time pass.
\<close>

section \<open>State\<close>

datatype callback = StartRegistration | RegistrationExpired

record bip_foreign = bip +
  fdBbmdAddress :: "address option"
  fdBbmdTimeToLive :: "int option"
  bbmdRegistrationStatus :: int
  registration_event :: bool
  registration_handle :: "nat option"
  registration_timeout_handle :: "nat option"
  reregistration_timeout_handle :: "nat option"
  scheduled :: "(nat \<times> int \<times> callback) list"
  next_handle :: nat
  now :: int
  tasks :: "lpdu list"
  waiting :: "(int \<times> pdu) list"
  resumed :: "pdu list"

definition init_foreign :: "bool \<Rightarrow> bool \<Rightarrow> bip_foreign" where
  "init_foreign server element =
     \<lparr>serverPeer = server, serviceElement = element, out = [], fdBbmdAddress = None,
      fdBbmdTimeToLive = None, bbmdRegistrationStatus = -2, registration_event = False,
      registration_handle = None, registration_timeout_handle = None,
      reregistration_timeout_handle = None, scheduled = [], next_handle = 0, now = 0, tasks = [],
      waiting = [], resumed = []\<rparr>"

section \<open>The event loop\<close>

text \<open>\<^verbatim>\<open>loop.call_later(delay, f)\<close>; \<^verbatim>\<open>call_soon\<close> has no delay. The value is the handle.\<close>

definition call_later :: "int \<Rightarrow> callback \<Rightarrow> (bip_foreign, nat) action" where
  "call_later delay f =
     withS (\<lambda>s. bindS (modS (\<lambda>s. s\<lparr>scheduled := scheduled s @ [(next_handle s, now s + delay, f)],
        next_handle := Suc (next_handle s)\<rparr>)) (\<lambda>_. retS (next_handle s)))"

text \<open>\<^verbatim>\<open>handle.cancel()\<close>, without effect once the callback has run.\<close>

definition cancel :: "nat option \<Rightarrow> (bip_foreign, unit) action" where
  "cancel h =
     modS (\<lambda>s. s\<lparr>scheduled := filter (\<lambda>(i, _). Some i \<noteq> h) (scheduled s)\<rparr>)"

text \<open>\<^verbatim>\<open>asyncio.create_task(self.request(pdu))\<close>\<close>

definition foreign_create_task :: "bvll \<Rightarrow> address option \<Rightarrow> (bip_foreign, unit) action" where
  "foreign_create_task m dst =
     modS (\<lambda>s. s\<lparr>tasks := tasks s @
       [\<lparr>lpduSource = None, lpduDestination = dst, lpduUserData = None, lpduMessage = m\<rparr>]\<rparr>)"

section \<open>Registration\<close>

definition stop_tracking_registration :: "(bip_foreign, unit) action" where
  "stop_tracking_registration = withS (\<lambda>s. seqS
     [cancel (registration_handle s),
      modS (\<lambda>s. s\<lparr>registration_handle := None\<rparr>),
      cancel (registration_timeout_handle s),
      modS (\<lambda>s. s\<lparr>registration_timeout_handle := None\<rparr>),
      cancel (reregistration_timeout_handle s),
      modS (\<lambda>s. s\<lparr>reregistration_timeout_handle := None\<rparr>)])"

text \<open>
  The sum and the comparison with an unset time-to-live raise \<^verbatim>\<open>TypeError\<close>; the task that was
  to send the request is then without effect too, its encoder raises the same.
\<close>

definition start_tracking_registration :: "(bip_foreign, unit) action" where
  "start_tracking_registration =
     bindS stop_tracking_registration (\<lambda>_.
     bindS (withS (\<lambda>s. liftS (need TypeError (fdBbmdTimeToLive s)))) (\<lambda>ttl.
     bindS (call_later ttl StartRegistration) (\<lambda>h.
     bindS (modS (\<lambda>s. s\<lparr>registration_handle := Some h\<rparr>)) (\<lambda>_.
     bindS (call_later (ttl + 30) RegistrationExpired) (\<lambda>h.
     modS (\<lambda>s. s\<lparr>registration_timeout_handle := Some h\<rparr>))))))"

definition start_registration :: "(bip_foreign, unit) action" where
  "start_registration =
     bindS (modS (\<lambda>s. if bbmdRegistrationStatus s = -2 then s\<lparr>bbmdRegistrationStatus := -1\<rparr> else s)) (\<lambda>_.
     bindS (withS (\<lambda>s. liftS (need TypeError (fdBbmdTimeToLive s)))) (\<lambda>ttl.
     bindS (withS (\<lambda>s. foreign_create_task (RegisterForeignDevice ttl) (fdBbmdAddress s))) (\<lambda>_.
     bindS (call_later (min 5 ttl) StartRegistration) (\<lambda>h.
     modS (\<lambda>s. s\<lparr>reregistration_timeout_handle := Some h\<rparr>)))))"

definition registration_expired :: "(bip_foreign, unit) action" where
  "registration_expired =
     bindS (modS (\<lambda>s. s\<lparr>bbmdRegistrationStatus := -2, registration_event := False\<rparr>)) (\<lambda>_.
     stop_tracking_registration)"

primrec run_callback :: "callback \<Rightarrow> (bip_foreign, unit) action" where
  "run_callback StartRegistration = start_registration"
| "run_callback RegistrationExpired = registration_expired"

definition foreign_register :: "address \<Rightarrow> int \<Rightarrow> (bip_foreign, unit) action" where
  "foreign_register addr ttl =
     (if ttl \<le> 0 then raiseS ValueError
      else withS (\<lambda>s. if registration_handle s \<noteq> None then retS ()
        else
          bindS (modS (\<lambda>s. s\<lparr>fdBbmdAddress := Some addr, fdBbmdTimeToLive := Some ttl\<rparr>)) (\<lambda>_.
          bindS (call_later 0 StartRegistration) (\<lambda>h.
          modS (\<lambda>s. s\<lparr>registration_handle := Some h\<rparr>)))))"

definition foreign_unregister :: "(bip_foreign, unit) action" where
  "foreign_unregister = withS (\<lambda>s.
     if bbmdRegistrationStatus s = -2 then retS ()
     else seqS
       [stop_tracking_registration,
        foreign_create_task (RegisterForeignDevice 0) (fdBbmdAddress s),
        modS (\<lambda>s. s\<lparr>bbmdRegistrationStatus := -2, registration_event := False,
          fdBbmdAddress := None, fdBbmdTimeToLive := None\<rparr>)])"

section \<open>Handlers\<close>

definition REGISTRATION_TIMEOUT :: int where
  "REGISTRATION_TIMEOUT = 2"

text \<open>\<^verbatim>\<open>indication\<close> after the registration status is settled.\<close>

definition send_broadcast :: "pdu \<Rightarrow> (bip_foreign, unit) action" where
  "send_broadcast p =
     withS (\<lambda>s. down (DistributeBroadcastToNetwork (pduData p)) (fdBbmdAddress s) (pduUserData p))"

definition foreign_indication :: "pdu \<Rightarrow> (bip_foreign, unit) action" where
  "foreign_indication p =
     bindS (liftS (need AssertionError (pduDestination p))) (\<lambda>dst.
     if addrType dst = LocalStationAddr then
       down (OriginalUnicastNPDU (pduData p)) (Some dst) (pduUserData p)
     else if addrType dst = LocalBroadcastAddr then
       withS (\<lambda>s.
         if bbmdRegistrationStatus s = -2 then retS ()
         else if bbmdRegistrationStatus s = -1 then
           (if registration_event s then send_broadcast p
            else modS (\<lambda>s. s\<lparr>waiting := waiting s @ [(now s + REGISTRATION_TIMEOUT, p)]\<rparr>))
         else if bbmdRegistrationStatus s = 0 then send_broadcast p
         else retS ())
     else retS ())"

text \<open>\<^verbatim>\<open>Event.set()\<close> wakes every waiter.\<close>

definition set_event :: "(bip_foreign, unit) action" where
  "set_event = modS (\<lambda>s. s\<lparr>registration_event := True, resumed := resumed s @ map snd (waiting s), waiting := []\<rparr>)"

definition foreign_result :: "lpdu \<Rightarrow> int \<Rightarrow> (bip_foreign, unit) action" where
  "foreign_result l code = withS (\<lambda>s.
     if bbmdRegistrationStatus s = -2 then retS ()
     else if registration_handle s = None then retS ()
     else
       bindS (modS (\<lambda>s. s\<lparr>registration_handle := None\<rparr>)) (\<lambda>_.
       if lpduSource l \<noteq> fdBbmdAddress s then retS ()
       else
         bindS (modS (\<lambda>s. s\<lparr>bbmdRegistrationStatus := code\<rparr>)) (\<lambda>_.
         if code = 0 then bindS set_event (\<lambda>_. start_tracking_registration) else retS ())))"

definition foreign_forwarded :: "lpdu \<Rightarrow> address \<Rightarrow> byte list \<Rightarrow> (bip_foreign, unit) action" where
  "foreign_forwarded l a d = withS (\<lambda>s.
     if \<not> registration_event s then retS ()
     else if lpduSource l \<noteq> fdBbmdAddress s then retS ()
     else bip_response (upstream d (Some a) (Some local_broadcast) (lpduUserData l)))"

definition foreign_confirmation :: "lpdu \<Rightarrow> (bip_foreign, unit) action" where
  "foreign_confirmation l =
     (case lpduMessage l of
        Result code \<Rightarrow> foreign_result l code
      | OriginalUnicastNPDU d \<Rightarrow>
          bip_response (upstream d (lpduSource l) (lpduDestination l) (lpduUserData l))
      | ForwardedNPDU a d \<Rightarrow> foreign_forwarded l a d
      | ReadBroadcastDistributionTableAck _ \<Rightarrow> bip_sap_response l
      | ReadForeignDeviceTableAck _ \<Rightarrow> bip_sap_response l
      | WriteBroadcastDistributionTable _ \<Rightarrow> answer l (Result 0x0010)
      | ReadBroadcastDistributionTable \<Rightarrow> answer l (Result 0x0020)
      | RegisterForeignDevice _ \<Rightarrow> answer l (Result 0x0030)
      | ReadForeignDeviceTable \<Rightarrow> answer l (Result 0x0040)
      | DeleteForeignDeviceTableEntry _ \<Rightarrow> answer l (Result 0x0050)
      | DistributeBroadcastToNetwork _ \<Rightarrow> answer l (Result 0x0060)
      | OriginalBroadcastNPDU _ \<Rightarrow> retS ())"

section \<open>Runs\<close>

datatype fd_label =
    FdReceive lpdu
  | FdSend pdu
  | FdRegister address int
  | FdUnregister
  | FdCallback
  | FdTask
  | FdResume
  | FdTimeout
  | FdWait int

inductive fd_step :: "fd_label \<Rightarrow> bip_foreign \<Rightarrow> bip_foreign \<Rightarrow> bool" where
  receive: "fd_step (FdReceive l) s (snd (foreign_confirmation l s))"
| send: "fd_step (FdSend p) s (snd (foreign_indication p s))"
| register: "fd_step (FdRegister a ttl) s (snd (foreign_register a ttl s))"
| unregister: "fd_step FdUnregister s (snd (foreign_unregister s))"
| callback: "scheduled s = xs @ (h, due, f) # ys \<Longrightarrow> due \<le> now s \<Longrightarrow>
    fd_step FdCallback s (snd (run_callback f (s\<lparr>scheduled := xs @ ys\<rparr>)))"
| task: "tasks s = l # ls \<Longrightarrow> fd_step FdTask s (snd (bip_request l (s\<lparr>tasks := ls\<rparr>)))"
| resume: "resumed s = p # ps \<Longrightarrow> fd_step FdResume s (snd (send_broadcast p (s\<lparr>resumed := ps\<rparr>)))"
| timeout: "waiting s = xs @ (deadline, p) # ys \<Longrightarrow> deadline \<le> now s \<Longrightarrow>
    fd_step FdTimeout s (s\<lparr>waiting := xs @ ys\<rparr>)"
| pass: "0 \<le> d \<Longrightarrow> \<forall>(h, due, f) \<in> set (scheduled s). now s + d \<le> due \<Longrightarrow>
    fd_step (FdWait d) s (s\<lparr>now := now s + d\<rparr>)"

inductive_cases fd_stepE: "fd_step a s t"

inductive fd_run :: "bip_foreign \<Rightarrow> fd_label list \<Rightarrow> bip_foreign \<Rightarrow> bool" where
  nil: "fd_run s [] s"
| cons: "fd_step a s t \<Longrightarrow> fd_run t as u \<Longrightarrow> fd_run s (a # as) u"

inductive_cases fd_run_NilE: "fd_run s [] t"
inductive_cases fd_run_ConsE: "fd_run s (a # as) u"

text \<open>A property every step of a kind keeps holds at the end of a run of such steps.\<close>

lemma fd_run_keeps:
  assumes "fd_run s as t" "I s" "list_all P as" "\<And>a s t. fd_step a s t \<Longrightarrow> P a \<Longrightarrow> I s \<Longrightarrow> I t"
  shows "I t"
  using assms by (induction rule: fd_run.induct) auto

section \<open>What the operations do\<close>

lemma call_later_run [act_simps]:
  "call_later d f s = (Inr (next_handle s), s\<lparr>scheduled := scheduled s @ [(next_handle s, now s + d, f)],
     next_handle := Suc (next_handle s)\<rparr>)"
  by (simp add: call_later_def act_simps)

definition tracked :: "bip_foreign \<Rightarrow> nat \<Rightarrow> bool" where
  "tracked s i \<longleftrightarrow> Some i \<in> {registration_handle s, registration_timeout_handle s, reregistration_timeout_handle s}"

definition untracked :: "bip_foreign \<Rightarrow> (nat \<times> int \<times> callback) list" where
  "untracked s = filter (\<lambda>(i, _). \<not> tracked s i) (scheduled s)"

lemma stop_tracking_run [act_simps]:
  "stop_tracking_registration s = (Inr (), s\<lparr>scheduled := untracked s, registration_handle := None,
     registration_timeout_handle := None, reregistration_timeout_handle := None\<rparr>)"
  by (auto simp: stop_tracking_registration_def cancel_def act_simps untracked_def tracked_def
      intro!: filter_cong bip_foreign.equality)

lemma start_tracking_run:
  assumes "fdBbmdTimeToLive s = Some ttl"
  shows "start_tracking_registration s = (Inr (), s\<lparr>
     scheduled := untracked s @ [(next_handle s, now s + ttl, StartRegistration),
       (Suc (next_handle s), now s + (ttl + 30), RegistrationExpired)],
     next_handle := Suc (Suc (next_handle s)), registration_handle := Some (next_handle s),
     registration_timeout_handle := Some (Suc (next_handle s)), reregistration_timeout_handle := None\<rparr>)"
  using assms by (simp add: start_tracking_registration_def act_simps)

lemma start_registration_run:
  assumes "fdBbmdTimeToLive s = Some ttl"
  shows "start_registration s = (Inr (), s\<lparr>
     bbmdRegistrationStatus := if bbmdRegistrationStatus s = -2 then -1 else bbmdRegistrationStatus s,
     tasks := tasks s @ [\<lparr>lpduSource = None, lpduDestination = fdBbmdAddress s, lpduUserData = None,
       lpduMessage = RegisterForeignDevice ttl\<rparr>],
     scheduled := scheduled s @ [(next_handle s, now s + min 5 ttl, StartRegistration)],
     next_handle := Suc (next_handle s), reregistration_timeout_handle := Some (next_handle s)\<rparr>)"
  using assms by (simp add: start_registration_def foreign_create_task_def act_simps)

lemma start_registration_unset:
  assumes "fdBbmdTimeToLive s = None"
  shows "start_registration s = (Inl TypeError, s\<lparr>
     bbmdRegistrationStatus := if bbmdRegistrationStatus s = -2 then -1 else bbmdRegistrationStatus s\<rparr>)"
  using assms by (simp add: start_registration_def act_simps)

lemma registration_expired_run:
  "registration_expired s = (Inr (), s\<lparr>bbmdRegistrationStatus := -2, registration_event := False,
     scheduled := untracked s, registration_handle := None, registration_timeout_handle := None,
     reregistration_timeout_handle := None\<rparr>)"
  by (simp add: registration_expired_def act_simps untracked_def tracked_def)

lemma unregister_run:
  "snd (foreign_unregister s) = (if bbmdRegistrationStatus s = -2 then s else s\<lparr>
     scheduled := untracked s, registration_handle := None, registration_timeout_handle := None,
     reregistration_timeout_handle := None,
     tasks := tasks s @ [\<lparr>lpduSource = None, lpduDestination = fdBbmdAddress s, lpduUserData = None,
       lpduMessage = RegisterForeignDevice 0\<rparr>],
     bbmdRegistrationStatus := -2, registration_event := False,
     fdBbmdAddress := None, fdBbmdTimeToLive := None\<rparr>)"
  by (simp add: foreign_unregister_def foreign_create_task_def act_simps)

lemma foreign_register_run:
  "snd (foreign_register a ttl s) = (if ttl \<le> 0 \<or> registration_handle s \<noteq> None then s else s\<lparr>
     fdBbmdAddress := Some a, fdBbmdTimeToLive := Some ttl,
     scheduled := scheduled s @ [(next_handle s, now s, StartRegistration)],
     next_handle := Suc (next_handle s), registration_handle := Some (next_handle s)\<rparr>)"
  by (simp add: foreign_register_def act_simps)

text \<open>The results that count: from the management device, while a request is outstanding.\<close>

definition accepts :: "bip_foreign \<Rightarrow> lpdu \<Rightarrow> bool" where
  "accepts s l \<longleftrightarrow> bbmdRegistrationStatus s \<noteq> -2 \<and> registration_handle s \<noteq> None \<and>
     lpduSource l = fdBbmdAddress s"

lemma result_success:
  assumes "lpduMessage l = Result 0" "accepts s l" "fdBbmdTimeToLive s = Some ttl"
  shows "snd (foreign_confirmation l s) = snd (start_tracking_registration (s\<lparr>registration_handle := None,
     bbmdRegistrationStatus := 0, registration_event := True,
     resumed := resumed s @ map snd (waiting s), waiting := []\<rparr>))"
  using assms
  by (auto simp: foreign_confirmation_def foreign_result_def accepts_def act_simps set_event_def)

lemma result_failure:
  assumes "lpduMessage l = Result code" "accepts s l" "code \<noteq> 0"
  shows "snd (foreign_confirmation l s) = s\<lparr>registration_handle := None, bbmdRegistrationStatus := code\<rparr>"
  using assms by (auto simp: foreign_confirmation_def foreign_result_def accepts_def act_simps)

lemma result_ignored:
  assumes "lpduMessage l = Result code" "\<not> accepts s l"
  shows "snd (foreign_confirmation l s) =
    (if bbmdRegistrationStatus s = -2 then s else s\<lparr>registration_handle := None\<rparr>)"
  using assms by (auto simp: foreign_confirmation_def foreign_result_def accepts_def act_simps)

text \<open>Everything else leaves the registration alone.\<close>

definition same_registration :: "bip_foreign \<Rightarrow> bip_foreign \<Rightarrow> bool" where
  "same_registration s t \<longleftrightarrow> fdBbmdAddress t = fdBbmdAddress s \<and> fdBbmdTimeToLive t = fdBbmdTimeToLive s \<and>
     bbmdRegistrationStatus t = bbmdRegistrationStatus s \<and> registration_event t = registration_event s \<and>
     registration_handle t = registration_handle s \<and>
     registration_timeout_handle t = registration_timeout_handle s \<and>
     reregistration_timeout_handle t = reregistration_timeout_handle s \<and>
     scheduled t = scheduled s \<and> next_handle t = next_handle s \<and> now t = now s"

lemma same_registration_refl: "same_registration s s"
  by (simp add: same_registration_def)

lemma reg_keeps_emit: "keeps (same_registration s) (bip_emit e)"
  unfolding bip_emit_def by (rule keeps_mod) (simp add: same_registration_def)

lemma reg_keeps_down: "keeps (same_registration s) (down m dst user)"
  by (simp add: down_def bip_request_def reg_keeps_emit)

lemma reg_keeps_up: "keeps (same_registration s) (bip_response p)" "keeps (same_registration s) (bip_sap_response l)"
  unfolding bip_response_def bip_sap_response_def by (intro keeps_with keeps_if keeps_basic reg_keeps_emit)+

lemma reg_keeps_broadcast: "keeps (same_registration s) (send_broadcast p)"
  unfolding send_broadcast_def by (intro keeps_with reg_keeps_down)

lemma reg_keeps_wait: "keeps (same_registration s) (modS (\<lambda>s. s\<lparr>waiting := f s\<rparr>))"
  by (rule keeps_mod) (simp add: same_registration_def)

lemmas reg_keeps = reg_keeps_down reg_keeps_up reg_keeps_broadcast reg_keeps_wait

lemma reg_keeps_indication: "keeps (same_registration s) (foreign_indication p)"
  unfolding foreign_indication_def by (intro reg_keeps keeps_rules)

lemma reg_keeps_forwarded: "keeps (same_registration s) (foreign_forwarded l a d)"
  unfolding foreign_forwarded_def by (intro reg_keeps keeps_rules)

lemma reg_keeps_confirmation:
  "\<forall>c. lpduMessage l \<noteq> Result c \<Longrightarrow> keeps (same_registration s) (foreign_confirmation l)"
  unfolding foreign_confirmation_def answer_def
  by (cases "lpduMessage l") (simp_all add: reg_keeps reg_keeps_forwarded keeps_basic)

lemmas registration_same = keepsD [OF reg_keeps_indication same_registration_refl]
  keepsD [OF reg_keeps_confirmation same_registration_refl]
  keepsD [OF reg_keeps_broadcast same_registration_refl]

lemma reg_request: "same_registration s (snd (bip_request l (s\<lparr>tasks := ls\<rparr>)))"
  by (simp add: bip_request_def act_simps same_registration_def)

lemma reg_resume: "same_registration s (snd (send_broadcast p (s\<lparr>resumed := ps\<rparr>)))"
  using registration_same(3) [of "s\<lparr>resumed := ps\<rparr>" p] by (simp add: same_registration_def)

section \<open>The invariant\<close>

definition expiries :: "bip_foreign \<Rightarrow> (nat \<times> int) set" where
  "expiries s = {(h, due). (h, due, RegistrationExpired) \<in> set (scheduled s)}"

definition fd_ok :: "bip_foreign \<Rightarrow> bool" where
  "fd_ok s \<longleftrightarrow>
     (\<forall>(h, due, f) \<in> set (scheduled s). h < next_handle s \<and> now s \<le> due) \<and>
     distinct (map fst (scheduled s)) \<and>
     (\<forall>(h, due) \<in> expiries s. registration_timeout_handle s = Some h) \<and>
     (expiries s \<noteq> {} \<longleftrightarrow> registration_event s) \<and>
     (bbmdRegistrationStatus s = 0 \<longrightarrow> registration_event s) \<and>
     (bbmdRegistrationStatus s < 0 \<longrightarrow> bbmdRegistrationStatus s \<in> {-1, -2} \<and> \<not> registration_event s)"

text \<open>Result codes come off the wire as unsigned shorts.\<close>

definition label_ok :: "fd_label \<Rightarrow> bool" where
  "label_ok a \<longleftrightarrow> (\<forall>l c. a = FdReceive l \<longrightarrow> lpduMessage l = Result c \<longrightarrow> 0 \<le> c)"

lemma same_ok: "same_registration s t \<Longrightarrow> fd_ok s \<Longrightarrow> fd_ok t"
  by (simp add: same_registration_def fd_ok_def expiries_def)

lemma untracked_expiries: "fd_ok s \<Longrightarrow> (h, due, RegistrationExpired) \<notin> set (untracked s)"
  by (auto simp: fd_ok_def untracked_def tracked_def expiries_def)

lemma untracked_sub: "set (untracked s) \<subseteq> set (scheduled s)"
  by (auto simp: untracked_def)

lemma untracked_distinct: "distinct (map fst (scheduled s)) \<Longrightarrow> distinct (map fst (untracked s))"
  by (simp add: untracked_def distinct_map_filter)

lemma fd_okD:
  assumes "fd_ok s"
  shows "(h, due, f) \<in> set (scheduled s) \<Longrightarrow> h < next_handle s"
    "(h, due, f) \<in> set (scheduled s) \<Longrightarrow> now s \<le> due"
    "distinct (map fst (scheduled s))"
  using assms by (auto simp: fd_ok_def)

lemma untracked_ok:
  assumes "fd_ok s"
  shows "\<forall>(h, due, f) \<in> set (untracked s). h < next_handle s \<and> now s \<le> due"
    "distinct (map fst (untracked s))"
    "\<forall>(h, due, f) \<in> set (untracked s). f = StartRegistration"
  using fd_okD [OF assms] untracked_sub [of s] untracked_distinct untracked_expiries [OF assms]
    callback.exhaust by blast+

lemma fresh_notin: "\<forall>(h, due, f) \<in> set xs. h < n \<Longrightarrow> n \<notin> fst ` set xs \<and> Suc n \<notin> fst ` set xs"
  by force

text \<open>The loop about to run a callback has taken it off the schedule.\<close>

definition popped :: "bip_foreign \<Rightarrow> bip_foreign \<Rightarrow> (nat \<times> int \<times> callback) \<Rightarrow> bool" where
  "popped s t c \<longleftrightarrow> (\<exists>xs ys. scheduled s = xs @ c # ys \<and> t = s\<lparr>scheduled := xs @ ys\<rparr>)"

lemma popped_start_ok:
  assumes "fd_ok s" "popped s t (h, due, StartRegistration)"
  shows "fd_ok t"
proof -
  obtain xs ys where t: "scheduled s = xs @ (h, due, StartRegistration) # ys" "t = s\<lparr>scheduled := xs @ ys\<rparr>"
    using assms(2) by (auto simp: popped_def)
  then have "expiries t = expiries s" by (simp add: expiries_def)
  then show ?thesis using assms(1) t by (simp add: fd_ok_def)
qed

lemma start_registration_ok:
  assumes "fd_ok s" "\<forall>ttl. fdBbmdTimeToLive s = Some ttl \<longrightarrow> 0 \<le> ttl"
  shows "fd_ok (snd (start_registration s))"
proof (cases "fdBbmdTimeToLive s")
  case None
  then show ?thesis using assms by (auto simp: start_registration_unset fd_ok_def expiries_def)
next
  case (Some ttl)
  then show ?thesis using assms fresh_notin [of "scheduled s" "next_handle s"]
    by (auto simp: start_registration_run fd_ok_def expiries_def)
qed

lemma stopped_ok:
  assumes "fd_ok s" "scheduled t = untracked s" "next_handle t = next_handle s" "now t = now s"
    "bbmdRegistrationStatus t = -2" "\<not> registration_event t"
  shows "fd_ok t"
  using assms untracked_ok [OF assms(1)] untracked_expiries [OF assms(1)]
  by (simp add: fd_ok_def expiries_def)

lemma popped_expired_ok:
  assumes "fd_ok s" "popped s t (h, due, RegistrationExpired)"
  shows "fd_ok (snd (registration_expired t))"
proof -
  obtain xs ys where t: "scheduled s = xs @ (h, due, RegistrationExpired) # ys" "t = s\<lparr>scheduled := xs @ ys\<rparr>"
    using assms(2) by (auto simp: popped_def)
  have "registration_timeout_handle s = Some h" using assms(1) t by (auto simp: fd_ok_def expiries_def)
  then have "untracked t = untracked s" using t fd_okD(3) [OF assms(1)]
    by (auto simp: untracked_def tracked_def intro!: filter_cong)
  then show ?thesis using t by (intro stopped_ok [OF assms(1)]) (simp_all add: registration_expired_run)
qed

lemma start_tracking_ok:
  assumes "fd_ok s" "fdBbmdTimeToLive t = Some ttl" "0 \<le> ttl" "scheduled t = scheduled s"
    "next_handle t = next_handle s" "now t = now s" "bbmdRegistrationStatus t = 0" "registration_event t"
    "untracked t = untracked (s\<lparr>registration_handle := h\<rparr>)"
  shows "fd_ok (snd (start_tracking_registration t))"
proof -
  have "fd_ok (s\<lparr>registration_handle := h\<rparr>)" using assms(1) by (simp add: fd_ok_def expiries_def)
  note u = untracked_ok [OF this] untracked_expiries [OF this]
  show ?thesis unfolding start_tracking_run [OF assms(2)]
    using assms u fresh_notin [of "untracked t" "next_handle s"]
    by (auto simp: fd_ok_def expiries_def)
qed

definition fd_good :: "bip_foreign \<Rightarrow> bool" where
  "fd_good s \<longleftrightarrow> fd_ok s \<and> (\<forall>ttl. fdBbmdTimeToLive s = Some ttl \<longrightarrow> 0 < ttl) \<and>
     (registration_handle s \<noteq> None \<longrightarrow> fdBbmdTimeToLive s \<noteq> None)"

lemma same_good: "same_registration s t \<Longrightarrow> fd_good s \<Longrightarrow> fd_good t"
  using same_ok by (simp add: fd_good_def same_registration_def)

lemma ack_good:
  assumes "fd_good s" "lpduMessage l = Result 0" "accepts s l"
  shows "fd_good (snd (foreign_confirmation l s))"
proof -
  obtain ttl where ttl: "fdBbmdTimeToLive s = Some ttl" "0 < ttl"
    using assms by (auto simp: fd_good_def accepts_def)
  let ?t = "s\<lparr>registration_handle := None, bbmdRegistrationStatus := 0, registration_event := True,
     resumed := resumed s @ map snd (waiting s), waiting := []\<rparr>"
  have "fd_ok (snd (start_tracking_registration ?t))"
    by (rule start_tracking_ok [where s = s and ttl = ttl and h = None])
      (use assms ttl in \<open>simp_all add: fd_good_def untracked_def tracked_def\<close>)
  then show ?thesis using ttl
    by (simp add: result_success [OF assms(2,3)] start_tracking_run fd_good_def)
qed

lemma receive_good:
  assumes "fd_good s" "label_ok (FdReceive l)"
  shows "fd_good (snd (foreign_confirmation l s))"
proof (cases "\<exists>c. lpduMessage l = Result c")
  case False
  then show ?thesis using registration_same(2) same_good assms(1) by blast
next
  case True
  then obtain c where c: "lpduMessage l = Result c" "0 \<le> c" using assms(2) by (auto simp: label_ok_def)
  have forget: "fd_good (s\<lparr>registration_handle := None\<rparr>)"
    "0 < c \<Longrightarrow> fd_good (s\<lparr>registration_handle := None, bbmdRegistrationStatus := c\<rparr>)"
    using assms(1) by (simp_all add: fd_good_def fd_ok_def expiries_def)
  show ?thesis
  proof (cases "accepts s l")
    case False
    then show ?thesis using result_ignored [OF c(1)] forget assms(1) by simp
  next
    case True
    then show ?thesis using ack_good assms(1) c result_failure [OF c(1) True] forget by (cases "c = 0") simp_all
  qed
qed

lemma register_good: "fd_good s \<Longrightarrow> fd_good (snd (foreign_register a ttl s))"
  using fresh_notin [of "scheduled s" "next_handle s"]
  by (auto simp: foreign_register_run fd_good_def fd_ok_def expiries_def)

lemma unregister_good:
  assumes "fd_good s"
  shows "fd_good (snd (foreign_unregister s))"
proof (cases "bbmdRegistrationStatus s = -2")
  case False
  have "fd_ok (snd (foreign_unregister s))"
    by (rule stopped_ok [where s = s]) (use assms False in \<open>simp_all add: unregister_run fd_good_def\<close>)
  then show ?thesis using False by (simp add: unregister_run fd_good_def)
qed (use assms in \<open>simp add: unregister_run\<close>)

lemma popped_fields:
  "popped s t c \<Longrightarrow> fdBbmdTimeToLive t = fdBbmdTimeToLive s \<and> registration_handle t = registration_handle s \<and>
    bbmdRegistrationStatus t = bbmdRegistrationStatus s \<and> registration_event t = registration_event s \<and> now t = now s \<and>
    set (scheduled t) \<subseteq> set (scheduled s) \<and> set (scheduled s) = insert c (set (scheduled t))"
  by (auto simp: popped_def)

lemma start_registration_fields:
  "fdBbmdTimeToLive (snd (start_registration t)) = fdBbmdTimeToLive t \<and>
   registration_handle (snd (start_registration t)) = registration_handle t \<and>
   registration_event (snd (start_registration t)) = registration_event t \<and>
   now (snd (start_registration t)) = now t \<and>
   bbmdRegistrationStatus (snd (start_registration t)) =
     (if bbmdRegistrationStatus t = -2 then -1 else bbmdRegistrationStatus t)"
  by (cases "fdBbmdTimeToLive t") (simp_all add: start_registration_run start_registration_unset)

lemma callback_good:
  assumes "fd_good s" "popped s t (h, due, f)"
  shows "fd_good (snd (run_callback f t))"
proof (cases f)
  case StartRegistration
  then have t: "fd_ok t" using popped_start_ok assms by (auto simp: fd_good_def)
  have "fd_ok (snd (start_registration t))"
    by (rule start_registration_ok [OF t]) (use assms popped_fields in \<open>fastforce simp: fd_good_def\<close>)
  then show ?thesis
    using StartRegistration assms start_registration_fields [of t] popped_fields [OF assms(2)] by (simp add: fd_good_def)
next
  case RegistrationExpired
  then have "fd_ok (snd (registration_expired t))" using popped_expired_ok assms by (auto simp: fd_good_def)
  then show ?thesis using RegistrationExpired assms popped_fields [OF assms(2)]
    by (simp add: fd_good_def registration_expired_run)
qed

lemma pass_good:
  assumes "fd_good s" "0 \<le> d" "\<forall>(h, due, f) \<in> set (scheduled s). now s + d \<le> due"
  shows "fd_good (s\<lparr>now := now s + d\<rparr>)"
  using assms by (auto simp: fd_good_def fd_ok_def expiries_def)

lemma step_good: "fd_step a s t \<Longrightarrow> label_ok a \<Longrightarrow> fd_good s \<Longrightarrow> fd_good t"
proof (induction rule: fd_step.induct)
  case (send p s)
  then show ?case using registration_same(1) same_good by blast
next
  case (callback s xs h due f ys)
  then have "popped s (s\<lparr>scheduled := xs @ ys\<rparr>) (h, due, f)" by (auto simp: popped_def)
  then show ?case using callback_good callback by blast
next
  case (task s l ls)
  then show ?case using reg_request same_good by blast
next
  case (resume s p ps)
  then show ?case using reg_resume same_good by blast
next
  case (timeout s xs deadline p ys)
  then show ?case using same_good [of s "s\<lparr>waiting := xs @ ys\<rparr>"] by (simp add: same_registration_def)
qed (simp_all add: receive_good register_good unregister_good pass_good)

lemma init_good: "fd_good (init_foreign server element)"
  by (simp add: fd_good_def fd_ok_def init_foreign_def expiries_def)

lemma run_good: "fd_run s as t \<Longrightarrow> list_all label_ok as \<Longrightarrow> fd_good s \<Longrightarrow> fd_good t"
  by (rule fd_run_keeps [where I = fd_good and P = label_ok]) (auto intro: step_good)

section \<open>The end of a registration\<close>

definition is_result :: "fd_label \<Rightarrow> bool" where
  "is_result a \<longleftrightarrow> (\<exists>l c. a = FdReceive l \<and> lpduMessage l = Result c)"

text \<open>Without results the expiry that is scheduled stays, or has put an end to the registration.\<close>

definition ends_by :: "int \<Rightarrow> bip_foreign \<Rightarrow> bool" where
  "ends_by due s \<longleftrightarrow> fd_good s \<and> (registration_event s \<longrightarrow> (\<exists>h. (h, due) \<in> expiries s))"

lemma ends_by_now: "ends_by due s \<Longrightarrow> registration_event s \<Longrightarrow> now s \<le> due"
  by (auto simp: ends_by_def fd_good_def expiries_def dest: fd_okD)

lemma same_ends_by: "same_registration s t \<Longrightarrow> ends_by due s \<Longrightarrow> ends_by due t"
  using same_good by (simp add: ends_by_def same_registration_def expiries_def)

lemma start_registration_scheduled: "set (scheduled t) \<subseteq> set (scheduled (snd (start_registration t)))"
  by (cases "fdBbmdTimeToLive t") (auto simp: start_registration_run start_registration_unset)

lemma callback_ends_by:
  assumes "ends_by D s" "popped s t (h, due, f)"
  shows "ends_by D (snd (run_callback f t))"
proof (cases f)
  case StartRegistration
  have "expiries s \<subseteq> expiries (snd (start_registration t))"
    using popped_fields [OF assms(2)] StartRegistration start_registration_scheduled [of t]
    by (auto simp: expiries_def)
  then show ?thesis
    using assms callback_good [OF _ assms(2)] start_registration_fields [of t] popped_fields [OF assms(2)]
      StartRegistration by (auto simp: ends_by_def)
next
  case RegistrationExpired
  then show ?thesis using assms callback_good [OF _ assms(2)]
    by (simp add: ends_by_def registration_expired_run)
qed

lemma step_ends_by:
  "fd_step a s t \<Longrightarrow> label_ok a \<and> \<not> is_result a \<Longrightarrow> ends_by D s \<Longrightarrow> ends_by D t"
proof (induction rule: fd_step.induct)
  case (receive l s)
  then have "\<forall>c. lpduMessage l \<noteq> Result c" by (auto simp: is_result_def)
  then show ?case using registration_same(2) same_ends_by receive by blast
next
  case (send p s)
  then show ?case using registration_same(1) same_ends_by by blast
next
  case (register a ttl s)
  then show ?case using register_good [of s a ttl] by (auto simp: ends_by_def foreign_register_run expiries_def)
next
  case (unregister s)
  then show ?case using unregister_good by (auto simp: ends_by_def unregister_run)
next
  case (callback s xs h due f ys)
  then have "popped s (s\<lparr>scheduled := xs @ ys\<rparr>) (h, due, f)" by (auto simp: popped_def)
  then show ?case using callback_ends_by callback by blast
next
  case (task s l ls)
  then show ?case using reg_request same_ends_by by blast
next
  case (resume s p ps)
  then show ?case using reg_resume same_ends_by by blast
next
  case (timeout s xs deadline p ys)
  then show ?case using same_ends_by [of s "s\<lparr>waiting := xs @ ys\<rparr>"] by (simp add: same_registration_def)
next
  case (pass d s)
  then show ?case using pass_good by (simp add: ends_by_def expiries_def)
qed

text \<open>
  Once a foreign device has accepted a success from its management device, and
  hears no further result, it regards itself as registered, lets forwarded broadcasts in
  or has status 0, for the time-to-live and thirty seconds at most, in every run:
  whatever else it receives, sends or is told and however its callbacks are ordered.
\<close>

theorem registration_expires:
  assumes "fd_run (init_foreign server element) before s" "list_all label_ok before"
    and "lpduMessage l = Result 0" "accepts s l" "fdBbmdTimeToLive s = Some ttl"
    and "fd_run (snd (foreign_confirmation l s)) after u"
    and "list_all (\<lambda>a. label_ok a \<and> \<not> is_result a) after"
    and "bbmdRegistrationStatus u = 0 \<or> registration_event u"
  shows "now u \<le> now s + ttl + 30"
proof -
  have good: "fd_good s" using run_good [OF assms(1,2) init_good] .
  have "ends_by (now s + ttl + 30) (snd (foreign_confirmation l s))"
    using ack_good [OF good assms(3,4)] result_success [OF assms(3,4,5)] assms(5)
    by (auto simp: ends_by_def start_tracking_run expiries_def)
  then have end_u: "ends_by (now s + ttl + 30) u"
    using fd_run_keeps [where I = "ends_by _", OF assms(6) _ assms(7)] step_ends_by by blast
  moreover have "registration_event u" using assms(8) end_u by (auto simp: ends_by_def fd_good_def fd_ok_def)
  ultimately show ?thesis by (rule ends_by_now)
qed

text \<open>A device registers with a time-to-live of 60 and is acknowledged.\<close>

definition example_bbmd :: address where
  "example_bbmd = local_station [10, 0, 0, 1, 0xBA, 0xC0]"

definition example_result :: "address \<Rightarrow> lpdu" where
  "example_result a = \<lparr>lpduSource = Some a, lpduDestination = None, lpduUserData = None, lpduMessage = Result 0\<rparr>"

definition example_registering :: bip_foreign where
  "example_registering =
     snd (start_registration ((snd (foreign_register example_bbmd 60 (init_foreign True True)))\<lparr>scheduled := []\<rparr>))"

lemma fd_run_1: "fd_step a s t \<Longrightarrow> fd_run s [a] t"
  by (blast intro: fd_run.intros)

lemma fd_run_2: "fd_step a s t \<Longrightarrow> fd_step b t u \<Longrightarrow> fd_run s [a, b] u"
  by (blast intro: fd_run.intros)

lemma example_registering_run:
  "fd_run (init_foreign True True) [FdRegister example_bbmd 60, FdCallback] example_registering"
proof (rule fd_run_2)
  let ?s = "snd (foreign_register example_bbmd 60 (init_foreign True True))"
  show "fd_step (FdRegister example_bbmd 60) (init_foreign True True) ?s" by (rule fd_step.register)
  have "scheduled ?s = [] @ (0, 0, StartRegistration) # []" "0 \<le> now ?s"
    by (simp_all add: foreign_register_run init_foreign_def)
  from fd_step.callback [OF this] show "fd_step FdCallback ?s example_registering"
    by (simp add: example_registering_def)
qed

lemma example_registering_state:
  "fdBbmdTimeToLive example_registering = Some 60" "now example_registering = 0"
  "fdBbmdAddress example_registering = Some example_bbmd" "bbmdRegistrationStatus example_registering = -1"
  "registration_handle example_registering = Some 0"
  by (simp_all add: example_registering_def foreign_register_run init_foreign_def start_registration_run)

lemma example_accepts: "accepts example_registering (example_result example_bbmd)"
  by (simp add: accepts_def example_registering_state example_result_def)

theorem registration_expires_witness:
  "now (snd (foreign_confirmation (example_result example_bbmd) example_registering)) \<le> 0 + 60 + 30"
proof -
  let ?u = "snd (foreign_confirmation (example_result example_bbmd) example_registering)"
  have m: "lpduMessage (example_result example_bbmd) = Result 0" by (simp add: example_result_def)
  have "bbmdRegistrationStatus ?u = 0 \<or> registration_event ?u"
    by (simp add: result_success [OF m example_accepts example_registering_state(1)]
        start_tracking_run example_registering_state)
  from registration_expires [OF example_registering_run _ m example_accepts
      example_registering_state(1) fd_run.nil _ this]
  show ?thesis by (simp add: label_ok_def example_registering_state)
qed

section \<open>Renewal\<close>

text \<open>While a device tries to be registered, another request is due within the time-to-live.\<close>

definition trying :: "bip_foreign \<Rightarrow> bool" where
  "trying s \<longleftrightarrow> fd_good s \<and> (scheduled s \<noteq> [] \<longrightarrow> fdBbmdTimeToLive s \<noteq> None) \<and>
     (bbmdRegistrationStatus s \<noteq> -2 \<longrightarrow> (\<exists>ttl h due. fdBbmdTimeToLive s = Some ttl \<and>
        (h, due, StartRegistration) \<in> set (scheduled s) \<and> due \<le> now s + ttl))"

lemma same_trying: "same_registration s t \<Longrightarrow> trying s \<Longrightarrow> trying t"
  using same_good by (simp add: trying_def same_registration_def)

lemma start_trying:
  assumes "fd_good (snd (start_registration t))" "fdBbmdTimeToLive t = Some ttl"
  shows "trying (snd (start_registration t))"
proof -
  have "(next_handle t, now t + min 5 ttl, StartRegistration) \<in> set (scheduled (snd (start_registration t)))"
    using assms(2) by (simp add: start_registration_run)
  moreover have "now t + min 5 ttl \<le> now t + ttl" by simp
  ultimately show ?thesis
    using assms start_registration_fields [of t] unfolding trying_def by force
qed

lemma ack_trying:
  assumes "fd_good s" "lpduMessage l = Result 0" "accepts s l"
  shows "trying (snd (foreign_confirmation l s))"
proof -
  obtain ttl where ttl: "fdBbmdTimeToLive s = Some ttl" using assms by (auto simp: fd_good_def accepts_def)
  then show ?thesis
    using ack_good [OF assms] by (auto simp: trying_def result_success [OF assms(2,3) ttl] start_tracking_run)
qed

lemma receive_trying:
  assumes "trying s" "label_ok (FdReceive l)"
  shows "trying (snd (foreign_confirmation l s))"
proof (cases "\<exists>c. lpduMessage l = Result c")
  case False
  then show ?thesis using registration_same(2) same_trying assms(1) by blast
next
  case True
  then obtain c where c: "lpduMessage l = Result c" by blast
  have good: "fd_good (snd (foreign_confirmation l s))" "fd_good s"
    using receive_good assms by (auto simp: trying_def)
  consider "accepts s l" "c = 0" | "accepts s l" "c \<noteq> 0" | "\<not> accepts s l" by blast
  then show ?thesis
  proof cases
    case 1
    then show ?thesis using ack_trying [OF good(2)] c by simp
  next
    case 2
    then show ?thesis using assms(1) good(1) result_failure [OF c] by (simp add: trying_def accepts_def)
  next
    case 3
    then show ?thesis using assms(1) good(1) result_ignored [OF c] by (simp add: trying_def)
  qed
qed

lemma callback_trying:
  assumes "trying s" "popped s t (h, due, f)"
  shows "trying (snd (run_callback f t))"
proof -
  have good: "fd_good (snd (run_callback f t))"
    by (rule callback_good [OF _ assms(2)]) (use assms(1) in \<open>simp add: trying_def\<close>)
  obtain ttl where ttl: "fdBbmdTimeToLive t = Some ttl"
    using assms popped_fields [OF assms(2)] by (cases "scheduled s") (auto simp: trying_def)
  show ?thesis
  proof (cases f)
    case StartRegistration
    then show ?thesis using start_trying good ttl by simp
  next
    case RegistrationExpired
    then show ?thesis using good ttl by (simp add: trying_def registration_expired_run)
  qed
qed

lemma step_trying:
  "fd_step a s t \<Longrightarrow> label_ok a \<and> a \<noteq> FdUnregister \<Longrightarrow> trying s \<Longrightarrow> trying t"
proof (induction rule: fd_step.induct)
  case (receive l s)
  then show ?case using receive_trying by blast
next
  case (send p s)
  then show ?case using registration_same(1) same_trying by blast
next
  case (register a ttl s)
  then show ?case using register_good [of s a ttl] by (fastforce simp: trying_def foreign_register_run)
next
  case (callback s xs h due f ys)
  then have "popped s (s\<lparr>scheduled := xs @ ys\<rparr>) (h, due, f)" by (auto simp: popped_def)
  then show ?case using callback_trying callback by blast
next
  case (task s l ls)
  then show ?case using reg_request same_trying by blast
next
  case (resume s p ps)
  then show ?case using reg_resume same_trying by blast
next
  case (timeout s xs deadline p ys)
  then show ?case using same_trying [of s "s\<lparr>waiting := xs @ ys\<rparr>"] by (simp add: same_registration_def)
next
  case (pass d s)
  then show ?case using pass_good [OF _ pass(1,2)] by (fastforce simp: trying_def)
qed simp

lemma init_trying: "trying (init_foreign server element)"
  using init_good by (simp add: trying_def) (simp add: init_foreign_def)

text \<open>
  Property C32. In every run in which \<^verbatim>\<open>unregister\<close> is not called, a device whose status is
  not "unregistered" (in process, registered or refused) has a next registration request
  scheduled, no later than its time-to-live from now: time cannot pass it by.
\<close>

theorem keeps_registering:
  assumes "fd_run (init_foreign server element) as s"
    and "list_all (\<lambda>a. label_ok a \<and> a \<noteq> FdUnregister) as" "bbmdRegistrationStatus s \<noteq> -2"
  shows "\<exists>ttl h due. fdBbmdTimeToLive s = Some ttl \<and> (h, due, StartRegistration) \<in> set (scheduled s) \<and>
    now s \<le> due \<and> due \<le> now s + ttl"
proof -
  have t: "trying s"
    using fd_run_keeps [where I = trying, OF assms(1) init_trying assms(2)] step_trying by blast
  then obtain ttl h due where "fdBbmdTimeToLive s = Some ttl" "(h, due, StartRegistration) \<in> set (scheduled s)"
    "due \<le> now s + ttl" using assms(3) by (auto simp: trying_def)
  moreover from this have "now s \<le> due" using t fd_okD(2) by (auto simp: trying_def fd_good_def)
  ultimately show ?thesis by blast
qed

theorem keeps_registering_witness:
  "\<exists>h due. (h, due, StartRegistration) \<in> set (scheduled example_registering) \<and> due \<le> 60"
  using keeps_registering [OF example_registering_run] example_registering_state
  by (auto simp: label_ok_def)

section \<open>Results that are not expected\<close>

text \<open>A request is in process and no handle says so: results are ignored from then on.\<close>

definition deaf :: "bip_foreign \<Rightarrow> bool" where
  "deaf s \<longleftrightarrow> fd_good s \<and> bbmdRegistrationStatus s = -1 \<and> registration_handle s = None"

lemma same_deaf: "same_registration s t \<Longrightarrow> deaf s \<Longrightarrow> deaf t"
  using same_good [of s t] by (simp add: deaf_def same_registration_def)

lemma receive_deaf: "deaf s \<Longrightarrow> label_ok (FdReceive l) \<Longrightarrow> deaf (snd (foreign_confirmation l s))"
proof (cases "\<exists>c. lpduMessage l = Result c")
  case True
  assume s: "deaf s" "label_ok (FdReceive l)"
  then have "fd_good (snd (foreign_confirmation l s))" using receive_good by (simp add: deaf_def)
  then show ?thesis using s True result_ignored [of l _ s] by (auto simp: deaf_def accepts_def)
qed (use registration_same(2) same_deaf in blast)

lemma callback_deaf:
  assumes "deaf s" "popped s t (h, due, f)"
  shows "deaf (snd (run_callback f t))"
proof (cases f)
  case StartRegistration
  then show ?thesis
    using assms callback_good [OF _ assms(2)] start_registration_fields [of t] popped_fields [OF assms(2)]
    by (simp add: deaf_def)
next
  case RegistrationExpired
  then have "(h, due) \<in> expiries s" using assms(2) by (auto simp: popped_def expiries_def)
  then have "registration_event s" using assms(1) by (auto simp: deaf_def fd_good_def fd_ok_def)
  moreover have "\<not> registration_event s" using assms(1) unfolding deaf_def fd_good_def fd_ok_def by linarith
  ultimately show ?thesis by simp
qed

definition is_management :: "fd_label \<Rightarrow> bool" where
  "is_management a \<longleftrightarrow> a = FdUnregister \<or> (\<exists>b ttl. a = FdRegister b ttl)"

lemma step_deaf: "fd_step a s t \<Longrightarrow> label_ok a \<and> \<not> is_management a \<Longrightarrow> deaf s \<Longrightarrow> deaf t"
proof (induction rule: fd_step.induct)
  case (receive l s)
  then show ?case using receive_deaf by blast
next
  case (send p s)
  then show ?case using registration_same(1) same_deaf by blast
next
  case (callback s xs h due f ys)
  then have "popped s (s\<lparr>scheduled := xs @ ys\<rparr>) (h, due, f)" by (auto simp: popped_def)
  then show ?case using callback_deaf callback by blast
next
  case (task s l ls)
  then show ?case using reg_request same_deaf by blast
next
  case (resume s p ps)
  then show ?case using reg_resume same_deaf by blast
next
  case (timeout s xs deadline p ys)
  then show ?case using same_deaf [of s "s\<lparr>waiting := xs @ ys\<rparr>"] by (simp add: same_registration_def)
next
  case (pass d s)
  then show ?case using pass_good by (simp add: deaf_def)
qed (simp_all add: is_management_def)

text \<open>
  While a first registration is in process, one result from any other station
  leaves the device deaf: until \<^verbatim>\<open>register\<close> or \<^verbatim>\<open>unregister\<close> is called it stays "in process"
  whatever the management device answers, although it goes on asking. (The handle that marks a
  request as outstanding is dropped before the source of the result is looked at, and the
  repeated requests do not set it again.)
\<close>

theorem stray_result_blocks:
  assumes "fd_run (init_foreign server element) before s" "list_all label_ok before"
    and "bbmdRegistrationStatus s = -1" "lpduMessage l = Result c" "lpduSource l \<noteq> fdBbmdAddress s"
    and "fd_run (snd (foreign_confirmation l s)) after u"
    and "list_all (\<lambda>a. label_ok a \<and> \<not> is_management a) after"
  shows "bbmdRegistrationStatus u = -1 \<and> \<not> registration_event u"
proof -
  have good: "fd_good s" using run_good [OF assms(1,2) init_good] .
  have "\<not> accepts s l" using assms(5) by (simp add: accepts_def)
  then have "deaf (snd (foreign_confirmation l s))"
    using result_ignored [OF assms(4)] assms(3) good by (simp add: deaf_def fd_good_def fd_ok_def expiries_def)
  then have "deaf u"
    using fd_run_keeps [where I = deaf, OF assms(6) _ assms(7)] step_deaf by blast
  then show ?thesis by (simp add: deaf_def fd_good_def fd_ok_def)
qed

theorem stray_result_blocks_witness:
  "bbmdRegistrationStatus (snd (foreign_confirmation (example_result example_bbmd)
     (snd (foreign_confirmation (example_result local_broadcast) example_registering)))) = -1"
proof -
  let ?l = "example_result local_broadcast"
  let ?s = "snd (foreign_confirmation ?l example_registering)"
  have l: "lpduMessage ?l = Result 0" "lpduSource ?l \<noteq> fdBbmdAddress example_registering"
    by (simp_all add: example_result_def example_registering_state example_bbmd_def local_broadcast_def local_station_def)
  have "fd_run ?s [FdReceive (example_result example_bbmd)] (snd (foreign_confirmation (example_result example_bbmd) ?s))"
    by (intro fd_run_1 fd_step.receive)
  from stray_result_blocks [OF example_registering_run _ example_registering_state(4) l this]
  show ?thesis by (simp add: label_ok_def is_management_def example_result_def)
qed

lemma ack_fields:
  assumes "lpduMessage l = Result 0" "accepts s l" "fdBbmdTimeToLive s = Some ttl"
    and "t = snd (foreign_confirmation l s)"
  shows "registration_handle t = Some (next_handle s)"
    "registration_timeout_handle t = Some (Suc (next_handle s))" "reregistration_timeout_handle t = None"
    "fdBbmdTimeToLive t = Some ttl" "next_handle t = Suc (Suc (next_handle s))" "accepts t l"
    "bbmdRegistrationStatus t = 0"
    "(next_handle s, now s + ttl, StartRegistration) \<in> set (scheduled t)"
    "(h, due, f) \<in> set (scheduled s) \<Longrightarrow> Some h \<noteq> registration_timeout_handle s \<Longrightarrow>
      Some h \<noteq> reregistration_timeout_handle s \<Longrightarrow> (h, due, f) \<in> set (scheduled t)"
  using assms(2,3)
  by (simp_all add: assms(4) result_success [OF assms(1-3)] start_tracking_run accepts_def untracked_def tracked_def)

text \<open>
  When the success of the management device arrives twice, the second copy drops
  the handle of the renewal the first one scheduled without cancelling it. After
  \<^verbatim>\<open>unregister\<close> that renewal is still scheduled, and running it puts the device "in
  process" again and raises \<^verbatim>\<open>TypeError\<close>, since the time-to-live has been cleared.
\<close>

theorem duplicate_result_orphans:
  assumes "fd_run (init_foreign server element) before s" "list_all label_ok before"
    and "lpduMessage l = Result 0" "accepts s l" "fdBbmdTimeToLive s = Some ttl"
    and "t = snd (foreign_unregister (snd (foreign_confirmation l (snd (foreign_confirmation l s)))))"
  shows "bbmdRegistrationStatus t = -2 \<and> (next_handle s, now s + ttl, StartRegistration) \<in> set (scheduled t) \<and>
    (\<forall>u. popped t u (next_handle s, now s + ttl, StartRegistration) \<longrightarrow>
      fst (start_registration u) = Inl TypeError \<and> bbmdRegistrationStatus (snd (start_registration u)) = -1)"
proof -
  let ?s1 = "snd (foreign_confirmation l s)"
  let ?s2 = "snd (foreign_confirmation l ?s1)"
  let ?c = "(next_handle s, now s + ttl, StartRegistration)"
  note s1 = ack_fields [OF assms(3-5) refl]
  note s2 = ack_fields [OF assms(3) s1(6,4) refl]
  have "?c \<in> set (scheduled ?s2)" using s2(9) [OF s1(8)] s1(2,3) by simp
  then have "?c \<in> set (scheduled t)"
    using s1(5) s2(1-3,7) by (simp add: assms(6) unregister_run untracked_def tracked_def)
  moreover have t: "bbmdRegistrationStatus t = -2" "fdBbmdTimeToLive t = None"
    using s2(7) by (simp_all add: assms(6) unregister_run)
  moreover have "bbmdRegistrationStatus u = -2 \<and> fdBbmdTimeToLive u = None" if "popped t u ?c" for u
    using popped_fields [OF that] t by simp
  ultimately show ?thesis by (simp add: start_registration_unset)
qed

theorem duplicate_result_orphans_witness:
  "(2, 60, StartRegistration) \<in> set (scheduled (snd (foreign_unregister
     (snd (foreign_confirmation (example_result example_bbmd)
       (snd (foreign_confirmation (example_result example_bbmd) example_registering)))))))"
proof -
  have m: "lpduMessage (example_result example_bbmd) = Result 0" by (simp add: example_result_def)
  have "next_handle example_registering = 2"
    by (simp add: example_registering_def start_registration_run foreign_register_run init_foreign_def)
  then show ?thesis
    using duplicate_result_orphans [OF example_registering_run _ m example_accepts example_registering_state(1) refl]
      example_registering_state(2)
    by (simp add: label_ok_def)
qed

end
