(* ===== verification/Atoms.thy ===== *)
theory Atoms
  imports Primitives
begin

text \<open>
  The remaining atomic types of \<^verbatim>\<open>bacpypes3/primitivedata.py\<close>, Real, Double and
  CharacterString, and the union of all of them: an atomic class is an \<open>atom_type\<close>, its
  instances are \<open>atom\<close>s. A Real is the four octets of its IEEE value, a Double the eight: the
  conversion to Python's float is exact. A string is its list of code points; the four
  encodings are those of the Python codecs the source names, in strict mode.
\<close>

section \<open>Real and Double\<close>

definition tn_real :: int where "tn_real = 4"
definition tn_double :: int where "tn_double = 5"
definition tn_characterString :: int where "tn_characterString = 7"

text \<open>\<^verbatim>\<open>struct.pack\<close> and \<^verbatim>\<open>struct.unpack\<close>, which wants exactly the size of the format.\<close>

definition float_of_data :: "nat \<Rightarrow> byte list \<Rightarrow> byte list result" where
  "float_of_data n d =
     (if length d < n then Inl InvalidTag else if length d \<noteq> n then Inl StructError else Inr d)"

definition float_encode :: "int \<Rightarrow> int option \<Rightarrow> byte list \<Rightarrow> tag list result" where
  "float_encode tnum ctx x = Inr [atomic_tag ctx tnum x]"

definition float_decode :: "int \<Rightarrow> nat \<Rightarrow> int option \<Rightarrow> tag list \<Rightarrow> (byte list \<times> tag list) result" where
  "float_decode tnum n ctx ts =
     bindR (pop_tag ctx tnum ts) (\<lambda>(t, ts). bindR (float_of_data n (tag_data t)) (\<lambda>x. Inr (x, ts)))"

interpretation real: atomic_codec tn_real Inr "float_of_data 4" "\<lambda>x. length x = 4"
  "float_encode tn_real" "float_decode tn_real 4"
  by unfold_locales (simp_all add: tn_real_def tag_numbers float_encode_def float_decode_def float_of_data_def)

interpretation double: atomic_codec tn_double Inr "float_of_data 8" "\<lambda>x. length x = 8"
  "float_encode tn_double" "float_decode tn_double 8"
  by unfold_locales (simp_all add: tn_double_def tag_numbers float_encode_def float_decode_def float_of_data_def)

section \<open>Text\<close>

type_synonym chars = "int list"

definition surrogate :: "int \<Rightarrow> bool" where
  "surrogate c \<longleftrightarrow> 0xD800 \<le> c \<and> c < 0xE000"

definition code_point :: "int \<Rightarrow> bool" where
  "code_point c \<longleftrightarrow> 0 \<le> c \<and> c < 0x110000 \<and> \<not> surrogate c"

text \<open>
  A text codec by code points: the octets of one, and reading one from octets that are not
  empty. Decoding repeats it until nothing is left.
\<close>

fun text_encode_points :: "(int \<Rightarrow> byte list option) \<Rightarrow> chars \<Rightarrow> byte list option" where
  "text_encode_points put [] = Some []"
| "text_encode_points put (c # cs) =
     (case put c of None \<Rightarrow> None | Some d \<Rightarrow> map_option ((@) d) (text_encode_points put cs))"

fun text_decode_rounds :: "nat \<Rightarrow> (byte list \<Rightarrow> (int \<times> byte list) option) \<Rightarrow> byte list \<Rightarrow> chars option" where
  "text_decode_rounds 0 get s = (if s = [] then Some [] else None)"
| "text_decode_rounds (Suc k) get s =
     (if s = [] then Some []
      else (case get s of None \<Rightarrow> None | Some (c, s) \<Rightarrow> map_option (Cons c) (text_decode_rounds k get s)))"

definition text_decode_points :: "(byte list \<Rightarrow> (int \<times> byte list) option) \<Rightarrow> byte list \<Rightarrow> chars option" where
  "text_decode_points get s = text_decode_rounds (length s) get s"

locale text_codec =
  fixes put :: "int \<Rightarrow> byte list option"
    and get :: "byte list \<Rightarrow> (int \<times> byte list) option"
    and ok :: "int \<Rightarrow> bool"
  assumes put_get: "ok c \<Longrightarrow> \<exists>d. put c = Some d \<and> d \<noteq> [] \<and> (\<forall>s. get (d @ s) = Some (c, s))"
begin

lemma rounds: "\<forall>c\<in>set cs. ok c \<Longrightarrow>
  \<exists>d. text_encode_points put cs = Some d \<and> (\<forall>k\<ge>length d. text_decode_rounds k get d = Some cs)"
proof (induction cs)
  case Nil
  have "text_decode_rounds k get [] = Some []" for k by (cases k) simp_all
  then show ?case by simp
next
  case (Cons c cs)
  then obtain d e where d: "put c = Some d" "d \<noteq> []" "\<forall>s. get (d @ s) = Some (c, s)"
    and e: "text_encode_points put cs = Some e" "\<forall>k\<ge>length e. text_decode_rounds k get e = Some cs"
    using put_get [of c] by auto
  have "text_decode_rounds k get (d @ e) = Some (c # cs)" if k: "length (d @ e) \<le> k" for k
  proof -
    obtain j where j: "k = Suc j" "length e \<le> j" using k d(2) by (cases k; cases d) auto
    then show ?thesis using d e j by simp
  qed
  then show ?case using d e by simp
qed

lemma text_roundtrip:
  assumes "\<forall>c\<in>set cs. ok c"
  shows "\<exists>d. text_encode_points put cs = Some d \<and> text_decode_points get d = Some cs"
  using rounds [OF assms] by (auto simp: text_decode_points_def)

end

definition octet :: "int \<Rightarrow> byte" where
  "octet n = word_of_int n"

lemma uint_octet: "0 \<le> n \<Longrightarrow> n < 256 \<Longrightarrow> uint (octet n) = n"
  by (simp add: octet_def)

subsection \<open>UTF-8\<close>

definition utf8_put :: "int \<Rightarrow> byte list option" where
  "utf8_put c =
     (if \<not> code_point c then None
      else if c < 0x80 then Some [octet c]
      else if c < 0x800 then Some [octet (0xC0 + c div 64), octet (0x80 + c mod 64)]
      else if c < 0x10000 then
        Some [octet (0xE0 + c div 4096), octet (0x80 + c div 64 mod 64), octet (0x80 + c mod 64)]
      else
        Some [octet (0xF0 + c div 262144), octet (0x80 + c div 4096 mod 64),
          octet (0x80 + c div 64 mod 64), octet (0x80 + c mod 64)])"

definition continuation :: "byte \<Rightarrow> int option" where
  "continuation b = (if 0x80 \<le> uint b \<and> uint b < 0xC0 then Some (uint b - 0x80) else None)"

fun utf8_tail :: "nat \<Rightarrow> int \<Rightarrow> byte list \<Rightarrow> (int \<times> byte list) option" where
  "utf8_tail 0 c s = Some (c, s)"
| "utf8_tail (Suc k) c s =
     (case s of [] \<Rightarrow> None
      | b # s \<Rightarrow> (case continuation b of None \<Rightarrow> None | Some x \<Rightarrow> utf8_tail k (c * 64 + x) s))"

definition utf8_checked :: "int \<Rightarrow> (int \<times> byte list) option \<Rightarrow> (int \<times> byte list) option" where
  "utf8_checked lowest r =
     (case r of None \<Rightarrow> None | Some (c, s) \<Rightarrow> if lowest \<le> c \<and> code_point c then Some (c, s) else None)"

definition utf8_get :: "byte list \<Rightarrow> (int \<times> byte list) option" where
  "utf8_get bs =
     (case bs of [] \<Rightarrow> None
      | b # s \<Rightarrow>
          let n = uint b in
          if n < 0x80 then Some (n, s)
          else if 0xC0 \<le> n \<and> n < 0xE0 then utf8_checked 0x80 (utf8_tail 1 (n - 0xC0) s)
          else if 0xE0 \<le> n \<and> n < 0xF0 then utf8_checked 0x800 (utf8_tail 2 (n - 0xE0) s)
          else if 0xF0 \<le> n \<and> n < 0xF8 then utf8_checked 0x10000 (utf8_tail 3 (n - 0xF0) s)
          else None)"

lemma utf8_tail_octet:
  "0 \<le> x \<Longrightarrow> x < 64 \<Longrightarrow> utf8_tail (Suc k) c (octet (128 + x) # s) = utf8_tail k (c * 64 + x) s"
  by (simp add: continuation_def uint_octet)

lemma sextet: "0 \<le> x mod 64" "x mod 64 < (64 :: int)"
  by simp_all

lemma utf8_tails:
  "utf8_tail 1 n (octet (128 + x mod 64) # s) = Some (n * 64 + x mod 64, s)"
  "utf8_tail 2 n (octet (128 + y mod 64) # octet (128 + x mod 64) # s) =
     Some ((n * 64 + y mod 64) * 64 + x mod 64, s)"
  "utf8_tail 3 n (octet (128 + z mod 64) # octet (128 + y mod 64) # octet (128 + x mod 64) # s) =
     Some (((n * 64 + z mod 64) * 64 + y mod 64) * 64 + x mod 64, s)"
  unfolding numeral_3_eq_3 numeral_2_eq_2 One_nat_def utf8_tail_octet [OF sextet] utf8_tail.simps(1)
  by (rule refl)+

lemma sextets:
  fixes c :: int
  shows "c div 64 * 64 + c mod 64 = c" "(c div 4096 * 64 + c div 64 mod 64) * 64 + c mod 64 = c"
    "((c div 262144 * 64 + c div 4096 mod 64) * 64 + c div 64 mod 64) * 64 + c mod 64 = c"
proof -
  have "c div 4096 = c div 64 div 64" "c div 262144 = c div 4096 div 64"
    using zdiv_zmult2_eq [of 64 c 64] zdiv_zmult2_eq [of 64 c 4096] by simp_all
  then show "c div 64 * 64 + c mod 64 = c" "(c div 4096 * 64 + c div 64 mod 64) * 64 + c mod 64 = c"
    "((c div 262144 * 64 + c div 4096 mod 64) * 64 + c div 64 mod 64) * 64 + c mod 64 = c"
    using div_mult_mod_eq by metis+
qed

lemma utf8_tail_point:
  "utf8_tail 1 (c div 64) (octet (128 + c mod 64) # s) = Some (c, s)"
  "utf8_tail 2 (c div 4096) (octet (128 + c div 64 mod 64) # octet (128 + c mod 64) # s) = Some (c, s)"
  "utf8_tail 3 (c div 262144) (octet (128 + c div 4096 mod 64) # octet (128 + c div 64 mod 64) #
     octet (128 + c mod 64) # s) = Some (c, s)"
  unfolding utf8_tails sextets by (rule refl)+

lemma utf8_get_Cons:
  "0 \<le> n \<Longrightarrow> n < 256 \<Longrightarrow> utf8_get (octet n # s) =
     (if n < 128 then Some (n, s)
      else if 192 \<le> n \<and> n < 224 then utf8_checked 128 (utf8_tail 1 (n - 192) s)
      else if 224 \<le> n \<and> n < 240 then utf8_checked 2048 (utf8_tail 2 (n - 224) s)
      else if 240 \<le> n \<and> n < 248 then utf8_checked 65536 (utf8_tail 3 (n - 240) s)
      else None)"
  by (simp add: utf8_get_def uint_octet)

interpretation utf8: text_codec utf8_put utf8_get code_point
proof
  fix c assume ok: "code_point c"
  then have range: "0 \<le> c" "c < 0x110000" by (simp_all add: code_point_def)
  consider "c < 128" | "128 \<le> c" "c < 2048" | "2048 \<le> c" "c < 65536" | "65536 \<le> c" by linarith
  then show "\<exists>d. utf8_put c = Some d \<and> d \<noteq> [] \<and> (\<forall>s. utf8_get (d @ s) = Some (c, s))"
  proof cases
    case 1
    then show ?thesis using ok range by (simp add: utf8_put_def utf8_get_Cons)
  next
    case 2
    then have "0 \<le> c div 64" "c div 64 < 32" by simp_all
    then have "utf8_get (octet (192 + c div 64) # octet (128 + c mod 64) # s) = Some (c, s)" for s
      using ok 2 by (simp add: utf8_get_Cons utf8_tail_point utf8_checked_def del: One_nat_def utf8_tail.simps)
    then show ?thesis using ok 2 by (simp add: utf8_put_def)
  next
    case 3
    then have "0 \<le> c div 4096" "c div 4096 < 16" by simp_all
    then have "utf8_get (octet (224 + c div 4096) # octet (128 + c div 64 mod 64) # octet (128 + c mod 64) # s) =
        Some (c, s)" for s
      using ok 3 by (simp add: utf8_get_Cons utf8_tail_point utf8_checked_def del: One_nat_def utf8_tail.simps)
    then show ?thesis using ok 3 by (simp add: utf8_put_def)
  next
    case 4
    then have "0 \<le> c div 262144" "c div 262144 < 8" using range by simp_all
    then have "utf8_get (octet (240 + c div 262144) # octet (128 + c div 4096 mod 64) #
        octet (128 + c div 64 mod 64) # octet (128 + c mod 64) # s) = Some (c, s)" for s
      using ok 4 by (simp add: utf8_get_Cons utf8_tail_point utf8_checked_def del: One_nat_def utf8_tail.simps)
    then show ?thesis using ok 4 by (simp add: utf8_put_def)
  qed
qed

subsection \<open>UTF-16, UTF-32 and Latin-1\<close>

definition utf32_put :: "int \<Rightarrow> byte list option" where
  "utf32_put c = (if code_point c then Some (be_bytes 4 c) else None)"

definition utf32_get :: "byte list \<Rightarrow> (int \<times> byte list) option" where
  "utf32_get s =
     (if length s < 4 then None
      else let c = be_int (take 4 s) in if code_point c then Some (c, drop 4 s) else None)"

interpretation utf32: text_codec utf32_put utf32_get code_point
  by unfold_locales (auto simp: utf32_put_def utf32_get_def be_int_be_bytes code_point_def)

text \<open>The points above 65535 are a pair of surrogates.\<close>

definition utf16_put :: "int \<Rightarrow> byte list option" where
  "utf16_put c =
     (if \<not> code_point c then None
      else if c < 0x10000 then Some (be_bytes 2 c)
      else Some (be_bytes 2 (0xD800 + (c - 0x10000) div 0x400) @ be_bytes 2 (0xDC00 + (c - 0x10000) mod 0x400)))"

definition utf16_get :: "byte list \<Rightarrow> (int \<times> byte list) option" where
  "utf16_get s =
     (if length s < 2 then None
      else
        let u = be_int (take 2 s); s = drop 2 s in
        if \<not> surrogate u then Some (u, s)
        else if 0xDC00 \<le> u \<or> length s < 2 then None
        else
          let v = be_int (take 2 s) in
          if 0xDC00 \<le> v \<and> v < 0xE000 then Some (0x10000 + (u - 0xD800) * 0x400 + (v - 0xDC00), drop 2 s)
          else None)"

lemma utf16_pair:
  fixes h l :: int
  assumes "0 \<le> h" "h < 0x400" "0 \<le> l" "l < 0x400"
  shows "utf16_get (be_bytes 2 (0xD800 + h) @ be_bytes 2 (0xDC00 + l) @ s) = Some (0x10000 + h * 0x400 + l, s)"
  using assms by (simp add: utf16_get_def be_int_be_bytes surrogate_def Let_def)

interpretation utf16: text_codec utf16_put utf16_get code_point
proof
  fix c assume ok: "code_point c"
  show "\<exists>d. utf16_put c = Some d \<and> d \<noteq> [] \<and> (\<forall>s. utf16_get (d @ s) = Some (c, s))"
  proof (cases "c < 0x10000")
    case True
    then show ?thesis using ok by (simp add: utf16_put_def utf16_get_def be_int_be_bytes code_point_def)
  next
    case False
    let ?h = "(c - 0x10000) div 0x400" and ?l = "(c - 0x10000) mod 0x400"
    have "c - 0x10000 < 0x400 * 0x400" using ok by (simp add: code_point_def)
    then have "?h < 0x400" by (simp only: div_less_iff_less_mult mult.commute)
    moreover have "0 \<le> ?h" "0 \<le> ?l" "?l < 0x400" using False by simp_all
    moreover have c: "0x10000 + ?h * 0x400 + ?l = c"
      using div_mult_mod_eq [of "c - 0x10000" "0x400"] by linarith
    ultimately have "utf16_get (be_bytes 2 (0xD800 + ?h) @ be_bytes 2 (0xDC00 + ?l) @ s) = Some (c, s)" for s
      by (subst utf16_pair) (simp_all only: c)
    moreover have "be_bytes 2 (0xD800 + ?h) \<noteq> []" by (simp flip: length_greater_0_conv)
    ultimately show ?thesis using ok False unfolding utf16_put_def by auto
  qed
qed

definition latin1_put :: "int \<Rightarrow> byte list option" where
  "latin1_put c = (if 0 \<le> c \<and> c < 256 then Some [octet c] else None)"

fun latin1_get :: "byte list \<Rightarrow> (int \<times> byte list) option" where
  "latin1_get [] = None"
| "latin1_get (b # s) = Some (uint b, s)"

interpretation latin1: text_codec latin1_put latin1_get "\<lambda>c. 0 \<le> c \<and> c < 256"
  by unfold_locales (simp add: latin1_put_def uint_octet)

subsection \<open>CharacterString\<close>

definition text_put :: "int \<Rightarrow> int \<Rightarrow> byte list option" where
  "text_put enc = (if enc = 0 then utf8_put else if enc = 3 then utf32_put
     else if enc = 4 then utf16_put else latin1_put)"

definition text_ok :: "int \<Rightarrow> chars \<Rightarrow> bool" where
  "text_ok enc cs \<longleftrightarrow> enc \<in> {0, 3, 4, 5} \<and>
     (\<forall>c\<in>set cs. if enc = 5 then 0 \<le> c \<and> c < 256 else code_point c) \<and>
     (\<forall>d. text_encode_points (text_put enc) cs = Some d \<longrightarrow> Suc (length d) < 4294967296)"

text \<open>\<^verbatim>\<open>UnicodeEncodeError\<close> and \<^verbatim>\<open>UnicodeDecodeError\<close> are \<^verbatim>\<open>ValueError\<close>s.\<close>

definition string_to_data :: "int \<Rightarrow> chars \<Rightarrow> byte list result" where
  "string_to_data enc cs =
     (if enc \<notin> {0, 3, 4, 5} then Inl ValueError
      else bindR (need ValueError (text_encode_points (text_put enc) cs)) (\<lambda>d. Inr (octet enc # d)))"

definition text_of_data :: "int \<Rightarrow> byte list \<Rightarrow> chars option" where
  "text_of_data enc d =
     (if enc = 0 then
        (case text_decode_points utf8_get d of
           None \<Rightarrow> text_decode_points latin1_get d
         | Some cs \<Rightarrow> Some cs)
      else if enc = 3 then text_decode_points utf32_get d
      else if enc = 4 then text_decode_points utf16_get d
      else text_decode_points latin1_get d)"

definition string_of_data :: "byte list \<Rightarrow> chars result" where
  "string_of_data bs =
     (case bs of
        [] \<Rightarrow> Inl InvalidTag
      | b # d \<Rightarrow>
          let enc = (if uint b \<in> {0, 3, 4, 5} then uint b else 0) in
          need ValueError (text_of_data enc d))"

definition string_encode :: "int \<Rightarrow> int option \<Rightarrow> chars \<Rightarrow> tag list result" where
  "string_encode enc ctx x = bindR (string_to_data enc x) (\<lambda>d. Inr [atomic_tag ctx tn_characterString d])"

definition string_decode :: "int option \<Rightarrow> tag list \<Rightarrow> (chars \<times> tag list) result" where
  "string_decode ctx ts =
     bindR (pop_tag ctx tn_characterString ts) (\<lambda>(t, ts).
     bindR (string_of_data (tag_data t)) (\<lambda>x. Inr (x, ts)))"

lemma string_data_roundtrip:
  assumes "text_ok enc cs"
  shows "\<exists>d. string_to_data enc cs = Inr d \<and> string_of_data d = Inr cs \<and> length d < 4294967296"
proof -
  have "\<exists>d. text_encode_points (text_put enc) cs = Some d \<and> text_of_data enc d = Some cs"
    using assms utf8.text_roundtrip [of cs] utf32.text_roundtrip [of cs] utf16.text_roundtrip [of cs]
      latin1.text_roundtrip [of cs]
    by (auto simp: text_ok_def text_put_def text_of_data_def)
  then show ?thesis using assms by (auto simp: string_to_data_def string_of_data_def text_ok_def uint_octet)
qed

interpretation character_string: atomic_codec tn_characterString "string_to_data enc" string_of_data
    "text_ok enc" "string_encode enc" string_decode for enc
  by unfold_locales
    (simp_all add: tn_characterString_def tag_numbers string_encode_def string_decode_def string_data_roundtrip)

section \<open>Atomic classes and their instances\<close>

text \<open>
  A class with the attributes its methods read: limits, lengths, the encoding of a string, the
  number of names of a bit string. \<open>TOctets\<close> are the octet strings whose \<^verbatim>\<open>cast\<close> allows certain
  lengths only.
\<close>

datatype atom_type =
    TNull
  | TBoolean
  | TUnsigned "int option" "int option"
  | TInteger "int option" "int option"
  | TReal
  | TDouble
  | TOctetString "nat option" "nat option"
  | TOctets "nat list"
  | TCharacterString int
  | TBitString nat
  | TEnumerated "int option" "int option"
  | TDate
  | TTime
  | TObjectIdentifier

datatype atom =
    ANull
  | ABoolean bool
  | AUnsigned int
  | AInteger int
  | AReal "byte list"
  | ADouble "byte list"
  | AOctetString "byte list"
  | ACharacterString chars
  | ABitString "int list"
  | AEnumerated int
  | ADate quad
  | ATime quad
  | AObjectIdentifier "int \<times> int"

definition octets_of_data :: "nat list \<Rightarrow> byte list \<Rightarrow> byte list result" where
  "octets_of_data lens d = (if length d \<in> set lens then Inr d else Inl ValueError)"

definition octets_decode :: "nat list \<Rightarrow> int option \<Rightarrow> tag list \<Rightarrow> (byte list \<times> tag list) result" where
  "octets_decode lens ctx ts =
     bindR (pop_tag ctx tn_octetString ts) (\<lambda>(t, ts).
     bindR (octets_of_data lens (tag_data t)) (\<lambda>x. Inr (x, ts)))"

interpretation octets: atomic_codec tn_octetString Inr "octets_of_data lens"
    "\<lambda>x. length x \<in> set lens \<and> length x < 4294967296" octet_string_encode "octets_decode lens" for lens
  by unfold_locales (simp_all add: tag_numbers octet_string_encode_def octets_decode_def octets_of_data_def)

text \<open>The class is the position in \<^verbatim>\<open>Tag._app_tag_class\<close>; Double is a subclass of Real.\<close>

fun app_tag :: "atom_type \<Rightarrow> int" where
  "app_tag TNull = 0"
| "app_tag TBoolean = 1"
| "app_tag (TUnsigned _ _) = 2"
| "app_tag (TInteger _ _) = 3"
| "app_tag TReal = 4"
| "app_tag TDouble = 5"
| "app_tag (TOctetString _ _) = 6"
| "app_tag (TOctets _) = 6"
| "app_tag (TCharacterString _) = 7"
| "app_tag (TBitString _) = 8"
| "app_tag (TEnumerated _ _) = 9"
| "app_tag TDate = 10"
| "app_tag TTime = 11"
| "app_tag TObjectIdentifier = 12"

definition atom_encode :: "atom_type \<Rightarrow> int option \<Rightarrow> atom \<Rightarrow> tag list result" where
  "atom_encode ty ctx a =
     (case ty of
        TNull \<Rightarrow> (case a of ANull \<Rightarrow> null_encode ctx () | _ \<Rightarrow> Inl TypeError)
      | TBoolean \<Rightarrow> (case a of ABoolean b \<Rightarrow> boolean_encode ctx b | _ \<Rightarrow> Inl TypeError)
      | TUnsigned _ _ \<Rightarrow> (case a of AUnsigned n \<Rightarrow> unsigned_encode ctx n | _ \<Rightarrow> Inl TypeError)
      | TInteger _ _ \<Rightarrow> (case a of AInteger n \<Rightarrow> integer_encode ctx n | _ \<Rightarrow> Inl TypeError)
      | TReal \<Rightarrow> (case a of AReal x \<Rightarrow> float_encode tn_real ctx x | _ \<Rightarrow> Inl TypeError)
      | TDouble \<Rightarrow> (case a of ADouble x \<Rightarrow> float_encode tn_double ctx x | _ \<Rightarrow> Inl TypeError)
      | TOctetString _ _ \<Rightarrow> (case a of AOctetString x \<Rightarrow> octet_string_encode ctx x | _ \<Rightarrow> Inl TypeError)
      | TOctets _ \<Rightarrow> (case a of AOctetString x \<Rightarrow> octet_string_encode ctx x | _ \<Rightarrow> Inl TypeError)
      | TCharacterString enc \<Rightarrow> (case a of ACharacterString x \<Rightarrow> string_encode enc ctx x | _ \<Rightarrow> Inl TypeError)
      | TBitString _ \<Rightarrow> (case a of ABitString x \<Rightarrow> bitstring_encode ctx x | _ \<Rightarrow> Inl TypeError)
      | TEnumerated _ _ \<Rightarrow> (case a of AEnumerated n \<Rightarrow> enumerated_encode ctx n | _ \<Rightarrow> Inl TypeError)
      | TDate \<Rightarrow> (case a of ADate q \<Rightarrow> date_encode ctx q | _ \<Rightarrow> Inl TypeError)
      | TTime \<Rightarrow> (case a of ATime q \<Rightarrow> time_encode ctx q | _ \<Rightarrow> Inl TypeError)
      | TObjectIdentifier \<Rightarrow> (case a of AObjectIdentifier x \<Rightarrow> object_identifier_encode ctx x | _ \<Rightarrow> Inl TypeError))"

definition as_atom :: "('a \<Rightarrow> atom) \<Rightarrow> ('a \<times> tag list) result \<Rightarrow> (atom \<times> tag list) result" where
  "as_atom f r = bindR r (\<lambda>(x, ts). Inr (f x, ts))"

fun atom_decode :: "atom_type \<Rightarrow> int option \<Rightarrow> tag list \<Rightarrow> (atom \<times> tag list) result" where
  "atom_decode TNull ctx ts = as_atom (\<lambda>_. ANull) (null_decode ctx ts)"
| "atom_decode TBoolean ctx ts = as_atom ABoolean (boolean_decode ctx ts)"
| "atom_decode (TUnsigned lo hi) ctx ts = as_atom AUnsigned (unsigned_decode lo hi ctx ts)"
| "atom_decode (TInteger lo hi) ctx ts = as_atom AInteger (integer_decode lo hi ctx ts)"
| "atom_decode TReal ctx ts = as_atom AReal (float_decode tn_real 4 ctx ts)"
| "atom_decode TDouble ctx ts = as_atom ADouble (float_decode tn_double 8 ctx ts)"
| "atom_decode (TOctetString mn mx) ctx ts = as_atom AOctetString (octet_string_decode mn mx ctx ts)"
| "atom_decode (TOctets lens) ctx ts = as_atom AOctetString (octets_decode lens ctx ts)"
| "atom_decode (TCharacterString _) ctx ts = as_atom ACharacterString (string_decode ctx ts)"
| "atom_decode (TBitString n) ctx ts = as_atom ABitString (bitstring_decode n ctx ts)"
| "atom_decode (TEnumerated lo hi) ctx ts = as_atom AEnumerated (enumerated_decode lo hi ctx ts)"
| "atom_decode TDate ctx ts = as_atom ADate (date_decode ctx ts)"
| "atom_decode TTime ctx ts = as_atom ATime (time_decode ctx ts)"
| "atom_decode TObjectIdentifier ctx ts = as_atom AObjectIdentifier (object_identifier_decode ctx ts)"

text \<open>The values of a class.\<close>

definition atom_ok :: "atom_type \<Rightarrow> atom \<Rightarrow> bool" where
  "atom_ok ty a =
     (case ty of
        TNull \<Rightarrow> (case a of ANull \<Rightarrow> True | _ \<Rightarrow> False)
      | TBoolean \<Rightarrow> (case a of ABoolean b \<Rightarrow> True | _ \<Rightarrow> False)
      | TUnsigned lo hi \<Rightarrow> (case a of AUnsigned n \<Rightarrow> unsigned_ok lo hi n | _ \<Rightarrow> False)
      | TInteger lo hi \<Rightarrow> (case a of AInteger n \<Rightarrow> integer_ok lo hi n | _ \<Rightarrow> False)
      | TReal \<Rightarrow> (case a of AReal x \<Rightarrow> length x = 4 | _ \<Rightarrow> False)
      | TDouble \<Rightarrow> (case a of ADouble x \<Rightarrow> length x = 8 | _ \<Rightarrow> False)
      | TOctetString mn mx \<Rightarrow> (case a of AOctetString x \<Rightarrow> octet_string_ok mn mx x | _ \<Rightarrow> False)
      | TOctets lens \<Rightarrow> (case a of AOctetString x \<Rightarrow> length x \<in> set lens \<and> length x < 4294967296 | _ \<Rightarrow> False)
      | TCharacterString enc \<Rightarrow> (case a of ACharacterString x \<Rightarrow> text_ok enc x | _ \<Rightarrow> False)
      | TBitString m \<Rightarrow> (case a of ABitString x \<Rightarrow> bitstring_ok m x | _ \<Rightarrow> False)
      | TEnumerated lo hi \<Rightarrow> (case a of AEnumerated n \<Rightarrow> enumerated_ok lo hi n | _ \<Rightarrow> False)
      | TDate \<Rightarrow> (case a of ADate q \<Rightarrow> quad_ok q | _ \<Rightarrow> False)
      | TTime \<Rightarrow> (case a of ATime q \<Rightarrow> quad_ok q | _ \<Rightarrow> False)
      | TObjectIdentifier \<Rightarrow> (case a of AObjectIdentifier x \<Rightarrow> object_identifier_ok x | _ \<Rightarrow> False))"

lemmas atom_roundtrips =
  null.element_roundtrip boolean.element_roundtrip unsigned.element_roundtrip integer.element_roundtrip
  real.element_roundtrip double.element_roundtrip octet_string.element_roundtrip octets.element_roundtrip
  character_string.element_roundtrip bitstring.element_roundtrip enumerated.element_roundtrip
  date.element_roundtrip time.element_roundtrip object_identifier.element_roundtrip

lemmas atom_wfs =
  null.element_wf boolean.element_wf unsigned.element_wf integer.element_wf
  real.element_wf double.element_wf octet_string.element_wf octets.element_wf
  character_string.element_wf bitstring.element_wf enumerated.element_wf
  date.element_wf time.element_wf object_identifier.element_wf

lemmas atom_contexts =
  null.element_context boolean.element_context unsigned.element_context integer.element_context
  real.element_context double.element_context octet_string.element_context octets.element_context
  character_string.element_context bitstring.element_context enumerated.element_context
  date.element_context time.element_context object_identifier.element_context

lemma as_atom_Inr: "as_atom f r = Inr (y, ts) \<longleftrightarrow> (\<exists>x. r = Inr (x, ts) \<and> f x = y)"
  by (auto simp: as_atom_def bindR_eq_Inr_iff)

lemma as_atom_Inl [simp]: "as_atom f (Inl e) = Inl e" "as_atom f (Inr (x, ts)) = Inr (f x, ts)"
  by (simp_all add: as_atom_def)

lemma as_atom_Inl_iff: "as_atom f r = Inl e \<longleftrightarrow> r = Inl e"
  by (cases r) auto

lemma atom_roundtrip:
  "atom_ok ty x \<Longrightarrow> \<exists>ts. atom_encode ty ctx x = Inr ts \<and> (\<forall>rest. atom_decode ty ctx (ts @ rest) = Inr (x, rest))"
  by (cases ty; cases x; simp add: atom_ok_def)
    (use atom_roundtrips in \<open>simp_all add: atom_encode_def as_atom_Inr del: split_paired_Ex\<close>)

lemma atom_wf:
  assumes "atom_ok ty x" "\<forall>c\<in>set_option ctx. 0 \<le> c \<and> c \<le> 255" "atom_encode ty ctx x = Inr ts"
  shows "\<forall>t\<in>set ts. wf_tag t"
  using assms(1,3) atom_wfs [OF _ assms(2)] by (cases ty; cases x) (simp_all add: atom_ok_def atom_encode_def)

lemma atom_other_context:
  assumes "atom_ok ty x" "atom_encode ty ctx x = Inr ts" "ctx' \<noteq> ctx"
  shows "atom_decode ty ctx' (ts @ rest) = Inl InvalidTag"
  using assms(1,2)
  by (cases ty; cases x)
    (simp_all add: atom_ok_def atom_encode_def as_atom_Inl_iff,
      (rule atom_contexts [OF _ _ assms(3)], (assumption | rule TrueI)+)+)

interpretation atom: element_codec "atom_encode ty" "atom_decode ty" "atom_ok ty" for ty
  by unfold_locales (erule atom_roundtrip, erule (2) atom_wf, erule (2) atom_other_context)

end
