(* ===== verification/Constructed.thy ===== *)
theory Constructed
  imports Atoms Action
begin

text \<open>
  The constructed types of \<^verbatim>\<open>bacpypes3/constructeddata.py\<close>: Sequence, Choice,
  SequenceOf, ListOf, ArrayOf, Any and AnyAtomic, and NameValue of
  \<^verbatim>\<open>bacpypes3/basetypes.py\<close>, which has methods of its own. A class is a value of the type
  \<open>elem\<close>, its instances are \<open>val\<close>s. Decoders consume the tag list they are given and may
  raise after they consumed some of it, so they are actions on it.
\<close>

section \<open>Classes and their instances\<close>

text \<open>
  The attributes \<open>_context\<close> and \<open>_optional\<close> of a class and what it is made of. The elements of a
  sequence or choice are in the order of \<open>_order\<close> or \<open>_elements\<close>; \<open>_length\<close> is that of an array.
  ListOf and SequenceOf have the same methods.
\<close>

datatype elem = Elem (context_of: "int option") (is_optional: bool) (shape_of: shape)
and shape =
    Atomic atom_type
  | Sequence "(string \<times> elem) list"
  | Choice "(string \<times> elem) list"
  | SequenceOf elem
  | ArrayOf "nat option" elem
  | Any
  | AnyAtomic
  | NameValue

text \<open>An element of a sequence is absent or has a value.\<close>

datatype val =
    VAtom atom
  | VSequence "val option list"
  | VChoice string val
  | VList "val list"
  | VTags "tag list"
  | VNameValue chars "tag list option"

type_synonym fields = "(string \<times> elem) list"
type_synonym decoder = "(tag list, val) action"

abbreviation plain :: "shape \<Rightarrow> elem" where "plain s \<equiv> Elem None False s"
abbreviation plain_opt :: "shape \<Rightarrow> elem" where "plain_opt s \<equiv> Elem None True s"
abbreviation ctx :: "int \<Rightarrow> shape \<Rightarrow> elem" where "ctx n s \<equiv> Elem (Some n) False s"
abbreviation ctx_opt :: "int \<Rightarrow> shape \<Rightarrow> elem" where "ctx_opt n s \<equiv> Elem (Some n) True s"

definition is_choice :: "elem \<Rightarrow> bool" where
  "is_choice e = (case shape_of e of Choice _ \<Rightarrow> True | _ \<Rightarrow> False)"

definition is_list :: "elem \<Rightarrow> bool" where
  "is_list e = (case shape_of e of SequenceOf _ \<Rightarrow> True | ArrayOf _ _ \<Rightarrow> True | _ \<Rightarrow> False)"

section \<open>Encoding\<close>

definition bracket :: "int option \<Rightarrow> tag list \<Rightarrow> tag list" where
  "bracket c ts = (case c of None \<Rightarrow> ts | Some n \<Rightarrow> opening_tag n # ts @ [closing_tag n])"

definition encode_list :: "(val \<Rightarrow> tag list result) \<Rightarrow> val list \<Rightarrow> tag list result" where
  "encode_list enc vs = foldr (\<lambda>v r. bindR (enc v) (\<lambda>ts. bindR r (\<lambda>us. Inr (ts @ us)))) vs (Inr [])"

text \<open>\<open>TypeError\<close> is a value of another class, which \<^verbatim>\<open>cast\<close> refuses when it is set.\<close>

fun encode :: "elem \<Rightarrow> val \<Rightarrow> tag list result"
and encode_fields :: "fields \<Rightarrow> val option list \<Rightarrow> tag list result"
and encode_choice :: "fields \<Rightarrow> string \<Rightarrow> val \<Rightarrow> tag list result" where
  "encode (Elem c opt (Atomic ty)) v =
     (case v of VAtom a \<Rightarrow> atom_encode ty c a | _ \<Rightarrow> Inl TypeError)"
| "encode (Elem c opt (Sequence fs)) v =
     (case v of
        VSequence vs \<Rightarrow> bindR (encode_fields fs vs) (\<lambda>ts. Inr (bracket c ts))
      | _ \<Rightarrow> Inl TypeError)"
| "encode (Elem c opt (Choice fs)) v =
     (case v of
        VChoice n x \<Rightarrow> bindR (encode_choice fs n x) (\<lambda>ts. Inr (bracket c ts))
      | _ \<Rightarrow> Inl TypeError)"
| "encode (Elem c opt (SequenceOf e)) v =
     (case v of
        VList vs \<Rightarrow> bindR (encode_list (encode e) vs) (\<lambda>ts. Inr (bracket c ts))
      | _ \<Rightarrow> Inl TypeError)"
| "encode (Elem c opt (ArrayOf k e)) v =
     (case v of
        VList vs \<Rightarrow> bindR (encode_list (encode e) vs) (\<lambda>ts. Inr (bracket c ts))
      | _ \<Rightarrow> Inl TypeError)"
| "encode (Elem c opt Any) v = (case v of VTags ts \<Rightarrow> Inr ts | _ \<Rightarrow> Inl TypeError)"
| "encode (Elem c opt AnyAtomic) v = (case v of VTags ts \<Rightarrow> Inr ts | _ \<Rightarrow> Inl TypeError)"
| "encode (Elem c opt NameValue) v =
     (case v of
        VNameValue n x \<Rightarrow>
          bindR (string_encode 0 (Some 0) n) (\<lambda>ts. Inr (ts @ (case x of None \<Rightarrow> [] | Some us \<Rightarrow> us)))
      | _ \<Rightarrow> Inl TypeError)"
| "encode_fields [] vs = Inr []"
| "encode_fields ((n, e) # fs) vs =
     (case vs of
        [] \<Rightarrow> Inl TypeError
      | None # vs \<Rightarrow> if is_optional e then encode_fields fs vs else Inl AttributeError
      | Some v # vs \<Rightarrow> bindR (encode e v) (\<lambda>ts. bindR (encode_fields fs vs) (\<lambda>us. Inr (ts @ us))))"
| "encode_choice [] n v = Inl AttributeError"
| "encode_choice ((m, e) # fs) n v = (if m = n then encode e v else encode_choice fs n v)"

section \<open>Decoding\<close>

subsection \<open>Parts\<close>

text \<open>The opening and the closing tag of an element with a context.\<close>

definition open_context :: "int option \<Rightarrow> (tag list, unit) action" where
  "open_context c ts =
     (case c of
        None \<Rightarrow> (Inr (), ts)
      | Some n \<Rightarrow>
          (case tag_list_peek ts of
             None \<Rightarrow> (Inl InvalidTag, ts)
           | Some t \<Rightarrow>
               if tag_class t \<noteq> Opening then (Inl InvalidTag, ts)
               else if tag_number t \<noteq> n then (Inl InvalidTag, ts)
               else (Inr (), snd (tag_list_pop ts))))"

definition close_context :: "int option \<Rightarrow> tag option \<Rightarrow> (tag list, unit) action" where
  "close_context c tag ts =
     (case c of
        None \<Rightarrow> (Inr (), ts)
      | Some n \<Rightarrow>
          (case tag of
             None \<Rightarrow> (Inl InvalidTag, ts)
           | Some t \<Rightarrow>
               if tag_class t \<noteq> Closing then (Inl InvalidTag, ts)
               else if tag_number t \<noteq> n then (Inl InvalidTag, ts)
               else (Inr (), snd (tag_list_pop ts))))"

text \<open>
  Decoding from a copy of the list: what was consumed is deleted from the list, and two kinds
  of exceptions mean that there is no such element.
\<close>

definition attempt :: "decoder \<Rightarrow> (tag list, val option) action" where
  "attempt d ts =
     (case d ts of
        (Inr v, us) \<Rightarrow> (Inr (Some v), drop (length ts - length us) ts)
      | (Inl e, us) \<Rightarrow> if e = AttributeError \<or> e = InvalidTag then (Inr None, ts) else (Inl e, ts))"

text \<open>
  \<^verbatim>\<open>issubclass(element, Tag._app_tag_class[n])\<close>: the table has 16 entries, the last three None,
  and Double is a subclass of Real.
\<close>

definition app_class_matches :: "atom_type \<Rightarrow> int \<Rightarrow> bool result" where
  "app_class_matches ty n =
     (if n \<ge> 16 then Inl IndexError
      else if n \<ge> 13 then Inl TypeError
      else Inr (app_tag ty = n \<or> ty = TDouble \<and> n = 4))"

subsection \<open>Sequence\<close>

text \<open>
  One round of the loop over \<open>_order\<close>. The local \<open>tag\<close> is the tag last peeked at: it is passed
  on, since not every path of the loop looks again.
\<close>

definition decode_next :: "decoder \<Rightarrow> (tag list, tag option \<times> val option) action" where
  "decode_next d = bindS d (\<lambda>v. withS (\<lambda>ts. retS (tag_list_peek ts, Some v)))"

definition on_invalid_tag :: "('s, 'a) action \<Rightarrow> ('s, 'a) action \<Rightarrow> ('s, 'a) action" where
  "on_invalid_tag m h s =
     (case m s of (Inl e, s') \<Rightarrow> if e = InvalidTag then h s' else (Inl e, s') | r \<Rightarrow> r)"

definition absent_field :: "elem \<Rightarrow> tag option \<Rightarrow> (tag list, tag option \<times> val option) action" where
  "absent_field e tag = (if is_optional e then retS (tag, None) else raiseS AttributeError)"

definition sequence_field ::
    "elem \<Rightarrow> decoder \<Rightarrow> tag option \<Rightarrow> (tag list, tag option \<times> val option) action" where
  "sequence_field e d tag =
     (case tag of
        None \<Rightarrow> absent_field e tag
      | Some t \<Rightarrow>
          if tag_class t = Closing then absent_field e tag
          else if is_choice e then decode_next d
          else if is_list e then decode_next d
          else if tag_class t = Context \<or> tag_class t = Opening then
            (if context_of e = Some (tag_number t) then decode_next d
             else if is_optional e \<and> context_of e = None then bindS (attempt d) (\<lambda>v. retS (tag, v))
             else absent_field e tag)
          else
            (case shape_of e of
               Atomic ty \<Rightarrow>
                 bindS (liftS (app_class_matches ty (tag_number t)))
                   (\<lambda>b. if b then decode_next d else absent_field e tag)
             | _ \<Rightarrow> on_invalid_tag (decode_next d) (absent_field e tag)))"

type_synonym fields_decoder = "tag option \<Rightarrow> (tag list, tag option \<times> val option list) action"

definition sequence_fields :: "elem \<Rightarrow> decoder \<Rightarrow> fields_decoder \<Rightarrow> fields_decoder" where
  "sequence_fields e d rest tag =
     bindS (sequence_field e d tag) (\<lambda>(tag, v).
     bindS (rest tag) (\<lambda>(tag, vs). retS (tag, v # vs)))"

definition sequence_decode :: "int option \<Rightarrow> fields_decoder \<Rightarrow> decoder" where
  "sequence_decode c elements =
     bindS (open_context c) (\<lambda>_.
     withS (\<lambda>ts. bindS (elements (tag_list_peek ts)) (\<lambda>(tag, vs).
     bindS (close_context c tag) (\<lambda>_. retS (VSequence vs)))))"

subsection \<open>Choice\<close>

text \<open>
  One round of the loop over \<open>_elements\<close>, which ends with the first that matches. After an
  element is decoded from a copy the local \<open>tag\<close> is still the one before it.
\<close>

type_synonym choice_decoder = "tag option \<Rightarrow> (tag list, tag option \<times> string \<times> val) action"

definition choice_element :: "string \<Rightarrow> elem \<Rightarrow> decoder \<Rightarrow> choice_decoder \<Rightarrow> choice_decoder" where
  "choice_element n e d rest tag =
     (let found = bindS d (\<lambda>v. withS (\<lambda>ts. retS (tag_list_peek ts, n, v))) in
      case tag of
        None \<Rightarrow> raiseS AttributeError
      | Some t \<Rightarrow>
          if tag_class t = Closing then raiseS AttributeError
          else if tag_class t = Context \<or> tag_class t = Opening then
            (if context_of e = Some (tag_number t) then found else rest tag)
          else
            (case shape_of e of
               Atomic ty \<Rightarrow>
                 bindS (liftS (app_class_matches ty (tag_number t))) (\<lambda>b. if b then found else rest tag)
             | _ \<Rightarrow>
                 bindS (attempt d) (\<lambda>r. case r of None \<Rightarrow> rest tag | Some v \<Rightarrow> retS (tag, n, v))))"

definition choice_decode :: "int option \<Rightarrow> choice_decoder \<Rightarrow> decoder" where
  "choice_decode c elements =
     bindS (open_context c) (\<lambda>_.
     withS (\<lambda>ts. bindS (elements (tag_list_peek ts)) (\<lambda>(tag, n, v).
     bindS (close_context c tag) (\<lambda>_. retS (VChoice n v)))))"

subsection \<open>Lists and arrays\<close>

text \<open>
  A round consumes a tag or it would be repeated for ever, so that one round for each tag and
  one to end the loop are enough.
\<close>

fun list_items :: "nat \<Rightarrow> decoder \<Rightarrow> tag option \<Rightarrow> (tag list, tag option \<times> val list) action" where
  "list_items 0 d tag = raiseS NoReturn"
| "list_items (Suc k) d tag =
     (case tag of
        None \<Rightarrow> retS (tag, [])
      | Some t \<Rightarrow>
          if tag_class t = Closing then retS (tag, [])
          else
            bindS (attempt d) (\<lambda>r. case r of
               None \<Rightarrow> retS (tag, [])
             | Some v \<Rightarrow>
                 withS (\<lambda>ts. bindS (list_items k d (tag_list_peek ts)) (\<lambda>(tag, vs). retS (tag, v # vs)))))"

definition list_decode :: "int option \<Rightarrow> decoder \<Rightarrow> decoder" where
  "list_decode c d =
     bindS (open_context c) (\<lambda>_.
     withS (\<lambda>ts. bindS (list_items (Suc (length ts)) d (tag_list_peek ts)) (\<lambda>(tag, vs).
     bindS (close_context c tag) (\<lambda>_. retS (VList vs)))))"

definition array_decode :: "int option \<Rightarrow> nat option \<Rightarrow> decoder \<Rightarrow> decoder" where
  "array_decode c k d =
     bindS (list_decode c d) (\<lambda>v.
       case v of
         VList vs \<Rightarrow> if k \<noteq> None \<and> Some (length vs) \<noteq> k then raiseS ValueError else retS v
       | _ \<Rightarrow> retS v)"

subsection \<open>Any and AnyAtomic\<close>

text \<open>
  The search for the closing tag from index \<open>i\<close>: the index and the level at which the loop
  stops, at the closing tag or at the end of the list.
\<close>

fun any_scan :: "int \<Rightarrow> nat \<Rightarrow> nat \<Rightarrow> tag list \<Rightarrow> (nat \<times> nat) result" where
  "any_scan n lvl i [] = Inr (i, lvl)"
| "any_scan n lvl i (t # ts) =
     (case tag_class t of
        Opening \<Rightarrow> any_scan n (lvl + 1) (i + 1) ts
      | Closing \<Rightarrow>
          if lvl = 0 then if tag_number t \<noteq> n then Inl InvalidTag else Inr (i, lvl)
          else any_scan n (lvl - 1) (i + 1) ts
      | _ \<Rightarrow> any_scan n lvl (i + 1) ts)"

definition any_decode :: "int option \<Rightarrow> decoder" where
  "any_decode c ts =
     (case ts of
        [] \<Rightarrow> (Inl InvalidTag, ts)
      | t # us \<Rightarrow>
          (case tag_class t of
             Application \<Rightarrow> if c \<noteq> None then (Inl InvalidTag, ts) else (Inr (VTags [t]), us)
           | Context \<Rightarrow>
               if c \<noteq> None \<and> Some (tag_number t) \<noteq> c then (Inl InvalidTag, ts) else (Inr (VTags [t]), us)
           | Closing \<Rightarrow> (Inl InvalidTag, ts)
           | Opening \<Rightarrow>
               if c \<noteq> None \<and> Some (tag_number t) \<noteq> c then (Inl InvalidTag, ts)
               else
                 (case any_scan (tag_number t) 0 1 us of
                    Inl e \<Rightarrow> (Inl e, ts)
                  | Inr (i, lvl) \<Rightarrow>
                      if lvl \<noteq> 0 then (Inl InvalidTag, ts)
                      else (Inr (VTags (take (i + 1) ts)), drop (i + 1) ts))))"

definition any_atomic_decode :: decoder where
  "any_atomic_decode ts =
     (case tag_list_pop ts of
        (None, us) \<Rightarrow> (Inl InvalidTag, us)
      | (Some t, us) \<Rightarrow> if tag_class t \<noteq> Application then (Inl InvalidTag, us) else (Inr (VTags [t]), us))"

subsection \<open>NameValue\<close>

text \<open>
  The name is converted to an application tag to be decoded. The value is the next application
  tag, with the one after it when they are a date and a time.
\<close>

definition name_value_tags :: "tag list \<Rightarrow> tag list \<times> tag list" where
  "name_value_tags ts =
     (case ts of
        [] \<Rightarrow> ([], ts)
      | t # us \<Rightarrow>
          if tag_class t \<noteq> Application then ([], ts)
          else if tag_number t = tn_date then
            (case us of
               u # ws \<Rightarrow> if tag_class u = Application \<and> tag_number u = tn_time then ([t, u], ws) else ([t], us)
             | [] \<Rightarrow> ([t], us))
          else ([t], us))"

definition name_value_decode :: decoder where
  "name_value_decode ts =
     (case ts of
        [] \<Rightarrow> (Inl MissingRequiredParameter, ts)
      | t # us \<Rightarrow>
          if tag_class t \<noteq> Context \<or> tag_number t \<noteq> 0 then (Inl MissingRequiredParameter, ts)
          else
            (case bindR (context_to_app tn_characterString t) (\<lambda>t. string_decode None [t]) of
               Inl e \<Rightarrow> (Inl e, us)
             | Inr (n, _) \<Rightarrow>
                 (case name_value_tags us of (x, us) \<Rightarrow> (Inr (VNameValue n (Some x)), us))))"

subsection \<open>Elements\<close>

text \<open>An atomic class pops its tag before it looks at it.\<close>

definition atom_action :: "atom_type \<Rightarrow> int option \<Rightarrow> decoder" where
  "atom_action ty c ts =
     (case atom_decode ty c ts of
        Inl e \<Rightarrow> (Inl e, snd (tag_list_pop ts))
      | Inr (a, us) \<Rightarrow> (Inr (VAtom a), us))"

fun decode :: "elem \<Rightarrow> decoder"
and decode_fields :: "fields \<Rightarrow> fields_decoder"
and decode_elements :: "fields \<Rightarrow> choice_decoder" where
  "decode (Elem c opt (Atomic ty)) = atom_action ty c"
| "decode (Elem c opt (Sequence fs)) = sequence_decode c (decode_fields fs)"
| "decode (Elem c opt (Choice fs)) = choice_decode c (decode_elements fs)"
| "decode (Elem c opt (SequenceOf e)) = list_decode c (decode e)"
| "decode (Elem c opt (ArrayOf k e)) = array_decode c k (decode e)"
| "decode (Elem c opt Any) = any_decode c"
| "decode (Elem c opt AnyAtomic) = any_atomic_decode"
| "decode (Elem c opt NameValue) = name_value_decode"
| "decode_fields [] = (\<lambda>tag. retS (tag, []))"
| "decode_fields ((n, e) # fs) = sequence_fields e (decode e) (decode_fields fs)"
| "decode_elements [] = (\<lambda>tag. raiseS AttributeError)"
| "decode_elements ((n, e) # fs) = choice_element n e (decode e) (decode_elements fs)"

end
