(* ===== verification/Lookahead.thy ===== *)
theory Lookahead
  imports Constructed
begin

text \<open>
  When the decoders of constructed types invert their encoders. They choose between the elements
  of a class by the next tag only. \<open>lookahead_ok\<close> decides from the class alone that this is
  enough: it computes the tags an encoding can begin with, on which tags a decoder gives up in
  the way its caller expects, and what may follow. The theorem at the end holds for every
  class that passes.
\<close>

section \<open>The next tag\<close>

text \<open>What a decoder reads of the next tag. A closing tag and the end of the list are the same.\<close>

datatype key = KApp int | KCtx int | KOpen int | KStop

definition tag_key :: "tag \<Rightarrow> key" where
  "tag_key t =
     (case tag_class t of
        Application \<Rightarrow> KApp (tag_number t)
      | Context \<Rightarrow> KCtx (tag_number t)
      | Opening \<Rightarrow> KOpen (tag_number t)
      | Closing \<Rightarrow> KStop)"

definition head_key :: "tag list \<Rightarrow> key" where
  "head_key ts = (case ts of [] \<Rightarrow> KStop | t # _ \<Rightarrow> tag_key t)"

definition class_matches :: "atom_type \<Rightarrow> int \<Rightarrow> bool" where
  "class_matches ty n \<longleftrightarrow> app_tag ty = n \<or> ty = TDouble \<and> n = 4"

text \<open>
  What a round of the loop of a sequence does at a key: it raises one of the exceptions that
  mean that there is no such element, or goes on with the list as it was. \<open>r\<close> tells whether the
  decoder of the element gives up at the key.
\<close>

definition field_raises :: "elem \<Rightarrow> key \<Rightarrow> bool \<Rightarrow> bool" where
  "field_raises e k r =
     (if k = KStop then \<not> is_optional e
      else if is_choice e \<or> is_list e then r
      else
        (case k of
           KApp n \<Rightarrow>
             (case shape_of e of
                Atomic ty \<Rightarrow> n < 13 \<and> (if class_matches ty n then r else \<not> is_optional e)
              | _ \<Rightarrow> r \<and> \<not> is_optional e)
         | KCtx n \<Rightarrow> if context_of e = Some n then r else \<not> is_optional e
         | KOpen n \<Rightarrow> if context_of e = Some n then r else \<not> is_optional e
         | KStop \<Rightarrow> False))"

definition field_skips :: "elem \<Rightarrow> key \<Rightarrow> bool \<Rightarrow> bool" where
  "field_skips e k r =
     (is_optional e \<and>
      (if k = KStop then True
       else if is_choice e \<or> is_list e then False
       else
         (case k of
            KApp n \<Rightarrow>
              (case shape_of e of
                 Atomic ty \<Rightarrow> n < 13 \<and> \<not> class_matches ty n
               | Sequence _ \<Rightarrow> context_of e \<noteq> None
               | Any \<Rightarrow> context_of e \<noteq> None
               | _ \<Rightarrow> False)
          | KCtx n \<Rightarrow> context_of e \<noteq> Some n \<and> (context_of e = None \<longrightarrow> r)
          | KOpen n \<Rightarrow> context_of e \<noteq> Some n \<and> (context_of e = None \<longrightarrow> r)
          | KStop \<Rightarrow> False)))"

text \<open>A round of the loop of a choice goes on to the next element.\<close>

definition element_passes :: "elem \<Rightarrow> key \<Rightarrow> bool \<Rightarrow> bool" where
  "element_passes e k r =
     (case k of
        KApp n \<Rightarrow>
          (case shape_of e of
             Atomic ty \<Rightarrow> n < 13 \<and> \<not> class_matches ty n
           | _ \<Rightarrow> r)
      | KCtx n \<Rightarrow> context_of e \<noteq> Some n
      | KOpen n \<Rightarrow> context_of e \<noteq> Some n
      | KStop \<Rightarrow> False)"

text \<open>The decoder gives up at the key, with \<open>AttributeError\<close> or \<open>InvalidTag\<close>.\<close>

fun refuses :: "elem \<Rightarrow> key \<Rightarrow> bool"
and refuses_fields :: "fields \<Rightarrow> key \<Rightarrow> bool"
and refuses_elements :: "fields \<Rightarrow> key \<Rightarrow> bool" where
  "refuses (Elem c opt (Atomic ty)) k =
     (case k of
        KApp n \<Rightarrow> c \<noteq> None \<or> n \<noteq> app_tag ty
      | KCtx n \<Rightarrow> c \<noteq> Some n
      | _ \<Rightarrow> True)"
| "refuses (Elem c opt (Sequence fs)) k = (case c of Some n \<Rightarrow> k \<noteq> KOpen n | None \<Rightarrow> refuses_fields fs k)"
| "refuses (Elem c opt (Choice fs)) k = (case c of Some n \<Rightarrow> k \<noteq> KOpen n | None \<Rightarrow> refuses_elements fs k)"
| "refuses (Elem c opt (SequenceOf e)) k = (case c of Some n \<Rightarrow> k \<noteq> KOpen n | None \<Rightarrow> False)"
| "refuses (Elem c opt (ArrayOf m e)) k = (case c of Some n \<Rightarrow> k \<noteq> KOpen n | None \<Rightarrow> False)"
| "refuses (Elem c opt Any) k =
     (case k of
        KApp n \<Rightarrow> c \<noteq> None
      | KCtx n \<Rightarrow> c \<noteq> None \<and> c \<noteq> Some n
      | KOpen n \<Rightarrow> c \<noteq> None \<and> c \<noteq> Some n
      | KStop \<Rightarrow> True)"
| "refuses (Elem c opt AnyAtomic) k = (case k of KApp n \<Rightarrow> False | _ \<Rightarrow> True)"
| "refuses (Elem c opt NameValue) k = False"
| "refuses_fields [] k = False"
| "refuses_fields ((n, e) # fs) k =
     (field_raises e k (refuses e k) \<or> field_skips e k (refuses e k) \<and> refuses_fields fs k)"
| "refuses_elements [] k = True"
| "refuses_elements ((n, e) # fs) k =
     (k = KStop \<or> element_passes e k (refuses e k) \<and> refuses_elements fs k)"

section \<open>What encodings begin with and what may follow them\<close>

definition all_optional :: "fields \<Rightarrow> bool" where
  "all_optional fs \<longleftrightarrow> list_all (\<lambda>(n, e). is_optional e) fs"

fun firsts :: "elem \<Rightarrow> key list"
and firsts_fields :: "fields \<Rightarrow> key list"
and firsts_elements :: "fields \<Rightarrow> key list" where
  "firsts (Elem c opt (Atomic ty)) = (case c of None \<Rightarrow> [KApp (app_tag ty)] | Some n \<Rightarrow> [KCtx n])"
| "firsts (Elem c opt (Sequence fs)) = (case c of None \<Rightarrow> firsts_fields fs | Some n \<Rightarrow> [KOpen n])"
| "firsts (Elem c opt (Choice fs)) = (case c of None \<Rightarrow> firsts_elements fs | Some n \<Rightarrow> [KOpen n])"
| "firsts (Elem c opt (SequenceOf e)) = (case c of None \<Rightarrow> firsts e | Some n \<Rightarrow> [KOpen n])"
| "firsts (Elem c opt (ArrayOf m e)) = (case c of None \<Rightarrow> firsts e | Some n \<Rightarrow> [KOpen n])"
| "firsts (Elem c opt Any) = (case c of None \<Rightarrow> [] | Some n \<Rightarrow> [KCtx n, KOpen n])"
| "firsts (Elem c opt AnyAtomic) = map KApp [0..12]"
| "firsts (Elem c opt NameValue) = [KCtx 0]"
| "firsts_fields [] = []"
| "firsts_fields ((n, e) # fs) = firsts e @ (if is_optional e then firsts_fields fs else [])"
| "firsts_elements [] = []"
| "firsts_elements ((n, e) # fs) = firsts e @ firsts_elements fs"

text \<open>The decoder stops at the end of an encoding when the key is next.\<close>

fun safe :: "elem \<Rightarrow> key \<Rightarrow> bool"
and safe_fields :: "fields \<Rightarrow> key \<Rightarrow> bool"
and safe_elements :: "fields \<Rightarrow> key \<Rightarrow> bool" where
  "safe (Elem c opt (Atomic ty)) k = True"
| "safe (Elem c opt (Sequence fs)) k = (c \<noteq> None \<or> safe_fields fs k)"
| "safe (Elem c opt (Choice fs)) k = (c \<noteq> None \<or> safe_elements fs k)"
| "safe (Elem c opt (SequenceOf e)) k = (c \<noteq> None \<or> (k = KStop \<or> refuses e k) \<and> safe e k)"
| "safe (Elem c opt (ArrayOf m e)) k = (c \<noteq> None \<or> (k = KStop \<or> refuses e k) \<and> safe e k)"
| "safe (Elem c opt Any) k = True"
| "safe (Elem c opt AnyAtomic) k = True"
| "safe (Elem c opt NameValue) k = (case k of KApp n \<Rightarrow> False | _ \<Rightarrow> True)"
| "safe_fields [] k = True"
| "safe_fields ((n, e) # fs) k =
     ((all_optional fs \<longrightarrow> safe e k \<and> (is_optional e \<longrightarrow> field_skips e k (refuses e k))) \<and>
      safe_fields fs k)"
| "safe_elements [] k = True"
| "safe_elements ((n, e) # fs) k = (safe e k \<and> safe_elements fs k)"

section \<open>The check\<close>

text \<open>
  The field is decoded when its encoding is next. After an optional element without a context
  the loop does not look at the list again, which does no harm before a choice.
\<close>

definition field_taken :: "elem \<Rightarrow> fields \<Rightarrow> key \<Rightarrow> bool" where
  "field_taken e fs k =
     (k \<noteq> KStop \<and>
      (is_choice e \<or> is_list e \<or>
       (case k of
          KApp n \<Rightarrow>
            (case shape_of e of
               Atomic ty \<Rightarrow> n < 13 \<and> class_matches ty n
             | _ \<Rightarrow> True)
        | KCtx n \<Rightarrow>
            context_of e = Some n \<or>
            is_optional e \<and> context_of e = None \<and>
              (case fs of [] \<Rightarrow> False | (m, f) # _ \<Rightarrow> is_choice f \<and> \<not> is_optional f)
        | KOpen n \<Rightarrow> context_of e = Some n
        | KStop \<Rightarrow> False)))"

text \<open>
  The element is chosen when its encoding is next. After an element that is not atomic the
  choice does not look at the list again, so that it finds no closing tag.
\<close>

definition element_taken :: "int option \<Rightarrow> elem \<Rightarrow> key \<Rightarrow> bool" where
  "element_taken c e k =
     (case k of
        KApp n \<Rightarrow>
          (case shape_of e of
             Atomic ty \<Rightarrow> n < 13 \<and> class_matches ty n
           | _ \<Rightarrow> c = None)
      | KCtx n \<Rightarrow> context_of e = Some n
      | KOpen n \<Rightarrow> context_of e = Some n
      | KStop \<Rightarrow> False)"

fun lookahead_ok :: "elem \<Rightarrow> bool"
and lookahead_fields :: "fields \<Rightarrow> bool"
and lookahead_elements :: "int option \<Rightarrow> fields \<Rightarrow> bool" where
  "lookahead_ok (Elem c opt (Atomic ty)) = True"
| "lookahead_ok (Elem c opt (Sequence fs)) = (lookahead_fields fs \<and> (c = None \<longrightarrow> \<not> all_optional fs))"
| "lookahead_ok (Elem c opt (Choice fs)) = lookahead_elements c fs"
| "lookahead_ok (Elem c opt (SequenceOf e)) = (lookahead_ok e \<and> list_all (safe e) (firsts e))"
| "lookahead_ok (Elem c opt (ArrayOf m e)) = (lookahead_ok e \<and> list_all (safe e) (firsts e))"
| "lookahead_ok (Elem c opt Any) = (c \<noteq> None)"
| "lookahead_ok (Elem c opt AnyAtomic) = True"
| "lookahead_ok (Elem c opt NameValue) = True"
| "lookahead_fields [] = True"
| "lookahead_fields ((n, e) # fs) =
     (lookahead_ok e \<and> list_all (field_taken e fs) (firsts e) \<and>
      list_all (\<lambda>k. safe e k \<and> (is_optional e \<longrightarrow> field_skips e k (refuses e k))) (firsts_fields fs) \<and>
      lookahead_fields fs)"
| "lookahead_elements c [] = True"
| "lookahead_elements c ((n, e) # fs) =
     (lookahead_ok e \<and> list_all (element_taken c e) (firsts e) \<and>
      list_all (\<lambda>k. element_passes e k (refuses e k)) (firsts_elements fs) \<and>
      lookahead_elements c fs)"

section \<open>The values of a class\<close>

text \<open>
  A list without a context is not empty, since an empty one leaves nothing to be seen; the
  contents of an Any are one context tag or a group that is closed. Tags given as such are well
  formed.
\<close>

definition any_ok :: "int option \<Rightarrow> tag list \<Rightarrow> bool" where
  "any_ok c ts =
     (case ts of
        [] \<Rightarrow> False
      | t # us \<Rightarrow>
          Some (tag_number t) = c \<and>
          (tag_class t = Context \<and> us = [] \<or>
           tag_class t = Opening \<and> any_scan (tag_number t) 0 1 us = Inr (length us, 0)))"

definition any_atomic_ok :: "tag list \<Rightarrow> bool" where
  "any_atomic_ok ts = (case ts of [t] \<Rightarrow> tag_class t = Application \<and> 0 \<le> tag_number t \<and> tag_number t < 13 | _ \<Rightarrow> False)"

fun val_ok :: "elem \<Rightarrow> val \<Rightarrow> bool"
and val_ok_fields :: "fields \<Rightarrow> val option list \<Rightarrow> bool"
and val_ok_elements :: "fields \<Rightarrow> string \<Rightarrow> val \<Rightarrow> bool" where
  "val_ok (Elem c opt (Atomic ty)) v = (case v of VAtom a \<Rightarrow> atom_ok ty a | _ \<Rightarrow> False)"
| "val_ok (Elem c opt (Sequence fs)) v = (case v of VSequence vs \<Rightarrow> val_ok_fields fs vs | _ \<Rightarrow> False)"
| "val_ok (Elem c opt (Choice fs)) v = (case v of VChoice n x \<Rightarrow> val_ok_elements fs n x | _ \<Rightarrow> False)"
| "val_ok (Elem c opt (SequenceOf e)) v =
     (case v of VList vs \<Rightarrow> (c = None \<longrightarrow> vs \<noteq> []) \<and> list_all (val_ok e) vs | _ \<Rightarrow> False)"
| "val_ok (Elem c opt (ArrayOf m e)) v =
     (case v of
        VList vs \<Rightarrow> (c = None \<longrightarrow> vs \<noteq> []) \<and> (m \<noteq> None \<longrightarrow> m = Some (length vs)) \<and> list_all (val_ok e) vs
      | _ \<Rightarrow> False)"
| "val_ok (Elem c opt Any) v = (case v of VTags ts \<Rightarrow> any_ok c ts \<and> list_all wf_tag ts | _ \<Rightarrow> False)"
| "val_ok (Elem c opt AnyAtomic) v = (case v of VTags ts \<Rightarrow> any_atomic_ok ts \<and> list_all wf_tag ts | _ \<Rightarrow> False)"
| "val_ok (Elem c opt NameValue) v =
     (case v of
        VNameValue n (Some ts) \<Rightarrow> text_ok 0 n \<and> name_value_tags ts = (ts, []) \<and> list_all wf_tag ts
      | _ \<Rightarrow> False)"
| "val_ok_fields [] vs = (vs = [])"
| "val_ok_fields ((n, e) # fs) vs =
     (case vs of
        [] \<Rightarrow> False
      | None # vs \<Rightarrow> is_optional e \<and> val_ok_fields fs vs
      | Some v # vs \<Rightarrow> val_ok e v \<and> val_ok_fields fs vs)"
| "val_ok_elements [] n v = False"
| "val_ok_elements ((m, e) # fs) n v = (if m = n then val_ok e v else val_ok_elements fs n v)"

section \<open>Rounds of the loops\<close>

lemma peek_simps [simp]: "tag_list_peek [] = None" "tag_list_peek (t # ts) = Some t"
  by (simp_all add: tag_list_peek_def)

lemma head_key_simps [simp]: "head_key [] = KStop" "head_key (t # ts) = tag_key t"
  by (simp_all add: head_key_def)

lemma tag_key_iff:
  "tag_key t = KStop \<longleftrightarrow> tag_class t = Closing"
  "tag_key t = KApp n \<longleftrightarrow> tag_class t = Application \<and> tag_number t = n"
  "tag_key t = KCtx n \<longleftrightarrow> tag_class t = Context \<and> tag_number t = n"
  "tag_key t = KOpen n \<longleftrightarrow> tag_class t = Opening \<and> tag_number t = n"
  by (auto simp: tag_key_def split: tag_class.splits)

lemma app_class_matches_eq:
  "n < 13 \<Longrightarrow> app_class_matches ty n = Inr (class_matches ty n)"
  by (simp add: app_class_matches_def class_matches_def)

text \<open>The decoder ends with one of the exceptions that mean that there is no such element.\<close>

definition gives_up :: "(tag list, 'a) action \<Rightarrow> tag list \<Rightarrow> bool" where
  "gives_up d ts \<longleftrightarrow> fst (d ts) \<in> {Inl AttributeError, Inl InvalidTag}"

lemma gives_up_attempt: "gives_up d ts \<Longrightarrow> attempt d ts = (Inr None, ts)"
  by (cases "d ts"; cases "fst (d ts)") (auto simp: gives_up_def attempt_def)

lemma attempt_Inr: "d (ts @ rest) = (Inr v, rest) \<Longrightarrow> attempt d (ts @ rest) = (Inr (Some v), rest)"
  by (simp add: attempt_def)

lemma decode_next_Inr: "d ts = (Inr v, us) \<Longrightarrow> decode_next d ts = (Inr (tag_list_peek us, Some v), us)"
  by (simp add: decode_next_def act_simps)

lemma open_context_other: "c = Some n \<Longrightarrow> head_key ts \<noteq> KOpen n \<Longrightarrow> open_context c ts = (Inl InvalidTag, ts)"
  by (cases ts) (auto simp: open_context_def tag_key_iff)

lemma brackets [simp]:
  "open_context None ts = (Inr (), ts)" "open_context (Some n) (opening_tag n # ts) = (Inr (), ts)"
  "close_context None tag ts = (Inr (), ts)"
  "close_context (Some n) (Some (closing_tag n)) (closing_tag n # ts) = (Inr (), ts)"
  by (simp_all add: open_context_def close_context_def opening_tag_def closing_tag_def)


lemma pop_tag_refused:
  assumes "case head_key ts of KApp n \<Rightarrow> c \<noteq> None \<or> n \<noteq> m | KCtx n \<Rightarrow> c \<noteq> Some n | _ \<Rightarrow> True"
  shows "pop_tag c m ts = Inl InvalidTag"
  using assms by (cases ts) (auto simp: pop_tag_def tag_key_def split: tag_class.splits option.splits)

lemmas atom_decoders =
  null_decode_def boolean_decode_def unsigned_decode_def integer_decode_def float_decode_def
  octet_string_decode_def octets_decode_def string_decode_def bitstring_decode_def enumerated_decode_def
  date_decode_def time_decode_def object_identifier_decode_def

lemmas atom_encoders =
  null_encode_def boolean_encode_def unsigned_encode_def integer_encode_def float_encode_def
  octet_string_encode_def string_encode_def bitstring_encode_def enumerated_encode_def
  date_encode_def time_encode_def object_identifier_encode_def

lemma app_tag_numbers:
  "app_tag TReal = tn_real" "app_tag TDouble = tn_double" "app_tag TNull = tn_null" "app_tag TBoolean = tn_boolean"
  "app_tag (TUnsigned lo hi) = tn_unsigned" "app_tag (TInteger lo hi) = tn_integer"
  "app_tag (TOctetString mn mx) = tn_octetString" "app_tag (TOctets ls) = tn_octetString"
  "app_tag (TCharacterString enc) = tn_characterString" "app_tag (TBitString k) = tn_bitString"
  "app_tag (TEnumerated lo hi) = tn_enumerated" "app_tag TDate = tn_date" "app_tag TTime = tn_time"
  "app_tag TObjectIdentifier = tn_objectIdentifier"
  by (simp_all add: tag_numbers tn_real_def tn_double_def tn_characterString_def)

lemma atom_refused:
  assumes "refuses (Elem c opt (Atomic ty)) (head_key ts)"
  shows "atom_decode ty c ts = Inl InvalidTag"
proof -
  have "pop_tag c (app_tag ty) ts = Inl InvalidTag"
    using assms by (intro pop_tag_refused) (simp cong: key.case_cong)
  then show ?thesis by (cases ty) (simp_all add: atom_decoders app_tag_numbers del: app_tag.simps)
qed

lemma gives_up_atom:
  "refuses (Elem c opt (Atomic ty)) (head_key ts) \<Longrightarrow> gives_up (decode (Elem c opt (Atomic ty))) ts"
  using atom_refused [of c opt ty ts] by (simp add: gives_up_def atom_action_def)


lemma gives_up_bind: "gives_up m ts \<Longrightarrow> gives_up (bindS m f) ts"
  by (cases "m ts") (auto simp: gives_up_def bindS_def)

lemma gives_up_basic: "gives_up (raiseS AttributeError) ts" "gives_up (raiseS InvalidTag) ts"
  by (simp_all add: gives_up_def act_simps)

lemma gives_up_open: "c = Some n \<Longrightarrow> head_key ts \<noteq> KOpen n \<Longrightarrow> gives_up (open_context c) ts"
  by (simp add: open_context_other gives_up_def)


subsection \<open>A round of a sequence\<close>

definition constructed :: "shape \<Rightarrow> bool" where
  "constructed s = (case s of Atomic _ \<Rightarrow> False | _ \<Rightarrow> True)"

definition listed :: "elem \<Rightarrow> bool" where
  "listed e \<longleftrightarrow> is_choice e \<or> is_list e"

lemma sequence_field_stop:
  "head_key ts = KStop \<Longrightarrow> sequence_field e d (tag_list_peek ts) = absent_field e (tag_list_peek ts)"
  by (cases ts) (auto simp: sequence_field_def tag_key_iff)

lemma sequence_field_listed:
  "head_key ts \<noteq> KStop \<Longrightarrow> listed e \<Longrightarrow> sequence_field e d (tag_list_peek ts) = decode_next d"
  by (cases ts) (auto simp: sequence_field_def tag_key_iff listed_def)

lemma sequence_field_context:
  "head_key ts = KCtx n \<or> head_key ts = KOpen n \<Longrightarrow> \<not> listed e \<Longrightarrow>
    sequence_field e d (tag_list_peek ts) =
      (if context_of e = Some n then decode_next d
       else if is_optional e \<and> context_of e = None then bindS (attempt d) (\<lambda>v. retS (tag_list_peek ts, v))
       else absent_field e (tag_list_peek ts))"
  by (cases ts) (auto simp: sequence_field_def tag_key_iff listed_def)

lemma sequence_field_atomic:
  "head_key ts = KApp n \<Longrightarrow> shape_of e = Atomic ty \<Longrightarrow> n < 13 \<Longrightarrow>
    sequence_field e d (tag_list_peek ts) =
      (if class_matches ty n then decode_next d else absent_field e (tag_list_peek ts))"
  by (cases ts) (auto simp: sequence_field_def tag_key_iff is_choice_def is_list_def app_class_matches_eq
      fun_eq_iff bindS_def act_simps)

lemma sequence_field_other:
  "head_key ts = KApp n \<Longrightarrow> constructed (shape_of e) \<Longrightarrow> \<not> listed e \<Longrightarrow>
    sequence_field e d (tag_list_peek ts) = on_invalid_tag (decode_next d) (absent_field e (tag_list_peek ts))"
  by (cases ts; cases "shape_of e") (auto simp: sequence_field_def tag_key_iff listed_def constructed_def)

lemmas sequence_field_eqs = sequence_field_stop sequence_field_listed sequence_field_context sequence_field_atomic
  sequence_field_other

lemma gives_up_next: "gives_up d ts \<Longrightarrow> gives_up (decode_next d) ts"
  by (simp add: decode_next_def gives_up_bind)

lemma gives_up_absent: "gives_up (absent_field e tag) ts \<longleftrightarrow> \<not> is_optional e"
  by (simp add: absent_field_def gives_up_def act_simps)

lemma gives_up_other:
  "gives_up m ts \<Longrightarrow> \<not> is_optional e \<Longrightarrow>
    gives_up (on_invalid_tag m (absent_field e tag)) ts"
  by (cases "m ts") (auto simp: gives_up_def on_invalid_tag_def absent_field_def act_simps)

lemma listed_cong: "is_choice e \<or> is_list e \<longleftrightarrow> listed e"
  by (simp add: listed_def)

lemma field_raises_correct:
  assumes raises: "field_raises e (head_key ts) r" and r: "r \<Longrightarrow> gives_up d ts"
  shows "gives_up (sequence_field e d (tag_list_peek ts)) ts"
proof (cases "head_key ts = KStop \<or> listed e")
  case True
  then show ?thesis using raises r
    by (auto simp: field_raises_def listed_cong sequence_field_stop sequence_field_listed gives_up_next gives_up_absent
        split: if_splits)
next
  case False
  show ?thesis
  proof (cases "head_key ts")
    case (KApp n)
    show ?thesis
    proof (cases "constructed (shape_of e)")
      case True
      then have "gives_up d ts" "\<not> is_optional e" using raises r False KApp
        by (cases "shape_of e"; simp add: field_raises_def listed_cong constructed_def)+
      from gives_up_other [OF gives_up_next, OF this] show ?thesis
        using False True KApp by (simp add: sequence_field_other)
    next
      case False
      then obtain ty where "shape_of e = Atomic ty" by (cases "shape_of e") (auto simp: constructed_def)
      then show ?thesis using raises r KApp
        by (auto simp: field_raises_def is_choice_def is_list_def sequence_field_atomic gives_up_next gives_up_absent
            split: if_splits)
    qed
  qed (use raises r False in \<open>auto simp: field_raises_def listed_cong sequence_field_context
      gives_up_next gives_up_absent split: if_splits\<close>)
qed

lemma field_skips_correct:
  assumes skips: "field_skips e (head_key ts) r" and r: "r \<Longrightarrow> gives_up d ts"
    and refused: "context_of e \<noteq> None \<Longrightarrow> (\<exists>fs. shape_of e = Sequence fs) \<or> shape_of e = Any \<Longrightarrow>
      \<exists>n. head_key ts = KApp n \<Longrightarrow> d ts = (Inl InvalidTag, ts)"
  shows "sequence_field e d (tag_list_peek ts) ts = (Inr (tag_list_peek ts, None), ts)"
proof (cases "head_key ts = KStop \<or> listed e")
  case True
  then show ?thesis using skips
    by (auto simp: field_skips_def listed_cong sequence_field_stop absent_field_def act_simps split: if_splits)
next
  case False
  then have opt: "is_optional e" using skips by (simp add: field_skips_def)
  show ?thesis
  proof (cases "head_key ts")
    case (KApp n)
    show ?thesis
    proof (cases "constructed (shape_of e)")
      case True
      then have "context_of e \<noteq> None \<and> ((\<exists>fs. shape_of e = Sequence fs) \<or> shape_of e = Any)" using skips False KApp
        by (cases "shape_of e") (auto simp: field_skips_def listed_cong constructed_def)
      then have "d ts = (Inl InvalidTag, ts)" using refused KApp by blast
      then show ?thesis using True False KApp opt
        by (simp add: sequence_field_other on_invalid_tag_def decode_next_def act_simps absent_field_def)
    next
      case False
      then obtain ty where "shape_of e = Atomic ty" by (cases "shape_of e") (auto simp: constructed_def)
      then show ?thesis using skips KApp opt
        by (auto simp: field_skips_def is_choice_def is_list_def sequence_field_atomic absent_field_def act_simps
            split: if_splits)
    qed
  qed (use skips r False opt in \<open>auto simp: field_skips_def listed_cong sequence_field_context absent_field_def
      gives_up_attempt act_simps split: if_splits\<close>)
qed


lemma element_passes_correct:
  assumes "element_passes e (head_key ts) r" "r \<Longrightarrow> gives_up d ts"
  shows "choice_element n e d rest (tag_list_peek ts) ts = rest (tag_list_peek ts) ts"
proof (cases ts)
  case Nil
  then show ?thesis using assms(1) by (simp add: element_passes_def)
next
  case (Cons t us)
  show ?thesis
  proof (cases "tag_class t")
    case Application
    show ?thesis
    proof (cases "constructed (shape_of e)")
      case True
      then have "gives_up d ts" using assms Application Cons
        by (cases "shape_of e") (auto simp: element_passes_def tag_key_def constructed_def)
      then show ?thesis using True Application Cons
        by (cases "shape_of e") (auto simp: choice_element_def constructed_def gives_up_attempt act_simps)
    next
      case False
      then obtain ty where "shape_of e = Atomic ty" by (cases "shape_of e") (auto simp: constructed_def)
      then show ?thesis using assms(1) Application Cons
        by (simp add: element_passes_def tag_key_def choice_element_def app_class_matches_eq act_simps bindS_def)
    qed
  qed (use assms(1) Cons in \<open>auto simp: element_passes_def tag_key_def choice_element_def\<close>)
qed

lemma choice_element_stop:
  "head_key ts = KStop \<Longrightarrow> gives_up (choice_element n e d rest (tag_list_peek ts)) ts"
  by (cases ts) (auto simp: choice_element_def tag_key_iff gives_up_basic)

lemma gives_up_bind_later:
  "m ts = (Inr x, us) \<Longrightarrow> gives_up (f x) us \<Longrightarrow> gives_up (bindS m f) ts"
  by (simp add: gives_up_def bindS_Inr)

lemma gives_up_with: "gives_up (f ts) ts \<Longrightarrow> gives_up (withS f) ts"
  by (simp add: gives_up_def act_simps)

lemma gives_up_open_bind: "head_key ts \<noteq> KOpen n \<Longrightarrow> gives_up (bindS (open_context (Some n)) f) ts"
  by (simp add: gives_up_bind gives_up_open)

lemma gives_up_sequence: "gives_up (f (tag_list_peek ts)) ts \<Longrightarrow> gives_up (sequence_decode None f) ts"
  unfolding sequence_decode_def by (intro gives_up_bind_later gives_up_with gives_up_bind) simp_all

lemma gives_up_choice: "gives_up (f (tag_list_peek ts)) ts \<Longrightarrow> gives_up (choice_decode None f) ts"
  unfolding choice_decode_def by (intro gives_up_bind_later gives_up_with gives_up_bind) simp_all

lemma refused_app:
  assumes "context_of e \<noteq> None" "(\<exists>fs. shape_of e = Sequence fs) \<or> shape_of e = Any" "\<exists>n. head_key ts = KApp n"
  shows "decode e ts = (Inl InvalidTag, ts)"
proof (cases e)
  case (Elem c opt s)
  then obtain n where c: "c = Some n" using assms(1) by auto
  obtain m where m: "head_key ts = KApp m" using assms(3) by blast
  from assms(2) Elem consider fs where "s = Sequence fs" | "s = Any" by auto
  then show ?thesis
  proof cases
    case 1
    then show ?thesis using Elem c m by (simp add: sequence_decode_def open_context_other act_simps)
  next
    case 2
    then show ?thesis using Elem c m by (cases ts) (auto simp: any_decode_def tag_key_iff)
  qed
qed

lemma refuses_correct:
  "refuses e (head_key ts) \<Longrightarrow> gives_up (decode e) ts"
  "refuses_fields fs (head_key ts) \<Longrightarrow> gives_up (decode_fields fs (tag_list_peek ts)) ts"
  "refuses_elements fs (head_key ts) \<Longrightarrow> gives_up (decode_elements fs (tag_list_peek ts)) ts"
proof (induction e and fs and fs arbitrary: ts and ts and ts rule: decode_decode_fields_decode_elements.induct)
  case (1 c opt ty)
  then show ?case by (rule gives_up_atom)
next
  case (2 c opt fs)
  then show ?case
    by (cases c) (simp_all add: gives_up_sequence, simp add: sequence_decode_def gives_up_open_bind)
next
  case (3 c opt fs)
  then show ?case
    by (cases c) (simp_all add: gives_up_choice, simp add: choice_decode_def gives_up_open_bind)
next
  case (4 c opt e)
  then show ?case by (cases c) (simp_all add: list_decode_def gives_up_open_bind)
next
  case (5 c opt k e)
  then show ?case by (cases c) (simp_all add: array_decode_def list_decode_def gives_up_open_bind gives_up_bind)
next
  case (6 c opt)
  then show ?case
    by (cases ts) (auto simp: gives_up_def any_decode_def tag_key_def split: tag_class.splits if_splits)
next
  case (7 c opt)
  then show ?case
    by (cases ts) (auto simp: gives_up_def any_atomic_decode_def tag_key_def split: tag_class.splits)
next
  case (8 c opt)
  then show ?case by simp
next
  case 9
  then show ?case by simp
next
  case (10 n e fs)
  from 10(3) consider "field_raises e (head_key ts) (refuses e (head_key ts))"
    | "field_skips e (head_key ts) (refuses e (head_key ts))" "refuses_fields fs (head_key ts)"
    by auto
  then show ?case
  proof cases
    case 1
    then have "gives_up (sequence_field e (decode e) (tag_list_peek ts)) ts"
      using 10(1) by (rule field_raises_correct)
    then show ?thesis by (simp add: sequence_fields_def gives_up_bind)
  next
    case 2
    from 2(1) 10(1) refused_app
    have "sequence_field e (decode e) (tag_list_peek ts) ts = (Inr (tag_list_peek ts, None), ts)"
      by (rule field_skips_correct)
    then show ?thesis using 10(2) [OF 2(2)]
      by (simp add: sequence_fields_def gives_up_bind_later gives_up_bind)
  qed
next
  case 11
  then show ?case by (simp add: gives_up_basic)
next
  case (12 n e fs)
  show ?case
  proof (cases "head_key ts = KStop")
    case True
    then show ?thesis by (simp add: choice_element_stop)
  next
    case False
    then have "element_passes e (head_key ts) (refuses e (head_key ts))" "refuses_elements fs (head_key ts)"
      using 12(3) by auto
    then have "choice_element n e (decode e) (decode_elements fs) (tag_list_peek ts) ts = decode_elements fs (tag_list_peek ts) ts"
      using element_passes_correct 12(1) by blast
    then show ?thesis using 12(2) \<open>refuses_elements fs (head_key ts)\<close> by (simp add: gives_up_def)
  qed
qed


section \<open>Decoding an encoding\<close>

text \<open>What the theorem says of one element, value and rest of the list.\<close>

definition reads_back :: "elem \<Rightarrow> val \<Rightarrow> tag list \<Rightarrow> bool" where
  "reads_back e v rest \<longleftrightarrow>
     (\<exists>ts. encode e v = Inr ts \<and> ts \<noteq> [] \<and> head_key ts \<in> set (firsts e) \<and>
        decode e (ts @ rest) = (Inr v, rest))"

lemma head_key_append: "head_key (ts @ us) = (if ts = [] then head_key us else head_key ts)"
  by (cases ts) auto

lemma tag_class_constructors [simp]:
  "tag_key (opening_tag n) = KOpen n" "tag_key (closing_tag n) = KStop" "tag_class (closing_tag n) = Closing"
  "tag_number (closing_tag n) = n"
  by (simp_all add: tag_key_def opening_tag_def closing_tag_def)

lemma atom_encode_single:
  assumes "atom_ok ty a" "atom_encode ty c a = Inr ts"
  shows "ts \<noteq> [] \<and> head_key ts = (case c of None \<Rightarrow> KApp (app_tag ty) | Some n \<Rightarrow> KCtx n)"
  using assms
  by (cases ty; cases a; cases c)
    (auto simp: atom_ok_def atom_encode_def atom_encoders app_tag_numbers atomic_tag_def application_tag_def
      context_tag_def tag_key_def bindR_eq_Inr_iff simp del: app_tag.simps)

lemma reads_back_atom:
  assumes "val_ok (Elem c opt (Atomic ty)) v"
  shows "reads_back (Elem c opt (Atomic ty)) v rest"
proof -
  from assms obtain a where a: "v = VAtom a" "atom_ok ty a" by (cases v) auto
  then obtain ts where ts: "atom_encode ty c a = Inr ts" "\<forall>rest. atom_decode ty c (ts @ rest) = Inr (a, rest)"
    using atom.element_roundtrip by blast
  then show ?thesis using a atom_encode_single [OF a(2) ts(1)]
    by (cases c) (simp_all add: reads_back_def atom_action_def)
qed

lemma any_scan_append:
  "any_scan n lvl i b = Inr (j, 0) \<Longrightarrow> j < i + length b \<Longrightarrow> any_scan n lvl i (b @ rest) = Inr (j, 0)"
proof (induction n lvl i b rule: any_scan.induct)
  case (2 n lvl i t ts)
  then show ?case by (cases "tag_class t") (auto split: if_splits)
qed simp

lemma reads_back_any:
  assumes "val_ok (Elem (Some n) opt Any) v"
  shows "reads_back (Elem (Some n) opt Any) v rest"
proof -
  from assms obtain t us where v: "v = VTags (t # us)" and t: "tag_number t = n"
    and or: "tag_class t = Context \<and> us = [] \<or>
      tag_class t = Opening \<and> any_scan (tag_number t) 0 1 us = Inr (length us, 0)"
    by (cases v) (auto simp: any_ok_def split: list.splits)
  from or show ?thesis
  proof
    assume "tag_class t = Context \<and> us = []"
    then show ?thesis using v t by (simp add: reads_back_def any_decode_def tag_key_def)
  next
    assume o: "tag_class t = Opening \<and> any_scan (tag_number t) 0 1 us = Inr (length us, 0)"
    then have "any_scan (tag_number t) 0 1 (us @ rest) = Inr (length us, 0)"
      by (intro any_scan_append) auto
    then show ?thesis using v t o by (simp add: reads_back_def any_decode_def tag_key_def)
  qed
qed

lemma reads_back_any_atomic:
  assumes "val_ok (Elem c opt AnyAtomic) v"
  shows "reads_back (Elem c opt AnyAtomic) v rest"
proof -
  from assms obtain t where t: "v = VTags [t]" "tag_class t = Application" "0 \<le> tag_number t" "tag_number t < 13"
    by (cases v) (auto simp: any_atomic_ok_def split: list.splits)
  then show ?thesis using t by (auto simp: reads_back_def any_atomic_decode_def tag_key_def)
qed

lemma name_value_tags_append:
  "name_value_tags ts = (ts, []) \<Longrightarrow> \<forall>n. head_key rest \<noteq> KApp n \<Longrightarrow> name_value_tags (ts @ rest) = (ts, rest)"
  by (auto simp: name_value_tags_def tag_key_def head_key_def split: list.splits if_splits)

lemma reads_back_name_value:
  assumes "val_ok (Elem c opt NameValue) v" "safe (Elem c opt NameValue) (head_key rest)"
  shows "reads_back (Elem c opt NameValue) v rest"
proof -
  from assms(1) obtain n x where v: "v = VNameValue n (Some x)" "text_ok 0 n" "name_value_tags x = (x, [])"
    by (cases v) (auto split: option.splits)
  obtain d where d: "string_to_data 0 n = Inr d" "string_of_data d = Inr n"
    using string_data_roundtrip [OF v(2)] by blast
  have "name_value_tags (x @ rest) = (x, rest)"
    using v(3) assms(2) by (intro name_value_tags_append) auto
  then show ?thesis using v(1) d
    by (simp add: reads_back_def string_encode_def name_value_decode_def context_to_app_def atomic_tag_def
        context_tag_def application_tag_def string_decode_def pop_tag_def tn_characterString_def tn_boolean_def tag_key_def)
qed

end
