(* ===== verification/Typed.thy ===== *)
theory Typed
  imports Lookahead
begin

text \<open>
  What a decoder returns is a value of its class, whatever tags it is given: the parts of the
  right kind within the limits of the class, no required field absent, the declared
  alternative, the declared length.
\<close>

section \<open>The type of a value\<close>

definition atom_typed :: "atom_type \<Rightarrow> atom \<Rightarrow> bool" where
  "atom_typed ty a =
     (case ty of
        TNull \<Rightarrow> a = ANull
      | TBoolean \<Rightarrow> (case a of ABoolean b \<Rightarrow> True | _ \<Rightarrow> False)
      | TUnsigned lo hi \<Rightarrow> (case a of AUnsigned n \<Rightarrow> 0 \<le> n \<and> unsigned_cast lo hi n = Inr n | _ \<Rightarrow> False)
      | TInteger lo hi \<Rightarrow> (case a of AInteger n \<Rightarrow> integer_cast lo hi n = Inr n | _ \<Rightarrow> False)
      | TReal \<Rightarrow> (case a of AReal x \<Rightarrow> length x = 4 | _ \<Rightarrow> False)
      | TDouble \<Rightarrow> (case a of ADouble x \<Rightarrow> length x = 8 | _ \<Rightarrow> False)
      | TOctetString mn mx \<Rightarrow>
          (case a of AOctetString x \<Rightarrow> octet_string_of_data mn mx x = Inr x | _ \<Rightarrow> False)
      | TOctets lens \<Rightarrow> (case a of AOctetString x \<Rightarrow> length x \<in> set lens | _ \<Rightarrow> False)
      | TCharacterString enc \<Rightarrow> (case a of ACharacterString x \<Rightarrow> True | _ \<Rightarrow> False)
      | TBitString m \<Rightarrow>
          (case a of ABitString x \<Rightarrow> m \<le> length x \<and> list_all (\<lambda>b. b = 0 \<or> b = 1) x | _ \<Rightarrow> False)
      | TEnumerated lo hi \<Rightarrow> (case a of AEnumerated n \<Rightarrow> enumerated_cast lo hi n = Inr n | _ \<Rightarrow> False)
      | TDate \<Rightarrow> (case a of ADate q \<Rightarrow> quad_ok q | _ \<Rightarrow> False)
      | TTime \<Rightarrow> (case a of ATime q \<Rightarrow> quad_ok q | _ \<Rightarrow> False)
      | TObjectIdentifier \<Rightarrow>
          (case a of
             AObjectIdentifier x \<Rightarrow> 0 \<le> fst x \<and> fst x \<le> 1023 \<and> 0 \<le> snd x \<and> snd x \<le> 4194303
           | _ \<Rightarrow> False))"

fun has_type :: "elem \<Rightarrow> val \<Rightarrow> bool"
and has_type_fields :: "fields \<Rightarrow> val option list \<Rightarrow> bool"
and has_type_elements :: "fields \<Rightarrow> string \<Rightarrow> val \<Rightarrow> bool" where
  "has_type (Elem c opt (Atomic ty)) v = (case v of VAtom a \<Rightarrow> atom_typed ty a | _ \<Rightarrow> False)"
| "has_type (Elem c opt (Sequence fs)) v = (case v of VSequence vs \<Rightarrow> has_type_fields fs vs | _ \<Rightarrow> False)"
| "has_type (Elem c opt (Choice fs)) v = (case v of VChoice n x \<Rightarrow> has_type_elements fs n x | _ \<Rightarrow> False)"
| "has_type (Elem c opt (SequenceOf e)) v = (case v of VList vs \<Rightarrow> list_all (has_type e) vs | _ \<Rightarrow> False)"
| "has_type (Elem c opt (ArrayOf m e)) v =
     (case v of
        VList vs \<Rightarrow> (m \<noteq> None \<longrightarrow> m = Some (length vs)) \<and> list_all (has_type e) vs
      | _ \<Rightarrow> False)"
| "has_type (Elem c opt Any) v = (case v of VTags ts \<Rightarrow> ts \<noteq> [] | _ \<Rightarrow> False)"
| "has_type (Elem c opt AnyAtomic) v = (case v of VTags [t] \<Rightarrow> tag_class t = Application | _ \<Rightarrow> False)"
| "has_type (Elem c opt NameValue) v =
     (case v of VNameValue n (Some ts) \<Rightarrow> list_all (\<lambda>t. tag_class t = Application) ts | _ \<Rightarrow> False)"
| "has_type_fields [] vs = (vs = [])"
| "has_type_fields ((n, e) # fs) vs =
     (case vs of
        [] \<Rightarrow> False
      | None # vs \<Rightarrow> is_optional e \<and> has_type_fields fs vs
      | Some v # vs \<Rightarrow> has_type e v \<and> has_type_fields fs vs)"
| "has_type_elements [] n v = False"
| "has_type_elements ((m, e) # fs) n v = (m = n \<and> has_type e v \<or> has_type_elements fs n v)"

section \<open>Actions that yield values of a type\<close>

definition yields :: "('a \<Rightarrow> bool) \<Rightarrow> ('s, 'a) action \<Rightarrow> bool" where
  "yields P m \<longleftrightarrow> (\<forall>s x s'. m s = (Inr x, s') \<longrightarrow> P x)"

lemma yieldsD: "yields P m \<Longrightarrow> m s = (Inr x, s') \<Longrightarrow> P x"
  by (auto simp: yields_def)

lemma yields_basic: "P x \<Longrightarrow> yields P (retS x)" "yields P (raiseS e)"
  by (simp_all add: yields_def act_simps)

lemma yields_with: "(\<And>s. yields P (f s)) \<Longrightarrow> yields P (withS f)"
  by (simp add: yields_def act_simps)

lemma yields_bind:
  assumes "yields Q m" "\<And>x. Q x \<Longrightarrow> yields P (f x)"
  shows "yields P (bindS m f)"
  using assms by (fastforce simp: yields_def bindS_def split: prod.splits sum.splits)

lemma yields_any: "yields (\<lambda>_. True) m"
  by (simp add: yields_def)

lemma yields_then: "(\<And>x. yields P (f x)) \<Longrightarrow> yields P (bindS m f)"
  by (rule yields_bind [OF yields_any])

lemma yields_lift: "(\<And>x. yields P (f x)) \<Longrightarrow> yields P (bindS (liftS r) f)"
  by (rule yields_then)

lemma yields_attempt: "yields P d \<Longrightarrow> yields (\<lambda>r. \<forall>v. r = Some v \<longrightarrow> P v) (attempt d)"
  by (auto simp: yields_def attempt_def split: prod.splits sum.splits if_splits)

lemma yields_invalid: "yields P m \<Longrightarrow> yields P h \<Longrightarrow> yields P (on_invalid_tag m h)"
  by (fastforce simp: yields_def on_invalid_tag_def split: prod.splits sum.splits if_splits)

section \<open>The decoders\<close>

definition field_typed :: "elem \<Rightarrow> (val \<Rightarrow> bool) \<Rightarrow> tag option \<times> val option \<Rightarrow> bool" where
  "field_typed e P r = (case snd r of None \<Rightarrow> is_optional e | Some v \<Rightarrow> P v)"

lemma yields_next: "yields P d \<Longrightarrow> yields (field_typed e P) (decode_next d)"
  unfolding decode_next_def by (erule yields_bind) (auto intro!: yields_with yields_basic simp: field_typed_def)

lemma yields_absent: "yields (field_typed e P) (absent_field e tag)"
  by (simp add: absent_field_def yields_basic field_typed_def)

lemma yields_optional:
  "is_optional e \<Longrightarrow> yields P d \<Longrightarrow> yields (field_typed e P) (bindS (attempt d) (\<lambda>v. retS (tag, v)))"
  by (rule yields_bind [OF yields_attempt]) (auto intro!: yields_basic simp: field_typed_def split: option.splits)

lemma yields_field: "yields P d \<Longrightarrow> yields (field_typed e P) (sequence_field e d tag)"
  unfolding sequence_field_def
  by (cases tag; cases "shape_of e")
    (auto intro!: yields_lift yields_next yields_absent yields_optional yields_invalid)

lemma yields_fields:
  assumes "yields (has_type e) d" "\<And>tag. yields (\<lambda>r. has_type_fields fs (snd r)) (rest tag)"
  shows "yields (\<lambda>r. has_type_fields ((n, e) # fs) (snd r)) (sequence_fields e d rest tag)"
  unfolding sequence_fields_def
proof (rule yields_bind [OF yields_field [OF assms(1)]], clarify)
  fix t v
  assume v: "field_typed e (has_type e) (t, v)"
  show "yields (\<lambda>r. has_type_fields ((n, e) # fs) (snd r)) (bindS (rest t) (\<lambda>(tag, vs). retS (tag, v # vs)))"
    by (rule yields_bind [OF assms(2)])
      (use v in \<open>auto intro!: yields_basic simp: field_typed_def split: option.splits prod.splits\<close>)
qed

lemma yields_sequence:
  assumes "\<And>tag. yields (\<lambda>r. has_type_fields fs (snd r)) (f tag)"
  shows "yields (has_type (Elem c opt (Sequence fs))) (sequence_decode c f)"
  unfolding sequence_decode_def
  by (rule yields_then, rule yields_with, rule yields_bind [OF assms]) (auto intro!: yields_then yields_basic)

lemma yields_element:
  assumes "yields (has_type e) d" "\<And>tag. yields (\<lambda>(t, m, v). has_type_elements fs m v) (rest tag)"
  shows "yields (\<lambda>(t, m, v). has_type_elements ((n, e) # fs) m v) (choice_element n e d rest tag)"
proof -
  let ?P = "\<lambda>(t, m, v). has_type_elements ((n, e) # fs) m v"
  have found: "yields ?P (bindS d (\<lambda>v. withS (\<lambda>ts. retS (tag_list_peek ts, n, v))))"
    by (rule yields_bind [OF assms(1)]) (auto intro!: yields_with yields_basic)
  have rest: "yields ?P (rest t)" for t using assms(2) [of t] unfolding yields_def by fastforce
  have here: "yields ?P (retS (t, n, v))" if "has_type e v" for t v using that by (simp add: yields_basic)
  have copy: "yields ?P (bindS (attempt d) (\<lambda>r. case r of None \<Rightarrow> rest t | Some v \<Rightarrow> retS (t, n, v)))" for t
    by (rule yields_bind [OF yields_attempt [OF assms(1)]])
      (auto intro: here rest split: option.splits simp del: has_type_elements.simps)
  show ?thesis unfolding choice_element_def Let_def
    by (cases tag; cases "shape_of e") (auto intro!: yields_lift yields_basic intro: rest copy found simp del: has_type_elements.simps)
qed

lemma yields_choice:
  assumes "\<And>tag. yields (\<lambda>(t, m, v). has_type_elements fs m v) (f tag)"
  shows "yields (has_type (Elem c opt (Choice fs))) (choice_decode c f)"
  unfolding choice_decode_def
  by (rule yields_then, rule yields_with, rule yields_bind [OF assms]) (auto intro!: yields_then yields_basic)

lemma yields_items:
  "yields P d \<Longrightarrow> yields (\<lambda>r. list_all P (snd r)) (list_items k d tag)"
proof (induction k arbitrary: tag)
  case 0
  then show ?case by (simp add: yields_basic)
next
  case (Suc k)
  have item: "yields (\<lambda>r. list_all P (snd r))
      (withS (\<lambda>ts. bindS (list_items k d (tag_list_peek ts)) (\<lambda>(tag, vs). retS (tag, v # vs))))" if "P v" for v
    by (rule yields_with, rule yields_bind [OF Suc.IH [OF Suc.prems]])
      (use that in \<open>auto intro!: yields_basic\<close>)
  have "yields (\<lambda>r. list_all P (snd r)) (bindS (attempt d) (\<lambda>r. case r of
               None \<Rightarrow> retS (t, [])
             | Some v \<Rightarrow>
                 withS (\<lambda>ts. bindS (list_items k d (tag_list_peek ts)) (\<lambda>(tag, vs). retS (tag, v # vs)))))" for t
    by (rule yields_bind [OF yields_attempt [OF Suc.prems]]) (auto intro!: yields_basic item split: option.splits)
  then show ?case by (auto intro!: yields_basic split: option.splits)
qed

lemma yields_list:
  assumes "yields P d"
  shows "yields (\<lambda>v. \<exists>vs. v = VList vs \<and> list_all P vs) (list_decode c d)"
  unfolding list_decode_def
  by (rule yields_then, rule yields_with, rule yields_bind [OF yields_items [OF assms]])
    (auto intro!: yields_then yields_basic)

lemma yields_array:
  assumes "yields P d"
  shows "yields (\<lambda>v. \<exists>vs. v = VList vs \<and> (k \<noteq> None \<longrightarrow> k = Some (length vs)) \<and> list_all P vs) (array_decode c k d)"
  unfolding array_decode_def
  by (rule yields_bind [OF yields_list [OF assms]]) (auto intro!: yields_basic)

subsection \<open>Atoms\<close>

lemma bits_of_octet_bits: "list_all (\<lambda>b. b = 0 \<or> b = 1) (bits_of_octet x)"
  by (auto simp: bits_of_octet_def list_all_iff)

lemma bitstring_typed:
  "bitstring_of_data m d = Inr x \<Longrightarrow> m \<le> length x \<and> list_all (\<lambda>b. b = 0 \<or> b = 1) x"
  by (auto simp: bitstring_of_data_def bitstring_cast_def Let_def list_all_iff bits_of_octet_def
      split: list.splits if_splits dest!: in_set_takeD)

lemma octet_lt: "uint (b :: byte) < 256"
  using uint_lt2p [of b] by simp

lemma date_cast_octet: "date_cast (uint (a :: byte), q) = (uint a, q)"
  using octet_lt [of a] by (cases q) (simp add: date_cast_def)

lemma quads_typed: "date_of_data d = Inr q \<Longrightarrow> quad_ok q" "time_of_data d = Inr q \<Longrightarrow> quad_ok q"
  using octet_lt by (auto simp: date_of_data_def time_of_data_def date_cast_octet quad_ok_def split: list.splits)

lemma casts_typed:
  "unsigned_cast lo hi n = Inr m \<Longrightarrow> 0 \<le> m \<and> unsigned_cast lo hi m = Inr m"
  "integer_cast lo hi n = Inr m \<Longrightarrow> integer_cast lo hi m = Inr m"
  "enumerated_cast lo hi n = Inr m \<Longrightarrow> enumerated_cast lo hi m = Inr m"
  "octet_string_of_data mn mx x = Inr y \<Longrightarrow> octet_string_of_data mn mx y = Inr y"
  by (auto simp: unsigned_cast_def integer_cast_def enumerated_cast_def octet_string_of_data_def split: if_splits)

lemma object_identifier_typed:
  "object_identifier_of_data d = Inr x \<Longrightarrow> 0 \<le> fst x \<and> fst x \<le> 1023 \<and> 0 \<le> snd x \<and> snd x \<le> 4194303"
  by (auto simp: object_identifier_of_data_def object_identifier_cast_int_def enumerated_cast_def
      object_type_high_limit_def bindR_eq_Inr_iff int_and_low split: if_splits)

lemmas data_typed = casts_typed quads_typed object_identifier_typed bitstring_typed

lemma atom_decode_typed:
  assumes "atom_decode ty c ts = Inr (a, us)"
  shows "atom_typed ty a"
  using assms
  by (cases ty)
    (auto simp: atom_decoders as_atom_Inr bindR_eq_Inr_iff atom_typed_def unsigned_of_data_def integer_of_data_def
      float_of_data_def octets_of_data_def enumerated_of_data_def split: if_splits list.splits dest: data_typed)

lemma name_value_tags_application: "name_value_tags ts = (x, us) \<Longrightarrow> list_all (\<lambda>t. tag_class t = Application) x"
  by (auto simp: name_value_tags_def split: list.splits if_splits)

lemma decode_typed:
  "yields (has_type e) (decode e)"
  "yields (\<lambda>r. has_type_fields fs (snd r)) (decode_fields fs tag)"
  "yields (\<lambda>(t, n, v). has_type_elements fs n v) (decode_elements fs tag)"
proof (induction e and fs and fs arbitrary: and tag and tag rule: decode_decode_fields_decode_elements.induct)
  case (1 c opt ty)
  then show ?case
    by (auto simp: yields_def atom_action_def split: sum.splits prod.splits dest: atom_decode_typed)
next
  case (2 c opt fs)
  then show ?case unfolding decode.simps by (rule yields_sequence)
next
  case (3 c opt fs)
  then show ?case unfolding decode.simps by (rule yields_choice)
next
  case (4 c opt e)
  then show ?case using yields_list [of "has_type e" "decode e" c] by (fastforce simp: yields_def)
next
  case (5 c opt k e)
  then show ?case using yields_array [of "has_type e" "decode e" k c] by (fastforce simp: yields_def)
next
  case (6 c opt)
  then show ?case
    by (auto simp: yields_def any_decode_def split: list.splits tag_class.splits if_splits sum.splits prod.splits)
next
  case (7 c opt)
  then show ?case by (auto simp: yields_def any_atomic_decode_def split: prod.splits option.splits if_splits)
next
  case (8 c opt)
  then show ?case
    by (auto simp: yields_def name_value_decode_def split: list.splits if_splits sum.splits prod.splits
        dest: name_value_tags_application)
next
  case (10 n e fs)
  then show ?case unfolding decode_fields.simps by (rule yields_fields)
next
  case (12 n e fs)
  then show ?case unfolding decode_elements.simps by (rule yields_element)
qed (simp_all add: yields_basic)

section \<open>Properties\<close>

text \<open>
  Property C24. Type soundness of decoding: for every class, and whatever tags it is given, a
  decoder that returns returns a value of the class.
\<close>

theorem decoded_value_typed:
  assumes "decode e ts = (Inr v, us)"
  shows "has_type e v"
  using decode_typed(1) [of e] assms by (rule yieldsD)

theorem decoded_value_typed_witness:
  "has_type (ctx 2 (Sequence [(''low'', ctx 0 (Atomic (TUnsigned None None))), (''high'', ctx_opt 1 (Atomic (TUnsigned None None)))]))
     (VSequence [Some (VAtom (AUnsigned 7)), None])"
proof (rule decoded_value_typed)
  show "decode (ctx 2 (Sequence [(''low'', ctx 0 (Atomic (TUnsigned None None))), (''high'', ctx_opt 1 (Atomic (TUnsigned None None)))]))
      [opening_tag 2, context_tag 0 [7], closing_tag 2] = (Inr (VSequence [Some (VAtom (AUnsigned 7)), None]), [])"
    by code_simp
qed

end
