(* ===== verification/ReadBack.thy ===== *)
theory ReadBack
  imports Lookahead
begin

text \<open>
  The proof that a class that passes \<open>lookahead_ok\<close> reads back what it writes, by induction on
  the class: for the elements of a choice, the fields of a sequence and the items of a list
  the loop of the decoder takes the rounds that the encoder wrote.
\<close>

section \<open>Decoding what was encoded\<close>

lemma safe_stop: "safe e KStop" "safe_fields fs KStop" "safe_elements fs KStop"
  by (induction e and fs and fs rule: decode_decode_fields_decode_elements.induct) (simp_all add: field_skips_def)

lemma attempt_suffix: "d ts = (Inr v, us) \<Longrightarrow> (\<exists>p. ts = p @ us) \<Longrightarrow> attempt d ts = (Inr (Some v), us)"
  by (auto simp: attempt_def)

lemma reads_back_decode:
  "reads_back e v rest \<Longrightarrow> \<exists>ts. encode e v = Inr ts \<and> ts \<noteq> [] \<and> head_key (ts @ rest) \<in> set (firsts e) \<and>
    decode e (ts @ rest) = (Inr v, rest)"
  by (auto simp: reads_back_def head_key_append)

subsection \<open>Lists\<close>

lemma encode_list_simps [simp]:
  "encode_list enc [] = Inr []"
  "encode_list enc (v # vs) = bindR (enc v) (\<lambda>ts. bindR (encode_list enc vs) (\<lambda>us. Inr (ts @ us)))"
  by (simp_all add: encode_list_def)

lemma list_items_stop:
  "head_key ts = KStop \<or> gives_up d ts \<Longrightarrow> list_items (Suc k) d (tag_list_peek ts) ts = (Inr (tag_list_peek ts, []), ts)"
  by (cases ts) (auto simp: tag_key_iff act_simps gives_up_attempt)

lemma list_items_step:
  assumes "head_key ts \<noteq> KStop" "d ts = (Inr v, us)" "(\<exists>p. ts = p @ us)"
    "list_items k d (tag_list_peek us) us = (Inr (tag, vs), rest)"
  shows "list_items (Suc k) d (tag_list_peek ts) ts = (Inr (tag, v # vs), rest)"
  using assms by (cases ts) (auto simp: tag_key_iff act_simps attempt_suffix bindS_def)

lemma list_items_back:
  assumes reads: "\<And>v rest. v \<in> set vs \<Longrightarrow> safe e (head_key rest) \<Longrightarrow> reads_back e v rest"
    and firsts: "\<forall>k\<in>set (firsts e). safe e k \<and> k \<noteq> KStop"
    and rest: "safe e (head_key rest)" "head_key rest = KStop \<or> gives_up (decode e) rest"
  shows "\<exists>ts. encode_list (encode e) vs = Inr ts \<and> (ts = [] \<longleftrightarrow> vs = []) \<and>
    (vs \<noteq> [] \<longrightarrow> head_key ts \<in> set (firsts e)) \<and>
    (\<forall>k\<ge>length (ts @ rest).
       list_items (Suc k) (decode e) (tag_list_peek (ts @ rest)) (ts @ rest) = (Inr (tag_list_peek rest, vs), rest))"
  using reads
proof (induction vs)
  case Nil
  then show ?case using list_items_stop [OF rest(2)] by (simp del: list_items.simps)
next
  case (Cons v vs)
  obtain us where us: "encode_list (encode e) vs = Inr us" "us = [] \<longleftrightarrow> vs = []"
    "vs \<noteq> [] \<longrightarrow> head_key us \<in> set (firsts e)"
    "\<forall>k\<ge>length (us @ rest).
       list_items (Suc k) (decode e) (tag_list_peek (us @ rest)) (us @ rest) = (Inr (tag_list_peek rest, vs), rest)"
    using Cons.IH Cons.prems by auto
  have "safe e (head_key (us @ rest))" using us(2,3) firsts rest(1) by (auto simp: head_key_append)
  then have "reads_back e v (us @ rest)" using Cons.prems by simp
  then obtain ts where ts: "encode e v = Inr ts" "ts \<noteq> []" "head_key (ts @ us @ rest) \<in> set (firsts e)"
    "decode e (ts @ us @ rest) = (Inr v, us @ rest)"
    using reads_back_decode by blast
  have items: "list_items (Suc k) (decode e) (tag_list_peek (ts @ us @ rest)) (ts @ us @ rest) =
      (Inr (tag_list_peek rest, v # vs), rest)" if k: "length (ts @ us @ rest) \<le> k" for k
  proof -
    obtain j where j: "k = Suc j" "length (us @ rest) \<le> j" using k ts(2) by (cases k; cases ts) auto
    show ?thesis unfolding j(1)
      using firsts ts(3,4) us(4) j(2) by (intro list_items_step) auto
  qed
  have "encode_list (encode e) (v # vs) = Inr (ts @ us)" using ts(1) us(1) by simp
  moreover have "head_key (ts @ us) \<in> set (firsts e)" using ts(2,3) by (simp add: head_key_append)
  ultimately show ?case using ts(2) items by (intro exI [of _ "ts @ us"]) auto
qed


lemma reads_back_list:
  assumes reads: "\<And>v rest. v \<in> set vs \<Longrightarrow> safe e (head_key rest) \<Longrightarrow> reads_back e v rest"
    and firsts: "\<forall>k\<in>set (firsts e). safe e k \<and> k \<noteq> KStop"
    and rest: "c = None \<Longrightarrow> vs \<noteq> [] \<and> safe e (head_key rest) \<and> (head_key rest = KStop \<or> gives_up (decode e) rest)"
  shows "\<exists>ts. encode_list (encode e) vs = Inr ts \<and> bracket c ts \<noteq> [] \<and>
    head_key (bracket c ts) \<in> set (case c of None \<Rightarrow> firsts e | Some n \<Rightarrow> [KOpen n]) \<and>
    list_decode c (decode e) (bracket c ts @ rest) = (Inr (VList vs), rest)"
proof (cases c)
  case None
  then obtain ts where "encode_list (encode e) vs = Inr ts" "ts = [] \<longleftrightarrow> vs = []" "head_key ts \<in> set (firsts e)"
    "\<forall>k\<ge>length (ts @ rest).
       list_items (Suc k) (decode e) (tag_list_peek (ts @ rest)) (ts @ rest) = (Inr (tag_list_peek rest, vs), rest)"
    using list_items_back [OF reads firsts, of vs rest] rest by auto
  then show ?thesis using None rest
    by (simp add: bracket_def list_decode_def act_simps del: list_items.simps)
next
  case (Some n)
  obtain ts where ts: "encode_list (encode e) vs = Inr ts"
    "\<forall>k\<ge>length (ts @ closing_tag n # rest). list_items (Suc k) (decode e)
       (tag_list_peek (ts @ closing_tag n # rest)) (ts @ closing_tag n # rest) =
         (Inr (Some (closing_tag n), vs), closing_tag n # rest)"
    using list_items_back [OF reads firsts, of vs "closing_tag n # rest"] by (auto simp: safe_stop)
  then show ?thesis using Some
    by (simp add: bracket_def list_decode_def act_simps del: list_items.simps)
qed

subsection \<open>Elements of a choice\<close>

lemma element_taken_correct:
  assumes "element_taken c e (head_key ts)" "d ts = (Inr v, us)" "\<exists>p. ts = p @ us"
  shows "\<exists>tag. choice_element n e d rest (tag_list_peek ts) ts = (Inr (tag, n, v), us) \<and>
    (c \<noteq> None \<longrightarrow> tag = tag_list_peek us)"
proof (cases ts)
  case Nil
  then show ?thesis using assms(1) by (simp add: element_taken_def)
next
  case (Cons t ts')
  show ?thesis
  proof (cases "tag_class t = Application \<and> constructed (shape_of e)")
    case True
    then have "c = None" using assms(1) Cons
      by (cases "shape_of e") (auto simp: element_taken_def tag_key_def constructed_def)
    then show ?thesis using True Cons attempt_suffix [of d, OF assms(2,3)]
      by (cases "shape_of e") (auto simp: choice_element_def constructed_def act_simps)
  next
    case False
    then show ?thesis using assms Cons
      by (cases "tag_class t"; cases "shape_of e")
        (auto simp: element_taken_def tag_key_def choice_element_def constructed_def app_class_matches_eq act_simps
          bindS_def)
  qed
qed

definition elements_back :: "int option \<Rightarrow> fields \<Rightarrow> string \<Rightarrow> val \<Rightarrow> tag list \<Rightarrow> bool" where
  "elements_back c fs n v rest \<longleftrightarrow>
     (\<exists>ts tag. encode_choice fs n v = Inr ts \<and> ts \<noteq> [] \<and> head_key (ts @ rest) \<in> set (firsts_elements fs) \<and>
        decode_elements fs (tag_list_peek (ts @ rest)) (ts @ rest) = (Inr (tag, n, v), rest) \<and>
        (c \<noteq> None \<longrightarrow> tag = tag_list_peek rest))"

lemma elements_back_here:
  assumes "reads_back e v rest" "list_all (element_taken c e) (firsts e)"
  shows "elements_back c ((n, e) # fs) n v rest"
proof -
  obtain ts where ts: "encode e v = Inr ts" "ts \<noteq> []" "head_key (ts @ rest) \<in> set (firsts e)"
    "decode e (ts @ rest) = (Inr v, rest)"
    using reads_back_decode [OF assms(1)] by blast
  then have "element_taken c e (head_key (ts @ rest))" using assms(2) by (simp add: list_all_iff)
  then obtain tag where "choice_element n e (decode e) (decode_elements fs) (tag_list_peek (ts @ rest)) (ts @ rest) =
      (Inr (tag, n, v), rest)" "c \<noteq> None \<longrightarrow> tag = tag_list_peek rest"
    using element_taken_correct [where ts = "ts @ rest" and us = rest and d = "decode e"] ts(4) by blast
  then show ?thesis using ts by (auto simp: elements_back_def)
qed

lemma elements_back_later:
  assumes "elements_back c fs n v rest" "m \<noteq> n"
    "list_all (\<lambda>k. element_passes e k (refuses e k)) (firsts_elements fs)"
  shows "elements_back c ((m, e) # fs) n v rest"
proof -
  obtain ts tag where ts: "encode_choice fs n v = Inr ts" "ts \<noteq> []" "head_key (ts @ rest) \<in> set (firsts_elements fs)"
    "decode_elements fs (tag_list_peek (ts @ rest)) (ts @ rest) = (Inr (tag, n, v), rest)"
    "c \<noteq> None \<longrightarrow> tag = tag_list_peek rest"
    using assms(1) by (auto simp: elements_back_def)
  then have "element_passes e (head_key (ts @ rest)) (refuses e (head_key (ts @ rest)))"
    using assms(3) by (simp add: list_all_iff)
  then have "choice_element m e (decode e) (decode_elements fs) (tag_list_peek (ts @ rest)) (ts @ rest) =
      decode_elements fs (tag_list_peek (ts @ rest)) (ts @ rest)"
    using element_passes_correct refuses_correct(1) by blast
  then show ?thesis using ts assms(2) by (auto simp: elements_back_def)
qed

lemma reads_back_choice:
  assumes "elements_back c fs n v (case c of None \<Rightarrow> rest | Some n \<Rightarrow> closing_tag n # rest)"
  shows "reads_back (Elem c opt (Choice fs)) (VChoice n v) rest"
proof (cases c)
  case None
  then obtain ts tag where "encode_choice fs n v = Inr ts" "ts \<noteq> []" "head_key (ts @ rest) \<in> set (firsts_elements fs)"
    "decode_elements fs (tag_list_peek (ts @ rest)) (ts @ rest) = (Inr (tag, n, v), rest)"
    using assms by (auto simp: elements_back_def)
  then show ?thesis using None
    by (simp add: reads_back_def bracket_def choice_decode_def act_simps head_key_append)
next
  case (Some k)
  then obtain ts where "encode_choice fs n v = Inr ts"
    "decode_elements fs (tag_list_peek (ts @ closing_tag k # rest)) (ts @ closing_tag k # rest) =
       (Inr (Some (closing_tag k), n, v), closing_tag k # rest)"
    using assms by (auto simp: elements_back_def)
  then show ?thesis using Some
    by (simp add: reads_back_def bracket_def choice_decode_def act_simps)
qed


subsection \<open>Fields of a sequence\<close>

definition fields_back :: "fields \<Rightarrow> val option list \<Rightarrow> tag list \<Rightarrow> bool" where
  "fields_back fs vs rest \<longleftrightarrow>
     (\<exists>ts. encode_fields fs vs = Inr ts \<and> (ts = [] \<longrightarrow> all_optional fs) \<and>
        (ts \<noteq> [] \<longrightarrow> head_key ts \<in> set (firsts_fields fs)) \<and>
        decode_fields fs (tag_list_peek (ts @ rest)) (ts @ rest) = (Inr (tag_list_peek rest, vs), rest))"

lemma choice_field_stale:
  assumes "is_choice f" "tag_class t \<noteq> Closing" "head_key us \<noteq> KStop"
  shows "decode_fields ((m, f) # gs) (Some t) = decode_fields ((m, f) # gs) (tag_list_peek us)"
  using assms by (cases us) (auto simp: sequence_fields_def sequence_field_def tag_key_iff fun_eq_iff)

lemma field_taken_correct:
  assumes "field_taken e fs (head_key ts)" "d ts = (Inr v, us)" "\<exists>p. ts = p @ us"
  shows "\<exists>tag. sequence_field e d (tag_list_peek ts) ts = (Inr (tag, Some v), us) \<and>
    (tag = tag_list_peek us \<or>
     (\<exists>t m f gs. tag = Some t \<and> tag_class t \<noteq> Closing \<and> fs = (m, f) # gs \<and> is_choice f \<and> \<not> is_optional f))"
proof -
  have direct: "decode_next d ts = (Inr (tag_list_peek us, Some v), us)"
    using assms(2) by (rule decode_next_Inr)
  show ?thesis
  proof (cases "listed e")
    case True
    then show ?thesis using assms(1) direct by (simp add: sequence_field_listed field_taken_def)
  next
    case False
    show ?thesis
    proof (cases "head_key ts")
      case (KApp n)
      show ?thesis
      proof (cases "constructed (shape_of e)")
        case True
        then show ?thesis using False KApp direct by (simp add: sequence_field_other on_invalid_tag_def)
      next
        case c: False
        then obtain ty where "shape_of e = Atomic ty" by (cases "shape_of e") (auto simp: constructed_def)
        then show ?thesis using assms(1) False KApp direct
          by (auto simp: field_taken_def listed_def sequence_field_atomic)
      qed
    next
      case (KCtx n)
      then obtain t where t: "tag_list_peek ts = Some t" "tag_class t \<noteq> Closing"
        by (cases ts) (auto simp: tag_key_iff)
      have eq: "sequence_field e d (tag_list_peek ts) ts =
          (if context_of e = Some n then decode_next d ts else bindS (attempt d) (\<lambda>v. retS (tag_list_peek ts, v)) ts)"
        using sequence_field_context [of ts n e d] KCtx False assms(1) by (auto simp: field_taken_def listed_def)
      show ?thesis unfolding eq using assms(1) False KCtx direct attempt_suffix [of d, OF assms(2,3)] t
        by (auto simp: field_taken_def listed_def act_simps split: list.splits)
    next
      case (KOpen n)
      then show ?thesis using assms(1) False direct
        by (auto simp: field_taken_def listed_def sequence_field_context)
    qed (use assms(1) in \<open>simp add: field_taken_def\<close>)
  qed
qed

lemma fields_back_next:
  assumes "fields_back fs vs rest" "all_optional fs \<longrightarrow> P (head_key rest)" "list_all P (firsts_fields fs)"
  shows "\<exists>ts. encode_fields fs vs = Inr ts \<and> (ts = [] \<longrightarrow> all_optional fs) \<and>
    (ts \<noteq> [] \<longrightarrow> head_key ts \<in> set (firsts_fields fs)) \<and>
    decode_fields fs (tag_list_peek (ts @ rest)) (ts @ rest) = (Inr (tag_list_peek rest, vs), rest) \<and>
    P (head_key (ts @ rest))"
  using assms by (fastforce simp: fields_back_def head_key_append list_all_iff)

lemma fields_back_absent:
  assumes "fields_back fs vs rest" "is_optional e"
    "all_optional fs \<longrightarrow> field_skips e (head_key rest) (refuses e (head_key rest))"
    "list_all (\<lambda>k. field_skips e k (refuses e k)) (firsts_fields fs)"
  shows "fields_back ((n, e) # fs) (None # vs) rest"
proof -
  obtain ts where ts: "encode_fields fs vs = Inr ts" "ts = [] \<longrightarrow> all_optional fs"
    "ts \<noteq> [] \<longrightarrow> head_key ts \<in> set (firsts_fields fs)"
    "decode_fields fs (tag_list_peek (ts @ rest)) (ts @ rest) = (Inr (tag_list_peek rest, vs), rest)"
    "field_skips e (head_key (ts @ rest)) (refuses e (head_key (ts @ rest)))"
    using fields_back_next [OF assms(1,3,4)] by blast
  have "sequence_field e (decode e) (tag_list_peek (ts @ rest)) (ts @ rest) =
      (Inr (tag_list_peek (ts @ rest), None), ts @ rest)"
    using ts(5) refuses_correct(1) refused_app by (rule field_skips_correct)
  then show ?thesis using ts assms(2)
    by (auto simp: fields_back_def sequence_fields_def act_simps all_optional_def bindS_def)
qed

lemma firsts_not_stop: "lookahead_fields ((m, f) # gs) \<Longrightarrow> k \<in> set (firsts f) \<Longrightarrow> k \<noteq> KStop"
  by (auto simp: list_all_iff field_taken_def)

lemma fields_back_present:
  assumes "fields_back fs vs rest" and reads: "\<And>rest. safe e (head_key rest) \<Longrightarrow> reads_back e v rest"
    and "all_optional fs \<longrightarrow> safe e (head_key rest)" "list_all (safe e) (firsts_fields fs)"
    and taken: "list_all (field_taken e fs) (firsts e)" "lookahead_fields fs"
  shows "fields_back ((n, e) # fs) (Some v # vs) rest"
proof -
  obtain us where us: "encode_fields fs vs = Inr us" "us = [] \<longrightarrow> all_optional fs"
    "us \<noteq> [] \<longrightarrow> head_key us \<in> set (firsts_fields fs)"
    "decode_fields fs (tag_list_peek (us @ rest)) (us @ rest) = (Inr (tag_list_peek rest, vs), rest)"
    "safe e (head_key (us @ rest))"
    using fields_back_next [OF assms(1,3,4)] by blast
  obtain ts where ts: "encode e v = Inr ts" "ts \<noteq> []" "head_key (ts @ us @ rest) \<in> set (firsts e)"
    "decode e (ts @ us @ rest) = (Inr v, us @ rest)"
    using reads_back_decode [OF reads [OF us(5)]] by blast
  have "field_taken e fs (head_key (ts @ us @ rest))" using ts(3) taken(1) by (simp add: list_all_iff)
  then obtain tag where tag: "sequence_field e (decode e) (tag_list_peek (ts @ us @ rest)) (ts @ us @ rest) =
      (Inr (tag, Some v), us @ rest)"
    "tag = tag_list_peek (us @ rest) \<or>
     (\<exists>t m f gs. tag = Some t \<and> tag_class t \<noteq> Closing \<and> fs = (m, f) # gs \<and> is_choice f \<and> \<not> is_optional f)"
    using field_taken_correct [where ts = "ts @ us @ rest" and us = "us @ rest" and d = "decode e"] ts(4) by blast
  from tag(2) have "decode_fields fs tag (us @ rest) = (Inr (tag_list_peek rest, vs), rest)"
  proof (elim disjE exE conjE)
    fix t m f gs
    assume t: "tag = Some t" "tag_class t \<noteq> Closing" and fs: "fs = (m, f) # gs" "is_choice f" "\<not> is_optional f"
    have "us \<noteq> []" using us(2) fs by (auto simp: all_optional_def)
    moreover have "head_key us \<noteq> KStop" using us(3) fs taken(2) firsts_not_stop [of m f gs] \<open>us \<noteq> []\<close> by auto
    ultimately have "head_key (us @ rest) \<noteq> KStop" by (simp add: head_key_append)
    then show ?thesis using choice_field_stale [OF fs(2) t(2)] t(1) us(4) unfolding fs(1) by metis
  qed (simp add: us(4))
  then show ?thesis using ts us(1) tag(1)
    by (auto simp: fields_back_def sequence_fields_def act_simps head_key_append bindS_def)
qed

lemma reads_back_sequence:
  assumes "fields_back fs vs (case c of None \<Rightarrow> rest | Some n \<Rightarrow> closing_tag n # rest)" "c = None \<longrightarrow> \<not> all_optional fs"
  shows "reads_back (Elem c opt (Sequence fs)) (VSequence vs) rest"
proof (cases c)
  case None
  then obtain ts where "encode_fields fs vs = Inr ts" "ts \<noteq> []" "head_key ts \<in> set (firsts_fields fs)"
    "decode_fields fs (tag_list_peek (ts @ rest)) (ts @ rest) = (Inr (tag_list_peek rest, vs), rest)"
    using assms by (auto simp: fields_back_def)
  then show ?thesis using None
    by (simp add: reads_back_def bracket_def sequence_decode_def act_simps)
next
  case (Some k)
  then obtain ts where "encode_fields fs vs = Inr ts"
    "decode_fields fs (tag_list_peek (ts @ closing_tag k # rest)) (ts @ closing_tag k # rest) =
       (Inr (Some (closing_tag k), vs), closing_tag k # rest)"
    using assms by (auto simp: fields_back_def)
  then show ?thesis using Some
    by (simp add: reads_back_def bracket_def sequence_decode_def act_simps)
qed


subsection \<open>All classes\<close>

lemma firsts_no_stop: "KStop \<notin> set (firsts e)" "KStop \<notin> set (firsts_fields fs)" "KStop \<notin> set (firsts_elements fs)"
  by (induction e and fs and fs rule: decode_decode_fields_decode_elements.induct) (auto split: option.splits)

lemma reads_back_lookahead:
  "lookahead_ok e \<Longrightarrow> val_ok e v \<Longrightarrow> safe e (head_key rest) \<Longrightarrow> reads_back e v rest"
  "lookahead_fields fs \<Longrightarrow> val_ok_fields fs vs \<Longrightarrow> safe_fields fs (head_key rest) \<Longrightarrow> fields_back fs vs rest"
  "lookahead_elements c fs \<Longrightarrow> val_ok_elements fs n v \<Longrightarrow>
    (if c = None then safe_elements fs (head_key rest) else head_key rest = KStop) \<Longrightarrow> elements_back c fs n v rest"
proof (induction e and fs and fs arbitrary: v rest and vs rest and c n v rest
    rule: decode_decode_fields_decode_elements.induct)
  case (1 c opt ty)
  then show ?case by (intro reads_back_atom)
next
  case (2 c opt fs)
  from 2(3) obtain vs where vs: "v = VSequence vs" "val_ok_fields fs vs" by (cases v) auto
  have "fields_back fs vs (case c of None \<Rightarrow> rest | Some n \<Rightarrow> closing_tag n # rest)"
    using 2 vs by (cases c) (auto simp: safe_stop)
  then show ?case using 2(2) vs(1) by (auto intro: reads_back_sequence)
next
  case (3 c opt fs)
  from 3(3) obtain m x where x: "v = VChoice m x" "val_ok_elements fs m x" by (cases v) auto
  have "elements_back c fs m x (case c of None \<Rightarrow> rest | Some n \<Rightarrow> closing_tag n # rest)"
    using 3(1) [of c m x] 3(2,4) x(2) by (cases c) auto
  then show ?case using x(1) by (auto intro: reads_back_choice)
next
  case (4 c opt e)
  from 4(3) obtain vs where vs: "v = VList vs" "c = None \<longrightarrow> vs \<noteq> []" "list_all (val_ok e) vs" by (cases v) auto
  have "\<exists>ts. encode_list (encode e) vs = Inr ts \<and> bracket c ts \<noteq> [] \<and>
    head_key (bracket c ts) \<in> set (case c of None \<Rightarrow> firsts e | Some n \<Rightarrow> [KOpen n]) \<and>
    list_decode c (decode e) (bracket c ts @ rest) = (Inr (VList vs), rest)"
    using 4 vs by (intro reads_back_list) (auto simp: list_all_iff firsts_no_stop refuses_correct intro: ccontr)
  then show ?case using vs(1) by (auto simp: reads_back_def split: option.splits)
next
  case (5 c opt m e)
  from 5(3) obtain vs where vs: "v = VList vs" "c = None \<longrightarrow> vs \<noteq> []" "list_all (val_ok e) vs"
    "m \<noteq> None \<longrightarrow> m = Some (length vs)" by (cases v) auto
  have "\<exists>ts. encode_list (encode e) vs = Inr ts \<and> bracket c ts \<noteq> [] \<and>
    head_key (bracket c ts) \<in> set (case c of None \<Rightarrow> firsts e | Some n \<Rightarrow> [KOpen n]) \<and>
    list_decode c (decode e) (bracket c ts @ rest) = (Inr (VList vs), rest)"
    using 5 vs by (intro reads_back_list) (auto simp: list_all_iff firsts_no_stop refuses_correct intro: ccontr)
  then show ?case using vs(1,4)
    by (auto simp: reads_back_def array_decode_def act_simps split: option.splits)
next
  case (6 c opt)
  then show ?case by (cases c) (auto intro: reads_back_any simp del: val_ok.simps)
next
  case (7 c opt)
  then show ?case by (intro reads_back_any_atomic)
next
  case (8 c opt)
  then show ?case by (intro reads_back_name_value)
next
  case 9
  then show ?case by (simp add: fields_back_def act_simps all_optional_def)
next
  case (10 n e fs)
  then obtain x xs where vs: "vs = x # xs" "val_ok_fields fs xs" by (cases vs) (auto split: option.splits)
  have fs: "fields_back fs xs rest" using 10(2,3,5) vs(2) by simp
  show ?case
  proof (cases x)
    case None
    then show ?thesis using 10(3,4,5) vs fs
      by (auto simp: list_all_iff all_optional_def intro!: fields_back_absent)
  next
    case (Some v)
    then have "\<And>rest. safe e (head_key rest) \<Longrightarrow> reads_back e v rest" using 10(1,3,4) vs by simp
    then show ?thesis using 10(3,5) vs(1) Some fs
      by (auto simp: list_all_iff intro!: fields_back_present)
  qed
next
  case 11
  then show ?case by simp
next
  case (12 m e fs)
  show ?case
  proof (cases "m = n")
    case True
    then have "safe e (head_key rest)" using 12(5) by (cases c) (auto simp: safe_stop)
    then have "reads_back e v rest" using 12(1,3,4) True by simp
    then show ?thesis using 12(3) True by (auto intro: elements_back_here)
  next
    case False
    have "elements_back c fs n v rest" using 12(2,3,4,5) False by (auto split: if_splits)
    then show ?thesis using 12(3) False by (auto intro: elements_back_later)
  qed
qed

end
