(* ===== verification/Returning.thy ===== *)
theory Returning
  imports Lookahead
begin

text \<open>
  Every decoder of a constructed type returns, for any tags: each round of the loop of a list
  consumes a tag when the items of the list cannot be decoded from nothing, which
  \<open>items_consume\<close> decides from the class.
\<close>

section \<open>Every decoder returns\<close>

definition shrinks :: "(tag list, 'a) action \<Rightarrow> bool" where
  "shrinks m \<longleftrightarrow> (\<forall>ts. length (snd (m ts)) \<le> length ts)"

definition consumes :: "(tag list, 'a) action \<Rightarrow> bool" where
  "consumes m \<longleftrightarrow> (\<forall>ts v us. m ts = (Inr v, us) \<longrightarrow> length us < length ts)"

definition returns :: "(tag list, 'a) action \<Rightarrow> bool" where
  "returns m \<longleftrightarrow> (\<forall>ts. fst (m ts) \<noteq> Inl NoReturn)"

lemma bindS_cases:
  assumes "bindS m f ts = (r, vs)"
  obtains e where "m ts = (Inl e, vs)" "r = Inl e" | x us where "m ts = (Inr x, us)" "f x us = (r, vs)"
  using assms by (cases "m ts"; cases "fst (m ts)") (auto simp: bindS_def)

lemma shrinksI: "(\<And>ts r us. m ts = (r, us) \<Longrightarrow> length us \<le> length ts) \<Longrightarrow> shrinks m"
  by (metis shrinks_def prod.collapse)

lemma shrinksD: "shrinks m \<Longrightarrow> m ts = (r, us) \<Longrightarrow> length us \<le> length ts"
  by (metis shrinks_def snd_conv)

lemma consumesD: "consumes m \<Longrightarrow> m ts = (Inr v, us) \<Longrightarrow> length us < length ts"
  by (simp add: consumes_def)

lemma returnsI: "(\<And>ts us. m ts = (Inl NoReturn, us) \<Longrightarrow> False) \<Longrightarrow> returns m"
  unfolding returns_def by (metis prod.collapse)

lemma returnsD: "returns m \<Longrightarrow> m ts \<noteq> (Inl NoReturn, us)"
  by (metis returns_def fst_conv)

lemma shrinks_basic: "shrinks (retS x)" "shrinks (raiseS e)" "shrinks (liftS r)"
  by (simp_all add: shrinks_def act_simps)

lemma shrinks_bind:
  assumes "shrinks m" "\<And>x. shrinks (f x)"
  shows "shrinks (bindS m f)"
proof (rule shrinksI)
  fix ts r vs
  assume "bindS m f ts = (r, vs)"
  then show "length vs \<le> length ts"
    by (rule bindS_cases) (metis shrinksD assms le_trans)+
qed

lemma shrinks_with: "(\<And>x. shrinks (f x)) \<Longrightarrow> shrinks (withS f)"
  by (simp add: shrinks_def act_simps)

lemma shrinks_attempt: "shrinks (attempt d)"
  by (auto simp: shrinks_def attempt_def split: prod.splits sum.splits)

lemma shrinks_invalid: "shrinks m \<Longrightarrow> shrinks h \<Longrightarrow> shrinks (on_invalid_tag m h)"
  by (rule shrinksI)
    (auto simp: on_invalid_tag_def split: prod.splits sum.splits if_splits dest!: shrinksD)

lemma pop_length: "length (snd (tag_list_pop ts)) \<le> length ts"
  by (cases ts) auto

lemma shrinks_open: "shrinks (open_context c)" "shrinks (close_context c tag)"
  by (auto simp: shrinks_def open_context_def close_context_def pop_length split: option.splits)

lemma consumes_open: "consumes (open_context (Some n))"
  unfolding consumes_def
proof (intro allI impI)
  fix ts v us
  assume "open_context (Some n) ts = (Inr v, us)"
  then show "length us < length ts" by (cases ts) (auto simp: open_context_def split: if_splits)
qed

lemma consumes_bind:
  assumes "consumes m" "\<And>x. shrinks (f x)"
  shows "consumes (bindS m f)"
  unfolding consumes_def
  by (intro allI impI, erule bindS_cases) (simp, metis consumesD shrinksD assms le_less_trans)

lemma consumes_bind_later:
  assumes "shrinks m" "\<And>x. consumes (f x)"
  shows "consumes (bindS m f)"
  unfolding consumes_def
  by (intro allI impI, erule bindS_cases) (simp, metis consumesD shrinksD assms less_le_trans)

lemma consumes_with: "(\<And>x. consumes (f x)) \<Longrightarrow> consumes (withS f)"
  by (simp add: consumes_def act_simps)

lemma consumes_raise: "consumes (raiseS e)"
  by (simp add: consumes_def act_simps)

lemma returns_basic: "returns (retS x)" "e \<noteq> NoReturn \<Longrightarrow> returns (raiseS e)"
  by (simp_all add: returns_def act_simps)

lemma returns_bind:
  assumes "returns m" "\<And>x. returns (f x)"
  shows "returns (bindS m f)"
  by (rule returnsI, erule bindS_cases) (use assms in \<open>auto dest: returnsD\<close>)

lemma returns_with: "(\<And>x. returns (f x)) \<Longrightarrow> returns (withS f)"
  by (simp add: returns_def act_simps)

lemma returns_attempt: "returns d \<Longrightarrow> returns (attempt d)"
  by (rule returnsI) (auto simp: attempt_def split: prod.splits sum.splits if_splits dest: returnsD)

lemma returns_invalid: "returns m \<Longrightarrow> returns h \<Longrightarrow> returns (on_invalid_tag m h)"
  by (rule returnsI) (auto simp: on_invalid_tag_def split: prod.splits sum.splits if_splits dest: returnsD)

lemma returns_open: "returns (open_context c)" "returns (close_context c tag)"
  by (auto simp: returns_def open_context_def close_context_def split: option.splits)

lemma pop_tag_length: "pop_tag c n ts = Inr (t, us) \<Longrightarrow> Suc (length us) = length ts"
  by (cases ts) (auto simp: pop_tag_def split: tag_class.splits option.splits if_splits)

lemma pop_tag_errors: "pop_tag c n ts \<noteq> Inl NoReturn"
  by (cases ts) (auto simp: pop_tag_def split: tag_class.splits option.splits)

lemma of_data_returns:
  "null_of_data d \<noteq> Inl NoReturn" "unsigned_of_data lo hi d \<noteq> Inl NoReturn" "integer_of_data lo hi d \<noteq> Inl NoReturn"
  "float_of_data k d \<noteq> Inl NoReturn" "octet_string_of_data mn mx d \<noteq> Inl NoReturn" "octets_of_data ls d \<noteq> Inl NoReturn"
  "enumerated_of_data lo hi d \<noteq> Inl NoReturn" "object_identifier_of_data d \<noteq> Inl NoReturn"
  by (auto simp: null_of_data_def unsigned_of_data_def unsigned_cast_def integer_of_data_def integer_cast_def
      float_of_data_def octet_string_of_data_def octets_of_data_def enumerated_of_data_def enumerated_cast_def
      object_identifier_of_data_def object_identifier_cast_int_def)

lemma of_data_returns_cases:
  "string_of_data d \<noteq> Inl NoReturn" "bitstring_of_data k d \<noteq> Inl NoReturn"
  "date_of_data d \<noteq> Inl NoReturn" "time_of_data d \<noteq> Inl NoReturn"
  by (auto simp: string_of_data_def bitstring_of_data_def date_of_data_def time_of_data_def need_def Let_def
      split: list.splits option.splits)

lemma atom_decode_length: "atom_decode ty c ts = Inr (a, us) \<Longrightarrow> Suc (length us) = length ts"
  by (cases ty) (auto simp: atom_decoders as_atom_Inr bindR_eq_Inr_iff split: if_splits list.splits dest: pop_tag_length)

lemma atom_decode_returns: "atom_decode ty c ts \<noteq> Inl NoReturn"
  by (cases ty) (auto simp: atom_decoders as_atom_Inl_iff bindR_eq_Inl_iff pop_tag_errors of_data_returns
      of_data_returns_cases split: if_splits list.splits)


subsection \<open>Decoders consume\<close>

lemmas shrinks_rules = shrinks_bind shrinks_with shrinks_basic shrinks_attempt shrinks_invalid shrinks_open

lemma shrinks_next: "shrinks d \<Longrightarrow> shrinks (decode_next d)"
  unfolding decode_next_def by (intro shrinks_rules)

lemma shrinks_absent: "shrinks (absent_field e tag)"
  by (simp add: absent_field_def shrinks_basic)

lemma shrinks_field: "shrinks d \<Longrightarrow> shrinks (sequence_field e d tag)"
  unfolding sequence_field_def
  by (cases tag; cases "shape_of e")
    (auto intro!: shrinks_bind shrinks_basic shrinks_attempt shrinks_invalid shrinks_next shrinks_absent)

lemma shrinks_fields: "shrinks d \<Longrightarrow> (\<And>tag. shrinks (rest tag)) \<Longrightarrow> shrinks (sequence_fields e d rest tag)"
  unfolding sequence_fields_def by (auto intro!: shrinks_bind shrinks_basic shrinks_field split: prod.splits)

lemma shrinks_sequence: "(\<And>tag. shrinks (f tag)) \<Longrightarrow> shrinks (sequence_decode c f)"
  unfolding sequence_decode_def by (auto intro!: shrinks_bind shrinks_with shrinks_basic shrinks_open split: prod.splits)

lemma shrinks_element: "shrinks d \<Longrightarrow> (\<And>tag. shrinks (rest tag)) \<Longrightarrow> shrinks (choice_element n e d rest tag)"
  unfolding choice_element_def Let_def
  by (cases tag; cases "shape_of e")
    (auto intro!: shrinks_bind shrinks_with shrinks_basic shrinks_attempt split: option.splits)

lemma shrinks_choice: "(\<And>tag. shrinks (f tag)) \<Longrightarrow> shrinks (choice_decode c f)"
  unfolding choice_decode_def by (auto intro!: shrinks_bind shrinks_with shrinks_basic shrinks_open split: prod.splits)

lemma shrinks_items: "shrinks (list_items k d tag)"
  by (induction k arbitrary: tag)
    (auto intro!: shrinks_bind shrinks_with shrinks_basic shrinks_attempt split: option.splits prod.splits)

lemma shrinks_list: "shrinks (list_decode c d)"
  unfolding list_decode_def
  by (auto intro!: shrinks_bind shrinks_with shrinks_basic shrinks_open shrinks_items
      split: prod.splits simp del: list_items.simps)

lemma shrinks_array: "shrinks (array_decode c k d)"
  unfolding array_decode_def by (auto intro!: shrinks_bind shrinks_basic shrinks_list split: val.splits)

lemma consumes_atom: "consumes (atom_action ty c)"
  by (auto simp: consumes_def atom_action_def split: sum.splits prod.splits dest!: atom_decode_length)

lemma shrinks_atom: "shrinks (atom_action ty c)"
  by (rule shrinksI) (auto simp: atom_action_def pop_length split: sum.splits prod.splits dest!: atom_decode_length)

lemma any_length: "shrinks (any_decode c)" "consumes (any_decode c)"
  by (auto intro!: shrinksI simp: consumes_def any_decode_def split: list.splits tag_class.splits if_splits sum.splits prod.splits)

lemma any_atomic_length: "shrinks any_atomic_decode" "consumes any_atomic_decode"
proof -
  have "any_atomic_decode ts = (r, us) \<Longrightarrow> length us \<le> length ts \<and> (\<forall>v. r = Inr v \<longrightarrow> length us < length ts)" for ts r us
    by (cases ts) (auto simp: any_atomic_decode_def split: if_splits)
  then show "shrinks any_atomic_decode" "consumes any_atomic_decode"
    by (auto intro!: shrinksI simp: consumes_def)
qed

lemma name_value_tags_length: "name_value_tags ts = (x, us) \<Longrightarrow> length us \<le> length ts"
  by (auto simp: name_value_tags_def split: list.splits if_splits)

lemma name_value_length: "shrinks name_value_decode" "consumes name_value_decode"
proof -
  have "name_value_decode ts = (r, us) \<Longrightarrow> length us \<le> length ts \<and> (\<forall>v. r = Inr v \<longrightarrow> length us < length ts)" for ts r us
    by (cases ts) (auto simp: name_value_decode_def split: if_splits sum.splits prod.splits dest!: name_value_tags_length)
  then show "shrinks name_value_decode" "consumes name_value_decode"
    by (auto intro!: shrinksI simp: consumes_def)
qed

lemma shrinks_decode:
  "shrinks (decode e)" "shrinks (decode_fields fs tag)" "shrinks (decode_elements fs tag)"
  by (induction e and fs and fs arbitrary: and tag and tag rule: decode_decode_fields_decode_elements.induct)
    (auto intro: shrinks_atom shrinks_sequence shrinks_choice shrinks_list shrinks_array any_length any_atomic_length
      name_value_length shrinks_basic shrinks_fields shrinks_element)

text \<open>A value is decoded from at least one tag.\<close>

fun consuming :: "elem \<Rightarrow> bool"
and consuming_fields :: "fields \<Rightarrow> bool"
and consuming_elements :: "fields \<Rightarrow> bool" where
  "consuming (Elem c opt (Atomic ty)) = True"
| "consuming (Elem c opt (Sequence fs)) = (c \<noteq> None \<or> consuming_fields fs)"
| "consuming (Elem c opt (Choice fs)) = (c \<noteq> None \<or> consuming_elements fs)"
| "consuming (Elem c opt (SequenceOf e)) = (c \<noteq> None)"
| "consuming (Elem c opt (ArrayOf m e)) = (c \<noteq> None)"
| "consuming (Elem c opt Any) = True"
| "consuming (Elem c opt AnyAtomic) = True"
| "consuming (Elem c opt NameValue) = True"
| "consuming_fields [] = False"
| "consuming_fields ((n, e) # fs) = (\<not> is_optional e \<and> consuming e \<or> consuming_fields fs)"
| "consuming_elements [] = True"
| "consuming_elements ((n, e) # fs) = (consuming e \<and> consuming_elements fs)"

lemma consumes_next: "consumes d \<Longrightarrow> consumes (decode_next d)"
  unfolding decode_next_def by (intro consumes_bind shrinks_with shrinks_basic)

lemma consumes_field:
  assumes "consumes d" "\<not> is_optional e"
  shows "consumes (sequence_field e d tag)"
proof -
  have absent: "consumes (absent_field e t)" for t using assms(2) by (simp add: absent_field_def consumes_raise)
  have "consumes (bindS (liftS r) (\<lambda>b. if b then decode_next d else absent_field e t))" for r t
    using assms absent by (intro consumes_bind_later shrinks_basic) (simp add: consumes_next)
  moreover have "consumes (on_invalid_tag (decode_next d) (absent_field e t))" for t
    using consumes_next [OF assms(1)] assms(2)
    by (auto simp: consumes_def on_invalid_tag_def absent_field_def act_simps split: prod.splits sum.splits if_splits)
  ultimately show ?thesis unfolding sequence_field_def
    using assms absent consumes_next by (auto split: option.splits shape.splits)
qed

lemma consumes_bracket:
  "c \<noteq> None \<Longrightarrow> (\<And>tag. shrinks (f tag)) \<Longrightarrow> consumes (sequence_decode c f)"
  "c \<noteq> None \<Longrightarrow> (\<And>tag. shrinks (g tag)) \<Longrightarrow> consumes (choice_decode c g)"
  "c \<noteq> None \<Longrightarrow> consumes (list_decode c d)"
  unfolding sequence_decode_def choice_decode_def list_decode_def
  by (auto intro!: consumes_bind consumes_open shrinks_bind shrinks_with shrinks_basic shrinks_open shrinks_items
      split: prod.splits simp del: list_items.simps)

lemma consumes_inside:
  "(\<And>tag. consumes (f tag)) \<Longrightarrow> consumes (sequence_decode None f)"
  "(\<And>tag. consumes (g tag)) \<Longrightarrow> consumes (choice_decode None g)"
  unfolding sequence_decode_def choice_decode_def
  by (auto intro!: consumes_bind_later [OF shrinks_open(1)] consumes_with consumes_bind shrinks_bind shrinks_basic
      shrinks_open split: prod.splits)

lemma consumes_element:
  assumes "consumes d" "\<And>tag. consumes (rest tag)"
  shows "consumes (choice_element n e d rest tag)"
proof -
  have found: "consumes (bindS d (\<lambda>v. withS (\<lambda>ts. retS (tag_list_peek ts, n, v))))"
    using assms(1) by (intro consumes_bind shrinks_with shrinks_basic)
  moreover have "consumes (bindS (liftS r)
      (\<lambda>b. if b then bindS d (\<lambda>v. withS (\<lambda>ts. retS (tag_list_peek ts, n, v))) else rest t))" for r t
    using found assms(2) by (intro consumes_bind_later shrinks_basic) simp
  moreover have "consumes (bindS (attempt d) (\<lambda>r. case r of None \<Rightarrow> rest t | Some v \<Rightarrow> retS (t, n, v)))" for t
    unfolding consumes_def
  proof (intro allI impI, erule bindS_cases)
    fix ts v us x ws
    assume a: "attempt d ts = (Inr x, ws)" and b: "(case x of None \<Rightarrow> rest t | Some v \<Rightarrow> retS (t, n, v)) ws = (Inr v, us)"
    show "length us < length ts"
    proof (cases x)
      case None
      then have "ws = ts" using a by (auto simp: attempt_def split: prod.splits sum.splits if_splits)
      then show ?thesis using b None consumesD [OF assms(2)] by auto
    next
      case (Some y)
      then obtain zs where "d ts = (Inr y, zs)" "ws = drop (length ts - length zs) ts"
        using a by (auto simp: attempt_def split: prod.splits sum.splits if_splits)
      then show ?thesis using b Some consumesD [OF assms(1)] by (fastforce simp: act_simps)
    qed
  qed simp
  ultimately show ?thesis unfolding choice_element_def Let_def
    using assms(2) by (auto simp: consumes_raise split: option.splits shape.splits)
qed


lemma consumes_fields_here:
  "consumes d \<Longrightarrow> \<not> is_optional e \<Longrightarrow> (\<And>tag. shrinks (rest tag)) \<Longrightarrow> consumes (sequence_fields e d rest tag)"
  unfolding sequence_fields_def
  by (auto intro!: consumes_bind consumes_field shrinks_bind shrinks_basic split: prod.splits)

lemma consumes_fields_later:
  "shrinks d \<Longrightarrow> (\<And>tag. consumes (rest tag)) \<Longrightarrow> consumes (sequence_fields e d rest tag)"
  unfolding sequence_fields_def
  by (rule consumes_bind_later, erule shrinks_field) (auto intro!: consumes_bind shrinks_basic split: prod.splits)

lemma consumes_decode:
  "consuming e \<Longrightarrow> consumes (decode e)"
  "consuming_fields fs \<Longrightarrow> consumes (decode_fields fs tag)"
  "consuming_elements fs \<Longrightarrow> consumes (decode_elements fs tag)"
proof (induction e and fs and fs arbitrary: and tag and tag rule: decode_decode_fields_decode_elements.induct)
  case (2 c opt fs)
  then show ?case by (cases c) (simp_all add: consumes_bracket shrinks_decode consumes_inside)
next
  case (3 c opt fs)
  then show ?case by (cases c) (simp_all add: consumes_bracket shrinks_decode consumes_inside)
next
  case (4 c opt e)
  then show ?case by (simp add: consumes_bracket)
next
  case (5 c opt k e)
  then show ?case
    by (auto simp: array_decode_def intro!: consumes_bind consumes_bracket shrinks_basic split: val.splits)
next
  case (10 n e fs)
  then show ?case
    by (auto intro: consumes_fields_here consumes_fields_later shrinks_decode)
next
  case (12 n e fs)
  then show ?case by (simp add: consumes_element)
qed (simp_all add: consumes_atom any_length any_atomic_length name_value_length consumes_raise)

subsection \<open>Decoders return\<close>

fun items_consume :: "elem \<Rightarrow> bool"
and items_consume_fields :: "fields \<Rightarrow> bool" where
  "items_consume (Elem c opt (Sequence fs)) = items_consume_fields fs"
| "items_consume (Elem c opt (Choice fs)) = items_consume_fields fs"
| "items_consume (Elem c opt (SequenceOf e)) = (consuming e \<and> items_consume e)"
| "items_consume (Elem c opt (ArrayOf m e)) = (consuming e \<and> items_consume e)"
| "items_consume (Elem c opt s) = True"
| "items_consume_fields [] = True"
| "items_consume_fields ((n, e) # fs) = (items_consume e \<and> items_consume_fields fs)"

lemma returns_next: "returns d \<Longrightarrow> returns (decode_next d)"
  unfolding decode_next_def by (intro returns_bind returns_with returns_basic)

lemma returns_absent: "returns (absent_field e tag)"
  by (simp add: absent_field_def returns_basic)

lemma returns_class: "returns (liftS (app_class_matches ty n))"
  by (simp add: returns_def act_simps app_class_matches_def)

lemma returns_field: "returns d \<Longrightarrow> returns (sequence_field e d tag)"
  unfolding sequence_field_def
  by (cases tag; cases "shape_of e")
    (auto intro!: returns_bind returns_basic returns_attempt returns_invalid returns_next returns_absent returns_class)

lemma returns_fields: "returns d \<Longrightarrow> (\<And>tag. returns (rest tag)) \<Longrightarrow> returns (sequence_fields e d rest tag)"
  unfolding sequence_fields_def by (auto intro!: returns_bind returns_basic returns_field split: prod.splits)

lemma returns_element: "returns d \<Longrightarrow> (\<And>tag. returns (rest tag)) \<Longrightarrow> returns (choice_element n e d rest tag)"
  unfolding choice_element_def Let_def
  by (cases tag; cases "shape_of e")
    (auto intro!: returns_bind returns_with returns_basic returns_attempt returns_class split: option.splits)

lemma returns_inside:
  "(\<And>tag. returns (f tag)) \<Longrightarrow> returns (sequence_decode c f)"
  "(\<And>tag. returns (g tag)) \<Longrightarrow> returns (choice_decode c g)"
  unfolding sequence_decode_def choice_decode_def
  by (auto intro!: returns_bind returns_with returns_basic returns_open split: prod.splits)

lemma attempt_consumes: "consumes d \<Longrightarrow> attempt d ts = (Inr (Some v), us) \<Longrightarrow> length us < length ts"
  by (fastforce simp: attempt_def split: prod.splits sum.splits if_splits dest: consumesD)

lemma list_items_return:
  assumes "consumes d" "returns d"
  shows "length ts < k \<Longrightarrow> list_items k d (tag_list_peek ts) ts \<noteq> (Inl NoReturn, us)"
proof (induction k arbitrary: ts us)
  case (Suc k)
  show ?case
  proof (cases "head_key ts = KStop")
    case True
    then show ?thesis by (cases ts) (auto simp: tag_key_iff act_simps)
  next
    case False
    then obtain t where t: "tag_list_peek ts = Some t" "tag_class t \<noteq> Closing" by (cases ts) (auto simp: tag_key_iff)
    obtain r ws where a: "attempt d ts = (r, ws)" by fastforce
    consider e where "r = Inl e" | "r = Inr None" | v where "r = Inr (Some v)" by (cases r) auto
    then show ?thesis
    proof cases
      case 1
      then show ?thesis using t a returnsD [OF returns_attempt [OF assms(2)]] by (auto simp: bindS_def)
    next
      case 2
      then show ?thesis using t a by (simp add: bindS_def act_simps)
    next
      case (3 v)
      then have "length ws < k" using attempt_consumes [OF assms(1)] a Suc.prems by fastforce
      from Suc.IH [OF this] show ?thesis using t a 3
        by (auto simp: bindS_def act_simps split: prod.splits sum.splits)
    qed
  qed
qed simp

lemma returns_list: "consumes d \<Longrightarrow> returns d \<Longrightarrow> returns (list_decode c d)"
proof -
  assume "consumes d" "returns d"
  then have "returns (withS (\<lambda>ts. bindS (list_items (Suc (length ts)) d (tag_list_peek ts)) (\<lambda>(tag, vs).
     bindS (close_context c tag) (\<lambda>_. retS (VList vs)))))"
    by (intro returnsI)
      (auto simp: act_simps list_items_return returnsD [OF returns_open(2)] simp del: list_items.simps
        elim!: bindS_cases split: prod.splits)
  then show ?thesis unfolding list_decode_def by (intro returns_bind returns_open)
qed

lemma any_scan_returns: "any_scan n lvl i ts \<noteq> Inl NoReturn"
  by (induction n lvl i ts rule: any_scan.induct) (auto split: tag_class.splits)

lemma string_decode_returns: "string_decode c ts \<noteq> Inl NoReturn"
  by (auto simp: string_decode_def bindR_eq_Inl_iff pop_tag_errors of_data_returns_cases)

lemma context_to_app_returns: "context_to_app n t \<noteq> Inl NoReturn"
  by (auto simp: context_to_app_def split: list.splits)

lemma returns_others: "returns (any_decode c)" "returns any_atomic_decode" "returns name_value_decode"
proof -
  show "returns (any_decode c)"
    by (rule returnsI) (auto simp: any_decode_def any_scan_returns
        split: list.splits tag_class.splits if_splits sum.splits prod.splits)
  show "returns any_atomic_decode"
    by (rule returnsI) (auto simp: any_atomic_decode_def split: prod.splits option.splits if_splits)
  show "returns name_value_decode"
    by (rule returnsI) (auto simp: name_value_decode_def bindR_eq_Inl_iff string_decode_returns context_to_app_returns
        split: list.splits if_splits sum.splits prod.splits)
qed

lemma returns_decode:
  "items_consume e \<Longrightarrow> returns (decode e)"
  "items_consume_fields fs \<Longrightarrow> returns (decode_fields fs tag)"
  "items_consume_fields fs \<Longrightarrow> returns (decode_elements fs tag)"
proof (induction e and fs and fs arbitrary: and tag and tag rule: decode_decode_fields_decode_elements.induct)
  case (1 c opt ty)
  then show ?case
    by (auto simp: returns_def atom_action_def atom_decode_returns split: sum.splits prod.splits)
next
  case (5 c opt k e)
  then show ?case
    by (auto simp: array_decode_def intro!: returns_bind returns_list returns_basic consumes_decode split: val.splits)
qed (simp_all add: returns_inside returns_list consumes_decode returns_others returns_basic returns_fields returns_element)

end
