(* ===== verification/ElementWire.thy ===== *)
theory ElementWire
  imports ReadBack Returning
begin

text \<open>
  What the codec of constructed types promises: the octets of a value decode to it, Any hands
  out what was put in, and decoding always returns. The classes it is used for are in
  Basetypes and Services.
\<close>

section \<open>Any holds the encoding of a value\<close>

text \<open>\<open>Any.cast_in\<close>, and \<open>Any.cast_out\<close>, which decodes from a copy and may accept a Null.\<close>

definition any_cast_in :: "int option \<Rightarrow> elem \<Rightarrow> val \<Rightarrow> tag list result" where
  "any_cast_in c e v = bindR (encode e v) (\<lambda>ts. Inr (bracket c ts))"

definition any_cast_out :: "int option \<Rightarrow> elem \<Rightarrow> bool \<Rightarrow> tag list \<Rightarrow> val result" where
  "any_cast_out c e null ts =
     fst (bindS (open_context c) (\<lambda>_.
       bindS (withS (\<lambda>us. case tag_list_peek us of
           None \<Rightarrow> if null then raiseS AttributeError else decode e
         | Some t \<Rightarrow>
             if null \<and> tag_class t = Application \<and> tag_number t = tn_null then decode (plain (Atomic TNull))
             else decode e)) (\<lambda>v.
       withS (\<lambda>us. bindS (close_context c (tag_list_peek us)) (\<lambda>_. retS v)))) ts)"

section \<open>Encodings are nested and can be written\<close>

definition context_ok :: "int option \<Rightarrow> bool" where
  "context_ok c = (case c of None \<Rightarrow> True | Some n \<Rightarrow> 0 \<le> n \<and> n \<le> 255)"

fun contexts_ok :: "elem \<Rightarrow> bool"
and contexts_ok_fields :: "fields \<Rightarrow> bool" where
  "contexts_ok (Elem c opt (Sequence fs)) = (context_ok c \<and> contexts_ok_fields fs)"
| "contexts_ok (Elem c opt (Choice fs)) = (context_ok c \<and> contexts_ok_fields fs)"
| "contexts_ok (Elem c opt (SequenceOf e)) = (context_ok c \<and> contexts_ok e)"
| "contexts_ok (Elem c opt (ArrayOf m e)) = (context_ok c \<and> contexts_ok e)"
| "contexts_ok (Elem c opt s) = context_ok c"
| "contexts_ok_fields [] = True"
| "contexts_ok_fields ((n, e) # fs) = (contexts_ok e \<and> contexts_ok_fields fs)"

lemma nested_append: "nested ts \<Longrightarrow> nested us \<Longrightarrow> nested (ts @ us)"
  by (induction rule: nested.induct) (auto intro: nested.intros)

lemma nested_bracket: "nested ts \<Longrightarrow> nested (bracket c ts)"
  using nested_group [of "opening_tag n" ts "closing_tag n" "[]" for n] nested_Nil
  by (cases c) (auto simp: bracket_def opening_tag_def closing_tag_def)

lemma any_scan_group:
  "any_scan n lvl i ts = Inr (j, 0) \<Longrightarrow> j < i + length ts \<Longrightarrow> scan_group (int (Suc lvl)) i ts = (0, j)"
proof (induction n lvl i ts rule: any_scan.induct)
  case (2 n lvl i t ts)
  show ?case
  proof (cases "tag_class t")
    case Opening
    then show ?thesis using 2 by (simp add: algebra_simps)
  next
    case Closing
    then show ?thesis using 2 by (cases lvl) (auto split: if_splits)
  qed (use 2 in auto)
qed simp

lemma any_scan_nested: "nested b \<Longrightarrow> any_scan n lvl i (b @ ts) = any_scan n lvl (i + length b) ts"
  by (induction arbitrary: lvl i ts rule: nested.induct) (auto simp: add.assoc)

lemma any_decode_bracket:
  assumes "nested ts"
  shows "any_decode (Some n) (bracket (Some n) ts @ rest) = (Inr (VTags (bracket (Some n) ts)), rest)"
proof -
  have "any_scan n 0 1 (ts @ closing_tag n # rest) = Inr (Suc (length ts), 0)"
    using any_scan_nested [OF assms, of n 0 1 "closing_tag n # rest"] by simp
  then show ?thesis by (simp add: any_decode_def bracket_def opening_tag_def)
qed

lemma any_ok_nested: "any_ok c ts \<Longrightarrow> nested ts"
proof -
  assume a: "any_ok c ts"
  then obtain t us where ts: "ts = t # us" and or: "tag_class t = Context \<and> us = [] \<or>
      tag_class t = Opening \<and> any_scan (tag_number t) 0 1 us = Inr (length us, 0)"
    by (cases ts) (auto simp: any_ok_def)
  from or show ?thesis
  proof
    assume "tag_class t = Context \<and> us = []"
    then show ?thesis using ts by (auto intro: nested.intros)
  next
    assume o: "tag_class t = Opening \<and> any_scan (tag_number t) 0 1 us = Inr (length us, 0)"
    then have "scan_group (int (Suc 0)) 1 us = (0, length us)" by (intro any_scan_group) auto
    from scan_group_closes [OF this] obtain b c rest where b: "us = b @ c # rest" "length us = 1 + length b"
      "tag_class c = Closing" "nested b" by auto
    then have "rest = []" by simp
    then show ?thesis using ts o b nested_group [of t b c "[]"] nested_Nil by simp
  qed
qed

definition tidy :: "tag list \<Rightarrow> bool" where
  "tidy ts \<longleftrightarrow> nested ts \<and> (\<forall>t\<in>set ts. wf_tag t)"

lemma tidy_append: "tidy ts \<Longrightarrow> tidy us \<Longrightarrow> tidy (ts @ us)"
  by (auto simp: tidy_def nested_append)

lemma tidy_Nil: "tidy []"
  by (simp add: tidy_def nested_Nil)

lemma tidy_bracket:
  "tidy ts \<Longrightarrow> context_ok c \<Longrightarrow> tidy (bracket c ts)"
  by (cases c) (auto simp: tidy_def nested_bracket, auto simp: bracket_def wf_tag_constructors context_ok_def)

lemma atom_encode_nested: "atom_ok ty a \<Longrightarrow> atom_encode ty c a = Inr ts \<Longrightarrow> nested ts"
  by (cases ty; cases a; cases c)
    (auto simp: atom_ok_def atom_encode_def atom_encoders atomic_tag_def application_tag_def
      context_tag_def bindR_eq_Inr_iff intro!: nested.intros)

lemma list_tidy:
  assumes "\<And>v ts. v \<in> set vs \<Longrightarrow> enc v = Inr ts \<Longrightarrow> tidy ts"
  shows "encode_list enc vs = Inr ts \<Longrightarrow> tidy ts"
  using assms
proof (induction vs arbitrary: ts)
  case (Cons v vs)
  then show ?case by (auto simp: bindR_eq_Inr_iff intro!: tidy_append)
qed (simp add: tidy_Nil)

lemma name_value_nested: "name_value_tags ts = (ts, []) \<Longrightarrow> nested ts"
  by (auto simp: name_value_tags_def split: list.splits if_splits intro!: nested.intros)

lemma encode_tidy:
  "contexts_ok e \<Longrightarrow> val_ok e v \<Longrightarrow> encode e v = Inr ts \<Longrightarrow> tidy ts"
  "contexts_ok_fields fs \<Longrightarrow> val_ok_fields fs vs \<Longrightarrow> encode_fields fs vs = Inr ts \<Longrightarrow> tidy ts"
  "contexts_ok_fields fs \<Longrightarrow> val_ok_elements fs n v \<Longrightarrow> encode_choice fs n v = Inr ts \<Longrightarrow> tidy ts"
proof (induction e and fs and fs arbitrary: v ts and vs ts and n v ts
    rule: decode_decode_fields_decode_elements.induct)
  case (1 c opt ty)
  then obtain a where a: "v = VAtom a" "atom_ok ty a" "atom_encode ty c a = Inr ts" by (cases v) auto
  have "\<forall>c\<in>set_option c. 0 \<le> c \<and> c \<le> 255" using 1(1) by (cases c) (auto simp: context_ok_def)
  from atom_wf [OF a(2) this a(3)] show ?case using atom_encode_nested [OF a(2,3)] by (simp add: tidy_def)
next
  case (2 c opt fs)
  then show ?case by (cases v) (auto simp: bindR_eq_Inr_iff intro!: tidy_bracket)
next
  case (3 c opt fs)
  then show ?case by (cases v) (auto simp: bindR_eq_Inr_iff intro!: tidy_bracket)
next
  case (4 c opt e)
  then show ?case by (cases v) (auto simp: bindR_eq_Inr_iff list_all_iff intro!: tidy_bracket elim!: list_tidy [rotated])
next
  case (5 c opt k e)
  then show ?case by (cases v) (auto simp: bindR_eq_Inr_iff list_all_iff intro!: tidy_bracket elim!: list_tidy [rotated])
next
  case (6 c opt)
  then show ?case by (cases v) (auto simp: tidy_def list_all_iff any_ok_nested)
next
  case (7 c opt)
  then show ?case
    by (cases v) (auto simp: tidy_def list_all_iff any_atomic_ok_def split: list.splits intro!: nested.intros)
next
  case (8 c opt)
  then obtain n us where v: "v = VNameValue n (Some us)" "text_ok 0 n" "name_value_tags us = (us, [])" "list_all wf_tag us"
    by (cases v) (auto split: option.splits)
  then obtain d where d: "string_encode 0 (Some 0) n = Inr d" "ts = d @ us" using 8(3) by (auto simp: bindR_eq_Inr_iff)
  have "atom_encode (TCharacterString 0) (Some 0) (ACharacterString n) = Inr d" "atom_ok (TCharacterString 0) (ACharacterString n)"
    using d(1) v(2) by (simp_all add: atom_encode_def atom_ok_def)
  then have "tidy d" using atom_encode_nested atom_wf [of "TCharacterString 0" "ACharacterString n" "Some 0" d]
    by (auto simp: tidy_def)
  moreover have "tidy us" using v(3,4) name_value_nested by (simp add: tidy_def list_all_iff)
  ultimately show ?case using d(2) tidy_append by simp
next
  case (10 n e fs)
  then show ?case
    by (auto simp: bindR_eq_Inr_iff split: list.splits option.splits intro!: tidy_append)
next
  case (12 m e fs)
  then show ?case by (auto split: if_splits)
qed (simp_all add: tidy_Nil)


lemma decode_encoding:
  assumes "lookahead_ok e" "val_ok e v"
  shows "\<exists>ts. encode e v = Inr ts \<and> head_key ts \<in> set (firsts e) \<and>
    (\<forall>rest. safe e (head_key rest) \<longrightarrow> decode e (ts @ rest) = (Inr v, rest))"
  using reads_back_lookahead(1) [OF assms] safe_stop(1) unfolding reads_back_def
  by (metis Inr_inject head_key_simps(1))

section \<open>Properties\<close>



lemma cast_out_cast_in:
  assumes "lookahead_ok e" "val_ok e v" "contexts_ok e" "null \<longrightarrow> KApp 0 \<notin> set (firsts e)"
  shows "\<exists>us. any_cast_in (Some n) e v = Inr us \<and>
    decode (ctx n Any) (us @ rest) = (Inr (VTags us), rest) \<and>
    any_cast_out (Some n) e null us = Inr v"
proof -
  obtain ts where ts: "encode e v = Inr ts" "head_key ts \<in> set (firsts e)"
    "\<forall>rest. safe e (head_key rest) \<longrightarrow> decode e (ts @ rest) = (Inr v, rest)"
    using decode_encoding [OF assms(1,2)] by blast
  have "nested ts" using encode_tidy(1) [OF assms(3,2) ts(1)] by (simp add: tidy_def)
  have out: "decode e (ts @ [closing_tag n]) = (Inr v, [closing_tag n])" using ts(3) safe_stop(1) by simp
  have "\<not> (null \<and> tag_class t = Application \<and> tag_number t = tn_null)" if "tag_list_peek ts = Some t" for t
    using assms(4) ts(2) that by (cases ts) (auto simp: tag_key_def tn_null_def)
  moreover obtain t where "tag_list_peek ts = Some t"
    using ts(2) firsts_no_stop(1) [of e] by (cases ts) auto
  ultimately have "any_cast_out (Some n) e null (bracket (Some n) ts) = Inr v"
    using out by (cases ts) (auto simp: any_cast_out_def bracket_def act_simps)
  moreover have "decode (ctx n Any) (bracket (Some n) ts @ rest) = (Inr (VTags (bracket (Some n) ts)), rest)"
    using any_decode_bracket [OF \<open>nested ts\<close>] by simp
  ultimately show ?thesis using ts(1) by (simp add: any_cast_in_def)
qed

text \<open>
  What is put into an Any comes out: \<open>cast_in\<close> gives tags that an Any of the same
  context takes from a list whatever follows, and \<open>cast_out\<close> decodes the value from them, also
  when it would accept a Null and the class has none.
\<close>

theorem any_roundtrip:
  assumes "lookahead_ok e" "val_ok e v" "contexts_ok e" "null \<longrightarrow> KApp 0 \<notin> set (firsts e)"
  shows "\<exists>us. any_cast_in (Some n) e v = Inr us \<and>
    decode (ctx n Any) (us @ rest) = (Inr (VTags us), rest) \<and>
    any_cast_out (Some n) e null us = Inr v"
  using assms by (rule cast_out_cast_in)

theorem any_roundtrip_witness:
  "\<exists>us. any_cast_in (Some 3) (plain (Atomic (TUnsigned None None))) (VAtom (AUnsigned 72)) = Inr us \<and>
    decode (ctx 3 Any) (us @ [closing_tag 1]) = (Inr (VTags us), [closing_tag 1]) \<and>
    any_cast_out (Some 3) (plain (Atomic (TUnsigned None None))) True us = Inr (VAtom (AUnsigned 72))"
  by (rule any_roundtrip) (simp_all add: atom_ok_def unsigned_ok_def unsigned_cast_def context_ok_def)

text \<open>
  Decoding returns: whatever tags are given, the decoder of a class whose lists have
  items that are decoded from at least one tag ends, with a value or an exception.
\<close>

theorem decoding_returns:
  assumes "items_consume e"
  shows "fst (decode e ts) \<noteq> Inl NoReturn \<and> length (snd (decode e ts)) \<le> length ts"
  using returns_decode(1) [OF assms] shrinks_decode(1) by (simp add: returns_def shrinks_def)

theorem decoding_returns_witness:
  "fst (decode (plain (SequenceOf (plain (Atomic (TUnsigned None None))))) [opening_tag 1, closing_tag 1]) \<noteq> Inl NoReturn"
  using decoding_returns [of "plain (SequenceOf (plain (Atomic (TUnsigned None None))))" "[opening_tag 1, closing_tag 1]"]
  by simp

end
