(* ===== verification/Enumerations.thy ===== *)
theory Enumerations
  imports Main
begin

text \<open>
  The names of the enumerations and bit strings of \<^verbatim>\<open>bacpypes3/basetypes.py\<close>,
  \<^verbatim>\<open>bacpypes3/primitivedata.py\<close> and \<^verbatim>\<open>bacpypes3/apdu.py\<close>: the integer attributes of each class
  in the order of the class, which is the order in which its metaclass fills the tables.
\<close>

type_synonym names = "(string \<times> int) list"

section \<open>Object types and properties\<close>

definition ObjectType :: "names" where
  "ObjectType =
    [(''accessCredential'', 32), (''accessDoor'', 30), (''accessPoint'', 33), (''accessRights'', 34),
     (''accessUser'', 35), (''accessZone'', 36), (''accumulator'', 23), (''alertEnrollment'', 52),
     (''analogInput'', 0), (''analogOutput'', 1), (''analogValue'', 2), (''auditLog'', 61),
     (''auditReporter'', 62), (''averaging'', 18), (''binaryInput'', 3), (''binaryLightingOutput'', 55),
     (''binaryOutput'', 4), (''binaryValue'', 5), (''bitstringValue'', 39), (''calendar'', 6),
     (''channel'', 53), (''characterstringValue'', 40), (''command'', 7), (''credentialDataInput'', 37),
     (''datePatternValue'', 41), (''dateValue'', 42), (''datetimePatternValue'', 43),
     (''datetimeValue'', 44), (''device'', 8), (''elevatorGroup'', 57), (''escalator'', 58),
     (''eventEnrollment'', 9), (''eventLog'', 25), (''file'', 10), (''globalGroup'', 26), (''group'', 11),
     (''integerValue'', 45), (''largeAnalogValue'', 46), (''lifeSafetyPoint'', 21), (''lifeSafetyZone'', 22),
     (''lift'', 59), (''lightingOutput'', 54), (''loadControl'', 28), (''loop'', 12),
     (''multiStateInput'', 13), (''multiStateOutput'', 14), (''multiStateValue'', 19),
     (''networkSecurity'', 38), (''networkPort'', 56), (''notificationClass'', 15),
     (''notificationForwarder'', 51), (''octetstringValue'', 47), (''positiveIntegerValue'', 48),
     (''program'', 16), (''pulseConverter'', 24), (''schedule'', 17), (''staging'', 60),
     (''structuredView'', 29), (''timePatternValue'', 49), (''timeValue'', 50), (''timer'', 31),
     (''trendLog'', 20), (''trendLogMultiple'', 27)]"

definition PropertyIdentifier :: "names" where
  "PropertyIdentifier =
    [(''absenteeLimit'', 244), (''acceptedModes'', 175), (''accessAlarmEvents'', 245),
     (''accessDoors'', 246), (''accessEvent'', 247), (''accessEventAuthenticationFactor'', 248),
     (''accessEventCredential'', 249), (''accessEventTag'', 322), (''accessEventTime'', 250),
     (''accessTransactionEvents'', 251), (''accompaniment'', 252), (''accompanimentTime'', 253),
     (''ackedTransitions'', 0), (''ackRequired'', 1), (''action'', 2), (''actionText'', 3),
     (''activationTime'', 254), (''activeAuthenticationPolicy'', 255),
     (''activeCovMultipleSubscriptions'', 481), (''activeCovSubscriptions'', 152), (''activeText'', 4),
     (''activeVtSessions'', 5), (''actualShedLevel'', 212), (''adjustValue'', 176), (''alarmValue'', 6),
     (''alarmValues'', 7), (''alignIntervals'', 193), (''all'', 8), (''allowGroupDelayInhibit'', 365),
     (''allWritesSuccessful'', 9), (''apduLength'', 399), (''apduSegmentTimeout'', 10),
     (''apduTimeout'', 11), (''applicationSoftwareVersion'', 12), (''archive'', 13),
     (''assignedAccessRights'', 256), (''assignedLandingCalls'', 447), (''attemptedSamples'', 124),
     (''auditableOperations'', 501), (''auditLevel'', 498), (''auditNotificationRecipient'', 499),
     (''auditPriorityFilter'', 500), (''auditSourceReporter'', 497), (''authenticationFactors'', 257),
     (''authenticationPolicyList'', 258), (''authenticationPolicyNames'', 259),
     (''authenticationStatus'', 260), (''authorizationExemptions'', 364), (''authorizationMode'', 261),
     (''autoSlaveDiscovery'', 169), (''averageValue'', 125), (''backupAndRestoreState'', 338),
     (''backupFailureTimeout'', 153), (''backupPreparationTime'', 339), (''bacnetIPGlobalAddress'', 407),
     (''bacnetIPMode'', 408), (''bacnetIPMulticastAddress'', 409), (''bacnetIPNATTraversal'', 410),
     (''bacnetIPUDPPort'', 412), (''bacnetIPv6Mode'', 435), (''bacnetIPv6MulticastAddress'', 440),
     (''bacnetIPv6UDPPort'', 438), (''baseDeviceSecurityPolicy'', 327), (''bbmdAcceptFDRegistrations'', 413),
     (''bbmdBroadcastDistributionTable'', 414), (''bbmdForeignDeviceTable'', 415), (''belongsTo'', 262),
     (''bias'', 14), (''bitMask'', 342), (''bitText'', 343), (''blinkWarnEnable'', 373),
     (''bufferSize'', 126), (''carAssignedDirection'', 448), (''carDoorCommand'', 449),
     (''carDoorStatus'', 450), (''carDoorText'', 451), (''carDoorZone'', 452), (''carDriveStatus'', 453),
     (''carLoad'', 454), (''carLoadUnits'', 455), (''carMode'', 456), (''carMovingDirection'', 457),
     (''carPosition'', 458), (''changeOfStateCount'', 15), (''changeOfStateTime'', 16),
     (''changesPending'', 416), (''channelNumber'', 366), (''clientCovIncrement'', 127), (''command'', 417),
     (''commandTimeArray'', 430), (''configurationFiles'', 154), (''controlGroups'', 367),
     (''controlledVariableReference'', 19), (''controlledVariableUnits'', 20),
     (''controlledVariableValue'', 21), (''count'', 177), (''countBeforeChange'', 178),
     (''countChangeTime'', 179), (''covIncrement'', 22), (''covPeriod'', 180),
     (''covResubscriptionInterval'', 128), (''covuPeriod'', 349), (''covuRecipients'', 350),
     (''credentialDisable'', 263), (''credentials'', 265), (''credentialsInZone'', 266),
     (''credentialStatus'', 264), (''currentCommandPriority'', 431), (''databaseRevision'', 155),
     (''dateList'', 23), (''daylightSavingsStatus'', 24), (''daysRemaining'', 267), (''deadband'', 25),
     (''defaultFadeTime'', 374), (''defaultPresentValue'', 492), (''defaultRampRate'', 375),
     (''defaultStepIncrement'', 376), (''defaultSubordinateRelationship'', 490), (''defaultTimeout'', 393),
     (''deleteOnForward'', 502), (''deployedProfileLocation'', 484), (''derivativeConstant'', 26),
     (''derivativeConstantUnits'', 27), (''description'', 28), (''descriptionOfHalt'', 29),
     (''deviceAddressBinding'', 30), (''deviceType'', 31), (''deviceUUID'', 507), (''directReading'', 156),
     (''distributionKeyRevision'', 328), (''doNotHide'', 329), (''doorAlarmState'', 226),
     (''doorExtendedPulseTime'', 227), (''doorMembers'', 228), (''doorOpenTooLongTime'', 229),
     (''doorPulseTime'', 230), (''doorStatus'', 231), (''doorUnlockDelayTime'', 232), (''dutyWindow'', 213),
     (''effectivePeriod'', 32), (''egressActive'', 386), (''egressTime'', 377), (''elapsedActiveTime'', 33),
     (''elevatorGroup'', 459), (''enable'', 133), (''energyMeter'', 460), (''energyMeterRef'', 461),
     (''entryPoints'', 268), (''errorLimit'', 34), (''escalatorMode'', 462),
     (''eventAlgorithmInhibit'', 354), (''eventAlgorithmInhibitRef'', 355), (''eventDetectionEnable'', 353),
     (''eventEnable'', 35), (''eventMessageTexts'', 351), (''eventMessageTextsConfig'', 352),
     (''eventParameters'', 83), (''eventState'', 36), (''eventTimeStamps'', 130), (''eventType'', 37),
     (''exceptionSchedule'', 38), (''executionDelay'', 368), (''exitPoints'', 269),
     (''expectedShedLevel'', 214), (''expirationTime'', 270), (''extendedTimeEnable'', 271),
     (''failedAttemptEvents'', 272), (''failedAttempts'', 273), (''failedAttemptsTime'', 274),
     (''faultHighLimit'', 388), (''faultLowLimit'', 389), (''faultParameters'', 358),
     (''faultSignals'', 463), (''faultType'', 359), (''faultValues'', 39), (''fdBBMDAddress'', 418),
     (''fdSubscriptionLifetime'', 419), (''feedbackValue'', 40), (''fileAccessMethod'', 41),
     (''fileSize'', 42), (''fileType'', 43), (''firmwareRevision'', 44), (''floorNumber'', 506),
     (''floorText'', 464), (''fullDutyBaseline'', 215), (''globalIdentifier'', 323), (''groupID'', 465),
     (''groupMemberNames'', 346), (''groupMembers'', 345), (''groupMode'', 467), (''higherDeck'', 468),
     (''highLimit'', 45), (''inactiveText'', 46), (''initialTimeout'', 394), (''inProcess'', 47),
     (''inProgress'', 378), (''inputReference'', 181), (''installationID'', 469), (''instanceOf'', 48),
     (''instantaneousPower'', 379), (''integralConstant'', 49), (''integralConstantUnits'', 50),
     (''interfaceValue'', 387), (''intervalOffset'', 195), (''ipAddress'', 400), (''ipDefaultGateway'', 401),
     (''ipDHCPEnable'', 402), (''ipDHCPLeaseTime'', 403), (''ipDHCPLeaseTimeRemaining'', 404),
     (''ipDHCPServer'', 405), (''ipDNSServer'', 406), (''ipSubnetMask'', 411), (''ipv6Address'', 436),
     (''ipv6AutoAddressingEnable'', 442), (''ipv6DefaultGateway'', 439), (''ipv6DHCPLeaseTime'', 443),
     (''ipv6DHCPLeaseTimeRemaining'', 444), (''ipv6DHCPServer'', 445), (''ipv6DNSServer'', 441),
     (''ipv6PrefixLength'', 437), (''ipv6ZoneIndex'', 446), (''issueConfirmedNotifications'', 51),
     (''isUTC'', 344), (''keySets'', 330), (''landingCallControl'', 471), (''landingCalls'', 470),
     (''landingDoorStatus'', 472), (''lastAccessEvent'', 275), (''lastAccessPoint'', 276),
     (''lastCommandTime'', 432), (''lastCredentialAdded'', 277), (''lastCredentialAddedTime'', 278),
     (''lastCredentialRemoved'', 279), (''lastCredentialRemovedTime'', 280), (''lastKeyServer'', 331),
     (''lastNotifyRecord'', 173), (''lastPriority'', 369), (''lastRestartReason'', 196),
     (''lastRestoreTime'', 157), (''lastStateChange'', 395), (''lastUseTime'', 281),
     (''lifeSafetyAlarmValues'', 166), (''lightingCommand'', 380), (''lightingCommandDefaultPriority'', 381),
     (''limitEnable'', 52), (''limitMonitoringInterval'', 182), (''linkSpeed'', 420),
     (''linkSpeedAutonegotiate'', 422), (''linkSpeeds'', 421), (''listOfGroupMembers'', 53),
     (''listOfObjectPropertyReferences'', 54), (''listOfSessionKeys'', 55), (''localDate'', 56),
     (''localForwardingOnly'', 360), (''localTime'', 57), (''location'', 58), (''lockout'', 282),
     (''lockoutRelinquishTime'', 283), (''lockStatus'', 233), (''logBuffer'', 131),
     (''logDeviceObjectProperty'', 132), (''loggingObject'', 183), (''loggingRecord'', 184),
     (''loggingType'', 197), (''logInterval'', 134), (''lowDiffLimit'', 390), (''lowerDeck'', 473),
     (''lowLimit'', 59), (''macAddress'', 423), (''machineRoomID'', 474), (''maintenanceRequired'', 158),
     (''makingCarCall'', 475), (''manipulatedVariableReference'', 60), (''manualSlaveAddressBinding'', 170),
     (''maskedAlarmValues'', 234), (''masterExemption'', 284), (''maxActualValue'', 382),
     (''maxApduLengthAccepted'', 62), (''maxFailedAttempts'', 285), (''maximumOutput'', 61),
     (''maximumSendDelay'', 503), (''maximumValue'', 135), (''maximumValueTimestamp'', 149),
     (''maxInfoFrames'', 63), (''maxMaster'', 64), (''maxPresValue'', 65), (''maxSegmentsAccepted'', 167),
     (''memberOf'', 159), (''members'', 286), (''memberStatusFlags'', 347), (''minActualValue'', 383),
     (''minimumOffTime'', 66), (''minimumOnTime'', 67), (''minimumOutput'', 68), (''minimumValue'', 136),
     (''minimumValueTimestamp'', 150), (''minPresValue'', 69), (''mode'', 160), (''modelName'', 70),
     (''modificationDate'', 71), (''monitoredObjects'', 504), (''musterPoint'', 287),
     (''negativeAccessRules'', 288), (''networkAccessSecurityPolicies'', 332),
     (''networkInterfaceName'', 424), (''networkNumber'', 425), (''networkNumberQuality'', 426),
     (''networkType'', 427), (''nextStoppingFloor'', 476), (''nodeSubtype'', 207), (''nodeType'', 208),
     (''notificationClass'', 17), (''notificationThreshold'', 137), (''notifyType'', 72),
     (''numberOfApduRetries'', 73), (''numberOfAuthenticationPolicies'', 289), (''numberOfStates'', 74),
     (''objectIdentifier'', 75), (''objectList'', 76), (''objectName'', 77),
     (''objectPropertyReference'', 78), (''objectType'', 79), (''occupancyCount'', 290),
     (''occupancyCountAdjust'', 291), (''occupancyCountEnable'', 292), (''occupancyExemption'', 293),
     (''occupancyLowerLimit'', 294), (''occupancyLowerLimitEnforced'', 295), (''occupancyState'', 296),
     (''occupancyUpperLimit'', 297), (''occupancyUpperLimitEnforced'', 298), (''operationDirection'', 477),
     (''operationExpected'', 161), (''optional'', 80), (''outOfService'', 81), (''outputUnits'', 82),
     (''packetReorderTime'', 333), (''passbackExemption'', 299), (''passbackMode'', 300),
     (''passbackTimeout'', 301), (''passengerAlarm'', 478), (''polarity'', 84), (''portFilter'', 363),
     (''positiveAccessRules'', 302), (''power'', 384), (''powerMode'', 479), (''prescale'', 185),
     (''presentStage'', 493), (''presentValue'', 85), (''priority'', 86), (''priorityArray'', 87),
     (''priorityForWriting'', 88), (''processIdentifier'', 89), (''processIdentifierFilter'', 361),
     (''profileLocation'', 485), (''profileName'', 168), (''programChange'', 90), (''programLocation'', 91),
     (''programState'', 92), (''propertyList'', 371), (''proportionalConstant'', 93),
     (''proportionalConstantUnits'', 94), (''protocolLevel'', 482), (''protocolObjectTypesSupported'', 96),
     (''protocolRevision'', 139), (''protocolServicesSupported'', 97), (''protocolVersion'', 98),
     (''pulseRate'', 186), (''readOnly'', 99), (''reasonForDisable'', 303), (''reasonForHalt'', 100),
     (''recipientList'', 102), (''recordCount'', 141), (''recordsSinceNotification'', 140),
     (''referencePort'', 483), (''registeredCarCall'', 480), (''reliability'', 103),
     (''reliabilityEvaluationInhibit'', 357), (''relinquishDefault'', 104), (''represents'', 491),
     (''requestedShedLevel'', 218), (''requestedUpdateInterval'', 348), (''required'', 105),
     (''resolution'', 106), (''restartNotificationRecipients'', 202), (''restoreCompletionTime'', 340),
     (''restorePreparationTime'', 341), (''routingTable'', 428), (''scale'', 187), (''scaleFactor'', 188),
     (''scheduleDefault'', 174), (''securedStatus'', 235), (''securityPDUTimeout'', 334),
     (''securityTimeWindow'', 335), (''segmentationSupported'', 107), (''sendNow'', 505),
     (''serialNumber'', 372), (''setpoint'', 108), (''setpointReference'', 109), (''setting'', 162),
     (''shedDuration'', 219), (''shedLevelDescriptions'', 220), (''shedLevels'', 221), (''silenced'', 163),
     (''slaveAddressBinding'', 171), (''slaveProxyEnable'', 172), (''stageNames'', 495), (''stages'', 494),
     (''startTime'', 142), (''stateChangeValues'', 396), (''stateDescription'', 222), (''stateText'', 110),
     (''statusFlags'', 111), (''stopTime'', 143), (''stopWhenFull'', 144), (''strikeCount'', 391),
     (''structuredObjectList'', 209), (''subordinateAnnotations'', 210), (''subordinateList'', 211),
     (''subordinateNodeTypes'', 487), (''subordinateRelationships'', 489), (''subordinateTags'', 488),
     (''subscribedRecipients'', 362), (''supportedFormatClasses'', 305), (''supportedFormats'', 304),
     (''supportedSecurityAlgorithms'', 336), (''systemStatus'', 112), (''tags'', 486),
     (''targetReferences'', 496), (''threatAuthority'', 306), (''threatLevel'', 307), (''timeDelay'', 113),
     (''timeDelayNormal'', 356), (''timeOfActiveTimeReset'', 114), (''timeOfDeviceRestart'', 203),
     (''timeOfStateCountReset'', 115), (''timeOfStrikeCountReset'', 392), (''timerRunning'', 397),
     (''timerState'', 398), (''timeSynchronizationInterval'', 204), (''timeSynchronizationRecipients'', 116),
     (''totalRecordCount'', 145), (''traceFlag'', 308), (''trackingValue'', 164),
     (''transactionNotificationClass'', 309), (''transition'', 385), (''trigger'', 205), (''units'', 117),
     (''updateInterval'', 118), (''updateKeySetTimeout'', 337), (''updateTime'', 189),
     (''userExternalIdentifier'', 310), (''userInformationReference'', 311), (''userName'', 317),
     (''userType'', 318), (''usesRemaining'', 319), (''utcOffset'', 119),
     (''utcTimeSynchronizationRecipients'', 206), (''validSamples'', 146), (''valueBeforeChange'', 190),
     (''valueChangeTime'', 192), (''valueSet'', 191), (''valueSource'', 433), (''valueSourceArray'', 434),
     (''varianceValue'', 151), (''vendorIdentifier'', 120), (''vendorName'', 121),
     (''verificationTime'', 326), (''virtualMACAddressTable'', 429), (''vtClassesSupported'', 122),
     (''weeklySchedule'', 123), (''windowInterval'', 147), (''windowSamples'', 148), (''writeStatus'', 370),
     (''zoneFrom'', 320), (''zoneMembers'', 165), (''zoneTo'', 321),
     (''certificateSigningRequestFile'', 509), (''issuerCertificateFiles'', 511),
     (''maxBvlcLengthAccepted'', 4194304), (''maxNpduLengthAccepted'', 4194305),
     (''operationalCertificateFile'', 4194306), (''scConnectWaitTimeout'', 4194308),
     (''scDirectConnectAcceptEnable'', 4194309), (''scDirectConnectAcceptURIs'', 4194310),
     (''scDirectConnectBinding'', 4194311), (''scDirectConnectConnectionStatus'', 4194312),
     (''scDirectConnectInitiateEnable'', 4194313), (''scDisconnectWaitTimeout'', 4194314),
     (''scFailedConnectionRequests'', 4194315), (''scFailoverHubConnectionStatus'', 4194316),
     (''scFailoverHubURI'', 4194317), (''scHubConnectorState'', 4194318),
     (''scHubFunctionAcceptURIs'', 4194319), (''scHubFunctionBinding'', 4194320),
     (''scHubFunctionConnectionStatus'', 4194321), (''scHubFunctionEnable'', 4194322),
     (''scHeartbeatTimeout'', 4194323), (''scPrimaryHubConnectionStatus'', 4194324),
     (''scPrimaryHubURI'', 4194325), (''scMaximumReconnectTime'', 4194326),
     (''scMinimumReconnectTime'', 4194327)]"

section \<open>Base types\<close>

definition AccessAuthenticationFactorDisable :: "names" where
  "AccessAuthenticationFactorDisable =
    [(''none'', 0), (''disabled'', 1), (''disabledLost'', 2), (''disabledStolen'', 3),
     (''disabledDamaged'', 4), (''disabledDestroyed'', 5)]"

definition AccessCredentialDisable :: "names" where
  "AccessCredentialDisable =
    [(''none'', 0), (''disable'', 1), (''disableManual'', 2), (''disableLockout'', 3)]"

definition AccessCredentialDisableReason :: "names" where
  "AccessCredentialDisableReason =
    [(''disabled'', 0), (''disabledNeedsProvisioning'', 1), (''disabledUnassigned'', 2),
     (''disabledNotYetActive'', 3), (''disabledExpired'', 4), (''disabledLockout'', 5),
     (''disabledMaxDays'', 6), (''disabledMaxUses'', 7), (''disabledInactivity'', 8),
     (''disabledManual'', 9)]"

definition AccessEvent :: "names" where
  "AccessEvent =
    [(''none'', 0), (''granted'', 1), (''muster'', 2), (''passbackDetected'', 3), (''duress'', 4),
     (''trace'', 5), (''lockoutMaxAttempts'', 6), (''lockoutOther'', 7), (''lockoutRelinquished'', 8),
     (''lockedByHigherPriority'', 9), (''outOfService'', 10), (''outOfServiceRelinquished'', 11),
     (''accompanimentBy'', 12), (''authenticationFactorRead'', 13), (''authorizationDelayed'', 14),
     (''verificationRequired'', 15), (''deniedDenyAll'', 128), (''deniedUnknownCredential'', 129),
     (''deniedAuthenticationUnavailable'', 130), (''deniedAuthenticationFactorTimeout'', 131),
     (''deniedIncorrectAuthenticationFactor'', 132), (''deniedZoneNoAccessRights'', 133),
     (''deniedPointNoAccessRights'', 134), (''deniedNoAccessRights'', 135), (''deniedOutOfTimeRange'', 136),
     (''deniedThreatLevel'', 137), (''deniedPassback'', 138), (''deniedUnexpectedLocationUsage'', 139),
     (''deniedMaxAttempts'', 140), (''deniedLowerOccupancyLimit'', 141),
     (''deniedUpperOccupancyLimit'', 142), (''deniedAuthenticationFactorLost'', 143),
     (''deniedAuthenticationFactorStolen'', 144), (''deniedAuthenticationFactorDamaged'', 145),
     (''deniedAuthenticationFactorDestroyed'', 146), (''deniedAuthenticationFactorDisabled'', 147),
     (''deniedAuthenticationFactorError'', 148), (''deniedCredentialUnassigned'', 149),
     (''deniedCredentialNotProvisioned'', 150), (''deniedCredentialNotYetActive'', 151),
     (''deniedCredentialExpired'', 152), (''deniedCredentialManualDisable'', 153),
     (''deniedCredentialLockout'', 154), (''deniedCredentialMaxDays'', 155),
     (''deniedCredentialMaxUses'', 156), (''deniedCredentialInactivity'', 157),
     (''deniedCredentialDisabled'', 158), (''deniedNoAccompaniment'', 159),
     (''deniedIncorrectAccompaniment'', 160), (''deniedLockout'', 161), (''deniedVerificationFailed'', 162),
     (''deniedVerificationTimeout'', 163), (''deniedOther'', 164)]"

definition AccessPassbackMode :: "names" where
  "AccessPassbackMode =
    [(''passbackOff'', 0), (''hardPassback'', 1), (''softPassback'', 2)]"

definition AccessRuleLocationSpecifier :: "names" where
  "AccessRuleLocationSpecifier =
    [(''specified'', 0), (''all'', 1)]"

definition AccessRuleTimeRangeSpecifier :: "names" where
  "AccessRuleTimeRangeSpecifier =
    [(''specified'', 0), (''always'', 1)]"

definition AccessUserType :: "names" where
  "AccessUserType =
    [(''asset'', 0), (''group'', 1), (''person'', 2)]"

definition AccessZoneOccupancyState :: "names" where
  "AccessZoneOccupancyState =
    [(''normal'', 0), (''belowLowerLimit'', 1), (''atLowerLimit'', 2), (''atUpperLimit'', 3),
     (''aboveUpperLimit'', 4), (''disabled'', 5), (''notSupported'', 6)]"

definition AccumulatorRecordAccumulatorStatus :: "names" where
  "AccumulatorRecordAccumulatorStatus =
    [(''normal'', 0), (''starting'', 1), (''recovered'', 2), (''abnormal'', 3), (''failed'', 4)]"

definition Action_enum :: "names" where
  "Action_enum =
    [(''direct'', 0), (''reverse'', 1)]"

definition AuditLevel :: "names" where
  "AuditLevel =
    [(''none'', 0), (''auditAll'', 1), (''auditConfig'', 2), (''default'', 3)]"

definition AuditOperation :: "names" where
  "AuditOperation =
    [(''read'', 0), (''write'', 1), (''create'', 2), (''delete'', 3), (''lifeSafety'', 4),
     (''acknowledgeAlarm'', 5), (''deviceDisableComm'', 6), (''deviceEnableComm'', 7), (''deviceReset'', 8),
     (''deviceBackup'', 9), (''deviceRestore'', 10), (''subscription'', 11), (''notification'', 12),
     (''auditingFailure'', 13), (''networkChanges'', 14), (''general'', 15)]"

definition AuthenticationFactorType :: "names" where
  "AuthenticationFactorType =
    [(''undefined'', 0), (''error'', 1), (''custom'', 2), (''simpleNumber16'', 3), (''simpleNumber32'', 4),
     (''simpleNumber56'', 5), (''simpleAlphaNumeric'', 6), (''abaTrack2'', 7), (''wiegand26'', 8),
     (''wiegand37'', 9), (''wiegand37facility'', 10), (''facility16card32'', 11), (''facility32card32'', 12),
     (''fascN'', 13), (''fascNbcd'', 14), (''fascNlarge'', 15), (''fascNlargeBcd'', 16), (''gsa75'', 17),
     (''chuid'', 18), (''chuidFull'', 19), (''guid'', 20), (''cbeffA'', 21), (''cbeffB'', 22),
     (''cbeffC'', 23), (''userPassword'', 24)]"

definition AuthenticationStatus :: "names" where
  "AuthenticationStatus =
    [(''notReady'', 0), (''ready'', 1), (''disabled'', 2), (''waitingForAuthenticationFactor'', 3),
     (''waitingForAccompaniment'', 4), (''waitingForVerification'', 5), (''inProgress'', 6)]"

definition AuthorizationException :: "names" where
  "AuthorizationException =
    [(''passback'', 0), (''occupancyCheck'', 1), (''accessRights'', 2), (''lockout'', 3), (''deny'', 4),
     (''verification'', 5), (''authorizationDelay'', 6)]"

definition AuthorizationMode :: "names" where
  "AuthorizationMode =
    [(''authorize'', 0), (''grantActive'', 1), (''denyAll'', 2), (''verificationRequired'', 3),
     (''authorizationDelayed'', 4), (''none'', 5)]"

definition BackupState :: "names" where
  "BackupState =
    [(''idle'', 0), (''preparingForBackup'', 1), (''preparingForRestore'', 2), (''performingABackup'', 3),
     (''performingARestore'', 4), (''backupFailure'', 5), (''restoreFailure'', 6)]"

definition BinaryLightingPV :: "names" where
  "BinaryLightingPV =
    [(''off'', 0), (''on'', 1), (''warn'', 2), (''warnOff'', 3), (''warnRelinquish'', 4), (''stop'', 5)]"

definition BinaryPV :: "names" where
  "BinaryPV =
    [(''inactive'', 0), (''active'', 1)]"

definition ConfirmedTextMessageRequestMessagePriority :: "names" where
  "ConfirmedTextMessageRequestMessagePriority =
    [(''normal'', 0), (''urgent'', 1)]"

definition DeviceCommunicationControlRequestEnableDisable :: "names" where
  "DeviceCommunicationControlRequestEnableDisable =
    [(''enable'', 0), (''disable'', 1), (''disableInitiation'', 2)]"

definition DeviceStatus :: "names" where
  "DeviceStatus =
    [(''operational'', 0), (''operationalReadOnly'', 1), (''downloadRequired'', 2),
     (''downloadInProgress'', 3), (''nonOperational'', 4), (''backupInProgress'', 5)]"

definition DoorAlarmState :: "names" where
  "DoorAlarmState =
    [(''normal'', 0), (''alarm'', 1), (''doorOpenTooLong'', 2), (''forcedOpen'', 3), (''tamper'', 4),
     (''doorFault'', 5), (''lockDown'', 6), (''freeAccess'', 7), (''egressOpen'', 8)]"

definition DoorSecuredStatus :: "names" where
  "DoorSecuredStatus =
    [(''secured'', 0), (''unsecured'', 1), (''unknown'', 2)]"

definition DoorStatus :: "names" where
  "DoorStatus =
    [(''closed'', 0), (''opened'', 1), (''unknown'', 2)]"

definition DoorValue :: "names" where
  "DoorValue =
    [(''lock'', 0), (''unlock'', 1), (''pulseUnlock'', 2), (''extendedPulseUnlock'', 3)]"

definition EngineeringUnits :: "names" where
  "EngineeringUnits =
    [(''amperes'', 3), (''ampereSeconds'', 238), (''amperesPerMeter'', 167),
     (''amperesPerSquareMeter'', 168), (''ampereSquareHours'', 246), (''ampereSquareMeters'', 169),
     (''bars'', 55), (''becquerels'', 222), (''btus'', 20), (''btusPerHour'', 50), (''btusPerPound'', 117),
     (''btusPerPoundDryAir'', 24), (''candelas'', 179), (''candelasPerSquareMeter'', 180),
     (''centimeters'', 118), (''centimetersOfMercury'', 60), (''centimetersOfWater'', 57),
     (''cubicFeet'', 79), (''cubicFeetPerDay'', 248), (''cubicFeetPerHour'', 191),
     (''cubicFeetPerMinute'', 84), (''cubicFeetPerSecond'', 142), (''cubicMeters'', 80),
     (''cubicMetersPerDay'', 249), (''cubicMetersPerHour'', 135), (''cubicMetersPerMinute'', 165),
     (''cubicMetersPerSecond'', 85), (''currency10'', 114), (''currency1'', 105), (''currency2'', 106),
     (''currency3'', 107), (''currency4'', 108), (''currency5'', 109), (''currency6'', 110),
     (''currency7'', 111), (''currency8'', 112), (''currency9'', 113), (''cyclesPerHour'', 25),
     (''cyclesPerMinute'', 26), (''days'', 70), (''decibels'', 199), (''decibelsA'', 232),
     (''decibelsMillivolt'', 200), (''decibelsVolt'', 201), (''degreeDaysCelsius'', 65),
     (''degreeDaysFahrenheit'', 66), (''degreesAngular'', 90), (''degreesCelsius'', 62),
     (''degreesCelsiusPerHour'', 91), (''degreesCelsiusPerMinute'', 92), (''degreesFahrenheit'', 64),
     (''degreesFahrenheitPerHour'', 93), (''degreesFahrenheitPerMinute'', 94), (''degreesKelvin'', 63),
     (''degreesKelvinPerHour'', 181), (''degreesKelvinPerMinute'', 182), (''degreesPhase'', 14),
     (''deltaDegreesFahrenheit'', 120), (''deltaDegreesKelvin'', 121), (''farads'', 170), (''feet'', 33),
     (''feetPerMinute'', 77), (''feetPerSecond'', 76), (''footCandles'', 38), (''grams'', 195),
     (''gramsOfWaterPerKilogramDryAir'', 28), (''gramsPerCubicCentimeter'', 221),
     (''gramsPerCubicMeter'', 217), (''gramsPerGram'', 208), (''gramsPerKilogram'', 210),
     (''gramsPerLiter'', 214), (''gramsPerMilliliter'', 213), (''gramsPerMinute'', 155),
     (''gramsPerSecond'', 154), (''gramsPerSquareMeter'', 235), (''gray'', 225), (''hectopascals'', 133),
     (''henrys'', 171), (''hertz'', 27), (''horsepower'', 51), (''hours'', 71), (''hundredthsSeconds'', 158),
     (''imperialGallons'', 81), (''imperialGallonsPerMinute'', 86), (''inches'', 32),
     (''inchesOfMercury'', 61), (''inchesOfWater'', 58), (''joules'', 16), (''jouleSeconds'', 183),
     (''joulesPerCubicMeter'', 251), (''joulesPerDegreeKelvin'', 127), (''joulesPerHours'', 247),
     (''joulesPerKilogramDegreeKelvin'', 128), (''joulesPerKilogramDryAir'', 23), (''kilobecquerels'', 223),
     (''kiloBtus'', 147), (''kiloBtusPerHour'', 157), (''kilograms'', 39), (''kilogramsPerCubicMeter'', 186),
     (''kilogramsPerHour'', 44), (''kilogramsPerKilogram'', 209), (''kilogramsPerMinute'', 43),
     (''kilogramsPerSecond'', 42), (''kilohertz'', 129), (''kilohms'', 122), (''kilojoules'', 17),
     (''kilojoulesPerDegreeKelvin'', 151), (''kilojoulesPerKilogram'', 125),
     (''kilojoulesPerKilogramDryAir'', 149), (''kilometers'', 193), (''kilometersPerHour'', 75),
     (''kilopascals'', 54), (''kilovoltAmpereHours'', 240), (''kilovoltAmpereHoursReactive'', 243),
     (''kilovoltAmperes'', 9), (''kilovoltAmperesReactive'', 12), (''kilovolts'', 6),
     (''kilowattHours'', 19), (''kilowattHoursPerSquareFoot'', 138), (''kilowattHoursPerSquareMeter'', 137),
     (''kilowattHoursReactive'', 204), (''kilowatts'', 48), (''liters'', 82), (''litersPerHour'', 136),
     (''litersPerMinute'', 88), (''litersPerSecond'', 87), (''lumens'', 36), (''luxes'', 37),
     (''megabecquerels'', 224), (''megaBtus'', 148), (''megahertz'', 130), (''megajoules'', 126),
     (''megajoulesPerDegreeKelvin'', 152), (''megajoulesPerKilogramDryAir'', 150),
     (''megajoulesPerSquareFoot'', 140), (''megajoulesPerSquareMeter'', 139), (''megavoltAmpereHours'', 241),
     (''megavoltAmpereHoursReactive'', 244), (''megavoltAmperes'', 10), (''megavoltAmperesReactive'', 13),
     (''megavolts'', 7), (''megawattHours'', 146), (''megawattHoursReactive'', 205), (''megawatts'', 49),
     (''megohms'', 123), (''meters'', 31), (''metersPerHour'', 164), (''metersPerMinute'', 163),
     (''metersPerSecond'', 74), (''metersPerSecondPerSecond'', 166), (''microgramsPerCubicMeter'', 219),
     (''microgramsPerLiter'', 216), (''microgray'', 227), (''micrometers'', 194), (''microSiemens'', 190),
     (''microsieverts'', 230), (''microsievertsPerHour'', 231), (''milesPerHour'', 78),
     (''milliamperes'', 2), (''millibars'', 134), (''milligrams'', 196), (''milligramsPerCubicMeter'', 218),
     (''milligramsPerGram'', 211), (''milligramsPerKilogram'', 212), (''milligramsPerLiter'', 215),
     (''milligray'', 226), (''milliliters'', 197), (''millilitersPerSecond'', 198), (''millimeters'', 30),
     (''millimetersOfMercury'', 59), (''millimetersOfWater'', 206), (''millimetersPerMinute'', 162),
     (''millimetersPerSecond'', 161), (''milliohms'', 145), (''milliseconds'', 159), (''millisiemens'', 202),
     (''millisieverts'', 229), (''millivolts'', 124), (''milliwatts'', 132), (''minutes'', 72),
     (''minutesPerDegreeKelvin'', 236), (''months'', 68), (''nanogramsPerCubicMeter'', 220),
     (''nephelometricTurbidityUnit'', 233), (''newton'', 153), (''newtonMeters'', 160),
     (''newtonSeconds'', 187), (''newtonsPerMeter'', 188), (''noUnits'', 95),
     (''ohmMeterPerSquareMeter'', 237), (''ohmMeters'', 172), (''ohms'', 4), (''partsPerBillion'', 97),
     (''partsPerMillion'', 96), (''pascals'', 53), (''pascalSeconds'', 253), (''percent'', 98),
     (''percentObscurationPerFoot'', 143), (''percentObscurationPerMeter'', 144), (''percentPerSecond'', 99),
     (''percentRelativeHumidity'', 29), (''perHour'', 131), (''perMille'', 207), (''perMinute'', 100),
     (''perSecond'', 101), (''pH'', 234), (''poundsForcePerSquareInch'', 56), (''poundsMass'', 40),
     (''poundsMassPerHour'', 46), (''poundsMassPerMinute'', 45), (''poundsMassPerSecond'', 119),
     (''powerFactor'', 15), (''psiPerDegreeFahrenheit'', 102), (''radians'', 103),
     (''radiansPerSecond'', 184), (''revolutionsPerMinute'', 104), (''seconds'', 73), (''siemens'', 173),
     (''siemensPerMeter'', 174), (''sieverts'', 228), (''squareCentimeters'', 116), (''squareFeet'', 1),
     (''squareInches'', 115), (''squareMeters'', 0), (''squareMetersPerNewton'', 185), (''teslas'', 175),
     (''therms'', 21), (''tonHours'', 22), (''tons'', 41), (''tonsPerHour'', 156),
     (''tonsRefrigeration'', 52), (''usGallons'', 83), (''usGallonsPerHour'', 192),
     (''usGallonsPerMinute'', 89), (''voltAmpereHours'', 239), (''voltAmpereHoursReactive'', 242),
     (''voltAmperes'', 8), (''voltAmperesReactive'', 11), (''volts'', 5), (''voltsPerDegreeKelvin'', 176),
     (''voltsPerMeter'', 177), (''voltsSquareHours'', 245), (''wattHours'', 18),
     (''wattHoursPerCubicMeter'', 250), (''wattHoursReactive'', 203), (''watts'', 47),
     (''wattsPerMeterPerDegreeKelvin'', 189), (''wattsPerSquareFoot'', 34), (''wattsPerSquareMeter'', 35),
     (''wattsPerSquareMeterDegreeKelvin'', 141), (''webers'', 178), (''weeks'', 69), (''years'', 67)]"

definition ErrorClass :: "names" where
  "ErrorClass =
    [(''device'', 0), (''object'', 1), (''property'', 2), (''resources'', 3), (''security'', 4),
     (''services'', 5), (''vt'', 6), (''communication'', 7)]"

definition ErrorCode :: "names" where
  "ErrorCode =
    [(''abortApduTooLong'', 123), (''abortApplicationExceededReplyTime'', 124),
     (''abortBufferOverflow'', 51), (''abortInsufficientSecurity'', 135),
     (''abortInvalidApduInThisState'', 52), (''abortOther'', 56), (''abortOutOfResources'', 125),
     (''abortPreemptedByHigherPriorityTask'', 53), (''abortProprietary'', 55), (''abortSecurityError'', 136),
     (''abortSegmentationNotSupported'', 54), (''abortTsmTimeout'', 126),
     (''abortWindowSizeOutOfRange'', 127), (''accessDenied'', 85), (''addressingError'', 115),
     (''badDestinationAddress'', 86), (''badDestinationDeviceId'', 87), (''badSignature'', 88),
     (''badSourceAddress'', 89), (''badTimestamp'', 90), (''busy'', 82), (''bvlcFunctionUnknown'', 143),
     (''bvlcProprietaryFunctionUnknown'', 144), (''cannotUseKey'', 91), (''cannotVerifyMessageId'', 92),
     (''characterSetNotSupported'', 41), (''communicationDisabled'', 83), (''configurationInProgress'', 2),
     (''correctKeyRevision'', 93), (''covSubscriptionFailed'', 43), (''datatypeNotSupported'', 47),
     (''deleteFdtEntryFailed'', 120), (''destinationDeviceIdRequired'', 94), (''deviceBusy'', 3),
     (''distributeBroadcastFailed'', 121), (''dnsError'', 192), (''dnsNameResolutionFailed'', 190),
     (''dnsResolverFailure'', 191), (''dnsUnavailable'', 189), (''duplicateEntry'', 137),
     (''duplicateMessage'', 95), (''duplicateName'', 48), (''duplicateObjectId'', 49),
     (''dynamicCreationNotSupported'', 4), (''encryptionNotConfigured'', 96), (''encryptionRequired'', 97),
     (''fileAccessDenied'', 5), (''fileFull'', 128), (''headerEncodingError'', 145),
     (''headerNotUnderstood'', 146), (''httpError'', 165), (''httpNotAServer'', 164),
     (''httpNoUpgrade'', 153), (''httpProxyAuthenticationFailed'', 155), (''httpResourceNotLocal'', 154),
     (''httpResponseMissingHeader'', 159), (''httpResponseSyntaxError'', 157),
     (''httpResponseTimeout'', 156), (''httpResponseValueError'', 158), (''httpTemporaryUnavailable'', 163),
     (''httpUnexpectedResponseCode'', 152), (''httpUpgradeError'', 162), (''httpUpgradeRequired'', 161),
     (''httpWebsocketHeaderError'', 160), (''inconsistentConfiguration'', 129),
     (''inconsistentObjectType'', 130), (''inconsistentParameters'', 7),
     (''inconsistentSelectionCriterion'', 8), (''incorrectKey'', 98), (''internalError'', 131),
     (''invalidArrayIndex'', 42), (''invalidConfigurationData'', 46), (''invalidDataEncoding'', 142),
     (''invalidDataType'', 9), (''invalidEventState'', 73), (''invalidFileAccessMethod'', 10),
     (''invalidFileStartPosition'', 11), (''invalidKeyData'', 99), (''invalidParameterDataType'', 13),
     (''invalidTag'', 57), (''invalidTimeStamp'', 14), (''invalidValueInThisState'', 138),
     (''ipAddressNotReachable'', 198), (''ipError'', 199), (''keyUpdateInProgress'', 100),
     (''listElementNotFound'', 81), (''listItemNotNumbered'', 140), (''listItemNotTimestamped'', 141),
     (''logBufferFull'', 75), (''loggedValuePurged'', 76), (''malformedMessage'', 101),
     (''messageIncomplete'', 147), (''messageTooLong'', 113), (''missingRequiredParameter'', 16),
     (''networkDown'', 58), (''noAlarmConfigured'', 74), (''nodeDuplicateVmac'', 151),
     (''noObjectsOfSpecifiedType'', 17), (''noPropertySpecified'', 77), (''noSpaceForObject'', 18),
     (''noSpaceToAddListElement'', 19), (''noSpaceToWriteProperty'', 20), (''notABacnetScHub'', 148),
     (''notConfigured'', 132), (''notConfiguredForTriggeredLogging'', 78), (''notCovProperty'', 44),
     (''notKeyServer'', 102), (''notRouterToDnet'', 110), (''noVtSessionsAvailable'', 21),
     (''objectDeletionNotPermitted'', 23), (''objectIdentifierAlreadyExists'', 24),
     (''operationalProblem'', 25), (''optionalFunctionalityNotSupported'', 45), (''other'', 0),
     (''outOfMemory'', 133), (''parameterOutOfRange'', 80), (''passwordFailure'', 26),
     (''payloadExpected'', 149), (''propertyIsNotAList'', 22), (''propertyIsNotAnArray'', 50),
     (''readAccessDenied'', 27), (''readBdtFailed'', 117), (''readFdtFailed'', 119),
     (''registerForeignDeviceFailed'', 118), (''rejectBufferOverflow'', 59),
     (''rejectInconsistentParameters'', 60), (''rejectInvalidParameterDataType'', 61),
     (''rejectInvalidTag'', 62), (''rejectMissingRequiredParameter'', 63), (''rejectOther'', 69),
     (''rejectParameterOutOfRange'', 64), (''rejectProprietary'', 68), (''rejectTooManyArguments'', 65),
     (''rejectUndefinedEnumeration'', 66), (''rejectUnrecognizedService'', 67), (''routerBusy'', 111),
     (''securityError'', 114), (''securityNotConfigured'', 103), (''serviceRequestDenied'', 29),
     (''sourceSecurityRequired'', 104), (''success'', 84), (''tcpClosedByLocal'', 195),
     (''tcpClosedOther'', 196), (''tcpConnectionRefused'', 194), (''tcpConnectTimeout'', 193),
     (''tcpError'', 197), (''timeout'', 30), (''tleError'', 188), (''tlsClientAuthenticationFailed'', 182),
     (''tlsClientCertificateError'', 180), (''tlsClientCertificateExpired'', 184),
     (''tlsClientCertificateRevoked'', 186), (''tlsServerAuthenticationFailed'', 183),
     (''tlsServerCertificateError'', 181), (''tlsServerCertificateExpired'', 185),
     (''tlsServerCertificateRevoked'', 187), (''tooManyKeys'', 105), (''unexpectedData'', 150),
     (''unknownAuthenticationType'', 106), (''unknownDevice'', 70), (''unknownFileSize'', 122),
     (''unknownKey'', 107), (''unknownKeyRevision'', 108), (''unknownNetworkMessage'', 112),
     (''unknownObject'', 31), (''unknownProperty'', 32), (''unknownRoute'', 71),
     (''unknownSourceMessage'', 109), (''unknownSubscription'', 79), (''unknownVtClass'', 34),
     (''unknownVtSession'', 35), (''unsupportedObjectType'', 36), (''valueNotInitialized'', 72),
     (''valueOutOfRange'', 37), (''valueTooLong'', 134), (''vtSessionAlreadyClosed'', 38),
     (''vtSessionTerminationFailure'', 39), (''websocketClosedAbnormally'', 173),
     (''websocketClosedByPeer'', 169), (''websocketCloseError'', 168), (''websocketDataAgainstPolicy'', 175),
     (''websocketDataInconsistent'', 174), (''websocketDataNotAccepted'', 172),
     (''websocketEndpointLeaves'', 170), (''websocketError'', 179), (''websocketExtensionMissing'', 177),
     (''websocketFrameTooLong'', 176), (''websocketProtocolError'', 171),
     (''websocketRequestUnavailable'', 178), (''websocketSchemeNotSupported'', 166),
     (''websocketUnknownControlMessage'', 167), (''writeAccessDenied'', 40), (''writeBdtFailed'', 116)]"

definition EscalatorFault :: "names" where
  "EscalatorFault =
    [(''controllerFault'', 0), (''driveAndMotorFault'', 1), (''mechanicalComponentFault'', 2),
     (''overspeedFault'', 3), (''powerSupplyFault'', 4), (''safetyDeviceFault'', 5),
     (''controllerSupplyFault'', 6), (''driveTemperatureExceeded'', 7), (''combPlateFault'', 8)]"

definition EscalatorMode :: "names" where
  "EscalatorMode =
    [(''unknown'', 0), (''stop'', 1), (''up'', 2), (''down'', 3), (''inspection'', 4), (''outOfService'', 5)]"

definition EscalatorOperationDirection :: "names" where
  "EscalatorOperationDirection =
    [(''unknown'', 0), (''stopped'', 1), (''upRatedSpeed'', 2), (''upReducedSpeed'', 3),
     (''downRatedSpeed'', 4), (''downReducedSpeed'', 5)]"

definition EventState :: "names" where
  "EventState =
    [(''normal'', 0), (''fault'', 1), (''offnormal'', 2), (''highLimit'', 3), (''lowLimit'', 4),
     (''lifeSafetyAlarm'', 5)]"

definition EventType :: "names" where
  "EventType =
    [(''changeOfBitstring'', 0), (''changeOfState'', 1), (''changeOfValue'', 2), (''commandFailure'', 3),
     (''floatingLimit'', 4), (''outOfRange'', 5), (''changeOfLifeSafety'', 8), (''extended'', 9),
     (''bufferReady'', 10), (''unsignedRange'', 11), (''accessEvent'', 13), (''doubleOutOfRange'', 14),
     (''signedOutOfRange'', 15), (''unsignedOutOfRange'', 16), (''changeOfCharacterstring'', 17),
     (''changeOfStatusFlags'', 18), (''changeOfReliability'', 19), (''none'', 20),
     (''changeOfDiscreteValue'', 21), (''changeOfTimer'', 22)]"

definition FaultType :: "names" where
  "FaultType =
    [(''none'', 0), (''faultCharacterstring'', 1), (''faultExtended'', 2), (''faultLifeSafety'', 3),
     (''faultState'', 4), (''faultStatusFlags'', 5), (''faultOutOfRange'', 6), (''faultListed'', 7)]"

definition FileAccessMethod :: "names" where
  "FileAccessMethod =
    [(''recordAccess'', 0), (''streamAccess'', 1)]"

definition GetEnrollmentSummaryRequestAcknowledgmentFilterType :: "names" where
  "GetEnrollmentSummaryRequestAcknowledgmentFilterType =
    [(''all'', 0), (''acked'', 1), (''notAcked'', 2)]"

definition GetEnrollmentSummaryRequestEventStateFilterType :: "names" where
  "GetEnrollmentSummaryRequestEventStateFilterType =
    [(''offnormal'', 0), (''fault'', 1), (''normal'', 2), (''all'', 3), (''active'', 4)]"

definition IPMode :: "names" where
  "IPMode =
    [(''normal'', 0), (''foreign'', 1), (''bbmd'', 2)]"

definition LifeSafetyMode :: "names" where
  "LifeSafetyMode =
    [(''off'', 0), (''on'', 1), (''test'', 2), (''manned'', 3), (''unmanned'', 4), (''armed'', 5),
     (''disarmed'', 6), (''prearmed'', 7), (''slow'', 8), (''fast'', 9), (''disconnected'', 10),
     (''enabled'', 11), (''disabled'', 12), (''automaticReleaseDisabled'', 13), (''default'', 14)]"

definition LifeSafetyOperation :: "names" where
  "LifeSafetyOperation =
    [(''none'', 0), (''silence'', 1), (''silenceAudible'', 2), (''silenceVisual'', 3), (''reset'', 4),
     (''resetAlarm'', 5), (''resetFault'', 6), (''unsilence'', 7), (''unsilenceAudible'', 8),
     (''unsilenceVisual'', 9)]"

definition LifeSafetyState :: "names" where
  "LifeSafetyState =
    [(''quiet'', 0), (''preAlarm'', 1), (''alarm'', 2), (''fault'', 3), (''faultPreAlarm'', 4),
     (''faultAlarm'', 5), (''notReady'', 6), (''active'', 7), (''tamper'', 8), (''testAlarm'', 9),
     (''testActive'', 10), (''testFault'', 11), (''testFaultAlarm'', 12), (''holdup'', 13), (''duress'', 14),
     (''tamperAlarm'', 15), (''abnormal'', 16), (''emergencyPower'', 17), (''delayed'', 18),
     (''blocked'', 19), (''localAlarm'', 20), (''generalAlarm'', 21), (''supervisory'', 22),
     (''testSupervisory'', 23)]"

definition LiftCarDirection :: "names" where
  "LiftCarDirection =
    [(''unknown'', 0), (''none'', 1), (''stopped'', 2), (''up'', 3), (''down'', 4), (''upAndDown'', 5)]"

definition LiftCarDoorCommand :: "names" where
  "LiftCarDoorCommand =
    [(''none'', 0), (''open'', 1), (''close'', 2)]"

definition LiftCarDriveStatus :: "names" where
  "LiftCarDriveStatus =
    [(''unknown'', 0), (''stationary'', 1), (''braking'', 2), (''accelerate'', 3), (''decelerate'', 4),
     (''ratedSpeed'', 5), (''singleFloorJump'', 6), (''twoFloorJump'', 7), (''threeFloorJump'', 8),
     (''multiFloorJump'', 9)]"

definition LiftCarMode :: "names" where
  "LiftCarMode =
    [(''unknown'', 0), (''normal'', 1), (''vip'', 2), (''homing'', 3), (''parking'', 4),
     (''attendantControl'', 5), (''firefighterControl'', 6), (''emergencyPower'', 7), (''inspection'', 8),
     (''cabinetRecall'', 9), (''earthquakeOperation'', 10), (''fireOperation'', 11), (''outOfService'', 12),
     (''occupantEvacuation'', 13)]"

definition LiftFault :: "names" where
  "LiftFault =
    [(''controllerFault'', 0), (''driveAndMotorFault'', 1), (''governorAndSafetyGearFault'', 2),
     (''liftShaftDeviceFault'', 3), (''powerSupplyFault'', 4), (''safetyInterlockFault'', 5),
     (''doorClosingFault'', 6), (''doorOpeningFault'', 7), (''carStoppedOutsideLandingZone'', 8),
     (''callButtonStuck'', 9), (''startFailure'', 10), (''controllerSupplyFault'', 11),
     (''selfTestFailure'', 12), (''runtimeLimitExceeded'', 13), (''positionLost'', 14),
     (''driveTemperatureExceeded'', 15), (''loadMeasurementFault'', 16)]"

definition LiftGroupMode :: "names" where
  "LiftGroupMode =
    [(''unknown'', 0), (''normal'', 1), (''downPeak'', 2), (''twoWay'', 3), (''fourWay'', 4),
     (''emergencyPower'', 5), (''upPeak'', 6)]"

definition LightingInProgress :: "names" where
  "LightingInProgress =
    [(''idle'', 0), (''fadeActive'', 1), (''rampActive'', 2), (''notControlled'', 3), (''other'', 4)]"

definition LightingOperation :: "names" where
  "LightingOperation =
    [(''none'', 0), (''fadeTo'', 1), (''rampTo'', 2), (''stepUp'', 3), (''stepDown'', 4), (''stepOn'', 5),
     (''stepOff'', 6), (''warn'', 7), (''warnOff'', 8), (''warnRelinquish'', 9), (''stop'', 10)]"

definition LightingTransition :: "names" where
  "LightingTransition =
    [(''none'', 0), (''fade'', 1), (''ramp'', 2)]"

definition LockStatus :: "names" where
  "LockStatus =
    [(''locked'', 0), (''unlocked'', 1), (''fault'', 2), (''unknown'', 3)]"

definition LoggingType :: "names" where
  "LoggingType =
    [(''polled'', 0), (''cov'', 1), (''triggered'', 2)]"

definition Maintenance :: "names" where
  "Maintenance =
    [(''none'', 0), (''periodicTest'', 1), (''needServiceOperational'', 2), (''needServiceInoperative'', 3)]"

definition NetworkNumberQuality :: "names" where
  "NetworkNumberQuality =
    [(''unknown'', 0), (''learned'', 1), (''learnedConfigured'', 2), (''configured'', 3)]"

definition NetworkPortCommand :: "names" where
  "NetworkPortCommand =
    [(''idle'', 0), (''discardChanges'', 1), (''renewFdDRegistration'', 2), (''restartSlaveDiscovery'', 3),
     (''renewDHCP'', 4), (''restartAutonegotiation'', 5), (''disconnect'', 6), (''restartPort'', 7)]"

definition NetworkType :: "names" where
  "NetworkType =
    [(''ethernet'', 0), (''arcnet'', 1), (''mstp'', 2), (''ptp'', 3), (''lontalk'', 4), (''ipv4'', 5),
     (''zigbee'', 6), (''virtual'', 7), (''ipv6'', 9), (''serial'', 10), (''secureConnect'', 11)]"

definition NodeType :: "names" where
  "NodeType =
    [(''unknown'', 0), (''system'', 1), (''network'', 2), (''device'', 3), (''organizational'', 4),
     (''area'', 5), (''equipment'', 6), (''point'', 7), (''collection'', 8), (''property'', 9),
     (''functional'', 10), (''other'', 11), (''subsystem'', 12), (''building'', 13), (''floor'', 14),
     (''section'', 15), (''module'', 16), (''tree'', 17), (''member'', 18), (''protocol'', 19),
     (''room'', 20), (''zone'', 21)]"

definition NotifyType :: "names" where
  "NotifyType =
    [(''alarm'', 0), (''event'', 1), (''ackNotification'', 2)]"

definition Polarity :: "names" where
  "Polarity =
    [(''normal'', 0), (''reverse'', 1)]"

definition ProgramError :: "names" where
  "ProgramError =
    [(''normal'', 0), (''loadFailed'', 1), (''internal'', 2), (''program'', 3), (''other'', 4)]"

definition ProgramRequest :: "names" where
  "ProgramRequest =
    [(''ready'', 0), (''load'', 1), (''run'', 2), (''halt'', 3), (''restart'', 4), (''unload'', 5)]"

definition ProgramState :: "names" where
  "ProgramState =
    [(''idle'', 0), (''loading'', 1), (''running'', 2), (''waiting'', 3), (''halted'', 4),
     (''unloading'', 5)]"

definition ProtocolLevel :: "names" where
  "ProtocolLevel =
    [(''physical'', 0), (''protocol'', 1), (''bacnetApplication'', 2), (''nonBacnetApplication'', 3)]"

definition ReinitializeDeviceRequestReinitializedStateOfDevice :: "names" where
  "ReinitializeDeviceRequestReinitializedStateOfDevice =
    [(''coldstart'', 0), (''warmstart'', 1), (''startBackup'', 2), (''endBackup'', 3), (''startRestore'', 4),
     (''endRestore'', 5), (''abortRestore'', 6), (''activateChanges'', 7)]"

definition Relationship :: "names" where
  "Relationship =
    [(''unknown'', 0), (''default'', 1), (''contains'', 2), (''containedBy'', 3), (''uses'', 4),
     (''usedBy'', 5), (''commands'', 6), (''commandedBy'', 7), (''adjusts'', 8), (''adjustedBy'', 9),
     (''ingress'', 10), (''egress'', 11), (''suppliesAir'', 12), (''receivesAir'', 13),
     (''suppliesHotAir'', 14), (''receivesHotAir'', 15), (''suppliesCoolAir'', 16),
     (''receivesCoolAir'', 17), (''suppliesPower'', 18), (''receivesPower'', 19), (''suppliesGas'', 20),
     (''receivesGas'', 21), (''suppliesWater'', 22), (''receivesWater'', 23), (''suppliesHotWater'', 24),
     (''receivesHotWater'', 25), (''suppliesCoolWater'', 26), (''receivesCoolWater'', 27),
     (''suppliesSteam'', 28), (''receivesSteam'', 29)]"

definition Reliability :: "names" where
  "Reliability =
    [(''noFaultDetected'', 0), (''noSensor'', 1), (''overRange'', 2), (''underRange'', 3), (''openLoop'', 4),
     (''shortedLoop'', 5), (''noOutput'', 6), (''unreliableOther'', 7), (''processError'', 8),
     (''multiStateFault'', 9), (''configurationError'', 10), (''communicationFailure'', 12),
     (''memberFault'', 13), (''monitoredObjectFault'', 14), (''tripped'', 15), (''lampFailure'', 16),
     (''activationFailure'', 17), (''renewDHCPFailure'', 18), (''renewFDRegistrationFailure'', 19),
     (''restartAutoNegotiationFailure'', 20), (''restartFailure'', 21), (''proprietaryCommandFailure'', 22),
     (''faultsListed'', 23), (''referencedObjectFault'', 24), (''multiStateOutOfRange'', 25)]"

definition RestartReason :: "names" where
  "RestartReason =
    [(''unknown'', 0), (''coldstart'', 1), (''warmstart'', 2), (''detectedPowerLost'', 3),
     (''detectedPoweredOff'', 4), (''hardwareWatchdog'', 5), (''softwareWatchdog'', 6), (''suspended'', 7),
     (''activateChanges'', 8)]"

definition RouterEntryStatus :: "names" where
  "RouterEntryStatus =
    [(''available'', 0), (''busy'', 1), (''disconnected'', 2)]"

definition SecurityLevel :: "names" where
  "SecurityLevel =
    [(''incapable'', 0), (''plain'', 1), (''signed'', 2), (''encrypted'', 3), (''signedEndToEnd'', 4),
     (''encryptedEndToEnd'', 4)]"

definition SecurityPolicy :: "names" where
  "SecurityPolicy =
    [(''plainNonTrusted'', 0), (''plainTrusted'', 1), (''signedTrusted'', 2), (''encryptedTrusted'', 3)]"

definition Segmentation :: "names" where
  "Segmentation =
    [(''segmentedBoth'', 0), (''segmentedTransmit'', 1), (''segmentedReceive'', 2), (''noSegmentation'', 3)]"

definition ShedState :: "names" where
  "ShedState =
    [(''shedInactive'', 0), (''shedRequestPending'', 1), (''shedCompliant'', 2), (''shedNonCompliant'', 3)]"

definition SilencedState :: "names" where
  "SilencedState =
    [(''unsilenced'', 0), (''audibleSilenced'', 1), (''visibleSilenced'', 2), (''allSilenced'', 3)]"

definition TimerState :: "names" where
  "TimerState =
    [(''idle'', 0), (''running'', 1), (''expired'', 2)]"

definition TimerTransition :: "names" where
  "TimerTransition =
    [(''none'', 0), (''idleToRunning'', 1), (''runningToIdle'', 2), (''runningToRunning'', 3),
     (''runningToExpired'', 4), (''forcedToExpired'', 5), (''expiredToIdle'', 6), (''expiredToRunning'', 7)]"

definition UnconfirmedTextMessageRequestMessagePriority :: "names" where
  "UnconfirmedTextMessageRequestMessagePriority =
    [(''normal'', 0), (''urgent'', 1)]"

definition VTClass :: "names" where
  "VTClass =
    [(''defaultTerminal'', 0), (''ansiX364'', 1), (''decVt52'', 2), (''decVt100'', 3), (''decVt220'', 4),
     (''hp70094'', 5), (''ibm3130'', 6)]"

definition WriteStatus :: "names" where
  "WriteStatus =
    [(''idle'', 0), (''inProgress'', 1), (''successful'', 2), (''failed'', 3)]"

definition AuditOperationFlags :: "names" where
  "AuditOperationFlags =
    [(''read'', 0), (''write'', 1), (''create'', 2), (''delete'', 3), (''lifeSafety'', 4),
     (''acknowledgeAlarm'', 5), (''deviceDisableComm'', 6), (''deviceEnableComm'', 7), (''deviceReset'', 8),
     (''deviceBackup'', 9), (''deviceRestore'', 10), (''subscription'', 11), (''notification'', 12),
     (''auditingFailure'', 13), (''networkChanges'', 14), (''general'', 15)]"

definition DaysOfWeek :: "names" where
  "DaysOfWeek =
    [(''monday'', 0), (''tuesday'', 1), (''wednesday'', 2), (''thursday'', 3), (''friday'', 4),
     (''saturday'', 5), (''sunday'', 6)]"

definition EventTransitionBits :: "names" where
  "EventTransitionBits =
    [(''toOffnormal'', 0), (''toFault'', 1), (''toNormal'', 2)]"

definition LimitEnable :: "names" where
  "LimitEnable =
    [(''lowLimitEnable'', 0), (''highLimitEnable'', 1)]"

definition LogStatus :: "names" where
  "LogStatus =
    [(''logDisabled'', 0), (''bufferPurged'', 1), (''logInterrupted'', 2)]"

definition ObjectTypesSupported :: "names" where
  "ObjectTypesSupported =
    [(''analogInput'', 0), (''analogOutput'', 1), (''analogValue'', 2), (''binaryInput'', 3),
     (''binaryOutput'', 4), (''binaryValue'', 5), (''calendar'', 6), (''command'', 7), (''device'', 8),
     (''eventEnrollment'', 9), (''file'', 10), (''group'', 11), (''loop'', 12), (''multiStateInput'', 13),
     (''multiStateOutput'', 14), (''notificationClass'', 15), (''program'', 16), (''schedule'', 17),
     (''averaging'', 18), (''multiStateValue'', 19), (''trendLog'', 20), (''lifeSafetyPoint'', 21),
     (''lifeSafetyZone'', 22), (''accumulator'', 23), (''pulseConverter'', 24), (''eventLog'', 25),
     (''globalGroup'', 26), (''trendLogMultiple'', 27), (''loadControl'', 28), (''structuredView'', 29),
     (''accessDoor'', 30), (''accessCredential'', 32), (''accessPoint'', 33), (''accessRights'', 34),
     (''accessUser'', 35), (''accessZone'', 36), (''credentialDataInput'', 37), (''networkPort'', 56),
     (''networkSecurity'', 38), (''bitstringValue'', 39), (''characterstringValue'', 40),
     (''datePatternValue'', 41), (''dateValue'', 42), (''datetimePatternValue'', 43),
     (''datetimeValue'', 44), (''integerValue'', 45), (''largeAnalogValue'', 46), (''octetstringValue'', 47),
     (''positiveIntegerValue'', 48), (''timePatternValue'', 49), (''timeValue'', 50),
     (''notificationForwarder'', 51), (''alertEnrollment'', 52), (''channel'', 53), (''lightingOutput'', 54),
     (''binaryLightingOutput'', 55), (''elevatorGroup'', 57), (''escalator'', 58), (''lift'', 59),
     (''staging'', 60), (''auditLog'', 61), (''auditReporter'', 62)]"

definition PriorityFilter :: "names" where
  "PriorityFilter =
    [(''manualLifeSafety'', 0), (''automaticLifeSafety'', 1), (''priority3'', 2), (''priority4'', 3),
     (''criticalEquipmentControls'', 4), (''minimumOnOff'', 5), (''priority7'', 6), (''manualOperator'', 7),
     (''priority9'', 8), (''priority10'', 9), (''priority11'', 10), (''priority12'', 11),
     (''priority13'', 12), (''priority14'', 13), (''priority15'', 14), (''priority16'', 15)]"

definition ResultFlags :: "names" where
  "ResultFlags =
    [(''firstItem'', 0), (''lastItem'', 1), (''moreItems'', 2)]"

definition ServicesSupported :: "names" where
  "ServicesSupported =
    [(''acknowledgeAlarm'', 0), (''confirmedCOVNotification'', 1), (''confirmedEventNotification'', 2),
     (''getAlarmSummary'', 3), (''getEnrollmentSummary'', 4), (''subscribeCOV'', 5), (''atomicReadFile'', 6),
     (''atomicWriteFile'', 7), (''addListElement'', 8), (''removeListElement'', 9), (''createObject'', 10),
     (''deleteObject'', 11), (''readProperty'', 12), (''readPropertyMultiple'', 14), (''writeProperty'', 15),
     (''writePropertyMultiple'', 16), (''deviceCommunicationControl'', 17),
     (''confirmedPrivateTransfer'', 18), (''confirmedTextMessage'', 19), (''reinitializeDevice'', 20),
     (''vtOpen'', 21), (''vtClose'', 22), (''vtData'', 23), (''iAm'', 26), (''iHave'', 27),
     (''unconfirmedCOVNotification'', 28), (''unconfirmedEventNotification'', 29),
     (''unconfirmedPrivateTransfer'', 30), (''unconfirmedTextMessage'', 31), (''timeSynchronization'', 32),
     (''whoHas'', 33), (''whoIs'', 34), (''readRange'', 35), (''utcTimeSynchronization'', 36),
     (''lifeSafetyOperation'', 37), (''subscribeCOVProperty'', 38), (''getEventInformation'', 39),
     (''writeGroup'', 40), (''subscribeCOVPropertyMultiple'', 41),
     (''confirmedCOVNotificationMultiple'', 42), (''unconfirmedCOVNotificationMultiple'', 43),
     (''confirmedAuditNotification'', 44), (''auditLogQuery'', 45), (''unconfirmedAuditNotification'', 46),
     (''whoAmI'', 47), (''youAre'', 48)]"

definition StatusFlags :: "names" where
  "StatusFlags =
    [(''inAlarm'', 0), (''fault'', 1), (''overridden'', 2), (''outOfService'', 3)]"

definition SCConnectionState :: "names" where
  "SCConnectionState =
    [(''notConnected'', 0), (''connected'', 1), (''disconnectedWithErrors'', 2), (''failedToConnect'', 3)]"

definition SCHubConnectorState :: "names" where
  "SCHubConnectorState =
    [(''noHubConnection'', 0), (''connectedToPrimary'', 1), (''connectedToFailover'', 2)]"

section \<open>Reasons and services\<close>

definition AbortReason :: "names" where
  "AbortReason =
    [(''other'', 0), (''bufferOverflow'', 1), (''invalidApduInThisState'', 2),
     (''preemptedByHigherPriorityTask'', 3), (''segmentationNotSupported'', 4), (''securityError'', 5),
     (''insufficientSecurity'', 6), (''windowSizeOutOfRange'', 7), (''applicationExceededReplyTime'', 8),
     (''outOfResources'', 9), (''tsmTimeout'', 10), (''apduTooLong'', 11), (''serverTimeout'', 64),
     (''noResponse'', 65)]"

definition RejectReason :: "names" where
  "RejectReason =
    [(''other'', 0), (''bufferOverflow'', 1), (''inconsistentParameters'', 2),
     (''invalidParameterDatatype'', 3), (''invalidTag'', 4), (''missingRequiredParameter'', 5),
     (''parameterOutOfRange'', 6), (''tooManyArguments'', 7), (''undefinedEnumeration'', 8),
     (''unrecognizedService'', 9)]"

definition ConfirmedServiceChoice :: "names" where
  "ConfirmedServiceChoice =
    [(''acknowledgeAlarm'', 0), (''addListElement'', 8), (''atomicReadFile'', 6), (''atomicWriteFile'', 7),
     (''auditLogQuery'', 33), (''authenticate'', 24), (''confirmedAuditNotification'', 32),
     (''confirmedCOVNotification'', 1), (''confirmedCOVNotificationMultiple'', 31),
     (''confirmedEventNotification'', 2), (''confirmedPrivateTransfer'', 18), (''confirmedTextMessage'', 19),
     (''createObject'', 10), (''deleteObject'', 11), (''deviceCommunicationControl'', 17),
     (''getAlarmSummary'', 3), (''getEnrollmentSummary'', 4), (''getEventInformation'', 29),
     (''lifeSafetyOperation'', 27), (''readProperty'', 12), (''readPropertyMultiple'', 14),
     (''readPropertyConditional'', 13), (''readRange'', 26), (''reinitializeDevice'', 20),
     (''removeListElement'', 9), (''requestKey'', 25), (''subscribeCOV'', 5), (''subscribeCOVProperty'', 28),
     (''subscribeCOVPropertyMultiple'', 30), (''vtClose'', 22), (''vtData'', 23), (''vtOpen'', 21),
     (''writeProperty'', 15), (''writePropertyMultiple'', 16)]"

definition UnconfirmedServiceChoice :: "names" where
  "UnconfirmedServiceChoice =
    [(''iAm'', 0), (''iHave'', 1), (''unconfirmedCOVNotification'', 2),
     (''unconfirmedEventNotification'', 3), (''unconfirmedPrivateTransfer'', 4),
     (''unconfirmedTextMessage'', 5), (''timeSynchronization'', 6), (''whoHas'', 7), (''whoIs'', 8),
     (''utcTimeSynchronization'', 9), (''writeGroup'', 10), (''unconfirmedCOVNotificationMultiple'', 11),
     (''unconfirmedAuditNotification'', 12), (''whoIAm'', 13), (''youAre'', 14)]"

end
