(* ===== verification/Basetypes.thy ===== *)
theory Basetypes
  imports ElementWire Enumerations
begin

text \<open>
  The constructed classes of \<^verbatim>\<open>bacpypes3/basetypes.py\<close> in the order of the file, which is
  what can be in the properties of an object and in the parameters of a service.
\<close>

text \<open>
  The classes made of names. A number that has no name is a value of an enumeration; a bit
  string is at least as long as its names need.
\<close>

definition enumerated :: "names \<Rightarrow> shape" where
  "enumerated t = Atomic (TEnumerated (Some 0) None)"

definition enumerated_below :: "int \<Rightarrow> names \<Rightarrow> shape" where
  "enumerated_below n t = Atomic (TEnumerated (Some 0) (Some n))"

definition bits :: "names \<Rightarrow> shape" where
  "bits t = Atomic (TBitString (foldr (\<lambda>(a, n) k. max (nat n + 1) k) t 0))"

section \<open>Classes\<close>

definition PropertyReference :: shape where
  "PropertyReference = Sequence
    [(''propertyIdentifier'', ctx 0 (enumerated PropertyIdentifier)),
     (''propertyArrayIndex'', ctx_opt 1 (Atomic (TUnsigned None None)))]"

definition PropertyValue :: shape where
  "PropertyValue = Sequence
    [(''propertyIdentifier'', ctx 0 (enumerated PropertyIdentifier)),
     (''propertyArrayIndex'', ctx_opt 1 (Atomic (TUnsigned None None))),
     (''value'', ctx 2 Any),
     (''priority'', ctx_opt 3 (Atomic (TUnsigned None None)))]"

definition ObjectPropertyReference :: shape where
  "ObjectPropertyReference = Sequence
    [(''objectIdentifier'', ctx 0 (Atomic TObjectIdentifier)),
     (''propertyIdentifier'', ctx 1 (enumerated PropertyIdentifier)),
     (''propertyArrayIndex'', ctx_opt 2 (Atomic (TUnsigned None None)))]"

definition ObjectPropertyValue :: shape where
  "ObjectPropertyValue = Sequence
    [(''objectIdentifier'', ctx 0 (Atomic TObjectIdentifier)),
     (''propertyIdentifier'', ctx 1 (enumerated PropertyIdentifier)),
     (''propertyArrayIndex'', ctx_opt 2 (Atomic (TUnsigned None None))),
     (''value'', ctx 3 Any),
     (''priority'', ctx_opt 4 (Atomic (TUnsigned None None)))]"

definition DeviceObjectPropertyReference :: shape where
  "DeviceObjectPropertyReference = Sequence
    [(''objectIdentifier'', ctx 0 (Atomic TObjectIdentifier)),
     (''propertyIdentifier'', ctx 1 (enumerated PropertyIdentifier)),
     (''propertyArrayIndex'', ctx_opt 2 (Atomic (TUnsigned None None))),
     (''deviceIdentifier'', ctx_opt 3 (Atomic TObjectIdentifier))]"

definition DeviceObjectPropertyValue :: shape where
  "DeviceObjectPropertyValue = Sequence
    [(''deviceIdentifier'', ctx 0 (Atomic TObjectIdentifier)),
     (''objectIdentifier'', ctx 1 (Atomic TObjectIdentifier)),
     (''propertyIdentifier'', ctx 2 (enumerated PropertyIdentifier)),
     (''arrayIndex'', ctx_opt 3 (Atomic (TUnsigned None None))),
     (''value'', ctx 4 Any)]"

definition DeviceObjectReference :: shape where
  "DeviceObjectReference = Sequence
    [(''deviceIdentifier'', ctx_opt 0 (Atomic TObjectIdentifier)),
     (''objectIdentifier'', ctx 1 (Atomic TObjectIdentifier))]"

definition DateTime :: shape where
  "DateTime = Sequence
    [(''date'', plain (Atomic TDate)),
     (''time'', plain (Atomic TTime))]"

definition TimeValue :: shape where
  "TimeValue = Sequence
    [(''time'', plain (Atomic TTime)),
     (''value'', plain AnyAtomic)]"

definition DeviceAddress :: shape where
  "DeviceAddress = Sequence
    [(''networkNumber'', plain (Atomic (TUnsigned None None))),
     (''macAddress'', plain (Atomic (TOctetString None None)))]"

definition TimeStamp :: shape where
  "TimeStamp = Choice
    [(''time'', ctx 0 (Atomic TTime)),
     (''sequenceNumber'', ctx 1 (Atomic (TUnsigned None None))),
     (''dateTime'', ctx 2 DateTime)]"

definition Recipient :: shape where
  "Recipient = Choice
    [(''device'', ctx 0 (Atomic TObjectIdentifier)),
     (''address'', ctx 1 DeviceAddress)]"

definition ListOfRecipient :: shape where
  "ListOfRecipient = SequenceOf (plain Recipient)"

definition ErrorType :: shape where
  "ErrorType = Sequence
    [(''errorClass'', plain (enumerated ErrorClass)),
     (''errorCode'', plain (enumerated ErrorCode))]"

definition HostAddress :: shape where
  "HostAddress = Choice
    [(''none'', ctx 0 (Atomic TNull)),
     (''ipAddress'', ctx 1 (Atomic (TOctetString None None))),
     (''name'', ctx 2 (Atomic (TCharacterString 0)))]"

definition HostNPort :: shape where
  "HostNPort = Sequence
    [(''host'', ctx 0 HostAddress),
     (''port'', ctx 1 (Atomic (TUnsigned None (Some 65535))))]"

definition AccessRule :: shape where
  "AccessRule = Sequence
    [(''timeRangeSpecifier'', ctx 0 (enumerated AccessRuleTimeRangeSpecifier)),
     (''timeRange'', ctx_opt 1 DeviceObjectPropertyReference),
     (''locationSpecifier'', ctx 2 (enumerated AccessRuleLocationSpecifier)),
     (''location'', ctx_opt 3 DeviceObjectReference),
     (''enable'', ctx 4 (Atomic TBoolean))]"

definition ArrayOfAccessRule :: shape where
  "ArrayOfAccessRule = ArrayOf None (plain AccessRule)"

definition AccumulatorRecord :: shape where
  "AccumulatorRecord = Sequence
    [(''timestamp'', ctx 0 DateTime),
     (''presentValue'', ctx 1 (Atomic (TUnsigned None None))),
     (''accumulatedValue'', ctx 2 (Atomic (TUnsigned None None))),
     (''accumulatorStatus'', ctx 3 (enumerated AccumulatorRecordAccumulatorStatus))]"

definition ActionCommand :: shape where
  "ActionCommand = Sequence
    [(''deviceIdentifier'', ctx_opt 0 (Atomic TObjectIdentifier)),
     (''objectIdentifier'', ctx 1 (Atomic TObjectIdentifier)),
     (''propertyIdentifier'', ctx 2 (enumerated PropertyIdentifier)),
     (''propertyArrayIndex'', ctx_opt 3 (Atomic (TUnsigned None None))),
     (''propertyValue'', ctx 4 Any),
     (''priority'', ctx_opt 5 (Atomic (TUnsigned None None))),
     (''postDelay'', ctx_opt 6 (Atomic (TUnsigned None None))),
     (''quitOnFailure'', ctx 7 (Atomic TBoolean)),
     (''writeSuccessFul'', ctx 8 (Atomic TBoolean))]"

definition SequenceOfActionCommand :: shape where
  "SequenceOfActionCommand = SequenceOf (plain ActionCommand)"

definition ActionList :: shape where
  "ActionList = Sequence
    [(''action'', ctx 0 (SequenceOf (plain ActionCommand)))]"

definition ArrayOfActionList :: shape where
  "ArrayOfActionList = ArrayOf None (plain ActionList)"

definition Address :: shape where
  "Address = Sequence
    [(''networkNumber'', plain (Atomic (TUnsigned None (Some 65535)))),
     (''macAddress'', plain (Atomic (TOctetString None None)))]"

definition AddressBinding :: shape where
  "AddressBinding = Sequence
    [(''deviceObjectIdentifier'', plain (Atomic TObjectIdentifier)),
     (''deviceAddress'', plain DeviceAddress)]"

definition ListOfAddressBinding :: shape where
  "ListOfAddressBinding = SequenceOf (plain AddressBinding)"

definition AssignedAccessRights :: shape where
  "AssignedAccessRights = Sequence
    [(''assignedAccessRights'', ctx 0 DeviceObjectReference),
     (''enable'', ctx 1 (Atomic TBoolean))]"

definition ArrayOfAssignedAccessRights :: shape where
  "ArrayOfAssignedAccessRights = ArrayOf None (plain AssignedAccessRights)"

definition AssignedLandingCallsLandingCalls :: shape where
  "AssignedLandingCallsLandingCalls = Sequence
    [(''floorNumber'', ctx 0 (Atomic (TUnsigned None (Some 255)))),
     (''direction'', ctx 1 (enumerated LiftCarDirection))]"

definition SequenceOfAssignedLandingCallsLandingCalls :: shape where
  "SequenceOfAssignedLandingCallsLandingCalls = SequenceOf (plain AssignedLandingCallsLandingCalls)"

definition AssignedLandingCalls :: shape where
  "AssignedLandingCalls = Sequence
    [(''landingCalls'', ctx 0 (SequenceOf (plain AssignedLandingCallsLandingCalls)))]"

definition ArrayOfAssignedLandingCalls :: shape where
  "ArrayOfAssignedLandingCalls = ArrayOf None (plain AssignedLandingCalls)"

definition AtomicReadFileACKAccessMethodRecordAccess :: shape where
  "AtomicReadFileACKAccessMethodRecordAccess = Sequence
    [(''fileStartRecord'', plain (Atomic (TInteger None None))),
     (''returnedRecordCount'', plain (Atomic (TUnsigned None None))),
     (''fileRecordData'', plain (SequenceOf (plain (Atomic (TOctetString None None)))))]"

definition AtomicReadFileACKAccessMethodStreamAccess :: shape where
  "AtomicReadFileACKAccessMethodStreamAccess = Sequence
    [(''fileStartPosition'', plain (Atomic (TInteger None None))),
     (''fileData'', plain (Atomic (TOctetString None None)))]"

definition AtomicReadFileRequestAccessMethodChoiceRecordAccess :: shape where
  "AtomicReadFileRequestAccessMethodChoiceRecordAccess = Sequence
    [(''fileStartRecord'', plain (Atomic (TInteger None None))),
     (''requestedRecordCount'', plain (Atomic (TUnsigned None None)))]"

definition AtomicReadFileRequestAccessMethodChoiceStreamAccess :: shape where
  "AtomicReadFileRequestAccessMethodChoiceStreamAccess = Sequence
    [(''fileStartPosition'', plain (Atomic (TInteger None None))),
     (''requestedOctetCount'', plain (Atomic (TUnsigned None None)))]"

definition AtomicWriteFileRequestAccessMethodChoiceRecordAccess :: shape where
  "AtomicWriteFileRequestAccessMethodChoiceRecordAccess = Sequence
    [(''fileStartRecord'', plain (Atomic (TInteger None None))),
     (''recordCount'', plain (Atomic (TUnsigned None None))),
     (''fileRecordData'', plain (SequenceOf (plain (Atomic (TOctetString None None)))))]"

definition AtomicWriteFileRequestAccessMethodChoiceStreamAccess :: shape where
  "AtomicWriteFileRequestAccessMethodChoiceStreamAccess = Sequence
    [(''fileStartPosition'', plain (Atomic (TInteger None None))),
     (''fileData'', plain (Atomic (TOctetString None None)))]"

definition AuditLogQueryParametersBySource :: shape where
  "AuditLogQueryParametersBySource = Sequence
    [(''sourceDeviceIdentifier'', ctx 0 (Atomic TObjectIdentifier)),
     (''sourceDeviceAddress'', ctx_opt 1 Address),
     (''sourceObjectIdentifier'', ctx_opt 2 (Atomic TObjectIdentifier)),
     (''operations'', ctx_opt 3 (bits AuditOperationFlags)),
     (''successfulActionsOnly'', ctx 4 (Atomic TBoolean))]"

definition AuditLogQueryParametersByTarget :: shape where
  "AuditLogQueryParametersByTarget = Sequence
    [(''targetDeviceIdentifier'', ctx 0 (Atomic TObjectIdentifier)),
     (''targetDeviceAddress'', ctx_opt 1 Address),
     (''targetObjectIdentifier'', ctx_opt 2 (Atomic TObjectIdentifier)),
     (''targetPropertyIdentifier'', ctx_opt 3 (enumerated PropertyIdentifier)),
     (''targetArrayIndex'', ctx_opt 4 (Atomic (TUnsigned None None))),
     (''targetPriority'', ctx_opt 5 (Atomic (TUnsigned None None))),
     (''operations'', ctx_opt 6 (bits AuditOperationFlags)),
     (''successfulActionsOnly'', ctx 7 (Atomic TBoolean))]"

definition AuditNotification :: shape where
  "AuditNotification = Sequence
    [(''sourceTimestamp'', ctx_opt 0 TimeStamp),
     (''targetTimestamp'', ctx_opt 1 TimeStamp),
     (''sourceDevice'', ctx 2 Recipient),
     (''sourceObject'', ctx_opt 3 (Atomic TObjectIdentifier)),
     (''operation'', ctx 4 (enumerated AuditOperation)),
     (''sourceComment'', ctx_opt 5 (Atomic (TCharacterString 0))),
     (''targetComment'', ctx_opt 6 (Atomic (TCharacterString 0))),
     (''invokeID'', ctx_opt 7 (Atomic (TUnsigned None (Some 255)))),
     (''sourceUserID'', ctx_opt 8 (Atomic (TUnsigned None (Some 65535)))),
     (''sourceUserRole'', ctx_opt 9 (Atomic (TUnsigned None (Some 255)))),
     (''targetDevice'', ctx 10 Recipient),
     (''targetObject'', ctx_opt 11 (Atomic TObjectIdentifier)),
     (''targetProperty'', ctx_opt 12 PropertyReference),
     (''targetPriority'', ctx_opt 13 (Atomic (TUnsigned None None))),
     (''targetValue'', ctx_opt 14 Any),
     (''currentValue'', ctx_opt 15 Any),
     (''result'', ctx_opt 16 ErrorType)]"

definition AuditLogRecordLogDatum :: shape where
  "AuditLogRecordLogDatum = Choice
    [(''logStatus'', ctx 0 (bits LogStatus)),
     (''auditNotification'', ctx 1 AuditNotification),
     (''timeChange'', plain (Atomic TReal))]"

definition AuditLogRecord :: shape where
  "AuditLogRecord = Sequence
    [(''timestamp'', ctx 0 DateTime),
     (''logDatum'', ctx 1 AuditLogRecordLogDatum)]"

definition ListOfAuditLogRecord :: shape where
  "ListOfAuditLogRecord = SequenceOf (plain AuditLogRecord)"

definition AuditLogRecordResult :: shape where
  "AuditLogRecordResult = Sequence
    [(''sequenceNumber'', ctx 0 (Atomic (TUnsigned None None))),
     (''logRecord'', ctx 1 AuditLogRecord)]"

definition AuthenticationFactor :: shape where
  "AuthenticationFactor = Sequence
    [(''formatType'', ctx 0 (enumerated AuthenticationFactorType)),
     (''formatClass'', ctx 1 (Atomic (TUnsigned None None))),
     (''value'', ctx 2 (Atomic (TOctetString None None)))]"

definition AuthenticationFactorFormat :: shape where
  "AuthenticationFactorFormat = Sequence
    [(''formatType'', ctx 0 (enumerated AuthenticationFactorType)),
     (''vendorId'', ctx_opt 1 (Atomic (TUnsigned None None))),
     (''vendorFormat'', ctx_opt 2 (Atomic (TUnsigned None None)))]"

definition ArrayOfAuthenticationFactorFormat :: shape where
  "ArrayOfAuthenticationFactorFormat = ArrayOf None (plain AuthenticationFactorFormat)"

definition AuthenticationPolicyPolicy :: shape where
  "AuthenticationPolicyPolicy = Sequence
    [(''credentialDataInput'', ctx 0 DeviceObjectReference),
     (''index'', ctx 1 (Atomic (TUnsigned None None)))]"

definition SequenceOfAuthenticationPolicyPolicy :: shape where
  "SequenceOfAuthenticationPolicyPolicy = SequenceOf (plain AuthenticationPolicyPolicy)"

definition AuthenticationPolicy :: shape where
  "AuthenticationPolicy = Sequence
    [(''policy'', ctx 0 (SequenceOf (plain AuthenticationPolicyPolicy))),
     (''orderEnforced'', ctx 1 (Atomic TBoolean)),
     (''timeout'', ctx 2 (Atomic (TUnsigned None None)))]"

definition ArrayOfAuthenticationPolicy :: shape where
  "ArrayOfAuthenticationPolicy = ArrayOf None (plain AuthenticationPolicy)"

definition BDTEntry :: shape where
  "BDTEntry = Sequence
    [(''bbmdAddress'', ctx 0 HostNPort),
     (''broadcastMask'', ctx_opt 1 (Atomic (TOctets [4])))]"

definition ListOfBDTEntry :: shape where
  "ListOfBDTEntry = SequenceOf (plain BDTEntry)"

definition RecipientProcess :: shape where
  "RecipientProcess = Sequence
    [(''recipient'', ctx 0 Recipient),
     (''processIdentifier'', ctx 1 (Atomic (TUnsigned None None)))]"

definition COVMultipleSubscriptionListOfCOVReference :: shape where
  "COVMultipleSubscriptionListOfCOVReference = Sequence
    [(''monitoredProperty'', ctx 0 PropertyReference),
     (''covIncrement'', ctx_opt 1 (Atomic TReal)),
     (''timestamped'', ctx 2 (Atomic TBoolean))]"

definition SequenceOfCOVMultipleSubscriptionListOfCOVReference :: shape where
  "SequenceOfCOVMultipleSubscriptionListOfCOVReference = SequenceOf (plain COVMultipleSubscriptionListOfCOVReference)"

definition COVMultipleSubscriptionList :: shape where
  "COVMultipleSubscriptionList = Sequence
    [(''monitoredObjectIdentifier'', ctx 0 (Atomic TObjectIdentifier)),
     (''listOfCOVReferences'', ctx 1 (SequenceOf (plain COVMultipleSubscriptionListOfCOVReference)))]"

definition SequenceOfCOVMultipleSubscriptionList :: shape where
  "SequenceOfCOVMultipleSubscriptionList = SequenceOf (plain COVMultipleSubscriptionList)"

definition COVMultipleSubscription :: shape where
  "COVMultipleSubscription = Sequence
    [(''recipient'', ctx 0 RecipientProcess),
     (''issueConfirmedNotifications'', ctx 1 (Atomic TBoolean)),
     (''timeRemaining'', ctx 2 (Atomic (TUnsigned None None))),
     (''maxNotificationDelay'', ctx 3 (Atomic (TUnsigned None None))),
     (''listOfCOVSubscriptionSpecifications'', ctx 4 (SequenceOf (plain COVMultipleSubscriptionList)))]"

definition ListOfCOVMultipleSubscription :: shape where
  "ListOfCOVMultipleSubscription = SequenceOf (plain COVMultipleSubscription)"

definition COVNotificationParameters :: shape where
  "COVNotificationParameters = Sequence
    [(''subscriberProcessIdentifier'', ctx 0 (Atomic (TUnsigned None None))),
     (''initiatingDeviceIdentifier'', ctx 1 (Atomic TObjectIdentifier)),
     (''monitoredObjectIdentifier'', ctx 2 (Atomic TObjectIdentifier)),
     (''timeRemaining'', ctx 3 (Atomic (TUnsigned None None))),
     (''listOfValues'', ctx 4 (SequenceOf (plain PropertyValue)))]"

definition COVSubscription :: shape where
  "COVSubscription = Sequence
    [(''recipient'', ctx 0 RecipientProcess),
     (''monitoredPropertyReference'', ctx 1 ObjectPropertyReference),
     (''issueConfirmedNotifications'', ctx 2 (Atomic TBoolean)),
     (''timeRemaining'', ctx 3 (Atomic (TUnsigned None None))),
     (''covIncrement'', ctx_opt 4 (Atomic TReal))]"

definition ListOfCOVSubscription :: shape where
  "ListOfCOVSubscription = SequenceOf (plain COVSubscription)"

definition CredentialAuthenticationFactor :: shape where
  "CredentialAuthenticationFactor = Sequence
    [(''disable'', ctx 0 (enumerated AccessAuthenticationFactorDisable)),
     (''authenticationFactor'', ctx 1 AuthenticationFactor)]"

definition ArrayOfCredentialAuthenticationFactor :: shape where
  "ArrayOfCredentialAuthenticationFactor = ArrayOf None (plain CredentialAuthenticationFactor)"

definition DailySchedule :: shape where
  "DailySchedule = Sequence
    [(''daySchedule'', ctx 0 (SequenceOf (plain TimeValue)))]"

definition ArrayOfDailySchedule :: shape where
  "ArrayOfDailySchedule = ArrayOf None (plain DailySchedule)"

definition DateRange :: shape where
  "DateRange = Sequence
    [(''startDate'', plain (Atomic TDate)),
     (''endDate'', plain (Atomic TDate))]"

definition Destination :: shape where
  "Destination = Sequence
    [(''validDays'', plain (bits DaysOfWeek)),
     (''fromTime'', plain (Atomic TTime)),
     (''toTime'', plain (Atomic TTime)),
     (''recipient'', plain Recipient),
     (''processIdentifier'', plain (Atomic (TUnsigned None None))),
     (''issueConfirmedNotifications'', plain (Atomic TBoolean)),
     (''transitions'', plain (bits EventTransitionBits))]"

definition ListOfDestination :: shape where
  "ListOfDestination = SequenceOf (plain Destination)"

definition PropertyStates :: shape where
  "PropertyStates = Choice
    [(''booleanValue'', ctx 0 (Atomic TBoolean)),
     (''binaryValue'', ctx 1 (enumerated BinaryPV)),
     (''eventType'', ctx 2 (enumerated EventType)),
     (''polarity'', ctx 3 (enumerated Polarity)),
     (''programChange'', ctx 4 (enumerated ProgramRequest)),
     (''programState'', ctx 5 (enumerated ProgramState)),
     (''reasonForHalt'', ctx 6 (enumerated ProgramError)),
     (''reliability'', ctx 7 (enumerated Reliability)),
     (''state'', ctx 8 (enumerated EventState)),
     (''systemStatus'', ctx 9 (enumerated DeviceStatus)),
     (''units'', ctx 10 (enumerated EngineeringUnits)),
     (''unsignedValue'', ctx 11 (Atomic (TUnsigned None None))),
     (''lifeSafetyMode'', ctx 12 (enumerated LifeSafetyMode)),
     (''lifeSafetyState'', ctx 13 (enumerated LifeSafetyState)),
     (''restartReason'', ctx 14 (enumerated RestartReason)),
     (''doorAlarmState'', ctx 15 (enumerated DoorAlarmState)),
     (''action'', ctx 16 (enumerated Action_enum)),
     (''doorSecuredStatus'', ctx 17 (enumerated DoorSecuredStatus)),
     (''doorStatus'', ctx 18 (enumerated DoorStatus)),
     (''doorValue'', ctx 19 (enumerated DoorValue)),
     (''fileAccessMethod'', ctx 20 (enumerated FileAccessMethod)),
     (''lockStatus'', ctx 21 (enumerated LockStatus)),
     (''lifeSafetyOperation'', ctx 22 (enumerated LifeSafetyOperation)),
     (''maintenance'', ctx 23 (enumerated Maintenance)),
     (''nodeType'', ctx 24 (enumerated NodeType)),
     (''notifyType'', ctx 25 (enumerated NotifyType)),
     (''securityLevel'', ctx 26 (enumerated SecurityLevel)),
     (''shedState'', ctx 27 (enumerated ShedState)),
     (''silencedState'', ctx 28 (enumerated SilencedState)),
     (''accessEvent'', ctx 30 (enumerated AccessEvent)),
     (''zoneOccupancyState'', ctx 31 (enumerated AccessZoneOccupancyState)),
     (''accessCredentialDisableReason'', ctx 32 (enumerated AccessCredentialDisableReason)),
     (''accessCredentialDisable'', ctx 33 (enumerated AccessCredentialDisable)),
     (''authenticationStatus'', ctx 34 (enumerated AuthenticationStatus)),
     (''backupState'', ctx 36 (enumerated BackupState)),
     (''writeStatus'', ctx 370 (enumerated WriteStatus)),
     (''lightingInProgress'', ctx 38 (enumerated LightingInProgress)),
     (''lightingOperation'', ctx 39 (enumerated LightingOperation)),
     (''lightingTransition'', ctx 40 (enumerated LightingTransition))]"

definition SequenceOfPropertyStates :: shape where
  "SequenceOfPropertyStates = SequenceOf (plain PropertyStates)"

definition NotificationParametersChangeOfBitstring :: shape where
  "NotificationParametersChangeOfBitstring = Sequence
    [(''referencedBitstring'', ctx 0 (bits [])),
     (''statusFlags'', ctx 1 (bits StatusFlags))]"

definition NotificationParametersChangeOfLifeSafety :: shape where
  "NotificationParametersChangeOfLifeSafety = Sequence
    [(''newState'', ctx 0 (enumerated LifeSafetyState)),
     (''newMode'', ctx 1 (enumerated LifeSafetyMode)),
     (''statusFlags'', ctx 2 (bits StatusFlags)),
     (''operationExpected'', ctx 3 (enumerated LifeSafetyOperation))]"

definition NotificationParametersChangeOfState :: shape where
  "NotificationParametersChangeOfState = Sequence
    [(''newState'', ctx 0 PropertyStates),
     (''statusFlags'', ctx 1 (bits StatusFlags))]"

definition NotificationParametersChangeOfValueNewValue :: shape where
  "NotificationParametersChangeOfValueNewValue = Choice
    [(''changedBits'', ctx 0 (bits [])),
     (''changedValue'', ctx 1 (Atomic TReal))]"

definition NotificationParametersChangeOfValue :: shape where
  "NotificationParametersChangeOfValue = Sequence
    [(''newValue'', ctx 0 NotificationParametersChangeOfValueNewValue),
     (''statusFlags'', ctx 1 (bits StatusFlags))]"

definition NotificationParametersCommandFailure :: shape where
  "NotificationParametersCommandFailure = Sequence
    [(''commandValue'', ctx 0 Any),
     (''statusFlags'', ctx 1 (bits StatusFlags)),
     (''feedbackValue'', ctx 2 Any)]"

definition NotificationParametersFloatingLimit :: shape where
  "NotificationParametersFloatingLimit = Sequence
    [(''referenceValue'', ctx 0 (Atomic TReal)),
     (''statusFlags'', ctx 1 (bits StatusFlags)),
     (''setpointValue'', ctx 2 (Atomic TReal)),
     (''errorLimit'', ctx 3 (Atomic TReal))]"

definition NotificationParametersOutOfRange :: shape where
  "NotificationParametersOutOfRange = Sequence
    [(''exceedingValue'', ctx 0 (Atomic TReal)),
     (''statusFlags'', ctx 1 (bits StatusFlags)),
     (''deadband'', ctx 2 (Atomic TReal)),
     (''exceededLimit'', ctx 3 (Atomic TReal))]"

definition NotificationParametersComplexEventType :: shape where
  "NotificationParametersComplexEventType = Sequence
    [(''complexEventType'', ctx 0 PropertyValue)]"

definition NotificationParametersDoubleOutOfRangeType :: shape where
  "NotificationParametersDoubleOutOfRangeType = Sequence
    [(''exceedingValue'', ctx 0 (Atomic TDouble)),
     (''statusFlags'', ctx 1 (bits StatusFlags)),
     (''deadband'', ctx 2 (Atomic TDouble)),
     (''exceededLimit'', ctx 3 (Atomic TDouble))]"

definition NotificationParametersSignedOutOfRangeType :: shape where
  "NotificationParametersSignedOutOfRangeType = Sequence
    [(''exceedingValue'', ctx 0 (Atomic (TInteger None None))),
     (''statusFlags'', ctx 1 (bits StatusFlags)),
     (''deadband'', ctx 2 (Atomic (TUnsigned None None))),
     (''exceededLimit'', ctx 3 (Atomic (TInteger None None)))]"

definition NotificationParametersUnsignedOutOfRangeType :: shape where
  "NotificationParametersUnsignedOutOfRangeType = Sequence
    [(''exceedingValue'', ctx 0 (Atomic (TUnsigned None None))),
     (''statusFlags'', ctx 1 (bits StatusFlags)),
     (''deadband'', ctx 2 (Atomic (TUnsigned None None))),
     (''exceededLimit'', ctx 3 (Atomic (TUnsigned None None)))]"

definition NotificationParametersChangeOfCharacterStringType :: shape where
  "NotificationParametersChangeOfCharacterStringType = Sequence
    [(''changedValue'', ctx 0 (Atomic (TCharacterString 0))),
     (''statusFlags'', ctx 1 (bits StatusFlags)),
     (''alarmValue'', ctx 2 (Atomic (TCharacterString 0)))]"

definition NotificationParametersChangeOfStatusFlagsType :: shape where
  "NotificationParametersChangeOfStatusFlagsType = Sequence
    [(''presentValue'', ctx 0 (Atomic (TCharacterString 0))),
     (''referencedFlags'', ctx 1 (bits StatusFlags))]"

definition NotificationParametersChangeOfReliabilityType :: shape where
  "NotificationParametersChangeOfReliabilityType = Sequence
    [(''reliability'', ctx 0 (enumerated Reliability)),
     (''statusFlags'', ctx 1 (bits StatusFlags)),
     (''propertyValues'', ctx 2 (SequenceOf (plain PropertyValue)))]"

definition NotificationParametersAccessEventType :: shape where
  "NotificationParametersAccessEventType = Sequence
    [(''accessEvent'', ctx 0 (enumerated AccessEvent)),
     (''statusFlags'', ctx 1 (bits StatusFlags)),
     (''accessEventTag'', ctx 2 (Atomic (TUnsigned None None))),
     (''accessEventTime'', ctx 3 TimeStamp),
     (''accessCredential'', ctx 4 DeviceObjectReference),
     (''authenicationFactor'', ctx_opt 5 (enumerated AuthenticationFactorType))]"

definition NotificationParametersExtendedParametersType :: shape where
  "NotificationParametersExtendedParametersType = Choice
    [(''null'', plain (Atomic TNull)),
     (''real'', plain (Atomic TReal)),
     (''integer'', plain (Atomic (TUnsigned None None))),
     (''boolean'', plain (Atomic TBoolean)),
     (''double'', plain (Atomic TDouble)),
     (''octet'', plain (Atomic (TOctetString None None))),
     (''bitstring'', plain (bits [])),
     (''enum'', plain (enumerated [])),
     (''propertyValue'', plain DeviceObjectPropertyValue)]"

definition NotificationParametersExtended :: shape where
  "NotificationParametersExtended = Sequence
    [(''vendorId'', ctx 0 (Atomic (TUnsigned None None))),
     (''extendedEventType'', ctx 1 (Atomic (TUnsigned None None))),
     (''parameters'', ctx 2 NotificationParametersExtendedParametersType)]"

definition NotificationParametersBufferReady :: shape where
  "NotificationParametersBufferReady = Sequence
    [(''bufferProperty'', ctx 0 DeviceObjectPropertyReference),
     (''previousNotification'', ctx 1 (Atomic (TUnsigned None None))),
     (''currentNotification'', ctx 2 (Atomic (TUnsigned None None)))]"

definition NotificationParametersUnsignedRange :: shape where
  "NotificationParametersUnsignedRange = Sequence
    [(''exceedingValue'', ctx 0 (Atomic (TUnsigned None None))),
     (''statusFlags'', ctx 1 (bits StatusFlags)),
     (''exceedingLimit'', ctx 2 (Atomic (TUnsigned None None)))]"

definition NotificationParameters :: shape where
  "NotificationParameters = Choice
    [(''changeOfBitstring'', ctx 0 NotificationParametersChangeOfBitstring),
     (''changeOfState'', ctx 1 NotificationParametersChangeOfState),
     (''changeOfValue'', ctx 2 NotificationParametersChangeOfValue),
     (''commandFailure'', ctx 3 NotificationParametersCommandFailure),
     (''floatingLimit'', ctx 4 NotificationParametersFloatingLimit),
     (''outOfRange'', ctx 5 NotificationParametersOutOfRange),
     (''complexEventType'', ctx 6 NotificationParametersComplexEventType),
     (''changeOfLifeSafety'', ctx 8 NotificationParametersChangeOfLifeSafety),
     (''extended'', ctx 9 NotificationParametersExtended),
     (''bufferReady'', ctx 10 NotificationParametersBufferReady),
     (''unsignedRange'', ctx 11 NotificationParametersUnsignedRange),
     (''accessEvent'', ctx 13 NotificationParametersAccessEventType),
     (''doubleOutOfRange'', ctx 14 NotificationParametersDoubleOutOfRangeType),
     (''signedOutOfRange'', ctx 15 NotificationParametersSignedOutOfRangeType),
     (''unsignedOutOfRange'', ctx 16 NotificationParametersUnsignedOutOfRangeType),
     (''changeOfCharacterString'', ctx 17 NotificationParametersChangeOfCharacterStringType),
     (''changeOfStatusFlags'', ctx 18 NotificationParametersChangeOfStatusFlagsType),
     (''changeOfReliability'', ctx 19 NotificationParametersChangeOfReliabilityType)]"

definition EventNotificationParameters :: shape where
  "EventNotificationParameters = Sequence
    [(''processIdentifier'', ctx 0 (Atomic (TUnsigned None None))),
     (''initiatingDeviceIdentifier'', ctx 1 (Atomic TObjectIdentifier)),
     (''eventObjectIdentifier'', ctx 2 (Atomic TObjectIdentifier)),
     (''timeStamp'', ctx 3 TimeStamp),
     (''notificationClass'', ctx 4 (Atomic (TUnsigned None None))),
     (''priority'', ctx 5 (Atomic (TUnsigned None None))),
     (''eventType'', ctx 6 (enumerated EventType)),
     (''messageText'', ctx_opt 7 (Atomic (TCharacterString 0))),
     (''notifyType'', ctx 8 (enumerated NotifyType)),
     (''ackRequired'', ctx_opt 9 (Atomic TBoolean)),
     (''fromState'', ctx_opt 10 (enumerated EventState)),
     (''toState'', ctx 11 (enumerated EventState)),
     (''eventValues'', ctx_opt 12 NotificationParameters)]"

definition EventLogRecordLogDatum :: shape where
  "EventLogRecordLogDatum = Choice
    [(''logStatus'', ctx 0 (bits LogStatus)),
     (''notification'', ctx 1 EventNotificationParameters),
     (''timeChange'', ctx 2 (Atomic TReal))]"

definition EventLogRecord :: shape where
  "EventLogRecord = Sequence
    [(''timestamp'', ctx 0 DateTime),
     (''logDatum'', ctx 1 EventLogRecordLogDatum)]"

definition ListOfEventLogRecord :: shape where
  "ListOfEventLogRecord = SequenceOf (plain EventLogRecord)"

definition EventNotificationSubscription :: shape where
  "EventNotificationSubscription = Sequence
    [(''recipient'', ctx 0 Recipient),
     (''processIdentifier'', ctx 1 (Atomic (TUnsigned None None))),
     (''issueConfirmedNotifications'', ctx 2 (Atomic TBoolean)),
     (''timeRemaining'', ctx 3 (Atomic (TUnsigned None None)))]"

definition ListOfEventNotificationSubscription :: shape where
  "ListOfEventNotificationSubscription = SequenceOf (plain EventNotificationSubscription)"

definition EventParameterAccessEventAccessEvent :: shape where
  "EventParameterAccessEventAccessEvent = Sequence
    [(''listOfAccessEvents'', ctx 0 (SequenceOf (plain (enumerated AccessEvent)))),
     (''accessEventTimeReference'', ctx 1 DeviceObjectPropertyReference)]"

definition SequenceOfEventParameterAccessEventAccessEvent :: shape where
  "SequenceOfEventParameterAccessEventAccessEvent = SequenceOf (plain EventParameterAccessEventAccessEvent)"

definition EventParameterAccessEvent :: shape where
  "EventParameterAccessEvent = Sequence
    [(''accessEvent'', ctx 0 (SequenceOf (plain EventParameterAccessEventAccessEvent)))]"

definition EventParameterBufferReady :: shape where
  "EventParameterBufferReady = Sequence
    [(''notificationThreshold'', ctx 0 (Atomic (TUnsigned None None))),
     (''previousNotificationCount'', ctx 1 (Atomic (TUnsigned None None)))]"

definition EventParameterChangeOfBitstring :: shape where
  "EventParameterChangeOfBitstring = Sequence
    [(''timeDelay'', ctx 0 (Atomic (TUnsigned None None))),
     (''bitmask'', ctx 1 (bits [])),
     (''listOfBitstringValues'', ctx 2 (SequenceOf (plain (bits []))))]"

definition EventParameterChangeOfCharacterString :: shape where
  "EventParameterChangeOfCharacterString = Sequence
    [(''timeDelay'', ctx 0 (Atomic (TUnsigned None None))),
     (''listOfAlarmValues'', ctx 1 (SequenceOf (plain (Atomic (TCharacterString 0)))))]"

definition EventParameterChangeOfDiscreteValue :: shape where
  "EventParameterChangeOfDiscreteValue = Sequence
    [(''timeDelay'', ctx 0 (Atomic (TUnsigned None None)))]"

definition EventParameterChangeOfLifeSafety :: shape where
  "EventParameterChangeOfLifeSafety = Sequence
    [(''timeDelay'', ctx 0 (Atomic (TUnsigned None None))),
     (''listOfLifeSafetyAlarmValues'', ctx 1 (SequenceOf (plain (enumerated LifeSafetyState)))),
     (''listOfAlarmValues'', ctx 2 (SequenceOf (plain (enumerated LifeSafetyState)))),
     (''modePropertyReference'', ctx 3 DeviceObjectPropertyReference)]"

definition EventParameterChangeOfState :: shape where
  "EventParameterChangeOfState = Sequence
    [(''timeDelay'', ctx 0 (Atomic (TUnsigned None None))),
     (''listOfValues'', ctx 1 (SequenceOf (plain PropertyStates)))]"

definition EventParameterChangeOfStatusFlags :: shape where
  "EventParameterChangeOfStatusFlags = Sequence
    [(''timeDelay'', ctx 0 (Atomic (TUnsigned None None))),
     (''selectedFlags'', ctx 1 (bits StatusFlags))]"

definition EventParameterChangeOfTimer :: shape where
  "EventParameterChangeOfTimer = Sequence
    [(''timeDelay'', ctx 0 (Atomic (TUnsigned None None))),
     (''alarmValues'', ctx 1 (SequenceOf (plain (enumerated TimerState)))),
     (''updateTimeReference'', ctx 2 DeviceObjectPropertyReference)]"

definition EventParameterChangeOfValueCOVCriteria :: shape where
  "EventParameterChangeOfValueCOVCriteria = Choice
    [(''bitmask'', ctx 0 (bits [])),
     (''referencedPropertyIncrement'', ctx 1 (Atomic TReal))]"

definition EventParameterChangeOfValue :: shape where
  "EventParameterChangeOfValue = Sequence
    [(''timeDelay'', ctx 0 (Atomic (TUnsigned None None))),
     (''covCriteria'', ctx 1 EventParameterChangeOfValueCOVCriteria)]"

definition EventParameterCommandFailure :: shape where
  "EventParameterCommandFailure = Sequence
    [(''timeDelay'', ctx 0 (Atomic (TUnsigned None None))),
     (''feedbackPropertyReference'', ctx 1 DeviceObjectPropertyReference)]"

definition EventParameterDoubleOutOfRange :: shape where
  "EventParameterDoubleOutOfRange = Sequence
    [(''timeDelay'', ctx 0 (Atomic (TUnsigned None None))),
     (''lowLimit'', ctx 1 (Atomic TDouble)),
     (''highLimit'', ctx 2 (Atomic TDouble)),
     (''deadband'', ctx 3 (Atomic TDouble))]"

definition EventParameterExtendedParameters :: shape where
  "EventParameterExtendedParameters = Choice
    [(''null'', ctx 0 (Atomic TNull)),
     (''real'', ctx 1 (Atomic TReal)),
     (''integer'', ctx 2 (Atomic (TUnsigned None None))),
     (''boolean'', ctx 3 (Atomic TBoolean)),
     (''double'', ctx 4 (Atomic TDouble)),
     (''octet'', ctx 5 (Atomic (TOctetString None None))),
     (''bitstring'', ctx 6 (bits [])),
     (''enum'', ctx 7 (enumerated [])),
     (''reference'', ctx 8 DeviceObjectPropertyReference)]"

definition SequenceOfEventParameterExtendedParameters :: shape where
  "SequenceOfEventParameterExtendedParameters = SequenceOf (plain EventParameterExtendedParameters)"

definition EventParameterExtended :: shape where
  "EventParameterExtended = Sequence
    [(''vendorId'', ctx 0 (Atomic (TUnsigned None None))),
     (''extendedEventType'', ctx 1 (Atomic (TUnsigned None None))),
     (''parameters'', ctx 2 (SequenceOf (plain EventParameterExtendedParameters)))]"

definition EventParameterFloatingLimit :: shape where
  "EventParameterFloatingLimit = Sequence
    [(''timeDelay'', ctx 0 (Atomic (TUnsigned None None))),
     (''setpointReference'', ctx 1 DeviceObjectPropertyReference),
     (''lowDiffLimit'', ctx 2 (Atomic TReal)),
     (''highDiffLimit'', ctx 3 (Atomic TReal)),
     (''deadband'', ctx 4 (Atomic TReal))]"

definition EventParameterOutOfRange :: shape where
  "EventParameterOutOfRange = Sequence
    [(''timeDelay'', ctx 0 (Atomic (TUnsigned None None))),
     (''lowLimit'', ctx 1 (Atomic TReal)),
     (''highLimit'', ctx 2 (Atomic TReal)),
     (''deadband'', ctx 3 (Atomic TReal))]"

definition EventParameterSignedOutOfRange :: shape where
  "EventParameterSignedOutOfRange = Sequence
    [(''timeDelay'', ctx 0 (Atomic (TUnsigned None None))),
     (''lowLimit'', ctx 1 (Atomic (TInteger None None))),
     (''highLimit'', ctx 2 (Atomic (TInteger None None))),
     (''deadband'', ctx 3 (Atomic (TUnsigned None None)))]"

definition EventParameterUnsignedOutOfRange :: shape where
  "EventParameterUnsignedOutOfRange = Sequence
    [(''timeDelay'', ctx 0 (Atomic (TUnsigned None None))),
     (''lowLimit'', ctx 1 (Atomic (TUnsigned None None))),
     (''highLimit'', ctx 2 (Atomic (TUnsigned None None))),
     (''deadband'', ctx 3 (Atomic (TUnsigned None None)))]"

definition EventParameterUnsignedRange :: shape where
  "EventParameterUnsignedRange = Sequence
    [(''timeDelay'', ctx 0 (Atomic (TUnsigned None None))),
     (''lowLimit'', ctx 1 (Atomic (TUnsigned None None))),
     (''highLimit'', ctx 2 (Atomic (TUnsigned None None)))]"

definition FDTEntry :: shape where
  "FDTEntry = Sequence
    [(''bacnetIPAddress'', ctx 0 (Atomic (TOctets [6, 18]))),
     (''timeToLive'', ctx 1 (Atomic (TUnsigned None (Some 65535)))),
     (''remainingTimeToLive'', ctx 2 (Atomic (TUnsigned None (Some 65535))))]"

definition ListOfFDTEntry :: shape where
  "ListOfFDTEntry = SequenceOf (plain FDTEntry)"

definition FaultParameterCharacterString :: shape where
  "FaultParameterCharacterString = Sequence
    [(''listOfFaultValues'', ctx 0 (SequenceOf (plain (Atomic (TCharacterString 0)))))]"

definition FaultParameterExtendedParameters :: shape where
  "FaultParameterExtendedParameters = Choice
    [(''null'', plain (Atomic TNull)),
     (''real'', plain (Atomic TReal)),
     (''unsigned'', plain (Atomic (TUnsigned None None))),
     (''boolean'', plain (Atomic TBoolean)),
     (''integer'', plain (Atomic (TInteger None None))),
     (''double'', plain (Atomic TDouble)),
     (''octet'', plain (Atomic (TOctetString None None))),
     (''characterString'', plain (Atomic (TCharacterString 0))),
     (''bitstring'', plain (bits [])),
     (''enum'', plain (enumerated [])),
     (''date'', plain (Atomic TDate)),
     (''time'', plain (Atomic TTime)),
     (''objectIdentifier'', plain (Atomic TObjectIdentifier)),
     (''reference'', ctx 0 DeviceObjectPropertyReference)]"

definition SequenceOfFaultParameterExtendedParameters :: shape where
  "SequenceOfFaultParameterExtendedParameters = SequenceOf (plain FaultParameterExtendedParameters)"

definition FaultParameterExtended :: shape where
  "FaultParameterExtended = Sequence
    [(''vendorId'', ctx 0 (Atomic (TUnsigned None None))),
     (''extendedFaultType'', ctx 1 (Atomic (TUnsigned None None))),
     (''parameters'', ctx 2 (SequenceOf (plain FaultParameterExtendedParameters)))]"

definition FaultParameterLifeSafety :: shape where
  "FaultParameterLifeSafety = Sequence
    [(''listOfFaultValues'', ctx 0 (SequenceOf (plain (enumerated LifeSafetyState)))),
     (''modePropertyReference'', ctx 1 DeviceObjectPropertyReference)]"

definition FaultParameterState :: shape where
  "FaultParameterState = Sequence
    [(''listOfFaultValues'', ctx 0 (SequenceOf (plain PropertyStates)))]"

definition FaultParameterStatusFlags :: shape where
  "FaultParameterStatusFlags = Sequence
    [(''statusFlagsReference'', ctx 0 DeviceObjectPropertyReference)]"

definition FaultParameterOutOfRangeValue :: shape where
  "FaultParameterOutOfRangeValue = Choice
    [(''real'', plain (Atomic TReal)),
     (''unsigned'', plain (Atomic (TUnsigned None None))),
     (''double'', plain (Atomic TDouble)),
     (''integer'', plain (Atomic (TInteger None None)))]"

definition FaultParameterOutOfRange :: shape where
  "FaultParameterOutOfRange = Sequence
    [(''minNormalValue'', ctx 0 FaultParameterOutOfRangeValue),
     (''maxNormalValue'', ctx 1 FaultParameterOutOfRangeValue)]"

definition FaultParametersFaultListed :: shape where
  "FaultParametersFaultListed = Sequence
    [(''faultListReference'', ctx 0 (SequenceOf (plain DeviceObjectPropertyReference)))]"

definition GetAlarmSummaryAlarmSummary :: shape where
  "GetAlarmSummaryAlarmSummary = Sequence
    [(''objectIdentifier'', plain (Atomic TObjectIdentifier)),
     (''alarmState'', plain (enumerated EventState)),
     (''acknowledgedTransitions'', plain (bits EventTransitionBits))]"

definition GetEnrollmentSummaryRequestPriorityFilterType :: shape where
  "GetEnrollmentSummaryRequestPriorityFilterType = Sequence
    [(''minPriority'', ctx 0 (Atomic (TUnsigned None None))),
     (''maxPriority'', ctx 1 (Atomic (TUnsigned None None)))]"

definition GetEnrollmentSummaryEnrollmentSummary :: shape where
  "GetEnrollmentSummaryEnrollmentSummary = Sequence
    [(''objectIdentifier'', plain (Atomic TObjectIdentifier)),
     (''eventType'', plain (enumerated EventType)),
     (''eventState'', plain (enumerated EventState)),
     (''priority'', plain (Atomic (TUnsigned None None))),
     (''notificationClass'', plain_opt (Atomic (TUnsigned None None)))]"

definition GetEventInformationEventSummary :: shape where
  "GetEventInformationEventSummary = Sequence
    [(''objectIdentifier'', ctx 0 (Atomic TObjectIdentifier)),
     (''eventState'', ctx 1 (enumerated EventState)),
     (''acknowledgedTransitions'', ctx 2 (bits EventTransitionBits)),
     (''eventTimeStamps'', ctx 3 (SequenceOf (plain TimeStamp))),
     (''notifyType'', ctx 4 (enumerated NotifyType)),
     (''eventEnable'', ctx 5 (bits EventTransitionBits)),
     (''eventPriorities'', ctx 6 (SequenceOf (plain (Atomic (TUnsigned None None)))))]"

definition LightingCommand :: shape where
  "LightingCommand = Sequence
    [(''operation'', ctx 0 (enumerated LightingOperation)),
     (''targetLevel'', ctx_opt 1 (Atomic TReal)),
     (''rampRate'', ctx_opt 2 (Atomic TReal)),
     (''stepIncrement'', ctx_opt 3 (Atomic TReal)),
     (''fadeTime'', ctx_opt 4 (Atomic (TUnsigned None None))),
     (''priority'', ctx_opt 5 (Atomic (TUnsigned None None)))]"

definition ChannelValue :: shape where
  "ChannelValue = Choice
    [(''null'', plain (Atomic TNull)),
     (''real'', plain (Atomic TReal)),
     (''enumerated'', plain (enumerated [])),
     (''unsigned'', plain (Atomic (TUnsigned None None))),
     (''boolean'', plain (Atomic TBoolean)),
     (''integer'', plain (Atomic (TInteger None None))),
     (''double'', plain (Atomic TDouble)),
     (''time'', plain (Atomic TTime)),
     (''characterString'', plain (Atomic (TCharacterString 0))),
     (''octetString'', plain (Atomic (TOctetString None None))),
     (''bitString'', plain (bits [])),
     (''date'', plain (Atomic TDate)),
     (''objectidentifier'', plain (Atomic TObjectIdentifier)),
     (''lightingCommand'', ctx 0 LightingCommand)]"

definition GroupChannelValue :: shape where
  "GroupChannelValue = Sequence
    [(''channel'', ctx 0 (Atomic (TUnsigned None None))),
     (''overridingPriority'', ctx_opt 1 (Atomic (TUnsigned None None))),
     (''value'', plain ChannelValue)]"

definition KeyIdentifier :: shape where
  "KeyIdentifier = Sequence
    [(''algorithm'', ctx 0 (Atomic (TUnsigned None None))),
     (''keyId'', ctx 1 (Atomic (TUnsigned None None)))]"

definition LandingCallStatusCommand :: shape where
  "LandingCallStatusCommand = Choice
    [(''direction'', ctx 1 (enumerated LiftCarDirection)),
     (''destination'', ctx 2 (Atomic (TUnsigned None (Some 255))))]"

definition LandingCallStatus :: shape where
  "LandingCallStatus = Sequence
    [(''floorNumber'', ctx 0 (Atomic (TUnsigned None (Some 255)))),
     (''command'', plain LandingCallStatusCommand),
     (''floorText'', ctx_opt 3 (Atomic (TCharacterString 0)))]"

definition LandingDoorStatusLandingDoor :: shape where
  "LandingDoorStatusLandingDoor = Sequence
    [(''floorNumber'', ctx 0 (Atomic (TUnsigned None (Some 255)))),
     (''doorStatus'', ctx 1 (enumerated DoorStatus))]"

definition LandingDoorStatus :: shape where
  "LandingDoorStatus = Sequence
    [(''landingDoors'', ctx 0 (SequenceOf (plain LandingDoorStatusLandingDoor)))]"

definition LiftCarCallList :: shape where
  "LiftCarCallList = Sequence
    [(''floorNumbers'', ctx 0 (SequenceOf (plain (Atomic (TUnsigned None (Some 255))))))]"

definition LogDataLogData :: shape where
  "LogDataLogData = Choice
    [(''booleanValue'', ctx 0 (Atomic TBoolean)),
     (''realValue'', ctx 1 (Atomic TReal)),
     (''enumValue'', ctx 2 (enumerated [])),
     (''unsignedValue'', ctx 3 (Atomic (TUnsigned None None))),
     (''signedValue'', ctx 4 (Atomic (TInteger None None))),
     (''bitstringValue'', ctx 5 (bits [])),
     (''nullValue'', ctx 6 (Atomic TNull)),
     (''failure'', ctx 7 ErrorType),
     (''anyValue'', ctx 8 Any)]"

definition LogData :: shape where
  "LogData = Choice
    [(''logStatus'', ctx 0 (bits LogStatus)),
     (''logData'', ctx 1 (SequenceOf (plain LogDataLogData))),
     (''timeChange'', ctx 2 (Atomic TReal))]"

definition LogMultipleRecord :: shape where
  "LogMultipleRecord = Sequence
    [(''timestamp'', ctx 0 DateTime),
     (''logData'', ctx 1 LogData)]"

definition LogRecordLogDatum :: shape where
  "LogRecordLogDatum = Choice
    [(''logStatus'', ctx 0 (bits LogStatus)),
     (''booleanValue'', ctx 1 (Atomic TBoolean)),
     (''realValue'', ctx 2 (Atomic TReal)),
     (''enumValue'', ctx 3 (enumerated [])),
     (''unsignedValue'', ctx 4 (Atomic (TUnsigned None None))),
     (''signedValue'', ctx 5 (Atomic (TInteger None None))),
     (''bitstringValue'', ctx 6 (bits [])),
     (''nullValue'', ctx 7 (Atomic TNull)),
     (''failure'', ctx 8 ErrorType),
     (''timeChange'', ctx 9 (Atomic TReal)),
     (''anyValue'', ctx 10 Any)]"

definition LogRecord :: shape where
  "LogRecord = Sequence
    [(''timestamp'', ctx 0 DateTime),
     (''logDatum'', ctx 1 LogRecordLogDatum),
     (''statusFlags'', ctx_opt 2 (bits StatusFlags))]"

definition NameValueCollection :: shape where
  "NameValueCollection = Sequence
    [(''members'', ctx 0 (SequenceOf (plain NameValue)))]"

definition NetworkSecurityPolicy :: shape where
  "NetworkSecurityPolicy = Sequence
    [(''portId'', ctx 0 (Atomic (TUnsigned None None))),
     (''securityLevel'', ctx 1 (enumerated SecurityPolicy))]"

definition PortPermission :: shape where
  "PortPermission = Sequence
    [(''portId'', ctx 0 (Atomic (TUnsigned None None))),
     (''enabled'', ctx 1 (Atomic TBoolean))]"

definition Prescale :: shape where
  "Prescale = Sequence
    [(''multiplier'', ctx 0 (Atomic (TUnsigned None None))),
     (''moduloDivide'', ctx 1 (Atomic (TUnsigned None None)))]"

definition PropertyAccessResultAccessResult :: shape where
  "PropertyAccessResultAccessResult = Choice
    [(''propertyValue'', ctx 4 Any),
     (''propertyAccessError'', ctx 5 ErrorType)]"

definition PropertyAccessResult :: shape where
  "PropertyAccessResult = Sequence
    [(''objectIdentifier'', ctx 0 (Atomic TObjectIdentifier)),
     (''propertyIdentifier'', ctx 1 (enumerated PropertyIdentifier)),
     (''propertyArrayIndex'', ctx_opt 2 (Atomic (TUnsigned None None))),
     (''deviceIdentifier'', ctx_opt 3 (Atomic TObjectIdentifier)),
     (''accessResult'', plain PropertyAccessResultAccessResult)]"

definition RangeByPosition :: shape where
  "RangeByPosition = Sequence
    [(''referenceIndex'', plain (Atomic (TUnsigned None None))),
     (''count'', plain (Atomic (TInteger None None)))]"

definition RangeBySequenceNumber :: shape where
  "RangeBySequenceNumber = Sequence
    [(''referenceSequenceNumber'', plain (Atomic (TUnsigned None None))),
     (''count'', plain (Atomic (TInteger None None)))]"

definition RangeByTime :: shape where
  "RangeByTime = Sequence
    [(''referenceTime'', plain DateTime),
     (''count'', plain (Atomic (TInteger None None)))]"

definition RangeByTimeRange :: shape where
  "RangeByTimeRange = Sequence
    [(''beginningTime'', plain DateTime),
     (''endingTime'', plain DateTime)]"

definition ReadAccessResultElementChoice :: shape where
  "ReadAccessResultElementChoice = Choice
    [(''propertyValue'', ctx 4 Any),
     (''propertyAccessError'', ctx 5 ErrorType)]"

definition ReadAccessResultElement :: shape where
  "ReadAccessResultElement = Sequence
    [(''propertyIdentifier'', ctx 2 (enumerated PropertyIdentifier)),
     (''propertyArrayIndex'', ctx_opt 3 (Atomic (TUnsigned None None))),
     (''readResult'', plain ReadAccessResultElementChoice)]"

definition ReadAccessResult :: shape where
  "ReadAccessResult = Sequence
    [(''objectIdentifier'', ctx 0 (Atomic TObjectIdentifier)),
     (''listOfResults'', ctx 1 (SequenceOf (plain ReadAccessResultElement)))]"

definition ReadAccessSpecification :: shape where
  "ReadAccessSpecification = Sequence
    [(''objectIdentifier'', ctx 0 (Atomic TObjectIdentifier)),
     (''listOfPropertyReferences'', ctx 1 (SequenceOf (plain PropertyReference)))]"

definition RouterEntry :: shape where
  "RouterEntry = Sequence
    [(''networkNumber'', ctx 0 (Atomic (TUnsigned None (Some 65535)))),
     (''macAddress'', ctx 1 (Atomic (TOctetString None None))),
     (''status'', ctx 2 (enumerated RouterEntryStatus)),
     (''performanceIndex'', ctx_opt 3 (Atomic (TUnsigned None (Some 255))))]"

definition SCHubConnection :: shape where
  "SCHubConnection = Sequence
    [(''connectionState'', ctx 0 (enumerated SCConnectionState)),
     (''connectTimestamp'', ctx 1 DateTime),
     (''disconnectTimestamp'', ctx 2 DateTime),
     (''error'', ctx_opt 3 ErrorType),
     (''errorDetails'', ctx_opt 4 (Atomic (TCharacterString 0)))]"

definition SCDirectConnection :: shape where
  "SCDirectConnection = Sequence
    [(''uri'', ctx 0 (Atomic (TCharacterString 0))),
     (''connectionState'', ctx 1 (enumerated SCConnectionState)),
     (''connectTimestamp'', ctx 2 DateTime),
     (''disconnectTimestamp'', ctx 3 DateTime),
     (''peerAddress'', ctx_opt 4 HostNPort),
     (''peerVMAC'', ctx_opt 5 (Atomic (TOctetString None None))),
     (''peerUUID'', ctx_opt 6 (Atomic (TOctetString None None))),
     (''error'', ctx_opt 7 ErrorType),
     (''errorDetails'', ctx_opt 8 (Atomic (TCharacterString 0)))]"

definition SCFailedConnectionRequest :: shape where
  "SCFailedConnectionRequest = Sequence
    [(''timestamp'', ctx 0 DateTime),
     (''peerAddress'', ctx 1 HostNPort),
     (''peerVMAC'', ctx_opt 2 (Atomic (TOctetString None None))),
     (''peerUUID'', ctx_opt 3 (Atomic (TOctetString None None))),
     (''error'', ctx 4 ErrorType),
     (''errorDetails'', ctx_opt 5 (Atomic (TCharacterString 0)))]"

definition SCHubFunctionConnection :: shape where
  "SCHubFunctionConnection = Sequence
    [(''connectionState'', ctx 0 (enumerated SCConnectionState)),
     (''connectTimestamp'', ctx 1 DateTime),
     (''disconnectTimestamp'', ctx 2 DateTime),
     (''peerAddress'', ctx 3 HostNPort),
     (''peerVMAC'', ctx 4 (Atomic (TOctetString None None))),
     (''peerUUID'', ctx 5 (Atomic (TOctetString None None))),
     (''error'', ctx_opt 6 ErrorType),
     (''errorDetails'', ctx_opt 7 (Atomic (TCharacterString 0)))]"

definition SecurityKeySet :: shape where
  "SecurityKeySet = Sequence
    [(''keyRevision'', ctx 0 (Atomic (TUnsigned None None))),
     (''activationTime'', ctx 1 DateTime),
     (''expirationTime'', ctx 2 DateTime),
     (''keyIds'', ctx 3 (SequenceOf (plain KeyIdentifier)))]"

definition SessionKey :: shape where
  "SessionKey = Sequence
    [(''sessionKey'', plain (Atomic (TOctetString None None))),
     (''peerAddress'', plain Address)]"

definition SetpointReference :: shape where
  "SetpointReference = Sequence
    [(''setpointReference'', ctx_opt 0 ObjectPropertyReference)]"

definition CalendarEntry :: shape where
  "CalendarEntry = Choice
    [(''date'', ctx 0 (Atomic TDate)),
     (''dateRange'', ctx 1 DateRange),
     (''weekNDay'', ctx 2 (Atomic (TOctetString None None)))]"

definition SpecialEventPeriod :: shape where
  "SpecialEventPeriod = Choice
    [(''calendarEntry'', ctx 0 CalendarEntry),
     (''calendarReference'', ctx 1 (Atomic TObjectIdentifier))]"

definition SpecialEvent :: shape where
  "SpecialEvent = Sequence
    [(''period'', plain SpecialEventPeriod),
     (''listOfTimeValues'', ctx 2 (SequenceOf (plain TimeValue))),
     (''eventPriority'', ctx 3 (Atomic (TUnsigned None None)))]"

definition StageLimitValue :: shape where
  "StageLimitValue = Sequence
    [(''limit'', plain (Atomic TReal)),
     (''values'', plain (bits [])),
     (''deadband'', plain (Atomic TReal))]"

definition VMACEntry :: shape where
  "VMACEntry = Sequence
    [(''virtualMACAddress'', ctx 0 (Atomic (TOctetString None None))),
     (''nativeMACAddress'', ctx 1 (Atomic (TOctetString None None)))]"

definition VTSession :: shape where
  "VTSession = Sequence
    [(''localVtSessionID'', plain (Atomic (TUnsigned None None))),
     (''remoteVtSessionID'', plain (Atomic (TUnsigned None None))),
     (''remoteVtAddress'', plain DeviceAddress)]"

definition WhoHasLimits :: shape where
  "WhoHasLimits = Sequence
    [(''deviceInstanceRangeLowLimit'', ctx 0 (Atomic (TUnsigned None None))),
     (''deviceInstanceRangeHighLimit'', ctx 1 (Atomic (TUnsigned None None)))]"

definition WriteAccessSpecification :: shape where
  "WriteAccessSpecification = Sequence
    [(''objectIdentifier'', ctx 0 (Atomic TObjectIdentifier)),
     (''listOfProperties'', ctx 1 (SequenceOf (plain PropertyValue)))]"

definition AtomicReadFileACKAccessMethodChoice :: shape where
  "AtomicReadFileACKAccessMethodChoice = Choice
    [(''streamAccess'', ctx 0 AtomicReadFileACKAccessMethodStreamAccess),
     (''recordAccess'', ctx 1 AtomicReadFileACKAccessMethodRecordAccess)]"

definition AtomicReadFileRequestAccessMethodChoice :: shape where
  "AtomicReadFileRequestAccessMethodChoice = Choice
    [(''streamAccess'', ctx 0 AtomicReadFileRequestAccessMethodChoiceStreamAccess),
     (''recordAccess'', ctx 1 AtomicReadFileRequestAccessMethodChoiceRecordAccess)]"

definition AtomicWriteFileRequestAccessMethodChoice :: shape where
  "AtomicWriteFileRequestAccessMethodChoice = Choice
    [(''streamAccess'', ctx 0 AtomicWriteFileRequestAccessMethodChoiceStreamAccess),
     (''recordAccess'', ctx 1 AtomicWriteFileRequestAccessMethodChoiceRecordAccess)]"

definition AuditLogQueryParameters :: shape where
  "AuditLogQueryParameters = Choice
    [(''byTarget'', ctx 0 AuditLogQueryParametersByTarget),
     (''bySource'', ctx 1 AuditLogQueryParametersBySource)]"

definition ClientCOV :: shape where
  "ClientCOV = Choice
    [(''realIncrement'', plain (Atomic TReal)),
     (''defaultIncrement'', plain (Atomic TNull))]"

definition ConfirmedTextMessageRequestMessageClass :: shape where
  "ConfirmedTextMessageRequestMessageClass = Choice
    [(''numeric'', ctx 0 (Atomic (TUnsigned None None))),
     (''character'', ctx 1 (Atomic (TCharacterString 0)))]"

definition CreateObjectRequestObjectSpecifier :: shape where
  "CreateObjectRequestObjectSpecifier = Choice
    [(''objectType'', ctx 0 (enumerated_below 1023 ObjectType)),
     (''objectIdentifier'', ctx 1 (Atomic TObjectIdentifier))]"

definition EventParameter :: shape where
  "EventParameter = Choice
    [(''changeOfBitstring'', ctx 0 EventParameterChangeOfBitstring),
     (''changeOfState'', ctx 1 EventParameterChangeOfState),
     (''changeOfValue'', ctx 2 EventParameterChangeOfValue),
     (''commandFailure'', ctx 3 EventParameterCommandFailure),
     (''floatingLimit'', ctx 4 EventParameterFloatingLimit),
     (''outOfRange'', ctx 5 EventParameterOutOfRange),
     (''changeOfLifesafety'', ctx 8 EventParameterChangeOfLifeSafety),
     (''extended'', ctx 9 EventParameterExtended),
     (''bufferReady'', ctx 10 EventParameterBufferReady),
     (''unsignedRange'', ctx 11 EventParameterUnsignedRange),
     (''accessEvent'', ctx 13 EventParameterAccessEvent),
     (''doubleOutOfRange'', ctx 14 EventParameterDoubleOutOfRange),
     (''signedOutOfRange'', ctx 15 EventParameterSignedOutOfRange),
     (''unsignedOutOfRange'', ctx 16 EventParameterUnsignedOutOfRange),
     (''changeOfCharacterstring'', ctx 17 EventParameterChangeOfCharacterString),
     (''changeOfStatusflags'', ctx 18 EventParameterChangeOfStatusFlags),
     (''none'', ctx 20 (Atomic TNull)),
     (''changeOfDiscreteValue'', ctx 21 EventParameterChangeOfDiscreteValue),
     (''changeOfTimer'', ctx 22 EventParameterChangeOfTimer)]"

definition FaultParameter :: shape where
  "FaultParameter = Choice
    [(''none'', ctx 0 (Atomic TNull)),
     (''faultCharacterString'', ctx 1 FaultParameterCharacterString),
     (''faultExtended'', ctx 2 FaultParameterExtended),
     (''faultLifeSafety'', ctx 3 FaultParameterLifeSafety),
     (''faultState'', ctx 4 FaultParameterState),
     (''faultStatusFlags'', ctx 5 FaultParameterStatusFlags),
     (''faultOutOfRange'', ctx 6 FaultParameterOutOfRange),
     (''faultListed'', ctx 7 FaultParametersFaultListed)]"

definition ObjectSelector :: shape where
  "ObjectSelector = Choice
    [(''none'', plain (Atomic TNull)),
     (''object'', plain (Atomic TObjectIdentifier)),
     (''objectType'', plain (enumerated_below 1023 ObjectType))]"

definition OptionalBinaryPV :: shape where
  "OptionalBinaryPV = Choice
    [(''null'', plain (Atomic TNull)),
     (''binaryPV'', plain (enumerated BinaryPV))]"

definition OptionalCharacterString :: shape where
  "OptionalCharacterString = Choice
    [(''null'', plain (Atomic TNull)),
     (''characterString'', plain (Atomic (TCharacterString 0)))]"

definition OptionalPriorityFilter :: shape where
  "OptionalPriorityFilter = Choice
    [(''null'', plain (Atomic TNull)),
     (''filter'', plain (bits PriorityFilter))]"

definition OptionalReal :: shape where
  "OptionalReal = Choice
    [(''null'', plain (Atomic TNull)),
     (''real'', plain (Atomic TReal))]"

definition OptionalUnsigned :: shape where
  "OptionalUnsigned = Choice
    [(''null'', plain (Atomic TNull)),
     (''unsigned'', plain (Atomic (TUnsigned None None)))]"

definition PriorityValue :: shape where
  "PriorityValue = Choice
    [(''null'', plain (Atomic TNull)),
     (''real'', plain (Atomic TReal)),
     (''enumerated'', plain (enumerated [])),
     (''unsigned'', plain (Atomic (TUnsigned None None))),
     (''boolean'', plain (Atomic TBoolean)),
     (''integer'', plain (Atomic (TInteger None None))),
     (''double'', plain (Atomic TDouble)),
     (''time'', plain (Atomic TTime)),
     (''characterString'', plain (Atomic (TCharacterString 0))),
     (''octetString'', plain (Atomic (TOctetString None None))),
     (''bitString'', plain (bits [])),
     (''date'', plain (Atomic TDate)),
     (''objectidentifier'', plain (Atomic TObjectIdentifier)),
     (''constructedValue'', ctx 0 Any),
     (''datetime'', ctx 1 DateTime)]"

definition PriorityArray :: shape where
  "PriorityArray = ArrayOf (Some 16) (plain PriorityValue)"

definition ProcessIdSelection :: shape where
  "ProcessIdSelection = Choice
    [(''processIdentifier'', plain (Atomic (TUnsigned None None))),
     (''nullValue'', plain (Atomic TNull))]"

definition Range :: shape where
  "Range = Choice
    [(''byPosition'', ctx 3 RangeByPosition),
     (''byTimeRange'', ctx 5 RangeByTimeRange),
     (''bySequenceNumber'', ctx 6 RangeBySequenceNumber),
     (''byTime'', ctx 7 RangeByTime)]"

definition Scale :: shape where
  "Scale = Choice
    [(''floatScale'', ctx 0 (Atomic TReal)),
     (''integerScale'', ctx 1 (Atomic (TInteger None None)))]"

definition ShedLevel :: shape where
  "ShedLevel = Choice
    [(''percent'', ctx 0 (Atomic (TUnsigned None None))),
     (''level'', ctx 1 (Atomic (TUnsigned None None))),
     (''amount'', ctx 2 (Atomic TReal))]"

definition TimerStateChangeValue :: shape where
  "TimerStateChangeValue = Choice
    [(''null'', plain (Atomic TNull)),
     (''boolean'', plain (Atomic TBoolean)),
     (''unsigned'', plain (Atomic (TUnsigned None None))),
     (''integer'', plain (Atomic (TInteger None None))),
     (''real'', plain (Atomic TReal)),
     (''double'', plain (Atomic TDouble)),
     (''octetstring'', plain (Atomic (TOctetString None None))),
     (''characterstring'', plain (Atomic (TCharacterString 0))),
     (''bitstring'', plain (bits [])),
     (''enumerated'', plain (enumerated [])),
     (''date'', plain (Atomic TDate)),
     (''time'', plain (Atomic TTime)),
     (''objectidentifier'', plain (Atomic TObjectIdentifier)),
     (''noValue'', ctx 0 (Atomic TNull)),
     (''constructedValue'', ctx 1 Any),
     (''datetime'', ctx 2 DateTime),
     (''lightingCommand'', ctx 3 LightingCommand)]"

definition UnconfirmedTextMessageRequestMessageClass :: shape where
  "UnconfirmedTextMessageRequestMessageClass = Choice
    [(''numeric'', ctx 0 (Atomic (TUnsigned None None))),
     (''character'', ctx 1 (Atomic (TCharacterString 0)))]"

definition ValueSource :: shape where
  "ValueSource = Choice
    [(''none'', ctx 0 (Atomic TNull)),
     (''object'', ctx 1 DeviceObjectReference),
     (''address'', ctx 2 Address)]"

definition WhoHasObject :: shape where
  "WhoHasObject = Choice
    [(''objectIdentifier'', ctx 2 (Atomic TObjectIdentifier)),
     (''objectName'', ctx 3 (Atomic (TCharacterString 0)))]"

end
