(* ===== verification/Services.thy ===== *)
theory Services
  imports Basetypes Apdu
begin

text \<open>
  The services of \<^verbatim>\<open>bacpypes3/apdu.py\<close>: the parameters of each request, acknowledgement and
  error, the tables that find them by PDU type and service choice, and \<^verbatim>\<open>APCISequence\<close>, which
  puts the parameters into an APDU and takes them out.
\<close>

section \<open>Parameters\<close>

definition AcknowledgeAlarmRequest :: fields where
  "AcknowledgeAlarmRequest =
    [(''acknowledgingProcessIdentifier'', ctx 0 (Atomic (TUnsigned None None))),
     (''eventObjectIdentifier'', ctx 1 (Atomic TObjectIdentifier)),
     (''eventStateAcknowledged'', ctx 2 (enumerated EventState)),
     (''timeStamp'', ctx 3 TimeStamp),
     (''acknowledgmentSource'', ctx 4 (Atomic (TCharacterString 0))),
     (''timeOfAcknowledgment'', ctx 5 TimeStamp)]"

definition AddListElementRequest :: fields where
  "AddListElementRequest =
    [(''objectIdentifier'', ctx 0 (Atomic TObjectIdentifier)),
     (''propertyIdentifier'', ctx 1 (enumerated PropertyIdentifier)),
     (''propertyArrayIndex'', ctx_opt 2 (Atomic (TUnsigned None None))),
     (''listOfElements'', ctx 3 Any)]"

definition AtomicReadFileRequest :: fields where
  "AtomicReadFileRequest =
    [(''fileIdentifier'', plain (Atomic TObjectIdentifier)),
     (''accessMethod'', plain AtomicReadFileRequestAccessMethodChoice)]"

definition AtomicWriteFileRequest :: fields where
  "AtomicWriteFileRequest =
    [(''fileIdentifier'', plain (Atomic TObjectIdentifier)),
     (''accessMethod'', plain AtomicWriteFileRequestAccessMethodChoice)]"

definition AuthenticateRequest :: fields where
  "AuthenticateRequest =
    [(''pseudoRandomNumber'', ctx 0 (Atomic (TUnsigned None None))),
     (''expectedInvokeID'', ctx 1 (Atomic (TUnsigned None None))),
     (''operatorName'', ctx 2 (Atomic (TCharacterString 0))),
     (''operatorPassword'', ctx 3 (Atomic (TCharacterString 0))),
     (''startEncipheredSession'', ctx 4 (Atomic TBoolean))]"

definition ConfirmedCOVNotificationRequest :: fields where
  "ConfirmedCOVNotificationRequest =
    [(''subscriberProcessIdentifier'', ctx 0 (Atomic (TUnsigned None None))),
     (''initiatingDeviceIdentifier'', ctx 1 (Atomic TObjectIdentifier)),
     (''monitoredObjectIdentifier'', ctx 2 (Atomic TObjectIdentifier)),
     (''timeRemaining'', ctx 3 (Atomic (TUnsigned None None))),
     (''listOfValues'', ctx 4 (SequenceOf (plain PropertyValue)))]"

definition ConfirmedEventNotificationRequest :: fields where
  "ConfirmedEventNotificationRequest =
    [(''processIdentifier'', ctx 0 (Atomic (TUnsigned None None))),
     (''initiatingDeviceIdentifier'', ctx 1 (Atomic TObjectIdentifier)),
     (''eventObjectIdentifier'', ctx 2 (Atomic TObjectIdentifier)),
     (''timeStamp'', ctx 3 TimeStamp),
     (''notificationClass'', ctx 4 (Atomic (TUnsigned None None))),
     (''priority'', ctx 5 (Atomic (TUnsigned None None))),
     (''eventType'', ctx 6 (enumerated EventType)),
     (''messageText'', ctx_opt 7 (Atomic (TCharacterString 0))),
     (''notifyType'', ctx 8 (enumerated NotifyType)),
     (''ackRequired'', ctx_opt 9 (Atomic TBoolean)),
     (''fromState'', ctx_opt 10 (enumerated EventState)),
     (''toState'', ctx 11 (enumerated EventState)),
     (''eventValues'', ctx_opt 12 NotificationParameters)]"

definition ConfirmedPrivateTransferRequest :: fields where
  "ConfirmedPrivateTransferRequest =
    [(''vendorID'', ctx 0 (Atomic (TUnsigned None None))),
     (''serviceNumber'', ctx 1 (Atomic (TUnsigned None None))),
     (''serviceParameters'', ctx_opt 2 Any)]"

definition ConfirmedTextMessageRequest :: fields where
  "ConfirmedTextMessageRequest =
    [(''textMessageSourceDevice'', ctx 0 (Atomic TObjectIdentifier)),
     (''messageClass'', ctx_opt 1 ConfirmedTextMessageRequestMessageClass),
     (''messagePriority'', ctx 2 (enumerated ConfirmedTextMessageRequestMessagePriority)),
     (''message'', ctx 3 (Atomic (TCharacterString 0)))]"

definition CreateObjectRequest :: fields where
  "CreateObjectRequest =
    [(''objectSpecifier'', ctx 0 CreateObjectRequestObjectSpecifier),
     (''listOfInitialValues'', ctx_opt 1 (SequenceOf (plain PropertyValue)))]"

definition DeleteObjectRequest :: fields where
  "DeleteObjectRequest =
    [(''objectIdentifier'', plain (Atomic TObjectIdentifier))]"

definition DeviceCommunicationControlRequest :: fields where
  "DeviceCommunicationControlRequest =
    [(''timeDuration'', ctx_opt 0 (Atomic (TUnsigned None None))),
     (''enableDisable'', ctx_opt 1 (enumerated DeviceCommunicationControlRequestEnableDisable)),
     (''password'', ctx_opt 2 (Atomic (TCharacterString 0)))]"

definition GetAlarmSummaryRequest :: fields where
  "GetAlarmSummaryRequest =
    []"

definition GetEnrollmentSummaryRequest :: fields where
  "GetEnrollmentSummaryRequest =
    [(''acknowledgmentFilter'', ctx 0 (enumerated GetEnrollmentSummaryRequestAcknowledgmentFilterType)),
     (''enrollmentFilter'', ctx_opt 1 RecipientProcess),
     (''eventStateFilter'', ctx_opt 2 (enumerated GetEnrollmentSummaryRequestEventStateFilterType)),
     (''eventTypeFilter'', ctx_opt 3 (enumerated EventType)),
     (''priorityFilter'', ctx_opt 4 GetEnrollmentSummaryRequestPriorityFilterType),
     (''notificationClassFilter'', ctx_opt 5 (Atomic (TUnsigned None None)))]"

definition GetEventInformationRequest :: fields where
  "GetEventInformationRequest =
    [(''lastReceivedObjectIdentifier'', ctx_opt 0 (Atomic TObjectIdentifier))]"

definition LifeSafetyOperationRequest :: fields where
  "LifeSafetyOperationRequest =
    [(''requestingProcessIdentifier'', ctx 0 (Atomic (TUnsigned None None))),
     (''requestingSource'', ctx 1 (Atomic (TCharacterString 0))),
     (''request'', ctx 2 (enumerated LifeSafetyOperation)),
     (''objectIdentifier'', ctx_opt 3 (Atomic TObjectIdentifier))]"

definition ReadPropertyMultipleRequest :: fields where
  "ReadPropertyMultipleRequest =
    [(''listOfReadAccessSpecs'', plain (SequenceOf (plain ReadAccessSpecification)))]"

definition ReadPropertyRequest :: fields where
  "ReadPropertyRequest =
    [(''objectIdentifier'', ctx 0 (Atomic TObjectIdentifier)),
     (''propertyIdentifier'', ctx 1 (enumerated PropertyIdentifier)),
     (''propertyArrayIndex'', ctx_opt 2 (Atomic (TUnsigned None None)))]"

definition ReadRangeRequest :: fields where
  "ReadRangeRequest =
    [(''objectIdentifier'', ctx 0 (Atomic TObjectIdentifier)),
     (''propertyIdentifier'', ctx 1 (enumerated PropertyIdentifier)),
     (''propertyArrayIndex'', ctx_opt 2 (Atomic (TUnsigned None None))),
     (''range'', plain_opt Range)]"

definition ReinitializeDeviceRequest :: fields where
  "ReinitializeDeviceRequest =
    [(''reinitializedStateOfDevice'', ctx 0 (enumerated ReinitializeDeviceRequestReinitializedStateOfDevice)),
     (''password'', ctx_opt 1 (Atomic (TCharacterString 0)))]"

definition RemoveListElementRequest :: fields where
  "RemoveListElementRequest =
    [(''objectIdentifier'', ctx 0 (Atomic TObjectIdentifier)),
     (''propertyIdentifier'', ctx 1 (enumerated PropertyIdentifier)),
     (''propertyArrayIndex'', ctx_opt 2 (Atomic (TUnsigned None None))),
     (''listOfElements'', ctx 3 Any)]"

definition RequestKeyRequest :: fields where
  "RequestKeyRequest =
    [(''requestingDeviceIdentifier'', plain (Atomic TObjectIdentifier)),
     (''requestingDeviceAddress'', plain DeviceAddress),
     (''remoteDeviceIdentifier'', plain (Atomic TObjectIdentifier)),
     (''remoteDeviceAddress'', plain DeviceAddress)]"

definition SubscribeCOVPropertyRequest :: fields where
  "SubscribeCOVPropertyRequest =
    [(''subscriberProcessIdentifier'', ctx 0 (Atomic (TUnsigned None None))),
     (''monitoredObjectIdentifier'', ctx 1 (Atomic TObjectIdentifier)),
     (''issueConfirmedNotifications'', ctx_opt 2 (Atomic TBoolean)),
     (''lifetime'', ctx_opt 3 (Atomic (TUnsigned None None))),
     (''monitoredPropertyIdentifier'', ctx 4 PropertyReference),
     (''covIncrement'', ctx_opt 5 (Atomic TReal))]"

definition SubscribeCOVRequest :: fields where
  "SubscribeCOVRequest =
    [(''subscriberProcessIdentifier'', ctx 0 (Atomic (TUnsigned None None))),
     (''monitoredObjectIdentifier'', ctx 1 (Atomic TObjectIdentifier)),
     (''issueConfirmedNotifications'', ctx_opt 2 (Atomic TBoolean)),
     (''lifetime'', ctx_opt 3 (Atomic (TUnsigned None None)))]"

definition VTCloseRequest :: fields where
  "VTCloseRequest =
    [(''listOfRemoteVTSessionIdentifiers'', plain (SequenceOf (plain (Atomic (TUnsigned None None)))))]"

definition VTDataRequest :: fields where
  "VTDataRequest =
    [(''vtSessionIdentifier'', plain (Atomic (TUnsigned None None))),
     (''vtNewData'', plain (Atomic (TOctetString None None))),
     (''vtDataFlag'', plain (Atomic (TUnsigned None None)))]"

definition VTOpenRequest :: fields where
  "VTOpenRequest =
    [(''vtClass'', plain (enumerated VTClass)),
     (''localVTSessionIdentifier'', plain (Atomic (TUnsigned None None)))]"

definition WritePropertyMultipleRequest :: fields where
  "WritePropertyMultipleRequest =
    [(''listOfWriteAccessSpecs'', plain (SequenceOf (plain WriteAccessSpecification)))]"

definition WritePropertyRequest :: fields where
  "WritePropertyRequest =
    [(''objectIdentifier'', ctx 0 (Atomic TObjectIdentifier)),
     (''propertyIdentifier'', ctx 1 (enumerated PropertyIdentifier)),
     (''propertyArrayIndex'', ctx_opt 2 (Atomic (TUnsigned None None))),
     (''propertyValue'', ctx 3 Any),
     (''priority'', ctx_opt 4 (Atomic (TInteger None None)))]"

definition IAmRequest :: fields where
  "IAmRequest =
    [(''iAmDeviceIdentifier'', plain (Atomic TObjectIdentifier)),
     (''maxAPDULengthAccepted'', plain (Atomic (TUnsigned None None))),
     (''segmentationSupported'', plain (enumerated Segmentation)),
     (''vendorID'', plain (Atomic (TUnsigned None None)))]"

definition IHaveRequest :: fields where
  "IHaveRequest =
    [(''deviceIdentifier'', plain (Atomic TObjectIdentifier)),
     (''objectIdentifier'', plain (Atomic TObjectIdentifier)),
     (''objectName'', plain (Atomic (TCharacterString 0)))]"

definition TimeSynchronizationRequest :: fields where
  "TimeSynchronizationRequest =
    [(''time'', plain DateTime)]"

definition UTCTimeSynchronizationRequest :: fields where
  "UTCTimeSynchronizationRequest =
    [(''time'', plain DateTime)]"

definition UnconfirmedCOVNotificationRequest :: fields where
  "UnconfirmedCOVNotificationRequest =
    [(''subscriberProcessIdentifier'', ctx 0 (Atomic (TUnsigned None None))),
     (''initiatingDeviceIdentifier'', ctx 1 (Atomic TObjectIdentifier)),
     (''monitoredObjectIdentifier'', ctx 2 (Atomic TObjectIdentifier)),
     (''timeRemaining'', ctx 3 (Atomic (TUnsigned None None))),
     (''listOfValues'', ctx 4 (SequenceOf (plain PropertyValue)))]"

definition UnconfirmedEventNotificationRequest :: fields where
  "UnconfirmedEventNotificationRequest =
    [(''processIdentifier'', ctx 0 (Atomic (TUnsigned None None))),
     (''initiatingDeviceIdentifier'', ctx 1 (Atomic TObjectIdentifier)),
     (''eventObjectIdentifier'', ctx 2 (Atomic TObjectIdentifier)),
     (''timeStamp'', ctx 3 TimeStamp),
     (''notificationClass'', ctx 4 (Atomic (TUnsigned None None))),
     (''priority'', ctx 5 (Atomic (TUnsigned None None))),
     (''eventType'', ctx 6 (enumerated EventType)),
     (''messageText'', ctx_opt 7 (Atomic (TCharacterString 0))),
     (''notifyType'', ctx 8 (enumerated NotifyType)),
     (''ackRequired'', ctx_opt 9 (Atomic TBoolean)),
     (''fromState'', ctx_opt 10 (enumerated EventState)),
     (''toState'', ctx 11 (enumerated EventState)),
     (''eventValues'', ctx_opt 12 NotificationParameters)]"

definition UnconfirmedPrivateTransferRequest :: fields where
  "UnconfirmedPrivateTransferRequest =
    [(''vendorID'', ctx 0 (Atomic (TUnsigned None None))),
     (''serviceNumber'', ctx 1 (Atomic (TUnsigned None None))),
     (''serviceParameters'', ctx_opt 2 Any)]"

definition UnconfirmedTextMessageRequest :: fields where
  "UnconfirmedTextMessageRequest =
    [(''textMessageSourceDevice'', ctx 0 (Atomic TObjectIdentifier)),
     (''messageClass'', ctx_opt 1 UnconfirmedTextMessageRequestMessageClass),
     (''messagePriority'', ctx 2 (enumerated UnconfirmedTextMessageRequestMessagePriority)),
     (''message'', ctx 3 (Atomic (TCharacterString 0)))]"

definition WhoHasRequest :: fields where
  "WhoHasRequest =
    [(''limits'', plain_opt WhoHasLimits),
     (''object'', plain WhoHasObject)]"

definition WhoIsRequest :: fields where
  "WhoIsRequest =
    [(''deviceInstanceRangeLowLimit'', ctx_opt 0 (Atomic (TUnsigned None None))),
     (''deviceInstanceRangeHighLimit'', ctx_opt 1 (Atomic (TUnsigned None None)))]"

definition WriteGroupRequest :: fields where
  "WriteGroupRequest =
    [(''groupNumber'', ctx 0 (Atomic (TUnsigned None None))),
     (''writePriority'', ctx 1 (Atomic (TUnsigned None None))),
     (''changeList'', ctx 2 (SequenceOf (plain GroupChannelValue))),
     (''inhibitDelay'', ctx_opt 3 (Atomic TBoolean))]"

definition AtomicReadFileACK :: fields where
  "AtomicReadFileACK =
    [(''endOfFile'', plain (Atomic TBoolean)),
     (''accessMethod'', plain AtomicReadFileACKAccessMethodChoice)]"

definition AtomicWriteFileACK :: fields where
  "AtomicWriteFileACK =
    [(''fileStartPosition'', ctx_opt 0 (Atomic (TInteger None None))),
     (''fileStartRecord'', ctx_opt 1 (Atomic (TInteger None None)))]"

definition AuthenticateACK :: fields where
  "AuthenticateACK =
    [(''modifiedRandomNumber'', plain (Atomic (TUnsigned None None)))]"

definition ConfirmedPrivateTransferACK :: fields where
  "ConfirmedPrivateTransferACK =
    [(''vendorID'', ctx 0 (Atomic (TUnsigned None None))),
     (''serviceNumber'', ctx 1 (Atomic (TUnsigned None None))),
     (''resultBlock'', ctx_opt 2 Any)]"

definition CreateObjectACK :: fields where
  "CreateObjectACK =
    [(''objectIdentifier'', plain (Atomic TObjectIdentifier))]"

definition GetAlarmSummaryACK :: fields where
  "GetAlarmSummaryACK =
    [(''listOfAlarmSummaries'', plain (SequenceOf (plain GetAlarmSummaryAlarmSummary)))]"

definition GetEnrollmentSummaryACK :: fields where
  "GetEnrollmentSummaryACK =
    [(''listOfEnrollmentSummaries'', plain (SequenceOf (plain GetEnrollmentSummaryEnrollmentSummary)))]"

definition GetEventInformationACK :: fields where
  "GetEventInformationACK =
    [(''listOfEventSummaries'', ctx 0 (SequenceOf (plain GetEventInformationEventSummary))),
     (''moreEvents'', ctx 1 (Atomic TBoolean))]"

definition ReadPropertyACK :: fields where
  "ReadPropertyACK =
    [(''objectIdentifier'', ctx 0 (Atomic TObjectIdentifier)),
     (''propertyIdentifier'', ctx 1 (enumerated PropertyIdentifier)),
     (''propertyArrayIndex'', ctx_opt 2 (Atomic (TUnsigned None None))),
     (''propertyValue'', ctx 3 Any)]"

definition ReadPropertyMultipleACK :: fields where
  "ReadPropertyMultipleACK =
    [(''listOfReadAccessResults'', plain (SequenceOf (plain ReadAccessResult)))]"

definition ReadRangeACK :: fields where
  "ReadRangeACK =
    [(''objectIdentifier'', ctx 0 (Atomic TObjectIdentifier)),
     (''propertyIdentifier'', ctx 1 (enumerated PropertyIdentifier)),
     (''propertyArrayIndex'', ctx_opt 2 (Atomic (TUnsigned None None))),
     (''resultFlags'', ctx 3 (bits ResultFlags)),
     (''itemCount'', ctx 4 (Atomic (TUnsigned None None))),
     (''itemData'', ctx 5 (SequenceOf (plain Any))),
     (''firstSequenceNumber'', ctx_opt 6 (Atomic (TUnsigned None None)))]"

definition VTDataACK :: fields where
  "VTDataACK =
    [(''allNewDataAccepted'', ctx 0 (Atomic TBoolean)),
     (''acceptedOctetCount'', ctx 1 (Atomic (TUnsigned None None)))]"

definition VTOpenACK :: fields where
  "VTOpenACK =
    [(''remoteVTSessionIdentifier'', plain (Atomic (TUnsigned None None)))]"

definition Error :: fields where
  "Error =
    [(''errorClass'', plain (enumerated ErrorClass)),
     (''errorCode'', plain (enumerated ErrorCode))]"

definition ChangeListError :: fields where
  "ChangeListError =
    [(''errorType'', ctx 0 ErrorType),
     (''firstFailedElementNumber'', ctx 1 (Atomic (TUnsigned None None)))]"

definition ConfirmedPrivateTransferError :: fields where
  "ConfirmedPrivateTransferError =
    [(''errorType'', ctx 0 ErrorType),
     (''vendorID'', ctx 1 (Atomic (TUnsigned None None))),
     (''serviceNumber'', ctx 2 (Atomic (TUnsigned None None))),
     (''errorParameters'', ctx_opt 3 Any)]"

definition CreateObjectError :: fields where
  "CreateObjectError =
    [(''errorType'', ctx 0 ErrorType),
     (''firstFailedElementNumber'', ctx 1 (Atomic (TUnsigned None None)))]"

definition VTCloseError :: fields where
  "VTCloseError =
    [(''errorType'', ctx 0 ErrorType),
     (''listOfVTSessionIdentifiers'', ctx_opt 1 (SequenceOf (plain (Atomic (TUnsigned None None)))))]"

definition WritePropertyMultipleError :: fields where
  "WritePropertyMultipleError =
    [(''errorType'', ctx 0 ErrorType),
     (''firstFailedWriteAttempt'', ctx 1 ObjectPropertyReference)]"

section \<open>Tables\<close>

type_synonym service_table = "(int \<times> fields) list"

definition confirmed_request_types :: service_table where
  "confirmed_request_types =
    [(0, AcknowledgeAlarmRequest), (8, AddListElementRequest), (6, AtomicReadFileRequest),
     (7, AtomicWriteFileRequest), (24, AuthenticateRequest), (1, ConfirmedCOVNotificationRequest),
     (2, ConfirmedEventNotificationRequest), (18, ConfirmedPrivateTransferRequest), (19, ConfirmedTextMessageRequest),
     (10, CreateObjectRequest), (11, DeleteObjectRequest), (17, DeviceCommunicationControlRequest),
     (3, GetAlarmSummaryRequest), (4, GetEnrollmentSummaryRequest), (29, GetEventInformationRequest),
     (27, LifeSafetyOperationRequest), (14, ReadPropertyMultipleRequest), (12, ReadPropertyRequest),
     (26, ReadRangeRequest), (20, ReinitializeDeviceRequest), (9, RemoveListElementRequest),
     (25, RequestKeyRequest), (28, SubscribeCOVPropertyRequest), (5, SubscribeCOVRequest),
     (22, VTCloseRequest), (23, VTDataRequest), (21, VTOpenRequest),
     (16, WritePropertyMultipleRequest), (15, WritePropertyRequest)]"

definition unconfirmed_request_types :: service_table where
  "unconfirmed_request_types =
    [(0, IAmRequest), (1, IHaveRequest), (6, TimeSynchronizationRequest),
     (9, UTCTimeSynchronizationRequest), (2, UnconfirmedCOVNotificationRequest), (3, UnconfirmedEventNotificationRequest),
     (4, UnconfirmedPrivateTransferRequest), (5, UnconfirmedTextMessageRequest), (7, WhoHasRequest),
     (8, WhoIsRequest), (10, WriteGroupRequest)]"

definition complex_ack_types :: service_table where
  "complex_ack_types =
    [(6, AtomicReadFileACK), (7, AtomicWriteFileACK), (24, AuthenticateACK),
     (18, ConfirmedPrivateTransferACK), (10, CreateObjectACK), (3, GetAlarmSummaryACK),
     (4, GetEnrollmentSummaryACK), (29, GetEventInformationACK), (12, ReadPropertyACK),
     (14, ReadPropertyMultipleACK), (26, ReadRangeACK), (23, VTDataACK),
     (21, VTOpenACK)]"

definition error_types :: service_table where
  "error_types =
    map (\<lambda>n. (n, Error)) [0, 1, 2, 3, 4, 5, 6, 7, 11, 12, 14, 26, 15, 33, 17, 19, 20, 21, 23, 28] @
    [(8, ChangeListError), (9, ChangeListError), (18, ConfirmedPrivateTransferError),
     (10, CreateObjectError), (22, VTCloseError), (16, WritePropertyMultipleError)]"

section \<open>APCISequence\<close>

text \<open>The class for an APDU; a choice that is not in the table is a \<open>RuntimeError\<close>.\<close>

definition service_fields :: "apdu \<Rightarrow> fields result" where
  "service_fields a =
     (if apduType a \<in> {0, 1, 3, 5} then
        need RuntimeError
          (case apduService a of
             None \<Rightarrow> None
           | Some n \<Rightarrow>
               map_of
                 (if apduType a = 0 then confirmed_request_types
                  else if apduType a = 3 then complex_ack_types
                  else if apduType a = 1 then unconfirmed_request_types
                  else error_types) n)
      else Inl TypeError)"

text \<open>
  The header is that of the sequence, the data are its parameters. What is left of the tags
  after decoding is not looked at.
\<close>

definition apci_sequence_encode :: "apdu \<Rightarrow> fields \<Rightarrow> val option list \<Rightarrow> apdu result" where
  "apci_sequence_encode header fs vs =
     bindR (encode (plain (Sequence fs)) (VSequence vs)) (\<lambda>ts.
     bindR (tag_list_encode ts) (\<lambda>bs. Inr (header\<lparr>apduData := bs\<rparr>)))"

definition apci_sequence_decode :: "apdu \<Rightarrow> (apdu \<times> val) result" where
  "apci_sequence_decode a =
     bindR (service_fields a) (\<lambda>fs.
     bindR (tag_list_decode (apduData a)) (\<lambda>ts.
     bindR (fst (decode (plain (Sequence fs)) ts)) (\<lambda>v. Inr (a, v))))"

section \<open>Parameters and octets\<close>


lemma parameters_written:
  assumes "contexts_ok_fields fs" "val_ok_fields fs vs" "encode (plain (Sequence fs)) (VSequence vs) = Inr ts"
  shows "\<exists>bs. tag_list_encode ts = Inr bs \<and> tag_list_decode bs = Inr ts"
proof -
  have "tidy ts" using assms encode_tidy(2) by (auto simp: bindR_eq_Inr_iff bracket_def)
  then show ?thesis using tags.stream_roundtrip by (auto simp: tidy_def)
qed

lemma service_fields_data [simp]: "service_fields (a\<lparr>apduData := bs\<rparr>) = service_fields a"
  by (simp add: service_fields_def)

lemma apci_sequence_back:
  assumes "service_fields a = Inr fs" "contexts_ok_fields fs" "val_ok_fields fs vs"
    "encode (plain (Sequence fs)) (VSequence vs) = Inr ts"
  shows "\<exists>b. apci_sequence_encode a fs vs = Inr b \<and>
    apci_sequence_decode b = bindR (fst (decode (plain (Sequence fs)) ts)) (\<lambda>v. Inr (b, v))"
proof -
  obtain bs where "tag_list_encode ts = Inr bs" "tag_list_decode bs = Inr ts"
    using parameters_written [OF assms(2,3,4)] by blast
  then show ?thesis using assms(1,4) by (simp add: apci_sequence_encode_def apci_sequence_decode_def)
qed

subsection \<open>The services that pass\<close>

definition sound_service :: "fields \<Rightarrow> bool" where
  "sound_service fs \<longleftrightarrow> lookahead_fields fs \<and> contexts_ok_fields fs"


lemma service_fields_cases:
  assumes "service_fields a = Inr fs"
  obtains n where "apduType a = 0" "apduService a = Some n" "(n, fs) \<in> set confirmed_request_types"
  | n where "apduType a = 1" "apduService a = Some n" "(n, fs) \<in> set unconfirmed_request_types"
  | n where "apduType a = 3" "apduService a = Some n" "(n, fs) \<in> set complex_ack_types"
  | n where "apduType a = 5" "apduService a = Some n" "(n, fs) \<in> set error_types"
proof -
  have "apduType a \<in> {0, 1, 3, 5}" using assms by (auto simp: service_fields_def split: if_splits)
  then show ?thesis using assms that
    by (auto simp: service_fields_def split: option.splits if_splits dest: map_of_SomeD)
qed

lemma services_consume:
  "list_all (\<lambda>(n, fs). items_consume_fields fs) confirmed_request_types"
  "list_all (\<lambda>(n, fs). items_consume_fields fs) unconfirmed_request_types"
  "list_all (\<lambda>(n, fs). items_consume_fields fs) complex_ack_types"
  "list_all (\<lambda>(n, fs). items_consume_fields fs) error_types"
  by code_simp+

lemma get_returns: "pdu_get s \<noteq> Inl NoReturn" "pdu_get_short s \<noteq> Inl NoReturn" "pdu_get_long s \<noteq> Inl NoReturn"
    "pdu_get_data k s \<noteq> Inl NoReturn"
  by (cases s) (auto simp: pdu_get_short_def pdu_get_long_def pdu_get_data_def bindR_eq_Inl_iff)

lemma tag_get_lvt_returns: "tag_get_lvt n s \<noteq> Inl NoReturn"
  by (auto simp: tag_get_lvt_def bindR_eq_Inl_iff get_returns Let_def split: if_splits)

lemma tag_decode_returns: "tag_decode s \<noteq> Inl NoReturn"
  by (auto simp: tag_decode_def tag_decode_body_def bindR_eq_Inl_iff get_returns tag_get_lvt_returns Let_def
      split: if_splits sum.splits py_error.splits prod.splits)

lemma tag_list_decode_returns: "tag_list_decode bs \<noteq> Inl NoReturn"
proof (induction bs rule: tag_list_decode.induct)
  case (1 s)
  then show ?case
    by (subst tag_list_decode.simps) (auto simp: bindR_eq_Inl_iff tag_decode_returns)
qed




text \<open>
  Property C26. Whatever the octets of an APDU are, looking for its service and decoding its
  parameters ends, with the parameters or an exception.
\<close>

theorem service_decoding_returns: "apci_sequence_decode a \<noteq> Inl NoReturn"
proof
  assume "apci_sequence_decode a = Inl NoReturn"
  then obtain fs ts where fs: "service_fields a = Inr fs" and ts: "fst (decode (plain (Sequence fs)) ts) = Inl NoReturn"
    using tag_list_decode_returns
    by (auto simp: apci_sequence_decode_def bindR_eq_Inl_iff service_fields_def need_def split: if_splits option.splits)
  have "items_consume_fields fs" using fs services_consume
    by (cases rule: service_fields_cases) (auto simp: list_all_iff)
  then have "returns (decode (plain (Sequence fs)))" using returns_decode(1) [of "plain (Sequence fs)"] by simp
  then show False using ts by (simp add: returns_def)
qed

section \<open>Services that cannot be read\<close>

text \<open>An exception in the rest of the fields ends the sequence.\<close>

lemma fields_blocked:
  assumes "reads_back e v us" "firsts e = [KCtx n]" "context_of e = Some n" "\<not> listed e"
    "decode_fields gs (tag_list_peek us) us = (Inl err, ws)"
  shows "\<exists>ts. encode e v = Inr ts \<and> decode_fields ((m, e) # gs) (tag_list_peek (ts @ us)) (ts @ us) = (Inl err, ws)"
proof -
  obtain ts where ts: "encode e v = Inr ts" "head_key (ts @ us) = KCtx n" "decode e (ts @ us) = (Inr v, us)"
    using reads_back_decode [OF assms(1)] assms(2) by auto
  then have "sequence_field e (decode e) (tag_list_peek (ts @ us)) (ts @ us) = (Inr (tag_list_peek us, Some v), us)"
    using assms(3,4) by (simp add: sequence_field_context decode_next_Inr)
  then show ?thesis using ts(1) assms(5) by (auto simp: sequence_fields_def act_simps bindS_def)
qed

text \<open>An optional choice is decoded whatever tag is next.\<close>

lemma choice_blocked:
  assumes "listed e" "context_of e = Some n" "head_key us \<noteq> KStop" "head_key us \<noteq> KOpen n"
    "\<exists>fs. shape_of e = Choice fs"
  shows "decode_fields ((m, e) # gs) (tag_list_peek us) us = (Inl InvalidTag, us)"
proof -
  obtain c opt fs where e: "e = Elem c opt (Choice fs)" using assms(5) by (cases e) auto
  then have "decode e us = (Inl InvalidTag, us)" using assms(2,4)
    by (simp add: choice_decode_def open_context_other act_simps)
  then show ?thesis using assms(1,3)
    by (simp add: sequence_fields_def sequence_field_listed decode_next_def act_simps bindS_def)
qed

lemma optional_choice_blocks:
  assumes "val_ok_fields ((a, ctx m (Atomic ty)) # gs) (Some w # vs)" "lookahead_fields gs" "\<not> all_optional gs"
    "KOpen n \<notin> set (firsts_fields gs)"
  shows "\<exists>ts. encode_fields ((a, ctx m (Atomic ty)) # (b, ctx_opt n (Choice alts)) # gs) (Some w # None # vs) = Inr ts \<and>
    fst (decode_fields ((a, ctx m (Atomic ty)) # (b, ctx_opt n (Choice alts)) # gs) (tag_list_peek ts) ts) = Inl InvalidTag"
proof -
  let ?a = "ctx m (Atomic ty)" and ?b = "ctx_opt n (Choice alts)"
  have ok: "val_ok ?a w" "val_ok_fields gs vs" using assms(1) by auto
  have "fields_back gs vs []" using reads_back_lookahead(2) [OF assms(2) ok(2)] safe_stop(2) by simp
  then obtain us where us: "encode_fields gs vs = Inr us" "us \<noteq> []" "head_key us \<in> set (firsts_fields gs)"
    using assms(3) by (auto simp: fields_back_def)
  then have "head_key us \<noteq> KStop" "head_key us \<noteq> KOpen n" using firsts_no_stop(2) assms(4) by metis+
  then have "decode_fields ((b, ?b) # gs) (tag_list_peek us) us = (Inl InvalidTag, us)"
    by (intro choice_blocked) (auto simp: listed_def is_choice_def)
  from fields_blocked [OF reads_back_atom [OF ok(1)] _ _ _ this]
  obtain ts where "encode ?a w = Inr ts"
    "decode_fields ((a, ?a) # (b, ?b) # gs) (tag_list_peek (ts @ us)) (ts @ us) = (Inl InvalidTag, us)"
    by (auto simp: listed_def is_choice_def is_list_def)
  then show ?thesis using us(1) by (auto simp del: decode_fields.simps)
qed

text \<open>
  A text message without a message class cannot be read: the class is optional and
  a request without it is encoded, but the decoder of a sequence decodes every choice, also an
  absent one, and \<open>InvalidTag\<close> is raised.
\<close>

theorem text_message_class_required:
  assumes "apduType a = 0 \<and> apduService a = Some 19 \<or> apduType a = 1 \<and> apduService a = Some 5"
    "service_fields a = Inr fs" "val_ok_fields fs [Some w, None, Some x, Some y]"
  shows "\<exists>b. apci_sequence_encode a fs [Some w, None, Some x, Some y] = Inr b \<and>
    apci_sequence_decode b = Inl InvalidTag"
proof -
  have "\<exists>alts t. fs = [(''textMessageSourceDevice'', ctx 0 (Atomic TObjectIdentifier)),
      (''messageClass'', ctx_opt 1 (Choice alts)), (''messagePriority'', ctx 2 (enumerated t)),
      (''message'', ctx 3 (Atomic (TCharacterString 0)))]" and c: "contexts_ok_fields fs"
    using assms(1,2)
    by (auto simp: service_fields_def confirmed_request_types_def unconfirmed_request_types_def
        ConfirmedTextMessageRequest_def ConfirmedTextMessageRequestMessageClass_def
        UnconfirmedTextMessageRequest_def UnconfirmedTextMessageRequestMessageClass_def enumerated_def context_ok_def)
  then obtain alts t where fs: "fs = [(''textMessageSourceDevice'', ctx 0 (Atomic TObjectIdentifier)),
      (''messageClass'', ctx_opt 1 (Choice alts)), (''messagePriority'', ctx 2 (enumerated t)),
      (''message'', ctx 3 (Atomic (TCharacterString 0)))]" by blast
  have "\<exists>ts. encode_fields fs [Some w, None, Some x, Some y] = Inr ts \<and>
    fst (decode_fields fs (tag_list_peek ts) ts) = Inl InvalidTag"
    unfolding fs
    by (rule optional_choice_blocks)
      (use assms(3) in \<open>simp_all add: fs enumerated_def field_taken_def all_optional_def\<close>)
  then obtain ts us where e: "encode_fields fs [Some w, None, Some x, Some y] = Inr ts"
    and d: "decode_fields fs (tag_list_peek ts) ts = (Inl InvalidTag, us)"
    by (metis prod.collapse)
  have ts: "encode (plain (Sequence fs)) (VSequence [Some w, None, Some x, Some y]) = Inr ts"
    using e by (simp add: bracket_def del: encode_fields.simps)
  have "fst (decode (plain (Sequence fs)) ts) = Inl InvalidTag"
    using d by (simp add: sequence_decode_def act_simps bindS_Inl del: decode_fields.simps)
  with ts show ?thesis using apci_sequence_back [OF assms(2) c assms(3) ts(1)] by simp
qed

theorem text_message_class_required_witness:
  "\<exists>b. apci_sequence_encode (unconfirmed_request_pdu (Some 5)) UnconfirmedTextMessageRequest
       [Some (VAtom (AObjectIdentifier (8, 1))), None, Some (VAtom (AEnumerated 0)), Some (VAtom (ACharacterString [72, 105]))] = Inr b \<and>
     apci_sequence_decode b = Inl InvalidTag"
  by (rule text_message_class_required)
    (simp_all add: unconfirmed_request_pdu_def init_apdu_def pci.defs init_pci_def service_fields_def unconfirmed_request_types_def
      UnconfirmedTextMessageRequest_def atom_ok_def enumerated_def enumerated_ok_def enumerated_cast_def object_identifier_ok_def
      text_ok_def code_point_def surrogate_def text_put_def utf8_put_def object_identifier_cast_pair_def object_type_high_limit_def)

text \<open>
  An error is an answer to a confirmed request. The parameters of the error can be
  decoded for every confirmed request of the tables but Authenticate, RequestKey,
  LifeSafetyOperation and GetEventInformation, which are not in the table of errors: for these
  \<open>RuntimeError\<close> is raised whatever the octets are.
\<close>

theorem error_answers_decodable:
  assumes "n \<in> fst ` set confirmed_request_types" "apduType a = 5" "apduService a = Some n"
  shows "if n \<in> {24, 25, 27, 29} then apci_sequence_decode a = Inl RuntimeError
    else \<exists>fs. service_fields a = Inr fs \<and> sound_service fs"
proof (cases "n \<in> {24, 25, 27, 29}")
  case True
  then show ?thesis using assms(2,3)
    by (auto simp: apci_sequence_decode_def service_fields_def error_types_def need_def)
next
  case False
  have "list_all (\<lambda>(n, fs). n \<in> {24, 25, 27, 29} \<or> (case map_of error_types n of None \<Rightarrow> False | Some gs \<Rightarrow> sound_service gs)) confirmed_request_types"
    by code_simp
  then have "\<exists>fs. map_of error_types n = Some fs \<and> sound_service fs" using assms(1) False
    by (auto simp: list_all_iff split: option.splits)
  then show ?thesis using False assms(2,3) by (auto simp: service_fields_def need_def)
qed

theorem error_answers_decodable_witness:
  "apci_sequence_decode (error_pdu (Some 29) (Some 1) None) = Inl RuntimeError"
  using error_answers_decodable [of 29 "error_pdu (Some 29) (Some 1) None"]
  by (simp add: error_pdu_def with_context_def init_apdu_def pci.defs init_pci_def confirmed_request_types_def)

lemma context_number_too_large:
  assumes "255 < n" "0 \<le> tag_lvt (context_tag n d)"
  shows "tag_encode (context_tag n d) = Inl ValueError"
proof -
  have "tag_initial_octet (context_tag n d) = 0xF8 + (if tag_lvt (context_tag n d) < 5 then tag_lvt (context_tag n d) else 5)"
    using assms by (simp add: tag_initial_octet_def context_tag_def)
  then have "pdu_put (tag_initial_octet (context_tag n d)) [] = Inr [word_of_int (tag_initial_octet (context_tag n d))]"
    using assms(2) by (simp add: pdu_put_def)
  then show ?thesis using assms(1) by (simp add: tag_encode_def pdu_put_def context_tag_def)
qed

text \<open>
  The write status of a property cannot be sent: the alternative has the context
  number 370, and a tag number above 255 does not fit in its octet.
\<close>

theorem write_status_unwritable:
  assumes "atom_ok (TEnumerated (Some 0) None) (AEnumerated n)"
  shows "\<exists>ts. encode (plain PropertyStates) (VChoice ''writeStatus'' (VAtom (AEnumerated n))) = Inr ts \<and>
    tag_list_encode ts = Inl ValueError"
proof -
  obtain d where "atom_encode (TEnumerated (Some 0) None) (Some 370) (AEnumerated n) = Inr [context_tag 370 d]"
    using assms by (auto simp: atom_ok_def atom_encode_def atom_encoders enumerated_ok_def atomic_tag_def unsigned_to_data_def)
  moreover have "tag_encode (context_tag 370 d) = Inl ValueError"
    by (rule context_number_too_large) (simp_all add: context_tag_def)
  ultimately show ?thesis by (simp add: PropertyStates_def enumerated_def bracket_def)
qed

theorem write_status_unwritable_witness:
  "\<exists>ts. encode (plain PropertyStates) (VChoice ''writeStatus'' (VAtom (AEnumerated 1))) = Inr ts \<and>
    tag_list_encode ts = Inl ValueError"
  by (rule write_status_unwritable) (simp add: atom_ok_def enumerated_ok_def enumerated_cast_def)

text \<open>
  In a group channel value an Unsigned without an overriding priority cannot be
  read: the priority is an optional Unsigned in a context, but at an application tag a sequence
  only looks at the class of an element, so it takes the tag for the priority and
  \<open>InvalidTag\<close> is raised.
\<close>

theorem group_channel_unsigned:
  assumes "unsigned_ok None None c" "unsigned_ok None None n"
  shows "\<exists>ts. encode (plain GroupChannelValue)
      (VSequence [Some (VAtom (AUnsigned c)), None, Some (VChoice ''unsigned'' (VAtom (AUnsigned n)))]) = Inr ts \<and>
    fst (decode (plain GroupChannelValue) ts) = Inl InvalidTag"
proof -
  let ?a = "ctx 0 (Atomic (TUnsigned None None))" and ?b = "ctx_opt 1 (Atomic (TUnsigned None None))"
  let ?gs = "[(''overridingPriority'', ?b), (''value'', plain ChannelValue)]"
  obtain d where d: "unsigned_to_data n = Inr d" using unsigned_data_roundtrip [OF assms(2)] by blast
  let ?u = "[application_tag tn_unsigned d]"
  have v: "encode (plain ChannelValue) (VChoice ''unsigned'' (VAtom (AUnsigned n))) = Inr ?u"
    using d by (simp add: ChannelValue_def atom_encode_def unsigned_encode_def atomic_tag_def bracket_def)
  have "\<exists>ws. decode_fields ?gs (tag_list_peek ?u) ?u = (Inl InvalidTag, ws)"
    by (simp add: sequence_fields_def sequence_field_def is_choice_def is_list_def application_tag_def
        app_class_matches_def decode_next_def act_simps bindS_def atom_action_def tn_unsigned_def unsigned_decode_def
        pop_tag_def)
  then obtain ws where ws: "decode_fields ?gs (tag_list_peek ?u) ?u = (Inl InvalidTag, ws)" by blast
  have "reads_back ?a (VAtom (AUnsigned c)) ?u" using assms(1) by (intro reads_back_atom) (simp add: atom_ok_def)
  from fields_blocked [OF this _ _ _ ws, of 0 "''channel''"]
  obtain ts where "encode ?a (VAtom (AUnsigned c)) = Inr ts"
    "decode_fields ((''channel'', ?a) # ?gs) (tag_list_peek (ts @ ?u)) (ts @ ?u) = (Inl InvalidTag, ws)"
    by (auto simp: listed_def is_choice_def is_list_def)
  then show ?thesis using v
    by (simp add: GroupChannelValue_def sequence_decode_def act_simps bindS_Inl bracket_def del: decode_fields.simps)
qed

theorem group_channel_unsigned_witness:
  "\<exists>ts. encode (plain GroupChannelValue)
      (VSequence [Some (VAtom (AUnsigned 5)), None, Some (VChoice ''unsigned'' (VAtom (AUnsigned 1)))]) = Inr ts \<and>
    fst (decode (plain GroupChannelValue) ts) = Inl InvalidTag"
  by (rule group_channel_unsigned) (simp_all add: unsigned_ok_def unsigned_cast_def)

end
