(* ===== verification/Exceptions.thy ===== *)
theory Exceptions
  imports Returning ElementWire Services
begin

text \<open>
  Which exceptions encoders and decoders raise: none of those that name an error class and code,
  and encoders always return.
\<close>

section \<open>The exceptions of decoders\<close>

text \<open>Decoders do not raise the errors of services.\<close>

definition plain_error :: "py_error \<Rightarrow> bool" where
  "plain_error e =
     (case e of ExecutionError _ _ \<Rightarrow> False | WriteMultipleFailed _ _ _ _ _ \<Rightarrow> False | _ \<Rightarrow> True)"

lemma plain_errors [simp]:
  "plain_error InvalidTag" "plain_error ValueError" "plain_error TypeError" "plain_error StructError"
  "plain_error RuntimeError" "plain_error IndexError" "plain_error KeyError" "plain_error AttributeError"
  "plain_error DecodingError" "plain_error MissingRequiredParameter" "plain_error NoReturn" "plain_error UnrecognizedService"
  "\<not> plain_error (ExecutionError c d)" "\<not> plain_error (WriteMultipleFailed c d oid p i)"
  by (simp_all add: plain_error_def)

definition plainR :: "'a result \<Rightarrow> bool" where
  "plainR r \<longleftrightarrow> (\<forall>e. r = Inl e \<longrightarrow> plain_error e)"

definition plainS :: "('s, 'a) action \<Rightarrow> bool" where
  "plainS m \<longleftrightarrow> (\<forall>s. plainR (fst (m s)))"

lemma plainR_basic: "plainR (Inr x)" "plain_error e \<Longrightarrow> plainR (Inl e)"
  by (simp_all add: plainR_def)

lemma plainR_bind: "plainR m \<Longrightarrow> (\<And>x. plainR (f x)) \<Longrightarrow> plainR (bindR m f)"
  by (auto simp: plainR_def bindR_eq_Inl_iff)

lemma plainR_need: "plain_error e \<Longrightarrow> plainR (need e x)"
  by (cases x) (simp_all add: plainR_def)

lemma plainS_basic: "plainS (retS x)" "plain_error e \<Longrightarrow> plainS (raiseS e)" "plainR r \<Longrightarrow> plainS (liftS r)"
  by (simp_all add: plainS_def plainR_def act_simps)

lemma plainS_bind:
  assumes "plainS m" "\<And>x. plainS (f x)"
  shows "plainS (bindS m f)"
  unfolding plainS_def
proof
  fix s
  obtain r t where m: "m s = (r, t)" by fastforce
  then have "plainR r" using assms(1) by (metis fst_conv plainS_def)
  then show "plainR (fst (bindS m f s))" using m assms(2) by (cases r) (simp_all add: bindS_def plainS_def plainR_def)
qed

lemma plainS_with: "(\<And>x. plainS (f x)) \<Longrightarrow> plainS (withS f)"
  by (simp add: plainS_def act_simps)

lemma plainS_attempt: "plainS d \<Longrightarrow> plainS (attempt d)"
  by (auto simp: plainS_def plainR_def attempt_def split: prod.splits sum.splits) (metis fst_conv)

lemma plainS_invalid: "plainS m \<Longrightarrow> plainS h \<Longrightarrow> plainS (on_invalid_tag m h)"
  by (auto simp: plainS_def plainR_def on_invalid_tag_def split: prod.splits sum.splits) (metis fst_conv)

lemma plainS_open: "plainS (open_context c)" "plainS (close_context c tag)"
  by (auto simp: plainS_def plainR_def open_context_def close_context_def split: option.splits if_splits)

lemmas plain_rules = plainS_bind plainS_with plainS_basic plainS_attempt plainS_invalid plainS_open plainR_basic
  plainR_bind plainR_need

lemma plain_pop_tag: "plainR (pop_tag c n ts)"
  by (cases ts) (auto simp: pop_tag_def plainR_def split: tag_class.splits option.splits)

lemma plain_of_data:
  "plainR (null_of_data d)" "plainR (unsigned_of_data lo hi d)" "plainR (integer_of_data lo hi d)"
  "plainR (float_of_data k d)" "plainR (octet_string_of_data mn mx d)" "plainR (octets_of_data ls d)"
  "plainR (enumerated_of_data lo hi d)" "plainR (object_identifier_of_data d)"
  by (auto simp: plainR_def null_of_data_def unsigned_of_data_def unsigned_cast_def integer_of_data_def integer_cast_def
      float_of_data_def octet_string_of_data_def octets_of_data_def enumerated_of_data_def enumerated_cast_def
      object_identifier_of_data_def object_identifier_cast_int_def split: if_splits)

lemma plain_of_data_cases:
  "plainR (string_of_data d)" "plainR (bitstring_of_data k d)" "plainR (date_of_data d)" "plainR (time_of_data d)"
  by (auto simp: plainR_def string_of_data_def bitstring_of_data_def date_of_data_def time_of_data_def need_def Let_def
      split: list.splits option.splits if_splits)

lemmas plain_dests = plain_pop_tag [unfolded plainR_def, rule_format] plain_of_data [unfolded plainR_def, rule_format]
  plain_of_data_cases [unfolded plainR_def, rule_format]

lemma plain_boolean_decode: "plainR (boolean_decode c ts)"
  unfolding boolean_decode_def
  by (rule plainR_bind [OF plain_pop_tag]) (auto simp: plainR_def split: list.splits if_splits)

lemma plain_atom_decode: "plainR (atom_decode ty c ts)"
proof (cases "ty = TBoolean")
  case True
  then show ?thesis using plain_boolean_decode by (auto simp: plainR_def as_atom_Inl_iff)
next
  case False
  then show ?thesis unfolding plainR_def
    by (cases ty) (auto simp: atom_decoders as_atom_Inl_iff bindR_eq_Inl_iff split: if_splits list.splits dest: plain_dests)
qed

lemma plain_next: "plainS d \<Longrightarrow> plainS (decode_next d)"
  unfolding decode_next_def by (intro plain_rules)

lemma plain_absent: "plainS (absent_field e tag)"
  by (simp add: absent_field_def plainS_basic)

lemma plain_class: "plainR (app_class_matches ty n)"
  by (simp add: plainR_def app_class_matches_def)

lemma plain_field: "plainS d \<Longrightarrow> plainS (sequence_field e d tag)"
  unfolding sequence_field_def
  by (cases tag; cases "shape_of e")
    (auto intro!: plainS_bind plainS_basic plainS_attempt plainS_invalid plain_next plain_absent plain_class)

lemma plain_fields: "plainS d \<Longrightarrow> (\<And>tag. plainS (rest tag)) \<Longrightarrow> plainS (sequence_fields e d rest tag)"
  unfolding sequence_fields_def by (auto intro!: plainS_bind plainS_basic plain_field split: prod.splits)

lemma plain_element: "plainS d \<Longrightarrow> (\<And>tag. plainS (rest tag)) \<Longrightarrow> plainS (choice_element n e d rest tag)"
  unfolding choice_element_def Let_def
  by (cases tag; cases "shape_of e")
    (auto intro!: plainS_bind plainS_with plainS_basic plainS_attempt plain_class split: option.splits)

lemma plain_inside:
  "(\<And>tag. plainS (f tag)) \<Longrightarrow> plainS (sequence_decode c f)"
  "(\<And>tag. plainS (g tag)) \<Longrightarrow> plainS (choice_decode c g)"
  unfolding sequence_decode_def choice_decode_def
  by (auto intro!: plainS_bind plainS_with plainS_basic plainS_open split: prod.splits)

lemma plain_items: "plainS d \<Longrightarrow> plainS (list_items k d tag)"
  by (induction k arbitrary: tag)
    (auto intro!: plainS_bind plainS_with plainS_basic plainS_attempt split: option.splits prod.splits)

lemma plain_list: "plainS d \<Longrightarrow> plainS (list_decode c d)"
  unfolding list_decode_def
  by (auto intro!: plainS_bind plainS_with plainS_basic plainS_open plain_items
      split: prod.splits simp del: list_items.simps)

lemma plain_array: "plainS d \<Longrightarrow> plainS (array_decode c k d)"
  unfolding array_decode_def by (auto intro!: plainS_bind plainS_basic plain_list split: val.splits)

lemma plain_atom: "plainS (atom_action ty c)"
  using plain_atom_decode by (auto simp: plainS_def plainR_def atom_action_def split: sum.splits prod.splits)

lemma plain_any_scan: "plainR (any_scan n lvl i ts)"
  by (induction n lvl i ts rule: any_scan.induct) (auto simp: plainR_def split: tag_class.splits if_splits)

lemma plain_any: "plainS (any_decode c)" "plainS any_atomic_decode"
  using plain_any_scan
  by (auto simp: plainS_def plainR_def any_decode_def any_atomic_decode_def
      split: list.splits tag_class.splits if_splits sum.splits prod.splits option.splits)

lemma plain_name_value: "plainS name_value_decode"
proof -
  have "plainR (context_to_app n t)" for n t by (auto simp: plainR_def context_to_app_def split: list.splits)
  moreover have "plainR (string_decode None ts)" for ts
    using plain_dests by (auto simp: plainR_def string_decode_def bindR_eq_Inl_iff)
  ultimately show ?thesis
    by (auto simp: plainS_def plainR_def name_value_decode_def bindR_eq_Inl_iff
        split: list.splits if_splits sum.splits prod.splits)
qed

lemma plain_decode:
  "plainS (decode e)" "plainS (decode_fields fs tag)" "plainS (decode_elements fs tag)"
  by (induction e and fs and fs arbitrary: and tag and tag rule: decode_decode_fields_decode_elements.induct)
    (auto intro: plain_atom plain_inside plain_list plain_array plain_any plain_name_value plainS_basic plain_fields
      plain_element)

lemma plain_cast_out: "plainR (any_cast_out c e null us)"
proof -
  have "plainS (bindS (open_context c) (\<lambda>_.
       bindS (withS (\<lambda>us. case tag_list_peek us of
           None \<Rightarrow> if null then raiseS AttributeError else decode e
         | Some t \<Rightarrow>
             if null \<and> tag_class t = Application \<and> tag_number t = tn_null then decode (plain (Atomic TNull))
             else decode e)) (\<lambda>v.
       withS (\<lambda>us. bindS (close_context c (tag_list_peek us)) (\<lambda>_. retS v)))))"
    by (auto intro!: plainS_bind plainS_with plainS_basic plainS_open plain_decode(1) split: option.splits
        simp del: decode.simps)
  then show ?thesis by (simp add: any_cast_out_def plainS_def)
qed

section \<open>The exceptions of encoders\<close>

definition codedR :: "'a result \<Rightarrow> bool" where
  "codedR r \<longleftrightarrow> (\<forall>e. r = Inl e \<longrightarrow> plain_error e \<and> e \<noteq> NoReturn)"

lemma codedR_basic: "codedR (Inr x)" "plain_error e \<Longrightarrow> e \<noteq> NoReturn \<Longrightarrow> codedR (Inl e)"
  by (simp_all add: codedR_def)

lemma codedR_bind: "codedR m \<Longrightarrow> (\<And>x. m = Inr x \<Longrightarrow> codedR (f x)) \<Longrightarrow> codedR (bindR m f)"
  by (auto simp: codedR_def bindR_eq_Inl_iff)

lemma coded_pdu_put: "codedR (pdu_put n s)"
  by (simp add: codedR_def pdu_put_def)

lemma coded_pack_octets: "codedR (pack_octets xs)"
proof (induction xs rule: pack_octets.induct)
  case (1 xs)
  then show ?case
    by (subst pack_octets.simps) (auto intro!: codedR_bind codedR_basic coded_pdu_put)
qed

lemma coded_data:
  "codedR (unsigned_to_data n)" "codedR (string_to_data enc cs)" "codedR (object_identifier_to_data x)"
  by (auto simp: codedR_def unsigned_to_data_def string_to_data_def object_identifier_to_data_def need_def Let_def
      bindR_eq_Inl_iff split: option.splits if_splits)

lemma coded_quad: "codedR (quad_to_data q)"
  by (cases q) (auto simp: codedR_def quad_to_data_def bindR_eq_Inl_iff pdu_put_def split: if_splits)

lemma coded_bits: "codedR (bitstring_to_data xs)"
  unfolding bitstring_to_data_def Let_def by (intro codedR_bind coded_pack_octets coded_pdu_put codedR_basic)

lemma coded_encoders:
  "codedR (null_encode c u)" "codedR (boolean_encode c b)" "codedR (unsigned_encode c n)" "codedR (integer_encode c n)"
  "codedR (float_encode k c x)" "codedR (octet_string_encode c x)" "codedR (string_encode enc c cs)"
  "codedR (bitstring_encode c xs)" "codedR (enumerated_encode c n)" "codedR (date_encode c q)" "codedR (time_encode c q)"
  "codedR (object_identifier_encode c i)"
  by (auto simp: atom_encoders intro!: codedR_bind codedR_basic coded_data coded_quad coded_bits split: option.split)

lemma coded_atom: "codedR (atom_encode ty c a)"
  by (cases ty) (simp_all add: atom_encode_def coded_encoders codedR_basic split: atom.split)

lemma coded_encode_list: "(\<And>v. codedR (f v)) \<Longrightarrow> codedR (encode_list f vs)"
  by (induction vs) (auto simp: encode_list_def intro!: codedR_bind codedR_basic)

lemma coded_encode:
  "codedR (encode e v)" "codedR (encode_fields fs vs)" "codedR (encode_choice fs n v)"
proof (induction e v and fs vs and fs n v rule: encode_encode_fields_encode_choice.induct)
  case (1 c opt ty v)
  then show ?case by (auto intro: coded_atom codedR_basic split: val.splits)
next
  case (2 c opt fs v)
  then show ?case by (cases v) (auto intro!: codedR_bind codedR_basic)
next
  case (3 c opt fs v)
  then show ?case by (cases v) (auto intro!: codedR_bind codedR_basic)
next
  case (4 c opt e v)
  then show ?case by (cases v) (auto intro!: codedR_bind codedR_basic coded_encode_list)
next
  case (5 c opt k e v)
  then show ?case by (cases v) (auto intro!: codedR_bind codedR_basic coded_encode_list)
next
  case (8 c opt v)
  have "codedR (string_encode 0 (Some 0) n)" for n
    using coded_atom [of "TCharacterString 0" "Some 0" "ACharacterString n"] by (simp add: atom_encode_def)
  then show ?case by (cases v) (auto intro!: codedR_bind codedR_basic)
next
  case (10 n e fs vs)
  show ?case
  proof (cases vs)
    case (Cons x ws)
    show ?thesis
    proof (cases x)
      case None
      then show ?thesis using 10(1) Cons by (auto intro: codedR_basic)
    next
      case (Some v)
      have "codedR (encode e v)" "\<And>ts. encode e v = Inr ts \<Longrightarrow> codedR (encode_fields fs ws)"
        using 10(2,3) Cons Some by blast+
      then show ?thesis using Cons Some by (auto simp: codedR_def bindR_eq_Inl_iff)
    qed
  qed (simp add: codedR_basic)
qed (auto intro: codedR_basic split: val.splits)

lemma coded_cast_in: "codedR (any_cast_in c e v)"
  unfolding any_cast_in_def by (intro codedR_bind coded_encode codedR_basic)

end
