(* ===== verification/ObjectClasses.thy ===== *)
theory ObjectClasses
  imports Basetypes
begin

text \<open>
  The object classes of \<^verbatim>\<open>bacpypes3/object.py\<close>: the object type, the required properties and
  the type of each property.
\<close>

record object_class =
  class_type :: int
  class_required :: "string list"
  class_elements :: fields

definition object_type :: "string \<Rightarrow> int" where
  "object_type name = (case map_of ObjectType name of Some n \<Rightarrow> n | None \<Rightarrow> -1)"

text \<open>The properties of every object.\<close>

definition base_required :: "string list" where
  "base_required =
    [''objectIdentifier'', ''objectName'', ''objectType'', ''propertyList'']"

definition base_elements :: fields where
  "base_elements =
    [(''objectIdentifier'', plain (Atomic TObjectIdentifier)),
     (''objectName'', plain (Atomic (TCharacterString 0))),
     (''objectType'', plain (enumerated_below 1023 ObjectType)),
     (''description'', plain (Atomic (TCharacterString 0))),
     (''propertyList'', plain (ArrayOf None (plain (enumerated PropertyIdentifier)))),
     (''auditLevel'', plain (enumerated AuditLevel)),
     (''auditableOperations'', plain (bits AuditOperationFlags)),
     (''tags'', plain (ArrayOf None (plain NameValue))),
     (''profileLocation'', plain (Atomic (TCharacterString 0))),
     (''profileName'', plain (Atomic (TCharacterString 0)))]"

section \<open>Classes\<close>

definition AccessCredentialObject :: object_class where
  "AccessCredentialObject =
    \<lparr>class_type = object_type ''accessCredential'',
     class_required = base_required @
      [''globalIdentifier'', ''statusFlags'', ''reliability'', ''credentialStatus'', ''reasonForDisable'',
       ''authenticationFactors'', ''activationTime'', ''expirationTime'', ''credentialDisable'',
       ''assignedAccessRights''],
     class_elements = base_elements @
      [(''globalIdentifier'', plain (Atomic (TUnsigned None None))),
       (''statusFlags'', plain (bits StatusFlags)),
       (''reliability'', plain (enumerated Reliability)),
       (''credentialStatus'', plain (enumerated BinaryPV)),
       (''reasonForDisable'', plain (SequenceOf (plain (enumerated AccessCredentialDisableReason)))),
       (''authenticationFactors'', plain (ArrayOf None (plain CredentialAuthenticationFactor))),
       (''activationTime'', plain DateTime),
       (''expirationTime'', plain DateTime),
       (''credentialDisable'', plain (enumerated AccessCredentialDisable)),
       (''daysRemaining'', plain (Atomic (TInteger None None))),
       (''usesRemaining'', plain (Atomic (TInteger None None))),
       (''absenteeLimit'', plain (Atomic (TUnsigned None None))),
       (''belongsTo'', plain DeviceObjectReference),
       (''assignedAccessRights'', plain (ArrayOf None (plain AssignedAccessRights))),
       (''lastAccessPoint'', plain DeviceObjectReference),
       (''lastAccessEvent'', plain (enumerated AccessEvent)),
       (''lastUseTime'', plain DateTime),
       (''traceFlag'', plain (Atomic TBoolean)),
       (''threatAuthority'', plain (Atomic (TUnsigned (Some 0) (Some 100)))),
       (''extendedTimeEnable'', plain (Atomic TBoolean)),
       (''authorizationExemptions'', plain (SequenceOf (plain (enumerated AuthorizationException)))),
       (''reliabilityEvaluationInhibit'', plain (Atomic TBoolean))]\<rparr>"

definition AccessDoorObject :: object_class where
  "AccessDoorObject =
    \<lparr>class_type = object_type ''accessDoor'',
     class_required = base_required @
      [''presentValue'', ''statusFlags'', ''eventState'', ''reliability'', ''outOfService'', ''priorityArray'',
       ''relinquishDefault'', ''doorPulseTime'', ''doorExtendedPulseTime'', ''doorOpenTooLongTime'',
       ''currentCommandPriority''],
     class_elements = base_elements @
      [(''presentValue'', plain (enumerated DoorValue)),
       (''statusFlags'', plain (bits StatusFlags)),
       (''eventState'', plain (enumerated EventState)),
       (''reliability'', plain (enumerated Reliability)),
       (''outOfService'', plain (Atomic TBoolean)),
       (''priorityArray'', plain (ArrayOf (Some 16) (plain PriorityValue))),
       (''relinquishDefault'', plain (enumerated DoorValue)),
       (''doorStatus'', plain (enumerated DoorStatus)),
       (''lockStatus'', plain (enumerated LockStatus)),
       (''securedStatus'', plain (enumerated DoorSecuredStatus)),
       (''doorMembers'', plain (ArrayOf None (plain DeviceObjectReference))),
       (''doorPulseTime'', plain (Atomic (TUnsigned None None))),
       (''doorExtendedPulseTime'', plain (Atomic (TUnsigned None None))),
       (''doorUnlockDelayTime'', plain (Atomic (TUnsigned None None))),
       (''doorOpenTooLongTime'', plain (Atomic (TUnsigned None None))),
       (''doorAlarmState'', plain (enumerated DoorAlarmState)),
       (''maskedAlarmValues'', plain (SequenceOf (plain (enumerated DoorAlarmState)))),
       (''maintenanceRequired'', plain (enumerated Maintenance)),
       (''timeDelay'', plain (Atomic (TUnsigned None None))),
       (''notificationClass'', plain (Atomic (TUnsigned None None))),
       (''alarmValues'', plain (SequenceOf (plain (enumerated DoorAlarmState)))),
       (''faultValues'', plain (SequenceOf (plain (enumerated DoorAlarmState)))),
       (''eventEnable'', plain (bits EventTransitionBits)),
       (''ackedTransitions'', plain (bits EventTransitionBits)),
       (''notifyType'', plain (enumerated NotifyType)),
       (''eventTimeStamps'', plain (ArrayOf (Some 3) (plain TimeStamp))),
       (''eventMessageTexts'', plain (ArrayOf (Some 3) (plain (Atomic (TCharacterString 0))))),
       (''eventMessageTextsConfig'', plain (ArrayOf (Some 3) (plain (Atomic (TCharacterString 0))))),
       (''eventDetectionEnable'', plain (Atomic TBoolean)),
       (''eventAlgorithmInhibitRef'', plain ObjectPropertyReference),
       (''eventAlgorithmInhibit'', plain (Atomic TBoolean)),
       (''timeDelayNormal'', plain (Atomic (TUnsigned None None))),
       (''reliabilityEvaluationInhibit'', plain (Atomic TBoolean)),
       (''currentCommandPriority'', plain OptionalUnsigned),
       (''valueSource'', plain ValueSource),
       (''valueSourceArray'', plain (ArrayOf (Some 16) (plain ValueSource))),
       (''lastCommandTime'', plain TimeStamp),
       (''commandTimeArray'', plain (ArrayOf (Some 16) (plain TimeStamp))),
       (''auditPriorityFilter'', plain OptionalPriorityFilter)]\<rparr>"

definition AccessPointObject :: object_class where
  "AccessPointObject =
    \<lparr>class_type = object_type ''accessPoint'',
     class_required = base_required @
      [''statusFlags'', ''eventState'', ''reliability'', ''outOfService'', ''authenticationStatus'',
       ''activeAuthenticationPolicy'', ''numberOfAuthenticationPolicies'', ''accessEvent'', ''accessEventTag'',
       ''accessEventTime'', ''accessEventCredential'', ''accessDoors'', ''priorityForWriting''],
     class_elements = base_elements @
      [(''statusFlags'', plain (bits StatusFlags)),
       (''eventState'', plain (enumerated EventState)),
       (''reliability'', plain (enumerated Reliability)),
       (''outOfService'', plain (Atomic TBoolean)),
       (''authenticationStatus'', plain (enumerated AuthenticationStatus)),
       (''activeAuthenticationPolicy'', plain (Atomic (TUnsigned None None))),
       (''numberOfAuthenticationPolicies'', plain (Atomic (TUnsigned None None))),
       (''authenticationPolicyList'', plain (ArrayOf None (plain AuthenticationPolicy))),
       (''authenticationPolicyNames'', plain (ArrayOf None (plain (Atomic (TCharacterString 0))))),
       (''authorizationMode'', plain (enumerated AuthorizationMode)),
       (''verificationTime'', plain (Atomic (TUnsigned None None))),
       (''lockout'', plain (Atomic TBoolean)),
       (''lockoutRelinquishTime'', plain (Atomic (TUnsigned None None))),
       (''failedAttempts'', plain (Atomic (TUnsigned None None))),
       (''failedAttemptEvents'', plain (SequenceOf (plain (enumerated AccessEvent)))),
       (''maxFailedAttempts'', plain (Atomic (TUnsigned None None))),
       (''failedAttemptsTime'', plain (Atomic (TUnsigned None None))),
       (''threatLevel'', plain (Atomic (TUnsigned (Some 0) (Some 100)))),
       (''occupancyUpperLimitEnforced'', plain (Atomic TBoolean)),
       (''occupancyLowerLimitEnforced'', plain (Atomic TBoolean)),
       (''occupancyCountAdjust'', plain (Atomic TBoolean)),
       (''accompanimentTime'', plain (Atomic (TUnsigned None None))),
       (''accessEvent'', plain (enumerated AccessEvent)),
       (''accessEventTag'', plain (Atomic (TUnsigned None None))),
       (''accessEventTime'', plain TimeStamp),
       (''accessEventCredential'', plain DeviceObjectReference),
       (''accessEventAuthenticationFactor'', plain AuthenticationFactor),
       (''accessDoors'', plain (ArrayOf None (plain DeviceObjectReference))),
       (''priorityForWriting'', plain (Atomic (TUnsigned None None))),
       (''musterPoint'', plain (Atomic TBoolean)),
       (''zoneTo'', plain DeviceObjectReference),
       (''zoneFrom'', plain DeviceObjectReference),
       (''notificationClass'', plain (Atomic (TUnsigned None None))),
       (''transactionNotificationClass'', plain (Atomic (TUnsigned None None))),
       (''accessAlarmEvents'', plain (SequenceOf (plain (enumerated AccessEvent)))),
       (''accessTransactionEvents'', plain (SequenceOf (plain (enumerated AccessEvent)))),
       (''eventEnable'', plain (bits EventTransitionBits)),
       (''ackedTransitions'', plain (bits EventTransitionBits)),
       (''notifyType'', plain (enumerated NotifyType)),
       (''eventTimeStamps'', plain (ArrayOf (Some 3) (plain TimeStamp))),
       (''eventMessageTexts'', plain (ArrayOf (Some 3) (plain (Atomic (TCharacterString 0))))),
       (''eventMessageTextsConfig'', plain (ArrayOf (Some 3) (plain (Atomic (TCharacterString 0))))),
       (''eventDetectionEnable'', plain (Atomic TBoolean)),
       (''eventAlgorithmInhibitRef'', plain ObjectPropertyReference),
       (''eventAlgorithmInhibit'', plain (Atomic TBoolean)),
       (''reliabilityEvaluationInhibit'', plain (Atomic TBoolean))]\<rparr>"

definition AccessRightsObject :: object_class where
  "AccessRightsObject =
    \<lparr>class_type = object_type ''accessRights'',
     class_required = base_required @
      [''globalIdentifier'', ''statusFlags'', ''reliability'', ''enable'', ''negativeAccessRules'',
       ''positiveAccessRules''],
     class_elements = base_elements @
      [(''globalIdentifier'', plain (Atomic (TUnsigned None None))),
       (''statusFlags'', plain (bits StatusFlags)),
       (''reliability'', plain (enumerated Reliability)),
       (''enable'', plain (Atomic TBoolean)),
       (''negativeAccessRules'', plain (ArrayOf None (plain AccessRule))),
       (''positiveAccessRules'', plain (ArrayOf None (plain AccessRule))),
       (''accompaniment'', plain DeviceObjectReference),
       (''reliabilityEvaluationInhibit'', plain (Atomic TBoolean))]\<rparr>"

definition AccessUserObject :: object_class where
  "AccessUserObject =
    \<lparr>class_type = object_type ''accessUser'',
     class_required = base_required @
      [''globalIdentifier'', ''statusFlags'', ''reliability'', ''userType'', ''credentials''],
     class_elements = base_elements @
      [(''globalIdentifier'', plain (Atomic (TUnsigned None None))),
       (''statusFlags'', plain (bits StatusFlags)),
       (''reliability'', plain (enumerated Reliability)),
       (''userType'', plain (enumerated AccessUserType)),
       (''userName'', plain (Atomic (TCharacterString 0))),
       (''userExternalIdentifier'', plain (Atomic (TCharacterString 0))),
       (''userInformationReference'', plain (Atomic (TCharacterString 0))),
       (''members'', plain (SequenceOf (plain DeviceObjectReference))),
       (''memberOf'', plain (SequenceOf (plain DeviceObjectReference))),
       (''credentials'', plain (SequenceOf (plain DeviceObjectReference))),
       (''reliabilityEvaluationInhibit'', plain (Atomic TBoolean))]\<rparr>"

definition AccessZoneObject :: object_class where
  "AccessZoneObject =
    \<lparr>class_type = object_type ''accessZone'',
     class_required = base_required @
      [''globalIdentifier'', ''occupancyState'', ''statusFlags'', ''eventState'', ''reliability'',
       ''outOfService'', ''entryPoints'', ''exitPoints''],
     class_elements = base_elements @
      [(''globalIdentifier'', plain (Atomic (TUnsigned None None))),
       (''occupancyState'', plain (enumerated AccessZoneOccupancyState)),
       (''statusFlags'', plain (bits StatusFlags)),
       (''eventState'', plain (enumerated EventState)),
       (''reliability'', plain (enumerated Reliability)),
       (''outOfService'', plain (Atomic TBoolean)),
       (''occupancyCount'', plain (Atomic (TUnsigned None None))),
       (''occupancyCountEnable'', plain (Atomic TBoolean)),
       (''adjustValue'', plain (Atomic (TInteger None None))),
       (''occupancyUpperLimit'', plain (Atomic (TUnsigned None None))),
       (''occupancyLowerLimit'', plain (Atomic (TUnsigned None None))),
       (''credentialsInZone'', plain (SequenceOf (plain DeviceObjectReference))),
       (''lastCredentialAdded'', plain DeviceObjectReference),
       (''lastCredentialAddedTime'', plain DateTime),
       (''lastCredentialRemoved'', plain DeviceObjectReference),
       (''lastCredentialRemovedTime'', plain DateTime),
       (''passbackMode'', plain (enumerated AccessPassbackMode)),
       (''passbackTimeout'', plain (Atomic (TUnsigned None None))),
       (''entryPoints'', plain (SequenceOf (plain DeviceObjectReference))),
       (''exitPoints'', plain (SequenceOf (plain DeviceObjectReference))),
       (''timeDelay'', plain (Atomic (TUnsigned None None))),
       (''notificationClass'', plain (Atomic (TUnsigned None None))),
       (''alarmValues'', plain (SequenceOf (plain (enumerated AccessZoneOccupancyState)))),
       (''eventEnable'', plain (bits EventTransitionBits)),
       (''ackedTransitions'', plain (bits EventTransitionBits)),
       (''notifyType'', plain (enumerated NotifyType)),
       (''eventTimeStamps'', plain (ArrayOf (Some 3) (plain TimeStamp))),
       (''eventMessageTexts'', plain (ArrayOf (Some 3) (plain (Atomic (TCharacterString 0))))),
       (''eventMessageTextsConfig'', plain (ArrayOf (Some 3) (plain (Atomic (TCharacterString 0))))),
       (''eventDetectionEnable'', plain (Atomic TBoolean)),
       (''eventAlgorithmInhibitRef'', plain ObjectPropertyReference),
       (''eventAlgorithmInhibit'', plain (Atomic TBoolean)),
       (''timeDelayNormal'', plain (Atomic (TUnsigned None None))),
       (''reliabilityEvaluationInhibit'', plain (Atomic TBoolean))]\<rparr>"

definition AccumulatorObject :: object_class where
  "AccumulatorObject =
    \<lparr>class_type = object_type ''accumulator'',
     class_required = base_required @
      [''presentValue'', ''statusFlags'', ''eventState'', ''outOfService'', ''scale'', ''units'',
       ''maxPresValue''],
     class_elements = base_elements @
      [(''presentValue'', plain (Atomic (TUnsigned None None))),
       (''deviceType'', plain (Atomic (TCharacterString 0))),
       (''statusFlags'', plain (bits StatusFlags)),
       (''eventState'', plain (enumerated EventState)),
       (''reliability'', plain (enumerated Reliability)),
       (''outOfService'', plain (Atomic TBoolean)),
       (''scale'', plain Scale),
       (''units'', plain (enumerated EngineeringUnits)),
       (''prescale'', plain Prescale),
       (''maxPresValue'', plain (Atomic (TUnsigned None None))),
       (''valueChangeTime'', plain DateTime),
       (''valueBeforeChange'', plain (Atomic (TUnsigned None None))),
       (''valueSet'', plain (Atomic (TUnsigned None None))),
       (''loggingRecord'', plain AccumulatorRecord),
       (''loggingObject'', plain (Atomic TObjectIdentifier)),
       (''pulseRate'', plain (Atomic (TUnsigned None None))),
       (''highLimit'', plain (Atomic (TUnsigned None None))),
       (''lowLimit'', plain (Atomic (TUnsigned None None))),
       (''limitMonitoringInterval'', plain (Atomic (TUnsigned None None))),
       (''notificationClass'', plain (Atomic (TUnsigned None None))),
       (''timeDelay'', plain (Atomic (TUnsigned None None))),
       (''limitEnable'', plain (bits LimitEnable)),
       (''eventEnable'', plain (bits EventTransitionBits)),
       (''ackedTransitions'', plain (bits EventTransitionBits)),
       (''notifyType'', plain (enumerated NotifyType)),
       (''eventTimeStamps'', plain (ArrayOf (Some 3) (plain TimeStamp))),
       (''eventMessageTexts'', plain (ArrayOf (Some 3) (plain (Atomic (TCharacterString 0))))),
       (''eventMessageTextsConfig'', plain (ArrayOf (Some 3) (plain (Atomic (TCharacterString 0))))),
       (''eventDetectionEnable'', plain (Atomic TBoolean)),
       (''eventAlgorithmInhibitRef'', plain ObjectPropertyReference),
       (''eventAlgorithmInhibit'', plain (Atomic TBoolean)),
       (''timeDelayNormal'', plain (Atomic (TUnsigned None None))),
       (''reliabilityEvaluationInhibit'', plain (Atomic TBoolean)),
       (''faultHighLimit'', plain (Atomic (TUnsigned None None))),
       (''faultLowLimit'', plain (Atomic (TUnsigned None None)))]\<rparr>"

definition AlertEnrollmentObject :: object_class where
  "AlertEnrollmentObject =
    \<lparr>class_type = object_type ''alertEnrollment'',
     class_required = base_required @
      [''presentValue'', ''eventState'', ''eventDetectionEnable'', ''notificationClass'', ''eventEnable'',
       ''ackedTransitions'', ''notifyType'', ''eventTimeStamps''],
     class_elements = base_elements @
      [(''presentValue'', plain (Atomic TObjectIdentifier)),
       (''eventState'', plain (enumerated EventState)),
       (''eventDetectionEnable'', plain (Atomic TBoolean)),
       (''notificationClass'', plain (Atomic (TUnsigned None None))),
       (''eventEnable'', plain (bits EventTransitionBits)),
       (''ackedTransitions'', plain (bits EventTransitionBits)),
       (''notifyType'', plain (enumerated NotifyType)),
       (''eventTimeStamps'', plain (ArrayOf (Some 3) (plain TimeStamp))),
       (''eventMessageTexts'', plain (ArrayOf (Some 3) (plain (Atomic (TCharacterString 0))))),
       (''eventMessageTextsConfig'', plain (ArrayOf (Some 3) (plain (Atomic (TCharacterString 0))))),
       (''eventAlgorithmInhibitRef'', plain ObjectPropertyReference),
       (''eventAlgorithmInhibit'', plain (Atomic TBoolean))]\<rparr>"

definition AnalogInputObject :: object_class where
  "AnalogInputObject =
    \<lparr>class_type = object_type ''analogInput'',
     class_required = base_required @
      [''presentValue'', ''statusFlags'', ''eventState'', ''outOfService'', ''units''],
     class_elements = base_elements @
      [(''presentValue'', plain (Atomic TReal)),
       (''deviceType'', plain (Atomic (TCharacterString 0))),
       (''statusFlags'', plain (bits StatusFlags)),
       (''eventState'', plain (enumerated EventState)),
       (''reliability'', plain (enumerated Reliability)),
       (''outOfService'', plain (Atomic TBoolean)),
       (''updateInterval'', plain (Atomic (TUnsigned None None))),
       (''units'', plain (enumerated EngineeringUnits)),
       (''minPresValue'', plain (Atomic TReal)),
       (''maxPresValue'', plain (Atomic TReal)),
       (''resolution'', plain (Atomic TReal)),
       (''covIncrement'', plain (Atomic TReal)),
       (''timeDelay'', plain (Atomic (TUnsigned None None))),
       (''notificationClass'', plain (Atomic (TUnsigned None None))),
       (''highLimit'', plain (Atomic TReal)),
       (''lowLimit'', plain (Atomic TReal)),
       (''deadband'', plain (Atomic TReal)),
       (''limitEnable'', plain (bits LimitEnable)),
       (''eventEnable'', plain (bits EventTransitionBits)),
       (''ackedTransitions'', plain (bits EventTransitionBits)),
       (''notifyType'', plain (enumerated NotifyType)),
       (''eventTimeStamps'', plain (ArrayOf (Some 3) (plain TimeStamp))),
       (''eventMessageTexts'', plain (ArrayOf (Some 3) (plain (Atomic (TCharacterString 0))))),
       (''eventMessageTextsConfig'', plain (ArrayOf (Some 3) (plain (Atomic (TCharacterString 0))))),
       (''eventDetectionEnable'', plain (Atomic TBoolean)),
       (''eventAlgorithmInhibitRef'', plain ObjectPropertyReference),
       (''eventAlgorithmInhibit'', plain (Atomic TBoolean)),
       (''timeDelayNormal'', plain (Atomic (TUnsigned None None))),
       (''reliabilityEvaluationInhibit'', plain (Atomic TBoolean)),
       (''interfaceValue'', plain OptionalReal),
       (''faultHighLimit'', plain (Atomic TReal)),
       (''faultLowLimit'', plain (Atomic TReal))]\<rparr>"

definition AnalogOutputObject :: object_class where
  "AnalogOutputObject =
    \<lparr>class_type = object_type ''analogOutput'',
     class_required = base_required @
      [''presentValue'', ''statusFlags'', ''eventState'', ''outOfService'', ''units'', ''priorityArray'',
       ''relinquishDefault'', ''currentCommandPriority''],
     class_elements = base_elements @
      [(''presentValue'', plain (Atomic TReal)),
       (''deviceType'', plain (Atomic (TCharacterString 0))),
       (''statusFlags'', plain (bits StatusFlags)),
       (''eventState'', plain (enumerated EventState)),
       (''reliability'', plain (enumerated Reliability)),
       (''outOfService'', plain (Atomic TBoolean)),
       (''units'', plain (enumerated EngineeringUnits)),
       (''minPresValue'', plain (Atomic TReal)),
       (''maxPresValue'', plain (Atomic TReal)),
       (''resolution'', plain (Atomic TReal)),
       (''priorityArray'', plain (ArrayOf (Some 16) (plain PriorityValue))),
       (''relinquishDefault'', plain (Atomic TReal)),
       (''covIncrement'', plain (Atomic TReal)),
       (''timeDelay'', plain (Atomic (TUnsigned None None))),
       (''notificationClass'', plain (Atomic (TUnsigned None None))),
       (''highLimit'', plain (Atomic TReal)),
       (''lowLimit'', plain (Atomic TReal)),
       (''deadband'', plain (Atomic TReal)),
       (''limitEnable'', plain (bits LimitEnable)),
       (''eventEnable'', plain (bits EventTransitionBits)),
       (''ackedTransitions'', plain (bits EventTransitionBits)),
       (''notifyType'', plain (enumerated NotifyType)),
       (''eventTimeStamps'', plain (ArrayOf (Some 3) (plain TimeStamp))),
       (''eventMessageTexts'', plain (ArrayOf (Some 3) (plain (Atomic (TCharacterString 0))))),
       (''eventMessageTextsConfig'', plain (ArrayOf (Some 3) (plain (Atomic (TCharacterString 0))))),
       (''eventDetectionEnable'', plain (Atomic TBoolean)),
       (''eventAlgorithmInhibitRef'', plain ObjectPropertyReference),
       (''eventAlgorithmInhibit'', plain (Atomic TBoolean)),
       (''timeDelayNormal'', plain (Atomic (TUnsigned None None))),
       (''reliabilityEvaluationInhibit'', plain (Atomic TBoolean)),
       (''interfaceValue'', plain OptionalReal),
       (''currentCommandPriority'', plain OptionalUnsigned),
       (''valueSource'', plain ValueSource),
       (''valueSourceArray'', plain (ArrayOf (Some 16) (plain ValueSource))),
       (''lastCommandTime'', plain TimeStamp),
       (''commandTimeArray'', plain (ArrayOf (Some 16) (plain TimeStamp))),
       (''auditPriorityFilter'', plain OptionalPriorityFilter)]\<rparr>"

definition AnalogValueObject :: object_class where
  "AnalogValueObject =
    \<lparr>class_type = object_type ''analogValue'',
     class_required = base_required @
      [''presentValue'', ''statusFlags'', ''eventState'', ''outOfService'', ''units''],
     class_elements = base_elements @
      [(''presentValue'', plain (Atomic TReal)),
       (''statusFlags'', plain (bits StatusFlags)),
       (''eventState'', plain (enumerated EventState)),
       (''reliability'', plain (enumerated Reliability)),
       (''outOfService'', plain (Atomic TBoolean)),
       (''units'', plain (enumerated EngineeringUnits)),
       (''minPresValue'', plain (Atomic TReal)),
       (''maxPresValue'', plain (Atomic TReal)),
       (''resolution'', plain (Atomic TReal)),
       (''priorityArray'', plain (ArrayOf (Some 16) (plain PriorityValue))),
       (''relinquishDefault'', plain (Atomic TReal)),
       (''covIncrement'', plain (Atomic TReal)),
       (''timeDelay'', plain (Atomic (TUnsigned None None))),
       (''notificationClass'', plain (Atomic (TUnsigned None None))),
       (''highLimit'', plain (Atomic TReal)),
       (''lowLimit'', plain (Atomic TReal)),
       (''deadband'', plain (Atomic TReal)),
       (''limitEnable'', plain (bits LimitEnable)),
       (''eventEnable'', plain (bits EventTransitionBits)),
       (''ackedTransitions'', plain (bits EventTransitionBits)),
       (''notifyType'', plain (enumerated NotifyType)),
       (''eventTimeStamps'', plain (ArrayOf (Some 3) (plain TimeStamp))),
       (''eventMessageTexts'', plain (ArrayOf (Some 3) (plain (Atomic (TCharacterString 0))))),
       (''eventMessageTextsConfig'', plain (ArrayOf (Some 3) (plain (Atomic (TCharacterString 0))))),
       (''eventDetectionEnable'', plain (Atomic TBoolean)),
       (''eventAlgorithmInhibitRef'', plain ObjectPropertyReference),
       (''eventAlgorithmInhibit'', plain (Atomic TBoolean)),
       (''timeDelayNormal'', plain (Atomic (TUnsigned None None))),
       (''reliabilityEvaluationInhibit'', plain (Atomic TBoolean)),
       (''faultHighLimit'', plain (Atomic TReal)),
       (''faultLowLimit'', plain (Atomic TReal)),
       (''currentCommandPriority'', plain OptionalUnsigned),
       (''valueSource'', plain ValueSource),
       (''valueSourceArray'', plain (ArrayOf (Some 16) (plain ValueSource))),
       (''lastCommandTime'', plain TimeStamp),
       (''commandTimeArray'', plain (ArrayOf (Some 16) (plain TimeStamp))),
       (''auditPriorityFilter'', plain OptionalPriorityFilter)]\<rparr>"

definition AuditLogObject :: object_class where
  "AuditLogObject =
    \<lparr>class_type = object_type ''auditLog'',
     class_required = base_required @
      [''statusFlagseventState'', ''enable'', ''bufferSize'', ''logBuffer'', ''recordCount'',
       ''totalRecordCount''],
     class_elements = base_elements @
      [(''statusFlags'', plain (bits StatusFlags)),
       (''eventState'', plain (enumerated EventState)),
       (''reliability'', plain (enumerated Reliability)),
       (''enable'', plain (Atomic TBoolean)),
       (''bufferSize'', plain (Atomic (TUnsigned None None))),
       (''logBuffer'', plain (SequenceOf (plain AuditLogRecord))),
       (''recordCount'', plain (Atomic (TUnsigned None None))),
       (''totalRecordCount'', plain (Atomic (TUnsigned None None))),
       (''memberOf'', plain DeviceObjectReference),
       (''deleteOnForward'', plain (Atomic TBoolean)),
       (''issueConfirmedNotifications'', plain (Atomic TBoolean)),
       (''eventDetectionEnable'', plain (Atomic TBoolean)),
       (''notificationClass'', plain (Atomic (TUnsigned None None))),
       (''eventEnable'', plain (bits EventTransitionBits)),
       (''ackedTransitions'', plain (bits EventTransitionBits)),
       (''notifyType'', plain (enumerated NotifyType)),
       (''eventTimeStamps'', plain (ArrayOf (Some 3) (plain TimeStamp))),
       (''eventMessageTexts'', plain (ArrayOf (Some 3) (plain (Atomic (TCharacterString 0))))),
       (''eventMessageTextsConfig'', plain (ArrayOf (Some 3) (plain (Atomic (TCharacterString 0))))),
       (''reliabilityEvaluationInhibit'', plain (Atomic TBoolean))]\<rparr>"

definition AuditReporterObject :: object_class where
  "AuditReporterObject =
    \<lparr>class_type = object_type ''auditReporter'',
     class_required = base_required @
      [''statusFlags'', ''reliability'', ''eventState'', ''auditSourceReporter'', ''auditableOperations'',
       ''auditPriorityFilter'', ''issueConfirmedNotifications''],
     class_elements = base_elements @
      [(''statusFlags'', plain (bits StatusFlags)),
       (''reliability'', plain (enumerated Reliability)),
       (''eventState'', plain (enumerated EventState)),
       (''auditSourceReporter'', plain (Atomic TBoolean)),
       (''auditPriorityFilter'', plain (bits PriorityFilter)),
       (''issueConfirmedNotifications'', plain (Atomic TBoolean)),
       (''monitoredObjects'', plain (ArrayOf None (plain ObjectSelector))),
       (''maximumSendDelay'', plain (Atomic (TUnsigned None None))),
       (''sendNow'', plain (Atomic TBoolean)),
       (''eventDetectionEnable'', plain (Atomic TBoolean)),
       (''notificationClass'', plain (Atomic (TUnsigned None None))),
       (''eventEnable'', plain (bits EventTransitionBits)),
       (''ackedTransitions'', plain (bits EventTransitionBits)),
       (''notifyType'', plain (enumerated NotifyType)),
       (''eventTimeStamps'', plain (ArrayOf (Some 3) (plain TimeStamp))),
       (''eventMessageTexts'', plain (ArrayOf (Some 3) (plain (Atomic (TCharacterString 0))))),
       (''eventMessageTextsConfig'', plain (ArrayOf (Some 3) (plain (Atomic (TCharacterString 0))))),
       (''reliabilityEvaluationInhibit'', plain (Atomic TBoolean))]\<rparr>"

definition AveragingObject :: object_class where
  "AveragingObject =
    \<lparr>class_type = object_type ''averaging'',
     class_required = base_required @
      [''minimumValue'', ''averageValue'', ''maximumValue'', ''attemptedSamples'', ''validSamples'',
       ''objectPropertyReference'', ''windowInterval'', ''windowSamples''],
     class_elements = base_elements @
      [(''minimumValue'', plain (Atomic TReal)),
       (''minimumValueTimestamp'', plain DateTime),
       (''averageValue'', plain (Atomic TReal)),
       (''varianceValue'', plain (Atomic TReal)),
       (''maximumValue'', plain (Atomic TReal)),
       (''maximumValueTimestamp'', plain DateTime),
       (''attemptedSamples'', plain (Atomic (TUnsigned None None))),
       (''validSamples'', plain (Atomic (TUnsigned None None))),
       (''objectPropertyReference'', plain DeviceObjectPropertyReference),
       (''windowInterval'', plain (Atomic (TUnsigned None None))),
       (''windowSamples'', plain (Atomic (TUnsigned None None)))]\<rparr>"

definition BinaryInputObject :: object_class where
  "BinaryInputObject =
    \<lparr>class_type = object_type ''binaryInput'',
     class_required = base_required @
      [''presentValue'', ''statusFlags'', ''eventState'', ''outOfService'', ''polarity''],
     class_elements = base_elements @
      [(''presentValue'', plain (enumerated BinaryPV)),
       (''deviceType'', plain (Atomic (TCharacterString 0))),
       (''statusFlags'', plain (bits StatusFlags)),
       (''eventState'', plain (enumerated EventState)),
       (''reliability'', plain (enumerated Reliability)),
       (''outOfService'', plain (Atomic TBoolean)),
       (''polarity'', plain (enumerated Polarity)),
       (''inactiveText'', plain (Atomic (TCharacterString 0))),
       (''activeText'', plain (Atomic (TCharacterString 0))),
       (''changeOfStateTime'', plain DateTime),
       (''changeOfStateCount'', plain (Atomic (TUnsigned None None))),
       (''timeOfStateCountReset'', plain DateTime),
       (''elapsedActiveTime'', plain (Atomic (TUnsigned None None))),
       (''timeOfActiveTimeReset'', plain DateTime),
       (''timeDelay'', plain (Atomic (TUnsigned None None))),
       (''notificationClass'', plain (Atomic (TUnsigned None None))),
       (''alarmValue'', plain (enumerated BinaryPV)),
       (''eventEnable'', plain (bits EventTransitionBits)),
       (''ackedTransitions'', plain (bits EventTransitionBits)),
       (''notifyType'', plain (enumerated NotifyType)),
       (''eventTimeStamps'', plain (ArrayOf (Some 3) (plain TimeStamp))),
       (''eventMessageTexts'', plain (ArrayOf (Some 3) (plain (Atomic (TCharacterString 0))))),
       (''eventMessageTextsConfig'', plain (ArrayOf (Some 3) (plain (Atomic (TCharacterString 0))))),
       (''eventDetectionEnable'', plain (Atomic TBoolean)),
       (''eventAlgorithmInhibitRef'', plain ObjectPropertyReference),
       (''eventAlgorithmInhibit'', plain (Atomic TBoolean)),
       (''timeDelayNormal'', plain (Atomic (TUnsigned None None))),
       (''reliabilityEvaluationInhibit'', plain (Atomic TBoolean)),
       (''interfaceValue'', plain OptionalBinaryPV)]\<rparr>"

definition BinaryLightingOutputObject :: object_class where
  "BinaryLightingOutputObject =
    \<lparr>class_type = object_type ''binaryLightingOutput'',
     class_required = base_required @
      [''presentValue'', ''statusFlags'', ''outOfService'', ''blinkWarnEnable'', ''egressTime'',
       ''egressActive'', ''priorityArray'', ''relinquishDefault'', ''lightingCommandDefaultPriority'',
       ''currentCommandPriority''],
     class_elements = base_elements @
      [(''presentValue'', plain (enumerated BinaryLightingPV)),
       (''statusFlags'', plain (bits StatusFlags)),
       (''eventState'', plain (enumerated EventState)),
       (''reliability'', plain (enumerated Reliability)),
       (''outOfService'', plain (Atomic TBoolean)),
       (''blinkWarnEnable'', plain (Atomic TBoolean)),
       (''egressTime'', plain (Atomic (TUnsigned None None))),
       (''egressActive'', plain (Atomic TBoolean)),
       (''feedbackValue'', plain (enumerated BinaryLightingPV)),
       (''priorityArray'', plain (ArrayOf (Some 16) (plain PriorityValue))),
       (''relinquishDefault'', plain (enumerated BinaryLightingPV)),
       (''power'', plain (Atomic TReal)),
       (''polarity'', plain (enumerated Polarity)),
       (''elapsedActiveTime'', plain (Atomic (TUnsigned None None))),
       (''timeOfActiveTimeReset'', plain DateTime),
       (''strikeCount'', plain (Atomic (TUnsigned None None))),
       (''timeOfStrikeCountReset'', plain DateTime),
       (''eventDetectionEnable'', plain (Atomic TBoolean)),
       (''notificationClass'', plain (Atomic (TUnsigned None None))),
       (''eventEnable'', plain (bits EventTransitionBits)),
       (''ackedTransitions'', plain (bits EventTransitionBits)),
       (''notifyType'', plain (enumerated NotifyType)),
       (''eventTimeStamps'', plain (ArrayOf (Some 3) (plain TimeStamp))),
       (''eventMessageTexts'', plain (ArrayOf (Some 3) (plain (Atomic (TCharacterString 0))))),
       (''eventMessageTextsConfig'', plain (ArrayOf (Some 3) (plain (Atomic (TCharacterString 0))))),
       (''reliabilityEvaluationInhibit'', plain (Atomic TBoolean)),
       (''currentCommandPriority'', plain OptionalUnsigned),
       (''valueSource'', plain ValueSource),
       (''valueSourceArray'', plain (ArrayOf (Some 16) (plain ValueSource))),
       (''lastCommandTime'', plain TimeStamp),
       (''commandTimeArray'', plain (ArrayOf (Some 16) (plain TimeStamp))),
       (''auditPriorityFilter'', plain OptionalPriorityFilter)]\<rparr>"

definition BinaryOutputObject :: object_class where
  "BinaryOutputObject =
    \<lparr>class_type = object_type ''binaryOutput'',
     class_required = base_required @
      [''presentValue'', ''statusFlags'', ''eventState'', ''outOfService'', ''polarity'', ''priorityArray'',
       ''relinquishDefault'', ''currentCommandPriority''],
     class_elements = base_elements @
      [(''presentValue'', plain (enumerated BinaryPV)),
       (''deviceType'', plain (Atomic (TCharacterString 0))),
       (''statusFlags'', plain (bits StatusFlags)),
       (''eventState'', plain (enumerated EventState)),
       (''reliability'', plain (enumerated Reliability)),
       (''outOfService'', plain (Atomic TBoolean)),
       (''polarity'', plain (enumerated Polarity)),
       (''inactiveText'', plain (Atomic (TCharacterString 0))),
       (''activeText'', plain (Atomic (TCharacterString 0))),
       (''changeOfStateTime'', plain DateTime),
       (''changeOfStateCount'', plain (Atomic (TUnsigned None None))),
       (''timeOfStateCountReset'', plain DateTime),
       (''elapsedActiveTime'', plain (Atomic (TUnsigned None None))),
       (''timeOfActiveTimeReset'', plain DateTime),
       (''minimumOffTime'', plain (Atomic (TUnsigned None None))),
       (''minimumOnTime'', plain (Atomic (TUnsigned None None))),
       (''priorityArray'', plain (ArrayOf (Some 16) (plain PriorityValue))),
       (''relinquishDefault'', plain (enumerated BinaryPV)),
       (''timeDelay'', plain (Atomic (TUnsigned None None))),
       (''notificationClass'', plain (Atomic (TUnsigned None None))),
       (''feedbackValue'', plain (enumerated BinaryPV)),
       (''eventEnable'', plain (bits EventTransitionBits)),
       (''ackedTransitions'', plain (bits EventTransitionBits)),
       (''notifyType'', plain (enumerated NotifyType)),
       (''eventTimeStamps'', plain (ArrayOf (Some 3) (plain TimeStamp))),
       (''eventMessageTexts'', plain (ArrayOf (Some 3) (plain (Atomic (TCharacterString 0))))),
       (''eventMessageTextsConfig'', plain (ArrayOf (Some 3) (plain (Atomic (TCharacterString 0))))),
       (''eventDetectionEnable'', plain (Atomic TBoolean)),
       (''eventAlgorithmInhibitRef'', plain ObjectPropertyReference),
       (''eventAlgorithmInhibit'', plain (Atomic TBoolean)),
       (''timeDelayNormal'', plain (Atomic (TUnsigned None None))),
       (''reliabilityEvaluationInhibit'', plain (Atomic TBoolean)),
       (''interfaceValue'', plain OptionalBinaryPV),
       (''currentCommandPriority'', plain OptionalUnsigned),
       (''valueSource'', plain ValueSource),
       (''valueSourceArray'', plain (ArrayOf (Some 16) (plain ValueSource))),
       (''lastCommandTime'', plain TimeStamp),
       (''commandTimeArray'', plain (ArrayOf (Some 16) (plain TimeStamp))),
       (''auditPriorityFilter'', plain OptionalPriorityFilter)]\<rparr>"

definition BinaryValueObject :: object_class where
  "BinaryValueObject =
    \<lparr>class_type = object_type ''binaryValue'',
     class_required = base_required @
      [''presentValue'', ''statusFlags'', ''eventState'', ''outOfService''],
     class_elements = base_elements @
      [(''presentValue'', plain (enumerated BinaryPV)),
       (''statusFlags'', plain (bits StatusFlags)),
       (''eventState'', plain (enumerated EventState)),
       (''reliability'', plain (enumerated Reliability)),
       (''outOfService'', plain (Atomic TBoolean)),
       (''inactiveText'', plain (Atomic (TCharacterString 0))),
       (''activeText'', plain (Atomic (TCharacterString 0))),
       (''changeOfStateTime'', plain DateTime),
       (''changeOfStateCount'', plain (Atomic (TUnsigned None None))),
       (''timeOfStateCountReset'', plain DateTime),
       (''elapsedActiveTime'', plain (Atomic (TUnsigned None None))),
       (''timeOfActiveTimeReset'', plain DateTime),
       (''minimumOffTime'', plain (Atomic (TUnsigned None None))),
       (''minimumOnTime'', plain (Atomic (TUnsigned None None))),
       (''priorityArray'', plain (ArrayOf (Some 16) (plain PriorityValue))),
       (''relinquishDefault'', plain (enumerated BinaryPV)),
       (''timeDelay'', plain (Atomic (TUnsigned None None))),
       (''notificationClass'', plain (Atomic (TUnsigned None None))),
       (''alarmValue'', plain (enumerated BinaryPV)),
       (''eventEnable'', plain (bits EventTransitionBits)),
       (''ackedTransitions'', plain (bits EventTransitionBits)),
       (''notifyType'', plain (enumerated NotifyType)),
       (''eventTimeStamps'', plain (ArrayOf (Some 3) (plain TimeStamp))),
       (''eventMessageTexts'', plain (ArrayOf (Some 3) (plain (Atomic (TCharacterString 0))))),
       (''eventMessageTextsConfig'', plain (ArrayOf (Some 3) (plain (Atomic (TCharacterString 0))))),
       (''eventDetectionEnable'', plain (Atomic TBoolean)),
       (''eventAlgorithmInhibitRef'', plain ObjectPropertyReference),
       (''eventAlgorithmInhibit'', plain (Atomic TBoolean)),
       (''timeDelayNormal'', plain (Atomic (TUnsigned None None))),
       (''reliabilityEvaluationInhibit'', plain (Atomic TBoolean)),
       (''currentCommandPriority'', plain OptionalUnsigned),
       (''valueSource'', plain ValueSource),
       (''valueSourceArray'', plain (ArrayOf (Some 16) (plain ValueSource))),
       (''lastCommandTime'', plain TimeStamp),
       (''commandTimeArray'', plain (ArrayOf (Some 16) (plain TimeStamp))),
       (''auditPriorityFilter'', plain OptionalPriorityFilter)]\<rparr>"

definition BitStringValueObject :: object_class where
  "BitStringValueObject =
    \<lparr>class_type = object_type ''bitstringValue'',
     class_required = base_required @
      [''presentValue'', ''statusFlags''],
     class_elements = base_elements @
      [(''presentValue'', plain (bits [])),
       (''bitText'', plain (ArrayOf None (plain (Atomic (TCharacterString 0))))),
       (''statusFlags'', plain (bits StatusFlags)),
       (''eventState'', plain (enumerated EventState)),
       (''reliability'', plain (enumerated Reliability)),
       (''outOfService'', plain (Atomic TBoolean)),
       (''priorityArray'', plain (ArrayOf (Some 16) (plain PriorityValue))),
       (''relinquishDefault'', plain (bits [])),
       (''timeDelay'', plain (Atomic (TUnsigned None None))),
       (''notificationClass'', plain (Atomic (TUnsigned None None))),
       (''alarmValues'', plain (ArrayOf None (plain (bits [])))),
       (''bitMask'', plain (bits [])),
       (''eventEnable'', plain (bits EventTransitionBits)),
       (''ackedTransitions'', plain (bits EventTransitionBits)),
       (''notifyType'', plain (enumerated NotifyType)),
       (''eventTimeStamps'', plain (ArrayOf (Some 3) (plain TimeStamp))),
       (''eventMessageTexts'', plain (ArrayOf (Some 3) (plain (Atomic (TCharacterString 0))))),
       (''eventMessageTextsConfig'', plain (ArrayOf (Some 3) (plain (Atomic (TCharacterString 0))))),
       (''eventDetectionEnable'', plain (Atomic TBoolean)),
       (''eventAlgorithmInhibitRef'', plain ObjectPropertyReference),
       (''eventAlgorithmInhibit'', plain (Atomic TBoolean)),
       (''timeDelayNormal'', plain (Atomic (TUnsigned None None))),
       (''reliabilityEvaluationInhibit'', plain (Atomic TBoolean)),
       (''currentCommandPriority'', plain OptionalUnsigned),
       (''valueSource'', plain ValueSource),
       (''valueSourceArray'', plain (ArrayOf (Some 16) (plain ValueSource))),
       (''lastCommandTime'', plain TimeStamp),
       (''commandTimeArray'', plain (ArrayOf (Some 16) (plain TimeStamp))),
       (''auditPriorityFilter'', plain OptionalPriorityFilter)]\<rparr>"

definition CalendarObject :: object_class where
  "CalendarObject =
    \<lparr>class_type = object_type ''calendar'',
     class_required = base_required @
      [''presentValue'', ''dateList''],
     class_elements = base_elements @
      [(''presentValue'', plain (Atomic TBoolean)),
       (''dateList'', plain (SequenceOf (plain CalendarEntry)))]\<rparr>"

definition ChannelObject :: object_class where
  "ChannelObject =
    \<lparr>class_type = object_type ''channel'',
     class_required = base_required @
      [''presentValue'', ''lastPriority'', ''writeStatus'', ''statusFlags'', ''outOfService'',
       ''listOfObjectPropertyReferences'', ''channelNumber'', ''controlGroups''],
     class_elements = base_elements @
      [(''presentValue'', plain ChannelValue),
       (''lastPriority'', plain (Atomic (TUnsigned None None))),
       (''writeStatus'', plain (enumerated WriteStatus)),
       (''statusFlags'', plain (bits StatusFlags)),
       (''reliability'', plain (enumerated Reliability)),
       (''outOfService'', plain (Atomic TBoolean)),
       (''listOfObjectPropertyReferences'', plain (ArrayOf None (plain DeviceObjectPropertyReference))),
       (''executionDelay'', plain (ArrayOf None (plain (Atomic (TUnsigned None None))))),
       (''allowGroupDelayInhibit'', plain (Atomic TBoolean)),
       (''channelNumber'', plain (Atomic (TUnsigned None None))),
       (''controlGroups'', plain (ArrayOf None (plain (Atomic (TUnsigned None None))))),
       (''eventDetectionEnable'', plain (Atomic TBoolean)),
       (''notificationClass'', plain (Atomic (TUnsigned None None))),
       (''eventEnable'', plain (bits EventTransitionBits)),
       (''eventState'', plain (enumerated EventState)),
       (''ackedTransitions'', plain (bits EventTransitionBits)),
       (''notifyType'', plain (enumerated NotifyType)),
       (''eventTimeStamps'', plain (ArrayOf (Some 3) (plain TimeStamp))),
       (''eventMessageTexts'', plain (ArrayOf (Some 3) (plain (Atomic (TCharacterString 0))))),
       (''eventMessageTextsConfig'', plain (ArrayOf (Some 3) (plain (Atomic (TCharacterString 0))))),
       (''reliabilityEvaluationInhibit'', plain (Atomic TBoolean)),
       (''valueSource'', plain ValueSource),
       (''auditPriorityFilter'', plain OptionalPriorityFilter)]\<rparr>"

definition CharacterStringValueObject :: object_class where
  "CharacterStringValueObject =
    \<lparr>class_type = object_type ''characterstringValue'',
     class_required = base_required @
      [''presentValue'', ''statusFlags''],
     class_elements = base_elements @
      [(''presentValue'', plain (Atomic (TCharacterString 0))),
       (''statusFlags'', plain (bits StatusFlags)),
       (''eventState'', plain (enumerated EventState)),
       (''reliability'', plain (enumerated Reliability)),
       (''outOfService'', plain (Atomic TBoolean)),
       (''priorityArray'', plain (ArrayOf (Some 16) (plain PriorityValue))),
       (''relinquishDefault'', plain (Atomic (TCharacterString 0))),
       (''timeDelay'', plain (Atomic (TUnsigned None None))),
       (''notificationClass'', plain (Atomic (TUnsigned None None))),
       (''alarmValues'', plain (ArrayOf None (plain OptionalCharacterString))),
       (''faultValues'', plain (ArrayOf None (plain OptionalCharacterString))),
       (''eventEnable'', plain (bits EventTransitionBits)),
       (''ackedTransitions'', plain (bits EventTransitionBits)),
       (''notifyType'', plain (enumerated NotifyType)),
       (''eventTimeStamps'', plain (ArrayOf (Some 3) (plain TimeStamp))),
       (''eventMessageTexts'', plain (ArrayOf (Some 3) (plain (Atomic (TCharacterString 0))))),
       (''eventMessageTextsConfig'', plain (ArrayOf (Some 3) (plain (Atomic (TCharacterString 0))))),
       (''eventDetectionEnable'', plain (Atomic TBoolean)),
       (''eventAlgorithmInhibitRef'', plain ObjectPropertyReference),
       (''eventAlgorithmInhibit'', plain (Atomic TBoolean)),
       (''timeDelayNormal'', plain (Atomic (TUnsigned None None))),
       (''reliabilityEvaluationInhibit'', plain (Atomic TBoolean)),
       (''currentCommandPriority'', plain OptionalUnsigned),
       (''valueSource'', plain ValueSource),
       (''valueSourceArray'', plain (ArrayOf (Some 16) (plain ValueSource))),
       (''lastCommandTime'', plain TimeStamp),
       (''commandTimeArray'', plain (ArrayOf (Some 16) (plain TimeStamp))),
       (''auditPriorityFilter'', plain OptionalPriorityFilter)]\<rparr>"

definition CommandObject :: object_class where
  "CommandObject =
    \<lparr>class_type = object_type ''command'',
     class_required = base_required @
      [''presentValue'', ''inProcess'', ''allWritesSuccessful'', ''action''],
     class_elements = base_elements @
      [(''presentValue'', plain (Atomic (TUnsigned None None))),
       (''inProcess'', plain (Atomic TBoolean)),
       (''allWritesSuccessful'', plain (Atomic TBoolean)),
       (''action'', plain (ArrayOf None (plain ActionList))),
       (''actionText'', plain (ArrayOf None (plain (Atomic (TCharacterString 0))))),
       (''statusFlags'', plain (bits StatusFlags)),
       (''eventState'', plain (enumerated EventState)),
       (''reliability'', plain (enumerated Reliability)),
       (''eventDetectionEnable'', plain (Atomic TBoolean)),
       (''notificationClass'', plain (Atomic (TUnsigned None None))),
       (''eventEnable'', plain (bits EventTransitionBits)),
       (''ackedTransitions'', plain (bits EventTransitionBits)),
       (''notifyType'', plain (enumerated NotifyType)),
       (''eventTimeStamps'', plain (ArrayOf (Some 3) (plain TimeStamp))),
       (''eventMessageTexts'', plain (ArrayOf (Some 3) (plain (Atomic (TCharacterString 0))))),
       (''eventMessageTextsConfig'', plain (ArrayOf (Some 3) (plain (Atomic (TCharacterString 0))))),
       (''reliabilityEvaluationInhibit'', plain (Atomic TBoolean)),
       (''valueSource'', plain ValueSource)]\<rparr>"

definition CredentialDataInputObject :: object_class where
  "CredentialDataInputObject =
    \<lparr>class_type = object_type ''credentialDataInput'',
     class_required = base_required @
      [''presentValue'', ''statusFlags'', ''reliability'', ''outOfService'', ''supportedFormats'',
       ''updateTime''],
     class_elements = base_elements @
      [(''presentValue'', plain AuthenticationFactor),
       (''statusFlags'', plain (bits StatusFlags)),
       (''reliability'', plain (enumerated Reliability)),
       (''outOfService'', plain (Atomic TBoolean)),
       (''supportedFormats'', plain (ArrayOf None (plain AuthenticationFactorFormat))),
       (''supportedFormatClasses'', plain (ArrayOf None (plain (Atomic (TUnsigned None None))))),
       (''updateTime'', plain TimeStamp),
       (''eventDetectionEnable'', plain (Atomic TBoolean)),
       (''notificationClass'', plain (Atomic (TUnsigned None None))),
       (''eventEnable'', plain (bits EventTransitionBits)),
       (''eventState'', plain (enumerated EventState)),
       (''ackedTransitions'', plain (bits EventTransitionBits)),
       (''notifyType'', plain (enumerated NotifyType)),
       (''eventTimeStamps'', plain (ArrayOf (Some 3) (plain TimeStamp))),
       (''eventMessageTexts'', plain (ArrayOf (Some 3) (plain (Atomic (TCharacterString 0))))),
       (''eventMessageTextsConfig'', plain (ArrayOf (Some 3) (plain (Atomic (TCharacterString 0))))),
       (''reliabilityEvaluationInhibit'', plain (Atomic TBoolean))]\<rparr>"

definition DatePatternValueObject :: object_class where
  "DatePatternValueObject =
    \<lparr>class_type = object_type ''datePatternValue'',
     class_required = base_required @
      [''presentValue'', ''statusFlags''],
     class_elements = base_elements @
      [(''presentValue'', plain (Atomic TDate)),
       (''statusFlags'', plain (bits StatusFlags)),
       (''eventState'', plain (enumerated EventState)),
       (''reliability'', plain (enumerated Reliability)),
       (''outOfService'', plain (Atomic TBoolean)),
       (''priorityArray'', plain (ArrayOf (Some 16) (plain PriorityValue))),
       (''relinquishDefault'', plain (Atomic TDate)),
       (''reliabilityEvaluationInhibit'', plain (Atomic TBoolean)),
       (''eventDetectionEnable'', plain (Atomic TBoolean)),
       (''notificationClass'', plain (Atomic (TUnsigned None None))),
       (''eventEnable'', plain (bits EventTransitionBits)),
       (''ackedTransitions'', plain (bits EventTransitionBits)),
       (''notifyType'', plain (enumerated NotifyType)),
       (''eventTimeStamps'', plain (ArrayOf (Some 3) (plain TimeStamp))),
       (''eventMessageTexts'', plain (ArrayOf (Some 3) (plain (Atomic (TCharacterString 0))))),
       (''eventMessageTextsConfig'', plain (ArrayOf (Some 3) (plain (Atomic (TCharacterString 0))))),
       (''currentCommandPriority'', plain OptionalUnsigned),
       (''valueSource'', plain ValueSource),
       (''valueSourceArray'', plain (ArrayOf (Some 16) (plain ValueSource))),
       (''lastCommandTime'', plain TimeStamp),
       (''commandTimeArray'', plain (ArrayOf (Some 16) (plain TimeStamp))),
       (''auditPriorityFilter'', plain OptionalPriorityFilter)]\<rparr>"

definition DateTimePatternValueObject :: object_class where
  "DateTimePatternValueObject =
    \<lparr>class_type = object_type ''datetimePatternValue'',
     class_required = base_required @
      [''presentValue'', ''statusFlags''],
     class_elements = base_elements @
      [(''presentValue'', plain DateTime),
       (''statusFlags'', plain (bits StatusFlags)),
       (''eventState'', plain (enumerated EventState)),
       (''reliability'', plain (enumerated Reliability)),
       (''outOfService'', plain (Atomic TBoolean)),
       (''isUTC'', plain (Atomic TBoolean)),
       (''priorityArray'', plain (ArrayOf (Some 16) (plain PriorityValue))),
       (''relinquishDefault'', plain DateTime),
       (''reliabilityEvaluationInhibit'', plain (Atomic TBoolean)),
       (''eventDetectionEnable'', plain (Atomic TBoolean)),
       (''notificationClass'', plain (Atomic (TUnsigned None None))),
       (''eventEnable'', plain (bits EventTransitionBits)),
       (''ackedTransitions'', plain (bits EventTransitionBits)),
       (''notifyType'', plain (enumerated NotifyType)),
       (''eventTimeStamps'', plain (ArrayOf (Some 3) (plain TimeStamp))),
       (''eventMessageTexts'', plain (ArrayOf (Some 3) (plain (Atomic (TCharacterString 0))))),
       (''eventMessageTextsConfig'', plain (ArrayOf (Some 3) (plain (Atomic (TCharacterString 0))))),
       (''currentCommandPriority'', plain OptionalUnsigned),
       (''valueSource'', plain ValueSource),
       (''valueSourceArray'', plain (ArrayOf (Some 16) (plain ValueSource))),
       (''lastCommandTime'', plain TimeStamp),
       (''commandTimeArray'', plain (ArrayOf (Some 16) (plain TimeStamp))),
       (''auditPriorityFilter'', plain OptionalPriorityFilter)]\<rparr>"

definition DateTimeValueObject :: object_class where
  "DateTimeValueObject =
    \<lparr>class_type = object_type ''datetimeValue'',
     class_required = base_required @
      [''presentValue'', ''statusFlags''],
     class_elements = base_elements @
      [(''presentValue'', plain DateTime),
       (''statusFlags'', plain (bits StatusFlags)),
       (''eventState'', plain (enumerated EventState)),
       (''reliability'', plain (enumerated Reliability)),
       (''outOfService'', plain (Atomic TBoolean)),
       (''priorityArray'', plain (ArrayOf (Some 16) (plain PriorityValue))),
       (''relinquishDefault'', plain DateTime),
       (''isUTC'', plain (Atomic TBoolean)),
       (''reliabilityEvaluationInhibit'', plain (Atomic TBoolean)),
       (''eventDetectionEnable'', plain (Atomic TBoolean)),
       (''notificationClass'', plain (Atomic (TUnsigned None None))),
       (''eventEnable'', plain (bits EventTransitionBits)),
       (''ackedTransitions'', plain (bits EventTransitionBits)),
       (''notifyType'', plain (enumerated NotifyType)),
       (''eventTimeStamps'', plain (ArrayOf (Some 3) (plain TimeStamp))),
       (''eventMessageTexts'', plain (ArrayOf (Some 3) (plain (Atomic (TCharacterString 0))))),
       (''eventMessageTextsConfig'', plain (ArrayOf (Some 3) (plain (Atomic (TCharacterString 0))))),
       (''currentCommandPriority'', plain OptionalUnsigned),
       (''valueSource'', plain ValueSource),
       (''valueSourceArray'', plain (ArrayOf (Some 16) (plain ValueSource))),
       (''lastCommandTime'', plain TimeStamp),
       (''commandTimeArray'', plain (ArrayOf (Some 16) (plain TimeStamp))),
       (''auditPriorityFilter'', plain OptionalPriorityFilter)]\<rparr>"

definition DateValueObject :: object_class where
  "DateValueObject =
    \<lparr>class_type = object_type ''dateValue'',
     class_required = base_required @
      [''presentValue'', ''statusFlags''],
     class_elements = base_elements @
      [(''presentValue'', plain (Atomic TDate)),
       (''statusFlags'', plain (bits StatusFlags)),
       (''eventState'', plain (enumerated EventState)),
       (''reliability'', plain (enumerated Reliability)),
       (''outOfService'', plain (Atomic TBoolean)),
       (''priorityArray'', plain (ArrayOf (Some 16) (plain PriorityValue))),
       (''relinquishDefault'', plain (Atomic TDate)),
       (''reliabilityEvaluationInhibit'', plain (Atomic TBoolean)),
       (''eventDetectionEnable'', plain (Atomic TBoolean)),
       (''notificationClass'', plain (Atomic (TUnsigned None None))),
       (''eventEnable'', plain (bits EventTransitionBits)),
       (''ackedTransitions'', plain (bits EventTransitionBits)),
       (''notifyType'', plain (enumerated NotifyType)),
       (''eventTimeStamps'', plain (ArrayOf (Some 3) (plain TimeStamp))),
       (''eventMessageTexts'', plain (ArrayOf (Some 3) (plain (Atomic (TCharacterString 0))))),
       (''eventMessageTextsConfig'', plain (ArrayOf (Some 3) (plain (Atomic (TCharacterString 0))))),
       (''currentCommandPriority'', plain OptionalUnsigned),
       (''valueSource'', plain ValueSource),
       (''valueSourceArray'', plain (ArrayOf (Some 16) (plain ValueSource))),
       (''lastCommandTime'', plain TimeStamp),
       (''commandTimeArray'', plain (ArrayOf (Some 16) (plain TimeStamp))),
       (''auditPriorityFilter'', plain OptionalPriorityFilter)]\<rparr>"

definition DeviceObject :: object_class where
  "DeviceObject =
    \<lparr>class_type = object_type ''device'',
     class_required = base_required @
      [''systemStatus'', ''vendorName'', ''vendorIdentifier'', ''modelName'', ''firmwareRevision'',
       ''applicationSoftwareVersion'', ''protocolVersion'', ''protocolRevision'',
       ''protocolServicesSupported'', ''protocolObjectTypesSupported'', ''objectList'',
       ''maxApduLengthAccepted'', ''segmentationSupported'', ''apduTimeout'', ''numberOfApduRetries'',
       ''deviceAddressBinding'', ''databaseRevision''],
     class_elements = base_elements @
      [(''systemStatus'', plain (enumerated DeviceStatus)),
       (''vendorName'', plain (Atomic (TCharacterString 0))),
       (''vendorIdentifier'', plain (Atomic (TUnsigned None None))),
       (''modelName'', plain (Atomic (TCharacterString 0))),
       (''firmwareRevision'', plain (Atomic (TCharacterString 0))),
       (''applicationSoftwareVersion'', plain (Atomic (TCharacterString 0))),
       (''location'', plain (Atomic (TCharacterString 0))),
       (''protocolVersion'', plain (Atomic (TUnsigned None None))),
       (''protocolRevision'', plain (Atomic (TUnsigned None None))),
       (''protocolServicesSupported'', plain (bits ServicesSupported)),
       (''protocolObjectTypesSupported'', plain (bits ObjectTypesSupported)),
       (''objectList'', plain (ArrayOf None (plain (Atomic TObjectIdentifier)))),
       (''structuredObjectList'', plain (ArrayOf None (plain (Atomic TObjectIdentifier)))),
       (''maxApduLengthAccepted'', plain (Atomic (TUnsigned None None))),
       (''segmentationSupported'', plain (enumerated Segmentation)),
       (''maxSegmentsAccepted'', plain (Atomic (TUnsigned None None))),
       (''vtClassesSupported'', plain (SequenceOf (plain (enumerated VTClass)))),
       (''activeVtSessions'', plain (SequenceOf (plain VTSession))),
       (''localTime'', plain (Atomic TTime)),
       (''localDate'', plain (Atomic TDate)),
       (''utcOffset'', plain (Atomic (TInteger None None))),
       (''daylightSavingsStatus'', plain (Atomic TBoolean)),
       (''apduSegmentTimeout'', plain (Atomic (TUnsigned None None))),
       (''apduTimeout'', plain (Atomic (TUnsigned None None))),
       (''numberOfApduRetries'', plain (Atomic (TUnsigned None None))),
       (''listOfSessionKeys'', plain (SequenceOf (plain SessionKey))),
       (''timeSynchronizationRecipients'', plain (SequenceOf (plain Recipient))),
       (''maxMaster'', plain (Atomic (TUnsigned None None))),
       (''maxInfoFrames'', plain (Atomic (TUnsigned None None))),
       (''deviceAddressBinding'', plain (SequenceOf (plain AddressBinding))),
       (''databaseRevision'', plain (Atomic (TUnsigned None None))),
       (''configurationFiles'', plain (ArrayOf None (plain (Atomic TObjectIdentifier)))),
       (''lastRestoreTime'', plain TimeStamp),
       (''backupFailureTimeout'', plain (Atomic (TUnsigned None None))),
       (''activeCovSubscriptions'', plain (SequenceOf (plain COVSubscription))),
       (''lastRestartReason'', plain (enumerated RestartReason)),
       (''timeOfDeviceRestart'', plain TimeStamp),
       (''restartNotificationRecipients'', plain (SequenceOf (plain Recipient))),
       (''utcTimeSynchronizationRecipients'', plain (SequenceOf (plain Recipient))),
       (''timeSynchronizationInterval'', plain (Atomic (TUnsigned None None))),
       (''alignIntervals'', plain (Atomic TBoolean)),
       (''intervalOffset'', plain (Atomic (TUnsigned None None))),
       (''backupPreparationTime'', plain (Atomic (TUnsigned None None))),
       (''restorePreparationTime'', plain (Atomic (TUnsigned None None))),
       (''restoreCompletionTime'', plain (Atomic (TUnsigned None None))),
       (''backupAndRestoreState'', plain (enumerated BackupState)),
       (''serialNumber'', plain (Atomic (TCharacterString 0))),
       (''statusFlags'', plain (bits StatusFlags)),
       (''eventState'', plain (enumerated EventState)),
       (''reliability'', plain (enumerated Reliability)),
       (''eventDetectionEnable'', plain (Atomic TBoolean)),
       (''notificationClass'', plain (Atomic (TUnsigned None None))),
       (''eventEnable'', plain (bits EventTransitionBits)),
       (''ackedTransitions'', plain (bits EventTransitionBits)),
       (''notifyType'', plain (enumerated NotifyType)),
       (''eventTimeStamps'', plain (ArrayOf (Some 3) (plain TimeStamp))),
       (''eventMessageTexts'', plain (ArrayOf (Some 3) (plain (Atomic (TCharacterString 0))))),
       (''eventMessageTextsConfig'', plain (ArrayOf (Some 3) (plain (Atomic (TCharacterString 0))))),
       (''reliabilityEvaluationInhibit'', plain (Atomic TBoolean)),
       (''activeCovMultipleSubscriptions'', plain (SequenceOf (plain COVMultipleSubscription))),
       (''auditNotificationRecipient'', plain Recipient),
       (''deviceUUID'', plain (Atomic (TOctetString None None)))]\<rparr>"

definition ElevatorGroupObject :: object_class where
  "ElevatorGroupObject =
    \<lparr>class_type = object_type ''elevatorGroup'',
     class_required = base_required @
      [''machineRoomID'', ''groupID'', ''groupMembers''],
     class_elements = base_elements @
      [(''machineRoomID'', plain (Atomic TObjectIdentifier)),
       (''groupID'', plain (Atomic (TUnsigned None (Some 255)))),
       (''groupMembers'', plain (ArrayOf None (plain (Atomic TObjectIdentifier)))),
       (''groupMode'', plain (enumerated LiftGroupMode)),
       (''landingCalls'', plain (SequenceOf (plain LandingCallStatus))),
       (''landingCallControl'', plain LandingCallStatus)]\<rparr>"

definition EscalatorObject :: object_class where
  "EscalatorObject =
    \<lparr>class_type = object_type ''escalator'',
     class_required = base_required @
      [''statusFlags'', ''elevatorGroup'', ''groupID'', ''installationID'', ''operationDirection'',
       ''outOfService'', ''passengerAlarm''],
     class_elements = base_elements @
      [(''statusFlags'', plain (bits StatusFlags)),
       (''elevatorGroup'', plain (Atomic TObjectIdentifier)),
       (''groupID'', plain (Atomic (TUnsigned None (Some 255)))),
       (''installationID'', plain (Atomic (TUnsigned None (Some 255)))),
       (''powerMode'', plain (Atomic TBoolean)),
       (''operationDirection'', plain (enumerated EscalatorOperationDirection)),
       (''escalatorMode'', plain (enumerated EscalatorMode)),
       (''energyMeter'', plain (Atomic TReal)),
       (''energyMeterRef'', plain DeviceObjectReference),
       (''reliability'', plain (enumerated Reliability)),
       (''outOfService'', plain (Atomic TBoolean)),
       (''faultSignals'', plain (SequenceOf (plain (enumerated EscalatorFault)))),
       (''passengerAlarm'', plain (Atomic TBoolean)),
       (''timeDelay'', plain (Atomic (TUnsigned None None))),
       (''timeDelayNormal'', plain (Atomic (TUnsigned None None))),
       (''eventDetectionEnable'', plain (Atomic TBoolean)),
       (''notificationClass'', plain (Atomic (TUnsigned None None))),
       (''eventEnable'', plain (bits EventTransitionBits)),
       (''eventState'', plain (enumerated EventState)),
       (''ackedTransitions'', plain (bits EventTransitionBits)),
       (''notifyType'', plain (enumerated NotifyType)),
       (''eventTimeStamps'', plain (ArrayOf (Some 3) (plain TimeStamp))),
       (''eventMessageTexts'', plain (ArrayOf (Some 3) (plain (Atomic (TCharacterString 0))))),
       (''eventMessageTextsConfig'', plain (ArrayOf (Some 3) (plain (Atomic (TCharacterString 0))))),
       (''eventAlgorithmInhibit'', plain (Atomic TBoolean)),
       (''eventAlgorithmInhibitRef'', plain ObjectPropertyReference),
       (''reliabilityEvaluationInhibit'', plain (Atomic TBoolean))]\<rparr>"

definition EventEnrollmentObject :: object_class where
  "EventEnrollmentObject =
    \<lparr>class_type = object_type ''eventEnrollment'',
     class_required = base_required @
      [''eventType'', ''notifyType'', ''eventParameters'', ''objectPropertyReference'', ''eventState'',
       ''eventEnable'', ''ackedTransitions'', ''notificationClass'', ''eventTimeStamps'',
       ''eventDetectionEnable'', ''statusFlags'', ''reliability''],
     class_elements = base_elements @
      [(''eventType'', plain (enumerated EventType)),
       (''notifyType'', plain (enumerated NotifyType)),
       (''eventParameters'', plain EventParameter),
       (''objectPropertyReference'', plain DeviceObjectPropertyReference),
       (''eventState'', plain (enumerated EventState)),
       (''eventEnable'', plain (bits EventTransitionBits)),
       (''ackedTransitions'', plain (bits EventTransitionBits)),
       (''notificationClass'', plain (Atomic (TUnsigned None None))),
       (''eventTimeStamps'', plain (ArrayOf (Some 3) (plain TimeStamp))),
       (''eventMessageTexts'', plain (ArrayOf (Some 3) (plain (Atomic (TCharacterString 0))))),
       (''eventMessageTextsConfig'', plain (ArrayOf (Some 3) (plain (Atomic (TCharacterString 0))))),
       (''eventDetectionEnable'', plain (Atomic TBoolean)),
       (''eventAlgorithmInhibitRef'', plain ObjectPropertyReference),
       (''eventAlgorithmInhibit'', plain (Atomic TBoolean)),
       (''timeDelayNormal'', plain (Atomic (TUnsigned None None))),
       (''statusFlags'', plain (bits StatusFlags)),
       (''reliability'', plain (enumerated Reliability)),
       (''faultType'', plain (enumerated FaultType)),
       (''faultParameters'', plain FaultParameter),
       (''reliabilityEvaluationInhibit'', plain (Atomic TBoolean))]\<rparr>"

definition EventLogObject :: object_class where
  "EventLogObject =
    \<lparr>class_type = object_type ''eventLog'',
     class_required = base_required @
      [''statusFlags'', ''eventState'', ''enable'', ''stopWhenFull'', ''bufferSize'', ''logBuffer'',
       ''recordCount'', ''totalRecordCount''],
     class_elements = base_elements @
      [(''statusFlags'', plain (bits StatusFlags)),
       (''eventState'', plain (enumerated EventState)),
       (''reliability'', plain (enumerated Reliability)),
       (''enable'', plain (Atomic TBoolean)),
       (''startTime'', plain DateTime),
       (''stopTime'', plain DateTime),
       (''stopWhenFull'', plain (Atomic TBoolean)),
       (''bufferSize'', plain (Atomic (TUnsigned None None))),
       (''logBuffer'', plain (SequenceOf (plain EventLogRecord))),
       (''recordCount'', plain (Atomic (TUnsigned None None))),
       (''totalRecordCount'', plain (Atomic (TUnsigned None None))),
       (''notificationThreshold'', plain (Atomic (TUnsigned None None))),
       (''recordsSinceNotification'', plain (Atomic (TUnsigned None None))),
       (''lastNotifyRecord'', plain (Atomic (TUnsigned None None))),
       (''notificationClass'', plain (Atomic (TUnsigned None None))),
       (''eventEnable'', plain (bits EventTransitionBits)),
       (''ackedTransitions'', plain (bits EventTransitionBits)),
       (''notifyType'', plain (enumerated NotifyType)),
       (''eventTimeStamps'', plain (ArrayOf (Some 3) (plain TimeStamp))),
       (''eventMessageTexts'', plain (ArrayOf (Some 3) (plain (Atomic (TCharacterString 0))))),
       (''eventMessageTextsConfig'', plain (ArrayOf (Some 3) (plain (Atomic (TCharacterString 0))))),
       (''eventDetectionEnable'', plain (Atomic TBoolean)),
       (''eventAlgorithmInhibitRef'', plain ObjectPropertyReference),
       (''eventAlgorithmInhibit'', plain (Atomic TBoolean)),
       (''reliabilityEvaluationInhibit'', plain (Atomic TBoolean))]\<rparr>"

definition FileObject :: object_class where
  "FileObject =
    \<lparr>class_type = object_type ''file'',
     class_required = base_required @
      [''fileType'', ''fileSize'', ''modificationDate'', ''archive'', ''readOnly'', ''fileAccessMethod''],
     class_elements = base_elements @
      [(''fileType'', plain (Atomic (TCharacterString 0))),
       (''fileSize'', plain (Atomic (TUnsigned None None))),
       (''modificationDate'', plain DateTime),
       (''archive'', plain (Atomic TBoolean)),
       (''readOnly'', plain (Atomic TBoolean)),
       (''fileAccessMethod'', plain (enumerated FileAccessMethod)),
       (''recordCount'', plain (Atomic (TUnsigned None None)))]\<rparr>"

definition GlobalGroupObject :: object_class where
  "GlobalGroupObject =
    \<lparr>class_type = object_type ''globalGroup'',
     class_required = base_required @
      [''groupMembers'', ''presentValue'', ''statusFlags'', ''eventState'', ''memberStatusFlags'',
       ''outOfService'', '''', ''''],
     class_elements = base_elements @
      [(''groupMembers'', plain (ArrayOf None (plain DeviceObjectPropertyReference))),
       (''groupMemberNames'', plain (ArrayOf None (plain (Atomic (TCharacterString 0))))),
       (''presentValue'', plain (ArrayOf None (plain PropertyAccessResult))),
       (''statusFlags'', plain (bits StatusFlags)),
       (''eventState'', plain (enumerated EventState)),
       (''memberStatusFlags'', plain (bits StatusFlags)),
       (''reliability'', plain (enumerated Reliability)),
       (''outOfService'', plain (Atomic TBoolean)),
       (''updateInterval'', plain (Atomic (TUnsigned None None))),
       (''requestedUpdateInterval'', plain (Atomic (TUnsigned None None))),
       (''covResubscriptionInterval'', plain (Atomic (TUnsigned None None))),
       (''clientCovIncrement'', plain ClientCOV),
       (''timeDelay'', plain (Atomic (TUnsigned None None))),
       (''notificationClass'', plain (Atomic (TUnsigned None None))),
       (''eventEnable'', plain (bits EventTransitionBits)),
       (''ackedTransitions'', plain (bits EventTransitionBits)),
       (''notifyType'', plain (enumerated NotifyType)),
       (''eventTimeStamps'', plain (ArrayOf (Some 3) (plain TimeStamp))),
       (''eventMessageTexts'', plain (ArrayOf (Some 3) (plain (Atomic (TCharacterString 0))))),
       (''eventMessageTextsConfig'', plain (ArrayOf (Some 3) (plain (Atomic (TCharacterString 0))))),
       (''eventDetectionEnable'', plain (Atomic TBoolean)),
       (''eventAlgorithmInhibitRef'', plain ObjectPropertyReference),
       (''eventAlgorithmInhibit'', plain (Atomic TBoolean)),
       (''timeDelayNormal'', plain (Atomic (TUnsigned None None))),
       (''covuPeriod'', plain (Atomic (TUnsigned None None))),
       (''covuRecipients'', plain (SequenceOf (plain Recipient))),
       (''reliabilityEvaluationInhibit'', plain (Atomic TBoolean))]\<rparr>"

definition GroupObject :: object_class where
  "GroupObject =
    \<lparr>class_type = object_type ''group'',
     class_required = base_required @
      [''listOfGroupMembers'', ''presentValue''],
     class_elements = base_elements @
      [(''listOfGroupMembers'', plain (SequenceOf (plain ReadAccessSpecification))),
       (''presentValue'', plain (SequenceOf (plain ReadAccessResult)))]\<rparr>"

definition IntegerValueObject :: object_class where
  "IntegerValueObject =
    \<lparr>class_type = object_type ''integerValue'',
     class_required = base_required @
      [''presentValue'', ''statusFlags''],
     class_elements = base_elements @
      [(''presentValue'', plain (Atomic (TInteger None None))),
       (''statusFlags'', plain (bits StatusFlags)),
       (''eventState'', plain (enumerated EventState)),
       (''reliability'', plain (enumerated Reliability)),
       (''outOfService'', plain (Atomic TBoolean)),
       (''units'', plain (enumerated EngineeringUnits)),
       (''priorityArray'', plain (ArrayOf (Some 16) (plain PriorityValue))),
       (''relinquishDefault'', plain (Atomic (TInteger None None))),
       (''covIncrement'', plain (Atomic (TUnsigned None None))),
       (''timeDelay'', plain (Atomic (TUnsigned None None))),
       (''notificationClass'', plain (Atomic (TUnsigned None None))),
       (''highLimit'', plain (Atomic (TInteger None None))),
       (''lowLimit'', plain (Atomic (TInteger None None))),
       (''deadband'', plain (Atomic (TUnsigned None None))),
       (''limitEnable'', plain (bits LimitEnable)),
       (''eventEnable'', plain (bits EventTransitionBits)),
       (''ackedTransitions'', plain (bits EventTransitionBits)),
       (''notifyType'', plain (enumerated NotifyType)),
       (''eventTimeStamps'', plain (ArrayOf (Some 3) (plain TimeStamp))),
       (''eventMessageTexts'', plain (ArrayOf (Some 3) (plain (Atomic (TCharacterString 0))))),
       (''eventMessageTextsConfig'', plain (ArrayOf (Some 3) (plain (Atomic (TCharacterString 0))))),
       (''eventDetectionEnable'', plain (Atomic TBoolean)),
       (''eventAlgorithmInhibitRef'', plain ObjectPropertyReference),
       (''eventAlgorithmInhibit'', plain (Atomic TBoolean)),
       (''timeDelayNormal'', plain (Atomic (TUnsigned None None))),
       (''reliabilityEvaluationInhibit'', plain (Atomic TBoolean)),
       (''minPresValue'', plain (Atomic (TInteger None None))),
       (''maxPresValue'', plain (Atomic (TInteger None None))),
       (''resolution'', plain (Atomic (TInteger None None))),
       (''faultHighLimit'', plain (Atomic (TInteger None None))),
       (''faultLowLimit'', plain (Atomic (TInteger None None))),
       (''currentCommandPriority'', plain OptionalUnsigned),
       (''valueSource'', plain ValueSource),
       (''valueSourceArray'', plain (ArrayOf (Some 16) (plain ValueSource))),
       (''lastCommandTime'', plain TimeStamp),
       (''commandTimeArray'', plain (ArrayOf (Some 16) (plain TimeStamp))),
       (''auditPriorityFilter'', plain OptionalPriorityFilter)]\<rparr>"

definition LargeAnalogValueObject :: object_class where
  "LargeAnalogValueObject =
    \<lparr>class_type = object_type ''largeAnalogValue'',
     class_required = base_required @
      [''presentValue'', ''statusFlags'', ''units''],
     class_elements = base_elements @
      [(''presentValue'', plain (Atomic TDouble)),
       (''statusFlags'', plain (bits StatusFlags)),
       (''eventState'', plain (enumerated EventState)),
       (''reliability'', plain (enumerated Reliability)),
       (''outOfService'', plain (Atomic TBoolean)),
       (''units'', plain (enumerated EngineeringUnits)),
       (''priorityArray'', plain (ArrayOf (Some 16) (plain PriorityValue))),
       (''relinquishDefault'', plain (Atomic TDouble)),
       (''covIncrement'', plain (Atomic TDouble)),
       (''timeDelay'', plain (Atomic (TUnsigned None None))),
       (''notificationClass'', plain (Atomic (TUnsigned None None))),
       (''highLimit'', plain (Atomic TDouble)),
       (''lowLimit'', plain (Atomic TDouble)),
       (''deadband'', plain (Atomic TDouble)),
       (''limitEnable'', plain (bits LimitEnable)),
       (''eventEnable'', plain (bits EventTransitionBits)),
       (''ackedTransitions'', plain (bits EventTransitionBits)),
       (''notifyType'', plain (enumerated NotifyType)),
       (''eventTimeStamps'', plain (ArrayOf (Some 3) (plain TimeStamp))),
       (''eventMessageTexts'', plain (ArrayOf (Some 3) (plain (Atomic (TCharacterString 0))))),
       (''eventMessageTextsConfig'', plain (ArrayOf (Some 3) (plain (Atomic (TCharacterString 0))))),
       (''eventDetectionEnable'', plain (Atomic TBoolean)),
       (''eventAlgorithmInhibitRef'', plain ObjectPropertyReference),
       (''eventAlgorithmInhibit'', plain (Atomic TBoolean)),
       (''timeDelayNormal'', plain (Atomic (TUnsigned None None))),
       (''reliabilityEvaluationInhibit'', plain (Atomic TBoolean)),
       (''minPresValue'', plain (Atomic TDouble)),
       (''maxPresValue'', plain (Atomic TDouble)),
       (''resolution'', plain (Atomic TDouble)),
       (''faultHighLimit'', plain (Atomic TDouble)),
       (''faultLowLimit'', plain (Atomic TDouble)),
       (''currentCommandPriority'', plain OptionalUnsigned),
       (''valueSource'', plain ValueSource),
       (''valueSourceArray'', plain (ArrayOf (Some 16) (plain ValueSource))),
       (''lastCommandTime'', plain TimeStamp),
       (''commandTimeArray'', plain (ArrayOf (Some 16) (plain TimeStamp))),
       (''auditPriorityFilter'', plain OptionalPriorityFilter)]\<rparr>"

definition LifeSafetyPointObject :: object_class where
  "LifeSafetyPointObject =
    \<lparr>class_type = object_type ''lifeSafetyPoint'',
     class_required = base_required @
      [''presentValue'', ''trackingValue'', ''statusFlags'', ''eventState'', ''reliability'', ''outOfService'',
       ''mode'', ''acceptedModes'', ''silenced'', ''operationExpected''],
     class_elements = base_elements @
      [(''presentValue'', plain (enumerated LifeSafetyState)),
       (''trackingValue'', plain (enumerated LifeSafetyState)),
       (''deviceType'', plain (Atomic (TCharacterString 0))),
       (''statusFlags'', plain (bits StatusFlags)),
       (''eventState'', plain (enumerated EventState)),
       (''reliability'', plain (enumerated Reliability)),
       (''outOfService'', plain (Atomic TBoolean)),
       (''mode'', plain (enumerated LifeSafetyMode)),
       (''acceptedModes'', plain (SequenceOf (plain (enumerated LifeSafetyMode)))),
       (''timeDelay'', plain (Atomic (TUnsigned None None))),
       (''notificationClass'', plain (Atomic (TUnsigned None None))),
       (''lifeSafetyAlarmValues'', plain (SequenceOf (plain (enumerated LifeSafetyState)))),
       (''alarmValues'', plain (SequenceOf (plain (enumerated LifeSafetyState)))),
       (''faultValues'', plain (SequenceOf (plain (enumerated LifeSafetyState)))),
       (''eventEnable'', plain (bits EventTransitionBits)),
       (''ackedTransitions'', plain (bits EventTransitionBits)),
       (''notifyType'', plain (enumerated NotifyType)),
       (''eventTimeStamps'', plain (ArrayOf (Some 3) (plain TimeStamp))),
       (''eventMessageTexts'', plain (ArrayOf (Some 3) (plain (Atomic (TCharacterString 0))))),
       (''eventMessageTextsConfig'', plain (ArrayOf (Some 3) (plain (Atomic (TCharacterString 0))))),
       (''eventDetectionEnable'', plain (Atomic TBoolean)),
       (''eventAlgorithmInhibitRef'', plain ObjectPropertyReference),
       (''eventAlgorithmInhibit'', plain (Atomic TBoolean)),
       (''timeDelayNormal'', plain (Atomic (TUnsigned None None))),
       (''reliabilityEvaluationInhibit'', plain (Atomic TBoolean)),
       (''silenced'', plain (enumerated SilencedState)),
       (''operationExpected'', plain (enumerated LifeSafetyOperation)),
       (''maintenanceRequired'', plain (enumerated Maintenance)),
       (''setting'', plain (Atomic (TUnsigned None None))),
       (''directReading'', plain (Atomic TReal)),
       (''units'', plain (enumerated EngineeringUnits)),
       (''memberOf'', plain (SequenceOf (plain DeviceObjectReference))),
       (''floorNumber'', plain (Atomic (TUnsigned None (Some 255)))),
       (''valueSource'', plain ValueSource)]\<rparr>"

definition LifeSafetyZoneObject :: object_class where
  "LifeSafetyZoneObject =
    \<lparr>class_type = object_type ''lifeSafetyZone'',
     class_required = base_required @
      [''presentValue'', ''trackingValue'', ''statusFlags'', ''eventState'', ''reliability'', ''outOfService'',
       ''mode'', ''acceptedModes'', ''silenced'', ''operationExpected'', ''zomeMembers''],
     class_elements = base_elements @
      [(''presentValue'', plain (enumerated LifeSafetyState)),
       (''trackingValue'', plain (enumerated LifeSafetyState)),
       (''deviceType'', plain (Atomic (TCharacterString 0))),
       (''statusFlags'', plain (bits StatusFlags)),
       (''eventState'', plain (enumerated EventState)),
       (''reliability'', plain (enumerated Reliability)),
       (''outOfService'', plain (Atomic TBoolean)),
       (''mode'', plain (enumerated LifeSafetyMode)),
       (''acceptedModes'', plain (SequenceOf (plain (enumerated LifeSafetyMode)))),
       (''timeDelay'', plain (Atomic (TUnsigned None None))),
       (''notificationClass'', plain (Atomic (TUnsigned None None))),
       (''lifeSafetyAlarmValues'', plain (SequenceOf (plain (enumerated LifeSafetyState)))),
       (''alarmValues'', plain (SequenceOf (plain (enumerated LifeSafetyState)))),
       (''faultValues'', plain (SequenceOf (plain (enumerated LifeSafetyState)))),
       (''eventEnable'', plain (bits EventTransitionBits)),
       (''ackedTransitions'', plain (bits EventTransitionBits)),
       (''notifyType'', plain (enumerated NotifyType)),
       (''eventTimeStamps'', plain (ArrayOf (Some 3) (plain TimeStamp))),
       (''eventMessageTexts'', plain (ArrayOf (Some 3) (plain (Atomic (TCharacterString 0))))),
       (''eventMessageTextsConfig'', plain (ArrayOf (Some 3) (plain (Atomic (TCharacterString 0))))),
       (''eventDetectionEnable'', plain (Atomic TBoolean)),
       (''eventAlgorithmInhibitRef'', plain ObjectPropertyReference),
       (''eventAlgorithmInhibit'', plain (Atomic TBoolean)),
       (''timeDelayNormal'', plain (Atomic (TUnsigned None None))),
       (''reliabilityEvaluationInhibit'', plain (Atomic TBoolean)),
       (''silenced'', plain (enumerated SilencedState)),
       (''operationExpected'', plain (enumerated LifeSafetyOperation)),
       (''maintenanceRequired'', plain (Atomic TBoolean)),
       (''zoneMembers'', plain (SequenceOf (plain DeviceObjectReference))),
       (''memberOf'', plain (SequenceOf (plain DeviceObjectReference))),
       (''floorNumber'', plain (Atomic (TUnsigned None (Some 255)))),
       (''valueSource'', plain ValueSource)]\<rparr>"

definition LiftObject :: object_class where
  "LiftObject =
    \<lparr>class_type = object_type ''lift'',
     class_required = base_required @
      [''statusFlags'', ''elevatorGroup'', ''groupID'', ''installationID'', ''carPosition'',
       ''carMovingDirection'', ''carDoorStatus'', ''passengerAlarm'', ''outOfService'', ''faultSignals''],
     class_elements = base_elements @
      [(''trackingValue'', plain (Atomic TReal)),
       (''statusFlags'', plain (bits StatusFlags)),
       (''elevatorGroup'', plain (Atomic TObjectIdentifier)),
       (''groupID'', plain (Atomic (TUnsigned None (Some 255)))),
       (''installationID'', plain (Atomic (TUnsigned None (Some 255)))),
       (''floorText'', plain (ArrayOf None (plain (Atomic (TCharacterString 0))))),
       (''carDoorText'', plain (ArrayOf None (plain (Atomic (TCharacterString 0))))),
       (''assignedLandingCalls'', plain (ArrayOf None (plain AssignedLandingCalls))),
       (''makingCarCall'', plain (ArrayOf None (plain (Atomic (TUnsigned None (Some 255)))))),
       (''registeredCarCall'', plain (ArrayOf None (plain LiftCarCallList))),
       (''carPosition'', plain (Atomic (TUnsigned None (Some 255)))),
       (''carMovingDirection'', plain (enumerated LiftCarDirection)),
       (''carAssignedDirection'', plain (enumerated LiftCarDirection)),
       (''carDoorStatus'', plain (ArrayOf None (plain (enumerated DoorStatus)))),
       (''carDoorCommand'', plain (ArrayOf None (plain (enumerated LiftCarDoorCommand)))),
       (''carDoorZone'', plain (Atomic TBoolean)),
       (''carMode'', plain (enumerated LiftCarMode)),
       (''carLoad'', plain (Atomic TReal)),
       (''carLoadUnits'', plain (enumerated EngineeringUnits)),
       (''nextStoppingFloor'', plain (Atomic (TUnsigned None None))),
       (''passengerAlarm'', plain (Atomic TBoolean)),
       (''timeDelay'', plain (Atomic (TUnsigned None None))),
       (''timeDelayNormal'', plain (Atomic (TUnsigned None None))),
       (''energyMeter'', plain (Atomic TReal)),
       (''energyMeterRef'', plain DeviceObjectReference),
       (''reliability'', plain (enumerated Reliability)),
       (''outOfService'', plain (Atomic TBoolean)),
       (''carDriveStatus'', plain (enumerated LiftCarDriveStatus)),
       (''faultSignals'', plain (SequenceOf (plain (enumerated LiftFault)))),
       (''landingDoorStatus'', plain (ArrayOf None (plain LandingDoorStatus))),
       (''higherDeck'', plain (Atomic TObjectIdentifier)),
       (''lowerDeck'', plain (Atomic TObjectIdentifier)),
       (''eventDetectionEnable'', plain (Atomic TBoolean)),
       (''notificationClass'', plain (Atomic (TUnsigned None None))),
       (''eventEnable'', plain (bits EventTransitionBits)),
       (''eventState'', plain (enumerated EventState)),
       (''ackedTransitions'', plain (bits EventTransitionBits)),
       (''notifyType'', plain (enumerated NotifyType)),
       (''eventTimeStamps'', plain (ArrayOf (Some 3) (plain TimeStamp))),
       (''eventMessageTexts'', plain (ArrayOf (Some 3) (plain (Atomic (TCharacterString 0))))),
       (''eventMessageTextsConfig'', plain (ArrayOf (Some 3) (plain (Atomic (TCharacterString 0))))),
       (''eventAlgorithmInhibitRef'', plain ObjectPropertyReference),
       (''eventAlgorithmInhibit'', plain (Atomic TBoolean)),
       (''reliabilityEvaluationInhibit'', plain (Atomic TBoolean))]\<rparr>"

definition LightingOutputObject :: object_class where
  "LightingOutputObject =
    \<lparr>class_type = object_type ''lightingOutput'',
     class_required = base_required @
      [''presentValue'', ''trackingValue'', ''lightingCommand'', ''inProgress'', ''statusFlags'',
       ''outOfService'', ''blinkWarnEnable'', ''egressTime'', ''egressActive'', ''defaultFadeTime'',
       ''defaultRampRate'', ''defaultStepIncrement'', ''priorityArray'', ''relinquishDefault'',
       ''lightingCommandDefaultPriority'', ''currentCommandPriority''],
     class_elements = base_elements @
      [(''presentValue'', plain (Atomic TReal)),
       (''trackingValue'', plain (Atomic TReal)),
       (''lightingCommand'', plain LightingCommand),
       (''inProgress'', plain (enumerated LightingInProgress)),
       (''statusFlags'', plain (bits StatusFlags)),
       (''reliability'', plain (enumerated Reliability)),
       (''outOfService'', plain (Atomic TBoolean)),
       (''blinkWarnEnable'', plain (Atomic TBoolean)),
       (''egressTime'', plain (Atomic (TUnsigned None None))),
       (''egressActive'', plain (Atomic TBoolean)),
       (''defaultFadeTime'', plain (Atomic (TUnsigned None None))),
       (''defaultRampRate'', plain (Atomic TReal)),
       (''defaultStepIncrement'', plain (Atomic TReal)),
       (''transition'', plain (enumerated LightingTransition)),
       (''feedbackValue'', plain (Atomic TReal)),
       (''priorityArray'', plain (ArrayOf (Some 16) (plain PriorityValue))),
       (''relinquishDefault'', plain (Atomic TReal)),
       (''power'', plain (Atomic TReal)),
       (''instantaneousPower'', plain (Atomic TReal)),
       (''minActualValue'', plain (Atomic TReal)),
       (''maxActualValue'', plain (Atomic TReal)),
       (''lightingCommandDefaultPriority'', plain (Atomic (TUnsigned None None))),
       (''covIncrement'', plain (Atomic TReal)),
       (''reliabilityEvaluationInhibit'', plain (Atomic TBoolean)),
       (''currentCommandPriority'', plain OptionalUnsigned),
       (''valueSource'', plain ValueSource),
       (''valueSourceArray'', plain (ArrayOf (Some 16) (plain ValueSource))),
       (''lastCommandTime'', plain TimeStamp),
       (''commandTimeArray'', plain (ArrayOf (Some 16) (plain TimeStamp))),
       (''auditPriorityFilter'', plain OptionalPriorityFilter)]\<rparr>"

definition LoadControlObject :: object_class where
  "LoadControlObject =
    \<lparr>class_type = object_type ''loadControl'',
     class_required = base_required @
      [''presentValue'', ''statusFlags'', ''eventState'', ''requestedShedLevel'', ''startTime'',
       ''shedDuration'', ''dutyWindow'', ''enable'', ''expectedShedLevel'', ''actualShedLevel'',
       ''shedLevels'', ''shedLevelDescriptions''],
     class_elements = base_elements @
      [(''presentValue'', plain (enumerated ShedState)),
       (''stateDescription'', plain (Atomic (TCharacterString 0))),
       (''statusFlags'', plain (bits StatusFlags)),
       (''eventState'', plain (enumerated EventState)),
       (''reliability'', plain (enumerated Reliability)),
       (''requestedShedLevel'', plain ShedLevel),
       (''startTime'', plain DateTime),
       (''shedDuration'', plain (Atomic (TUnsigned None None))),
       (''dutyWindow'', plain (Atomic (TUnsigned None None))),
       (''enable'', plain (Atomic TBoolean)),
       (''fullDutyBaseline'', plain (Atomic TReal)),
       (''expectedShedLevel'', plain ShedLevel),
       (''actualShedLevel'', plain ShedLevel),
       (''shedLevels'', plain (ArrayOf None (plain (Atomic (TUnsigned None None))))),
       (''shedLevelDescriptions'', plain (ArrayOf None (plain (Atomic (TCharacterString 0))))),
       (''notificationClass'', plain (Atomic (TUnsigned None None))),
       (''timeDelay'', plain (Atomic (TUnsigned None None))),
       (''eventEnable'', plain (bits EventTransitionBits)),
       (''ackedTransitions'', plain (bits EventTransitionBits)),
       (''notifyType'', plain (enumerated NotifyType)),
       (''eventTimeStamps'', plain (ArrayOf (Some 3) (plain TimeStamp))),
       (''eventMessageTexts'', plain (ArrayOf (Some 3) (plain (Atomic (TCharacterString 0))))),
       (''eventMessageTextsConfig'', plain (ArrayOf (Some 3) (plain (Atomic (TCharacterString 0))))),
       (''eventDetectionEnable'', plain (Atomic TBoolean)),
       (''eventAlgorithmInhibitRef'', plain ObjectPropertyReference),
       (''eventAlgorithmInhibit'', plain (Atomic TBoolean)),
       (''timeDelayNormal'', plain (Atomic (TUnsigned None None))),
       (''reliabilityEvaluationInhibit'', plain (Atomic TBoolean)),
       (''valueSource'', plain ValueSource)]\<rparr>"

definition LoopObject :: object_class where
  "LoopObject =
    \<lparr>class_type = object_type ''loop'',
     class_required = base_required @
      [''presentValue'', ''statusFlags'', ''eventState'', ''outOfService'', ''outputUnits'',
       ''manipulatedVariableReference'', ''controlledVariableReference'', ''controlledVariableValue'',
       ''controlledVariableUnits'', ''setpointReference'', ''setpoint'', ''action'', ''priorityForWriting''],
     class_elements = base_elements @
      [(''presentValue'', plain (Atomic TReal)),
       (''statusFlags'', plain (bits StatusFlags)),
       (''eventState'', plain (enumerated EventState)),
       (''reliability'', plain (enumerated Reliability)),
       (''outOfService'', plain (Atomic TBoolean)),
       (''updateInterval'', plain (Atomic (TUnsigned None None))),
       (''outputUnits'', plain (enumerated EngineeringUnits)),
       (''manipulatedVariableReference'', plain ObjectPropertyReference),
       (''controlledVariableReference'', plain ObjectPropertyReference),
       (''controlledVariableValue'', plain (Atomic TReal)),
       (''controlledVariableUnits'', plain (enumerated EngineeringUnits)),
       (''setpointReference'', plain SetpointReference),
       (''setpoint'', plain (Atomic TReal)),
       (''action'', plain (enumerated Action_enum)),
       (''proportionalConstant'', plain (Atomic TReal)),
       (''proportionalConstantUnits'', plain (enumerated EngineeringUnits)),
       (''integralConstant'', plain (Atomic TReal)),
       (''integralConstantUnits'', plain (enumerated EngineeringUnits)),
       (''derivativeConstant'', plain (Atomic TReal)),
       (''derivativeConstantUnits'', plain (enumerated EngineeringUnits)),
       (''bias'', plain (Atomic TReal)),
       (''maximumOutput'', plain (Atomic TReal)),
       (''minimumOutput'', plain (Atomic TReal)),
       (''priorityForWriting'', plain (Atomic (TUnsigned None None))),
       (''covIncrement'', plain (Atomic TReal)),
       (''timeDelay'', plain (Atomic (TUnsigned None None))),
       (''notificationClass'', plain (Atomic (TUnsigned None None))),
       (''errorLimit'', plain (Atomic TReal)),
       (''deadband'', plain (Atomic TReal)),
       (''eventEnable'', plain (bits EventTransitionBits)),
       (''ackedTransitions'', plain (bits EventTransitionBits)),
       (''notifyType'', plain (enumerated NotifyType)),
       (''eventTimeStamps'', plain (ArrayOf (Some 3) (plain TimeStamp))),
       (''eventMessageTexts'', plain (ArrayOf (Some 3) (plain (Atomic (TCharacterString 0))))),
       (''eventMessageTextsConfig'', plain (ArrayOf (Some 3) (plain (Atomic (TCharacterString 0))))),
       (''eventDetectionEnable'', plain (Atomic TBoolean)),
       (''eventAlgorithmInhibitRef'', plain ObjectPropertyReference),
       (''eventAlgorithmInhibit'', plain (Atomic TBoolean)),
       (''timeDelayNormal'', plain (Atomic (TUnsigned None None))),
       (''reliabilityEvaluationInhibit'', plain (Atomic TBoolean)),
       (''lowDiffLimit'', plain OptionalReal)]\<rparr>"

definition MultiStateInputObject :: object_class where
  "MultiStateInputObject =
    \<lparr>class_type = object_type ''multiStateInput'',
     class_required = base_required @
      [''presentValue'', ''statusFlags'', ''eventState'', ''outOfService'', ''numberOfStates''],
     class_elements = base_elements @
      [(''presentValue'', plain (Atomic (TUnsigned None None))),
       (''deviceType'', plain (Atomic (TCharacterString 0))),
       (''statusFlags'', plain (bits StatusFlags)),
       (''eventState'', plain (enumerated EventState)),
       (''reliability'', plain (enumerated Reliability)),
       (''outOfService'', plain (Atomic TBoolean)),
       (''numberOfStates'', plain (Atomic (TUnsigned None None))),
       (''stateText'', plain (ArrayOf None (plain (Atomic (TCharacterString 0))))),
       (''timeDelay'', plain (Atomic (TUnsigned None None))),
       (''notificationClass'', plain (Atomic (TUnsigned None None))),
       (''alarmValues'', plain (SequenceOf (plain (Atomic (TUnsigned None None))))),
       (''faultValues'', plain (SequenceOf (plain (Atomic (TUnsigned None None))))),
       (''eventEnable'', plain (bits EventTransitionBits)),
       (''ackedTransitions'', plain (bits EventTransitionBits)),
       (''notifyType'', plain (enumerated NotifyType)),
       (''eventTimeStamps'', plain (ArrayOf (Some 3) (plain TimeStamp))),
       (''eventMessageTexts'', plain (ArrayOf (Some 3) (plain (Atomic (TCharacterString 0))))),
       (''eventMessageTextsConfig'', plain (ArrayOf (Some 3) (plain (Atomic (TCharacterString 0))))),
       (''eventDetectionEnable'', plain (Atomic TBoolean)),
       (''eventAlgorithmInhibitRef'', plain ObjectPropertyReference),
       (''eventAlgorithmInhibit'', plain (Atomic TBoolean)),
       (''timeDelayNormal'', plain (Atomic (TUnsigned None None))),
       (''reliabilityEvaluationInhibit'', plain (Atomic TBoolean)),
       (''interfaceValue'', plain OptionalUnsigned)]\<rparr>"

definition MultiStateOutputObject :: object_class where
  "MultiStateOutputObject =
    \<lparr>class_type = object_type ''multiStateOutput'',
     class_required = base_required @
      [''presentValue'', ''statusFlags'', ''eventState'', ''outOfService'', ''numberOfStates'',
       ''priorityArray'', ''relinquishDefault'', ''currentCommandPriority''],
     class_elements = base_elements @
      [(''presentValue'', plain (Atomic (TUnsigned None None))),
       (''deviceType'', plain (Atomic (TCharacterString 0))),
       (''statusFlags'', plain (bits StatusFlags)),
       (''eventState'', plain (enumerated EventState)),
       (''reliability'', plain (enumerated Reliability)),
       (''outOfService'', plain (Atomic TBoolean)),
       (''numberOfStates'', plain (Atomic (TUnsigned None None))),
       (''stateText'', plain (ArrayOf None (plain (Atomic (TCharacterString 0))))),
       (''priorityArray'', plain (ArrayOf (Some 16) (plain PriorityValue))),
       (''relinquishDefault'', plain (Atomic (TUnsigned None None))),
       (''timeDelay'', plain (Atomic (TUnsigned None None))),
       (''notificationClass'', plain (Atomic (TUnsigned None None))),
       (''feedbackValue'', plain (Atomic (TUnsigned None None))),
       (''eventEnable'', plain (bits EventTransitionBits)),
       (''ackedTransitions'', plain (bits EventTransitionBits)),
       (''notifyType'', plain (enumerated NotifyType)),
       (''eventTimeStamps'', plain (ArrayOf (Some 3) (plain TimeStamp))),
       (''eventMessageTexts'', plain (ArrayOf (Some 3) (plain (Atomic (TCharacterString 0))))),
       (''eventMessageTextsConfig'', plain (ArrayOf (Some 3) (plain (Atomic (TCharacterString 0))))),
       (''eventDetectionEnable'', plain (Atomic TBoolean)),
       (''eventAlgorithmInhibitRef'', plain ObjectPropertyReference),
       (''eventAlgorithmInhibit'', plain (Atomic TBoolean)),
       (''timeDelayNormal'', plain (Atomic (TUnsigned None None))),
       (''reliabilityEvaluationInhibit'', plain (Atomic TBoolean)),
       (''interfaceValue'', plain OptionalUnsigned),
       (''currentCommandPriority'', plain OptionalUnsigned),
       (''valueSource'', plain ValueSource),
       (''valueSourceArray'', plain (ArrayOf (Some 16) (plain ValueSource))),
       (''lastCommandTime'', plain TimeStamp),
       (''commandTimeArray'', plain (ArrayOf (Some 16) (plain TimeStamp))),
       (''auditPriorityFilter'', plain OptionalPriorityFilter)]\<rparr>"

definition MultiStateValueObject :: object_class where
  "MultiStateValueObject =
    \<lparr>class_type = object_type ''multiStateValue'',
     class_required = base_required @
      [''presentValue'', ''statusFlags'', ''eventState'', ''outOfService'', ''numberOfStates''],
     class_elements = base_elements @
      [(''presentValue'', plain (Atomic (TUnsigned None None))),
       (''statusFlags'', plain (bits StatusFlags)),
       (''eventState'', plain (enumerated EventState)),
       (''reliability'', plain (enumerated Reliability)),
       (''outOfService'', plain (Atomic TBoolean)),
       (''numberOfStates'', plain (Atomic (TUnsigned None None))),
       (''stateText'', plain (ArrayOf None (plain (Atomic (TCharacterString 0))))),
       (''priorityArray'', plain (ArrayOf (Some 16) (plain PriorityValue))),
       (''relinquishDefault'', plain (Atomic (TUnsigned None None))),
       (''timeDelay'', plain (Atomic (TUnsigned None None))),
       (''notificationClass'', plain (Atomic (TUnsigned None None))),
       (''alarmValues'', plain (SequenceOf (plain (Atomic (TUnsigned None None))))),
       (''faultValues'', plain (SequenceOf (plain (Atomic (TUnsigned None None))))),
       (''eventEnable'', plain (bits EventTransitionBits)),
       (''ackedTransitions'', plain (bits EventTransitionBits)),
       (''notifyType'', plain (enumerated NotifyType)),
       (''eventTimeStamps'', plain (ArrayOf (Some 3) (plain TimeStamp))),
       (''eventMessageTexts'', plain (ArrayOf (Some 3) (plain (Atomic (TCharacterString 0))))),
       (''eventMessageTextsConfig'', plain (ArrayOf (Some 3) (plain (Atomic (TCharacterString 0))))),
       (''eventDetectionEnable'', plain (Atomic TBoolean)),
       (''eventAlgorithmInhibitRef'', plain ObjectPropertyReference),
       (''eventAlgorithmInhibit'', plain (Atomic TBoolean)),
       (''timeDelayNormal'', plain (Atomic (TUnsigned None None))),
       (''reliabilityEvaluationInhibit'', plain (Atomic TBoolean)),
       (''currentCommandPriority'', plain OptionalUnsigned),
       (''valueSource'', plain ValueSource),
       (''valueSourceArray'', plain (ArrayOf (Some 16) (plain ValueSource))),
       (''lastCommandTime'', plain TimeStamp),
       (''commandTimeArray'', plain (ArrayOf (Some 16) (plain TimeStamp))),
       (''auditPriorityFilter'', plain OptionalPriorityFilter)]\<rparr>"

definition NetworkPortObject :: object_class where
  "NetworkPortObject =
    \<lparr>class_type = object_type ''networkPort'',
     class_required = base_required @
      [''statusFlags'', ''reliability'', ''outOfService'', ''networkType'', ''protocolLevel'',
       ''changesPending'', ''linkSpeed''],
     class_elements = base_elements @
      [(''statusFlags'', plain (bits StatusFlags)),
       (''reliability'', plain (enumerated Reliability)),
       (''outOfService'', plain (Atomic TBoolean)),
       (''networkType'', plain (enumerated NetworkType)),
       (''protocolLevel'', plain (enumerated ProtocolLevel)),
       (''referencePort'', plain (Atomic (TUnsigned None None))),
       (''networkNumber'', plain (Atomic (TUnsigned None (Some 65535)))),
       (''networkNumberQuality'', plain (enumerated NetworkNumberQuality)),
       (''changesPending'', plain (Atomic TBoolean)),
       (''command'', plain (enumerated NetworkPortCommand)),
       (''macAddress'', plain (Atomic (TOctetString None None))),
       (''apduLength'', plain (Atomic (TUnsigned None None))),
       (''linkSpeed'', plain (Atomic TReal)),
       (''linkSpeeds'', plain (ArrayOf None (plain (Atomic TReal)))),
       (''linkSpeedAutonegotiate'', plain (Atomic TBoolean)),
       (''networkInterfaceName'', plain (Atomic (TCharacterString 0))),
       (''bacnetIPMode'', plain (enumerated IPMode)),
       (''ipAddress'', plain (Atomic (TOctets [4]))),
       (''bacnetIPUDPPort'', plain (Atomic (TUnsigned None (Some 65535)))),
       (''ipSubnetMask'', plain (Atomic (TOctets [4]))),
       (''ipDefaultGateway'', plain (Atomic (TOctets [4]))),
       (''bacnetIPMulticastAddress'', plain (Atomic (TOctets [4]))),
       (''ipDNSServer'', plain (ArrayOf None (plain (Atomic (TOctets [4]))))),
       (''ipDHCPEnable'', plain (Atomic TBoolean)),
       (''ipDHCPLeaseTime'', plain (Atomic (TUnsigned None None))),
       (''ipDHCPLeaseTimeRemaining'', plain (Atomic (TUnsigned None None))),
       (''ipDHCPServer'', plain (Atomic (TOctets [4]))),
       (''bacnetIPNATTraversal'', plain (Atomic TBoolean)),
       (''bacnetIPGlobalAddress'', plain HostNPort),
       (''bbmdBroadcastDistributionTable'', plain (SequenceOf (plain BDTEntry))),
       (''bbmdAcceptFDRegistrations'', plain (Atomic TBoolean)),
       (''bbmdForeignDeviceTable'', plain (SequenceOf (plain FDTEntry))),
       (''fdBBMDAddress'', plain HostNPort),
       (''fdSubscriptionLifetime'', plain (Atomic (TUnsigned None (Some 65535)))),
       (''bacnetIPv6Mode'', plain (enumerated IPMode)),
       (''ipv6Address'', plain (Atomic (TOctets [16]))),
       (''ipv6PrefixLength'', plain (Atomic (TUnsigned None (Some 255)))),
       (''bacnetIPv6UDPPort'', plain (Atomic (TUnsigned None (Some 65535)))),
       (''ipv6DefaultGateway'', plain (Atomic (TOctets [16]))),
       (''bacnetIPv6MulticastAddress'', plain (Atomic (TOctets [16]))),
       (''ipv6DNSServer'', plain (ArrayOf None (plain (Atomic (TOctets [16]))))),
       (''ipv6AutoAddressingEnable'', plain (Atomic TBoolean)),
       (''ipv6DHCPLeaseTime'', plain (Atomic (TUnsigned None None))),
       (''ipv6DHCPLeaseTimeRemaining'', plain (Atomic (TUnsigned None None))),
       (''ipv6DHCPServer'', plain (Atomic (TOctets [16]))),
       (''ipv6ZoneIndex'', plain (Atomic (TCharacterString 0))),
       (''maxMaster'', plain (Atomic (TUnsigned None (Some 255)))),
       (''maxInfoFrames'', plain (Atomic (TUnsigned None (Some 255)))),
       (''slaveProxyEnable'', plain (Atomic TBoolean)),
       (''manualSlaveAddressBinding'', plain (SequenceOf (plain AddressBinding))),
       (''autoSlaveDiscovery'', plain (Atomic TBoolean)),
       (''slaveAddressBinding'', plain (SequenceOf (plain AddressBinding))),
       (''virtualMACAddressTable'', plain (SequenceOf (plain VMACEntry))),
       (''routingTable'', plain (SequenceOf (plain RouterEntry))),
       (''maxBvlcLengthAccepted'', plain (Atomic (TUnsigned None (Some 65535)))),
       (''maxNpduLengthAccepted'', plain (Atomic (TUnsigned None (Some 65535)))),
       (''scMinimumReconnectTime'', plain (Atomic (TUnsigned None None))),
       (''scMaximumReconnectTime'', plain (Atomic (TUnsigned None None))),
       (''scConnectWaitTimeout'', plain (Atomic (TUnsigned None None))),
       (''scDisconnectWaitTimeout'', plain (Atomic (TUnsigned None None))),
       (''scHeartbeatTimeout'', plain (Atomic (TUnsigned None None))),
       (''scHubConnectorState'', plain (enumerated SCHubConnectorState)),
       (''scPrimaryHubURI'', plain (Atomic (TCharacterString 0))),
       (''scFailoverHubURI'', plain (Atomic (TCharacterString 0))),
       (''scPrimaryHubConnectionStatus'', plain SCHubConnection),
       (''scFailoverHubConnectionStatus'', plain SCHubConnection),
       (''scHubFunctionEnable'', plain (Atomic TBoolean)),
       (''scHubFunctionAcceptURIs'', plain (ArrayOf None (plain (Atomic (TCharacterString 0))))),
       (''scHubFunctionBinding'', plain (Atomic (TCharacterString 0))),
       (''scHubFunctionConnectionStatus'', plain (SequenceOf (plain SCHubFunctionConnection))),
       (''scDirectConnectInitiateEnable'', plain (Atomic TBoolean)),
       (''scDirectConnectAcceptEnable'', plain (Atomic TBoolean)),
       (''scDirectConnectAcceptURIs'', plain (ArrayOf None (plain (Atomic (TCharacterString 0))))),
       (''scDirectConnectBinding'', plain (Atomic (TCharacterString 0))),
       (''scDirectConnectConnectionStatus'', plain (SequenceOf (plain SCDirectConnection))),
       (''scFailedConnectionRequests'', plain (SequenceOf (plain SCFailedConnectionRequest))),
       (''operationalCertificateFile'', plain (Atomic TObjectIdentifier)),
       (''issuerCertificateFiles'', plain (ArrayOf None (plain (Atomic TObjectIdentifier)))),
       (''certificateSigningRequestFile'', plain (Atomic TObjectIdentifier)),
       (''eventDetectionEnable'', plain (Atomic TBoolean)),
       (''notificationClass'', plain (Atomic (TUnsigned None None))),
       (''eventEnable'', plain (bits EventTransitionBits)),
       (''ackedTransitions'', plain (bits EventTransitionBits)),
       (''notifyType'', plain (enumerated NotifyType)),
       (''eventTimeStamps'', plain (ArrayOf (Some 3) (plain TimeStamp))),
       (''eventMessageTexts'', plain (ArrayOf (Some 3) (plain (Atomic (TCharacterString 0))))),
       (''eventMessageTextsConfig'', plain (ArrayOf (Some 3) (plain (Atomic (TCharacterString 0))))),
       (''eventState'', plain (enumerated EventState)),
       (''reliabilityEvaluationInhibit'', plain (Atomic TBoolean))]\<rparr>"

definition NetworkSecurityObject :: object_class where
  "NetworkSecurityObject =
    \<lparr>class_type = object_type ''networkSecurity'',
     class_required = base_required @
      [],
     class_elements = base_elements @
      [(''baseDeviceSecurityPolicy'', plain (enumerated SecurityLevel)),
       (''networkAccessSecurityPolicies'', plain (ArrayOf None (plain NetworkSecurityPolicy))),
       (''securityTimeWindow'', plain (Atomic (TUnsigned None None))),
       (''packetReorderTime'', plain (Atomic (TUnsigned None None))),
       (''distributionKeyRevision'', plain (Atomic (TUnsigned None None))),
       (''keySets'', plain (ArrayOf None (plain SecurityKeySet))),
       (''lastKeyServer'', plain AddressBinding),
       (''securityPDUTimeout'', plain (Atomic (TUnsigned None None))),
       (''updateKeySetTimeout'', plain (Atomic (TUnsigned None None))),
       (''supportedSecurityAlgorithms'', plain (SequenceOf (plain (Atomic (TUnsigned None None))))),
       (''doNotHide'', plain (Atomic TBoolean))]\<rparr>"

definition NotificationClassObject :: object_class where
  "NotificationClassObject =
    \<lparr>class_type = object_type ''notificationClass'',
     class_required = base_required @
      [''notificationClass'', ''priority'', ''ackRequired'', ''recipientList''],
     class_elements = base_elements @
      [(''notificationClass'', plain (Atomic (TUnsigned None None))),
       (''priority'', plain (ArrayOf None (plain (Atomic (TUnsigned None None))))),
       (''ackRequired'', plain (bits EventTransitionBits)),
       (''recipientList'', plain (SequenceOf (plain Destination))),
       (''statusFlags'', plain (bits StatusFlags)),
       (''eventState'', plain (enumerated EventState)),
       (''reliability'', plain (enumerated Reliability)),
       (''eventDetectionEnable'', plain (Atomic TBoolean)),
       (''eventEnable'', plain (bits EventTransitionBits)),
       (''ackedTransitions'', plain (bits EventTransitionBits)),
       (''notifyType'', plain (enumerated NotifyType)),
       (''eventTimeStamps'', plain (ArrayOf (Some 3) (plain TimeStamp))),
       (''eventMessageTexts'', plain (ArrayOf (Some 3) (plain (Atomic (TCharacterString 0))))),
       (''eventMessageTextsConfig'', plain (ArrayOf (Some 3) (plain (Atomic (TCharacterString 0))))),
       (''reliabilityEvaluationInhibit'', plain (Atomic TBoolean))]\<rparr>"

definition NotificationForwarderObject :: object_class where
  "NotificationForwarderObject =
    \<lparr>class_type = object_type ''notificationForwarder'',
     class_required = base_required @
      [''statusFlags'', ''reliability'', ''outOfService'', ''recipientList'', ''subscribedRecipients'',
       ''processIdentifierFilter'', ''localForwardingOnly''],
     class_elements = base_elements @
      [(''statusFlags'', plain (bits StatusFlags)),
       (''reliability'', plain (enumerated Reliability)),
       (''outOfService'', plain (Atomic TBoolean)),
       (''recipientList'', plain (SequenceOf (plain Destination))),
       (''subscribedRecipients'', plain (SequenceOf (plain EventNotificationSubscription))),
       (''processIdentifierFilter'', plain ProcessIdSelection),
       (''portFilter'', plain (ArrayOf None (plain PortPermission))),
       (''localForwardingOnly'', plain (Atomic TBoolean)),
       (''reliabilityEvaluationInhibit'', plain (Atomic TBoolean))]\<rparr>"

definition OctetStringValueObject :: object_class where
  "OctetStringValueObject =
    \<lparr>class_type = object_type ''octetstringValue'',
     class_required = base_required @
      [''presentValue'', ''statusFlags''],
     class_elements = base_elements @
      [(''presentValue'', plain (Atomic (TOctetString None None))),
       (''statusFlags'', plain (bits StatusFlags)),
       (''eventState'', plain (enumerated EventState)),
       (''reliability'', plain (enumerated Reliability)),
       (''outOfService'', plain (Atomic TBoolean)),
       (''priorityArray'', plain (ArrayOf (Some 16) (plain PriorityValue))),
       (''relinquishDefault'', plain (Atomic (TOctetString None None))),
       (''reliabilityEvaluationInhibit'', plain (Atomic TBoolean)),
       (''currentCommandPriority'', plain OptionalUnsigned),
       (''valueSource'', plain ValueSource),
       (''valueSourceArray'', plain (ArrayOf (Some 16) (plain ValueSource))),
       (''lastCommandTime'', plain TimeStamp),
       (''commandTimeArray'', plain (ArrayOf (Some 16) (plain TimeStamp))),
       (''auditPriorityFilter'', plain OptionalPriorityFilter)]\<rparr>"

definition PositiveIntegerValueObject :: object_class where
  "PositiveIntegerValueObject =
    \<lparr>class_type = object_type ''positiveIntegerValue'',
     class_required = base_required @
      [''presentValue'', ''statusFlags'', ''units''],
     class_elements = base_elements @
      [(''presentValue'', plain (Atomic (TUnsigned None None))),
       (''statusFlags'', plain (bits StatusFlags)),
       (''eventState'', plain (enumerated EventState)),
       (''reliability'', plain (enumerated Reliability)),
       (''outOfService'', plain (Atomic TBoolean)),
       (''units'', plain (enumerated EngineeringUnits)),
       (''priorityArray'', plain (ArrayOf (Some 16) (plain PriorityValue))),
       (''relinquishDefault'', plain (Atomic (TUnsigned None None))),
       (''covIncrement'', plain (Atomic (TUnsigned None None))),
       (''timeDelay'', plain (Atomic (TUnsigned None None))),
       (''notificationClass'', plain (Atomic (TUnsigned None None))),
       (''highLimit'', plain (Atomic (TUnsigned None None))),
       (''lowLimit'', plain (Atomic (TUnsigned None None))),
       (''deadband'', plain (Atomic (TUnsigned None None))),
       (''limitEnable'', plain (bits LimitEnable)),
       (''eventEnable'', plain (bits EventTransitionBits)),
       (''ackedTransitions'', plain (bits EventTransitionBits)),
       (''notifyType'', plain (enumerated NotifyType)),
       (''eventTimeStamps'', plain (ArrayOf (Some 3) (plain TimeStamp))),
       (''eventMessageTexts'', plain (ArrayOf (Some 3) (plain (Atomic (TCharacterString 0))))),
       (''eventMessageTextsConfig'', plain (ArrayOf (Some 3) (plain (Atomic (TCharacterString 0))))),
       (''eventDetectionEnable'', plain (Atomic TBoolean)),
       (''eventAlgorithmInhibitRef'', plain ObjectPropertyReference),
       (''eventAlgorithmInhibit'', plain (Atomic TBoolean)),
       (''timeDelayNormal'', plain (Atomic (TUnsigned None None))),
       (''reliabilityEvaluationInhibit'', plain (Atomic TBoolean)),
       (''minPresValue'', plain (Atomic (TUnsigned None None))),
       (''maxPresValue'', plain (Atomic (TUnsigned None None))),
       (''resolution'', plain (Atomic (TUnsigned None None))),
       (''faultHighLimit'', plain (Atomic (TUnsigned None None))),
       (''faultLowLimit'', plain (Atomic (TUnsigned None None))),
       (''currentCommandPriority'', plain OptionalUnsigned),
       (''valueSource'', plain ValueSource),
       (''valueSourceArray'', plain (ArrayOf (Some 16) (plain ValueSource))),
       (''lastCommandTime'', plain TimeStamp),
       (''commandTimeArray'', plain (ArrayOf (Some 16) (plain TimeStamp))),
       (''auditPriorityFilter'', plain OptionalPriorityFilter)]\<rparr>"

definition ProgramObject :: object_class where
  "ProgramObject =
    \<lparr>class_type = object_type ''program'',
     class_required = base_required @
      [''programState'', ''programChange'', ''statusFlags'', ''outOfService''],
     class_elements = base_elements @
      [(''programState'', plain (enumerated ProgramState)),
       (''programChange'', plain (enumerated ProgramRequest)),
       (''reasonForHalt'', plain (enumerated ProgramError)),
       (''descriptionOfHalt'', plain (Atomic (TCharacterString 0))),
       (''programLocation'', plain (Atomic (TCharacterString 0))),
       (''instanceOf'', plain (Atomic (TCharacterString 0))),
       (''statusFlags'', plain (bits StatusFlags)),
       (''reliability'', plain (enumerated Reliability)),
       (''outOfService'', plain (Atomic TBoolean)),
       (''eventDetectionEnable'', plain (Atomic TBoolean)),
       (''notificationClass'', plain (Atomic (TUnsigned None None))),
       (''eventEnable'', plain (bits EventTransitionBits)),
       (''eventState'', plain (enumerated EventState)),
       (''ackedTransitions'', plain (bits EventTransitionBits)),
       (''notifyType'', plain (enumerated NotifyType)),
       (''eventTimeStamps'', plain (ArrayOf (Some 3) (plain TimeStamp))),
       (''eventMessageTexts'', plain (ArrayOf (Some 3) (plain (Atomic (TCharacterString 0))))),
       (''eventMessageTextsConfig'', plain (ArrayOf (Some 3) (plain (Atomic (TCharacterString 0))))),
       (''reliabilityEvaluationInhibit'', plain (Atomic TBoolean))]\<rparr>"

definition PulseConverterObject :: object_class where
  "PulseConverterObject =
    \<lparr>class_type = object_type ''pulseConverter'',
     class_required = base_required @
      [''presentValue'', ''statusFlags'', ''eventState'', ''outOfService'', ''units'', ''scaleFactor'',
       ''adjustValue'', ''count'', ''updateTime'', ''countChangeTime'', ''countBeforeChange''],
     class_elements = base_elements @
      [(''presentValue'', plain (Atomic TReal)),
       (''inputReference'', plain ObjectPropertyReference),
       (''statusFlags'', plain (bits StatusFlags)),
       (''eventState'', plain (enumerated EventState)),
       (''reliability'', plain (enumerated Reliability)),
       (''outOfService'', plain (Atomic TBoolean)),
       (''units'', plain (enumerated EngineeringUnits)),
       (''scaleFactor'', plain (Atomic TReal)),
       (''adjustValue'', plain (Atomic TReal)),
       (''count'', plain (Atomic (TUnsigned None None))),
       (''updateTime'', plain DateTime),
       (''countChangeTime'', plain DateTime),
       (''countBeforeChange'', plain (Atomic (TUnsigned None None))),
       (''covIncrement'', plain (Atomic TReal)),
       (''covPeriod'', plain (Atomic (TUnsigned None None))),
       (''notificationClass'', plain (Atomic (TUnsigned None None))),
       (''timeDelay'', plain (Atomic (TUnsigned None None))),
       (''highLimit'', plain (Atomic TReal)),
       (''lowLimit'', plain (Atomic TReal)),
       (''deadband'', plain (Atomic TReal)),
       (''limitEnable'', plain (bits LimitEnable)),
       (''eventEnable'', plain (bits EventTransitionBits)),
       (''ackedTransitions'', plain (bits EventTransitionBits)),
       (''notifyType'', plain (enumerated NotifyType)),
       (''eventTimeStamps'', plain (ArrayOf (Some 3) (plain TimeStamp))),
       (''eventMessageTexts'', plain (ArrayOf (Some 3) (plain (Atomic (TCharacterString 0))))),
       (''eventMessageTextsConfig'', plain (ArrayOf (Some 3) (plain (Atomic (TCharacterString 0))))),
       (''eventDetectionEnable'', plain (Atomic TBoolean)),
       (''eventAlgorithmInhibitRef'', plain ObjectPropertyReference),
       (''eventAlgorithmInhibit'', plain (Atomic TBoolean)),
       (''timeDelayNormal'', plain (Atomic (TUnsigned None None))),
       (''reliabilityEvaluationInhibit'', plain (Atomic TBoolean))]\<rparr>"

definition ScheduleObject :: object_class where
  "ScheduleObject =
    \<lparr>class_type = object_type ''schedule'',
     class_required = base_required @
      [''presentValue'', ''effectivePeriod'', ''scheduleDefault'', ''listOfObjectPropertyReferences'',
       ''priorityForWriting'', ''statusFlags'', ''reliability'', ''outOfService''],
     class_elements = base_elements @
      [(''presentValue'', plain AnyAtomic),
       (''effectivePeriod'', plain DateRange),
       (''weeklySchedule'', plain (ArrayOf (Some 7) (plain DailySchedule))),
       (''exceptionSchedule'', plain (ArrayOf None (plain SpecialEvent))),
       (''scheduleDefault'', plain AnyAtomic),
       (''listOfObjectPropertyReferences'', plain (SequenceOf (plain DeviceObjectPropertyReference))),
       (''priorityForWriting'', plain (Atomic (TUnsigned None None))),
       (''statusFlags'', plain (bits StatusFlags)),
       (''reliability'', plain (enumerated Reliability)),
       (''outOfService'', plain (Atomic TBoolean)),
       (''eventDetectionEnable'', plain (Atomic TBoolean)),
       (''notificationClass'', plain (Atomic (TUnsigned None None))),
       (''eventEnable'', plain (bits EventTransitionBits)),
       (''eventState'', plain (enumerated EventState)),
       (''ackedTransitions'', plain (bits EventTransitionBits)),
       (''notifyType'', plain (enumerated NotifyType)),
       (''eventTimeStamps'', plain (ArrayOf (Some 3) (plain TimeStamp))),
       (''eventMessageTexts'', plain (ArrayOf (Some 3) (plain (Atomic (TCharacterString 0))))),
       (''eventMessageTextsConfig'', plain (ArrayOf (Some 3) (plain (Atomic (TCharacterString 0))))),
       (''reliabilityEvaluationInhibit'', plain (Atomic TBoolean))]\<rparr>"

definition StagingObject :: object_class where
  "StagingObject =
    \<lparr>class_type = object_type ''staging'',
     class_required = base_required @
      [''presentValue'', ''presentStage'', ''stages'', ''statusFlags'', ''eventState'', ''reliability'',
       ''outOfService'', ''units'', ''targetReferences'', ''priorityForWriting'', ''minPresValue'',
       ''maxPresValue''],
     class_elements = base_elements @
      [(''presentValue'', plain (Atomic TReal)),
       (''presentStage'', plain (Atomic (TUnsigned None None))),
       (''stages'', plain (ArrayOf None (plain StageLimitValue))),
       (''stageNames'', plain (ArrayOf None (plain (Atomic (TCharacterString 0))))),
       (''statusFlags'', plain (bits StatusFlags)),
       (''eventState'', plain (enumerated EventState)),
       (''reliability'', plain (enumerated Reliability)),
       (''outOfService'', plain (Atomic TBoolean)),
       (''units'', plain (enumerated EngineeringUnits)),
       (''targetReferences'', plain (ArrayOf None (plain DeviceObjectReference))),
       (''priorityForWriting'', plain (Atomic (TUnsigned None None))),
       (''defaultPresentValue'', plain (Atomic TReal)),
       (''minPresValue'', plain (Atomic TReal)),
       (''maxPresValue'', plain (Atomic TReal)),
       (''covIncrement'', plain (Atomic TReal)),
       (''notificationClass'', plain (Atomic (TUnsigned None None))),
       (''eventEnable'', plain (bits EventTransitionBits)),
       (''ackedTransitions'', plain (bits EventTransitionBits)),
       (''notifyType'', plain (enumerated NotifyType)),
       (''eventTimeStamps'', plain (ArrayOf (Some 3) (plain TimeStamp))),
       (''eventMessageTexts'', plain (ArrayOf (Some 3) (plain (Atomic (TCharacterString 0))))),
       (''eventMessageTextsConfig'', plain (ArrayOf (Some 3) (plain (Atomic (TCharacterString 0))))),
       (''eventDetectionEnable'', plain (Atomic TBoolean)),
       (''reliabilityEvaluationInhibit'', plain (Atomic TBoolean)),
       (''valueSource'', plain ValueSource)]\<rparr>"

definition StructuredViewObject :: object_class where
  "StructuredViewObject =
    \<lparr>class_type = object_type ''structuredView'',
     class_required = base_required @
      [''nodeSubtype'', ''subordinateList''],
     class_elements = base_elements @
      [(''nodeType'', plain (enumerated NodeType)),
       (''nodeSubtype'', plain (Atomic (TCharacterString 0))),
       (''subordinateList'', plain (ArrayOf None (plain DeviceObjectReference))),
       (''subordinateAnnotations'', plain (ArrayOf None (plain (Atomic (TCharacterString 0))))),
       (''subordinateTags'', plain (ArrayOf None (plain NameValueCollection))),
       (''subordinateNodeTypes'', plain (ArrayOf None (plain (enumerated NodeType)))),
       (''subordinateRelationships'', plain (ArrayOf None (plain (enumerated Relationship)))),
       (''defaultSubordinateRelationship'', plain (enumerated Relationship)),
       (''represents'', plain DeviceObjectReference)]\<rparr>"

definition TimePatternValueObject :: object_class where
  "TimePatternValueObject =
    \<lparr>class_type = object_type ''timePatternValue'',
     class_required = base_required @
      [''presentValue'', ''statusFlags''],
     class_elements = base_elements @
      [(''presentValue'', plain (Atomic TTime)),
       (''statusFlags'', plain (bits StatusFlags)),
       (''eventState'', plain (enumerated EventState)),
       (''reliability'', plain (enumerated Reliability)),
       (''outOfService'', plain (Atomic TBoolean)),
       (''priorityArray'', plain (ArrayOf (Some 16) (plain PriorityValue))),
       (''relinquishDefault'', plain (Atomic TTime)),
       (''reliabilityEvaluationInhibit'', plain (Atomic TBoolean)),
       (''eventDetectionEnable'', plain (Atomic TBoolean)),
       (''notificationClass'', plain (Atomic (TUnsigned None None))),
       (''eventEnable'', plain (bits EventTransitionBits)),
       (''ackedTransitions'', plain (bits EventTransitionBits)),
       (''notifyType'', plain (enumerated NotifyType)),
       (''eventTimeStamps'', plain (ArrayOf (Some 3) (plain TimeStamp))),
       (''eventMessageTexts'', plain (ArrayOf (Some 3) (plain (Atomic (TCharacterString 0))))),
       (''eventMessageTextsConfig'', plain (ArrayOf (Some 3) (plain (Atomic (TCharacterString 0))))),
       (''currentCommandPriority'', plain OptionalUnsigned),
       (''valueSource'', plain ValueSource),
       (''valueSourceArray'', plain (ArrayOf (Some 16) (plain ValueSource))),
       (''lastCommandTime'', plain TimeStamp),
       (''commandTimeArray'', plain (ArrayOf (Some 16) (plain TimeStamp))),
       (''auditPriorityFilter'', plain OptionalPriorityFilter)]\<rparr>"

definition TimeValueObject :: object_class where
  "TimeValueObject =
    \<lparr>class_type = object_type ''timeValue'',
     class_required = base_required @
      [''presentValue'', ''statusFlags''],
     class_elements = base_elements @
      [(''presentValue'', plain (Atomic TTime)),
       (''statusFlags'', plain (bits StatusFlags)),
       (''eventState'', plain (enumerated EventState)),
       (''reliability'', plain (enumerated Reliability)),
       (''outOfService'', plain (Atomic TBoolean)),
       (''priorityArray'', plain (ArrayOf (Some 16) (plain PriorityValue))),
       (''relinquishDefault'', plain (Atomic TTime)),
       (''reliabilityEvaluationInhibit'', plain (Atomic TBoolean)),
       (''eventDetectionEnable'', plain (Atomic TBoolean)),
       (''notificationClass'', plain (Atomic (TUnsigned None None))),
       (''eventEnable'', plain (bits EventTransitionBits)),
       (''ackedTransitions'', plain (bits EventTransitionBits)),
       (''notifyType'', plain (enumerated NotifyType)),
       (''eventTimeStamps'', plain (ArrayOf (Some 3) (plain TimeStamp))),
       (''eventMessageTexts'', plain (ArrayOf (Some 3) (plain (Atomic (TCharacterString 0))))),
       (''eventMessageTextsConfig'', plain (ArrayOf (Some 3) (plain (Atomic (TCharacterString 0))))),
       (''currentCommandPriority'', plain OptionalUnsigned),
       (''valueSource'', plain ValueSource),
       (''valueSourceArray'', plain (ArrayOf (Some 16) (plain ValueSource))),
       (''lastCommandTime'', plain TimeStamp),
       (''commandTimeArray'', plain (ArrayOf (Some 16) (plain TimeStamp))),
       (''auditPriorityFilter'', plain OptionalPriorityFilter)]\<rparr>"

definition TimerObject :: object_class where
  "TimerObject =
    \<lparr>class_type = object_type ''timer'',
     class_required = base_required @
      [''presentValue'', ''statusFlags'', ''timerState'', ''timerRunning''],
     class_elements = base_elements @
      [(''presentValue'', plain (Atomic (TUnsigned None None))),
       (''statusFlags'', plain (bits StatusFlags)),
       (''eventState'', plain (enumerated EventState)),
       (''reliability'', plain (enumerated Reliability)),
       (''outOfService'', plain (Atomic TBoolean)),
       (''timerState'', plain (enumerated TimerState)),
       (''timerRunning'', plain (Atomic TBoolean)),
       (''updateTime'', plain DateTime),
       (''lastStateChange'', plain (enumerated TimerTransition)),
       (''expirationTime'', plain DateTime),
       (''initialTimeout'', plain (Atomic (TUnsigned None None))),
       (''defaultTimeout'', plain (Atomic (TUnsigned None None))),
       (''minPresValue'', plain (Atomic (TUnsigned None None))),
       (''maxPresValue'', plain (Atomic (TUnsigned None None))),
       (''resolution'', plain (Atomic (TUnsigned None None))),
       (''stateChangeValues'', plain (ArrayOf (Some 7) (plain TimerStateChangeValue))),
       (''listOfObjectPropertyReferences'', plain (SequenceOf (plain DeviceObjectPropertyReference))),
       (''priorityForWriting'', plain (Atomic (TUnsigned None None))),
       (''eventDetectionEnable'', plain (Atomic TBoolean)),
       (''notificationClass'', plain (Atomic (TUnsigned None None))),
       (''timeDelay'', plain (Atomic (TUnsigned None None))),
       (''timeDelayNormal'', plain (Atomic (TUnsigned None None))),
       (''alarmValues'', plain (SequenceOf (plain (enumerated TimerState)))),
       (''eventEnable'', plain (bits EventTransitionBits)),
       (''ackedTransitions'', plain (bits EventTransitionBits)),
       (''notifyType'', plain (enumerated NotifyType)),
       (''eventTimeStamps'', plain (ArrayOf (Some 3) (plain TimeStamp))),
       (''eventMessageTexts'', plain (ArrayOf (Some 3) (plain (Atomic (TCharacterString 0))))),
       (''eventMessageTextsConfig'', plain (ArrayOf (Some 3) (plain (Atomic (TCharacterString 0))))),
       (''eventAlgorithmInhibitRef'', plain ObjectPropertyReference),
       (''eventAlgorithmInhibit'', plain (Atomic TBoolean)),
       (''reliabilityEvaluationInhibit'', plain (Atomic TBoolean))]\<rparr>"

definition TrendLogMultipleObject :: object_class where
  "TrendLogMultipleObject =
    \<lparr>class_type = object_type ''trendLogMultiple'',
     class_required = base_required @
      [''statusFlags'', ''eventState'', ''enable'', ''logDeviceObjectProperty'', ''loggingType'',
       ''logInterval'', ''stopWhenFull'', ''bufferSize'', ''logBuffer'', ''recordCount'', ''totalRecordCount''],
     class_elements = base_elements @
      [(''statusFlags'', plain (bits StatusFlags)),
       (''eventState'', plain (enumerated EventState)),
       (''reliability'', plain (enumerated Reliability)),
       (''enable'', plain (Atomic TBoolean)),
       (''startTime'', plain DateTime),
       (''stopTime'', plain DateTime),
       (''logDeviceObjectProperty'', plain (ArrayOf None (plain DeviceObjectPropertyReference))),
       (''loggingType'', plain (enumerated LoggingType)),
       (''logInterval'', plain (Atomic (TUnsigned None None))),
       (''alignIntervals'', plain (Atomic TBoolean)),
       (''intervalOffset'', plain (Atomic (TUnsigned None None))),
       (''trigger'', plain (Atomic TBoolean)),
       (''stopWhenFull'', plain (Atomic TBoolean)),
       (''bufferSize'', plain (Atomic (TUnsigned None None))),
       (''logBuffer'', plain (SequenceOf (plain LogMultipleRecord))),
       (''recordCount'', plain (Atomic (TUnsigned None None))),
       (''totalRecordCount'', plain (Atomic (TUnsigned None None))),
       (''notificationThreshold'', plain (Atomic (TUnsigned None None))),
       (''recordsSinceNotification'', plain (Atomic (TUnsigned None None))),
       (''lastNotifyRecord'', plain (Atomic (TUnsigned None None))),
       (''notificationClass'', plain (Atomic (TUnsigned None None))),
       (''eventEnable'', plain (bits EventTransitionBits)),
       (''ackedTransitions'', plain (bits EventTransitionBits)),
       (''notifyType'', plain (enumerated NotifyType)),
       (''eventTimeStamps'', plain (ArrayOf (Some 3) (plain TimeStamp))),
       (''eventMessageTexts'', plain (ArrayOf (Some 3) (plain (Atomic (TCharacterString 0))))),
       (''eventMessageTextsConfig'', plain (ArrayOf (Some 3) (plain (Atomic (TCharacterString 0))))),
       (''eventDetectionEnable'', plain (Atomic TBoolean)),
       (''eventAlgorithmInhibitRef'', plain ObjectPropertyReference),
       (''eventAlgorithmInhibit'', plain (Atomic TBoolean)),
       (''reliabilityEvaluationInhibit'', plain (Atomic TBoolean))]\<rparr>"

definition TrendLogObject :: object_class where
  "TrendLogObject =
    \<lparr>class_type = object_type ''trendLog'',
     class_required = base_required @
      [''enable'', ''stopWhenFull'', ''bufferSize'', ''logBuffer'', ''recordCount'', ''totalRecordCount'',
       ''loggingType'', ''statusFlags'', ''reliability''],
     class_elements = base_elements @
      [(''statusFlags'', plain (bits StatusFlags)),
       (''eventState'', plain (enumerated EventState)),
       (''reliability'', plain (enumerated Reliability)),
       (''enable'', plain (Atomic TBoolean)),
       (''startTime'', plain DateTime),
       (''stopTime'', plain DateTime),
       (''logDeviceObjectProperty'', plain DeviceObjectPropertyReference),
       (''logInterval'', plain (Atomic (TUnsigned None None))),
       (''covResubscriptionInterval'', plain (Atomic (TUnsigned None None))),
       (''clientCovIncrement'', plain ClientCOV),
       (''stopWhenFull'', plain (Atomic TBoolean)),
       (''bufferSize'', plain (Atomic (TUnsigned None None))),
       (''logBuffer'', plain (SequenceOf (plain LogRecord))),
       (''recordCount'', plain (Atomic (TUnsigned None None))),
       (''totalRecordCount'', plain (Atomic (TUnsigned None None))),
       (''loggingType'', plain (enumerated LoggingType)),
       (''alignIntervals'', plain (Atomic TBoolean)),
       (''intervalOffset'', plain (Atomic (TUnsigned None None))),
       (''trigger'', plain (Atomic TBoolean)),
       (''notificationThreshold'', plain (Atomic (TUnsigned None None))),
       (''recordsSinceNotification'', plain (Atomic (TUnsigned None None))),
       (''lastNotifyRecord'', plain (Atomic (TUnsigned None None))),
       (''notificationClass'', plain (Atomic (TUnsigned None None))),
       (''eventEnable'', plain (bits EventTransitionBits)),
       (''ackedTransitions'', plain (bits EventTransitionBits)),
       (''notifyType'', plain (enumerated NotifyType)),
       (''eventTimeStamps'', plain (ArrayOf (Some 3) (plain TimeStamp))),
       (''eventMessageTexts'', plain (ArrayOf (Some 3) (plain (Atomic (TCharacterString 0))))),
       (''eventMessageTextsConfig'', plain (ArrayOf (Some 3) (plain (Atomic (TCharacterString 0))))),
       (''eventDetectionEnable'', plain (Atomic TBoolean)),
       (''eventAlgorithmInhibitRef'', plain ObjectPropertyReference),
       (''eventAlgorithmInhibit'', plain (Atomic TBoolean)),
       (''reliabilityEvaluationInhibit'', plain (Atomic TBoolean))]\<rparr>"

section \<open>All classes\<close>

text \<open>The registered classes, by name.\<close>

definition object_classes :: "(string \<times> object_class) list" where
  "object_classes =
    [(''AccessCredentialObject'', AccessCredentialObject),
     (''AccessDoorObject'', AccessDoorObject),
     (''AccessPointObject'', AccessPointObject),
     (''AccessRightsObject'', AccessRightsObject),
     (''AccessUserObject'', AccessUserObject),
     (''AccessZoneObject'', AccessZoneObject),
     (''AccumulatorObject'', AccumulatorObject),
     (''AlertEnrollmentObject'', AlertEnrollmentObject),
     (''AnalogInputObject'', AnalogInputObject),
     (''AnalogOutputObject'', AnalogOutputObject),
     (''AnalogValueObject'', AnalogValueObject),
     (''AuditLogObject'', AuditLogObject),
     (''AuditReporterObject'', AuditReporterObject),
     (''AveragingObject'', AveragingObject),
     (''BinaryInputObject'', BinaryInputObject),
     (''BinaryLightingOutputObject'', BinaryLightingOutputObject),
     (''BinaryOutputObject'', BinaryOutputObject),
     (''BinaryValueObject'', BinaryValueObject),
     (''BitStringValueObject'', BitStringValueObject),
     (''CalendarObject'', CalendarObject),
     (''ChannelObject'', ChannelObject),
     (''CharacterStringValueObject'', CharacterStringValueObject),
     (''CommandObject'', CommandObject),
     (''CredentialDataInputObject'', CredentialDataInputObject),
     (''DatePatternValueObject'', DatePatternValueObject),
     (''DateTimePatternValueObject'', DateTimePatternValueObject),
     (''DateTimeValueObject'', DateTimeValueObject),
     (''DateValueObject'', DateValueObject),
     (''DeviceObject'', DeviceObject),
     (''ElevatorGroupObject'', ElevatorGroupObject),
     (''EscalatorObject'', EscalatorObject),
     (''EventEnrollmentObject'', EventEnrollmentObject),
     (''EventLogObject'', EventLogObject),
     (''FileObject'', FileObject),
     (''GlobalGroupObject'', GlobalGroupObject),
     (''GroupObject'', GroupObject),
     (''IntegerValueObject'', IntegerValueObject),
     (''LargeAnalogValueObject'', LargeAnalogValueObject),
     (''LifeSafetyPointObject'', LifeSafetyPointObject),
     (''LifeSafetyZoneObject'', LifeSafetyZoneObject),
     (''LiftObject'', LiftObject),
     (''LightingOutputObject'', LightingOutputObject),
     (''LoadControlObject'', LoadControlObject),
     (''LoopObject'', LoopObject),
     (''MultiStateInputObject'', MultiStateInputObject),
     (''MultiStateOutputObject'', MultiStateOutputObject),
     (''MultiStateValueObject'', MultiStateValueObject),
     (''NetworkPortObject'', NetworkPortObject),
     (''NetworkSecurityObject'', NetworkSecurityObject),
     (''NotificationClassObject'', NotificationClassObject),
     (''NotificationForwarderObject'', NotificationForwarderObject),
     (''OctetStringValueObject'', OctetStringValueObject),
     (''PositiveIntegerValueObject'', PositiveIntegerValueObject),
     (''ProgramObject'', ProgramObject),
     (''PulseConverterObject'', PulseConverterObject),
     (''ScheduleObject'', ScheduleObject),
     (''StagingObject'', StagingObject),
     (''StructuredViewObject'', StructuredViewObject),
     (''TimePatternValueObject'', TimePatternValueObject),
     (''TimeValueObject'', TimeValueObject),
     (''TimerObject'', TimerObject),
     (''TrendLogMultipleObject'', TrendLogMultipleObject),
     (''TrendLogObject'', TrendLogObject)]"

end
