(* ===== verification/Objects.thy ===== *)
theory Objects
  imports ObjectClasses Services Typed
begin

text \<open>
  Objects and their properties: \<^verbatim>\<open>Object\<close> of \<^verbatim>\<open>bacpypes3/object.py\<close> and of
  \<^verbatim>\<open>bacpypes3/local/object.py\<close>, the access methods of elements and arrays
  (\<^verbatim>\<open>primitivedata.py\<close>, \<^verbatim>\<open>constructeddata.py\<close>), commandable objects
  (\<^verbatim>\<open>bacpypes3/local/cmd.py\<close>) and the dictionaries of objects of the application
  (\<^verbatim>\<open>bacpypes3/app.py\<close>). Objects are shared: they are in a store and the dictionaries refer to
  them.
\<close>

section \<open>State\<close>

text \<open>
  An object of a class: the values of its attributes, the private name and identifier, whether
  it has an application, and the functions that monitor a property. An object that is
  commandable has \<^verbatim>\<open>Commandable\<close> as its first base class.
\<close>

record bac_object =
  obj_class :: object_class
  obj_values :: "string \<rightharpoonup> val"
  obj_name :: "chars option"
  obj_id :: "(int \<times> int) option"
  obj_app :: bool
  obj_commandable :: bool
  obj_monitors :: "string \<Rightarrow> nat list"

datatype response =
    SimpleAck
  | ComplexAck "tag list"
  | ErrorResponse int int
  | ErrorSequence "tag list"
  | RejectResponse string

text \<open>\<open>calls\<close> are the calls of monitor functions, with the old and the new value.\<close>

record application =
  objects :: "nat \<Rightarrow> bac_object"
  object_names :: "(chars \<times> nat) list"
  object_ids :: "((int \<times> int) \<times> nat) list"
  device_object :: "nat option"
  calls :: "(nat \<times> val option \<times> val option) list"
  responses :: "response list"

type_synonym 'a app_action = "(application, 'a) action"

definition property_error :: "string \<Rightarrow> py_error" where
  "property_error code = ExecutionError ''property'' code"

definition element_of :: "bac_object \<Rightarrow> string \<rightharpoonup> elem" where
  "element_of ob attr = map_of (class_elements (obj_class ob)) attr"

text \<open>The attribute form of a property identifier; an identifier without a name has none.\<close>

definition property_attr :: "int \<Rightarrow> string option" where
  "property_attr n = map_option fst (List.find (\<lambda>(a, m). m = n) (rev PropertyIdentifier))"

definition update_object :: "nat \<Rightarrow> (bac_object \<Rightarrow> bac_object) \<Rightarrow> unit app_action" where
  "update_object r f = modS (\<lambda>s. s\<lparr>objects := (objects s)(r := f (objects s r))\<rparr>)"

section \<open>Values\<close>

text \<open>
  A value for an element: one of its class, or one that \<open>cast\<close> turns into one. A Null is what
  can be given instead of a value of the class; it is a tuple without items.
\<close>

fun cast_null :: "shape \<Rightarrow> val result" where
  "cast_null (Atomic ty) =
     (case ty of
        TNull \<Rightarrow> Inr (VAtom ANull)
      | TDate \<Rightarrow> Inl ValueError
      | TTime \<Rightarrow> Inl ValueError
      | TObjectIdentifier \<Rightarrow> Inl ValueError
      | _ \<Rightarrow> Inl TypeError)"
| "cast_null (Sequence fs) = Inr (VSequence (map (\<lambda>_. None) fs))"
| "cast_null (Choice fs) = Inr (VChoice [] (VTags []))"
| "cast_null (SequenceOf e) = Inr (VList [])"
| "cast_null (ArrayOf n e) = (if n \<noteq> None \<and> n \<noteq> Some 0 then Inl ValueError else Inr (VList []))"
| "cast_null Any = Inr (VTags [application_tag tn_null []])"
| "cast_null AnyAtomic = Inr (VTags [application_tag tn_null []])"
| "cast_null NameValue = Inl TypeError"

definition cast_value :: "elem \<Rightarrow> val \<Rightarrow> val result" where
  "cast_value e v =
     (if has_type e v then Inr v
      else if v = VAtom ANull then cast_null (shape_of e)
      else Inl TypeError)"

section \<open>Getters and setters\<close>

text \<open>The properties that are functions of a local object.\<close>

definition computed :: "string list" where
  "computed = [''objectName'', ''objectIdentifier'', ''propertyList'', ''statusFlags'']"

definition flag_bit :: "bool \<Rightarrow> int" where "flag_bit b = (if b then 1 else 0)"

definition status_flags :: "bac_object \<Rightarrow> val" where
  "status_flags ob =
     VAtom (ABitString
       [flag_bit (\<exists>v\<in>set_option (obj_values ob ''eventState''). v \<noteq> VAtom (AEnumerated 0)),
        flag_bit (\<exists>v\<in>set_option (obj_values ob ''reliability''). v \<noteq> VAtom (AEnumerated 0)),
        0,
        flag_bit (obj_values ob ''outOfService'' = Some (VAtom (ABoolean True)))])"

definition property_list :: "bac_object \<Rightarrow> val" where
  "property_list ob =
     VList
       (map (\<lambda>(a, e). VAtom (AEnumerated (the (map_of PropertyIdentifier a))))
         (filter (\<lambda>(a, e). a \<in> set computed \<or> obj_values ob a \<noteq> None) (class_elements (obj_class ob))))"

definition get_value :: "bac_object \<Rightarrow> string \<Rightarrow> val option" where
  "get_value ob attr =
     (if attr = ''objectName'' then map_option (\<lambda>n. VAtom (ACharacterString n)) (obj_name ob)
      else if attr = ''objectIdentifier'' then map_option (\<lambda>i. VAtom (AObjectIdentifier i)) (obj_id ob)
      else if attr = ''propertyList'' then Some (property_list ob)
      else if attr = ''statusFlags'' then Some (status_flags ob)
      else obj_values ob attr)"

text \<open>The setters of \<^verbatim>\<open>objectName\<close> and \<^verbatim>\<open>objectIdentifier\<close> keep the dictionaries up to date.\<close>

definition set_object_name :: "nat \<Rightarrow> val \<Rightarrow> unit app_action" where
  "set_object_name r v =
     (case v of
        VAtom (ACharacterString n) \<Rightarrow>
          withS (\<lambda>s.
            let ob = objects s r in
            if \<not> obj_app ob then update_object r (\<lambda>ob. ob\<lparr>obj_name := Some n\<rparr>)
            else if obj_name ob = Some n then retS ()
            else if n \<in> fst ` set (object_names s) then raiseS (property_error ''duplicate-name'')
            else seqS
              [modS (\<lambda>s. s\<lparr>object_names :=
                 (case obj_name ob of None \<Rightarrow> object_names s | Some old \<Rightarrow> AList.delete old (object_names s))\<rparr>),
               update_object r (\<lambda>ob. ob\<lparr>obj_name := Some n\<rparr>),
               modS (\<lambda>s. s\<lparr>object_names := AList.update n r (object_names s)\<rparr>)])
      | _ \<Rightarrow> raiseS TypeError)"

definition set_object_identifier :: "nat \<Rightarrow> val \<Rightarrow> unit app_action" where
  "set_object_identifier r v =
     (case v of
        VAtom (AObjectIdentifier i) \<Rightarrow>
          withS (\<lambda>s.
            let ob = objects s r in
            if \<not> obj_app ob then update_object r (\<lambda>ob. ob\<lparr>obj_id := Some i\<rparr>)
            else if obj_id ob = Some i then retS ()
            else if i \<in> fst ` set (object_ids s) then raiseS (property_error ''duplicate-object-id'')
            else
              (case obj_id ob of
                 None \<Rightarrow> raiseS TypeError
               | Some old \<Rightarrow>
                   if fst i \<noteq> fst old then raiseS (property_error ''value-out-of-range'')
                   else seqS
                     [modS (\<lambda>s. s\<lparr>object_ids := AList.delete old (object_ids s)\<rparr>),
                      update_object r (\<lambda>ob. ob\<lparr>obj_id := Some i\<rparr>),
                      modS (\<lambda>s. s\<lparr>object_ids := AList.update i r (object_ids s)\<rparr>)]))
      | _ \<Rightarrow> raiseS (if v = VAtom ANull then ValueError else TypeError))"

text \<open>
  The setter of a property: a function of the object, or the attribute. Those of
  \<^verbatim>\<open>propertyList\<close> and \<^verbatim>\<open>statusFlags\<close> do nothing.
\<close>

definition put_value :: "nat \<Rightarrow> string \<Rightarrow> val \<Rightarrow> unit app_action" where
  "put_value r attr v = update_object r (\<lambda>ob. ob\<lparr>obj_values := (obj_values ob)(attr \<mapsto> v)\<rparr>)"

definition set_value :: "nat \<Rightarrow> string \<Rightarrow> elem \<Rightarrow> val \<Rightarrow> unit app_action" where
  "set_value r attr e v =
     (if attr = ''objectName'' then set_object_name r v
      else if attr = ''objectIdentifier'' then set_object_identifier r v
      else if attr = ''propertyList'' \<or> attr = ''statusFlags'' then retS ()
      else bindS (liftS (cast_value e v)) (put_value r attr))"

section \<open>Reading and writing\<close>

text \<open>
  Reading gives a value with the class that encodes it: an item of an array, or its length, has
  a class of its own.
\<close>

definition array_read :: "elem \<Rightarrow> val option \<Rightarrow> int option \<Rightarrow> (elem \<times> val option) result" where
  "array_read e value index =
     (case (index, value) of
        (Some i, Some (VList vs)) \<Rightarrow>
          if i < 0 \<or> i > int (length vs) then Inl (property_error ''invalidArrayIndex'')
          else if i = 0 then
            Inr (plain (Atomic (TUnsigned None None)), Some (VAtom (AUnsigned (int (length vs)))))
          else
            (case shape_of e of
               ArrayOf n sub \<Rightarrow> Inr (sub, Some (vs ! nat (i - 1)))
             | _ \<Rightarrow> Inl TypeError)
      | _ \<Rightarrow> Inr (e, value))"

definition is_array :: "elem \<Rightarrow> bool" where
  "is_array e = (case shape_of e of ArrayOf _ _ \<Rightarrow> True | _ \<Rightarrow> False)"

definition object_read_property :: "bac_object \<Rightarrow> int \<Rightarrow> int option \<Rightarrow> (elem \<times> val option) result" where
  "object_read_property ob prop index =
     bindR (need AttributeError (property_attr prop)) (\<lambda>attr.
     bindR (need AttributeError (element_of ob attr)) (\<lambda>e.
       if is_array e then array_read e (get_value ob attr) index
       else if index \<noteq> None then Inl (property_error ''propertyIsNotAnArray'')
       else Inr (e, get_value ob attr)))"

text \<open>
  \<open>is_instance\<close> tells whether a value is one of a class. An item or the length of an array is changed in place and the array is set again. Arrays that
  can grow have a prototype, which only the priority array has.
\<close>

definition array_change :: "(elem \<Rightarrow> val \<Rightarrow> bool) \<Rightarrow> elem \<Rightarrow> val option \<Rightarrow> val \<Rightarrow> int \<Rightarrow> val result" where
  "array_change is_instance e current v i =
     (case (shape_of e, current) of
        (ArrayOf n sub, Some (VList vs)) \<Rightarrow>
          if i = 0 then
            if n \<noteq> None then Inl (property_error ''writeAccessDenied'')
            else
              (case v of
                 VAtom (AUnsigned k) \<Rightarrow>
                   if k < int (length vs) then Inr (VList (take (nat k) vs))
                   else Inl (property_error ''writeAccessDenied'')
               | _ \<Rightarrow> Inl TypeError)
          else if i < 0 \<or> i > int (length vs) then Inl (property_error ''invalidArrayIndex'')
          else if is_instance sub v then Inr (VList (vs[nat (i - 1) := v]))
          else Inl TypeError
      | (ArrayOf n sub, _) \<Rightarrow>
          if i = 0 \<and> n \<noteq> None then Inl (property_error ''writeAccessDenied'')
          else if i < 0 then Inl (property_error ''invalidArrayIndex'')
          else Inl TypeError
      | _ \<Rightarrow> Inl TypeError)"

definition element_write :: "nat \<Rightarrow> string \<Rightarrow> elem \<Rightarrow> val \<Rightarrow> int option \<Rightarrow> int option \<Rightarrow> unit app_action" where
  "element_write r attr e v index priority =
     (if is_array e then
        if priority \<noteq> None then raiseS RuntimeError
        else
          (case index of
             None \<Rightarrow> set_value r attr e v
           | Some i \<Rightarrow>
               withS (\<lambda>s. bindS (liftS (array_change has_type e (get_value (objects s r) attr) v i)) (set_value r attr e)))
      else if index \<noteq> None then raiseS (property_error ''propertyIsNotAnArray'')
      else set_value r attr e v)"

text \<open>The local object compares the value before and after, and calls the monitor functions.\<close>

definition call_monitors :: "nat \<Rightarrow> string \<Rightarrow> val option \<Rightarrow> val option \<Rightarrow> unit app_action" where
  "call_monitors r attr old new =
     modS (\<lambda>s. s\<lparr>calls := calls s @ map (\<lambda>f. (f, old, new)) (obj_monitors (objects s r) attr)\<rparr>)"

definition local_write ::
    "nat \<Rightarrow> string \<Rightarrow> (elem \<Rightarrow> unit app_action) \<Rightarrow> int option \<Rightarrow> unit app_action" where
  "local_write r attr write index =
     withS (\<lambda>s.
       case element_of (objects s r) attr of
         None \<Rightarrow> raiseS AttributeError
       | Some e \<Rightarrow>
           let old = get_value (objects s r) attr in
           bindS (write e) (\<lambda>_. withS (\<lambda>s.
             let new = get_value (objects s r) attr in
             if index \<noteq> None then call_monitors r attr new new
             else if old \<noteq> new then call_monitors r attr old new
             else retS ())))"

text \<open>
  Assignment of an attribute of a local object by the program. The value is cast, also \<^verbatim>\<open>None\<close>:
  a sequence has a value without elements for it.
\<close>

definition cast_none :: "elem \<Rightarrow> val result" where
  "cast_none e =
     (case shape_of e of
        Sequence fs \<Rightarrow> Inr (VSequence (map (\<lambda>_. None) fs))
      | Choice fs \<Rightarrow> Inr (VChoice [] (VTags []))
      | _ \<Rightarrow> Inl TypeError)"

definition local_assign :: "nat \<Rightarrow> string \<Rightarrow> (elem \<Rightarrow> val result) \<Rightarrow> unit app_action" where
  "local_assign r attr cast =
     withS (\<lambda>s.
       case element_of (objects s r) attr of
         None \<Rightarrow> raiseS KeyError
       | Some e \<Rightarrow>
           bindS (liftS (cast e)) (\<lambda>v.
             let old = get_value (objects s r) attr in
             if old = Some v then retS ()
             else seqS [set_value r attr e v, call_monitors r attr old (Some v)]))"

definition local_setattr :: "nat \<Rightarrow> string \<Rightarrow> val \<Rightarrow> unit app_action" where
  "local_setattr r attr v = local_assign r attr (\<lambda>e. cast_value e v)"

section \<open>Commandable objects\<close>

text \<open>
  \<^verbatim>\<open>PriorityValue(value)\<close>: the alternative is the first class of a list that the value is an
  instance of. A Double is also a Real, and its number is kept, as Python's floats are doubles; the name for an object identifier is not that of an
  alternative.
\<close>

definition priority_value :: "val \<Rightarrow> val result" where
  "priority_value v =
     (case v of
        VAtom a \<Rightarrow>
          (case a of
             ANull \<Rightarrow> Inr (VChoice ''null'' v)
           | AReal _ \<Rightarrow> Inr (VChoice ''real'' v)
           | ADouble _ \<Rightarrow> Inr (VChoice ''real'' v)
           | AEnumerated _ \<Rightarrow> Inr (VChoice ''enumerated'' v)
           | AUnsigned _ \<Rightarrow> Inr (VChoice ''unsigned'' v)
           | ABoolean _ \<Rightarrow> Inr (VChoice ''boolean'' v)
           | AInteger _ \<Rightarrow> Inr (VChoice ''integer'' v)
           | ATime _ \<Rightarrow> Inr (VChoice ''time'' v)
           | ACharacterString _ \<Rightarrow> Inr (VChoice ''characterString'' v)
           | AOctetString _ \<Rightarrow> Inr (VChoice ''octetString'' v)
           | ABitString _ \<Rightarrow> Inr (VChoice ''bitString'' v)
           | ADate _ \<Rightarrow> Inr (VChoice ''date'' v)
           | AObjectIdentifier _ \<Rightarrow> Inl AttributeError)
      | VSequence _ \<Rightarrow> Inr (VChoice ''datetime'' v)
      | _ \<Rightarrow> Inl TypeError)"

text \<open>The index and the value of the first item of a priority array that is not null.\<close>

fun commanded :: "nat \<Rightarrow> val list \<Rightarrow> (nat \<times> val) option" where
  "commanded i [] = None"
| "commanded i (pv # pvs) =
     (case pv of VChoice n v \<Rightarrow> if n = ''null'' then commanded (i + 1) pvs else Some (i, v) | _ \<Rightarrow> None)"

definition recalculating :: "nat \<Rightarrow> unit app_action" where
  "recalculating r =
     withS (\<lambda>s.
       case commanded 0 (case obj_values (objects s r) ''priorityArray'' of Some (VList pvs) \<Rightarrow> pvs | _ \<Rightarrow> []) of
         Some (i, v) \<Rightarrow> seqS
           [local_setattr r ''currentCommandPriority'' (VChoice ''unsigned'' (VAtom (AUnsigned (int i + 1)))),
            local_setattr r ''presentValue'' v]
       | None \<Rightarrow> seqS
           [local_setattr r ''currentCommandPriority'' (VChoice ''null'' (VAtom ANull)),
            (case obj_values (objects s r) ''relinquishDefault'' of
               None \<Rightarrow> local_assign r ''presentValue'' cast_none
             | Some v \<Rightarrow> local_setattr r ''presentValue'' v)])"

text \<open>
  Setting an item of the priority array of a commandable object computes the present value
  again, before the array itself is set.
\<close>

definition priority_array_write :: "nat \<Rightarrow> val \<Rightarrow> int \<Rightarrow> elem \<Rightarrow> unit app_action" where
  "priority_array_write r pv i e =
     withS (\<lambda>s.
       bindS (liftS (array_change (\<lambda>_ _. True) e (obj_values (objects s r) ''priorityArray'') pv i)) (\<lambda>pvs.
       seqS [put_value r ''priorityArray'' pvs, recalculating r, put_value r ''priorityArray'' pvs]))"

definition command_present_value :: "nat \<Rightarrow> val \<Rightarrow> int option \<Rightarrow> unit app_action" where
  "command_present_value r v priority =
     (let i = (case priority of None \<Rightarrow> 16 | Some i \<Rightarrow> i) in
      bindS (liftS (priority_value v)) (\<lambda>pv.
        local_write r ''priorityArray'' (priority_array_write r pv i) (Some i)))"

definition object_write_property ::
    "nat \<Rightarrow> int \<Rightarrow> val \<Rightarrow> int option \<Rightarrow> int option \<Rightarrow> unit app_action" where
  "object_write_property r prop v index priority =
     withS (\<lambda>s.
       case property_attr prop of
         None \<Rightarrow> raiseS AttributeError
       | Some attr \<Rightarrow>
           if obj_commandable (objects s r) then
             if element_of (objects s r) attr = None then raiseS AttributeError
             else if attr = ''presentValue'' then command_present_value r v priority
             else if attr = ''priorityArray'' then raiseS (property_error ''writeAccessDenied'')
             else local_write r attr (\<lambda>e. element_write r attr e v index priority) index
           else local_write r attr (\<lambda>e. element_write r attr e v index priority) index)"

end
