(* ===== verification/ObjectDictionary.thy ===== *)
theory ObjectDictionary
  imports Objects
begin

text \<open>
  The dictionaries of objects of \<^verbatim>\<open>Application\<close> (\<^verbatim>\<open>bacpypes3/app.py\<close>): adding, deleting and
  finding objects, and the invariant that the dictionaries agree with the names and identifiers
  of the objects, which the property writes can change.
\<close>

section \<open>The dictionaries of objects\<close>

text \<open>
  \<^verbatim>\<open>add_object\<close> and \<^verbatim>\<open>delete_object\<close>, without what follows for network ports, schedules and
  trend logs. A second device object is refused after it has been put into the dictionaries.
\<close>

definition is_device :: "bac_object \<Rightarrow> bool" where
  "is_device ob \<longleftrightarrow> class_type (obj_class ob) = object_type ''device''"

definition add_object :: "nat \<Rightarrow> unit app_action" where
  "add_object r =
     withS (\<lambda>s.
       let ob = objects s r in
       case (obj_name ob, obj_id ob) of
         (Some n, Some i) \<Rightarrow>
           if n = [] then raiseS RuntimeError
           else if n \<in> fst ` set (object_names s) then raiseS RuntimeError
           else if i \<in> fst ` set (object_ids s) then raiseS RuntimeError
           else seqS
             [modS (\<lambda>s. s\<lparr>object_names := AList.update n r (object_names s),
                object_ids := AList.update i r (object_ids s)\<rparr>),
              update_object r (\<lambda>ob. ob\<lparr>obj_app := True\<rparr>),
              if is_device ob then
                if device_object s \<noteq> None then raiseS RuntimeError
                else modS (\<lambda>s. s\<lparr>device_object := Some r\<rparr>)
              else retS ()]
       | _ \<Rightarrow> raiseS RuntimeError)"

definition delete_object :: "nat \<Rightarrow> unit app_action" where
  "delete_object r =
     withS (\<lambda>s.
       if device_object s = Some r then raiseS RuntimeError
       else
         (case obj_name (objects s r) of
            None \<Rightarrow> raiseS KeyError
          | Some n \<Rightarrow>
              if n \<notin> fst ` set (object_names s) then raiseS KeyError
              else bindS (modS (\<lambda>s. s\<lparr>object_names := AList.delete n (object_names s)\<rparr>)) (\<lambda>_.
                case obj_id (objects s r) of
                  None \<Rightarrow> raiseS KeyError
                | Some i \<Rightarrow>
                    if i \<notin> fst ` set (object_ids s) then raiseS KeyError
                    else seqS
                      [modS (\<lambda>s. s\<lparr>object_ids := AList.delete i (object_ids s)\<rparr>),
                       update_object r (\<lambda>ob. ob\<lparr>obj_app := False\<rparr>)])))"

definition get_object_id :: "application \<Rightarrow> int \<times> int \<rightharpoonup> nat" where
  "get_object_id s i = map_of (object_ids s) i"

definition get_object_name :: "application \<Rightarrow> chars \<rightharpoonup> nat" where
  "get_object_name s n = map_of (object_names s) n"

text \<open>Both dictionaries have exactly the objects of the application, under their own name and identifier.\<close>

definition agree :: "(bac_object \<Rightarrow> 'k option) \<Rightarrow> (nat \<Rightarrow> bac_object) \<Rightarrow> ('k \<times> nat) list \<Rightarrow> bool" where
  "agree key obs ns \<longleftrightarrow> distinct (map fst ns) \<and>
     (\<forall>n r. map_of ns n = Some r \<longleftrightarrow> obj_app (obs r) \<and> key (obs r) = Some n)"

definition dictionaries_ok :: "application \<Rightarrow> bool" where
  "dictionaries_ok s \<longleftrightarrow>
     agree obj_name (objects s) (object_names s) \<and> agree obj_id (objects s) (object_ids s) \<and>
     (\<forall>r. obj_app (objects s r) \<longrightarrow> obj_name (objects s r) \<noteq> None \<and> obj_id (objects s r) \<noteq> None)"

lemma keys_None: "n \<notin> fst ` set ns \<longleftrightarrow> map_of ns n = None"
  by (simp add: map_of_eq_None_iff)

lemma agreeD:
  "agree key obs ns \<Longrightarrow> obj_app (obs r) \<Longrightarrow> key (obs r) = Some n \<Longrightarrow> map_of ns n = Some r"
  "agree key obs ns \<Longrightarrow> map_of ns n = Some r \<Longrightarrow> obj_app (obs r) \<and> key (obs r) = Some n"
  by (auto simp: agree_def simp del: map_of_eq_Some_iff)

lemma agree_distinct: "agree key obs ns \<Longrightarrow> distinct (map fst ns)"
  by (simp add: agree_def)

lemma agree_other:
  assumes "agree key obs ns" "obj_app ob = obj_app (obs r)" "key ob = key (obs r)"
  shows "agree key (obs(r := ob)) ns"
  using assms by (simp add: agree_def)

lemma agree_unattached:
  assumes "agree key obs ns" "\<not> obj_app (obs r)" "\<not> obj_app ob"
  shows "agree key (obs(r := ob)) ns"
  using assms by (auto simp: agree_def simp del: map_of_eq_Some_iff)

lemma agree_update:
  assumes "agree key obs ns" "map_of ns n = None" "key (obs r) = Some old \<or> \<not> obj_app (obs r)"
    "obj_app ob" "key ob = Some n"
  shows "agree key (obs(r := ob)) (AList.update n r (if obj_app (obs r) then AList.delete old ns else ns))"
proof -
  have other: "map_of ns m = Some q \<longleftrightarrow> obj_app (obs q) \<and> key (obs q) = Some m" for m q
    using assms(1) agreeD by metis
  have "map_of (AList.delete old ns) m = Some q \<longleftrightarrow> q \<noteq> r \<and> obj_app (obs q) \<and> key (obs q) = Some m"
    if "obj_app (obs r)" for m q
    using other assms(3) that by (auto simp: delete_conv' simp del: map_of_eq_Some_iff) (metis option.inject)+
  moreover have "\<not> (obj_app (obs q) \<and> key (obs q) = Some n)" for q using other [of n q] assms(2) by simp
  ultimately show ?thesis using assms agree_distinct [OF assms(1)] other
    by (auto simp: agree_def update_conv' distinct_update distinct_delete simp del: map_of_eq_Some_iff)
qed

lemma agree_delete:
  assumes "agree key obs ns" "obj_app (obs r)" "key (obs r) = Some n" "\<not> obj_app ob"
  shows "agree key (obs(r := ob)) (AList.delete n ns)"
proof -
  have other: "map_of ns m = Some q \<longleftrightarrow> obj_app (obs q) \<and> key (obs q) = Some m" for m q
    using assms(1) agreeD by metis
  have "map_of (AList.delete n ns) m = Some q \<longleftrightarrow> q \<noteq> r \<and> obj_app (obs q) \<and> key (obs q) = Some m" for m q
    using other assms(2,3) by (auto simp: delete_conv' simp del: map_of_eq_Some_iff) (metis option.inject)+
  then show ?thesis using assms agree_distinct [OF assms(1)]
    by (auto simp: agree_def distinct_delete simp del: map_of_eq_Some_iff)
qed

subsection \<open>The operations keep the dictionaries\<close>

lemma keeps_values:
  assumes "\<And>ob. obj_app (f ob) = obj_app ob \<and> obj_name (f ob) = obj_name ob \<and> obj_id (f ob) = obj_id ob"
  shows "keeps dictionaries_ok (update_object r f)"
  unfolding update_object_def
  by (rule keeps_mod) (auto simp: dictionaries_ok_def assms intro!: agree_other)

lemma keeps_put: "keeps dictionaries_ok (put_value r a v)"
  unfolding put_value_def by (rule keeps_values) simp

lemma keeps_calls: "keeps dictionaries_ok (call_monitors r a x y)"
  unfolding call_monitors_def by (rule keeps_mod) (simp add: dictionaries_ok_def)

lemma run_seq3: "seqS [modS f, update_object r g, modS h] s =
    (Inr (), h ((f s)\<lparr>objects := (objects (f s))(r := g (objects (f s) r))\<rparr>))"
  by (simp add: act_simps bindS_Inr update_object_def)

lemma keeps_set_name: "keeps dictionaries_ok (set_object_name r v)"
proof -
  have "dictionaries_ok (snd (set_object_name r (VAtom (ACharacterString n)) s))" if ok: "dictionaries_ok s" for n s
  proof (cases "obj_app (objects s r)")
    case False
    then show ?thesis using ok
      by (auto simp: set_object_name_def act_simps Let_def update_object_def dictionaries_ok_def intro!: agree_unattached)
  next
    case True
    then obtain old where old: "obj_name (objects s r) = Some old" using ok by (auto simp: dictionaries_ok_def)
    show ?thesis
    proof (cases "old = n \<or> n \<in> fst ` set (object_names s)")
      case True
      then show ?thesis using \<open>obj_app (objects s r)\<close> old ok
        by (auto simp: set_object_name_def act_simps Let_def)
    next
      case new: False
      have "agree obj_name ((objects s)(r := (objects s r)\<lparr>obj_name := Some n\<rparr>))
          (AList.update n r (AList.delete old (object_names s)))"
        using agree_update [of obj_name "objects s" "object_names s" n r old "(objects s r)\<lparr>obj_name := Some n\<rparr>"]
          ok True old new by (simp add: dictionaries_ok_def keys_None)
      then show ?thesis using True old new ok
        unfolding set_object_name_def
        by (auto simp: act_basic(5) Let_def run_seq3 dictionaries_ok_def intro!: agree_other simp del: seqS.simps)
    qed
  qed
  then show ?thesis by (auto simp: keeps_def set_object_name_def act_simps split: val.splits atom.splits)
qed

lemma keeps_set_identifier: "keeps dictionaries_ok (set_object_identifier r v)"
proof -
  have "dictionaries_ok (snd (set_object_identifier r (VAtom (AObjectIdentifier n)) s))" if ok: "dictionaries_ok s" for n s
  proof (cases "obj_app (objects s r)")
    case False
    then show ?thesis using ok
      by (auto simp: set_object_identifier_def act_simps Let_def update_object_def dictionaries_ok_def intro!: agree_unattached)
  next
    case True
    then obtain old where old: "obj_id (objects s r) = Some old" using ok by (auto simp: dictionaries_ok_def)
    show ?thesis
    proof (cases "old = n \<or> n \<in> fst ` set (object_ids s) \<or> fst n \<noteq> fst old")
      case True
      then show ?thesis using \<open>obj_app (objects s r)\<close> old ok
        by (auto simp: set_object_identifier_def act_simps Let_def)
    next
      case new: False
      have "agree obj_id ((objects s)(r := (objects s r)\<lparr>obj_id := Some n\<rparr>))
          (AList.update n r (AList.delete old (object_ids s)))"
        using agree_update [of obj_id "objects s" "object_ids s" n r old "(objects s r)\<lparr>obj_id := Some n\<rparr>"]
          ok True old new by (simp add: dictionaries_ok_def keys_None)
      then show ?thesis using True old new ok
        unfolding set_object_identifier_def
        by (auto simp: act_basic(5) Let_def run_seq3 dictionaries_ok_def intro!: agree_other simp del: seqS.simps)
    qed
  qed
  then show ?thesis by (auto simp: keeps_def set_object_identifier_def act_simps split: val.splits atom.splits)
qed

lemma keeps_set_value: "keeps dictionaries_ok (set_value r a e v)"
  unfolding set_value_def
  by (intro keeps_if keeps_set_name keeps_set_identifier keeps_basic keeps_lift keeps_put)

lemma keeps_element_write: "keeps dictionaries_ok (element_write r a e v index priority)"
  unfolding element_write_def by (intro keeps_if keeps_option keeps_basic keeps_set_value keeps_with keeps_lift)

lemma keeps_local_assign: "keeps dictionaries_ok (local_assign r a f)"
  unfolding local_assign_def Let_def
  by (intro keeps_with keeps_option keeps_basic keeps_lift keeps_if keeps_Cons keeps_set_value keeps_calls)

lemma keeps_local_write:
  "(\<And>e. keeps dictionaries_ok (write e)) \<Longrightarrow> keeps dictionaries_ok (local_write r a write index)"
  unfolding local_write_def Let_def
  by (intro keeps_with keeps_option keeps_basic keeps_bind keeps_if keeps_calls)

lemma keeps_recalculating: "keeps dictionaries_ok (recalculating r)"
  unfolding recalculating_def local_setattr_def
  by (intro keeps_with keeps_option keeps_pair keeps_Cons keeps_basic keeps_local_assign)

lemma keeps_write_property: "keeps dictionaries_ok (object_write_property r prop v index priority)"
  unfolding object_write_property_def command_present_value_def priority_array_write_def Let_def
  by (intro keeps_with keeps_option keeps_if keeps_basic keeps_lift keeps_local_write keeps_element_write keeps_Cons
      keeps_put keeps_recalculating)

lemma keeps_add_object: "keeps dictionaries_ok (add_object r)"
proof -
  have "dictionaries_ok (snd (add_object r s))" if ok: "dictionaries_ok s" for s
  proof (cases "\<exists>n i. obj_name (objects s r) = Some n \<and> obj_id (objects s r) = Some i \<and> n \<noteq> [] \<and>
      n \<notin> fst ` set (object_names s) \<and> i \<notin> fst ` set (object_ids s)")
    case True
    then obtain n i where ni: "obj_name (objects s r) = Some n" "obj_id (objects s r) = Some i" "n \<noteq> []"
      "n \<notin> fst ` set (object_names s)" "i \<notin> fst ` set (object_ids s)" by blast
    have new: "\<not> obj_app (objects s r)"
      using ok ni agreeD(1) [of obj_name "objects s" "object_names s" r n] by (auto simp: dictionaries_ok_def keys_None)
    let ?ob = "(objects s r)\<lparr>obj_app := True\<rparr>"
    let ?s = "s\<lparr>objects := (objects s)(r := ?ob), object_names := AList.update n r (object_names s),
      object_ids := AList.update i r (object_ids s)\<rparr>"
    have "agree obj_name ((objects s)(r := ?ob)) (AList.update n r (object_names s))"
      using agree_update [of obj_name "objects s" "object_names s" n r _ ?ob] ok ni new
      by (simp add: dictionaries_ok_def keys_None)
    moreover have "agree obj_id ((objects s)(r := ?ob)) (AList.update i r (object_ids s))"
      using agree_update [of obj_id "objects s" "object_ids s" i r _ ?ob] ok ni new
      by (simp add: dictionaries_ok_def keys_None)
    ultimately have s: "dictionaries_ok ?s" using ok ni by (auto simp: dictionaries_ok_def)
    have "snd (add_object r s) = ?s \<or> snd (add_object r s) = ?s\<lparr>device_object := Some r\<rparr>"
      using ni by (simp add: add_object_def act_simps Let_def bindS_Inr update_object_def)
    then show ?thesis using s by (auto simp: dictionaries_ok_def)
  next
    case False
    then have "snd (add_object r s) = s"
      by (auto simp: add_object_def act_simps Let_def split: option.splits)
    then show ?thesis using ok by simp
  qed
  then show ?thesis by (simp add: keeps_def)
qed

lemma keeps_delete_object:
  assumes "dictionaries_ok s" "obj_app (objects s r)"
  shows "dictionaries_ok (snd (delete_object r s))"
proof (cases "device_object s = Some r")
  case True
  then show ?thesis using assms by (simp add: delete_object_def act_simps)
next
  case False
  obtain n i where ni: "obj_name (objects s r) = Some n" "obj_id (objects s r) = Some i"
    using assms by (auto simp: dictionaries_ok_def)
  have keys: "n \<in> fst ` set (object_names s)" "i \<in> fst ` set (object_ids s)"
    using assms ni agreeD(1) [of obj_name "objects s" _ r] agreeD(1) [of obj_id "objects s" _ r] keys_None
    by (metis dictionaries_ok_def option.discI)+
  let ?ob = "(objects s r)\<lparr>obj_app := False\<rparr>"
  have "agree obj_name ((objects s)(r := ?ob)) (AList.delete n (object_names s))"
    "agree obj_id ((objects s)(r := ?ob)) (AList.delete i (object_ids s))"
    using assms ni by (auto simp: dictionaries_ok_def intro: agree_delete)
  then show ?thesis using assms False ni keys
    by (auto simp: delete_object_def act_simps bindS_Inr run_seq3 update_object_def dictionaries_ok_def)
qed

section \<open>Reachable states\<close>

text \<open>
  An application that starts without objects, whose objects are made by the program and are not
  attached until they are added.
\<close>

definition fresh_application :: "(nat \<Rightarrow> bac_object) \<Rightarrow> application" where
  "fresh_application obs =
     \<lparr>objects = \<lambda>r. (obs r)\<lparr>obj_app := False\<rparr>, object_names = [], object_ids = [], device_object = None,
      calls = [], responses = []\<rparr>"

inductive app_reachable :: "application \<Rightarrow> bool" where
  fresh: "app_reachable (fresh_application obs)"
| added: "app_reachable s \<Longrightarrow> app_reachable (snd (add_object r s))"
| deleted: "app_reachable s \<Longrightarrow> obj_app (objects s r) \<Longrightarrow> app_reachable (snd (delete_object r s))"
| written: "app_reachable s \<Longrightarrow> app_reachable (snd (object_write_property r prop v index priority s))"
| assigned: "app_reachable s \<Longrightarrow> app_reachable (snd (local_setattr r attr v s))"

lemma reachable_dictionaries: "app_reachable s \<Longrightarrow> dictionaries_ok s"
proof (induction rule: app_reachable.induct)
  case (fresh obs)
  then show ?case by (simp add: fresh_application_def dictionaries_ok_def agree_def)
next
  case (assigned s r attr v)
  show ?case unfolding local_setattr_def using assigned.IH by (rule keepsD [OF keeps_local_assign])
qed (blast intro: keepsD [OF keeps_add_object] keepsD [OF keeps_write_property] keeps_delete_object)+

text \<open>
  Property C6. In every state that an application reaches by adding and deleting objects and by
  writes to their properties, names and identifiers included, an object is found under a name
  exactly if it is one of the application's and has that name now, and the same holds of
  identifiers. So no two objects have the same name or identifier, also when a write fails half
  way.
\<close>

theorem dictionaries_agree:
  assumes "app_reachable s"
  shows "(get_object_name s n = Some r \<longleftrightarrow> obj_app (objects s r) \<and> obj_name (objects s r) = Some n) \<and>
    (get_object_id s i = Some r \<longleftrightarrow> obj_app (objects s r) \<and> obj_id (objects s r) = Some i)"
  using reachable_dictionaries [OF assms] agreeD [of obj_name "objects s" "object_names s"]
    agreeD [of obj_id "objects s" "object_ids s"]
  unfolding dictionaries_ok_def get_object_name_def get_object_id_def by blast

definition example_value :: "chars \<Rightarrow> int \<Rightarrow> bac_object" where
  "example_value name i =
     \<lparr>obj_class = AnalogValueObject, obj_values = Map.empty, obj_name = Some name, obj_id = Some (2, i),
      obj_app = False, obj_commandable = False, obj_monitors = \<lambda>_. []\<rparr>"

lemma object_identifier_attr: "property_attr 75 = Some ''objectIdentifier''"
  by code_simp

lemma element_of_identifier [simp]: "obj_class ob = AnalogValueObject \<Longrightarrow>
    element_of ob ''objectIdentifier'' = Some (plain (Atomic TObjectIdentifier))"
  by (simp add: element_of_def AnalogValueObject_def base_elements_def)

lemma analog_value_type: "class_type AnalogValueObject = 2" "object_type ''device'' = 8"
  by code_simp+

lemma analog_value_no_device [simp]: "obj_class ob = AnalogValueObject \<Longrightarrow> \<not> is_device ob"
  by (simp add: is_device_def analog_value_type)

theorem dictionaries_agree_witness:
  "get_object_id (snd (object_write_property 0 75 (VAtom (AObjectIdentifier (2, 5))) None None
     (snd (add_object 0 (fresh_application (\<lambda>r. example_value [65] 1)))))) (2, 5) = Some 0"
proof -
  let ?s = "snd (object_write_property 0 75 (VAtom (AObjectIdentifier (2, 5))) None None
     (snd (add_object 0 (fresh_application (\<lambda>r. example_value [65] 1)))))"
  have "app_reachable ?s" by (intro app_reachable.intros)
  moreover have "obj_app (objects ?s 0)" "obj_id (objects ?s 0) = Some (2, 5)"
    by (simp_all add: object_write_property_def object_identifier_attr local_write_def element_write_def is_array_def
        set_value_def set_object_identifier_def add_object_def fresh_application_def example_value_def
        Let_def act_simps bindS_def update_object_def call_monitors_def get_value_def)
  ultimately show ?thesis using dictionaries_agree [of ?s _ 0] by blast
qed

end
