(* ===== verification/ObjectServices.thy ===== *)
theory ObjectServices
  imports ObjectDictionary
begin

text \<open>
  The services that read and write properties (\<^verbatim>\<open>bacpypes3/service/object.py\<close>) and what the
  application does with a request and with the exceptions of the function that serves it
  (\<^verbatim>\<open>Application.indication\<close> of \<^verbatim>\<open>bacpypes3/app.py\<close>).
\<close>

section \<open>Names of enumerations\<close>

text \<open>\<^verbatim>\<open>attr_to_asn1\<close>: a run of three or more capitals keeps the first and the last one.\<close>

definition is_upper :: "char \<Rightarrow> bool" where
  "is_upper c \<longleftrightarrow> (let n = (of_char c :: nat) in 65 \<le> n \<and> n \<le> 90)"

definition is_lower :: "char \<Rightarrow> bool" where
  "is_lower c \<longleftrightarrow> (let n = (of_char c :: nat) in 97 \<le> n \<and> n \<le> 122)"

definition is_digit :: "char \<Rightarrow> bool" where
  "is_digit c \<longleftrightarrow> (let n = (of_char c :: nat) in 48 \<le> n \<and> n \<le> 57)"

definition to_lower :: "char \<Rightarrow> char" where
  "to_lower c = (if is_upper c then char_of (of_char c + (32 :: nat)) else c)"

function unupper :: "string \<Rightarrow> string" where
  "unupper [] = []"
| "unupper (c # cs) =
     (if is_upper c then
        let run = takeWhile is_upper cs; rest = dropWhile is_upper cs in
        (if 2 \<le> length run \<and> rest \<noteq> [] \<and> is_lower (hd rest) then c # map to_lower (butlast run) @ [last run]
         else c # run) @ unupper rest
      else c # unupper cs)"
  by pat_completeness auto
termination
  by (relation "measure length") (auto simp: le_imp_less_Suc length_dropWhile_le)

text \<open>The capitals at the end keep the first.\<close>

definition trailing_uppers :: "string \<Rightarrow> string" where
  "trailing_uppers s =
     (let run = rev (takeWhile is_upper (rev s)) in
      if 2 \<le> length run then take (length s - length run) s @ hd run # map to_lower (tl run) else s)"

text \<open>
  A run of capitals after a letter or digit is a word, if something follows; at the end the last
  capital is what follows.
\<close>

function wordsplit :: "string \<Rightarrow> string" where
  "wordsplit [] = []"
| "wordsplit (c # cs) =
     (let run = takeWhile is_upper cs; rest = dropWhile is_upper cs in
      if (is_lower c \<or> is_digit c) \<and> run \<noteq> [] \<and> (rest \<noteq> [] \<or> 2 \<le> length run) then
        (if rest \<noteq> [] then c # CHR ''-'' # map to_lower run @ wordsplit rest
         else c # CHR ''-'' # map to_lower (butlast run) @ [last run])
      else c # wordsplit cs)"
  by pat_completeness auto
termination
  by (relation "measure length") (auto simp: le_imp_less_Suc length_dropWhile_le)

fun replace_in :: "string \<Rightarrow> string \<Rightarrow> nat \<Rightarrow> string \<Rightarrow> string" where
  "replace_in old new k [] = []"
| "replace_in old new k (c # cs) =
     (if k > 0 then replace_in old new (k - 1) cs
      else if take (length old) (c # cs) = old then new @ replace_in old new (length old - 1) cs
      else c # replace_in old new 0 cs)"

definition attr_to_asn1 :: "string \<Rightarrow> string" where
  "attr_to_asn1 k =
     replace_in ''-ipudp-'' ''-ip-udp-'' 0 (replace_in ''-ipnat-'' ''-ip-nat-'' 0
       (wordsplit (trailing_uppers (unupper k))))"

text \<open>The number of a name in either form.\<close>

definition enum_number :: "names \<Rightarrow> string \<Rightarrow> int result" where
  "enum_number t name =
     need ValueError (map_option snd (List.find (\<lambda>(a, n). a = name \<or> attr_to_asn1 a = name) (rev t)))"

section \<open>Requests\<close>

definition respond :: "response result \<Rightarrow> unit app_action" where
  "respond r = bindS (liftS r) (\<lambda>x. modS (\<lambda>s. s\<lparr>responses := responses s @ [x]\<rparr>))"

text \<open>The instance 4194303 of the device object is the device object, whatever its number.\<close>

definition wildcard :: "application \<Rightarrow> int \<times> int \<Rightarrow> int \<times> int" where
  "wildcard s oid =
     (if oid = (8, 4194303) then
        (case device_object s of
           None \<Rightarrow> oid
         | Some d \<Rightarrow> (case obj_id (objects s d) of None \<Rightarrow> oid | Some i \<Rightarrow> i))
      else oid)"

definition object_error :: "string \<Rightarrow> py_error" where
  "object_error code = ExecutionError ''object'' code"

definition unsigned_value :: "int \<Rightarrow> val" where "unsigned_value i = VAtom (AUnsigned i)"
definition enum_value :: "int \<Rightarrow> val" where "enum_value i = VAtom (AEnumerated i)"
definition object_value :: "int \<times> int \<Rightarrow> val" where "object_value i = VAtom (AObjectIdentifier i)"

subsection \<open>ReadProperty\<close>

definition read_property_ack :: "int \<times> int \<Rightarrow> int \<Rightarrow> int option \<Rightarrow> elem \<Rightarrow> val \<Rightarrow> response result" where
  "read_property_ack oid prop index e v =
     bindR (any_cast_in (Some 3) e v) (\<lambda>us.
     bindR (encode (plain (Sequence ReadPropertyACK))
       (VSequence [Some (object_value oid), Some (enum_value prop), map_option unsigned_value index, Some (VTags us)]))
       (\<lambda>ts. Inr (ComplexAck ts)))"

text \<open>A property that the class does not have, or that has no value, is unknown.\<close>

definition read_known :: "bac_object \<Rightarrow> int \<Rightarrow> int option \<Rightarrow> (elem \<times> val) result" where
  "read_known ob prop index =
     (case object_read_property ob prop index of
        Inl e \<Rightarrow> Inl (if e = AttributeError then property_error ''unknownProperty'' else e)
      | Inr (e, None) \<Rightarrow> Inl (property_error ''unknownProperty'')
      | Inr (e, Some v) \<Rightarrow> Inr (e, v))"

definition do_read_property :: "int \<times> int \<Rightarrow> int \<Rightarrow> int option \<Rightarrow> unit app_action" where
  "do_read_property objid prop index =
     withS (\<lambda>s.
       let oid = wildcard s objid in
       case get_object_id s oid of
         None \<Rightarrow> raiseS (object_error ''unknownObject'')
       | Some r \<Rightarrow>
           bindS (liftS (read_known (objects s r) prop index)) (\<lambda>(e, v).
             respond (read_property_ack oid prop index e v)))"

subsection \<open>WriteProperty\<close>

definition property_type :: "bac_object \<Rightarrow> int \<Rightarrow> elem option" where
  "property_type ob prop = Option.bind (property_attr prop) (element_of ob)"

text \<open>The class of what is written: an array, an item of it or its length.\<close>

definition written_type :: "elem \<Rightarrow> int option \<Rightarrow> elem" where
  "written_type e index =
     (case (shape_of e, index) of
        (ArrayOf n sub, Some i) \<Rightarrow> if i = 0 then plain (Atomic (TUnsigned None None)) else sub
      | _ \<Rightarrow> e)"

text \<open>An object name has at least one character.\<close>

definition written_value :: "int \<Rightarrow> int \<Rightarrow> elem \<Rightarrow> int option \<Rightarrow> int option \<Rightarrow> tag list \<Rightarrow> val result" where
  "written_value c prop e index priority us =
     bindR (any_cast_out (Some c) (written_type e index) (priority \<noteq> None) us) (\<lambda>v.
       if property_attr prop = Some ''objectName'' \<and> v = VAtom (ACharacterString []) then Inl ValueError else Inr v)"

definition do_write_property ::
    "int \<times> int \<Rightarrow> int \<Rightarrow> int option \<Rightarrow> tag list \<Rightarrow> int option \<Rightarrow> unit app_action" where
  "do_write_property oid prop index us priority =
     withS (\<lambda>s.
       case get_object_id s oid of
         None \<Rightarrow> raiseS (object_error ''unknownObject'')
       | Some r \<Rightarrow>
           (case property_type (objects s r) prop of
              None \<Rightarrow> raiseS TypeError
            | Some e \<Rightarrow>
                bindS (liftS (written_value 3 prop e index priority us)) (\<lambda>v.
                bindS (object_write_property r prop v index priority) (\<lambda>_. respond (Inr SimpleAck)))))"

subsection \<open>ReadPropertyMultiple\<close>

text \<open>An element of a result has the value or the error; an exception of another kind is passed on.\<close>

definition error_type :: "string \<Rightarrow> string \<Rightarrow> val result" where
  "error_type c d =
     bindR (enum_number ErrorClass c) (\<lambda>m. bindR (enum_number ErrorCode d) (\<lambda>n.
       Inr (VSequence [Some (enum_value m), Some (enum_value n)])))"

definition result_element :: "int \<Rightarrow> int option \<Rightarrow> val \<Rightarrow> val" where
  "result_element prop index choice =
     VSequence [Some (enum_value prop), map_option unsigned_value index, Some choice]"

definition read_to_choice :: "bac_object option \<Rightarrow> int \<Rightarrow> int option \<Rightarrow> val result" where
  "read_to_choice ob prop index =
     (let failed = (\<lambda>c d. bindR (error_type c d) (\<lambda>t. Inr (VChoice ''propertyAccessError'' t))) in
      case ob of
        None \<Rightarrow> failed ''object'' ''unknownObject''
      | Some ob \<Rightarrow>
          (case read_known ob prop index of
             Inr (e, v) \<Rightarrow> bindR (any_cast_in (Some 4) e v) (\<lambda>us. Inr (VChoice ''propertyValue'' (VTags us)))
           | Inl (ExecutionError c d) \<Rightarrow> failed c d
           | Inl e \<Rightarrow> Inl e))"

definition is_access_error :: "val \<Rightarrow> bool" where
  "is_access_error v = (case v of VChoice n _ \<Rightarrow> n = ''propertyAccessError'' | _ \<Rightarrow> False)"

text \<open>
  A list of results, of which the one that raises ends the rest. \<open>set_order\<close> is the order in
  which a set of names is iterated.
\<close>

fun mapR :: "('a \<Rightarrow> 'b result) \<Rightarrow> 'a list \<Rightarrow> 'b list result" where
  "mapR f [] = Inr []"
| "mapR f (x # xs) = bindR (f x) (\<lambda>y. bindR (mapR f xs) (\<lambda>ys. Inr (y # ys)))"

definition property_set :: "bac_object \<Rightarrow> int \<Rightarrow> string list" where
  "property_set ob prop =
     (let names = map fst (class_elements (obj_class ob));
          required = set (class_required (obj_class ob)) in
      if property_attr prop = Some ''all'' then filter (\<lambda>a. a \<noteq> ''propertyList'') names
      else if property_attr prop = Some ''required'' then filter (\<lambda>a. a \<in> required \<and> a \<noteq> ''propertyList'') names
      else filter (\<lambda>a. a \<notin> required) names)"

definition is_group :: "int \<Rightarrow> bool" where
  "is_group prop \<longleftrightarrow> property_attr prop \<in> {Some ''all'', Some ''required'', Some ''optional''}"

definition read_group :: "(string list \<Rightarrow> string list) \<Rightarrow> bac_object \<Rightarrow> int \<Rightarrow> val list result" where
  "read_group set_order ob prop =
     (let names = set_order (property_set ob prop) in
      if length names = 1 then
        bindR (read_to_choice (Some ob) prop None) (\<lambda>v. Inr [result_element prop None v])
      else
        bindR (mapR (\<lambda>a.
          bindR (need ValueError (map_of PropertyIdentifier a)) (\<lambda>n.
          bindR (read_to_choice (Some ob) n None) (\<lambda>v. Inr (n, v))))
          (filter (\<lambda>a. a \<in> set computed \<or> obj_values ob a \<noteq> None) names)) (\<lambda>rs.
        Inr (map (\<lambda>(n, v). result_element n None v) (filter (\<lambda>(n, v). \<not> is_access_error v) rs))))"

definition read_reference ::
    "(string list \<Rightarrow> string list) \<Rightarrow> bac_object option \<Rightarrow> int \<times> int option \<Rightarrow> val list result" where
  "read_reference set_order ob ref =
     (case ref of (prop, index) \<Rightarrow>
        if is_group prop then
          (case ob of None \<Rightarrow> Inl AttributeError | Some ob \<Rightarrow> read_group set_order ob prop)
        else bindR (read_to_choice ob prop index) (\<lambda>v. Inr [result_element prop index v]))"

type_synonym read_spec = "(int \<times> int) \<times> (int \<times> int option) list"

definition find_object :: "application \<Rightarrow> int \<times> int \<Rightarrow> nat option" where
  "find_object s objid = get_object_id s (wildcard s objid)"

definition read_access_result :: "(string list \<Rightarrow> string list) \<Rightarrow> application \<Rightarrow> read_spec \<Rightarrow> val result" where
  "read_access_result set_order s spec =
     (case spec of (objid, refs) \<Rightarrow>
        bindR (mapR (read_reference set_order (map_option (objects s) (find_object s objid))) refs) (\<lambda>rs.
          Inr (VSequence [Some (object_value (wildcard s objid)), Some (VList (concat rs))])))"

definition do_read_property_multiple ::
    "(string list \<Rightarrow> string list) \<Rightarrow> read_spec list \<Rightarrow> unit app_action" where
  "do_read_property_multiple set_order specs =
     withS (\<lambda>s.
       if list_all (\<lambda>(objid, refs). find_object s objid = None) specs then raiseS (object_error ''unknown-object'')
       else
         bindS (liftS (mapR (read_access_result set_order s) specs)) (\<lambda>rs.
           respond (bindR (encode (plain (Sequence ReadPropertyMultipleACK)) (VSequence [Some (VList rs)]))
             (\<lambda>ts. Inr (ComplexAck ts)))))"

subsection \<open>WritePropertyMultiple\<close>

record write_value =
  write_prop :: int
  write_index :: "int option"
  write_tags :: "tag list"
  write_priority :: "int option"

type_synonym write_spec = "(int \<times> int) \<times> write_value list"

text \<open>An error of the object becomes the error that names the failed write.\<close>

definition failed_write :: "int \<times> int \<Rightarrow> write_value \<Rightarrow> py_error \<Rightarrow> py_error" where
  "failed_write oid w e =
     (case e of
        ExecutionError c d \<Rightarrow> WriteMultipleFailed c d oid (Some (write_prop w)) (write_index w)
      | _ \<Rightarrow> e)"

definition on_error :: "(py_error \<Rightarrow> py_error) \<Rightarrow> 'a app_action \<Rightarrow> 'a app_action" where
  "on_error f m s = (case m s of (Inl e, s') \<Rightarrow> (Inl (f e), s') | r \<Rightarrow> r)"

definition write_one :: "int \<times> int \<Rightarrow> nat \<Rightarrow> write_value \<Rightarrow> unit app_action" where
  "write_one oid r w =
     withS (\<lambda>s.
       case property_type (objects s r) (write_prop w) of
         None \<Rightarrow> raiseS (WriteMultipleFailed ''property'' ''unknownProperty'' oid (Some (write_prop w)) (write_index w))
       | Some e \<Rightarrow>
           on_error (failed_write oid w)
             (bindS (liftS (written_value 2 (write_prop w) e (write_index w) (write_priority w) (write_tags w))) (\<lambda>v.
                object_write_property r (write_prop w) v (write_index w) (write_priority w))))"

definition write_object :: "write_spec \<Rightarrow> unit app_action" where
  "write_object spec =
     (case spec of (objid, ws) \<Rightarrow>
        withS (\<lambda>s.
          let oid = wildcard s objid in
          case get_object_id s oid of
            None \<Rightarrow> raiseS (WriteMultipleFailed ''object'' ''unknownObject'' oid None None)
          | Some r \<Rightarrow> seqS (map (write_one oid r) ws)))"

definition do_write_property_multiple :: "write_spec list \<Rightarrow> unit app_action" where
  "do_write_property_multiple specs =
     withS (\<lambda>s.
       if list_all (\<lambda>(objid, ws). find_object s objid = None) specs then raiseS (object_error ''unknown-object'')
       else bindS (seqS (map write_object specs)) (\<lambda>_. respond (Inr SimpleAck)))"

section \<open>The application\<close>

text \<open>
  What is sent for an exception. Those of a kind that has no reason or code of its own are an
  operational problem of the device. \<open>NoReturn\<close> is not an exception.
\<close>

definition error_response :: "py_error \<Rightarrow> response result" where
  "error_response e =
     (let device = bindR (enum_number ErrorClass ''device'') (\<lambda>c.
            bindR (enum_number ErrorCode ''operationalProblem'') (\<lambda>d. Inr (ErrorResponse c d))) in
      case e of
        InvalidTag \<Rightarrow> Inr (RejectResponse ''invalidTag'')
      | MissingRequiredParameter \<Rightarrow> Inr (RejectResponse ''missingRequiredParameter'')
      | UnrecognizedService \<Rightarrow> Inr (RejectResponse ''unrecognizedService'')
      | ExecutionError c d \<Rightarrow>
          bindR (enum_number ErrorClass c) (\<lambda>c. bindR (enum_number ErrorCode d) (\<lambda>d. Inr (ErrorResponse c d)))
      | WriteMultipleFailed c d oid prop index \<Rightarrow>
          bindR (error_type c d) (\<lambda>t.
          bindR (encode (plain (Sequence WritePropertyMultipleError))
            (VSequence [Some t, Some (VSequence
              [Some (object_value oid), map_option enum_value prop, map_option unsigned_value index])]))
            (\<lambda>ts. Inr (ErrorSequence ts)))
      | NoReturn \<Rightarrow> Inl NoReturn
      | _ \<Rightarrow> device)"

text \<open>The function that serves a request, if there is one.\<close>

definition indication :: "bool \<Rightarrow> unit app_action option \<Rightarrow> unit app_action" where
  "indication confirmed helper s =
     (case helper of
        None \<Rightarrow> if confirmed then respond (error_response UnrecognizedService) s else (Inr (), s)
      | Some h \<Rightarrow>
          (case h s of
             (Inr (), s) \<Rightarrow> (Inr (), s)
           | (Inl e, s) \<Rightarrow> if confirmed then respond (error_response e) s else (Inr (), s)))"

end
