(* ===== verification/Answers.thy ===== *)
theory Answers
  imports Exceptions ObjectServices
begin

text \<open>
  Every request that reads or writes properties is answered by one response. An action of an
  object is \<open>silent\<close>: it sends nothing and raises only exceptions that have an answer; a request
  function \<open>answers\<close> once or raises such an exception.
\<close>

section \<open>Every request is answered once\<close>

definition known :: "py_error \<Rightarrow> bool" where
  "known e \<longleftrightarrow> (case error_response e of Inr _ \<Rightarrow> True | Inl _ \<Rightarrow> False)"

lemma enum_number_defined:
  assumes "list_ex (\<lambda>(a, n). a = name \<or> attr_to_asn1 a = name) t"
  shows "\<exists>n. enum_number t name = Inr n"
proof -
  have "List.find (\<lambda>(a, n). a = name \<or> attr_to_asn1 a = name) (rev t) \<noteq> None"
    using assms by (auto simp: find_None_iff list_ex_iff)
  then show ?thesis by (auto simp: enum_number_def)
qed

lemma enum_number_name: "list_ex (\<lambda>(a, n). a = name) t \<Longrightarrow> \<exists>n. enum_number t name = Inr n"
  by (rule enum_number_defined) (auto simp: list_ex_iff)

lemma error_class_names:
  "\<exists>n. enum_number ErrorClass ''device'' = Inr n" "\<exists>n. enum_number ErrorClass ''property'' = Inr n"
  "\<exists>n. enum_number ErrorClass ''object'' = Inr n"
  by (rule enum_number_name; simp add: ErrorClass_def)+

lemma error_code_names:
  "\<exists>n. enum_number ErrorCode ''operationalProblem'' = Inr n" "\<exists>n. enum_number ErrorCode ''propertyIsNotAnArray'' = Inr n"
  "\<exists>n. enum_number ErrorCode ''invalidArrayIndex'' = Inr n" "\<exists>n. enum_number ErrorCode ''writeAccessDenied'' = Inr n"
  "\<exists>n. enum_number ErrorCode ''unknownProperty'' = Inr n" "\<exists>n. enum_number ErrorCode ''unknownObject'' = Inr n"
  by (rule enum_number_name; simp add: ErrorCode_def)+

lemma hyphenated_names:
  "attr_to_asn1 ''duplicateName'' = ''duplicate-name''" "attr_to_asn1 ''duplicateObjectId'' = ''duplicate-object-id''"
  "attr_to_asn1 ''valueOutOfRange'' = ''value-out-of-range''" "attr_to_asn1 ''unknownObject'' = ''unknown-object''"
  by code_simp+

lemma enum_number_hyphen:
  "attr_to_asn1 a = name \<Longrightarrow> list_ex (\<lambda>(b, n). b = a) t \<Longrightarrow> \<exists>n. enum_number t name = Inr n"
  by (rule enum_number_defined) (auto simp: list_ex_iff)

lemma error_code_hyphens:
  "\<exists>n. enum_number ErrorCode ''duplicate-name'' = Inr n" "\<exists>n. enum_number ErrorCode ''duplicate-object-id'' = Inr n"
  "\<exists>n. enum_number ErrorCode ''value-out-of-range'' = Inr n" "\<exists>n. enum_number ErrorCode ''unknown-object'' = Inr n"
  by (rule enum_number_hyphen, rule hyphenated_names, simp add: ErrorCode_def)+

lemmas error_names = error_class_names error_code_names error_code_hyphens

lemma known_execution:
  "\<exists>m. enum_number ErrorClass c = Inr m \<Longrightarrow> \<exists>n. enum_number ErrorCode d = Inr n \<Longrightarrow> known (ExecutionError c d)"
  by (auto simp: known_def error_response_def)

lemma known_plain: "plain_error e \<Longrightarrow> e \<noteq> NoReturn \<Longrightarrow> known e"
  using error_class_names(1) error_code_names(1) by (cases e) (auto simp: known_def error_response_def)

lemma known_property_errors:
  "list_all (\<lambda>c. known (property_error c)) [''propertyIsNotAnArray'', ''invalidArrayIndex'', ''writeAccessDenied'',
     ''unknownProperty'', ''duplicate-name'', ''duplicate-object-id'', ''value-out-of-range'']"
  by (simp add: property_error_def known_execution error_names)

lemma known_object_errors: "known (object_error ''unknownObject'')" "known (object_error ''unknown-object'')"
  by (simp_all add: object_error_def known_execution error_names)

lemmas known_errors [simp] = known_property_errors [simplified] known_object_errors

definition knownR :: "'a result \<Rightarrow> bool" where
  "knownR r \<longleftrightarrow> (\<forall>e. r = Inl e \<longrightarrow> known e)"

lemma knownR_basic: "knownR (Inr x)" "known e \<Longrightarrow> knownR (Inl e)"
  by (simp_all add: knownR_def)

lemma knownR_bind: "knownR m \<Longrightarrow> (\<And>x. m = Inr x \<Longrightarrow> knownR (f x)) \<Longrightarrow> knownR (bindR m f)"
  by (auto simp: knownR_def bindR_eq_Inl_iff)

lemma known_coded: "codedR r \<Longrightarrow> knownR r"
  by (simp add: codedR_def knownR_def known_plain)

lemma known_simple [simp]:
  "known TypeError" "known ValueError" "known RuntimeError" "known AttributeError" "known KeyError" "known InvalidTag"
  by (simp_all add: known_plain)

definition classes_ok :: "application \<Rightarrow> bool" where
  "classes_ok s \<longleftrightarrow> (\<forall>r. items_consume_fields (class_elements (obj_class (objects s r))))"

text \<open>An action that sends nothing, and raises only what has an answer.\<close>

definition silent :: "'a app_action \<Rightarrow> bool" where
  "silent m \<longleftrightarrow> (\<forall>s. classes_ok s \<longrightarrow>
     classes_ok (snd (m s)) \<and> responses (snd (m s)) = responses s \<and> knownR (fst (m s)))"

text \<open>An action that sends one response, unless it raises.\<close>

definition answers :: "unit app_action \<Rightarrow> bool" where
  "answers m \<longleftrightarrow> (\<forall>s. classes_ok s \<longrightarrow>
     (case m s of
        (Inr _, t) \<Rightarrow> \<exists>x. responses t = responses s @ [x]
      | (Inl e, t) \<Rightarrow> responses t = responses s \<and> known e))"

lemma silent_basic: "silent (retS x)" "known e \<Longrightarrow> silent (raiseS e)" "silent (seqS [])"
  by (simp_all add: silent_def act_simps knownR_basic)

lemma silent_bind:
  assumes "silent m" "\<And>x. silent (f x)"
  shows "silent (bindS m f)"
  unfolding silent_def
proof (intro allI impI)
  fix s assume ok: "classes_ok s"
  obtain r t where m: "m s = (r, t)" by fastforce
  then have t: "classes_ok t" "responses t = responses s" "knownR r" using assms(1) ok by (auto simp: silent_def dest!: spec [of _ s])
  show "classes_ok (snd (bindS m f s)) \<and> responses (snd (bindS m f s)) = responses s \<and> knownR (fst (bindS m f s))"
    using t m assms(2) by (cases r) (auto simp: bindS_def silent_def knownR_def)
qed

lemma silent_lift: "knownR r \<Longrightarrow> (\<And>x. r = Inr x \<Longrightarrow> silent (f x)) \<Longrightarrow> silent (bindS (liftS r) f)"
  by (cases r) (simp_all add: silent_def act_simps bindS_def knownR_def)

lemma silent_with: "(\<And>s. classes_ok s \<Longrightarrow> silent (f s)) \<Longrightarrow> silent (withS f)"
  by (simp add: silent_def act_simps)

lemma silent_option:
  "(z = None \<Longrightarrow> silent m) \<Longrightarrow> (\<And>v. z = Some v \<Longrightarrow> silent (f v)) \<Longrightarrow> silent (case z of None \<Rightarrow> m | Some v \<Rightarrow> f v)"
  by (cases z) simp_all

lemma silent_pair: "(\<And>x y. z = (x, y) \<Longrightarrow> silent (f x y)) \<Longrightarrow> silent (case z of (x, y) \<Rightarrow> f x y)"
  by (cases z) simp

lemma silent_if: "(b \<Longrightarrow> silent m) \<Longrightarrow> (\<not> b \<Longrightarrow> silent m') \<Longrightarrow> silent (if b then m else m')"
  by simp

lemma silent_Cons: "silent m \<Longrightarrow> silent (seqS ms) \<Longrightarrow> silent (seqS (m # ms))"
  by (simp add: silent_bind)

lemma silent_map: "(\<And>x. x \<in> set xs \<Longrightarrow> silent (f x)) \<Longrightarrow> silent (seqS (map f xs))"
  by (induction xs) (auto intro: silent_basic silent_bind)

lemma silent_update:
  "(\<And>ob. obj_class (f ob) = obj_class ob) \<Longrightarrow> silent (update_object r f)"
  by (auto simp: silent_def update_object_def act_simps classes_ok_def knownR_basic)

lemma silent_mod:
  "(\<And>s. objects (f s) = objects s \<and> responses (f s) = responses s) \<Longrightarrow> silent (modS f)"
  by (simp add: silent_def act_simps classes_ok_def knownR_basic)

lemmas silent_rules = silent_lift silent_basic silent_with silent_bind silent_Cons silent_map silent_if silent_option silent_pair

subsection \<open>Writing is silent\<close>

lemma silent_put: "silent (put_value r a v)"
  unfolding put_value_def by (rule silent_update) simp

lemma silent_calls: "silent (call_monitors r a x y)"
  unfolding call_monitors_def by (rule silent_mod) simp

lemma silent_retS: "silent (retS x)" by (rule silent_basic)

lemma silent_set_name: "silent (set_object_name r v)"
  unfolding set_object_name_def Let_def
  by (cases v; simp add: silent_basic; rename_tac a; case_tac a; simp add: silent_basic)
    (intro silent_retS silent_rules silent_update silent_mod; simp add: silent_basic)

lemma silent_set_identifier: "silent (set_object_identifier r v)"
  unfolding set_object_identifier_def Let_def
  by (cases v; simp add: silent_basic; rename_tac a; case_tac a; simp add: silent_basic)
    (intro silent_retS silent_rules silent_update silent_mod; simp add: silent_basic)

lemma known_cast: "knownR (cast_value e v)" "knownR (cast_none e)"
  by (cases "shape_of e"; auto simp: cast_value_def cast_none_def knownR_def split: atom_type.splits if_splits)+

lemma silent_set_value: "silent (set_value r a e v)"
  unfolding set_value_def
  by (intro silent_if silent_set_name silent_set_identifier silent_basic silent_lift known_cast silent_put)

lemma known_array_change: "knownR (array_change p e w v i)"
  unfolding array_change_def knownR_def
  by (auto split: shape.splits option.splits val.splits atom.splits if_splits)

lemma silent_element_write: "silent (element_write r a e v index priority)"
  unfolding element_write_def
  by (intro silent_if silent_option silent_basic silent_set_value silent_with silent_lift known_array_change) simp_all

lemma silent_local_assign: "(\<And>e. knownR (f e)) \<Longrightarrow> silent (local_assign r a f)"
  unfolding local_assign_def Let_def
  by (intro silent_with silent_option silent_basic silent_lift silent_if silent_Cons silent_set_value silent_calls) simp_all

lemma silent_local_write: "(\<And>e. silent (write e)) \<Longrightarrow> silent (local_write r a write index)"
  unfolding local_write_def Let_def
  by (intro silent_with silent_option silent_basic silent_bind silent_if silent_calls) simp_all

lemma silent_recalculating: "silent (recalculating r)"
  unfolding recalculating_def local_setattr_def
  by (intro silent_with silent_option silent_pair silent_Cons silent_basic silent_local_assign known_cast)

lemma known_priority_value: "knownR (priority_value v)"
  by (auto simp: priority_value_def knownR_def split: val.splits atom.splits)

lemma silent_write_property: "silent (object_write_property r prop v index priority)"
  unfolding object_write_property_def command_present_value_def priority_array_write_def Let_def
  by (intro silent_with silent_option silent_if silent_basic silent_lift silent_local_write silent_element_write silent_Cons
      silent_put silent_recalculating known_array_change known_priority_value) simp_all

subsection \<open>Reading answers\<close>

lemma consume_fields: "items_consume_fields fs \<Longrightarrow> map_of fs n = Some e \<Longrightarrow> items_consume e"
  by (induction fs) (auto split: if_splits)

lemma classes_element: "classes_ok s \<Longrightarrow> element_of (objects s r) a = Some e \<Longrightarrow> items_consume e"
  by (auto simp: classes_ok_def element_of_def intro: consume_fields)

lemma known_read: "knownR (object_read_property ob prop index)"
  unfolding object_read_property_def array_read_def need_def
  by (intro knownR_bind) (auto simp: knownR_def Let_def split: option.splits val.splits shape.splits if_splits)

lemma known_read_known: "knownR (read_known ob prop index)"
  using known_read [of ob "prop" index]
  by (auto simp: read_known_def knownR_def split: sum.splits option.splits)

lemma known_ack: "knownR (read_property_ack oid prop index e v)"
  unfolding read_property_ack_def by (intro knownR_bind known_coded coded_cast_in coded_encode knownR_basic)

lemma known_error_type: "known (ExecutionError c d) \<Longrightarrow> knownR (error_type c d)"
  by (auto simp: known_def error_response_def error_type_def knownR_def bindR_def split: sum.splits)

lemma known_object_unknown: "known (ExecutionError ''object'' ''unknownObject'')"
  using known_object_errors(1) by (simp add: object_error_def)

lemma known_choice: "knownR (read_to_choice ob prop index)"
proof (cases ob)
  case None
  then show ?thesis
    by (auto simp: read_to_choice_def intro!: knownR_bind known_error_type known_object_unknown knownR_basic)
next
  case (Some b)
  show ?thesis
  proof (cases "read_known b prop index")
    case (Inl e)
    then have e: "known e" using known_read_known [of b "prop" index] by (simp add: knownR_def)
    then have "knownR (Inl e)" for e' by (rule knownR_basic)
    then show ?thesis using Some Inl e
      by (cases e) (simp_all add: read_to_choice_def knownR_bind known_error_type knownR_basic)
  next
    case (Inr x)
    then show ?thesis using Some
      by (cases x) (simp add: read_to_choice_def knownR_bind known_coded coded_cast_in knownR_basic)
  qed
qed

lemma knownR_map: "(\<And>x. knownR (f x)) \<Longrightarrow> knownR (mapR f xs)"
  by (induction xs) (auto intro!: knownR_bind knownR_basic)

lemma known_reference: "knownR (read_reference ord ob ref)"
  unfolding read_reference_def read_group_def Let_def need_def
  by (auto split: prod.splits option.splits intro!: knownR_bind knownR_map known_choice knownR_basic)

lemma known_access_result: "knownR (read_access_result ord s spec)"
  unfolding read_access_result_def by (auto split: prod.splits intro!: knownR_bind knownR_map known_reference knownR_basic)

subsection \<open>Writing\<close>

lemma cast_out_returns:
  assumes "items_consume e"
  shows "any_cast_out c e null us \<noteq> Inl NoReturn"
proof -
  have "returns (decode e)" "returns (decode (plain (Atomic TNull)))"
    using assms by (simp_all add: returns_decode(1) del: decode.simps)
  then have "returns (bindS (open_context c) (\<lambda>_.
       bindS (withS (\<lambda>us. case tag_list_peek us of
           None \<Rightarrow> if null then raiseS AttributeError else decode e
         | Some t \<Rightarrow>
             if null \<and> tag_class t = Application \<and> tag_number t = tn_null then decode (plain (Atomic TNull))
             else decode e)) (\<lambda>v.
       withS (\<lambda>us. bindS (close_context c (tag_list_peek us)) (\<lambda>_. retS v)))))"
    by (auto intro!: returns_bind returns_with returns_basic returns_open split: option.splits simp del: decode.simps)
  then show ?thesis by (simp add: any_cast_out_def returns_def)
qed

lemma known_cast_out: "items_consume e \<Longrightarrow> knownR (any_cast_out c e null us)"
  using cast_out_returns plain_cast_out by (auto simp: knownR_def plainR_def intro!: known_plain)

lemma written_type_consumes: "items_consume e \<Longrightarrow> items_consume (written_type e index)"
proof (cases e)
  case (Elem c opt s)
  then show "items_consume e \<Longrightarrow> items_consume (written_type e index)"
    by (cases s) (simp_all add: written_type_def split: option.split)
qed

lemma known_written_value: "items_consume e \<Longrightarrow> knownR (written_value c p e index priority us)"
  unfolding written_value_def
  by (intro knownR_bind known_cast_out written_type_consumes) (auto intro: knownR_basic)

lemma property_type_consumes: "classes_ok s \<Longrightarrow> property_type (objects s r) p = Some e \<Longrightarrow> items_consume e"
  by (auto simp: property_type_def bind_eq_Some_conv dest: classes_element)

subsection \<open>Requests\<close>

lemma answers_respond: "knownR x \<Longrightarrow> answers (respond x)"
  by (cases x) (auto simp: answers_def respond_def act_simps bindS_def knownR_def)

lemma answers_bind:
  assumes "silent m" "\<And>x. answers (f x)"
  shows "answers (bindS m f)"
  unfolding answers_def
proof (intro allI impI)
  fix s assume ok: "classes_ok s"
  obtain r t where m: "m s = (r, t)" by fastforce
  then have t: "classes_ok t" "responses t = responses s" "knownR r"
    using assms(1) ok by (auto simp: silent_def dest!: spec [of _ s])
  show "case bindS m f s of (Inl e, t) \<Rightarrow> responses t = responses s \<and> known e
      | (Inr _, t) \<Rightarrow> \<exists>x. responses t = responses s @ [x]"
  proof (cases r)
    case (Inr x)
    have "case f x t of (Inl e, u) \<Rightarrow> responses u = responses t \<and> known e
        | (Inr _, u) \<Rightarrow> \<exists>x. responses u = responses t @ [x]"
      using assms(2) [of x] t(1) by (simp add: answers_def)
    then show ?thesis using m Inr unfolding t(2) by (simp add: bindS_def)
  qed (use t m in \<open>simp add: bindS_def knownR_def\<close>)
qed

lemma answers_lift: "knownR r \<Longrightarrow> (\<And>x. r = Inr x \<Longrightarrow> answers (f x)) \<Longrightarrow> answers (bindS (liftS r) f)"
  by (cases r) (simp_all add: answers_def act_simps bindS_def knownR_def)

lemma answers_raise: "known e \<Longrightarrow> answers (raiseS e)"
  by (simp add: answers_def act_simps)

lemma answers_with: "(\<And>s. classes_ok s \<Longrightarrow> answers (f s)) \<Longrightarrow> answers (withS f)"
  by (simp add: answers_def act_simps)

lemma answers_read: "answers (do_read_property oid p index)"
  unfolding do_read_property_def Let_def
  by (intro answers_with)
    (auto intro!: answers_raise answers_lift answers_respond known_read_known known_ack split: option.split prod.split)

lemma answers_option:
  "(z = None \<Longrightarrow> answers m) \<Longrightarrow> (\<And>v. z = Some v \<Longrightarrow> answers (f v)) \<Longrightarrow> answers (case z of None \<Rightarrow> m | Some v \<Rightarrow> f v)"
  by (cases z) simp_all

lemma answers_write: "answers (do_write_property oid p index us priority)"
  unfolding do_write_property_def
  by (intro answers_with answers_option answers_raise answers_lift known_written_value
      answers_bind [OF silent_write_property] answers_respond knownR_basic property_type_consumes) simp_all

lemma known_multiple: "knownR (bindR (encode e v) (\<lambda>ts. Inr (ComplexAck ts)))"
  by (intro knownR_bind known_coded coded_encode knownR_basic)

lemma answers_read_multiple: "answers (do_read_property_multiple ord specs)"
proof -
  have "answers (bindS (liftS (mapR (read_access_result ord s) specs)) (\<lambda>rs.
      respond (bindR (encode (plain (Sequence ReadPropertyMultipleACK)) (VSequence [Some (VList rs)]))
        (\<lambda>ts. Inr (ComplexAck ts)))))" for s
    by (intro answers_lift knownR_map known_access_result answers_respond known_multiple)
  then show ?thesis
    unfolding do_read_property_multiple_def by (intro answers_with) (simp add: answers_raise)
qed


subsection \<open>Writing several properties\<close>

definition octet4 :: "int \<Rightarrow> bool" where
  "octet4 n \<longleftrightarrow> 0 \<le> n \<and> n < 2 ^ 32"

text \<open>
  A failed write of \<open>WritePropertyMultiple\<close> is named by object, property and index. It has no
  encoding when the object does not exist, for then no property is named, or when one of the three
  does not fit into four octets.
\<close>

definition encodable :: "int \<times> int \<Rightarrow> bool" where
  "encodable oid \<longleftrightarrow> 0 \<le> object_identifier_int oid \<and> object_identifier_int oid < 2 ^ 32"

fun unsendable :: "py_error \<Rightarrow> bool" where
  "unsendable (WriteMultipleFailed c d oid p i) \<longleftrightarrow>
     \<not> encodable oid \<or> pred_option (\<lambda>i. \<not> octet4 i) i \<and> i \<noteq> None \<or>
     (case p of None \<Rightarrow> c = ''object'' \<and> d = ''unknownObject'' | Some p \<Rightarrow> \<not> octet4 p)"
| "unsendable _ \<longleftrightarrow> False"

definition sendable :: "int \<times> int \<Rightarrow> write_value \<Rightarrow> bool" where
  "sendable oid w \<longleftrightarrow> encodable oid \<and> octet4 (write_prop w) \<and> pred_option octet4 (write_index w)"

lemma error_numbers:
  "list_all (\<lambda>(a, n). octet4 n) ErrorClass" "list_all (\<lambda>(a, n). octet4 n) ErrorCode"
  by (simp_all add: ErrorClass_def ErrorCode_def octet4_def)

lemma enum_number_octets:
  assumes "enum_number t name = Inr n" "list_all (\<lambda>(a, n). octet4 n) t"
  shows "octet4 n"
proof -
  obtain a where "List.find (\<lambda>(a, n). a = name \<or> attr_to_asn1 a = name) (rev t) = Some (a, n)"
    using assms(1) by (auto simp: enum_number_def need_def split: option.splits)
  then have "(a, n) \<in> set (rev t)" by (auto simp: find_Some_iff simp del: set_rev) (metis length_rev nth_mem)+
  then show ?thesis using assms(2) by (auto simp: list_all_iff)
qed

lemma known_failed_write:
  assumes "sendable oid w" "known e"
  shows "known (failed_write oid w e)"
proof (cases e)
  case (ExecutionError c d)
  then obtain m n where mn: "enum_number ErrorClass c = Inr m" "enum_number ErrorCode d = Inr n"
    using assms(2) by (auto simp: known_def error_response_def bindR_def split: sum.splits)
  have "octet4 m" "octet4 n" using enum_number_octets mn error_numbers by blast+
  moreover obtain us where "object_identifier_to_data oid = Inr us"
    using assms(1) by (auto simp: sendable_def encodable_def object_identifier_to_data_def)
  ultimately show ?thesis using assms(1) mn ExecutionError
    by (cases "write_index w")
      (simp_all add: known_def failed_write_def error_response_def error_type_def WritePropertyMultipleError_def
        ErrorType_def ObjectPropertyReference_def enum_value_def object_value_def unsigned_value_def sendable_def
        octet4_def enumerated_def atom_encode_def atom_encoders unsigned_to_data_def)
qed (use assms in \<open>simp_all add: failed_write_def\<close>)

lemma not_sendable: "\<not> sendable oid w \<Longrightarrow> unsendable (WriteMultipleFailed c d oid (Some (write_prop w)) (write_index w))"
  by (cases "write_index w") (auto simp: sendable_def)

lemma failed_write_sent: "known e \<Longrightarrow> known (failed_write oid w e) \<or> unsendable (failed_write oid w e)"
proof (cases "sendable oid w")
  case False
  then show "known e \<Longrightarrow> ?thesis" using not_sendable [OF False] by (cases e) (simp_all add: failed_write_def)
qed (simp add: known_failed_write)

lemma unsendable_unanswered:
  assumes "unsendable e"
  shows "\<exists>x. error_response e = Inl x"
proof -
  obtain c d oid p i where e: "e = WriteMultipleFailed c d oid p i" using assms by (cases e) auto
  show ?thesis
  proof (cases "error_type c d")
    case (Inr x)
    then obtain m n where mn: "enum_number ErrorClass c = Inr m" "enum_number ErrorCode d = Inr n"
      "x = VSequence [Some (enum_value m), Some (enum_value n)]"
      by (auto simp: error_type_def bindR_eq_Inr_iff)
    have "octet4 m" "octet4 n" using enum_number_octets mn error_numbers by blast+
    then show ?thesis using assms mn Inr
      by (cases p; cases i; cases "0 \<le> object_identifier_int oid \<and> object_identifier_int oid < 2 ^ 32")
        (auto simp: e Let_def error_response_def error_type_def WritePropertyMultipleError_def
          ErrorType_def ObjectPropertyReference_def enum_value_def object_value_def unsigned_value_def
          octet4_def enumerated_def atom_encode_def atom_encoders unsigned_to_data_def encodable_def
          object_identifier_to_data_def)
  qed (simp add: e error_response_def)
qed

text \<open>Of the exceptions without an answer only those of \<open>xs\<close> are allowed.\<close>

definition silent_but :: "(py_error \<Rightarrow> bool) \<Rightarrow> 'a app_action \<Rightarrow> bool" where
  "silent_but xs m \<longleftrightarrow> (\<forall>s. classes_ok s \<longrightarrow>
     classes_ok (snd (m s)) \<and> responses (snd (m s)) = responses s \<and> (\<forall>e. fst (m s) = Inl e \<longrightarrow> known e \<or> xs e))"

lemma silent_but_bind:
  assumes "silent_but xs m" "\<And>x. silent_but xs (f x)"
  shows "silent_but xs (bindS m f)"
  unfolding silent_but_def
proof (intro allI impI)
  fix s assume ok: "classes_ok s"
  obtain r t where m: "m s = (r, t)" by fastforce
  then have t: "classes_ok t" "responses t = responses s" "\<forall>e. r = Inl e \<longrightarrow> known e \<or> xs e"
    using assms(1) ok by (auto simp: silent_but_def dest!: spec [of _ s])
  show "classes_ok (snd (bindS m f s)) \<and> responses (snd (bindS m f s)) = responses s \<and>
      (\<forall>e. fst (bindS m f s) = Inl e \<longrightarrow> known e \<or> xs e)"
    using t m assms(2) by (cases r) (auto simp: bindS_def silent_but_def)
qed

lemma silent_but_silent: "silent m \<Longrightarrow> silent_but xs m"
  by (auto simp: silent_def silent_but_def knownR_def)

lemma silent_but_seq: "(\<And>m. m \<in> set ms \<Longrightarrow> silent_but xs m) \<Longrightarrow> silent_but xs (seqS ms)"
  by (induction ms) (auto intro: silent_but_bind silent_but_silent silent_basic)

lemma silent_but_with: "(\<And>s. classes_ok s \<Longrightarrow> silent_but xs (f s)) \<Longrightarrow> silent_but xs (withS f)"
  by (simp add: silent_but_def act_simps)

lemma silent_but_raise: "known e \<or> xs e \<Longrightarrow> silent_but xs (raiseS e)"
  by (auto simp: silent_but_def act_simps)

lemma silent_but_option:
  "(z = None \<Longrightarrow> silent_but xs m) \<Longrightarrow> (\<And>v. z = Some v \<Longrightarrow> silent_but xs (f v)) \<Longrightarrow>
    silent_but xs (case z of None \<Rightarrow> m | Some v \<Rightarrow> f v)"
  by (cases z) simp_all

lemma silent_but_on_error:
  assumes "silent m" "\<And>e. known e \<Longrightarrow> known (f e) \<or> xs (f e)"
  shows "silent_but xs (on_error f m)"
  unfolding silent_but_def
proof (intro allI impI)
  fix s assume ok: "classes_ok s"
  obtain r t where m: "m s = (r, t)" by fastforce
  then have "classes_ok t" "responses t = responses s" "knownR r"
    using assms(1) ok by (auto simp: silent_def dest!: spec [of _ s])
  then show "classes_ok (snd (on_error f m s)) \<and> responses (snd (on_error f m s)) = responses s \<and>
      (\<forall>e. fst (on_error f m s) = Inl e \<longrightarrow> known e \<or> xs e)"
    using m assms(2) by (cases r) (simp_all add: on_error_def knownR_def)
qed

lemma write_unknown_sent:
  fixes w :: write_value
  shows
  "known (WriteMultipleFailed ''property'' ''unknownProperty'' oid (Some (write_prop w)) (write_index w)) \<or>
   unsendable (WriteMultipleFailed ''property'' ''unknownProperty'' oid (Some (write_prop w)) (write_index w))"
  using failed_write_sent [of "ExecutionError ''property'' ''unknownProperty''" oid w]
    known_execution [OF error_class_names(2) error_code_names(5)]
  by (simp add: failed_write_def)

lemma silent_write_one: "silent_but unsendable (write_one oid r w)"
  unfolding write_one_def
  by (intro silent_but_with silent_but_option silent_but_raise silent_but_on_error write_unknown_sent failed_write_sent
      silent_lift silent_write_property known_written_value property_type_consumes)

lemma silent_write_object: "silent_but unsendable (write_object x)"
proof -
  obtain oid ws where x: "x = (oid, ws)" by fastforce
  show ?thesis
    unfolding write_object_def x prod.case Let_def
    by (intro silent_but_with silent_but_option silent_but_raise silent_but_seq) (auto intro: silent_write_one)
qed


subsection \<open>Answers\<close>

datatype request =
    ReadProperty "int \<times> int" int "int option"
  | WriteProperty "int \<times> int" int "int option" "tag list" "int option"
  | ReadPropertyMultiple "read_spec list"
  | WritePropertyMultiple "write_spec list"

fun serve :: "(string list \<Rightarrow> string list) \<Rightarrow> request \<Rightarrow> unit app_action" where
  "serve set_order (ReadProperty oid p index) = do_read_property oid p index"
| "serve set_order (WriteProperty oid p index us priority) = do_write_property oid p index us priority"
| "serve set_order (ReadPropertyMultiple specs) = do_read_property_multiple set_order specs"
| "serve set_order (WritePropertyMultiple specs) = do_write_property_multiple specs"

definition answers_but :: "(py_error \<Rightarrow> bool) \<Rightarrow> unit app_action \<Rightarrow> bool" where
  "answers_but xs m \<longleftrightarrow> (\<forall>s r t. classes_ok s \<longrightarrow> m s = (r, t) \<longrightarrow>
     (case r of
        Inr _ \<Rightarrow> \<exists>x. responses t = responses s @ [x]
      | Inl e \<Rightarrow> responses t = responses s \<and> (known e \<or> xs e)))"

lemma answers_butD:
  assumes "answers_but xs m" "classes_ok s"
  shows "m s = (Inr (), t) \<Longrightarrow> \<exists>x. responses t = responses s @ [x]"
    "m s = (Inl e, t) \<Longrightarrow> responses t = responses s \<and> (known e \<or> xs e)"
  using assms by (fastforce simp: answers_but_def)+

lemma answers_but_none:
  assumes "answers m" shows "answers_but xs m"
  unfolding answers_but_def
proof (intro allI impI)
  fix s t and r :: "py_error + unit" assume "classes_ok s" "m s = (r, t)"
  then have "case r of Inl e \<Rightarrow> responses t = responses s \<and> known e | Inr _ \<Rightarrow> \<exists>x. responses t = responses s @ [x]"
    using assms by (auto simp: answers_def dest!: spec [of _ s])
  then show "case r of Inl e \<Rightarrow> responses t = responses s \<and> (known e \<or> xs e)
      | Inr _ \<Rightarrow> \<exists>x. responses t = responses s @ [x]"
    by (cases r) simp_all
qed

lemma answers_but_raise: "known e \<Longrightarrow> answers_but xs (raiseS e)"
  by (simp add: answers_but_def act_simps)

lemma answers_but_with: "(\<And>s. answers_but xs (f s)) \<Longrightarrow> answers_but xs (withS f)"
  by (simp add: answers_but_def act_simps)

lemma answers_but_simple:
  assumes "silent_but xs m"
  shows "answers_but xs (bindS m (\<lambda>_. respond (Inr SimpleAck)))"
  unfolding answers_but_def
proof (intro allI impI)
  fix s u and q :: "py_error + unit"
  assume ok: "classes_ok s" and run: "bindS m (\<lambda>_. respond (Inr SimpleAck)) s = (q, u)"
  obtain r t where m: "m s = (r, t)" by fastforce
  then have "responses t = responses s" "\<forall>e. r = Inl e \<longrightarrow> known e \<or> xs e"
    using assms ok by (auto simp: silent_but_def dest!: spec [of _ s])
  then show "case q of Inl e \<Rightarrow> responses u = responses s \<and> (known e \<or> xs e)
      | Inr x \<Rightarrow> \<exists>x. responses u = responses s @ [x]"
    using m run by (cases r) (auto simp: bindS_def respond_def act_simps)
qed

lemma answers_write_multiple: "answers_but unsendable (do_write_property_multiple specs)"
proof -
  have "silent_but unsendable (seqS (map write_object specs))"
    by (intro silent_but_seq) (auto intro: silent_write_object)
  then show ?thesis
    unfolding do_write_property_multiple_def
    by (intro answers_but_with) (simp add: answers_but_raise answers_but_simple)
qed

text \<open>
  Property C3. Every confirmed request to read or write properties gets exactly one response, an
  acknowledgement, an error or a rejection, whatever objects, properties, indexes and tags it
  names and however the objects are set up (their classes may have any elements whose decoders
  return, as those of the library's classes do). The exception are WritePropertyMultiple requests
  that end in a failed write which has no encoding: the object does not exist, or the number of the
  object, of the property or of the index does not fit into four octets. Of these nothing is sent.
\<close>

theorem request_answered:
  assumes "classes_ok s"
  shows "let (r, t) = indication True (Some (serve set_order rq)) s in
    if \<exists>e. fst (serve set_order rq s) = Inl e \<and> unsendable e
    then (\<exists>specs. rq = WritePropertyMultiple specs) \<and> (\<exists>e. r = Inl e) \<and> responses t = responses s
    else r = Inr () \<and> (\<exists>x. responses t = responses s @ [x])"
proof -
  define xs where "xs = (\<lambda>e. unsendable e \<and> (\<exists>specs. rq = WritePropertyMultiple specs))"
  have "answers_but xs (serve set_order rq)"
    using answers_write_multiple
    by (cases rq) (simp_all add: xs_def answers_but_none answers_read answers_write answers_read_multiple)
  note served = answers_butD [OF this assms(1)]
  obtain r t where m: "serve set_order rq s = (r, t)" by fastforce
  show ?thesis
  proof (cases r)
    case (Inl e)
    then have t: "responses t = responses s" and e: "known e \<or> xs e" using served(2) m by blast+
    have ind: "indication True (Some (serve set_order rq)) s = respond (error_response e) t"
      using m Inl by (simp add: indication_def)
    show ?thesis
    proof (cases "unsendable e")
      case True
      then obtain x where x: "error_response e = Inl x" using unsendable_unanswered by blast
      then have "xs e" using e by (simp add: known_def)
      then show ?thesis using m Inl t ind x True by (simp add: respond_def act_simps bindS_def xs_def)
    next
      case False
      then obtain x where "error_response e = Inr x" using e by (auto simp: known_def xs_def split: sum.splits)
      then show ?thesis using m Inl t ind False by (simp add: respond_def act_simps bindS_def)
    qed
  next
    case (Inr x)
    then have run: "serve set_order rq s = (Inr (), t)" using m by simp
    then have "indication True (Some (serve set_order rq)) s = (Inr (), t)"
      by (simp only: indication_def option.case prod.case sum.case unit.case)
    then show ?thesis using served(1) [OF run] run by simp
  qed
qed

text \<open>The error that names an object without a property cannot be encoded.\<close>

lemma no_object_unanswered:
  assumes "object_identifier_ok oid"
  shows "error_response (WriteMultipleFailed ''object'' ''unknownObject'' oid None None) = Inl AttributeError"
proof -
  obtain m n where mn: "enum_number ErrorClass ''object'' = Inr m" "enum_number ErrorCode ''unknownObject'' = Inr n"
    using error_class_names(3) error_code_names(6) by blast
  have "octet4 m" "octet4 n" using enum_number_octets mn error_numbers by blast+
  moreover obtain us where "object_identifier_to_data oid = Inr us"
    using object_identifier_data_roundtrip [OF assms(1)] by blast
  ultimately show ?thesis using mn
    by (simp add: error_response_def error_type_def WritePropertyMultipleError_def
        ErrorType_def ObjectPropertyReference_def enum_value_def object_value_def
        octet4_def enumerated_def atom_encode_def atom_encoders unsigned_to_data_def)
qed

end
