(* ===== verification/ClassFacts.thy ===== *)
theory ClassFacts
  imports ObjectClasses Returning
begin

text \<open>
  Facts about every class of objects: its elements can be decoded from any tags, and its required
  properties are properties it has, up to the slips in four classes.
\<close>

section \<open>Lists whose items are consumed\<close>

lemma atomic_shapes:
  "items_consume (Elem c opt (enumerated t))" "items_consume (Elem c opt (enumerated_below n t))"
  "items_consume (Elem c opt (bits t))" "consuming (Elem c opt (enumerated t))"
  "consuming (Elem c opt (enumerated_below n t))" "consuming (Elem c opt (bits t))"
  by (simp_all add: enumerated_def enumerated_below_def bits_def)

lemmas base_type_defs =
  PropertyReference_def PropertyValue_def ObjectPropertyReference_def ObjectPropertyValue_def
  DeviceObjectPropertyReference_def DeviceObjectPropertyValue_def DeviceObjectReference_def DateTime_def
  TimeValue_def DeviceAddress_def TimeStamp_def Recipient_def ListOfRecipient_def ErrorType_def
  HostAddress_def HostNPort_def AccessRule_def ArrayOfAccessRule_def AccumulatorRecord_def ActionCommand_def
  SequenceOfActionCommand_def ActionList_def ArrayOfActionList_def Address_def AddressBinding_def
  ListOfAddressBinding_def AssignedAccessRights_def ArrayOfAssignedAccessRights_def
  AssignedLandingCallsLandingCalls_def SequenceOfAssignedLandingCallsLandingCalls_def AssignedLandingCalls_def
  ArrayOfAssignedLandingCalls_def AtomicReadFileACKAccessMethodRecordAccess_def
  AtomicReadFileACKAccessMethodStreamAccess_def AtomicReadFileRequestAccessMethodChoiceRecordAccess_def
  AtomicReadFileRequestAccessMethodChoiceStreamAccess_def
  AtomicWriteFileRequestAccessMethodChoiceRecordAccess_def
  AtomicWriteFileRequestAccessMethodChoiceStreamAccess_def AuditLogQueryParametersBySource_def
  AuditLogQueryParametersByTarget_def AuditNotification_def AuditLogRecordLogDatum_def AuditLogRecord_def
  ListOfAuditLogRecord_def AuditLogRecordResult_def AuthenticationFactor_def AuthenticationFactorFormat_def
  ArrayOfAuthenticationFactorFormat_def AuthenticationPolicyPolicy_def
  SequenceOfAuthenticationPolicyPolicy_def AuthenticationPolicy_def ArrayOfAuthenticationPolicy_def
  BDTEntry_def ListOfBDTEntry_def RecipientProcess_def COVMultipleSubscriptionListOfCOVReference_def
  SequenceOfCOVMultipleSubscriptionListOfCOVReference_def COVMultipleSubscriptionList_def
  SequenceOfCOVMultipleSubscriptionList_def COVMultipleSubscription_def ListOfCOVMultipleSubscription_def
  COVNotificationParameters_def COVSubscription_def ListOfCOVSubscription_def
  CredentialAuthenticationFactor_def ArrayOfCredentialAuthenticationFactor_def DailySchedule_def
  ArrayOfDailySchedule_def DateRange_def Destination_def ListOfDestination_def PropertyStates_def
  SequenceOfPropertyStates_def NotificationParametersChangeOfBitstring_def
  NotificationParametersChangeOfLifeSafety_def NotificationParametersChangeOfState_def
  NotificationParametersChangeOfValueNewValue_def NotificationParametersChangeOfValue_def
  NotificationParametersCommandFailure_def NotificationParametersFloatingLimit_def
  NotificationParametersOutOfRange_def NotificationParametersComplexEventType_def
  NotificationParametersDoubleOutOfRangeType_def NotificationParametersSignedOutOfRangeType_def
  NotificationParametersUnsignedOutOfRangeType_def NotificationParametersChangeOfCharacterStringType_def
  NotificationParametersChangeOfStatusFlagsType_def NotificationParametersChangeOfReliabilityType_def
  NotificationParametersAccessEventType_def NotificationParametersExtendedParametersType_def
  NotificationParametersExtended_def NotificationParametersBufferReady_def
  NotificationParametersUnsignedRange_def NotificationParameters_def EventNotificationParameters_def
  EventLogRecordLogDatum_def EventLogRecord_def ListOfEventLogRecord_def EventNotificationSubscription_def
  ListOfEventNotificationSubscription_def EventParameterAccessEventAccessEvent_def
  SequenceOfEventParameterAccessEventAccessEvent_def EventParameterAccessEvent_def
  EventParameterBufferReady_def EventParameterChangeOfBitstring_def EventParameterChangeOfCharacterString_def
  EventParameterChangeOfDiscreteValue_def EventParameterChangeOfLifeSafety_def EventParameterChangeOfState_def
  EventParameterChangeOfStatusFlags_def EventParameterChangeOfTimer_def
  EventParameterChangeOfValueCOVCriteria_def EventParameterChangeOfValue_def EventParameterCommandFailure_def
  EventParameterDoubleOutOfRange_def EventParameterExtendedParameters_def
  SequenceOfEventParameterExtendedParameters_def EventParameterExtended_def EventParameterFloatingLimit_def
  EventParameterOutOfRange_def EventParameterSignedOutOfRange_def EventParameterUnsignedOutOfRange_def
  EventParameterUnsignedRange_def FDTEntry_def ListOfFDTEntry_def FaultParameterCharacterString_def
  FaultParameterExtendedParameters_def SequenceOfFaultParameterExtendedParameters_def
  FaultParameterExtended_def FaultParameterLifeSafety_def FaultParameterState_def
  FaultParameterStatusFlags_def FaultParameterOutOfRangeValue_def FaultParameterOutOfRange_def
  FaultParametersFaultListed_def GetAlarmSummaryAlarmSummary_def
  GetEnrollmentSummaryRequestPriorityFilterType_def GetEnrollmentSummaryEnrollmentSummary_def
  GetEventInformationEventSummary_def LightingCommand_def ChannelValue_def GroupChannelValue_def
  KeyIdentifier_def LandingCallStatusCommand_def LandingCallStatus_def LandingDoorStatusLandingDoor_def
  LandingDoorStatus_def LiftCarCallList_def LogDataLogData_def LogData_def LogMultipleRecord_def
  LogRecordLogDatum_def LogRecord_def NameValueCollection_def NetworkSecurityPolicy_def PortPermission_def
  Prescale_def PropertyAccessResultAccessResult_def PropertyAccessResult_def RangeByPosition_def
  RangeBySequenceNumber_def RangeByTime_def RangeByTimeRange_def ReadAccessResultElementChoice_def
  ReadAccessResultElement_def ReadAccessResult_def ReadAccessSpecification_def RouterEntry_def
  SCHubConnection_def SCDirectConnection_def SCFailedConnectionRequest_def SCHubFunctionConnection_def
  SecurityKeySet_def SessionKey_def SetpointReference_def CalendarEntry_def SpecialEventPeriod_def
  SpecialEvent_def StageLimitValue_def VMACEntry_def VTSession_def WhoHasLimits_def
  WriteAccessSpecification_def AtomicReadFileACKAccessMethodChoice_def
  AtomicReadFileRequestAccessMethodChoice_def AtomicWriteFileRequestAccessMethodChoice_def
  AuditLogQueryParameters_def ClientCOV_def ConfirmedTextMessageRequestMessageClass_def
  CreateObjectRequestObjectSpecifier_def EventParameter_def FaultParameter_def ObjectSelector_def
  OptionalBinaryPV_def OptionalCharacterString_def OptionalPriorityFilter_def OptionalReal_def
  OptionalUnsigned_def PriorityValue_def PriorityArray_def ProcessIdSelection_def Range_def Scale_def
  ShedLevel_def TimerStateChangeValue_def UnconfirmedTextMessageRequestMessageClass_def ValueSource_def
  WhoHasObject_def

lemmas class_defs =
  AccessCredentialObject_def AccessDoorObject_def AccessPointObject_def AccessRightsObject_def
  AccessUserObject_def AccessZoneObject_def AccumulatorObject_def AlertEnrollmentObject_def
  AnalogInputObject_def AnalogOutputObject_def AnalogValueObject_def AuditLogObject_def
  AuditReporterObject_def AveragingObject_def BinaryInputObject_def BinaryLightingOutputObject_def
  BinaryOutputObject_def BinaryValueObject_def BitStringValueObject_def CalendarObject_def ChannelObject_def
  CharacterStringValueObject_def CommandObject_def CredentialDataInputObject_def DatePatternValueObject_def
  DateTimePatternValueObject_def DateTimeValueObject_def DateValueObject_def DeviceObject_def
  ElevatorGroupObject_def EscalatorObject_def EventEnrollmentObject_def EventLogObject_def FileObject_def
  GlobalGroupObject_def GroupObject_def IntegerValueObject_def LargeAnalogValueObject_def
  LifeSafetyPointObject_def LifeSafetyZoneObject_def LiftObject_def LightingOutputObject_def
  LoadControlObject_def LoopObject_def MultiStateInputObject_def MultiStateOutputObject_def
  MultiStateValueObject_def NetworkPortObject_def NetworkSecurityObject_def NotificationClassObject_def
  NotificationForwarderObject_def OctetStringValueObject_def PositiveIntegerValueObject_def ProgramObject_def
  PulseConverterObject_def ScheduleObject_def StagingObject_def StructuredViewObject_def
  TimePatternValueObject_def TimeValueObject_def TimerObject_def TrendLogMultipleObject_def TrendLogObject_def

lemma classes_consume: "list_all (\<lambda>(n, c). items_consume_fields (class_elements c)) object_classes"
  by (simp add: object_classes_def class_defs base_elements_def base_type_defs atomic_shapes)

section \<open>Required properties\<close>

definition undeclared :: "object_class \<Rightarrow> string list" where
  "undeclared c = filter (\<lambda>a. a \<notin> set (map fst (class_elements c))) (class_required c)"

lemmas undeclared_simps = undeclared_def base_elements_def base_required_def

lemma all_declared_1:
  "undeclared AccessCredentialObject = []"
  "undeclared AccessDoorObject = []"
  "undeclared AccessPointObject = []"
  "undeclared AccessRightsObject = []"
  "undeclared AccessUserObject = []"
  "undeclared AccessZoneObject = []"
  "undeclared AccumulatorObject = []"
  "undeclared AlertEnrollmentObject = []"
  "undeclared AnalogInputObject = []"
  "undeclared AnalogOutputObject = []"
  by (simp_all add: undeclared_simps class_defs)

lemma all_declared_2:
  "undeclared AnalogValueObject = []"
  "undeclared AuditReporterObject = []"
  "undeclared AveragingObject = []"
  "undeclared BinaryInputObject = []"
  "undeclared BinaryOutputObject = []"
  "undeclared BinaryValueObject = []"
  "undeclared BitStringValueObject = []"
  "undeclared CalendarObject = []"
  "undeclared ChannelObject = []"
  "undeclared CharacterStringValueObject = []"
  by (simp_all add: undeclared_simps class_defs)

lemma all_declared_3:
  "undeclared CommandObject = []"
  "undeclared CredentialDataInputObject = []"
  "undeclared DatePatternValueObject = []"
  "undeclared DateTimePatternValueObject = []"
  "undeclared DateTimeValueObject = []"
  "undeclared DateValueObject = []"
  "undeclared DeviceObject = []"
  "undeclared ElevatorGroupObject = []"
  "undeclared EscalatorObject = []"
  "undeclared EventEnrollmentObject = []"
  by (simp_all add: undeclared_simps class_defs)

lemma all_declared_4:
  "undeclared EventLogObject = []"
  "undeclared FileObject = []"
  "undeclared GroupObject = []"
  "undeclared IntegerValueObject = []"
  "undeclared LargeAnalogValueObject = []"
  "undeclared LifeSafetyPointObject = []"
  "undeclared LiftObject = []"
  "undeclared LightingOutputObject = []"
  "undeclared LoadControlObject = []"
  "undeclared LoopObject = []"
  by (simp_all add: undeclared_simps class_defs)

lemma all_declared_5:
  "undeclared MultiStateInputObject = []"
  "undeclared MultiStateOutputObject = []"
  "undeclared MultiStateValueObject = []"
  "undeclared NetworkPortObject = []"
  "undeclared NetworkSecurityObject = []"
  "undeclared NotificationClassObject = []"
  "undeclared NotificationForwarderObject = []"
  "undeclared OctetStringValueObject = []"
  "undeclared PositiveIntegerValueObject = []"
  "undeclared ProgramObject = []"
  by (simp_all add: undeclared_simps class_defs)

lemma all_declared_6:
  "undeclared PulseConverterObject = []"
  "undeclared ScheduleObject = []"
  "undeclared StagingObject = []"
  "undeclared StructuredViewObject = []"
  "undeclared TimePatternValueObject = []"
  "undeclared TimeValueObject = []"
  "undeclared TimerObject = []"
  "undeclared TrendLogMultipleObject = []"
  "undeclared TrendLogObject = []"
  by (simp_all add: undeclared_simps class_defs)

lemma undeclared_required:
  "undeclared AuditLogObject = [''statusFlagseventState'']"
  "undeclared BinaryLightingOutputObject = [''lightingCommandDefaultPriority'']"
  "undeclared GlobalGroupObject = [[], []]"
  "undeclared LifeSafetyZoneObject = [''zomeMembers'']"
  by (simp_all add: undeclared_simps class_defs)

text \<open>
  The properties that a class requires are properties that it has, for all classes but
  four: a missing comma joins two names of the audit log, the binary lighting output requires a
  property that is not one of its own, the global group requires two properties without a name,
  and the life safety zone has a slip of the pen.
\<close>

theorem required_properties_declared:
  "filter (\<lambda>(n, us). us \<noteq> []) (map (\<lambda>(n, c). (n, undeclared c)) object_classes) =
    [(''AuditLogObject'', [''statusFlagseventState'']),
     (''BinaryLightingOutputObject'', [''lightingCommandDefaultPriority'']),
     (''GlobalGroupObject'', [[], []]), (''LifeSafetyZoneObject'', [''zomeMembers''])]"
  by (simp add: object_classes_def undeclared_required
    all_declared_1 all_declared_2 all_declared_3 all_declared_4 all_declared_5 all_declared_6)

end
