(* ===== verification/Commandable.thy ===== *)
theory Commandable
  imports Objects
begin

text \<open>
  What \<^verbatim>\<open>bacpypes3/local/cmd.py\<close> promises: the priority array of a commandable object refines
  sixteen slots of which the first that is filled wins.
\<close>

section \<open>The arbitration of commands\<close>

subsection \<open>Specification\<close>

text \<open>
  What a commandable object promises: sixteen slots, a command fills or clears one of them, and
  the present value is that of the first slot that is filled or the default.
\<close>

type_synonym slots = "val option list"

definition command :: "nat \<Rightarrow> val option \<Rightarrow> slots \<Rightarrow> slots" where
  "command p v sl = sl[p - 1 := v]"

fun arbitrate :: "val \<Rightarrow> slots \<Rightarrow> val" where
  "arbitrate d [] = d"
| "arbitrate d (x # sl) = (case x of Some v \<Rightarrow> v | None \<Rightarrow> arbitrate d sl)"

text \<open>The slots of an object, and when an object is a commandable one.\<close>

definition slot_of :: "val \<Rightarrow> val option" where
  "slot_of pv = (case pv of VChoice n v \<Rightarrow> if n = ''null'' then None else Some v | _ \<Rightarrow> None)"

definition is_choice_value :: "val \<Rightarrow> bool" where
  "is_choice_value pv = (case pv of VChoice n v \<Rightarrow> True | _ \<Rightarrow> False)"

definition object_slots :: "bac_object \<Rightarrow> slots" where
  "object_slots ob =
     (case obj_values ob ''priorityArray'' of Some (VList pvs) \<Rightarrow> map slot_of pvs | _ \<Rightarrow> [])"

definition command_types :: "atom_type \<Rightarrow> bool" where
  "command_types ty \<longleftrightarrow> ty \<noteq> TNull \<and> ty \<noteq> TObjectIdentifier"

definition commandable_ok :: "bac_object \<Rightarrow> bool" where
  "commandable_ok ob \<longleftrightarrow>
     obj_commandable ob \<and>
     (\<exists>ty. element_of ob ''presentValue'' = Some (plain (Atomic ty)) \<and> command_types ty) \<and>
     element_of ob ''priorityArray'' = Some (plain (ArrayOf (Some 16) (plain PriorityValue))) \<and>
     element_of ob ''currentCommandPriority'' = Some (plain OptionalUnsigned) \<and>
     (\<exists>pvs. obj_values ob ''priorityArray'' = Some (VList pvs) \<and> length pvs = 16 \<and> list_all is_choice_value pvs) \<and>
     (\<forall>e v. element_of ob ''presentValue'' = Some e \<longrightarrow>
       Some v \<in> set (object_slots ob) \<or> Some v = obj_values ob ''relinquishDefault'' \<longrightarrow> has_type e v) \<and>
     obj_values ob ''relinquishDefault'' \<noteq> None"

subsection \<open>Runs\<close>

text \<open>A state in which an object has other values and functions have been called.\<close>

definition with_values :: "application \<Rightarrow> nat \<Rightarrow> (string \<rightharpoonup> val) \<Rightarrow> (nat \<times> val option \<times> val option) list \<Rightarrow> application" where
  "with_values s r vs cs =
     s\<lparr>objects := (objects s)(r := (objects s r)\<lparr>obj_values := vs\<rparr>), calls := cs\<rparr>"

lemma with_values_simps [simp]:
  "objects (with_values s r vs cs) r = (objects s r)\<lparr>obj_values := vs\<rparr>"
  "i \<noteq> r \<Longrightarrow> objects (with_values s r vs cs) i = objects s i"
  "with_values (with_values s r vs cs) r vs' cs' = with_values s r vs' cs'"
  "calls (with_values s r vs cs) = cs"
  by (simp_all add: with_values_def)

lemma with_values_same [simp]: "with_values s r (obj_values (objects s r)) (calls s) = s"
  by (simp add: with_values_def)

lemma put_value_run: "put_value r a v s = (Inr (), with_values s r ((obj_values (objects s r))(a \<mapsto> v)) (calls s))"
  by (simp add: put_value_def update_object_def act_simps with_values_def)

lemma call_monitors_run:
  "\<exists>cs. call_monitors r a x y (with_values s r vs ds) = (Inr (), with_values s r vs cs)"
  by (auto simp: call_monitors_def act_simps with_values_def)

lemma element_of_values [simp]: "element_of (ob\<lparr>obj_values := vs\<rparr>) a = element_of ob a"
  by (simp add: element_of_def)

lemma get_value_stored: "a \<notin> set computed \<Longrightarrow> get_value ob a = obj_values ob a"
  by (simp add: get_value_def computed_def)

lemma local_setattr_run:
  assumes "element_of (objects s r) a = Some e" "cast_value e v = Inr v" "a \<notin> set computed"
  shows "\<exists>cs. local_setattr r a v s = (Inr (), with_values s r ((obj_values (objects s r))(a \<mapsto> v)) cs)"
proof (cases "obj_values (objects s r) a = Some v")
  case True
  then have "(obj_values (objects s r))(a \<mapsto> v) = obj_values (objects s r)" by auto
  then show ?thesis using assms True
    by (auto simp: local_setattr_def local_assign_def act_simps get_value_stored intro!: exI [of _ "calls s"])
next
  case False
  let ?s = "with_values s r ((obj_values (objects s r))(a \<mapsto> v)) (calls s)"
  have set: "set_value r a e v s = (Inr (), ?s)"
    using assms by (simp add: set_value_def computed_def act_simps put_value_run bindS_Inr)
  obtain cs where "call_monitors r a (obj_values (objects s r) a) (Some v) ?s =
      (Inr (), with_values s r ((obj_values (objects s r))(a \<mapsto> v)) cs)"
    using call_monitors_run by blast
  then show ?thesis using assms False set
    by (auto simp: local_setattr_def local_assign_def act_simps get_value_stored bindS_Inr)
qed

lemma commanded_arbitrate:
  "list_all is_choice_value pvs \<Longrightarrow>
    (case commanded i pvs of Some (j, v) \<Rightarrow> v | None \<Rightarrow> d) = arbitrate d (map slot_of pvs)"
  by (induction i pvs rule: commanded.induct) (auto simp: slot_of_def is_choice_value_def split: val.splits)

lemma commanded_slot: "commanded i pvs = Some (j, v) \<Longrightarrow> Some v \<in> set (map slot_of pvs)"
  by (induction i pvs rule: commanded.induct) (auto simp: slot_of_def split: val.splits if_splits)

definition command_priority :: "val list \<Rightarrow> val" where
  "command_priority pvs =
     (case commanded 0 pvs of
        Some (i, v) \<Rightarrow> VChoice ''unsigned'' (VAtom (AUnsigned (int i + 1)))
      | None \<Rightarrow> VChoice ''null'' (VAtom ANull))"

lemma recalculating_run:
  assumes e: "element_of (objects s r) ''presentValue'' = Some e"
    "element_of (objects s r) ''currentCommandPriority'' = Some (plain OptionalUnsigned)"
    and pvs: "obj_values (objects s r) ''priorityArray'' = Some (VList pvs)" "list_all is_choice_value pvs"
    and d: "obj_values (objects s r) ''relinquishDefault'' = Some d"
    and ty: "has_type e (arbitrate d (map slot_of pvs))"
  shows "\<exists>cs. recalculating r s = (Inr (), with_values s r
    ((obj_values (objects s r))(''currentCommandPriority'' \<mapsto> command_priority pvs,
      ''presentValue'' \<mapsto> arbitrate d (map slot_of pvs))) cs)"
proof -
  let ?v = "arbitrate d (map slot_of pvs)"
  have "has_type (plain OptionalUnsigned) (command_priority pvs)"
    by (auto simp: command_priority_def OptionalUnsigned_def atom_typed_def unsigned_cast_def split: option.splits)
  then have "cast_value (plain OptionalUnsigned) (command_priority pvs) = Inr (command_priority pvs)"
    by (simp add: cast_value_def)
  from local_setattr_run [OF e(2) this] obtain cs where
    1: "local_setattr r ''currentCommandPriority'' (command_priority pvs) s = (Inr (), with_values s r
      ((obj_values (objects s r))(''currentCommandPriority'' \<mapsto> command_priority pvs)) cs)" (is "_ = (_, ?t)")
    by (auto simp: computed_def)
  have "element_of (objects ?t r) ''presentValue'' = Some e" "cast_value e ?v = Inr ?v"
    using e(1) ty by (simp_all add: cast_value_def)
  from local_setattr_run [OF this] obtain ds where
    2: "local_setattr r ''presentValue'' ?v ?t = (Inr (), with_values s r
      ((obj_values (objects s r))(''currentCommandPriority'' \<mapsto> command_priority pvs, ''presentValue'' \<mapsto> ?v)) ds)"
    by (auto simp: computed_def)
  have v: "?v = (case commanded 0 pvs of Some (j, v) \<Rightarrow> v | None \<Rightarrow> d)"
    using commanded_arbitrate [OF pvs(2)] by simp
  show ?thesis using 1 2 pvs(1) d unfolding v
    by (auto simp: recalculating_def act_simps bindS_Inr command_priority_def split: option.splits)
qed

subsection \<open>Commands\<close>

text \<open>A command: a value or Null, and the priority that is used when none is given.\<close>

definition command_value :: "val \<Rightarrow> val option" where
  "command_value v = (if v = VAtom ANull then None else Some v)"

definition command_slot :: "int option \<Rightarrow> nat" where
  "command_slot priority = (case priority of None \<Rightarrow> 16 | Some i \<Rightarrow> nat i)"

definition command_ok :: "bac_object \<Rightarrow> val \<times> int option \<Rightarrow> bool" where
  "command_ok ob c \<longleftrightarrow>
     (fst c = VAtom ANull \<or> (\<forall>e. element_of ob ''presentValue'' = Some e \<longrightarrow> has_type e (fst c))) \<and>
     (\<forall>i\<in>set_option (snd c). 1 \<le> i \<and> i \<le> 16)"

lemma priority_value_slot:
  assumes "v = VAtom ANull \<or> has_type (plain (Atomic ty)) v" "command_types ty"
  shows "\<exists>pv. priority_value v = Inr pv \<and> is_choice_value pv \<and> slot_of pv = command_value v"
proof (cases "v = VAtom ANull")
  case True
  then show ?thesis by (simp add: priority_value_def is_choice_value_def slot_of_def command_value_def)
next
  case False
  then obtain a where a: "v = VAtom a" "atom_typed ty a" "a \<noteq> ANull" using assms(1) by (cases v) auto
  then show ?thesis using assms(2)
    by (cases a; cases ty)
      (auto simp: command_types_def atom_typed_def priority_value_def is_choice_value_def slot_of_def command_value_def)
qed

lemma present_value_attr: "property_attr 85 = Some ''presentValue''"
  by code_simp

lemma array_change_item:
  "1 \<le> i \<Longrightarrow> i \<le> int (length pvs) \<Longrightarrow>
    array_change (\<lambda>_ _. True) (plain (ArrayOf m e)) (Some (VList pvs)) pv i = Inr (VList (pvs[nat (i - 1) := pv]))"
  by (simp add: array_change_def)

lemma arbitrate_in: "arbitrate d sl = d \<or> Some (arbitrate d sl) \<in> set sl"
  by (induction sl) (auto split: option.splits)

lemma command_step:
  assumes ok: "commandable_ok (objects s r)" and c: "command_ok (objects s r) (v, priority)"
    and d: "obj_values (objects s r) ''relinquishDefault'' = Some d"
  shows "\<exists>s'. object_write_property r 85 v index priority s = (Inr (), s') \<and> commandable_ok (objects s' r) \<and>
    obj_class (objects s' r) = obj_class (objects s r) \<and>
    obj_values (objects s' r) ''relinquishDefault'' = Some d \<and>
    object_slots (objects s' r) = command (command_slot priority) (command_value v) (object_slots (objects s r)) \<and>
    obj_values (objects s' r) ''presentValue'' = Some (arbitrate d (object_slots (objects s' r)))"
proof -
  let ?ob = "objects s r"
  obtain ty pvs where ty: "element_of ?ob ''presentValue'' = Some (plain (Atomic ty))" "command_types ty"
    and pa: "element_of ?ob ''priorityArray'' = Some (plain (ArrayOf (Some 16) (plain PriorityValue)))"
    and cp: "element_of ?ob ''currentCommandPriority'' = Some (plain OptionalUnsigned)"
    and pvs: "obj_values ?ob ''priorityArray'' = Some (VList pvs)" "length pvs = 16" "list_all is_choice_value pvs"
    and typed: "\<forall>v. Some v \<in> set (object_slots ?ob) \<or> v = d \<longrightarrow> has_type (plain (Atomic ty)) v"
    and com: "obj_commandable ?ob"
    using ok d by (auto simp: commandable_ok_def)
  have v: "v = VAtom ANull \<or> has_type (plain (Atomic ty)) v" using c ty(1) by (auto simp: command_ok_def)
  obtain pv where pv: "priority_value v = Inr pv" "is_choice_value pv" "slot_of pv = command_value v"
    using priority_value_slot [OF v ty(2)] by blast
  define i where "i = (case priority of None \<Rightarrow> 16 | Some i \<Rightarrow> i)"
  have i: "1 \<le> i" "i \<le> 16" "command_slot priority = nat i"
    using c by (auto simp: i_def command_ok_def command_slot_def split: option.splits)
  let ?pvs = "pvs[nat (i - 1) := pv]"
  have slots: "object_slots ?ob = map slot_of pvs" using pvs(1) by (simp add: object_slots_def)
  have new: "map slot_of ?pvs = command (command_slot priority) (command_value v) (object_slots ?ob)"
    using i pv(3) by (simp add: command_def slots map_update nat_diff_distrib)
  have cs: "list_all is_choice_value ?pvs"
    using pvs(3) pv(2) set_update_subset_insert [of pvs "nat (i - 1)" pv] by (auto simp: list_all_iff)
  have typed': "has_type (plain (Atomic ty)) x" if "Some x \<in> set (map slot_of ?pvs) \<or> x = d" for x
  proof -
    have "Some x \<in> set (map slot_of pvs) \<or> Some x = command_value v \<or> x = d"
      using that pv(3) by (auto simp: map_update dest!: set_update_subset_insert [THEN subsetD])
    then show ?thesis using typed v by (auto simp: slots command_value_def split: if_splits)
  qed
  have typed_d: "has_type (plain (Atomic ty)) (arbitrate d (map slot_of ?pvs))"
    using arbitrate_in [of d "map slot_of ?pvs"] typed' by metis
  let ?s = "with_values s r ((obj_values ?ob)(''priorityArray'' \<mapsto> VList ?pvs)) (calls s)"
  have "\<exists>cs. recalculating r ?s = (Inr (), with_values ?s r ((obj_values (objects ?s r))
      (''currentCommandPriority'' \<mapsto> command_priority ?pvs, ''presentValue'' \<mapsto> arbitrate d (map slot_of ?pvs))) cs)"
    by (rule recalculating_run [of _ _ "plain (Atomic ty)"]) (use ty cp cs typed_d d in simp_all)
  then obtain ds where rec: "recalculating r ?s = (Inr (), with_values s r ((obj_values ?ob)(''priorityArray'' \<mapsto> VList ?pvs,
      ''currentCommandPriority'' \<mapsto> command_priority ?pvs, ''presentValue'' \<mapsto> arbitrate d (map slot_of ?pvs))) ds)"
    (is "_ = (_, ?t)") by auto
  have "priority_array_write r pv i (plain (ArrayOf (Some 16) (plain PriorityValue))) s = (Inr (), ?t)"
    using pvs(1,2) i(1,2) rec
    by (simp add: priority_array_write_def act_simps bindS_Inr array_change_item put_value_run fun_upd_twist fun_upd_upd)
  then have "local_write r ''priorityArray'' (priority_array_write r pv i) (Some i) s =
      call_monitors r ''priorityArray'' (get_value (objects ?t r) ''priorityArray'') (get_value (objects ?t r) ''priorityArray'') ?t"
    using pa by (simp add: local_write_def act_simps bindS_Inr Let_def)
  then obtain es where run: "local_write r ''priorityArray'' (priority_array_write r pv i) (Some i) s =
      (Inr (), with_values s r ((obj_values ?ob)(''priorityArray'' \<mapsto> VList ?pvs,
        ''currentCommandPriority'' \<mapsto> command_priority ?pvs, ''presentValue'' \<mapsto> arbitrate d (map slot_of ?pvs))) es)"
    (is "_ = (_, ?u)") using call_monitors_run [of r] by metis
  have "object_write_property r 85 v index priority s = (Inr (), ?u)"
    using com ty(1) pv(1) run
    by (simp add: object_write_property_def present_value_attr command_present_value_def act_simps i_def Let_def)
  moreover have "object_slots (objects ?u r) = map slot_of ?pvs" by (simp add: object_slots_def)
  moreover have "commandable_ok (objects ?u r)"
    using com ty pa cp cs pvs(2) d typed'
    by (auto simp: commandable_ok_def object_slots_def)
  ultimately show ?thesis using new d by auto
qed

subsection \<open>Properties\<close>

definition write_present_values :: "nat \<Rightarrow> (val \<times> int option) list \<Rightarrow> unit app_action" where
  "write_present_values r cs = seqS (map (\<lambda>(v, p). object_write_property r 85 v None p) cs)"

definition commands :: "(val \<times> int option) list \<Rightarrow> slots \<Rightarrow> slots" where
  "commands cs sl = foldl (\<lambda>sl (v, p). command (command_slot p) (command_value v) sl) sl cs"

lemma command_ok_class: "obj_class ob = obj_class ob' \<Longrightarrow> command_ok ob c = command_ok ob' c"
  by (simp add: command_ok_def element_of_def)

text \<open>
  Property C5. Command prioritization: any sequence of writes to the present value of a commandable
  object, each of a value of its class or of Null and with a priority from 1 to 16 or none,
  succeeds, leaves the slots as the commands one after another leave them, and the present value
  is the one of the filled slot with the lowest number, or the relinquish default when all slots
  are empty.
\<close>

theorem commands_arbitrated:
  assumes "commandable_ok (objects s r)" "list_all (command_ok (objects s r)) cs" "cs \<noteq> []"
    "obj_values (objects s r) ''relinquishDefault'' = Some d"
  shows "\<exists>s'. write_present_values r cs s = (Inr (), s') \<and>
    object_slots (objects s' r) = commands cs (object_slots (objects s r)) \<and>
    obj_values (objects s' r) ''presentValue'' = Some (arbitrate d (commands cs (object_slots (objects s r))))"
  using assms
proof (induction cs arbitrary: s)
  case Nil
  then show ?case by simp
next
  case (Cons c cs)
  obtain v p where c: "c = (v, p)" by fastforce
  have "command_ok (objects s r) (v, p)" using Cons.prems(2) by (simp add: c)
  from command_step [OF Cons.prems(1) this Cons.prems(4), of None]
  obtain t where t: "object_write_property r 85 v None p s = (Inr (), t)" "commandable_ok (objects t r)"
    "obj_class (objects t r) = obj_class (objects s r)" "obj_values (objects t r) ''relinquishDefault'' = Some d"
    "object_slots (objects t r) = command (command_slot p) (command_value v) (object_slots (objects s r))"
    "obj_values (objects t r) ''presentValue'' = Some (arbitrate d (object_slots (objects t r)))"
    by blast
  show ?case
  proof (cases "cs = []")
    case True
    then show ?thesis using t by (simp add: c write_present_values_def commands_def act_simps bindS_Inr)
  next
    case False
    have "list_all (command_ok (objects t r)) cs"
      using Cons.prems(2) command_ok_class [OF t(3)] by (simp add: list_all_iff)
    from Cons.IH [OF t(2) this False t(4)] t(1,5) show ?thesis
      by (auto simp: c write_present_values_def commands_def act_simps bindS_Inr)
  qed
qed

text \<open>An analog output without commands and with the default zero.\<close>

definition example_output :: bac_object where
  "example_output =
     \<lparr>obj_class = AnalogOutputObject,
      obj_values = [''priorityArray'' \<mapsto> VList (replicate 16 (VChoice ''null'' (VAtom ANull))),
        ''relinquishDefault'' \<mapsto> VAtom (AReal [0, 0, 0, 0])],
      obj_name = Some [65], obj_id = Some (1, 1), obj_app = True, obj_commandable = True, obj_monitors = \<lambda>_. []\<rparr>"

lemma element_of_output:
  "element_of example_output ''presentValue'' = Some (plain (Atomic TReal))"
  "element_of example_output ''relinquishDefault'' = Some (plain (Atomic TReal))"
  "element_of example_output ''priorityArray'' = Some (plain (ArrayOf (Some 16) (plain PriorityValue)))"
  "element_of example_output ''currentCommandPriority'' = Some (plain OptionalUnsigned)"
  by (simp_all add: element_of_def example_output_def AnalogOutputObject_def base_elements_def)

lemma example_output_slots: "object_slots example_output = replicate 16 None"
  by (simp add: object_slots_def example_output_def slot_of_def)

lemma example_output_ok: "commandable_ok example_output"
  unfolding commandable_ok_def element_of_output example_output_slots
  by (auto simp: example_output_def command_types_def is_choice_value_def list_all_iff atom_typed_def)

definition example_application :: application where
  "example_application =
     \<lparr>objects = \<lambda>_. example_output, object_names = [], object_ids = [], device_object = None, calls = [],
      responses = []\<rparr>"

text \<open>The value written at priority 8 wins over the later one at 16, until it is relinquished.\<close>

theorem commands_arbitrated_witness:
  "\<exists>s'. write_present_values 0 [(VAtom (AReal [1, 0, 0, 0]), Some 8), (VAtom (AReal [2, 0, 0, 0]), None)]
      example_application = (Inr (), s') \<and>
    obj_values (objects s' 0) ''presentValue'' = Some (VAtom (AReal [1, 0, 0, 0]))"
proof -
  let ?cs = "[(VAtom (AReal [1, 0, 0, 0]), Some 8), (VAtom (AReal [2, 0, 0, 0]), None)]"
  have ob: "objects example_application 0 = example_output" by (simp add: example_application_def)
  have "commands ?cs (replicate 16 None) =
      (replicate 16 None)[7 := Some (VAtom (AReal [1, 0, 0, 0])), 15 := Some (VAtom (AReal [2, 0, 0, 0]))]"
    by (simp add: commands_def command_def command_slot_def command_value_def)
  then have "arbitrate d (commands ?cs (replicate 16 None)) = VAtom (AReal [1, 0, 0, 0])" for d
    by (simp add: numeral_eq_Suc)
  moreover have "list_all (command_ok example_output) ?cs"
    by (simp add: command_ok_def element_of_output atom_typed_def)
  moreover have "obj_values example_output ''relinquishDefault'' = Some (VAtom (AReal [0, 0, 0, 0]))"
    by (simp add: example_output_def)
  ultimately show ?thesis
    using commands_arbitrated [of example_application 0 ?cs] unfolding ob
    by (auto simp: example_output_ok example_output_slots)
qed

lemma relinquish_default_attr: "property_attr 104 = Some ''relinquishDefault''"
  by code_simp

text \<open>
  Writing the relinquish default of a commandable object does not compute the present
  value again: it keeps the value it had, also when no command is in effect and the new default
  should be the present value.
\<close>

theorem relinquish_default_stale:
  assumes "commandable_ok (objects s r)" "element_of (objects s r) ''relinquishDefault'' = Some (plain (Atomic ty))"
    "has_type (plain (Atomic ty)) v"
  shows "\<exists>s'. object_write_property r 104 v None priority s = (Inr (), s') \<and>
    obj_values (objects s' r) ''relinquishDefault'' = Some v \<and>
    obj_values (objects s' r) ''presentValue'' = obj_values (objects s r) ''presentValue''"
proof -
  have com: "obj_commandable (objects s r)" using assms(1) by (simp add: commandable_ok_def)
  let ?s = "with_values s r ((obj_values (objects s r))(''relinquishDefault'' \<mapsto> v)) (calls s)"
  have set: "set_value r ''relinquishDefault'' (plain (Atomic ty)) v s = (Inr (), ?s)"
    using assms(3) by (simp add: set_value_def cast_value_def act_simps put_value_run del: has_type.simps)
  let ?old = "obj_values (objects s r) ''relinquishDefault''"
  have "element_write r ''relinquishDefault'' (plain (Atomic ty)) v None priority s = (Inr (), ?s)"
    using set by (simp add: element_write_def is_array_def)
  then have run: "object_write_property r 104 v None priority s =
      (if ?old \<noteq> Some v then call_monitors r ''relinquishDefault'' ?old (Some v) ?s else (Inr (), ?s))"
    using assms(2) com
    by (simp add: object_write_property_def relinquish_default_attr local_write_def act_simps bindS_Inr Let_def
        get_value_stored computed_def)
  obtain cs where "call_monitors r ''relinquishDefault'' ?old (Some v) ?s =
      (Inr (), with_values s r ((obj_values (objects s r))(''relinquishDefault'' \<mapsto> v)) cs)"
    using call_monitors_run by blast
  then show ?thesis unfolding run by (cases "?old = Some v") simp_all
qed

theorem relinquish_default_stale_witness:
  "\<exists>s'. object_write_property 0 104 (VAtom (AReal [3, 0, 0, 0])) None None example_application = (Inr (), s') \<and>
    obj_values (objects s' 0) ''relinquishDefault'' = Some (VAtom (AReal [3, 0, 0, 0])) \<and>
    obj_values (objects s' 0) ''presentValue'' = None"
  using relinquish_default_stale [of example_application 0 TReal "VAtom (AReal [3, 0, 0, 0])" None]
    example_output_ok element_of_output(2)
  by (simp add: example_application_def atom_typed_def) (simp add: example_output_def)

end
