(* ===== verification/WriteRead.thy ===== *)
theory WriteRead
  imports Answers ClassFacts Commandable
begin

text \<open>
  A value that is written is read back by the services, and the request that is not answered.
\<close>

section \<open>Writing and reading a property\<close>









section \<open>An example\<close>

definition example_app :: application where
  "example_app = snd (add_object 0 (fresh_application (\<lambda>r. example_value [65] 1)))"

lemma example_app_object:
  "get_object_id example_app (2, 1) = Some 0" "obj_class (objects example_app 0) = AnalogValueObject"
  "obj_commandable (objects example_app 0) = False" "get_object_id example_app (2, 7) = None"
  by (simp_all add: example_app_def example_value_def add_object_def fresh_application_def act_simps bindS_def
      update_object_def get_object_id_def Let_def)




theorem request_answered_witness:
  "let (r, t) = indication True (Some (serve id (ReadProperty (2, 1) 22 None))) example_app in
    r = Inr () \<and> (\<exists>x. responses t = responses example_app @ [x])"
proof -
  have "(''AnalogValueObject'', AnalogValueObject) \<in> set object_classes" by (simp add: object_classes_def)
  then have "items_consume_fields (class_elements AnalogValueObject)"
    using classes_consume by (force simp: list_all_iff)
  moreover have "obj_class (objects example_app r) = AnalogValueObject" for r
    by (simp add: example_app_def example_value_def add_object_def fresh_application_def act_simps bindS_def
        update_object_def Let_def)
  ultimately have "classes_ok example_app" by (simp add: classes_ok_def)
  note answered = request_answered [OF this, of id "ReadProperty (2, 1) 22 None"]
  then show ?thesis by (simp only: Let_def request.distinct simp_thms ex_simps split: prod.splits if_splits) blast
qed

text \<open>
  A WritePropertyMultiple request in which an object that the application has is
  followed by one that it does not have is not answered: the writes to the first are made, and
  then the error for the second cannot be encoded, for it names no property.
\<close>

theorem unknown_object_unanswered:
  assumes "get_object_id s oid = Some r" "oid \<noteq> (8, 4194303)" "seqS (map (write_one oid r) ws) s = (Inr (), t)"
    "get_object_id t oid' = None" "oid' \<noteq> (8, 4194303)" "object_identifier_ok oid'"
  shows "indication True (Some (do_write_property_multiple [(oid, ws), (oid', ws')])) s = (Inl AttributeError, t)"
proof -
  have "write_object (oid, ws) s = (Inr (), t)" "write_object (oid', ws') t = (Inl (WriteMultipleFailed ''object'' ''unknownObject'' oid' None None), t)"
    using assms(1-5) by (simp_all add: write_object_def act_simps wildcard_def)
  then have "do_write_property_multiple [(oid, ws), (oid', ws')] s =
      (Inl (WriteMultipleFailed ''object'' ''unknownObject'' oid' None None), t)"
    using assms(1,2) by (simp add: do_write_property_multiple_def act_simps bindS_def find_object_def wildcard_def)
  then show ?thesis using no_object_unanswered [OF assms(6)]
    by (simp add: indication_def respond_def act_simps bindS_def)
qed

theorem unknown_object_unanswered_witness:
  "indication True (Some (do_write_property_multiple [((2, 1), []), ((2, 7), [])])) example_app =
    (Inl AttributeError, example_app)"
  by (rule unknown_object_unanswered [of _ _ 0])
    (simp_all add: example_app_object act_simps object_identifier_ok_def object_identifier_cast_pair_def
      enumerated_cast_def object_type_high_limit_def)

end
