(* ===== verification/ReadRange.thy ===== *)
theory ReadRange
  imports ObjectServices
begin

text \<open>
  The service that reads a range of a list (\<^verbatim>\<open>do_ReadRangeRequest\<close> of
  \<^verbatim>\<open>bacpypes3/service/object.py\<close>): by position, by sequence number or by time. The time of an item
  is a parameter.
\<close>

section \<open>Selection\<close>

datatype range =
    ByPosition int int
  | BySequenceNumber int int
  | ByTime "int option" int
  | ByTimeRange "int option" "int option"
  | NoRange

record 'i selection =
  selected :: "'i list"
  first_item :: bool
  last_item :: bool
  more_items :: bool
  first_number :: "int option"

definition invalid_index :: "'a result" where
  "invalid_index = Inl (property_error ''invalidArrayIndex'')"

text \<open>
  A slice of a Python list from and to non-negative indexes, and the last items of a list.
\<close>

definition slice :: "int \<Rightarrow> int \<Rightarrow> 'a list \<Rightarrow> 'a list" where
  "slice i j xs = drop (nat i) (take (nat j) xs)"

definition last_of :: "int \<Rightarrow> 'a list \<Rightarrow> 'a list" where
  "last_of n xs = drop (length xs - nat n) xs"

definition by_position :: "int \<Rightarrow> int \<Rightarrow> 'i list \<Rightarrow> 'i selection result" where
  "by_position reference count items =
     (let n = int (length items) in
      if count = 0 then invalid_index
      else if reference < 1 then invalid_index
      else if count > 0 then
        let start = reference - 1; stop = min (start + count) n; sel = slice start stop items in
        Inr \<lparr>selected = sel, first_item = (sel \<noteq> [] \<and> start = 0), last_item = (sel \<noteq> [] \<and> stop = n),
          more_items = (stop < n), first_number = None\<rparr>
      else
        let stop = min reference n; start = max (stop + count) 0; sel = rev (slice start stop items) in
        Inr \<lparr>selected = sel, first_item = (sel \<noteq> [] \<and> start = 0), last_item = (sel \<noteq> [] \<and> stop = n),
          more_items = (start > 0), first_number = None\<rparr>)"

text \<open>Items with their sequence numbers, from the first one that is still in the buffer.\<close>

definition numbered :: "int \<Rightarrow> 'i list \<Rightarrow> (int \<times> 'i) list" where
  "numbered first items = zip (map (\<lambda>k. first + int k) [0..<length items]) items"

text \<open>The items of some pairs, with the flags for the numbers among them.\<close>

definition selection_of :: "int \<Rightarrow> int \<Rightarrow> (int \<times> 'i) list \<Rightarrow> bool \<Rightarrow> 'i selection" where
  "selection_of first n pairs unsent =
     \<lparr>selected = map snd pairs, first_item = (first \<in> fst ` set pairs), last_item = (first + n - 1 \<in> fst ` set pairs),
      more_items = unsent, first_number = (case pairs of [] \<Rightarrow> None | p # ps \<Rightarrow> Some (fst p))\<rparr>"

definition counted :: "int \<Rightarrow> (int \<times> 'i) list \<Rightarrow> (int \<times> 'i) list" where
  "counted count matching = (if count > 0 then take (nat count) matching else rev (last_of (- count) matching))"

definition by_sequence_number :: "int \<Rightarrow> int \<Rightarrow> int \<Rightarrow> 'i list \<Rightarrow> 'i selection result" where
  "by_sequence_number first reference count items =
     (if count = 0 then invalid_index
      else
        let matching = filter (\<lambda>(k, x). if count > 0 then reference \<le> k else k \<le> reference) (numbered first items);
            pairs = counted count matching in
        Inr (selection_of first (int (length items)) pairs (length pairs < length matching)))"

text \<open>Items in the order of their times, those without a time last.\<close>

definition time_ordered :: "('i \<Rightarrow> int option) \<Rightarrow> (int \<times> 'i) list \<Rightarrow> (int \<times> 'i) list" where
  "time_ordered time pairs =
     sort_key (\<lambda>p. the (time (snd p))) (filter (\<lambda>p. time (snd p) \<noteq> None) pairs) @
     filter (\<lambda>p. time (snd p) = None) pairs"

definition in_time :: "('i \<Rightarrow> int option) \<Rightarrow> (int \<Rightarrow> bool) \<Rightarrow> bool \<Rightarrow> (int \<times> 'i) list \<Rightarrow> (int \<times> 'i) list" where
  "in_time time within all pairs =
     filter (\<lambda>p. case time (snd p) of None \<Rightarrow> False | Some t \<Rightarrow> within t) (time_ordered time pairs) @
     (if all then filter (\<lambda>p. time (snd p) = None) pairs else [])"

definition by_time :: "('i \<Rightarrow> int option) \<Rightarrow> int \<Rightarrow> int option \<Rightarrow> int \<Rightarrow> 'i list \<Rightarrow> 'i selection result" where
  "by_time time first reference count items =
     (if count = 0 then invalid_index
      else
        let within = (\<lambda>t. case reference of None \<Rightarrow> True | Some r \<Rightarrow> if count > 0 then r \<le> t else t \<le> r);
            matching = in_time time within (reference = None) (numbered first items);
            pairs = counted count matching in
        Inr (selection_of first (int (length items)) pairs (length pairs < length matching)))"

definition by_time_range ::
    "('i \<Rightarrow> int option) \<Rightarrow> int \<Rightarrow> int option \<Rightarrow> int option \<Rightarrow> 'i list \<Rightarrow> 'i selection result" where
  "by_time_range time first beginning ending items =
     bindR (case (beginning, ending) of
        (Some b, Some e) \<Rightarrow> if b > e then Inl (property_error ''inconsistentParameters'') else Inr ()
      | _ \<Rightarrow> Inr ())
     (\<lambda>_.
        let within = (\<lambda>t. (case beginning of None \<Rightarrow> True | Some b \<Rightarrow> b \<le> t) \<and> (case ending of None \<Rightarrow> True | Some e \<Rightarrow> t \<le> e));
            matching = in_time time within (beginning = None \<and> ending = None) (numbered first items) in
        Inr (selection_of first (int (length items)) matching
          (matching \<noteq> [] \<and> fst (last matching) < first + int (length items) - 1)))"

definition read_range :: "('i \<Rightarrow> int option) \<Rightarrow> int \<Rightarrow> range option \<Rightarrow> 'i list \<Rightarrow> 'i selection result" where
  "read_range time first r items =
     (case r of
        None \<Rightarrow> Inr \<lparr>selected = items, first_item = (items \<noteq> []), last_item = (items \<noteq> []), more_items = False, first_number = None\<rparr>
      | Some (ByPosition reference count) \<Rightarrow> by_position reference count items
      | Some (BySequenceNumber reference count) \<Rightarrow> by_sequence_number first reference count items
      | Some (ByTime reference count) \<Rightarrow> by_time time first reference count items
      | Some (ByTimeRange beginning ending) \<Rightarrow> by_time_range time first beginning ending items
      | Some NoRange \<Rightarrow> Inl (ExecutionError ''services'' ''missingRequiredParameter''))"

section \<open>The service\<close>

text \<open>The class of the items of a list, or of a list that is an item of an array.\<close>

definition item_type :: "elem \<Rightarrow> int option \<Rightarrow> elem option" where
  "item_type e index =
     (case shape_of e of
        SequenceOf sub \<Rightarrow> Some sub
      | ArrayOf n a \<Rightarrow> (case (shape_of a, index) of (SequenceOf sub, Some _) \<Rightarrow> Some sub | _ \<Rightarrow> None)
      | _ \<Rightarrow> None)"

definition count_property :: "bac_object \<Rightarrow> string \<Rightarrow> int \<Rightarrow> int" where
  "count_property ob attr otherwise =
     (case obj_values ob attr of Some (VAtom (AUnsigned n)) \<Rightarrow> n | _ \<Rightarrow> otherwise)"

definition first_sequence :: "bac_object \<Rightarrow> val list \<Rightarrow> int" where
  "first_sequence ob items =
     (let record_count = count_property ob ''recordCount'' (int (length items));
          total_record_count = count_property ob ''totalRecordCount'' record_count in
      max 1 (total_record_count - record_count + 1))"

definition read_range_ack ::
    "int \<times> int \<Rightarrow> int \<Rightarrow> int option \<Rightarrow> elem \<Rightarrow> val selection \<Rightarrow> response result" where
  "read_range_ack oid prop index sub s =
     bindR (mapR (\<lambda>v. bindR (encode sub v) (\<lambda>us. Inr (VTags us))) (selected s)) (\<lambda>data.
     bindR (encode (plain (Sequence ReadRangeACK))
       (VSequence
         [Some (object_value oid), Some (enum_value prop), map_option unsigned_value index,
          Some (VAtom (ABitString [flag_bit (first_item s), flag_bit (last_item s), flag_bit (more_items s)])),
          Some (unsigned_value (int (length (selected s)))), Some (VList data),
          if selected s = [] then None else map_option unsigned_value (first_number s)]))
       (\<lambda>ts. Inr (ComplexAck ts)))"

definition do_read_range ::
    "(val \<Rightarrow> int option) \<Rightarrow> int \<times> int \<Rightarrow> int \<Rightarrow> int option \<Rightarrow> range option \<Rightarrow> unit app_action" where
  "do_read_range time objid prop index r =
     withS (\<lambda>s.
       let oid = wildcard s objid in
       case get_object_id s oid of
         None \<Rightarrow> raiseS (object_error ''unknownObject'')
       | Some k \<Rightarrow>
           (case property_type (objects s k) prop of
              None \<Rightarrow> raiseS (property_error ''unknownProperty'')
            | Some e \<Rightarrow>
                (case item_type e index of
                   None \<Rightarrow> raiseS (ExecutionError ''services'' ''propertyIsNotAList'')
                 | Some sub \<Rightarrow>
                     bindS (liftS (read_known (objects s k) prop index)) (\<lambda>(e, v).
                       let items = (case v of VList vs \<Rightarrow> vs | _ \<Rightarrow> [v]) in
                       bindS (liftS (read_range time (first_sequence (objects s k) items) r items)) (\<lambda>sel.
                         respond (read_range_ack oid prop index sub sel))))))"

section \<open>Reading a list in parts\<close>

text \<open>
  What a client does: it reads \<open>count\<close> items, and goes on after the last one while the answer says
  that there are more. The first number is the number of reads it makes at most.
\<close>

fun pages :: "nat \<Rightarrow> int \<Rightarrow> int \<Rightarrow> 'i list \<Rightarrow> 'i list list" where
  "pages 0 reference count items = []"
| "pages (Suc m) reference count items =
     (case by_position reference count items of
        Inl _ \<Rightarrow> []
      | Inr s \<Rightarrow>
          selected s #
          (if more_items s then pages m (reference + int (length (selected s))) count items else []))"

lemma slice_length: "0 \<le> i \<Longrightarrow> i \<le> j \<Longrightarrow> j \<le> int (length xs) \<Longrightarrow> length (slice i j xs) = nat (j - i)"
  by (simp add: slice_def nat_diff_distrib min_absorb2 nat_le_iff)

lemma slice_append:
  assumes "0 \<le> i" "i \<le> j"
  shows "slice i j xs @ drop (nat j) xs = drop (nat i) xs"
proof -
  have "drop (nat i) (take (nat j) xs @ drop (nat j) xs) = slice i j xs @ drop (nat i - length (take (nat j) xs)) (drop (nat j) xs)"
    unfolding drop_append slice_def ..
  moreover have "drop (nat i - length (take (nat j) xs)) (drop (nat j) xs) = drop (nat j) xs"
    using assms by (cases "nat j \<le> length xs") (simp_all add: nat_le_eq_zle)
  ultimately show ?thesis by simp
qed

lemma pages_from:
  assumes "0 < count" "1 \<le> reference" "int (length items) < reference + int m"
  shows "concat (pages m reference count items) = drop (nat (reference - 1)) items"
  using assms
proof (induction m arbitrary: reference)
  case 0
  then show ?case by simp
next
  case (Suc m)
  let ?n = "int (length items)" and ?start = "reference - 1"
  let ?stop = "min (?start + count) ?n" let ?sel = "slice ?start ?stop items"
  show ?case
  proof (cases "?stop < ?n")
    case True
    then have stop: "?stop = ?start + count" by linarith
    have len: "int (length ?sel) = count" using Suc.prems True stop by (simp add: slice_length)
    have "concat (pages m (reference + count) count items) = drop (nat ?stop) items"
      using Suc.IH [of "reference + count"] Suc.prems unfolding stop by (simp add: algebra_simps)
    then show ?thesis using Suc.prems True len slice_append [of ?start ?stop items] stop
      by (simp add: by_position_def Let_def)
  next
    case False
    then have stop: "?stop = ?n" by linarith
    have "?sel = drop (nat ?start) items" unfolding stop by (simp add: slice_def)
    then show ?thesis using Suc.prems False by (simp add: by_position_def Let_def stop)
  qed
qed

lemma pages_sizes:
  assumes "0 < count" "1 \<le> reference" "reference \<le> int (length items)" "p \<in> set (pages m reference count items)"
  shows "p \<noteq> [] \<and> int (length p) \<le> count"
  using assms
proof (induction m arbitrary: reference)
  case 0
  then show ?case by simp
next
  case (Suc m)
  let ?n = "int (length items)" and ?start = "reference - 1"
  let ?stop = "min (?start + count) ?n" let ?sel = "slice ?start ?stop items"
  have len: "int (length ?sel) = ?stop - ?start" using Suc.prems by (simp add: slice_length)
  then have sel: "?sel \<noteq> [] \<and> int (length ?sel) \<le> count" using Suc.prems by (cases ?sel) auto
  consider "p = ?sel" | "?stop < ?n" "p \<in> set (pages m (reference + int (length ?sel)) count items)"
    using Suc.prems by (auto simp: by_position_def Let_def split: if_splits)
  then show ?case
  proof cases
    case 2
    have next_page: "reference + int (length ?sel) \<le> ?n" using 2(1) len by simp
    show ?thesis using Suc.IH [OF Suc.prems(1) _ next_page 2(2)] Suc.prems(2) by simp
  qed (use sel in simp)
qed

text \<open>
  Property C23. A list that is read by position in parts of any size, from the first item on and for
  as long as the answer says that there are more, is read completely and in order, and no part is
  asked for beyond the end.
\<close>

theorem paging_complete:
  assumes "0 < count" "length items \<le> m"
  shows "concat (pages (Suc m) 1 count items) = items \<and>
    (items \<noteq> [] \<longrightarrow> (\<forall>p\<in>set (pages (Suc m) 1 count items). p \<noteq> [] \<and> int (length p) \<le> count))"
proof -
  have "concat (pages (Suc m) 1 count items) = items"
    using pages_from [of count 1 items "Suc m"] assms by simp
  moreover have "p \<noteq> [] \<and> int (length p) \<le> count" if "items \<noteq> []" "p \<in> set (pages (Suc m) 1 count items)" for p
    by (rule pages_sizes [OF assms(1) _ _ that(2)]) (use that(1) in \<open>cases items; simp\<close>)+
  ultimately show ?thesis by blast
qed

theorem paging_complete_witness:
  "concat (pages (Suc 7) 1 3 [1 :: nat, 2, 3, 4, 5, 6, 7]) = [1, 2, 3, 4, 5, 6, 7] \<and>
    list_all (\<lambda>p. p \<noteq> [] \<and> int (length p) \<le> 3) (pages (Suc 7) 1 3 [1 :: nat, 2, 3, 4, 5, 6, 7])"
  unfolding list_all_iff using paging_complete [of 3 "[1 :: nat, 2, 3, 4, 5, 6, 7]" 7] by (simp del: pages.simps)

section \<open>Sequence numbers\<close>

lemma filter_drop:
  assumes "\<And>i. i < length xs \<Longrightarrow> P (xs ! i) \<longleftrightarrow> j \<le> i"
  shows "filter P xs = drop j xs"
proof -
  have "filter P (take j xs) = []" using assms by (auto simp: filter_empty_conv in_set_conv_nth)
  moreover have "filter P (drop j xs) = drop j xs" using assms by (auto simp: filter_id_conv in_set_conv_nth)
  ultimately have "filter P (take j xs @ drop j xs) = drop j xs" unfolding filter_append by simp
  then show ?thesis by simp
qed

lemma filter_take:
  assumes "\<And>i. i < length xs \<Longrightarrow> P (xs ! i) \<longleftrightarrow> i < j"
  shows "filter P xs = take j xs"
proof -
  have "filter P (take j xs) = take j xs" using assms by (auto simp: filter_id_conv in_set_conv_nth)
  moreover have "filter P (drop j xs) = []" using assms by (auto simp: filter_empty_conv in_set_conv_nth)
  ultimately have "filter P (take j xs @ drop j xs) = take j xs" unfolding filter_append by simp
  then show ?thesis by simp
qed

lemma numbered_length: "length (numbered first items) = length items"
  by (simp add: numbered_def)

lemma numbered_nth: "i < length items \<Longrightarrow> numbered first items ! i = (first + int i, items ! i)"
  by (simp add: numbered_def)

lemma numbered_from:
  "filter (\<lambda>(k, x). reference \<le> k) (numbered first items) = drop (nat (reference - first)) (numbered first items)"
  by (rule filter_drop) (auto simp: numbered_length numbered_nth)

lemma numbered_to:
  "filter (\<lambda>(k, x). k \<le> reference) (numbered first items) = take (nat (reference - first + 1)) (numbered first items)"
  by (rule filter_take) (auto simp: numbered_length numbered_nth)

lemma map_snd_numbered: "map snd (numbered first items) = items"
  by (simp add: numbered_def)

text \<open>
  A read by sequence number gives the items from that number on, at most as many as were
  asked for, or those up to the number in the reverse order; it says that there are more when some
  were left out.
\<close>

theorem sequence_window:
  "case by_sequence_number first reference count items of
     Inl e \<Rightarrow> count = 0 \<and> e = property_error ''invalidArrayIndex''
   | Inr s \<Rightarrow>
       (let window = (if count > 0 then drop (nat (reference - first)) items
                      else take (nat (reference - first + 1)) items);
            sent = (if count > 0 then take (nat count) window
                    else rev (drop (length window - nat (- count)) window)) in
        count \<noteq> 0 \<and> selected s = sent \<and> more_items s = (length sent < length window))"
  by (simp add: by_sequence_number_def numbered_from numbered_to selection_of_def counted_def last_of_def Let_def
      invalid_index_def map_snd_numbered numbered_length
      take_map [symmetric] drop_map [symmetric] rev_map [symmetric])

section \<open>Times\<close>

lemma numbered_snoc: "numbered first (xs @ [x]) = numbered first xs @ [(first + int (length xs), x)]"
  by (simp add: numbered_def)

lemma numbered_below: "p \<in> set (numbered first items) \<Longrightarrow> fst p < first + int (length items)"
  by (auto simp: in_set_conv_nth numbered_nth numbered_length)

lemma numbered_item: "p \<in> set (numbered first items) \<Longrightarrow> snd p \<in> set items"
  by (auto simp: in_set_conv_nth numbered_nth numbered_length)

lemma last_matching:
  assumes "filter P (numbered first items) \<noteq> []"
  shows "fst (last (filter P (numbered first items))) < first + int (length items) - 1 \<longleftrightarrow>
    \<not> P (last (numbered first items))"
proof (cases items rule: rev_cases)
  case Nil
  then show ?thesis using assms by (simp add: numbered_def)
next
  case (snoc xs x)
  show ?thesis
  proof (cases "P (last (numbered first items))")
    case False
    then have "filter P (numbered first items) = filter P (numbered first xs)" by (simp add: snoc numbered_snoc)
    moreover from this have "last (filter P (numbered first xs)) \<in> set (filter P (numbered first xs))"
      using assms by (metis last_in_set)
    ultimately show ?thesis using False numbered_below [of "last (filter P (numbered first xs))" first xs]
      by (simp add: snoc)
  qed (simp add: snoc numbered_snoc)
qed

lemma time_ordered_sorted:
  assumes "list_all (\<lambda>x. time x \<noteq> None) items" "sorted (map (\<lambda>x. the (time x)) items)"
  shows "time_ordered time (numbered first items) = numbered first items"
proof -
  have snds: "map (f \<circ> snd) (numbered first items) = map f items" for f :: "'a \<Rightarrow> int"
    by (simp flip: map_map add: map_snd_numbered)
  have all: "p \<in> set (numbered first items) \<Longrightarrow> time (snd p) \<noteq> None" for p
    using assms(1) numbered_item by (fastforce simp: list_all_iff)
  then have "filter (\<lambda>p. time (snd p) \<noteq> None) (numbered first items) = numbered first items"
    by (simp add: filter_id_conv)
  moreover have "filter (\<lambda>p. time (snd p) = None) (numbered first items) = []"
    using all by (simp add: filter_empty_conv)
  moreover have "sort_key (\<lambda>p. the (time (snd p))) (numbered first items) = numbered first items"
    using snds [of "\<lambda>x. the (time x)"] assms(2) by (intro sort_key_id_if_sorted) (simp add: comp_def)
  ultimately show ?thesis by (simp add: time_ordered_def)
qed

text \<open>
  A read by time range of a log whose times ascend gives every item of the range in the
  order of the log, all at once; the answer says all the same that there are more items whenever the
  log goes on after the end of the range.
\<close>

theorem time_range_window:
  assumes "list_all (\<lambda>x. time x \<noteq> None) items" "sorted (map (\<lambda>x. the (time x)) items)" "b \<le> e"
  shows "\<exists>s. by_time_range time first (Some b) (Some e) items = Inr s \<and>
    selected s = filter (\<lambda>x. b \<le> the (time x) \<and> the (time x) \<le> e) items \<and>
    (more_items s \<longleftrightarrow> selected s \<noteq> [] \<and> e < the (time (last items)))"
proof -
  define P where "P = (\<lambda>x. b \<le> the (time x) \<and> the (time x) \<le> e)"
  let ?N = "numbered first items" and ?M = "filter (P \<circ> snd) (numbered first items)"
  have known: "p \<in> set ?N \<Longrightarrow> time (snd p) \<noteq> None" for p
    using assms(1) numbered_item by (fastforce simp: list_all_iff)
  have matching: "in_time time (\<lambda>t. b \<le> t \<and> t \<le> e) False ?N = ?M"
    unfolding in_time_def time_ordered_sorted [OF assms(1,2)]
    by (simp, rule filter_cong) (auto dest!: known simp: P_def)
  have sel: "map snd ?M = filter P items"
    using filter_map [of P snd ?N] by (simp add: map_snd_numbered)
  have lasts: "(fst (last ?M) < first + int (length items) - 1) = (e < the (time (last items)))" if "?M \<noteq> []"
  proof -
    have ne: "?N \<noteq> []" "items \<noteq> []" using that by (auto simp: numbered_def)
    have "snd (last ?N) = last items" using map_snd_numbered [of first items] ne(1) by (metis last_map)
    moreover define p where "p = hd ?M"
    have p: "p \<in> set ?M" unfolding p_def by (rule hd_in_set [OF that])
    then have "snd p \<in> set items" by (auto intro: numbered_item)
    then have "the (time (snd p)) \<le> the (time (last items))"
      using assms(2) ne(2) by (cases items rule: rev_cases) (auto simp: sorted_append)
    ultimately show ?thesis using last_matching [OF that] p by (auto simp: P_def)
  qed
  show ?thesis using assms(3) lasts sel [symmetric]
    by (auto simp: by_time_range_def matching bindR_def selection_of_def P_def Let_def)
qed

theorem time_range_window_witness:
  "\<exists>s. by_time_range (\<lambda>t :: int. Some t) 5 (Some 20) (Some 30) [10, 20, 30, 40] = Inr s \<and>
    selected s = filter (\<lambda>x. 20 \<le> the (Some x) \<and> the (Some x) \<le> 30) [10, 20, 30, 40] \<and>
    (more_items s \<longleftrightarrow> selected s \<noteq> [] \<and> 30 < the (Some (last [10 :: int, 20, 30, 40])))"
  by (rule time_range_window) simp_all


end
