(* ===== verification/Events.thy ===== *)
theory Events
  imports Action
begin

text \<open>
  Event detection of a local object (\<^verbatim>\<open>bacpypes3/local/event.py\<close>) and its fault detection
  (\<^verbatim>\<open>bacpypes3/local/fault.py\<close>), with intrinsic reporting: the object that is monitored has the
  properties of the event. An algorithm is scheduled when a property that it monitors changes,
  compares the event state and asks for a transition, which may be delayed.
\<close>

section \<open>State\<close>

datatype event_state = NORMAL | FAULT | OFFNORMAL | HIGH_LIMIT | LOW_LIMIT | LIFE_SAFETY_ALARM

definition no_fault_detected :: int where "no_fault_detected = 0"
definition over_range :: int where "over_range = 2"
definition under_range :: int where "under_range = 3"

text \<open>The callbacks that are scheduled by \<^verbatim>\<open>call_soon\<close>.\<close>

datatype scheduled_run = ExecuteEvent | ExecuteFault

text \<open>
  The properties of the object; then the attributes of its event algorithm: the snapshot of the
  event state, the transition that is scheduled and the time it is due, whether it is told about
  changes, whether it is scheduled, and the two changes it asks for; those of the fault
  algorithm, if there is one; and the event loop with its callbacks and its clock.
  \<open>inputs\<close> are the other parameters of the algorithms. \<open>notified\<close> are the transitions that are
  reported.
\<close>

record 'i event_object =
  event_state :: event_state
  reliability :: "int option"
  event_detection_enable :: bool
  event_algorithm_inhibit :: bool
  time_delay :: "nat option"
  time_delay_normal :: "nat option"
  acked_transitions :: "bool list"
  event_time_stamps :: "nat list"
  ack_required :: "bool list option"
  inputs :: 'i
  current_state :: event_state
  transition_state :: "event_state option"
  transition_timeout :: "nat option"
  execute_enabled :: bool
  execute_handle :: bool
  changed_reliability :: bool
  changed_inhibit :: "bool option"
  fault_algorithm :: bool
  evaluated_reliability :: "int option"
  fault_inhibit :: bool
  fault_enabled :: bool
  fault_handle :: bool
  scheduled_runs :: "scheduled_run list"
  clock :: nat
  notified :: "(event_state \<times> event_state) list"

type_synonym 'i event_action = "('i event_object, unit) action"

section \<open>Changes\<close>

text \<open>\<^verbatim>\<open>Parameter.property_change\<close> of the two algorithms; \<open>record_change\<close> notes what changed.\<close>

definition event_property_change :: "('i event_object \<Rightarrow> 'i event_object) \<Rightarrow> 'i event_action" where
  "event_property_change record_change =
     withS (\<lambda>s.
       if \<not> execute_enabled s then retS ()
       else if execute_handle s then retS ()
       else seqS
         [modS record_change,
          modS (\<lambda>s. s\<lparr>execute_handle := True, scheduled_runs := scheduled_runs s @ [ExecuteEvent]\<rparr>)])"

definition fault_property_change :: "'i event_action" where
  "fault_property_change =
     withS (\<lambda>s.
       if \<not> fault_algorithm s then retS ()
       else if \<not> fault_enabled s then retS ()
       else if fault_handle s then retS ()
       else modS (\<lambda>s. s\<lparr>fault_handle := True, scheduled_runs := scheduled_runs s @ [ExecuteFault]\<rparr>))"

text \<open>Setters call the monitor functions when the value changes, in the order they were added.\<close>

definition set_event_state :: "event_state \<Rightarrow> 'i event_action" where
  "set_event_state v =
     withS (\<lambda>s.
       if event_state s = v then retS ()
       else seqS [modS (\<lambda>s. s\<lparr>event_state := v\<rparr>), event_property_change id])"

definition set_reliability :: "int \<Rightarrow> 'i event_action" where
  "set_reliability v =
     withS (\<lambda>s.
       if reliability s = Some v then retS ()
       else seqS
         [modS (\<lambda>s. s\<lparr>reliability := Some v\<rparr>),
          event_property_change (\<lambda>s. s\<lparr>changed_reliability := True\<rparr>)])"

definition set_inhibit :: "bool \<Rightarrow> 'i event_action" where
  "set_inhibit v =
     withS (\<lambda>s.
       if event_algorithm_inhibit s = v then retS ()
       else seqS
         [modS (\<lambda>s. s\<lparr>event_algorithm_inhibit := v\<rparr>),
          event_property_change (\<lambda>s. s\<lparr>changed_inhibit := Some v\<rparr>)])"

definition set_detection :: "bool \<Rightarrow> 'i event_action" where
  "set_detection v =
     withS (\<lambda>s.
       if event_detection_enable s = v then retS ()
       else seqS [modS (\<lambda>s. s\<lparr>event_detection_enable := v\<rparr>), event_property_change id])"

definition set_delays :: "nat option \<Rightarrow> nat option \<Rightarrow> 'i event_action" where
  "set_delays d n =
     withS (\<lambda>s.
       if time_delay s = d \<and> time_delay_normal s = n then retS ()
       else seqS [modS (\<lambda>s. s\<lparr>time_delay := d, time_delay_normal := n\<rparr>), event_property_change id])"

text \<open>The value that both algorithms monitor. The fault algorithm is the first to be added.\<close>

definition set_inputs :: "'i \<Rightarrow> 'i event_action" where
  "set_inputs v =
     withS (\<lambda>s.
       if inputs s = v then retS ()
       else seqS [modS (\<lambda>s. s\<lparr>inputs := v\<rparr>), fault_property_change, event_property_change id])"

section \<open>Transitions\<close>

definition state_transition_cancel :: "'i event_action" where
  "state_transition_cancel =
     withS (\<lambda>s.
       seqS
         [modS (\<lambda>s. s\<lparr>transition_state := None\<rparr>),
          if transition_timeout s = None then raiseS AttributeError
          else modS (\<lambda>s. s\<lparr>transition_timeout := None\<rparr>)])"

fun state_group :: "event_state \<Rightarrow> event_state" where
  "state_group NORMAL = NORMAL"
| "state_group FAULT = FAULT"
| "state_group _ = OFFNORMAL"

definition state_index :: "event_state \<Rightarrow> nat" where
  "state_index st = (case state_group st of FAULT \<Rightarrow> 1 | NORMAL \<Rightarrow> 2 | _ \<Rightarrow> 0)"

text \<open>The object has arrays of three time stamps and three flags.\<close>

definition make_transition :: "event_state option \<Rightarrow> 'i event_action" where
  "make_transition new =
     withS (\<lambda>s.
       let old = current_state s in
       bindS (modS (\<lambda>s. s\<lparr>execute_enabled := False\<rparr>)) (\<lambda>_.
       bindS (liftS (need TypeError new)) (\<lambda>st.
       seqS
         [set_event_state st,
          modS (\<lambda>s. s\<lparr>execute_enabled := True,
            event_time_stamps := (event_time_stamps s)[state_index st := clock s]\<rparr>),
          bindS (liftS (need AttributeError (ack_required s))) (\<lambda>required.
            if required ! state_index st
            then modS (\<lambda>s. s\<lparr>acked_transitions := (acked_transitions s)[state_index st := False]\<rparr>)
            else retS ()),
          modS (\<lambda>s. s\<lparr>notified := notified s @ [(old, st)]\<rparr>),
          if state_group old = FAULT \<and> state_group st = NORMAL
          then modS (\<lambda>s. s\<lparr>scheduled_runs := scheduled_runs s @ [ExecuteEvent]\<rparr>)
          else retS ()])))"

definition transition_delay :: "'i event_object \<Rightarrow> event_state \<Rightarrow> nat" where
  "transition_delay s st =
     (case (if st = NORMAL \<and> time_delay_normal s \<noteq> None then time_delay_normal s else time_delay s) of
        None \<Rightarrow> 0
      | Some d \<Rightarrow> d)"

definition state_transition :: "event_state option \<Rightarrow> bool \<Rightarrow> 'i event_action" where
  "state_transition new immediate =
     withS (\<lambda>s.
       let pending = transition_timeout s \<noteq> None;
           target = transition_state s;
           current = current_state s in
       if new \<noteq> None \<and> pending \<and> new = target then retS ()
       else if new \<noteq> None \<and> pending \<and> new = Some current then state_transition_cancel
       else if new = None \<and> pending \<and> Some current \<noteq> target then state_transition_cancel
       else if immediate then
         seqS [if pending then state_transition_cancel else retS (), make_transition new]
       else if pending \<and> new = target then retS ()
       else
         bindS (if pending then state_transition_cancel else retS ()) (\<lambda>_.
           if pending \<and> new = Some current then retS ()
           else
             (case new of
                None \<Rightarrow> retS ()
              | Some st \<Rightarrow>
                  if transition_delay s st \<noteq> 0 then
                    modS (\<lambda>s. s\<lparr>transition_state := Some st,
                      transition_timeout := Some (clock s + transition_delay s st)\<rparr>)
                  else make_transition new)))"

definition state_transition_delayed :: "'i event_action" where
  "state_transition_delayed =
     withS (\<lambda>s.
       seqS
         [modS (\<lambda>s. s\<lparr>transition_state := None, transition_timeout := None\<rparr>),
          state_transition (transition_state s) True])"

section \<open>Execution\<close>

text \<open>\<open>decide\<close> is the algorithm: the state it asks for, if any.\<close>

type_synonym 'i decision = "'i \<Rightarrow> event_state \<Rightarrow> event_state option"
type_synonym 'i evaluation = "'i \<Rightarrow> int option \<Rightarrow> int option"

definition execute :: "'i decision \<Rightarrow> 'i event_action" where
  "execute decide = withS (\<lambda>s. state_transition (decide (inputs s) (current_state s)) False)"

definition nothing_changed :: "'i event_action" where
  "nothing_changed = modS (\<lambda>s. s\<lparr>changed_reliability := False, changed_inhibit := None\<rparr>)"

definition evaluate_inhibit :: "'i decision \<Rightarrow> 'i event_action" where
  "evaluate_inhibit decide =
     withS (\<lambda>s.
       seqS
         [(case changed_inhibit s of
             Some True \<Rightarrow>
               seqS
                 [modS (\<lambda>s. s\<lparr>transition_timeout := None\<rparr>),
                  if current_state s \<noteq> NORMAL then state_transition (Some NORMAL) True else retS ()]
           | Some False \<Rightarrow> execute decide
           | None \<Rightarrow> if event_algorithm_inhibit s then retS () else execute decide),
          nothing_changed])"

definition evaluate_event :: "'i decision \<Rightarrow> 'i event_action" where
  "evaluate_event decide =
     withS (\<lambda>s.
       let evaluated =
         (if changed_reliability s then reliability s
          else if reliability s = None \<and> fault_algorithm s then evaluated_reliability s
          else None) in
       bindS (modS (\<lambda>s. s\<lparr>changed_reliability := False\<rparr>)) (\<lambda>_.
         case evaluated of
           None \<Rightarrow> evaluate_inhibit decide
         | Some rel \<Rightarrow>
             if rel = no_fault_detected then
               if current_state s = NORMAL then evaluate_inhibit decide
               else state_transition (Some NORMAL) False
             else if current_state s \<noteq> FAULT then state_transition (Some FAULT) False
             else if \<not> fault_algorithm s then raiseS AttributeError
             else if reliability s = evaluated then retS ()
             else state_transition (Some FAULT) False))"

definition event_execute :: "'i decision \<Rightarrow> 'i event_action" where
  "event_execute decide =
     bindS (modS (\<lambda>s. s\<lparr>execute_handle := False, current_state := event_state s\<rparr>)) (\<lambda>_.
     withS (\<lambda>s.
       if \<not> event_detection_enable s then
         seqS [if current_state s \<noteq> NORMAL then set_event_state NORMAL else retS (), nothing_changed]
       else evaluate_event decide))"

definition fault_execute :: "'i evaluation \<Rightarrow> 'i event_action" where
  "fault_execute evaluate =
     bindS (modS (\<lambda>s. s\<lparr>fault_handle := False\<rparr>)) (\<lambda>_.
     withS (\<lambda>s.
       if fault_inhibit s then modS (\<lambda>s. s\<lparr>evaluated_reliability := None\<rparr>)
       else
         let result = evaluate (inputs s) (reliability s) in
         seqS
           [modS (\<lambda>s. s\<lparr>fault_enabled := False, evaluated_reliability := result\<rparr>),
            (case result of
               None \<Rightarrow> retS ()
             | Some v \<Rightarrow> if reliability s \<noteq> None then set_reliability v else retS ()),
            modS (\<lambda>s. s\<lparr>fault_enabled := True\<rparr>)]))"

section \<open>Algorithms\<close>

definition change_of_state :: "'v \<times> 'v list \<Rightarrow> event_state \<Rightarrow> event_state option" where
  "change_of_state p current =
     (case p of (monitored_value, alarm_values) \<Rightarrow>
        if current = NORMAL \<and> monitored_value \<in> set alarm_values then Some OFFNORMAL
        else if current = OFFNORMAL \<and> monitored_value \<notin> set alarm_values then Some NORMAL
        else None)"

text \<open>The arithmetic of floating point numbers is a parameter.\<close>

record 'v arithmetic =
  less :: "'v \<Rightarrow> 'v \<Rightarrow> bool"
  less_eq_of :: "'v \<Rightarrow> 'v \<Rightarrow> bool"
  plus_of :: "'v \<Rightarrow> 'v \<Rightarrow> 'v"
  minus_of :: "'v \<Rightarrow> 'v \<Rightarrow> 'v"

record 'v range_inputs =
  monitored_value :: 'v
  low_limit :: 'v
  high_limit :: 'v
  deadband :: 'v
  limit_enable :: "(bool \<times> bool) option"
  minimum_normal :: 'v
  maximum_normal :: 'v

definition out_of_range :: "'v arithmetic \<Rightarrow> 'v range_inputs \<Rightarrow> event_state \<Rightarrow> event_state option" where
  "out_of_range ops p current =
     (let (low_enable, high_enable) = (case limit_enable p of None \<Rightarrow> (True, True) | Some e \<Rightarrow> e);
          v = monitored_value p in
      if current = NORMAL \<and> high_enable \<and> less ops (high_limit p) v then Some HIGH_LIMIT
      else if current = NORMAL \<and> low_enable \<and> less ops v (low_limit p) then Some LOW_LIMIT
      else if current = HIGH_LIMIT \<and> \<not> high_enable then Some NORMAL
      else if current = HIGH_LIMIT \<and> low_enable \<and> less ops v (low_limit p) then Some LOW_LIMIT
      else if current = HIGH_LIMIT \<and> less ops v (minus_of ops (high_limit p) (deadband p)) then Some NORMAL
      else if current = LOW_LIMIT \<and> \<not> low_enable then Some NORMAL
      else if current = LOW_LIMIT \<and> high_enable \<and> less ops (high_limit p) v then Some HIGH_LIMIT
      else if current = LOW_LIMIT \<and> less ops (plus_of ops (low_limit p) (deadband p)) v then Some NORMAL
      else None)"

definition fault_out_of_range :: "'v arithmetic \<Rightarrow> 'v range_inputs \<Rightarrow> int option \<Rightarrow> int option" where
  "fault_out_of_range ops p rel =
     (let v = monitored_value p;
          under = less ops v (minimum_normal p);
          over = less ops (maximum_normal p) v;
          within = less_eq_of ops (minimum_normal p) v \<and> less_eq_of ops v (maximum_normal p) in
      if rel = Some no_fault_detected \<and> under then Some under_range
      else if rel = Some no_fault_detected \<and> over then Some over_range
      else if rel = Some under_range \<and> over then Some over_range
      else if rel = Some over_range \<and> under then Some under_range
      else if rel = Some under_range \<and> within then Some no_fault_detected
      else if rel = Some over_range \<and> within then Some no_fault_detected
      else None)"

section \<open>The event loop\<close>

text \<open>What happens: a property is written, time passes, a callback or the timer runs.\<close>

datatype 'i stimulus =
    SetInputs 'i
  | SetReliability int
  | SetInhibit bool
  | SetDetection bool
  | SetDelays "nat option" "nat option"
  | Elapse
  | RunCallback
  | RunTimer

definition run_scheduled :: "'i decision \<Rightarrow> 'i evaluation \<Rightarrow> 'i event_action" where
  "run_scheduled decide evaluate =
     withS (\<lambda>s.
       case scheduled_runs s of
         [] \<Rightarrow> retS ()
       | c # cs \<Rightarrow>
           bindS (modS (\<lambda>s. s\<lparr>scheduled_runs := cs\<rparr>)) (\<lambda>_.
             case c of ExecuteEvent \<Rightarrow> event_execute decide | ExecuteFault \<Rightarrow> fault_execute evaluate))"

definition run_timer :: "'i event_action" where
  "run_timer =
     withS (\<lambda>s.
       case transition_timeout s of
         None \<Rightarrow> retS ()
       | Some due \<Rightarrow> if due \<le> clock s then state_transition_delayed else retS ())"

definition stimulus_action :: "'i decision \<Rightarrow> 'i evaluation \<Rightarrow> 'i stimulus \<Rightarrow> 'i event_action" where
  "stimulus_action decide evaluate x =
     (case x of
        SetInputs v \<Rightarrow> set_inputs v
      | SetReliability v \<Rightarrow> set_reliability v
      | SetInhibit v \<Rightarrow> set_inhibit v
      | SetDetection v \<Rightarrow> set_detection v
      | SetDelays d n \<Rightarrow> set_delays d n
      | Elapse \<Rightarrow> modS (\<lambda>s. s\<lparr>clock := clock s + 1\<rparr>)
      | RunCallback \<Rightarrow> run_scheduled decide evaluate
      | RunTimer \<Rightarrow> run_timer)"

text \<open>The loop logs an exception of a callback and goes on.\<close>

definition react :: "'i decision \<Rightarrow> 'i evaluation \<Rightarrow> 'i stimulus list \<Rightarrow> 'i event_object \<Rightarrow> 'i event_object" where
  "react decide evaluate xs s = fold (\<lambda>x s. snd (stimulus_action decide evaluate x s)) xs s"

section \<open>Idle objects\<close>

text \<open>An object whose algorithms wait for changes; it has a notification class.\<close>

definition idle :: "'i event_object \<Rightarrow> bool" where
  "idle s \<longleftrightarrow> execute_enabled s \<and> fault_enabled s \<and> \<not> execute_handle s \<and> \<not> fault_handle s \<and>
     scheduled_runs s = [] \<and> \<not> changed_reliability s \<and> changed_inhibit s = None \<and>
     event_detection_enable s \<and> \<not> event_algorithm_inhibit s \<and> ack_required s \<noteq> None"

lemmas change_simps = event_property_change_def fault_property_change_def set_event_state_def set_reliability_def
  set_inhibit_def set_detection_def set_inputs_def act_simps bindS_def

lemma react_simps [simp]:
  "react decide evaluate [] s = s"
  "react decide evaluate (x # xs) s = react decide evaluate xs (snd (stimulus_action decide evaluate x s))"
  by (simp_all add: react_def)

lemma react_append: "react decide evaluate (xs @ ys) s = react decide evaluate ys (react decide evaluate xs s)"
  by (simp add: react_def)

section \<open>An example\<close>

definition integers :: "int arithmetic" where
  "integers = \<lparr>less = (<), less_eq_of = (\<le>), plus_of = (+), minus_of = (-)\<rparr>"

definition range_of :: "int \<Rightarrow> int range_inputs" where
  "range_of v = \<lparr>monitored_value = v, low_limit = 10, high_limit = 20, deadband = 2, limit_enable = None,
     minimum_normal = 0, maximum_normal = 30\<rparr>"

definition example_event :: "bool \<Rightarrow> nat option \<Rightarrow> int range_inputs event_object" where
  "example_event fault delay =
     \<lparr>event_state = NORMAL, reliability = Some no_fault_detected, event_detection_enable = True,
      event_algorithm_inhibit = False, time_delay = delay, time_delay_normal = None,
      acked_transitions = [True, True, True], event_time_stamps = [0, 0, 0], ack_required = Some [True, True, True],
      inputs = range_of 15, current_state = NORMAL, transition_state = None, transition_timeout = None,
      execute_enabled = True, execute_handle = False, changed_reliability = False, changed_inhibit = None,
      fault_algorithm = fault, evaluated_reliability = None, fault_inhibit = False, fault_enabled = True,
      fault_handle = False, scheduled_runs = [], clock = 0, notified = []\<rparr>"

text \<open>
  Property C35. When the fault algorithm sees that a value is out of range, the object is not
  reported as faulty: the change of the value has scheduled the event algorithm too, so the change
  of the reliability that the fault algorithm makes is not recorded. The event state stays normal
  with a fault in the reliability and nothing scheduled that would find it.
\<close>

theorem fault_not_detected:
  assumes "idle s" "fault_algorithm s" "\<not> fault_inhibit s" "reliability s = Some no_fault_detected"
    "event_state s = NORMAL" "transition_timeout s = None"
    "inputs s \<noteq> v" "evaluate v (Some no_fault_detected) = Some rel" "decide v NORMAL = None"
  shows "let t = react decide evaluate [SetInputs v, RunCallback, RunCallback] s in
    reliability t = Some rel \<and> event_state t = NORMAL \<and> idle t \<and> transition_timeout t = None \<and> notified t = notified s"
  using assms
  by (simp add: idle_def stimulus_action_def run_scheduled_def fault_execute_def event_execute_def evaluate_event_def
      evaluate_inhibit_def execute_def state_transition_def nothing_changed_def Let_def change_simps)

text \<open>The value is below the least normal value, with the low limit disabled.\<close>

definition disabled_low :: "int \<Rightarrow> int range_inputs" where
  "disabled_low v = (range_of v)\<lparr>limit_enable := Some (False, True)\<rparr>"

theorem fault_not_detected_witness:
  "let s = example_event True None;
       t = react (out_of_range integers) (fault_out_of_range integers) [SetInputs (disabled_low (- 5)), RunCallback, RunCallback] s in
    reliability t = Some under_range \<and> event_state t = NORMAL \<and> idle t \<and> transition_timeout t = None \<and> notified t = notified s"
  unfolding Let_def
  by (rule fault_not_detected [unfolded Let_def])
    (simp_all add: example_event_def idle_def range_of_def disabled_low_def out_of_range_def fault_out_of_range_def integers_def
      no_fault_detected_def under_range_def over_range_def Let_def)

lemma make_transition_run:
  assumes "ack_required s = Some flags"
  shows "\<exists>t. make_transition (Some st) s = (Inr (), t) \<and> event_state t = st \<and> notified t = notified s @ [(current_state s, st)] \<and>
    execute_enabled t \<and> transition_timeout t = transition_timeout s \<and> transition_state t = transition_state s \<and>
    event_detection_enable t = event_detection_enable s"
  using assms by (simp add: make_transition_def Let_def need_def change_simps)

lemma elapse: "react decide evaluate (replicate k Elapse) s = s\<lparr>clock := clock s + k\<rparr>"
  by (induction k arbitrary: s) (simp_all add: stimulus_action_def act_simps)

text \<open>
  Property C36. Event detection that is disabled still makes a transition: one that is scheduled is
  not cancelled, and when its delay has passed the object enters the state and reports it.
\<close>

theorem disabled_detection_transition:
  assumes "idle s" "transition_timeout s = Some due" "transition_state s = Some st" "due \<le> clock s + k"
    "event_state s = NORMAL"
  shows "let t = react decide evaluate ([SetDetection False, RunCallback] @ replicate k Elapse @ [RunTimer]) s in
    \<not> event_detection_enable t \<and> event_state t = st \<and> notified t = notified s @ [(NORMAL, st)]"
proof -
  let ?u = "s\<lparr>event_detection_enable := False, current_state := NORMAL, clock := clock s + k\<rparr>"
  have "react decide evaluate [SetDetection False, RunCallback] s =
      s\<lparr>event_detection_enable := False, current_state := NORMAL\<rparr>"
    using assms(1,5)
    by (simp add: idle_def stimulus_action_def run_scheduled_def event_execute_def nothing_changed_def change_simps)
  then have "react decide evaluate ([SetDetection False, RunCallback] @ replicate k Elapse) s = ?u"
    by (simp only: react_append elapse) simp
  then have run: "react decide evaluate ([SetDetection False, RunCallback] @ replicate k Elapse @ [RunTimer]) s =
      snd (run_timer ?u)"
    using react_append [of decide evaluate "[SetDetection False, RunCallback] @ replicate k Elapse" "[RunTimer]" s]
    by (simp add: stimulus_action_def)
  obtain flags where "ack_required s = Some flags" using assms(1) by (auto simp: idle_def)
  then obtain t where "make_transition (Some st) (?u\<lparr>transition_state := None, transition_timeout := None\<rparr>) = (Inr (), t)"
    "event_state t = st" "notified t = notified s @ [(NORMAL, st)]" "\<not> event_detection_enable t"
    using make_transition_run [of "?u\<lparr>transition_state := None, transition_timeout := None\<rparr>" flags st] by auto
  then show ?thesis using assms(2-4) unfolding run Let_def
    by (simp add: run_timer_def state_transition_delayed_def state_transition_def act_simps bindS_def)
qed

theorem disabled_detection_transition_witness:
  "let s = (example_event False (Some 3))\<lparr>inputs := range_of 25, transition_state := Some HIGH_LIMIT, transition_timeout := Some 3\<rparr>;
       t = react (out_of_range integers) (fault_out_of_range integers)
         ([SetDetection False, RunCallback] @ replicate 3 Elapse @ [RunTimer]) s in
    \<not> event_detection_enable t \<and> event_state t = HIGH_LIMIT \<and> notified t = notified s @ [(NORMAL, HIGH_LIMIT)]"
  unfolding Let_def
  by (rule disabled_detection_transition [unfolded Let_def, where due = 3])
    (simp_all add: example_event_def idle_def)

section \<open>Limits\<close>

text \<open>What is used of the arithmetic; it holds of floating point numbers with a deadband of at least zero.\<close>

definition limits_ok :: "'v arithmetic \<Rightarrow> 'v range_inputs \<Rightarrow> bool" where
  "limits_ok ops p \<longleftrightarrow>
     \<not> (less ops (high_limit p) (monitored_value p) \<and> less ops (monitored_value p) (low_limit p)) \<and>
     \<not> (less ops (high_limit p) (monitored_value p) \<and>
        less ops (monitored_value p) (minus_of ops (high_limit p) (deadband p))) \<and>
     \<not> (less ops (monitored_value p) (low_limit p) \<and>
        less ops (plus_of ops (low_limit p) (deadband p)) (monitored_value p))"

definition enabled_limits :: "'v range_inputs \<Rightarrow> bool \<times> bool" where
  "enabled_limits p = (case limit_enable p of None \<Rightarrow> (True, True) | Some e \<Rightarrow> e)"

lemma idle_execution:
  assumes "idle s" "\<not> fault_algorithm s" "time_delay s = None" "time_delay_normal s = None"
    "transition_timeout s = None" "inputs s \<noteq> p"
  shows "event_state (react decide evaluate [SetInputs p, RunCallback] s) =
    (case decide p (event_state s) of None \<Rightarrow> event_state s | Some st \<Rightarrow> st)"
proof -
  let ?u = "s\<lparr>inputs := p, scheduled_runs := [], execute_handle := False, current_state := event_state s, changed_reliability := False\<rparr>"
  obtain flags where flags: "ack_required s = Some flags" using assms(1) by (auto simp: idle_def)
  have "\<exists>t. execute decide ?u = (Inr (), t) \<and> event_state t = (case decide p (event_state s) of None \<Rightarrow> event_state s | Some st \<Rightarrow> st)"
    using make_transition_run [of ?u flags] flags assms(3-5)
    by (cases "decide p (event_state s)")
      (auto simp: execute_def state_transition_def transition_delay_def act_simps bindS_def Let_def)
  then obtain t where t: "execute decide ?u = (Inr (), t)"
    "event_state t = (case decide p (event_state s) of None \<Rightarrow> event_state s | Some st \<Rightarrow> st)" by blast
  have "react decide evaluate [SetInputs p, RunCallback] s = snd (nothing_changed t)"
    using assms t(1)
    by (simp add: idle_def stimulus_action_def run_scheduled_def event_execute_def evaluate_event_def
        evaluate_inhibit_def nothing_changed_def change_simps Let_def)
  then show ?thesis using t(2) by (simp add: nothing_changed_def act_simps)
qed

text \<open>
  Property C20. Without delays a new value is classified at once, whichever limit was exceeded
  before: above the high limit, below the low limit, or normal if it is inside both by the
  deadband. And the object is in a limit state only if that limit is enabled and the value has not
  come back by the deadband.
\<close>

theorem limits_reported:
  assumes "idle s" "\<not> fault_algorithm s" "time_delay s = None" "time_delay_normal s = None"
    "transition_timeout s = None" "inputs s \<noteq> p" "limits_ok ops p" "enabled_limits p = (low, high)"
    "event_state s \<in> {NORMAL, HIGH_LIMIT, LOW_LIMIT}" "event_state s = HIGH_LIMIT \<longrightarrow> high" "event_state s = LOW_LIMIT \<longrightarrow> low"
  shows "let st = event_state (react (out_of_range ops) evaluate [SetInputs p, RunCallback] s);
      v = monitored_value p; return_high = minus_of ops (high_limit p) (deadband p);
      return_low = plus_of ops (low_limit p) (deadband p) in
    (high \<and> less ops (high_limit p) v \<longrightarrow> st = HIGH_LIMIT) \<and>
    (low \<and> less ops v (low_limit p) \<longrightarrow> st = LOW_LIMIT) \<and>
    (less ops v return_high \<and> less ops return_low v \<and> \<not> less ops (high_limit p) v \<and> \<not> less ops v (low_limit p) \<longrightarrow> st = NORMAL) \<and>
    (st = HIGH_LIMIT \<longrightarrow> high \<and> \<not> less ops v return_high) \<and>
    (st = LOW_LIMIT \<longrightarrow> low \<and> \<not> less ops return_low v)"
  using assms(7-11)
  unfolding idle_execution [OF assms(1-6), of "out_of_range ops" evaluate] Let_def
  by (auto simp: limits_ok_def out_of_range_def enabled_limits_def Let_def split: option.splits)

theorem limits_reported_witness:
  "let st = event_state (react (out_of_range integers) (fault_out_of_range integers) [SetInputs (range_of 25), RunCallback]
        (example_event False None));
      v = monitored_value (range_of 25); return_high = minus_of integers (high_limit (range_of 25)) (deadband (range_of 25));
      return_low = plus_of integers (low_limit (range_of 25)) (deadband (range_of 25)) in
    (True \<and> less integers (high_limit (range_of 25)) v \<longrightarrow> st = HIGH_LIMIT) \<and>
    (True \<and> less integers v (low_limit (range_of 25)) \<longrightarrow> st = LOW_LIMIT) \<and>
    (less integers v return_high \<and> less integers return_low v \<and> \<not> less integers (high_limit (range_of 25)) v \<and>
      \<not> less integers v (low_limit (range_of 25)) \<longrightarrow> st = NORMAL) \<and>
    (st = HIGH_LIMIT \<longrightarrow> True \<and> \<not> less integers v return_high) \<and>
    (st = LOW_LIMIT \<longrightarrow> True \<and> \<not> less integers return_low v)"
  by (rule limits_reported)
    (simp_all add: example_event_def idle_def range_of_def integers_def limits_ok_def enabled_limits_def)

section \<open>Delays\<close>

text \<open>The decisions of a run: when the event algorithm ran, and what it asked for.\<close>

definition decision_made :: "'i decision \<Rightarrow> 'i stimulus \<Rightarrow> 'i event_object \<Rightarrow> (nat \<times> event_state option) list" where
  "decision_made decide x s =
     (case (x, scheduled_runs s) of
        (RunCallback, ExecuteEvent # _) \<Rightarrow> [(clock s, decide (inputs s) (event_state s))]
      | _ \<Rightarrow> [])"

fun decisions :: "'i decision \<Rightarrow> 'i evaluation \<Rightarrow> 'i stimulus list \<Rightarrow> 'i event_object \<Rightarrow> (nat \<times> event_state option) list" where
  "decisions decide evaluate [] s = []"
| "decisions decide evaluate (x # xs) s =
     decision_made decide x s @ decisions decide evaluate xs (snd (stimulus_action decide evaluate x s))"

text \<open>A run in which only the inputs change, and the object has no fault detection.\<close>

definition undisturbed :: "'i stimulus \<Rightarrow> bool" where
  "undisturbed x \<longleftrightarrow> (case x of SetInputs _ \<Rightarrow> True | Elapse \<Rightarrow> True | RunCallback \<Rightarrow> True | RunTimer \<Rightarrow> True | _ \<Rightarrow> False)"

definition steady :: "'i event_object \<Rightarrow> bool" where
  "steady s \<longleftrightarrow> \<not> fault_algorithm s \<and> event_detection_enable s \<and> \<not> event_algorithm_inhibit s \<and>
     \<not> changed_reliability s \<and> changed_inhibit s = None \<and> set (scheduled_runs s) \<subseteq> {ExecuteEvent} \<and> ack_required s \<noteq> None"

text \<open>The transition that is scheduled, and the decisions since it was.\<close>

definition wanted :: "(nat \<times> event_state option) list \<Rightarrow> 'i event_object \<Rightarrow> bool" where
  "wanted ds s \<longleftrightarrow>
     (\<forall>due. transition_timeout s = Some due \<longrightarrow>
        (\<exists>st ds' t es. transition_state s = Some st \<and> ds = ds' @ (t, Some st) # es \<and>
           due = t + transition_delay s st \<and> (\<forall>d\<in>set es. snd d = Some st)))"

lemma transition_delay_frame [simp]:
  "transition_delay (s\<lparr>transition_state := a\<rparr>) = transition_delay s"
  "transition_delay (s\<lparr>transition_timeout := b\<rparr>) = transition_delay s"
  "transition_delay (s\<lparr>inputs := v\<rparr>) = transition_delay s"
  "transition_delay (s\<lparr>current_state := st\<rparr>) = transition_delay s"
  "transition_delay (s\<lparr>execute_handle := h\<rparr>) = transition_delay s"
  "transition_delay (s\<lparr>changed_reliability := h\<rparr>) = transition_delay s"
  "transition_delay (s\<lparr>scheduled_runs := cs\<rparr>) = transition_delay s"
  "transition_delay (s\<lparr>clock := c\<rparr>) = transition_delay s"
  by (auto simp: transition_delay_def fun_eq_iff split: option.splits)

lemma make_transition_steady:
  assumes "steady s"
  shows "\<exists>t. make_transition (Some st) s = (Inr (), t) \<and> steady t \<and> transition_timeout t = transition_timeout s \<and>
    transition_state t = transition_state s \<and> event_state t = st \<and> current_state t = current_state s \<and>
    transition_delay t = transition_delay s \<and> inputs t = inputs s \<and> clock t = clock s"
proof -
  obtain flags where "ack_required s = Some flags" using assms by (auto simp: steady_def)
  then show ?thesis using assms
    by (auto simp: make_transition_def Let_def need_def change_simps steady_def transition_delay_def fun_eq_iff)
qed

lemma cancel_run:
  "transition_timeout s \<noteq> None \<Longrightarrow>
    state_transition_cancel s = (Inr (), s\<lparr>transition_state := None, transition_timeout := None\<rparr>)"
  by (simp add: state_transition_cancel_def act_simps bindS_def)

lemma wanted_none: "transition_timeout s = None \<Longrightarrow> wanted ds s"
  by (simp add: wanted_def)

lemma wanted_new:
  "transition_state s = Some st \<Longrightarrow> transition_timeout s = Some (c + transition_delay s st) \<Longrightarrow> wanted (ds @ [(c, Some st)]) s"
  unfolding wanted_def by (metis append_is_Nil_conv empty_iff list.set(1) option.inject)

lemma wanted_again: "wanted ds s \<Longrightarrow> transition_state s = Some st \<Longrightarrow> wanted (ds @ [(c, Some st)]) s"
  by (fastforce simp: wanted_def)

text \<open>Asking for a state when none is scheduled.\<close>

definition schedule_or_make :: "event_state \<Rightarrow> 'i event_action" where
  "schedule_or_make st =
     withS (\<lambda>s.
       if transition_delay s st \<noteq> 0 then
         modS (\<lambda>s. s\<lparr>transition_state := Some st, transition_timeout := Some (clock s + transition_delay s st)\<rparr>)
       else make_transition (Some st))"

lemma schedule_steady:
  assumes "steady s" "transition_timeout s = None"
  shows "\<exists>t. schedule_or_make st s = (Inr (), t) \<and> steady t \<and> wanted (ds @ [(clock s, Some st)]) t"
proof (cases "transition_delay s st = 0")
  case True
  then show ?thesis using make_transition_steady [OF assms(1), of st] assms(2)
    by (auto simp: schedule_or_make_def act_simps wanted_none)
next
  case False
  let ?t = "s\<lparr>transition_state := Some st, transition_timeout := Some (clock s + transition_delay s st)\<rparr>"
  have "wanted (ds @ [(clock s, Some st)]) ?t" by (rule wanted_new) simp_all
  moreover have "steady ?t" using assms(1) by (simp add: steady_def)
  ultimately show ?thesis using False by (simp add: schedule_or_make_def act_simps)
qed

lemma request_run:
  assumes "transition_timeout s = Some due"
  shows "state_transition d False s =
    (let t = s\<lparr>transition_state := None, transition_timeout := None\<rparr> in
     case d of
       None \<Rightarrow> (Inr (), t)
     | Some st \<Rightarrow>
         if d = transition_state s then (Inr (), s)
         else if st = current_state s then (Inr (), t)
         else schedule_or_make st t)"
  using assms
  by (cases d) (simp_all add: state_transition_def schedule_or_make_def cancel_run act_simps bindS_def Let_def)

lemma request_run_none:
  assumes "transition_timeout s = None"
  shows "state_transition d False s = (case d of None \<Rightarrow> (Inr (), s) | Some st \<Rightarrow> schedule_or_make st s)"
  using assms by (cases d) (simp_all add: state_transition_def schedule_or_make_def act_simps bindS_def Let_def)

lemma execute_steady:
  assumes "steady s" "wanted ds s"
  shows "\<exists>t. execute decide s = (Inr (), t) \<and> steady t \<and> wanted (ds @ [(clock s, decide (inputs s) (current_state s))]) t"
proof -
  let ?d = "decide (inputs s) (current_state s)" and ?u = "s\<lparr>transition_state := None, transition_timeout := None\<rparr>"
  have u: "steady ?u" "transition_timeout ?u = None" "clock ?u = clock s" using assms(1) by (simp_all add: steady_def)
  have ex: "execute decide s = state_transition ?d False s" by (simp add: execute_def act_simps)
  show ?thesis
  proof (cases "transition_timeout s")
    case None
    then show ?thesis unfolding ex request_run_none [OF None]
      using assms(1) schedule_steady [OF assms(1) None, of _ ds] by (cases ?d) (simp_all add: wanted_none)
  next
    case (Some due)
    show ?thesis
    proof (cases ?d)
      case None
      then show ?thesis unfolding ex request_run [OF Some] using u(1) by (simp add: wanted_none)
    next
      case d: (Some st)
      show ?thesis
      proof (cases "Some st = transition_state s")
        case True
        have "wanted (ds @ [(clock s, Some st)]) s" by (rule wanted_again [OF assms(2) True [symmetric]])
        then show ?thesis unfolding ex request_run [OF Some] Let_def using assms(1) True [symmetric] d by simp
      next
        case False
        then show ?thesis unfolding ex request_run [OF Some] Let_def
          using u(1) d schedule_steady [OF u(1,2), of st ds] by (auto simp: wanted_none)
      qed
    qed
  qed
qed

lemma wanted_frame [simp]:
  "wanted ds (s\<lparr>inputs := v\<rparr>) = wanted ds s" "wanted ds (s\<lparr>current_state := st\<rparr>) = wanted ds s"
  "wanted ds (s\<lparr>execute_handle := h\<rparr>) = wanted ds s" "wanted ds (s\<lparr>changed_reliability := h\<rparr>) = wanted ds s"
  "wanted ds (s\<lparr>scheduled_runs := cs\<rparr>) = wanted ds s" "wanted ds (s\<lparr>clock := c\<rparr>) = wanted ds s"
  by (simp_all add: wanted_def)

lemma event_execute_steady:
  assumes "steady s" "wanted ds s"
  shows "\<exists>t. event_execute decide s = (Inr (), t) \<and> steady t \<and> wanted (ds @ [(clock s, decide (inputs s) (event_state s))]) t"
proof -
  let ?u = "s\<lparr>execute_handle := False, current_state := event_state s, changed_reliability := False\<rparr>"
  have "steady ?u" "wanted ds ?u"
    using assms by (simp_all add: steady_def)
  from execute_steady [OF this, of decide]
  obtain t where t: "execute decide ?u = (Inr (), t)" "steady t" "wanted (ds @ [(clock s, decide (inputs s) (event_state s))]) t"
    by auto
  have "event_execute decide s = (Inr (), t\<lparr>changed_reliability := False, changed_inhibit := None\<rparr>)"
    using assms(1) t(1)
    by (simp add: event_execute_def evaluate_event_def evaluate_inhibit_def nothing_changed_def steady_def act_simps
        bindS_def Let_def)
  moreover have "t\<lparr>changed_reliability := False, changed_inhibit := None\<rparr> = t"
    using t(2) by (cases t) (simp add: steady_def)
  ultimately show ?thesis using t by simp
qed

lemma set_inputs_steady:
  assumes "steady s"
  shows "\<exists>h cs. set_inputs v s = (Inr (), s\<lparr>inputs := v, execute_handle := h, scheduled_runs := cs\<rparr>) \<and> set cs \<subseteq> {ExecuteEvent}"
proof -
  have fault: "\<not> fault_algorithm s" and cs: "set (scheduled_runs s) \<subseteq> {ExecuteEvent}" using assms by (auto simp: steady_def)
  have same: "s\<lparr>inputs := v\<rparr> = s\<lparr>inputs := v, execute_handle := execute_handle s, scheduled_runs := scheduled_runs s\<rparr>"
    by (cases s) simp
  consider "inputs s = v" | "inputs s \<noteq> v" "\<not> execute_enabled s \<or> execute_handle s"
    | "inputs s \<noteq> v" "execute_enabled s" "\<not> execute_handle s" by blast
  then show ?thesis
  proof cases
    case 1
    then have "set_inputs v s = (Inr (), s\<lparr>inputs := v\<rparr>)" by (cases s) (simp add: set_inputs_def act_simps)
    from trans [OF this arg_cong [OF same, of "Pair (Inr ())"]] show ?thesis using cs by blast
  next
    case 2
    then have "set_inputs v s = (Inr (), s\<lparr>inputs := v\<rparr>)" using fault by (auto simp: change_simps)
    from trans [OF this arg_cong [OF same, of "Pair (Inr ())"]] show ?thesis using cs by blast
  next
    case 3
    then have "set_inputs v s = (Inr (), s\<lparr>inputs := v, execute_handle := True, scheduled_runs := scheduled_runs s @ [ExecuteEvent]\<rparr>)"
      using fault by (simp add: change_simps)
    moreover have "set (scheduled_runs s @ [ExecuteEvent]) \<subseteq> {ExecuteEvent}" using cs by simp
    ultimately show ?thesis by blast
  qed
qed

lemma run_timer_steady:
  assumes "steady s" "wanted ds s"
  shows "steady (snd (run_timer s)) \<and> wanted ds (snd (run_timer s))"
proof (cases "\<exists>due. transition_timeout s = Some due \<and> due \<le> clock s")
  case True
  then obtain st where st: "transition_state s = Some st" using assms(2) by (auto simp: wanted_def)
  let ?u = "s\<lparr>transition_state := None, transition_timeout := None\<rparr>"
  have "steady ?u" using assms(1) by (simp add: steady_def)
  from make_transition_steady [OF this, of st] True st show ?thesis
    by (auto simp: run_timer_def state_transition_delayed_def state_transition_def act_simps bindS_def wanted_none)
next
  case False
  then show ?thesis using assms by (auto simp: run_timer_def act_simps split: option.split)
qed

lemma stimulus_steady:
  assumes "steady s" "wanted ds s" "undisturbed x"
  shows "steady (snd (stimulus_action decide evaluate x s)) \<and>
    wanted (ds @ decision_made decide x s) (snd (stimulus_action decide evaluate x s))"
proof (cases x)
  case (SetInputs v)
  obtain h cs where "set_inputs v s = (Inr (), s\<lparr>inputs := v, execute_handle := h, scheduled_runs := cs\<rparr>)" "set cs \<subseteq> {ExecuteEvent}"
    using set_inputs_steady [OF assms(1)] by blast
  then show ?thesis using assms(1,2) SetInputs
    by (simp add: stimulus_action_def decision_made_def steady_def)
next
  case Elapse
  then show ?thesis using assms
    by (simp add: stimulus_action_def decision_made_def steady_def act_simps)
next
  case RunCallback
  show ?thesis
  proof (cases "scheduled_runs s")
    case Nil
    then show ?thesis using RunCallback assms by (simp add: stimulus_action_def decision_made_def run_scheduled_def act_simps)
  next
    case (Cons c cs)
    then have c: "c = ExecuteEvent" using assms(1) by (auto simp: steady_def)
    let ?u = "s\<lparr>scheduled_runs := cs\<rparr>"
    have "steady ?u" "wanted ds ?u"
      using assms Cons by (simp_all add: steady_def)
    from event_execute_steady [OF this, of decide] show ?thesis using RunCallback Cons c
      by (auto simp: stimulus_action_def decision_made_def run_scheduled_def act_simps bindS_def)
  qed
next
  case RunTimer
  then show ?thesis using run_timer_steady [OF assms(1,2)] by (simp add: stimulus_action_def decision_made_def)
qed (use assms(3) in \<open>simp_all add: undisturbed_def\<close>)

lemma run_steady:
  assumes "list_all undisturbed xs" "steady s" "wanted ds s"
  shows "steady (react decide evaluate xs s) \<and> wanted (ds @ decisions decide evaluate xs s) (react decide evaluate xs s)"
  using assms
proof (induction xs arbitrary: s ds)
  case (Cons x xs)
  have "steady (snd (stimulus_action decide evaluate x s))"
    "wanted (ds @ decision_made decide x s) (snd (stimulus_action decide evaluate x s))"
    using stimulus_steady [of s ds x decide evaluate] Cons.prems by auto
  from Cons.IH [OF _ this] show ?case using Cons.prems(1) by simp
qed simp

text \<open>
  Property C12. A delayed transition is made only if the algorithm has asked for it for as long as
  the delay. In every run in which the inputs change in any way and time passes, when the timer
  makes a transition to a state then there is a decision for that state, taken at least the delay
  before, and all decisions that followed were for that state.
\<close>

theorem delay_respected:
  assumes "list_all undisturbed xs" "steady s" "transition_timeout s = None" "t = react decide evaluate xs s"
    "transition_timeout t = Some due" "due \<le> clock t"
  shows "\<exists>st ds c es. decisions decide evaluate xs s = ds @ (c, Some st) # es \<and> c + transition_delay t st \<le> clock t \<and>
    (\<forall>d\<in>set es. snd d = Some st) \<and> event_state (react decide evaluate [RunTimer] t) = st"
proof -
  have st: "steady t" "wanted (decisions decide evaluate xs s) t"
    using run_steady [OF assms(1,2) wanted_none [OF assms(3), of "[]"]] assms(4) by auto
  then obtain st ds c es where w: "transition_state t = Some st" "decisions decide evaluate xs s = ds @ (c, Some st) # es"
    "due = c + transition_delay t st" "\<forall>d\<in>set es. snd d = Some st"
    using assms(5) by (auto simp: wanted_def)
  let ?u = "t\<lparr>transition_state := None, transition_timeout := None\<rparr>"
  have "steady ?u" using st(1) by (simp add: steady_def)
  from make_transition_steady [OF this, of st]
  have "event_state (react decide evaluate [RunTimer] t) = st" using w(1) assms(5,6)
    by (auto simp: stimulus_action_def run_timer_def state_transition_delayed_def state_transition_def act_simps bindS_def)
  then show ?thesis using w assms(6) by blast
qed

theorem delay_respected_witness:
  "\<exists>st ds c es. decisions (out_of_range integers) (fault_out_of_range integers)
      [SetInputs (range_of 25), RunCallback, Elapse, Elapse] (example_event False (Some 2)) = ds @ (c, Some st) # es \<and>
    c + transition_delay (react (out_of_range integers) (fault_out_of_range integers)
      [SetInputs (range_of 25), RunCallback, Elapse, Elapse] (example_event False (Some 2))) st \<le>
      clock (react (out_of_range integers) (fault_out_of_range integers)
        [SetInputs (range_of 25), RunCallback, Elapse, Elapse] (example_event False (Some 2))) \<and>
    (\<forall>d\<in>set es. snd d = Some st) \<and>
    event_state (react (out_of_range integers) (fault_out_of_range integers) [RunTimer]
      (react (out_of_range integers) (fault_out_of_range integers)
        [SetInputs (range_of 25), RunCallback, Elapse, Elapse] (example_event False (Some 2)))) = st"
proof (rule delay_respected [OF _ _ _ refl])
  show "transition_timeout (react (out_of_range integers) (fault_out_of_range integers)
      [SetInputs (range_of 25), RunCallback, Elapse, Elapse] (example_event False (Some 2))) = Some 2"
    "2 \<le> clock (react (out_of_range integers) (fault_out_of_range integers)
      [SetInputs (range_of 25), RunCallback, Elapse, Elapse] (example_event False (Some 2)))"
    by code_simp+
qed (simp_all add: undisturbed_def steady_def example_event_def)

end
