(* ===== verification/ClientRequests.thy ===== *)
theory ClientRequests
  imports Pdu Action
begin

text \<open>
  The application as a client (\<^verbatim>\<open>bacpypes3/app.py\<close>): the cache of what is known of other devices,
  and the requests it has sent and waits for.
\<close>

section \<open>The cache of devices\<close>

text \<open>
  Records are shared objects, in a store; the two dictionaries refer to them by address and by
  device instance.
\<close>

record device_record =
  device_instance :: int
  device_address :: address
  max_apdu_length_accepted :: int
  segmentation_supported :: int
  vendor_identifier :: "int option"

record device_cache =
  infos :: "nat \<Rightarrow> device_record"
  new_info :: nat
  address_cache :: "address \<rightharpoonup> nat"
  instance_cache :: "int \<rightharpoonup> nat"

record i_am =
  i_am_source :: address
  i_am_instance :: int
  i_am_max_apdu :: int
  i_am_segmentation :: int
  i_am_vendor :: int

definition init_cache :: "(nat \<Rightarrow> device_record) \<Rightarrow> device_cache" where
  "init_cache is = \<lparr>infos = is, new_info = 0, address_cache = Map.empty, instance_cache = Map.empty\<rparr>"

definition device_by_address :: "device_cache \<Rightarrow> address \<Rightarrow> device_record option" where
  "device_by_address c a = map_option (infos c) (address_cache c a)"

definition device_by_instance :: "device_cache \<Rightarrow> int \<Rightarrow> device_record option" where
  "device_by_instance c n = map_option (infos c) (instance_cache c n)"

text \<open>\<^verbatim>\<open>del\<close> raises \<^verbatim>\<open>KeyError\<close>.\<close>

definition forget_instance :: "int \<Rightarrow> device_cache \<Rightarrow> device_cache result" where
  "forget_instance n c =
     (if instance_cache c n = None then Inl KeyError else Inr (c\<lparr>instance_cache := (instance_cache c)(n := None)\<rparr>))"

definition forget_address :: "address \<Rightarrow> device_cache \<Rightarrow> device_cache result" where
  "forget_address a c =
     (if address_cache c a = None then Inl KeyError else Inr (c\<lparr>address_cache := (address_cache c)(a := None)\<rparr>))"

definition update_contents :: "i_am \<Rightarrow> nat \<Rightarrow> device_cache \<Rightarrow> device_cache" where
  "update_contents m r c =
     c\<lparr>infos := (infos c)(r := (infos c r)\<lparr>max_apdu_length_accepted := i_am_max_apdu m,
        segmentation_supported := i_am_segmentation m, vendor_identifier := Some (i_am_vendor m)\<rparr>)\<rparr>"

text \<open>A new record has the defaults of the class.\<close>

definition new_device :: "i_am \<Rightarrow> device_cache \<Rightarrow> device_cache" where
  "new_device m c =
     c\<lparr>infos := (infos c)(new_info c := \<lparr>device_instance = i_am_instance m, device_address = i_am_source m,
          max_apdu_length_accepted = 1024, segmentation_supported = 3, vendor_identifier = None\<rparr>),
       new_info := new_info c + 1,
       address_cache := (address_cache c)(i_am_source m \<mapsto> new_info c),
       instance_cache := (instance_cache c)(i_am_instance m \<mapsto> new_info c)\<rparr>"

definition set_device_info :: "i_am \<Rightarrow> device_cache \<Rightarrow> device_cache result" where
  "set_device_info m c =
     (let info1 = address_cache c (i_am_source m);
          info2 = instance_cache c (i_am_instance m) in
      if info1 \<noteq> None \<and> info1 = info2 then Inr (update_contents m (the info1) c)
      else
        bindR (case info1 of None \<Rightarrow> Inr c | Some r \<Rightarrow> forget_instance (device_instance (infos c r)) c) (\<lambda>c.
        bindR (case info2 of None \<Rightarrow> Inr c | Some r \<Rightarrow> forget_address (device_address (infos c r)) c) (\<lambda>c.
          Inr (update_contents m (new_info c) (new_device m c)))))"

text \<open>What the state machine of a server transaction does with a record it has from the cache.\<close>

definition update_device_info :: "nat \<Rightarrow> device_cache \<Rightarrow> device_cache" where
  "update_device_info r c =
     c\<lparr>address_cache := (address_cache c)(device_address (infos c r) \<mapsto> r),
       instance_cache := (instance_cache c)(device_instance (infos c r) \<mapsto> r)\<rparr>"

text \<open>Both dictionaries have the same records, each under its address and its instance.\<close>

definition cache_ok :: "device_cache \<Rightarrow> bool" where
  "cache_ok c \<longleftrightarrow>
     (\<forall>a r. address_cache c a = Some r \<longrightarrow>
        device_address (infos c r) = a \<and> instance_cache c (device_instance (infos c r)) = Some r \<and> r < new_info c) \<and>
     (\<forall>n r. instance_cache c n = Some r \<longrightarrow>
        device_instance (infos c r) = n \<and> address_cache c (device_address (infos c r)) = Some r \<and> r < new_info c)"

lemma cache_okD:
  assumes "cache_ok c"
  shows "address_cache c a = Some r \<Longrightarrow> device_address (infos c r) = a"
    "address_cache c a = Some r \<Longrightarrow> instance_cache c (device_instance (infos c r)) = Some r"
    "address_cache c a = Some r \<Longrightarrow> r < new_info c"
    "instance_cache c n = Some r \<Longrightarrow> device_instance (infos c r) = n"
    "instance_cache c n = Some r \<Longrightarrow> address_cache c (device_address (infos c r)) = Some r"
    "instance_cache c n = Some r \<Longrightarrow> r < new_info c"
  using assms by (auto simp: cache_ok_def)

lemma update_contents_ok: "cache_ok c \<Longrightarrow> cache_ok (update_contents m r c)"
  by (simp add: cache_ok_def update_contents_def)

text \<open>A device takes the place of those with its address or its instance.\<close>

lemma new_device_ok:
  assumes "cache_ok c"
    "\<And>a r. a \<noteq> i_am_source m \<Longrightarrow> address_cache c' a = Some r \<longleftrightarrow> address_cache c a = Some r \<and> device_instance (infos c r) \<noteq> i_am_instance m"
    "\<And>n r. n \<noteq> i_am_instance m \<Longrightarrow> instance_cache c' n = Some r \<longleftrightarrow> instance_cache c n = Some r \<and> device_address (infos c r) \<noteq> i_am_source m"
    "infos c' = infos c" "new_info c' = new_info c"
  shows "cache_ok (new_device m c')"
proof -
  have "address_cache c a \<noteq> Some (new_info c)" "instance_cache c n \<noteq> Some (new_info c)" for a n
    using cache_okD(3,6) [OF assms(1), of _ "new_info c"] by auto
  then show ?thesis
    using cache_okD [OF assms(1)] assms(2-)
    by (auto simp: cache_ok_def new_device_def less_Suc_eq split: if_splits)
qed

lemma set_device_info_ok:
  assumes ok: "cache_ok c"
  shows "\<exists>c'. set_device_info m c = Inr c' \<and> cache_ok c'"
proof (cases "address_cache c (i_am_source m)")
  case None
  show ?thesis
  proof (cases "instance_cache c (i_am_instance m)")
    case none: None
    have "cache_ok (new_device m c)"
      by (rule new_device_ok [OF ok]) (use None none in \<open>auto dest: cache_okD(2,5) [OF ok]\<close>)
    then show ?thesis using None none by (simp add: set_device_info_def update_contents_ok)
  next
    case (Some r)
    let ?c = "c\<lparr>address_cache := (address_cache c)(device_address (infos c r) := None)\<rparr>"
    have "cache_ok (new_device m ?c)"
      by (rule new_device_ok [OF ok]) (use None Some cache_okD(4,5) [OF ok Some] cache_okD(2) [OF ok] in \<open>auto dest: cache_okD(1,2,4,5) [OF ok] split: if_splits\<close>,
        metis cache_okD(1,2) [OF ok] option.inject)
    then show ?thesis using None Some cache_okD(5) [OF ok Some]
      by (simp add: set_device_info_def forget_address_def update_contents_ok)
  qed
next
  case addr: (Some r)
  note a = cache_okD(2) [OF ok addr]
  show ?thesis
  proof (cases "instance_cache c (i_am_instance m)")
    case None
    let ?c = "c\<lparr>instance_cache := (instance_cache c)(device_instance (infos c r) := None)\<rparr>"
    have "cache_ok (new_device m ?c)"
      by (rule new_device_ok [OF ok]) (use None addr a cache_okD(1) [OF ok addr] cache_okD(5) [OF ok] in \<open>auto dest: cache_okD(1,2,4,5) [OF ok] split: if_splits\<close>,
        metis cache_okD(4,5) [OF ok] option.inject)
    then show ?thesis using None addr a
      by (simp add: set_device_info_def forget_instance_def update_contents_ok)
  next
    case (Some q)
    show ?thesis
    proof (cases "q = r")
      case True
      then show ?thesis using addr Some ok by (simp add: set_device_info_def update_contents_ok)
    next
      case False
      let ?c = "c\<lparr>instance_cache := (instance_cache c)(device_instance (infos c r) := None),
        address_cache := (address_cache c)(device_address (infos c q) := None)\<rparr>"
      have "cache_ok (new_device m ?c)"
        by (rule new_device_ok [OF ok]) (use Some addr a cache_okD(1) [OF ok addr] cache_okD(4,5) [OF ok Some] cache_okD(2,5) [OF ok] in \<open>auto dest: cache_okD(1,2,4,5) [OF ok] split: if_splits\<close>,
          (metis cache_okD(1,2,4,5) [OF ok] option.inject)+)
      then show ?thesis using Some addr a False cache_okD(5) [OF ok Some]
        by (simp add: set_device_info_def forget_instance_def forget_address_def update_contents_ok)
    qed
  qed
qed

lemma update_device_info_ok: "cache_ok c \<Longrightarrow> address_cache c a = Some r \<Longrightarrow> cache_ok (update_device_info r c)"
  using cache_okD [of c] by (simp add: update_device_info_def fun_upd_idem)

inductive cache_reachable :: "device_cache \<Rightarrow> bool" where
  fresh: "cache_reachable (init_cache is)"
| i_am: "cache_reachable c \<Longrightarrow> set_device_info m c = Inr c' \<Longrightarrow> cache_reachable c'"
| update: "cache_reachable c \<Longrightarrow> address_cache c a = Some r \<Longrightarrow> cache_reachable (update_device_info r c)"

lemma reachable_cache_ok: "cache_reachable c \<Longrightarrow> cache_ok c"
proof (induction rule: cache_reachable.induct)
  case (fresh "is")
  then show ?case by (simp add: cache_ok_def init_cache_def)
next
  case (i_am c m c')
  then show ?case using set_device_info_ok [of c m] by auto
next
  case (update c a r)
  then show ?case by (blast intro: update_device_info_ok)
qed

text \<open>
  Property C21. The cache of devices is a one-to-one correspondence of addresses and instances in
  every state it reaches, and taking in an I-Am, which may move a device to another address or
  give an address another device, always succeeds and leaves the sender under both of its keys.
\<close>

theorem device_cache_agrees:
  assumes "cache_reachable c"
  shows "(device_by_address c a = Some i \<longrightarrow> device_address i = a \<and> device_by_instance c (device_instance i) = Some i) \<and>
    (device_by_instance c n = Some i \<longrightarrow> device_instance i = n \<and> device_by_address c (device_address i) = Some i) \<and>
    (\<exists>c'. set_device_info m c = Inr c' \<and>
      device_by_address c' (i_am_source m) = device_by_instance c' (i_am_instance m) \<and>
      device_by_address c' (i_am_source m) \<noteq> None)"
proof -
  have ok: "cache_ok c" using assms by (rule reachable_cache_ok)
  obtain c' where c': "set_device_info m c = Inr c'" "cache_ok c'" using set_device_info_ok [OF ok] by blast
  have "\<exists>r. address_cache c' (i_am_source m) = Some r \<and> instance_cache c' (i_am_instance m) = Some r"
    using c'(1)
    by (auto simp: set_device_info_def update_contents_def new_device_def bindR_eq_Inr_iff Let_def split: if_splits
) (metis | blast)+
  then show ?thesis using cache_okD [OF ok] c'(1) by (auto simp: device_by_address_def device_by_instance_def)
qed

definition station :: "int \<Rightarrow> address" where
  "station n = Address LocalStationAddr None (Some [word_of_int n]) None"

definition i_am_from :: "int \<Rightarrow> int \<Rightarrow> i_am" where
  "i_am_from a n = \<lparr>i_am_source = station a, i_am_instance = n, i_am_max_apdu = 480, i_am_segmentation = 3, i_am_vendor = 999\<rparr>"

definition no_device :: device_record where
  "no_device = \<lparr>device_instance = 0, device_address = station 0, max_apdu_length_accepted = 0, segmentation_supported = 3,
     vendor_identifier = None\<rparr>"

theorem device_cache_agrees_witness:
  "\<exists>c c'. set_device_info (i_am_from 1 7) (init_cache (\<lambda>_. no_device)) = Inr c \<and> device_by_instance c 7 \<noteq> None \<and>
    set_device_info (i_am_from 2 7) c = Inr c' \<and> device_by_address c' (station 2) = device_by_instance c' 7 \<and>
    device_by_address c' (station 2) \<noteq> None"
proof -
  obtain c where c: "set_device_info (i_am_from 1 7) (init_cache (\<lambda>_. no_device)) = Inr c" "device_by_instance c 7 \<noteq> None"
    by (simp add: set_device_info_def init_cache_def update_contents_def new_device_def device_by_instance_def i_am_from_def Let_def)
  then have "cache_reachable c" by (blast intro: cache_reachable.intros)
  from device_cache_agrees [OF this, of "station 0" no_device 0 "i_am_from 2 7"] c show ?thesis
    by (auto simp: i_am_from_def)
qed

section \<open>Outstanding requests\<close>

text \<open>
  A confirmed request is an object with an invoke identifier, which may be given; its future is
  known by the same number. The futures that are done remove their request later, by a callback.
\<close>

datatype future = Pending | Answered | Failed

record outgoing =
  out_id :: nat
  out_invoke :: int

record client =
  out_requests :: "address \<rightharpoonup> outgoing list"
  next_invoke_id :: int
  futures :: "nat \<Rightarrow> future"
  new_request :: nat
  done_callbacks :: "(address \<times> nat) list"
  sent :: "(address \<times> int) list"

definition init_client :: client where
  "init_client = \<lparr>out_requests = Map.empty, next_invoke_id = 0, futures = \<lambda>_. Pending, new_request = 0,
     done_callbacks = [], sent = []\<rparr>"

definition requests_to :: "client \<Rightarrow> address \<Rightarrow> outgoing list" where
  "requests_to s a = (case out_requests s a of None \<Rightarrow> [] | Some rs \<Rightarrow> rs)"

text \<open>The loop that looks for an identifier that is not used; \<open>None\<close> if it does not end.\<close>

partial_function (option) unused_id :: "int list \<Rightarrow> int \<Rightarrow> int \<Rightarrow> (int \<times> int) option" where
  "unused_id used i nxt =
     (if i \<in> set used then unused_id used nxt ((nxt + 1) mod 256) else Some (i, nxt))"

definition send_request :: "address \<Rightarrow> int option \<Rightarrow> client \<Rightarrow> client option" where
  "send_request a invoke s =
     (let (i, nxt) = (case invoke of
          None \<Rightarrow> (next_invoke_id s, (next_invoke_id s + 1) mod 256)
        | Some i \<Rightarrow> (i, next_invoke_id s)) in
      case unused_id (map out_invoke (requests_to s a)) i nxt of
        None \<Rightarrow> None
      | Some (i, nxt) \<Rightarrow>
          Some (s\<lparr>next_invoke_id := nxt,
            out_requests := (out_requests s)(a \<mapsto> requests_to s a @ [\<lparr>out_id = new_request s, out_invoke = i\<rparr>]),
            futures := (futures s)(new_request s := Pending),
            new_request := new_request s + 1, sent := sent s @ [(a, i)]\<rparr>))"

text \<open>\<^verbatim>\<open>_request_done\<close>, the callback of a future.\<close>

fun remove_request :: "nat \<Rightarrow> outgoing list \<Rightarrow> outgoing list" where
  "remove_request r [] = []"
| "remove_request r (x # xs) = (if out_id x = r then xs else x # remove_request r xs)"

definition request_done :: "address \<Rightarrow> nat \<Rightarrow> client \<Rightarrow> client" where
  "request_done a r s =
     (case out_requests s a of
        None \<Rightarrow> s
      | Some rs \<Rightarrow>
          if r \<notin> out_id ` set rs then s
          else
            let rest = remove_request r rs in
            s\<lparr>out_requests := (out_requests s)(a := if rest = [] then None else Some rest)\<rparr>)"

definition complete :: "address \<Rightarrow> nat \<Rightarrow> future \<Rightarrow> client \<Rightarrow> client result" where
  "complete a r f s =
     (if futures s r \<noteq> Pending then Inl InvalidStateError
      else Inr (s\<lparr>futures := (futures s)(r := f), done_callbacks := done_callbacks s @ [(a, r)]\<rparr>))"

definition take_answer :: "address \<Rightarrow> int \<Rightarrow> bool \<Rightarrow> client \<Rightarrow> client result" where
  "take_answer a i positive s =
     (case List.find (\<lambda>x. out_invoke x = i) (requests_to s a) of
        None \<Rightarrow> Inr s
      | Some x \<Rightarrow> complete a (out_id x) (if positive then Answered else Failed) s)"

definition run_done :: "client \<Rightarrow> client" where
  "run_done s =
     (case done_callbacks s of [] \<Rightarrow> s | (a, r) # cs \<Rightarrow> request_done a r (s\<lparr>done_callbacks := cs\<rparr>))"

text \<open>A request that is given up: its future is cancelled.\<close>

definition cancel_request :: "address \<Rightarrow> nat \<Rightarrow> client \<Rightarrow> client" where
  "cancel_request a r s =
     (if futures s r \<noteq> Pending then s
      else s\<lparr>futures := (futures s)(r := Failed), done_callbacks := done_callbacks s @ [(a, r)]\<rparr>)"

subsection \<open>The loop\<close>

lemma unused_id_done: "i \<notin> set used \<Longrightarrow> unused_id used i nxt = Some (i, nxt)"
  by (subst unused_id.simps) simp

lemma unused_id_next: "i \<in> set used \<Longrightarrow> unused_id used i nxt = unused_id used nxt ((nxt + 1) mod 256)"
  by (subst unused_id.simps) simp

lemma unused_id_sound:
  assumes "unused_id used i nxt = Some y"
  shows "0 \<le> nxt \<longrightarrow> nxt < 256 \<longrightarrow>
    fst y \<notin> set used \<and> 0 \<le> snd y \<and> snd y < 256 \<and> (fst y = i \<or> 0 \<le> fst y \<and> fst y < 256)"
proof (rule unused_id.raw_induct [where P = "\<lambda>used i nxt y. 0 \<le> nxt \<longrightarrow> nxt < 256 \<longrightarrow>
    fst y \<notin> set used \<and> 0 \<le> snd y \<and> snd y < 256 \<and> (fst y = i \<or> 0 \<le> fst y \<and> fst y < 256)", OF _ assms])
  fix loop and used :: "int list" and i nxt :: int and y :: "int \<times> int"
  assume IH: "\<And>used i nxt y. loop used i nxt = Some y \<Longrightarrow> 0 \<le> nxt \<longrightarrow> nxt < 256 \<longrightarrow>
      fst y \<notin> set used \<and> 0 \<le> snd y \<and> snd y < 256 \<and> (fst y = i \<or> 0 \<le> fst y \<and> fst y < 256)"
    and run: "(if i \<in> set used then loop used nxt ((nxt + 1) mod 256) else Some (i, nxt)) = Some y"
  show "0 \<le> nxt \<longrightarrow> nxt < 256 \<longrightarrow>
      fst y \<notin> set used \<and> 0 \<le> snd y \<and> snd y < 256 \<and> (fst y = i \<or> 0 \<le> fst y \<and> fst y < 256)"
  proof (cases "i \<in> set used")
    case True
    then have "loop used nxt ((nxt + 1) mod 256) = Some y" using run by simp
    from IH [OF this] show ?thesis by auto
  qed (use run in auto)
qed

lemma gap:
  fixes k nxt :: int
  assumes "0 \<le> k" "k < 256" "0 \<le> nxt" "nxt < 256"
  shows "(k - nxt) mod 256 = (if nxt \<le> k then k - nxt else k - nxt + 256)"
proof (cases "nxt \<le> k")
  case False
  have "(k - nxt) mod 256 = (k - nxt + 256) mod 256" by simp
  then show ?thesis using False assms by (simp add: mod_pos_pos_trivial del: mod_add_self2)
qed (use assms in \<open>simp add: mod_pos_pos_trivial\<close>)

lemma unused_id_found:
  assumes "k \<notin> set used" "0 \<le> k" "k < 256" "0 \<le> nxt" "nxt < 256"
  shows "unused_id used i nxt \<noteq> None"
  using assms(4,5)
proof (induction "nat ((k - nxt) mod 256)" arbitrary: i nxt)
  case 0
  then have "nxt = k" using gap [OF assms(2,3) 0(2,3)] assms(2,3) by (auto split: if_splits)
  then show ?case using assms(1) by (cases "i \<in> set used") (simp_all add: unused_id_next unused_id_done)
next
  case (Suc d)
  show ?case
  proof (cases "i \<in> set used")
    case True
    have n: "0 \<le> (nxt + 1) mod 256" "(nxt + 1) mod 256 < 256" by simp_all
    have step: "(nxt + 1) mod 256 = (if nxt = 255 then 0 else nxt + 1)" using Suc.prems by auto
    have "(k - nxt) mod 256 = int d + 1" using Suc(2) by linarith
    then have "int d + 1 = (if nxt \<le> k then k - nxt else k - nxt + 256)"
      using gap [OF assms(2,3) Suc.prems] by simp
    moreover have "(k - (nxt + 1) mod 256) mod 256 =
        (if (nxt + 1) mod 256 \<le> k then k - (nxt + 1) mod 256 else k - (nxt + 1) mod 256 + 256)"
      by (rule gap [OF assms(2,3) n])
    ultimately have "(k - (nxt + 1) mod 256) mod 256 = int d"
      unfolding step using assms(2,3) Suc.prems by (simp split: if_splits)
    then have "d = nat ((k - (nxt + 1) mod 256) mod 256)" by simp
    from Suc.hyps(1) [OF this n] show ?thesis using True by (simp add: unused_id_next)
  qed (simp add: unused_id_done)
qed

lemma unused_id_None:
  assumes "0 \<le> nxt" "nxt < 256"
  shows "unused_id used i nxt = None \<longleftrightarrow> i \<in> set used \<and> (\<forall>k. 0 \<le> k \<and> k < 256 \<longrightarrow> k \<in> set used)"
proof
  assume "unused_id used i nxt = None"
  then show "i \<in> set used \<and> (\<forall>k. 0 \<le> k \<and> k < 256 \<longrightarrow> k \<in> set used)"
    using unused_id_found [OF _ _ _ assms] unused_id_done [of i used nxt] by (metis option.distinct(1))
next
  assume all: "i \<in> set used \<and> (\<forall>k. 0 \<le> k \<and> k < 256 \<longrightarrow> k \<in> set used)"
  show "unused_id used i nxt = None"
  proof (rule ccontr)
    assume "unused_id used i nxt \<noteq> None"
    then obtain y where "unused_id used i nxt = Some y" by auto
    from unused_id_sound [OF this] assms all show False by auto
  qed
qed

subsection \<open>Reachable clients\<close>

inductive client_reachable :: "client \<Rightarrow> bool" where
  init: "client_reachable init_client"
| requested: "client_reachable s \<Longrightarrow> send_request a invoke s = Some t \<Longrightarrow> client_reachable t"
| confirmed: "client_reachable s \<Longrightarrow> take_answer a i positive s = Inr t \<Longrightarrow> client_reachable t"
| cancelled: "client_reachable s \<Longrightarrow> client_reachable (cancel_request a r s)"
| removed: "client_reachable s \<Longrightarrow> client_reachable (run_done s)"

definition client_ok :: "client \<Rightarrow> bool" where
  "client_ok s \<longleftrightarrow> 0 \<le> next_invoke_id s \<and> next_invoke_id s < 256 \<and> (\<forall>a. distinct (map out_invoke (requests_to s a)))"

lemma requests_to_frame [simp]:
  "requests_to (s\<lparr>futures := f\<rparr>) = requests_to s" "requests_to (s\<lparr>done_callbacks := d\<rparr>) = requests_to s"
  "requests_to (s\<lparr>new_request := n\<rparr>) = requests_to s" "requests_to (s\<lparr>sent := x\<rparr>) = requests_to s"
  "requests_to (s\<lparr>next_invoke_id := i\<rparr>) = requests_to s"
  by (simp_all add: requests_to_def fun_eq_iff)

lemma requests_to_update [simp]:
  "requests_to (s\<lparr>out_requests := (out_requests s)(a := z)\<rparr>) b = (if b = a then (case z of None \<Rightarrow> [] | Some rs \<Rightarrow> rs) else requests_to s b)"
  by (simp add: requests_to_def)

lemma remove_request_subseq: "set (remove_request r rs) \<subseteq> set rs"
  "distinct (map out_invoke rs) \<Longrightarrow> distinct (map out_invoke (remove_request r rs))"
  by (induction rs) (auto)

lemma request_ok:
  assumes "client_ok s" "send_request a invoke s = Some t"
  shows "client_ok t"
proof -
  obtain i nxt where start: "(case invoke of None \<Rightarrow> (next_invoke_id s, (next_invoke_id s + 1) mod 256) | Some i \<Rightarrow> (i, next_invoke_id s)) = (i, nxt)"
    by fastforce
  then have "0 \<le> nxt" "nxt < 256" using assms(1) by (auto simp: client_ok_def split: option.splits)
  moreover obtain j m where found: "unused_id (map out_invoke (requests_to s a)) i nxt = Some (j, m)"
    using assms(2) start by (auto simp: send_request_def split: option.splits)
  ultimately have "j \<notin> out_invoke ` set (requests_to s a)" "0 \<le> m" "m < 256"
    using unused_id_sound [OF found] by auto
  moreover have "t = s\<lparr>next_invoke_id := m,
      out_requests := (out_requests s)(a \<mapsto> requests_to s a @ [\<lparr>out_id = new_request s, out_invoke = j\<rparr>]),
      futures := (futures s)(new_request s := Pending), new_request := new_request s + 1, sent := sent s @ [(a, j)]\<rparr>"
    using assms(2) start found by (simp add: send_request_def)
  ultimately show ?thesis using assms(1) by (auto simp: client_ok_def requests_to_def)
qed

lemma client_ok_frame:
  "client_ok s \<Longrightarrow> next_invoke_id t = next_invoke_id s \<Longrightarrow> requests_to t = requests_to s \<Longrightarrow> client_ok t"
  by (simp add: client_ok_def)

lemma done_ok: "client_ok s \<Longrightarrow> client_ok (request_done a r s)"
  by (auto simp: request_done_def client_ok_def Let_def requests_to_def remove_request_subseq split: option.splits)

lemma reachable_client_ok: "client_reachable s \<Longrightarrow> client_ok s"
proof (induction rule: client_reachable.induct)
  case init
  then show ?case by (simp add: client_ok_def init_client_def requests_to_def)
next
  case (requested s a invoke t)
  then show ?case by (blast intro: request_ok)
next
  case (confirmed s a i positive t)
  then show ?case
    by (auto simp: take_answer_def complete_def split: option.splits if_splits intro: client_ok_frame)
next
  case (cancelled s a r)
  then show ?case by (auto simp: cancel_request_def intro: client_ok_frame)
next
  case (removed s)
  have "client_ok (s\<lparr>done_callbacks := cs\<rparr>)" for cs using removed.IH by (rule client_ok_frame) simp_all
  then show ?case using removed.IH by (auto simp: run_done_def done_ok split: list.split prod.split)
qed

text \<open>
  Property C7. In every state that the application as a client reaches, an answer goes to the one
  request that was sent to its source with its invoke identifier, whatever identifiers were given
  and whatever was answered or given up before. A second answer before the callback of the first
  has run raises an exception instead.
\<close>

theorem answer_delivered:
  assumes "client_reachable s" "x \<in> set (requests_to s a)"
  shows "take_answer a (out_invoke x) positive s =
      (if futures s (out_id x) \<noteq> Pending then Inl InvalidStateError
       else Inr (s\<lparr>futures := (futures s)(out_id x := if positive then Answered else Failed),
         done_callbacks := done_callbacks s @ [(a, out_id x)]\<rparr>)) \<and>
    (\<forall>y\<in>set (requests_to s a). out_invoke y = out_invoke x \<longrightarrow> y = x)"
proof -
  have distinct: "distinct (map out_invoke (requests_to s a))"
    using reachable_client_ok [OF assms(1)] by (simp add: client_ok_def)
  then have one: "\<forall>y\<in>set (requests_to s a). out_invoke y = out_invoke x \<longrightarrow> y = x"
    using assms(2) by (auto simp: distinct_map inj_on_def)
  then have "List.find (\<lambda>y. out_invoke y = out_invoke x) (requests_to s a) = Some x"
    using assms(2) by (cases "List.find (\<lambda>y. out_invoke y = out_invoke x) (requests_to s a)")
      (auto simp: find_None_iff find_Some_iff)
  then show ?thesis using one by (simp add: take_answer_def complete_def)
qed

theorem answer_delivered_witness:
  "\<exists>s x. send_request (station 1) None init_client = Some s \<and> requests_to s (station 1) = [x] \<and>
    take_answer (station 1) (out_invoke x) True s =
      (if futures s (out_id x) \<noteq> Pending then Inl InvalidStateError
       else Inr (s\<lparr>futures := (futures s)(out_id x := if True then Answered else Failed),
         done_callbacks := done_callbacks s @ [(station 1, out_id x)]\<rparr>)) \<and>
    (\<forall>y\<in>set (requests_to s (station 1)). out_invoke y = out_invoke x \<longrightarrow> y = x)"
proof -
  obtain s where s: "send_request (station 1) None init_client = Some s"
    "requests_to s (station 1) = [\<lparr>out_id = 0, out_invoke = 0\<rparr>]"
    by (simp add: send_request_def init_client_def requests_to_def unused_id_done)
  then have "client_reachable s" by (blast intro: client_reachable.intros)
  from answer_delivered [OF this, of "\<lparr>out_id = 0, out_invoke = 0\<rparr>" "station 1" True] s show ?thesis by auto
qed

text \<open>
  Property C22. A request gets an identifier unless all 256 are outstanding for its destination; then
  the loop that looks for one does not end. There is no other case in which it does not end.
\<close>

theorem request_hangs:
  assumes "client_reachable s"
  shows "send_request a None s = None \<longleftrightarrow> {0..<256} \<subseteq> out_invoke ` set (requests_to s a)"
proof -
  have range: "0 \<le> next_invoke_id s" "next_invoke_id s < 256"
    using reachable_client_ok [OF assms] by (simp_all add: client_ok_def)
  have "send_request a None s = None \<longleftrightarrow>
      unused_id (map out_invoke (requests_to s a)) (next_invoke_id s) ((next_invoke_id s + 1) mod 256) = None"
    by (auto simp: send_request_def split: option.splits)
  also have "\<dots> \<longleftrightarrow> next_invoke_id s \<in> out_invoke ` set (requests_to s a) \<and>
      (\<forall>k. 0 \<le> k \<and> k < 256 \<longrightarrow> k \<in> out_invoke ` set (requests_to s a))"
    by (subst unused_id_None) auto
  also have "\<dots> \<longleftrightarrow> {0..<256} \<subseteq> out_invoke ` set (requests_to s a)" using range by auto
  finally show ?thesis .
qed

lemma many_requests:
  "n \<le> 256 \<Longrightarrow> \<exists>s. client_reachable s \<and> next_invoke_id s = int n mod 256 \<and> map out_invoke (requests_to s a) = map int [0..<n]"
proof (induction n)
  case 0
  have "next_invoke_id init_client = int 0 mod 256 \<and> map out_invoke (requests_to init_client a) = map int [0..<0]"
    by (simp add: init_client_def requests_to_def)
  then show ?case using client_reachable.init by blast
next
  case (Suc n)
  then obtain s where s: "client_reachable s" "next_invoke_id s = int n mod 256" "map out_invoke (requests_to s a) = map int [0..<n]"
    by auto
  have n: "int n mod 256 = int n" using Suc.prems by simp
  have free: "int n \<notin> set (map out_invoke (requests_to s a))" unfolding s(3) by auto
  obtain t where t: "send_request a None s = Some t" "next_invoke_id t = (int n + 1) mod 256"
    "requests_to t a = requests_to s a @ [\<lparr>out_id = new_request s, out_invoke = int n\<rparr>]"
    using unused_id_done [OF free] s(2) n by (simp add: send_request_def requests_to_def)
  have "client_reachable t" using s(1) t(1) by (rule client_reachable.requested)
  moreover have "map out_invoke (requests_to t a) = map int [0..<Suc n]" using t(3) s(3) by simp
  moreover have "next_invoke_id t = int (Suc n) mod 256" using t(2) by (simp add: add.commute)
  ultimately show ?case by blast
qed

theorem request_hangs_witness:
  "\<exists>s. client_reachable s \<and> send_request (station 1) None s = None"
proof -
  obtain s where s: "client_reachable s" "map out_invoke (requests_to s (station 1)) = map int [0..<256]"
    using many_requests [of 256 "station 1"] by auto
  have "{0..<256} \<subseteq> set (map out_invoke (requests_to s (station 1)))"
  proof
    fix k :: int assume "k \<in> {0..<256}"
    then have "k = int (nat k)" "nat k \<in> set [0..<256]" by auto
    then show "k \<in> set (map out_invoke (requests_to s (station 1)))" unfolding s(2) by (metis image_eqI set_map)
  qed
  then show ?thesis using request_hangs [OF s(1), of "station 1"] s(1) by auto
qed

end
