(* ===== verification/Schedule.thy ===== *)
theory Schedule
  imports Apdu Tags Action "HOL-Library.Product_Lexorder"
begin

text \<open>
  The schedule object (\<^verbatim>\<open>bacpypes3/local/schedule.py\<close>): dates and their patterns, the value that is
  in force at a time of a day with the time of the next transition, and the interpreter that sets
  the present value. Dates and times are tuples, compared from the left as in Python.
\<close>

section \<open>Dates\<close>

type_synonym calendar_date = "int \<times> int \<times> int \<times> int"
type_synonym day_time = "int \<times> int \<times> int \<times> int"

text \<open>The number of days of a month, from \<^verbatim>\<open>calendar.monthrange\<close>.\<close>

definition leap_year :: "int \<Rightarrow> bool" where
  "leap_year y \<longleftrightarrow> y mod 4 = 0 \<and> (y mod 100 \<noteq> 0 \<or> y mod 400 = 0)"

definition last_day :: "int \<Rightarrow> int \<Rightarrow> int result" where
  "last_day year month =
     (if month \<in> {1, 3, 5, 7, 8, 10, 12} then Inr 31
      else if month \<in> {4, 6, 9, 11} then Inr 30
      else if month = 2 then Inr (if leap_year year then 29 else 28)
      else Inl ValueError)"

definition match_month :: "int \<Rightarrow> int \<Rightarrow> bool" where
  "match_month month pattern =
     (if pattern = 255 then True
      else if pattern = 13 then month mod 2 \<noteq> 0
      else if pattern = 14 then month mod 2 \<noteq> 1
      else month = pattern)"

definition match_day :: "int \<Rightarrow> int \<Rightarrow> int \<Rightarrow> int \<Rightarrow> bool result" where
  "match_day year month day pattern =
     (if pattern = 255 then Inr True
      else if pattern = 32 then bindR (last_day (year + 1900) month) (\<lambda>l. Inr (day = l))
      else if pattern = 33 then Inr (day mod 2 \<noteq> 0)
      else if pattern = 34 then Inr (day mod 2 \<noteq> 1)
      else Inr (day = pattern))"

definition match_day_of_week :: "int \<Rightarrow> int \<Rightarrow> bool" where
  "match_day_of_week day pattern \<longleftrightarrow> pattern = 255 \<or> day = pattern"

definition match_date :: "calendar_date \<Rightarrow> calendar_date \<Rightarrow> bool result" where
  "match_date date date_pattern =
     (case (date, date_pattern) of ((year, month, day, dow), (year_p, month_p, day_p, dow_p)) \<Rightarrow>
        if \<not> (year_p = 255 \<or> year = year_p) then Inr False
        else if \<not> match_month month month_p then Inr False
        else bindR (match_day year month day day_p) (\<lambda>m.
          Inr (m \<and> match_day_of_week dow dow_p)))"

definition year_month_day :: "calendar_date \<Rightarrow> int \<times> int \<times> int" where
  "year_month_day d = (case d of (y, m, n, w) \<Rightarrow> (y, m, n))"

definition match_date_range :: "calendar_date \<Rightarrow> calendar_date \<times> calendar_date \<Rightarrow> bool" where
  "match_date_range date r \<longleftrightarrow>
     year_month_day (fst r) \<le> year_month_day date \<and> year_month_day date \<le> year_month_day (snd r)"

definition match_week_of_month :: "int \<Rightarrow> int \<Rightarrow> int \<Rightarrow> bool" where
  "match_week_of_month day end_day pattern =
     (if pattern = 1 then \<not> day > 7
      else if pattern = 2 then \<not> (day < 8 \<or> day > 14)
      else if pattern = 3 then \<not> (day < 15 \<or> day > 21)
      else if pattern = 4 then \<not> (day < 22 \<or> day > 28)
      else if pattern = 5 then \<not> (day < 29 \<or> day > 31)
      else if pattern = 6 then \<not> day < end_day - 6
      else if pattern = 7 then \<not> (day < end_day - 13 \<or> day > end_day - 7)
      else if pattern = 8 then \<not> (day < end_day - 20 \<or> day > end_day - 14)
      else if pattern = 9 then \<not> (day < end_day - 27 \<or> day > end_day - 21)
      else True)"

definition match_weeknday :: "calendar_date \<Rightarrow> int \<times> int \<times> int \<Rightarrow> bool result" where
  "match_weeknday date weeknday =
     (case (date, weeknday) of ((year, month, day, dow), (month_p, week_p, dow_p)) \<Rightarrow>
        bindR (last_day (year + 1900) month) (\<lambda>l.
          Inr (match_month month month_p \<and> match_week_of_month day l week_p \<and> match_day_of_week dow dow_p)))"

datatype calendar_entry =
    OnDate calendar_date
  | InRange calendar_date calendar_date
  | OnWeekNDay int int int
  | NoEntry

definition date_in_calendar_entry :: "calendar_date \<Rightarrow> calendar_entry \<Rightarrow> bool result" where
  "date_in_calendar_entry date entry =
     (case entry of
        OnDate p \<Rightarrow> match_date date p
      | InRange b e \<Rightarrow> Inr (match_date_range date (b, e))
      | OnWeekNDay m w d \<Rightarrow> match_weeknday date (m, w, d)
      | NoEntry \<Rightarrow> Inl RuntimeError)"

fun in_date_list :: "calendar_date \<Rightarrow> calendar_entry list \<Rightarrow> bool result" where
  "in_date_list date [] = Inr False"
| "in_date_list date (e # es) =
     bindR (date_in_calendar_entry date e) (\<lambda>m. if m then Inr True else in_date_list date es)"

section \<open>Schedules\<close>

text \<open>
  The values of a schedule are those of its entries; \<open>is_null\<close> tells which are of the class Null. A
  special event has an entry of its own or refers to a calendar.
\<close>

type_synonym 'v time_values = "(day_time \<times> 'v) list"

datatype 'k event_period = PeriodEntry calendar_entry | PeriodReference 'k

record ('k, 'v) special_event =
  event_period :: "'k event_period option"
  event_times :: "'v time_values"
  event_priority :: int

record ('k, 'v) schedule =
  effective_period :: "calendar_date \<times> calendar_date"
  exception_schedule :: "('k, 'v) special_event list"
  weekly_schedule :: "'v time_values list"
  schedule_default :: 'v

text \<open>The lists of the calendars of the application.\<close>

type_synonym 'k calendars = "'k \<Rightarrow> calendar_entry list option"

definition next_day :: day_time where "next_day = (24, 0, 0, 0)"

definition match_period :: "'k calendars \<Rightarrow> calendar_date \<Rightarrow> 'k event_period option \<Rightarrow> bool result" where
  "match_period calendars date p =
     (case p of
        None \<Rightarrow> Inl RuntimeError
      | Some (PeriodEntry e) \<Rightarrow> date_in_calendar_entry date e
      | Some (PeriodReference k) \<Rightarrow> bindR (need RuntimeError (calendars k)) (in_date_list date))"

text \<open>The value and the next transition at a priority; the times of an event change them.\<close>

type_synonym 'v slot = "'v option \<times> day_time option"

fun scan_times :: "('v \<Rightarrow> bool) \<Rightarrow> day_time \<Rightarrow> 'v time_values \<Rightarrow> 'v slot \<Rightarrow> 'v slot" where
  "scan_times is_null now [] slot = slot"
| "scan_times is_null now ((t, v) # xs) slot =
     (if t \<le> now then scan_times is_null now xs (if is_null v then (None, None) else (Some v, Some next_day))
      else (fst slot, Some t))"

text \<open>An index of the list of sixteen priorities; a negative one counts from the end.\<close>

definition slot_index :: "int \<Rightarrow> nat result" where
  "slot_index p =
     (let i = p - 1 in
      if 0 \<le> i \<and> i < 16 then Inr (nat i) else if - 16 \<le> i \<and> i < 0 then Inr (nat (i + 16)) else Inl IndexError)"

fun scan_events ::
    "('v \<Rightarrow> bool) \<Rightarrow> 'k calendars \<Rightarrow> calendar_date \<Rightarrow> day_time \<Rightarrow> ('k, 'v) special_event list \<Rightarrow>
     'v slot list \<Rightarrow> 'v slot list result" where
  "scan_events is_null calendars date now [] slots = Inr slots"
| "scan_events is_null calendars date now (e # es) slots =
     bindR (match_period calendars date (event_period e)) (\<lambda>match.
       if \<not> match then scan_events is_null calendars date now es slots
       else if event_times e = [] then scan_events is_null calendars date now es slots
       else bindR (slot_index (event_priority e)) (\<lambda>i.
         scan_events is_null calendars date now es (slots[i := scan_times is_null now (event_times e) (slots ! i)])))"

fun first_priority :: "'v slot list \<Rightarrow> day_time \<Rightarrow> 'v option \<times> day_time" where
  "first_priority [] earliest = (None, earliest)"
| "first_priority ((v, n) # slots) earliest =
     (let earliest = (case n of None \<Rightarrow> earliest | Some t \<Rightarrow> min earliest t) in
      if v \<noteq> None then (v, earliest) else first_priority slots earliest)"

fun scan_day :: "('v \<Rightarrow> bool) \<Rightarrow> 'v \<Rightarrow> day_time \<Rightarrow> 'v time_values \<Rightarrow> 'v \<Rightarrow> day_time \<Rightarrow> 'v \<times> day_time" where
  "scan_day is_null dflt now [] v earliest = (v, earliest)"
| "scan_day is_null dflt now ((t, u) # xs) v earliest =
     (if t \<le> now then scan_day is_null dflt now xs (if is_null u then dflt else u) earliest
      else (v, min earliest t))"

text \<open>The day of the week is from 1 to 7.\<close>

definition daily_value ::
    "('v \<Rightarrow> bool) \<Rightarrow> ('k, 'v) schedule \<Rightarrow> calendar_date \<Rightarrow> day_time \<Rightarrow> day_time \<Rightarrow> ('v \<times> day_time) result" where
  "daily_value is_null s date now earliest =
     (if weekly_schedule s = [] then Inr (schedule_default s, earliest)
      else
        bindR (py_index (weekly_schedule s) (snd (snd (snd date)) - 1)) (\<lambda>day.
          Inr (scan_day is_null (schedule_default s) now day (schedule_default s) earliest)))"

definition eval_schedule ::
    "('v \<Rightarrow> bool) \<Rightarrow> 'k calendars \<Rightarrow> ('k, 'v) schedule \<Rightarrow> calendar_date \<Rightarrow> day_time \<Rightarrow> ('v \<times> day_time) option result" where
  "eval_schedule is_null calendars s date now =
     (if \<not> match_date_range date (effective_period s) then Inr None
      else
        bindR (scan_events is_null calendars date now (exception_schedule s) (replicate 16 (None, None))) (\<lambda>slots.
          case first_priority slots next_day of
            (Some v, n) \<Rightarrow> Inr (Some (v, n))
          | (None, n) \<Rightarrow> bindR (daily_value is_null s date now n) (\<lambda>r. Inr (Some r))))"

section \<open>Between transitions\<close>

text \<open>The special events of a date, and that no two of them have times at the same priority.\<close>

definition events_on :: "'k calendars \<Rightarrow> calendar_date \<Rightarrow> ('k, 'v) special_event list \<Rightarrow> ('k, 'v) special_event list" where
  "events_on calendars date es =
     filter (\<lambda>e. match_period calendars date (event_period e) = Inr True \<and> event_times e \<noteq> []) es"

definition one_per_priority :: "'k calendars \<Rightarrow> calendar_date \<Rightarrow> ('k, 'v) special_event list \<Rightarrow> bool" where
  "one_per_priority calendars date es \<longleftrightarrow> distinct (map (\<lambda>e. slot_index (event_priority e)) (events_on calendars date es))"

lemma scan_times_later:
  assumes "now \<le> later" "\<And>t. snd (scan_times is_null now xs slot) = Some t \<Longrightarrow> later < t" "xs \<noteq> []"
  shows "scan_times is_null later xs slot = scan_times is_null now xs slot"
  using assms
proof (induction xs arbitrary: slot)
  case (Cons x xs)
  obtain t v where x: "x = (t, v)" by (cases x)
  show ?case
  proof (cases "t \<le> now")
    case True
    then have "t \<le> later" using Cons.prems(1) by (rule order_trans)
    then show ?thesis using True Cons x by (cases "xs = []") simp_all
  next
    case False
    then have "later < t" using Cons.prems(2) [of t] x by simp
    then have "\<not> t \<le> later" by (simp add: not_le)
    then show ?thesis using False x by simp
  qed
qed simp

lemma first_priority_bound: "snd (first_priority slots e) \<le> e"
proof (induction slots e rule: first_priority.induct)
  case (2 v n slots e)
  let ?e = "case n of None \<Rightarrow> e | Some t \<Rightarrow> min e t"
  have "?e \<le> e" by (simp split: option.split)
  then show ?case using "2.IH" [of ?e] by (auto simp: Let_def intro: order_trans)
qed simp

text \<open>Slots that differ only where a transition comes first.\<close>

definition same_until :: "day_time \<Rightarrow> 'v slot \<Rightarrow> 'v slot \<Rightarrow> bool" where
  "same_until later a b \<longleftrightarrow> (\<forall>t. snd a = Some t \<longrightarrow> later < t) \<longrightarrow> b = a"

lemma first_priority_later:
  assumes "list_all2 (same_until later) slots slots'" "later < snd (first_priority slots e)"
  shows "first_priority slots' e = first_priority slots e"
  using assms
proof (induction arbitrary: e rule: list_all2_induct)
  case (Cons a as b bs)
  obtain v n where a: "a = (v, n)" by (cases a)
  let ?e = "case n of None \<Rightarrow> e | Some t \<Rightarrow> min e t"
  have "later < ?e"
    using Cons.prems first_priority_bound [of as ?e] by (auto simp: a Let_def split: if_splits)
  then have "b = a" using Cons(1) by (auto simp: same_until_def a split: option.splits)
  then show ?case using Cons.IH [of ?e] Cons.prems by (auto simp: a Let_def split: if_splits)
qed simp

lemma scan_day_later:
  assumes "now \<le> later" "later < snd (scan_day is_null d now xs v e)"
  shows "scan_day is_null d later xs v e = scan_day is_null d now xs v e"
  using assms
proof (induction xs arbitrary: v)
  case (Cons x xs)
  obtain t u where x: "x = (t, u)" by (cases x)
  show ?case
  proof (cases "t \<le> now")
    case True
    then have "t \<le> later" using Cons.prems(1) by (rule order_trans)
    then show ?thesis using True Cons x by simp
  next
    case False
    then have "later < t" using Cons.prems(2) x by simp
    then have "\<not> t \<le> later" by (simp add: not_le)
    then show ?thesis using False x by simp
  qed
qed simp

lemma scan_day_bound: "snd (scan_day is_null d now xs v e) \<le> e"
proof (induction xs arbitrary: v)
  case (Cons x xs)
  then show ?case by (cases x) simp
qed simp

lemma daily_value_later:
  assumes "daily_value is_null s date now e = Inr (v, n)" "now \<le> later" "later < n"
  shows "daily_value is_null s date later e = Inr (v, n)" "n \<le> e"
proof -
  show "daily_value is_null s date later e = Inr (v, n)"
  proof (cases "weekly_schedule s = []")
    case False
    then obtain day where day: "py_index (weekly_schedule s) (snd (snd (snd date)) - 1) = Inr day"
      "scan_day is_null (schedule_default s) now day (schedule_default s) e = (v, n)"
      using assms(1) by (auto simp: daily_value_def bindR_eq_Inr_iff)
    then show ?thesis using scan_day_later [OF assms(2), of is_null _ day _ e] assms(3) False
      by (simp add: daily_value_def)
  qed (use assms(1) in \<open>simp add: daily_value_def\<close>)
  show "n \<le> e"
  proof (cases "weekly_schedule s = []")
    case False
    then obtain day where "scan_day is_null (schedule_default s) now day (schedule_default s) e = (v, n)"
      using assms(1) by (auto simp: daily_value_def bindR_eq_Inr_iff)
    then show ?thesis using scan_day_bound [of is_null "schedule_default s" now day "schedule_default s" e] by simp
  qed (use assms(1) in \<open>simp add: daily_value_def\<close>)
qed

lemma scan_events_later:
  assumes "one_per_priority calendars date es" "now \<le> later"
    "scan_events is_null calendars date now es slots = Inr r" "length slots' = length slots"
    "list_all2 (same_until later) slots slots'"
    "\<And>e i. e \<in> set (events_on calendars date es) \<Longrightarrow> slot_index (event_priority e) = Inr i \<Longrightarrow> slots' ! i = slots ! i"
  shows "\<exists>r'. scan_events is_null calendars date later es slots' = Inr r' \<and> list_all2 (same_until later) r r'"
  using assms
proof (induction es arbitrary: slots slots')
  case (Cons e es)
  obtain m where m: "match_period calendars date (event_period e) = Inr m" 
    using Cons.prems(3) by (auto simp: bindR_eq_Inr_iff)
  show ?case
  proof (cases "m \<and> event_times e \<noteq> []")
    case False
    then have "events_on calendars date (e # es) = events_on calendars date es"
      using m by (auto simp: events_on_def)
    then show ?thesis using Cons.IH [of slots slots'] Cons.prems False m
      by (auto simp: one_per_priority_def)
  next
    case True
    then have on: "events_on calendars date (e # es) = e # events_on calendars date es"
      using m by (auto simp: events_on_def)
    obtain i where i: "slot_index (event_priority e) = Inr i"
      using Cons.prems(3) True m by (auto simp: bindR_eq_Inr_iff)
    let ?s = "scan_times is_null now (event_times e) (slots ! i)"
    let ?s' = "scan_times is_null later (event_times e) (slots' ! i)"
    have same: "slots' ! i = slots ! i" using Cons.prems(6) [of e i] on i by simp
    have "same_until later ?s ?s'"
      using scan_times_later [OF Cons.prems(2)] True by (fastforce simp: same_until_def same)
    then have all: "list_all2 (same_until later) (slots[i := ?s]) (slots'[i := ?s'])"
      using Cons.prems(5) by (rule list_all2_update_cong [rotated])
    have rest: "slots'[i := ?s'] ! j = slots[i := ?s] ! j"
      if "f \<in> set (events_on calendars date es)" "slot_index (event_priority f) = Inr j" for f j
    proof -
      have "j \<noteq> i" using Cons.prems(1) that i on by (force simp: one_per_priority_def)
      moreover have "slots' ! j = slots ! j" using Cons.prems(6) [of f j] on that by simp
      ultimately show ?thesis by simp
    qed
    have "scan_events is_null calendars date now es (slots[i := ?s]) = Inr r"
      using Cons.prems(3) True m i by simp
    moreover have "one_per_priority calendars date es" using Cons.prems(1) on by (simp add: one_per_priority_def)
    ultimately have "\<exists>r'. scan_events is_null calendars date later es (slots'[i := ?s']) = Inr r' \<and> list_all2 (same_until later) r r'"
      using Cons.IH [of "slots[i := ?s]" "slots'[i := ?s']"] Cons.prems(2,4) all rest by auto
    then show ?thesis using True m i by simp
  qed
qed simp

lemma eval_until_transition:
  assumes "eval_schedule is_null calendars s date now = Inr (Some (v, n))"
    "one_per_priority calendars date (exception_schedule s)" "now \<le> later" "later < n"
  shows "eval_schedule is_null calendars s date later = Inr (Some (v, n))"
proof -
  have period: "match_date_range date (effective_period s)"
    using assms(1) by (auto simp: eval_schedule_def split: if_splits)
  then obtain r where r: "scan_events is_null calendars date now (exception_schedule s) (replicate 16 (None, None)) = Inr r"
    using assms(1) by (auto simp: eval_schedule_def bindR_eq_Inr_iff)
  have "list_all2 (same_until later) (replicate 16 (None, None)) (replicate 16 (None, None))"
    by (simp add: list_all2_conv_all_nth same_until_def)
  from scan_events_later [OF assms(2,3) r refl this]
  obtain r' where r': "scan_events is_null calendars date later (exception_schedule s) (replicate 16 (None, None)) = Inr r'"
    "list_all2 (same_until later) r r'" by auto
  define w k where "w = fst (first_priority r next_day)" and "k = snd (first_priority r next_day)"
  then have w: "first_priority r next_day = (w, k)" by simp
  have ev: "eval_schedule is_null calendars s date t =
      (case w of Some u \<Rightarrow> Inr (Some (u, k)) | None \<Rightarrow> bindR (daily_value is_null s date t k) (\<lambda>x. Inr (Some x)))"
    if "scan_events is_null calendars date t (exception_schedule s) (replicate 16 (None, None)) = Inr q"
      "first_priority q next_day = (w, k)" for t q
    using that period by (simp add: eval_schedule_def split: option.split)
  show ?thesis
  proof (cases w)
    case None
    then have day: "daily_value is_null s date now k = Inr (v, n)"
      using assms(1) ev [OF r w] by (auto simp: bindR_eq_Inr_iff)
    have "later < k" using daily_value_later(2) [OF day assms(3,4)] assms(4) by simp
    then have "first_priority r' next_day = (w, k)" using first_priority_later [OF r'(2), of next_day] w by simp
    from ev [OF r'(1) this] show ?thesis using None daily_value_later(1) [OF day assms(3,4)] by simp
  next
    case (Some u)
    then have "later < k" using assms(1,4) ev [OF r w] by simp
    then have "first_priority r' next_day = (w, k)" using first_priority_later [OF r'(2), of next_day] w by simp
    from ev [OF r'(1) this] show ?thesis using Some assms(1) ev [OF r w] by simp
  qed
qed

text \<open>The next transition is after the time of the evaluation.\<close>

definition ahead :: "day_time \<Rightarrow> 'v slot \<Rightarrow> bool" where
  "ahead now slot \<longleftrightarrow> (case snd slot of None \<Rightarrow> True | Some t \<Rightarrow> now < t)"

lemma scan_times_ahead:
  assumes "now < next_day" "ahead now slot"
  shows "ahead now (scan_times is_null now xs slot)"
  using assms(2)
proof (induction xs arbitrary: slot)
  case (Cons x xs)
  obtain t v where x: "x = (t, v)" by (cases x)
  have "ahead now (if is_null v then (None, None) else (Some v, Some next_day))" using assms(1) by (simp add: ahead_def)
  from Cons.IH [OF this] show ?case using x by (simp add: ahead_def not_le)
qed simp

lemma scan_events_ahead:
  assumes "now < next_day" "list_all (ahead now) slots" "scan_events is_null calendars date now es slots = Inr r"
  shows "list_all (ahead now) r"
  using assms(2,3)
proof (induction es arbitrary: slots)
  case (Cons e es)
  let ?slots = "\<lambda>i. slots[i := scan_times is_null now (event_times e) (slots ! i)]"
  have "list_all (ahead now) (?slots i)" for i
    using Cons.prems(1) scan_times_ahead [OF assms(1), of "slots ! i" is_null "event_times e"]
    by (cases "i < length slots") (auto simp: list_all_length nth_list_update)
  then show ?case using Cons by (auto simp: bindR_eq_Inr_iff split: if_splits)
qed simp

lemma first_priority_ahead:
  assumes "now < e" "list_all (ahead now) slots"
  shows "now < snd (first_priority slots e)"
  using assms
proof (induction slots arbitrary: e)
  case (Cons a slots)
  obtain v n where a: "a = (v, n)" by (cases a)
  let ?e = "case n of None \<Rightarrow> e | Some t \<Rightarrow> min e t"
  have "now < ?e" using Cons.prems a by (auto simp: ahead_def split: option.split)
  then show ?case using Cons.IH [of ?e] Cons.prems a by (simp add: Let_def)
qed simp

lemma scan_day_ahead: "now < e \<Longrightarrow> now < snd (scan_day is_null d now xs v e)"
proof (induction xs arbitrary: v)
  case (Cons x xs)
  then show ?case by (cases x) (simp add: not_le)
qed simp

lemma eval_ahead:
  assumes "eval_schedule is_null calendars s date now = Inr (Some (v, n))" "now < next_day"
  shows "now < n"
proof -
  obtain r where r: "scan_events is_null calendars date now (exception_schedule s) (replicate 16 (None, None)) = Inr r"
    using assms(1) by (auto simp: eval_schedule_def bindR_eq_Inr_iff split: if_splits)
  define w k where "w = fst (first_priority r next_day)" and "k = snd (first_priority r next_day)"
  then have w: "first_priority r next_day = (w, k)" by simp
  have "list_all (ahead now) (replicate 16 (None, None) :: 'a slot list)" by (simp add: list_all_iff ahead_def)
  from first_priority_ahead [OF assms(2) scan_events_ahead [OF assms(2) this r]] have k: "now < k" by (simp add: w)
  have ev: "(case w of Some u \<Rightarrow> Inr (Some (u, k)) | None \<Rightarrow> bindR (daily_value is_null s date now k) (\<lambda>x. Inr (Some x))) = Inr (Some (v, n))"
    using assms(1) r w by (simp add: eval_schedule_def split: option.splits if_splits)
  show ?thesis
  proof (cases w)
    case None
    then have "daily_value is_null s date now k = Inr (v, n)" using ev by (auto simp: bindR_eq_Inr_iff)
    then have "n = k \<or> (\<exists>day. n = snd (scan_day is_null (schedule_default s) now day (schedule_default s) k))"
      unfolding daily_value_def by (auto simp: bindR_eq_Inr_iff split: if_splits) (metis snd_conv)
    then show ?thesis using k scan_day_ahead [OF k] by auto
  qed (use ev k in simp)
qed

section \<open>The value in force\<close>

text \<open>
  The value of the last time that is not later, if there is one and it is not a null. The times
  of a well-formed schedule ascend and its priorities are from 1 to 16.
\<close>

definition value_at :: "('v \<Rightarrow> bool) \<Rightarrow> day_time \<Rightarrow> 'v time_values \<Rightarrow> 'v option" where
  "value_at is_null now xs =
     (let past = filter (\<lambda>x. fst x \<le> now) xs in
      if past = [] \<or> is_null (snd (last past)) then None else Some (snd (last past)))"

definition ascending :: "'v time_values \<Rightarrow> bool" where
  "ascending xs \<longleftrightarrow> sorted (map fst xs)"

definition schedule_ok :: "('k, 'v) schedule \<Rightarrow> bool" where
  "schedule_ok s \<longleftrightarrow>
     list_all (\<lambda>e. 1 \<le> event_priority e \<and> event_priority e \<le> 16 \<and> ascending (event_times e)) (exception_schedule s) \<and>
     list_all ascending (weekly_schedule s)"

lemma past_none:
  fixes now :: "'t::linorder"
  assumes "sorted (map fst xs)" "\<And>y. y \<in> set xs \<Longrightarrow> u \<le> fst y" "\<not> u \<le> now"
  shows "filter (\<lambda>x. fst x \<le> now) xs = []"
proof -
  have "\<not> fst y \<le> now" if "y \<in> set xs" for y using assms(2) [OF that] assms(3) by (meson order_trans)
  then show ?thesis by (simp add: filter_empty_conv)
qed

lemma scan_times_value:
  assumes "ascending xs"
  shows "fst (scan_times is_null now xs slot) =
    (if filter (\<lambda>x. fst x \<le> now) xs = [] then fst slot else value_at is_null now xs)"
  using assms
proof (induction xs arbitrary: slot)
  case (Cons x xs)
  obtain t v where x: "x = (t, v)" by (cases x)
  have later: "ascending xs" "\<And>y. y \<in> set xs \<Longrightarrow> t \<le> fst y" using Cons.prems x by (auto simp: ascending_def)
  show ?case
  proof (cases "t \<le> now")
    case True
    then show ?thesis using Cons.IH [OF later(1)] x by (simp add: value_at_def Let_def)
  next
    case False
    then have "filter (\<lambda>x. fst x \<le> now) xs = []"
      using later past_none [of xs t now] by (simp add: ascending_def)
    then show ?thesis using False x by simp
  qed
qed simp

lemma value_at_none: "filter (\<lambda>x. fst x \<le> now) xs = [] \<Longrightarrow> value_at is_null now xs = None"
  by (simp add: value_at_def)

lemma slot_value: "ascending xs \<Longrightarrow> fst (scan_times is_null now xs (None, None)) = value_at is_null now xs"
  by (simp add: scan_times_value value_at_none)

lemma scan_day_value:
  assumes "ascending xs"
  shows "fst (scan_day is_null d now xs v e) =
    (if filter (\<lambda>x. fst x \<le> now) xs = [] then v else case value_at is_null now xs of None \<Rightarrow> d | Some u \<Rightarrow> u)"
  using assms
proof (induction xs arbitrary: v)
  case (Cons x xs)
  obtain t u where x: "x = (t, u)" by (cases x)
  have later: "ascending xs" "\<And>y. y \<in> set xs \<Longrightarrow> t \<le> fst y" using Cons.prems x by (auto simp: ascending_def)
  show ?case
  proof (cases "t \<le> now")
    case True
    then show ?thesis using Cons.IH [OF later(1)] x by (simp add: value_at_def Let_def)
  next
    case False
    then have "filter (\<lambda>x. fst x \<le> now) xs = []"
      using later past_none [of xs t now] by (simp add: ascending_def)
    then show ?thesis using False x by simp
  qed
qed simp

text \<open>What the events leave in the slots: each its own, the others are as they were.\<close>

lemma scan_events_slots:
  assumes "one_per_priority calendars date es" "scan_events is_null calendars date now es slots = Inr r"
    "\<And>e i. e \<in> set (events_on calendars date es) \<Longrightarrow> slot_index (event_priority e) = Inr i \<Longrightarrow> i < length slots \<and> slots ! i = (None, None)"
  shows "length r = length slots \<and>
    (\<forall>e\<in>set (events_on calendars date es). \<exists>i. slot_index (event_priority e) = Inr i \<and>
       r ! i = scan_times is_null now (event_times e) (None, None)) \<and>
    (\<forall>i<length slots. (\<forall>e\<in>set (events_on calendars date es). slot_index (event_priority e) \<noteq> Inr i) \<longrightarrow> r ! i = slots ! i)"
  using assms
proof (induction es arbitrary: slots)
  case Nil
  then show ?case by (simp add: events_on_def)
next
  case (Cons e es)
  obtain m where m: "match_period calendars date (event_period e) = Inr m"
    using Cons.prems(2) by (auto simp: bindR_eq_Inr_iff)
  show ?case
  proof (cases "m \<and> event_times e \<noteq> []")
    case False
    then have "events_on calendars date (e # es) = events_on calendars date es"
      using m by (auto simp: events_on_def)
    moreover have "scan_events is_null calendars date now es slots = Inr r"
      using Cons.prems(2) False m by (cases m) simp_all
    ultimately show ?thesis using Cons.IH [of slots] Cons.prems(1,3) by (simp add: one_per_priority_def)
  next
    case True
    then have on: "events_on calendars date (e # es) = e # events_on calendars date es"
      using m by (auto simp: events_on_def)
    obtain i where i: "slot_index (event_priority e) = Inr i"
      using Cons.prems(2) True m by (auto simp: bindR_eq_Inr_iff)
    have free: "i < length slots" "slots ! i = (None, None)" using Cons.prems(3) [of e i] on i by simp_all
    let ?slots = "slots[i := scan_times is_null now (event_times e) (slots ! i)]"
    have others: "slot_index (event_priority f) \<noteq> Inr i" if "f \<in> set (events_on calendars date es)" for f
      using Cons.prems(1) that i on by (force simp: one_per_priority_def)
    have one: "one_per_priority calendars date es" using Cons.prems(1) on by (simp add: one_per_priority_def)
    have run: "scan_events is_null calendars date now es ?slots = Inr r" using Cons.prems(2) True m i by simp
    have rest: "j < length ?slots \<and> ?slots ! j = (None, None)"
      if "f \<in> set (events_on calendars date es)" "slot_index (event_priority f) = Inr j" for f j
    proof -
      have "j \<noteq> i" using others [OF that(1)] that(2) by auto
      then show ?thesis using Cons.prems(3) [of f j] on that by simp
    qed
    have ih: "length r = length ?slots \<and>
      (\<forall>e\<in>set (events_on calendars date es). \<exists>i. slot_index (event_priority e) = Inr i \<and>
         r ! i = scan_times is_null now (event_times e) (None, None)) \<and>
      (\<forall>i<length ?slots. (\<forall>e\<in>set (events_on calendars date es). slot_index (event_priority e) \<noteq> Inr i) \<longrightarrow> r ! i = ?slots ! i)"
      by (rule Cons.IH [OF one run]) (rule rest)
    moreover have "r ! i = scan_times is_null now (event_times e) (None, None)"
      using ih others free by auto
    ultimately show ?thesis unfolding on using i by auto
  qed
qed

text \<open>The first slot with a value.\<close>

lemma first_priority_none:
  "fst (first_priority slots e) = None \<longleftrightarrow> (\<forall>i<length slots. fst (slots ! i) = None)"
proof (induction slots arbitrary: e)
  case (Cons a slots)
  then show ?case by (cases a) (auto simp: Let_def less_Suc_eq_0_disj)
qed simp


lemma first_priority_value:
  "fst (first_priority slots e) = Some v \<longleftrightarrow>
    (\<exists>i<length slots. fst (slots ! i) = Some v \<and> (\<forall>j<i. fst (slots ! j) = None))"
proof (induction slots arbitrary: e)
  case (Cons a slots)
  obtain w n where a: "a = (w, n)" by (cases a)
  show ?case
  proof (cases w)
    case None
    then show ?thesis using Cons.IH a by (auto simp: Let_def less_Suc_eq_0_disj nth_Cons' split: if_splits)
        (metis Suc_less_eq Suc_pred diff_Suc_1 gr0_conv_Suc not_less_eq)+
  next
    case (Some u)
    then show ?thesis using a by (auto simp: Let_def nth_Cons' split: if_splits)
  qed
qed simp

lemma slot_of_priority: "1 \<le> p \<Longrightarrow> p \<le> 16 \<Longrightarrow> slot_index p = Inr (nat (p - 1))"
  by (simp add: slot_index_def)

lemma events_on_subset: "set (events_on calendars date es) \<subseteq> set es"
  by (auto simp: events_on_def)

lemma daily_value_at:
  assumes "daily_value is_null s date now k = Inr (v, n)" "list_all ascending (weekly_schedule s)"
  shows "if weekly_schedule s = [] then v = schedule_default s
    else \<exists>day. py_index (weekly_schedule s) (snd (snd (snd date)) - 1) = Inr day \<and>
      v = (case value_at is_null now day of None \<Rightarrow> schedule_default s | Some u \<Rightarrow> u)"
proof (cases "weekly_schedule s = []")
  case False
  then obtain day where day: "py_index (weekly_schedule s) (snd (snd (snd date)) - 1) = Inr day"
    "scan_day is_null (schedule_default s) now day (schedule_default s) k = (v, n)"
    using assms(1) by (auto simp: daily_value_def bindR_eq_Inr_iff)
  have "day \<in> set (weekly_schedule s)" using day(1) by (auto simp: py_index_def split: if_splits)
  then have "ascending day" using assms(2) by (simp add: list_all_iff)
  from scan_day_value [OF this, of is_null "schedule_default s" now "schedule_default s" k] False day show ?thesis
    by (simp add: value_at_none split: if_splits)
qed (use assms(1) in \<open>simp add: daily_value_def\<close>)

lemma eval_value:
  assumes "eval_schedule is_null calendars s date now = Inr (Some (v, n))"
    "one_per_priority calendars date (exception_schedule s)" "schedule_ok s"
    "E = set (events_on calendars date (exception_schedule s))"
  shows "(\<exists>e\<in>E. value_at is_null now (event_times e) = Some v \<and>
      (\<forall>f\<in>E. event_priority f < event_priority e \<longrightarrow> value_at is_null now (event_times f) = None)) \<or>
    (\<forall>e\<in>E. value_at is_null now (event_times e) = None) \<and>
      (if weekly_schedule s = [] then v = schedule_default s
       else \<exists>day. py_index (weekly_schedule s) (snd (snd (snd date)) - 1) = Inr day \<and>
         v = (case value_at is_null now day of None \<Rightarrow> schedule_default s | Some u \<Rightarrow> u))"
proof -
  let ?slots = "replicate 16 (None, None)"
  have ok: "1 \<le> event_priority e" "event_priority e \<le> 16" "ascending (event_times e)" if "e \<in> E" for e
    using that assms(3,4) events_on_subset [of calendars date "exception_schedule s"] by (auto simp: schedule_ok_def list_all_iff)
  obtain r where r: "scan_events is_null calendars date now (exception_schedule s) ?slots = Inr r"
    using assms(1) by (auto simp: eval_schedule_def bindR_eq_Inr_iff split: if_splits)
  have "i < length ?slots \<and> ?slots ! i = (None, None)" if "e \<in> E" "slot_index (event_priority e) = Inr i" for e i
    using that ok [OF that(1)] by (auto simp: slot_of_priority)
  then have slots: "length r = 16"
      "\<And>e. e \<in> E \<Longrightarrow> r ! nat (event_priority e - 1) = scan_times is_null now (event_times e) (None, None)"
      "\<And>i. i < 16 \<Longrightarrow> (\<forall>e\<in>E. slot_index (event_priority e) \<noteq> Inr i) \<Longrightarrow> r ! i = (None, None)"
    using scan_events_slots [OF assms(2) r] assms(4) ok by (fastforce simp: slot_of_priority)+
  have slot_at: "fst (r ! nat (event_priority e - 1)) = value_at is_null now (event_times e)" if "e \<in> E" for e
    using slots(2) [OF that] slot_value [OF ok(3) [OF that]] by simp
  define w k where "w = fst (first_priority r next_day)" and "k = snd (first_priority r next_day)"
  then have w: "first_priority r next_day = (w, k)" by simp
  have ev: "(case w of Some u \<Rightarrow> Inr (Some (u, k)) | None \<Rightarrow> bindR (daily_value is_null s date now k) (\<lambda>x. Inr (Some x))) = Inr (Some (v, n))"
    using assms(1) r w by (simp add: eval_schedule_def split: option.splits if_splits)
  show ?thesis
  proof (cases w)
    case None
    have none: "fst (r ! i) = None" if "i < 16" for i
      using first_priority_none [of r next_day] w None slots(1) that by simp
    have "value_at is_null now (event_times e) = None" if "e \<in> E" for e
      using none [of "nat (event_priority e - 1)"] slot_at [OF that] ok [OF that] by auto
    moreover have "daily_value is_null s date now k = Inr (v, n)" using ev None by (auto simp: bindR_eq_Inr_iff)
    ultimately show ?thesis using daily_value_at [of is_null s date now k v n] assms(3) by (simp add: schedule_ok_def)
  next
    case (Some u)
    then have "fst (first_priority r next_day) = Some v" using ev w by simp
    then obtain i where i: "i < 16" "fst (r ! i) = Some v" "\<And>j. j < i \<Longrightarrow> fst (r ! j) = None"
      using first_priority_value [of r next_day v] slots(1) by auto
    then obtain e where e: "e \<in> E" "slot_index (event_priority e) = Inr i" using slots(3) [OF i(1)] by force
    then have pe: "i = nat (event_priority e - 1)" using ok [OF e(1)] by (simp add: slot_of_priority)
    have "value_at is_null now (event_times f) = None" if "f \<in> E" "event_priority f < event_priority e" for f
      using i(3) [of "nat (event_priority f - 1)"] slot_at [OF that(1)] ok [OF that(1)] that(2) pe by simp
    then show ?thesis using e(1) slot_at [OF e(1)] i(2) pe by auto
  qed
qed

text \<open>
  Property C8. The value of a schedule is the one in force at the highest priority among the
  special events of the date, and if none is in force, the one in force in the daily schedule of the
  day of the week, or else the default.
\<close>

theorem scheduled_value:
  assumes "eval_schedule is_null calendars s date now = Inr (Some (v, n))"
    "one_per_priority calendars date (exception_schedule s)" "schedule_ok s"
    "E = set (events_on calendars date (exception_schedule s))"
  shows "(\<exists>e\<in>E. value_at is_null now (event_times e) = Some v \<and>
      (\<forall>f\<in>E. event_priority f < event_priority e \<longrightarrow> value_at is_null now (event_times f) = None)) \<or>
    (\<forall>e\<in>E. value_at is_null now (event_times e) = None) \<and>
      (if weekly_schedule s = [] then v = schedule_default s
       else \<exists>day. py_index (weekly_schedule s) (snd (snd (snd date)) - 1) = Inr day \<and>
         v = (case value_at is_null now day of None \<Rightarrow> schedule_default s | Some u \<Rightarrow> u))"
  by (rule eval_value [OF assms])

section \<open>The interpreter\<close>

text \<open>
  The schedule object: its schedule and properties, and the delays of the timers it has set. The
  time zone is a parameter, \<^verbatim>\<open>time.mktime\<close>. The monitors of the present value, which its assignment
  calls (\<^verbatim>\<open>call_monitors\<close> in Objects), do not change this state and are left out.
\<close>

record ('k, 'v) schedule_object =
  the_schedule :: "('k, 'v) schedule"
  present_value :: 'v
  configuration_fault :: bool
  timers :: "int list"

type_synonym clock_seconds = "int \<times> int \<times> int \<times> int \<times> int \<times> int \<Rightarrow> int"

definition datetime_to_time :: "clock_seconds \<Rightarrow> calendar_date \<Rightarrow> day_time \<Rightarrow> int result" where
  "datetime_to_time mktime date time =
     (case (date, time) of ((year, month, day, dow), (h, m, sec, hundredths)) \<Rightarrow>
        if 255 \<in> set [year, month, day, dow] \<or> 255 \<in> set [h, m, sec, hundredths] then Inl RuntimeError
        else Inr (mktime (year + 1900, month, day, h, m, sec)))"

definition interpret_schedule ::
    "clock_seconds \<Rightarrow> ('v \<Rightarrow> bool) \<Rightarrow> 'k calendars \<Rightarrow> calendar_date \<Rightarrow> day_time \<Rightarrow> (('k, 'v) schedule_object, unit) action" where
  "interpret_schedule mktime is_null calendars date now =
     withS (\<lambda>s.
       if configuration_fault s then retS ()
       else
         bindS (liftS (eval_schedule is_null calendars (the_schedule s) date now)) (\<lambda>r.
         bindS (liftS (need TypeError r)) (\<lambda>(v, n).
         bindS (modS (\<lambda>s. s\<lparr>present_value := v\<rparr>)) (\<lambda>_.
         bindS (liftS (datetime_to_time mktime date n)) (\<lambda>later.
         bindS (liftS (datetime_to_time mktime date now)) (\<lambda>current.
           modS (\<lambda>s. s\<lparr>timers := timers s @ [later - current]\<rparr>)))))))"

text \<open>
  The values of the entries of a schedule are of the class AnyAtomic, that holds the tags of a
  value; it is not a subclass of Null, whatever it holds.
\<close>

definition null_instance :: "tag list \<Rightarrow> bool" where
  "null_instance v = False"

definition null_tags :: "tag list" where
  "null_tags = [\<lparr>tag_class = Application, tag_number = 0, tag_lvt = 0, tag_data = []\<rparr>]"

text \<open>
  Property C37. A null in a special event does not relinquish its priority: it becomes the value of
  the schedule itself, although events of lower priority or the daily schedule have a value.
\<close>

theorem null_presented:
  assumes "eval_schedule null_instance calendars s date now = Inr (Some (v, n))"
    "one_per_priority calendars date (exception_schedule s)" "schedule_ok s"
    "e \<in> set (events_on calendars date (exception_schedule s))"
    "\<forall>f\<in>set (events_on calendars date (exception_schedule s)). event_priority e \<le> event_priority f"
    "event_times e = xs @ [(t, null_tags)]" "t \<le> now"
  shows "v = null_tags"
proof -
  have e: "value_at null_instance now (event_times e) = Some null_tags"
    using assms(6,7) by (simp add: value_at_def null_instance_def)
  from eval_value [OF assms(1-3) refl] e assms(4)
  obtain f where f: "f \<in> set (events_on calendars date (exception_schedule s))"
    "value_at null_instance now (event_times f) = Some v"
    "\<forall>g\<in>set (events_on calendars date (exception_schedule s)).
       event_priority g < event_priority f \<longrightarrow> value_at null_instance now (event_times g) = None" by auto
  then have "\<not> event_priority e < event_priority f" using e assms(4) by auto
  then have "event_priority e = event_priority f" using assms(5) f(1) by (simp add: antisym)
  then have "e = f"
    using assms(2,4) f(1) by (auto simp: one_per_priority_def distinct_map inj_on_def)
  then show ?thesis using e f(2) by simp
qed

text \<open>
  Property C38. An interpretation outside the effective period raises an exception and sets no
  timer: when it was run by the only timer, the schedule is not interpreted again, also not when
  its period begins.
\<close>

theorem period_end_stops:
  assumes "\<not> match_date_range date (effective_period (the_schedule s))" "\<not> configuration_fault s"
  shows "interpret_schedule mktime is_null calendars date now s = (Inl TypeError, s)"
  using assms by (simp add: interpret_schedule_def eval_schedule_def act_simps bindS_def)

text \<open>
  Property C9. The present value that an interpretation sets is the value of the schedule until the
  next transition, which is later in the day, and there is exactly one more timer, for that
  transition. This needs that no two special events of the date have the same priority.
\<close>

theorem present_value_holds:
  assumes "interpret_schedule mktime is_null calendars date now s = (Inr (), s')" "\<not> configuration_fault s"
    "one_per_priority calendars date (exception_schedule (the_schedule s))" "now < next_day"
  shows "\<exists>n due current. now < n \<and> datetime_to_time mktime date n = Inr due \<and>
    datetime_to_time mktime date now = Inr current \<and> timers s' = timers s @ [due - current] \<and>
    (\<forall>later. now \<le> later \<and> later < n \<longrightarrow>
       eval_schedule is_null calendars (the_schedule s) date later = Inr (Some (present_value s', n)))"
proof -
  obtain r where r: "eval_schedule is_null calendars (the_schedule s) date now = Inr r"
    using assms(1,2) by (cases "eval_schedule is_null calendars (the_schedule s) date now")
      (simp_all add: interpret_schedule_def act_simps bindS_def)
  moreover obtain v n where vn: "r = Some (v, n)"
    using assms(1,2) r by (cases r) (auto simp: interpret_schedule_def act_simps bindS_def)
  ultimately have ev: "eval_schedule is_null calendars (the_schedule s) date now = Inr (Some (v, n))" by simp
  obtain due where due: "datetime_to_time mktime date n = Inr due"
    using assms(1,2) ev by (cases "datetime_to_time mktime date n")
      (simp_all add: interpret_schedule_def act_simps bindS_def)
  obtain current where current: "datetime_to_time mktime date now = Inr current"
    using assms(1,2) ev due by (cases "datetime_to_time mktime date now")
      (simp_all add: interpret_schedule_def act_simps bindS_def)
  have "s' = s\<lparr>present_value := v, timers := timers s @ [due - current]\<rparr>"
    using assms(1,2) ev due current by (simp add: interpret_schedule_def act_simps bindS_def)
  then have state: "present_value s' = v" "timers s' = timers s @ [due - current]" by simp_all
  show ?thesis unfolding state
    using eval_until_transition [OF ev assms(3)] eval_ahead [OF ev assms(4)] due current by blast
qed

section \<open>An example\<close>

text \<open>The working days of a year, with half a day at the end of a month.\<close>

definition example_schedule :: "('k, int) schedule" where
  "example_schedule =
     \<lparr>effective_period = ((125, 1, 1, 255), (125, 12, 31, 255)),
      exception_schedule =
        [\<lparr>event_period = Some (PeriodEntry (OnDate (255, 255, 32, 255))),
          event_times = [((8, 0, 0, 0), 1), ((12, 0, 0, 0), 2)], event_priority = 3\<rparr>,
         \<lparr>event_period = Some (PeriodEntry (OnWeekNDay 12 6 255)),
          event_times = [((10, 0, 0, 0), 5)], event_priority = 1\<rparr>],
      weekly_schedule = replicate 7 [((8, 0, 0, 0), 1), ((17, 0, 0, 0), 2)],
      schedule_default = 0\<rparr>"

definition no_calendars :: "unit calendars" where "no_calendars = (\<lambda>_. None)"

definition seconds_of_day :: clock_seconds where
  "seconds_of_day = (\<lambda>(y, mo, d, h, m, s). 3600 * h + 60 * m + s)"

definition example_object :: "(unit, int) schedule_object" where
  "example_object = \<lparr>the_schedule = example_schedule, present_value = 0, configuration_fault = False, timers = []\<rparr>"

lemma example_facts:
  "eval_schedule (\<lambda>_. False) no_calendars example_schedule (125, 12, 31, 3) (9, 0, 0, 0) = Inr (Some (1, (10, 0, 0, 0)))"
  "one_per_priority no_calendars (125, 12, 31, 3) (exception_schedule example_schedule)"
  "schedule_ok (example_schedule :: (unit, int) schedule)"
  "(9, 0, 0, 0) < next_day"
  by code_simp+

theorem scheduled_value_witness:
  "let E = set (events_on no_calendars (125, 12, 31, 3) (exception_schedule example_schedule)); now = (9, 0, 0, 0) in
   (\<exists>e\<in>E. value_at (\<lambda>_. False) now (event_times e) = Some 1 \<and>
      (\<forall>f\<in>E. event_priority f < event_priority e \<longrightarrow> value_at (\<lambda>_. False) now (event_times f) = None)) \<or>
    (\<forall>e\<in>E. value_at (\<lambda>_. False) now (event_times e) = None) \<and>
      (if weekly_schedule (example_schedule :: (unit, int) schedule) = [] then 1 = schedule_default (example_schedule :: (unit, int) schedule)
       else \<exists>day. py_index (weekly_schedule (example_schedule :: (unit, int) schedule)) (snd (snd (snd ((125, 12, 31, 3) :: calendar_date))) - 1) = Inr day \<and>
         1 = (case value_at (\<lambda>_. False) now day of None \<Rightarrow> schedule_default (example_schedule :: (unit, int) schedule) | Some u \<Rightarrow> u))"
  unfolding Let_def by (rule scheduled_value [OF example_facts(1-3) refl])

theorem present_value_holds_witness:
  "\<exists>s' n due current. interpret_schedule seconds_of_day (\<lambda>_. False) no_calendars (125, 12, 31, 3) (9, 0, 0, 0) example_object = (Inr (), s') \<and>
    (9, 0, 0, 0) < n \<and> datetime_to_time seconds_of_day (125, 12, 31, 3) n = Inr due \<and>
    datetime_to_time seconds_of_day (125, 12, 31, 3) (9, 0, 0, 0) = Inr current \<and> timers s' = [due - current]"
proof -
  have run: "interpret_schedule seconds_of_day (\<lambda>_. False) no_calendars (125, 12, 31, 3) (9, 0, 0, 0) example_object =
      (Inr (), example_object\<lparr>present_value := 1, timers := [3600]\<rparr>)"
    using example_facts(1)
    by (simp add: interpret_schedule_def example_object_def datetime_to_time_def seconds_of_day_def act_simps bindS_def)
  from present_value_holds [OF run _ _ example_facts(4)] example_facts(2) run
  show ?thesis by (fastforce simp: example_object_def)
qed

definition null_schedule :: "(unit, tag list) schedule" where
  "null_schedule =
     \<lparr>effective_period = ((125, 1, 1, 255), (125, 12, 31, 255)),
      exception_schedule =
        [\<lparr>event_period = Some (PeriodEntry (OnDate (255, 255, 32, 255))),
          event_times = [((8, 0, 0, 0), null_tags)], event_priority = 3\<rparr>],
      weekly_schedule = [], schedule_default = []\<rparr>"

theorem null_presented_witness:
  "\<exists>v n. eval_schedule null_instance no_calendars null_schedule (125, 12, 31, 3) (9, 0, 0, 0) = Inr (Some (v, n)) \<and> v = null_tags"
proof -
  have e: "eval_schedule null_instance no_calendars null_schedule (125, 12, 31, 3) (9, 0, 0, 0) =
      Inr (Some (null_tags, next_day))" by code_simp
  have "null_tags = null_tags"
    by (rule null_presented [OF e, where xs = "[]" and t = "(8, 0, 0, 0)" and e = "hd (exception_schedule null_schedule)"])
      code_simp+
  with e show ?thesis by blast
qed

theorem period_end_stops_witness:
  "interpret_schedule seconds_of_day (\<lambda>_. False) no_calendars (126, 1, 1, 4) (9, 0, 0, 0) example_object = (Inl TypeError, example_object)"
  by (rule period_end_stops) code_simp+

end
