(* ===== verification/Cov.thy ===== *)
theory Cov
  imports Pdu Action Events
begin

text \<open>
  Change of value: the subscriptions of other devices to the objects of an application
  (\<^verbatim>\<open>bacpypes3/service/cov.py\<close>) and the detection of changes that sends them notifications
  (\<^verbatim>\<open>bacpypes3/local/cov.py\<close>), for the generic criteria and those with an increment.
\<close>

section \<open>State\<close>

type_synonym object_id = "int \<times> int"

datatype criteria = Generic | Increment

text \<open>
  Subscriptions and detection algorithms are in stores. A subscription refers to its object and has the time its timer is due; a
  detection has the value of the property it tracks, whether it is scheduled, the value reported
  last and the subscriptions to it. The time of the event loop is in whole seconds.
\<close>

record subscription =
  client_addr :: address
  process_id :: int
  monitored_object :: object_id
  is_confirmed :: "bool option"
  expires :: "int option"

record 'v detection =
  detected_object :: object_id
  detection_criteria :: criteria
  parameter_value :: 'v
  execute_scheduled :: bool
  previously_reported :: "'v option"
  cov_subscriptions :: "nat list"

datatype cov_callback = CovExecute nat | CovSend nat nat

record 'v notification =
  to_client :: address
  to_process :: int
  about_object :: object_id
  sent_confirmed :: bool
  remaining :: int
  reported :: 'v

text \<open>
  An object goes by the identifier under which it is subscribed to. \<open>identifier_now\<close> is the one it
  has, which is another after its identifier has been written; the runs below are between such
  writes.
\<close>

record 'v cov_state =
  identifier_now :: "object_id \<Rightarrow> object_id"
  present_values :: "object_id \<rightharpoonup> 'v"
  cov_increments :: "object_id \<Rightarrow> 'v"
  criteria_of :: "object_id \<rightharpoonup> criteria"
  subscriptions :: "nat \<Rightarrow> subscription"
  new_subscription :: nat
  detections :: "nat \<Rightarrow> 'v detection"
  new_detection :: nat
  cov_detections :: "object_id \<rightharpoonup> nat"
  cov_callbacks :: "cov_callback list"
  loop_time :: int
  cov_sent :: "'v notification list"

definition update_detection :: "nat \<Rightarrow> ('v detection \<Rightarrow> 'v detection) \<Rightarrow> 'v cov_state \<Rightarrow> 'v cov_state" where
  "update_detection d f s = s\<lparr>detections := (detections s)(d := f (detections s d))\<rparr>"

definition update_subscription :: "nat \<Rightarrow> (subscription \<Rightarrow> subscription) \<Rightarrow> 'v cov_state \<Rightarrow> 'v cov_state" where
  "update_subscription k f s = s\<lparr>subscriptions := (subscriptions s)(k := f (subscriptions s k))\<rparr>"

section \<open>Detection\<close>

text \<open>\<open>schedule_execute\<close> is the \<^verbatim>\<open>call_soon\<close> at the end of \<^verbatim>\<open>property_change\<close>.\<close>

definition schedule_execute :: "nat \<Rightarrow> 'v cov_state \<Rightarrow> 'v cov_state" where
  "schedule_execute d s =
     update_detection d (\<lambda>x. x\<lparr>execute_scheduled := True\<rparr>) (s\<lparr>cov_callbacks := cov_callbacks s @ [CovExecute d]\<rparr>)"

definition significant :: "'v arithmetic \<Rightarrow> 'v \<Rightarrow> 'v \<Rightarrow> 'v \<Rightarrow> bool" where
  "significant ops inc reported_value new \<longleftrightarrow>
     less_eq_of ops new (minus_of ops reported_value inc) \<or> less_eq_of ops (plus_of ops reported_value inc) new"

text \<open>The monitor of the present value, with the filter of the class of the algorithm.\<close>

definition present_value_change :: "'v arithmetic \<Rightarrow> nat \<Rightarrow> 'v \<Rightarrow> 'v \<Rightarrow> 'v cov_state \<Rightarrow> 'v cov_state" where
  "present_value_change ops d old new s =
     (let s = update_detection d (\<lambda>x. x\<lparr>parameter_value := new\<rparr>) s; det = detections s d in
      if execute_scheduled det then s
      else
        (case detection_criteria det of
           Generic \<Rightarrow> if old \<noteq> new then schedule_execute d s else s
         | Increment \<Rightarrow>
             let p = (case previously_reported det of None \<Rightarrow> old | Some p \<Rightarrow> p);
                 s = update_detection d (\<lambda>x. x\<lparr>previously_reported := Some p\<rparr>) s in
             if significant ops (cov_increments s (detected_object det)) p new then schedule_execute d s else s))"

text \<open>A property is set; its monitors are told when the value has changed.\<close>

definition set_present_value :: "'v arithmetic \<Rightarrow> object_id \<Rightarrow> 'v \<Rightarrow> 'v cov_state \<Rightarrow> 'v cov_state" where
  "set_present_value ops ob v s =
     (case present_values s ob of
        None \<Rightarrow> s
      | Some old \<Rightarrow>
          if old = v then s
          else
            let s = s\<lparr>present_values := (present_values s)(ob \<mapsto> v)\<rparr> in
            (case cov_detections s ob of None \<Rightarrow> s | Some d \<Rightarrow> present_value_change ops d old v s))"

definition set_increment :: "object_id \<Rightarrow> 'v \<Rightarrow> 'v cov_state \<Rightarrow> 'v cov_state" where
  "set_increment ob inc s =
     (if cov_increments s ob = inc then s
      else
        let s = s\<lparr>cov_increments := (cov_increments s)(ob := inc)\<rparr> in
        (case cov_detections s ob of
           None \<Rightarrow> s
         | Some d \<Rightarrow>
             if detection_criteria (detections s d) = Generic \<or> execute_scheduled (detections s d) then s
             else schedule_execute d s))"

section \<open>Notifications\<close>

definition time_remaining :: "'v cov_state \<Rightarrow> nat \<Rightarrow> int" where
  "time_remaining s k =
     (case expires (subscriptions s k) of
        None \<Rightarrow> 0
      | Some t \<Rightarrow> if t - loop_time s = 0 then 1 else t - loop_time s)"

definition cov_notification :: "'v cov_state \<Rightarrow> 'v \<Rightarrow> nat \<Rightarrow> 'v notification" where
  "cov_notification s v k =
     (let sub = subscriptions s k in
      \<lparr>to_client = client_addr sub, to_process = process_id sub, about_object = monitored_object sub,
       sent_confirmed = (is_confirmed sub = Some True), remaining = time_remaining s k, reported = v\<rparr>)"

definition keep_reported :: "nat \<Rightarrow> 'v cov_state \<Rightarrow> 'v cov_state" where
  "keep_reported d s =
     (if detection_criteria (detections s d) = Increment
      then update_detection d (\<lambda>x. x\<lparr>previously_reported := Some (parameter_value x)\<rparr>) s else s)"

definition send_cov_notifications :: "nat \<Rightarrow> nat option \<Rightarrow> 'v cov_state \<Rightarrow> 'v cov_state" where
  "send_cov_notifications d only s =
     (let s = keep_reported d s; det = detections s d in
      if cov_subscriptions det = [] then s
      else s\<lparr>cov_sent := cov_sent s @
        map (cov_notification s (parameter_value det)) (case only of None \<Rightarrow> cov_subscriptions det | Some k \<Rightarrow> [k])\<rparr>)"

definition run_cov_callback :: "'v cov_state \<Rightarrow> 'v cov_state" where
  "run_cov_callback s =
     (case cov_callbacks s of
        [] \<Rightarrow> s
      | CovExecute d # cs \<Rightarrow>
          send_cov_notifications d None (update_detection d (\<lambda>x. x\<lparr>execute_scheduled := False\<rparr>) (s\<lparr>cov_callbacks := cs\<rparr>))
      | CovSend d k # cs \<Rightarrow> send_cov_notifications d (Some k) (s\<lparr>cov_callbacks := cs\<rparr>))"

section \<open>Subscriptions\<close>

text \<open>
  The end of a subscription. \<^verbatim>\<open>list.remove\<close> raises when there is nothing to remove; a
  detection without subscriptions is taken out of the dictionary, and its monitors out of the object.
\<close>

definition cancel_subscription :: "nat \<Rightarrow> ('v cov_state, unit) action" where
  "cancel_subscription k =
     withS (\<lambda>s.
       let ob = identifier_now s (monitored_object (subscriptions s k)) in
       bindS (liftS (need KeyError (cov_detections s ob))) (\<lambda>d.
       bindS (modS (update_subscription k (\<lambda>x. x\<lparr>expires := None\<rparr>))) (\<lambda>_.
       withS (\<lambda>s.
         if k \<notin> set (cov_subscriptions (detections s d)) then raiseS ValueError
         else
           bindS (modS (update_detection d (\<lambda>x. x\<lparr>cov_subscriptions := remove1 k (cov_subscriptions x)\<rparr>))) (\<lambda>_.
           withS (\<lambda>s.
             if cov_subscriptions (detections s d) = []
             then modS (\<lambda>s. s\<lparr>cov_detections := (cov_detections s)(ob := None)\<rparr>) else retS ()))))))"

text \<open>A lifetime that is not given cannot be compared with zero.\<close>

definition start_expiry :: "nat \<Rightarrow> int option \<Rightarrow> ('v cov_state, unit) action" where
  "start_expiry k lifetime =
     bindS (liftS (need TypeError lifetime)) (\<lambda>l.
       if l > 0 then modS (\<lambda>s. update_subscription k (\<lambda>x. x\<lparr>expires := Some (loop_time s + l)\<rparr>) s) else retS ())"

definition renew_subscription :: "nat \<Rightarrow> int option \<Rightarrow> ('v cov_state, unit) action" where
  "renew_subscription k lifetime =
     seqS [modS (update_subscription k (\<lambda>x. x\<lparr>expires := None\<rparr>)), start_expiry k lifetime]"

definition find_detection :: "object_id \<Rightarrow> 'v \<Rightarrow> ('v cov_state, nat) action" where
  "find_detection ob v =
     withS (\<lambda>s.
       case cov_detections s ob of
         Some d \<Rightarrow> retS d
       | None \<Rightarrow>
           bindS (liftS (need (ExecutionError ''services'' ''covSubscriptionFailed'') (criteria_of s ob))) (\<lambda>c.
           bindS (modS (\<lambda>s. s\<lparr>detections := (detections s)(new_detection s :=
               \<lparr>detected_object = ob, detection_criteria = c, parameter_value = v, execute_scheduled = False,
                previously_reported = None, cov_subscriptions = []\<rparr>),
             cov_detections := (cov_detections s)(ob \<mapsto> new_detection s), new_detection := new_detection s + 1\<rparr>)) (\<lambda>_.
             retS (new_detection s))))"

text \<open>
  The timer is started by the constructor, before the subscription is in the list. The list is that
  of the detection for the object's present identifier.
\<close>

definition new_cov_subscription ::
    "address \<Rightarrow> int \<Rightarrow> object_id \<Rightarrow> bool option \<Rightarrow> int option \<Rightarrow> ('v cov_state, nat) action" where
  "new_cov_subscription client proc ob confirm lifetime =
     withS (\<lambda>s.
       let k = new_subscription s in
       bindS (seqS
         [modS (\<lambda>s. s\<lparr>subscriptions := (subscriptions s)(k := \<lparr>client_addr = client, process_id = proc,
             monitored_object = ob, is_confirmed = confirm, expires = None\<rparr>), new_subscription := k + 1\<rparr>),
          start_expiry k lifetime,
          withS (\<lambda>s. bindS (liftS (need KeyError (cov_detections s (identifier_now s ob)))) (\<lambda>d.
            modS (update_detection d (\<lambda>x. x\<lparr>cov_subscriptions := cov_subscriptions x @ [k]\<rparr>))))]) (\<lambda>_.
       retS k))"

text \<open>The request; it is acknowledged unless it raises an exception, which becomes the response.\<close>

definition do_subscribe_cov ::
    "address \<Rightarrow> int \<Rightarrow> object_id \<Rightarrow> bool option \<Rightarrow> int option \<Rightarrow> ('v cov_state, unit) action" where
  "do_subscribe_cov client proc ob confirm lifetime =
     withS (\<lambda>s.
       let cancel = (confirm = None \<and> lifetime = None) in
       case present_values s ob of
         None \<Rightarrow> if cancel then retS () else raiseS (ExecutionError ''object'' ''unknownObject'')
       | Some v \<Rightarrow>
           bindS (find_detection ob v) (\<lambda>d.
           withS (\<lambda>s.
             case List.find (\<lambda>k. client_addr (subscriptions s k) = client \<and> process_id (subscriptions s k) = proc \<and>
                 monitored_object (subscriptions s k) = ob) (cov_subscriptions (detections s d)) of
               Some k \<Rightarrow>
                 if cancel then cancel_subscription k
                 else seqS [renew_subscription k lifetime, modS (\<lambda>s. s\<lparr>cov_callbacks := cov_callbacks s @ [CovSend d k]\<rparr>)]
             | None \<Rightarrow>
                 if cancel then retS ()
                 else bindS (new_cov_subscription client proc ob confirm lifetime) (\<lambda>k.
                   modS (\<lambda>s. s\<lparr>cov_callbacks := cov_callbacks s @ [CovSend d k]\<rparr>)))))"

section \<open>Runs\<close>

datatype 'v cov_event =
    SetValue object_id 'v
  | SetIncrement object_id 'v
  | Subscribe address int object_id "bool option" "int option"
  | RunCovCallback
  | Expire nat
  | Second

definition cov_event_state :: "'v arithmetic \<Rightarrow> 'v cov_event \<Rightarrow> 'v cov_state \<Rightarrow> 'v cov_state" where
  "cov_event_state ops x s =
     (case x of
        SetValue ob v \<Rightarrow> set_present_value ops ob v s
      | SetIncrement ob inc \<Rightarrow> set_increment ob inc s
      | Subscribe client proc ob confirm lifetime \<Rightarrow> snd (do_subscribe_cov client proc ob confirm lifetime s)
      | RunCovCallback \<Rightarrow> run_cov_callback s
      | Expire k \<Rightarrow>
          (case expires (subscriptions s k) of
             None \<Rightarrow> s
           | Some t \<Rightarrow> if t \<le> loop_time s then snd (cancel_subscription k s) else s)
      | Second \<Rightarrow> s\<lparr>loop_time := loop_time s + 1\<rparr>)"

definition init_cov :: "(object_id \<rightharpoonup> 'v) \<Rightarrow> (object_id \<Rightarrow> 'v) \<Rightarrow> (object_id \<rightharpoonup> criteria) \<Rightarrow> subscription \<Rightarrow> 'v detection \<Rightarrow> 'v cov_state" where
  "init_cov vals incs criteria sub det =
     \<lparr>identifier_now = (\<lambda>ob. ob), present_values = vals, cov_increments = incs, criteria_of = criteria, subscriptions = (\<lambda>_. sub\<lparr>expires := None\<rparr>),
      new_subscription = 0, detections = (\<lambda>_. det\<lparr>cov_subscriptions := [], execute_scheduled := False\<rparr>), new_detection = 0,
      cov_detections = Map.empty, cov_callbacks = [], loop_time = 0, cov_sent = []\<rparr>"

inductive cov_reachable :: "'v arithmetic \<Rightarrow> 'v cov_state \<Rightarrow> bool" for ops where
  init: "cov_reachable ops (init_cov vals incs criteria sub det)"
| step: "cov_reachable ops s \<Longrightarrow> cov_reachable ops (cov_event_state ops x s)"

section \<open>Invariant\<close>

definition subscription_key :: "subscription \<Rightarrow> address \<times> int \<times> object_id" where
  "subscription_key x = (client_addr x, process_id x, monitored_object x)"

definition notification_key :: "'v notification \<Rightarrow> address \<times> int \<times> object_id" where
  "notification_key n = (to_client n, to_process n, about_object n)"

text \<open>The value that was sent last to the client of a subscription.\<close>

definition last_reported :: "'v cov_state \<Rightarrow> nat \<Rightarrow> 'v option" where
  "last_reported s k =
     (let ns = filter (\<lambda>n. notification_key n = subscription_key (subscriptions s k)) (cov_sent s) in
      if ns = [] then None else Some (reported (last ns)))"

text \<open>The detection that is registered for the object of a subscription.\<close>

definition detection_for :: "'v cov_state \<Rightarrow> nat \<Rightarrow> nat option" where
  "detection_for s k = cov_detections s (monitored_object (subscriptions s k))"

definition active :: "'v cov_state \<Rightarrow> nat \<Rightarrow> nat set" where
  "active s d = set (cov_subscriptions (detections s d))"

definition cov_ok :: "'v cov_state \<Rightarrow> bool" where
  "cov_ok s \<longleftrightarrow>
     (\<forall>ob d. cov_detections s ob = Some d \<longrightarrow> detected_object (detections s d) = ob \<and> d < new_detection s \<and>
        present_values s ob = Some (parameter_value (detections s d))) \<and>
     (\<forall>d k. k \<in> active s d \<longrightarrow> detection_for s k = Some d \<and> k < new_subscription s) \<and>
     (\<forall>d. distinct (map (\<lambda>k. subscription_key (subscriptions s k)) (cov_subscriptions (detections s d)))) \<and>
     (\<forall>k. expires (subscriptions s k) \<noteq> None \<longrightarrow> (\<exists>d. k \<in> active s d)) \<and>
     (\<forall>d. execute_scheduled (detections s d) \<longrightarrow> CovExecute d \<in> set (cov_callbacks s)) \<and>
     (\<forall>d k. CovSend d k \<in> set (cov_callbacks s) \<longrightarrow>
        monitored_object (subscriptions s k) = detected_object (detections s d) \<and> d < new_detection s \<and> k < new_subscription s) \<and>
     identifier_now s = (\<lambda>ob. ob)"

definition informed :: "'v cov_state \<Rightarrow> bool" where
  "informed s \<longleftrightarrow>
     (\<forall>d k. k \<in> active s d \<longrightarrow> detection_criteria (detections s d) = Generic \<longrightarrow>
        CovSend d k \<in> set (cov_callbacks s) \<or> CovExecute d \<in> set (cov_callbacks s) \<or>
        last_reported s k = Some (parameter_value (detections s d)))"

lemma cov_okD:
  assumes "cov_ok s"
  shows "cov_detections s ob = Some d \<Longrightarrow> detected_object (detections s d) = ob"
    "cov_detections s ob = Some d \<Longrightarrow> d < new_detection s"
    "cov_detections s ob = Some d \<Longrightarrow> present_values s ob = Some (parameter_value (detections s d))"
    "k \<in> active s d \<Longrightarrow> detection_for s k = Some d"
    "k \<in> active s d \<Longrightarrow> k < new_subscription s"
    "distinct (map (\<lambda>k. subscription_key (subscriptions s k)) (cov_subscriptions (detections s d)))"
    "expires (subscriptions s k) \<noteq> None \<Longrightarrow> \<exists>d. k \<in> active s d"
    "execute_scheduled (detections s d) \<Longrightarrow> CovExecute d \<in> set (cov_callbacks s)"
    "CovSend d k \<in> set (cov_callbacks s) \<Longrightarrow> monitored_object (subscriptions s k) = detected_object (detections s d)"
    "CovSend d k \<in> set (cov_callbacks s) \<Longrightarrow> d < new_detection s \<and> k < new_subscription s"
    "identifier_now s = (\<lambda>ob. ob)"
  using assms unfolding cov_ok_def by blast+

lemma cov_okI:
  assumes "\<And>ob d. cov_detections s ob = Some d \<Longrightarrow> detected_object (detections s d) = ob \<and> d < new_detection s \<and>
      present_values s ob = Some (parameter_value (detections s d))"
    "\<And>d k. k \<in> active s d \<Longrightarrow> detection_for s k = Some d \<and> k < new_subscription s"
    "\<And>d. distinct (map (\<lambda>k. subscription_key (subscriptions s k)) (cov_subscriptions (detections s d)))"
    "\<And>k. expires (subscriptions s k) \<noteq> None \<Longrightarrow> \<exists>d. k \<in> active s d"
    "\<And>d. execute_scheduled (detections s d) \<Longrightarrow> CovExecute d \<in> set (cov_callbacks s)"
    "\<And>d k. CovSend d k \<in> set (cov_callbacks s) \<Longrightarrow>
      monitored_object (subscriptions s k) = detected_object (detections s d) \<and> d < new_detection s \<and> k < new_subscription s"
    "identifier_now s = (\<lambda>ob. ob)"
  shows "cov_ok s"
  unfolding cov_ok_def using assms by blast

lemma informedD:
  "informed s \<Longrightarrow> k \<in> active s d \<Longrightarrow> detection_criteria (detections s d) = Generic \<Longrightarrow>
    CovSend d k \<in> set (cov_callbacks s) \<or> CovExecute d \<in> set (cov_callbacks s) \<or>
    last_reported s k = Some (parameter_value (detections s d))"
  by (simp add: informed_def)

lemma informedI:
  assumes "\<And>d k. k \<in> active s d \<Longrightarrow> detection_criteria (detections s d) = Generic \<Longrightarrow>
    CovSend d k \<notin> set (cov_callbacks s) \<Longrightarrow> CovExecute d \<notin> set (cov_callbacks s) \<Longrightarrow>
    last_reported s k = Some (parameter_value (detections s d))"
  shows "informed s"
  unfolding informed_def using assms by blast

lemma active_registered: "cov_ok s \<Longrightarrow> k \<in> active s d \<Longrightarrow> cov_detections s (detected_object (detections s d)) = Some d"
  using cov_okD(1,4) [of s] by (fastforce simp: detection_for_def)

lemma active_object:
  assumes "cov_ok s" "k \<in> active s d"
  shows "monitored_object (subscriptions s k) = detected_object (detections s d)"
  using cov_okD(4) [OF assms] cov_okD(1) [OF assms(1), of "monitored_object (subscriptions s k)" d]
  by (simp add: detection_for_def)

lemma update_detection_simps [simp]:
  "present_values (update_detection d f s) = present_values s" "cov_increments (update_detection d f s) = cov_increments s"
  "criteria_of (update_detection d f s) = criteria_of s" "subscriptions (update_detection d f s) = subscriptions s"
  "new_subscription (update_detection d f s) = new_subscription s" "new_detection (update_detection d f s) = new_detection s"
  "cov_detections (update_detection d f s) = cov_detections s" "cov_callbacks (update_detection d f s) = cov_callbacks s"
  "loop_time (update_detection d f s) = loop_time s" "cov_sent (update_detection d f s) = cov_sent s"
  "detections (update_detection d f s) = (detections s)(d := f (detections s d))"
  "identifier_now (update_detection d f s) = identifier_now s"
  by (simp_all add: update_detection_def)

lemma update_subscription_simps [simp]:
  "present_values (update_subscription k f s) = present_values s" "cov_increments (update_subscription k f s) = cov_increments s"
  "criteria_of (update_subscription k f s) = criteria_of s" "detections (update_subscription k f s) = detections s"
  "new_subscription (update_subscription k f s) = new_subscription s" "new_detection (update_subscription k f s) = new_detection s"
  "cov_detections (update_subscription k f s) = cov_detections s" "cov_callbacks (update_subscription k f s) = cov_callbacks s"
  "loop_time (update_subscription k f s) = loop_time s" "cov_sent (update_subscription k f s) = cov_sent s"
  "subscriptions (update_subscription k f s) = (subscriptions s)(k := f (subscriptions s k))"
  "identifier_now (update_subscription k f s) = identifier_now s"
  by (simp_all add: update_subscription_def)

lemmas cov_frame = active_def detection_for_def last_reported_def subscription_key_def

subsection \<open>Values\<close>

lemma schedule_execute_ok:
  "cov_ok s \<Longrightarrow> cov_ok (schedule_execute d s)"
  unfolding cov_ok_def schedule_execute_def by (auto simp: cov_frame)

lemma schedule_execute_informed: "informed s \<Longrightarrow> informed (schedule_execute d s)"
  unfolding informed_def schedule_execute_def by (auto simp: cov_frame)

text \<open>A new value of an object reaches the detection registered for it.\<close>

definition tracking :: "object_id \<Rightarrow> nat \<Rightarrow> 'v \<Rightarrow> 'v cov_state \<Rightarrow> 'v cov_state" where
  "tracking ob d v s =
     update_detection d (\<lambda>x. x\<lparr>parameter_value := v\<rparr>) (s\<lparr>present_values := (present_values s)(ob \<mapsto> v)\<rparr>)"

lemma tracked_simps [simp]:
  "present_values (tracking ob d v s) = (present_values s)(ob \<mapsto> v)" "cov_increments (tracking ob d v s) = cov_increments s"
  "subscriptions (tracking ob d v s) = subscriptions s" "new_subscription (tracking ob d v s) = new_subscription s"
  "new_detection (tracking ob d v s) = new_detection s" "cov_detections (tracking ob d v s) = cov_detections s"
  "cov_callbacks (tracking ob d v s) = cov_callbacks s" "cov_sent (tracking ob d v s) = cov_sent s"
  "detected_object (detections (tracking ob d v s) e) = detected_object (detections s e)"
  "detection_criteria (detections (tracking ob d v s) e) = detection_criteria (detections s e)"
  "execute_scheduled (detections (tracking ob d v s) e) = execute_scheduled (detections s e)"
  "cov_subscriptions (detections (tracking ob d v s) e) = cov_subscriptions (detections s e)"
  "parameter_value (detections (tracking ob d v s) e) = (if e = d then v else parameter_value (detections s e))"
  "identifier_now (tracking ob d v s) = identifier_now s"
  by (simp_all add: tracking_def)

lemma tracked_frame [simp]:
  "active (tracking ob d v s) = active s" "detection_for (tracking ob d v s) = detection_for s"
  "last_reported (tracking ob d v s) = last_reported s"
  by (simp_all add: cov_frame fun_eq_iff)

lemma tracked_ok:
  assumes ok: "cov_ok s" and d: "cov_detections s ob = Some d"
  shows "cov_ok (tracking ob d v s)"
proof (rule cov_okI, goal_cases)
  case (1 ob' d')
  have "d' = d \<longleftrightarrow> ob' = ob" using 1 d cov_okD(1) [OF ok] by (metis option.inject tracked_simps(6))
  then show ?case using 1 cov_okD(1-3) [OF ok, of ob' d'] by simp
qed (use cov_okD(4-) [OF ok] in simp_all)

lemma reported_ok: "cov_ok s \<Longrightarrow> cov_ok (update_detection d (\<lambda>x. x\<lparr>previously_reported := p\<rparr>) s)"
  unfolding cov_ok_def by (auto simp: cov_frame)

lemma reported_informed: "informed s \<Longrightarrow> informed (update_detection d (\<lambda>x. x\<lparr>previously_reported := p\<rparr>) s)"
  unfolding informed_def by (auto simp: cov_frame)

lemma cov_untracked_ok:
  "cov_ok s \<Longrightarrow> cov_detections s ob = None \<Longrightarrow> cov_ok (s\<lparr>present_values := (present_values s)(ob \<mapsto> v)\<rparr>)"
  unfolding cov_ok_def by (auto simp: cov_frame)

lemma set_present_value_cases:
  obtains "set_present_value ops ob v s = s"
  | "cov_detections s ob = None" "set_present_value ops ob v s = s\<lparr>present_values := (present_values s)(ob \<mapsto> v)\<rparr>"
  | d old where "cov_detections s ob = Some d" "old \<noteq> v"
    "set_present_value ops ob v s =
      present_value_change ops d old v (s\<lparr>present_values := (present_values s)(ob \<mapsto> v)\<rparr>)"
proof (cases "present_values s ob")
  case None
  then show ?thesis using that(1) by (simp add: set_present_value_def)
next
  case (Some old)
  show ?thesis
  proof (cases "old = v")
    case True
    then show ?thesis using that(1) Some by (simp add: set_present_value_def)
  next
    case False
    then show ?thesis using that(2,3) Some by (cases "cov_detections s ob") (simp_all add: set_present_value_def)
  qed
qed

lemma present_value_change_eq:
  assumes "old \<noteq> v"
  shows "present_value_change ops d old v (s\<lparr>present_values := (present_values s)(ob \<mapsto> v)\<rparr>) =
    (let t = tracking ob d v s; det = detections s d in
     if execute_scheduled det then t
     else if detection_criteria det = Generic then schedule_execute d t
     else
       let p = (case previously_reported det of None \<Rightarrow> old | Some p \<Rightarrow> p);
           u = update_detection d (\<lambda>x. x\<lparr>previously_reported := Some p\<rparr>) t in
       if significant ops (cov_increments s (detected_object det)) p v then schedule_execute d u else u)"
  using assms by (cases "detection_criteria (detections s d)") (simp_all add: present_value_change_def tracking_def Let_def)

lemma tracked_informed:
  assumes "informed s" "cov_ok s" "execute_scheduled (detections s d) \<or> detection_criteria (detections s d) \<noteq> Generic"
  shows "informed (tracking ob d v s)"
proof (rule informedI)
  fix e k
  assume a: "k \<in> active (tracking ob d v s) e" "detection_criteria (detections (tracking ob d v s) e) = Generic"
    "CovSend e k \<notin> set (cov_callbacks (tracking ob d v s))" "CovExecute e \<notin> set (cov_callbacks (tracking ob d v s))"
  then have "e \<noteq> d" using assms(3) cov_okD(8) [OF assms(2), of d] by auto
  then show "last_reported (tracking ob d v s) k = Some (parameter_value (detections (tracking ob d v s) e))"
    using a informedD [OF assms(1), of k e] by simp
qed

lemma schedule_execute_simps [simp]:
  "subscriptions (schedule_execute d s) = subscriptions s" "cov_callbacks (schedule_execute d s) = cov_callbacks s @ [CovExecute d]"
  "active (schedule_execute d s) = active s" "last_reported (schedule_execute d s) = last_reported s"
  "detection_criteria (detections (schedule_execute d s) e) = detection_criteria (detections s e)"
  "parameter_value (detections (schedule_execute d s) e) = parameter_value (detections s e)"
  by (simp_all add: schedule_execute_def cov_frame fun_eq_iff)

lemma schedule_tracked_informed: "informed s \<Longrightarrow> informed (schedule_execute d (tracking ob d v s))"
  by (rule informedI) (auto dest: informedD)

lemma set_present_value_ok:
  assumes "cov_ok s" "informed s"
  shows "cov_ok (set_present_value ops ob v s) \<and> informed (set_present_value ops ob v s)"
proof (cases rule: set_present_value_cases [of ops ob v s])
  case 2
  have "informed (s\<lparr>present_values := (present_values s)(ob \<mapsto> v)\<rparr>)"
    using assms(2) unfolding informed_def by (auto simp: cov_frame)
  then show ?thesis using cov_untracked_ok [OF assms(1) 2(1)] 2(2) by simp
next
  case (3 d old)
  note ok = tracked_ok [OF assms(1) 3(1), of v]
  consider "execute_scheduled (detections s d)" | "\<not> execute_scheduled (detections s d)" "detection_criteria (detections s d) = Generic"
    | "\<not> execute_scheduled (detections s d)" "detection_criteria (detections s d) \<noteq> Generic" by blast
  then show ?thesis
  proof cases
    case 1
    then show ?thesis unfolding 3(3) present_value_change_eq [OF 3(2)]
      using ok tracked_informed [OF assms(2,1)] by (simp add: Let_def)
  next
    case 2
    then show ?thesis unfolding 3(3) present_value_change_eq [OF 3(2)]
      using ok schedule_tracked_informed [OF assms(2)] by (simp add: Let_def schedule_execute_ok)
  next
    case c: 3
    then show ?thesis unfolding 3(3) present_value_change_eq [OF 3(2)]
      using ok tracked_informed [OF assms(2,1)]
      by (simp add: Let_def schedule_execute_ok schedule_execute_informed reported_ok reported_informed)
  qed
qed (use assms in simp)

lemma set_increment_ok:
  assumes "cov_ok s" "informed s"
  shows "cov_ok (set_increment ob inc s) \<and> informed (set_increment ob inc s)"
proof -
  let ?s = "s\<lparr>cov_increments := (cov_increments s)(ob := inc)\<rparr>"
  have "cov_ok ?s" "informed ?s" using assms unfolding cov_ok_def informed_def by (auto simp: cov_frame)
  then show ?thesis using assms schedule_execute_ok [of ?s] schedule_execute_informed [of ?s]
    by (auto simp: set_increment_def Let_def split: option.splits)
qed

subsection \<open>Sending\<close>

lemma last_reported_append:
  assumes "cov_sent t = cov_sent s @ map (cov_notification u v) ks" "subscriptions t = subscriptions s" "subscriptions u = subscriptions s"
  shows "last_reported t k =
    (if \<exists>j\<in>set ks. subscription_key (subscriptions s j) = subscription_key (subscriptions s k) then Some v else last_reported s k)"
proof -
  let ?P = "\<lambda>n. notification_key n = subscription_key (subscriptions s k)"
  have key: "notification_key (cov_notification u v j) = subscription_key (subscriptions s j)" for j
    by (simp add: notification_key_def cov_notification_def subscription_key_def Let_def assms(3))
  let ?ns = "filter ?P (map (cov_notification u v) ks)"
  have new: "?ns = map (cov_notification u v) (filter (\<lambda>j. subscription_key (subscriptions s j) = subscription_key (subscriptions s k)) ks)"
    by (simp add: filter_map comp_def key)
  have all: "filter ?P (cov_sent t) = filter ?P (cov_sent s) @ ?ns" by (simp add: assms(1))
  show ?thesis
  proof (cases "?ns = []")
    case True
    then have "\<not> (\<exists>j\<in>set ks. subscription_key (subscriptions s j) = subscription_key (subscriptions s k))"
      by (auto simp: new filter_empty_conv)
    then show ?thesis using all True by (simp add: last_reported_def assms(2) Let_def)
  next
    case False
    then have "last ?ns \<in> set ?ns" by (rule last_in_set)
    then have "reported (last ?ns) = v" by (auto simp: cov_notification_def Let_def)
    moreover have "\<exists>j\<in>set ks. subscription_key (subscriptions s j) = subscription_key (subscriptions s k)"
      using False by (auto simp: new filter_empty_conv)
    ultimately show ?thesis using all False by (simp add: last_reported_def assms(2) Let_def)
  qed
qed

lemma keep_reported_simps [simp]:
  "subscriptions (keep_reported d s) = subscriptions s" "cov_callbacks (keep_reported d s) = cov_callbacks s"
  "cov_detections (keep_reported d s) = cov_detections s" "present_values (keep_reported d s) = present_values s"
  "new_subscription (keep_reported d s) = new_subscription s" "new_detection (keep_reported d s) = new_detection s"
  "cov_sent (keep_reported d s) = cov_sent s"
  "detected_object (detections (keep_reported d s) e) = detected_object (detections s e)"
  "detection_criteria (detections (keep_reported d s) e) = detection_criteria (detections s e)"
  "execute_scheduled (detections (keep_reported d s) e) = execute_scheduled (detections s e)"
  "cov_subscriptions (detections (keep_reported d s) e) = cov_subscriptions (detections s e)"
  "parameter_value (detections (keep_reported d s) e) = parameter_value (detections s e)"
  "identifier_now (keep_reported d s) = identifier_now s"
  by (simp_all add: keep_reported_def)

lemma send_simps [simp]:
  "subscriptions (send_cov_notifications d only s) = subscriptions s" "cov_callbacks (send_cov_notifications d only s) = cov_callbacks s"
  "cov_detections (send_cov_notifications d only s) = cov_detections s" "present_values (send_cov_notifications d only s) = present_values s"
  "new_subscription (send_cov_notifications d only s) = new_subscription s" "new_detection (send_cov_notifications d only s) = new_detection s"
  "detected_object (detections (send_cov_notifications d only s) e) = detected_object (detections s e)"
  "detection_criteria (detections (send_cov_notifications d only s) e) = detection_criteria (detections s e)"
  "execute_scheduled (detections (send_cov_notifications d only s) e) = execute_scheduled (detections s e)"
  "cov_subscriptions (detections (send_cov_notifications d only s) e) = cov_subscriptions (detections s e)"
  "parameter_value (detections (send_cov_notifications d only s) e) = parameter_value (detections s e)"
  "identifier_now (send_cov_notifications d only s) = identifier_now s"
  by (simp_all add: send_cov_notifications_def Let_def)

lemma send_frame [simp]:
  "active (send_cov_notifications d only s) = active s" "detection_for (send_cov_notifications d only s) = detection_for s"
  by (simp_all add: active_def detection_for_def fun_eq_iff)

lemma send_reported:
  "last_reported (send_cov_notifications d only s) k =
    (if cov_subscriptions (detections s d) \<noteq> [] \<and>
        (\<exists>j\<in>set (case only of None \<Rightarrow> cov_subscriptions (detections s d) | Some j \<Rightarrow> [j]).
           subscription_key (subscriptions s j) = subscription_key (subscriptions s k))
     then Some (parameter_value (detections s d)) else last_reported s k)"
proof (cases "cov_subscriptions (detections s d) = []")
  case True
  then show ?thesis by (simp add: send_cov_notifications_def last_reported_def Let_def)
next
  case False
  let ?t = "send_cov_notifications d only s"
  have "cov_sent ?t = cov_sent s @ map (cov_notification (keep_reported d s) (parameter_value (detections s d)))
      (case only of None \<Rightarrow> cov_subscriptions (detections s d) | Some j \<Rightarrow> [j])"
    using False by (cases only) (simp_all add: send_cov_notifications_def Let_def)
  from last_reported_append [OF this, of k] False show ?thesis by simp
qed

lemma send_ok: "cov_ok s \<Longrightarrow> cov_ok (send_cov_notifications d only s)"
  by (simp add: cov_ok_def)

text \<open>A callback that has been taken from the queue; those of \<open>d\<close> are not counted any more.\<close>

lemma send_informed:
  assumes ok: "cov_ok s" and sub: "\<And>j. only = Some j \<Longrightarrow> monitored_object (subscriptions s j) = detected_object (detections s d)"
    and before: "\<And>e k. k \<in> active s e \<Longrightarrow> detection_criteria (detections s e) = Generic \<Longrightarrow>
      CovSend e k \<notin> set (cov_callbacks s) \<Longrightarrow> CovExecute e \<notin> set (cov_callbacks s) \<Longrightarrow>
      last_reported s k = Some (parameter_value (detections s e)) \<or> e = d \<and> (only = None \<or> only = Some k)"
  shows "informed (send_cov_notifications d only s)"
proof (rule informedI)
  fix e k
  let ?t = "send_cov_notifications d only s"
  let ?js = "case only of None \<Rightarrow> cov_subscriptions (detections s d) | Some j \<Rightarrow> [j]"
  assume "k \<in> active ?t e" "detection_criteria (detections ?t e) = Generic"
    "CovSend e k \<notin> set (cov_callbacks ?t)" "CovExecute e \<notin> set (cov_callbacks ?t)"
  then have e: "k \<in> active s e" and last: "last_reported s k = Some (parameter_value (detections s e)) \<or> e = d \<and> (only = None \<or> only = Some k)"
    using before by simp_all
  have obj: "monitored_object (subscriptions s k) = detected_object (detections s e)"
    by (rule active_object [OF ok e])
  show "last_reported ?t k = Some (parameter_value (detections ?t e))"
  proof (cases "cov_subscriptions (detections s d) \<noteq> [] \<and> (\<exists>j\<in>set ?js. subscription_key (subscriptions s j) = subscription_key (subscriptions s k))")
    case True
    then obtain j where j: "j \<in> set ?js" "subscription_key (subscriptions s j) = subscription_key (subscriptions s k)" by blast
    have "hd (cov_subscriptions (detections s d)) \<in> active s d" using True by (simp add: active_def)
    note i = active_registered [OF ok this]
    have "monitored_object (subscriptions s j) = detected_object (detections s d)"
    proof (cases only)
      case None
      then have "j \<in> active s d" using j(1) by (simp add: active_def)
      then show ?thesis by (rule active_object [OF ok])
    qed (use j(1) sub in simp)
    then have same: "detected_object (detections s e) = detected_object (detections s d)"
      using j(2) obj by (simp add: subscription_key_def)
    have "cov_detections s (detected_object (detections s d)) = Some e"
      using active_registered [OF ok e] unfolding same .
    then have "e = d" using i by simp
    then show ?thesis using True by (simp add: send_reported)
  next
    case False
    have "e \<noteq> d \<or> only \<noteq> None \<and> only \<noteq> Some k"
      using False e by (auto simp: active_def split: option.splits)
    then show ?thesis using False last by (auto simp: send_reported)
  qed
qed

lemma run_cov_callback_ok:
  assumes ok: "cov_ok s" and inf: "informed s"
  shows "cov_ok (run_cov_callback s) \<and> informed (run_cov_callback s)"
proof (cases "cov_callbacks s")
  case Nil
  then show ?thesis using assms by (simp add: run_cov_callback_def)
next
  case (Cons c cs)
  show ?thesis
  proof (cases c)
    case (CovExecute d)
    let ?u = "update_detection d (\<lambda>x. x\<lparr>execute_scheduled := False\<rparr>) (s\<lparr>cov_callbacks := cs\<rparr>)"
    have frame: "active ?u = active s" "detection_for ?u = detection_for s" "last_reported ?u = last_reported s"
      "\<And>e. detected_object (detections ?u e) = detected_object (detections s e)"
      "\<And>e. detection_criteria (detections ?u e) = detection_criteria (detections s e)"
      "\<And>e. cov_subscriptions (detections ?u e) = cov_subscriptions (detections s e)"
      "\<And>e. parameter_value (detections ?u e) = parameter_value (detections s e)"
      "\<And>e. execute_scheduled (detections ?u e) \<longleftrightarrow> e \<noteq> d \<and> execute_scheduled (detections s e)"
      by (simp_all add: cov_frame fun_eq_iff)
    have "cov_ok ?u"
    proof (rule cov_okI, goal_cases)
      case (5 e)
      then have "e \<noteq> d" "CovExecute e \<in> set (cov_callbacks s)" using cov_okD(8) [OF ok] unfolding frame by simp_all
      then show ?case using Cons CovExecute by simp
    next
      case (6 e k)
      then show ?case using cov_okD(9,10) [OF ok, of e k] Cons by simp
    qed (use cov_okD(1-7,11) [OF ok] in \<open>simp_all add: frame del: update_detection_simps(11)\<close>)
    moreover have "informed (send_cov_notifications d None ?u)"
    proof (rule send_informed [OF calculation])
      fix e k
      assume "k \<in> active ?u e" "detection_criteria (detections ?u e) = Generic"
        "CovSend e k \<notin> set (cov_callbacks ?u)" "CovExecute e \<notin> set (cov_callbacks ?u)"
      then show "last_reported ?u k = Some (parameter_value (detections ?u e)) \<or> e = d \<and> (None = None \<or> None = Some k)"
        using informedD [OF inf, of k e] Cons CovExecute unfolding frame by auto
    qed simp
    ultimately show ?thesis using Cons CovExecute send_ok by (simp add: run_cov_callback_def)
  next
    case (CovSend d j)
    let ?u = "s\<lparr>cov_callbacks := cs\<rparr>"
    have frame: "active ?u = active s" "detection_for ?u = detection_for s" "last_reported ?u = last_reported s"
      by (simp_all add: cov_frame fun_eq_iff)
    have "cov_ok ?u"
    proof (rule cov_okI, goal_cases)
      case (5 e)
      then show ?case using cov_okD(8) [OF ok, of e] Cons CovSend by simp
    next
      case (6 e k)
      then show ?case using cov_okD(9,10) [OF ok, of e k] Cons by simp
    qed (use cov_okD(1-7,11) [OF ok] in \<open>simp_all add: frame\<close>)
    moreover have "informed (send_cov_notifications d (Some j) ?u)"
    proof (rule send_informed [OF calculation])
      fix i assume "Some j = Some i"
      then show "monitored_object (subscriptions ?u i) = detected_object (detections ?u d)"
        using cov_okD(9) [OF ok, of d j] Cons CovSend by simp
    next
      fix e k
      assume "k \<in> active ?u e" "detection_criteria (detections ?u e) = Generic"
        "CovSend e k \<notin> set (cov_callbacks ?u)" "CovExecute e \<notin> set (cov_callbacks ?u)"
      then show "last_reported ?u k = Some (parameter_value (detections ?u e)) \<or> e = d \<and> (Some j = None \<or> Some j = Some k)"
        using informedD [OF inf, of k e] Cons CovSend unfolding frame by auto
    qed
    ultimately show ?thesis using Cons CovSend send_ok by (simp add: run_cov_callback_def)
  qed
qed

subsection \<open>Subscribing\<close>

lemma cov_cancel_run:
  assumes ok: "cov_ok s" and k: "k \<in> active s d"
  shows "cancel_subscription k s =
    (let t = update_detection d (\<lambda>x. x\<lparr>cov_subscriptions := remove1 k (cov_subscriptions x)\<rparr>)
       (update_subscription k (\<lambda>x. x\<lparr>expires := None\<rparr>) s) in
     (Inr (), if remove1 k (cov_subscriptions (detections s d)) = []
      then t\<lparr>cov_detections := (cov_detections s)(monitored_object (subscriptions s k) := None)\<rparr> else t))"
  using cov_okD(4) [OF ok k] cov_okD(11) [OF ok] k
  by (simp add: cancel_subscription_def detection_for_def active_def act_simps bindS_def Let_def)

lemma cancel_ok:
  assumes ok: "cov_ok s" and inf: "informed s" and k: "k \<in> active s d"
  shows "\<exists>t. cancel_subscription k s = (Inr (), t) \<and> cov_ok t \<and> informed t \<and> k \<notin> active t d \<and> expires (subscriptions t k) = None"
proof -
  let ?u = "update_detection d (\<lambda>x. x\<lparr>cov_subscriptions := remove1 k (cov_subscriptions x)\<rparr>)
    (update_subscription k (\<lambda>x. x\<lparr>expires := None\<rparr>) s)"
  define t where "t = (if remove1 k (cov_subscriptions (detections s d)) = []
    then ?u\<lparr>cov_detections := (cov_detections s)(monitored_object (subscriptions s k) := None)\<rparr> else ?u)"
  have run: "cancel_subscription k s = (Inr (), t)" using cov_cancel_run [OF ok k] by (simp add: t_def Let_def)
  have dist: "distinct (cov_subscriptions (detections s d))" using cov_okD(6) [OF ok] by (simp add: distinct_map)
  have obj: "cov_detections s (monitored_object (subscriptions s k)) = Some d"
    using cov_okD(4) [OF ok k] by (simp add: detection_for_def)
  have uniq: "ob = monitored_object (subscriptions s k)" if "cov_detections s ob = Some d" for ob
    using cov_okD(1) [OF ok that] cov_okD(1) [OF ok obj] by simp
  have only: "k \<notin> active s e" if "e \<noteq> d" for e using cov_okD(4) [OF ok, of k e] cov_okD(4) [OF ok k] that by auto
  have frame: "active t e = active s e - {k}" "subscription_key (subscriptions t j) = subscription_key (subscriptions s j)"
    "detected_object (detections t e) = detected_object (detections s e)"
    "detection_criteria (detections t e) = detection_criteria (detections s e)"
    "execute_scheduled (detections t e) = execute_scheduled (detections s e)"
    "parameter_value (detections t e) = parameter_value (detections s e)"
    "cov_subscriptions (detections t e) = (if e = d then remove1 k (cov_subscriptions (detections s e)) else cov_subscriptions (detections s e))"
    "monitored_object (subscriptions t j) = monitored_object (subscriptions s j)"
    "expires (subscriptions t j) = (if j = k then None else expires (subscriptions s j))"
    "cov_callbacks t = cov_callbacks s" "cov_sent t = cov_sent s" "present_values t = present_values s"
    "new_subscription t = new_subscription s" "new_detection t = new_detection s" "identifier_now t = identifier_now s"
    "cov_detections t ob = Some f \<longleftrightarrow> cov_detections s ob = Some f \<and> (f = d \<longrightarrow> remove1 k (cov_subscriptions (detections s d)) \<noteq> [])" for e j ob f
  proof -
    have rest: "set (remove1 k (cov_subscriptions (detections s d))) = active s d - {k}" using dist by (simp add: active_def)
    have subs: "cov_subscriptions (detections t e) =
        (if e = d then remove1 k (cov_subscriptions (detections s d)) else cov_subscriptions (detections s e))" by (simp add: t_def)
    show "active t e = active s e - {k}"
    proof (cases "e = d")
      case True
      then show ?thesis using subs rest unfolding active_def [of t] by simp
    next
      case False
      then have "active t e = active s e" using subs by (simp add: active_def)
      then show ?thesis using only [OF False] by simp
    qed
    show "cov_detections t ob = Some f \<longleftrightarrow> cov_detections s ob = Some f \<and> (f = d \<longrightarrow> remove1 k (cov_subscriptions (detections s d)) \<noteq> [])"
    proof -
      have cd: "cov_detections t = (if remove1 k (cov_subscriptions (detections s d)) = []
          then (cov_detections s)(monitored_object (subscriptions s k) := None) else cov_detections s)"
        by (simp add: t_def)
      show ?thesis unfolding cd
        using obj uniq [of ob] by (cases "ob = monitored_object (subscriptions s k)") auto
    qed
  qed (simp_all add: t_def subscription_key_def)
  have last: "last_reported t j = last_reported s j" for j by (simp add: last_reported_def frame)
  have "cov_ok t"
  proof (rule cov_okI, goal_cases)
    case (1 ob e)
    then have "cov_detections s ob = Some e" by (simp add: frame)
    then show ?case using cov_okD(1-3) [OF ok] by (simp add: frame)
  next
    case (2 e j)
    then have j: "j \<in> active s e" "j \<noteq> k" by (simp_all add: frame)
    have "cov_detections s (monitored_object (subscriptions s j)) = Some e" "j < new_subscription s"
      using cov_okD(4,5) [OF ok j(1)] by (simp_all add: detection_for_def)
    moreover have "remove1 k (cov_subscriptions (detections s d)) \<noteq> []" if "e = d"
      using j that by (auto simp: active_def dest: in_set_remove1 [THEN iffD2, of j k])
    ultimately show ?case by (simp add: frame detection_for_def)
  next
    case (3 e)
    then show ?case using cov_okD(6) [OF ok, of e] unfolding frame
      by (auto simp: distinct_map inj_on_def dest: notin_set_remove1)
  next
    case (4 j)
    then have j: "j \<noteq> k" "expires (subscriptions s j) \<noteq> None" by (auto simp: frame split: if_splits)
    then show ?case using cov_okD(7) [OF ok, of j] by (auto simp: frame)
  qed (use cov_okD(8-11) [OF ok] in \<open>simp_all add: frame\<close>)
  moreover have "informed t"
    by (rule informedI) (use informedD [OF inf] in \<open>auto simp: frame last\<close>)
  ultimately show ?thesis using run frame(1,9) by auto
qed

lemma set_expires_ok:
  assumes ok: "cov_ok s" and inf: "informed s" and k: "k \<in> active s d"
  shows "cov_ok (update_subscription k (\<lambda>x. x\<lparr>expires := z\<rparr>) s) \<and> informed (update_subscription k (\<lambda>x. x\<lparr>expires := z\<rparr>) s)"
proof -
  let ?t = "update_subscription k (\<lambda>x. x\<lparr>expires := z\<rparr>) s"
  have frame: "active ?t = active s" "subscription_key (subscriptions ?t j) = subscription_key (subscriptions s j)"
    "monitored_object (subscriptions ?t j) = monitored_object (subscriptions s j)" for j
    by (simp_all add: active_def fun_eq_iff subscription_key_def)
  have last: "last_reported ?t j = last_reported s j" and for_obj: "detection_for ?t j = detection_for s j" for j
    unfolding last_reported_def detection_for_def frame by simp_all
  have "cov_ok ?t"
  proof (rule cov_okI, goal_cases)
    case (4 j)
    then show ?case using cov_okD(7) [OF ok, of j] k unfolding frame by (cases "j = k") auto
  qed (use cov_okD [OF ok] in \<open>simp_all add: frame for_obj del: update_subscription_simps(11)\<close>)
  moreover have "informed ?t" by (rule informedI) (use informedD [OF inf] in \<open>auto simp: frame last\<close>)
  ultimately show ?thesis by simp
qed

lemma fresh_inactive: "cov_ok s \<Longrightarrow> new_subscription s \<notin> active s d"
  using cov_okD(5) [of s "new_subscription s"] by blast

text \<open>A subscription that is not in a list, and one that is put into the list of a detection.\<close>

definition with_subscription :: "subscription \<Rightarrow> 'v cov_state \<Rightarrow> 'v cov_state" where
  "with_subscription x s =
     s\<lparr>subscriptions := (subscriptions s)(new_subscription s := x), new_subscription := new_subscription s + 1\<rparr>"

definition subscribed :: "nat \<Rightarrow> subscription \<Rightarrow> 'v cov_state \<Rightarrow> 'v cov_state" where
  "subscribed d x s =
     (let k = new_subscription s;
          t = update_detection d (\<lambda>y. y\<lparr>cov_subscriptions := cov_subscriptions y @ [k]\<rparr>) (with_subscription x s) in
      t\<lparr>cov_callbacks := cov_callbacks s @ [CovSend d k]\<rparr>)"

lemma with_subscription_frame:
  "active (with_subscription x s) = active s" "cov_detections (with_subscription x s) = cov_detections s"
  "detections (with_subscription x s) = detections s" "cov_callbacks (with_subscription x s) = cov_callbacks s"
  "present_values (with_subscription x s) = present_values s" "cov_sent (with_subscription x s) = cov_sent s"
  "new_detection (with_subscription x s) = new_detection s" "identifier_now (with_subscription x s) = identifier_now s"
  "new_subscription (with_subscription x s) = new_subscription s + 1"
  "subscriptions (with_subscription x s) k = (if k = new_subscription s then x else subscriptions s k)"
  by (simp_all add: with_subscription_def active_def fun_eq_iff)

lemma with_subscription_ok:
  assumes ok: "cov_ok s" and inf: "informed s" and x: "expires x = None"
  shows "cov_ok (with_subscription x s) \<and> informed (with_subscription x s)"
proof -
  have old: "subscriptions (with_subscription x s) k = subscriptions s k" if "k \<in> active s d" for k d
    using fresh_inactive [OF ok, of d] that by (auto simp: with_subscription_frame)
  have "cov_ok (with_subscription x s)"
  proof (rule cov_okI, goal_cases)
    case (1 ob d)
    then show ?case using cov_okD(1-3) [OF ok] by (simp add: with_subscription_frame)
  next
    case (2 d k)
    then have k: "k \<in> active s d" by (simp add: with_subscription_frame)
    then show ?case using cov_okD(4,5) [OF ok k] old [OF k] by (simp add: with_subscription_frame detection_for_def)
  next
    case (3 d)
    have keys: "map (\<lambda>k. subscription_key (subscriptions (with_subscription x s) k)) (cov_subscriptions (detections s d)) =
        map (\<lambda>k. subscription_key (subscriptions s k)) (cov_subscriptions (detections s d))"
      using old by (simp add: active_def)
    show ?case unfolding with_subscription_frame(3) keys by (rule cov_okD(6) [OF ok])
  next
    case (4 k)
    then show ?case using cov_okD(7) [OF ok, of k] x by (auto simp: with_subscription_frame split: if_splits)
  next
    case (6 d k)
    then show ?case using cov_okD(9,10) [OF ok, of d k] by (simp add: with_subscription_frame)
  qed (use cov_okD(8,11) [OF ok] in \<open>simp_all add: with_subscription_frame\<close>)
  moreover have "informed (with_subscription x s)"
  proof (rule informedI)
    fix d k
    assume a: "k \<in> active (with_subscription x s) d" "detection_criteria (detections (with_subscription x s) d) = Generic"
      "CovSend d k \<notin> set (cov_callbacks (with_subscription x s))" "CovExecute d \<notin> set (cov_callbacks (with_subscription x s))"
    then have k: "k \<in> active s d" by (simp add: with_subscription_frame)
    then have "last_reported (with_subscription x s) k = last_reported s k"
      using old [OF k] by (simp add: last_reported_def with_subscription_frame)
    then show "last_reported (with_subscription x s) k = Some (parameter_value (detections (with_subscription x s) d))"
      using a informedD [OF inf k] by (simp add: with_subscription_frame)
  qed
  ultimately show ?thesis by simp
qed

lemma subscribed_ok:
  assumes ok: "cov_ok s" and inf: "informed s" and d: "cov_detections s (monitored_object x) = Some d"
    and new: "\<And>k. k \<in> active s d \<Longrightarrow> subscription_key (subscriptions s k) \<noteq> subscription_key x"
  shows "cov_ok (subscribed d x s) \<and> informed (subscribed d x s)"
proof -
  let ?k = "new_subscription s" and ?t = "subscribed d x s"
  have fresh: "?k \<notin> active s e" for e by (rule fresh_inactive [OF ok])
  have frame: "cov_detections ?t = cov_detections s" "present_values ?t = present_values s" "cov_sent ?t = cov_sent s"
    "new_detection ?t = new_detection s" "new_subscription ?t = ?k + 1"
    "cov_callbacks ?t = cov_callbacks s @ [CovSend d ?k]"
    "subscriptions ?t k = (if k = ?k then x else subscriptions s k)"
    "detected_object (detections ?t e) = detected_object (detections s e)"
    "detection_criteria (detections ?t e) = detection_criteria (detections s e)"
    "execute_scheduled (detections ?t e) = execute_scheduled (detections s e)"
    "parameter_value (detections ?t e) = parameter_value (detections s e)"
    "cov_subscriptions (detections ?t e) = cov_subscriptions (detections s e) @ (if e = d then [?k] else [])"
    "identifier_now ?t = identifier_now s" for k e
    by (simp_all add: subscribed_def with_subscription_def Let_def)
  have act: "active ?t e = active s e \<union> (if e = d then {?k} else {})" for e by (simp add: active_def frame)
  have old: "subscriptions ?t k = subscriptions s k" if "k \<in> active s e" for k e
    using fresh [of e] that by (auto simp: frame)
  have obj: "detected_object (detections s d) = monitored_object x" "d < new_detection s" using cov_okD(1,2) [OF ok d] by simp_all
  have "cov_ok ?t"
  proof (rule cov_okI, goal_cases)
    case (1 ob e)
    then show ?case using cov_okD(1-3) [OF ok] by (simp add: frame)
  next
    case (2 e k)
    show ?case
    proof (cases "k \<in> active s e")
      case True
      then show ?thesis using cov_okD(4,5) [OF ok True] old [OF True] by (simp add: frame detection_for_def)
    next
      case False
      then have "e = d" "k = ?k" using 2 by (auto simp: act split: if_splits)
      then show ?thesis using d by (simp add: frame detection_for_def)
    qed
  next
    case (3 e)
    have keys: "map (\<lambda>k. subscription_key (subscriptions ?t k)) (cov_subscriptions (detections s e)) =
        map (\<lambda>k. subscription_key (subscriptions s k)) (cov_subscriptions (detections s e))"
      using old by (simp add: active_def)
    have "subscription_key x \<notin> (\<lambda>k. subscription_key (subscriptions s k)) ` set (cov_subscriptions (detections s d))"
      using new unfolding active_def by fastforce
    then show ?case unfolding frame(12) map_append keys using cov_okD(6) [OF ok, of e] by (simp add: frame(7) [of ?k])
  next
    case (4 k)
    then show ?case using cov_okD(7) [OF ok, of k] by (cases "k = ?k") (auto simp: frame act)
  next
    case (5 e)
    then show ?case using cov_okD(8) [OF ok, of e] by (simp add: frame)
  next
    case (6 e k)
    then show ?case using cov_okD(9,10) [OF ok, of e k] obj by (auto simp: frame)
  qed (use cov_okD(11) [OF ok] in \<open>simp add: frame\<close>)
  moreover have "informed ?t"
  proof (rule informedI)
    fix e k
    assume a: "k \<in> active ?t e" "detection_criteria (detections ?t e) = Generic"
      "CovSend e k \<notin> set (cov_callbacks ?t)" "CovExecute e \<notin> set (cov_callbacks ?t)"
    then have k: "k \<in> active s e" by (auto simp: act frame split: if_splits)
    then have "last_reported ?t k = last_reported s k" using old [OF k] by (simp add: last_reported_def frame(3))
    then show "last_reported ?t k = Some (parameter_value (detections ?t e))"
      using a informedD [OF inf k] by (simp add: frame)
  qed
  ultimately show ?thesis by simp
qed

lemma find_detection_ok:
  assumes ok: "cov_ok s" and inf: "informed s" and v: "present_values s ob = Some v"
  obtains "find_detection ob v s = (Inl (ExecutionError ''services'' ''covSubscriptionFailed''), s)"
  | d t where "find_detection ob v s = (Inr d, t)" "cov_ok t" "informed t" "cov_detections t ob = Some d"
    "subscriptions t = subscriptions s" "loop_time t = loop_time s" "new_subscription t = new_subscription s"
proof (cases "cov_detections s ob")
  case (Some d)
  then show ?thesis using that(2) assms by (simp add: find_detection_def act_simps)
next
  case None
  show ?thesis
  proof (cases "criteria_of s ob")
    case None
    then show ?thesis using that(1) \<open>cov_detections s ob = None\<close> by (simp add: find_detection_def act_simps bindS_def)
  next
    case (Some c)
    let ?d = "new_detection s"
    let ?det = "\<lparr>detected_object = ob, detection_criteria = c, parameter_value = v, execute_scheduled = False,
      previously_reported = None, cov_subscriptions = []\<rparr>"
    let ?t = "s\<lparr>detections := (detections s)(?d := ?det), cov_detections := (cov_detections s)(ob \<mapsto> ?d), new_detection := ?d + 1\<rparr>"
    have fresh: "active s ?d = {}"
      using cov_okD(2,4) [OF ok] by (fastforce simp: detection_for_def)
    have unregistered: "e \<noteq> ?d" if "cov_detections s ob' = Some e" for ob' e using cov_okD(2) [OF ok that] by simp
    have act: "active ?t e = active s e" for e using fresh by (simp add: active_def)
    have cov: "cov_ok ?t"
    proof (rule cov_okI, goal_cases)
      case (1 ob' e)
      show ?case
      proof (cases "ob' = ob")
        case False
        then have e: "cov_detections s ob' = Some e" using 1 by simp
        then show ?thesis using cov_okD(1-3) [OF ok e] unregistered [OF e] by simp
      qed (use 1 v in simp)
    next
      case (2 e k)
      then have k: "k \<in> active s e" unfolding act .
      have "monitored_object (subscriptions s k) \<noteq> ob"
        using cov_okD(4) [OF ok k] None \<open>cov_detections s ob = None\<close> by (auto simp: detection_for_def)
      then show ?case using cov_okD(4,5) [OF ok k] by (simp add: detection_for_def)
    next
      case (3 e)
      then show ?case using cov_okD(6) [OF ok, of e] by simp
    next
      case (4 k)
      then show ?case unfolding act using cov_okD(7) [OF ok, of k] by simp
    next
      case (5 e)
      then show ?case using cov_okD(8) [OF ok, of e] by (simp split: if_splits)
    next
      case (6 e k)
      then show ?case using cov_okD(9,10) [OF ok, of e k] by auto
    qed (use cov_okD(11) [OF ok] in simp)
    have "informed ?t"
    proof (rule informedI)
      fix e k
      assume a: "k \<in> active ?t e" "detection_criteria (detections ?t e) = Generic"
        "CovSend e k \<notin> set (cov_callbacks ?t)" "CovExecute e \<notin> set (cov_callbacks ?t)"
      have k: "k \<in> active s e" using a(1) unfolding act .
      have "e \<noteq> ?d" using fresh k by auto
      then show "last_reported ?t k = Some (parameter_value (detections ?t e))"
        using a informedD [OF inf k] by (simp add: last_reported_def)
    qed
    then show ?thesis using that(2) [OF _ cov] Some \<open>cov_detections s ob = None\<close>
      by (simp add: find_detection_def act_simps bindS_def)
  qed
qed

lemma renew_run:
  "renew_subscription k lifetime s =
    (let t = update_subscription k (\<lambda>x. x\<lparr>expires := None\<rparr>) s in
     case lifetime of
       None \<Rightarrow> (Inl TypeError, t)
     | Some l \<Rightarrow>
         (Inr (), update_subscription k (\<lambda>x. x\<lparr>expires := if l > 0 then Some (loop_time s + l) else None\<rparr>) s))"
  by (cases lifetime)
    (simp_all add: renew_subscription_def start_expiry_def act_simps bindS_def Let_def update_subscription_def)

lemma new_run:
  assumes "x = \<lparr>client_addr = client, process_id = proc, monitored_object = ob, is_confirmed = confirm, expires = None\<rparr>"
    "cov_detections s ob = Some d" "identifier_now s = (\<lambda>ob. ob)"
  shows "bindS (new_cov_subscription client proc ob confirm lifetime)
      (\<lambda>k. modS (\<lambda>s. s\<lparr>cov_callbacks := cov_callbacks s @ [CovSend d k]\<rparr>)) s =
    (case lifetime of
       None \<Rightarrow> (Inl TypeError, with_subscription x s)
     | Some l \<Rightarrow> (Inr (), subscribed d (x\<lparr>expires := if l > 0 then Some (loop_time s + l) else None\<rparr>) s))"
  using assms
  by (cases lifetime)
    (simp_all add: new_cov_subscription_def start_expiry_def subscribed_def with_subscription_def act_simps bindS_def Let_def
      update_subscription_def update_detection_def)

lemma send_queued_ok:
  assumes "cov_ok s" "informed s" "k \<in> active s d"
  shows "cov_ok (s\<lparr>cov_callbacks := cov_callbacks s @ [CovSend d k]\<rparr>) \<and>
    informed (s\<lparr>cov_callbacks := cov_callbacks s @ [CovSend d k]\<rparr>)"
proof -
  let ?t = "s\<lparr>cov_callbacks := cov_callbacks s @ [CovSend d k]\<rparr>"
  have frame: "active ?t = active s" "detection_for ?t = detection_for s" "last_reported ?t = last_reported s"
    by (simp_all add: cov_frame fun_eq_iff)
  have "d < new_detection s" using cov_okD(2) [OF assms(1) active_registered [OF assms(1,3)]] .
  then have "cov_ok ?t"
    using assms(1) active_object [OF assms(1,3)] cov_okD(5) [OF assms(1,3)]
    unfolding cov_ok_def frame by auto
  moreover have "informed ?t" by (rule informedI) (use informedD [OF assms(2)] in \<open>auto simp: frame\<close>)
  ultimately show ?thesis by simp
qed

lemma do_subscribe_ok:
  assumes "cov_ok s" "informed s"
  shows "cov_ok (snd (do_subscribe_cov client proc ob confirm lifetime s)) \<and>
    informed (snd (do_subscribe_cov client proc ob confirm lifetime s))"
proof (cases "present_values s ob")
  case None
  then show ?thesis using assms by (simp add: do_subscribe_cov_def act_simps)
next
  case (Some v)
  let ?cancel = "confirm = None \<and> lifetime = None"
  show ?thesis
  proof (cases rule: find_detection_ok [OF assms Some])
    case 1
    then show ?thesis using assms Some by (simp add: do_subscribe_cov_def act_simps bindS_def Let_def)
  next
    case (2 d t)
    let ?P = "\<lambda>k. client_addr (subscriptions t k) = client \<and> process_id (subscriptions t k) = proc \<and>
        monitored_object (subscriptions t k) = ob"
    let ?found = "List.find ?P (cov_subscriptions (detections t d))"
    have run: "do_subscribe_cov client proc ob confirm lifetime s =
      (case ?found of
         Some k \<Rightarrow>
           if ?cancel then cancel_subscription k t
           else seqS [renew_subscription k lifetime, modS (\<lambda>s. s\<lparr>cov_callbacks := cov_callbacks s @ [CovSend d k]\<rparr>)] t
       | None \<Rightarrow>
           if ?cancel then (Inr (), t)
           else bindS (new_cov_subscription client proc ob confirm lifetime)
             (\<lambda>k. modS (\<lambda>s. s\<lparr>cov_callbacks := cov_callbacks s @ [CovSend d k]\<rparr>)) t)"
      using Some 2(1) by (simp add: do_subscribe_cov_def act_simps Let_def split: option.split) auto
    show ?thesis
    proof (cases ?found)
      case None
      let ?x = "\<lparr>client_addr = client, process_id = proc, monitored_object = ob, is_confirmed = confirm, expires = None\<rparr>"
      have new: "subscription_key (subscriptions t k) \<noteq> (client, proc, ob)" if "k \<in> active t d" for k
        using None that by (auto simp: find_None_iff active_def subscription_key_def)
      have "cov_ok (subscribed d (?x\<lparr>expires := z\<rparr>) t) \<and> informed (subscribed d (?x\<lparr>expires := z\<rparr>) t)" for z
        by (rule subscribed_ok [OF 2(2,3)]) (use 2(4) new in \<open>simp_all add: subscription_key_def\<close>)
      moreover have "cov_ok (with_subscription ?x t) \<and> informed (with_subscription ?x t)"
        by (rule with_subscription_ok [OF 2(2,3)]) simp
      ultimately show ?thesis unfolding run None using 2(2,3)
        by (cases lifetime) (simp_all add: new_run [OF refl 2(4) cov_okD(11) [OF 2(2)]] del: subscription.update_convs)
    next
      case found: (Some k)
      then have k: "k \<in> active t d" by (auto simp: find_Some_iff active_def)
      let ?u = "\<lambda>z. update_subscription k (\<lambda>x. x\<lparr>expires := z\<rparr>) t"
      have u: "cov_ok (?u z)" "informed (?u z)" "k \<in> active (?u z) d" for z
        using set_expires_ok [OF 2(2,3) k] k by (simp_all add: active_def)
      show ?thesis
      proof (cases ?cancel)
        case True
        then show ?thesis unfolding run found using cancel_ok [OF 2(2,3) k] by auto
      next
        case False
        then show ?thesis unfolding run found
          using u send_queued_ok [OF u]
          by (cases lifetime; cases confirm) (simp_all add: renew_run act_simps bindS_def Let_def)
      qed
    qed
  qed
qed

lemma cov_event_ok:
  assumes "cov_ok s" "informed s"
  shows "cov_ok (cov_event_state ops x s) \<and> informed (cov_event_state ops x s)"
proof (cases x)
  case (Expire k)
  show ?thesis
  proof (cases "expires (subscriptions s k)")
    case None
    then show ?thesis using Expire assms by (simp add: cov_event_state_def)
  next
    case (Some t)
    then obtain d where "k \<in> active s d" using cov_okD(7) [OF assms(1), of k] by auto
    from cancel_ok [OF assms this] show ?thesis using Expire Some assms by (auto simp: cov_event_state_def)
  qed
next
  case Second
  then show ?thesis using assms by (simp add: cov_event_state_def cov_ok_def informed_def cov_frame)
qed (use assms set_present_value_ok set_increment_ok do_subscribe_ok run_cov_callback_ok in \<open>simp_all add: cov_event_state_def\<close>)

lemma init_cov_ok: "cov_ok (init_cov vals incs criteria sub det) \<and> informed (init_cov vals incs criteria sub det)"
  by (simp add: init_cov_def cov_ok_def informed_def cov_frame)

lemma cov_reachable_ok: "cov_reachable ops s \<Longrightarrow> cov_ok s \<and> informed s"
  by (induction rule: cov_reachable.induct) (use init_cov_ok cov_event_ok in blast)+

section \<open>What subscribers are told\<close>

text \<open>
  Property C10. Whenever the event loop is idle, every subscriber to an object with the generic
  criteria has been sent the present value that the object has now, in every run of writes,
  subscriptions, renewals, cancellations and expirations.
\<close>

theorem subscribers_informed:
  assumes "cov_reachable ops s" "cov_callbacks s = []" "k \<in> active s d" "detection_criteria (detections s d) = Generic"
  shows "last_reported s k = present_values s (monitored_object (subscriptions s k)) \<and>
    present_values s (monitored_object (subscriptions s k)) \<noteq> None"
proof -
  have ok: "cov_ok s" "informed s" using cov_reachable_ok [OF assms(1)] by simp_all
  have "cov_detections s (monitored_object (subscriptions s k)) = Some d"
    using cov_okD(4) [OF ok(1) assms(3)] by (simp add: detection_for_def)
  from cov_okD(3) [OF ok(1) this] informedD [OF ok(2) assms(3,4)] assms(2) show ?thesis by simp
qed

lemma same_key_same_subscription:
  assumes ok: "cov_ok s" and k: "k \<in> active s d" and j: "j \<in> active s e"
    and key: "subscription_key (subscriptions s j) = subscription_key (subscriptions s k)"
  shows "j = k"
proof -
  have "detected_object (detections s e) = detected_object (detections s d)"
    using key active_object [OF ok k] active_object [OF ok j] by (simp add: subscription_key_def)
  then have "Some e = Some d" using active_registered [OF ok k] active_registered [OF ok j] by simp
  then show ?thesis using j k key cov_okD(6) [OF ok, of d] by (auto simp: active_def distinct_map inj_on_def)
qed

text \<open>
  Property C11. No client has two subscriptions for a process and an object, whether they are
  permanent or not. A subscription whose timer runs is in the list of the detection of its object,
  and when its lifetime is over it is taken out without an exception. This holds in every run in
  which the objects keep their identifiers. If the object has been given an identifier under which
  it is not subscribed to, the end of the lifetime raises \<^verbatim>\<open>KeyError\<close> and the subscription stays.
\<close>

theorem subscriptions_expire:
  assumes "cov_reachable ops s"
  shows "(\<forall>d. distinct (cov_subscriptions (detections s d))) \<and>
    (\<forall>d e j k. k \<in> active s d \<and> j \<in> active s e \<and>
       subscription_key (subscriptions s j) = subscription_key (subscriptions s k) \<longrightarrow> j = k) \<and>
    (\<forall>k. expires (subscriptions s k) \<noteq> None \<longrightarrow>
       (\<exists>d u. k \<in> active s d \<and> cancel_subscription k s = (Inr (), u) \<and> k \<notin> active u d \<and>
          expires (subscriptions u k) = None)) \<and>
    (\<forall>k ids. cov_detections s (ids (monitored_object (subscriptions s k))) = None \<longrightarrow>
       cancel_subscription k (s\<lparr>identifier_now := ids\<rparr>) = (Inl KeyError, s\<lparr>identifier_now := ids\<rparr>))"
proof (intro conjI allI impI)
  have ok: "cov_ok s" "informed s" using cov_reachable_ok [OF assms] by simp_all
  fix d e j k ids
  show "distinct (cov_subscriptions (detections s d))" using cov_okD(6) [OF ok(1), of d] by (simp add: distinct_map)
  show "j = k" if "k \<in> active s d \<and> j \<in> active s e \<and>
      subscription_key (subscriptions s j) = subscription_key (subscriptions s k)"
    using same_key_same_subscription [OF ok(1)] that by blast
  show "\<exists>d u. k \<in> active s d \<and> cancel_subscription k s = (Inr (), u) \<and> k \<notin> active u d \<and>
      expires (subscriptions u k) = None" if "expires (subscriptions s k) \<noteq> None"
    using cov_okD(7) [OF ok(1) that] cancel_ok [OF ok] by blast
  show "cancel_subscription k (s\<lparr>identifier_now := ids\<rparr>) = (Inl KeyError, s\<lparr>identifier_now := ids\<rparr>)"
    if "cov_detections s (ids (monitored_object (subscriptions s k))) = None"
    using that by (simp add: cancel_subscription_def act_simps bindS_def Let_def)
qed

lemma find_subscription:
  assumes ok: "cov_ok s" and k: "k \<in> active s d" and key: "subscription_key (subscriptions s k) = (client, proc, ob)"
  shows "List.find (\<lambda>j. client_addr (subscriptions s j) = client \<and> process_id (subscriptions s j) = proc \<and>
    monitored_object (subscriptions s j) = ob) (cov_subscriptions (detections s d)) = Some k"
proof (cases "List.find (\<lambda>j. client_addr (subscriptions s j) = client \<and> process_id (subscriptions s j) = proc \<and>
    monitored_object (subscriptions s j) = ob) (cov_subscriptions (detections s d))")
  case None
  then show ?thesis using k key by (auto simp: find_None_iff active_def subscription_key_def)
next
  case (Some j)
  then have "j \<in> active s d" "subscription_key (subscriptions s j) = (client, proc, ob)"
    by (auto simp: find_Some_iff active_def subscription_key_def)
  then show ?thesis using Some same_key_same_subscription [OF ok k] key by simp
qed

text \<open>
  Property C40. A renewal that says whether notifications are to be confirmed but not for how long is
  answered with an error, and yet it makes the subscription permanent: its timer has been cancelled
  before the exception.
\<close>

theorem renewal_makes_permanent:
  assumes "cov_reachable ops s" "k \<in> active s d" "subscription_key (subscriptions s k) = (client, proc, ob)"
  shows "\<exists>t. do_subscribe_cov client proc ob (Some confirm) None s = (Inl TypeError, t) \<and> k \<in> active t d \<and>
    expires (subscriptions t k) = None"
proof -
  have ok: "cov_ok s" using cov_reachable_ok [OF assms(1)] by simp
  have d: "cov_detections s ob = Some d"
    using cov_okD(4) [OF ok assms(2)] assms(3) by (simp add: detection_for_def subscription_key_def)
  then show ?thesis
    using cov_okD(3) [OF ok d] find_subscription [OF ok assms(2,3)] assms(2)
    by (simp add: do_subscribe_cov_def find_detection_def renew_run act_simps bindS_def Let_def active_def)
qed

subsection \<open>Renewals hide changes\<close>

definition int_arithmetic :: "int arithmetic" where
  "int_arithmetic = \<lparr>less = (<), less_eq_of = (\<le>), plus_of = (+), minus_of = (-)\<rparr>"

definition subscriber :: "int \<Rightarrow> address" where
  "subscriber n = Address LocalStationAddr None (Some [word_of_int n]) None"

definition an_object :: object_id where "an_object = (2, 1)"

definition start_cov :: "criteria \<Rightarrow> int cov_state" where
  "start_cov c = init_cov (\<lambda>ob. Some 0) (\<lambda>_. 10) (\<lambda>_. Some c)
     \<lparr>client_addr = subscriber 0, process_id = 0, monitored_object = an_object, is_confirmed = None, expires = None\<rparr>
     \<lparr>detected_object = an_object, detection_criteria = c, parameter_value = 0, execute_scheduled = False,
       previously_reported = None, cov_subscriptions = []\<rparr>"

definition run_cov :: "int cov_event list \<Rightarrow> int cov_state \<Rightarrow> int cov_state" where
  "run_cov xs s = fold (cov_event_state int_arithmetic) xs s"

lemma run_cov_reachable: "cov_reachable int_arithmetic s \<Longrightarrow> cov_reachable int_arithmetic (run_cov xs s)"
  by (induction xs arbitrary: s) (auto simp: run_cov_def intro: cov_reachable.step)

text \<open>The second subscriber renews after each change of nine tenths of the increment.\<close>

definition drifted :: "int \<Rightarrow> int cov_state \<Rightarrow> bool" where
  "drifted v s \<longleftrightarrow>
     cov_callbacks s = [] \<and> present_values s an_object = Some v \<and> cov_increments s an_object = 10 \<and>
     cov_detections s an_object = Some 0 \<and>
     detections s 0 = \<lparr>detected_object = an_object, detection_criteria = Increment, parameter_value = v, execute_scheduled = False,
       previously_reported = Some v, cov_subscriptions = [0, 1]\<rparr> \<and>
     subscription_key (subscriptions s 0) = (subscriber 1, 1, an_object) \<and>
     subscription_key (subscriptions s 1) = (subscriber 2, 1, an_object) \<and> last_reported s 0 = Some 0"

lemma subscribers_differ: "subscriber 1 \<noteq> subscriber 2"
  by (simp add: subscriber_def)

definition drift_round :: "int \<Rightarrow> int cov_event list" where
  "drift_round v = [SetValue an_object v, Subscribe (subscriber 2) 1 an_object (Some False) (Some 60), RunCovCallback]"

lemma drift_step:
  assumes "drifted v s"
  shows "drifted (v + 9) (run_cov (drift_round (v + 9)) s)"
proof -
  let ?t = "set_present_value int_arithmetic an_object (v + 9) s"
  have keys: "client_addr (subscriptions s 0) = subscriber 1" "process_id (subscriptions s 0) = 1"
    "monitored_object (subscriptions s 0) = an_object" "client_addr (subscriptions s 1) = subscriber 2"
    "process_id (subscriptions s 1) = 1" "monitored_object (subscriptions s 1) = an_object"
    using assms by (simp_all add: drifted_def subscription_key_def)
  have t: "?t = s\<lparr>present_values := (present_values s)(an_object \<mapsto> v + 9),
      detections := (detections s)(0 := (detections s 0)\<lparr>parameter_value := v + 9\<rparr>)\<rparr>"
    using assms
    by (simp add: drifted_def set_present_value_def present_value_change_def significant_def int_arithmetic_def Let_def
        update_detection_def)
  let ?u = "snd (do_subscribe_cov (subscriber 2) 1 an_object (Some False) (Some 60) ?t)"
  have u: "?u = (update_subscription 1 (\<lambda>x. x\<lparr>expires := Some (loop_time s + 60)\<rparr>) ?t)\<lparr>cov_callbacks := [CovSend 0 1]\<rparr>"
    using assms keys subscribers_differ unfolding t
    by (simp add: drifted_def do_subscribe_cov_def find_detection_def renew_run act_simps bindS_def Let_def)
  define w where "w = (update_subscription 1 (\<lambda>x. x\<lparr>expires := Some (loop_time s + 60)\<rparr>) ?t)\<lparr>cov_callbacks := []\<rparr>"
  have "run_cov (drift_round (v + 9)) s = run_cov_callback ?u"
    by (simp add: run_cov_def drift_round_def cov_event_state_def)
  also have "\<dots> = send_cov_notifications 0 (Some 1) w"
    unfolding u w_def by (simp add: run_cov_callback_def)
  finally have run: "run_cov (drift_round (v + 9)) s = send_cov_notifications 0 (Some 1) w" .
  have lw: "last_reported w 0 = last_reported s 0" by (simp add: last_reported_def w_def t)
  have w: "cov_callbacks w = []" "present_values w an_object = Some (v + 9)" "cov_increments w an_object = 10"
    "cov_detections w an_object = Some 0"
    "detections w 0 = \<lparr>detected_object = an_object, detection_criteria = Increment, parameter_value = v + 9, execute_scheduled = False,
       previously_reported = Some v, cov_subscriptions = [0, 1]\<rparr>"
    "subscription_key (subscriptions w 0) = (subscriber 1, 1, an_object)"
    "subscription_key (subscriptions w 1) = (subscriber 2, 1, an_object)" "last_reported w 0 = Some 0"
    using assms lw by (simp_all add: w_def t drifted_def subscription_key_def)
  have "detections (send_cov_notifications 0 (Some 1) w) 0 = detections (keep_reported 0 w) 0"
    "cov_increments (send_cov_notifications 0 (Some 1) w) = cov_increments (keep_reported 0 w)"
    by (simp_all add: send_cov_notifications_def Let_def)
  moreover have "detections (keep_reported 0 w) 0 = (detections w 0)\<lparr>previously_reported := Some (v + 9)\<rparr>"
    "cov_increments (keep_reported 0 w) = cov_increments w"
    by (simp_all add: keep_reported_def w(5))
  moreover have "last_reported (send_cov_notifications 0 (Some 1) w) 0 = Some 0"
    using w(6-8) subscribers_differ by (simp add: send_reported)
  ultimately show ?thesis unfolding run drifted_def using w by simp
qed

lemma drift_start:
  "drifted 0 (run_cov [Subscribe (subscriber 1) 1 an_object (Some False) (Some 60), RunCovCallback,
    Subscribe (subscriber 2) 1 an_object (Some False) (Some 60), RunCovCallback] (start_cov Increment))"
  unfolding drifted_def by (intro conjI; code_simp)

lemma drift:
  "\<exists>s. cov_reachable int_arithmetic s \<and> drifted (9 * int n) s"
proof (induction n)
  case 0
  have "cov_reachable int_arithmetic (start_cov Increment)"
    unfolding start_cov_def by (rule cov_reachable.init)
  from run_cov_reachable [OF this] drift_start show ?case by fastforce
next
  case (Suc n)
  then obtain s where "cov_reachable int_arithmetic s" "drifted (9 * int n) s" by blast
  then show ?case using run_cov_reachable drift_step [of "9 * int n" s] by (fastforce simp: algebra_simps)
qed

text \<open>
  Property C39. A change can stay hidden from a subscriber however large it is: the notification
  that a new or renewed subscription gets moves the value that changes are compared with, for all
  subscribers. For every number there is a run after which the event loop is idle, the increment is
  10, the present value is nine times that number and the first subscriber was sent 0 last.
\<close>

theorem renewals_hide_changes:
  "\<exists>s. cov_reachable int_arithmetic s \<and> cov_callbacks s = [] \<and> cov_increments s an_object = 10 \<and>
    0 \<in> active s 0 \<and> monitored_object (subscriptions s 0) = an_object \<and> present_values s an_object = Some (9 * int n) \<and>
    last_reported s 0 = Some 0"
  using drift [of n] by (auto simp: drifted_def active_def subscription_key_def)

section \<open>Examples\<close>

definition example_cov :: "int cov_state" where
  "example_cov = run_cov [Subscribe (subscriber 1) 1 an_object (Some True) (Some 60), RunCovCallback, SetValue an_object 7,
     RunCovCallback] (start_cov Generic)"

lemma example_cov_facts:
  "cov_reachable int_arithmetic example_cov" "cov_callbacks example_cov = []" "0 \<in> active example_cov 0"
  "detection_criteria (detections example_cov 0) = Generic" "present_values example_cov an_object = Some 7"
  "subscription_key (subscriptions example_cov 0) = (subscriber 1, 1, an_object)" "expires (subscriptions example_cov 0) = Some 60"
proof -
  have "cov_reachable int_arithmetic (start_cov Generic)"
    unfolding start_cov_def by (rule cov_reachable.init)
  then show "cov_reachable int_arithmetic example_cov" unfolding example_cov_def by (rule run_cov_reachable)
qed (code_simp+)

theorem subscribers_informed_witness: "last_reported example_cov 0 = Some 7"
  using subscribers_informed [OF example_cov_facts(1-4)] example_cov_facts(5,6) by (simp add: subscription_key_def)

theorem subscriptions_expire_witness:
  "\<exists>d u. 0 \<in> active example_cov d \<and> cancel_subscription 0 example_cov = (Inr (), u) \<and> 0 \<notin> active u d"
proof -
  have "expires (subscriptions example_cov 0) \<noteq> None" using example_cov_facts(7) by simp
  then show ?thesis using subscriptions_expire [OF example_cov_facts(1)] by blast
qed

theorem renewal_makes_permanent_witness:
  "\<exists>t. do_subscribe_cov (subscriber 1) 1 an_object (Some True) None example_cov = (Inl TypeError, t) \<and> 0 \<in> active t 0 \<and>
    expires (subscriptions t 0) = None"
  by (rule renewal_makes_permanent [OF example_cov_facts(1,3,6)])

end
