(* ===== verification/Spec2Isabelle.thy ===== *)
theory Spec2Isabelle
  imports Primitives Asap NetAnswers Bbmd Foreign Typed Services WriteRead ReadRange Events ClientRequests Schedule Cov
begin

text \<open>
  A verification development of BACpypes3, a BACnet protocol stack in Python. Sources are named
  relative to \<^verbatim>\<open>src/bacpypes3/\<close>.

  \<^bold>\<open>The program.\<close> An application has local objects with properties, answers requests of other
  devices for them and makes requests of its own. Below it, a service access point divides a
  request or an answer into segments and puts the segments it receives together; the network layer
  routes packets between networks; a link layer carries them, here BACnet/IPv4 with its broadcast
  management and foreign devices. Values travel as tags: atomic values are one tag, constructed ones
  lists of tags that their class describes. The layers call each other: \<^verbatim>\<open>request\<close> goes down,
  \<^verbatim>\<open>confirmation\<close> comes up, and \<^verbatim>\<open>indication\<close> and \<^verbatim>\<open>response\<close> are the same for a
  server. Timers and futures are callbacks of one event loop.

  \<^bold>\<open>Theories and sources.\<close>

  \<^item> Prelude, Action: exceptions as values (\<^theory_text>\<open>result\<close>), octets, the codec interfaces; methods as
    actions on a state that end with a value or an exception and keep the changes made before.
  \<^item> Pdu (\<^verbatim>\<open>pdu.py\<close>): the octet buffer, addresses and their text. Tags, Primitives, Atoms
    (\<^verbatim>\<open>primitivedata.py\<close>): tags, tag lists and every atomic type. Constructed, with Lookahead, ReadBack,
    Returning, ElementWire and Typed about it (\<^verbatim>\<open>constructeddata.py\<close>): sequences, choices, lists,
    arrays and Any, as one encoder and one decoder over descriptions of classes. Enumerations and Basetypes
    (\<^verbatim>\<open>basetypes.py\<close>): these descriptions.
  \<^item> Apdu and Services (\<^verbatim>\<open>apdu.py\<close>): the header of the application layer and the parameters of all services.
  \<^item> Ssm, ClientSsm, ServerSsm, with Reassembly for what the two share, and Asap
    (\<^verbatim>\<open>appservice.py\<close>): the segmentation state machines and the service access point that has them in lists.
  \<^item> Npdu (\<^verbatim>\<open>npdu.py\<close>), RouterCache, NetElement, NetRouting, NetAnswers (\<^verbatim>\<open>netservice.py\<close>): network
    headers and messages, the cache of routers, the network service element, and routing.
  \<^item> Bvll (\<^verbatim>\<open>ipv4/bvll.py\<close>), Bip, Bbmd, Foreign (\<^verbatim>\<open>ipv4/service.py\<close>): the BACnet/IPv4 link.
  \<^item> ObjectClasses, ClassFacts (\<^verbatim>\<open>object.py\<close>): the standard classes. Objects (\<^verbatim>\<open>local/object.py\<close>,
    \<^verbatim>\<open>object.py\<close>): reading and writing properties. Commandable (\<^verbatim>\<open>local/cmd.py\<close>): priority arrays.
    ObjectDictionary (\<^verbatim>\<open>app.py\<close>): the objects of an application. ObjectServices, ReadRange
    (\<^verbatim>\<open>service/object.py\<close>, \<^verbatim>\<open>app.py\<close>): the requests about properties; Exceptions, Answers and
    WriteRead are about these.
  \<^item> ClientRequests (\<^verbatim>\<open>app.py\<close>): the requests that the application waits for, and the cache of devices.
  \<^item> Events (\<^verbatim>\<open>local/event.py\<close>, \<^verbatim>\<open>local/fault.py\<close>): event and fault detection with its delays.
    Schedule (\<^verbatim>\<open>local/schedule.py\<close>): schedules and their interpreter. Cov
    (\<^verbatim>\<open>service/cov.py\<close>, \<^verbatim>\<open>local/cov.py\<close>): subscriptions and notifications.

  Definitions have the names of the functions they translate, or of the part of a function. A class
  with attributes is a record, objects that several others refer to are in a store, methods that
  change state are actions, and raising is \<^theory_text>\<open>Inl\<close>. Debugging output is left out.

  \<^bold>\<open>What is shown.\<close>

  \<^item> Codecs: an encoder that succeeds is inverted by its decoder, up to whole services and for every
    class that passes \<^theory_text>\<open>lookahead_ok\<close>; decoders return on any input and give values of their class. The
    locales \<^theory_text>\<open>element_codec\<close>, \<^theory_text>\<open>atomic_codec\<close>, \<^theory_text>\<open>text_codec\<close>, \<^theory_text>\<open>stream_codec\<close> and
    \<^theory_text>\<open>counted_codec\<close> state what is common, and are interpreted for each type.
  \<^item> Segmentation: a segmented message whose first segment comes first is passed up exactly once and
    complete or not at all, whatever is lost, repeated or reordered; when another segment comes first the client
    aborts, and the server takes it for the first one. Machines follow their life cycles and end; a client gives up. The locale
    \<^theory_text>\<open>reassembler\<close> is interpreted for both machines.
  \<^item> Network: the cache refines a routing table (locale \<^theory_text>\<open>routing_table\<close>), the adapters and their
    numbers stay consistent unless a message takes the number of another adapter, and packets are not
    routed back and not routed for ever.
  \<^item> Link: a broadcast reaches every subnet once; registrations are kept, renewed and expire in time.
  \<^item> Objects: the dictionaries agree with the objects, the present value is that of the highest command, requests
    have exactly one answer with the exception that is shown, and what is written is read. A list that
    is read in parts is read completely.
  \<^item> Clients: identifiers of outstanding requests are distinct, answers go to their requests, and the
    two dictionaries of the cache of devices agree.
  \<^item> Events and schedules: delays are respected, limits are reported, and a present value is the scheduled one until the
    next transition. Subscribers have the present value when the event loop is idle, for the criteria without an
    increment, and subscriptions are unique and expire, as long as the objects keep their identifiers.

  Where the code does not do what it means to, the theorem says what it does.

  \<^bold>\<open>Parameters and bounds.\<close> Parameters are what the code calls outside of itself: the layer below
  (\<^theory_text>\<open>sap_down\<close>, \<^theory_text>\<open>link_raises\<close>), the iteration order of a set (\<^theory_text>\<open>set_order\<close>), what is known of
  devices (\<^theory_text>\<open>get_device_info\<close>), the arithmetic of floating point numbers in Events, the time of an item in
  ReadRange, and the time zone in Schedule. Reals and doubles are their IEEE octets. A list is decoded with
  fuel of one more than the number of tags, which is enough because each round consumes a tag when
  \<^theory_text>\<open>items_consume\<close> holds; the loop for an invoke identifier, which may not end, is a partial function. A message is at most 256
  segments where the theorem says so, since sequence numbers wrap. Handlers, those of timeouts included, run to
  their end without another one in between, except where they wait: then the rest of the handler is a
  step of its own. Runs of the event loop are sequences of steps.

  \<^bold>\<open>Not modelled.\<close> The text forms of most types, conversion from and to JSON and RDF, the
  consoles and the command line, debugging, sockets and files are input and output. BACnet/IPv6 and
  BACnet/SC repeat the structure of BACnet/IPv4 with other messages and, for SC, TLS connections. Trend logs, the
  remaining event and fault algorithms, event enrollment, the parameters of notifications, network ports, vendor
  classes, the virtual network and the initialisation of objects are left for a later extension.
\<close>

end
